(* ===== verification/Go_Prelude.thy ===== *)
theory Go_Prelude
  imports Complex_Main "HOL-Library.AList" "HOL-Library.List_Lexorder" "HOL-Library.Char_ord"
begin

section \<open>The Go values and library functions the components share\<close>

text \<open>
  What every component of the platform uses of Go and of its standard library:
  64-bit integers and durations, instants, byte strings with \<open>strings.ToLower\<close> and
  \<open>strings.TrimSpace\<close>, decimal printing, the dynamic values of \<open>map[string]any\<close>, the
  early-return idiom \<open>if err != nil { return err }\<close>, and the iteration order of a map.
  The two string functions are modelled on ASCII text: bytes from 128 on pass through
  unchanged. The second half holds the contracts (locales) that several components meet:
  a machine with an inductive invariant, and an allocator of fresh identifiers.
\<close>

named_theorems go_simps \<open>characteristic equations of the library functions\<close>
named_theorems status_defs \<open>the status constants of a component\<close>

subsection \<open>Integers, durations and instants\<close>

text \<open>
  A Go \<open>int64\<close> (and \<open>int\<close>, on the 64-bit targets the platform builds for) is an \<open>int\<close>;
  where a multiplication or addition can leave the range, the wrap-around is written
  with \<open>wrap64\<close>. An instant is its distance in nanoseconds from the Unix epoch.
\<close>

type_synonym time = int
type_synonym duration = int
type_synonym clock = "nat \<Rightarrow> time"

definition wrap64 :: "int \<Rightarrow> int" where
  "wrap64 x = (x + 2 ^ 63) mod 2 ^ 64 - 2 ^ 63"

definition in_int64 :: "int \<Rightarrow> bool" where
  "in_int64 x \<longleftrightarrow> - (2 ^ 63) \<le> x \<and> x < 2 ^ 63"

definition second :: duration where
  "second = 1000000000"

definition minute :: duration where
  "minute = 60 * second"

definition zero_time :: time where
  "zero_time = - 62135596800 * second"

definition clock_drop :: "nat \<Rightarrow> clock \<Rightarrow> clock" where
  "clock_drop k clk = (\<lambda>i. clk (i + k))"

lemma wrap64_range [simp]: "in_int64 (wrap64 x)"
proof -
  have "0 \<le> (x + 2 ^ 63) mod 2 ^ 64" and "(x + 2 ^ 63) mod 2 ^ 64 < (2 ^ 64 :: int)"
    by (auto intro: pos_mod_sign pos_mod_bound)
  then show ?thesis by (simp add: in_int64_def wrap64_def)
qed

lemma wrap64_id [simp]: "in_int64 x \<Longrightarrow> wrap64 x = x"
  by (auto simp: in_int64_def wrap64_def)

lemma clock_drop_apply [simp]: "clock_drop k clk i = clk (i + k)"
  by (simp add: clock_drop_def)

subsection \<open>Byte strings\<close>

definition is_space :: "char \<Rightarrow> bool" where
  "is_space c \<longleftrightarrow> of_char c \<in> {9, 10, 11, 12, 13, 32 :: nat}"

definition lower_char :: "char \<Rightarrow> char" where
  "lower_char c = (let n = (of_char c :: nat) in if 65 \<le> n \<and> n \<le> 90 then char_of (n + 32) else c)"

definition to_lower :: "string \<Rightarrow> string" where
  "to_lower = map lower_char"

definition trim_left :: "string \<Rightarrow> string" where
  "trim_left = dropWhile is_space"

definition trim_space :: "string \<Rightarrow> string" where
  "trim_space s = rev (trim_left (rev (trim_left s)))"

lemma of_char_lower_char:
  "(of_char (lower_char c) :: nat) =
     (if 65 \<le> (of_char c :: nat) \<and> (of_char c :: nat) \<le> 90 then of_char c + 32 else of_char c)"
  by (simp add: lower_char_def Let_def)

lemma lower_char_idem [simp]: "lower_char (lower_char c) = lower_char c"
proof -
  have "(of_char (lower_char (lower_char c)) :: nat) = of_char (lower_char c)"
    by (subst of_char_lower_char) (auto simp: of_char_lower_char)
  then show ?thesis by simp
qed

lemma is_space_lower_char [simp]: "is_space (lower_char c) = is_space c"
  by (auto simp: is_space_def of_char_lower_char)

lemma to_lower_idem [simp]: "to_lower (to_lower s) = to_lower s"
  by (simp add: to_lower_def)

lemma to_lower_eq_Nil [simp]: "to_lower s = [] \<longleftrightarrow> s = []"
  by (simp add: to_lower_def)

lemma trim_left_to_lower: "trim_left (to_lower s) = to_lower (trim_left s)"
  by (simp add: trim_left_def to_lower_def dropWhile_map o_def)

lemma to_lower_rev: "to_lower (rev s) = rev (to_lower s)"
  by (simp add: to_lower_def rev_map)

lemma trim_space_to_lower: "trim_space (to_lower s) = to_lower (trim_space s)"
  by (metis to_lower_rev trim_left_to_lower trim_space_def)

lemma trim_left_idem [simp]: "trim_left (trim_left s) = trim_left s"
  by (simp add: trim_left_def)

text \<open>A string is trimmed when it is empty or neither end is white space.\<close>

definition trimmed :: "string \<Rightarrow> bool" where
  "trimmed s \<longleftrightarrow> (s = [] \<or> (\<not> is_space (hd s) \<and> \<not> is_space (last s)))"

lemma trim_left_cases: "trim_left s = [] \<or> \<not> is_space (hd (trim_left s))"
  unfolding trim_left_def using hd_dropWhile by blast

lemma trim_left_suffix: "\<exists>ys. s = ys @ trim_left s"
  unfolding trim_left_def by (metis takeWhile_dropWhile_id)

lemma trim_left_id: "s = [] \<or> \<not> is_space (hd s) \<Longrightarrow> trim_left s = s"
  by (cases s) (auto simp: trim_left_def)

lemma trimmed_trim_space [simp]: "trimmed (trim_space s)"
proof (cases "trim_space s = []")
  case True
  then show ?thesis by (simp add: trimmed_def)
next
  case False
  let ?l = "trim_left s"
  let ?r = "trim_left (rev ?l)"
  have eq: "trim_space s = rev ?r" by (simp add: trim_space_def)
  have nr: "?r \<noteq> []" using False eq by simp
  obtain ys where ys: "rev ?l = ys @ ?r" using trim_left_suffix by blast
  have "?l = rev ?r @ rev ys" using ys by (metis rev_append rev_rev_ident)
  then have "hd ?l = hd (rev ?r)" using nr by (metis hd_append2 rev_is_Nil_conv)
  moreover have "?l \<noteq> []" using ys nr by auto
  ultimately have "\<not> is_space (hd (rev ?r))" using trim_left_cases [of s] by auto
  moreover have "\<not> is_space (last (rev ?r))"
    using trim_left_cases [of "rev ?l"] nr by (simp add: last_rev)
  ultimately show ?thesis using eq by (simp add: trimmed_def)
qed

lemma trimmed_trim_space_id: "trimmed s \<Longrightarrow> trim_space s = s"
  by (auto simp: trimmed_def trim_space_def trim_left_id hd_rev)

lemma trim_space_idem [simp]: "trim_space (trim_space s) = trim_space s"
  by (simp add: trimmed_trim_space_id)

lemma trim_space_Nil [simp]: "trim_space [] = []"
  by (simp add: trim_space_def trim_left_def)

text \<open>The normal form of every enumerated string of the API: lower case, then trimmed.\<close>

definition norm_token :: "string \<Rightarrow> string" where
  "norm_token s = trim_space (to_lower s)"

lemma norm_token_idem [simp]: "norm_token (norm_token s) = norm_token s"
  by (metis norm_token_def to_lower_idem trim_space_idem trim_space_to_lower)

lemma norm_token_Nil [simp]: "norm_token [] = []"
  by (simp add: norm_token_def to_lower_def)

text \<open>A token that is already in lower case and trimmed is its own normal form.\<close>

lemma norm_token_lit:
  "list_all (\<lambda>c. lower_char c = c) s \<Longrightarrow> trimmed s \<Longrightarrow> norm_token s = s"
  by (simp add: norm_token_def to_lower_def trimmed_trim_space_id map_idI list_all_iff)

lemmas norm_lit_simps = lower_char_def trimmed_def is_space_def Let_def

text \<open>A string is split at its first separator in one way only.\<close>

lemma split_at_separator:
  assumes "u @ c # v = u' @ c # v'" and "c \<notin> set u" and "c \<notin> set u'"
  shows "u = u' \<and> v = v'"
proof -
  have "takeWhile (\<lambda>x. x \<noteq> c) (u @ c # v) = u" and "takeWhile (\<lambda>x. x \<noteq> c) (u' @ c # v') = u'"
    using assms(2,3) by (auto simp: takeWhile_append2 takeWhile_tail)
  then have "u = u'" using assms(1) by metis
  with assms(1) show ?thesis by simp
qed

subsection \<open>Decimal text: \<open>fmt.Sprintf("%d")\<close> and \<open>strconv.ParseInt(s, 10, 64)\<close>\<close>

definition digit_char :: "nat \<Rightarrow> char" where
  "digit_char d = char_of (48 + d)"

definition is_digit :: "char \<Rightarrow> bool" where
  "is_digit c \<longleftrightarrow> 48 \<le> (of_char c :: nat) \<and> (of_char c :: nat) \<le> 57"

definition digit_val :: "char \<Rightarrow> nat" where
  "digit_val c = of_char c - 48"

fun show_nat :: "nat \<Rightarrow> string" where
  "show_nat n = (if n < 10 then [digit_char n] else show_nat (n div 10) @ [digit_char (n mod 10)])"

declare show_nat.simps [simp del]

definition show_int :: "int \<Rightarrow> string" where
  "show_int i = (if i < 0 then CHR ''-'' # show_nat (nat (- i)) else show_nat (nat i))"

definition digits_val :: "string \<Rightarrow> nat" where
  "digits_val s = foldl (\<lambda>a c. 10 * a + digit_val c) 0 s"

lemma digit_char_props [simp]:
  assumes "d < 10"
  shows "is_digit (digit_char d)" and "digit_val (digit_char d) = d"
  using assms by (auto simp: is_digit_def digit_val_def digit_char_def)

lemma show_nat_digits: "\<forall>c \<in> set (show_nat n). is_digit c"
proof (induction n rule: show_nat.induct)
  case (1 n)
  then show ?case by (subst show_nat.simps) auto
qed

lemma show_nat_nonempty [simp]: "show_nat n \<noteq> []"
  by (subst show_nat.simps) simp

lemma digits_val_show_nat [simp]: "digits_val (show_nat n) = n"
proof (induction n rule: show_nat.induct)
  case (1 n)
  show ?case
  proof (cases "n < 10")
    case True
    then show ?thesis by (subst show_nat.simps) (simp add: digits_val_def)
  next
    case False
    with 1 have "digits_val (show_nat (n div 10)) = n div 10" by simp
    with False show ?thesis
      by (subst show_nat.simps) (simp add: digits_val_def)
  qed
qed

lemma is_digit_minus [simp]: "\<not> is_digit (CHR ''-'')"
  by (simp add: is_digit_def)

lemma show_int_inject [simp]: "show_int i = show_int j \<longleftrightarrow> i = j"
proof
  assume eq: "show_int i = show_int j"
  have hd_nat: "hd (show_nat n) \<noteq> CHR ''-''" for n
    using show_nat_digits [of n] by (metis hd_in_set is_digit_minus show_nat_nonempty)
  show "i = j"
  proof (cases "i < 0")
    case True
    with eq hd_nat [of "nat j"] have "j < 0" unfolding show_int_def by (metis list.sel(1))
    with True eq have "show_nat (nat (- i)) = show_nat (nat (- j))" by (simp add: show_int_def)
    then have "nat (- i) = nat (- j)" by (metis digits_val_show_nat)
    with True \<open>j < 0\<close> show ?thesis by simp
  next
    case False
    with eq hd_nat [of "nat i"] have "\<not> j < 0" unfolding show_int_def by (metis list.sel(1))
    with False eq have "show_nat (nat i) = show_nat (nat j)" by (simp add: show_int_def)
    then have "nat i = nat j" by (metis digits_val_show_nat)
    with False \<open>\<not> j < 0\<close> show ?thesis by simp
  qed
qed simp

lemma colon_notin_show_int [simp]: "CHR '':'' \<notin> set (show_int i)"
  using show_nat_digits [of "nat i"] show_nat_digits [of "nat (- i)"]
  by (auto simp: show_int_def is_digit_def)

text \<open>
  \<open>ParseInt\<close> gives the value and whether it succeeded. A sign and at least one digit are
  required; out of range it reports an error and the nearest 64-bit value.
\<close>

definition parse_int64 :: "string \<Rightarrow> int \<times> bool" where
  "parse_int64 s =
     (let neg = (s \<noteq> [] \<and> hd s = CHR ''-'');
          ds = (if s \<noteq> [] \<and> (hd s = CHR ''-'' \<or> hd s = CHR ''+'') then tl s else s);
          v = (if neg then - int (digits_val ds) else int (digits_val ds))
      in if ds = [] \<or> \<not> list_all is_digit ds then (0, False)
         else if v < - (2 ^ 63) then (- (2 ^ 63), False)
         else if 2 ^ 63 \<le> v then (2 ^ 63 - 1, False)
         else (v, True))"

lemma parse_int64_range: "in_int64 (fst (parse_int64 s))"
  by (auto simp: parse_int64_def in_int64_def Let_def)

lemma parse_int64_show_int:
  assumes "in_int64 i"
  shows "parse_int64 (show_int i) = (i, True)"
proof (cases "i < 0")
  case True
  with assms show ?thesis
    using show_nat_digits [of "nat (- i)"]
    by (auto simp: parse_int64_def show_int_def in_int64_def Let_def list_all_iff)
next
  case False
  have hd_dig: "is_digit (hd (show_nat (nat i)))"
    using show_nat_digits [of "nat i"] by simp
  then have "hd (show_nat (nat i)) \<noteq> CHR ''-''" and "hd (show_nat (nat i)) \<noteq> CHR ''+''"
    by (auto simp: is_digit_def)
  with False assms show ?thesis
    using show_nat_digits [of "nat i"]
    by (auto simp: parse_int64_def show_int_def in_int64_def Let_def list_all_iff)
qed

subsection \<open>Dynamic values: \<open>any\<close> and \<open>map[string]any\<close>\<close>

text \<open>
  A value of type \<open>any\<close> carries its dynamic type. A \<open>map[string]any\<close> is an association list
  with one entry per key (\<open>obj\<close>); a read of a missing key gives \<open>nil\<close>, as in Go. Floats are
  the real numbers they denote.
\<close>

datatype gval =
    GNil
  | GBool bool
  | GInt int
  | GInt64 int
  | GFloat real
  | GNumber string
  | GStr string
  | GTime time
  | GStrs "string list"
  | GInts "int list"
  | GArr "gval list"
  | GObj "(string \<times> gval) list"

type_synonym obj = "(string \<times> gval) list"

definition obj_get :: "obj \<Rightarrow> string \<Rightarrow> gval" where
  "obj_get m k = (case map_of m k of None \<Rightarrow> GNil | Some v \<Rightarrow> v)"

definition obj_set :: "string \<Rightarrow> gval \<Rightarrow> obj \<Rightarrow> obj" where
  "obj_set k v m = AList.update k v m"

definition obj_merge :: "obj \<Rightarrow> obj \<Rightarrow> obj" where
  "obj_merge m new = foldl (\<lambda>acc (k, v). obj_set k v acc) m new"

definition obj_wf :: "obj \<Rightarrow> bool" where
  "obj_wf m \<longleftrightarrow> distinct (map fst m)"

lemma map_of_obj_set [simp]: "map_of (obj_set k v m) = (map_of m)(k \<mapsto> v)"
  by (simp add: obj_set_def update_conv')

lemma obj_get_set [simp]: "obj_get (obj_set k v m) k' = (if k' = k then v else obj_get m k')"
  by (simp add: obj_get_def)

lemma obj_set_nonempty [simp]: "obj_set k v m \<noteq> []"
  by (cases m) (auto simp: obj_set_def)

lemma obj_wf_Nil [simp]: "obj_wf []"
  by (simp add: obj_wf_def)

lemma obj_wf_set [simp]: "obj_wf m \<Longrightarrow> obj_wf (obj_set k v m)"
  by (simp add: obj_wf_def obj_set_def distinct_update)

lemma obj_wf_merge [simp]: "obj_wf m \<Longrightarrow> obj_wf (obj_merge m new)"
  unfolding obj_merge_def by (induction new arbitrary: m) auto

text \<open>Merging is override: the new map wins on its own keys, whatever order they are visited in.\<close>

lemma map_of_obj_merge: "obj_wf new \<Longrightarrow> map_of (obj_merge m new) = map_of m ++ map_of new"
proof (induction new arbitrary: m)
  case Nil
  then show ?case by (simp add: obj_merge_def)
next
  case (Cons e new)
  obtain k v where e: "e = (k, v)" by force
  from Cons.prems have wf: "obj_wf new" and k: "map_of new k = None"
    by (auto simp: obj_wf_def e map_of_eq_None_iff)
  have "map_of (obj_merge m (e # new)) = map_of (obj_merge (obj_set k v m) new)"
    by (simp add: obj_merge_def e)
  also have "\<dots> = (map_of m)(k \<mapsto> v) ++ map_of new" using Cons.IH [OF wf, of "obj_set k v m"] by (simp only: map_of_obj_set)
  also have "\<dots> = map_of m ++ map_of (e # new)"
    using k by (auto simp: e fun_eq_iff map_add_def split: option.splits)
  finally show ?case .
qed

lemma obj_merge_Nil [simp]: "obj_merge m [] = m"
  by (simp add: obj_merge_def)

lemma obj_merge_eq_Nil [simp]: "obj_merge m new = [] \<longleftrightarrow> m = [] \<and> new = []"
proof -
  have step: "obj_merge m (e # new) = obj_merge (obj_set (fst e) (snd e) m) new" for m e new
    by (simp add: obj_merge_def case_prod_beta)
  have keep: "m \<noteq> [] \<Longrightarrow> obj_merge m new \<noteq> []" for m
    by (induction new arbitrary: m) (simp_all add: step)
  show ?thesis
  proof (cases new)
    case (Cons e es)
    have "obj_merge m new \<noteq> []"
    proof (cases m)
      case Nil
      have "obj_merge (obj_set (fst e) (snd e) m) es \<noteq> []" for m
        by (induction es arbitrary: m e) (simp_all add: step)
      then show ?thesis by (simp add: Cons step)
    next
      case (Cons a list)
      then show ?thesis by (intro keep) simp
    qed
    with Cons show ?thesis by simp
  qed simp
qed

subsection \<open>Tables as lists of rows with a key\<close>

lemma find_append: "find P (xs @ ys) = (case find P xs of None \<Rightarrow> find P ys | Some x \<Rightarrow> Some x)"
  by (induction xs) simp_all

lemma find_replace:
  assumes "key row = k"
  shows "find (\<lambda>x. key x = j) (map (\<lambda>x. if key x = k then row else x) xs) =
     (if j = k then map_option (\<lambda>_. row) (find (\<lambda>x. key x = k) xs) else find (\<lambda>x. key x = j) xs)"
  using assms by (induction xs) auto

lemma find_key_mem: "find (\<lambda>x. key x = k) xs = Some x \<Longrightarrow> x \<in> set xs \<and> key x = k"
  by (auto simp: find_Some_iff)

lemma find_key_none: "find (\<lambda>x. key x = k) xs = None \<longleftrightarrow> k \<notin> key ` set xs"
  by (auto simp: find_None_iff)

lemma map_replace: "key row = k \<Longrightarrow> map key (map (\<lambda>x. if key x = k then row else x) xs) = map key xs"
  by simp

lemma map_replace_other:
  assumes "\<And>x. x \<in> set xs \<Longrightarrow> key x = k \<Longrightarrow> f row = f x"
  shows "map f (map (\<lambda>x. if key x = k then row else x) xs) = map f xs"
  using assms by simp

lemma find_map_id:
  assumes "find (\<lambda>b. g b = k) xs = Some b" "\<And>b. g (f b) = g b"
  shows "find (\<lambda>b. g b = k) (map (\<lambda>b. if g b = k then f b else b) xs) = Some (f b)"
  using assms by (induction xs) (auto split: if_splits)

subsection \<open>Early returns\<close>

text \<open>
  An operation gives an error (\<open>Inl\<close>) or a result (\<open>Inr\<close>), and the state it leaves: the state
  is kept on the error path too, because nothing in the in-memory code rolls back.
  \<open>and_then\<close> is \<open>if err != nil { return err }\<close> followed by the rest of the body.
\<close>

type_synonym ('e, 'a, 's) outcome = "('e + 'a) \<times> 's"

definition and_then :: "('e, 'a, 's) outcome \<Rightarrow> ('a \<Rightarrow> 's \<Rightarrow> ('e, 'b, 's) outcome) \<Rightarrow> ('e, 'b, 's) outcome" where
  "and_then m f = (case m of (Inl e, s) \<Rightarrow> (Inl e, s) | (Inr x, s) \<Rightarrow> f x s)"

definition succeeds :: "('e, 'a, 's) outcome \<Rightarrow> bool" where
  "succeeds m = (case fst m of Inl _ \<Rightarrow> False | Inr _ \<Rightarrow> True)"

lemma and_then_simps [simp]:
  "and_then (Inl e, s) f = (Inl e, s)"
  "and_then (Inr x, s) f = f x s"
  by (simp_all add: and_then_def)

lemma and_then_Inr_conv:
  "and_then m f = (Inr y, s'') \<longleftrightarrow> (\<exists>x s'. m = (Inr x, s') \<and> f x s' = (Inr y, s''))"
  by (auto simp: and_then_def split: prod.splits sum.splits)

lemma succeeds_simps [simp]: "\<not> succeeds (Inl e, s)" "succeeds (Inr x, s)"
  by (simp_all add: succeeds_def)

lemma and_then_snd:
  assumes "P (snd m)" and "\<And>x s. m = (Inr x, s) \<Longrightarrow> P (snd (f x s))"
  shows "P (snd (and_then m f))"
  using assms by (auto simp: and_then_def split: prod.splits sum.splits)

subsection \<open>The iteration order of a Go map\<close>

text \<open>
  \<open>for k, v := range m\<close> visits every key once, in an order the language leaves open. A loop
  over a map takes that order as an argument, a list for which \<open>range_order\<close> holds.
\<close>

definition range_order :: "('k \<rightharpoonup> 'v) \<Rightarrow> 'k list \<Rightarrow> bool" where
  "range_order m ks \<longleftrightarrow> distinct ks \<and> set ks = dom m"

text \<open>Reading a missing key of a Go map of slices gives the nil slice.\<close>

definition slice_at :: "('k \<rightharpoonup> 'a list) \<Rightarrow> 'k \<Rightarrow> 'a list" where
  "slice_at m k = (case m k of None \<Rightarrow> [] | Some xs \<Rightarrow> xs)"

lemma slice_at_simps [simp]:
  "slice_at Map.empty k = []" "slice_at (m(k \<mapsto> v)) k' = (if k' = k then v else slice_at m k')"
  by (simp_all add: slice_at_def)

subsection \<open>Contracts: invariants and fresh identifiers\<close>

text \<open>
  A machine with an inductive invariant: \<open>step\<close> performs one operation, whatever the caller
  asks for. Every run from an initial state stays inside the invariant.
\<close>

locale invariant_machine =
  fixes init :: "'s \<Rightarrow> bool"
    and step :: "'s \<Rightarrow> 'op \<Rightarrow> 's"
    and inv :: "'s \<Rightarrow> bool"
  assumes init_inv: "init s \<Longrightarrow> inv s"
    and step_inv: "inv s \<Longrightarrow> inv (step s p)"
begin

lemma run_inv_from: "inv s \<Longrightarrow> inv (foldl step s ps)"
  by (induction ps arbitrary: s) (auto intro: step_inv)

lemma run_inv: "init s \<Longrightarrow> inv (foldl step s ps)"
  by (intro run_inv_from init_inv)

end

text \<open>
  A machine in which, moreover, some relation between the state before and after every step
  holds, reflexive and transitive: it holds between the two ends of every run.
\<close>

locale progress_machine = invariant_machine init step inv
  for init :: "'s \<Rightarrow> bool" and step :: "'s \<Rightarrow> 'op \<Rightarrow> 's" and inv :: "'s \<Rightarrow> bool" +
  fixes le :: "'s \<Rightarrow> 's \<Rightarrow> bool"
  assumes le_refl: "le s s"
    and le_trans: "le s t \<Longrightarrow> le t u \<Longrightarrow> le s u"
    and step_le: "inv s \<Longrightarrow> le s (step s p)"
begin

lemma run_le: "inv s \<Longrightarrow> le s (foldl step s ps)"
proof (induction ps arbitrary: s)
  case Nil
  then show ?case by (simp add: le_refl)
next
  case (Cons p ps)
  have "le s (step s p)" using Cons.prems by (rule step_le)
  moreover have "le (step s p) (foldl step (step s p) ps)"
    using Cons.prems by (intro Cons.IH step_inv)
  ultimately show ?case by (simp add: le_trans)
qed

lemma run_le_later: "inv s \<Longrightarrow> le (foldl step s ps) (foldl step s (ps @ qs))"
  by (simp add: run_inv_from run_le)

end

end
