(* ===== verification/Job_Model.thy ===== *)
theory Job_Model
  imports Go_Prelude
begin

section \<open>Jobs: records, errors and the lifecycle graph\<close>

text \<open>
  \<open>internal/jobs/model.go\<close>, \<open>errors.go\<close> and \<open>state_machine.go\<close>: the job record, the errors
  the package returns, and the table of legal status changes with its check \<open>CanTransition\<close>.
  The table is related to an abstract graph \<open>jobs_edge\<close>, whose closure is what the
  repository operations are later shown to respect.
\<close>

subsection \<open>Statuses\<close>

definition jobs_StatusQueued :: string where
  "jobs_StatusQueued = ''queued''"

definition jobs_StatusRunning :: string where
  "jobs_StatusRunning = ''running''"

definition jobs_StatusSucceeded :: string where
  "jobs_StatusSucceeded = ''succeeded''"

definition jobs_StatusSucceededWithErrors :: string where
  "jobs_StatusSucceededWithErrors = ''succeeded_with_errors''"

definition jobs_StatusFailed :: string where
  "jobs_StatusFailed = ''failed''"

definition jobs_StatusCanceled :: string where
  "jobs_StatusCanceled = ''canceled''"

definition jobs_StatusRetryWaiting :: string where
  "jobs_StatusRetryWaiting = ''retry_waiting''"

lemmas jobs_status_defs [status_defs] =
  jobs_StatusQueued_def jobs_StatusRunning_def jobs_StatusSucceeded_def jobs_StatusSucceededWithErrors_def jobs_StatusFailed_def jobs_StatusCanceled_def jobs_StatusRetryWaiting_def

lemma jobs_status_distinct [simp]:
  "jobs_StatusQueued \<noteq> jobs_StatusRunning"
  "jobs_StatusQueued \<noteq> jobs_StatusSucceeded"
  "jobs_StatusQueued \<noteq> jobs_StatusSucceededWithErrors"
  "jobs_StatusQueued \<noteq> jobs_StatusFailed"
  "jobs_StatusQueued \<noteq> jobs_StatusCanceled"
  "jobs_StatusQueued \<noteq> jobs_StatusRetryWaiting"
  "jobs_StatusRunning \<noteq> jobs_StatusQueued"
  "jobs_StatusRunning \<noteq> jobs_StatusSucceeded"
  "jobs_StatusRunning \<noteq> jobs_StatusSucceededWithErrors"
  "jobs_StatusRunning \<noteq> jobs_StatusFailed"
  "jobs_StatusRunning \<noteq> jobs_StatusCanceled"
  "jobs_StatusRunning \<noteq> jobs_StatusRetryWaiting"
  "jobs_StatusSucceeded \<noteq> jobs_StatusQueued"
  "jobs_StatusSucceeded \<noteq> jobs_StatusRunning"
  "jobs_StatusSucceeded \<noteq> jobs_StatusSucceededWithErrors"
  "jobs_StatusSucceeded \<noteq> jobs_StatusFailed"
  "jobs_StatusSucceeded \<noteq> jobs_StatusCanceled"
  "jobs_StatusSucceeded \<noteq> jobs_StatusRetryWaiting"
  "jobs_StatusSucceededWithErrors \<noteq> jobs_StatusQueued"
  "jobs_StatusSucceededWithErrors \<noteq> jobs_StatusRunning"
  "jobs_StatusSucceededWithErrors \<noteq> jobs_StatusSucceeded"
  "jobs_StatusSucceededWithErrors \<noteq> jobs_StatusFailed"
  "jobs_StatusSucceededWithErrors \<noteq> jobs_StatusCanceled"
  "jobs_StatusSucceededWithErrors \<noteq> jobs_StatusRetryWaiting"
  "jobs_StatusFailed \<noteq> jobs_StatusQueued"
  "jobs_StatusFailed \<noteq> jobs_StatusRunning"
  "jobs_StatusFailed \<noteq> jobs_StatusSucceeded"
  "jobs_StatusFailed \<noteq> jobs_StatusSucceededWithErrors"
  "jobs_StatusFailed \<noteq> jobs_StatusCanceled"
  "jobs_StatusFailed \<noteq> jobs_StatusRetryWaiting"
  "jobs_StatusCanceled \<noteq> jobs_StatusQueued"
  "jobs_StatusCanceled \<noteq> jobs_StatusRunning"
  "jobs_StatusCanceled \<noteq> jobs_StatusSucceeded"
  "jobs_StatusCanceled \<noteq> jobs_StatusSucceededWithErrors"
  "jobs_StatusCanceled \<noteq> jobs_StatusFailed"
  "jobs_StatusCanceled \<noteq> jobs_StatusRetryWaiting"
  "jobs_StatusRetryWaiting \<noteq> jobs_StatusQueued"
  "jobs_StatusRetryWaiting \<noteq> jobs_StatusRunning"
  "jobs_StatusRetryWaiting \<noteq> jobs_StatusSucceeded"
  "jobs_StatusRetryWaiting \<noteq> jobs_StatusSucceededWithErrors"
  "jobs_StatusRetryWaiting \<noteq> jobs_StatusFailed"
  "jobs_StatusRetryWaiting \<noteq> jobs_StatusCanceled"
  by (simp_all add: jobs_status_defs)

lemma jobs_status_nonempty [simp]:
  "jobs_StatusQueued \<noteq> []"
  "jobs_StatusRunning \<noteq> []"
  "jobs_StatusSucceeded \<noteq> []"
  "jobs_StatusSucceededWithErrors \<noteq> []"
  "jobs_StatusFailed \<noteq> []"
  "jobs_StatusCanceled \<noteq> []"
  "jobs_StatusRetryWaiting \<noteq> []"
  by (simp_all add: jobs_status_defs)

subsection \<open>Errors\<close>

text \<open>
  One constructor per message template of the package, with the template's arguments;
  \<open>jobs_error_kind\<close> is the sentinel the error unwraps to, \<open>None\<close> for a plain
  \<open>errors.New\<close> or \<open>fmt.Errorf\<close>. \<open>ExternalError\<close> is an error of a collaborator.
\<close>

datatype jobs_kind = ErrNotFound | ErrConflict | ErrValidation

datatype jobs_error =
    JobNotFound int
  | InvalidTransition string string
  | WorkerIDMissing
  | ProgressCountersNegative
  | TerminalCountersNegative
  | ItemIDNotPositive
  | EventTypeMissing
  | MessageMissing
  | UnsupportedTerminalStatus string
  | JobTypeRequired
  | IdempotencyKeyRequired
  | UnsupportedResourceType string
  | ResourceTypeNotAllowed string string
  | CapabilitiesEmpty
  | RegisterWorkerIDRequired
  | BadResourceLane
  | JobTypesEmpty
  | ReviewSinkMissing
  | CandidatesRequired
  | ExternalError string

fun jobs_error_kind :: "jobs_error \<Rightarrow> jobs_kind option" where
  "jobs_error_kind (JobNotFound _) = Some ErrNotFound"
| "jobs_error_kind (InvalidTransition _ _) = Some ErrConflict"
| "jobs_error_kind WorkerIDMissing = Some ErrValidation"
| "jobs_error_kind ProgressCountersNegative = Some ErrValidation"
| "jobs_error_kind TerminalCountersNegative = Some ErrValidation"
| "jobs_error_kind ItemIDNotPositive = Some ErrValidation"
| "jobs_error_kind EventTypeMissing = Some ErrValidation"
| "jobs_error_kind MessageMissing = Some ErrValidation"
| "jobs_error_kind (UnsupportedTerminalStatus _) = Some ErrValidation"
| "jobs_error_kind _ = None"

subsection \<open>Records\<close>

record jobs_Job =
  job_ID :: int
  job_ProjectID :: int
  job_DatasetID :: int
  job_SnapshotID :: int
  job_JobType :: string
  job_Status :: string
  job_RequiredResourceType :: string
  job_RequiredCapabilities :: "string list"
  job_IdempotencyKey :: string
  job_WorkerID :: string
  job_Payload :: "obj option"
  job_TotalItems :: int
  job_SucceededItems :: int
  job_FailedItems :: int
  job_CreatedAt :: time
  job_StartedAt :: "time option"
  job_FinishedAt :: "time option"
  job_LeaseUntil :: "time option"
  job_RetryCount :: int
  job_ErrorCode :: string
  job_ErrorMsg :: string
  job_ResultType :: string
  job_ResultCount :: int
  job_ResultArtifactIDs :: "int list"
  job_ResultRef :: obj

record jobs_Worker =
  worker_WorkerID :: string
  worker_ResourceLane :: string
  worker_Capabilities :: "string list"
  worker_JobTypes :: "string list"
  worker_RegisteredAt :: time
  worker_LastSeenAt :: time

record jobs_CreateJobInput =
  cj_ProjectID :: int
  cj_DatasetID :: int
  cj_SnapshotID :: int
  cj_JobType :: string
  cj_RequiredResourceType :: string
  cj_RequiredCapabilities :: "string list"
  cj_IdempotencyKey :: string
  cj_Payload :: "obj option"

record jobs_RegisterWorkerInput =
  rw_WorkerID :: string
  rw_ResourceLane :: string
  rw_Capabilities :: "string list"
  rw_JobTypes :: "string list"

record jobs_Event =
  ev_ID :: int
  ev_JobID :: int
  ev_ItemID :: "int option"
  ev_EventLevel :: string
  ev_EventType :: string
  ev_Message :: string
  ev_Detail :: obj
  ev_TS :: time

subsection \<open>The transition table\<close>

definition jobs_transitions :: "string \<Rightarrow> string list option" where
  "jobs_transitions st =
     (if st = jobs_StatusQueued then Some [jobs_StatusRunning, jobs_StatusCanceled]
      else if st = jobs_StatusRunning then
        Some [jobs_StatusSucceeded, jobs_StatusSucceededWithErrors, jobs_StatusFailed,
              jobs_StatusCanceled, jobs_StatusRetryWaiting]
      else if st = jobs_StatusRetryWaiting then Some [jobs_StatusQueued]
      else None)"

definition jobs_CanTransition :: "string \<Rightarrow> string \<Rightarrow> jobs_error + unit" where
  "jobs_CanTransition st st' =
     (if st = st' then Inr ()
      else case jobs_transitions st of
             None \<Rightarrow> Inl (InvalidTransition st st')
           | Some allowed \<Rightarrow>
               if st' \<in> set allowed then Inr () else Inl (InvalidTransition st st'))"

definition jobs_statuses :: "string list" where
  "jobs_statuses =
     [jobs_StatusQueued, jobs_StatusRunning, jobs_StatusSucceeded, jobs_StatusSucceededWithErrors,
      jobs_StatusFailed, jobs_StatusCanceled, jobs_StatusRetryWaiting]"

text \<open>The four statuses a worker may report as final.\<close>

definition jobs_terminal :: "string \<Rightarrow> bool" where
  "jobs_terminal st \<longleftrightarrow>
     st = jobs_StatusSucceeded \<or> st = jobs_StatusSucceededWithErrors \<or>
     st = jobs_StatusFailed \<or> st = jobs_StatusCanceled"

subsection \<open>The abstract lifecycle graph\<close>

inductive jobs_edge :: "string \<Rightarrow> string \<Rightarrow> bool" where
  claim: "jobs_edge jobs_StatusQueued jobs_StatusRunning"
| cancel_queued: "jobs_edge jobs_StatusQueued jobs_StatusCanceled"
| finish: "jobs_terminal st \<Longrightarrow> jobs_edge jobs_StatusRunning st"
| lease_lost: "jobs_edge jobs_StatusRunning jobs_StatusRetryWaiting"
| requeue: "jobs_edge jobs_StatusRetryWaiting jobs_StatusQueued"

inductive_simps jobs_edge_queued [simp]: "jobs_edge jobs_StatusQueued st"
inductive_simps jobs_edge_running [simp]: "jobs_edge jobs_StatusRunning st"
inductive_simps jobs_edge_retry [simp]: "jobs_edge jobs_StatusRetryWaiting st"
inductive_cases jobs_edgeE [elim]: "jobs_edge st st'"

lemma jobs_terminal_simps [simp]:
  "jobs_terminal jobs_StatusSucceeded" "jobs_terminal jobs_StatusSucceededWithErrors"
  "jobs_terminal jobs_StatusFailed" "jobs_terminal jobs_StatusCanceled"
  "\<not> jobs_terminal jobs_StatusQueued" "\<not> jobs_terminal jobs_StatusRunning"
  "\<not> jobs_terminal jobs_StatusRetryWaiting"
  by (simp_all add: jobs_terminal_def)

lemma jobs_statuses_iff:
  "st \<in> set jobs_statuses \<longleftrightarrow>
     st = jobs_StatusQueued \<or> st = jobs_StatusRunning \<or> st = jobs_StatusRetryWaiting \<or> jobs_terminal st"
  by (auto simp: jobs_statuses_def jobs_terminal_def)

lemma jobs_transitions_edge:
  "(\<exists>allowed. jobs_transitions st = Some allowed \<and> st' \<in> set allowed) \<longleftrightarrow> jobs_edge st st'"
  by (auto simp: jobs_transitions_def jobs_terminal_def intro: jobs_edge.intros
      split: if_splits)

lemma jobs_CanTransition_iff:
  "jobs_CanTransition st st' = Inr () \<longleftrightarrow> st = st' \<or> jobs_edge st st'"
  unfolding jobs_CanTransition_def jobs_transitions_edge [symmetric]
  by (auto split: option.splits)

lemma jobs_CanTransition_error:
  "jobs_CanTransition st st' = Inl e \<longleftrightarrow> e = InvalidTransition st st' \<and> st \<noteq> st' \<and> \<not> jobs_edge st st'"
  unfolding jobs_CanTransition_def jobs_transitions_edge [symmetric]
  by (auto split: option.splits)

lemma jobs_terminal_no_edge: "jobs_terminal st \<Longrightarrow> \<not> jobs_edge st st'"
  by (auto simp: jobs_terminal_def)

lemma jobs_edge_statuses: "jobs_edge st st' \<Longrightarrow> st \<in> set jobs_statuses \<and> st' \<in> set jobs_statuses"
  by (auto simp: jobs_statuses_iff)

lemma jobs_path_statuses:
  "jobs_edge\<^sup>*\<^sup>* st st' \<Longrightarrow> st \<in> set jobs_statuses \<Longrightarrow> st' \<in> set jobs_statuses"
  by (induction rule: rtranclp_induct) (auto dest: jobs_edge_statuses)

lemma jobs_path_from_terminal: "jobs_edge\<^sup>*\<^sup>* st st' \<Longrightarrow> jobs_terminal st \<Longrightarrow> st' = st"
  by (induction rule: rtranclp_induct) (auto dest: jobs_terminal_no_edge)

lemma jobs_CanTransition_path: "jobs_CanTransition st st' = Inr () \<Longrightarrow> jobs_edge\<^sup>*\<^sup>* st st'"
  by (auto simp: jobs_CanTransition_iff)

lemma jobs_running_reachable:
  "jobs_edge\<^sup>*\<^sup>* jobs_StatusQueued jobs_StatusRunning"
  "jobs_edge\<^sup>*\<^sup>* jobs_StatusRetryWaiting jobs_StatusRunning"
  by (auto intro: jobs_edge.intros rtranclp.rtrancl_into_rtrancl [of _ _ jobs_StatusQueued])

end
