(* ===== verification/Job_Repo.thy ===== *)
theory Job_Repo
  imports Job_Model
begin

section \<open>Jobs: the repository\<close>

text \<open>
  \<open>InMemoryRepository\<close> of \<open>internal/jobs/repository.go\<close>. The maps \<open>byKey\<close> and \<open>byID\<close> share
  their job objects: the pointer stored under an idempotency key is the object stored under
  its own ID, so \<open>byKey\<close> is modelled as a map to IDs. An operation takes the clock reading it
  stamps. \<open>jobs_with\<close> is the shape of every mutator: look the job up, fail with
  \<open>JobNotFound\<close> if it is missing, otherwise run the body on it and store what it leaves.
\<close>

record jobs_Repo =
  jr_nextID :: int
  jr_nextEvent :: int
  jr_byKey :: "string \<rightharpoonup> int"
  jr_byID :: "int \<rightharpoonup> jobs_Job"
  jr_events :: "int \<rightharpoonup> jobs_Event list"
  jr_workers :: "string \<rightharpoonup> jobs_Worker"

type_synonym 'a jobs_result = "(jobs_error, 'a, jobs_Repo) outcome"

definition jobs_NewInMemoryRepository :: jobs_Repo where
  "jobs_NewInMemoryRepository =
     \<lparr>jr_nextID = 1, jr_nextEvent = 1, jr_byKey = Map.empty, jr_byID = Map.empty,
      jr_events = Map.empty, jr_workers = Map.empty\<rparr>"

subsection \<open>Creation and lookup\<close>

definition jobs_idempotencyKey :: "jobs_CreateJobInput \<Rightarrow> string" where
  "jobs_idempotencyKey inp =
     show_int (cj_ProjectID inp) @ '':'' @ cj_JobType inp @ '':'' @ cj_IdempotencyKey inp"

definition jobs_newJob :: "time \<Rightarrow> int \<Rightarrow> jobs_CreateJobInput \<Rightarrow> jobs_Job" where
  "jobs_newJob now jid inp =
     \<lparr>job_ID = jid, job_ProjectID = cj_ProjectID inp, job_DatasetID = cj_DatasetID inp,
      job_SnapshotID = cj_SnapshotID inp, job_JobType = cj_JobType inp,
      job_Status = jobs_StatusQueued, job_RequiredResourceType = cj_RequiredResourceType inp,
      job_RequiredCapabilities = cj_RequiredCapabilities inp,
      job_IdempotencyKey = cj_IdempotencyKey inp, job_WorkerID = [], job_Payload = cj_Payload inp,
      job_TotalItems = 0, job_SucceededItems = 0, job_FailedItems = 0, job_CreatedAt = now,
      job_StartedAt = None, job_FinishedAt = None, job_LeaseUntil = None, job_RetryCount = 0,
      job_ErrorCode = [], job_ErrorMsg = [], job_ResultType = [], job_ResultCount = 0,
      job_ResultArtifactIDs = [], job_ResultRef = []\<rparr>"

text \<open>The result is the job and whether it was created by this call.\<close>

definition jobs_CreateOrGet ::
  "time \<Rightarrow> jobs_CreateJobInput \<Rightarrow> jobs_Repo \<Rightarrow> (jobs_Job \<times> bool) jobs_result" where
  "jobs_CreateOrGet now inp r =
     (let idx = jobs_idempotencyKey inp in
      case Option.bind (jr_byKey r idx) (jr_byID r) of
        Some existing \<Rightarrow> (Inr (existing, False), r)
      | None \<Rightarrow>
          let job = jobs_newJob now (jr_nextID r) inp in
          (Inr (job, True),
           r\<lparr>jr_nextID := jr_nextID r + 1, jr_byKey := (jr_byKey r)(idx \<mapsto> job_ID job),
             jr_byID := (jr_byID r)(job_ID job \<mapsto> job)\<rparr>))"

definition jobs_Get :: "int \<Rightarrow> jobs_Repo \<Rightarrow> jobs_Job option" where
  "jobs_Get jid r = jr_byID r jid"

subsection \<open>Mutators of one job\<close>

definition jobs_with ::
  "int \<Rightarrow> (jobs_Job \<Rightarrow> jobs_error + jobs_Job) \<Rightarrow> jobs_Repo \<Rightarrow> jobs_Job jobs_result" where
  "jobs_with jid body r =
     (case jr_byID r jid of
        None \<Rightarrow> (Inl (JobNotFound jid), r)
      | Some job \<Rightarrow>
          (case body job of
             Inl e \<Rightarrow> (Inl e, r)
           | Inr job' \<Rightarrow> (Inr job', r\<lparr>jr_byID := (jr_byID r)(jid \<mapsto> job')\<rparr>)))"

definition jobs_status_body :: "time \<Rightarrow> string \<Rightarrow> jobs_Job \<Rightarrow> jobs_error + jobs_Job" where
  "jobs_status_body now st job =
     (case jobs_CanTransition (job_Status job) st of
        Inl e \<Rightarrow> Inl e
      | Inr _ \<Rightarrow>
          let j1 = job\<lparr>job_Status := st\<rparr>;
              j2 = (if st = jobs_StatusRunning then j1\<lparr>job_StartedAt := Some now\<rparr> else j1);
              j3 = (if st = jobs_StatusQueued then j2\<lparr>job_LeaseUntil := None\<rparr> else j2);
              j4 = (if jobs_terminal st then j3\<lparr>job_FinishedAt := Some now\<rparr> else j3)
          in Inr j4)"

definition jobs_UpdateStatus :: "time \<Rightarrow> int \<Rightarrow> string \<Rightarrow> jobs_Repo \<Rightarrow> jobs_Job jobs_result" where
  "jobs_UpdateStatus now jid st = jobs_with jid (jobs_status_body now st)"

definition jobs_claim_body :: "time \<Rightarrow> string \<Rightarrow> time \<Rightarrow> jobs_Job \<Rightarrow> jobs_error + jobs_Job" where
  "jobs_claim_body now workerID leaseUntil job =
     (let j1 = (if job_Status job = jobs_StatusQueued
                then job\<lparr>job_Status := jobs_StatusRunning, job_StartedAt := Some now\<rparr> else job)
      in Inr (j1\<lparr>job_WorkerID := workerID, job_LeaseUntil := Some leaseUntil\<rparr>))"

definition jobs_Claim ::
  "time \<Rightarrow> int \<Rightarrow> string \<Rightarrow> time \<Rightarrow> jobs_Repo \<Rightarrow> jobs_Job jobs_result" where
  "jobs_Claim now jid workerID leaseUntil = jobs_with jid (jobs_claim_body now workerID leaseUntil)"

definition jobs_TouchLease :: "int \<Rightarrow> string \<Rightarrow> time \<Rightarrow> jobs_Repo \<Rightarrow> jobs_Job jobs_result" where
  "jobs_TouchLease jid workerID leaseUntil =
     jobs_with jid (\<lambda>job. Inr (job\<lparr>job_WorkerID := workerID, job_LeaseUntil := Some leaseUntil\<rparr>))"

definition jobs_progress_body ::
  "time \<Rightarrow> string \<Rightarrow> int \<Rightarrow> int \<Rightarrow> int \<Rightarrow> jobs_Job \<Rightarrow> jobs_error + jobs_Job" where
  "jobs_progress_body now workerID tot succeeded failed job =
     (case (if job_Status job \<noteq> jobs_StatusRunning
            then (case jobs_CanTransition (job_Status job) jobs_StatusRunning of
                    Inl e \<Rightarrow> Inl e
                  | Inr _ \<Rightarrow> Inr (job\<lparr>job_Status := jobs_StatusRunning, job_StartedAt := Some now\<rparr>))
            else Inr job) of
        Inl e \<Rightarrow> Inl e
      | Inr j1 \<Rightarrow>
          Inr (j1\<lparr>job_WorkerID := workerID, job_TotalItems := tot,
                  job_SucceededItems := succeeded, job_FailedItems := failed\<rparr>))"

definition jobs_UpdateProgress ::
  "time \<Rightarrow> int \<Rightarrow> string \<Rightarrow> int \<Rightarrow> int \<Rightarrow> int \<Rightarrow> jobs_Repo \<Rightarrow> jobs_Job jobs_result" where
  "jobs_UpdateProgress now jid workerID tot succeeded failed =
     jobs_with jid (jobs_progress_body now workerID tot succeeded failed)"

definition jobs_complete_body ::
  "time \<Rightarrow> string \<Rightarrow> string \<Rightarrow> int \<Rightarrow> int \<Rightarrow> int \<Rightarrow> jobs_Job \<Rightarrow> jobs_error + jobs_Job" where
  "jobs_complete_body now workerID st tot succeeded failed job =
     (let fromStatus =
            (if job_Status job = jobs_StatusQueued \<or> job_Status job = jobs_StatusRetryWaiting
             then jobs_StatusRunning else job_Status job)
      in case jobs_CanTransition fromStatus st of
           Inl e \<Rightarrow> Inl e
         | Inr _ \<Rightarrow>
             let j1 = (if job_StartedAt job = None then job\<lparr>job_StartedAt := Some now\<rparr> else job)
             in Inr (j1\<lparr>job_Status := st, job_WorkerID := workerID, job_TotalItems := tot,
                        job_SucceededItems := succeeded, job_FailedItems := failed,
                        job_FinishedAt := Some now\<rparr>))"

definition jobs_Complete ::
  "time \<Rightarrow> int \<Rightarrow> string \<Rightarrow> string \<Rightarrow> int \<Rightarrow> int \<Rightarrow> int \<Rightarrow> jobs_Repo \<Rightarrow> jobs_Job jobs_result" where
  "jobs_Complete now jid workerID st tot succeeded failed =
     jobs_with jid (jobs_complete_body now workerID st tot succeeded failed)"

definition jobs_SetLease :: "int \<Rightarrow> time \<Rightarrow> jobs_Repo \<Rightarrow> jobs_Job jobs_result" where
  "jobs_SetLease jid lease = jobs_with jid (\<lambda>job. Inr (job\<lparr>job_LeaseUntil := Some lease\<rparr>))"

definition jobs_IncrementRetryCount :: "int \<Rightarrow> jobs_Repo \<Rightarrow> jobs_Job jobs_result" where
  "jobs_IncrementRetryCount jid =
     jobs_with jid (\<lambda>job. Inr (job\<lparr>job_RetryCount := job_RetryCount job + 1\<rparr>))"

definition jobs_retry_body :: "time \<Rightarrow> jobs_Job \<Rightarrow> jobs_error + jobs_Job" where
  "jobs_retry_body retryAt job =
     (case jobs_CanTransition (job_Status job) jobs_StatusRetryWaiting of
        Inl e \<Rightarrow> Inl e
      | Inr _ \<Rightarrow> Inr (job\<lparr>job_Status := jobs_StatusRetryWaiting, job_LeaseUntil := Some retryAt\<rparr>))"

definition jobs_MarkRetryWaiting :: "int \<Rightarrow> time \<Rightarrow> jobs_Repo \<Rightarrow> jobs_Job jobs_result" where
  "jobs_MarkRetryWaiting jid retryAt = jobs_with jid (jobs_retry_body retryAt)"

definition jobs_failed_body :: "time \<Rightarrow> string \<Rightarrow> string \<Rightarrow> jobs_Job \<Rightarrow> jobs_error + jobs_Job" where
  "jobs_failed_body now code msg job =
     (case jobs_CanTransition (job_Status job) jobs_StatusFailed of
        Inl e \<Rightarrow> Inl e
      | Inr _ \<Rightarrow> Inr (job\<lparr>job_Status := jobs_StatusFailed, job_FinishedAt := Some now,
                          job_ErrorCode := code, job_ErrorMsg := msg\<rparr>))"

definition jobs_MarkFailed ::
  "time \<Rightarrow> int \<Rightarrow> string \<Rightarrow> string \<Rightarrow> jobs_Repo \<Rightarrow> jobs_Job jobs_result" where
  "jobs_MarkFailed now jid code msg = jobs_with jid (jobs_failed_body now code msg)"

subsection \<open>Result references\<close>

definition jobs_mergeResultRefs :: "obj \<Rightarrow> obj \<Rightarrow> obj" where
  "jobs_mergeResultRefs current incoming =
     (if current = [] \<and> incoming = [] then [] else obj_merge current incoming)"

fun jobs_stringValue :: "gval \<Rightarrow> string" where
  "jobs_stringValue (GStr s) = s"
| "jobs_stringValue _ = []"

text \<open>
  Conversion of a \<open>float64\<close> truncates towards zero; outside the 64-bit range Go leaves the
  result to the platform, and amd64 gives the least integer.
\<close>

definition float_to_int64 :: "real \<Rightarrow> int" where
  "float_to_int64 x =
     (let t = (if 0 \<le> x then \<lfloor>x\<rfloor> else \<lceil>x\<rceil>) in if in_int64 t then t else - (2 ^ 63))"

fun jobs_int64Value :: "gval \<Rightarrow> int" where
  "jobs_int64Value (GInt i) = i"
| "jobs_int64Value (GInt64 i) = i"
| "jobs_int64Value (GFloat x) = float_to_int64 x"
| "jobs_int64Value (GNumber s) = fst (parse_int64 s)"
| "jobs_int64Value _ = 0"

fun jobs_extractInt64Slice :: "gval \<Rightarrow> int list" where
  "jobs_extractInt64Slice (GInts is) = is"
| "jobs_extractInt64Slice (GArr vs) = filter (\<lambda>i. 0 < i) (map jobs_int64Value vs)"
| "jobs_extractInt64Slice _ = []"

definition jobs_result_body :: "obj \<Rightarrow> jobs_Job \<Rightarrow> jobs_error + jobs_Job" where
  "jobs_result_body resultRef job =
     (if resultRef = [] then Inr job
      else let merged = jobs_mergeResultRefs (job_ResultRef job) resultRef
           in Inr (job\<lparr>job_ResultRef := merged,
                       job_ResultType := jobs_stringValue (obj_get merged ''result_type''),
                       job_ResultCount := jobs_int64Value (obj_get merged ''result_count''),
                       job_ResultArtifactIDs := jobs_extractInt64Slice (obj_get merged ''artifact_ids'')\<rparr>))"

definition jobs_StoreResultRef :: "int \<Rightarrow> obj \<Rightarrow> jobs_Repo \<Rightarrow> jobs_Job jobs_result" where
  "jobs_StoreResultRef jid resultRef = jobs_with jid (jobs_result_body resultRef)"

subsection \<open>Events and workers\<close>

definition jobs_AppendEvent ::
  "time \<Rightarrow> int \<Rightarrow> int option \<Rightarrow> string \<Rightarrow> string \<Rightarrow> string \<Rightarrow> obj \<Rightarrow> jobs_Repo \<Rightarrow> jobs_Event jobs_result" where
  "jobs_AppendEvent now jid itemID level typ msg detail r =
     (case jr_byID r jid of
        None \<Rightarrow> (Inl (JobNotFound jid), r)
      | Some _ \<Rightarrow>
          let ev = \<lparr>ev_ID = jr_nextEvent r, ev_JobID = jid, ev_ItemID = itemID,
                    ev_EventLevel = level, ev_EventType = typ, ev_Message = msg,
                    ev_Detail = detail, ev_TS = now\<rparr>;
              old = (case jr_events r jid of None \<Rightarrow> [] | Some es \<Rightarrow> es)
          in (Inr ev, r\<lparr>jr_nextEvent := jr_nextEvent r + 1,
                        jr_events := (jr_events r)(jid \<mapsto> old @ [ev])\<rparr>))"

definition jobs_ListEvents :: "int \<Rightarrow> jobs_Repo \<Rightarrow> jobs_Event list" where
  "jobs_ListEvents jid r = (case jr_events r jid of None \<Rightarrow> [] | Some es \<Rightarrow> es)"

definition jobs_UpsertWorker ::
  "time \<Rightarrow> jobs_RegisterWorkerInput \<Rightarrow> jobs_Repo \<Rightarrow> jobs_Worker jobs_result" where
  "jobs_UpsertWorker now inp r =
     (let base = (case jr_workers r (rw_WorkerID inp) of
                    Some w \<Rightarrow> w
                  | None \<Rightarrow> \<lparr>worker_WorkerID = rw_WorkerID inp, worker_ResourceLane = [],
                             worker_Capabilities = [], worker_JobTypes = [],
                             worker_RegisteredAt = now, worker_LastSeenAt = zero_time\<rparr>);
          w = base\<lparr>worker_ResourceLane := rw_ResourceLane inp,
                   worker_Capabilities := rw_Capabilities inp,
                   worker_JobTypes := rw_JobTypes inp, worker_LastSeenAt := now\<rparr>
      in (Inr w, r\<lparr>jr_workers := (jr_workers r)(rw_WorkerID inp \<mapsto> w)\<rparr>))"

text \<open>The loop visits the workers in map order \<open>ks\<close>; the result is sorted by worker ID.\<close>

definition jobs_ListWorkers :: "string list \<Rightarrow> jobs_Repo \<Rightarrow> jobs_Worker list" where
  "jobs_ListWorkers ks r = sort_key worker_WorkerID (map (\<lambda>k. the (jr_workers r k)) ks)"

subsection \<open>Queries of the sweeper\<close>

text \<open>The two queries visit \<open>byID\<close> in map order \<open>ks\<close> and give the selected objects, as IDs.\<close>

definition jobs_expired :: "time \<Rightarrow> jobs_Job \<Rightarrow> bool" where
  "jobs_expired now job \<longleftrightarrow>
     job_Status job = jobs_StatusRunning \<and>
     (case job_LeaseUntil job of None \<Rightarrow> False | Some lease \<Rightarrow> lease < now)"

definition jobs_retry_ready :: "time \<Rightarrow> jobs_Job \<Rightarrow> bool" where
  "jobs_retry_ready now job \<longleftrightarrow>
     job_Status job = jobs_StatusRetryWaiting \<and>
     (case job_LeaseUntil job of None \<Rightarrow> False | Some lease \<Rightarrow> \<not> now < lease)"

definition jobs_selects :: "(jobs_Job \<Rightarrow> bool) \<Rightarrow> jobs_Repo \<Rightarrow> int \<Rightarrow> bool" where
  "jobs_selects p r jid = (case jr_byID r jid of None \<Rightarrow> False | Some job \<Rightarrow> p job)"

definition jobs_ListExpiredRunning :: "int list \<Rightarrow> time \<Rightarrow> jobs_Repo \<Rightarrow> int list" where
  "jobs_ListExpiredRunning ks now r = filter (jobs_selects (jobs_expired now) r) ks"

definition jobs_ListRetryReady :: "int list \<Rightarrow> time \<Rightarrow> jobs_Repo \<Rightarrow> int list" where
  "jobs_ListRetryReady ks now r = filter (jobs_selects (jobs_retry_ready now) r) ks"


subsection \<open>The operations as a machine\<close>

datatype jobs_op =
    OpCreateOrGet time jobs_CreateJobInput
  | OpUpdateStatus time int string
  | OpClaim time int string time
  | OpTouchLease int string time
  | OpUpdateProgress time int string int int int
  | OpComplete time int string string int int int
  | OpSetLease int time
  | OpIncrementRetryCount int
  | OpMarkRetryWaiting int time
  | OpMarkFailed time int string string
  | OpStoreResultRef int obj
  | OpAppendEvent time int "int option" string string string obj
  | OpUpsertWorker time jobs_RegisterWorkerInput

fun jobs_exec :: "jobs_Repo \<Rightarrow> jobs_op \<Rightarrow> jobs_Repo" where
  "jobs_exec r (OpCreateOrGet now inp) = snd (jobs_CreateOrGet now inp r)"
| "jobs_exec r (OpUpdateStatus now jid st) = snd (jobs_UpdateStatus now jid st r)"
| "jobs_exec r (OpClaim now jid w l) = snd (jobs_Claim now jid w l r)"
| "jobs_exec r (OpTouchLease jid w l) = snd (jobs_TouchLease jid w l r)"
| "jobs_exec r (OpUpdateProgress now jid w t s f) = snd (jobs_UpdateProgress now jid w t s f r)"
| "jobs_exec r (OpComplete now jid w st t s f) = snd (jobs_Complete now jid w st t s f r)"
| "jobs_exec r (OpSetLease jid l) = snd (jobs_SetLease jid l r)"
| "jobs_exec r (OpIncrementRetryCount jid) = snd (jobs_IncrementRetryCount jid r)"
| "jobs_exec r (OpMarkRetryWaiting jid t) = snd (jobs_MarkRetryWaiting jid t r)"
| "jobs_exec r (OpMarkFailed now jid c m) = snd (jobs_MarkFailed now jid c m r)"
| "jobs_exec r (OpStoreResultRef jid d) = snd (jobs_StoreResultRef jid d r)"
| "jobs_exec r (OpAppendEvent now jid it l t m d) = snd (jobs_AppendEvent now jid it l t m d r)"
| "jobs_exec r (OpUpsertWorker now inp) = snd (jobs_UpsertWorker now inp r)"

subsection \<open>The invariant and the order of evolution\<close>

definition jobs_key :: "jobs_Job \<Rightarrow> string" where
  "jobs_key job = show_int (job_ProjectID job) @ '':'' @ job_JobType job @ '':'' @ job_IdempotencyKey job"

definition jobs_job_ok :: "jobs_Job \<Rightarrow> bool" where
  "jobs_job_ok job \<longleftrightarrow>
     job_Status job \<in> set jobs_statuses \<and>
     (jobs_terminal (job_Status job) \<longrightarrow> job_FinishedAt job \<noteq> None) \<and>
     (job_Status job = jobs_StatusRunning \<longrightarrow> job_StartedAt job \<noteq> None)"

definition jobs_table_ok :: "jobs_Repo \<Rightarrow> bool" where
  "jobs_table_ok r \<longleftrightarrow>
     1 \<le> jr_nextID r \<and>
     (\<forall>jid job. jr_byID r jid = Some job \<longrightarrow>
        job_ID job = jid \<and> 1 \<le> jid \<and> jid < jr_nextID r \<and> jobs_job_ok job \<and>
        jr_byKey r (jobs_key job) = Some jid) \<and>
     (\<forall>k jid. jr_byKey r k = Some jid \<longrightarrow> (\<exists>job. jr_byID r jid = Some job \<and> jobs_key job = k))"

definition jobs_log_ok :: "jobs_Repo \<Rightarrow> bool" where
  "jobs_log_ok r \<longleftrightarrow>
     1 \<le> jr_nextEvent r \<and>
     (\<forall>jid es. jr_events r jid = Some es \<longrightarrow>
        jid \<in> dom (jr_byID r) \<and> sorted_wrt (<) (map ev_ID es) \<and>
        (\<forall>e \<in> set es. ev_JobID e = jid \<and> 1 \<le> ev_ID e \<and> ev_ID e < jr_nextEvent r)) \<and>
     (\<forall>jid jid' es es'. jr_events r jid = Some es \<longrightarrow> jr_events r jid' = Some es' \<longrightarrow> jid \<noteq> jid' \<longrightarrow>
        ev_ID ` set es \<inter> ev_ID ` set es' = {})"

definition jobs_workers_ok :: "jobs_Repo \<Rightarrow> bool" where
  "jobs_workers_ok r \<longleftrightarrow> (\<forall>k w. jr_workers r k = Some w \<longrightarrow> worker_WorkerID w = k)"

definition jobs_inv :: "jobs_Repo \<Rightarrow> bool" where
  "jobs_inv r \<longleftrightarrow> jobs_table_ok r \<and> jobs_log_ok r \<and> jobs_workers_ok r"

text \<open>
  How a stored job may evolve: its identity and routing never change, its status moves along
  the lifecycle graph, its retry count and its two stamps never go back.
\<close>

definition jobs_evolves :: "jobs_Job \<Rightarrow> jobs_Job \<Rightarrow> bool" where
  "jobs_evolves a b \<longleftrightarrow>
     job_ID b = job_ID a \<and> job_ProjectID b = job_ProjectID a \<and> job_DatasetID b = job_DatasetID a \<and>
     job_SnapshotID b = job_SnapshotID a \<and> job_JobType b = job_JobType a \<and>
     job_RequiredResourceType b = job_RequiredResourceType a \<and>
     job_RequiredCapabilities b = job_RequiredCapabilities a \<and>
     job_IdempotencyKey b = job_IdempotencyKey a \<and> job_Payload b = job_Payload a \<and>
     job_CreatedAt b = job_CreatedAt a \<and>
     jobs_edge\<^sup>*\<^sup>* (job_Status a) (job_Status b) \<and>
     job_RetryCount a \<le> job_RetryCount b \<and>
     (job_StartedAt a \<noteq> None \<longrightarrow> job_StartedAt b \<noteq> None) \<and>
     (job_FinishedAt a \<noteq> None \<longrightarrow> job_FinishedAt b \<noteq> None)"

definition jobs_le :: "jobs_Repo \<Rightarrow> jobs_Repo \<Rightarrow> bool" where
  "jobs_le r r' \<longleftrightarrow>
     jr_nextID r \<le> jr_nextID r' \<and> jr_nextEvent r \<le> jr_nextEvent r' \<and>
     jr_byKey r \<subseteq>\<^sub>m jr_byKey r' \<and>
     (\<forall>jid a. jr_byID r jid = Some a \<longrightarrow> (\<exists>b. jr_byID r' jid = Some b \<and> jobs_evolves a b)) \<and>
     (\<forall>jid. \<exists>new. jobs_ListEvents jid r' = jobs_ListEvents jid r @ new)"

lemma jobs_evolves_refl [simp]: "jobs_evolves a a"
  by (simp add: jobs_evolves_def)

lemma jobs_evolves_trans: "jobs_evolves a b \<Longrightarrow> jobs_evolves b c \<Longrightarrow> jobs_evolves a c"
  by (auto simp: jobs_evolves_def)

lemma jobs_evolves_key: "jobs_evolves a b \<Longrightarrow> jobs_key b = jobs_key a"
  by (simp add: jobs_evolves_def jobs_key_def)

lemma jobs_le_refl [simp]: "jobs_le r r"
  by (auto simp: jobs_le_def)

lemma jobs_le_trans: "jobs_le r s \<Longrightarrow> jobs_le s t \<Longrightarrow> jobs_le r t"
  unfolding jobs_le_def
  by (auto intro: map_le_trans) (meson jobs_evolves_trans, metis append_assoc)

subsection \<open>One job at a time\<close>

text \<open>What the body of a mutator has to satisfy; each body is then checked once.\<close>

definition jobs_body_ok :: "(jobs_Job \<Rightarrow> jobs_error + jobs_Job) \<Rightarrow> bool" where
  "jobs_body_ok body \<longleftrightarrow>
     (\<forall>a b. jobs_job_ok a \<longrightarrow> body a = Inr b \<longrightarrow> jobs_job_ok b \<and> jobs_evolves a b)"

named_theorems jobs_bodies \<open>every mutator body of the repository is acceptable\<close>

lemma jobs_with_simps:
  "jr_byID r jid = None \<Longrightarrow> jobs_with jid body r = (Inl (JobNotFound jid), r)"
  "jr_byID r jid = Some a \<Longrightarrow> body a = Inl e \<Longrightarrow> jobs_with jid body r = (Inl e, r)"
  "jr_byID r jid = Some a \<Longrightarrow> body a = Inr b \<Longrightarrow>
     jobs_with jid body r = (Inr b, r\<lparr>jr_byID := (jr_byID r)(jid \<mapsto> b)\<rparr>)"
  by (simp_all add: jobs_with_def)

lemma jobs_with_cases:
  obtains (missing) "jr_byID r jid = None" "jobs_with jid body r = (Inl (JobNotFound jid), r)"
  | (refused) a e where "jr_byID r jid = Some a" "body a = Inl e" "jobs_with jid body r = (Inl e, r)"
  | (stored) a b where "jr_byID r jid = Some a" "body a = Inr b"
      "jobs_with jid body r = (Inr b, r\<lparr>jr_byID := (jr_byID r)(jid \<mapsto> b)\<rparr>)"
  by (cases "jr_byID r jid"; cases "body (the (jr_byID r jid))") (auto simp: jobs_with_simps)

lemma jobs_with_error_unchanged: "jobs_with jid body r = (Inl e, r') \<Longrightarrow> r' = r"
  by (cases rule: jobs_with_cases [of r jid body]) auto

lemma jobs_table_jobD:
  "jobs_table_ok r \<Longrightarrow> jr_byID r jid = Some job \<Longrightarrow>
     job_ID job = jid \<and> 1 \<le> jid \<and> jid < jr_nextID r \<and> jobs_job_ok job \<and>
     jr_byKey r (jobs_key job) = Some jid"
  unfolding jobs_table_ok_def by blast

lemma jobs_table_keyD:
  "jobs_table_ok r \<Longrightarrow> jr_byKey r k = Some jid \<Longrightarrow>
     \<exists>job. jr_byID r jid = Some job \<and> jobs_key job = k"
  unfolding jobs_table_ok_def by blast

lemma jobs_update_inv:
  assumes inv: "jobs_inv r" and a: "jr_byID r jid = Some a"
    and b: "jobs_job_ok b" "jobs_evolves a b"
  shows "jobs_inv (r\<lparr>jr_byID := (jr_byID r)(jid \<mapsto> b)\<rparr>)"
proof -
  have key: "jobs_key b = jobs_key a" and id: "job_ID b = job_ID a"
    using b(2) by (simp_all add: jobs_evolves_key) (simp add: jobs_evolves_def)
  have tab: "jobs_table_ok r" using inv by (simp add: jobs_inv_def)
  from tab a have ja: "job_ID a = jid" "1 \<le> jid" "jid < jr_nextID r"
    "jr_byKey r (jobs_key a) = Some jid"
    using jobs_table_jobD [OF tab a] by blast+
  have "jobs_table_ok (r\<lparr>jr_byID := (jr_byID r)(jid \<mapsto> b)\<rparr>)"
    unfolding jobs_table_ok_def
  proof (intro conjI allI impI)
    show "1 \<le> jr_nextID (r\<lparr>jr_byID := (jr_byID r)(jid \<mapsto> b)\<rparr>)"
      using tab by (simp add: jobs_table_ok_def)
  next
    fix i c assume "jr_byID (r\<lparr>jr_byID := (jr_byID r)(jid \<mapsto> b)\<rparr>) i = Some c"
    then have c: "(i = jid \<and> c = b) \<or> (i \<noteq> jid \<and> jr_byID r i = Some c)"
      by (simp split: if_splits)
    have all: "job_ID c = i \<and> 1 \<le> i \<and> i < jr_nextID r \<and> jobs_job_ok c \<and>
        jr_byKey r (jobs_key c) = Some i"
      using c
    proof
      assume "i = jid \<and> c = b"
      then show ?thesis using ja b(1) key id by simp
    next
      assume "i \<noteq> jid \<and> jr_byID r i = Some c"
      then show ?thesis using jobs_table_jobD [OF tab] by blast
    qed
    then show "job_ID c = i" "1 \<le> i" "i < jr_nextID (r\<lparr>jr_byID := (jr_byID r)(jid \<mapsto> b)\<rparr>)"
      "jobs_job_ok c" "jr_byKey (r\<lparr>jr_byID := (jr_byID r)(jid \<mapsto> b)\<rparr>) (jobs_key c) = Some i"
      by simp_all
  next
    fix k i assume "jr_byKey (r\<lparr>jr_byID := (jr_byID r)(jid \<mapsto> b)\<rparr>) k = Some i"
    then have "jr_byKey r k = Some i" by simp
    then obtain c where "jr_byID r i = Some c" "jobs_key c = k"
      using jobs_table_keyD [OF tab] by blast
    then show "\<exists>c. jr_byID (r\<lparr>jr_byID := (jr_byID r)(jid \<mapsto> b)\<rparr>) i = Some c \<and> jobs_key c = k"
      using a key by (cases "i = jid") auto
  qed
  moreover have "jobs_log_ok (r\<lparr>jr_byID := (jr_byID r)(jid \<mapsto> b)\<rparr>)"
    using inv unfolding jobs_inv_def jobs_log_ok_def by auto
  moreover have "jobs_workers_ok (r\<lparr>jr_byID := (jr_byID r)(jid \<mapsto> b)\<rparr>)"
    using inv by (simp add: jobs_inv_def jobs_workers_ok_def)
  ultimately show ?thesis by (simp add: jobs_inv_def)
qed

lemma jobs_update_le:
  assumes "jr_byID r jid = Some a" and "jobs_evolves a b"
  shows "jobs_le r (r\<lparr>jr_byID := (jr_byID r)(jid \<mapsto> b)\<rparr>)"
  using assms by (auto simp: jobs_le_def jobs_ListEvents_def)

lemma jobs_inv_job: "jobs_inv r \<Longrightarrow> jr_byID r jid = Some a \<Longrightarrow> jobs_job_ok a \<and> job_ID a = jid"
  by (auto simp: jobs_inv_def jobs_table_ok_def)

lemma jobs_with_inv:
  assumes "jobs_body_ok body" and "jobs_inv r"
  shows "jobs_inv (snd (jobs_with jid body r))"
  using assms
  by (cases rule: jobs_with_cases [of r jid body])
    (auto simp: jobs_body_ok_def intro!: jobs_update_inv dest: jobs_inv_job)

lemma jobs_with_le:
  assumes "jobs_body_ok body" and "jobs_inv r"
  shows "jobs_le r (snd (jobs_with jid body r))"
  using assms
  by (cases rule: jobs_with_cases [of r jid body])
    (auto simp: jobs_body_ok_def intro!: jobs_update_le dest: jobs_inv_job)

end
