(* ===== verification/Job_Lifecycle.thy ===== *)
theory Job_Lifecycle
  imports Job_Repo
begin

section \<open>Jobs: what every sequence of repository operations keeps\<close>

text \<open>
  Each mutator body is checked once against \<open>jobs_body_ok\<close>; the operations then form a
  \<open>progress_machine\<close> with invariant \<open>jobs_inv\<close> and order \<open>jobs_le\<close>, and the properties
  of whole histories (lifecycle, idempotent creation, append-only events) follow from it.
\<close>

subsection \<open>The bodies\<close>

lemmas jobs_ok_defs = jobs_body_ok_def jobs_job_ok_def jobs_evolves_def

lemma jobs_body_okI:
  assumes "\<And>a b. jobs_job_ok a \<Longrightarrow> body a = Inr b \<Longrightarrow> jobs_job_ok b \<and> jobs_evolves a b"
  shows "jobs_body_ok body"
  using assms by (simp add: jobs_body_ok_def)

lemma jobs_status_body_ok [jobs_bodies]: "jobs_body_ok (jobs_status_body now st)"
proof (rule jobs_body_okI)
  fix a b assume a: "jobs_job_ok a" and "jobs_status_body now st a = Inr b"
  then have ct: "jobs_CanTransition (job_Status a) st = Inr ()"
    and b: "job_Status b = st" "job_FinishedAt b = (if jobs_terminal st then Some now else job_FinishedAt a)"
      "job_StartedAt b = (if st = jobs_StatusRunning then Some now else job_StartedAt a)"
      "job_RetryCount b = job_RetryCount a"
    and same: "job_ID b = job_ID a" "job_ProjectID b = job_ProjectID a" "job_DatasetID b = job_DatasetID a"
      "job_SnapshotID b = job_SnapshotID a" "job_JobType b = job_JobType a"
      "job_RequiredResourceType b = job_RequiredResourceType a"
      "job_RequiredCapabilities b = job_RequiredCapabilities a"
      "job_IdempotencyKey b = job_IdempotencyKey a" "job_Payload b = job_Payload a"
      "job_CreatedAt b = job_CreatedAt a"
    by (auto simp: jobs_status_body_def Let_def split: sum.splits)
  from ct have path: "jobs_edge\<^sup>*\<^sup>* (job_Status a) st" by (rule jobs_CanTransition_path)
  then have "st \<in> set jobs_statuses" using a by (auto simp: jobs_job_ok_def intro: jobs_path_statuses)
  then show "jobs_job_ok b \<and> jobs_evolves a b"
    using a b same path by (auto simp: jobs_job_ok_def jobs_evolves_def)
qed

lemma jobs_running_from:
  assumes "jobs_CanTransition st jobs_StatusRunning = Inr ()"
  shows "jobs_edge\<^sup>*\<^sup>* st jobs_StatusRunning"
  using assms by (rule jobs_CanTransition_path)

lemma jobs_claim_body_ok [jobs_bodies]: "jobs_body_ok (jobs_claim_body now w l)"
  by (auto simp: jobs_ok_defs jobs_claim_body_def jobs_statuses_iff intro: jobs_running_reachable)

lemma jobs_touch_body_ok [jobs_bodies]:
  "jobs_body_ok (\<lambda>job. Inr (job\<lparr>job_WorkerID := w, job_LeaseUntil := Some l\<rparr>))"
  by (auto simp: jobs_ok_defs)

lemma jobs_lease_body_ok [jobs_bodies]: "jobs_body_ok (\<lambda>job. Inr (job\<lparr>job_LeaseUntil := Some l\<rparr>))"
  by (auto simp: jobs_ok_defs)

lemma jobs_count_body_ok [jobs_bodies]:
  "jobs_body_ok (\<lambda>job. Inr (job\<lparr>job_RetryCount := job_RetryCount job + 1\<rparr>))"
  by (auto simp: jobs_ok_defs)

lemma jobs_progress_body_ok [jobs_bodies]: "jobs_body_ok (jobs_progress_body now w t s f)"
  by (auto simp: jobs_ok_defs jobs_progress_body_def jobs_statuses_iff
      split: sum.splits if_splits intro: jobs_running_from)

lemma jobs_complete_path:
  assumes "jobs_CanTransition
      (if st = jobs_StatusQueued \<or> st = jobs_StatusRetryWaiting then jobs_StatusRunning else st) st' = Inr ()"
  shows "jobs_edge\<^sup>*\<^sup>* st st'"
proof -
  have "jobs_edge\<^sup>*\<^sup>* st (if st = jobs_StatusQueued \<or> st = jobs_StatusRetryWaiting then jobs_StatusRunning else st)"
    using jobs_running_reachable by auto
  also have "jobs_edge\<^sup>*\<^sup>* \<dots> st'" using assms by (rule jobs_CanTransition_path)
  finally show ?thesis .
qed

lemma jobs_complete_body_ok [jobs_bodies]: "jobs_body_ok (jobs_complete_body now w st t s f)"
proof (rule jobs_body_okI)
  fix a b assume a: "jobs_job_ok a" and "jobs_complete_body now w st t s f a = Inr b"
  then have ct: "jobs_CanTransition (if job_Status a = jobs_StatusQueued \<or>
        job_Status a = jobs_StatusRetryWaiting then jobs_StatusRunning else job_Status a) st = Inr ()"
    and b: "job_Status b = st" "job_FinishedAt b = Some now" "job_StartedAt b \<noteq> None"
      "job_RetryCount b = job_RetryCount a"
    and same: "job_ID b = job_ID a" "job_ProjectID b = job_ProjectID a" "job_DatasetID b = job_DatasetID a"
      "job_SnapshotID b = job_SnapshotID a" "job_JobType b = job_JobType a"
      "job_RequiredResourceType b = job_RequiredResourceType a"
      "job_RequiredCapabilities b = job_RequiredCapabilities a"
      "job_IdempotencyKey b = job_IdempotencyKey a" "job_Payload b = job_Payload a"
      "job_CreatedAt b = job_CreatedAt a"
    by (auto simp: jobs_complete_body_def Let_def split: sum.splits if_splits)
  from ct have path: "jobs_edge\<^sup>*\<^sup>* (job_Status a) st" by (rule jobs_complete_path)
  then have "st \<in> set jobs_statuses" using a by (auto simp: jobs_job_ok_def intro: jobs_path_statuses)
  then show "jobs_job_ok b \<and> jobs_evolves a b"
    using a b same path by (auto simp: jobs_job_ok_def jobs_evolves_def)
qed

lemma jobs_retry_body_ok [jobs_bodies]: "jobs_body_ok (jobs_retry_body t)"
  by (auto simp: jobs_ok_defs jobs_retry_body_def jobs_statuses_iff
      split: sum.splits intro: jobs_CanTransition_path)

lemma jobs_failed_body_ok [jobs_bodies]: "jobs_body_ok (jobs_failed_body now c m)"
  by (auto simp: jobs_ok_defs jobs_failed_body_def jobs_statuses_iff
      split: sum.splits intro: jobs_CanTransition_path)

lemma jobs_result_body_ok [jobs_bodies]: "jobs_body_ok (jobs_result_body d)"
  by (auto simp: jobs_ok_defs jobs_result_body_def Let_def split: if_splits)

lemmas jobs_mutators = jobs_UpdateStatus_def jobs_Claim_def jobs_TouchLease_def
  jobs_UpdateProgress_def jobs_Complete_def jobs_SetLease_def jobs_IncrementRetryCount_def
  jobs_MarkRetryWaiting_def jobs_MarkFailed_def jobs_StoreResultRef_def


subsection \<open>Creation, events and workers\<close>

lemma jobs_newJob_key [simp]: "jobs_key (jobs_newJob now jid inp) = jobs_idempotencyKey inp"
  by (simp add: jobs_key_def jobs_newJob_def jobs_idempotencyKey_def)

lemma jobs_newJob_simps [simp]:
  "job_ID (jobs_newJob now jid inp) = jid"
  "job_Status (jobs_newJob now jid inp) = jobs_StatusQueued"
  "job_Payload (jobs_newJob now jid inp) = cj_Payload inp"
  "job_JobType (jobs_newJob now jid inp) = cj_JobType inp"
  "job_RetryCount (jobs_newJob now jid inp) = 0"
  "job_LeaseUntil (jobs_newJob now jid inp) = None"
  by (simp_all add: jobs_newJob_def)

lemma jobs_newJob_ok [simp]: "jobs_job_ok (jobs_newJob now jid inp)"
  by (simp add: jobs_job_ok_def jobs_newJob_def jobs_statuses_iff)

lemma jobs_CreateOrGet_cases:
  assumes "jobs_table_ok r"
  obtains (existing) job where "jr_byKey r (jobs_idempotencyKey inp) = Some (job_ID job)"
      "jr_byID r (job_ID job) = Some job" "jobs_key job = jobs_idempotencyKey inp"
      "jobs_CreateOrGet now inp r = (Inr (job, False), r)"
  | (created) "jr_byKey r (jobs_idempotencyKey inp) = None" "jr_byID r (jr_nextID r) = None"
      "jobs_CreateOrGet now inp r = (Inr (jobs_newJob now (jr_nextID r) inp, True),
         r\<lparr>jr_nextID := jr_nextID r + 1,
           jr_byKey := (jr_byKey r)(jobs_idempotencyKey inp \<mapsto> jr_nextID r),
           jr_byID := (jr_byID r)(jr_nextID r \<mapsto> jobs_newJob now (jr_nextID r) inp)\<rparr>)"
proof (cases "jr_byKey r (jobs_idempotencyKey inp)")
  case None
  have "jr_byID r (jr_nextID r) = None"
    using jobs_table_jobD [OF assms, of "jr_nextID r"] by (cases "jr_byID r (jr_nextID r)") auto
  with None show ?thesis by (intro created) (simp_all add: jobs_CreateOrGet_def Let_def)
next
  case (Some jid)
  then obtain job where job: "jr_byID r jid = Some job" "jobs_key job = jobs_idempotencyKey inp"
    using jobs_table_keyD [OF assms] by blast
  moreover have "job_ID job = jid" using jobs_table_jobD [OF assms job(1)] by simp
  ultimately show ?thesis using Some
    by (intro existing [of job]) (simp_all add: jobs_CreateOrGet_def)
qed

lemma jobs_create_table_ok:
  assumes ok: "jobs_table_ok r" and fresh: "jr_byKey r (jobs_key job) = None"
    and job: "job_ID job = jr_nextID r" "jobs_job_ok job"
  shows "jobs_table_ok (r\<lparr>jr_nextID := jr_nextID r + 1,
           jr_byKey := (jr_byKey r)(jobs_key job \<mapsto> jr_nextID r),
           jr_byID := (jr_byID r)(jr_nextID r \<mapsto> job)\<rparr>)" (is "jobs_table_ok ?r")
  unfolding jobs_table_ok_def
proof (intro conjI allI impI)
  have pos: "1 \<le> jr_nextID r" using ok by (simp add: jobs_table_ok_def)
  then show "1 \<le> jr_nextID ?r" by simp
next
  fix i c assume c: "jr_byID ?r i = Some c"
  have pos: "1 \<le> jr_nextID r" using ok by (simp add: jobs_table_ok_def)
  have "job_ID c = i \<and> 1 \<le> i \<and> i < jr_nextID r + 1 \<and> jobs_job_ok c \<and> jr_byKey ?r (jobs_key c) = Some i"
  proof (cases "i = jr_nextID r")
    case True
    with c job pos show ?thesis by simp
  next
    case False
    with c have "jr_byID r i = Some c" by simp
    from jobs_table_jobD [OF ok this] fresh show ?thesis by auto
  qed
  then show "job_ID c = i" "1 \<le> i" "i < jr_nextID ?r" "jobs_job_ok c"
    "jr_byKey ?r (jobs_key c) = Some i" by simp_all
next
  fix k i assume k: "jr_byKey ?r k = Some i"
  show "\<exists>c. jr_byID ?r i = Some c \<and> jobs_key c = k"
  proof (cases "k = jobs_key job")
    case True
    with k show ?thesis by simp
  next
    case False
    with k have "jr_byKey r k = Some i" by simp
    then obtain c where c: "jr_byID r i = Some c" "jobs_key c = k"
      using jobs_table_keyD [OF ok] by blast
    then have "i \<noteq> jr_nextID r" using jobs_table_jobD [OF ok c(1)] by auto
    with c show ?thesis by simp
  qed
qed

lemma jobs_CreateOrGet_inv: "jobs_inv r \<Longrightarrow> jobs_inv (snd (jobs_CreateOrGet now inp r))"
proof -
  assume inv: "jobs_inv r"
  then have ok: "jobs_table_ok r" by (simp add: jobs_inv_def)
  from ok show ?thesis
  proof (cases rule: jobs_CreateOrGet_cases [where inp = inp and now = now])
    case (existing job)
    with inv show ?thesis by simp
  next
    case created
    have "jobs_table_ok (snd (jobs_CreateOrGet now inp r))"
      using jobs_create_table_ok [OF ok, of "jobs_newJob now (jr_nextID r) inp"] created by simp
    with inv created show ?thesis
      by (auto simp: jobs_inv_def jobs_log_ok_def jobs_workers_ok_def)
  qed
qed

lemma jobs_CreateOrGet_le: "jobs_inv r \<Longrightarrow> jobs_le r (snd (jobs_CreateOrGet now inp r))"
proof -
  assume inv: "jobs_inv r"
  then have ok: "jobs_table_ok r" by (simp add: jobs_inv_def)
  from ok show ?thesis
    by (cases rule: jobs_CreateOrGet_cases [where inp = inp and now = now])
      (auto simp: jobs_le_def map_le_def jobs_ListEvents_def)
qed

text \<open>Appending to the log of one job: the new event is the newest of the whole repository.\<close>

lemma jobs_AppendEvent_cases:
  obtains (missing) "jr_byID r jid = None"
      "jobs_AppendEvent now jid it lv ty m d r = (Inl (JobNotFound jid), r)"
  | (appended) ev where "jid \<in> dom (jr_byID r)" "ev_ID ev = jr_nextEvent r" "ev_JobID ev = jid"
      "ev_ItemID ev = it" "ev_EventLevel ev = lv" "ev_EventType ev = ty" "ev_Message ev = m"
      "ev_Detail ev = d" "ev_TS ev = now"
      "jobs_AppendEvent now jid it lv ty m d r = (Inr ev,
         r\<lparr>jr_nextEvent := jr_nextEvent r + 1,
           jr_events := (jr_events r)(jid \<mapsto> jobs_ListEvents jid r @ [ev])\<rparr>)"
proof (cases "jr_byID r jid")
  case None
  then show ?thesis by (intro missing) (simp_all add: jobs_AppendEvent_def)
next
  case (Some job)
  then show ?thesis
    by (intro appended [of "\<lparr>ev_ID = jr_nextEvent r, ev_JobID = jid, ev_ItemID = it,
        ev_EventLevel = lv, ev_EventType = ty, ev_Message = m, ev_Detail = d, ev_TS = now\<rparr>"])
      (auto simp: jobs_AppendEvent_def jobs_ListEvents_def Let_def)
qed

lemma jobs_logD:
  assumes "jobs_log_ok r" and "e \<in> set (jobs_ListEvents jid r)"
  shows "ev_JobID e = jid" and "1 \<le> ev_ID e" and "ev_ID e < jr_nextEvent r"
proof -
  from assms(2) obtain es where "jr_events r jid = Some es" "e \<in> set es"
    by (cases "jr_events r jid") (auto simp: jobs_ListEvents_def)
  then have "ev_JobID e = jid \<and> 1 \<le> ev_ID e \<and> ev_ID e < jr_nextEvent r"
    using assms(1) unfolding jobs_log_ok_def by blast
  then show "ev_JobID e = jid" "1 \<le> ev_ID e" "ev_ID e < jr_nextEvent r" by simp_all
qed

lemma jobs_log_sorted: "jobs_log_ok r \<Longrightarrow> sorted_wrt (<) (map ev_ID (jobs_ListEvents jid r))"
  by (auto simp: jobs_log_ok_def jobs_ListEvents_def split: option.splits)

lemma jobs_log_disjoint:
  assumes "jobs_log_ok r" and "jid \<noteq> jid'"
  shows "ev_ID ` set (jobs_ListEvents jid r) \<inter> ev_ID ` set (jobs_ListEvents jid' r) = {}"
proof (cases "jr_events r jid"; cases "jr_events r jid'")
  fix es es' assume "jr_events r jid = Some es" "jr_events r jid' = Some es'"
  moreover then have "ev_ID ` set es \<inter> ev_ID ` set es' = {}"
    using assms unfolding jobs_log_ok_def by blast
  ultimately show ?thesis by (simp add: jobs_ListEvents_def)
qed (simp_all add: jobs_ListEvents_def)

text \<open>The log invariant, said of the lists of events alone.\<close>

lemma jobs_log_okI:
  assumes "1 \<le> jr_nextEvent r"
    and "dom (jr_events r) \<subseteq> dom (jr_byID r)"
    and "\<And>jid. sorted_wrt (<) (map ev_ID (jobs_ListEvents jid r))"
    and "\<And>jid e. e \<in> set (jobs_ListEvents jid r) \<Longrightarrow>
           ev_JobID e = jid \<and> 1 \<le> ev_ID e \<and> ev_ID e < jr_nextEvent r"
    and "\<And>jid jid'. jid \<noteq> jid' \<Longrightarrow>
           ev_ID ` set (jobs_ListEvents jid r) \<inter> ev_ID ` set (jobs_ListEvents jid' r) = {}"
  shows "jobs_log_ok r"
proof -
  have list: "jobs_ListEvents jid r = es" if "jr_events r jid = Some es" for jid es
    using that by (simp add: jobs_ListEvents_def)
  show ?thesis unfolding jobs_log_ok_def
  proof (intro conjI allI impI)
    show "1 \<le> jr_nextEvent r" by (rule assms(1))
  next
    fix jid es assume es: "jr_events r jid = Some es"
    show "jid \<in> dom (jr_byID r)" using assms(2) es by blast
    show "sorted_wrt (<) (map ev_ID es)" using assms(3) [of jid] list [OF es] by simp
    show "\<forall>e\<in>set es. ev_JobID e = jid \<and> 1 \<le> ev_ID e \<and> ev_ID e < jr_nextEvent r"
      using assms(4) [of _ jid] list [OF es] by simp
  next
    fix jid jid' es es'
    assume "jr_events r jid = Some es" "jr_events r jid' = Some es'" "jid \<noteq> jid'"
    then show "ev_ID ` set es \<inter> ev_ID ` set es' = {}"
      using assms(5) [of jid jid'] list by metis
  qed
qed

lemma jobs_AppendEvent_inv: "jobs_inv r \<Longrightarrow> jobs_inv (snd (jobs_AppendEvent now jid it lv ty m d r))"
proof -
  assume inv: "jobs_inv r"
  then have log: "jobs_log_ok r" by (simp add: jobs_inv_def)
  show ?thesis
  proof (cases rule: jobs_AppendEvent_cases [of r jid now it lv ty m d])
    case missing
    with inv show ?thesis by simp
  next
    case (appended ev)
    let ?r = "snd (jobs_AppendEvent now jid it lv ty m d r)"
    have lists: "jobs_ListEvents i ?r = (if i = jid then jobs_ListEvents jid r @ [ev] else jobs_ListEvents i r)" for i
      using appended by (simp add: jobs_ListEvents_def)
    have next': "jr_nextEvent ?r = jr_nextEvent r + 1" using appended by simp
    have "jobs_log_ok ?r"
    proof (rule jobs_log_okI)
      show "1 \<le> jr_nextEvent ?r" using log next' by (simp add: jobs_log_ok_def)
      show "dom (jr_events ?r) \<subseteq> dom (jr_byID ?r)"
        using log appended by (auto simp: jobs_log_ok_def)
      show "sorted_wrt (<) (map ev_ID (jobs_ListEvents i ?r))" for i
        using jobs_log_sorted [OF log] jobs_logD(3) [OF log, of _ jid] appended(2)
        by (auto simp: lists sorted_wrt_append)
      show "ev_JobID e = i \<and> 1 \<le> ev_ID e \<and> ev_ID e < jr_nextEvent ?r"
        if "e \<in> set (jobs_ListEvents i ?r)" for i e
      proof -
        have "e \<in> set (jobs_ListEvents i r) \<or> (i = jid \<and> e = ev)"
          using that by (auto simp: lists split: if_splits)
        moreover have "1 \<le> jr_nextEvent r" using log by (simp add: jobs_log_ok_def)
        ultimately show ?thesis using jobs_logD [OF log, of e i] appended(2,3) next' by auto
      qed
      show "ev_ID ` set (jobs_ListEvents i ?r) \<inter> ev_ID ` set (jobs_ListEvents i' ?r) = {}"
        if "i \<noteq> i'" for i i'
      proof -
        have fresh: "ev_ID ev \<notin> ev_ID ` set (jobs_ListEvents k r)" for k
          using jobs_logD(3) [OF log, of _ k] appended(2) by (metis imageE less_irrefl)
        show ?thesis using that jobs_log_disjoint [OF log that] fresh
          by (cases "i = jid"; cases "i' = jid") (simp_all add: lists)
      qed
    qed
    with inv appended show ?thesis by (simp add: jobs_inv_def jobs_table_ok_def jobs_workers_ok_def)
  qed
qed

lemma jobs_AppendEvent_le: "jobs_le r (snd (jobs_AppendEvent now jid it lv ty m d r))"
  by (cases rule: jobs_AppendEvent_cases [of r jid now it lv ty m d])
    (auto simp: jobs_le_def jobs_ListEvents_def)

lemma jobs_UpsertWorker_inv: "jobs_inv r \<Longrightarrow> jobs_inv (snd (jobs_UpsertWorker now inp r))"
  by (auto simp: jobs_inv_def jobs_table_ok_def jobs_log_ok_def jobs_workers_ok_def
      jobs_UpsertWorker_def Let_def split: option.splits)

lemma jobs_UpsertWorker_le: "jobs_le r (snd (jobs_UpsertWorker now inp r))"
  by (auto simp: jobs_le_def jobs_UpsertWorker_def jobs_ListEvents_def Let_def)


subsection \<open>The repository is a progress machine\<close>

lemma jobs_exec_inv: "jobs_inv r \<Longrightarrow> jobs_inv (jobs_exec r p)"
  by (cases p) (simp_all add: jobs_mutators jobs_with_inv jobs_bodies jobs_CreateOrGet_inv
      jobs_AppendEvent_inv jobs_UpsertWorker_inv)

lemma jobs_exec_le: "jobs_inv r \<Longrightarrow> jobs_le r (jobs_exec r p)"
  by (cases p) (simp_all add: jobs_mutators jobs_with_le jobs_bodies jobs_CreateOrGet_le
      jobs_AppendEvent_le jobs_UpsertWorker_le)

lemma jobs_empty_inv: "jobs_inv jobs_NewInMemoryRepository"
  by (simp add: jobs_inv_def jobs_table_ok_def jobs_log_ok_def jobs_workers_ok_def
      jobs_NewInMemoryRepository_def)

interpretation jobs_machine: progress_machine "\<lambda>r. r = jobs_NewInMemoryRepository" jobs_exec jobs_inv jobs_le
  by unfold_locales (auto intro: jobs_empty_inv jobs_exec_inv jobs_exec_le jobs_le_trans)

text \<open>The repository a server has after a history of operations.\<close>

definition jobs_after :: "jobs_op list \<Rightarrow> jobs_Repo" where
  "jobs_after ps = foldl jobs_exec jobs_NewInMemoryRepository ps"

lemma jobs_after_inv [simp]: "jobs_inv (jobs_after ps)"
  unfolding jobs_after_def by (rule jobs_machine.run_inv) simp

lemma jobs_after_le: "jobs_le (jobs_after ps) (jobs_after (ps @ qs))"
  unfolding jobs_after_def by (rule jobs_machine.run_le_later) (rule jobs_empty_inv)

lemma jobs_le_job:
  "jobs_le r r' \<Longrightarrow> jr_byID r jid = Some a \<Longrightarrow> \<exists>b. jr_byID r' jid = Some b \<and> jobs_evolves a b"
  by (simp add: jobs_le_def)

lemma jobs_le_key: "jobs_le r r' \<Longrightarrow> jr_byKey r k = Some jid \<Longrightarrow> jr_byKey r' k = Some jid"
  unfolding jobs_le_def map_le_def by (metis domI)

lemma jobs_evolvesD:
  assumes "jobs_evolves a b"
  shows "jobs_edge\<^sup>*\<^sup>* (job_Status a) (job_Status b)" and "job_ID b = job_ID a"
    and "job_FinishedAt a \<noteq> None \<Longrightarrow> job_FinishedAt b \<noteq> None"
    and "job_RetryCount a \<le> job_RetryCount b"
  using assms by (simp_all add: jobs_evolves_def)

subsection \<open>Properties\<close>

text \<open>
  After any history of repository operations the store is consistent: the two indexes
  agree, identifiers are fresh and positive, every job has a known status with the stamps
  that status calls for, and the event logs hold increasing, pairwise distinct event IDs.
\<close>

theorem jobs_repository_consistent: "jobs_inv (jobs_after ps)"
  unfolding jobs_after_def by (rule jobs_machine.run_inv) simp

text \<open>
  What each operation is allowed to do to the status of a job, written down apart from the
  code's table: the job the operation is about, the status it asks for, and the status it
  counts the job as having (\<open>Complete\<close> counts a waiting job as running). The request is
  granted when the two are equal or joined by an edge of the lifecycle graph.
\<close>

fun jobs_target :: "jobs_op \<Rightarrow> int option" where
  "jobs_target (OpCreateOrGet now inp) = None"
| "jobs_target (OpUpdateStatus now jid st) = Some jid"
| "jobs_target (OpClaim now jid w l) = Some jid"
| "jobs_target (OpTouchLease jid w l) = Some jid"
| "jobs_target (OpUpdateProgress now jid w t s f) = Some jid"
| "jobs_target (OpComplete now jid w st t s f) = Some jid"
| "jobs_target (OpSetLease jid l) = Some jid"
| "jobs_target (OpIncrementRetryCount jid) = Some jid"
| "jobs_target (OpMarkRetryWaiting jid t) = Some jid"
| "jobs_target (OpMarkFailed now jid c m) = Some jid"
| "jobs_target (OpStoreResultRef jid d) = Some jid"
| "jobs_target (OpAppendEvent now jid it l t m d) = None"
| "jobs_target (OpUpsertWorker now inp) = None"

fun jobs_wanted :: "jobs_op \<Rightarrow> string \<Rightarrow> string" where
  "jobs_wanted (OpUpdateStatus now jid st') st = st'"
| "jobs_wanted (OpClaim now jid w l) st = (if st = jobs_StatusQueued then jobs_StatusRunning else st)"
| "jobs_wanted (OpUpdateProgress now jid w t s f) st = jobs_StatusRunning"
| "jobs_wanted (OpComplete now jid w st' t s f) st = st'"
| "jobs_wanted (OpMarkRetryWaiting jid t) st = jobs_StatusRetryWaiting"
| "jobs_wanted (OpMarkFailed now jid c m) st = jobs_StatusFailed"
| "jobs_wanted p st = st"

fun jobs_counted_as :: "jobs_op \<Rightarrow> string \<Rightarrow> string" where
  "jobs_counted_as (OpComplete now jid w st' t s f) st =
     (if st \<in> {jobs_StatusQueued, jobs_StatusRetryWaiting} then jobs_StatusRunning else st)"
| "jobs_counted_as p st = st"

definition jobs_granted :: "jobs_op \<Rightarrow> string \<Rightarrow> bool" where
  "jobs_granted p st \<longleftrightarrow>
     jobs_wanted p st = jobs_counted_as p st \<or> jobs_edge (jobs_counted_as p st) (jobs_wanted p st)"

lemmas jobs_spec_defs = jobs_status_body_def jobs_claim_body_def jobs_progress_body_def
  jobs_complete_body_def jobs_retry_body_def jobs_failed_body_def jobs_result_body_def

lemma jobs_CanTransition_granted:
  "jobs_CanTransition st st' = (if st' = st \<or> jobs_edge st st' then Inr () else Inl (InvalidTransition st st'))"
  using jobs_CanTransition_iff [of st st'] jobs_CanTransition_error [of st st'] by auto

lemma jobs_with_lookup:
  assumes "jr_byID r jid = Some a"
  shows "jr_byID (snd (jobs_with i body r)) jid =
           (if i = jid then (case body a of Inl e \<Rightarrow> Some a | Inr b \<Rightarrow> Some b) else Some a)"
  using assms by (cases rule: jobs_with_cases [of r i body]) (auto split: sum.splits)

lemma jobs_next_job:
  assumes "jr_byID r jid = Some a" and "jobs_target p = Some jid"
  shows "\<exists>b. jr_byID (jobs_exec r p) jid = Some b \<and>
      (jobs_granted p (job_Status a) \<longrightarrow> job_Status b = jobs_wanted p (job_Status a)) \<and>
      (\<not> jobs_granted p (job_Status a) \<longrightarrow> b = a)"
  using assms(2)
  by (cases p) (simp_all add: jobs_mutators jobs_with_lookup [OF assms(1)] jobs_spec_defs
      jobs_granted_def jobs_CanTransition_granted Let_def)

lemma jobs_next_other:
  assumes ok: "jobs_table_ok r" and a: "jr_byID r jid = Some a" and "jobs_target p \<noteq> Some jid"
  shows "jr_byID (jobs_exec r p) jid = Some a"
proof (cases p)
  case (OpCreateOrGet now inp)
  from ok show ?thesis
    by (cases rule: jobs_CreateOrGet_cases [where inp = inp and now = now])
      (use a OpCreateOrGet in auto)
next
  case (OpAppendEvent now i it l t m d)
  then show ?thesis using a by (cases rule: jobs_AppendEvent_cases [of r i now it l t m d]) auto
qed (use assms in \<open>simp_all add: jobs_mutators jobs_with_lookup [OF a] jobs_UpsertWorker_def Let_def\<close>)

text \<open>
  C2. One operation after any history, on any stored job. An operation on another job, a
  creation, an event or a registration leaves the job as it is. An operation on the job
  changes its status to the one asked for exactly when the graph grants it - the same status
  again or one edge \<open>queued\<close> to \<open>running\<close> or \<open>canceled\<close>, \<open>running\<close> to a final status or
  \<open>retry_waiting\<close>, \<open>retry_waiting\<close> to \<open>queued\<close>, where \<open>Complete\<close> counts a waiting job as
  running - and otherwise leaves the whole job as it is.
\<close>

theorem jobs_lifecycle_respected:
  assumes "jr_byID (jobs_after ps) jid = Some a"
  shows "\<exists>b. jr_byID (jobs_after (ps @ [p])) jid = Some b \<and> jobs_evolves a b \<and>
           (if jobs_target p \<noteq> Some jid then b = a
            else if jobs_granted p (job_Status a) then job_Status b = jobs_wanted p (job_Status a)
            else b = a)"
proof -
  have step: "jobs_after (ps @ [p]) = jobs_exec (jobs_after ps) p" by (simp add: jobs_after_def)
  have ok: "jobs_table_ok (jobs_after ps)" using jobs_after_inv jobs_inv_def by blast
  obtain b where b: "jr_byID (jobs_after (ps @ [p])) jid = Some b" "jobs_evolves a b"
    using jobs_le_job [OF jobs_after_le assms] by blast
  then show ?thesis
    using jobs_next_other [OF ok assms, of p] jobs_next_job [OF assms, of p] step by auto
qed

text \<open>
  C3. A terminal status is final: no later operation, whatever its arguments, gives the job
  another status or clears its finish time.
\<close>

theorem jobs_terminal_is_final:
  assumes "jr_byID (jobs_after ps) jid = Some a" and "jobs_terminal (job_Status a)"
  shows "\<exists>b. jr_byID (jobs_after (ps @ qs)) jid = Some b \<and> job_Status b = job_Status a \<and>
           job_FinishedAt b \<noteq> None"
proof -
  obtain b where b: "jr_byID (jobs_after (ps @ qs)) jid = Some b" "jobs_evolves a b"
    using jobs_le_job [OF jobs_after_le assms(1)] by blast
  then have "job_Status b = job_Status a"
    using assms(2) jobs_evolvesD(1) jobs_path_from_terminal by blast
  moreover have "job_FinishedAt a \<noteq> None"
    using jobs_inv_job [OF jobs_after_inv assms(1)] assms(2) by (simp add: jobs_job_ok_def)
  ultimately show ?thesis using b jobs_evolvesD(3) by blast
qed

text \<open>
  C4. Creation is idempotent for the whole life of the repository: once a request has created
  a job, any later request with the same idempotency tuple finds that job, creates nothing and
  leaves the repository as it was.
\<close>

theorem jobs_create_idempotent:
  assumes "fst (jobs_CreateOrGet now inp (jobs_after ps)) = Inr (job, created)"
    and "jobs_idempotencyKey inp' = jobs_idempotencyKey inp"
  shows "\<exists>later. jobs_CreateOrGet now' inp' (jobs_after (ps @ OpCreateOrGet now inp # qs)) =
             (Inr (later, False), jobs_after (ps @ OpCreateOrGet now inp # qs)) \<and>
           job_ID later = job_ID job \<and> jobs_evolves job later"
proof -
  let ?r = "jobs_after ps" and ?r' = "jobs_after (ps @ OpCreateOrGet now inp # qs)"
  let ?s = "snd (jobs_CreateOrGet now inp ?r)"
  have ok: "jobs_table_ok ?r" and ok': "jobs_table_ok ?r'"
    using jobs_after_inv jobs_inv_def by blast+
  have s: "?s = jobs_after (ps @ [OpCreateOrGet now inp])" by (simp add: jobs_after_def)
  have le: "jobs_le ?s ?r'"
    unfolding s using jobs_after_le [of "ps @ [OpCreateOrGet now inp]" qs] by simp
  from ok have stored: "jr_byKey ?s (jobs_idempotencyKey inp) = Some (job_ID job) \<and>
      jr_byID ?s (job_ID job) = Some job"
    by (cases rule: jobs_CreateOrGet_cases [where inp = inp and now = now]) (use assms(1) in auto)
  have key: "jr_byKey ?r' (jobs_idempotencyKey inp') = Some (job_ID job)"
    using stored assms(2) jobs_le_key [OF le] by simp
  obtain b where b: "jr_byID ?r' (job_ID job) = Some b" "jobs_evolves job b"
    using stored jobs_le_job [OF le] by blast
  moreover have "job_ID b = job_ID job" using b(2) by (rule jobs_evolvesD)
  ultimately show ?thesis using key
    by (intro exI [of _ b]) (simp add: jobs_CreateOrGet_def)
qed

text \<open>
  The event log is append-only: what a reader saw of a job's events is a prefix of what
  any later reader sees, and the IDs in it increase strictly.
\<close>

theorem jobs_events_append_only:
  "(\<exists>new. jobs_ListEvents jid (jobs_after (ps @ qs)) = jobs_ListEvents jid (jobs_after ps) @ new) \<and>
   sorted_wrt (<) (map ev_ID (jobs_ListEvents jid (jobs_after ps)))"
proof
  show "\<exists>new. jobs_ListEvents jid (jobs_after (ps @ qs)) = jobs_ListEvents jid (jobs_after ps) @ new"
    using jobs_after_le by (simp add: jobs_le_def)
  show "sorted_wrt (<) (map ev_ID (jobs_ListEvents jid (jobs_after ps)))"
    by (rule jobs_log_sorted) (use jobs_after_inv jobs_inv_def in blast)
qed

text \<open>A request for the examples, with a given job type and caller key.\<close>

definition jobs_req :: "string \<Rightarrow> string \<Rightarrow> jobs_CreateJobInput" where
  "jobs_req typ key =
     \<lparr>cj_ProjectID = 1, cj_DatasetID = 1, cj_SnapshotID = 1, cj_JobType = typ,
      cj_RequiredResourceType = ''cpu'', cj_RequiredCapabilities = [''x''],
      cj_IdempotencyKey = key, cj_Payload = None\<rparr>"

text \<open>
  The idempotency key separates requests as intended when the job types hold no colon:
  equal keys then mean equal project, job type and caller key.
\<close>

theorem jobs_key_separates:
  assumes "CHR '':'' \<notin> set (cj_JobType x)" and "CHR '':'' \<notin> set (cj_JobType y)"
  shows "jobs_idempotencyKey x = jobs_idempotencyKey y \<longleftrightarrow>
           cj_ProjectID x = cj_ProjectID y \<and> cj_JobType x = cj_JobType y \<and>
           cj_IdempotencyKey x = cj_IdempotencyKey y"
proof -
  let ?c = "CHR '':''"
  show ?thesis
  proof
    assume "jobs_idempotencyKey x = jobs_idempotencyKey y"
    then have e: "show_int (cj_ProjectID x) @ ?c # (cj_JobType x @ ?c # cj_IdempotencyKey x) =
        show_int (cj_ProjectID y) @ ?c # (cj_JobType y @ ?c # cj_IdempotencyKey y)"
      by (simp add: jobs_idempotencyKey_def)
    from split_at_separator [OF this]
    have p: "cj_ProjectID x = cj_ProjectID y"
      and rest: "cj_JobType x @ ?c # cj_IdempotencyKey x = cj_JobType y @ ?c # cj_IdempotencyKey y"
      by simp_all
    from split_at_separator [OF rest assms] p
    show "cj_ProjectID x = cj_ProjectID y \<and> cj_JobType x = cj_JobType y \<and>
        cj_IdempotencyKey x = cj_IdempotencyKey y" by simp
  qed (simp add: jobs_idempotencyKey_def)
qed

text \<open>
  Without that condition it does not: two requests of one project with different job
  types and different caller keys can share a key, and the second one is answered with the
  job of the first.
\<close>

theorem jobs_key_collision:
  "\<exists>job. fst (jobs_CreateOrGet 2 (jobs_req ''export:coco'' ''k1'')
           (jobs_after [OpCreateOrGet 1 (jobs_req ''export'' ''coco:k1'')])) = Inr (job, False) \<and>
         job_JobType job = ''export'' \<and> job_IdempotencyKey job = ''coco:k1''"
  by (simp add: jobs_after_def jobs_CreateOrGet_def jobs_idempotencyKey_def jobs_req_def
      jobs_NewInMemoryRepository_def jobs_newJob_def Let_def)


subsection \<open>Witnesses\<close>

text \<open>One job, created at time 1, claimed at 2 and completed at 9.\<close>

definition jobs_sample :: "jobs_op list" where
  "jobs_sample = [OpCreateOrGet 1 (jobs_req ''export'' ''k'')]"

definition jobs_sample_done :: "jobs_op list" where
  "jobs_sample_done = jobs_sample @
     [OpClaim 2 1 ''w'' 32, OpComplete 9 1 ''w'' jobs_StatusSucceeded 3 3 0]"

lemma jobs_sample_job: "jr_byID (jobs_after jobs_sample) 1 = Some (jobs_newJob 1 1 (jobs_req ''export'' ''k''))"
  by (simp add: jobs_after_def jobs_sample_def jobs_CreateOrGet_def Let_def
      jobs_NewInMemoryRepository_def)

lemma jobs_CanTransition_running [simp]:
  "jobs_CanTransition jobs_StatusRunning jobs_StatusSucceeded = Inr ()"
  by (simp add: jobs_CanTransition_iff)

lemma jobs_sample_done_job:
  "\<exists>job. jr_byID (jobs_after jobs_sample_done) 1 = Some job \<and> job_Status job = jobs_StatusSucceeded"
  by (simp add: jobs_after_def jobs_sample_def jobs_sample_done_def jobs_CreateOrGet_def Let_def
      jobs_NewInMemoryRepository_def jobs_Claim_def jobs_Complete_def jobs_with_def
      jobs_claim_body_def jobs_complete_body_def)

theorem jobs_lifecycle_respected_witness:
  "(\<exists>b. jr_byID (jobs_after (jobs_sample @ [OpUpdateStatus 2 1 jobs_StatusCanceled])) 1 = Some b \<and>
        job_Status b = jobs_StatusCanceled) \<and>
   jr_byID (jobs_after (jobs_sample @ [OpUpdateStatus 2 1 jobs_StatusSucceeded])) 1 =
     Some (jobs_newJob 1 1 (jobs_req ''export'' ''k''))"
  using jobs_lifecycle_respected [OF jobs_sample_job, of "OpUpdateStatus 2 1 jobs_StatusCanceled"]
    jobs_lifecycle_respected [OF jobs_sample_job, of "OpUpdateStatus 2 1 jobs_StatusSucceeded"]
  by (auto simp: jobs_granted_def)

theorem jobs_terminal_is_final_witness:
  "\<exists>b. jr_byID (jobs_after (jobs_sample_done @ [OpClaim 10 1 ''late'' 40])) 1 = Some b \<and>
       job_Status b = jobs_StatusSucceeded"
proof -
  obtain job where job: "jr_byID (jobs_after jobs_sample_done) 1 = Some job"
    "job_Status job = jobs_StatusSucceeded"
    using jobs_sample_done_job by blast
  then show ?thesis
    using jobs_terminal_is_final [OF job(1), of "[OpClaim 10 1 ''late'' 40]"] by auto
qed

theorem jobs_create_idempotent_witness:
  "\<exists>later. fst (jobs_CreateOrGet 20 (jobs_req ''export'' ''k'')
      (jobs_after ([] @ OpCreateOrGet 1 (jobs_req ''export'' ''k'') # [OpClaim 2 1 ''w'' 32]))) = Inr (later, False) \<and>
      job_ID later = 1"
proof -
  have new: "fst (jobs_CreateOrGet 1 (jobs_req ''export'' ''k'') (jobs_after [])) =
      Inr (jobs_newJob 1 1 (jobs_req ''export'' ''k''), True)"
    by (simp add: jobs_after_def jobs_CreateOrGet_def Let_def jobs_NewInMemoryRepository_def)
  show ?thesis
    using jobs_create_idempotent [OF new refl, of 20 "[OpClaim 2 1 ''w'' 32]"] by auto
qed

theorem jobs_key_separates_witness:
  "jobs_idempotencyKey (jobs_req ''export'' ''k1'') \<noteq> jobs_idempotencyKey (jobs_req ''export'' ''k2'')"
proof -
  have h: "CHR '':'' \<notin> set (cj_JobType (jobs_req ''export'' k))" for k
    by (simp add: jobs_req_def)
  show ?thesis using jobs_key_separates [OF h h] by (simp add: jobs_req_def)
qed

end
