(* ===== verification/Metrics.thy ===== *)
theory Metrics
  imports Go_Prelude
begin

section \<open>Observability: the metric counters\<close>

text \<open>
  The counters of \<open>internal/observability/metrics.go\<close> that the components update. A receiver
  that is \<open>nil\<close> makes every method a no-op, so the components hold an \<open>obs_Metrics option\<close>.
  A missing key of a Go counter map reads as zero. The sums of seconds are exact reals.
\<close>

record obs_aggregate =
  agg_SumSeconds :: real
  agg_Count :: int

record obs_Metrics =
  met_httpRequests :: "(string \<times> string \<times> string) \<rightharpoonup> int"
  met_httpDurations :: "(string \<times> string) \<rightharpoonup> obs_aggregate"
  met_jobCreations :: "string \<rightharpoonup> int"
  met_jobCompletions :: "(string \<times> string) \<rightharpoonup> int"
  met_jobDurations :: "(string \<times> string) \<rightharpoonup> obs_aggregate"
  met_leaseRecoveries :: "string \<rightharpoonup> int"
  met_artifactBuildOutcomes :: "string \<rightharpoonup> int"

definition obs_NewMetrics :: obs_Metrics where
  "obs_NewMetrics =
     \<lparr>met_httpRequests = Map.empty, met_httpDurations = Map.empty, met_jobCreations = Map.empty,
      met_jobCompletions = Map.empty, met_jobDurations = Map.empty,
      met_leaseRecoveries = Map.empty, met_artifactBuildOutcomes = Map.empty\<rparr>"

definition obs_count :: "('k \<rightharpoonup> int) \<Rightarrow> 'k \<Rightarrow> int" where
  "obs_count m k = (case m k of None \<Rightarrow> 0 | Some n \<Rightarrow> n)"

definition obs_bump :: "'k \<Rightarrow> ('k \<rightharpoonup> int) \<Rightarrow> ('k \<rightharpoonup> int)" where
  "obs_bump k m = m(k \<mapsto> obs_count m k + 1)"

definition duration_seconds :: "duration \<Rightarrow> real" where
  "duration_seconds d = real_of_int d / 1000000000"

definition obs_observe :: "'k \<Rightarrow> duration \<Rightarrow> ('k \<rightharpoonup> obs_aggregate) \<Rightarrow> ('k \<rightharpoonup> obs_aggregate)" where
  "obs_observe k d m =
     (let a = (case m k of None \<Rightarrow> \<lparr>agg_SumSeconds = 0, agg_Count = 0\<rparr> | Some a \<Rightarrow> a)
      in m(k \<mapsto> a\<lparr>agg_Count := agg_Count a + 1,
                   agg_SumSeconds := agg_SumSeconds a + duration_seconds d\<rparr>))"

definition obs_label :: "string \<Rightarrow> string \<Rightarrow> string" where
  "obs_label fallback s = (let t = trim_space s in if t = [] then fallback else t)"

definition obs_statusClass :: "int \<Rightarrow> string" where
  "obs_statusClass status =
     (if 100 \<le> status \<and> status < 200 then ''1xx''
      else if 200 \<le> status \<and> status < 300 then ''2xx''
      else if 300 \<le> status \<and> status < 400 then ''3xx''
      else if 400 \<le> status \<and> status < 500 then ''4xx''
      else if 500 \<le> status \<and> status < 600 then ''5xx''
      else ''unknown'')"

definition obs_ObserveHTTPRequest ::
  "string \<Rightarrow> string \<Rightarrow> int \<Rightarrow> duration \<Rightarrow> obs_Metrics option \<Rightarrow> obs_Metrics option" where
  "obs_ObserveHTTPRequest rte mth status d m =
     map_option (\<lambda>m.
       let rte' = obs_label ''/'' rte; mth' = obs_label ''GET'' mth in
       m\<lparr>met_httpRequests := obs_bump (mth', rte', obs_statusClass status) (met_httpRequests m),
         met_httpDurations := obs_observe (mth', rte') d (met_httpDurations m)\<rparr>) m"

definition obs_IncJobCreated :: "string \<Rightarrow> obs_Metrics option \<Rightarrow> obs_Metrics option" where
  "obs_IncJobCreated jobType m =
     map_option (\<lambda>m. m\<lparr>met_jobCreations := obs_bump (obs_label ''unknown'' jobType) (met_jobCreations m)\<rparr>) m"

definition obs_ObserveJobCompleted ::
  "string \<Rightarrow> string \<Rightarrow> duration \<Rightarrow> obs_Metrics option \<Rightarrow> obs_Metrics option" where
  "obs_ObserveJobCompleted jobType status d m =
     map_option (\<lambda>m.
       let k = (obs_label ''unknown'' jobType, obs_label ''unknown'' status) in
       m\<lparr>met_jobCompletions := obs_bump k (met_jobCompletions m),
         met_jobDurations := obs_observe k d (met_jobDurations m)\<rparr>) m"

definition obs_IncLeaseRecovery :: "string \<Rightarrow> obs_Metrics option \<Rightarrow> obs_Metrics option" where
  "obs_IncLeaseRecovery jobType m =
     map_option (\<lambda>m. m\<lparr>met_leaseRecoveries := obs_bump (obs_label ''unknown'' jobType) (met_leaseRecoveries m)\<rparr>) m"

definition obs_IncArtifactBuildOutcome :: "string \<Rightarrow> obs_Metrics option \<Rightarrow> obs_Metrics option" where
  "obs_IncArtifactBuildOutcome status m =
     map_option (\<lambda>m. m\<lparr>met_artifactBuildOutcomes :=
       obs_bump (obs_label ''unknown'' status) (met_artifactBuildOutcomes m)\<rparr>) m"

lemma obs_count_bump [simp]: "obs_count (obs_bump k m) k' = obs_count m k' + (if k' = k then 1 else 0)"
  by (simp add: obs_count_def obs_bump_def)

end
