(* ===== verification/Job_Service.thy ===== *)
theory Job_Service
  imports Job_Lifecycle Metrics
begin

section \<open>Jobs: the service\<close>

text \<open>
  \<open>internal/jobs/service.go\<close> and \<open>dispatcher.go\<close> over the repository: job creation with its
  normalisation and dispatch, the worker callbacks, and the result references. The service
  record holds the repository, the dispatcher, the review sink and the metrics, each optional
  where the code checks for \<open>nil\<close>. The collaborators are arguments: \<open>pub\<close> publishes a payload
  on a lane (Redis in production), \<open>persist\<close> stores review candidates, \<open>decode\<close> is the JSON
  re-decoding of the candidate list. \<open>clk i\<close> is the \<open>i\<close>-th clock reading of the call.
\<close>

record ('d, 'v) jobs_Service =
  svc_repo :: jobs_Repo
  svc_dispatcher :: "'d option"
  svc_reviewSink :: "'v option"
  svc_metrics :: "obs_Metrics option"

type_synonym 'd jobs_publish = "string \<Rightarrow> obj \<Rightarrow> 'd \<Rightarrow> (string, unit, 'd) outcome"

definition jobs_on_repo ::
  "(jobs_Repo \<Rightarrow> 'a jobs_result) \<Rightarrow> ('d, 'v) jobs_Service \<Rightarrow> (jobs_error, 'a, ('d, 'v) jobs_Service) outcome" where
  "jobs_on_repo f s = (case f (svc_repo s) of (res, r) \<Rightarrow> (res, s\<lparr>svc_repo := r\<rparr>))"

subsection \<open>Dispatch\<close>

definition jobs_laneFor :: "string \<Rightarrow> string" where
  "jobs_laneFor resource =
     (if resource = ''gpu'' then ''jobs:gpu''
      else if resource = ''mixed'' then ''jobs:mixed''
      else ''jobs:cpu'')"

definition jobs_buildDispatchPayload :: "jobs_Job \<Rightarrow> obj" where
  "jobs_buildDispatchPayload job =
     [(''job_id'', GInt64 (job_ID job)), (''project_id'', GInt64 (job_ProjectID job)),
      (''dataset_id'', GInt64 (job_DatasetID job)), (''snapshot_id'', GInt64 (job_SnapshotID job)),
      (''job_type'', GStr (job_JobType job)),
      (''resource_lane'', GStr (jobs_laneFor (job_RequiredResourceType job))),
      (''required_resource_type'', GStr (job_RequiredResourceType job)),
      (''required_capabilities'', GStrs (job_RequiredCapabilities job)),
      (''payload'', (case job_Payload job of None \<Rightarrow> GNil | Some p \<Rightarrow> GObj p))]"

text \<open>\<open>InMemoryPublisher\<close>: the last lane and the items published so far.\<close>

record jobs_MemPublisher =
  mp_lastLane :: string
  mp_items :: "(string \<times> obj) list"

definition jobs_NewInMemoryPublisher :: jobs_MemPublisher where
  "jobs_NewInMemoryPublisher = \<lparr>mp_lastLane = [], mp_items = []\<rparr>"

definition jobs_MemPublish :: "jobs_MemPublisher jobs_publish" where
  "jobs_MemPublish lane payload p =
     (Inr (), p\<lparr>mp_lastLane := lane, mp_items := mp_items p @ [(lane, payload)]\<rparr>)"

text \<open>\<open>if s.dispatcher != nil { if err := s.dispatcher.Publish(...) ... }\<close>\<close>

definition jobs_dispatch ::
  "'d jobs_publish \<Rightarrow> jobs_Job \<Rightarrow> ('d, 'v) jobs_Service \<Rightarrow> (jobs_error, unit, ('d, 'v) jobs_Service) outcome" where
  "jobs_dispatch pub job s =
     (case svc_dispatcher s of
        None \<Rightarrow> (Inr (), s)
      | Some d \<Rightarrow>
          (case pub (jobs_laneFor (job_RequiredResourceType job)) (jobs_buildDispatchPayload job) d of
             (Inl e, d') \<Rightarrow> (Inl (ExternalError e), s\<lparr>svc_dispatcher := Some d'\<rparr>)
           | (Inr _, d') \<Rightarrow> (Inr (), s\<lparr>svc_dispatcher := Some d'\<rparr>)))"

subsection \<open>Normalisation of a request\<close>

definition jobs_defaultRequiredCapabilities :: "string \<Rightarrow> string list" where
  "jobs_defaultRequiredCapabilities jobType =
     (if jobType = ''artifact-package'' then [''artifact_packaging'']
      else if jobType = ''cleaning'' then [''rules_engine'', ''image_stats'']
      else if jobType = ''snapshot-import'' then [''snapshot_import'']
      else if jobType = ''video-extract'' then [''video_decode'']
      else if jobType = ''zero-shot'' then [''zero_shot_inference'']
      else [])"

definition jobs_allowedResourceTypes :: "string \<Rightarrow> string list" where
  "jobs_allowedResourceTypes jobType =
     (if jobType = ''artifact-package'' then [''cpu'']
      else if jobType = ''cleaning'' then [''cpu'', ''mixed'']
      else if jobType = ''snapshot-import'' then [''cpu'']
      else if jobType = ''video-extract'' then [''cpu'', ''mixed'']
      else if jobType = ''zero-shot'' then [''gpu'', ''mixed'']
      else [])"

definition jobs_defaultRequiredResourceType :: "string \<Rightarrow> string" where
  "jobs_defaultRequiredResourceType jobType = (if jobType = ''zero-shot'' then ''gpu'' else ''cpu'')"

definition jobs_normalizeRequiredResourceType :: "string \<Rightarrow> string \<Rightarrow> jobs_error + string" where
  "jobs_normalizeRequiredResourceType jobType raw =
     (let t = norm_token raw;
          rt = (if t = [] then jobs_defaultRequiredResourceType jobType else t);
          allowed = jobs_allowedResourceTypes jobType
      in if rt \<noteq> ''cpu'' \<and> rt \<noteq> ''gpu'' \<and> rt \<noteq> ''mixed'' then Inl (UnsupportedResourceType rt)
         else if 0 < length allowed \<and> rt \<notin> set allowed then Inl (ResourceTypeNotAllowed jobType rt)
         else Inr rt)"

text \<open>The loop over raw strings that drops blanks and repetitions; \<open>seen\<close> is the Go set.\<close>

fun jobs_dedup :: "string list \<Rightarrow> string list \<Rightarrow> string list" where
  "jobs_dedup seen [] = []"
| "jobs_dedup seen (raw # raws) =
     (let item = norm_token raw in
      if item = [] \<or> item \<in> set seen then jobs_dedup seen raws
      else item # jobs_dedup (item # seen) raws)"

definition jobs_normalizeRequiredCapabilities :: "string \<Rightarrow> string list \<Rightarrow> jobs_error + string list" where
  "jobs_normalizeRequiredCapabilities jobType raw =
     (let out = jobs_dedup [] raw;
          out' = (if out = [] then jobs_defaultRequiredCapabilities jobType else out)
      in if out' = [] then Inl CapabilitiesEmpty else Inr out')"

definition jobs_normalizeWorkerStrings :: "string list \<Rightarrow> string list" where
  "jobs_normalizeWorkerStrings raw = sort (jobs_dedup [] raw)"

subsection \<open>Creation\<close>

definition jobs_normalizeInput :: "jobs_CreateJobInput \<Rightarrow> jobs_error + jobs_CreateJobInput" where
  "jobs_normalizeInput inp =
     (let project = (if cj_ProjectID inp \<le> 0 then 1 else cj_ProjectID inp);
          jobType = norm_token (cj_JobType inp)
      in if jobType = [] then Inl JobTypeRequired
         else if cj_IdempotencyKey inp = [] then Inl IdempotencyKeyRequired
         else case jobs_normalizeRequiredResourceType jobType (cj_RequiredResourceType inp) of
                Inl e \<Rightarrow> Inl e
              | Inr rt \<Rightarrow>
                  (case jobs_normalizeRequiredCapabilities jobType (cj_RequiredCapabilities inp) of
                     Inl e \<Rightarrow> Inl e
                   | Inr caps \<Rightarrow>
                       Inr (inp\<lparr>cj_ProjectID := project, cj_JobType := jobType,
                                cj_RequiredResourceType := rt, cj_RequiredCapabilities := caps,
                                cj_Payload := Some (case cj_Payload inp of None \<Rightarrow> [] | Some p \<Rightarrow> p)\<rparr>)))"

definition jobs_CreateJob ::
  "'d jobs_publish \<Rightarrow> clock \<Rightarrow> jobs_CreateJobInput \<Rightarrow> ('d, 'v) jobs_Service \<Rightarrow>
     (jobs_error, jobs_Job, ('d, 'v) jobs_Service) outcome" where
  "jobs_CreateJob pub clk inp s =
     (case jobs_normalizeInput inp of
        Inl e \<Rightarrow> (Inl e, s)
      | Inr inp' \<Rightarrow>
          and_then (jobs_on_repo (jobs_CreateOrGet (clk 0) inp') s) (\<lambda>(job, created) s1.
            if \<not> created then (Inr job, s1)
            else
              and_then (jobs_on_repo (jobs_AppendEvent (clk 1) (job_ID job) None ''info''
                  ''dispatch_requested'' ''job queued for dispatch''
                  [(''job_type'', GStr (job_JobType job)),
                   (''required_resource_type'', GStr (job_RequiredResourceType job)),
                   (''required_capabilities'', GStrs (job_RequiredCapabilities job)),
                   (''resource_lane'', GStr (jobs_laneFor (job_RequiredResourceType job)))])
                  (s1\<lparr>svc_metrics := obs_IncJobCreated (job_JobType job) (svc_metrics s1)\<rparr>))
                (\<lambda>_ s2. and_then (jobs_dispatch pub job s2) (\<lambda>_ s3. (Inr job, s3)))))"

subsection \<open>Workers\<close>

definition jobs_RegisterWorker ::
  "clock \<Rightarrow> jobs_RegisterWorkerInput \<Rightarrow> ('d, 'v) jobs_Service \<Rightarrow>
     (jobs_error, jobs_Worker, ('d, 'v) jobs_Service) outcome" where
  "jobs_RegisterWorker clk inp s =
     (let workerID = trim_space (rw_WorkerID inp);
          lane = norm_token (rw_ResourceLane inp);
          jobTypes = jobs_normalizeWorkerStrings (rw_JobTypes inp)
      in if workerID = [] then (Inl RegisterWorkerIDRequired, s)
         else if lane \<noteq> ''jobs:cpu'' \<and> lane \<noteq> ''jobs:gpu'' \<and> lane \<noteq> ''jobs:mixed''
         then (Inl BadResourceLane, s)
         else if jobTypes = [] then (Inl JobTypesEmpty, s)
         else jobs_on_repo (jobs_UpsertWorker (clk 0)
                \<lparr>rw_WorkerID = workerID, rw_ResourceLane = lane,
                 rw_Capabilities = jobs_normalizeWorkerStrings (rw_Capabilities inp),
                 rw_JobTypes = jobTypes\<rparr>) s)"

definition jobs_ReportHeartbeat ::
  "clock \<Rightarrow> int \<Rightarrow> string \<Rightarrow> int \<Rightarrow> ('d, 'v) jobs_Service \<Rightarrow> (jobs_error, unit, ('d, 'v) jobs_Service) outcome" where
  "jobs_ReportHeartbeat clk jid workerID leaseSeconds s =
     (if workerID = [] then (Inl WorkerIDMissing, s)
      else
        let secs = (if leaseSeconds \<le> 0 then 30 else leaseSeconds);
            leaseUntil = clk 0 + wrap64 (secs * second)
        in case jobs_Get jid (svc_repo s) of
             None \<Rightarrow> (Inl (JobNotFound jid), s)
           | Some job \<Rightarrow>
               and_then
                 (if job_Status job = jobs_StatusRunning
                  then jobs_on_repo (jobs_TouchLease jid workerID leaseUntil) s
                  else jobs_on_repo (jobs_Claim (clk 1) jid workerID leaseUntil) s)
                 (\<lambda>_ s1. and_then
                   (jobs_on_repo (jobs_AppendEvent (clk 2) jid None ''info'' ''heartbeat'' ''worker heartbeat''
                      [(''worker_id'', GStr workerID), (''lease_seconds'', GInt secs)]) s1)
                   (\<lambda>_ s2. (Inr (), s2))))"

definition jobs_ReportProgress ::
  "clock \<Rightarrow> int \<Rightarrow> string \<Rightarrow> int \<Rightarrow> int \<Rightarrow> int \<Rightarrow> ('d, 'v) jobs_Service \<Rightarrow>
     (jobs_error, unit, ('d, 'v) jobs_Service) outcome" where
  "jobs_ReportProgress clk jid workerID tot succeeded failed s =
     (if workerID = [] then (Inl WorkerIDMissing, s)
      else if tot < 0 \<or> succeeded < 0 \<or> failed < 0 then (Inl ProgressCountersNegative, s)
      else and_then (jobs_on_repo (jobs_UpdateProgress (clk 0) jid workerID tot succeeded failed) s)
             (\<lambda>_ s1. and_then
               (jobs_on_repo (jobs_AppendEvent (clk 1) jid None ''info'' ''progress'' ''worker progress''
                  [(''worker_id'', GStr workerID), (''total_items'', GInt tot),
                   (''succeeded_items'', GInt succeeded), (''failed_items'', GInt failed)]) s1)
               (\<lambda>_ s2. (Inr (), s2))))"


subsection \<open>Result references\<close>

definition jobs_normalizeResultDetail :: "obj \<Rightarrow> string \<Rightarrow> string \<Rightarrow> obj" where
  "jobs_normalizeResultDetail detail defaultType collectionKey =
     (let out1 = (if jobs_stringValue (obj_get detail ''result_type'') = []
                  then obj_set ''result_type'' (GStr defaultType) detail else detail)
      in if jobs_int64Value (obj_get out1 ''result_count'') \<le> 0
         then (case obj_get out1 collectionKey of
                 GArr items \<Rightarrow> obj_set ''result_count'' (GInt (int (length items))) out1
               | _ \<Rightarrow> out1)
         else out1)"

definition jobs_normalizeResultRef :: "obj \<Rightarrow> obj" where
  "jobs_normalizeResultRef ref =
     (if ref = [] then []
      else jobs_normalizeResultDetail ref (jobs_stringValue (obj_get ref ''result_type'')) [])"

definition jobs_shouldSkipResultRefKey :: "string \<Rightarrow> bool" where
  "jobs_shouldSkipResultRefKey k \<longleftrightarrow>
     k \<in> {''worker_id'', ''status'', ''total_items'', ''succeeded_items'', ''failed_items'', ''lease_seconds''}"

definition jobs_extract_fields :: "obj \<Rightarrow> obj \<Rightarrow> obj" where
  "jobs_extract_fields out detail =
     foldl (\<lambda>acc (k, v).
       if k = ''result_type'' \<or> k = ''result_count'' \<or> jobs_shouldSkipResultRefKey k then acc
       else if \<not> Option.is_none (map_of acc k) then acc
       else obj_set k v acc) out detail"

definition jobs_extract_step :: "string \<times> obj option \<Rightarrow> jobs_Event \<Rightarrow> string \<times> obj option" where
  "jobs_extract_step st ev =
     (let detail = ev_Detail ev; currentType = jobs_stringValue (obj_get detail ''result_type'') in
      if detail = [] \<or> currentType = [] then st
      else
        let rt = (case snd st of None \<Rightarrow> currentType | Some _ \<Rightarrow> fst st);
            out = (case snd st of None \<Rightarrow> [(''result_type'', GStr currentType)] | Some m \<Rightarrow> m)
        in if currentType \<noteq> rt then (rt, Some out)
           else
             let cnt = jobs_int64Value (obj_get detail ''result_count'');
                 out1 = (if Option.is_none (map_of out ''result_count'') \<and> 0 < cnt
                         then obj_set ''result_count'' (GInt64 cnt) out else out)
             in (rt, Some (jobs_extract_fields out1 detail)))"

text \<open>The loop runs from the newest event to the oldest.\<close>

definition jobs_extractResultRef :: "jobs_Event list \<Rightarrow> obj" where
  "jobs_extractResultRef events =
     (case snd (foldl jobs_extract_step ([], None) (rev events)) of None \<Rightarrow> [] | Some m \<Rightarrow> m)"

text \<open>
  \<open>GetJob\<close> fills the result fields of the object it found, which is the stored object: the
  repository changes with it.
\<close>

definition jobs_with_result :: "obj \<Rightarrow> jobs_Job \<Rightarrow> jobs_Job" where
  "jobs_with_result ref job =
     job\<lparr>job_ResultRef := ref,
         job_ResultType := jobs_stringValue (obj_get ref ''result_type''),
         job_ResultCount := jobs_int64Value (obj_get ref ''result_count'')\<rparr>"

definition jobs_get_body :: "jobs_Event list \<Rightarrow> jobs_Job \<Rightarrow> jobs_error + jobs_Job" where
  "jobs_get_body events job =
     (if job_ResultRef job \<noteq> [] then Inr (jobs_with_result (job_ResultRef job) job)
      else if events = [] then Inr job
      else let ref = jobs_extractResultRef events
           in if ref \<noteq> [] then Inr (jobs_with_result ref job) else Inr job)"

definition jobs_GetJob ::
  "int \<Rightarrow> ('d, 'v) jobs_Service \<Rightarrow> jobs_Job option \<times> ('d, 'v) jobs_Service" where
  "jobs_GetJob jid s =
     (case jobs_on_repo (\<lambda>r. jobs_with jid (jobs_get_body (jobs_ListEvents jid r)) r) s of
        (Inl _, s') \<Rightarrow> (None, s')
      | (Inr job, s') \<Rightarrow> (Some job, s'))"

subsection \<open>Review candidates\<close>

record jobs_ReviewCandidateInput =
  rc_DatasetID :: int
  rc_SnapshotID :: int
  rc_ItemID :: int
  rc_ObjectKey :: string
  rc_CategoryID :: int
  rc_CategoryName :: string
  rc_BBox :: "real \<times> real \<times> real \<times> real"
  rc_Confidence :: "real option"
  rc_ModelName :: string
  rc_IsPseudo :: bool

type_synonym 'v jobs_persist =
  "int \<Rightarrow> jobs_ReviewCandidateInput list \<Rightarrow> 'v \<Rightarrow> (string, int list, 'v) outcome"
type_synonym jobs_decode = "gval \<Rightarrow> string + jobs_ReviewCandidateInput list"

definition jobs_persistReviewCandidates ::
  "'v jobs_persist \<Rightarrow> jobs_decode \<Rightarrow> int \<Rightarrow> obj \<Rightarrow> ('d, 'v) jobs_Service \<Rightarrow>
     (jobs_error, obj, ('d, 'v) jobs_Service) outcome" where
  "jobs_persistReviewCandidates persist decode jid detail s =
     (case svc_reviewSink s of
        None \<Rightarrow> (Inl ReviewSinkMissing, s)
      | Some sink \<Rightarrow>
          (case map_of detail ''candidates'' of
             None \<Rightarrow> (Inl CandidatesRequired, s)
           | Some rawCandidates \<Rightarrow>
               (case decode rawCandidates of
                  Inl e \<Rightarrow> (Inl (ExternalError e), s)
                | Inr raw \<Rightarrow>
                    if raw = [] then (Inl CandidatesRequired, s)
                    else
                      (case persist jid (map (\<lambda>c. c\<lparr>rc_IsPseudo := True\<rparr>) raw) sink of
                         (Inl e, sink') \<Rightarrow> (Inl (ExternalError e), s\<lparr>svc_reviewSink := Some sink'\<rparr>)
                       | (Inr ids, sink') \<Rightarrow>
                           (Inr [(''result_type'', GStr ''annotation_candidates''),
                                 (''result_count'', GInt (int (length ids))),
                                 (''candidate_ids'', GInts ids)],
                            s\<lparr>svc_reviewSink := Some sink'\<rparr>)))))"

definition jobs_normalizeEventDetail ::
  "'v jobs_persist \<Rightarrow> jobs_decode \<Rightarrow> int \<Rightarrow> string \<Rightarrow> obj option \<Rightarrow> ('d, 'v) jobs_Service \<Rightarrow>
     (jobs_error, obj, ('d, 'v) jobs_Service) outcome" where
  "jobs_normalizeEventDetail persist decode jid typ detail s =
     (let d = (case detail of None \<Rightarrow> [] | Some d \<Rightarrow> d) in
      if typ = ''review_candidates_materialized''
      then jobs_persistReviewCandidates persist decode jid d s
      else if typ = ''video_frames_materialized''
      then (Inr (jobs_normalizeResultDetail d ''video_frames'' ''frames''), s)
      else if typ = ''cleaning_report_materialized''
      then (Inr (jobs_normalizeResultDetail d ''cleaning_report'' ''removal_candidates''), s)
      else (Inr d, s))"

subsection \<open>Events and completion\<close>

definition jobs_ReportEvent ::
  "'v jobs_persist \<Rightarrow> jobs_decode \<Rightarrow> clock \<Rightarrow> int \<Rightarrow> int option \<Rightarrow> string \<Rightarrow> string \<Rightarrow> string \<Rightarrow>
     obj option \<Rightarrow> ('d, 'v) jobs_Service \<Rightarrow> (jobs_error, unit, ('d, 'v) jobs_Service) outcome" where
  "jobs_ReportEvent persist decode clk jid itemID level typ msg detail s =
     (if (case itemID of None \<Rightarrow> False | Some i \<Rightarrow> i \<le> 0) then (Inl ItemIDNotPositive, s)
      else if trim_space typ = [] then (Inl EventTypeMissing, s)
      else if trim_space msg = [] then (Inl MessageMissing, s)
      else
        let level' = (if trim_space level = [] then ''info'' else level) in
        if itemID = None \<and> typ = ''item_failed'' then (Inl ItemIDNotPositive, s)
        else
          and_then (jobs_normalizeEventDetail persist decode jid typ detail s) (\<lambda>d s1.
            and_then (jobs_on_repo (jobs_AppendEvent (clk 0) jid itemID level' typ msg d) s1) (\<lambda>_ s2.
              if jobs_stringValue (obj_get d ''result_type'') \<noteq> []
              then and_then (jobs_on_repo (jobs_StoreResultRef jid (jobs_normalizeResultRef d)) s2)
                     (\<lambda>_ s3. (Inr (), s3))
              else (Inr (), s2))))"

definition jobs_ReportItemError ::
  "'v jobs_persist \<Rightarrow> jobs_decode \<Rightarrow> clock \<Rightarrow> int \<Rightarrow> int \<Rightarrow> string \<Rightarrow> obj option \<Rightarrow>
     ('d, 'v) jobs_Service \<Rightarrow> (jobs_error, unit, ('d, 'v) jobs_Service) outcome" where
  "jobs_ReportItemError persist decode clk jid itemID msg detail =
     jobs_ReportEvent persist decode clk jid (Some itemID) ''error'' ''item_failed'' msg detail"

text \<open>
  \<open>job\<close> is a pointer to the stored object; of it the code reads \<open>JobType\<close> and \<open>CreatedAt\<close>
  after \<open>Complete\<close>, fields no operation writes.
\<close>

definition jobs_ReportTerminal ::
  "clock \<Rightarrow> int \<Rightarrow> string \<Rightarrow> string \<Rightarrow> int \<Rightarrow> int \<Rightarrow> int \<Rightarrow> obj \<Rightarrow> ('d, 'v) jobs_Service \<Rightarrow>
     (jobs_error, unit, ('d, 'v) jobs_Service) outcome" where
  "jobs_ReportTerminal clk jid workerID st tot succeeded failed ref s =
     (if workerID = [] then (Inl WorkerIDMissing, s)
      else if \<not> jobs_terminal st then (Inl (UnsupportedTerminalStatus st), s)
      else if tot < 0 \<or> succeeded < 0 \<or> failed < 0 then (Inl TerminalCountersNegative, s)
      else
        case jobs_Get jid (svc_repo s) of
          None \<Rightarrow> (Inl (JobNotFound jid), s)
        | Some job \<Rightarrow>
            and_then (jobs_on_repo (jobs_Complete (clk 0) jid workerID st tot succeeded failed) s) (\<lambda>_ s1.
              and_then (jobs_on_repo (jobs_AppendEvent (clk 1) jid None ''info'' ''terminal'' ''job completed''
                  (obj_merge
                    [(''worker_id'', GStr workerID), (''status'', GStr st), (''total_items'', GInt tot),
                     (''succeeded_items'', GInt succeeded), (''failed_items'', GInt failed)]
                    (jobs_normalizeResultRef ref))) s1) (\<lambda>_ s2.
                and_then (jobs_on_repo (jobs_StoreResultRef jid (jobs_normalizeResultRef ref)) s2) (\<lambda>_ s3.
                  (Inr (), s3\<lparr>svc_metrics :=
                     obs_ObserveJobCompleted (job_JobType job) st (clk 2 - job_CreatedAt job) (svc_metrics s3)\<rparr>)))))"

end
