(* ===== verification/Job_Service_Facts.thy ===== *)
theory Job_Service_Facts
  imports Job_Service
begin

section \<open>Jobs: what the service guarantees\<close>

text \<open>
  Every service call moves the repository along \<open>jobs_le\<close> inside its invariant, on every path,
  errors included. The contract of a publisher is the locale \<open>jobs_publisher\<close>; the facts about
  dispatch are proved in it and hold for \<open>InMemoryPublisher\<close> by interpretation.
\<close>

subsection \<open>Repository moves\<close>

definition jobs_moves :: "jobs_Repo \<Rightarrow> jobs_Repo \<Rightarrow> bool" where
  "jobs_moves r r' \<longleftrightarrow> (jobs_inv r \<longrightarrow> jobs_inv r' \<and> jobs_le r r')"

lemma jobs_moves_refl [simp]: "jobs_moves r r"
  by (simp add: jobs_moves_def)

lemma jobs_moves_trans: "jobs_moves r s \<Longrightarrow> jobs_moves s t \<Longrightarrow> jobs_moves r t"
  by (auto simp: jobs_moves_def intro: jobs_le_trans)

lemma jobs_moves_exec: "jobs_moves r (jobs_exec r p)"
  by (simp add: jobs_moves_def jobs_exec_inv jobs_exec_le)

lemma jobs_moves_with: "jobs_body_ok body \<Longrightarrow> jobs_moves r (snd (jobs_with jid body r))"
  by (simp add: jobs_moves_def jobs_with_inv jobs_with_le)

lemma jobs_moves_ops:
  "jobs_moves r (snd (jobs_CreateOrGet now inp r))"
  "jobs_moves r (snd (jobs_AppendEvent now jid it lv ty m d r))"
  "jobs_moves r (snd (jobs_UpsertWorker now winp r))"
  "jobs_moves r (snd (jobs_UpdateStatus now jid st r))"
  "jobs_moves r (snd (jobs_Claim now jid w l r))"
  "jobs_moves r (snd (jobs_TouchLease jid w l r))"
  "jobs_moves r (snd (jobs_UpdateProgress now jid w t sc f r))"
  "jobs_moves r (snd (jobs_Complete now jid w st t sc f r))"
  "jobs_moves r (snd (jobs_IncrementRetryCount jid r))"
  "jobs_moves r (snd (jobs_MarkRetryWaiting jid t r))"
  "jobs_moves r (snd (jobs_MarkFailed now jid c m r))"
  "jobs_moves r (snd (jobs_StoreResultRef jid d r))"
  by (simp_all add: jobs_mutators jobs_moves_with jobs_bodies)
    (simp_all add: jobs_moves_def jobs_CreateOrGet_inv jobs_CreateOrGet_le jobs_AppendEvent_inv
      jobs_AppendEvent_le jobs_UpsertWorker_inv jobs_UpsertWorker_le)

lemma jobs_on_repo_simps [simp]:
  "svc_repo (snd (jobs_on_repo f s)) = snd (f (svc_repo s))"
  "fst (jobs_on_repo f s) = fst (f (svc_repo s))"
  "svc_dispatcher (snd (jobs_on_repo f s)) = svc_dispatcher s"
  "svc_reviewSink (snd (jobs_on_repo f s)) = svc_reviewSink s"
  "svc_metrics (snd (jobs_on_repo f s)) = svc_metrics s"
  by (simp_all add: jobs_on_repo_def split: prod.splits)

lemma jobs_on_repo_eq: "jobs_on_repo f s = (fst (f (svc_repo s)), s\<lparr>svc_repo := snd (f (svc_repo s))\<rparr>)"
  by (simp add: jobs_on_repo_def split: prod.splits)

lemma jobs_moves_on_repo:
  "jobs_moves r (svc_repo s) \<Longrightarrow> jobs_moves (svc_repo s) (snd (f (svc_repo s))) \<Longrightarrow>
     jobs_moves r (svc_repo (snd (jobs_on_repo f s)))"
  by (auto intro: jobs_moves_trans)

lemma jobs_moves_and_then:
  assumes "jobs_moves r (svc_repo (snd m))"
    and "\<And>x s. jobs_moves r (svc_repo s) \<Longrightarrow> jobs_moves r (svc_repo (snd (f x s)))"
  shows "jobs_moves r (svc_repo (snd (and_then m f)))"
  using assms by (cases m) (auto simp: and_then_def split: sum.splits)

lemma jobs_dispatch_repo [simp]: "svc_repo (snd (jobs_dispatch pub job s)) = svc_repo s"
  by (auto simp: jobs_dispatch_def split: option.splits prod.splits sum.splits)

lemmas jobs_moves_intros = jobs_moves_and_then jobs_moves_on_repo jobs_moves_ops

lemma jobs_CreateJob_moves: "jobs_moves (svc_repo s) (svc_repo (snd (jobs_CreateJob pub clk inp s)))"
  unfolding jobs_CreateJob_def
  by (auto split: sum.splits prod.splits intro!: jobs_moves_intros)

lemma jobs_RegisterWorker_moves: "jobs_moves (svc_repo s) (svc_repo (snd (jobs_RegisterWorker clk inp s)))"
  unfolding jobs_RegisterWorker_def Let_def by (auto intro!: jobs_moves_intros)

lemma jobs_ReportHeartbeat_moves:
  "jobs_moves (svc_repo s) (svc_repo (snd (jobs_ReportHeartbeat clk jid w secs s)))"
  unfolding jobs_ReportHeartbeat_def Let_def
  by (auto split: option.splits intro!: jobs_moves_intros)

lemma jobs_ReportProgress_moves:
  "jobs_moves (svc_repo s) (svc_repo (snd (jobs_ReportProgress clk jid w t sc f s)))"
  unfolding jobs_ReportProgress_def by (auto intro!: jobs_moves_intros)

lemma jobs_persistReviewCandidates_repo [simp]:
  "svc_repo (snd (jobs_persistReviewCandidates persist decode jid d s)) = svc_repo s"
  by (auto simp: jobs_persistReviewCandidates_def split: option.splits sum.splits prod.splits)

lemma jobs_normalizeEventDetail_repo [simp]:
  "svc_repo (snd (jobs_normalizeEventDetail persist decode jid typ d s)) = svc_repo s"
  by (simp add: jobs_normalizeEventDetail_def Let_def)

lemma jobs_ReportEvent_moves:
  "jobs_moves (svc_repo s) (svc_repo (snd (jobs_ReportEvent persist decode clk jid it lv ty m d s)))"
  unfolding jobs_ReportEvent_def Let_def
  by (auto split: option.splits intro!: jobs_moves_intros)

lemma jobs_ReportTerminal_moves:
  "jobs_moves (svc_repo s) (svc_repo (snd (jobs_ReportTerminal clk jid w st t sc f ref s)))"
  unfolding jobs_ReportTerminal_def
  by (auto split: option.splits intro!: jobs_moves_intros)

lemma jobs_get_body_ok [jobs_bodies]: "jobs_body_ok (jobs_get_body es)"
  by (auto simp: jobs_ok_defs jobs_get_body_def jobs_with_result_def Let_def split: if_splits)

lemma jobs_GetJob_moves: "jobs_moves (svc_repo s) (svc_repo (snd (jobs_GetJob jid s)))"
proof -
  have "svc_repo (snd (jobs_GetJob jid s)) =
      snd (jobs_with jid (jobs_get_body (jobs_ListEvents jid (svc_repo s))) (svc_repo s))"
    by (auto simp: jobs_GetJob_def jobs_on_repo_def split: prod.splits sum.splits)
  then show ?thesis by (simp add: jobs_moves_with jobs_bodies)
qed


subsection \<open>Normalisation\<close>

lemma jobs_dedup_set: "set (jobs_dedup seen raws) = norm_token ` set raws - set seen - {[]}"
  by (induction seen raws rule: jobs_dedup.induct) (auto simp: Let_def)

lemma jobs_dedup_distinct: "distinct (jobs_dedup seen raws)"
  by (induction seen raws rule: jobs_dedup.induct) (auto simp: Let_def jobs_dedup_set)

lemma jobs_dedup_fixed:
  assumes "distinct xs" and "\<forall>x \<in> set xs. norm_token x = x \<and> x \<noteq> []" and "set xs \<inter> set seen = {}"
  shows "jobs_dedup seen xs = xs"
  using assms by (induction xs arbitrary: seen) (auto simp: Let_def)

lemma jobs_dedup_normal: "\<forall>x \<in> set (jobs_dedup seen raws). norm_token x = x \<and> x \<noteq> []"
  by (auto simp: jobs_dedup_set)

lemma jobs_default_caps_normal:
  "\<forall>x \<in> set (jobs_defaultRequiredCapabilities t). norm_token x = x \<and> x \<noteq> []"
  by (auto simp: jobs_defaultRequiredCapabilities_def norm_token_lit norm_lit_simps)

lemma jobs_default_caps_distinct: "distinct (jobs_defaultRequiredCapabilities t)"
  by (simp add: jobs_defaultRequiredCapabilities_def)

lemma jobs_caps_Inr:
  assumes "jobs_normalizeRequiredCapabilities t raw = Inr caps"
  shows "caps \<noteq> []" and "distinct caps" and "\<forall>c \<in> set caps. norm_token c = c \<and> c \<noteq> []"
    and "norm_token ` set raw - {[]} \<noteq> {} \<Longrightarrow> set caps = norm_token ` set raw - {[]}"
    and "norm_token ` set raw - {[]} = {} \<Longrightarrow> caps = jobs_defaultRequiredCapabilities t"
proof -
  let ?out = "jobs_dedup [] raw"
  have caps: "caps = (if ?out = [] then jobs_defaultRequiredCapabilities t else ?out)" "caps \<noteq> []"
    using assms by (auto simp: jobs_normalizeRequiredCapabilities_def Let_def split: if_splits)
  have empty: "?out = [] \<longleftrightarrow> norm_token ` set raw - {[]} = {}"
    using jobs_dedup_set [of "[]" raw] by (metis Diff_empty list.set(1) set_empty)
  show "caps \<noteq> []" by (rule caps(2))
  show "distinct caps" using caps(1) by (simp add: jobs_dedup_distinct jobs_default_caps_distinct)
  show "\<forall>c \<in> set caps. norm_token c = c \<and> c \<noteq> []"
    using caps(1) jobs_dedup_normal [of "[]" raw] jobs_default_caps_normal [of t] by presburger
  show "norm_token ` set raw - {[]} \<noteq> {} \<Longrightarrow> set caps = norm_token ` set raw - {[]}"
    using caps(1) empty jobs_dedup_set [of "[]" raw] by simp
  show "norm_token ` set raw - {[]} = {} \<Longrightarrow> caps = jobs_defaultRequiredCapabilities t"
    using caps(1) empty by simp
qed

lemma jobs_caps_fixed:
  assumes "caps \<noteq> []" "distinct caps" "\<forall>c \<in> set caps. norm_token c = c \<and> c \<noteq> []"
  shows "jobs_normalizeRequiredCapabilities t caps = Inr caps"
  using assms by (simp add: jobs_normalizeRequiredCapabilities_def jobs_dedup_fixed Let_def)

lemma jobs_resource_Inr:
  assumes "jobs_normalizeRequiredResourceType t raw = Inr rt"
  shows "rt \<in> {''cpu'', ''gpu'', ''mixed''}"
    and "jobs_allowedResourceTypes t = [] \<or> rt \<in> set (jobs_allowedResourceTypes t)"
    and "norm_token raw \<noteq> [] \<Longrightarrow> rt = norm_token raw"
    and "norm_token raw = [] \<Longrightarrow> rt = jobs_defaultRequiredResourceType t"
  using assms by (auto simp: jobs_normalizeRequiredResourceType_def Let_def split: if_splits)

lemma norm_resource [simp]:
  "norm_token ''cpu'' = ''cpu''" "norm_token ''gpu'' = ''gpu''" "norm_token ''mixed'' = ''mixed''"
  by (simp_all add: norm_token_lit norm_lit_simps)

lemma jobs_resource_fixed:
  assumes "jobs_normalizeRequiredResourceType t raw = Inr rt"
  shows "jobs_normalizeRequiredResourceType t rt = Inr rt"
proof -
  have "norm_token rt = rt" "rt \<noteq> []" using jobs_resource_Inr(1) [OF assms] by auto
  then show ?thesis using assms
    by (auto simp: jobs_normalizeRequiredResourceType_def Let_def split: if_splits)
qed

text \<open>Normalisation succeeds exactly when its five checks do, with this result.\<close>

lemma jobs_normalizeInput_eq:
  assumes "norm_token (cj_JobType inp) \<noteq> []" and "cj_IdempotencyKey inp \<noteq> []"
    and "jobs_normalizeRequiredResourceType (norm_token (cj_JobType inp)) (cj_RequiredResourceType inp) = Inr rt"
    and "jobs_normalizeRequiredCapabilities (norm_token (cj_JobType inp)) (cj_RequiredCapabilities inp) = Inr caps"
  shows "jobs_normalizeInput inp =
     Inr (inp\<lparr>cj_ProjectID := (if cj_ProjectID inp \<le> 0 then 1 else cj_ProjectID inp),
        cj_JobType := norm_token (cj_JobType inp), cj_RequiredResourceType := rt,
        cj_RequiredCapabilities := caps,
        cj_Payload := Some (case cj_Payload inp of None \<Rightarrow> [] | Some p \<Rightarrow> p)\<rparr>)"
  by (simp only: jobs_normalizeInput_def Let_def assms if_False sum.case)

lemma jobs_normalizeInput_checks:
  assumes "jobs_normalizeInput inp = Inr inp'"
  obtains rt caps where "norm_token (cj_JobType inp) \<noteq> []" "cj_IdempotencyKey inp \<noteq> []"
    "jobs_normalizeRequiredResourceType (norm_token (cj_JobType inp)) (cj_RequiredResourceType inp) = Inr rt"
    "jobs_normalizeRequiredCapabilities (norm_token (cj_JobType inp)) (cj_RequiredCapabilities inp) = Inr caps"
proof -
  let ?t = "norm_token (cj_JobType inp)"
  have t: "?t \<noteq> []"
    using assms by (rule_tac notI) (simp add: jobs_normalizeInput_def)
  have k: "cj_IdempotencyKey inp \<noteq> []"
    using assms t by (rule_tac notI) (simp add: jobs_normalizeInput_def)
  obtain rt where rt: "jobs_normalizeRequiredResourceType ?t (cj_RequiredResourceType inp) = Inr rt"
    using assms t k
    by (cases "jobs_normalizeRequiredResourceType ?t (cj_RequiredResourceType inp)")
      (simp_all add: jobs_normalizeInput_def)
  obtain caps where "jobs_normalizeRequiredCapabilities ?t (cj_RequiredCapabilities inp) = Inr caps"
    using assms t k rt
    by (cases "jobs_normalizeRequiredCapabilities ?t (cj_RequiredCapabilities inp)")
      (simp_all add: jobs_normalizeInput_def)
  with that t k rt show ?thesis by blast
qed

lemma jobs_normalizeInput_Inr:
  assumes "jobs_normalizeInput inp = Inr inp'"
  shows "cj_JobType inp' = norm_token (cj_JobType inp)" "cj_JobType inp' \<noteq> []"
    and "cj_IdempotencyKey inp' = cj_IdempotencyKey inp" "cj_IdempotencyKey inp' \<noteq> []"
    and "cj_ProjectID inp' = (if cj_ProjectID inp \<le> 0 then 1 else cj_ProjectID inp)"
    and "jobs_normalizeRequiredResourceType (cj_JobType inp') (cj_RequiredResourceType inp) =
           Inr (cj_RequiredResourceType inp')"
    and "jobs_normalizeRequiredCapabilities (cj_JobType inp') (cj_RequiredCapabilities inp) =
           Inr (cj_RequiredCapabilities inp')"
    and "cj_Payload inp' = Some (case cj_Payload inp of None \<Rightarrow> [] | Some p \<Rightarrow> p)"
proof -
  from assms obtain rt caps where ok: "norm_token (cj_JobType inp) \<noteq> []" "cj_IdempotencyKey inp \<noteq> []"
    "jobs_normalizeRequiredResourceType (norm_token (cj_JobType inp)) (cj_RequiredResourceType inp) = Inr rt"
    "jobs_normalizeRequiredCapabilities (norm_token (cj_JobType inp)) (cj_RequiredCapabilities inp) = Inr caps"
    by (rule jobs_normalizeInput_checks)
  have inp': "inp' = inp\<lparr>cj_ProjectID := (if cj_ProjectID inp \<le> 0 then 1 else cj_ProjectID inp),
        cj_JobType := norm_token (cj_JobType inp), cj_RequiredResourceType := rt,
        cj_RequiredCapabilities := caps,
        cj_Payload := Some (case cj_Payload inp of None \<Rightarrow> [] | Some p \<Rightarrow> p)\<rparr>"
    using assms unfolding jobs_normalizeInput_eq [OF ok] sum.inject(2) by (rule sym)
  show "cj_JobType inp' = norm_token (cj_JobType inp)" "cj_JobType inp' \<noteq> []"
    "cj_IdempotencyKey inp' = cj_IdempotencyKey inp" "cj_IdempotencyKey inp' \<noteq> []"
    "cj_ProjectID inp' = (if cj_ProjectID inp \<le> 0 then 1 else cj_ProjectID inp)"
    "jobs_normalizeRequiredResourceType (cj_JobType inp') (cj_RequiredResourceType inp) =
       Inr (cj_RequiredResourceType inp')"
    "jobs_normalizeRequiredCapabilities (cj_JobType inp') (cj_RequiredCapabilities inp) =
       Inr (cj_RequiredCapabilities inp')"
    "cj_Payload inp' = Some (case cj_Payload inp of None \<Rightarrow> [] | Some p \<Rightarrow> p)"
    unfolding inp' using ok by simp_all
qed

lemma jobs_normalizeInput_fixed:
  assumes "jobs_normalizeInput inp = Inr inp'"
  shows "jobs_normalizeInput inp' = Inr inp'"
proof -
  note n = jobs_normalizeInput_Inr [OF assms]
  have t: "norm_token (cj_JobType inp') = cj_JobType inp'" by (simp add: n(1))
  have rt: "jobs_normalizeRequiredResourceType (norm_token (cj_JobType inp')) (cj_RequiredResourceType inp') =
      Inr (cj_RequiredResourceType inp')" unfolding t using n(6) by (rule jobs_resource_fixed)
  have caps: "jobs_normalizeRequiredCapabilities (norm_token (cj_JobType inp')) (cj_RequiredCapabilities inp') =
      Inr (cj_RequiredCapabilities inp')"
    by (rule jobs_caps_fixed) (use jobs_caps_Inr [OF n(7)] in blast)+
  have proj: "(if cj_ProjectID inp' \<le> 0 then 1 else cj_ProjectID inp') = cj_ProjectID inp'"
    using n(5) by simp
  have pay: "Some (case cj_Payload inp' of None \<Rightarrow> [] | Some p \<Rightarrow> p) = cj_Payload inp'"
    by (simp add: n(8))
  have "norm_token (cj_JobType inp') \<noteq> []" unfolding t by (rule n(2))
  from jobs_normalizeInput_eq [OF this n(4) rt caps] show ?thesis
    unfolding proj pay t by simp
qed

end
