(* ===== verification/Job_Service_Props.thy ===== *)
theory Job_Service_Props
  imports Job_Service_Facts
begin

section \<open>Jobs: the contract of each service call\<close>

text \<open>
  What a client of \<open>internal/jobs/service.go\<close> can rely on: the normal form of a request, one
  dispatch per job, the effect of each worker callback on every branch, and the result reference
  that the event log gives. The publisher is a contract (\<open>jobs_publisher\<close>), met by
  \<open>InMemoryPublisher\<close>.
\<close>

subsection \<open>Equations of the building blocks\<close>

definition jobs_event ::
  "time \<Rightarrow> int \<Rightarrow> int option \<Rightarrow> string \<Rightarrow> string \<Rightarrow> string \<Rightarrow> obj \<Rightarrow> jobs_Repo \<Rightarrow> jobs_Event" where
  "jobs_event now jid it lv ty m d r =
     \<lparr>ev_ID = jr_nextEvent r, ev_JobID = jid, ev_ItemID = it, ev_EventLevel = lv,
      ev_EventType = ty, ev_Message = m, ev_Detail = d, ev_TS = now\<rparr>"

definition jobs_logged :: "int \<Rightarrow> jobs_Event \<Rightarrow> jobs_Repo \<Rightarrow> jobs_Repo" where
  "jobs_logged jid ev r = r\<lparr>jr_nextEvent := jr_nextEvent r + 1,
     jr_events := (jr_events r)(jid \<mapsto> jobs_ListEvents jid r @ [ev])\<rparr>"

lemma jobs_AppendEvent_eq:
  "jobs_AppendEvent now jid it lv ty m d r =
     (if jr_byID r jid = None then (Inl (JobNotFound jid), r)
      else (Inr (jobs_event now jid it lv ty m d r), jobs_logged jid (jobs_event now jid it lv ty m d r) r))"
  by (auto simp: jobs_AppendEvent_def jobs_event_def jobs_logged_def jobs_ListEvents_def Let_def
      split: option.splits)

lemma jobs_logged_simps [simp]:
  "jr_byID (jobs_logged jid ev r) = jr_byID r"
  "jr_byKey (jobs_logged jid ev r) = jr_byKey r"
  "jr_nextID (jobs_logged jid ev r) = jr_nextID r"
  "jr_workers (jobs_logged jid ev r) = jr_workers r"
  "jobs_ListEvents i (jobs_logged jid ev r) =
     (if i = jid then jobs_ListEvents jid r @ [ev] else jobs_ListEvents i r)"
  by (simp_all add: jobs_logged_def jobs_ListEvents_def)

lemma jobs_event_simps [simp]:
  "ev_EventType (jobs_event now jid it lv ty m d r) = ty"
  "ev_Detail (jobs_event now jid it lv ty m d r) = d"
  "ev_JobID (jobs_event now jid it lv ty m d r) = jid"
  by (simp_all add: jobs_event_def)

definition jobs_put :: "int \<Rightarrow> jobs_Job \<Rightarrow> jobs_Repo \<Rightarrow> jobs_Repo" where
  "jobs_put jid job r = r\<lparr>jr_byID := (jr_byID r)(jid \<mapsto> job)\<rparr>"

lemma jobs_put_simps [simp]:
  "jr_byID (jobs_put jid job r) = (jr_byID r)(jid \<mapsto> job)"
  "jr_byKey (jobs_put jid job r) = jr_byKey r"
  "jr_nextID (jobs_put jid job r) = jr_nextID r"
  "jr_events (jobs_put jid job r) = jr_events r"
  "jobs_ListEvents i (jobs_put jid job r) = jobs_ListEvents i r"
  by (simp_all add: jobs_put_def jobs_ListEvents_def)

lemma jobs_with_put:
  "jr_byID r jid = Some a \<Longrightarrow> body a = Inr b \<Longrightarrow> jobs_with jid body r = (Inr b, jobs_put jid b r)"
  by (simp add: jobs_with_simps jobs_put_def)

subsection \<open>One dispatch per job\<close>

text \<open>
  A publisher either takes the item, once, or reports an error and takes nothing. \<open>sent\<close> is
  what it has taken so far.
\<close>

locale jobs_publisher =
  fixes pub :: "'d jobs_publish"
    and sent :: "'d \<Rightarrow> (string \<times> obj) list"
  assumes publish_taken: "pub lane p d = (Inr u, d') \<Longrightarrow> sent d' = sent d @ [(lane, p)]"
    and publish_refused: "pub lane p d = (Inl e, d') \<Longrightarrow> sent d' = sent d"
begin

lemma dispatch_once:
  assumes "svc_dispatcher s = Some d" and "jobs_dispatch pub job s = (res, s')"
  shows "\<exists>d'. svc_dispatcher s' = Some d' \<and>
           sent d' = sent d @ (case res of Inl _ \<Rightarrow> []
             | Inr _ \<Rightarrow> [(jobs_laneFor (job_RequiredResourceType job), jobs_buildDispatchPayload job)])"
proof (cases "pub (jobs_laneFor (job_RequiredResourceType job)) (jobs_buildDispatchPayload job) d")
  case (Pair res1 d1)
  with assms show ?thesis
    by (cases res1) (auto simp: jobs_dispatch_def dest: publish_taken publish_refused)
qed

lemma dispatch_items:
  assumes "svc_dispatcher s = Some d" and "jobs_dispatch pub job s = (Inr u, s')"
  shows "\<exists>d'. svc_dispatcher s' = Some d' \<and>
     sent d' = sent d @ [(jobs_laneFor (job_RequiredResourceType job), jobs_buildDispatchPayload job)]"
  using dispatch_once [OF assms] by simp

end

interpretation jobs_mem: jobs_publisher jobs_MemPublish mp_items
  by unfold_locales (auto simp: jobs_MemPublish_def)

text \<open>\<open>CreateJob\<close> on each of its two successful paths, before the dispatch.\<close>

lemma jobs_CreateJob_existing:
  assumes "jobs_normalizeInput inp = Inr inp'"
    and "jobs_CreateOrGet (clk 0) inp' (svc_repo s) = (Inr (job, False), svc_repo s)"
  shows "jobs_CreateJob pub clk inp s = (Inr job, s)"
  by (simp add: jobs_CreateJob_def assms jobs_on_repo_def)

definition jobs_created :: "clock \<Rightarrow> jobs_Job \<Rightarrow> jobs_Repo \<Rightarrow> ('d, 'v) jobs_Service \<Rightarrow> ('d, 'v) jobs_Service" where
  "jobs_created clk job r s =
     s\<lparr>svc_metrics := obs_IncJobCreated (job_JobType job) (svc_metrics s),
       svc_repo := snd (jobs_AppendEvent (clk 1) (job_ID job) None ''info''
                  ''dispatch_requested'' ''job queued for dispatch''
                  [(''job_type'', GStr (job_JobType job)),
                   (''required_resource_type'', GStr (job_RequiredResourceType job)),
                   (''required_capabilities'', GStrs (job_RequiredCapabilities job)),
                   (''resource_lane'', GStr (jobs_laneFor (job_RequiredResourceType job)))] r)\<rparr>"

lemma jobs_created_simps [simp]:
  "svc_dispatcher (jobs_created clk job r s) = svc_dispatcher s"
  "jr_byID (svc_repo (jobs_created clk job r s)) = jr_byID r"
  "jr_byKey (svc_repo (jobs_created clk job r s)) = jr_byKey r"
  by (simp_all add: jobs_created_def jobs_AppendEvent_eq)

lemma jobs_CreateJob_created:
  assumes norm: "jobs_normalizeInput inp = Inr inp'"
    and new: "jobs_CreateOrGet (clk 0) inp' (svc_repo s) = (Inr (job, True), r)"
    and stored: "jr_byID r (job_ID job) = Some job"
  shows "jobs_CreateJob pub clk inp s =
           and_then (jobs_dispatch pub job (jobs_created clk job r s)) (\<lambda>_ s3. (Inr job, s3))"
  by (simp add: jobs_CreateJob_def norm new jobs_on_repo_def jobs_AppendEvent_eq stored jobs_created_def)

text \<open>The job table after a creation, whatever the dispatch did.\<close>

lemma jobs_CreateOrGet_stores:
  assumes "jobs_inv r" and "jobs_CreateOrGet now inp r = (Inr (job, created), r')"
  shows "jr_byID r' (job_ID job) = Some job" and "jr_byKey r' (jobs_idempotencyKey inp) = Some (job_ID job)"
    and "created \<longleftrightarrow> jr_byKey r (jobs_idempotencyKey inp) = None"
    and "created \<longleftrightarrow> jr_byID r (job_ID job) = None"
    and "\<not> created \<Longrightarrow> r' = r"
    and "created \<Longrightarrow> job = jobs_newJob now (jr_nextID r) inp"
proof -
  have "jobs_table_ok r" using assms(1) by (simp add: jobs_inv_def)
  then have "jr_byID r' (job_ID job) = Some job \<and> jr_byKey r' (jobs_idempotencyKey inp) = Some (job_ID job) \<and>
     (created \<longleftrightarrow> jr_byKey r (jobs_idempotencyKey inp) = None) \<and>
     (created \<longleftrightarrow> jr_byID r (job_ID job) = None) \<and> (\<not> created \<longrightarrow> r' = r) \<and>
     (created \<longrightarrow> job = jobs_newJob now (jr_nextID r) inp)"
    by (cases rule: jobs_CreateOrGet_cases [where inp = inp and now = now]) (use assms(2) in auto)
  then show "jr_byID r' (job_ID job) = Some job" "jr_byKey r' (jobs_idempotencyKey inp) = Some (job_ID job)"
    "created \<longleftrightarrow> jr_byKey r (jobs_idempotencyKey inp) = None"
    "created \<longleftrightarrow> jr_byID r (job_ID job) = None"
    "\<not> created \<Longrightarrow> r' = r" "created \<Longrightarrow> job = jobs_newJob now (jr_nextID r) inp" by blast+
qed

lemma jobs_CreateOrGet_total: "\<exists>job created r'. jobs_CreateOrGet now inp r = (Inr (job, created), r')"
  by (auto simp: jobs_CreateOrGet_def Let_def split: option.splits)

context jobs_publisher
begin

lemma create_dispatch:
  assumes inv: "jobs_inv (svc_repo s)" and disp: "svc_dispatcher s = Some d"
    and run: "jobs_CreateJob pub clk inp s = (Inr job, s')"
  shows "\<exists>d'. svc_dispatcher s' = Some d' \<and>
           sent d' = sent d @ (if jr_byID (svc_repo s) (job_ID job) = None
             then [(jobs_laneFor (job_RequiredResourceType job), jobs_buildDispatchPayload job)] else [])"
proof -
  obtain inp' where norm: "jobs_normalizeInput inp = Inr inp'"
    using run by (cases "jobs_normalizeInput inp") (simp_all add: jobs_CreateJob_def)
  obtain j created r where new: "jobs_CreateOrGet (clk 0) inp' (svc_repo s) = (Inr (j, created), r)"
    using jobs_CreateOrGet_total by metis
  note st = jobs_CreateOrGet_stores [OF inv new]
  show ?thesis
  proof (cases created)
    case True
    with new have new': "jobs_CreateOrGet (clk 0) inp' (svc_repo s) = (Inr (j, True), r)" by simp
    have eq: "and_then (jobs_dispatch pub j (jobs_created clk j r s)) (\<lambda>_ s3. (Inr j, s3)) = (Inr job, s')"
      using run unfolding jobs_CreateJob_created [where clk = clk and pub = pub, OF norm new' st(1)] .
    then obtain u where u: "jobs_dispatch pub j (jobs_created clk j r s) = (Inr u, s')" "job = j"
      unfolding and_then_Inr_conv by blast
    from dispatch_items [OF _ u(1), of d] disp st(4) True u(2) show ?thesis by simp
  next
    case False
    then have "jobs_CreateOrGet (clk 0) inp' (svc_repo s) = (Inr (j, False), svc_repo s)"
      using new st(5) by simp
    from jobs_CreateJob_existing [where clk = clk and pub = pub, OF norm this] run
    have "job = j" "s' = s" by (metis Pair_inject sum.inject(2))+
    with disp st(4) False show ?thesis by simp
  qed
qed

end


subsection \<open>Properties of creation\<close>

text \<open>
  What \<open>CreateJob\<close> stores is in normal form: normalising it again changes nothing, the
  resource type is one of the three known ones and allowed for the job type, the capabilities
  are a non-empty list of distinct lower-case trimmed names, the project ID is positive.
\<close>

theorem jobs_normalization_canonical:
  assumes "jobs_normalizeInput inp = Inr inp'"
  shows "jobs_normalizeInput inp' = Inr inp' \<and>
         cj_RequiredResourceType inp' \<in> {''cpu'', ''gpu'', ''mixed''} \<and>
         (jobs_allowedResourceTypes (cj_JobType inp') = [] \<or>
            cj_RequiredResourceType inp' \<in> set (jobs_allowedResourceTypes (cj_JobType inp'))) \<and>
         cj_RequiredCapabilities inp' \<noteq> [] \<and> distinct (cj_RequiredCapabilities inp') \<and>
         (\<forall>c \<in> set (cj_RequiredCapabilities inp'). norm_token c = c \<and> c \<noteq> []) \<and>
         1 \<le> cj_ProjectID inp'"
proof -
  note n = jobs_normalizeInput_Inr [OF assms]
  have "1 \<le> cj_ProjectID inp'" using n(5) by (simp split: if_splits)
  then show ?thesis
    using jobs_normalizeInput_fixed [OF assms] jobs_resource_Inr(1,2) [OF n(6)] jobs_caps_Inr(1-3) [OF n(7)]
    by blast
qed

text \<open>
  A job is dispatched exactly once, on the lane of its resource type, by the call that
  creates it; a call that is answered with an existing job publishes nothing.
\<close>

theorem jobs_create_dispatches_once:
  assumes "jobs_inv (svc_repo s)" and "svc_dispatcher s = Some d"
    and "jobs_CreateJob jobs_MemPublish clk inp s = (Inr job, s')"
  shows "\<exists>d'. svc_dispatcher s' = Some d' \<and>
           mp_items d' = mp_items d @ (if jr_byID (svc_repo s) (job_ID job) = None
             then [(jobs_laneFor (job_RequiredResourceType job), jobs_buildDispatchPayload job)] else [])"
  using assms by (rule jobs_mem.create_dispatch)

text \<open>
  A publisher that fails makes \<open>CreateJob\<close> fail, but the job stays in the store as
  \<open>queued\<close>: the same request sent again, whatever the publisher then does, succeeds with
  that job and publishes nothing, and the sweeper never selects the job. It stays
  undelivered.
\<close>

theorem jobs_failed_publish_strands_job:
  assumes inv: "jobs_inv (svc_repo s)" and disp: "svc_dispatcher s = Some d"
    and norm: "jobs_normalizeInput inp = Inr inp'"
    and fresh: "jr_byKey (svc_repo s) (jobs_idempotencyKey inp') = None"
    and down: "\<And>lane p. pub lane p d = (Inl e, d)"
  shows "\<exists>job s'. jobs_CreateJob pub clk inp s = (Inl (ExternalError e), s') \<and>
           jobs_Get (job_ID job) (svc_repo s') = Some job \<and> job_Status job = jobs_StatusQueued \<and>
           (\<forall>pub' clk'. jobs_CreateJob pub' clk' inp s' = (Inr job, s')) \<and>
           (\<forall>ks now. job_ID job \<notin> set (jobs_ListRetryReady ks now (svc_repo s')) \<and>
                      job_ID job \<notin> set (jobs_ListExpiredRunning ks now (svc_repo s')))"
proof -
  obtain job created r where co: "jobs_CreateOrGet (clk 0) inp' (svc_repo s) = (Inr (job, created), r)"
    using jobs_CreateOrGet_total by metis
  note st = jobs_CreateOrGet_stores [OF inv co]
  have created: created using st(3) fresh by blast
  with co have new: "jobs_CreateOrGet (clk 0) inp' (svc_repo s) = (Inr (job, True), r)" by simp
  let ?s' = "jobs_created clk job r s"
  have "jobs_dispatch pub job ?s' = (Inl (ExternalError e), ?s')"
    by (simp add: jobs_dispatch_def disp down)
  then have run: "jobs_CreateJob pub clk inp s = (Inl (ExternalError e), ?s')"
    unfolding jobs_CreateJob_created [where clk = clk and pub = pub, OF norm new st(1)] by simp
  have queued: "job_Status job = jobs_StatusQueued" using st(6) created by simp
  have again: "jobs_CreateOrGet (clk' 0) inp' (svc_repo ?s') = (Inr (job, False), svc_repo ?s')" for clk'
    using st(1,2) by (simp add: jobs_CreateOrGet_def)
  have "jobs_CreateJob pub' clk' inp ?s' = (Inr job, ?s')" for pub' clk'
    by (rule jobs_CreateJob_existing [OF norm again])
  then show ?thesis
    using run queued st(1)
    by (intro exI [of _ job] exI [of _ ?s'])
      (simp add: jobs_Get_def jobs_ListRetryReady_def jobs_ListExpiredRunning_def jobs_selects_def
        jobs_retry_ready_def jobs_expired_def)
qed

subsection \<open>Properties of the worker callbacks\<close>

definition jobs_lease_of :: "time \<Rightarrow> int \<Rightarrow> time" where
  "jobs_lease_of now leaseSeconds =
     now + wrap64 ((if leaseSeconds \<le> 0 then 30 else leaseSeconds) * second)"

definition jobs_after_heartbeat :: "clock \<Rightarrow> string \<Rightarrow> int \<Rightarrow> jobs_Job \<Rightarrow> jobs_Job" where
  "jobs_after_heartbeat clk w secs a =
     (if job_Status a = jobs_StatusQueued
      then a\<lparr>job_Status := jobs_StatusRunning, job_StartedAt := Some (clk 1),
             job_WorkerID := w, job_LeaseUntil := Some (jobs_lease_of (clk 0) secs)\<rparr>
      else a\<lparr>job_WorkerID := w, job_LeaseUntil := Some (jobs_lease_of (clk 0) secs)\<rparr>)"

lemma jobs_heartbeat_step:
  assumes "jr_byID r jid = Some a"
  shows "snd (if job_Status a = jobs_StatusRunning
              then jobs_TouchLease jid w (jobs_lease_of (clk 0) secs) r
              else jobs_Claim (clk 1) jid w (jobs_lease_of (clk 0) secs) r) =
           jobs_put jid (jobs_after_heartbeat clk w secs a) r"
    and "\<exists>job. fst (if job_Status a = jobs_StatusRunning
              then jobs_TouchLease jid w (jobs_lease_of (clk 0) secs) r
              else jobs_Claim (clk 1) jid w (jobs_lease_of (clk 0) secs) r) = Inr job"
  using assms
  by (auto simp: jobs_TouchLease_def jobs_Claim_def jobs_with_put jobs_claim_body_def
      jobs_after_heartbeat_def)

lemma jobs_heartbeat_run:
  assumes "workerID \<noteq> []" and job: "jr_byID (svc_repo s) jid = Some a"
  shows "fst (jobs_ReportHeartbeat clk jid workerID secs s) = Inr () \<and>
         jr_byID (svc_repo (snd (jobs_ReportHeartbeat clk jid workerID secs s))) =
           (jr_byID (svc_repo s))(jid \<mapsto> jobs_after_heartbeat clk workerID secs a) \<and>
         map ev_EventType (jobs_ListEvents jid (svc_repo (snd (jobs_ReportHeartbeat clk jid workerID secs s)))) =
           map ev_EventType (jobs_ListEvents jid (svc_repo s)) @ [''heartbeat'']"
proof -
  note step = jobs_heartbeat_step [OF job, of workerID clk secs]
  obtain j where j: "fst (if job_Status a = jobs_StatusRunning
              then jobs_TouchLease jid workerID (jobs_lease_of (clk 0) secs) (svc_repo s)
              else jobs_Claim (clk 1) jid workerID (jobs_lease_of (clk 0) secs) (svc_repo s)) = Inr j"
    using step(2) by blast
  let ?m = "if job_Status a = jobs_StatusRunning
              then jobs_on_repo (jobs_TouchLease jid workerID (jobs_lease_of (clk 0) secs)) s
              else jobs_on_repo (jobs_Claim (clk 1) jid workerID (jobs_lease_of (clk 0) secs)) s"
  let ?r = "jobs_put jid (jobs_after_heartbeat clk workerID secs a) (svc_repo s)"
  have m: "?m = (Inr j, s\<lparr>svc_repo := ?r\<rparr>)"
    using step(1) j by (auto simp: jobs_on_repo_eq split: if_splits)
  have "jobs_ReportHeartbeat clk jid workerID secs s =
      and_then ?m (\<lambda>_ s1. and_then
         (jobs_on_repo (jobs_AppendEvent (clk 2) jid None ''info'' ''heartbeat'' ''worker heartbeat''
            [(''worker_id'', GStr workerID), (''lease_seconds'', GInt (if secs \<le> 0 then 30 else secs))]) s1)
         (\<lambda>_ s2. (Inr (), s2)))"
    using assms(1) job
    by (simp add: jobs_ReportHeartbeat_def Let_def jobs_Get_def jobs_lease_of_def)
  then show ?thesis unfolding m and_then_simps
    by (simp add: jobs_on_repo_eq jobs_AppendEvent_eq)
qed

text \<open>
  A heartbeat on a known job always succeeds and logs one event. A queued job starts
  running; a job in any other status keeps it, but its worker and its lease are replaced:
  also those of a finished job, and of a running job held by another worker.
\<close>

theorem jobs_heartbeat_effect:
  assumes "workerID \<noteq> []" and job: "jr_byID (svc_repo s) jid = Some a"
  shows "fst (jobs_ReportHeartbeat clk jid workerID secs s) = Inr () \<and>
         jr_byID (svc_repo (snd (jobs_ReportHeartbeat clk jid workerID secs s))) =
           (jr_byID (svc_repo s))(jid \<mapsto> jobs_after_heartbeat clk workerID secs a) \<and>
         map ev_EventType (jobs_ListEvents jid (svc_repo (snd (jobs_ReportHeartbeat clk jid workerID secs s)))) =
           map ev_EventType (jobs_ListEvents jid (svc_repo s)) @ [''heartbeat'']"
  using assms by (rule jobs_heartbeat_run)

lemma jobs_lease_of_bound:
  "0 < secs \<Longrightarrow> secs \<le> 9223372036 \<Longrightarrow> jobs_lease_of now secs = now + secs * second"
  "jobs_lease_of now 9223372037 < now"
  by (auto simp: jobs_lease_of_def second_def in_int64_def wrap64_def)

text \<open>
  The lease a heartbeat asks for is the lease the job gets as long as the seconds fit: up
  to 9223372036 it ends that many seconds after the clock reading of the call. One more
  second wraps the duration around, and the lease given has already expired.
\<close>

theorem jobs_lease_bound:
  assumes "workerID \<noteq> []" and job: "jr_byID (svc_repo s) jid = Some a"
  shows "(\<forall>secs. 0 < secs \<longrightarrow> secs \<le> 9223372036 \<longrightarrow>
            (\<exists>b. jr_byID (svc_repo (snd (jobs_ReportHeartbeat clk jid workerID secs s))) jid = Some b \<and>
                 job_LeaseUntil b = Some (clk 0 + secs * second))) \<and>
         (\<exists>b lease. jr_byID (svc_repo (snd (jobs_ReportHeartbeat clk jid workerID 9223372037 s))) jid = Some b \<and>
                 job_LeaseUntil b = Some lease \<and> lease < clk 0)"
proof -
  have "\<exists>b. jr_byID (svc_repo (snd (jobs_ReportHeartbeat clk jid workerID secs s))) jid = Some b \<and>
      job_LeaseUntil b = Some (jobs_lease_of (clk 0) secs)" for secs
    using jobs_heartbeat_run [OF assms, of clk secs] by (simp add: jobs_after_heartbeat_def)
  then show ?thesis using jobs_lease_of_bound by metis
qed

text \<open>
  The first progress report of a queued job starts it, under the reporting worker, but
  gives it no lease; until some heartbeat arrives the sweeper cannot find that the worker
  is lost.
\<close>

theorem jobs_progress_starts_without_lease:
  assumes "workerID \<noteq> []" and "0 \<le> tot" "0 \<le> succeeded" "0 \<le> failed"
    and job: "jr_byID (svc_repo s) jid = Some a" "job_Status a = jobs_StatusQueued" "job_LeaseUntil a = None"
  shows "\<exists>b s'. jobs_ReportProgress clk jid workerID tot succeeded failed s = (Inr (), s') \<and>
           jr_byID (svc_repo s') jid = Some b \<and> job_Status b = jobs_StatusRunning \<and>
           job_WorkerID b = workerID \<and> job_TotalItems b = tot \<and> job_SucceededItems b = succeeded \<and>
           job_FailedItems b = failed \<and> (\<forall>now. \<not> jobs_expired now b)"
proof -
  let ?b = "a\<lparr>job_Status := jobs_StatusRunning, job_StartedAt := Some (clk 0), job_WorkerID := workerID,
     job_TotalItems := tot, job_SucceededItems := succeeded, job_FailedItems := failed\<rparr>"
  have body: "jobs_progress_body (clk 0) workerID tot succeeded failed a = Inr ?b"
    using job(2) by (simp add: jobs_progress_body_def jobs_CanTransition_def jobs_transitions_def)
  note up = jobs_with_put [where body = "jobs_progress_body (clk 0) workerID tot succeeded failed", OF job(1) body]
  have "\<exists>s'. jobs_ReportProgress clk jid workerID tot succeeded failed s = (Inr (), s') \<and>
      jr_byID (svc_repo s') jid = Some ?b"
    using assms(1-4)
    by (simp add: jobs_ReportProgress_def jobs_UpdateProgress_def jobs_on_repo_eq up jobs_AppendEvent_eq)
  then show ?thesis using job(3) by (auto simp: jobs_expired_def)
qed

end
