(* ===== verification/Job_Results.thy ===== *)
theory Job_Results
  imports Job_Service_Props
begin

section \<open>Jobs: completion and results\<close>

text \<open>
  The terminal report of \<open>internal/jobs/service.go\<close> on every branch, the review candidates an
  event can carry, and \<open>extractResultRef\<close> against its specification: for each key the newest
  event that says something about it wins, among the events of the newest result type.
\<close>

subsection \<open>The terminal report\<close>

lemma jobs_complete_legal:
  assumes "jobs_job_ok a" and "jobs_terminal st"
  shows "jobs_CanTransition (if job_Status a = jobs_StatusQueued \<or> job_Status a = jobs_StatusRetryWaiting
             then jobs_StatusRunning else job_Status a) st =
         (if jobs_terminal (job_Status a) \<and> job_Status a \<noteq> st
          then Inl (InvalidTransition (job_Status a) st) else Inr ())"
proof (cases "jobs_terminal (job_Status a)")
  case True
  then show ?thesis using jobs_terminal_no_edge
    by (auto simp: jobs_CanTransition_iff jobs_CanTransition_error)
next
  case False
  then have "(if job_Status a = jobs_StatusQueued \<or> job_Status a = jobs_StatusRetryWaiting
             then jobs_StatusRunning else job_Status a) = jobs_StatusRunning"
    using assms(1) by (auto simp: jobs_job_ok_def jobs_statuses_iff)
  with False assms(2) show ?thesis by (simp add: jobs_CanTransition_iff)
qed

definition jobs_completed :: "time \<Rightarrow> string \<Rightarrow> string \<Rightarrow> int \<Rightarrow> int \<Rightarrow> int \<Rightarrow> jobs_Job \<Rightarrow> jobs_Job" where
  "jobs_completed now w st tot succeeded failed a =
     (if job_StartedAt a = None then a\<lparr>job_StartedAt := Some now\<rparr> else a)
       \<lparr>job_Status := st, job_WorkerID := w, job_TotalItems := tot, job_SucceededItems := succeeded,
        job_FailedItems := failed, job_FinishedAt := Some now\<rparr>"

lemma jobs_complete_body_eq:
  assumes "jobs_job_ok a" and "jobs_terminal st"
  shows "jobs_complete_body now w st tot succeeded failed a =
         (if jobs_terminal (job_Status a) \<and> job_Status a \<noteq> st
          then Inl (InvalidTransition (job_Status a) st)
          else Inr (jobs_completed now w st tot succeeded failed a))"
  unfolding jobs_complete_body_def Let_def jobs_complete_legal [OF assms] jobs_completed_def by simp

definition jobs_stored_result :: "obj \<Rightarrow> jobs_Job \<Rightarrow> jobs_Job" where
  "jobs_stored_result ref a = (case jobs_result_body ref a of Inl _ \<Rightarrow> a | Inr b \<Rightarrow> b)"

lemma jobs_result_body_stored: "jobs_result_body ref a = Inr (jobs_stored_result ref a)"
  by (simp add: jobs_stored_result_def jobs_result_body_def Let_def)

lemma jobs_stored_result_simps [simp]:
  "job_Status (jobs_stored_result ref a) = job_Status a"
  "job_FinishedAt (jobs_stored_result ref a) = job_FinishedAt a"
  "job_ResultRef (jobs_stored_result ref a) = (if ref = [] then job_ResultRef a else obj_merge (job_ResultRef a) ref)"
  by (simp_all add: jobs_stored_result_def jobs_result_body_def Let_def jobs_mergeResultRefs_def)

lemma jobs_terminal_report:
  assumes "workerID \<noteq> []" and "jobs_terminal st" and "0 \<le> tot" "0 \<le> succeeded" "0 \<le> failed"
    and inv: "jobs_inv (svc_repo s)" and job: "jr_byID (svc_repo s) jid = Some a"
  shows "if jobs_terminal (job_Status a) \<and> job_Status a \<noteq> st
         then jobs_ReportTerminal clk jid workerID st tot succeeded failed ref s =
                (Inl (InvalidTransition (job_Status a) st), s)
         else \<exists>s'. jobs_ReportTerminal clk jid workerID st tot succeeded failed ref s = (Inr (), s') \<and>
                jr_byID (svc_repo s') = (jr_byID (svc_repo s))(jid \<mapsto>
                  jobs_stored_result (jobs_normalizeResultRef ref)
                    (jobs_completed (clk 0) workerID st tot succeeded failed a)) \<and>
                map ev_EventType (jobs_ListEvents jid (svc_repo s')) =
                  map ev_EventType (jobs_ListEvents jid (svc_repo s)) @ [''terminal'']"
proof -
  have ok: "jobs_job_ok a" using jobs_inv_job [OF inv job] by simp
  note body = jobs_complete_body_eq [OF ok assms(2), of "clk 0" workerID tot succeeded failed]
  show ?thesis
  proof (cases "jobs_terminal (job_Status a) \<and> job_Status a \<noteq> st")
    case True
    then have "jobs_complete_body (clk 0) workerID st tot succeeded failed a =
        Inl (InvalidTransition (job_Status a) st)" using body by simp
    from jobs_with_simps(2) [where body = "jobs_complete_body (clk 0) workerID st tot succeeded failed", OF job this]
    have "jobs_on_repo (jobs_Complete (clk 0) jid workerID st tot succeeded failed) s =
        (Inl (InvalidTransition (job_Status a) st), s)"
      by (simp add: jobs_Complete_def jobs_on_repo_eq)
    with True assms(1-5) job show ?thesis by (simp add: jobs_ReportTerminal_def jobs_Get_def)
  next
    case False
    let ?b = "jobs_completed (clk 0) workerID st tot succeeded failed a"
    from False have "jobs_complete_body (clk 0) workerID st tot succeeded failed a = Inr ?b"
      using body by auto
    note comp = jobs_with_put [where body = "jobs_complete_body (clk 0) workerID st tot succeeded failed", OF job this]
    have put: "jobs_with jid (jobs_result_body ref') (jobs_logged jid ev (jobs_put jid ?b (svc_repo s))) =
       (Inr (jobs_stored_result ref' ?b),
        jobs_put jid (jobs_stored_result ref' ?b) (jobs_logged jid ev (jobs_put jid ?b (svc_repo s))))"
      for ref' ev by (rule jobs_with_put) (simp_all add: jobs_result_body_stored)
    have "\<exists>s'. jobs_ReportTerminal clk jid workerID st tot succeeded failed ref s = (Inr (), s') \<and>
        jr_byID (svc_repo s') = (jr_byID (svc_repo s))(jid \<mapsto>
           jobs_stored_result (jobs_normalizeResultRef ref) ?b) \<and>
        map ev_EventType (jobs_ListEvents jid (svc_repo s')) =
           map ev_EventType (jobs_ListEvents jid (svc_repo s)) @ [''terminal'']"
      using assms(1-5) job
      by (simp add: jobs_ReportTerminal_def jobs_Get_def jobs_Complete_def jobs_StoreResultRef_def
          jobs_on_repo_eq comp jobs_AppendEvent_eq put)
    then show ?thesis unfolding if_not_P [OF False] .
  qed
qed

text \<open>
  A terminal report is accepted exactly when the job is not finished, or finished with
  the very status reported; a \<open>retry_waiting\<close> job may so be finished by the worker that lost
  its lease. An accepted report sets status, counters, worker and finish time and merges the
  result reference, one \<open>terminal\<close> event is logged; a refused one changes nothing at all.
\<close>

theorem jobs_terminal_report_spec:
  assumes "workerID \<noteq> []" and "jobs_terminal st" and "0 \<le> tot" "0 \<le> succeeded" "0 \<le> failed"
    and inv: "jobs_inv (svc_repo s)" and job: "jr_byID (svc_repo s) jid = Some a"
  shows "if jobs_terminal (job_Status a) \<and> job_Status a \<noteq> st
         then jobs_ReportTerminal clk jid workerID st tot succeeded failed ref s =
                (Inl (InvalidTransition (job_Status a) st), s)
         else \<exists>s'. jobs_ReportTerminal clk jid workerID st tot succeeded failed ref s = (Inr (), s') \<and>
                jr_byID (svc_repo s') = (jr_byID (svc_repo s))(jid \<mapsto>
                  jobs_stored_result (jobs_normalizeResultRef ref)
                    (jobs_completed (clk 0) workerID st tot succeeded failed a)) \<and>
                map ev_EventType (jobs_ListEvents jid (svc_repo s')) =
                  map ev_EventType (jobs_ListEvents jid (svc_repo s)) @ [''terminal'']"
  by (rule jobs_terminal_report [OF assms])

subsection \<open>Review candidates in events\<close>

text \<open>
  An event that materialises review candidates hands them to the review sink before the
  job is looked up: for a job that does not exist the call fails with \<open>JobNotFound\<close>, the
  repository is unchanged, and the candidates stay in the sink.
\<close>

theorem jobs_event_unknown_job_persists:
  assumes "jr_byID (svc_repo s) jid = None" and "trim_space msg \<noteq> []"
    and "svc_reviewSink s = Some sink" and "map_of detail ''candidates'' = Some raw"
    and "decode raw = Inr cands" and "cands \<noteq> []"
    and "persist jid (map (\<lambda>c. c\<lparr>rc_IsPseudo := True\<rparr>) cands) sink = (Inr ids, sink')"
  shows "jobs_ReportEvent persist decode clk jid None level ''review_candidates_materialized'' msg (Some detail) s =
           (Inl (JobNotFound jid), s\<lparr>svc_reviewSink := Some sink'\<rparr>)"
proof -
  have kind: "trim_space ''review_candidates_materialized'' = ''review_candidates_materialized''"
    by (rule trimmed_trim_space_id) (simp add: trimmed_def is_space_def)
  have norm: "jobs_normalizeEventDetail persist decode jid ''review_candidates_materialized'' (Some detail) s =
     (Inr [(''result_type'', GStr ''annotation_candidates''), (''result_count'', GInt (int (length ids))),
           (''candidate_ids'', GInts ids)], s\<lparr>svc_reviewSink := Some sink'\<rparr>)"
    using assms(3-7) by (simp add: jobs_normalizeEventDetail_def jobs_persistReviewCandidates_def)
  have app: "jobs_on_repo (jobs_AppendEvent now jid None lv ty m d) (s\<lparr>svc_reviewSink := Some sink'\<rparr>) =
     (Inl (JobNotFound jid), s\<lparr>svc_reviewSink := Some sink'\<rparr>)" for now lv ty m d
    using assms(1) by (simp add: jobs_on_repo_def jobs_AppendEvent_def)
  show ?thesis
    unfolding jobs_ReportEvent_def using assms(2)
    by (simp add: kind Let_def norm app)
qed

subsection \<open>The result reference of the log\<close>

fun first_some :: "('a \<Rightarrow> 'b option) \<Rightarrow> 'a list \<Rightarrow> 'b option" where
  "first_some f [] = None"
| "first_some f (x # xs) = (case f x of Some y \<Rightarrow> Some y | None \<Rightarrow> first_some f xs)"

definition jobs_event_type :: "jobs_Event \<Rightarrow> string" where
  "jobs_event_type ev = jobs_stringValue (obj_get (ev_Detail ev) ''result_type'')"

definition jobs_event_count :: "jobs_Event \<Rightarrow> gval option" where
  "jobs_event_count ev =
     (let n = jobs_int64Value (obj_get (ev_Detail ev) ''result_count'')
      in if 0 < n then Some (GInt64 n) else None)"

definition jobs_plain_key :: "string \<Rightarrow> bool" where
  "jobs_plain_key k \<longleftrightarrow> k \<noteq> ''result_type'' \<and> k \<noteq> ''result_count'' \<and> \<not> jobs_shouldSkipResultRefKey k"

definition jobs_absorb :: "obj \<Rightarrow> jobs_Event \<Rightarrow> obj" where
  "jobs_absorb out ev =
     jobs_extract_fields
       (if Option.is_none (map_of out ''result_count'') \<and> 0 < jobs_int64Value (obj_get (ev_Detail ev) ''result_count'')
        then obj_set ''result_count'' (GInt64 (jobs_int64Value (obj_get (ev_Detail ev) ''result_count''))) out
        else out) (ev_Detail ev)"

lemma jobs_event_type_Nil: "ev_Detail ev = [] \<Longrightarrow> jobs_event_type ev = []"
  by (simp add: jobs_event_type_def obj_get_def)

lemma jobs_extract_step_eq:
  "jobs_extract_step (T, st) ev =
     (if jobs_event_type ev = [] then (T, st)
      else case st of
             None \<Rightarrow> (jobs_event_type ev, Some (jobs_absorb [(''result_type'', GStr (jobs_event_type ev))] ev))
           | Some m \<Rightarrow> (T, Some (if jobs_event_type ev = T then jobs_absorb m ev else m)))"
  using jobs_event_type_Nil [of ev]
  by (cases st) (auto simp: jobs_extract_step_def jobs_absorb_def jobs_event_type_def Let_def)

lemma jobs_extract_steps:
  "T \<noteq> [] \<Longrightarrow> foldl jobs_extract_step (T, Some m) es =
     (T, Some (foldl jobs_absorb m (filter (\<lambda>e. jobs_event_type e = T) es)))"
  by (induction es arbitrary: m) (auto simp: jobs_extract_step_eq)

lemma filter_hdD: "filter P xs = y # ys \<Longrightarrow> P y \<and> y \<in> set xs"
proof -
  assume "filter P xs = y # ys"
  then have "y \<in> set (filter P xs)" by simp
  then show ?thesis by simp
qed

lemma jobs_extract_none:
  "foldl jobs_extract_step (T, None) es =
     (case filter (\<lambda>e. jobs_event_type e \<noteq> []) es of
        [] \<Rightarrow> (T, None)
      | e # _ \<Rightarrow> (jobs_event_type e, Some (foldl jobs_absorb [(''result_type'', GStr (jobs_event_type e))]
                 (filter (\<lambda>e'. jobs_event_type e' = jobs_event_type e) es))))"
proof (induction es)
  case (Cons a es)
  show ?case
  proof (cases "jobs_event_type a = []")
    case True
    show ?thesis
    proof (cases "filter (\<lambda>e. jobs_event_type e \<noteq> []) es")
      case Nil
      with Cons.IH True show ?thesis by (simp add: jobs_extract_step_eq)
    next
      case (Cons e es')
      then have "jobs_event_type e \<noteq> []" using filter_hdD [OF Cons] by simp
      with Cons.IH Cons True show ?thesis by (simp add: jobs_extract_step_eq)
    qed
  next
    case False
    then show ?thesis by (simp add: jobs_extract_step_eq jobs_extract_steps)
  qed
qed simp

lemma jobs_extract_fields_lookup:
  "map_of (jobs_extract_fields out detail) k =
     (if jobs_plain_key k
      then (case map_of out k of Some v \<Rightarrow> Some v | None \<Rightarrow> map_of detail k)
      else map_of out k)"
  unfolding jobs_extract_fields_def jobs_plain_key_def
proof (induction detail arbitrary: out)
  case Nil
  then show ?case by (simp split: option.split)
next
  case (Cons e detail)
  obtain k' v where e: "e = (k', v)" by force
  show ?case
    by (cases "k' = k") (auto simp: e Cons.IH Option.is_none_def split: option.split)
qed

lemma jobs_shouldSkip_count [simp]:
  "\<not> jobs_plain_key ''result_count''" "\<not> jobs_plain_key ''result_type''"
  by (simp_all add: jobs_plain_key_def)

lemma jobs_absorb_lookup:
  "map_of (jobs_absorb out ev) k =
     (case map_of out k of
        Some v \<Rightarrow> Some v
      | None \<Rightarrow> if jobs_plain_key k then map_of (ev_Detail ev) k
                else if k = ''result_count'' then jobs_event_count ev else None)"
  by (auto simp: jobs_absorb_def jobs_extract_fields_lookup jobs_event_count_def Let_def
      Option.is_none_def split: option.split)

lemma jobs_absorb_all_lookup:
  "map_of (foldl jobs_absorb out es) k =
     (case map_of out k of
        Some v \<Rightarrow> Some v
      | None \<Rightarrow> if jobs_plain_key k then first_some (\<lambda>e. map_of (ev_Detail e) k) es
                else if k = ''result_count'' then first_some jobs_event_count es else None)"
  by (induction es arbitrary: out) (auto simp: jobs_absorb_lookup split: option.split)

text \<open>The events of the newest result type, newest first.\<close>

definition jobs_result_events :: "jobs_Event list \<Rightarrow> jobs_Event list" where
  "jobs_result_events events =
     (case filter (\<lambda>e. jobs_event_type e \<noteq> []) (rev events) of
        [] \<Rightarrow> []
      | e # _ \<Rightarrow> filter (\<lambda>e'. jobs_event_type e' = jobs_event_type e) (rev events))"

text \<open>
  What the event log says of a job's result: nothing if no event names a result type;
  otherwise the newest type named, the newest positive count among the events of that type,
  and under every other key (the worker's own fields apart) the newest value among them.
\<close>

theorem jobs_extractResultRef_newest:
  "map_of (jobs_extractResultRef events) k =
     (case jobs_result_events events of
        [] \<Rightarrow> None
      | e # _ \<Rightarrow>
          if k = ''result_type'' then Some (GStr (jobs_event_type e))
          else if k = ''result_count'' then first_some jobs_event_count (jobs_result_events events)
          else if jobs_shouldSkipResultRefKey k then None
          else first_some (\<lambda>e'. map_of (ev_Detail e') k) (jobs_result_events events))"
proof (cases "filter (\<lambda>e. jobs_event_type e \<noteq> []) (rev events)")
  case Nil
  then show ?thesis by (simp add: jobs_extractResultRef_def jobs_extract_none jobs_result_events_def)
next
  case (Cons e es)
  let ?T = "jobs_event_type e" and ?same = "filter (\<lambda>e'. jobs_event_type e' = jobs_event_type e) (rev events)"
  have same: "jobs_result_events events = ?same" by (simp add: jobs_result_events_def Cons)
  have "e \<in> set (rev events)" using filter_hdD [OF Cons] by blast
  then have "?same \<noteq> []" by (auto simp: filter_empty_conv)
  then obtain e' es' where hd: "?same = e' # es'" by (cases ?same) auto
  then have "jobs_event_type e' = ?T" using filter_hdD [OF hd] by blast
  moreover have "jobs_extractResultRef events = foldl jobs_absorb [(''result_type'', GStr ?T)] ?same"
    by (simp add: jobs_extractResultRef_def jobs_extract_none Cons)
  then have "map_of (jobs_extractResultRef events) k =
      (if k = ''result_type'' then Some (GStr ?T)
       else if jobs_plain_key k then first_some (\<lambda>e. map_of (ev_Detail e) k) ?same
       else if k = ''result_count'' then first_some jobs_event_count ?same else None)"
    by (simp only: jobs_absorb_all_lookup) simp
  moreover have "jobs_plain_key k \<longleftrightarrow> k \<noteq> ''result_type'' \<and> k \<noteq> ''result_count'' \<and> \<not> jobs_shouldSkipResultRefKey k"
    by (rule jobs_plain_key_def)
  ultimately show ?thesis
    unfolding same by (simp only: hd list.case) auto
qed

end
