(* ===== verification/Job_Witnesses.thy ===== *)
theory Job_Witnesses
  imports Job_Results
begin

section \<open>Jobs: the service properties at concrete inputs\<close>

text \<open>
  Each property of the service with hypotheses is applied to a concrete service and request,
  where the hypotheses hold.
\<close>

definition jobs_start :: "'d option \<Rightarrow> 'v option \<Rightarrow> jobs_Repo \<Rightarrow> ('d, 'v) jobs_Service" where
  "jobs_start d v r = \<lparr>svc_repo = r, svc_dispatcher = d, svc_reviewSink = v, svc_metrics = None\<rparr>"

lemma jobs_start_simps [simp]:
  "svc_repo (jobs_start d v r) = r" "svc_dispatcher (jobs_start d v r) = d"
  "svc_reviewSink (jobs_start d v r) = v"
  by (simp_all add: jobs_start_def)

lemma norm_samples:
  "norm_token ''export'' = ''export''" "norm_token ''x'' = ''x''"
  by (simp_all add: norm_token_lit norm_lit_simps)

lemma jobs_req_normal:
  "jobs_normalizeInput (jobs_req ''export'' ''k'') =
     Inr ((jobs_req ''export'' ''k'')\<lparr>cj_Payload := Some []\<rparr>)"
  by (simp add: jobs_normalizeInput_def jobs_req_def norm_samples jobs_normalizeRequiredResourceType_def
      jobs_allowedResourceTypes_def jobs_normalizeRequiredCapabilities_def Let_def)

definition jobs_req_stored :: jobs_CreateJobInput where
  "jobs_req_stored = (jobs_req ''export'' ''k'')\<lparr>cj_Payload := Some []\<rparr>"

theorem jobs_normalization_canonical_witness:
  "cj_RequiredCapabilities jobs_req_stored \<noteq> [] \<and> distinct (cj_RequiredCapabilities jobs_req_stored)"
  using jobs_normalization_canonical [OF jobs_req_normal] unfolding jobs_req_stored_def by blast

lemma jobs_empty_create:
  "jobs_CreateOrGet 5 jobs_req_stored jobs_NewInMemoryRepository =
     (Inr (jobs_newJob 5 1 jobs_req_stored, True), snd (jobs_CreateOrGet 5 jobs_req_stored jobs_NewInMemoryRepository))"
  "jr_byID (snd (jobs_CreateOrGet 5 jobs_req_stored jobs_NewInMemoryRepository)) 1 =
     Some (jobs_newJob 5 1 jobs_req_stored)"
  by (simp_all add: jobs_CreateOrGet_def jobs_NewInMemoryRepository_def Let_def)

definition jobs_new_service :: "(jobs_MemPublisher, unit) jobs_Service" where
  "jobs_new_service = jobs_start (Some jobs_NewInMemoryPublisher) None jobs_NewInMemoryRepository"

lemma jobs_new_service_create:
  "\<exists>s'. jobs_CreateJob jobs_MemPublish (\<lambda>_. 5) (jobs_req ''export'' ''k'') jobs_new_service =
     (Inr (jobs_newJob 5 1 jobs_req_stored), s')"
proof -
  let ?s = "jobs_start (Some jobs_NewInMemoryPublisher) None jobs_NewInMemoryRepository
     :: (jobs_MemPublisher, unit) jobs_Service"
  have "jobs_CreateOrGet ((\<lambda>_. 5) 0) jobs_req_stored (svc_repo ?s) =
     (Inr (jobs_newJob 5 1 jobs_req_stored, True), snd (jobs_CreateOrGet 5 jobs_req_stored jobs_NewInMemoryRepository))"
    using jobs_empty_create(1) by simp
  from jobs_CreateJob_created [where clk = "\<lambda>_. 5", OF jobs_req_normal [folded jobs_req_stored_def] this]
  show ?thesis using jobs_empty_create(2)
    by (simp add: jobs_dispatch_def jobs_MemPublish_def jobs_new_service_def)
qed

theorem jobs_create_dispatches_once_witness:
  "\<exists>s' d'. jobs_CreateJob jobs_MemPublish (\<lambda>_. 5) (jobs_req ''export'' ''k'') jobs_new_service =
       (Inr (jobs_newJob 5 1 jobs_req_stored), s') \<and> svc_dispatcher s' = Some d' \<and> length (mp_items d') = 1"
proof -
  obtain s' where run: "jobs_CreateJob jobs_MemPublish (\<lambda>_. 5) (jobs_req ''export'' ''k'') jobs_new_service =
     (Inr (jobs_newJob 5 1 jobs_req_stored), s')"
    using jobs_new_service_create by blast
  have inv: "jobs_inv (svc_repo jobs_new_service)"
    and d: "svc_dispatcher jobs_new_service = Some jobs_NewInMemoryPublisher"
    by (simp_all add: jobs_new_service_def jobs_empty_inv)
  from jobs_create_dispatches_once [OF inv d run] run show ?thesis
    by (auto simp: jobs_new_service_def jobs_NewInMemoryRepository_def jobs_NewInMemoryPublisher_def)
qed

theorem jobs_failed_publish_strands_job_witness:
  "\<exists>job s'. jobs_CreateJob (\<lambda>_ _ d. (Inl ''down'', d)) (\<lambda>_. 5) (jobs_req ''export'' ''k'')
        (jobs_start (Some ()) (None :: unit option) jobs_NewInMemoryRepository) = (Inl (ExternalError ''down''), s') \<and>
      jobs_Get (job_ID job) (svc_repo s') = Some job"
proof -
  have "jr_byKey jobs_NewInMemoryRepository k = None" for k
    by (simp add: jobs_NewInMemoryRepository_def)
  then show ?thesis
    using jobs_failed_publish_strands_job [where s = "jobs_start (Some ()) (None :: unit option) jobs_NewInMemoryRepository"
        and d = "()" and pub = "\<lambda>_ _ d. (Inl ''down'', d)" and e = "''down''" and clk = "\<lambda>_. 5",
        OF _ _ jobs_req_normal] jobs_empty_inv by simp blast
qed

definition jobs_one :: jobs_Repo where
  "jobs_one = jobs_after jobs_sample"

lemma jobs_one_job: "jr_byID jobs_one 1 = Some (jobs_newJob 1 1 (jobs_req ''export'' ''k''))"
  unfolding jobs_one_def by (rule jobs_sample_job)

theorem jobs_heartbeat_effect_witness:
  "fst (jobs_ReportHeartbeat (\<lambda>_. 7) 1 ''w'' 60 (jobs_start (None :: unit option) (None :: unit option) jobs_one)) = Inr ()"
  using jobs_heartbeat_effect [of "''w''" "jobs_start (None :: unit option) (None :: unit option) jobs_one" 1 _ "\<lambda>_. 7" 60]
    jobs_one_job by simp

theorem jobs_lease_bound_witness:
  "\<exists>b lease. jr_byID (svc_repo (snd (jobs_ReportHeartbeat (\<lambda>_. 7) 1 ''w'' 9223372037
       (jobs_start (None :: unit option) (None :: unit option) jobs_one)))) 1 = Some b \<and>
     job_LeaseUntil b = Some lease \<and> lease < 7"
  using jobs_lease_bound [of "''w''" "jobs_start (None :: unit option) (None :: unit option) jobs_one" 1 _ "\<lambda>_. 7"]
    jobs_one_job by simp

theorem jobs_progress_starts_without_lease_witness:
  "\<exists>b s'. jobs_ReportProgress (\<lambda>_. 7) 1 ''w'' 3 1 0 (jobs_start (None :: unit option) (None :: unit option) jobs_one) =
       (Inr (), s') \<and> jr_byID (svc_repo s') 1 = Some b \<and> (\<forall>now. \<not> jobs_expired now b)"
  using jobs_progress_starts_without_lease
      [of "''w''" 3 1 0 "jobs_start (None :: unit option) (None :: unit option) jobs_one" 1 _ "\<lambda>_. 7"]
    jobs_one_job by simp blast

theorem jobs_terminal_report_spec_witness:
  "\<exists>s'. jobs_ReportTerminal (\<lambda>_. 9) 1 ''w'' jobs_StatusSucceeded 3 3 0 []
      (jobs_start (None :: unit option) (None :: unit option) jobs_one) = (Inr (), s')"
proof -
  have inv: "jobs_inv (svc_repo (jobs_start (None :: unit option) (None :: unit option) jobs_one))"
    by (simp add: jobs_one_def)
  have job: "jr_byID (svc_repo (jobs_start (None :: unit option) (None :: unit option) jobs_one)) 1 =
     Some (jobs_newJob 1 1 (jobs_req ''export'' ''k''))" by (simp add: jobs_one_job)
  have pre: "''w'' \<noteq> []" "jobs_terminal jobs_StatusSucceeded" "(0 :: int) \<le> 3" "(0 :: int) \<le> 0" by simp_all
  show ?thesis
    using jobs_terminal_report_spec [OF pre(1,2) pre(3) pre(3) pre(4) inv job, of "\<lambda>_. 9" "[]"] by auto
qed

definition jobs_candidate :: jobs_ReviewCandidateInput where
  "jobs_candidate = \<lparr>rc_DatasetID = 1, rc_SnapshotID = 1, rc_ItemID = 4, rc_ObjectKey = ''a.jpg'',
     rc_CategoryID = 2, rc_CategoryName = ''cat'', rc_BBox = (0, 0, 1, 1), rc_Confidence = None,
     rc_ModelName = ''m'', rc_IsPseudo = False\<rparr>"

theorem jobs_event_unknown_job_persists_witness:
  "jobs_ReportEvent (\<lambda>jid items n. (Inr [1], n + length items)) (\<lambda>_. Inr [jobs_candidate]) (\<lambda>_. 3) 99 None
      ''info'' ''review_candidates_materialized'' ''m'' (Some [(''candidates'', GArr [])])
      (jobs_start (None :: unit option) (Some 0) jobs_NewInMemoryRepository) =
     (Inl (JobNotFound 99), (jobs_start (None :: unit option) (Some 0) jobs_NewInMemoryRepository)\<lparr>svc_reviewSink := Some 1\<rparr>)"
proof -
  have m: "trim_space ''m'' \<noteq> []"
    by (simp add: trim_space_def trim_left_def is_space_def)
  show ?thesis
    by (rule jobs_event_unknown_job_persists [OF _ m, where sink = 0 and raw = "GArr []" and cands = "[jobs_candidate]"])
      (simp_all add: jobs_NewInMemoryRepository_def)
qed

end
