(* ===== verification/Job_Sweeper.thy ===== *)
theory Job_Sweeper
  imports Job_Witnesses
begin

section \<open>Jobs: the lease sweeper\<close>

text \<open>
  \<open>internal/jobs/sweeper.go\<close>. The sweeper shares repository, dispatcher and metrics with the
  service, so its \<open>Tick\<close> runs on the service state; \<open>jobs_Sweeper\<close> holds its own settings.
  One tick first requeues the jobs whose retry backoff is over and then recovers the running
  jobs whose lease has expired. Both loops visit a snapshot of the job table, in the order
  (\<open>ks\<close>, \<open>ks'\<close>) in which Go happens to iterate the map; the first error ends the tick.
\<close>

record jobs_Sweeper =
  sw_maxRetries :: int
  sw_backoffBase :: duration
  sw_backoffMax :: duration

definition jobs_NewSweeper :: "int \<Rightarrow> jobs_Sweeper" where
  "jobs_NewSweeper maxRetries =
     \<lparr>sw_maxRetries = (if maxRetries \<le> 0 then 3 else maxRetries),
      sw_backoffBase = 5 * second, sw_backoffMax = minute\<rparr>"

definition jobs_WithRetryBackoff :: "duration \<Rightarrow> duration \<Rightarrow> jobs_Sweeper \<Rightarrow> jobs_Sweeper" where
  "jobs_WithRetryBackoff base mx sw =
     (let base' = (if base \<le> 0 then 5 * second else base);
          mx' = (if mx < base' then base' else mx)
      in sw\<lparr>sw_backoffBase := base', sw_backoffMax := mx'\<rparr>)"

subsection \<open>Backoff\<close>

definition half :: "int \<Rightarrow> int" where
  "half x = (if 0 \<le> x then x div 2 else - ((- x) div 2))"

text \<open>The loop of \<open>retryBackoffDuration\<close>, with the number of rounds left.\<close>

fun jobs_backoff_loop :: "duration \<Rightarrow> nat \<Rightarrow> duration \<Rightarrow> duration" where
  "jobs_backoff_loop mx 0 delay = (if mx < delay then mx else delay)"
| "jobs_backoff_loop mx (Suc n) delay =
     (if mx \<le> delay then mx
      else if half mx < delay then mx
      else jobs_backoff_loop mx n (wrap64 (delay * 2)))"

definition jobs_retryBackoffDuration :: "jobs_Sweeper \<Rightarrow> int \<Rightarrow> duration" where
  "jobs_retryBackoffDuration sw retryCount =
     (if retryCount \<le> 1 then sw_backoffBase sw
      else jobs_backoff_loop (sw_backoffMax sw) (nat (retryCount - 1)) (sw_backoffBase sw))"

subsection \<open>Classification\<close>

text \<open>
  \<open>fmt.Sprint\<close> prints a string (or a \<open>json.Number\<close>) as its text. The print of any other
  value starts with a digit, a sign, a bracket or \<open><\<close>, or is the word of a boolean, a float
  such as \<open>NaN\<close> or a map; it is never the word \<open>fatal\<close>, whatever its case and spacing.
\<close>

fun jobs_policy_text :: "gval \<Rightarrow> string option" where
  "jobs_policy_text (GStr s) = Some s"
| "jobs_policy_text (GNumber s) = Some s"
| "jobs_policy_text _ = None"

definition jobs_classifyLeaseRetry :: "jobs_Job \<Rightarrow> string" where
  "jobs_classifyLeaseRetry job =
     (case job_Payload job of
        None \<Rightarrow> ''transient''
      | Some payload \<Rightarrow>
          (case map_of payload ''retry_policy'' of
             Some (GObj policy) \<Rightarrow>
               (case jobs_policy_text (obj_get policy ''classification'') of
                  Some t \<Rightarrow> if norm_token t = ''fatal'' then ''fatal'' else ''transient''
                | None \<Rightarrow> ''transient'')
           | _ \<Rightarrow> ''transient''))"

subsection \<open>One tick\<close>

fun for_each ::
  "(clock \<Rightarrow> 'k \<Rightarrow> 's \<Rightarrow> ('e, unit, 's) outcome) \<Rightarrow> clock \<Rightarrow> 'k list \<Rightarrow> 's \<Rightarrow> ('e, unit, 's) outcome" where
  "for_each body clk [] s = (Inr (), s)"
| "for_each body clk (k # ks) s = and_then (body clk k s) (\<lambda>_. for_each body (clock_drop 2 clk) ks)"

definition jobs_requeue ::
  "'d jobs_publish \<Rightarrow> clock \<Rightarrow> int \<Rightarrow> ('d, 'v) jobs_Service \<Rightarrow> (jobs_error, unit, ('d, 'v) jobs_Service) outcome" where
  "jobs_requeue pub clk jid s =
     (case jobs_Get jid (svc_repo s) of
        None \<Rightarrow> (Inl (JobNotFound jid), s)
      | Some job \<Rightarrow>
          and_then (jobs_on_repo (jobs_UpdateStatus (clk 0) jid jobs_StatusQueued) s) (\<lambda>_ s1.
            and_then (jobs_on_repo (jobs_AppendEvent (clk 1) jid None ''info'' ''retry_requeued''
                ''retry backoff elapsed; job requeued''
                [(''retry_count'', GInt (job_RetryCount job)),
                 (''resource_lane'', GStr (jobs_laneFor (job_RequiredResourceType job))),
                 (''retry_at'', (case job_LeaseUntil job of None \<Rightarrow> GNil | Some t \<Rightarrow> GTime t))]) s1)
              (\<lambda>_ s2. jobs_dispatch pub job s2)))"

definition jobs_recover ::
  "jobs_Sweeper \<Rightarrow> time \<Rightarrow> clock \<Rightarrow> int \<Rightarrow> ('d, 'v) jobs_Service \<Rightarrow> (jobs_error, unit, ('d, 'v) jobs_Service) outcome" where
  "jobs_recover sw now clk jid s =
     (case jobs_Get jid (svc_repo s) of
        None \<Rightarrow> (Inl (JobNotFound jid), s)
      | Some job \<Rightarrow>
          let workerID = job_WorkerID job; classification = jobs_classifyLeaseRetry job in
          if classification = ''fatal''
          then and_then (jobs_on_repo (jobs_MarkFailed (clk 0) jid ''lease_timeout'' ''fatal retry classification'') s)
                 (\<lambda>_ s1. and_then (jobs_on_repo (jobs_AppendEvent (clk 1) jid None ''error'' ''lease_timeout''
                      ''job failed after lease expiry''
                      [(''worker_id'', GStr workerID), (''retry_classification'', GStr classification)]) s1)
                    (\<lambda>_ s2. (Inr (), s2)))
          else if sw_maxRetries sw \<le> job_RetryCount job
          then and_then (jobs_on_repo (jobs_MarkFailed (clk 0) jid ''lease_timeout'' ''retry exhausted'') s)
                 (\<lambda>_ s1. and_then (jobs_on_repo (jobs_AppendEvent (clk 1) jid None ''error'' ''lease_timeout''
                      ''job failed after lease expiry''
                      [(''worker_id'', GStr workerID), (''retry_classification'', GStr classification),
                       (''retry_count'', GInt (job_RetryCount job))]) s1)
                    (\<lambda>_ s2. (Inr (), s2)))
          else
            let nextRetryCount = job_RetryCount job + 1;
                backoff = jobs_retryBackoffDuration sw nextRetryCount;
                retryAt = now + backoff
            in and_then (jobs_on_repo (jobs_MarkRetryWaiting jid retryAt) s) (\<lambda>_ s1.
                 and_then (jobs_on_repo (jobs_IncrementRetryCount jid) s1) (\<lambda>_ s2.
                   and_then (jobs_on_repo (jobs_AppendEvent (clk 0) jid None ''warn'' ''lease_recovered''
                       ''lease expired; job scheduled for retry''
                       [(''worker_id'', GStr workerID), (''retry_classification'', GStr classification),
                        (''retry_count'', GInt nextRetryCount),
                        (''retry_backoff_seconds'', GFloat (duration_seconds backoff)),
                        (''retry_at'', GTime retryAt)]) s2)
                     (\<lambda>_ s3. (Inr (), s3\<lparr>svc_metrics := obs_IncLeaseRecovery (job_JobType job) (svc_metrics s3)\<rparr>)))))"

definition jobs_Tick ::
  "'d jobs_publish \<Rightarrow> jobs_Sweeper \<Rightarrow> clock \<Rightarrow> time \<Rightarrow> int list \<Rightarrow> int list \<Rightarrow> ('d, 'v) jobs_Service \<Rightarrow>
     (jobs_error, unit, ('d, 'v) jobs_Service) outcome" where
  "jobs_Tick pub sw clk now ks ks' s =
     (let ready = jobs_ListRetryReady ks now (svc_repo s) in
      and_then (for_each (jobs_requeue pub) clk ready s) (\<lambda>_ s1.
        for_each (jobs_recover sw now) (clock_drop (2 * length ready) clk)
          (jobs_ListExpiredRunning ks' now (svc_repo s1)) s1))"

end
