(* ===== verification/Job_Sweeper_Facts.thy ===== *)
theory Job_Sweeper_Facts
  imports Job_Sweeper
begin

section \<open>Jobs: what a sweep does\<close>

text \<open>
  The backoff in closed form, the effect of a tick on every job, the bound on retries, and
  what a failing publisher does to a requeued job.
\<close>

subsection \<open>Backoff\<close>

definition jobs_sweeper_ok :: "jobs_Sweeper \<Rightarrow> bool" where
  "jobs_sweeper_ok sw \<longleftrightarrow>
     0 < sw_maxRetries sw \<and> 0 < sw_backoffBase sw \<and> sw_backoffBase sw \<le> sw_backoffMax sw \<and>
     sw_backoffMax sw < 2 ^ 63"

lemma jobs_NewSweeper_ok: "jobs_sweeper_ok (jobs_NewSweeper n)"
  by (simp add: jobs_sweeper_ok_def jobs_NewSweeper_def second_def minute_def)

lemma jobs_WithRetryBackoff_ok:
  "jobs_sweeper_ok sw \<Longrightarrow> in_int64 base \<Longrightarrow> in_int64 mx \<Longrightarrow> jobs_sweeper_ok (jobs_WithRetryBackoff base mx sw)"
  by (auto simp: jobs_sweeper_ok_def jobs_WithRetryBackoff_def in_int64_def second_def Let_def)

lemma jobs_backoff_loop_min:
  assumes "0 < d" and "0 < mx" and "mx < 2 ^ 63"
  shows "jobs_backoff_loop mx n d = min mx (d * 2 ^ n)"
  using assms(1)
proof (induction n arbitrary: d)
  case (Suc n)
  have pow: "(1 :: int) \<le> 2 ^ n" by simp
  have up: "2 * d \<le> d * 2 ^ Suc n" using Suc.prems pow by simp
  consider "mx \<le> d" | "d < mx" "half mx < d" | "d < mx" "d \<le> half mx" by linarith
  then show ?case
  proof cases
    case 1
    then have "mx \<le> d * 2 ^ Suc n" using up Suc.prems by linarith
    with 1 show ?thesis by (simp del: power_Suc)
  next
    case 2
    then have "mx \<le> 2 * d" using assms(2) by (simp add: half_def)
    then have "mx \<le> d * 2 ^ Suc n" using up by linarith
    with 2 show ?thesis by (simp del: power_Suc)
  next
    case 3
    then have "2 * d \<le> mx" using assms(2) by (simp add: half_def)
    moreover from this have "wrap64 (d * 2) = d * 2"
      using assms(3) Suc.prems by (intro wrap64_id) (simp add: in_int64_def)
    ultimately show ?thesis using 3 Suc.IH [of "d * 2"] Suc.prems by simp
  qed
qed (simp add: min_def)

text \<open>
  The backoff before the \<open>n\<close>-th retry is the base doubled \<open>n - 1\<close> times, capped at the
  maximum, in exact arithmetic: the doubling loop never overflows.
\<close>

theorem jobs_backoff_closed_form:
  assumes "jobs_sweeper_ok sw" and "1 \<le> n"
  shows "jobs_retryBackoffDuration sw n = min (sw_backoffMax sw) (sw_backoffBase sw * 2 ^ nat (n - 1))"
  using assms by (auto simp: jobs_retryBackoffDuration_def jobs_sweeper_ok_def jobs_backoff_loop_min)

theorem jobs_backoff_closed_form_witness:
  "jobs_retryBackoffDuration (jobs_NewSweeper 0) 3 = 20 * second \<and>
   jobs_retryBackoffDuration (jobs_NewSweeper 0) 10 = minute"
  using jobs_backoff_closed_form [OF jobs_NewSweeper_ok, of 3 0] jobs_backoff_closed_form [OF jobs_NewSweeper_ok, of 10 0]
  by (simp add: jobs_NewSweeper_def second_def minute_def)

lemma jobs_backoff_positive: "jobs_sweeper_ok sw \<Longrightarrow> 0 < jobs_retryBackoffDuration sw n"
  by (auto simp: jobs_retryBackoffDuration_def jobs_sweeper_ok_def jobs_backoff_loop_min)

subsection \<open>Repository moves\<close>

lemma jobs_requeue_moves: "jobs_moves (svc_repo s) (svc_repo (snd (jobs_requeue pub clk jid s)))"
  unfolding jobs_requeue_def
  by (auto split: option.splits intro!: jobs_moves_intros)

lemma jobs_recover_moves: "jobs_moves (svc_repo s) (svc_repo (snd (jobs_recover sw now clk jid s)))"
  unfolding jobs_recover_def Let_def
  by (auto split: option.splits intro!: jobs_moves_intros)

lemma for_each_moves:
  assumes "\<And>clk k s. jobs_moves (svc_repo s) (svc_repo (snd (body clk k s)))"
  shows "jobs_moves (svc_repo s) (svc_repo (snd (for_each body clk ks s)))"
proof (induction ks arbitrary: clk s)
  case (Cons k ks)
  show ?case unfolding for_each.simps
    by (rule jobs_moves_and_then [OF assms]) (blast intro: jobs_moves_trans Cons.IH)
qed simp

lemma jobs_Tick_moves: "jobs_moves (svc_repo s) (svc_repo (snd (jobs_Tick pub sw clk now ks ks' s)))"
  unfolding jobs_Tick_def Let_def
  by (rule jobs_moves_and_then [OF for_each_moves])
    (blast intro: jobs_requeue_moves jobs_recover_moves for_each_moves jobs_moves_trans)+

subsection \<open>The effect on one job\<close>

definition jobs_requeued :: "jobs_Job \<Rightarrow> jobs_Job" where
  "jobs_requeued a = a\<lparr>job_Status := jobs_StatusQueued, job_LeaseUntil := None\<rparr>"

definition jobs_gives_up :: "jobs_Sweeper \<Rightarrow> jobs_Job \<Rightarrow> bool" where
  "jobs_gives_up sw a \<longleftrightarrow> jobs_classifyLeaseRetry a = ''fatal'' \<or> sw_maxRetries sw \<le> job_RetryCount a"

definition jobs_failed_by_lease :: "time \<Rightarrow> jobs_Job \<Rightarrow> jobs_Job" where
  "jobs_failed_by_lease t a =
     a\<lparr>job_Status := jobs_StatusFailed, job_FinishedAt := Some t, job_ErrorCode := ''lease_timeout'',
       job_ErrorMsg := (if jobs_classifyLeaseRetry a = ''fatal'' then ''fatal retry classification''
                        else ''retry exhausted'')\<rparr>"

definition jobs_backed_off :: "jobs_Sweeper \<Rightarrow> time \<Rightarrow> jobs_Job \<Rightarrow> jobs_Job" where
  "jobs_backed_off sw now a =
     a\<lparr>job_Status := jobs_StatusRetryWaiting,
       job_LeaseUntil := Some (now + jobs_retryBackoffDuration sw (job_RetryCount a + 1)),
       job_RetryCount := job_RetryCount a + 1\<rparr>"

definition jobs_recovered :: "jobs_Sweeper \<Rightarrow> time \<Rightarrow> jobs_Job \<Rightarrow> jobs_Job \<Rightarrow> bool" where
  "jobs_recovered sw now a b \<longleftrightarrow>
     (if jobs_gives_up sw a then \<exists>t. b = jobs_failed_by_lease t a else b = jobs_backed_off sw now a)"

definition jobs_pub_ok :: "'d jobs_publish \<Rightarrow> bool" where
  "jobs_pub_ok pub \<longleftrightarrow> (\<forall>lane p d. succeeds (pub lane p d))"

lemma jobs_dispatch_ok:
  assumes "jobs_pub_ok pub"
  shows "\<exists>s'. jobs_dispatch pub job s = (Inr (), s') \<and> svc_repo s' = svc_repo s"
proof (cases "svc_dispatcher s")
  case None
  then show ?thesis by (simp add: jobs_dispatch_def)
next
  case (Some d)
  have "succeeds (pub (jobs_laneFor (job_RequiredResourceType job)) (jobs_buildDispatchPayload job) d)"
    using assms by (simp add: jobs_pub_ok_def)
  then obtain u d' where "pub (jobs_laneFor (job_RequiredResourceType job)) (jobs_buildDispatchPayload job) d = (Inr u, d')"
    by (cases "pub (jobs_laneFor (job_RequiredResourceType job)) (jobs_buildDispatchPayload job) d")
      (auto simp: succeeds_def split: sum.splits)
  with Some show ?thesis by (simp add: jobs_dispatch_def)
qed

lemma jobs_requeue_body:
  assumes "job_Status a = jobs_StatusRetryWaiting"
  shows "jobs_status_body now jobs_StatusQueued a = Inr (jobs_requeued a)"
  using assms
  by (simp add: jobs_status_body_def jobs_CanTransition_def jobs_transitions_def jobs_requeued_def)

text \<open>Requeueing one job up to the dispatch.\<close>

definition jobs_requeued_state :: "clock \<Rightarrow> int \<Rightarrow> jobs_Job \<Rightarrow> ('d, 'v) jobs_Service \<Rightarrow> ('d, 'v) jobs_Service" where
  "jobs_requeued_state clk jid a s =
     s\<lparr>svc_repo := snd (jobs_AppendEvent (clk 1) jid None ''info'' ''retry_requeued''
                ''retry backoff elapsed; job requeued''
                [(''retry_count'', GInt (job_RetryCount a)),
                 (''resource_lane'', GStr (jobs_laneFor (job_RequiredResourceType a))),
                 (''retry_at'', (case job_LeaseUntil a of None \<Rightarrow> GNil | Some t \<Rightarrow> GTime t))]
            (jobs_put jid (jobs_requeued a) (svc_repo s)))\<rparr>"

lemma jobs_requeued_state_simps [simp]:
  "svc_dispatcher (jobs_requeued_state clk jid a s) = svc_dispatcher s"
  "jr_byID (svc_repo (jobs_requeued_state clk jid a s)) = (jr_byID (svc_repo s))(jid \<mapsto> jobs_requeued a)"
  by (simp_all add: jobs_requeued_state_def jobs_AppendEvent_eq)

lemma jobs_requeue_eq:
  assumes "jr_byID (svc_repo s) jid = Some a" and "job_Status a = jobs_StatusRetryWaiting"
  shows "jobs_requeue pub clk jid s = jobs_dispatch pub a (jobs_requeued_state clk jid a s)"
proof -
  note up = jobs_with_put [where body = "jobs_status_body (clk 0) jobs_StatusQueued",
      OF assms(1) jobs_requeue_body [OF assms(2)]]
  show ?thesis
    using assms(1) by (simp add: jobs_requeue_def jobs_Get_def jobs_UpdateStatus_def jobs_on_repo_eq up
        jobs_AppendEvent_eq jobs_requeued_state_def)
qed

lemma jobs_requeue_step:
  assumes "jobs_pub_ok pub" and "jr_byID (svc_repo s) jid = Some a" and "job_Status a = jobs_StatusRetryWaiting"
  shows "\<exists>s'. jobs_requeue pub clk jid s = (Inr (), s') \<and>
           jr_byID (svc_repo s') = (jr_byID (svc_repo s))(jid \<mapsto> jobs_requeued a)"
  using jobs_dispatch_ok [OF assms(1), of a "jobs_requeued_state clk jid a s"]
  unfolding jobs_requeue_eq [OF assms(2,3)] by auto

lemma jobs_fail_body:
  "job_Status a = jobs_StatusRunning \<Longrightarrow>
     jobs_failed_body t c m a =
       Inr (a\<lparr>job_Status := jobs_StatusFailed, job_FinishedAt := Some t, job_ErrorCode := c, job_ErrorMsg := m\<rparr>)"
  by (simp add: jobs_failed_body_def jobs_CanTransition_iff [THEN iffD2])

lemma jobs_retry_body_running:
  "job_Status a = jobs_StatusRunning \<Longrightarrow>
     jobs_retry_body t a = Inr (a\<lparr>job_Status := jobs_StatusRetryWaiting, job_LeaseUntil := Some t\<rparr>)"
  by (simp add: jobs_retry_body_def jobs_CanTransition_iff [THEN iffD2])

lemma jobs_recover_step:
  assumes job: "jr_byID (svc_repo s) jid = Some a" and running: "job_Status a = jobs_StatusRunning"
  shows "\<exists>s' b. jobs_recover sw now clk jid s = (Inr (), s') \<and>
           jr_byID (svc_repo s') = (jr_byID (svc_repo s))(jid \<mapsto> b) \<and> jobs_recovered sw now a b"
proof (cases "jobs_gives_up sw a")
  case True
  note up = jobs_with_put [where body = "jobs_failed_body (clk 0) c m" for c m, OF job jobs_fail_body [OF running]]
  have "\<exists>s'. jobs_recover sw now clk jid s = (Inr (), s') \<and>
     jr_byID (svc_repo s') = (jr_byID (svc_repo s))(jid \<mapsto> jobs_failed_by_lease (clk 0) a)"
    using True job
    by (auto simp: jobs_recover_def jobs_gives_up_def jobs_Get_def jobs_MarkFailed_def jobs_on_repo_eq up
        jobs_AppendEvent_eq jobs_failed_by_lease_def Let_def)
  with True show ?thesis unfolding jobs_recovered_def by auto
next
  case False
  let ?t = "now + jobs_retryBackoffDuration sw (job_RetryCount a + 1)"
  let ?a1 = "a\<lparr>job_Status := jobs_StatusRetryWaiting, job_LeaseUntil := Some ?t\<rparr>"
  note up = jobs_with_put [where body = "jobs_retry_body ?t", OF job jobs_retry_body_running [OF running]]
  have inc: "jobs_with jid (\<lambda>job. Inr (job\<lparr>job_RetryCount := job_RetryCount job + 1\<rparr>)) (jobs_put jid ?a1 (svc_repo s)) =
     (Inr (jobs_backed_off sw now a), jobs_put jid (jobs_backed_off sw now a) (jobs_put jid ?a1 (svc_repo s)))"
    by (rule jobs_with_put [of _ _ ?a1]) (simp, cases a, simp add: jobs_backed_off_def)
  have "\<exists>s'. jobs_recover sw now clk jid s = (Inr (), s') \<and>
     jr_byID (svc_repo s') = (jr_byID (svc_repo s))(jid \<mapsto> jobs_backed_off sw now a)"
    using False job
    by (simp add: jobs_recover_def jobs_gives_up_def jobs_Get_def jobs_MarkRetryWaiting_def
        jobs_IncrementRetryCount_def jobs_on_repo_eq up inc jobs_AppendEvent_eq Let_def)
  with False show ?thesis unfolding jobs_recovered_def by auto
qed

subsection \<open>The effect of a tick\<close>

text \<open>A loop whose body updates one known row each time, and never fails, updates all of them.\<close>

definition jobs_rows :: "(jobs_Job \<Rightarrow> bool) \<Rightarrow> (jobs_Job \<Rightarrow> jobs_Job \<Rightarrow> bool) \<Rightarrow> int list \<Rightarrow> jobs_Repo \<Rightarrow> jobs_Repo \<Rightarrow> bool" where
  "jobs_rows P R ks r r' \<longleftrightarrow>
     (\<forall>j \<in> set ks. \<exists>a b. jr_byID r j = Some a \<and> jr_byID r' j = Some b \<and> P a \<and> R a b) \<and>
     (\<forall>j. j \<notin> set ks \<longrightarrow> jr_byID r' j = jr_byID r j)"

lemma jobs_rows_dom: "jobs_rows P R ks r r' \<Longrightarrow> dom (jr_byID r') = dom (jr_byID r)"
  unfolding jobs_rows_def dom_def by (rule Collect_cong) (metis option.distinct(1))

lemma jobs_rows_in:
  "jobs_rows P R ks r r' \<Longrightarrow> j \<in> set ks \<Longrightarrow> jr_byID r j = Some a \<Longrightarrow> \<exists>b. jr_byID r' j = Some b \<and> R a b"
  unfolding jobs_rows_def by fastforce

lemma jobs_rows_out: "jobs_rows P R ks r r' \<Longrightarrow> j \<notin> set ks \<Longrightarrow> jr_byID r' j = jr_byID r j"
  unfolding jobs_rows_def by blast

lemma for_each_rows:
  assumes step: "\<And>clk s k a. jr_byID (svc_repo s) k = Some a \<Longrightarrow> P a \<Longrightarrow>
      \<exists>s' b. body clk k s = (Inr (), s') \<and> jr_byID (svc_repo s') = (jr_byID (svc_repo s))(k \<mapsto> b) \<and> R a b"
    and "distinct ks" and "\<forall>k \<in> set ks. \<exists>a. jr_byID (svc_repo s) k = Some a \<and> P a"
  shows "\<exists>s'. for_each body clk ks s = (Inr (), s') \<and> jobs_rows P R ks (svc_repo s) (svc_repo s')"
  using assms(2,3)
proof (induction ks arbitrary: clk s)
  case Nil
  then show ?case by (simp add: jobs_rows_def)
next
  case (Cons k ks)
  obtain a where a: "jr_byID (svc_repo s) k = Some a" "P a" using Cons.prems(2) by auto
  obtain s1 b where s1: "body clk k s = (Inr (), s1)"
    "jr_byID (svc_repo s1) = (jr_byID (svc_repo s))(k \<mapsto> b)" "R a b"
    using step [OF a] by blast
  have "\<forall>j \<in> set ks. \<exists>a. jr_byID (svc_repo s1) j = Some a \<and> P a" and "distinct ks"
    using Cons.prems s1(2) by auto
  from Cons.IH [OF this(2,1), of "clock_drop 2 clk"] obtain s' where
    s': "for_each body (clock_drop 2 clk) ks s1 = (Inr (), s')"
    and rows: "jobs_rows P R ks (svc_repo s1) (svc_repo s')" by blast
  have k: "k \<notin> set ks" using Cons.prems by simp
  have "jr_byID (svc_repo s') k = Some b" using jobs_rows_out [OF rows k] s1(2) by simp
  moreover have same: "jr_byID (svc_repo s1) j = jr_byID (svc_repo s) j" if "j \<noteq> k" for j
    using s1(2) that by simp
  moreover have "j \<noteq> k" if "j \<in> set ks" for j using k that by blast
  ultimately have "jobs_rows P R (k # ks) (svc_repo s) (svc_repo s')"
    using rows a s1(3) unfolding jobs_rows_def by simp
  with s1(1) s' show ?case by auto
qed

definition jobs_swept :: "jobs_Sweeper \<Rightarrow> time \<Rightarrow> jobs_Job \<Rightarrow> jobs_Job \<Rightarrow> bool" where
  "jobs_swept sw now a b \<longleftrightarrow>
     (if jobs_retry_ready now a then b = jobs_requeued a
      else if jobs_expired now a then jobs_recovered sw now a b
      else b = a)"

lemma jobs_selects_iff: "jobs_selects p r j \<longleftrightarrow> (\<exists>a. jr_byID r j = Some a \<and> p a)"
  by (simp add: jobs_selects_def split: option.split)

lemma jobs_ready_not_expired: "jobs_retry_ready now a \<Longrightarrow> \<not> jobs_expired now a"
  by (auto simp: jobs_retry_ready_def jobs_expired_def)

lemma jobs_requeued_not_expired [simp]: "\<not> jobs_expired now (jobs_requeued a)"
  by (simp add: jobs_expired_def jobs_requeued_def)

lemma jobs_requeue_ready:
  assumes "jobs_pub_ok pub" and "jr_byID (svc_repo s) k = Some a" and "jobs_retry_ready now a"
  shows "\<exists>s' b. jobs_requeue pub clk k s = (Inr (), s') \<and>
           jr_byID (svc_repo s') = (jr_byID (svc_repo s))(k \<mapsto> b) \<and> b = jobs_requeued a"
  using jobs_requeue_step [OF assms(1,2)] assms(3) by (simp add: jobs_retry_ready_def)

lemma jobs_recover_expired:
  assumes "jr_byID (svc_repo s) k = Some a" and "jobs_expired now a"
  shows "\<exists>s' b. jobs_recover sw now clk k s = (Inr (), s') \<and>
           jr_byID (svc_repo s') = (jr_byID (svc_repo s))(k \<mapsto> b) \<and> jobs_recovered sw now a b"
  using jobs_recover_step [OF assms(1)] assms(2) by (simp add: jobs_expired_def)

lemma jobs_requeue_loop:
  assumes "jobs_pub_ok pub" and "distinct ks"
    and "\<forall>k \<in> set ks. \<exists>a. jr_byID (svc_repo s) k = Some a \<and> jobs_retry_ready now a"
  shows "\<exists>s'. for_each (jobs_requeue pub) clk ks s = (Inr (), s') \<and>
           jobs_rows (jobs_retry_ready now) (\<lambda>a b. b = jobs_requeued a) ks (svc_repo s) (svc_repo s')"
  by (rule for_each_rows [OF _ assms(2,3)]) (rule jobs_requeue_ready [OF assms(1)])

lemma jobs_recover_loop:
  assumes "distinct ks" and "\<forall>k \<in> set ks. \<exists>a. jr_byID (svc_repo s) k = Some a \<and> jobs_expired now a"
  shows "\<exists>s'. for_each (jobs_recover sw now) clk ks s = (Inr (), s') \<and>
           jobs_rows (jobs_expired now) (jobs_recovered sw now) ks (svc_repo s) (svc_repo s')"
  by (rule for_each_rows [OF _ assms]) (rule jobs_recover_expired)

text \<open>
  When the publisher accepts everything, a tick succeeds and treats every job as it
  should, whatever the order the table is visited in: a job whose backoff is over is queued
  again without a lease, a running job with an expired lease is failed if its policy is fatal
  or its retries are used up and otherwise waits for the backoff of its next retry, and
  every other job is left alone.
\<close>

theorem jobs_tick_effect:
  assumes ok: "jobs_pub_ok pub"
    and orders: "distinct ks" "set ks = dom (jr_byID (svc_repo s))"
      "distinct ks'" "set ks' = dom (jr_byID (svc_repo s))"
  shows "\<exists>s'. jobs_Tick pub sw clk now ks ks' s = (Inr (), s') \<and>
           dom (jr_byID (svc_repo s')) = dom (jr_byID (svc_repo s)) \<and>
           (\<forall>jid a. jr_byID (svc_repo s) jid = Some a \<longrightarrow>
              (\<exists>b. jr_byID (svc_repo s') jid = Some b \<and> jobs_swept sw now a b))"
proof -
  let ?ready = "jobs_ListRetryReady ks now (svc_repo s)"
  have "\<forall>k \<in> set ?ready. \<exists>a. jr_byID (svc_repo s) k = Some a \<and> jobs_retry_ready now a"
    and dist: "distinct ?ready"
    using orders by (auto simp: jobs_ListRetryReady_def jobs_selects_iff)
  from jobs_requeue_loop [OF ok dist this(1)]
  obtain s1 where s1: "for_each (jobs_requeue pub) clk ?ready s = (Inr (), s1)"
    and rows1: "jobs_rows (jobs_retry_ready now) (\<lambda>a b. b = jobs_requeued a) ?ready (svc_repo s) (svc_repo s1)"
    by blast
  let ?gone = "jobs_ListExpiredRunning ks' now (svc_repo s1)"
  have "\<forall>k \<in> set ?gone. \<exists>a. jr_byID (svc_repo s1) k = Some a \<and> jobs_expired now a"
    and dist': "distinct ?gone"
    using orders by (auto simp: jobs_ListExpiredRunning_def jobs_selects_iff)
  from jobs_recover_loop [OF dist' this(1)]
  obtain s' where s': "for_each (jobs_recover sw now) (clock_drop (2 * length ?ready) clk) ?gone s1 = (Inr (), s')"
    and rows2: "jobs_rows (jobs_expired now) (jobs_recovered sw now) ?gone (svc_repo s1) (svc_repo s')"
    by blast
  have run: "jobs_Tick pub sw clk now ks ks' s = (Inr (), s')"
    unfolding jobs_Tick_def Let_def s1 and_then_simps by (rule s')
  note dom1 = jobs_rows_dom [OF rows1]
  have dom2: "dom (jr_byID (svc_repo s')) = dom (jr_byID (svc_repo s))"
    using jobs_rows_dom [OF rows2] dom1 by simp
  have ready: "j \<in> set ?ready \<longleftrightarrow> (\<exists>a. jr_byID (svc_repo s) j = Some a \<and> jobs_retry_ready now a)" for j
    using orders(2) by (auto simp: jobs_ListRetryReady_def jobs_selects_iff)
  have gone: "j \<in> set ?gone \<longleftrightarrow> (\<exists>a. jr_byID (svc_repo s1) j = Some a \<and> jobs_expired now a)" for j
    using orders(4) dom1 by (auto simp: jobs_ListExpiredRunning_def jobs_selects_iff)
  have "\<exists>b. jr_byID (svc_repo s') j = Some b \<and> jobs_swept sw now a b" if a: "jr_byID (svc_repo s) j = Some a" for j a
  proof (cases "jobs_retry_ready now a")
    case True
    with a ready jobs_rows_in [OF rows1 _ a] have "jr_byID (svc_repo s1) j = Some (jobs_requeued a)" by blast
    moreover from this gone have "jr_byID (svc_repo s') j = jr_byID (svc_repo s1) j"
      by (intro jobs_rows_out [OF rows2]) simp
    ultimately show ?thesis using True by (simp add: jobs_swept_def)
  next
    case False
    with a ready have "jr_byID (svc_repo s1) j = Some a" using jobs_rows_out [OF rows1] by simp
    then show ?thesis using False gone jobs_rows_in [OF rows2] jobs_rows_out [OF rows2]
      by (cases "jobs_expired now a") (auto simp: jobs_swept_def)
  qed
  with run dom2 show ?thesis by blast
qed

lemma jobs_swept_settled:
  assumes "jobs_sweeper_ok sw" and "jobs_swept sw now a b"
  shows "\<not> jobs_retry_ready now b" and "\<not> jobs_expired now b"
    and "job_RetryCount a \<le> sw_maxRetries sw \<Longrightarrow> job_RetryCount b \<le> sw_maxRetries sw"
  using assms jobs_backoff_positive [OF assms(1), of "job_RetryCount a + 1"]
  by (auto simp: jobs_swept_def jobs_recovered_def jobs_requeued_def jobs_failed_by_lease_def
      jobs_backed_off_def jobs_gives_up_def jobs_retry_ready_def jobs_expired_def split: if_splits)

text \<open>
  C5. With a publisher that takes every message, and no job retried more often than allowed before, a tick
  succeeds and leaves nothing to do: at the same instant no job is ready for retry and no lease is expired any
  more, and still no job has been retried more often than allowed.
\<close>

theorem jobs_tick_settles:
  assumes "jobs_pub_ok pub" and sw: "jobs_sweeper_ok sw"
    and "distinct ks" "set ks = dom (jr_byID (svc_repo s))"
      "distinct ks'" "set ks' = dom (jr_byID (svc_repo s))"
    and bound: "\<forall>jid a. jr_byID (svc_repo s) jid = Some a \<longrightarrow> job_RetryCount a \<le> sw_maxRetries sw"
  shows "\<exists>s'. jobs_Tick pub sw clk now ks ks' s = (Inr (), s') \<and>
           jobs_ListRetryReady ks now (svc_repo s') = [] \<and> jobs_ListExpiredRunning ks' now (svc_repo s') = [] \<and>
           (\<forall>jid b. jr_byID (svc_repo s') jid = Some b \<longrightarrow> job_RetryCount b \<le> sw_maxRetries sw)"
proof -
  obtain s' where run: "jobs_Tick pub sw clk now ks ks' s = (Inr (), s')"
    and dom: "dom (jr_byID (svc_repo s')) = dom (jr_byID (svc_repo s))"
    and swept: "\<And>jid a. jr_byID (svc_repo s) jid = Some a \<Longrightarrow>
        \<exists>b. jr_byID (svc_repo s') jid = Some b \<and> jobs_swept sw now a b"
    using jobs_tick_effect [OF assms(1,3-6), of sw clk now] by blast
  have row: "\<not> jobs_retry_ready now b \<and> \<not> jobs_expired now b \<and> job_RetryCount b \<le> sw_maxRetries sw"
    if b: "jr_byID (svc_repo s') jid = Some b" for jid b
  proof -
    from b dom obtain a where a: "jr_byID (svc_repo s) jid = Some a" by (metis domD domI)
    with swept b have "jobs_swept sw now a b" by fastforce
    then show ?thesis using jobs_swept_settled [OF sw] bound a by blast
  qed
  then show ?thesis using run
    by (intro exI [of _ s'])
      (auto simp: jobs_ListRetryReady_def jobs_ListExpiredRunning_def jobs_selects_iff filter_empty_conv)
qed

text \<open>
  If the publisher fails while a job is requeued, the tick fails after the job has
  become \<open>queued\<close>: it has left \<open>retry_waiting\<close> without having been delivered, and no later
  tick selects it again.
\<close>

theorem jobs_requeue_failure_strands_job:
  assumes job: "jr_byID (svc_repo s) jid = Some a" and ready: "jobs_retry_ready now a"
    and disp: "svc_dispatcher s = Some d" and down: "\<And>lane p. pub lane p d = (Inl e, d)"
  shows "\<exists>s'. jobs_Tick pub sw clk now (jid # ks) ks' s = (Inl (ExternalError e), s') \<and>
           jr_byID (svc_repo s') jid = Some (jobs_requeued a) \<and>
           (\<forall>ks now'. jid \<notin> set (jobs_ListRetryReady ks now' (svc_repo s')) \<and>
                       jid \<notin> set (jobs_ListExpiredRunning ks now' (svc_repo s')))"
proof -
  let ?s' = "jobs_requeued_state clk jid a s"
  have "jobs_dispatch pub a ?s' = (Inl (ExternalError e), ?s'\<lparr>svc_dispatcher := Some d\<rparr>)"
    by (simp add: jobs_dispatch_def disp down)
  then have step: "jobs_requeue pub clk jid s = (Inl (ExternalError e), ?s'\<lparr>svc_dispatcher := Some d\<rparr>)"
    using jobs_requeue_eq [OF job, of pub clk] ready by (simp add: jobs_retry_ready_def)
  have "jobs_ListRetryReady (jid # ks) now (svc_repo s) = jid # jobs_ListRetryReady ks now (svc_repo s)"
    using job ready by (simp add: jobs_ListRetryReady_def jobs_selects_def)
  then have "jobs_Tick pub sw clk now (jid # ks) ks' s = (Inl (ExternalError e), ?s'\<lparr>svc_dispatcher := Some d\<rparr>)"
    by (simp add: jobs_Tick_def Let_def step)
  then show ?thesis
    by (auto simp: jobs_ListRetryReady_def jobs_ListExpiredRunning_def jobs_selects_def
        jobs_retry_ready_def jobs_expired_def jobs_requeued_def)
qed

subsection \<open>Histories of the whole job subsystem\<close>

text \<open>The calls a server makes on behalf of its clients, its workers and its own ticker.\<close>

datatype jobs_call =
    CallCreateJob clock jobs_CreateJobInput
  | CallRegisterWorker clock jobs_RegisterWorkerInput
  | CallGetJob int
  | CallReportHeartbeat clock int string int
  | CallReportProgress clock int string int int int
  | CallReportItemError clock int int string "obj option"
  | CallReportEvent clock int "int option" string string string "obj option"
  | CallReportTerminal clock int string string int int int obj
  | CallTick clock jobs_Sweeper time "int list" "int list"

fun jobs_serve ::
  "'d jobs_publish \<Rightarrow> 'v jobs_persist \<Rightarrow> jobs_decode \<Rightarrow> ('d, 'v) jobs_Service \<Rightarrow> jobs_call \<Rightarrow> ('d, 'v) jobs_Service" where
  "jobs_serve pub persist decode s (CallCreateJob clk inp) = snd (jobs_CreateJob pub clk inp s)"
| "jobs_serve pub persist decode s (CallRegisterWorker clk inp) = snd (jobs_RegisterWorker clk inp s)"
| "jobs_serve pub persist decode s (CallGetJob jid) = snd (jobs_GetJob jid s)"
| "jobs_serve pub persist decode s (CallReportHeartbeat clk jid w secs) = snd (jobs_ReportHeartbeat clk jid w secs s)"
| "jobs_serve pub persist decode s (CallReportProgress clk jid w t sc f) = snd (jobs_ReportProgress clk jid w t sc f s)"
| "jobs_serve pub persist decode s (CallReportItemError clk jid it m d) =
     snd (jobs_ReportItemError persist decode clk jid it m d s)"
| "jobs_serve pub persist decode s (CallReportEvent clk jid it lv ty m d) =
     snd (jobs_ReportEvent persist decode clk jid it lv ty m d s)"
| "jobs_serve pub persist decode s (CallReportTerminal clk jid w st t sc f ref) =
     snd (jobs_ReportTerminal clk jid w st t sc f ref s)"
| "jobs_serve pub persist decode s (CallTick clk sw now ks ks') = snd (jobs_Tick pub sw clk now ks ks' s)"

lemma jobs_serve_moves: "jobs_moves (svc_repo s) (svc_repo (jobs_serve pub persist decode s c))"
  by (cases c)
    (simp_all add: jobs_CreateJob_moves jobs_RegisterWorker_moves jobs_GetJob_moves jobs_ReportHeartbeat_moves
      jobs_ReportProgress_moves jobs_ReportItemError_def jobs_ReportEvent_moves jobs_ReportTerminal_moves
      jobs_Tick_moves)

lemma jobs_serve_inv: "jobs_inv (svc_repo s) \<Longrightarrow> jobs_inv (svc_repo (jobs_serve pub persist decode s c))"
  and jobs_serve_le: "jobs_inv (svc_repo s) \<Longrightarrow> jobs_le (svc_repo s) (svc_repo (jobs_serve pub persist decode s c))"
  using jobs_serve_moves [of s pub persist decode c] by (simp_all add: jobs_moves_def)

interpretation jobs_server: progress_machine
    "\<lambda>s. svc_repo s = jobs_NewInMemoryRepository" "jobs_serve pub persist decode"
    "\<lambda>s. jobs_inv (svc_repo s)" "\<lambda>s s'. jobs_le (svc_repo s) (svc_repo s')"
  for pub persist decode
  by unfold_locales (auto intro: jobs_empty_inv jobs_le_trans jobs_serve_inv jobs_serve_le)

text \<open>
  C1. Through every history of calls and ticks, failing ones included, and whatever the
  publisher and the review sink do, the store stays consistent; between any two points of the
  history each job moves only along the lifecycle graph and a finished job keeps its status.
\<close>

theorem jobs_service_histories:
  assumes "svc_repo s = jobs_NewInMemoryRepository"
  shows "let s1 = foldl (jobs_serve pub persist decode) s cs;
             s2 = foldl (jobs_serve pub persist decode) s (cs @ cs')
         in jobs_inv (svc_repo s1) \<and>
            (\<forall>jid a. jr_byID (svc_repo s1) jid = Some a \<longrightarrow>
               (\<exists>b. jr_byID (svc_repo s2) jid = Some b \<and> jobs_evolves a b \<and>
                    (jobs_terminal (job_Status a) \<longrightarrow> job_Status b = job_Status a)))"
proof -
  let ?s1 = "foldl (jobs_serve pub persist decode) s cs"
  let ?s2 = "foldl (jobs_serve pub persist decode) s (cs @ cs')"
  have start: "jobs_inv (svc_repo s)" using assms jobs_empty_inv by simp
  have inv: "jobs_inv (svc_repo ?s1)" by (rule jobs_server.run_inv [OF assms])
  have le: "jobs_le (svc_repo ?s1) (svc_repo ?s2)" by (rule jobs_server.run_le_later [OF start])
  have "\<exists>b. jr_byID (svc_repo ?s2) jid = Some b \<and> jobs_evolves a b \<and>
      (jobs_terminal (job_Status a) \<longrightarrow> job_Status b = job_Status a)"
    if a: "jr_byID (svc_repo ?s1) jid = Some a" for jid a
    using jobs_le_job [OF le a] jobs_evolvesD(1) jobs_path_from_terminal by blast
  with inv show ?thesis by (simp add: Let_def)
qed

subsection \<open>Witnesses\<close>

definition jobs_lost :: jobs_Repo where
  "jobs_lost = jobs_after (jobs_sample @ [OpClaim 2 1 ''w'' 32])"

definition jobs_waiting :: jobs_Repo where
  "jobs_waiting = jobs_after (jobs_sample @ [OpClaim 2 1 ''w'' 32, OpMarkRetryWaiting 1 40])"

lemma jobs_lost_table:
  "\<exists>a. jr_byID jobs_lost = [1 \<mapsto> a] \<and> job_Status a = jobs_StatusRunning \<and> job_LeaseUntil a = Some 32 \<and>
       job_RetryCount a = 0"
  by (simp add: jobs_lost_def jobs_after_def jobs_sample_def jobs_CreateOrGet_def Let_def
      jobs_NewInMemoryRepository_def jobs_Claim_def jobs_with_def jobs_claim_body_def)
    (rule exI, rule conjI, rule refl, simp)

lemma jobs_waiting_table:
  "\<exists>a. jr_byID jobs_waiting = [1 \<mapsto> a] \<and> job_Status a = jobs_StatusRetryWaiting \<and> job_LeaseUntil a = Some 40"
  by (simp add: jobs_waiting_def jobs_after_def jobs_sample_def jobs_CreateOrGet_def Let_def
      jobs_NewInMemoryRepository_def jobs_Claim_def jobs_with_def jobs_claim_body_def
      jobs_MarkRetryWaiting_def jobs_retry_body_def jobs_CanTransition_iff [THEN iffD2])
    (rule exI, rule conjI, rule refl, simp)

lemma jobs_MemPublish_ok: "jobs_pub_ok jobs_MemPublish"
  by (simp add: jobs_pub_ok_def jobs_MemPublish_def)

theorem jobs_tick_effect_witness:
  "\<exists>s' b. jobs_Tick jobs_MemPublish (jobs_NewSweeper 0) (\<lambda>_. 50) 50 [1] [1]
       (jobs_start (Some jobs_NewInMemoryPublisher) (None :: unit option) jobs_lost) = (Inr (), s') \<and>
     jr_byID (svc_repo s') 1 = Some b \<and> jobs_expired 50 b = False"
proof -
  obtain a where a: "jr_byID jobs_lost = [1 \<mapsto> a]" using jobs_lost_table by blast
  let ?s = "jobs_start (Some jobs_NewInMemoryPublisher) (None :: unit option) jobs_lost"
  have d: "distinct [1 :: int]" "set [1] = dom (jr_byID (svc_repo ?s))" by (simp_all add: a)
  obtain s' where "jobs_Tick jobs_MemPublish (jobs_NewSweeper 0) (\<lambda>_. 50) 50 [1] [1] ?s = (Inr (), s')"
    "\<And>jid a. jr_byID (svc_repo ?s) jid = Some a \<Longrightarrow>
       \<exists>b. jr_byID (svc_repo s') jid = Some b \<and> jobs_swept (jobs_NewSweeper 0) 50 a b"
    using jobs_tick_effect [OF jobs_MemPublish_ok d d, of "jobs_NewSweeper 0" "\<lambda>_. 50" 50] by blast
  moreover have "jr_byID (svc_repo ?s) 1 = Some a" by (simp add: a)
  ultimately show ?thesis using jobs_swept_settled(2) [OF jobs_NewSweeper_ok] by blast
qed

theorem jobs_tick_settles_witness:
  "\<exists>s'. jobs_Tick jobs_MemPublish (jobs_NewSweeper 0) (\<lambda>_. 50) 50 [1] [1]
       (jobs_start (Some jobs_NewInMemoryPublisher) (None :: unit option) jobs_lost) = (Inr (), s') \<and>
     jobs_ListExpiredRunning [1] 50 (svc_repo s') = []"
proof -
  obtain a where a: "jr_byID jobs_lost = [1 \<mapsto> a]" "job_RetryCount a = 0" using jobs_lost_table by blast
  let ?s = "jobs_start (Some jobs_NewInMemoryPublisher) (None :: unit option) jobs_lost"
  have d: "distinct [1 :: int]" "set [1] = dom (jr_byID (svc_repo ?s))" by (simp_all add: a)
  have "\<forall>jid a. jr_byID (svc_repo ?s) jid = Some a \<longrightarrow> job_RetryCount a \<le> sw_maxRetries (jobs_NewSweeper 0)"
    by (simp add: a jobs_NewSweeper_def)
  from jobs_tick_settles [OF jobs_MemPublish_ok jobs_NewSweeper_ok d d this] show ?thesis by blast
qed

theorem jobs_requeue_failure_strands_job_witness:
  "\<exists>s' b. jobs_Tick (\<lambda>_ _ d. (Inl ''down'', d)) (jobs_NewSweeper 0) (\<lambda>_. 50) 50 [1] [1]
       (jobs_start (Some ()) (None :: unit option) jobs_waiting) = (Inl (ExternalError ''down''), s') \<and>
     jr_byID (svc_repo s') 1 = Some b \<and> job_Status b = jobs_StatusQueued"
proof -
  obtain a where a: "jr_byID jobs_waiting = [1 \<mapsto> a]" "job_Status a = jobs_StatusRetryWaiting" "job_LeaseUntil a = Some 40"
    using jobs_waiting_table by blast
  have "jr_byID (svc_repo (jobs_start (Some ()) (None :: unit option) jobs_waiting)) 1 = Some a"
    and "jobs_retry_ready 50 a" and "svc_dispatcher (jobs_start (Some ()) (None :: unit option) jobs_waiting) = Some ()"
    by (simp_all add: a jobs_retry_ready_def)
  from jobs_requeue_failure_strands_job [OF this, of "\<lambda>_ _ d. (Inl ''down'', d)" "''down''" "jobs_NewSweeper 0" "\<lambda>_. 50" "[]" "[1]"]
  show ?thesis by (auto simp: jobs_requeued_def)
qed

theorem jobs_service_histories_witness:
  "jobs_inv (svc_repo (foldl (jobs_serve jobs_MemPublish (\<lambda>_ _ v. (Inr [], v)) (\<lambda>_. Inr []))
     jobs_new_service [CallCreateJob (\<lambda>_. 5) (jobs_req ''export'' ''k''), CallReportHeartbeat (\<lambda>_. 6) 1 ''w'' 30]))"
proof -
  have "svc_repo jobs_new_service = jobs_NewInMemoryRepository" by (simp add: jobs_new_service_def)
  from jobs_service_histories [OF this] show ?thesis by (simp only: Let_def)
qed

end
