(* ===== verification/Tasks.thy ===== *)
theory Tasks
  imports Go_Prelude
begin

section \<open>Tasks: the workflow of human work\<close>

text \<open>
  \<open>internal/tasks\<close>: model, service and the in-memory repository. A task is a value in the
  repository map (not a shared pointer). The service validates and normalises; the repository
  stamps. \<open>clk 0\<close> is the clock reading of the service call, \<open>clk 1\<close> the one of the
  repository. The service has no state beside its repository, so its operations run on it.
\<close>

subsection \<open>Constants\<close>

definition tasks_KindAnnotation :: string where
  "tasks_KindAnnotation = ''annotation''"

definition tasks_KindReview :: string where
  "tasks_KindReview = ''review''"

definition tasks_KindQA :: string where
  "tasks_KindQA = ''qa''"

definition tasks_KindOps :: string where
  "tasks_KindOps = ''ops''"

definition tasks_KindTrainingCandidate :: string where
  "tasks_KindTrainingCandidate = ''training_candidate''"

definition tasks_KindPromotionReview :: string where
  "tasks_KindPromotionReview = ''promotion_review''"

lemmas tasks_kind_defs [status_defs] =
  tasks_KindAnnotation_def tasks_KindReview_def tasks_KindQA_def tasks_KindOps_def tasks_KindTrainingCandidate_def tasks_KindPromotionReview_def

lemma tasks_kind_distinct [simp]:
  "tasks_KindAnnotation \<noteq> tasks_KindReview"
  "tasks_KindAnnotation \<noteq> tasks_KindQA"
  "tasks_KindAnnotation \<noteq> tasks_KindOps"
  "tasks_KindAnnotation \<noteq> tasks_KindTrainingCandidate"
  "tasks_KindAnnotation \<noteq> tasks_KindPromotionReview"
  "tasks_KindReview \<noteq> tasks_KindAnnotation"
  "tasks_KindReview \<noteq> tasks_KindQA"
  "tasks_KindReview \<noteq> tasks_KindOps"
  "tasks_KindReview \<noteq> tasks_KindTrainingCandidate"
  "tasks_KindReview \<noteq> tasks_KindPromotionReview"
  "tasks_KindQA \<noteq> tasks_KindAnnotation"
  "tasks_KindQA \<noteq> tasks_KindReview"
  "tasks_KindQA \<noteq> tasks_KindOps"
  "tasks_KindQA \<noteq> tasks_KindTrainingCandidate"
  "tasks_KindQA \<noteq> tasks_KindPromotionReview"
  "tasks_KindOps \<noteq> tasks_KindAnnotation"
  "tasks_KindOps \<noteq> tasks_KindReview"
  "tasks_KindOps \<noteq> tasks_KindQA"
  "tasks_KindOps \<noteq> tasks_KindTrainingCandidate"
  "tasks_KindOps \<noteq> tasks_KindPromotionReview"
  "tasks_KindTrainingCandidate \<noteq> tasks_KindAnnotation"
  "tasks_KindTrainingCandidate \<noteq> tasks_KindReview"
  "tasks_KindTrainingCandidate \<noteq> tasks_KindQA"
  "tasks_KindTrainingCandidate \<noteq> tasks_KindOps"
  "tasks_KindTrainingCandidate \<noteq> tasks_KindPromotionReview"
  "tasks_KindPromotionReview \<noteq> tasks_KindAnnotation"
  "tasks_KindPromotionReview \<noteq> tasks_KindReview"
  "tasks_KindPromotionReview \<noteq> tasks_KindQA"
  "tasks_KindPromotionReview \<noteq> tasks_KindOps"
  "tasks_KindPromotionReview \<noteq> tasks_KindTrainingCandidate"
  by (simp_all add: tasks_kind_defs)

lemma tasks_kind_nonempty [simp]:
  "tasks_KindAnnotation \<noteq> []"
  "tasks_KindReview \<noteq> []"
  "tasks_KindQA \<noteq> []"
  "tasks_KindOps \<noteq> []"
  "tasks_KindTrainingCandidate \<noteq> []"
  "tasks_KindPromotionReview \<noteq> []"
  by (simp_all add: tasks_kind_defs)

definition tasks_MediaKindImage :: string where
  "tasks_MediaKindImage = ''image''"

definition tasks_MediaKindVideo :: string where
  "tasks_MediaKindVideo = ''video''"

lemmas tasks_media_defs [status_defs] =
  tasks_MediaKindImage_def tasks_MediaKindVideo_def

lemma tasks_media_distinct [simp]:
  "tasks_MediaKindImage \<noteq> tasks_MediaKindVideo"
  "tasks_MediaKindVideo \<noteq> tasks_MediaKindImage"
  by (simp_all add: tasks_media_defs)

lemma tasks_media_nonempty [simp]:
  "tasks_MediaKindImage \<noteq> []"
  "tasks_MediaKindVideo \<noteq> []"
  by (simp_all add: tasks_media_defs)

definition tasks_StatusQueued :: string where
  "tasks_StatusQueued = ''queued''"

definition tasks_StatusReady :: string where
  "tasks_StatusReady = ''ready''"

definition tasks_StatusInProgress :: string where
  "tasks_StatusInProgress = ''in_progress''"

definition tasks_StatusBlocked :: string where
  "tasks_StatusBlocked = ''blocked''"

definition tasks_StatusSubmitted :: string where
  "tasks_StatusSubmitted = ''submitted''"

definition tasks_StatusReviewing :: string where
  "tasks_StatusReviewing = ''reviewing''"

definition tasks_StatusReworkRequired :: string where
  "tasks_StatusReworkRequired = ''rework_required''"

definition tasks_StatusAccepted :: string where
  "tasks_StatusAccepted = ''accepted''"

definition tasks_StatusPublished :: string where
  "tasks_StatusPublished = ''published''"

definition tasks_StatusClosed :: string where
  "tasks_StatusClosed = ''closed''"

lemmas tasks_status_defs [status_defs] =
  tasks_StatusQueued_def tasks_StatusReady_def tasks_StatusInProgress_def tasks_StatusBlocked_def tasks_StatusSubmitted_def tasks_StatusReviewing_def tasks_StatusReworkRequired_def tasks_StatusAccepted_def tasks_StatusPublished_def tasks_StatusClosed_def

lemma tasks_status_distinct [simp]:
  "tasks_StatusQueued \<noteq> tasks_StatusReady"
  "tasks_StatusQueued \<noteq> tasks_StatusInProgress"
  "tasks_StatusQueued \<noteq> tasks_StatusBlocked"
  "tasks_StatusQueued \<noteq> tasks_StatusSubmitted"
  "tasks_StatusQueued \<noteq> tasks_StatusReviewing"
  "tasks_StatusQueued \<noteq> tasks_StatusReworkRequired"
  "tasks_StatusQueued \<noteq> tasks_StatusAccepted"
  "tasks_StatusQueued \<noteq> tasks_StatusPublished"
  "tasks_StatusQueued \<noteq> tasks_StatusClosed"
  "tasks_StatusReady \<noteq> tasks_StatusQueued"
  "tasks_StatusReady \<noteq> tasks_StatusInProgress"
  "tasks_StatusReady \<noteq> tasks_StatusBlocked"
  "tasks_StatusReady \<noteq> tasks_StatusSubmitted"
  "tasks_StatusReady \<noteq> tasks_StatusReviewing"
  "tasks_StatusReady \<noteq> tasks_StatusReworkRequired"
  "tasks_StatusReady \<noteq> tasks_StatusAccepted"
  "tasks_StatusReady \<noteq> tasks_StatusPublished"
  "tasks_StatusReady \<noteq> tasks_StatusClosed"
  "tasks_StatusInProgress \<noteq> tasks_StatusQueued"
  "tasks_StatusInProgress \<noteq> tasks_StatusReady"
  "tasks_StatusInProgress \<noteq> tasks_StatusBlocked"
  "tasks_StatusInProgress \<noteq> tasks_StatusSubmitted"
  "tasks_StatusInProgress \<noteq> tasks_StatusReviewing"
  "tasks_StatusInProgress \<noteq> tasks_StatusReworkRequired"
  "tasks_StatusInProgress \<noteq> tasks_StatusAccepted"
  "tasks_StatusInProgress \<noteq> tasks_StatusPublished"
  "tasks_StatusInProgress \<noteq> tasks_StatusClosed"
  "tasks_StatusBlocked \<noteq> tasks_StatusQueued"
  "tasks_StatusBlocked \<noteq> tasks_StatusReady"
  "tasks_StatusBlocked \<noteq> tasks_StatusInProgress"
  "tasks_StatusBlocked \<noteq> tasks_StatusSubmitted"
  "tasks_StatusBlocked \<noteq> tasks_StatusReviewing"
  "tasks_StatusBlocked \<noteq> tasks_StatusReworkRequired"
  "tasks_StatusBlocked \<noteq> tasks_StatusAccepted"
  "tasks_StatusBlocked \<noteq> tasks_StatusPublished"
  "tasks_StatusBlocked \<noteq> tasks_StatusClosed"
  "tasks_StatusSubmitted \<noteq> tasks_StatusQueued"
  "tasks_StatusSubmitted \<noteq> tasks_StatusReady"
  "tasks_StatusSubmitted \<noteq> tasks_StatusInProgress"
  "tasks_StatusSubmitted \<noteq> tasks_StatusBlocked"
  "tasks_StatusSubmitted \<noteq> tasks_StatusReviewing"
  "tasks_StatusSubmitted \<noteq> tasks_StatusReworkRequired"
  "tasks_StatusSubmitted \<noteq> tasks_StatusAccepted"
  "tasks_StatusSubmitted \<noteq> tasks_StatusPublished"
  "tasks_StatusSubmitted \<noteq> tasks_StatusClosed"
  "tasks_StatusReviewing \<noteq> tasks_StatusQueued"
  "tasks_StatusReviewing \<noteq> tasks_StatusReady"
  "tasks_StatusReviewing \<noteq> tasks_StatusInProgress"
  "tasks_StatusReviewing \<noteq> tasks_StatusBlocked"
  "tasks_StatusReviewing \<noteq> tasks_StatusSubmitted"
  "tasks_StatusReviewing \<noteq> tasks_StatusReworkRequired"
  "tasks_StatusReviewing \<noteq> tasks_StatusAccepted"
  "tasks_StatusReviewing \<noteq> tasks_StatusPublished"
  "tasks_StatusReviewing \<noteq> tasks_StatusClosed"
  "tasks_StatusReworkRequired \<noteq> tasks_StatusQueued"
  "tasks_StatusReworkRequired \<noteq> tasks_StatusReady"
  "tasks_StatusReworkRequired \<noteq> tasks_StatusInProgress"
  "tasks_StatusReworkRequired \<noteq> tasks_StatusBlocked"
  "tasks_StatusReworkRequired \<noteq> tasks_StatusSubmitted"
  "tasks_StatusReworkRequired \<noteq> tasks_StatusReviewing"
  "tasks_StatusReworkRequired \<noteq> tasks_StatusAccepted"
  "tasks_StatusReworkRequired \<noteq> tasks_StatusPublished"
  "tasks_StatusReworkRequired \<noteq> tasks_StatusClosed"
  "tasks_StatusAccepted \<noteq> tasks_StatusQueued"
  "tasks_StatusAccepted \<noteq> tasks_StatusReady"
  "tasks_StatusAccepted \<noteq> tasks_StatusInProgress"
  "tasks_StatusAccepted \<noteq> tasks_StatusBlocked"
  "tasks_StatusAccepted \<noteq> tasks_StatusSubmitted"
  "tasks_StatusAccepted \<noteq> tasks_StatusReviewing"
  "tasks_StatusAccepted \<noteq> tasks_StatusReworkRequired"
  "tasks_StatusAccepted \<noteq> tasks_StatusPublished"
  "tasks_StatusAccepted \<noteq> tasks_StatusClosed"
  "tasks_StatusPublished \<noteq> tasks_StatusQueued"
  "tasks_StatusPublished \<noteq> tasks_StatusReady"
  "tasks_StatusPublished \<noteq> tasks_StatusInProgress"
  "tasks_StatusPublished \<noteq> tasks_StatusBlocked"
  "tasks_StatusPublished \<noteq> tasks_StatusSubmitted"
  "tasks_StatusPublished \<noteq> tasks_StatusReviewing"
  "tasks_StatusPublished \<noteq> tasks_StatusReworkRequired"
  "tasks_StatusPublished \<noteq> tasks_StatusAccepted"
  "tasks_StatusPublished \<noteq> tasks_StatusClosed"
  "tasks_StatusClosed \<noteq> tasks_StatusQueued"
  "tasks_StatusClosed \<noteq> tasks_StatusReady"
  "tasks_StatusClosed \<noteq> tasks_StatusInProgress"
  "tasks_StatusClosed \<noteq> tasks_StatusBlocked"
  "tasks_StatusClosed \<noteq> tasks_StatusSubmitted"
  "tasks_StatusClosed \<noteq> tasks_StatusReviewing"
  "tasks_StatusClosed \<noteq> tasks_StatusReworkRequired"
  "tasks_StatusClosed \<noteq> tasks_StatusAccepted"
  "tasks_StatusClosed \<noteq> tasks_StatusPublished"
  by (simp_all add: tasks_status_defs)

lemma tasks_status_nonempty [simp]:
  "tasks_StatusQueued \<noteq> []"
  "tasks_StatusReady \<noteq> []"
  "tasks_StatusInProgress \<noteq> []"
  "tasks_StatusBlocked \<noteq> []"
  "tasks_StatusSubmitted \<noteq> []"
  "tasks_StatusReviewing \<noteq> []"
  "tasks_StatusReworkRequired \<noteq> []"
  "tasks_StatusAccepted \<noteq> []"
  "tasks_StatusPublished \<noteq> []"
  "tasks_StatusClosed \<noteq> []"
  by (simp_all add: tasks_status_defs)

definition tasks_PriorityLow :: string where
  "tasks_PriorityLow = ''low''"

definition tasks_PriorityNormal :: string where
  "tasks_PriorityNormal = ''normal''"

definition tasks_PriorityHigh :: string where
  "tasks_PriorityHigh = ''high''"

definition tasks_PriorityCritical :: string where
  "tasks_PriorityCritical = ''critical''"

lemmas tasks_priority_defs [status_defs] =
  tasks_PriorityLow_def tasks_PriorityNormal_def tasks_PriorityHigh_def tasks_PriorityCritical_def

lemma tasks_priority_distinct [simp]:
  "tasks_PriorityLow \<noteq> tasks_PriorityNormal"
  "tasks_PriorityLow \<noteq> tasks_PriorityHigh"
  "tasks_PriorityLow \<noteq> tasks_PriorityCritical"
  "tasks_PriorityNormal \<noteq> tasks_PriorityLow"
  "tasks_PriorityNormal \<noteq> tasks_PriorityHigh"
  "tasks_PriorityNormal \<noteq> tasks_PriorityCritical"
  "tasks_PriorityHigh \<noteq> tasks_PriorityLow"
  "tasks_PriorityHigh \<noteq> tasks_PriorityNormal"
  "tasks_PriorityHigh \<noteq> tasks_PriorityCritical"
  "tasks_PriorityCritical \<noteq> tasks_PriorityLow"
  "tasks_PriorityCritical \<noteq> tasks_PriorityNormal"
  "tasks_PriorityCritical \<noteq> tasks_PriorityHigh"
  by (simp_all add: tasks_priority_defs)

lemma tasks_priority_nonempty [simp]:
  "tasks_PriorityLow \<noteq> []"
  "tasks_PriorityNormal \<noteq> []"
  "tasks_PriorityHigh \<noteq> []"
  "tasks_PriorityCritical \<noteq> []"
  by (simp_all add: tasks_priority_defs)

definition tasks_legacyStatusDoneToken :: string where
  "tasks_legacyStatusDoneToken = ''done''"

subsection \<open>Records and errors\<close>

record tasks_Task =
  task_ID :: int
  task_ProjectID :: int
  task_SnapshotID :: "int option"
  task_Title :: string
  task_Kind :: string
  task_AssetObjectKey :: string
  task_MediaKind :: string
  task_FrameIndex :: "int option"
  task_OntologyVersion :: string
  task_Status :: string
  task_Priority :: string
  task_Assignee :: string
  task_DueAt :: "time option"
  task_BlockerReason :: string
  task_LastActivityAt :: time
  task_CreatedAt :: time
  task_UpdatedAt :: time
  task_SnapshotVersion :: string
  task_DatasetID :: int
  task_DatasetName :: string

record tasks_CreateTaskInput =
  ct_ProjectID :: int
  ct_SnapshotID :: "int option"
  ct_Title :: string
  ct_Kind :: string
  ct_AssetObjectKey :: string
  ct_MediaKind :: string
  ct_FrameIndex :: "int option"
  ct_OntologyVersion :: string
  ct_Status :: string
  ct_Priority :: string
  ct_Assignee :: string
  ct_DueAt :: "time option"
  ct_BlockerReason :: string
  ct_LastActivityAt :: time

record tasks_TransitionTaskInput =
  tt_Status :: string
  tt_BlockerReason :: string
  tt_LastActivityAt :: time

record tasks_ListTasksFilter =
  lt_Status :: string
  lt_Kind :: string
  lt_Assignee :: string
  lt_Priority :: string
  lt_SnapshotID :: "int option"

datatype tasks_error =
    TaskNotFound int
  | TaskProjectIDNotPositive
  | TaskSnapshotIDNotPositive
  | TaskIDNotPositive
  | TaskTitleRequired
  | TaskBlockerReasonRequired
  | TaskInvalidKind string
  | TaskAssetObjectKeyRequired
  | TaskMediaKindRequired
  | TaskInvalidMediaKind string
  | TaskFrameIndexNegative
  | TaskInvalidStatus string
  | TaskInvalidPriority string
  | TaskInvalidTransition string string

subsection \<open>Normalisation and validity\<close>

definition tasks_normalizeKind :: "string \<Rightarrow> string" where
  "tasks_normalizeKind k = (let k' = norm_token k in if k' = [] then tasks_KindAnnotation else k')"

definition tasks_normalizeStatus :: "string \<Rightarrow> string" where
  "tasks_normalizeStatus st = (let st' = norm_token st in if st' = [] then tasks_StatusQueued else st')"

definition tasks_normalizeMediaKind :: "string \<Rightarrow> string" where
  "tasks_normalizeMediaKind k = norm_token k"

definition tasks_normalizePriority :: "string \<Rightarrow> string" where
  "tasks_normalizePriority p = (let p' = norm_token p in if p' = [] then tasks_PriorityNormal else p')"

definition tasks_isValidKind :: "string \<Rightarrow> bool" where
  "tasks_isValidKind k \<longleftrightarrow>
     k \<in> {tasks_KindAnnotation, tasks_KindReview, tasks_KindQA, tasks_KindOps,
          tasks_KindTrainingCandidate, tasks_KindPromotionReview}"

definition tasks_isValidStatus :: "string \<Rightarrow> bool" where
  "tasks_isValidStatus st \<longleftrightarrow>
     st \<in> {tasks_StatusQueued, tasks_StatusReady, tasks_StatusInProgress, tasks_StatusBlocked,
           tasks_StatusSubmitted, tasks_StatusReviewing, tasks_StatusReworkRequired,
           tasks_StatusAccepted, tasks_StatusPublished, tasks_StatusClosed}"

definition tasks_isValidMediaKind :: "string \<Rightarrow> bool" where
  "tasks_isValidMediaKind k \<longleftrightarrow> k \<in> {tasks_MediaKindImage, tasks_MediaKindVideo}"

definition tasks_isValidPriority :: "string \<Rightarrow> bool" where
  "tasks_isValidPriority p \<longleftrightarrow>
     p \<in> {tasks_PriorityLow, tasks_PriorityNormal, tasks_PriorityHigh, tasks_PriorityCritical}"

definition tasks_normalizeFilter :: "tasks_ListTasksFilter \<Rightarrow> tasks_error + tasks_ListTasksFilter" where
  "tasks_normalizeFilter flt =
     (let st0 = norm_token (lt_Status flt);
          st = (if st0 = tasks_legacyStatusDoneToken then tasks_StatusClosed else st0);
          kind = norm_token (lt_Kind flt);
          priority = norm_token (lt_Priority flt)
      in if st \<noteq> [] \<and> \<not> tasks_isValidStatus st then Inl (TaskInvalidStatus st)
         else if kind \<noteq> [] \<and> \<not> tasks_isValidKind kind then Inl (TaskInvalidKind kind)
         else if priority \<noteq> [] \<and> \<not> tasks_isValidPriority priority then Inl (TaskInvalidPriority priority)
         else if (case lt_SnapshotID flt of None \<Rightarrow> False | Some n \<Rightarrow> n \<le> 0) then Inl TaskSnapshotIDNotPositive
         else Inr \<lparr>lt_Status = st, lt_Kind = kind, lt_Assignee = trim_space (lt_Assignee flt),
                   lt_Priority = priority, lt_SnapshotID = lt_SnapshotID flt\<rparr>)"

subsection \<open>The transition table\<close>

definition tasks_allowedTransitions :: "string \<Rightarrow> string list" where
  "tasks_allowedTransitions st =
     (if st = tasks_StatusQueued then [tasks_StatusReady]
      else if st = tasks_StatusReady then [tasks_StatusInProgress, tasks_StatusBlocked]
      else if st = tasks_StatusInProgress then [tasks_StatusBlocked, tasks_StatusSubmitted, tasks_StatusClosed]
      else if st = tasks_StatusBlocked then [tasks_StatusReady, tasks_StatusInProgress]
      else if st = tasks_StatusSubmitted then [tasks_StatusReviewing, tasks_StatusBlocked]
      else if st = tasks_StatusReviewing then
        [tasks_StatusReworkRequired, tasks_StatusAccepted, tasks_StatusBlocked]
      else if st = tasks_StatusReworkRequired then [tasks_StatusInProgress, tasks_StatusBlocked]
      else if st = tasks_StatusAccepted then [tasks_StatusPublished, tasks_StatusBlocked]
      else if st = tasks_StatusPublished then [tasks_StatusClosed]
      else [])"

definition tasks_isAllowedTransition :: "string \<Rightarrow> string \<Rightarrow> bool" where
  "tasks_isAllowedTransition st st' \<longleftrightarrow> st' \<in> set (tasks_allowedTransitions st)"

subsection \<open>The repository\<close>

record tasks_Repo =
  tr_nextID :: int
  tr_byID :: "int \<rightharpoonup> tasks_Task"

definition tasks_NewInMemoryRepository :: tasks_Repo where
  "tasks_NewInMemoryRepository = \<lparr>tr_nextID = 1, tr_byID = Map.empty\<rparr>"

definition tasks_newTask :: "time \<Rightarrow> int \<Rightarrow> tasks_CreateTaskInput \<Rightarrow> tasks_Task" where
  "tasks_newTask now tid inp =
     \<lparr>task_ID = tid, task_ProjectID = ct_ProjectID inp, task_SnapshotID = ct_SnapshotID inp,
      task_Title = ct_Title inp, task_Kind = ct_Kind inp, task_AssetObjectKey = ct_AssetObjectKey inp,
      task_MediaKind = ct_MediaKind inp, task_FrameIndex = ct_FrameIndex inp,
      task_OntologyVersion = ct_OntologyVersion inp, task_Status = ct_Status inp,
      task_Priority = ct_Priority inp, task_Assignee = ct_Assignee inp, task_DueAt = ct_DueAt inp,
      task_BlockerReason = ct_BlockerReason inp,
      task_LastActivityAt = (if ct_LastActivityAt inp = zero_time then now else ct_LastActivityAt inp),
      task_CreatedAt = now, task_UpdatedAt = now,
      task_SnapshotVersion = [], task_DatasetID = 0, task_DatasetName = []\<rparr>"

definition tasks_repo_CreateTask ::
  "time \<Rightarrow> tasks_CreateTaskInput \<Rightarrow> tasks_Repo \<Rightarrow> (tasks_error, tasks_Task, tasks_Repo) outcome" where
  "tasks_repo_CreateTask now inp r =
     (let task = tasks_newTask now (tr_nextID r) inp in
      (Inr task, r\<lparr>tr_nextID := tr_nextID r + 1, tr_byID := (tr_byID r)(task_ID task \<mapsto> task)\<rparr>))"

definition tasks_matches :: "int \<Rightarrow> tasks_ListTasksFilter \<Rightarrow> tasks_Task \<Rightarrow> bool" where
  "tasks_matches projectID flt task \<longleftrightarrow>
     task_ProjectID task = projectID \<and>
     (lt_Status flt = [] \<or> task_Status task = lt_Status flt) \<and>
     (lt_Kind flt = [] \<or> task_Kind task = lt_Kind flt) \<and>
     (lt_Assignee flt = [] \<or> task_Assignee task = lt_Assignee flt) \<and>
     (lt_Priority flt = [] \<or> task_Priority task = lt_Priority flt) \<and>
     (case lt_SnapshotID flt of None \<Rightarrow> True | Some n \<Rightarrow> task_SnapshotID task = Some n)"

text \<open>The listing visits the map in order \<open>ks\<close>; it is not sorted.\<close>

definition tasks_repo_ListTasks ::
  "int list \<Rightarrow> int \<Rightarrow> tasks_ListTasksFilter \<Rightarrow> tasks_Repo \<Rightarrow> tasks_Task list" where
  "tasks_repo_ListTasks ks projectID flt r =
     filter (tasks_matches projectID flt) (map (\<lambda>k. the (tr_byID r k)) ks)"

definition tasks_repo_GetTask :: "int \<Rightarrow> tasks_Repo \<Rightarrow> tasks_error + tasks_Task" where
  "tasks_repo_GetTask tid r =
     (case tr_byID r tid of None \<Rightarrow> Inl (TaskNotFound tid) | Some task \<Rightarrow> Inr task)"

definition tasks_repo_TransitionTask ::
  "time \<Rightarrow> int \<Rightarrow> tasks_TransitionTaskInput \<Rightarrow> tasks_Repo \<Rightarrow> (tasks_error, tasks_Task, tasks_Repo) outcome" where
  "tasks_repo_TransitionTask now tid inp r =
     (case tr_byID r tid of
        None \<Rightarrow> (Inl (TaskNotFound tid), r)
      | Some task \<Rightarrow>
          let task' = task\<lparr>task_Status := tt_Status inp, task_BlockerReason := tt_BlockerReason inp,
                           task_LastActivityAt := tt_LastActivityAt inp, task_UpdatedAt := now\<rparr>
          in (Inr task', r\<lparr>tr_byID := (tr_byID r)(tid \<mapsto> task')\<rparr>))"

subsection \<open>The service\<close>

definition tasks_checkCreate :: "time \<Rightarrow> tasks_CreateTaskInput \<Rightarrow> tasks_error + tasks_CreateTaskInput" where
  "tasks_checkCreate now inp =
     (if ct_ProjectID inp \<le> 0 then Inl TaskProjectIDNotPositive
      else if (case ct_SnapshotID inp of None \<Rightarrow> False | Some n \<Rightarrow> n \<le> 0) then Inl TaskSnapshotIDNotPositive
      else if trim_space (ct_Title inp) = [] then Inl TaskTitleRequired
      else
        let version = trim_space (ct_OntologyVersion inp);
            x = inp\<lparr>ct_Title := trim_space (ct_Title inp),
                    ct_Kind := tasks_normalizeKind (ct_Kind inp),
                    ct_MediaKind := tasks_normalizeMediaKind (ct_MediaKind inp),
                    ct_Status := tasks_normalizeStatus (ct_Status inp),
                    ct_Priority := tasks_normalizePriority (ct_Priority inp),
                    ct_AssetObjectKey := trim_space (ct_AssetObjectKey inp),
                    ct_OntologyVersion := (if version = [] then ''v1'' else version),
                    ct_Assignee := trim_space (ct_Assignee inp),
                    ct_BlockerReason := trim_space (ct_BlockerReason inp),
                    ct_LastActivityAt := (if ct_LastActivityAt inp = zero_time then now else ct_LastActivityAt inp)\<rparr>
        in if ct_Status x = tasks_StatusBlocked \<and> ct_BlockerReason x = [] then Inl TaskBlockerReasonRequired
           else if \<not> tasks_isValidKind (ct_Kind x) then Inl (TaskInvalidKind (ct_Kind x))
           else if ct_Kind x = tasks_KindAnnotation \<and> ct_AssetObjectKey x = [] then Inl TaskAssetObjectKeyRequired
           else if ct_Kind x = tasks_KindAnnotation \<and> \<not> tasks_isValidMediaKind (ct_MediaKind x)
           then Inl TaskMediaKindRequired
           else if ct_MediaKind x \<noteq> [] \<and> \<not> tasks_isValidMediaKind (ct_MediaKind x)
           then Inl (TaskInvalidMediaKind (ct_MediaKind x))
           else if (case ct_FrameIndex x of None \<Rightarrow> False | Some n \<Rightarrow> n < 0) then Inl TaskFrameIndexNegative
           else if \<not> tasks_isValidStatus (ct_Status x) then Inl (TaskInvalidStatus (ct_Status x))
           else if \<not> tasks_isValidPriority (ct_Priority x) then Inl (TaskInvalidPriority (ct_Priority x))
           else Inr x)"

definition tasks_CreateTask ::
  "clock \<Rightarrow> tasks_CreateTaskInput \<Rightarrow> tasks_Repo \<Rightarrow> (tasks_error, tasks_Task, tasks_Repo) outcome" where
  "tasks_CreateTask clk inp r =
     (case tasks_checkCreate (clk 0) inp of
        Inl e \<Rightarrow> (Inl e, r)
      | Inr x \<Rightarrow> tasks_repo_CreateTask (clk 1) x r)"

definition tasks_ListTasks ::
  "int list \<Rightarrow> int \<Rightarrow> tasks_ListTasksFilter \<Rightarrow> tasks_Repo \<Rightarrow> tasks_error + tasks_Task list" where
  "tasks_ListTasks ks projectID flt r =
     (if projectID \<le> 0 then Inl TaskProjectIDNotPositive
      else case tasks_normalizeFilter flt of
             Inl e \<Rightarrow> Inl e
           | Inr normalized \<Rightarrow> Inr (tasks_repo_ListTasks ks projectID normalized r))"

definition tasks_GetTask :: "int \<Rightarrow> tasks_Repo \<Rightarrow> tasks_error + tasks_Task" where
  "tasks_GetTask tid r = (if tid \<le> 0 then Inl TaskIDNotPositive else tasks_repo_GetTask tid r)"

text \<open>The status a transition asks for: the legacy token \<open>done\<close> depends on the kind of task.\<close>

definition tasks_target :: "string \<Rightarrow> string \<Rightarrow> string" where
  "tasks_target kind st =
     (if norm_token st = tasks_legacyStatusDoneToken
      then (if kind = tasks_KindAnnotation then tasks_StatusSubmitted else tasks_StatusClosed)
      else tasks_normalizeStatus st)"

definition tasks_TransitionTask ::
  "clock \<Rightarrow> int \<Rightarrow> tasks_TransitionTaskInput \<Rightarrow> tasks_Repo \<Rightarrow> (tasks_error, tasks_Task, tasks_Repo) outcome" where
  "tasks_TransitionTask clk tid inp r =
     (case tasks_GetTask tid r of
        Inl e \<Rightarrow> (Inl e, r)
      | Inr current \<Rightarrow>
          let curStatus = tasks_normalizeStatus (task_Status current);
              st = tasks_target (tasks_normalizeKind (task_Kind current)) (tt_Status inp);
              reason = trim_space (tt_BlockerReason inp);
              activity = (if tt_LastActivityAt inp = zero_time then clk 0 else tt_LastActivityAt inp)
          in if \<not> tasks_isValidStatus st then (Inl (TaskInvalidStatus st), r)
             else if \<not> tasks_isAllowedTransition curStatus st then (Inl (TaskInvalidTransition curStatus st), r)
             else if st = tasks_StatusBlocked \<and> reason = [] then (Inl TaskBlockerReasonRequired, r)
             else tasks_repo_TransitionTask (clk 1) tid
                    \<lparr>tt_Status = st, tt_BlockerReason = (if st = tasks_StatusBlocked then reason else []),
                     tt_LastActivityAt = activity\<rparr> r)"

end
