(* ===== verification/Task_Facts.thy ===== *)
theory Task_Facts
  imports Tasks
begin

section \<open>Tasks: what the service guarantees\<close>

text \<open>
  Well-formedness of stored tasks, the workflow graph and its paths, the exact behaviour of a
  transition, and the listing against its specification. The service is a
  \<open>progress_machine\<close>; \<open>task_provider\<close> is the contract that the annotation workspace and the
  publish service rely on.
\<close>

subsection \<open>Normal forms\<close>

lemma tasks_norm_simps:
  "tasks_isValidStatus st \<Longrightarrow> norm_token st = st"
  "tasks_isValidKind k \<Longrightarrow> norm_token k = k"
  "tasks_isValidPriority p \<Longrightarrow> norm_token p = p"
  by (auto simp: tasks_isValidStatus_def tasks_isValidKind_def tasks_isValidPriority_def
      norm_token_lit norm_lit_simps tasks_status_defs tasks_kind_defs tasks_priority_defs)

lemma tasks_valid_nonempty:
  "tasks_isValidStatus st \<Longrightarrow> st \<noteq> []" "tasks_isValidKind k \<Longrightarrow> k \<noteq> []"
  by (auto simp: tasks_isValidStatus_def tasks_isValidKind_def tasks_status_defs tasks_kind_defs)

lemma tasks_normal_valid [simp]:
  "tasks_isValidStatus st \<Longrightarrow> tasks_normalizeStatus st = st"
  "tasks_isValidKind k \<Longrightarrow> tasks_normalizeKind k = k"
  using tasks_valid_nonempty
  by (simp_all add: tasks_normalizeStatus_def tasks_normalizeKind_def tasks_norm_simps Let_def)

lemma norm_token_done: "norm_token ''done'' = ''done''"
  by (simp add: norm_token_lit norm_lit_simps)

lemma tasks_done_invalid: "\<not> tasks_isValidStatus tasks_legacyStatusDoneToken"
  by (simp add: tasks_isValidStatus_def tasks_legacyStatusDoneToken_def tasks_status_defs)

subsection \<open>The workflow graph\<close>

definition tasks_path :: "string \<Rightarrow> string \<Rightarrow> bool" where
  "tasks_path = tasks_isAllowedTransition\<^sup>*\<^sup>*"

lemma tasks_allowed_simps [simp]:
  "tasks_isAllowedTransition tasks_StatusQueued st \<longleftrightarrow> st = tasks_StatusReady"
  "tasks_isAllowedTransition tasks_StatusReady st \<longleftrightarrow> st = tasks_StatusInProgress \<or> st = tasks_StatusBlocked"
  "tasks_isAllowedTransition tasks_StatusInProgress st \<longleftrightarrow>
     st = tasks_StatusBlocked \<or> st = tasks_StatusSubmitted \<or> st = tasks_StatusClosed"
  "tasks_isAllowedTransition tasks_StatusBlocked st \<longleftrightarrow> st = tasks_StatusReady \<or> st = tasks_StatusInProgress"
  "tasks_isAllowedTransition tasks_StatusSubmitted st \<longleftrightarrow> st = tasks_StatusReviewing \<or> st = tasks_StatusBlocked"
  "tasks_isAllowedTransition tasks_StatusReviewing st \<longleftrightarrow>
     st = tasks_StatusReworkRequired \<or> st = tasks_StatusAccepted \<or> st = tasks_StatusBlocked"
  "tasks_isAllowedTransition tasks_StatusReworkRequired st \<longleftrightarrow>
     st = tasks_StatusInProgress \<or> st = tasks_StatusBlocked"
  "tasks_isAllowedTransition tasks_StatusAccepted st \<longleftrightarrow> st = tasks_StatusPublished \<or> st = tasks_StatusBlocked"
  "tasks_isAllowedTransition tasks_StatusPublished st \<longleftrightarrow> st = tasks_StatusClosed"
  "\<not> tasks_isAllowedTransition tasks_StatusClosed st"
  by (simp_all add: tasks_isAllowedTransition_def tasks_allowedTransitions_def)

lemma tasks_valid_cases:
  assumes "tasks_isValidStatus st"
  obtains "st = tasks_StatusQueued" | "st = tasks_StatusReady" | "st = tasks_StatusInProgress"
    | "st = tasks_StatusBlocked" | "st = tasks_StatusSubmitted" | "st = tasks_StatusReviewing"
    | "st = tasks_StatusReworkRequired" | "st = tasks_StatusAccepted" | "st = tasks_StatusPublished"
    | "st = tasks_StatusClosed"
  using assms by (auto simp: tasks_isValidStatus_def)

lemma tasks_allowed_valid:
  "tasks_isAllowedTransition st st' \<Longrightarrow> tasks_isValidStatus st \<and> tasks_isValidStatus st'"
  by (auto simp: tasks_isAllowedTransition_def tasks_allowedTransitions_def tasks_isValidStatus_def
      split: if_splits)

lemma tasks_path_refl [simp]: "tasks_path st st"
  by (simp add: tasks_path_def)

lemma tasks_path_trans: "tasks_path a b \<Longrightarrow> tasks_path b c \<Longrightarrow> tasks_path a c"
  by (simp add: tasks_path_def)

lemma tasks_path_step: "tasks_isAllowedTransition a b \<Longrightarrow> tasks_path a b"
  by (simp add: tasks_path_def)

lemma tasks_path_closed: "tasks_path tasks_StatusClosed st \<Longrightarrow> st = tasks_StatusClosed"
  unfolding tasks_path_def by (induction rule: rtranclp_induct) auto

text \<open>Work can always be finished: every status has a way to \<open>closed\<close>.\<close>

lemma tasks_progress_closed: "tasks_path tasks_StatusInProgress tasks_StatusClosed"
  by (rule tasks_path_step) simp

lemma tasks_can_close: "tasks_isValidStatus st \<Longrightarrow> tasks_path st tasks_StatusClosed"
proof (erule tasks_valid_cases)
  have ready: "tasks_path tasks_StatusReady tasks_StatusClosed"
    by (rule tasks_path_trans [OF tasks_path_step tasks_progress_closed]) simp
  have blocked: "tasks_path tasks_StatusBlocked tasks_StatusClosed"
    by (rule tasks_path_trans [OF tasks_path_step tasks_progress_closed]) simp
  show "st = tasks_StatusQueued \<Longrightarrow> tasks_path st tasks_StatusClosed"
    by (rule tasks_path_trans [OF tasks_path_step ready]) simp
  show "st = tasks_StatusReady \<Longrightarrow> tasks_path st tasks_StatusClosed" using ready by simp
  show "st = tasks_StatusInProgress \<Longrightarrow> tasks_path st tasks_StatusClosed"
    using tasks_progress_closed by simp
  show "st = tasks_StatusBlocked \<Longrightarrow> tasks_path st tasks_StatusClosed" using blocked by simp
  show "st = tasks_StatusSubmitted \<Longrightarrow> tasks_path st tasks_StatusClosed"
    by (rule tasks_path_trans [OF tasks_path_step blocked]) simp
  show "st = tasks_StatusReviewing \<Longrightarrow> tasks_path st tasks_StatusClosed"
    by (rule tasks_path_trans [OF tasks_path_step blocked]) simp
  show "st = tasks_StatusReworkRequired \<Longrightarrow> tasks_path st tasks_StatusClosed"
    by (rule tasks_path_trans [OF tasks_path_step blocked]) simp
  show "st = tasks_StatusAccepted \<Longrightarrow> tasks_path st tasks_StatusClosed"
    by (rule tasks_path_trans [OF tasks_path_step blocked]) simp
  show "st = tasks_StatusPublished \<Longrightarrow> tasks_path st tasks_StatusClosed"
    by (rule tasks_path_step) simp
  show "st = tasks_StatusClosed \<Longrightarrow> tasks_path st tasks_StatusClosed" by simp
qed

subsection \<open>The invariant\<close>

definition tasks_task_ok :: "tasks_Task \<Rightarrow> bool" where
  "tasks_task_ok t \<longleftrightarrow>
     1 \<le> task_ProjectID t \<and> task_Title t \<noteq> [] \<and>
     trim_space (task_AssetObjectKey t) = task_AssetObjectKey t \<and>
     tasks_isValidStatus (task_Status t) \<and> tasks_isValidKind (task_Kind t) \<and>
     tasks_isValidPriority (task_Priority t) \<and>
     (task_Status t = tasks_StatusBlocked \<longrightarrow> task_BlockerReason t \<noteq> []) \<and>
     (task_Kind t = tasks_KindAnnotation \<longrightarrow>
        task_AssetObjectKey t \<noteq> [] \<and> tasks_isValidMediaKind (task_MediaKind t)) \<and>
     (\<forall>n. task_FrameIndex t = Some n \<longrightarrow> 0 \<le> n) \<and> (\<forall>n. task_SnapshotID t = Some n \<longrightarrow> 1 \<le> n)"

definition tasks_inv :: "tasks_Repo \<Rightarrow> bool" where
  "tasks_inv r \<longleftrightarrow>
     1 \<le> tr_nextID r \<and>
     (\<forall>tid t. tr_byID r tid = Some t \<longrightarrow> task_ID t = tid \<and> 1 \<le> tid \<and> tid < tr_nextID r \<and> tasks_task_ok t)"

definition tasks_same :: "tasks_Task \<Rightarrow> tasks_Task \<Rightarrow> bool" where
  "tasks_same a b \<longleftrightarrow>
     task_ID b = task_ID a \<and> task_ProjectID b = task_ProjectID a \<and> task_SnapshotID b = task_SnapshotID a \<and>
     task_Title b = task_Title a \<and> task_Kind b = task_Kind a \<and> task_AssetObjectKey b = task_AssetObjectKey a \<and>
     task_MediaKind b = task_MediaKind a \<and> task_FrameIndex b = task_FrameIndex a \<and>
     task_OntologyVersion b = task_OntologyVersion a \<and> task_CreatedAt b = task_CreatedAt a \<and>
     task_SnapshotVersion b = task_SnapshotVersion a \<and> task_DatasetID b = task_DatasetID a \<and>
     task_DatasetName b = task_DatasetName a"

definition tasks_le :: "tasks_Repo \<Rightarrow> tasks_Repo \<Rightarrow> bool" where
  "tasks_le r r' \<longleftrightarrow>
     (\<forall>tid a. tr_byID r tid = Some a \<longrightarrow>
        (\<exists>b. tr_byID r' tid = Some b \<and> tasks_same a b \<and> tasks_path (task_Status a) (task_Status b)))"

lemma tasks_same_refl [simp]: "tasks_same a a"
  by (simp add: tasks_same_def)

lemma tasks_same_trans: "tasks_same a b \<Longrightarrow> tasks_same b c \<Longrightarrow> tasks_same a c"
  by (simp add: tasks_same_def)

lemma tasks_le_refl [simp]: "tasks_le r r"
  by (simp add: tasks_le_def)

lemma tasks_le_trans: "tasks_le r s \<Longrightarrow> tasks_le s t \<Longrightarrow> tasks_le r t"
  unfolding tasks_le_def by (meson tasks_same_trans tasks_path_trans)

lemma tasks_invD:
  "tasks_inv r \<Longrightarrow> tr_byID r tid = Some t \<Longrightarrow> task_ID t = tid \<and> 1 \<le> tid \<and> tid < tr_nextID r \<and> tasks_task_ok t"
  unfolding tasks_inv_def by blast

lemma tasks_inv_put:
  assumes "tasks_inv r" and "tr_nextID r \<le> n" and "1 \<le> tid" "tid < n" "task_ID t = tid" "tasks_task_ok t"
  shows "tasks_inv (r\<lparr>tr_nextID := n, tr_byID := (tr_byID r)(tid \<mapsto> t)\<rparr>)"
    and "n = tr_nextID r \<Longrightarrow> tasks_inv (r\<lparr>tr_byID := (tr_byID r)(tid \<mapsto> t)\<rparr>)"
proof -
  have all: "task_ID u = i \<and> 1 \<le> i \<and> i < n \<and> tasks_task_ok u"
    if "((tr_byID r)(tid \<mapsto> t)) i = Some u" for i u
    using that assms tasks_invD [OF assms(1), of i u] by (cases "i = tid") auto
  have "1 \<le> n" using assms by simp
  then show "tasks_inv (r\<lparr>tr_nextID := n, tr_byID := (tr_byID r)(tid \<mapsto> t)\<rparr>)"
    by (simp add: tasks_inv_def del: fun_upd_apply) (blast dest: all)
  show "n = tr_nextID r \<Longrightarrow> tasks_inv (r\<lparr>tr_byID := (tr_byID r)(tid \<mapsto> t)\<rparr>)"
    using \<open>1 \<le> n\<close> by (simp add: tasks_inv_def del: fun_upd_apply) (metis all)
qed

lemma tasks_empty_inv: "tasks_inv tasks_NewInMemoryRepository"
  by (simp add: tasks_inv_def tasks_NewInMemoryRepository_def)

subsection \<open>Creation\<close>

lemma tasks_checkCreate_ok:
  assumes "tasks_checkCreate now inp = Inr x"
  shows "tasks_task_ok (tasks_newTask now' tid x)"
proof -
  note d = tasks_checkCreate_def [of now inp] assms
  have "1 \<le> ct_ProjectID x" "ct_Title x \<noteq> []" "trim_space (ct_AssetObjectKey x) = ct_AssetObjectKey x"
    "tasks_isValidStatus (ct_Status x)" "tasks_isValidKind (ct_Kind x)"
    "tasks_isValidPriority (ct_Priority x)" "ct_Status x = tasks_StatusBlocked \<longrightarrow> ct_BlockerReason x \<noteq> []"
    "ct_Kind x = tasks_KindAnnotation \<longrightarrow> ct_AssetObjectKey x \<noteq> [] \<and> tasks_isValidMediaKind (ct_MediaKind x)"
    "\<forall>n. ct_FrameIndex x = Some n \<longrightarrow> 0 \<le> n" "\<forall>n. ct_SnapshotID x = Some n \<longrightarrow> 1 \<le> n"
    using d by (auto simp: Let_def split: if_splits option.splits)
  then show ?thesis by (simp add: tasks_task_ok_def tasks_newTask_def)
qed

lemma tasks_newTask_ID [simp]: "task_ID (tasks_newTask now tid x) = tid"
  by (simp add: tasks_newTask_def)

lemma tasks_CreateTask_cases:
  obtains (refused) e where "tasks_checkCreate (clk 0) inp = Inl e" "tasks_CreateTask clk inp r = (Inl e, r)"
  | (created) x where "tasks_checkCreate (clk 0) inp = Inr x"
      "tasks_CreateTask clk inp r = (Inr (tasks_newTask (clk 1) (tr_nextID r) x),
         r\<lparr>tr_nextID := tr_nextID r + 1,
           tr_byID := (tr_byID r)(tr_nextID r \<mapsto> tasks_newTask (clk 1) (tr_nextID r) x)\<rparr>)"
  by (cases "tasks_checkCreate (clk 0) inp") (auto simp: tasks_CreateTask_def tasks_repo_CreateTask_def Let_def)

lemma tasks_fresh: "tasks_inv r \<Longrightarrow> tr_byID r (tr_nextID r) = None"
  using tasks_invD [of r "tr_nextID r"] by (cases "tr_byID r (tr_nextID r)") auto

lemma tasks_CreateTask_inv: "tasks_inv r \<Longrightarrow> tasks_inv (snd (tasks_CreateTask clk inp r))"
proof (cases rule: tasks_CreateTask_cases [of clk inp r])
  case (created x)
  moreover assume inv: "tasks_inv r"
  then have "1 \<le> tr_nextID r" by (simp add: tasks_inv_def)
  ultimately show ?thesis
    using tasks_inv_put(1) [OF inv] tasks_checkCreate_ok by simp
qed simp

lemma tasks_CreateTask_le: "tasks_inv r \<Longrightarrow> tasks_le r (snd (tasks_CreateTask clk inp r))"
  using tasks_fresh [of r]
  by (cases rule: tasks_CreateTask_cases [of clk inp r]) (auto simp: tasks_le_def)

subsection \<open>Transitions\<close>

definition tasks_moved :: "clock \<Rightarrow> string \<Rightarrow> tasks_TransitionTaskInput \<Rightarrow> tasks_Task \<Rightarrow> tasks_Task" where
  "tasks_moved clk st inp a =
     a\<lparr>task_Status := st,
       task_BlockerReason := (if st = tasks_StatusBlocked then trim_space (tt_BlockerReason inp) else []),
       task_LastActivityAt := (if tt_LastActivityAt inp = zero_time then clk 0 else tt_LastActivityAt inp),
       task_UpdatedAt := clk 1\<rparr>"

text \<open>A transition on a well-formed task, on every branch.\<close>

lemma tasks_transition_spec:
  assumes inv: "tasks_inv r" and task: "tr_byID r tid = Some a"
  shows "tasks_TransitionTask clk tid inp r =
     (let st = tasks_target (task_Kind a) (tt_Status inp) in
      if \<not> tasks_isValidStatus st then (Inl (TaskInvalidStatus st), r)
      else if \<not> tasks_isAllowedTransition (task_Status a) st
      then (Inl (TaskInvalidTransition (task_Status a) st), r)
      else if st = tasks_StatusBlocked \<and> trim_space (tt_BlockerReason inp) = []
      then (Inl TaskBlockerReasonRequired, r)
      else (Inr (tasks_moved clk st inp a), r\<lparr>tr_byID := (tr_byID r)(tid \<mapsto> tasks_moved clk st inp a)\<rparr>))"
proof -
  have a: "tasks_task_ok a" "1 \<le> tid" using tasks_invD [OF inv task] by blast+
  then have "tasks_GetTask tid r = Inr a" using task by (simp add: tasks_GetTask_def tasks_repo_GetTask_def)
  with a task show ?thesis
    by (simp add: tasks_TransitionTask_def tasks_repo_TransitionTask_def Let_def tasks_moved_def
        tasks_task_ok_def)
qed

lemma tasks_transition_unknown:
  "tr_byID r tid = None \<Longrightarrow> \<exists>e. tasks_TransitionTask clk tid inp r = (Inl e, r)"
  by (simp add: tasks_TransitionTask_def tasks_GetTask_def tasks_repo_GetTask_def)

lemma tasks_transition_cases:
  assumes "tasks_inv r"
  obtains (refused) e where "tasks_TransitionTask clk tid inp r = (Inl e, r)"
  | (moved) a st where "tr_byID r tid = Some a" "st = tasks_target (task_Kind a) (tt_Status inp)"
      "tasks_isAllowedTransition (task_Status a) st"
      "st = tasks_StatusBlocked \<longrightarrow> trim_space (tt_BlockerReason inp) \<noteq> []"
      "tasks_TransitionTask clk tid inp r = (Inr (tasks_moved clk st inp a),
         r\<lparr>tr_byID := (tr_byID r)(tid \<mapsto> tasks_moved clk st inp a)\<rparr>)"
proof (cases "tr_byID r tid")
  case None
  then show ?thesis using tasks_transition_unknown refused by metis
next
  case (Some a)
  let ?st = "tasks_target (task_Kind a) (tt_Status inp)"
  note spec = tasks_transition_spec [OF assms Some, of clk inp, unfolded Let_def]
  show ?thesis
  proof (cases "tasks_isValidStatus ?st \<and> tasks_isAllowedTransition (task_Status a) ?st \<and>
      \<not> (?st = tasks_StatusBlocked \<and> trim_space (tt_BlockerReason inp) = [])")
    case True
    then have "tasks_TransitionTask clk tid inp r = (Inr (tasks_moved clk ?st inp a),
         r\<lparr>tr_byID := (tr_byID r)(tid \<mapsto> tasks_moved clk ?st inp a)\<rparr>)"
      using spec by simp
    with True show ?thesis by (intro moved [OF Some refl]) auto
  next
    case False
    then have "\<exists>e. tasks_TransitionTask clk tid inp r = (Inl e, r)" using spec by (simp split: if_splits)
    then show ?thesis using refused by blast
  qed
qed

lemma tasks_moved_ok:
  assumes "tasks_task_ok a" and "tasks_isAllowedTransition (task_Status a) st"
    and "st = tasks_StatusBlocked \<longrightarrow> trim_space (tt_BlockerReason inp) \<noteq> []"
  shows "tasks_task_ok (tasks_moved clk st inp a)" and "tasks_same a (tasks_moved clk st inp a)"
    and "task_Status (tasks_moved clk st inp a) = st"
  using assms tasks_allowed_valid by (auto simp: tasks_task_ok_def tasks_moved_def tasks_same_def)

lemma tasks_TransitionTask_inv: "tasks_inv r \<Longrightarrow> tasks_inv (snd (tasks_TransitionTask clk tid inp r))"
proof -
  assume inv: "tasks_inv r"
  then show ?thesis
  proof (cases rule: tasks_transition_cases [where clk = clk and tid = tid and inp = inp])
    case (moved a st)
    have "tasks_task_ok (tasks_moved clk st inp a) \<and> task_ID (tasks_moved clk st inp a) = tid \<and> 1 \<le> tid \<and> tid < tr_nextID r"
      using tasks_moved_ok [OF _ moved(3,4), of clk] tasks_invD [OF inv moved(1)] by (auto simp: tasks_same_def)
    with moved(5) show ?thesis using tasks_inv_put(2) [OF inv, of "tr_nextID r" tid] by simp
  qed (use inv in simp)
qed

lemma tasks_TransitionTask_le: "tasks_inv r \<Longrightarrow> tasks_le r (snd (tasks_TransitionTask clk tid inp r))"
proof -
  assume inv: "tasks_inv r"
  then show ?thesis
  proof (cases rule: tasks_transition_cases [where clk = clk and tid = tid and inp = inp])
    case (moved a st)
    have "tasks_same a (tasks_moved clk st inp a)" "task_Status (tasks_moved clk st inp a) = st"
      using tasks_moved_ok [OF _ moved(3,4), of clk] tasks_invD [OF inv moved(1)] by auto
    with moved show ?thesis by (auto simp: tasks_le_def tasks_path_step)
  qed simp
qed

subsection \<open>The service as a machine\<close>

datatype tasks_call =
    CallCreateTask clock tasks_CreateTaskInput
  | CallTransitionTask clock int tasks_TransitionTaskInput

fun tasks_serve :: "tasks_Repo \<Rightarrow> tasks_call \<Rightarrow> tasks_Repo" where
  "tasks_serve r (CallCreateTask clk inp) = snd (tasks_CreateTask clk inp r)"
| "tasks_serve r (CallTransitionTask clk tid inp) = snd (tasks_TransitionTask clk tid inp r)"

lemma tasks_serve_inv: "tasks_inv r \<Longrightarrow> tasks_inv (tasks_serve r c)"
  by (cases c) (simp_all add: tasks_CreateTask_inv tasks_TransitionTask_inv)

lemma tasks_serve_le: "tasks_inv r \<Longrightarrow> tasks_le r (tasks_serve r c)"
  by (cases c) (simp_all add: tasks_CreateTask_le tasks_TransitionTask_le)

interpretation tasks_machine: progress_machine "\<lambda>r. r = tasks_NewInMemoryRepository" tasks_serve tasks_inv tasks_le
  by unfold_locales (auto intro: tasks_empty_inv tasks_serve_inv tasks_serve_le tasks_le_trans)

definition tasks_after :: "tasks_call list \<Rightarrow> tasks_Repo" where
  "tasks_after cs = foldl tasks_serve tasks_NewInMemoryRepository cs"

lemma tasks_after_inv [simp]: "tasks_inv (tasks_after cs)"
  unfolding tasks_after_def by (rule tasks_machine.run_inv) simp

lemma tasks_after_le: "tasks_le (tasks_after cs) (tasks_after (cs @ cs'))"
  unfolding tasks_after_def by (rule tasks_machine.run_le_later) (rule tasks_empty_inv)

subsection \<open>The contract for clients\<close>

text \<open>
  What the annotation workspace needs of a task service: a refused transition changes nothing,
  an accepted one is the new value of that task and of no other, keeps its identity and moves
  it along one edge of the workflow.
\<close>

locale task_provider =
  fixes get :: "int \<Rightarrow> 's \<Rightarrow> tasks_error + tasks_Task"
    and move :: "clock \<Rightarrow> int \<Rightarrow> tasks_TransitionTaskInput \<Rightarrow> 's \<Rightarrow> (tasks_error, tasks_Task, 's) outcome"
    and ok :: "'s \<Rightarrow> bool"
  assumes get_ok: "ok s \<Longrightarrow> get tid s = Inr t \<Longrightarrow> task_ID t = tid \<and> tasks_task_ok t"
    and move_ok: "ok s \<Longrightarrow> ok (snd (move clk tid inp s))"
    and move_refused: "ok s \<Longrightarrow> move clk tid inp s = (Inl e, s') \<Longrightarrow> s' = s"
    and move_get: "ok s \<Longrightarrow> move clk tid inp s = (Inr t, s') \<Longrightarrow> get tid s' = Inr t"
    and move_frame: "ok s \<Longrightarrow> move clk tid inp s = (Inr t, s') \<Longrightarrow> tid' \<noteq> tid \<Longrightarrow> get tid' s' = get tid' s"
    and move_edge: "ok s \<Longrightarrow> move clk tid inp s = (Inr t, s') \<Longrightarrow>
      \<exists>a. get tid s = Inr a \<and> tasks_same a t \<and> task_Status t = tasks_target (task_Kind a) (tt_Status inp) \<and>
          tasks_isAllowedTransition (task_Status a) (task_Status t)"
begin

lemma move_valid: "ok s \<Longrightarrow> move clk tid inp s = (Inr t, s') \<Longrightarrow> tasks_isValidStatus (task_Status t)"
  using move_edge tasks_allowed_valid by blast

lemma moved_elsewhere:
  assumes "ok s" and "tid' \<noteq> tid"
  shows "get tid' (snd (move clk tid inp s)) = get tid' s"
proof (cases "move clk tid inp s")
  case (Pair res s')
  then show ?thesis using assms by (cases res) (auto dest: move_refused move_frame)
qed

end

lemma tasks_GetTask_iff:
  "tasks_inv r \<Longrightarrow> tasks_GetTask tid r = Inr t \<longleftrightarrow> tr_byID r tid = Some t"
  using tasks_invD [of r tid t] by (auto simp: tasks_GetTask_def tasks_repo_GetTask_def split: option.split)

lemma tasks_provider_moves:
  assumes inv: "tasks_inv r" and run: "tasks_TransitionTask clk tid inp r = (Inr t, r')"
  shows "\<exists>a. tr_byID r tid = Some a \<and> tasks_same a t \<and> tasks_isAllowedTransition (task_Status a) (task_Status t) \<and>
           task_Status t = tasks_target (task_Kind a) (tt_Status inp) \<and> r' = r\<lparr>tr_byID := (tr_byID r)(tid \<mapsto> t)\<rparr>"
  using inv
proof (cases rule: tasks_transition_cases [where clk = clk and tid = tid and inp = inp])
  case (moved a st)
  have "task_Status (tasks_moved clk st inp a) = st" "tasks_same a (tasks_moved clk st inp a)"
    using tasks_moved_ok [OF _ moved(3,4), of clk] tasks_invD [OF inv moved(1)] by auto
  with moved run show ?thesis by auto
qed (use run in simp)

lemma tasks_get_frame: "tid' \<noteq> tid \<Longrightarrow> tasks_GetTask tid' (r\<lparr>tr_byID := (tr_byID r)(tid \<mapsto> t)\<rparr>) = tasks_GetTask tid' r"
  by (simp add: tasks_GetTask_def tasks_repo_GetTask_def)

interpretation tasks_contract: task_provider tasks_GetTask tasks_TransitionTask tasks_inv
proof unfold_locales
  fix r :: tasks_Repo and r' clk tid tid' inp e t
  assume inv: "tasks_inv r"
  show "tasks_GetTask tid r = Inr t \<Longrightarrow> task_ID t = tid \<and> tasks_task_ok t"
    using tasks_invD [OF inv] by (simp add: tasks_GetTask_iff [OF inv])
  show "tasks_inv (snd (tasks_TransitionTask clk tid inp r))" by (rule tasks_TransitionTask_inv [OF inv])
  show "tasks_TransitionTask clk tid inp r = (Inl e, r') \<Longrightarrow> r' = r"
    using inv by (cases rule: tasks_transition_cases [where clk = clk and tid = tid and inp = inp]) auto
  assume run: "tasks_TransitionTask clk tid inp r = (Inr t, r')"
  then obtain a where a: "tr_byID r tid = Some a" "tasks_same a t"
    "tasks_isAllowedTransition (task_Status a) (task_Status t)"
    "task_Status t = tasks_target (task_Kind a) (tt_Status inp)"
    "r' = r\<lparr>tr_byID := (tr_byID r)(tid \<mapsto> t)\<rparr>"
    using tasks_provider_moves [OF inv run] by blast
  have inv': "tasks_inv r'" using tasks_TransitionTask_inv [OF inv, of clk tid inp] run by simp
  show "tasks_GetTask tid r' = Inr t" unfolding tasks_GetTask_iff [OF inv'] using a(5) by simp
  show "tid' \<noteq> tid \<Longrightarrow> tasks_GetTask tid' r' = tasks_GetTask tid' r"
    unfolding a(5) by (rule tasks_get_frame)
  show "\<exists>a. tasks_GetTask tid r = Inr a \<and> tasks_same a t \<and>
      task_Status t = tasks_target (task_Kind a) (tt_Status inp) \<and>
      tasks_isAllowedTransition (task_Status a) (task_Status t)"
    using a by (auto simp: tasks_GetTask_iff [OF inv])
qed

subsection \<open>Properties\<close>

text \<open>
  Through every history of task calls every stored task is well-formed (known status, kind
  and priority, a reason when blocked, asset and media kind for annotation work), keeps its
  identity and moves only along the workflow graph; a closed task stays closed.
\<close>

theorem tasks_histories:
  assumes "tr_byID (tasks_after cs) tid = Some a"
  shows "tasks_task_ok a \<and> task_ID a = tid \<and>
         (\<exists>b. tr_byID (tasks_after (cs @ cs')) tid = Some b \<and> tasks_same a b \<and>
              tasks_path (task_Status a) (task_Status b) \<and>
              (task_Status a = tasks_StatusClosed \<longrightarrow> task_Status b = tasks_StatusClosed))"
proof -
  obtain b where "tr_byID (tasks_after (cs @ cs')) tid = Some b" "tasks_same a b"
    "tasks_path (task_Status a) (task_Status b)"
    using tasks_after_le [of cs cs'] assms unfolding tasks_le_def by blast
  then show ?thesis using tasks_invD [OF tasks_after_inv assms] tasks_path_closed by auto
qed

text \<open>
  The workflow as it is meant, written out apart from the code: the known statuses, the steps, and the status a request
  stands for (no status is \<open>queued\<close>, the legacy token \<open>done\<close> depends on the kind of work).
\<close>

definition tasks_known :: "string list" where
  "tasks_known = [''queued'', ''ready'', ''in_progress'', ''blocked'', ''submitted'', ''reviewing'', ''rework_required'',
     ''accepted'', ''published'', ''closed'']"

definition tasks_workflow :: "(string \<times> string) list" where
  "tasks_workflow =
     [(''queued'', ''ready''), (''ready'', ''in_progress''), (''ready'', ''blocked''),
      (''in_progress'', ''blocked''), (''in_progress'', ''submitted''), (''in_progress'', ''closed''),
      (''blocked'', ''ready''), (''blocked'', ''in_progress''),
      (''submitted'', ''reviewing''), (''submitted'', ''blocked''),
      (''reviewing'', ''rework_required''), (''reviewing'', ''accepted''), (''reviewing'', ''blocked''),
      (''rework_required'', ''in_progress''), (''rework_required'', ''blocked''),
      (''accepted'', ''published''), (''accepted'', ''blocked''), (''published'', ''closed'')]"

definition tasks_requested :: "string \<Rightarrow> string \<Rightarrow> string" where
  "tasks_requested kind token =
     (if norm_token token = [] then ''queued''
      else if norm_token token = ''done'' then (if kind = ''annotation'' then ''submitted'' else ''closed'')
      else norm_token token)"

lemma tasks_known_iff: "tasks_isValidStatus st \<longleftrightarrow> st \<in> set tasks_known"
  by (auto simp: tasks_isValidStatus_def tasks_known_def tasks_status_defs)

lemma tasks_workflow_iff: "tasks_isAllowedTransition st st' \<longleftrightarrow> (st, st') \<in> set tasks_workflow"
  by (auto simp: tasks_isAllowedTransition_def tasks_allowedTransitions_def tasks_workflow_def tasks_status_defs split: if_splits)

lemma tasks_requested_eq: "tasks_target kind token = tasks_requested kind token"
  by (simp add: tasks_target_def tasks_requested_def tasks_legacyStatusDoneToken_def tasks_normalizeStatus_def Let_def
      tasks_status_defs tasks_KindAnnotation_def)

text \<open>
  C25. A transition after any history of calls, on every branch. A task number that is not positive or names no task is
  refused; so are, in this order, a request for a status that is not one of the ten, one that is not a step of the workflow
  from the task's status, and \<open>blocked\<close> without a reason; each refusal has its own error and leaves the store as it is. The
  requested status is read without case and surrounding space, an empty one as \<open>queued\<close> and the legacy \<open>done\<close> as
  \<open>submitted\<close> for annotation work and \<open>closed\<close> for all other. A granted request changes the task's status, its reason
  (kept only while blocked, trimmed) and its two stamps, and nothing else of it or of any other task.
\<close>

theorem tasks_transition_exact:
  assumes run: "tasks_TransitionTask clk tid inp (tasks_after cs) = (res, r')"
  shows "case tr_byID (tasks_after cs) tid of
      None \<Rightarrow> res = Inl (if tid \<le> 0 then TaskIDNotPositive else TaskNotFound tid) \<and> r' = tasks_after cs
    | Some a \<Rightarrow>
        (let st = tasks_requested (task_Kind a) (tt_Status inp); reason = trim_space (tt_BlockerReason inp) in
         if st \<notin> set tasks_known then res = Inl (TaskInvalidStatus st) \<and> r' = tasks_after cs
         else if (task_Status a, st) \<notin> set tasks_workflow
         then res = Inl (TaskInvalidTransition (task_Status a) st) \<and> r' = tasks_after cs
         else if st = ''blocked'' \<and> reason = [] then res = Inl TaskBlockerReasonRequired \<and> r' = tasks_after cs
         else \<exists>b. res = Inr b \<and> r' = (tasks_after cs)\<lparr>tr_byID := (tr_byID (tasks_after cs))(tid \<mapsto> b)\<rparr> \<and>
           b = a\<lparr>task_Status := st, task_BlockerReason := (if st = ''blocked'' then reason else []),
                 task_LastActivityAt := (if tt_LastActivityAt inp = zero_time then clk 0 else tt_LastActivityAt inp),
                 task_UpdatedAt := clk 1\<rparr>)"
proof (cases "tr_byID (tasks_after cs) tid")
  case None
  then show ?thesis using run by (auto simp: tasks_TransitionTask_def tasks_GetTask_def tasks_repo_GetTask_def)
next
  case (Some a)
  have blocked: "tasks_StatusBlocked = ''blocked''" by (simp add: tasks_status_defs)
  define st where "st = tasks_requested (task_Kind a) (tt_Status inp)"
  show ?thesis
    using run [symmetric]
    unfolding Some option.case Let_def tasks_transition_spec [OF tasks_after_inv Some] tasks_requested_eq tasks_known_iff
      tasks_workflow_iff blocked tasks_moved_def st_def [symmetric]
    by (cases "st \<in> set tasks_known"; cases "(task_Status a, st) \<in> set tasks_workflow";
        cases "st = ''blocked'' \<and> trim_space (tt_BlockerReason inp) = []") simp_all
qed

text \<open>
  C26. The workflow has no dead end and no idle step: from every known status \<open>closed\<close> can be
  reached by allowed transitions, no status is one step away from itself, and only \<open>closed\<close>
  has no successor.
\<close>

theorem tasks_workflow_live:
  assumes "tasks_isValidStatus st"
  shows "tasks_path st tasks_StatusClosed \<and> \<not> tasks_isAllowedTransition st st \<and>
         (tasks_allowedTransitions st = [] \<longleftrightarrow> st = tasks_StatusClosed)"
  using tasks_can_close [OF assms] assms
  by (elim tasks_valid_cases) (simp_all add: tasks_allowedTransitions_def)

text \<open>
  A listing gives, without repetition, exactly the stored tasks of the project that match
  the normalised filter, whatever order the map is visited in; \<open>done\<close> filters for \<open>closed\<close>.
\<close>

theorem tasks_list_exact:
  assumes order: "distinct ks" "set ks = dom (tr_byID (tasks_after cs))"
    and run: "tasks_ListTasks ks projectID flt (tasks_after cs) = Inr out"
  shows "distinct out \<and>
         (\<exists>nf. tasks_normalizeFilter flt = Inr nf \<and>
            set out = {t. (\<exists>tid. tr_byID (tasks_after cs) tid = Some t) \<and> tasks_matches projectID nf t}) \<and>
         (norm_token (lt_Status flt) = tasks_legacyStatusDoneToken \<longrightarrow>
            (\<forall>t \<in> set out. task_Status t = tasks_StatusClosed))"
proof -
  let ?r = "tasks_after cs" and ?row = "\<lambda>k. the (tr_byID (tasks_after cs) k)"
  obtain nf where nf: "tasks_normalizeFilter flt = Inr nf" and out: "out = filter (tasks_matches projectID nf) (map ?row ks)"
    using run by (auto simp: tasks_ListTasks_def tasks_repo_ListTasks_def split: if_splits sum.splits)
  have row: "task_ID (?row k) = k" if "k \<in> set ks" for k
    using that order(2) tasks_invD [OF tasks_after_inv, of cs k] by auto
  have "inj_on ?row (set ks)" by (rule inj_onI) (metis row)
  then have dist: "distinct out" using order(1) by (simp add: out distinct_map)
  have "set (map ?row ks) = {t. \<exists>tid. tr_byID ?r tid = Some t}"
    using order(2) by (force simp: dom_def image_iff)
  then have set_out: "set out = {t. (\<exists>tid. tr_byID ?r tid = Some t) \<and> tasks_matches projectID nf t}"
    unfolding out set_filter by blast
  have "lt_Status nf = tasks_StatusClosed" if "norm_token (lt_Status flt) = tasks_legacyStatusDoneToken"
    using nf that by (auto simp: tasks_normalizeFilter_def Let_def split: if_splits)
  then have "norm_token (lt_Status flt) = tasks_legacyStatusDoneToken \<longrightarrow>
      (\<forall>t \<in> set out. task_Status t = tasks_StatusClosed)"
    unfolding set_out by (auto simp: tasks_matches_def)
  with dist nf set_out show ?thesis by blast
qed

text \<open>
  The legacy token \<open>done\<close>, which listings and transitions accept, is refused by creation
  once the other fields are in order.
\<close>

theorem tasks_create_refuses_done:
  assumes "norm_token (ct_Status inp) = tasks_legacyStatusDoneToken"
  shows "\<exists>e. tasks_CreateTask clk inp r = (Inl e, r)"
proof -
  have "tasks_normalizeStatus (ct_Status inp) = tasks_legacyStatusDoneToken"
    using assms by (simp add: tasks_normalizeStatus_def Let_def tasks_legacyStatusDoneToken_def)
  then have "\<nexists>x. tasks_checkCreate (clk 0) inp = Inr x"
    using tasks_done_invalid by (simp add: tasks_checkCreate_def Let_def)
  then show ?thesis by (cases rule: tasks_CreateTask_cases [of clk inp r]) auto
qed

subsection \<open>Witnesses\<close>

definition tasks_req :: "string \<Rightarrow> tasks_CreateTaskInput" where
  "tasks_req st = \<lparr>ct_ProjectID = 1, ct_SnapshotID = Some 3, ct_Title = ''t'', ct_Kind = ''annotation'',
     ct_AssetObjectKey = ''a.jpg'', ct_MediaKind = ''image'', ct_FrameIndex = None, ct_OntologyVersion = ''v1'',
     ct_Status = st, ct_Priority = ''normal'', ct_Assignee = ''ann'', ct_DueAt = None,
     ct_BlockerReason = [], ct_LastActivityAt = 5\<rparr>"

lemma tasks_sample_norms:
  "norm_token ''annotation'' = ''annotation''" "norm_token ''image'' = ''image''" "norm_token ''normal'' = ''normal''"
  "norm_token ''ready'' = ''ready''" "norm_token ''in_progress'' = ''in_progress''" "norm_token ''t'' = ''t''"
  "trim_space ''t'' = ''t''" "trim_space ''a.jpg'' = ''a.jpg''" "trim_space ''v1'' = ''v1''" "trim_space ''ann'' = ''ann''"
  by (simp_all add: norm_token_lit norm_lit_simps trimmed_trim_space_id)

definition tasks_sample :: "tasks_call list" where
  "tasks_sample = [CallCreateTask (\<lambda>_. 5) (tasks_req ''ready'')]"

lemma tasks_sample_checked: "tasks_checkCreate 5 (tasks_req ''ready'') = Inr (tasks_req ''ready'')"
  by (simp add: tasks_checkCreate_def tasks_req_def Let_def tasks_sample_norms tasks_normalizeKind_def
      tasks_normalizeMediaKind_def tasks_normalizeStatus_def tasks_normalizePriority_def
      tasks_isValidKind_def tasks_isValidStatus_def tasks_isValidMediaKind_def tasks_isValidPriority_def
      tasks_kind_defs tasks_status_defs tasks_media_defs tasks_priority_defs zero_time_def second_def)

lemma tasks_sample_task:
  "tr_byID (tasks_after tasks_sample) = [1 \<mapsto> tasks_newTask 5 1 (tasks_req ''ready'')]"
  by (simp add: tasks_after_def tasks_sample_def tasks_CreateTask_def tasks_sample_checked
      tasks_repo_CreateTask_def tasks_NewInMemoryRepository_def Let_def)

theorem tasks_histories_witness:
  "\<exists>b. tr_byID (tasks_after (tasks_sample @ [CallTransitionTask (\<lambda>_. 6) 1
      \<lparr>tt_Status = ''in_progress'', tt_BlockerReason = [], tt_LastActivityAt = 6\<rparr>])) 1 = Some b \<and>
     tasks_path ''ready'' (task_Status b)"
proof -
  have "tr_byID (tasks_after tasks_sample) 1 = Some (tasks_newTask 5 1 (tasks_req ''ready''))"
    by (simp add: tasks_sample_task)
  from tasks_histories [OF this] show ?thesis
    by (auto simp: tasks_newTask_def tasks_req_def)
qed

theorem tasks_transition_exact_witness:
  "succeeds (tasks_TransitionTask (\<lambda>_. 6) 1
     \<lparr>tt_Status = ''in_progress'', tt_BlockerReason = [], tt_LastActivityAt = 6\<rparr> (tasks_after tasks_sample))"
proof -
  let ?inp = "\<lparr>tt_Status = ''in_progress'', tt_BlockerReason = [], tt_LastActivityAt = 6\<rparr>"
  have row: "tr_byID (tasks_after tasks_sample) 1 = Some (tasks_newTask 5 1 (tasks_req ''ready''))"
    by (simp add: tasks_sample_task)
  have st: "tasks_requested k ''in_progress'' = ''in_progress''" for k by (simp add: tasks_requested_def tasks_sample_norms)
  obtain res r' where run: "tasks_TransitionTask (\<lambda>_. 6) 1 ?inp (tasks_after tasks_sample) = (res, r')"
    by (cases "tasks_TransitionTask (\<lambda>_. 6) 1 ?inp (tasks_after tasks_sample)")
  have "\<exists>b. res = Inr b"
    using tasks_transition_exact [OF run] unfolding row option.case Let_def
    by (auto simp: st tasks_newTask_def tasks_req_def tasks_known_def tasks_workflow_def)
  then show ?thesis using run by auto
qed

theorem tasks_workflow_live_witness:
  "tasks_path tasks_StatusReviewing tasks_StatusClosed"
  using tasks_workflow_live [of tasks_StatusReviewing] by (simp add: tasks_isValidStatus_def)

theorem tasks_list_exact_witness:
  "\<exists>out. tasks_ListTasks [1] 1 \<lparr>lt_Status = [], lt_Kind = [], lt_Assignee = [], lt_Priority = [], lt_SnapshotID = None\<rparr>
      (tasks_after tasks_sample) = Inr out \<and> distinct out"
proof -
  let ?f = "\<lparr>lt_Status = [], lt_Kind = [], lt_Assignee = [], lt_Priority = [], lt_SnapshotID = None\<rparr>"
  have run: "tasks_ListTasks [1] 1 ?f (tasks_after tasks_sample) =
      Inr (tasks_repo_ListTasks [1] 1 ?f (tasks_after tasks_sample))"
    by (simp add: tasks_ListTasks_def tasks_normalizeFilter_def Let_def tasks_legacyStatusDoneToken_def)
  have "distinct [1 :: int]" "set [1] = dom (tr_byID (tasks_after tasks_sample))"
    by (simp_all add: tasks_sample_task)
  from tasks_list_exact [OF this run] run show ?thesis by blast
qed

theorem tasks_create_refuses_done_witness:
  "\<exists>e. tasks_CreateTask (\<lambda>_. 5) (tasks_req ''done'') tasks_NewInMemoryRepository = (Inl e, tasks_NewInMemoryRepository)"
  by (rule tasks_create_refuses_done) (simp add: tasks_req_def norm_token_done tasks_legacyStatusDoneToken_def)

end
