(* ===== verification/Json_Clone.thy ===== *)
theory Json_Clone
  imports Go_Prelude
begin

section \<open>Copying a value through JSON\<close>

text \<open>
  \<open>json.Marshal\<close> followed by \<open>json.Unmarshal\<close> into \<open>any\<close>, the way \<open>deepCloneJSONMap\<close>
  (\<open>internal/annotations\<close>) and \<open>cloneJSONMap\<close> (\<open>internal/publish\<close>) copy a \<open>map[string]any\<close>.
  Every number comes back as a \<open>float64\<close>, so an integer of 2^53 or more is rounded to the
  nearest one, ties to even; typed slices come back as \<open>[]any\<close>. A \<open>nil\<close> map and an empty one
  both give the empty map, so such fields are plain \<open>obj\<close>s. The maps the code copies hold
  decoded JSON and integers; a \<open>json.Number\<close> or a \<open>time.Time\<close> does not occur in them and is
  left as it is. Values that cannot be encoded (channels, functions, NaN) have no \<open>gval\<close>.
\<close>

fun excess_bits :: "nat \<Rightarrow> nat" where
  "excess_bits m = (if m < 2 ^ 53 then 0 else Suc (excess_bits (m div 2)))"

declare excess_bits.simps [simp del]

definition round_even :: "nat \<Rightarrow> nat \<Rightarrow> nat" where
  "round_even s m =
     (if s = 0 then m
      else let q = m div 2 ^ s; r = m mod 2 ^ s; h = 2 ^ (s - 1)
           in if r < h \<or> (r = h \<and> even q) then q * 2 ^ s else (q + 1) * 2 ^ s)"

definition float64_of_int :: "int \<Rightarrow> real" where
  "float64_of_int i =
     (let m = nat \<bar>i\<bar>; v = real (round_even (excess_bits m) m) in if i < 0 then - v else v)"

primrec json_val :: "gval \<Rightarrow> gval" where
  "json_val GNil = GNil"
| "json_val (GBool b) = GBool b"
| "json_val (GInt i) = GFloat (float64_of_int i)"
| "json_val (GInt64 i) = GFloat (float64_of_int i)"
| "json_val (GFloat x) = GFloat x"
| "json_val (GNumber s) = GNumber s"
| "json_val (GStr s) = GStr s"
| "json_val (GTime t) = GTime t"
| "json_val (GStrs ss) = GArr (map GStr ss)"
| "json_val (GInts is) = GArr (map (\<lambda>i. GFloat (float64_of_int i)) is)"
| "json_val (GArr vs) = GArr (map json_val vs)"
| "json_val (GObj m) = GObj (map (map_prod id json_val) m)"

definition json_clone :: "obj \<Rightarrow> obj" where
  "json_clone m = map (map_prod id json_val) m"

lemma float64_of_int_small: "\<bar>i\<bar> < 2 ^ 53 \<Longrightarrow> float64_of_int i = real_of_int i"
proof -
  assume "\<bar>i\<bar> < 2 ^ 53"
  then have "nat \<bar>i\<bar> < 2 ^ 53" by (simp add: nat_less_iff)
  then have "excess_bits (nat \<bar>i\<bar>) = 0" by (subst excess_bits.simps) simp
  then have "round_even (excess_bits (nat \<bar>i\<bar>)) (nat \<bar>i\<bar>) = nat \<bar>i\<bar>"
    by (simp only: round_even_def if_True simp_thms)
  then show ?thesis unfolding float64_of_int_def Let_def by (simp only: if_split) simp
qed

text \<open>Copying once more changes nothing, and keys are kept.\<close>

lemma json_val_idem [simp]: "json_val (json_val v) = json_val v"
proof (induction v)
  case (GObj m)
  have "map_prod id json_val (map_prod id json_val p) = map_prod id json_val p" if "p \<in> set m" for p
    using GObj that by (cases p) (auto simp: snds.simps)
  then show ?case by simp
qed (simp_all)

lemma json_clone_idem [simp]: "json_clone (json_clone m) = json_clone m"
  by (simp add: json_clone_def map_prod_def case_prod_beta)

lemma json_clone_Nil [simp]: "json_clone [] = []"
  by (simp add: json_clone_def)

lemma map_fst_json_clone [simp]: "map fst (json_clone m) = map fst m"
  by (simp add: json_clone_def)

lemma map_of_json_clone: "map_of (json_clone m) k = map_option json_val (map_of m k)"
  by (induction m) (auto simp: json_clone_def)

lemma obj_wf_json_clone [simp]: "obj_wf (json_clone m) = obj_wf m"
  by (simp add: obj_wf_def)

end
