(* ===== verification/Annotations.thy ===== *)
theory Annotations
  imports Task_Facts Json_Clone
begin

section \<open>Annotations: drafts, submission and the workspace\<close>

text \<open>
  \<open>internal/annotations\<close>: model, service and the in-memory repository. A repository holds one
  annotation per task and the task context it was seeded with. The service composes it with a
  task service, given here by its two operations \<open>get\<close> and \<open>move\<close> on a state of its own
  (\<open>tasks.Service\<close> in the server); both collaborators may be missing, which the code checks.
\<close>

definition ann_StateDraft :: string where
  "ann_StateDraft = ''draft''"

definition ann_StateSubmitted :: string where
  "ann_StateSubmitted = ''submitted''"

lemma ann_state_distinct [simp]:
  "ann_StateDraft \<noteq> ann_StateSubmitted" "ann_StateSubmitted \<noteq> ann_StateDraft"
  by (simp_all add: ann_StateDraft_def ann_StateSubmitted_def)

record ann_Annotation =
  an_ID :: int
  an_TaskID :: int
  an_SnapshotID :: int
  an_AssetObjectKey :: string
  an_FrameIndex :: "int option"
  an_OntologyVersion :: string
  an_State :: string
  an_Revision :: int
  an_Body :: obj
  an_SubmittedBy :: string
  an_SubmittedAt :: "time option"
  an_CreatedAt :: time
  an_UpdatedAt :: time

record ann_Asset =
  as_DatasetID :: int
  as_DatasetName :: string
  as_SnapshotID :: "int option"
  as_SnapshotVersion :: string
  as_ObjectKey :: string
  as_FrameIndex :: "int option"

record ann_Workspace =
  ws_Task :: tasks_Task
  ws_Asset :: ann_Asset
  ws_Draft :: ann_Annotation

record ann_SaveDraftInput =
  sd_TaskID :: int
  sd_Actor :: string
  sd_SnapshotID :: int
  sd_AssetObjectKey :: string
  sd_FrameIndex :: "int option"
  sd_OntologyVersion :: string
  sd_BaseRevision :: int
  sd_Body :: obj

record ann_WorkspaceDraftInput =
  wd_Actor :: string
  wd_BaseRevision :: int
  wd_Body :: obj

record ann_TaskContext =
  tc_SnapshotID :: int
  tc_AssetObjectKey :: string
  tc_FrameIndex :: "int option"
  tc_OntologyVersion :: string

record ann_Repo =
  ar_nextID :: int
  ar_byTaskID :: "int \<rightharpoonup> ann_Annotation"
  ar_taskContext :: "int \<rightharpoonup> ann_TaskContext"

datatype ann_kind = AnnErrNotFound | AnnErrConflict | AnnErrValidation

datatype ann_error =
    AnnTaskIDNotPositive
  | AnnSnapshotIDNotPositive
  | AnnAssetObjectKeyRequired
  | AnnFrameIndexNegative
  | AnnBaseRevisionNegative
  | AnnContextNotFound int
  | AnnContextMismatch int
  | AnnRevisionMismatch int int int
  | AnnAlreadySubmitted int
  | AnnNotFound int
  | AnnRepositoryRequired
  | AnnTaskServiceRequired
  | AnnNotAnnotationTask int
  | AnnMissingAssetKey int
  | AnnMissingSnapshot int
  | AnnTaskError tasks_error

fun ann_error_kind :: "ann_error \<Rightarrow> ann_kind option" where
  "ann_error_kind (AnnContextNotFound _) = Some AnnErrNotFound"
| "ann_error_kind (AnnNotFound _) = Some AnnErrNotFound"
| "ann_error_kind (AnnRevisionMismatch _ _ _) = Some AnnErrConflict"
| "ann_error_kind (AnnAlreadySubmitted _) = Some AnnErrConflict"
| "ann_error_kind AnnRepositoryRequired = None"
| "ann_error_kind AnnTaskServiceRequired = None"
| "ann_error_kind (AnnTaskError _) = None"
| "ann_error_kind _ = Some AnnErrValidation"

text \<open>
  \<open>isNotFoundError\<close>: the kind, or the words \<open>not found\<close> in the text, which among the task
  errors only \<open>TaskNotFound\<close> has. (\<open>pgx.ErrNoRows\<close> comes from PostgreSQL only.)
\<close>

fun ann_isNotFoundError :: "ann_error \<Rightarrow> bool" where
  "ann_isNotFoundError (AnnTaskError (TaskNotFound _)) = True"
| "ann_isNotFoundError e = (ann_error_kind e = Some AnnErrNotFound)"

subsection \<open>The in-memory repository\<close>

definition ann_NewInMemoryRepository :: ann_Repo where
  "ann_NewInMemoryRepository = \<lparr>ar_nextID = 1, ar_byTaskID = Map.empty, ar_taskContext = Map.empty\<rparr>"

definition ann_cloneAnnotation :: "ann_Annotation \<Rightarrow> ann_Annotation" where
  "ann_cloneAnnotation a = a\<lparr>an_Body := json_clone (an_Body a)\<rparr>"

definition ann_SeedTaskContext ::
  "int \<Rightarrow> int \<Rightarrow> string \<Rightarrow> int option \<Rightarrow> string \<Rightarrow> ann_Repo \<Rightarrow> ann_Repo" where
  "ann_SeedTaskContext tid snapshotID assetKey frameIndex version r =
     r\<lparr>ar_taskContext := (ar_taskContext r)(tid \<mapsto>
        \<lparr>tc_SnapshotID = snapshotID, tc_AssetObjectKey = assetKey, tc_FrameIndex = frameIndex,
         tc_OntologyVersion = version\<rparr>)\<rparr>"

definition ann_sameContextInMemory :: "ann_Annotation \<Rightarrow> ann_SaveDraftInput \<Rightarrow> bool" where
  "ann_sameContextInMemory a inp \<longleftrightarrow>
     an_SnapshotID a = sd_SnapshotID inp \<and> an_AssetObjectKey a = sd_AssetObjectKey inp \<and>
     an_OntologyVersion a = sd_OntologyVersion inp \<and> an_FrameIndex a = sd_FrameIndex inp"

definition ann_sameContextFromTaskContext :: "ann_TaskContext \<Rightarrow> ann_SaveDraftInput \<Rightarrow> bool" where
  "ann_sameContextFromTaskContext c inp \<longleftrightarrow>
     tc_SnapshotID c = sd_SnapshotID inp \<and> tc_AssetObjectKey c = sd_AssetObjectKey inp \<and>
     tc_OntologyVersion c = sd_OntologyVersion inp \<and> tc_FrameIndex c = sd_FrameIndex inp"

definition ann_repo_SaveDraft ::
  "time \<Rightarrow> ann_SaveDraftInput \<Rightarrow> ann_Repo \<Rightarrow> (ann_error, ann_Annotation, ann_Repo) outcome" where
  "ann_repo_SaveDraft now inp r =
     (let tid = sd_TaskID inp in
      case ar_taskContext r tid of
        None \<Rightarrow> (Inl (AnnContextNotFound tid), r)
      | Some c \<Rightarrow>
          let body = json_clone (sd_Body inp) in
          (case ar_byTaskID r tid of
             None \<Rightarrow>
               if \<not> ann_sameContextFromTaskContext c inp then (Inl (AnnContextMismatch tid), r)
               else
                 let created = \<lparr>an_ID = ar_nextID r, an_TaskID = tid, an_SnapshotID = sd_SnapshotID inp,
                       an_AssetObjectKey = sd_AssetObjectKey inp, an_FrameIndex = sd_FrameIndex inp,
                       an_OntologyVersion = sd_OntologyVersion inp, an_State = ann_StateDraft,
                       an_Revision = 1, an_Body = body, an_SubmittedBy = [], an_SubmittedAt = None,
                       an_CreatedAt = now, an_UpdatedAt = now\<rparr>
                 in (Inr (ann_cloneAnnotation created),
                     r\<lparr>ar_nextID := ar_nextID r + 1,
                       ar_byTaskID := (ar_byTaskID r)(tid \<mapsto> ann_cloneAnnotation created)\<rparr>)
           | Some existing \<Rightarrow>
               if 0 < sd_BaseRevision inp \<and> an_Revision existing \<noteq> sd_BaseRevision inp
               then (Inl (AnnRevisionMismatch tid (sd_BaseRevision inp) (an_Revision existing)), r)
               else if an_State existing = ann_StateSubmitted then (Inl (AnnAlreadySubmitted tid), r)
               else if \<not> ann_sameContextInMemory existing inp \<or> \<not> ann_sameContextFromTaskContext c inp
               then (Inl (AnnContextMismatch tid), r)
               else
                 let saved = existing\<lparr>an_State := ann_StateDraft, an_Revision := an_Revision existing + 1,
                       an_Body := body, an_SubmittedBy := [], an_SubmittedAt := None, an_UpdatedAt := now\<rparr>
                 in (Inr (ann_cloneAnnotation saved),
                     r\<lparr>ar_byTaskID := (ar_byTaskID r)(tid \<mapsto> ann_cloneAnnotation saved)\<rparr>)))"

definition ann_repo_Submit ::
  "time \<Rightarrow> int \<Rightarrow> string \<Rightarrow> ann_Repo \<Rightarrow> (ann_error, ann_Annotation, ann_Repo) outcome" where
  "ann_repo_Submit now tid actor r =
     (case ar_byTaskID r tid of
        None \<Rightarrow> (Inl (AnnNotFound tid), r)
      | Some existing \<Rightarrow>
          if an_State existing = ann_StateSubmitted then (Inr (ann_cloneAnnotation existing), r)
          else
            let submitted = existing\<lparr>an_State := ann_StateSubmitted, an_Revision := an_Revision existing + 1,
                  an_SubmittedBy := actor, an_SubmittedAt := Some now, an_UpdatedAt := now\<rparr>
            in (Inr (ann_cloneAnnotation submitted),
                r\<lparr>ar_byTaskID := (ar_byTaskID r)(tid \<mapsto> ann_cloneAnnotation submitted)\<rparr>))"

definition ann_repo_GetByTaskID :: "int \<Rightarrow> ann_Repo \<Rightarrow> ann_error + ann_Annotation" where
  "ann_repo_GetByTaskID tid r =
     (case ar_byTaskID r tid of None \<Rightarrow> Inl (AnnNotFound tid) | Some a \<Rightarrow> Inr (ann_cloneAnnotation a))"

subsection \<open>The service\<close>

text \<open>A missing repository is replaced by \<open>errRepository\<close>, whose every operation fails.\<close>

record 't ann_Service =
  asv_repo :: "ann_Repo option"
  asv_tasks :: "'t option"

definition ann_on_repo ::
  "(ann_Repo \<Rightarrow> (ann_error, 'a, ann_Repo) outcome) \<Rightarrow> 't ann_Service \<Rightarrow> (ann_error, 'a, 't ann_Service) outcome" where
  "ann_on_repo f s =
     (case asv_repo s of
        None \<Rightarrow> (Inl AnnRepositoryRequired, s)
      | Some r \<Rightarrow> (case f r of (res, r') \<Rightarrow> (res, s\<lparr>asv_repo := Some r'\<rparr>)))"

definition ann_normalizeActor :: "string \<Rightarrow> string" where
  "ann_normalizeActor actor = (let a = trim_space actor in if a = [] then ''system'' else a)"

definition ann_checkDraft :: "ann_SaveDraftInput \<Rightarrow> ann_error + ann_SaveDraftInput" where
  "ann_checkDraft inp =
     (let key = trim_space (sd_AssetObjectKey inp); version = trim_space (sd_OntologyVersion inp) in
      if sd_TaskID inp \<le> 0 then Inl AnnTaskIDNotPositive
      else if sd_SnapshotID inp \<le> 0 then Inl AnnSnapshotIDNotPositive
      else if key = [] then Inl AnnAssetObjectKeyRequired
      else if (case sd_FrameIndex inp of None \<Rightarrow> False | Some n \<Rightarrow> n < 0) then Inl AnnFrameIndexNegative
      else if sd_BaseRevision inp < 0 then Inl AnnBaseRevisionNegative
      else Inr (inp\<lparr>sd_Actor := ann_normalizeActor (sd_Actor inp), sd_AssetObjectKey := key,
                    sd_OntologyVersion := (if version = [] then ''v1'' else version)\<rparr>))"

definition ann_SaveDraft ::
  "clock \<Rightarrow> ann_SaveDraftInput \<Rightarrow> 't ann_Service \<Rightarrow> (ann_error, ann_Annotation, 't ann_Service) outcome" where
  "ann_SaveDraft clk inp s =
     (case ann_checkDraft inp of
        Inl e \<Rightarrow> (Inl e, s)
      | Inr inp' \<Rightarrow> ann_on_repo (ann_repo_SaveDraft (clk 0) inp') s)"

definition ann_Submit ::
  "clock \<Rightarrow> int \<Rightarrow> string \<Rightarrow> 't ann_Service \<Rightarrow> (ann_error, ann_Annotation, 't ann_Service) outcome" where
  "ann_Submit clk tid actor s =
     (if tid \<le> 0 then (Inl AnnTaskIDNotPositive, s)
      else ann_on_repo (ann_repo_Submit (clk 0) tid (ann_normalizeActor actor)) s)"

definition ann_GetByTaskID :: "int \<Rightarrow> 't ann_Service \<Rightarrow> ann_error + ann_Annotation" where
  "ann_GetByTaskID tid s =
     (if tid \<le> 0 then Inl AnnTaskIDNotPositive
      else case asv_repo s of
             None \<Rightarrow> Inl AnnRepositoryRequired
           | Some r \<Rightarrow> ann_repo_GetByTaskID tid r)"

type_synonym 't ann_get = "int \<Rightarrow> 't \<Rightarrow> tasks_error + tasks_Task"
type_synonym 't ann_move =
  "clock \<Rightarrow> int \<Rightarrow> tasks_TransitionTaskInput \<Rightarrow> 't \<Rightarrow> (tasks_error, tasks_Task, 't) outcome"

definition ann_getTask :: "'t ann_get \<Rightarrow> int \<Rightarrow> 't ann_Service \<Rightarrow> ann_error + tasks_Task" where
  "ann_getTask get tid s =
     (if tid \<le> 0 then Inl AnnTaskIDNotPositive
      else case asv_tasks s of
             None \<Rightarrow> Inl AnnTaskServiceRequired
           | Some t \<Rightarrow> (case get tid t of Inl e \<Rightarrow> Inl (AnnTaskError e) | Inr task \<Rightarrow> Inr task))"

definition ann_validateWorkspaceTask :: "tasks_Task \<Rightarrow> ann_error + unit" where
  "ann_validateWorkspaceTask task =
     (if task_Kind task \<noteq> tasks_KindAnnotation then Inl (AnnNotAnnotationTask (task_ID task))
      else if trim_space (task_AssetObjectKey task) = [] then Inl (AnnMissingAssetKey (task_ID task))
      else Inr ())"

definition ann_ensureSnapshotContext :: "tasks_Task \<Rightarrow> ann_error + int" where
  "ann_ensureSnapshotContext task =
     (case task_SnapshotID task of
        None \<Rightarrow> Inl (AnnMissingSnapshot (task_ID task))
      | Some n \<Rightarrow> if n \<le> 0 then Inl (AnnMissingSnapshot (task_ID task)) else Inr n)"

definition ann_workspaceOntologyVersion :: "tasks_Task \<Rightarrow> string" where
  "ann_workspaceOntologyVersion task =
     (let version = trim_space (task_OntologyVersion task) in if version = [] then ''v1'' else version)"

definition ann_syntheticDraft :: "tasks_Task \<Rightarrow> ann_Annotation" where
  "ann_syntheticDraft task =
     (let now = (if task_UpdatedAt task = zero_time then task_CreatedAt task else task_UpdatedAt task) in
      \<lparr>an_ID = 0, an_TaskID = task_ID task,
       an_SnapshotID = (case task_SnapshotID task of None \<Rightarrow> 0 | Some n \<Rightarrow> n),
       an_AssetObjectKey = task_AssetObjectKey task, an_FrameIndex = task_FrameIndex task,
       an_OntologyVersion = ann_workspaceOntologyVersion task, an_State = ann_StateDraft,
       an_Revision = 0, an_Body = [], an_SubmittedBy = [], an_SubmittedAt = None,
       an_CreatedAt = now, an_UpdatedAt = now\<rparr>)"

definition ann_buildWorkspace :: "tasks_Task \<Rightarrow> ann_Annotation \<Rightarrow> ann_Workspace" where
  "ann_buildWorkspace task a =
     \<lparr>ws_Task = task,
      ws_Asset = \<lparr>as_DatasetID = task_DatasetID task, as_DatasetName = task_DatasetName task,
        as_SnapshotID = task_SnapshotID task, as_SnapshotVersion = task_SnapshotVersion task,
        as_ObjectKey = task_AssetObjectKey task, as_FrameIndex = task_FrameIndex task\<rparr>,
      ws_Draft = a\<rparr>"

text \<open>The beginning that the three workspace calls share: the task, checked.\<close>

definition ann_workspaceTask :: "'t ann_get \<Rightarrow> int \<Rightarrow> 't ann_Service \<Rightarrow> ann_error + tasks_Task" where
  "ann_workspaceTask get tid s =
     (case ann_getTask get tid s of
        Inl e \<Rightarrow> Inl e
      | Inr task \<Rightarrow> (case ann_validateWorkspaceTask task of Inl e \<Rightarrow> Inl e | Inr _ \<Rightarrow> Inr task))"

definition ann_GetWorkspace :: "'t ann_get \<Rightarrow> int \<Rightarrow> 't ann_Service \<Rightarrow> ann_error + ann_Workspace" where
  "ann_GetWorkspace get tid s =
     (case ann_workspaceTask get tid s of
        Inl e \<Rightarrow> Inl e
      | Inr task \<Rightarrow>
          (case (case asv_repo s of None \<Rightarrow> Inl AnnRepositoryRequired | Some r \<Rightarrow> ann_repo_GetByTaskID tid r) of
             Inl e \<Rightarrow> if ann_isNotFoundError e
                       then Inr (ann_buildWorkspace task (ann_syntheticDraft task)) else Inl e
           | Inr a \<Rightarrow> Inr (ann_buildWorkspace task a)))"

definition ann_SaveWorkspaceDraft ::
  "'t ann_get \<Rightarrow> clock \<Rightarrow> int \<Rightarrow> ann_WorkspaceDraftInput \<Rightarrow> 't ann_Service \<Rightarrow>
     (ann_error, ann_Workspace, 't ann_Service) outcome" where
  "ann_SaveWorkspaceDraft get clk tid inp s =
     (case ann_workspaceTask get tid s of
        Inl e \<Rightarrow> (Inl e, s)
      | Inr task \<Rightarrow>
          (case ann_ensureSnapshotContext task of
             Inl e \<Rightarrow> (Inl e, s)
           | Inr snapshotID \<Rightarrow>
               let s1 = s\<lparr>asv_repo := map_option (ann_SeedTaskContext (task_ID task) snapshotID
                            (task_AssetObjectKey task) (task_FrameIndex task)
                            (ann_workspaceOntologyVersion task)) (asv_repo s)\<rparr>
               in and_then (ann_SaveDraft clk
                    \<lparr>sd_TaskID = task_ID task, sd_Actor = wd_Actor inp, sd_SnapshotID = snapshotID,
                     sd_AssetObjectKey = task_AssetObjectKey task, sd_FrameIndex = task_FrameIndex task,
                     sd_OntologyVersion = ann_workspaceOntologyVersion task,
                     sd_BaseRevision = wd_BaseRevision inp, sd_Body = wd_Body inp\<rparr> s1)
                  (\<lambda>a s2. (Inr (ann_buildWorkspace task a), s2))))"

definition ann_SubmitWorkspace ::
  "'t ann_get \<Rightarrow> 't ann_move \<Rightarrow> clock \<Rightarrow> int \<Rightarrow> string \<Rightarrow> 't ann_Service \<Rightarrow>
     (ann_error, ann_Workspace, 't ann_Service) outcome" where
  "ann_SubmitWorkspace get move clk tid actor s =
     (case ann_workspaceTask get tid s of
        Inl e \<Rightarrow> (Inl e, s)
      | Inr task \<Rightarrow>
          and_then (ann_Submit clk tid actor s) (\<lambda>a s1.
            if task_Status task \<noteq> tasks_StatusSubmitted
            then (case asv_tasks s1 of
                    None \<Rightarrow> (Inl AnnTaskServiceRequired, s1)
                  | Some t \<Rightarrow>
                      (case move (clock_drop 1 clk) tid \<lparr>tt_Status = tasks_StatusSubmitted,
                              tt_BlockerReason = [], tt_LastActivityAt = zero_time\<rparr> t of
                         (Inl e, t') \<Rightarrow> (Inl (AnnTaskError e), s1\<lparr>asv_tasks := Some t'\<rparr>)
                       | (Inr task', t') \<Rightarrow> (Inr (ann_buildWorkspace task' a), s1\<lparr>asv_tasks := Some t'\<rparr>)))
            else (Inr (ann_buildWorkspace task a), s1)))"

end
