(* ===== verification/Annotation_Facts.thy ===== *)
theory Annotation_Facts
  imports Annotations
begin

section \<open>Annotations: what the workspace guarantees\<close>

text \<open>
  The repository against its invariant and its order of evolution (revisions grow, a submitted
  annotation is frozen), the workspace calls over any task service that meets
  \<open>task_provider\<close>, and histories that interleave them with the calls of the task service.
\<close>

subsection \<open>The repository operations by cases\<close>

definition ann_first_draft :: "time \<Rightarrow> ann_SaveDraftInput \<Rightarrow> int \<Rightarrow> ann_Annotation" where
  "ann_first_draft now inp n =
     \<lparr>an_ID = n, an_TaskID = sd_TaskID inp, an_SnapshotID = sd_SnapshotID inp,
      an_AssetObjectKey = sd_AssetObjectKey inp, an_FrameIndex = sd_FrameIndex inp,
      an_OntologyVersion = sd_OntologyVersion inp, an_State = ann_StateDraft, an_Revision = 1,
      an_Body = json_clone (sd_Body inp), an_SubmittedBy = [], an_SubmittedAt = None,
      an_CreatedAt = now, an_UpdatedAt = now\<rparr>"

definition ann_next_draft :: "time \<Rightarrow> ann_SaveDraftInput \<Rightarrow> ann_Annotation \<Rightarrow> ann_Annotation" where
  "ann_next_draft now inp a =
     a\<lparr>an_State := ann_StateDraft, an_Revision := an_Revision a + 1, an_Body := json_clone (sd_Body inp),
       an_SubmittedBy := [], an_SubmittedAt := None, an_UpdatedAt := now\<rparr>"

definition ann_submitted :: "time \<Rightarrow> string \<Rightarrow> ann_Annotation \<Rightarrow> ann_Annotation" where
  "ann_submitted now actor a =
     a\<lparr>an_State := ann_StateSubmitted, an_Revision := an_Revision a + 1, an_SubmittedBy := actor,
       an_SubmittedAt := Some now, an_UpdatedAt := now\<rparr>"

definition ann_ok :: "int \<Rightarrow> ann_Annotation \<Rightarrow> bool" where
  "ann_ok tid a \<longleftrightarrow>
     an_TaskID a = tid \<and> 1 \<le> an_ID a \<and> 1 \<le> an_Revision a \<and> json_clone (an_Body a) = an_Body a \<and>
     an_State a \<in> {ann_StateDraft, ann_StateSubmitted} \<and>
     (an_State a = ann_StateSubmitted \<longleftrightarrow> an_SubmittedAt a \<noteq> None)"

lemma ann_clone_ok: "json_clone (an_Body a) = an_Body a \<Longrightarrow> ann_cloneAnnotation a = a"
  by (simp add: ann_cloneAnnotation_def)

lemma ann_clone_new [simp]:
  "ann_cloneAnnotation (ann_first_draft now inp n) = ann_first_draft now inp n"
  "ann_cloneAnnotation (ann_next_draft now inp a) = ann_next_draft now inp a"
  by (simp_all add: ann_cloneAnnotation_def ann_first_draft_def ann_next_draft_def)

definition ann_put :: "int \<Rightarrow> ann_Annotation \<Rightarrow> ann_Repo \<Rightarrow> ann_Repo" where
  "ann_put tid a r = r\<lparr>ar_byTaskID := (ar_byTaskID r)(tid \<mapsto> a)\<rparr>"

lemma ann_put_simps [simp]:
  "ar_byTaskID (ann_put tid a r) = (ar_byTaskID r)(tid \<mapsto> a)"
  "ar_taskContext (ann_put tid a r) = ar_taskContext r"
  "ar_nextID (ann_put tid a r) = ar_nextID r"
  by (simp_all add: ann_put_def)

text \<open>\<open>SaveDraft\<close> as one equation over what is stored.\<close>

lemma ann_repo_SaveDraft_eq:
  "ann_repo_SaveDraft now inp r =
     (case ar_taskContext r (sd_TaskID inp) of
        None \<Rightarrow> (Inl (AnnContextNotFound (sd_TaskID inp)), r)
      | Some c \<Rightarrow>
          (case ar_byTaskID r (sd_TaskID inp) of
             None \<Rightarrow>
               if \<not> ann_sameContextFromTaskContext c inp then (Inl (AnnContextMismatch (sd_TaskID inp)), r)
               else (Inr (ann_first_draft now inp (ar_nextID r)),
                     ann_put (sd_TaskID inp) (ann_first_draft now inp (ar_nextID r))
                       (r\<lparr>ar_nextID := ar_nextID r + 1\<rparr>))
           | Some a \<Rightarrow>
               if 0 < sd_BaseRevision inp \<and> an_Revision a \<noteq> sd_BaseRevision inp
               then (Inl (AnnRevisionMismatch (sd_TaskID inp) (sd_BaseRevision inp) (an_Revision a)), r)
               else if an_State a = ann_StateSubmitted then (Inl (AnnAlreadySubmitted (sd_TaskID inp)), r)
               else if \<not> ann_sameContextInMemory a inp \<or> \<not> ann_sameContextFromTaskContext c inp
               then (Inl (AnnContextMismatch (sd_TaskID inp)), r)
               else (Inr (ann_next_draft now inp a), ann_put (sd_TaskID inp) (ann_next_draft now inp a) r)))"
  unfolding ann_repo_SaveDraft_def Let_def ann_put_def ann_next_draft_def [symmetric]
    ann_first_draft_def [symmetric]
  by (simp split: option.split)

lemma ann_save_cases:
  obtains (refused) e where "ann_repo_SaveDraft now inp r = (Inl e, r)"
  | (first) c where "ar_taskContext r (sd_TaskID inp) = Some c" "ar_byTaskID r (sd_TaskID inp) = None"
      "ann_sameContextFromTaskContext c inp"
      "ann_repo_SaveDraft now inp r = (Inr (ann_first_draft now inp (ar_nextID r)),
         ann_put (sd_TaskID inp) (ann_first_draft now inp (ar_nextID r)) (r\<lparr>ar_nextID := ar_nextID r + 1\<rparr>))"
  | (again) c a where "ar_taskContext r (sd_TaskID inp) = Some c" "ar_byTaskID r (sd_TaskID inp) = Some a"
      "sd_BaseRevision inp \<le> 0 \<or> an_Revision a = sd_BaseRevision inp" "an_State a \<noteq> ann_StateSubmitted"
      "ann_sameContextInMemory a inp" "ann_sameContextFromTaskContext c inp"
      "ann_repo_SaveDraft now inp r =
         (Inr (ann_next_draft now inp a), ann_put (sd_TaskID inp) (ann_next_draft now inp a) r)"
proof (cases "ar_taskContext r (sd_TaskID inp)")
  case None
  then show ?thesis by (intro refused) (simp add: ann_repo_SaveDraft_eq)
next
  case c: (Some c)
  show ?thesis
  proof (cases "ar_byTaskID r (sd_TaskID inp)")
    case None
    show ?thesis
    proof (cases "ann_sameContextFromTaskContext c inp")
      case True
      with c None show ?thesis by (intro first) (simp_all add: ann_repo_SaveDraft_eq)
    next
      case False
      with c None show ?thesis by (intro refused) (simp add: ann_repo_SaveDraft_eq)
    qed
  next
    case (Some a)
    show ?thesis
    proof (cases "(0 < sd_BaseRevision inp \<and> an_Revision a \<noteq> sd_BaseRevision inp) \<or> an_State a = ann_StateSubmitted \<or>
        \<not> ann_sameContextInMemory a inp \<or> \<not> ann_sameContextFromTaskContext c inp")
      case True
      then have "\<exists>e. ann_repo_SaveDraft now inp r = (Inl e, r)"
        by (auto simp: ann_repo_SaveDraft_eq c Some)
      then show ?thesis using refused by blast
    next
      case False
      then have "ann_repo_SaveDraft now inp r =
         (Inr (ann_next_draft now inp a), ann_put (sd_TaskID inp) (ann_next_draft now inp a) r)"
        by (simp add: ann_repo_SaveDraft_eq c Some)
      with False show ?thesis by (intro again [OF c Some]) auto
    qed
  qed
qed

subsection \<open>Invariant and evolution\<close>

definition ann_context_of :: "ann_Annotation \<Rightarrow> ann_TaskContext" where
  "ann_context_of a = \<lparr>tc_SnapshotID = an_SnapshotID a, tc_AssetObjectKey = an_AssetObjectKey a,
     tc_FrameIndex = an_FrameIndex a, tc_OntologyVersion = an_OntologyVersion a\<rparr>"

definition ann_inv :: "ann_Repo \<Rightarrow> bool" where
  "ann_inv r \<longleftrightarrow>
     1 \<le> ar_nextID r \<and>
     (\<forall>tid a. ar_byTaskID r tid = Some a \<longrightarrow>
        ann_ok tid a \<and> an_ID a < ar_nextID r \<and> ar_taskContext r tid \<noteq> None) \<and>
     (\<forall>tid tid' a a'. ar_byTaskID r tid = Some a \<longrightarrow> ar_byTaskID r tid' = Some a' \<longrightarrow>
        an_ID a = an_ID a' \<longrightarrow> tid = tid')"

definition ann_evolves :: "ann_Annotation \<Rightarrow> ann_Annotation \<Rightarrow> bool" where
  "ann_evolves a b \<longleftrightarrow>
     an_ID b = an_ID a \<and> an_TaskID b = an_TaskID a \<and> ann_context_of b = ann_context_of a \<and>
     an_CreatedAt b = an_CreatedAt a \<and> an_Revision a \<le> an_Revision b \<and>
     (an_State a = ann_StateSubmitted \<longrightarrow> b = a) \<and> (an_Revision b = an_Revision a \<longrightarrow> b = a)"

definition ann_le :: "ann_Repo \<Rightarrow> ann_Repo \<Rightarrow> bool" where
  "ann_le r r' \<longleftrightarrow>
     (\<forall>tid a. ar_byTaskID r tid = Some a \<longrightarrow> (\<exists>b. ar_byTaskID r' tid = Some b \<and> ann_evolves a b))"

lemma ann_evolves_refl [simp]: "ann_evolves a a"
  by (simp add: ann_evolves_def)

lemma ann_evolves_trans: "ann_evolves a b \<Longrightarrow> ann_evolves b c \<Longrightarrow> ann_evolves a c"
  unfolding ann_evolves_def by (metis antisym order_trans)

lemma ann_le_refl [simp]: "ann_le r r"
  by (simp add: ann_le_def)

lemma ann_le_trans: "ann_le r s \<Longrightarrow> ann_le s t \<Longrightarrow> ann_le r t"
  unfolding ann_le_def by (meson ann_evolves_trans)

lemma ann_invD:
  assumes "ann_inv r" and "ar_byTaskID r tid = Some a"
  shows "ann_ok tid a" and "an_ID a < ar_nextID r" and "ar_taskContext r tid \<noteq> None"
  using assms unfolding ann_inv_def by blast+

lemma ann_inv_idD:
  "ann_inv r \<Longrightarrow> ar_byTaskID r tid = Some a \<Longrightarrow> ar_byTaskID r tid' = Some a' \<Longrightarrow> an_ID a = an_ID a' \<Longrightarrow> tid = tid'"
  unfolding ann_inv_def by blast

lemma ann_invI:
  assumes "1 \<le> ar_nextID r"
    and "\<And>tid a. ar_byTaskID r tid = Some a \<Longrightarrow>
       ann_ok tid a \<and> an_ID a < ar_nextID r \<and> ar_taskContext r tid \<noteq> None"
    and "\<And>tid tid' a a'. ar_byTaskID r tid = Some a \<Longrightarrow> ar_byTaskID r tid' = Some a' \<Longrightarrow>
        an_ID a = an_ID a' \<Longrightarrow> tid = tid'"
  shows "ann_inv r"
  unfolding ann_inv_def using assms by blast

lemma ann_submit_cases:
  assumes "ann_inv r"
  obtains (missing) "ar_byTaskID r tid = None" "ann_repo_Submit now tid actor r = (Inl (AnnNotFound tid), r)"
  | (repeated) a where "ar_byTaskID r tid = Some a" "an_State a = ann_StateSubmitted"
      "ann_repo_Submit now tid actor r = (Inr a, r)"
  | (submitted) a where "ar_byTaskID r tid = Some a" "an_State a \<noteq> ann_StateSubmitted"
      "ann_repo_Submit now tid actor r = (Inr (ann_submitted now actor a), ann_put tid (ann_submitted now actor a) r)"
proof (cases "ar_byTaskID r tid")
  case None
  then show ?thesis by (intro missing) (simp_all add: ann_repo_Submit_def)
next
  case (Some a)
  have a: "json_clone (an_Body a) = an_Body a" using ann_invD(1) [OF assms Some] by (simp add: ann_ok_def)
  then have b: "ann_cloneAnnotation (ann_submitted now actor a) = ann_submitted now actor a"
    by (intro ann_clone_ok) (simp add: ann_submitted_def)
  show ?thesis
  proof (cases "an_State a = ann_StateSubmitted")
    case True
    with Some a show ?thesis by (intro repeated) (simp_all add: ann_repo_Submit_def ann_clone_ok)
  next
    case False
    with Some b show ?thesis
      by (intro submitted) (simp_all add: ann_repo_Submit_def Let_def ann_put_def ann_submitted_def)
  qed
qed

text \<open>Replacing an annotation by one that is well-formed and carries the same ID.\<close>

lemma ann_put_inv:
  assumes inv: "ann_inv r" and a: "ar_byTaskID r tid = Some a" and b: "ann_ok tid b" "an_ID b = an_ID a"
  shows "ann_inv (ann_put tid b r)"
proof (rule ann_invI)
  show "1 \<le> ar_nextID (ann_put tid b r)" using inv by (simp add: ann_inv_def)
  show "ann_ok i c \<and> an_ID c < ar_nextID (ann_put tid b r) \<and> ar_taskContext (ann_put tid b r) i \<noteq> None"
    if "ar_byTaskID (ann_put tid b r) i = Some c" for i c
  proof (cases "i = tid")
    case True
    with that b ann_invD [OF inv a] show ?thesis by simp
  next
    case False
    with that ann_invD [OF inv, of i c] show ?thesis by simp
  qed
  show "i = j" if h: "ar_byTaskID (ann_put tid b r) i = Some c" "ar_byTaskID (ann_put tid b r) j = Some d" "an_ID c = an_ID d"
    for i j c d
  proof -
    have old: "\<exists>e0. ar_byTaskID r k = Some e0 \<and> an_ID e0 = an_ID e" if "ar_byTaskID (ann_put tid b r) k = Some e" for k e
      using that a b(2) by (cases "k = tid") auto
    obtain c0 d0 where "ar_byTaskID r i = Some c0" "an_ID c0 = an_ID c" "ar_byTaskID r j = Some d0" "an_ID d0 = an_ID d"
      using old [OF h(1)] old [OF h(2)] by blast
    then show ?thesis using ann_inv_idD [OF inv, of i c0 j d0] h(3) by simp
  qed
qed

lemma ann_put_le:
  "ar_byTaskID r tid = Some a \<Longrightarrow> ann_evolves a b \<Longrightarrow> ann_le r (ann_put tid b r)"
  by (simp add: ann_le_def)

lemma ann_first_inv:
  assumes inv: "ann_inv r" and none: "ar_byTaskID r tid = None" and ctx: "ar_taskContext r tid \<noteq> None"
    and b: "ann_ok tid b" "an_ID b = ar_nextID r"
  shows "ann_inv (ann_put tid b (r\<lparr>ar_nextID := ar_nextID r + 1\<rparr>))" (is "ann_inv ?r")
proof (rule ann_invI)
  show "1 \<le> ar_nextID ?r" using inv by (simp add: ann_inv_def)
  show "ann_ok i c \<and> an_ID c < ar_nextID ?r \<and> ar_taskContext ?r i \<noteq> None" if "ar_byTaskID ?r i = Some c" for i c
  proof (cases "i = tid")
    case True
    with that b ctx show ?thesis by simp
  next
    case False
    with that ann_invD [OF inv, of i c] show ?thesis by simp
  qed
  show "i = j" if "ar_byTaskID ?r i = Some c" "ar_byTaskID ?r j = Some d" "an_ID c = an_ID d" for i j c d
  proof -
    have old: "(k = tid \<and> an_ID e = ar_nextID r) \<or> (ar_byTaskID r k = Some e \<and> an_ID e < ar_nextID r)"
      if "ar_byTaskID ?r k = Some e" for k e
      using that b(2) ann_invD(2) [OF inv, of k e] by (cases "k = tid") auto
    from old [OF that(1)] old [OF that(2)] that(3) show ?thesis
      using ann_inv_idD [OF inv, of i c j d] by linarith
  qed
qed

lemma ann_repo_SaveDraft_inv: "ann_inv r \<Longrightarrow> ann_inv (snd (ann_repo_SaveDraft now inp r))"
proof -
  assume inv: "ann_inv r"
  show ?thesis
  proof (cases rule: ann_save_cases [of now inp r])
    case (first c)
    have "ann_ok (sd_TaskID inp) (ann_first_draft now inp (ar_nextID r))"
      using inv by (simp add: ann_ok_def ann_first_draft_def ann_inv_def)
    then show ?thesis using ann_first_inv [OF inv first(2)] first by (simp add: ann_first_draft_def)
  next
    case (again c a)
    have "ann_ok (sd_TaskID inp) (ann_next_draft now inp a)"
      using ann_invD(1) [OF inv again(2)] by (simp add: ann_ok_def ann_next_draft_def)
    then show ?thesis using ann_put_inv [OF inv again(2)] again(7) by (simp add: ann_next_draft_def)
  qed (use inv in simp)
qed

lemma ann_repo_SaveDraft_le: "ann_le r (snd (ann_repo_SaveDraft now inp r))"
proof (cases rule: ann_save_cases [of now inp r])
  case (first c)
  then show ?thesis by (auto simp: ann_le_def)
next
  case (again c a)
  have "ann_evolves a (ann_next_draft now inp a)"
    using again(4) by (simp add: ann_evolves_def ann_next_draft_def ann_context_of_def)
  then show ?thesis using ann_put_le again by simp
qed simp

lemma ann_repo_Submit_inv: "ann_inv r \<Longrightarrow> ann_inv (snd (ann_repo_Submit now tid actor r))"
proof -
  assume inv: "ann_inv r"
  then show ?thesis
  proof (cases rule: ann_submit_cases [where tid = tid and now = now and actor = actor])
    case (submitted a)
    have "ann_ok tid (ann_submitted now actor a)"
      using ann_invD(1) [OF inv submitted(1)] by (simp add: ann_ok_def ann_submitted_def)
    then show ?thesis using ann_put_inv [OF inv submitted(1)] submitted(3) by (simp add: ann_submitted_def)
  qed (use inv in simp_all)
qed

lemma ann_repo_Submit_le: "ann_inv r \<Longrightarrow> ann_le r (snd (ann_repo_Submit now tid actor r))"
proof -
  assume inv: "ann_inv r"
  then show ?thesis
  proof (cases rule: ann_submit_cases [where tid = tid and now = now and actor = actor])
    case (submitted a)
    have "ann_evolves a (ann_submitted now actor a)"
      using submitted(2) by (simp add: ann_evolves_def ann_submitted_def ann_context_of_def)
    then show ?thesis using ann_put_le submitted by simp
  qed simp_all
qed

lemma ann_Seed_simps [simp]:
  "ar_byTaskID (ann_SeedTaskContext tid sn k f v r) = ar_byTaskID r"
  "ar_nextID (ann_SeedTaskContext tid sn k f v r) = ar_nextID r"
  "ar_taskContext (ann_SeedTaskContext tid sn k f v r) = (ar_taskContext r)(tid \<mapsto>
     \<lparr>tc_SnapshotID = sn, tc_AssetObjectKey = k, tc_FrameIndex = f, tc_OntologyVersion = v\<rparr>)"
  by (simp_all add: ann_SeedTaskContext_def)

lemma ann_Seed_inv: "ann_inv r \<Longrightarrow> ann_inv (ann_SeedTaskContext tid sn k f v r)"
  by (rule ann_invI) (auto dest: ann_invD ann_inv_idD simp: ann_inv_def)

lemma ann_Seed_le: "ann_le r (ann_SeedTaskContext tid sn k f v r)"
  by (simp add: ann_le_def)

lemma ann_empty_inv: "ann_inv ann_NewInMemoryRepository"
  by (rule ann_invI) (simp_all add: ann_NewInMemoryRepository_def)

subsection \<open>Workspace calls over any task service\<close>

lemma tasks_target_submitted [simp]: "tasks_target k tasks_StatusSubmitted = tasks_StatusSubmitted"
proof -
  have v: "tasks_isValidStatus tasks_StatusSubmitted" by (simp add: tasks_isValidStatus_def)
  then show ?thesis using tasks_done_invalid
    by (auto simp: tasks_target_def tasks_norm_simps)
qed

definition ann_state :: "ann_Repo \<Rightarrow> 't \<Rightarrow> 't ann_Service" where
  "ann_state r t = \<lparr>asv_repo = Some r, asv_tasks = Some t\<rparr>"

lemma ann_state_simps [simp]:
  "asv_repo (ann_state r t) = Some r" "asv_tasks (ann_state r t) = Some t"
  "(ann_state r t)\<lparr>asv_repo := Some r'\<rparr> = ann_state r' t"
  "(ann_state r t)\<lparr>asv_tasks := Some t'\<rparr> = ann_state r t'"
  by (simp_all add: ann_state_def)

lemma ann_on_repo_state [simp]:
  "ann_on_repo f (ann_state r t) = (fst (f r), ann_state (snd (f r)) t)"
  by (simp add: ann_on_repo_def split: prod.split)

lemma ann_workspaceTask_state:
  "1 \<le> tid \<Longrightarrow> get tid t = Inr task \<Longrightarrow> task_Kind task = tasks_KindAnnotation \<Longrightarrow>
     trim_space (task_AssetObjectKey task) \<noteq> [] \<Longrightarrow> ann_workspaceTask get tid (ann_state r t) = Inr task"
  by (simp add: ann_workspaceTask_def ann_getTask_def ann_validateWorkspaceTask_def)

lemma ann_workspaceTask_Inr:
  "ann_workspaceTask get tid (ann_state r t) = Inr task \<Longrightarrow>
     1 \<le> tid \<and> get tid t = Inr task \<and> task_Kind task = tasks_KindAnnotation"
  by (auto simp: ann_workspaceTask_def ann_getTask_def ann_validateWorkspaceTask_def
      split: if_splits sum.splits)

definition ann_submit_move :: tasks_TransitionTaskInput where
  "ann_submit_move = \<lparr>tt_Status = tasks_StatusSubmitted, tt_BlockerReason = [], tt_LastActivityAt = zero_time\<rparr>"

text \<open>\<open>SubmitWorkspace\<close> after the task has been found: first the annotation, then the task.\<close>

lemma ann_SubmitWorkspace_eq:
  assumes "ann_workspaceTask get tid (ann_state r t) = Inr task"
  shows "ann_SubmitWorkspace get move clk tid actor (ann_state r t) =
     (case ann_repo_Submit (clk 0) tid (ann_normalizeActor actor) r of
        (Inl e, r') \<Rightarrow> (Inl e, ann_state r' t)
      | (Inr a, r') \<Rightarrow>
          if task_Status task = tasks_StatusSubmitted then (Inr (ann_buildWorkspace task a), ann_state r' t)
          else (case move (clock_drop 1 clk) tid ann_submit_move t of
                  (Inl e, t') \<Rightarrow> (Inl (AnnTaskError e), ann_state r' t')
                | (Inr task', t') \<Rightarrow> (Inr (ann_buildWorkspace task' a), ann_state r' t')))"
proof -
  have "\<not> tid \<le> 0" using ann_workspaceTask_Inr [OF assms] by simp
  then show ?thesis using assms
    by (cases "ann_repo_Submit (clk 0) tid (ann_normalizeActor actor) r")
      (auto simp: ann_SubmitWorkspace_def ann_Submit_def ann_submit_move_def and_then_def split: sum.splits prod.splits)
qed

context task_provider
begin

lemma move_submitted:
  assumes "ok t" and "move clk tid ann_submit_move t = (Inr task', t')"
  shows "task_Status task' = tasks_StatusSubmitted" and "get tid t' = Inr task'"
    and "\<exists>a. get tid t = Inr a \<and> tasks_isAllowedTransition (task_Status a) tasks_StatusSubmitted"
  using move_edge [OF assms] move_get [OF assms] by (auto simp: ann_submit_move_def)

lemma submit_workspace_done:
  assumes ok: "ok t" and inv: "ann_inv r"
    and run: "ann_SubmitWorkspace get move clk tid actor (ann_state r t) = (Inr ws, s')"
  shows "\<exists>r' t'. s' = ann_state r' t' \<and> get tid t' = Inr (ws_Task ws) \<and>
           task_Status (ws_Task ws) = tasks_StatusSubmitted \<and>
           ar_byTaskID r' tid = Some (ws_Draft ws) \<and> an_State (ws_Draft ws) = ann_StateSubmitted"
proof -
  obtain task where task: "ann_workspaceTask get tid (ann_state r t) = Inr task"
    using run by (cases "ann_workspaceTask get tid (ann_state r t)") (auto simp: ann_SubmitWorkspace_def)
  note get = ann_workspaceTask_Inr [OF task] and eq = ann_SubmitWorkspace_eq [OF task, of move clk actor]
  obtain res r' where sub: "ann_repo_Submit (clk 0) tid (ann_normalizeActor actor) r = (res, r')" by force
  with run eq obtain a where res: "res = Inr a" by (cases res) auto
  have a: "ar_byTaskID r' tid = Some a \<and> an_State a = ann_StateSubmitted"
    using inv
    by (cases rule: ann_submit_cases [where tid = tid and now = "clk 0" and actor = "ann_normalizeActor actor"])
      (use sub res in \<open>auto simp: ann_submitted_def\<close>)
  show ?thesis
  proof (cases "task_Status task = tasks_StatusSubmitted")
    case True
    with run eq sub res have "ws = ann_buildWorkspace task a" "s' = ann_state r' t" by simp_all
    with a get True show ?thesis by (auto simp: ann_buildWorkspace_def)
  next
    case False
    obtain res2 t' where mv: "move (clock_drop 1 clk) tid ann_submit_move t = (res2, t')" by force
    with run eq sub res False obtain task' where "res2 = Inr task'" "ws = ann_buildWorkspace task' a" "s' = ann_state r' t'"
      by (cases res2) auto
    with a move_submitted [OF ok, of "clock_drop 1 clk" tid task' t'] mv show ?thesis
      by (auto simp: ann_buildWorkspace_def)
  qed
qed

lemma submit_workspace_stranded:
  assumes ok: "ok t" and inv: "ann_inv r" and pos: "1 \<le> tid" and get: "get tid t = Inr task"
    and kind: "task_Kind task = tasks_KindAnnotation"
    and st: "task_Status task \<noteq> tasks_StatusSubmitted" "\<not> tasks_isAllowedTransition (task_Status task) tasks_StatusSubmitted"
    and draft: "ar_byTaskID r tid = Some a" "an_State a \<noteq> ann_StateSubmitted"
  shows "\<exists>e. ann_SubmitWorkspace get move clk tid actor (ann_state r t) =
       (Inl (AnnTaskError e), ann_state (ann_put tid (ann_submitted (clk 0) (ann_normalizeActor actor) a) r) t)"
proof -
  have "tasks_task_ok task" using get_ok [OF ok get] by simp
  then have key: "trim_space (task_AssetObjectKey task) \<noteq> []" using kind by (simp add: tasks_task_ok_def)
  note eq = ann_SubmitWorkspace_eq [OF ann_workspaceTask_state [where get = get, OF pos get kind key], where r = r and move = move and clk = clk and actor = actor]
  from inv have sub: "ann_repo_Submit (clk 0) tid (ann_normalizeActor actor) r =
     (Inr (ann_submitted (clk 0) (ann_normalizeActor actor) a),
      ann_put tid (ann_submitted (clk 0) (ann_normalizeActor actor) a) r)"
    by (cases rule: ann_submit_cases [where tid = tid and now = "clk 0" and actor = "ann_normalizeActor actor"])
      (use draft in auto)
  obtain res t' where mv: "move (clock_drop 1 clk) tid ann_submit_move t = (res, t')" by force
  obtain e where e: "res = Inl e"
    using move_submitted(3) [OF ok, of "clock_drop 1 clk" tid _ t'] mv get st(2) by (cases res) auto
  then have "t' = t" using move_refused [OF ok] mv by blast
  then show ?thesis unfolding eq sub using mv e st(1) by simp
qed

end

text \<open>Once an annotation is submitted no workspace draft is accepted any more.\<close>

lemma ann_SaveDraft_frozen:
  assumes "ar_byTaskID r (sd_TaskID inp) = Some a" and "an_State a = ann_StateSubmitted"
  shows "\<exists>e. ann_SaveDraft clk inp (ann_state r t) = (Inl e, ann_state r t)"
proof (cases "ann_checkDraft inp")
  case (Inl e)
  then show ?thesis by (simp add: ann_SaveDraft_def)
next
  case (Inr inp')
  then have "sd_TaskID inp' = sd_TaskID inp" by (auto simp: ann_checkDraft_def Let_def split: if_splits)
  with Inr assms show ?thesis
    by (auto simp: ann_SaveDraft_def ann_repo_SaveDraft_eq split: option.split)
qed

definition ann_ws_seed :: "int \<Rightarrow> int \<Rightarrow> tasks_Task \<Rightarrow> ann_Repo \<Rightarrow> ann_Repo" where
  "ann_ws_seed tid n task r = ann_SeedTaskContext tid n (task_AssetObjectKey task) (task_FrameIndex task)
     (ann_workspaceOntologyVersion task) r"

definition ann_ws_input :: "int \<Rightarrow> int \<Rightarrow> tasks_Task \<Rightarrow> ann_WorkspaceDraftInput \<Rightarrow> ann_SaveDraftInput" where
  "ann_ws_input tid n task inp =
     \<lparr>sd_TaskID = tid, sd_Actor = wd_Actor inp, sd_SnapshotID = n,
      sd_AssetObjectKey = task_AssetObjectKey task, sd_FrameIndex = task_FrameIndex task,
      sd_OntologyVersion = ann_workspaceOntologyVersion task,
      sd_BaseRevision = wd_BaseRevision inp, sd_Body = wd_Body inp\<rparr>"

lemma ann_SaveWorkspaceDraft_eq:
  assumes "ann_workspaceTask get tid (ann_state r t) = Inr task" and "task_ID task = tid"
    and "ann_ensureSnapshotContext task = Inr n"
  shows "ann_SaveWorkspaceDraft get clk tid inp (ann_state r t) =
     and_then (ann_SaveDraft clk (ann_ws_input tid n task inp) (ann_state (ann_ws_seed tid n task r) t))
       (\<lambda>a s2. (Inr (ann_buildWorkspace task a), s2))"
  using assms by (simp add: ann_SaveWorkspaceDraft_def ann_ws_seed_def ann_ws_input_def)

lemma ann_ws_seed_simps [simp]:
  "ar_byTaskID (ann_ws_seed tid n task r) = ar_byTaskID r"
  "ar_nextID (ann_ws_seed tid n task r) = ar_nextID r"
  by (simp_all add: ann_ws_seed_def)

lemma ann_SaveWorkspaceDraft_frozen:
  assumes "\<And>task. get tid t = Inr task \<Longrightarrow> task_ID task = tid"
    and "ar_byTaskID r tid = Some a" and "an_State a = ann_StateSubmitted"
  shows "\<exists>e r'. ann_SaveWorkspaceDraft get clk tid inp (ann_state r t) = (Inl e, ann_state r' t) \<and>
           ar_byTaskID r' = ar_byTaskID r"
proof (cases "ann_workspaceTask get tid (ann_state r t)")
  case (Inl e)
  then show ?thesis by (auto simp: ann_SaveWorkspaceDraft_def)
next
  case task: (Inr task)
  show ?thesis
  proof (cases "ann_ensureSnapshotContext task")
    case (Inl e)
    with task show ?thesis by (auto simp: ann_SaveWorkspaceDraft_def)
  next
    case (Inr n)
    have id: "task_ID task = tid" using assms(1) ann_workspaceTask_Inr [OF task] by blast
    have "ar_byTaskID (ann_ws_seed tid n task r) (sd_TaskID (ann_ws_input tid n task inp)) = Some a"
      using assms(2) by (simp add: ann_ws_input_def)
    from ann_SaveDraft_frozen [OF this assms(3), of clk t] obtain e where
      "ann_SaveDraft clk (ann_ws_input tid n task inp) (ann_state (ann_ws_seed tid n task r) t) =
         (Inl e, ann_state (ann_ws_seed tid n task r) t)" by blast
    then have "ann_SaveWorkspaceDraft get clk tid inp (ann_state r t) = (Inl e, ann_state (ann_ws_seed tid n task r) t)"
      unfolding ann_SaveWorkspaceDraft_eq [OF task id Inr] by simp
    then show ?thesis by auto
  qed
qed

end
