(* ===== verification/Workspace_Props.thy ===== *)
theory Workspace_Props
  imports Annotation_Facts
begin

section \<open>Annotations and tasks together\<close>

text \<open>
  Histories in which annotation calls and task calls alternate in any order, over one store of
  each. The link between the two stores (the context an annotation was made in is the context
  of its task) is an invariant because tasks never change their identity.
\<close>

subsection \<open>The link\<close>

definition ann_task_context :: "tasks_Task \<Rightarrow> ann_TaskContext option" where
  "ann_task_context task =
     map_option (\<lambda>n. \<lparr>tc_SnapshotID = n, tc_AssetObjectKey = task_AssetObjectKey task,
        tc_FrameIndex = task_FrameIndex task, tc_OntologyVersion = ann_workspaceOntologyVersion task\<rparr>)
       (task_SnapshotID task)"

definition ann_linked :: "ann_Repo \<Rightarrow> tasks_Repo \<Rightarrow> bool" where
  "ann_linked r t \<longleftrightarrow>
     (\<forall>tid c. ar_taskContext r tid = Some c \<longrightarrow>
        (\<exists>task. tr_byID t tid = Some task \<and> ann_task_context task = Some c)) \<and>
     (\<forall>tid a. ar_byTaskID r tid = Some a \<longrightarrow> ar_taskContext r tid = Some (ann_context_of a))"

lemma ann_linkedD:
  assumes "ann_linked r t"
  shows "ar_taskContext r tid = Some c \<Longrightarrow> \<exists>task. tr_byID t tid = Some task \<and> ann_task_context task = Some c"
    and "ar_byTaskID r tid = Some a \<Longrightarrow> ar_taskContext r tid = Some (ann_context_of a)"
  using assms unfolding ann_linked_def by blast+

lemma ann_same_context: "tasks_same a b \<Longrightarrow> ann_task_context b = ann_task_context a"
  by (simp add: tasks_same_def ann_task_context_def ann_workspaceOntologyVersion_def)

lemma ann_linked_tasks:
  assumes link: "ann_linked r t" and le: "tasks_le t t'"
  shows "ann_linked r t'"
proof -
  have "\<exists>task. tr_byID t' i = Some task \<and> ann_task_context task = Some c" if c: "ar_taskContext r i = Some c" for i c
  proof -
    obtain a where a: "tr_byID t i = Some a" "ann_task_context a = Some c" using ann_linkedD(1) [OF link c] by blast
    obtain b where "tr_byID t' i = Some b" "tasks_same a b" using le a(1) unfolding tasks_le_def by blast
    with a(2) show ?thesis using ann_same_context by metis
  qed
  then show ?thesis using ann_linkedD(2) [OF link] unfolding ann_linked_def by blast
qed

lemma ann_linked_put:
  assumes link: "ann_linked r t" and c: "ar_taskContext r tid = Some (ann_context_of b)"
  shows "ann_linked (ann_put tid b r) t"
    and "ann_linked (ann_put tid b (r\<lparr>ar_nextID := n\<rparr>)) t"
proof -
  have one: "\<exists>task. tr_byID t i = Some task \<and> ann_task_context task = Some d" if "ar_taskContext r i = Some d" for i d
    using ann_linkedD(1) [OF link that] .
  have two: "ar_taskContext r i = Some (ann_context_of a)" if "((ar_byTaskID r)(tid \<mapsto> b)) i = Some a" for i a
    using that c ann_linkedD(2) [OF link, of i a] by (cases "i = tid") auto
  show "ann_linked (ann_put tid b r) t" "ann_linked (ann_put tid b (r\<lparr>ar_nextID := n\<rparr>)) t"
    by (simp_all add: ann_linked_def one two del: fun_upd_apply)
qed

lemma ann_context_simps [simp]:
  "ann_context_of (ann_next_draft now inp a) = ann_context_of a"
  "ann_context_of (ann_submitted now actor a) = ann_context_of a"
  by (simp_all add: ann_context_of_def ann_next_draft_def ann_submitted_def)

lemma ann_context_first:
  "ann_sameContextFromTaskContext c inp \<Longrightarrow> ann_context_of (ann_first_draft now inp n) = c"
  by (simp add: ann_sameContextFromTaskContext_def ann_context_of_def ann_first_draft_def)

lemma ann_linked_save: "ann_linked r t \<Longrightarrow> ann_linked (snd (ann_repo_SaveDraft now inp r)) t"
proof (cases rule: ann_save_cases [of now inp r])
  case (first c)
  assume link: "ann_linked r t"
  have "ar_taskContext r (sd_TaskID inp) = Some (ann_context_of (ann_first_draft now inp (ar_nextID r)))"
    using first(1,3) by (simp add: ann_context_first)
  from ann_linked_put(2) [OF link this] first(4) show ?thesis by simp
next
  case (again c a)
  assume link: "ann_linked r t"
  have "ar_taskContext r (sd_TaskID inp) = Some (ann_context_of (ann_next_draft now inp a))"
    using ann_linkedD(2) [OF link again(2)] by simp
  from ann_linked_put(1) [OF link this] again(7) show ?thesis by simp
qed simp

lemma ann_linked_submit:
  assumes inv: "ann_inv r" and link: "ann_linked r t"
  shows "ann_linked (snd (ann_repo_Submit now tid actor r)) t"
  using inv
proof (cases rule: ann_submit_cases [where tid = tid and now = now and actor = actor])
  case (submitted a)
  have "ar_taskContext r tid = Some (ann_context_of (ann_submitted now actor a))"
    using ann_linkedD(2) [OF link submitted(1)] by simp
  from ann_linked_put(1) [OF link this] submitted(3) show ?thesis by simp
qed (use link in simp_all)

lemma ann_linked_seed:
  assumes link: "ann_linked r t" and task: "tr_byID t tid = Some task" "task_SnapshotID task = Some n"
  shows "ann_linked (ann_ws_seed tid n task r) t"
proof -
  let ?c = "\<lparr>tc_SnapshotID = n, tc_AssetObjectKey = task_AssetObjectKey task,
      tc_FrameIndex = task_FrameIndex task, tc_OntologyVersion = ann_workspaceOntologyVersion task\<rparr>"
  have c: "ann_task_context task = Some ?c" by (simp add: ann_task_context_def task(2))
  have ctx: "ar_taskContext (ann_ws_seed tid n task r) = (ar_taskContext r)(tid \<mapsto> ?c)"
    by (simp add: ann_ws_seed_def)
  have "((ar_taskContext r)(tid \<mapsto> ?c)) i = Some (ann_context_of a)" if h: "ar_byTaskID r i = Some a" for i a
  proof (cases "i = tid")
    case True
    obtain task' where "tr_byID t i = Some task'" "ann_task_context task' = Some (ann_context_of a)"
      using ann_linkedD(1) [OF link ann_linkedD(2) [OF link h]] by blast
    with True task c show ?thesis by simp
  next
    case False
    then show ?thesis using ann_linkedD(2) [OF link h] by simp
  qed
  moreover have "\<exists>task'. tr_byID t i = Some task' \<and> ann_task_context task' = Some c'"
    if "((ar_taskContext r)(tid \<mapsto> ?c)) i = Some c'" for i c'
    using that task(1) c ann_linkedD(1) [OF link, of i c'] by (cases "i = tid") auto
  ultimately show ?thesis unfolding ann_linked_def ctx by simp
qed

subsection \<open>One step of the two stores\<close>

definition ann_step :: "ann_Repo \<Rightarrow> tasks_Repo \<Rightarrow> tasks_Repo ann_Service \<Rightarrow> bool" where
  "ann_step r t s' \<longleftrightarrow>
     (\<exists>r' t'. s' = ann_state r' t' \<and> ann_inv r' \<and> tasks_inv t' \<and> ann_linked r' t' \<and> ann_le r r' \<and> tasks_le t t')"

definition ann_good :: "ann_Repo \<Rightarrow> tasks_Repo \<Rightarrow> bool" where
  "ann_good r t \<longleftrightarrow> ann_inv r \<and> tasks_inv t \<and> ann_linked r t"

lemma ann_stepI:
  "ann_inv r' \<Longrightarrow> tasks_inv t' \<Longrightarrow> ann_linked r' t' \<Longrightarrow> ann_le r r' \<Longrightarrow> tasks_le t t' \<Longrightarrow> ann_step r t (ann_state r' t')"
  unfolding ann_step_def by blast

lemma ann_step_refl: "ann_good r t \<Longrightarrow> ann_step r t (ann_state r t)"
  by (simp add: ann_good_def ann_stepI)

lemma ann_SaveDraft_step:
  assumes good: "ann_good r t" and le: "ann_le r0 r"
  shows "ann_step r0 t (snd (ann_SaveDraft clk inp (ann_state r t)))"
proof (cases "ann_checkDraft inp")
  case (Inl e)
  then show ?thesis using good le by (simp add: ann_SaveDraft_def ann_good_def ann_stepI)
next
  case (Inr inp')
  have "ann_step r0 t (ann_state (snd (ann_repo_SaveDraft (clk 0) inp' r)) t)"
    by (rule ann_stepI)
      (use good ann_repo_SaveDraft_inv ann_linked_save ann_le_trans [OF le ann_repo_SaveDraft_le] in
        \<open>auto simp: ann_good_def\<close>)
  then show ?thesis using Inr by (simp add: ann_SaveDraft_def)
qed

lemma ann_Submit_step:
  assumes good: "ann_good r t"
  shows "ann_step r t (snd (ann_Submit clk tid actor (ann_state r t)))"
proof -
  have "ann_step r t (ann_state (snd (ann_repo_Submit now tid who r)) t)" for now who
    by (rule ann_stepI)
      (use good ann_repo_Submit_inv ann_linked_submit ann_repo_Submit_le in \<open>auto simp: ann_good_def\<close>)
  then show ?thesis using ann_step_refl [OF good] by (simp add: ann_Submit_def)
qed

lemma ann_workspace_found:
  assumes good: "ann_good r t" and task: "ann_workspaceTask tasks_GetTask tid (ann_state r t) = Inr task"
  shows "tr_byID t tid = Some task" and "task_ID task = tid"
    and "ann_ensureSnapshotContext task = Inr n \<Longrightarrow> task_SnapshotID task = Some n"
proof -
  have inv: "tasks_inv t" using good by (simp add: ann_good_def)
  show row: "tr_byID t tid = Some task"
    using ann_workspaceTask_Inr [OF task] tasks_GetTask_iff [OF inv] by blast
  show "task_ID task = tid" using tasks_invD [OF inv row] by blast
  show "ann_ensureSnapshotContext task = Inr n \<Longrightarrow> task_SnapshotID task = Some n"
    by (auto simp: ann_ensureSnapshotContext_def split: option.splits if_splits)
qed

lemma ann_SaveWorkspaceDraft_step:
  assumes good: "ann_good r t"
  shows "ann_step r t (snd (ann_SaveWorkspaceDraft tasks_GetTask clk tid inp (ann_state r t)))"
proof (cases "ann_workspaceTask tasks_GetTask tid (ann_state r t)")
  case (Inl e)
  then show ?thesis using ann_step_refl [OF good] by (simp add: ann_SaveWorkspaceDraft_def)
next
  case task: (Inr task)
  show ?thesis
  proof (cases "ann_ensureSnapshotContext task")
    case (Inl e)
    with task show ?thesis using ann_step_refl [OF good] by (simp add: ann_SaveWorkspaceDraft_def)
  next
    case (Inr n)
    note found = ann_workspace_found [OF good task]
    have "ann_good (ann_ws_seed tid n task r) t"
      using good ann_linked_seed [OF _ found(1) found(3) [OF Inr]]
      by (simp add: ann_good_def ann_ws_seed_def ann_Seed_inv)
    moreover have "ann_le r (ann_ws_seed tid n task r)" by (simp add: ann_ws_seed_def ann_Seed_le)
    ultimately have "ann_step r t (snd (ann_SaveDraft clk (ann_ws_input tid n task inp)
        (ann_state (ann_ws_seed tid n task r) t)))" by (rule ann_SaveDraft_step)
    then show ?thesis unfolding ann_SaveWorkspaceDraft_eq [OF task found(2) Inr]
      by (cases "ann_SaveDraft clk (ann_ws_input tid n task inp) (ann_state (ann_ws_seed tid n task r) t)")
        (auto simp: and_then_def split: sum.splits)
  qed
qed

lemma ann_SubmitWorkspace_step:
  assumes good: "ann_good r t"
  shows "ann_step r t (snd (ann_SubmitWorkspace tasks_GetTask tasks_TransitionTask clk tid actor (ann_state r t)))"
proof (cases "ann_workspaceTask tasks_GetTask tid (ann_state r t)")
  case (Inl e)
  then show ?thesis using ann_step_refl [OF good] by (simp add: ann_SubmitWorkspace_def)
next
  case task: (Inr task)
  obtain res r' where sub: "ann_repo_Submit (clk 0) tid (ann_normalizeActor actor) r = (res, r')" by force
  obtain res2 t' where mv: "tasks_TransitionTask (clock_drop 1 clk) tid ann_submit_move t = (res2, t')" by force
  have r': "ann_inv r'" "ann_linked r' t" "ann_le r r'"
    using good ann_repo_Submit_inv [of r "clk 0" tid "ann_normalizeActor actor"]
      ann_linked_submit [of r t "clk 0" tid "ann_normalizeActor actor"]
      ann_repo_Submit_le [of r "clk 0" tid "ann_normalizeActor actor"] sub by (auto simp: ann_good_def)
  have t': "tasks_inv t'" "tasks_le t t'"
    using good tasks_TransitionTask_inv [of t "clock_drop 1 clk" tid ann_submit_move]
      tasks_TransitionTask_le [of t "clock_drop 1 clk" tid ann_submit_move] mv by (auto simp: ann_good_def)
  have "ann_step r t (ann_state r' t)" "ann_step r t (ann_state r' t')"
    using r' t' good ann_linked_tasks by (auto simp: ann_good_def intro!: ann_stepI)
  then show ?thesis unfolding ann_SubmitWorkspace_eq [OF task] sub mv
    by (auto split: sum.splits)
qed

subsection \<open>Histories\<close>

datatype ann_call =
    CallSaveDraft clock ann_SaveDraftInput
  | CallSubmit clock int string
  | CallSaveWorkspaceDraft clock int ann_WorkspaceDraftInput
  | CallSubmitWorkspace clock int string
  | CallTask tasks_call

fun ann_serve :: "tasks_Repo ann_Service \<Rightarrow> ann_call \<Rightarrow> tasks_Repo ann_Service" where
  "ann_serve s (CallSaveDraft clk inp) = snd (ann_SaveDraft clk inp s)"
| "ann_serve s (CallSubmit clk tid actor) = snd (ann_Submit clk tid actor s)"
| "ann_serve s (CallSaveWorkspaceDraft clk tid inp) = snd (ann_SaveWorkspaceDraft tasks_GetTask clk tid inp s)"
| "ann_serve s (CallSubmitWorkspace clk tid actor) =
     snd (ann_SubmitWorkspace tasks_GetTask tasks_TransitionTask clk tid actor s)"
| "ann_serve s (CallTask c) = s\<lparr>asv_tasks := map_option (\<lambda>t. tasks_serve t c) (asv_tasks s)\<rparr>"

definition ann_start :: "tasks_Repo ann_Service" where
  "ann_start = ann_state ann_NewInMemoryRepository tasks_NewInMemoryRepository"

definition ann_work_inv :: "tasks_Repo ann_Service \<Rightarrow> bool" where
  "ann_work_inv s \<longleftrightarrow> (\<exists>r t. s = ann_state r t \<and> ann_good r t)"

definition ann_work_le :: "tasks_Repo ann_Service \<Rightarrow> tasks_Repo ann_Service \<Rightarrow> bool" where
  "ann_work_le s s' \<longleftrightarrow>
     (\<forall>r t. s = ann_state r t \<longrightarrow> (\<exists>r' t'. s' = ann_state r' t' \<and> ann_le r r' \<and> tasks_le t t'))"

lemma ann_state_eq [simp]: "ann_state r t = ann_state r' t' \<longleftrightarrow> r = r' \<and> t = t'"
  by (simp add: ann_state_def)

lemma ann_serve_step: "ann_good r t \<Longrightarrow> ann_step r t (ann_serve (ann_state r t) c)"
proof (cases c)
  case (CallTask tc)
  assume good: "ann_good r t"
  then have "tasks_inv (tasks_serve t tc)" "tasks_le t (tasks_serve t tc)"
    by (simp_all add: ann_good_def tasks_serve_inv tasks_serve_le)
  with good show ?thesis using CallTask ann_linked_tasks by (auto simp: ann_good_def intro!: ann_stepI)
qed (simp_all add: ann_SaveDraft_step ann_Submit_step ann_SaveWorkspaceDraft_step ann_SubmitWorkspace_step)

lemma ann_serve_inv: "ann_work_inv s \<Longrightarrow> ann_work_inv (ann_serve s c)"
  unfolding ann_work_inv_def using ann_serve_step by (fastforce simp: ann_step_def ann_good_def)

lemma ann_serve_le: "ann_work_inv s \<Longrightarrow> ann_work_le s (ann_serve s c)"
  unfolding ann_work_inv_def ann_work_le_def using ann_serve_step by (fastforce simp: ann_step_def)

lemma ann_work_le_refl: "ann_work_le s s"
  by (simp add: ann_work_le_def)

lemma ann_work_le_trans:
  assumes "ann_work_le s s'" and "ann_work_le s' s''"
  shows "ann_work_le s s''"
  unfolding ann_work_le_def
proof (intro allI impI)
  fix r t assume "s = ann_state r t"
  with assms(1) obtain r' t' where s': "s' = ann_state r' t'" "ann_le r r'" "tasks_le t t'"
    unfolding ann_work_le_def by blast
  with assms(2) obtain r'' t'' where "s'' = ann_state r'' t''" "ann_le r' r''" "tasks_le t' t''"
    unfolding ann_work_le_def by blast
  with s' show "\<exists>r'' t''. s'' = ann_state r'' t'' \<and> ann_le r r'' \<and> tasks_le t t''"
    using ann_le_trans tasks_le_trans by blast
qed

lemma ann_start_inv: "ann_work_inv ann_start"
proof -
  have "ann_linked ann_NewInMemoryRepository tasks_NewInMemoryRepository"
    by (simp add: ann_linked_def ann_NewInMemoryRepository_def)
  then show ?thesis unfolding ann_work_inv_def ann_start_def ann_good_def
    using ann_empty_inv tasks_empty_inv by blast
qed

interpretation ann_machine: progress_machine "\<lambda>s. s = ann_start" ann_serve ann_work_inv ann_work_le
proof unfold_locales
  show "ann_work_inv s" if "s = ann_start" for s using that ann_start_inv by simp
  show "ann_work_inv (ann_serve s c)" if "ann_work_inv s" for s c using that by (rule ann_serve_inv)
  show "ann_work_le s s" for s by (rule ann_work_le_refl)
  show "ann_work_le s u" if "ann_work_le s t" "ann_work_le t u" for s t u using that by (rule ann_work_le_trans)
  show "ann_work_le s (ann_serve s c)" if "ann_work_inv s" for s c using that by (rule ann_serve_le)
qed

definition ann_after :: "ann_call list \<Rightarrow> tasks_Repo ann_Service" where
  "ann_after cs = foldl ann_serve ann_start cs"

definition ann_at :: "ann_call list \<Rightarrow> int \<Rightarrow> ann_Annotation option" where
  "ann_at cs tid = Option.bind (asv_repo (ann_after cs)) (\<lambda>r. ar_byTaskID r tid)"

definition ann_task_at :: "ann_call list \<Rightarrow> int \<Rightarrow> tasks_Task option" where
  "ann_task_at cs tid = Option.bind (asv_tasks (ann_after cs)) (\<lambda>t. tr_byID t tid)"

lemma ann_after_state:
  obtains r t where "ann_after cs = ann_state r t" "ann_good r t"
  using ann_machine.run_inv [of ann_start cs] unfolding ann_after_def ann_work_inv_def by auto

lemma ann_after_le:
  assumes "ann_at cs tid = Some a"
  shows "\<exists>b. ann_at (cs @ cs') tid = Some b \<and> ann_evolves a b"
proof -
  obtain r t where s: "ann_after cs = ann_state r t" by (rule ann_after_state)
  have "ann_work_le (ann_after cs) (ann_after (cs @ cs'))"
    unfolding ann_after_def by (rule ann_machine.run_le_later [OF ann_start_inv])
  then obtain r' t' where "ann_after (cs @ cs') = ann_state r' t'" "ann_le r r'"
    unfolding ann_work_le_def s by blast
  with s assms show ?thesis by (auto simp: ann_at_def ann_le_def)
qed

text \<open>A workspace save over well-formed linked stores: the result and the stores it leaves.\<close>

lemma ann_workspace_save_run:
  assumes good: "ann_good r t"
    and task: "tr_byID t tid = Some task" "task_Kind task = tasks_KindAnnotation" "task_SnapshotID task = Some n"
  shows "ann_SaveWorkspaceDraft tasks_GetTask clk tid inp (ann_state r t) =
     (let r1 = ann_ws_seed tid n task r; inp1 = ann_ws_input tid n task inp in
      if wd_BaseRevision inp < 0 then (Inl AnnBaseRevisionNegative, ann_state r1 t)
      else case ar_byTaskID r tid of
             None \<Rightarrow> (Inr (ann_buildWorkspace task (ann_first_draft (clk 0) inp1 (ar_nextID r))),
                ann_state (ann_put tid (ann_first_draft (clk 0) inp1 (ar_nextID r)) (r1\<lparr>ar_nextID := ar_nextID r + 1\<rparr>)) t)
           | Some a \<Rightarrow>
               if 0 < wd_BaseRevision inp \<and> an_Revision a \<noteq> wd_BaseRevision inp
               then (Inl (AnnRevisionMismatch tid (wd_BaseRevision inp) (an_Revision a)), ann_state r1 t)
               else if an_State a = ann_StateSubmitted then (Inl (AnnAlreadySubmitted tid), ann_state r1 t)
               else (Inr (ann_buildWorkspace task (ann_next_draft (clk 0) inp1 a)),
                     ann_state (ann_put tid (ann_next_draft (clk 0) inp1 a) r1) t))"
proof -
  have inv: "tasks_inv t" and link: "ann_linked r t" using good by (simp_all add: ann_good_def)
  note row = task(1)
  have id: "task_ID task = tid" and pos: "1 \<le> tid" and ok: "tasks_task_ok task"
    using tasks_invD [OF inv row] by blast+
  have key: "trim_space (task_AssetObjectKey task) = task_AssetObjectKey task" "task_AssetObjectKey task \<noteq> []"
    and n: "1 \<le> n" and frame: "\<And>m. task_FrameIndex task = Some m \<Longrightarrow> 0 \<le> m"
    using ok task by (simp_all add: tasks_task_ok_def)
  have "tasks_GetTask tid t = Inr task" by (simp add: tasks_GetTask_iff [OF inv] row)
  from ann_workspaceTask_state [where get = tasks_GetTask, OF pos this task(2)] key
  have ws: "ann_workspaceTask tasks_GetTask tid (ann_state r t) = Inr task" by simp
  have snap: "ann_ensureSnapshotContext task = Inr n" using task(3) n by (simp add: ann_ensureSnapshotContext_def)
  let ?inp = "ann_ws_input tid n task inp" and ?r = "ann_ws_seed tid n task r"
  have version: "trim_space (ann_workspaceOntologyVersion task) = ann_workspaceOntologyVersion task"
    "ann_workspaceOntologyVersion task \<noteq> []"
    by (simp_all add: ann_workspaceOntologyVersion_def Let_def trimmed_trim_space_id trimmed_def is_space_def)
  have check: "ann_checkDraft ?inp = (if wd_BaseRevision inp < 0 then Inl AnnBaseRevisionNegative
      else Inr (?inp\<lparr>sd_Actor := ann_normalizeActor (wd_Actor inp)\<rparr>))"
    using pos n key frame version
    by (auto simp: ann_checkDraft_def ann_ws_input_def Let_def split: option.split)
  have ctx: "ar_taskContext ?r tid = Some \<lparr>tc_SnapshotID = n, tc_AssetObjectKey = task_AssetObjectKey task,
      tc_FrameIndex = task_FrameIndex task, tc_OntologyVersion = ann_workspaceOntologyVersion task\<rparr>" (is "_ = Some ?c")
    by (simp add: ann_ws_seed_def)
  have "ann_linked ?r t" by (rule ann_linked_seed [OF link row task(3)])
  then have stored: "ann_context_of a = ?c" if "ar_byTaskID r tid = Some a" for a
    using ann_linkedD(2) [of ?r t tid a] that ctx by simp
  let ?act = "?inp\<lparr>sd_Actor := ann_normalizeActor (wd_Actor inp)\<rparr>"
  have same: "ann_sameContextFromTaskContext ?c ?act"
    by (simp add: ann_sameContextFromTaskContext_def ann_ws_input_def)
  have same': "ann_sameContextInMemory a ?act" if "ar_byTaskID r tid = Some a" for a
    using stored [OF that] by (simp add: ann_sameContextInMemory_def ann_context_of_def ann_ws_input_def)
  have drafts: "ann_first_draft now ?act m = ann_first_draft now ?inp m" "ann_next_draft now ?act a = ann_next_draft now ?inp a"
    for now m a by (simp_all add: ann_first_draft_def ann_next_draft_def)
  have ids: "sd_TaskID ?act = tid" "sd_BaseRevision ?act = wd_BaseRevision inp" by (simp_all add: ann_ws_input_def)
  have save: "ann_repo_SaveDraft (clk 0) ?act ?r =
     (case ar_byTaskID r tid of
        None \<Rightarrow> (Inr (ann_first_draft (clk 0) ?inp (ar_nextID r)),
          ann_put tid (ann_first_draft (clk 0) ?inp (ar_nextID r)) (?r\<lparr>ar_nextID := ar_nextID r + 1\<rparr>))
      | Some a \<Rightarrow>
          if 0 < wd_BaseRevision inp \<and> an_Revision a \<noteq> wd_BaseRevision inp
          then (Inl (AnnRevisionMismatch tid (wd_BaseRevision inp) (an_Revision a)), ?r)
          else if an_State a = ann_StateSubmitted then (Inl (AnnAlreadySubmitted tid), ?r)
          else (Inr (ann_next_draft (clk 0) ?inp a), ann_put tid (ann_next_draft (clk 0) ?inp a) ?r))"
    unfolding ann_repo_SaveDraft_eq ids ctx option.case drafts ann_ws_seed_simps
    using same same' by (simp split: option.split)
  have eq: "ann_SaveDraft clk ?inp (ann_state ?r t) =
     (if wd_BaseRevision inp < 0 then (Inl AnnBaseRevisionNegative, ann_state ?r t)
      else (fst (ann_repo_SaveDraft (clk 0) ?act ?r), ann_state (snd (ann_repo_SaveDraft (clk 0) ?act ?r)) t))"
    unfolding ann_SaveDraft_def check by simp
  show ?thesis
    unfolding ann_SaveWorkspaceDraft_eq [OF ws id snap] eq save Let_def by (simp split: option.split)
qed

subsection \<open>Properties\<close>

text \<open>
  C21. Through every history of annotation and task calls, in any order, an annotation keeps its
  identity and context, its revision never decreases, a change of content always comes with
  a higher revision, and once submitted it is never changed again.
\<close>

theorem ann_histories:
  assumes "ann_at cs tid = Some a"
  shows "ann_ok tid a \<and>
         (\<exists>b. ann_at (cs @ cs') tid = Some b \<and> an_ID b = an_ID a \<and> ann_context_of b = ann_context_of a \<and>
              an_Revision a \<le> an_Revision b \<and> (an_Revision b = an_Revision a \<longrightarrow> b = a) \<and>
              (an_State a = ann_StateSubmitted \<longrightarrow> b = a))"
proof -
  obtain r t where s: "ann_after cs = ann_state r t" "ann_good r t" by (rule ann_after_state)
  with assms have "ar_byTaskID r tid = Some a" "ann_inv r" by (simp_all add: ann_at_def ann_good_def)
  then show ?thesis using ann_invD(1) ann_after_le [OF assms, of cs'] unfolding ann_evolves_def by blast
qed







text \<open>
  Optimistic locking: of two saves that name the same positive base revision, the second
  is refused once the first has succeeded, however much happens in between.
\<close>

theorem ann_base_revision_wins_once:
  assumes task: "ann_task_at cs tid = Some task" "task_Kind task = tasks_KindAnnotation" "task_SnapshotID task = Some n"
    and base: "0 < base" "wd_BaseRevision inp = base" "wd_BaseRevision inp' = base"
    and known: "ann_at cs tid = Some a"
    and first: "fst (ann_SaveWorkspaceDraft tasks_GetTask clk tid inp (ann_after cs)) = Inr ws"
  shows "\<exists>e. fst (ann_SaveWorkspaceDraft tasks_GetTask clk' tid inp'
            (ann_after (cs @ CallSaveWorkspaceDraft clk tid inp # cs'))) = Inl e"
proof -
  let ?cs = "cs @ [CallSaveWorkspaceDraft clk tid inp]" and ?cs' = "cs @ CallSaveWorkspaceDraft clk tid inp # cs'"
  obtain r t where s: "ann_after cs = ann_state r t" "ann_good r t" by (rule ann_after_state)
  have row: "tr_byID t tid = Some task" and a: "ar_byTaskID r tid = Some a"
    using task(1) known by (simp_all add: ann_task_at_def ann_at_def s)
  let ?b = "ann_next_draft (clk 0) (ann_ws_input tid n task inp) a"
  note run = ann_workspace_save_run [OF s(2) row task(2,3), where clk = clk and inp = inp, unfolded Let_def a option.case]
  have ok: "an_Revision a = base" "an_State a \<noteq> ann_StateSubmitted"
    using first base unfolding s(1) run by (auto split: if_splits)
  have "ann_after ?cs = snd (ann_SaveWorkspaceDraft tasks_GetTask clk tid inp (ann_state r t))"
    by (simp add: ann_after_def s(1) [unfolded ann_after_def])
  then have b: "ann_at ?cs tid = Some ?b" using ok base unfolding run by (simp add: ann_at_def)
  obtain c where c: "ann_at ?cs' tid = Some c" "an_Revision ?b \<le> an_Revision c"
    using ann_after_le [OF b, of cs'] by (auto simp: ann_evolves_def)
  then have newer: "an_Revision c \<noteq> base" using ok by (simp add: ann_next_draft_def)
  obtain r' t' where s': "ann_after ?cs' = ann_state r' t'" "ann_good r' t'" by (rule ann_after_state)
  have "tasks_le t t'" using ann_machine.run_le_later [OF ann_start_inv, of cs "CallSaveWorkspaceDraft clk tid inp # cs'"]
    unfolding ann_after_def [symmetric] s(1) s'(1) ann_work_le_def by simp
  then obtain task' where task': "tr_byID t' tid = Some task'" "tasks_same task task'"
    using row unfolding tasks_le_def by blast
  then have "task_Kind task' = tasks_KindAnnotation" "task_SnapshotID task' = Some n"
    using task by (simp_all add: tasks_same_def)
  note run' = ann_workspace_save_run [OF s'(2) task'(1) this, where clk = clk' and inp = inp']
  have "ar_byTaskID r' tid = Some c" using c(1) by (simp add: ann_at_def s')
  then show ?thesis unfolding s'(1) run' using newer base by (simp add: Let_def)
qed

text \<open>
  A successful workspace submission has submitted both: the annotation it returns is the
  stored one and is \<open>submitted\<close>, the task it returns is the stored one and is \<open>submitted\<close>.
\<close>

theorem ann_submit_workspace_done:
  assumes "ann_SubmitWorkspace tasks_GetTask tasks_TransitionTask clk tid actor (ann_after cs) = (Inr ws, s')"
  shows "\<exists>r' t'. asv_repo s' = Some r' \<and> asv_tasks s' = Some t' \<and>
           tr_byID t' tid = Some (ws_Task ws) \<and> task_Status (ws_Task ws) = tasks_StatusSubmitted \<and>
           ar_byTaskID r' tid = Some (ws_Draft ws) \<and> an_State (ws_Draft ws) = ann_StateSubmitted"
proof -
  obtain r t where s: "ann_after cs = ann_state r t" "ann_good r t" by (rule ann_after_state)
  then have inv: "tasks_inv t" "ann_inv r" by (simp_all add: ann_good_def)
  obtain r' t' where s': "s' = ann_state r' t'" "tasks_GetTask tid t' = Inr (ws_Task ws)"
    "task_Status (ws_Task ws) = tasks_StatusSubmitted" "ar_byTaskID r' tid = Some (ws_Draft ws)"
    "an_State (ws_Draft ws) = ann_StateSubmitted"
    using tasks_contract.submit_workspace_done [OF inv assms [unfolded s(1)]] by blast
  have "ann_step r t s'" using ann_SubmitWorkspace_step [OF s(2), of clk tid actor] assms s(1) by simp
  then have "tasks_inv t'" unfolding ann_step_def s'(1) by auto
  then show ?thesis using s' tasks_GetTask_iff by simp
qed

text \<open>
  A workspace submission on a task that is not yet in progress (queued, ready, blocked or
  sent back for rework) fails, but has already submitted the annotation: no workspace save,
  now or at any later time, is accepted for it again.
\<close>

theorem ann_failed_submit_locks_draft:
  assumes task: "ann_task_at cs tid = Some task" "task_Kind task = tasks_KindAnnotation"
    and st: "task_Status task \<in> {tasks_StatusQueued, tasks_StatusReady, tasks_StatusBlocked, tasks_StatusReworkRequired}"
    and draft: "ann_at cs tid = Some a" "an_State a \<noteq> ann_StateSubmitted"
  shows "(\<exists>e. fst (ann_SubmitWorkspace tasks_GetTask tasks_TransitionTask clk tid actor (ann_after cs)) =
            Inl (AnnTaskError e)) \<and>
         (\<exists>e. fst (ann_SaveWorkspaceDraft tasks_GetTask clk' tid inp
            (ann_after (cs @ CallSubmitWorkspace clk tid actor # cs'))) = Inl e)"
proof -
  obtain r t where s: "ann_after cs = ann_state r t" "ann_good r t" by (rule ann_after_state)
  have row: "tr_byID t tid = Some task" and a: "ar_byTaskID r tid = Some a" and inv: "tasks_inv t" "ann_inv r"
    using task(1) draft(1) s by (simp_all add: ann_task_at_def ann_at_def ann_good_def)
  have get: "tasks_GetTask tid t = Inr task" and pos: "1 \<le> tid"
    using row tasks_GetTask_iff [OF inv(1)] tasks_invD [OF inv(1) row] by blast+
  have far: "task_Status task \<noteq> tasks_StatusSubmitted" "\<not> tasks_isAllowedTransition (task_Status task) tasks_StatusSubmitted"
    using st by auto
  let ?b = "ann_submitted (clk 0) (ann_normalizeActor actor) a"
  obtain e where run: "ann_SubmitWorkspace tasks_GetTask tasks_TransitionTask clk tid actor (ann_state r t) =
      (Inl (AnnTaskError e), ann_state (ann_put tid ?b r) t)"
    using tasks_contract.submit_workspace_stranded [OF inv pos get task(2) far a draft(2)] by blast
  have "ann_after (cs @ [CallSubmitWorkspace clk tid actor]) = ann_state (ann_put tid ?b r) t"
    using run by (simp add: ann_after_def s(1) [unfolded ann_after_def])
  then have "ann_at (cs @ [CallSubmitWorkspace clk tid actor]) tid = Some ?b" by (simp add: ann_at_def)
  from ann_after_le [OF this, of cs'] have at: "ann_at (cs @ CallSubmitWorkspace clk tid actor # cs') tid = Some ?b"
    by (auto simp: ann_evolves_def ann_submitted_def)
  obtain r' t' where s': "ann_after (cs @ CallSubmitWorkspace clk tid actor # cs') = ann_state r' t'" "ann_good r' t'"
    by (rule ann_after_state)
  have "tasks_inv t'" using s'(2) by (simp add: ann_good_def)
  then have ids: "\<And>x. tasks_GetTask tid t' = Inr x \<Longrightarrow> task_ID x = tid" using tasks_contract.get_ok by blast
  have "ar_byTaskID r' tid = Some ?b" "an_State ?b = ann_StateSubmitted"
    using at by (simp_all add: ann_at_def s' ann_submitted_def)
  from ann_SaveWorkspaceDraft_frozen [where get = tasks_GetTask, OF ids this] obtain e' r'' where
    "ann_SaveWorkspaceDraft tasks_GetTask clk' tid inp (ann_state r' t') = (Inl e', ann_state r'' t')" by blast
  then show ?thesis unfolding s(1) s'(1) using run by simp
qed

text \<open>
  A submitted annotation can never be edited through the workspace again, whatever happens
  to its task: also not after the task has been reviewed, sent back for rework and put in
  progress again.
\<close>

theorem ann_submitted_never_editable:
  assumes "ann_at cs tid = Some a" and "an_State a = ann_StateSubmitted"
  shows "\<exists>e. fst (ann_SaveWorkspaceDraft tasks_GetTask clk tid inp (ann_after (cs @ cs'))) = Inl e"
proof -
  obtain r t where s: "ann_after (cs @ cs') = ann_state r t" "ann_good r t" by (rule ann_after_state)
  have "ann_at (cs @ cs') tid = Some a"
    using ann_after_le [OF assms(1), of cs'] assms(2) by (auto simp: ann_evolves_def)
  then have a: "ar_byTaskID r tid = Some a" by (simp add: ann_at_def s)
  have "tasks_inv t" using s(2) by (simp add: ann_good_def)
  then have ids: "\<And>x. tasks_GetTask tid t = Inr x \<Longrightarrow> task_ID x = tid" using tasks_contract.get_ok by blast
  from ann_SaveWorkspaceDraft_frozen [where get = tasks_GetTask, OF ids a assms(2)] show ?thesis
    unfolding s(1) by (metis fst_conv)
qed

subsection \<open>Witnesses\<close>

definition ann_wd :: "int \<Rightarrow> ann_WorkspaceDraftInput" where
  "ann_wd base = \<lparr>wd_Actor = ''ann'', wd_BaseRevision = base, wd_Body = [(''boxes'', GInt 2)]\<rparr>"

definition ann_sample0 :: "ann_call list" where
  "ann_sample0 = [CallTask (CallCreateTask (\<lambda>_. 5) (tasks_req ''ready''))]"

definition ann_sample :: "ann_call list" where
  "ann_sample = ann_sample0 @ [CallSaveWorkspaceDraft (\<lambda>_. 6) 1 (ann_wd 0)]"

definition ann_sample_task :: tasks_Task where
  "ann_sample_task = tasks_newTask 5 1 (tasks_req ''ready'')"

lemma ann_sample_task_simps [simp]:
  "task_Kind ann_sample_task = tasks_KindAnnotation" "task_SnapshotID ann_sample_task = Some 3"
  "task_Status ann_sample_task = tasks_StatusReady"
  by (simp_all add: ann_sample_task_def tasks_newTask_def tasks_req_def tasks_kind_defs tasks_status_defs)

lemma ann_sample0_after: "ann_after ann_sample0 = ann_state ann_NewInMemoryRepository (tasks_after tasks_sample)"
  by (simp add: ann_after_def ann_sample0_def ann_start_def tasks_after_def tasks_sample_def ann_state_def)

lemma ann_sample0_row: "tr_byID (tasks_after tasks_sample) 1 = Some ann_sample_task"
  by (simp add: tasks_sample_task ann_sample_task_def)

lemma ann_sample0_task: "ann_task_at ann_sample0 1 = Some ann_sample_task"
  by (simp add: ann_task_at_def ann_sample0_after ann_sample0_row)

definition ann_sample_draft :: ann_Annotation where
  "ann_sample_draft = ann_first_draft 6 (ann_ws_input 1 3 ann_sample_task (ann_wd 0)) 1"

lemma ann_sample0_good: "ann_good ann_NewInMemoryRepository (tasks_after tasks_sample)"
  using ann_empty_inv by (simp add: ann_good_def ann_linked_def ann_NewInMemoryRepository_def)

lemma ann_sample_at:
  "ann_at ann_sample 1 = Some ann_sample_draft" "ann_task_at ann_sample 1 = Some ann_sample_task"
proof -
  have "ann_after ann_sample =
      snd (ann_SaveWorkspaceDraft tasks_GetTask (\<lambda>_. 6) 1 (ann_wd 0)
        (ann_state ann_NewInMemoryRepository (tasks_after tasks_sample)))"
    using ann_sample0_after by (simp add: ann_sample_def ann_after_def)
  also have "\<dots> = ann_state (ann_put 1 ann_sample_draft
      ((ann_ws_seed 1 3 ann_sample_task ann_NewInMemoryRepository)\<lparr>ar_nextID := 2\<rparr>)) (tasks_after tasks_sample)"
    unfolding ann_workspace_save_run [OF ann_sample0_good ann_sample0_row ann_sample_task_simps(1,2)] Let_def
    by (simp add: ann_NewInMemoryRepository_def ann_wd_def ann_sample_draft_def)
  finally show "ann_at ann_sample 1 = Some ann_sample_draft" "ann_task_at ann_sample 1 = Some ann_sample_task"
    by (simp_all add: ann_at_def ann_task_at_def ann_sample0_row)
qed

lemma ann_sample_draft_simps [simp]:
  "an_State ann_sample_draft = ann_StateDraft" "an_Revision ann_sample_draft = 1"
  by (simp_all add: ann_sample_draft_def ann_first_draft_def)

theorem ann_histories_witness:
  "ann_ok 1 ann_sample_draft \<and>
   (\<exists>b. ann_at (ann_sample @ [CallSubmit (\<lambda>_. 9) 1 ''ann'']) 1 = Some b \<and> 1 \<le> an_Revision b)"
  using ann_histories [OF ann_sample_at(1), of "[CallSubmit (\<lambda>_. 9) 1 ''ann'']"] by auto


theorem ann_base_revision_wins_once_witness:
  "\<exists>e. fst (ann_SaveWorkspaceDraft tasks_GetTask (\<lambda>_. 9) 1 (ann_wd 1)
        (ann_after (ann_sample @ CallSaveWorkspaceDraft (\<lambda>_. 8) 1 (ann_wd 1) # []))) = Inl e"
proof -
  obtain r t where s: "ann_after ann_sample = ann_state r t" "ann_good r t" by (rule ann_after_state)
  have row: "tr_byID t 1 = Some ann_sample_task" and a: "ar_byTaskID r 1 = Some ann_sample_draft"
    using ann_sample_at by (simp_all add: ann_task_at_def ann_at_def s)
  have "\<exists>ws. fst (ann_SaveWorkspaceDraft tasks_GetTask (\<lambda>_. 8) 1 (ann_wd 1) (ann_after ann_sample)) = Inr ws"
    unfolding s(1) ann_workspace_save_run [OF s(2) row ann_sample_task_simps(1,2)] Let_def a
    by (simp add: ann_wd_def)
  then obtain ws where ws: "fst (ann_SaveWorkspaceDraft tasks_GetTask (\<lambda>_. 8) 1 (ann_wd 1) (ann_after ann_sample)) = Inr ws"
    by blast
  have base: "0 < (1 :: int)" "wd_BaseRevision (ann_wd 1) = 1" by (simp_all add: ann_wd_def)
  show ?thesis
    by (rule ann_base_revision_wins_once [OF ann_sample_at(2) ann_sample_task_simps(1,2) base base(2) ann_sample_at(1) ws])
qed

text \<open>The same sample with the task in progress: there the submission succeeds.\<close>

definition ann_sample_progress :: "ann_call list" where
  "ann_sample_progress = ann_sample @ [CallTask (CallTransitionTask (\<lambda>_. 7) 1
     \<lparr>tt_Status = ''in_progress'', tt_BlockerReason = [], tt_LastActivityAt = 7\<rparr>)]"

theorem ann_failed_submit_locks_draft_witness:
  "(\<exists>e. fst (ann_SubmitWorkspace tasks_GetTask tasks_TransitionTask (\<lambda>_. 8) 1 ''ann'' (ann_after ann_sample)) = Inl (AnnTaskError e)) \<and>
   (\<exists>e. fst (ann_SaveWorkspaceDraft tasks_GetTask (\<lambda>_. 9) 1 (ann_wd 0)
      (ann_after (ann_sample @ CallSubmitWorkspace (\<lambda>_. 8) 1 ''ann'' # []))) = Inl e)"
  by (rule ann_failed_submit_locks_draft [OF ann_sample_at(2) _ _ ann_sample_at(1)]) simp_all

theorem ann_submit_workspace_done_witness:
  "\<exists>ws s'. ann_SubmitWorkspace tasks_GetTask tasks_TransitionTask (\<lambda>_. 8) 1 ''ann'' (ann_after ann_sample_progress) = (Inr ws, s') \<and>
     an_State (ws_Draft ws) = ann_StateSubmitted"
proof -
  obtain r t where s: "ann_after ann_sample = ann_state r t" "ann_good r t" by (rule ann_after_state)
  have row: "tr_byID t 1 = Some ann_sample_task" and a: "ar_byTaskID r 1 = Some ann_sample_draft"
    and inv: "tasks_inv t" "ann_inv r"
    using ann_sample_at s(2) by (simp_all add: ann_task_at_def ann_at_def s ann_good_def)
  let ?inp = "\<lparr>tt_Status = ''in_progress'', tt_BlockerReason = [], tt_LastActivityAt = 7\<rparr>"
  let ?task = "tasks_moved (\<lambda>_. 7) tasks_StatusInProgress ?inp ann_sample_task"
  let ?t = "t\<lparr>tr_byID := (tr_byID t)(1 \<mapsto> ?task)\<rparr>"
  have tgt: "tasks_target tasks_KindAnnotation ''in_progress'' = tasks_StatusInProgress"
    by (simp add: tasks_target_def tasks_sample_norms tasks_legacyStatusDoneToken_def tasks_normalizeStatus_def
        tasks_status_defs)
  have "tasks_serve t (CallTransitionTask (\<lambda>_. 7) 1 ?inp) = ?t"
    by (simp add: tasks_transition_spec [OF inv(1) row] Let_def tgt tasks_isValidStatus_def)
  then have after: "ann_after ann_sample_progress = ann_state r ?t"
    using s(1) by (simp add: ann_sample_progress_def ann_after_def ann_state_def)
  have inv': "tasks_inv ?t" using tasks_serve_inv [OF inv(1), of "CallTransitionTask (\<lambda>_. 7) 1 ?inp"]
    \<open>tasks_serve t (CallTransitionTask (\<lambda>_. 7) 1 ?inp) = ?t\<close> by simp
  have row': "tr_byID ?t 1 = Some ?task" by simp
  have st: "task_Status ?task = tasks_StatusInProgress" "task_Kind ?task = tasks_KindAnnotation"
    by (simp_all add: tasks_moved_def)
  have "\<exists>t'. tasks_TransitionTask (clock_drop 1 (\<lambda>_. 8)) 1 ann_submit_move ?t =
      (Inr (tasks_moved (clock_drop 1 (\<lambda>_. 8)) tasks_StatusSubmitted ann_submit_move ?task), t')"
    using st by (simp add: tasks_transition_spec [OF inv' row'] Let_def ann_submit_move_def tasks_isValidStatus_def)
  then obtain t' where mv: "tasks_TransitionTask (clock_drop 1 (\<lambda>_. 8)) 1 ann_submit_move ?t =
      (Inr (tasks_moved (clock_drop 1 (\<lambda>_. 8)) tasks_StatusSubmitted ann_submit_move ?task), t')" by blast
  have "tasks_GetTask 1 ?t = Inr ?task" by (simp add: tasks_GetTask_iff [OF inv'])
  moreover have "tasks_task_ok ?task" using tasks_invD [OF inv' row'] by blast
  then have "trim_space (task_AssetObjectKey ?task) \<noteq> []" using st by (simp add: tasks_task_ok_def)
  ultimately have ws: "ann_workspaceTask tasks_GetTask 1 (ann_state r ?t) = Inr ?task"
    using st by (intro ann_workspaceTask_state) simp_all
  from inv(2) have sub: "ann_repo_Submit 8 1 (ann_normalizeActor ''ann'') r =
     (Inr (ann_submitted 8 (ann_normalizeActor ''ann'') ann_sample_draft),
      ann_put 1 (ann_submitted 8 (ann_normalizeActor ''ann'') ann_sample_draft) r)"
    by (cases rule: ann_submit_cases [where tid = 1 and now = 8 and actor = "ann_normalizeActor ''ann''"])
      (use a in auto)
  have "\<exists>ws s'. ann_SubmitWorkspace tasks_GetTask tasks_TransitionTask (\<lambda>_. 8) 1 ''ann'' (ann_after ann_sample_progress) = (Inr ws, s')"
    unfolding after ann_SubmitWorkspace_eq [OF ws] sub mv using st by simp
  then show ?thesis using ann_submit_workspace_done by metis
qed

theorem ann_submitted_never_editable_witness:
  "\<exists>a e. ann_at (ann_sample @ [CallSubmit (\<lambda>_. 8) 1 ''ann'']) 1 = Some a \<and>
     fst (ann_SaveWorkspaceDraft tasks_GetTask (\<lambda>_. 10) 1 (ann_wd 0)
       (ann_after ((ann_sample @ [CallSubmit (\<lambda>_. 8) 1 ''ann'']) @ [CallTask (CallTransitionTask (\<lambda>_. 9) 1
          \<lparr>tt_Status = ''in_progress'', tt_BlockerReason = [], tt_LastActivityAt = 9\<rparr>)]))) = Inl e"
proof -
  obtain r t where s: "ann_after ann_sample = ann_state r t" "ann_good r t" by (rule ann_after_state)
  have a: "ar_byTaskID r 1 = Some ann_sample_draft" and inv: "ann_inv r"
    using ann_sample_at s(2) by (simp_all add: ann_at_def s ann_good_def)
  from inv have sub: "ann_repo_Submit 8 1 (ann_normalizeActor ''ann'') r =
     (Inr (ann_submitted 8 (ann_normalizeActor ''ann'') ann_sample_draft),
      ann_put 1 (ann_submitted 8 (ann_normalizeActor ''ann'') ann_sample_draft) r)"
    by (cases rule: ann_submit_cases [where tid = 1 and now = 8 and actor = "ann_normalizeActor ''ann''"])
      (use a in auto)
  have at: "ann_at (ann_sample @ [CallSubmit (\<lambda>_. 8) 1 ''ann'']) 1 =
      Some (ann_submitted 8 (ann_normalizeActor ''ann'') ann_sample_draft)"
    using s(1) by (simp add: ann_at_def ann_after_def ann_Submit_def sub)
  have "an_State (ann_submitted 8 (ann_normalizeActor ''ann'') ann_sample_draft) = ann_StateSubmitted"
    by (simp add: ann_submitted_def)
  from ann_submitted_never_editable [OF at this] at show ?thesis by blast
qed

end
