(* ===== verification/Go_Text.thy ===== *)
theory Go_Text
  imports Go_Prelude
begin

section \<open>Splitting text\<close>

text \<open>
  \<open>strings.Split\<close> with a one-byte separator, \<open>strings.Join\<close>, \<open>strings.Fields\<close> and
  \<open>net.SplitHostPort\<close>, which headers and configuration go through.
\<close>

fun split_on :: "char \<Rightarrow> string \<Rightarrow> string list" where
  "split_on sep [] = [[]]"
| "split_on sep (c # cs) =
     (if c = sep then [] # split_on sep cs
      else (c # hd (split_on sep cs)) # tl (split_on sep cs))"

fun join_with :: "string \<Rightarrow> string list \<Rightarrow> string" where
  "join_with sep [] = []"
| "join_with sep [s] = s"
| "join_with sep (s # t # ts) = s @ sep @ join_with sep (t # ts)"

lemma split_on_nonempty [simp]: "split_on sep s \<noteq> []"
  by (cases s) auto

text \<open>For evaluation: the rest is split once.\<close>

lemma split_on_code [code]:
  "split_on sep [] = [[]]"
  "split_on sep (c # cs) =
     (case split_on sep cs of [] \<Rightarrow> [[c]] | p # ps \<Rightarrow> if c = sep then [] # p # ps else (c # p) # ps)"
  by (simp_all split: list.split)

lemma split_on_parts: "p \<in> set (split_on sep s) \<Longrightarrow> sep \<notin> set p"
proof (induction s arbitrary: p)
  case (Cons c cs)
  obtain q qs where "split_on sep cs = q # qs" by (metis split_on_nonempty list.exhaust)
  with Cons show ?case by (auto split: if_splits)
qed simp

lemma join_split [simp]: "join_with [sep] (split_on sep s) = s"
proof (induction s)
  case (Cons c cs)
  obtain p ps where ps: "split_on sep cs = p # ps" by (metis split_on_nonempty list.exhaust)
  with Cons.IH show ?case by (cases ps) auto
qed simp

lemma split_on_plain: "sep \<notin> set s \<Longrightarrow> split_on sep s = [s]"
  by (induction s) auto

lemma split_on_app: "sep \<notin> set p \<Longrightarrow> split_on sep (p @ sep # s) = p # split_on sep s"
  by (induction p) auto

lemma split_join:
  "ps \<noteq> [] \<Longrightarrow> (\<And>p. p \<in> set ps \<Longrightarrow> sep \<notin> set p) \<Longrightarrow> split_on sep (join_with [sep] ps) = ps"
proof (induction ps)
  case (Cons p ps)
  then show ?case by (cases ps) (simp_all add: split_on_plain split_on_app)
qed simp

text \<open>\<open>Fields\<close>: the maximal runs of characters that are not white space.\<close>

function text_fields :: "string \<Rightarrow> string list" where
  "text_fields s =
     (let t = trim_left s in
      if t = [] then []
      else takeWhile (\<lambda>c. \<not> is_space c) t # text_fields (dropWhile (\<lambda>c. \<not> is_space c) t))"
  by auto
termination
proof (relation "measure length")
  fix s t :: string
  assume t: "t = trim_left s" "t \<noteq> []"
  then have "\<not> is_space (hd t)" using trim_left_cases by blast
  with t(2) have "length (dropWhile (\<lambda>c. \<not> is_space c) t) < length t"
    by (cases t) (auto simp: le_imp_less_Suc length_dropWhile_le)
  also have "length t \<le> length s" unfolding t(1) trim_left_def by (rule length_dropWhile_le)
  finally show "(dropWhile (\<lambda>c. \<not> is_space c) t, s) \<in> measure length" by simp
qed simp

declare text_fields.simps [simp del]

lemma text_fields_Nil [simp]: "text_fields [] = []"
  by (subst text_fields.simps) (simp add: trim_left_def)

lemma text_fields_step:
  assumes "trim_left s = t" and "t \<noteq> []"
    and "takeWhile (\<lambda>c. \<not> is_space c) t = v" and "dropWhile (\<lambda>c. \<not> is_space c) t = r"
  shows "text_fields s = v # text_fields r"
  using assms by (subst text_fields.simps) (simp only: Let_def if_False)

text \<open>Words separated by one blank are the fields of their concatenation.\<close>

definition word :: "string \<Rightarrow> bool" where
  "word w \<longleftrightarrow> w \<noteq> [] \<and> list_all (\<lambda>c. \<not> is_space c) w"

lemma word_runs:
  assumes "word w" and "r = [] \<or> is_space (hd r)"
  shows "trim_left (w @ r) = w @ r" "takeWhile (\<lambda>c. \<not> is_space c) (w @ r) = w"
    and "dropWhile (\<lambda>c. \<not> is_space c) (w @ r) = r"
proof -
  have all: "\<And>c. c \<in> set w \<Longrightarrow> \<not> is_space c" and ne: "w \<noteq> []" using assms(1) by (auto simp: word_def list_all_iff)
  from ne all show "trim_left (w @ r) = w @ r" by (cases w) (auto simp: trim_left_def)
  have "takeWhile (\<lambda>c. \<not> is_space c) r = []" "dropWhile (\<lambda>c. \<not> is_space c) r = r"
    using assms(2) by (cases r; simp)+
  then show "takeWhile (\<lambda>c. \<not> is_space c) (w @ r) = w" "dropWhile (\<lambda>c. \<not> is_space c) (w @ r) = r"
    using all by (simp_all add: takeWhile_append dropWhile_append)
qed

lemma text_fields_word: "word w \<Longrightarrow> text_fields w = [w]"
  using text_fields_step [OF word_runs(1) _ word_runs(2,3), of w "[]"] by (simp add: word_def)

lemma text_fields_two: "word v \<Longrightarrow> word w \<Longrightarrow> text_fields (v @ CHR '' '' # w) = [v, w]"
proof -
  assume v: "word v" and w: "word w"
  have sp: "is_space (CHR '' '')" by (simp add: is_space_def)
  have "trim_left (CHR '' '' # w) = w" using word_runs(1) [OF w, of "[]"] sp by (simp add: trim_left_def)
  then have "text_fields (CHR '' '' # w) = [w]"
    using text_fields_step [of "CHR '' '' # w" w w "[]"] word_runs(2,3) [OF w, of "[]"] w by (simp add: word_def)
  moreover have "text_fields (v @ CHR '' '' # w) = v # text_fields (CHR '' '' # w)"
    by (rule text_fields_step [OF word_runs(1) _ word_runs(2,3)]) (use v sp in \<open>auto simp: word_def\<close>)
  ultimately show ?thesis by simp
qed

lemma text_fields_all_words: "p \<in> set (text_fields s) \<Longrightarrow> word p"
proof (induction s rule: text_fields.induct)
  case (1 s)
  let ?t = "trim_left s" and ?w = "takeWhile (\<lambda>c. \<not> is_space c) (trim_left s)"
  have step: "text_fields s = (if ?t = [] then [] else ?w # text_fields (dropWhile (\<lambda>c. \<not> is_space c) ?t))"
    by (subst text_fields.simps) (simp only: Let_def)
  with "1.prems" have ne: "?t \<noteq> []" by auto
  have hd: "\<not> is_space (hd ?t)" using trim_left_cases [of s] ne by blast
  have "?w \<noteq> []" using hd ne by (cases ?t) simp_all
  then have w: "word ?w" by (auto simp: word_def list_all_iff dest: set_takeWhileD)
  from "1.prems" step ne have "p = ?w \<or> p \<in> set (text_fields (dropWhile (\<lambda>c. \<not> is_space c) ?t))" by simp
  then show ?case using w "1.IH" [OF refl ne] by blast
qed

text \<open>The host of \<open>net.SplitHostPort\<close>; \<open>None\<close> is its error.\<close>

definition split_host :: "string \<Rightarrow> string option" where
  "split_host hp =
     (if CHR '':'' \<notin> set hp then None
      else
        let before = rev (tl (dropWhile (\<lambda>c. c \<noteq> CHR '':'') (rev hp))); i = length before in
        if hd hp = CHR ''[''
        then
          if CHR '']'' \<notin> set hp then None
          else
            let e = length (takeWhile (\<lambda>c. c \<noteq> CHR '']'') hp) in
            if e + 1 \<noteq> i then None
            else if CHR ''['' \<in> set (drop 1 hp) \<or> CHR '']'' \<in> set (drop (e + 1) hp) then None
            else Some (take (e - 1) (drop 1 hp))
        else if CHR '':'' \<in> set before then None
        else if CHR ''['' \<in> set hp \<or> CHR '']'' \<in> set hp then None
        else Some before)"

subsection \<open>Fixed-point text: \<open>fmt.Sprintf("%f")\<close>\<close>

text \<open>
  Six decimals, rounded to the nearest and halves to the even digit, of the real the float denotes. The sign of a negative
  zero is not modelled.
\<close>

definition round_half_even :: "real \<Rightarrow> int" where
  "round_half_even x =
     (let f = \<lfloor>x\<rfloor>; d = x - real_of_int f
      in if d < 1 / 2 then f else if 1 / 2 < d then f + 1 else if even f then f else f + 1)"

definition pad6 :: "nat \<Rightarrow> string" where
  "pad6 n = replicate (6 - length (show_nat n)) (CHR ''0'') @ show_nat n"

definition show_fixed6 :: "real \<Rightarrow> string" where
  "show_fixed6 x =
     (let n = nat (round_half_even (\<bar>x\<bar> * 1000000))
      in (if x < 0 then ''-'' else []) @ show_nat (n div 1000000) @ ''.'' @ pad6 (n mod 1000000))"

lemma show_fixed6_no_bar: "CHR ''|'' \<notin> set (show_fixed6 x)"
proof -
  have "CHR ''|'' \<notin> set (show_nat n)" for n
    using show_nat_digits [of n] by (auto simp: is_digit_def)
  then show ?thesis by (auto simp: show_fixed6_def pad6_def Let_def)
qed

end
