(* ===== verification/Auth.thy ===== *)
theory Auth
  imports Go_Text
begin

section \<open>Auth: identity, bearer token, rate limit\<close>

text \<open>
  \<open>internal/auth\<close>. The request context carries an \<open>Identity\<close> or none (\<open>auth_context\<close>). A
  middleware is a function of the headers it reads; what it answers itself, or what it passes
  to the next handler, is a value of \<open>auth_response\<close>. The limiter is the one piece of state:
  a bucket per client key.
\<close>

subsection \<open>Identity and project scopes\<close>

record auth_Identity =
  id_Actor :: string
  id_ProjectIDs :: "int list"

type_synonym auth_context = "auth_Identity option"

datatype auth_error = AuthForbidden int

record auth_Request =
  rq_Authorization :: string
  rq_ForwardedFor :: string
  rq_RealIp :: string
  rq_RemoteAddr :: string
  rq_Actor :: string
  rq_ProjectScopes :: string

fun auth_keepNew :: "int list \<Rightarrow> int list \<Rightarrow> int list" where
  "auth_keepNew seen [] = []"
| "auth_keepNew seen (p # ps) =
     (if p \<le> 0 \<or> p \<in> set seen then auth_keepNew seen ps else p # auth_keepNew (p # seen) ps)"

definition auth_normalizeProjectIDs :: "int list \<Rightarrow> int list" where
  "auth_normalizeProjectIDs ps = auth_keepNew [] ps"

definition auth_NewIdentity :: "string \<Rightarrow> int list \<Rightarrow> auth_Identity" where
  "auth_NewIdentity actor ps = \<lparr>id_Actor = trim_space actor, id_ProjectIDs = auth_normalizeProjectIDs ps\<rparr>"

definition auth_WithIdentity :: "auth_context \<Rightarrow> auth_Identity \<Rightarrow> auth_context" where
  "auth_WithIdentity ctx i = Some (auth_NewIdentity (id_Actor i) (id_ProjectIDs i))"

definition auth_AllowsProject :: "auth_Identity \<Rightarrow> int \<Rightarrow> bool" where
  "auth_AllowsProject i projectID \<longleftrightarrow> projectID \<le> 0 \<or> projectID \<in> set (id_ProjectIDs i)"

definition auth_RequireProjectAccess :: "auth_context \<Rightarrow> int \<Rightarrow> auth_error + unit" where
  "auth_RequireProjectAccess ctx projectID =
     (case ctx of
        None \<Rightarrow> Inr ()
      | Some i \<Rightarrow> if auth_AllowsProject i projectID then Inr () else Inl (AuthForbidden projectID))"

definition auth_parseProjectIDsHeader :: "string \<Rightarrow> int list" where
  "auth_parseProjectIDsHeader raw =
     (if trim_space raw = [] then []
      else auth_normalizeProjectIDs
        (concat (map (\<lambda>part. let (v, parsed) = parse_int64 (trim_space part) in if \<not> parsed \<or> v \<le> 0 then [] else [v])
           (split_on (CHR '','') raw))))"

text \<open>The context that \<open>IdentityMiddleware\<close> hands to the next handler.\<close>

definition auth_IdentityMiddleware :: "int list \<Rightarrow> auth_Request \<Rightarrow> auth_context \<Rightarrow> auth_context" where
  "auth_IdentityMiddleware defaults rq ctx =
     (let fromHeader = auth_parseProjectIDsHeader (rq_ProjectScopes rq);
          ps = (if fromHeader \<noteq> [] then fromHeader else auth_normalizeProjectIDs defaults);
          actor = trim_space (rq_Actor rq)
      in if ps = [] \<and> actor = [] then ctx else auth_WithIdentity ctx (auth_NewIdentity actor ps))"

subsection \<open>The bearer token\<close>

text \<open>\<open>EqualFold\<close> with \<open>Bearer\<close>: none of its letters has a fold outside ASCII.\<close>

definition auth_bearerToken :: "string \<Rightarrow> string" where
  "auth_bearerToken header =
     (case text_fields (trim_space header) of
        [scheme, token] \<Rightarrow> if to_lower scheme = ''bearer'' then token else []
      | _ \<Rightarrow> [])"

definition auth_matchesBearerToken :: "string \<Rightarrow> string \<Rightarrow> bool" where
  "auth_matchesBearerToken header expected \<longleftrightarrow>
     (let token = auth_bearerToken header in token \<noteq> [] \<and> token = expected)"

datatype auth_response =
    AuthNext
  | AuthUnauthorized
  | AuthTooManyRequests int

definition auth_StaticBearerMiddleware :: "string \<Rightarrow> auth_Request \<Rightarrow> auth_response" where
  "auth_StaticBearerMiddleware token rq =
     (let expected = trim_space token in
      if expected = [] then AuthNext
      else if \<not> auth_matchesBearerToken (rq_Authorization rq) expected then AuthUnauthorized
      else AuthNext)"

subsection \<open>The fixed-window limiter\<close>

record auth_bucket =
  bk_windowStart :: time
  bk_count :: int

record auth_limiter =
  lm_limit :: int
  lm_window :: duration
  lm_buckets :: "string \<rightharpoonup> auth_bucket"

definition auth_newFixedWindowLimiter :: "int \<Rightarrow> duration \<Rightarrow> auth_limiter" where
  "auth_newFixedWindowLimiter limit window = \<lparr>lm_limit = limit, lm_window = window, lm_buckets = Map.empty\<rparr>"

text \<open>
  The critical section of \<open>allow\<close>. The reading of the clock is its argument: the code reads the
  clock before it takes the mutex, so a sequence of calls, which is the order of the mutex, may
  have readings that go back (\<open>Auth_Facts\<close> lets them). Go's reading is monotonic, so instants are integers.
\<close>

definition auth_allow :: "time \<Rightarrow> string \<Rightarrow> auth_limiter \<Rightarrow> (bool \<times> duration) \<times> auth_limiter" where
  "auth_allow now key l =
     (if lm_limit l \<le> 0 \<or> lm_window l \<le> 0 then ((True, 0), l)
      else
        let fresh = ((True, 0), l\<lparr>lm_buckets := (lm_buckets l)(key \<mapsto> \<lparr>bk_windowStart = now, bk_count = 1\<rparr>)\<rparr>)
        in case lm_buckets l key of
             None \<Rightarrow> fresh
           | Some b \<Rightarrow>
               if bk_windowStart b + lm_window l \<le> now then fresh
               else if lm_limit l \<le> bk_count b
               then let retryAfter = bk_windowStart b + lm_window l - now
                    in ((False, if retryAfter < 0 then 0 else retryAfter), l)
               else ((True, 0), l\<lparr>lm_buckets := (lm_buckets l)(key \<mapsto> b\<lparr>bk_count := bk_count b + 1\<rparr>)\<rparr>))"

definition auth_rateLimitKey :: "auth_Request \<Rightarrow> string" where
  "auth_rateLimitKey rq =
     (let token = auth_bearerToken (rq_Authorization rq);
          client = trim_space (hd (split_on (CHR '','') (trim_space (rq_ForwardedFor rq))));
          realIP = trim_space (rq_RealIp rq);
          remote = trim_space (rq_RemoteAddr rq)
      in if token \<noteq> [] then ''bearer:'' @ token
         else if trim_space (rq_ForwardedFor rq) \<noteq> [] \<and> client \<noteq> [] then ''ip:'' @ client
         else if realIP \<noteq> [] then ''ip:'' @ realIP
         else case split_host remote of
                Some host \<Rightarrow> if host \<noteq> [] then ''ip:'' @ host
                             else if remote \<noteq> [] then ''ip:'' @ remote else ''ip:unknown''
              | None \<Rightarrow> if remote \<noteq> [] then ''ip:'' @ remote else ''ip:unknown'')"

text \<open>
  \<open>int(math.Ceil(retryAfter.Seconds()))\<close>, the exact ceiling: for the windows of up to a day the
  platform uses the \<open>float64\<close> seconds are exact to less than a nanosecond.
\<close>

definition auth_retrySeconds :: "duration \<Rightarrow> int" where
  "auth_retrySeconds d = max 1 ((d + second - 1) div second)"

definition auth_FixedWindowRateLimitMiddleware ::
  "time \<Rightarrow> auth_Request \<Rightarrow> auth_limiter \<Rightarrow> auth_response \<times> auth_limiter" where
  "auth_FixedWindowRateLimitMiddleware now rq l =
     (if lm_limit l \<le> 0 \<or> lm_window l \<le> 0 then (AuthNext, l)
      else case auth_allow now (auth_rateLimitKey rq) l of
             ((True, _), l') \<Rightarrow> (AuthNext, l')
           | ((False, d), l') \<Rightarrow> (AuthTooManyRequests (auth_retrySeconds d), l'))"

text \<open>The two middlewares around every mutation, in the order the server composes them.\<close>

definition auth_MutationMiddleware ::
  "string \<Rightarrow> time \<Rightarrow> auth_Request \<Rightarrow> auth_limiter \<Rightarrow> auth_response \<times> auth_limiter" where
  "auth_MutationMiddleware token now rq l =
     (case auth_StaticBearerMiddleware token rq of
        AuthNext \<Rightarrow> auth_FixedWindowRateLimitMiddleware now rq l
      | refused \<Rightarrow> (refused, l))"

end
