(* ===== verification/Http.thy ===== *)
theory Http
  imports Auth
begin

section \<open>HTTP handlers\<close>

text \<open>
  A handler turns a request into a status and a body. The body is the Go value that
  \<open>writeJSON\<close> encodes, or the error that \<open>writeError\<close> reports. The decoding of a JSON request
  body is the standard library's: a handler takes its result, a decoding error or the value.
\<close>

datatype ('e, 'a) reply =
    Reply int 'a
  | ReplyError int 'e

definition StatusOK :: int where "StatusOK = 200"
definition StatusCreated :: int where "StatusCreated = 201"
definition StatusAccepted :: int where "StatusAccepted = 202"
definition StatusBadRequest :: int where "StatusBadRequest = 400"
definition StatusForbidden :: int where "StatusForbidden = 403"
definition StatusNotFound :: int where "StatusNotFound = 404"
definition StatusConflict :: int where "StatusConflict = 409"
definition StatusRequestEntityTooLarge :: int where "StatusRequestEntityTooLarge = 413"
definition StatusUnprocessableEntity :: int where "StatusUnprocessableEntity = 422"
definition StatusInternalServerError :: int where "StatusInternalServerError = 500"
definition StatusNotImplemented :: int where "StatusNotImplemented = 501"
definition StatusServiceUnavailable :: int where "StatusServiceUnavailable = 503"

lemmas http_status_defs [status_defs] = StatusOK_def StatusCreated_def StatusAccepted_def StatusBadRequest_def
  StatusForbidden_def StatusNotFound_def StatusConflict_def StatusInternalServerError_def StatusServiceUnavailable_def
  StatusRequestEntityTooLarge_def StatusUnprocessableEntity_def StatusNotImplemented_def

primrec reply_status :: "('e, 'a) reply \<Rightarrow> int" where
  "reply_status (Reply st x) = st"
| "reply_status (ReplyError st e) = st"

text \<open>The errors a handler itself reports, around those of its service.\<close>

datatype 'e http_error =
    HttpParse string
  | HttpDecode string
  | HttpForbidden int
  | HttpMessage string
  | HttpService 'e

text \<open>\<open>strconv.ParseInt(chi.URLParam(r, name), 10, 64)\<close>: the number, or the error.\<close>

definition path_int64 :: "string \<Rightarrow> 'e http_error + int" where
  "path_int64 raw = (let (v, parsed) = parse_int64 raw in if parsed then Inr v else Inl (HttpParse raw))"

text \<open>
  What decoding a request body gives: a value, \<open>io.EOF\<close> for an empty body, another error, or
  \<open>*http.MaxBytesError\<close> where the body is limited.
\<close>

datatype 'a http_body =
    Body 'a
  | BodyEOF
  | BodyInvalid string
  | BodyTooLarge

text \<open>\<open>json.NewDecoder(r.Body).Decode(&in)\<close> where every error is refused.\<close>

definition decode_body :: "'a http_body \<Rightarrow> 'e http_error + 'a" where
  "decode_body b =
     (case b of Body x \<Rightarrow> Inr x | BodyEOF \<Rightarrow> Inl (HttpDecode ''EOF'') | BodyInvalid e \<Rightarrow> Inl (HttpDecode e)
        | BodyTooLarge \<Rightarrow> Inl (HttpDecode ''http: request body too large''))"

text \<open>\<open>observability.TraceIDFromRequest\<close>: the trace of the context, else of one of two headers.\<close>

record obs_Trace =
  tr_Context :: string
  tr_RequestId :: string
  tr_CorrelationId :: string

definition obs_WithTraceID :: "string \<Rightarrow> obs_Trace \<Rightarrow> obs_Trace" where
  "obs_WithTraceID traceID t = (if trim_space traceID = [] then t else t\<lparr>tr_Context := trim_space traceID\<rparr>)"

definition obs_TraceIDFromRequest :: "obs_Trace \<Rightarrow> string" where
  "obs_TraceIDFromRequest t =
     (if trim_space (tr_Context t) \<noteq> [] then trim_space (tr_Context t)
      else if trim_space (tr_RequestId t) \<noteq> [] then trim_space (tr_RequestId t)
      else trim_space (tr_CorrelationId t))"

end
