(* ===== verification/Workspace_Handlers.thy ===== *)
theory Workspace_Handlers
  imports Workspace_Props Http
begin

section \<open>Tasks and annotations: the handlers\<close>

text \<open>
  \<open>internal/tasks/handler.go\<close> and \<open>internal/annotations/handler.go\<close> over the services. Neither looks at the
  projects of the caller. The handlers of a store answer and leave the new store.
\<close>

subsection \<open>Tasks\<close>

type_synonym tasks_fail = "tasks_error http_error"

text \<open>The shape of the handlers: the path, the body, the operation, then its error under \<open>st\<close> or its answer.\<close>

definition tasks_answer ::
  "int \<Rightarrow> int \<Rightarrow> (tasks_error, 'a, 's) outcome \<Rightarrow> (tasks_fail, 'a) reply \<times> 's" where
  "tasks_answer good bad out = (case out of (Inl e, s) \<Rightarrow> (ReplyError bad (HttpService e), s) | (Inr x, s) \<Rightarrow> (Reply good x, s))"

definition tasks_HandleCreateTask ::
  "clock \<Rightarrow> string \<Rightarrow> tasks_CreateTaskInput http_body \<Rightarrow> tasks_Repo \<Rightarrow> (tasks_fail, tasks_Task) reply \<times> tasks_Repo" where
  "tasks_HandleCreateTask clk rawID body r =
     (case path_int64 rawID of
        Inl e \<Rightarrow> (ReplyError StatusBadRequest e, r)
      | Inr projectID \<Rightarrow>
          (case decode_body body of
             Inl e \<Rightarrow> (ReplyError StatusBadRequest e, r)
           | Inr inp \<Rightarrow> tasks_answer StatusCreated StatusBadRequest (tasks_CreateTask clk (inp\<lparr>ct_ProjectID := projectID\<rparr>) r)))"

text \<open>The query of a listing; \<open>ks\<close> is the order in which the tasks are visited.\<close>

record tasks_query =
  tq_Status :: string
  tq_Kind :: string
  tq_Assignee :: string
  tq_Priority :: string
  tq_SnapshotID :: string

definition tasks_HandleListTasks ::
  "int list \<Rightarrow> string \<Rightarrow> tasks_query \<Rightarrow> tasks_Repo \<Rightarrow> (tasks_fail, tasks_Task list) reply" where
  "tasks_HandleListTasks ks rawID q r =
     (case path_int64 rawID of
        Inl e \<Rightarrow> ReplyError StatusBadRequest e
      | Inr projectID \<Rightarrow>
          (case (if tq_SnapshotID q \<noteq> []
                 then (case path_int64 (tq_SnapshotID q) of Inl e \<Rightarrow> Inl e | Inr v \<Rightarrow> Inr (Some v)) else Inr None) of
             Inl e \<Rightarrow> ReplyError StatusBadRequest e
           | Inr snapshotID \<Rightarrow>
               (case tasks_ListTasks ks projectID
                       \<lparr>lt_Status = tq_Status q, lt_Kind = tq_Kind q, lt_Assignee = tq_Assignee q, lt_Priority = tq_Priority q,
                        lt_SnapshotID = snapshotID\<rparr> r of
                  Inl e \<Rightarrow> ReplyError StatusBadRequest (HttpService e)
                | Inr items \<Rightarrow> Reply StatusOK items)))"

definition tasks_HandleGetTask :: "string \<Rightarrow> tasks_Repo \<Rightarrow> (tasks_fail, tasks_Task) reply" where
  "tasks_HandleGetTask rawID r =
     (case path_int64 rawID of
        Inl e \<Rightarrow> ReplyError StatusBadRequest e
      | Inr tid \<Rightarrow> (case tasks_GetTask tid r of Inl e \<Rightarrow> ReplyError StatusNotFound (HttpService e) | Inr t \<Rightarrow> Reply StatusOK t))"

definition tasks_HandleTransitionTask ::
  "clock \<Rightarrow> string \<Rightarrow> tasks_TransitionTaskInput http_body \<Rightarrow> tasks_Repo \<Rightarrow> (tasks_fail, tasks_Task) reply \<times> tasks_Repo" where
  "tasks_HandleTransitionTask clk rawID body r =
     (case path_int64 rawID of
        Inl e \<Rightarrow> (ReplyError StatusBadRequest e, r)
      | Inr tid \<Rightarrow>
          (case decode_body body of
             Inl e \<Rightarrow> (ReplyError StatusBadRequest e, r)
           | Inr inp \<Rightarrow> tasks_answer StatusOK StatusBadRequest (tasks_TransitionTask clk tid inp r)))"

text \<open>A number that cannot be one of a task is answered as an unknown task; an unknown task that is moved, as a bad request.\<close>

lemma tasks_unknown_answers:
  assumes "path_int64 rawID = (Inr tid :: tasks_fail + int)" "tid \<le> 0 \<or> tr_byID r tid = None"
  shows "reply_status (tasks_HandleGetTask rawID r) = StatusNotFound"
    and "reply_status (fst (tasks_HandleTransitionTask clk rawID (Body inp) r)) = StatusBadRequest"
  using assms
  by (auto simp: tasks_HandleGetTask_def tasks_HandleTransitionTask_def tasks_GetTask_def tasks_repo_GetTask_def
      tasks_TransitionTask_def tasks_answer_def decode_body_def)

subsection \<open>Annotations\<close>

type_synonym ann_fail = "ann_error http_error"

definition ann_writeServiceError :: "ann_error \<Rightarrow> (ann_fail, 'a) reply" where
  "ann_writeServiceError e =
     ReplyError
       (if ann_error_kind e = Some AnnErrNotFound \<or> ann_isNotFoundError e then StatusNotFound
        else if ann_error_kind e = Some AnnErrConflict then StatusConflict
        else if ann_error_kind e = Some AnnErrValidation then StatusUnprocessableEntity
        else StatusBadRequest) (HttpService e)"

definition ann_HandleGetWorkspace :: "'t ann_get \<Rightarrow> string \<Rightarrow> 't ann_Service \<Rightarrow> (ann_fail, ann_Workspace) reply" where
  "ann_HandleGetWorkspace get rawID s =
     (case path_int64 rawID of
        Inl e \<Rightarrow> ReplyError StatusBadRequest e
      | Inr tid \<Rightarrow> (case ann_GetWorkspace get tid s of Inl e \<Rightarrow> ann_writeServiceError e | Inr ws \<Rightarrow> Reply StatusOK ws))"

definition ann_write ::
  "string \<Rightarrow> 'i http_body \<Rightarrow> (int \<Rightarrow> 'i \<Rightarrow> 't ann_Service \<Rightarrow> (ann_error, ann_Workspace, 't ann_Service) outcome) \<Rightarrow>
     't ann_Service \<Rightarrow> (ann_fail, ann_Workspace) reply \<times> 't ann_Service" where
  "ann_write rawID body op s =
     (case path_int64 rawID of
        Inl e \<Rightarrow> (ReplyError StatusBadRequest e, s)
      | Inr tid \<Rightarrow>
          (case decode_body body of
             Inl e \<Rightarrow> (ReplyError StatusBadRequest e, s)
           | Inr inp \<Rightarrow>
               (case op tid inp s of (Inl e, s') \<Rightarrow> (ann_writeServiceError e, s') | (Inr ws, s') \<Rightarrow> (Reply StatusOK ws, s'))))"

definition ann_HandleSaveDraft ::
  "'t ann_get \<Rightarrow> clock \<Rightarrow> string \<Rightarrow> ann_WorkspaceDraftInput http_body \<Rightarrow> 't ann_Service \<Rightarrow>
     (ann_fail, ann_Workspace) reply \<times> 't ann_Service" where
  "ann_HandleSaveDraft get clk rawID body s = ann_write rawID body (ann_SaveWorkspaceDraft get clk) s"

definition ann_HandleSubmitWorkspace ::
  "'t ann_get \<Rightarrow> 't ann_move \<Rightarrow> clock \<Rightarrow> string \<Rightarrow> string http_body \<Rightarrow> 't ann_Service \<Rightarrow>
     (ann_fail, ann_Workspace) reply \<times> 't ann_Service" where
  "ann_HandleSubmitWorkspace get move clk rawID body s = ann_write rawID body (ann_SubmitWorkspace get move clk) s"

text \<open>
  What the handler answers to a save on an annotation task with a snapshot, after any history: 422 for a negative base
  revision, 409 for one that is out of date and for a submitted annotation, and otherwise 200 with the draft under the
  next revision, or under revision 1 if it is the first.
\<close>

theorem ann_save_answers:
  assumes "ann_task_at cs tid = Some task" "task_Kind task = tasks_KindAnnotation" "task_SnapshotID task = Some n"
    and "path_int64 rawID = (Inr tid :: ann_fail + int)"
  shows "let answer = fst (ann_HandleSaveDraft tasks_GetTask clk rawID (Body inp) (ann_after cs)); base = wd_BaseRevision inp in
     if base < 0 then reply_status answer = StatusUnprocessableEntity
     else case ann_at cs tid of
       None \<Rightarrow> \<exists>ws. answer = Reply StatusOK ws \<and> an_Revision (ws_Draft ws) = 1
     | Some a \<Rightarrow>
         if 0 < base \<and> an_Revision a \<noteq> base \<or> an_State a = ann_StateSubmitted then reply_status answer = StatusConflict
         else \<exists>ws. answer = Reply StatusOK ws \<and> an_Revision (ws_Draft ws) = an_Revision a + 1"
proof -
  obtain r t where s: "ann_after cs = ann_state r t" "ann_good r t" by (rule ann_after_state)
  have row: "tr_byID t tid = Some task" using assms(1) by (simp add: ann_task_at_def s)
  have at: "ann_at cs tid = ar_byTaskID r tid" by (simp add: ann_at_def s)
  have run: "fst (ann_HandleSaveDraft tasks_GetTask clk rawID (Body inp) (ann_after cs)) =
    (case fst (ann_SaveWorkspaceDraft tasks_GetTask clk tid inp (ann_state r t)) of
       Inl e \<Rightarrow> ann_writeServiceError e | Inr ws \<Rightarrow> Reply StatusOK ws)"
    unfolding s(1) ann_HandleSaveDraft_def ann_write_def assms(4) by (simp add: decode_body_def split: prod.split sum.split)
  show ?thesis
    unfolding run at ann_workspace_save_run [OF s(2) row assms(2,3)] Let_def
    by (auto simp: ann_writeServiceError_def ann_buildWorkspace_def ann_first_draft_def ann_next_draft_def split: option.split)
qed

theorem ann_save_answers_witness:
  "reply_status (fst (ann_HandleSaveDraft tasks_GetTask (\<lambda>_. 8) ''1'' (Body (ann_wd 4)) (ann_after ann_sample))) = StatusConflict"
proof -
  have "path_int64 ''1'' = (Inr 1 :: ann_fail + int)" by code_simp
  from ann_save_answers [OF ann_sample_at(2) ann_sample_task_simps(1,2) this, of "\<lambda>_. 8" "ann_wd 4"] ann_sample_at(1)
  show ?thesis by (simp add: ann_wd_def)
qed

end
