(* ===== verification/Publish.thy ===== *)
theory Publish
  imports Task_Facts Json_Clone
begin

section \<open>Publish: batches, review, owner decision\<close>

text \<open>
  \<open>internal/publish\<close>: model, service, workspace view and the in-memory repository. A batch is a
  value in the repository map; every read and write copies it (\<open>cloneBatch\<close>), so nothing is
  shared. The service composes the repository with a task creator, given here by its operation
  \<open>create\<close> on a state of its own. \<open>clk\<close> numbers the clock readings of a call in the order in
  which the code makes them.
\<close>

subsection \<open>Constants\<close>

definition pub_SourceSuggested :: string where
  "pub_SourceSuggested = ''suggested''"

definition pub_SourceManual :: string where
  "pub_SourceManual = ''manual''"

lemmas pub_source_defs [status_defs] =
  pub_SourceSuggested_def pub_SourceManual_def

lemma pub_source_distinct [simp]:
  "pub_SourceSuggested \<noteq> pub_SourceManual"
  "pub_SourceManual \<noteq> pub_SourceSuggested"
  by (simp_all add: pub_source_defs)

lemma pub_source_nonempty [simp]:
  "pub_SourceSuggested \<noteq> []"
  "pub_SourceManual \<noteq> []"
  by (simp_all add: pub_source_defs)

definition pub_StatusDraft :: string where
  "pub_StatusDraft = ''draft''"

definition pub_StatusReviewPending :: string where
  "pub_StatusReviewPending = ''review_pending''"

definition pub_StatusReviewApproved :: string where
  "pub_StatusReviewApproved = ''review_approved''"

definition pub_StatusOwnerPending :: string where
  "pub_StatusOwnerPending = ''owner_pending''"

definition pub_StatusOwnerChangesRequested :: string where
  "pub_StatusOwnerChangesRequested = ''owner_changes_requested''"

definition pub_StatusRejected :: string where
  "pub_StatusRejected = ''rejected''"

definition pub_StatusPublished :: string where
  "pub_StatusPublished = ''published''"

definition pub_StatusSuperseded :: string where
  "pub_StatusSuperseded = ''superseded''"

lemmas pub_status_defs [status_defs] =
  pub_StatusDraft_def pub_StatusReviewPending_def pub_StatusReviewApproved_def pub_StatusOwnerPending_def pub_StatusOwnerChangesRequested_def pub_StatusRejected_def pub_StatusPublished_def pub_StatusSuperseded_def

lemma pub_status_distinct [simp]:
  "pub_StatusDraft \<noteq> pub_StatusReviewPending"
  "pub_StatusDraft \<noteq> pub_StatusReviewApproved"
  "pub_StatusDraft \<noteq> pub_StatusOwnerPending"
  "pub_StatusDraft \<noteq> pub_StatusOwnerChangesRequested"
  "pub_StatusDraft \<noteq> pub_StatusRejected"
  "pub_StatusDraft \<noteq> pub_StatusPublished"
  "pub_StatusDraft \<noteq> pub_StatusSuperseded"
  "pub_StatusReviewPending \<noteq> pub_StatusDraft"
  "pub_StatusReviewPending \<noteq> pub_StatusReviewApproved"
  "pub_StatusReviewPending \<noteq> pub_StatusOwnerPending"
  "pub_StatusReviewPending \<noteq> pub_StatusOwnerChangesRequested"
  "pub_StatusReviewPending \<noteq> pub_StatusRejected"
  "pub_StatusReviewPending \<noteq> pub_StatusPublished"
  "pub_StatusReviewPending \<noteq> pub_StatusSuperseded"
  "pub_StatusReviewApproved \<noteq> pub_StatusDraft"
  "pub_StatusReviewApproved \<noteq> pub_StatusReviewPending"
  "pub_StatusReviewApproved \<noteq> pub_StatusOwnerPending"
  "pub_StatusReviewApproved \<noteq> pub_StatusOwnerChangesRequested"
  "pub_StatusReviewApproved \<noteq> pub_StatusRejected"
  "pub_StatusReviewApproved \<noteq> pub_StatusPublished"
  "pub_StatusReviewApproved \<noteq> pub_StatusSuperseded"
  "pub_StatusOwnerPending \<noteq> pub_StatusDraft"
  "pub_StatusOwnerPending \<noteq> pub_StatusReviewPending"
  "pub_StatusOwnerPending \<noteq> pub_StatusReviewApproved"
  "pub_StatusOwnerPending \<noteq> pub_StatusOwnerChangesRequested"
  "pub_StatusOwnerPending \<noteq> pub_StatusRejected"
  "pub_StatusOwnerPending \<noteq> pub_StatusPublished"
  "pub_StatusOwnerPending \<noteq> pub_StatusSuperseded"
  "pub_StatusOwnerChangesRequested \<noteq> pub_StatusDraft"
  "pub_StatusOwnerChangesRequested \<noteq> pub_StatusReviewPending"
  "pub_StatusOwnerChangesRequested \<noteq> pub_StatusReviewApproved"
  "pub_StatusOwnerChangesRequested \<noteq> pub_StatusOwnerPending"
  "pub_StatusOwnerChangesRequested \<noteq> pub_StatusRejected"
  "pub_StatusOwnerChangesRequested \<noteq> pub_StatusPublished"
  "pub_StatusOwnerChangesRequested \<noteq> pub_StatusSuperseded"
  "pub_StatusRejected \<noteq> pub_StatusDraft"
  "pub_StatusRejected \<noteq> pub_StatusReviewPending"
  "pub_StatusRejected \<noteq> pub_StatusReviewApproved"
  "pub_StatusRejected \<noteq> pub_StatusOwnerPending"
  "pub_StatusRejected \<noteq> pub_StatusOwnerChangesRequested"
  "pub_StatusRejected \<noteq> pub_StatusPublished"
  "pub_StatusRejected \<noteq> pub_StatusSuperseded"
  "pub_StatusPublished \<noteq> pub_StatusDraft"
  "pub_StatusPublished \<noteq> pub_StatusReviewPending"
  "pub_StatusPublished \<noteq> pub_StatusReviewApproved"
  "pub_StatusPublished \<noteq> pub_StatusOwnerPending"
  "pub_StatusPublished \<noteq> pub_StatusOwnerChangesRequested"
  "pub_StatusPublished \<noteq> pub_StatusRejected"
  "pub_StatusPublished \<noteq> pub_StatusSuperseded"
  "pub_StatusSuperseded \<noteq> pub_StatusDraft"
  "pub_StatusSuperseded \<noteq> pub_StatusReviewPending"
  "pub_StatusSuperseded \<noteq> pub_StatusReviewApproved"
  "pub_StatusSuperseded \<noteq> pub_StatusOwnerPending"
  "pub_StatusSuperseded \<noteq> pub_StatusOwnerChangesRequested"
  "pub_StatusSuperseded \<noteq> pub_StatusRejected"
  "pub_StatusSuperseded \<noteq> pub_StatusPublished"
  by (simp_all add: pub_status_defs)

lemma pub_status_nonempty [simp]:
  "pub_StatusDraft \<noteq> []"
  "pub_StatusReviewPending \<noteq> []"
  "pub_StatusReviewApproved \<noteq> []"
  "pub_StatusOwnerPending \<noteq> []"
  "pub_StatusOwnerChangesRequested \<noteq> []"
  "pub_StatusRejected \<noteq> []"
  "pub_StatusPublished \<noteq> []"
  "pub_StatusSuperseded \<noteq> []"
  by (simp_all add: pub_status_defs)

definition pub_FeedbackScopeBatch :: string where
  "pub_FeedbackScopeBatch = ''batch''"

definition pub_FeedbackScopeItem :: string where
  "pub_FeedbackScopeItem = ''item''"

lemmas pub_scope_defs [status_defs] =
  pub_FeedbackScopeBatch_def pub_FeedbackScopeItem_def

lemma pub_scope_distinct [simp]:
  "pub_FeedbackScopeBatch \<noteq> pub_FeedbackScopeItem"
  "pub_FeedbackScopeItem \<noteq> pub_FeedbackScopeBatch"
  by (simp_all add: pub_scope_defs)

lemma pub_scope_nonempty [simp]:
  "pub_FeedbackScopeBatch \<noteq> []"
  "pub_FeedbackScopeItem \<noteq> []"
  by (simp_all add: pub_scope_defs)

definition pub_FeedbackStageReview :: string where
  "pub_FeedbackStageReview = ''review''"

definition pub_FeedbackStageOwner :: string where
  "pub_FeedbackStageOwner = ''owner''"

lemmas pub_stage_defs [status_defs] =
  pub_FeedbackStageReview_def pub_FeedbackStageOwner_def

lemma pub_stage_distinct [simp]:
  "pub_FeedbackStageReview \<noteq> pub_FeedbackStageOwner"
  "pub_FeedbackStageOwner \<noteq> pub_FeedbackStageReview"
  by (simp_all add: pub_stage_defs)

lemma pub_stage_nonempty [simp]:
  "pub_FeedbackStageReview \<noteq> []"
  "pub_FeedbackStageOwner \<noteq> []"
  by (simp_all add: pub_stage_defs)

definition pub_FeedbackActionReject :: string where
  "pub_FeedbackActionReject = ''reject''"

definition pub_FeedbackActionRework :: string where
  "pub_FeedbackActionRework = ''rework''"

definition pub_FeedbackActionComment :: string where
  "pub_FeedbackActionComment = ''comment''"

lemmas pub_action_defs [status_defs] =
  pub_FeedbackActionReject_def pub_FeedbackActionRework_def pub_FeedbackActionComment_def

lemma pub_action_distinct [simp]:
  "pub_FeedbackActionReject \<noteq> pub_FeedbackActionRework"
  "pub_FeedbackActionReject \<noteq> pub_FeedbackActionComment"
  "pub_FeedbackActionRework \<noteq> pub_FeedbackActionReject"
  "pub_FeedbackActionRework \<noteq> pub_FeedbackActionComment"
  "pub_FeedbackActionComment \<noteq> pub_FeedbackActionReject"
  "pub_FeedbackActionComment \<noteq> pub_FeedbackActionRework"
  by (simp_all add: pub_action_defs)

lemma pub_action_nonempty [simp]:
  "pub_FeedbackActionReject \<noteq> []"
  "pub_FeedbackActionRework \<noteq> []"
  "pub_FeedbackActionComment \<noteq> []"
  by (simp_all add: pub_action_defs)

definition pub_ReviewDecisionApprove :: string where
  "pub_ReviewDecisionApprove = ''approve''"

definition pub_ReviewDecisionReject :: string where
  "pub_ReviewDecisionReject = ''reject''"

definition pub_ReviewDecisionRework :: string where
  "pub_ReviewDecisionRework = ''rework''"

lemmas pub_review_defs [status_defs] =
  pub_ReviewDecisionApprove_def pub_ReviewDecisionReject_def pub_ReviewDecisionRework_def

lemma pub_review_distinct [simp]:
  "pub_ReviewDecisionApprove \<noteq> pub_ReviewDecisionReject"
  "pub_ReviewDecisionApprove \<noteq> pub_ReviewDecisionRework"
  "pub_ReviewDecisionReject \<noteq> pub_ReviewDecisionApprove"
  "pub_ReviewDecisionReject \<noteq> pub_ReviewDecisionRework"
  "pub_ReviewDecisionRework \<noteq> pub_ReviewDecisionApprove"
  "pub_ReviewDecisionRework \<noteq> pub_ReviewDecisionReject"
  by (simp_all add: pub_review_defs)

lemma pub_review_nonempty [simp]:
  "pub_ReviewDecisionApprove \<noteq> []"
  "pub_ReviewDecisionReject \<noteq> []"
  "pub_ReviewDecisionRework \<noteq> []"
  by (simp_all add: pub_review_defs)

definition pub_OwnerDecisionApprove :: string where
  "pub_OwnerDecisionApprove = ''approve''"

definition pub_OwnerDecisionReject :: string where
  "pub_OwnerDecisionReject = ''reject''"

definition pub_OwnerDecisionRework :: string where
  "pub_OwnerDecisionRework = ''rework''"

lemmas pub_owner_defs [status_defs] =
  pub_OwnerDecisionApprove_def pub_OwnerDecisionReject_def pub_OwnerDecisionRework_def

lemma pub_owner_distinct [simp]:
  "pub_OwnerDecisionApprove \<noteq> pub_OwnerDecisionReject"
  "pub_OwnerDecisionApprove \<noteq> pub_OwnerDecisionRework"
  "pub_OwnerDecisionReject \<noteq> pub_OwnerDecisionApprove"
  "pub_OwnerDecisionReject \<noteq> pub_OwnerDecisionRework"
  "pub_OwnerDecisionRework \<noteq> pub_OwnerDecisionApprove"
  "pub_OwnerDecisionRework \<noteq> pub_OwnerDecisionReject"
  by (simp_all add: pub_owner_defs)

lemma pub_owner_nonempty [simp]:
  "pub_OwnerDecisionApprove \<noteq> []"
  "pub_OwnerDecisionReject \<noteq> []"
  "pub_OwnerDecisionRework \<noteq> []"
  by (simp_all add: pub_owner_defs)

subsection \<open>Records and errors\<close>

record pub_BatchItem =
  bi_ID :: int
  bi_PublishBatchID :: int
  bi_CandidateID :: int
  bi_TaskID :: int
  bi_DatasetID :: int
  bi_SnapshotID :: int
  bi_ItemPayload :: obj
  bi_Position :: int
  bi_CreatedAt :: time
  bi_UpdatedAt :: time

record pub_Feedback =
  fb_ID :: int
  fb_PublishBatchID :: int
  fb_PublishBatchItemID :: int
  fb_Scope :: string
  fb_Stage :: string
  fb_Action :: string
  fb_ReasonCode :: string
  fb_Severity :: string
  fb_InfluenceWeight :: real
  fb_Comment :: string
  fb_CreatedBy :: string
  fb_CreatedAt :: time

record pub_Batch =
  bt_ID :: int
  bt_ProjectID :: int
  bt_SnapshotID :: int
  bt_Source :: string
  bt_Status :: string
  bt_RuleSummary :: obj
  bt_OwnerEditVersion :: int
  bt_ReviewApprovedAt :: "time option"
  bt_ReviewApprovedBy :: string
  bt_OwnerDecidedAt :: "time option"
  bt_OwnerDecidedBy :: string
  bt_Items :: "pub_BatchItem list"
  bt_Feedback :: "pub_Feedback list"
  bt_CreatedAt :: time
  bt_UpdatedAt :: time

record pub_Record =
  rec_ID :: int
  rec_ProjectID :: int
  rec_SnapshotID :: int
  rec_PublishBatchID :: int
  rec_Status :: string
  rec_Summary :: obj
  rec_ApprovedByOwner :: string
  rec_ApprovedAt :: time
  rec_CreatedAt :: time

record pub_SuggestedCandidateItem =
  si_CandidateID :: int
  si_TaskID :: int
  si_DatasetID :: int
  si_ItemPayload :: obj

record pub_SuggestedCandidate =
  sc_SnapshotID :: int
  sc_SuggestionKey :: string
  sc_Summary :: obj
  sc_Items :: "pub_SuggestedCandidateItem list"

record pub_CreateBatchItemInput =
  ci_CandidateID :: int
  ci_TaskID :: int
  ci_DatasetID :: int
  ci_SnapshotID :: int
  ci_ItemPayload :: obj

record pub_CreateBatchInput =
  cb_ProjectID :: int
  cb_SnapshotID :: int
  cb_Source :: string
  cb_RuleSummary :: obj
  cb_Items :: "pub_CreateBatchItemInput list"

record pub_CreateFeedbackInput =
  cf_Scope :: string
  cf_Stage :: string
  cf_Action :: string
  cf_ReasonCode :: string
  cf_Severity :: string
  cf_InfluenceWeight :: real
  cf_Comment :: string
  cf_Actor :: string

record pub_WorkspaceItem =
  wi_ItemID :: int
  wi_CandidateID :: int
  wi_TaskID :: int
  wi_Overlay :: obj
  wi_Diff :: obj
  wi_Context :: obj
  wi_Feedback :: "pub_Feedback list"

record pub_TimelineEntry =
  tl_Stage :: string
  tl_Actor :: string
  tl_Action :: string
  tl_At :: time

record pub_Workspace =
  pw_Batch :: pub_Batch
  pw_Items :: "pub_WorkspaceItem list"
  pw_History :: "pub_TimelineEntry list"

datatype pub_error =
    PubBatchNotFound int
  | PubRecordNotFound int
  | PubItemNotFound int
  | PubUnsupportedReviewDecision string
  | PubUnsupportedOwnerDecision string
  | PubProjectIDNotPositive
  | PubSnapshotIDNotPositive
  | PubInvalidSource string
  | PubItemsRequired
  | PubCandidateIDNotPositive
  | PubTaskIDNotPositive
  | PubDatasetIDNotPositive
  | PubItemSnapshotIDNotPositive
  | PubItemSnapshotMismatch int int
  | PubBatchIDNotPositive
  | PubRecordIDNotPositive
  | PubItemIDNotPositive
  | PubNotEditable int
  | PubNotReviewable int
  | PubNotReadyForApproval int
  | PubNotReadyForDecision int
  | PubTaskError tasks_error

subsection \<open>Copies and views\<close>

definition pub_cloneItem :: "pub_BatchItem \<Rightarrow> pub_BatchItem" where
  "pub_cloneItem i = i\<lparr>bi_ItemPayload := json_clone (bi_ItemPayload i)\<rparr>"

definition pub_cloneBatch :: "pub_Batch \<Rightarrow> pub_Batch" where
  "pub_cloneBatch b =
     b\<lparr>bt_RuleSummary := json_clone (bt_RuleSummary b), bt_Items := map pub_cloneItem (bt_Items b)\<rparr>"

definition pub_cloneRecord :: "pub_Record \<Rightarrow> pub_Record" where
  "pub_cloneRecord x = x\<lparr>rec_Summary := json_clone (rec_Summary x)\<rparr>"

definition pub_cloneSuggestedCandidate :: "pub_SuggestedCandidate \<Rightarrow> pub_SuggestedCandidate" where
  "pub_cloneSuggestedCandidate c =
     c\<lparr>sc_Summary := json_clone (sc_Summary c),
       sc_Items := map (\<lambda>i. i\<lparr>si_ItemPayload := json_clone (si_ItemPayload i)\<rparr>) (sc_Items c)\<rparr>"

definition pub_nestedPayload :: "obj \<Rightarrow> string \<Rightarrow> obj" where
  "pub_nestedPayload payload k = (case obj_get payload k of GObj m \<Rightarrow> json_clone m | _ \<Rightarrow> [])"

definition pub_buildWorkspace :: "pub_Batch \<Rightarrow> pub_Workspace" where
  "pub_buildWorkspace b =
     \<lparr>pw_Batch = b,
      pw_Items = map (\<lambda>i. \<lparr>wi_ItemID = bi_ID i, wi_CandidateID = bi_CandidateID i, wi_TaskID = bi_TaskID i,
          wi_Overlay = pub_nestedPayload (bi_ItemPayload i) ''overlay'',
          wi_Diff = pub_nestedPayload (bi_ItemPayload i) ''diff'',
          wi_Context = pub_nestedPayload (bi_ItemPayload i) ''context'',
          wi_Feedback = filter (\<lambda>f. fb_Scope f = pub_FeedbackScopeItem \<and> fb_PublishBatchItemID f = bi_ID i)
            (bt_Feedback b)\<rparr>) (bt_Items b),
      pw_History =
        (case bt_ReviewApprovedAt b of
           Some t \<Rightarrow> if bt_ReviewApprovedBy b \<noteq> []
                     then [\<lparr>tl_Stage = pub_FeedbackStageReview, tl_Actor = bt_ReviewApprovedBy b,
                            tl_Action = pub_ReviewDecisionApprove, tl_At = t\<rparr>] else []
         | None \<Rightarrow> []) @
        (case bt_OwnerDecidedAt b of
           Some t \<Rightarrow> if bt_OwnerDecidedBy b \<noteq> []
                     then [\<lparr>tl_Stage = pub_FeedbackStageOwner, tl_Actor = bt_OwnerDecidedBy b,
                            tl_Action = bt_Status b, tl_At = t\<rparr>] else []
         | None \<Rightarrow> [])\<rparr>"

subsection \<open>The in-memory repository\<close>

record pub_Repo =
  pr_nextBatch :: int
  pr_nextItem :: int
  pr_nextFeed :: int
  pr_nextRecord :: int
  pr_batches :: "int \<rightharpoonup> pub_Batch"
  pr_records :: "int \<rightharpoonup> pub_Record"
  pr_suggested :: "pub_SuggestedCandidate list"

type_synonym 'a pub_result = "(pub_error, 'a, pub_Repo) outcome"

definition pub_NewInMemoryRepository :: pub_Repo where
  "pub_NewInMemoryRepository =
     \<lparr>pr_nextBatch = 1, pr_nextItem = 1, pr_nextFeed = 1, pr_nextRecord = 1,
      pr_batches = Map.empty, pr_records = Map.empty, pr_suggested = []\<rparr>"

text \<open>The loop that numbers the items: \<open>n\<close> is the next item ID, \<open>pos\<close> the position.\<close>

fun pub_makeItems :: "time \<Rightarrow> int \<Rightarrow> int \<Rightarrow> int \<Rightarrow> pub_CreateBatchItemInput list \<Rightarrow> pub_BatchItem list" where
  "pub_makeItems now bid n pos [] = []"
| "pub_makeItems now bid n pos (x # xs) =
     \<lparr>bi_ID = n, bi_PublishBatchID = bid, bi_CandidateID = ci_CandidateID x, bi_TaskID = ci_TaskID x,
      bi_DatasetID = ci_DatasetID x, bi_SnapshotID = ci_SnapshotID x,
      bi_ItemPayload = json_clone (ci_ItemPayload x), bi_Position = pos,
      bi_CreatedAt = now, bi_UpdatedAt = now\<rparr> # pub_makeItems now bid (n + 1) (pos + 1) xs"

definition pub_repo_CreateBatch :: "time \<Rightarrow> pub_CreateBatchInput \<Rightarrow> pub_Repo \<Rightarrow> pub_Batch pub_result" where
  "pub_repo_CreateBatch now inp r =
     (let b = \<lparr>bt_ID = pr_nextBatch r, bt_ProjectID = cb_ProjectID inp, bt_SnapshotID = cb_SnapshotID inp,
            bt_Source = cb_Source inp, bt_Status = pub_StatusDraft,
            bt_RuleSummary = json_clone (cb_RuleSummary inp), bt_OwnerEditVersion = 0,
            bt_ReviewApprovedAt = None, bt_ReviewApprovedBy = [], bt_OwnerDecidedAt = None,
            bt_OwnerDecidedBy = [],
            bt_Items = pub_makeItems now (pr_nextBatch r) (pr_nextItem r) 0 (cb_Items inp),
            bt_Feedback = [], bt_CreatedAt = now, bt_UpdatedAt = now\<rparr>
      in (Inr (pub_cloneBatch b),
          r\<lparr>pr_nextBatch := pr_nextBatch r + 1, pr_nextItem := pr_nextItem r + int (length (cb_Items inp)),
            pr_batches := (pr_batches r)(bt_ID b \<mapsto> pub_cloneBatch b)\<rparr>))"

definition pub_repo_GetBatch :: "int \<Rightarrow> pub_Repo \<Rightarrow> pub_error + pub_Batch" where
  "pub_repo_GetBatch bid r =
     (case pr_batches r bid of None \<Rightarrow> Inl (PubBatchNotFound bid) | Some b \<Rightarrow> Inr (pub_cloneBatch b))"

definition pub_repo_GetRecord :: "int \<Rightarrow> pub_Repo \<Rightarrow> pub_error + pub_Record" where
  "pub_repo_GetRecord rid r =
     (case pr_records r rid of None \<Rightarrow> Inl (PubRecordNotFound rid) | Some x \<Rightarrow> Inr (pub_cloneRecord x))"

definition pub_repo_BuildWorkspace :: "int \<Rightarrow> pub_Repo \<Rightarrow> pub_error + pub_Workspace" where
  "pub_repo_BuildWorkspace bid r =
     (case pr_batches r bid of
        None \<Rightarrow> Inl (PubBatchNotFound bid)
      | Some b \<Rightarrow> Inr (pub_buildWorkspace (pub_cloneBatch b)))"

definition pub_repo_ReplaceBatchItems ::
  "time \<Rightarrow> int \<Rightarrow> pub_CreateBatchItemInput list \<Rightarrow> pub_Repo \<Rightarrow> pub_Batch pub_result" where
  "pub_repo_ReplaceBatchItems now bid items r =
     (case pr_batches r bid of
        None \<Rightarrow> (Inl (PubBatchNotFound bid), r)
      | Some b \<Rightarrow>
          let b' = b\<lparr>bt_Items := pub_makeItems now (bt_ID b) (pr_nextItem r) 0 items,
                     bt_Status := pub_StatusOwnerChangesRequested,
                     bt_OwnerEditVersion := bt_OwnerEditVersion b + 1,
                     bt_ReviewApprovedAt := None, bt_ReviewApprovedBy := [],
                     bt_OwnerDecidedAt := None, bt_OwnerDecidedBy := [], bt_UpdatedAt := now\<rparr>
          in (Inr (pub_cloneBatch b'),
              r\<lparr>pr_nextItem := pr_nextItem r + int (length items),
                pr_batches := (pr_batches r)(bid \<mapsto> pub_cloneBatch b')\<rparr>))"

definition pub_newFeedback ::
  "time \<Rightarrow> int \<Rightarrow> int \<Rightarrow> int option \<Rightarrow> pub_CreateFeedbackInput \<Rightarrow> pub_Feedback" where
  "pub_newFeedback now n bid itemID inp =
     \<lparr>fb_ID = n, fb_PublishBatchID = bid,
      fb_PublishBatchItemID = (case itemID of None \<Rightarrow> 0 | Some i \<Rightarrow> i),
      fb_Scope = (if cf_Scope inp = []
                  then (if itemID = None then pub_FeedbackScopeBatch else pub_FeedbackScopeItem)
                  else cf_Scope inp),
      fb_Stage = (if cf_Stage inp = [] then pub_FeedbackStageReview else cf_Stage inp),
      fb_Action = (if cf_Action inp = [] then pub_FeedbackActionComment else cf_Action inp),
      fb_ReasonCode = (if cf_ReasonCode inp = [] then ''unspecified'' else cf_ReasonCode inp),
      fb_Severity = (if cf_Severity inp = [] then ''medium'' else cf_Severity inp),
      fb_InfluenceWeight = (if cf_InfluenceWeight inp = 0 then 1 else cf_InfluenceWeight inp),
      fb_Comment = cf_Comment inp, fb_CreatedBy = cf_Actor inp, fb_CreatedAt = now\<rparr>"

text \<open>The feedback entries of a decision; the \<open>i\<close>-th one is stamped by the \<open>i\<close>-th clock reading.\<close>

fun pub_newFeedbacks :: "clock \<Rightarrow> int \<Rightarrow> int \<Rightarrow> pub_CreateFeedbackInput list \<Rightarrow> pub_Feedback list" where
  "pub_newFeedbacks clk n bid [] = []"
| "pub_newFeedbacks clk n bid (x # xs) =
     pub_newFeedback (clk 0) n bid None x # pub_newFeedbacks (clock_drop 1 clk) (n + 1) bid xs"

definition pub_repo_ApplyReviewDecision ::
  "clock \<Rightarrow> int \<Rightarrow> string \<Rightarrow> string \<Rightarrow> pub_CreateFeedbackInput list \<Rightarrow> pub_Repo \<Rightarrow> unit pub_result" where
  "pub_repo_ApplyReviewDecision clk bid decision actor feedback r =
     (case pr_batches r bid of
        None \<Rightarrow> (Inl (PubBatchNotFound bid), r)
      | Some b \<Rightarrow>
          let b1 = b\<lparr>bt_Feedback := bt_Feedback b @ pub_newFeedbacks clk (pr_nextFeed r) bid feedback\<rparr>;
              r1 = r\<lparr>pr_nextFeed := pr_nextFeed r + int (length feedback)\<rparr>;
              now = clk (length feedback);
              store = (\<lambda>b2. (Inr (), r1\<lparr>pr_batches := (pr_batches r)(bid \<mapsto>
                         pub_cloneBatch (b2\<lparr>bt_UpdatedAt := now\<rparr>))\<rparr>))
          in if decision = pub_ReviewDecisionApprove
             then store (b1\<lparr>bt_Status := pub_StatusReviewApproved, bt_ReviewApprovedAt := Some now,
                            bt_ReviewApprovedBy := actor\<rparr>)
             else if decision = pub_ReviewDecisionReject
             then store (b1\<lparr>bt_Status := pub_StatusRejected, bt_ReviewApprovedAt := None,
                            bt_ReviewApprovedBy := []\<rparr>)
             else if decision = pub_ReviewDecisionRework
             then store (b1\<lparr>bt_Status := pub_StatusOwnerChangesRequested, bt_ReviewApprovedAt := None,
                            bt_ReviewApprovedBy := []\<rparr>)
             else (Inl (PubUnsupportedReviewDecision decision), r1))"

text \<open>\<open>None\<close> is the empty \<open>Record{}\<close> that a decision other than approval returns.\<close>

definition pub_repo_ApplyOwnerDecision ::
  "clock \<Rightarrow> int \<Rightarrow> string \<Rightarrow> string \<Rightarrow> pub_CreateFeedbackInput list \<Rightarrow> pub_Repo \<Rightarrow> pub_Record option pub_result" where
  "pub_repo_ApplyOwnerDecision clk bid decision actor feedback r =
     (case pr_batches r bid of
        None \<Rightarrow> (Inl (PubBatchNotFound bid), r)
      | Some b \<Rightarrow>
          let now = clk (length feedback);
              b1 = b\<lparr>bt_Feedback := bt_Feedback b @ pub_newFeedbacks clk (pr_nextFeed r) bid feedback,
                     bt_OwnerDecidedAt := Some now, bt_OwnerDecidedBy := actor, bt_UpdatedAt := now\<rparr>;
              r1 = r\<lparr>pr_nextFeed := pr_nextFeed r + int (length feedback)\<rparr>
          in if decision = pub_OwnerDecisionApprove
             then
               let x = \<lparr>rec_ID = pr_nextRecord r, rec_ProjectID = bt_ProjectID b, rec_SnapshotID = bt_SnapshotID b,
                        rec_PublishBatchID = bt_ID b, rec_Status = pub_StatusPublished,
                        rec_Summary = [(''decision'', GStr pub_OwnerDecisionApprove),
                          (''batch_id'', GInt64 (bt_ID b)), (''snapshot_id'', GInt64 (bt_SnapshotID b))],
                        rec_ApprovedByOwner = actor, rec_ApprovedAt = now, rec_CreatedAt = now\<rparr>
               in (Inr (Some (pub_cloneRecord x)),
                   r1\<lparr>pr_nextRecord := pr_nextRecord r + 1,
                      pr_records := (pr_records r)(rec_ID x \<mapsto> pub_cloneRecord x),
                      pr_batches := (pr_batches r)(bid \<mapsto> pub_cloneBatch (b1\<lparr>bt_Status := pub_StatusPublished\<rparr>))\<rparr>)
             else if decision = pub_OwnerDecisionReject
             then (Inr None, r1\<lparr>pr_batches := (pr_batches r)(bid \<mapsto>
                     pub_cloneBatch (b1\<lparr>bt_Status := pub_StatusRejected\<rparr>))\<rparr>)
             else if decision = pub_OwnerDecisionRework
             then (Inr None, r1\<lparr>pr_batches := (pr_batches r)(bid \<mapsto>
                     pub_cloneBatch (b1\<lparr>bt_Status := pub_StatusOwnerChangesRequested\<rparr>))\<rparr>)
             else (Inl (PubUnsupportedOwnerDecision decision), r1))"

definition pub_repo_addFeedback ::
  "time \<Rightarrow> int \<Rightarrow> int option \<Rightarrow> pub_CreateFeedbackInput \<Rightarrow> pub_Batch \<Rightarrow> pub_Repo \<Rightarrow> pub_Feedback pub_result" where
  "pub_repo_addFeedback now bid itemID inp b r =
     (let f = pub_newFeedback now (pr_nextFeed r) bid itemID inp;
          b' = b\<lparr>bt_Feedback := bt_Feedback b @ [f], bt_UpdatedAt := fb_CreatedAt f\<rparr>
      in (Inr f, r\<lparr>pr_nextFeed := pr_nextFeed r + 1,
                   pr_batches := (pr_batches r)(bid \<mapsto> pub_cloneBatch b')\<rparr>))"

definition pub_repo_AddBatchFeedback ::
  "time \<Rightarrow> int \<Rightarrow> pub_CreateFeedbackInput \<Rightarrow> pub_Repo \<Rightarrow> pub_Feedback pub_result" where
  "pub_repo_AddBatchFeedback now bid inp r =
     (case pr_batches r bid of
        None \<Rightarrow> (Inl (PubBatchNotFound bid), r)
      | Some b \<Rightarrow> pub_repo_addFeedback now bid None inp b r)"

definition pub_repo_AddItemFeedback ::
  "time \<Rightarrow> int \<Rightarrow> int \<Rightarrow> pub_CreateFeedbackInput \<Rightarrow> pub_Repo \<Rightarrow> pub_Feedback pub_result" where
  "pub_repo_AddItemFeedback now bid iid inp r =
     (case pr_batches r bid of
        None \<Rightarrow> (Inl (PubBatchNotFound bid), r)
      | Some b \<Rightarrow>
          if iid \<notin> bi_ID ` set (bt_Items b) then (Inl (PubItemNotFound iid), r)
          else pub_repo_addFeedback now bid (Some iid) inp b r)"

definition pub_repo_ListSuggestedCandidates :: "pub_Repo \<Rightarrow> pub_SuggestedCandidate list" where
  "pub_repo_ListSuggestedCandidates r = map pub_cloneSuggestedCandidate (pr_suggested r)"

definition pub_SeedSuggestedCandidates :: "pub_SuggestedCandidate list \<Rightarrow> pub_Repo \<Rightarrow> pub_Repo" where
  "pub_SeedSuggestedCandidates items r = r\<lparr>pr_suggested := map pub_cloneSuggestedCandidate items\<rparr>"

subsection \<open>The service\<close>

record 't pub_Service =
  psv_repo :: pub_Repo
  psv_tasks :: "'t option"

type_synonym 't pub_create =
  "clock \<Rightarrow> tasks_CreateTaskInput \<Rightarrow> 't \<Rightarrow> (tasks_error, tasks_Task, 't) outcome"

definition pub_on_repo :: "(pub_Repo \<Rightarrow> 'a pub_result) \<Rightarrow> 't pub_Service \<Rightarrow> (pub_error, 'a, 't pub_Service) outcome" where
  "pub_on_repo f s = (case f (psv_repo s) of (res, r) \<Rightarrow> (res, s\<lparr>psv_repo := r\<rparr>))"

definition pub_normalizeSource :: "string \<Rightarrow> string" where
  "pub_normalizeSource s = (let s' = norm_token s in if s' = [] then pub_SourceManual else s')"

definition pub_isValidSource :: "string \<Rightarrow> bool" where
  "pub_isValidSource s \<longleftrightarrow> s \<in> {pub_SourceSuggested, pub_SourceManual}"

definition pub_normalizeActor :: "string \<Rightarrow> string" where
  "pub_normalizeActor actor = (let a = trim_space actor in if a = [] then ''system'' else a)"

definition pub_isEditableStatus :: "string \<Rightarrow> bool" where
  "pub_isEditableStatus st \<longleftrightarrow>
     st \<in> {pub_StatusDraft, pub_StatusReviewPending, pub_StatusReviewApproved, pub_StatusOwnerPending,
           pub_StatusOwnerChangesRequested}"

definition pub_validateBatchItem :: "int \<Rightarrow> pub_CreateBatchItemInput \<Rightarrow> pub_error + unit" where
  "pub_validateBatchItem snapshotID x =
     (if ci_CandidateID x \<le> 0 then Inl PubCandidateIDNotPositive
      else if ci_TaskID x \<le> 0 then Inl PubTaskIDNotPositive
      else if ci_DatasetID x \<le> 0 then Inl PubDatasetIDNotPositive
      else if ci_SnapshotID x \<le> 0 then Inl PubItemSnapshotIDNotPositive
      else if ci_SnapshotID x \<noteq> snapshotID then Inl (PubItemSnapshotMismatch (ci_SnapshotID x) snapshotID)
      else Inr ())"

fun pub_validateItems :: "int \<Rightarrow> pub_CreateBatchItemInput list \<Rightarrow> pub_error + unit" where
  "pub_validateItems snapshotID [] = Inr ()"
| "pub_validateItems snapshotID (x # xs) =
     (case pub_validateBatchItem snapshotID x of Inl e \<Rightarrow> Inl e | Inr _ \<Rightarrow> pub_validateItems snapshotID xs)"

definition pub_normalizeDecisionFeedback ::
  "pub_CreateFeedbackInput list \<Rightarrow> string \<Rightarrow> string \<Rightarrow> pub_CreateFeedbackInput list" where
  "pub_normalizeDecisionFeedback items actor stage =
     map (\<lambda>x.
       let who = pub_normalizeActor (cf_Actor x);
           who' = (if who = ''system'' \<and> actor \<noteq> [] then actor else who)
       in x\<lparr>cf_Actor := who', cf_Stage := (if cf_Stage x = [] then stage else cf_Stage x)\<rparr>) items"

definition pub_CreateBatch ::
  "clock \<Rightarrow> pub_CreateBatchInput \<Rightarrow> 't pub_Service \<Rightarrow> (pub_error, pub_Batch, 't pub_Service) outcome" where
  "pub_CreateBatch clk inp s =
     (if cb_ProjectID inp \<le> 0 then (Inl PubProjectIDNotPositive, s)
      else if cb_SnapshotID inp \<le> 0 then (Inl PubSnapshotIDNotPositive, s)
      else
        let source = pub_normalizeSource (cb_Source inp) in
        if \<not> pub_isValidSource source then (Inl (PubInvalidSource source), s)
        else if cb_Items inp = [] then (Inl PubItemsRequired, s)
        else case pub_validateItems (cb_SnapshotID inp) (cb_Items inp) of
               Inl e \<Rightarrow> (Inl e, s)
             | Inr _ \<Rightarrow> pub_on_repo (pub_repo_CreateBatch (clk 0) (inp\<lparr>cb_Source := source\<rparr>)) s)"

definition pub_GetBatch :: "int \<Rightarrow> 't pub_Service \<Rightarrow> pub_error + pub_Batch" where
  "pub_GetBatch bid s = (if bid \<le> 0 then Inl PubBatchIDNotPositive else pub_repo_GetBatch bid (psv_repo s))"

definition pub_GetRecord :: "int \<Rightarrow> 't pub_Service \<Rightarrow> pub_error + pub_Record" where
  "pub_GetRecord rid s = (if rid \<le> 0 then Inl PubRecordIDNotPositive else pub_repo_GetRecord rid (psv_repo s))"

definition pub_GetWorkspace :: "int \<Rightarrow> 't pub_Service \<Rightarrow> pub_error + pub_Workspace" where
  "pub_GetWorkspace bid s =
     (if bid \<le> 0 then Inl PubBatchIDNotPositive else pub_repo_BuildWorkspace bid (psv_repo s))"

definition pub_ListSuggestedCandidates :: "int \<Rightarrow> 't pub_Service \<Rightarrow> pub_error + pub_SuggestedCandidate list" where
  "pub_ListSuggestedCandidates projectID s =
     (if projectID \<le> 0 then Inl PubProjectIDNotPositive else Inr (pub_repo_ListSuggestedCandidates (psv_repo s)))"

definition pub_ReplaceBatchItems ::
  "clock \<Rightarrow> int \<Rightarrow> pub_CreateBatchItemInput list \<Rightarrow> 't pub_Service \<Rightarrow> (pub_error, pub_Batch, 't pub_Service) outcome" where
  "pub_ReplaceBatchItems clk bid items s =
     (case pub_GetBatch bid s of
        Inl e \<Rightarrow> (Inl e, s)
      | Inr b \<Rightarrow>
          if \<not> pub_isEditableStatus (bt_Status b) then (Inl (PubNotEditable bid), s)
          else if items = [] then (Inl PubItemsRequired, s)
          else case pub_validateItems (bt_SnapshotID b) items of
                 Inl e \<Rightarrow> (Inl e, s)
               | Inr _ \<Rightarrow> pub_on_repo (pub_repo_ReplaceBatchItems (clk 0) bid items) s)"

definition pub_applyReviewDecision ::
  "string \<Rightarrow> clock \<Rightarrow> int \<Rightarrow> string \<Rightarrow> pub_CreateFeedbackInput list \<Rightarrow> 't pub_Service \<Rightarrow>
     (pub_error, unit, 't pub_Service) outcome" where
  "pub_applyReviewDecision decision clk bid actor feedback s =
     (case pub_GetBatch bid s of
        Inl e \<Rightarrow> (Inl e, s)
      | Inr b \<Rightarrow>
          if bt_Status b = pub_StatusPublished \<or> bt_Status b = pub_StatusRejected \<or> bt_Status b = pub_StatusSuperseded
          then (Inl (PubNotReviewable bid), s)
          else let who = pub_normalizeActor actor in
               pub_on_repo (pub_repo_ApplyReviewDecision clk bid decision who
                 (pub_normalizeDecisionFeedback feedback who pub_FeedbackStageReview)) s)"

definition pub_ReviewApprove where
  "pub_ReviewApprove = pub_applyReviewDecision pub_ReviewDecisionApprove"

definition pub_ReviewReject where
  "pub_ReviewReject = pub_applyReviewDecision pub_ReviewDecisionReject"

definition pub_ReviewRework where
  "pub_ReviewRework = pub_applyReviewDecision pub_ReviewDecisionRework"

definition pub_applyOwnerDecision ::
  "string \<Rightarrow> clock \<Rightarrow> int \<Rightarrow> string \<Rightarrow> pub_CreateFeedbackInput list \<Rightarrow> 't pub_Service \<Rightarrow>
     (pub_error, unit, 't pub_Service) outcome" where
  "pub_applyOwnerDecision decision clk bid actor feedback s =
     (case pub_GetBatch bid s of
        Inl e \<Rightarrow> (Inl e, s)
      | Inr b \<Rightarrow>
          if bt_Status b \<noteq> pub_StatusReviewApproved \<and> bt_Status b \<noteq> pub_StatusOwnerPending
          then (Inl (PubNotReadyForDecision bid), s)
          else let who = pub_normalizeActor actor in
               and_then (pub_on_repo (pub_repo_ApplyOwnerDecision clk bid decision who
                 (pub_normalizeDecisionFeedback feedback who pub_FeedbackStageOwner)) s) (\<lambda>_ s1. (Inr (), s1)))"


definition pub_OwnerReject where
  "pub_OwnerReject = pub_applyOwnerDecision pub_OwnerDecisionReject"

definition pub_OwnerRework where
  "pub_OwnerRework = pub_applyOwnerDecision pub_OwnerDecisionRework"

text \<open>The evaluation task that an approval opens.\<close>

definition pub_evaluationTask :: "pub_Batch \<Rightarrow> int \<Rightarrow> tasks_CreateTaskInput" where
  "pub_evaluationTask b rid =
     \<lparr>ct_ProjectID = bt_ProjectID b, ct_SnapshotID = Some (bt_SnapshotID b),
      ct_Title = ''Evaluate publish record '' @ show_int rid, ct_Kind = tasks_KindTrainingCandidate,
      ct_AssetObjectKey = [], ct_MediaKind = [], ct_FrameIndex = None, ct_OntologyVersion = [],
      ct_Status = tasks_StatusQueued, ct_Priority = tasks_PriorityHigh, ct_Assignee = ''ml-engineer'',
      ct_DueAt = None, ct_BlockerReason = [], ct_LastActivityAt = zero_time\<rparr>"

definition pub_OwnerApprove ::
  "'t pub_create \<Rightarrow> clock \<Rightarrow> int \<Rightarrow> string \<Rightarrow> pub_CreateFeedbackInput list \<Rightarrow> 't pub_Service \<Rightarrow>
     (pub_error, pub_Record option, 't pub_Service) outcome" where
  "pub_OwnerApprove create clk bid actor feedback s =
     (case pub_GetBatch bid s of
        Inl e \<Rightarrow> (Inl e, s)
      | Inr b \<Rightarrow>
          if bt_Status b \<noteq> pub_StatusReviewApproved \<and> bt_Status b \<noteq> pub_StatusOwnerPending
          then (Inl (PubNotReadyForApproval bid), s)
          else
            let who = pub_normalizeActor actor; fb = pub_normalizeDecisionFeedback feedback who pub_FeedbackStageOwner in
            and_then (pub_on_repo (pub_repo_ApplyOwnerDecision clk bid pub_OwnerDecisionApprove who fb) s)
              (\<lambda>x s1.
                case psv_tasks s1 of
                  None \<Rightarrow> (Inr x, s1)
                | Some t \<Rightarrow>
                    (case create (clock_drop (length fb + 1) clk)
                       (pub_evaluationTask b (case x of None \<Rightarrow> 0 | Some x \<Rightarrow> rec_ID x)) t of
                       (Inl e, t') \<Rightarrow> (Inl (PubTaskError e), s1\<lparr>psv_tasks := Some t'\<rparr>)
                     | (Inr _, t') \<Rightarrow> (Inr x, s1\<lparr>psv_tasks := Some t'\<rparr>))))"

definition pub_AddBatchFeedback ::
  "clock \<Rightarrow> int \<Rightarrow> pub_CreateFeedbackInput \<Rightarrow> 't pub_Service \<Rightarrow> (pub_error, pub_Feedback, 't pub_Service) outcome" where
  "pub_AddBatchFeedback clk bid inp s =
     (if bid \<le> 0 then (Inl PubBatchIDNotPositive, s)
      else pub_on_repo (pub_repo_AddBatchFeedback (clk 0) bid
             (inp\<lparr>cf_Actor := pub_normalizeActor (cf_Actor inp)\<rparr>)) s)"

definition pub_AddItemFeedback ::
  "clock \<Rightarrow> int \<Rightarrow> int \<Rightarrow> pub_CreateFeedbackInput \<Rightarrow> 't pub_Service \<Rightarrow> (pub_error, pub_Feedback, 't pub_Service) outcome" where
  "pub_AddItemFeedback clk bid iid inp s =
     (if bid \<le> 0 then (Inl PubBatchIDNotPositive, s)
      else if iid \<le> 0 then (Inl PubItemIDNotPositive, s)
      else pub_on_repo (pub_repo_AddItemFeedback (clk 0) bid iid
             (inp\<lparr>cf_Actor := pub_normalizeActor (cf_Actor inp),
                  cf_Scope := (if cf_Scope inp = [] then pub_FeedbackScopeItem else cf_Scope inp)\<rparr>)) s)"

end
