(* ===== verification/Publish_Facts.thy ===== *)
theory Publish_Facts
  imports Publish "HOL-Library.Sublist"
begin

section \<open>Publish: the lifecycle of a batch\<close>

text \<open>
  The abstract lifecycle of a batch is the step relation \<open>pub_step\<close> on repositories; every call
  of the service is one such step. The invariant (fresh numbers, items of the batch's own
  snapshot, stamps of the approvals, one record for each published batch) and the evolution of a batch
  (edits reset the approvals, final batches only gather feedback) are proved over the steps.
\<close>

subsection \<open>What the operations write\<close>

definition pub_first :: "time \<Rightarrow> pub_CreateBatchInput \<Rightarrow> pub_Repo \<Rightarrow> pub_Batch" where
  "pub_first now inp r =
     \<lparr>bt_ID = pr_nextBatch r, bt_ProjectID = cb_ProjectID inp, bt_SnapshotID = cb_SnapshotID inp,
      bt_Source = cb_Source inp, bt_Status = pub_StatusDraft, bt_RuleSummary = json_clone (cb_RuleSummary inp),
      bt_OwnerEditVersion = 0, bt_ReviewApprovedAt = None, bt_ReviewApprovedBy = [], bt_OwnerDecidedAt = None,
      bt_OwnerDecidedBy = [], bt_Items = pub_makeItems now (pr_nextBatch r) (pr_nextItem r) 0 (cb_Items inp),
      bt_Feedback = [], bt_CreatedAt = now, bt_UpdatedAt = now\<rparr>"

definition pub_replaced :: "time \<Rightarrow> int \<Rightarrow> pub_CreateBatchItemInput list \<Rightarrow> pub_Batch \<Rightarrow> pub_Batch" where
  "pub_replaced now n items b =
     b\<lparr>bt_Items := pub_makeItems now (bt_ID b) n 0 items, bt_Status := pub_StatusOwnerChangesRequested,
       bt_OwnerEditVersion := bt_OwnerEditVersion b + 1, bt_ReviewApprovedAt := None, bt_ReviewApprovedBy := [],
       bt_OwnerDecidedAt := None, bt_OwnerDecidedBy := [], bt_UpdatedAt := now\<rparr>"

definition pub_reviewed :: "time \<Rightarrow> string \<Rightarrow> string \<Rightarrow> pub_Feedback list \<Rightarrow> pub_Batch \<Rightarrow> pub_Batch" where
  "pub_reviewed now decision actor fs b =
     b\<lparr>bt_Feedback := bt_Feedback b @ fs,
       bt_Status := (if decision = pub_ReviewDecisionApprove then pub_StatusReviewApproved
                     else if decision = pub_ReviewDecisionReject then pub_StatusRejected
                     else pub_StatusOwnerChangesRequested),
       bt_ReviewApprovedAt := (if decision = pub_ReviewDecisionApprove then Some now else None),
       bt_ReviewApprovedBy := (if decision = pub_ReviewDecisionApprove then actor else []),
       bt_UpdatedAt := now\<rparr>"

definition pub_decided :: "time \<Rightarrow> string \<Rightarrow> string \<Rightarrow> pub_Feedback list \<Rightarrow> pub_Batch \<Rightarrow> pub_Batch" where
  "pub_decided now decision actor fs b =
     b\<lparr>bt_Feedback := bt_Feedback b @ fs, bt_OwnerDecidedAt := Some now, bt_OwnerDecidedBy := actor,
       bt_UpdatedAt := now,
       bt_Status := (if decision = pub_OwnerDecisionApprove then pub_StatusPublished
                     else if decision = pub_OwnerDecisionReject then pub_StatusRejected
                     else pub_StatusOwnerChangesRequested)\<rparr>"

definition pub_new_record :: "time \<Rightarrow> string \<Rightarrow> int \<Rightarrow> pub_Batch \<Rightarrow> pub_Record" where
  "pub_new_record now actor n b =
     \<lparr>rec_ID = n, rec_ProjectID = bt_ProjectID b, rec_SnapshotID = bt_SnapshotID b,
      rec_PublishBatchID = bt_ID b, rec_Status = pub_StatusPublished,
      rec_Summary = json_clone [(''decision'', GStr pub_OwnerDecisionApprove),
        (''batch_id'', GInt64 (bt_ID b)), (''snapshot_id'', GInt64 (bt_SnapshotID b))],
      rec_ApprovedByOwner = actor, rec_ApprovedAt = now, rec_CreatedAt = now\<rparr>"

definition pub_commented :: "pub_Feedback \<Rightarrow> pub_Batch \<Rightarrow> pub_Batch" where
  "pub_commented f b = b\<lparr>bt_Feedback := bt_Feedback b @ [f], bt_UpdatedAt := fb_CreatedAt f\<rparr>"

definition pub_put :: "int \<Rightarrow> pub_Batch \<Rightarrow> pub_Repo \<Rightarrow> pub_Repo" where
  "pub_put bid b r = r\<lparr>pr_batches := (pr_batches r)(bid \<mapsto> b)\<rparr>"

lemma pub_put_simps [simp]:
  "pr_nextBatch (pub_put bid b r) = pr_nextBatch r" "pr_nextItem (pub_put bid b r) = pr_nextItem r"
  "pr_nextFeed (pub_put bid b r) = pr_nextFeed r" "pr_nextRecord (pub_put bid b r) = pr_nextRecord r"
  "pr_batches (pub_put bid b r) = (pr_batches r)(bid \<mapsto> b)" "pr_records (pub_put bid b r) = pr_records r"
  "pr_suggested (pub_put bid b r) = pr_suggested r"
  by (simp_all add: pub_put_def)

lemma pub_makeItems_facts:
  "length (pub_makeItems now bid n pos xs) = length xs"
  "map bi_ID (pub_makeItems now bid n pos xs) = [n..n + int (length xs) - 1]"
  "map bi_Position (pub_makeItems now bid n pos xs) = [pos..pos + int (length xs) - 1]"
  "map pub_cloneItem (pub_makeItems now bid n pos xs) = pub_makeItems now bid n pos xs"
  by (induction now bid n pos xs rule: pub_makeItems.induct)
    (simp_all add: pub_cloneItem_def upto_rec1 algebra_simps)

lemma pub_makeItems_in:
  assumes "i \<in> set (pub_makeItems now bid n pos xs)" and "pub_validateItems sn xs = Inr ()"
  shows "bi_PublishBatchID i = bid \<and> bi_SnapshotID i = sn \<and> 1 \<le> bi_CandidateID i \<and> 1 \<le> bi_TaskID i \<and>
         1 \<le> bi_DatasetID i \<and> n \<le> bi_ID i \<and> bi_ID i < n + int (length xs)"
  using assms
  by (induction now bid n pos xs rule: pub_makeItems.induct)
    (force simp: pub_validateBatchItem_def split: if_splits sum.splits)+

lemma pub_newFeedbacks_facts:
  "length (pub_newFeedbacks clk n bid xs) = length xs"
  "map fb_ID (pub_newFeedbacks clk n bid xs) = [n..n + int (length xs) - 1]"
  "\<forall>f \<in> set (pub_newFeedbacks clk n bid xs). fb_PublishBatchID f = bid \<and> fb_PublishBatchItemID f = 0"
  by (induction clk n bid xs rule: pub_newFeedbacks.induct)
    (simp_all add: pub_newFeedback_def upto_rec1 algebra_simps)

subsection \<open>The abstract lifecycle\<close>

definition pub_final :: "string \<Rightarrow> bool" where
  "pub_final st \<longleftrightarrow> st \<in> {pub_StatusPublished, pub_StatusRejected, pub_StatusSuperseded}"

inductive pub_step :: "pub_Repo \<Rightarrow> pub_Repo \<Rightarrow> bool" where
  stay: "pub_step r r"
| seeded: "pub_step r (r\<lparr>pr_suggested := cs\<rparr>)"
| created: "0 < cb_ProjectID inp \<Longrightarrow> 0 < cb_SnapshotID inp \<Longrightarrow> pub_isValidSource (cb_Source inp) \<Longrightarrow>
    cb_Items inp \<noteq> [] \<Longrightarrow> pub_validateItems (cb_SnapshotID inp) (cb_Items inp) = Inr () \<Longrightarrow>
    pub_step r (pub_put (pr_nextBatch r) (pub_first now inp r)
      (r\<lparr>pr_nextBatch := pr_nextBatch r + 1, pr_nextItem := pr_nextItem r + int (length (cb_Items inp))\<rparr>))"
| replaced: "pr_batches r bid = Some b \<Longrightarrow> \<not> pub_final (bt_Status b) \<Longrightarrow> items \<noteq> [] \<Longrightarrow>
    pub_validateItems (bt_SnapshotID b) items = Inr () \<Longrightarrow>
    pub_step r (pub_put bid (pub_replaced now (pr_nextItem r) items b)
      (r\<lparr>pr_nextItem := pr_nextItem r + int (length items)\<rparr>))"
| reviewed: "pr_batches r bid = Some b \<Longrightarrow> \<not> pub_final (bt_Status b) \<Longrightarrow> actor \<noteq> [] \<Longrightarrow>
    decision \<in> {pub_ReviewDecisionApprove, pub_ReviewDecisionReject, pub_ReviewDecisionRework} \<Longrightarrow>
    pub_step r (pub_put bid
      (pub_reviewed (clk (length fs)) decision actor (pub_newFeedbacks clk (pr_nextFeed r) bid fs) b)
      (r\<lparr>pr_nextFeed := pr_nextFeed r + int (length fs)\<rparr>))"
| turned_down: "pr_batches r bid = Some b \<Longrightarrow>
    bt_Status b = pub_StatusReviewApproved \<or> bt_Status b = pub_StatusOwnerPending \<Longrightarrow>
    decision \<in> {pub_OwnerDecisionReject, pub_OwnerDecisionRework} \<Longrightarrow> actor \<noteq> [] \<Longrightarrow>
    pub_step r (pub_put bid
      (pub_decided (clk (length fs)) decision actor (pub_newFeedbacks clk (pr_nextFeed r) bid fs) b)
      (r\<lparr>pr_nextFeed := pr_nextFeed r + int (length fs)\<rparr>))"
| published: "pr_batches r bid = Some b \<Longrightarrow>
    bt_Status b = pub_StatusReviewApproved \<or> bt_Status b = pub_StatusOwnerPending \<Longrightarrow> actor \<noteq> [] \<Longrightarrow>
    pub_step r (pub_put bid
      (pub_decided (clk (length fs)) pub_OwnerDecisionApprove actor (pub_newFeedbacks clk (pr_nextFeed r) bid fs) b)
      (r\<lparr>pr_nextFeed := pr_nextFeed r + int (length fs), pr_nextRecord := pr_nextRecord r + 1,
         pr_records := (pr_records r)(pr_nextRecord r \<mapsto> pub_new_record (clk (length fs)) actor (pr_nextRecord r) b)\<rparr>))"
| commented: "pr_batches r bid = Some b \<Longrightarrow>
    (\<And>i. iid = Some i \<Longrightarrow> i \<in> bi_ID ` set (bt_Items b)) \<Longrightarrow>
    pub_step r (pub_put bid (pub_commented (pub_newFeedback now (pr_nextFeed r) bid iid inp) b)
      (r\<lparr>pr_nextFeed := pr_nextFeed r + 1\<rparr>))"

subsection \<open>The invariant\<close>

definition pub_item_ok :: "int \<Rightarrow> pub_Batch \<Rightarrow> pub_BatchItem \<Rightarrow> bool" where
  "pub_item_ok ni b i \<longleftrightarrow>
     bi_PublishBatchID i = bt_ID b \<and> bi_SnapshotID i = bt_SnapshotID b \<and> 1 \<le> bi_CandidateID i \<and>
     1 \<le> bi_TaskID i \<and> 1 \<le> bi_DatasetID i \<and> 1 \<le> bi_ID i \<and> bi_ID i < ni"

definition pub_items_ok :: "int \<Rightarrow> pub_Batch \<Rightarrow> bool" where
  "pub_items_ok ni b \<longleftrightarrow>
     bt_Items b \<noteq> [] \<and> (\<forall>i \<in> set (bt_Items b). pub_item_ok ni b i) \<and> distinct (map bi_ID (bt_Items b)) \<and>
     map bi_Position (bt_Items b) = [0..int (length (bt_Items b)) - 1]"

definition pub_feedback_ok :: "int \<Rightarrow> pub_Batch \<Rightarrow> bool" where
  "pub_feedback_ok nf b \<longleftrightarrow>
     (\<forall>f \<in> set (bt_Feedback b). fb_PublishBatchID f = bt_ID b \<and> 1 \<le> fb_ID f \<and> fb_ID f < nf) \<and>
     distinct (map fb_ID (bt_Feedback b))"

text \<open>Feedback on an item names an item number that was given out, current or replaced.\<close>

definition pub_refs_ok :: "int \<Rightarrow> pub_Feedback list \<Rightarrow> bool" where
  "pub_refs_ok ni fs \<longleftrightarrow> (\<forall>f \<in> set fs. fb_PublishBatchItemID f < ni)"

text \<open>
  The statuses \<open>review_pending\<close>, \<open>owner_pending\<close> and \<open>superseded\<close> are declared but never reached.
\<close>

definition pub_status_ok :: "pub_Batch \<Rightarrow> bool" where
  "pub_status_ok b \<longleftrightarrow>
     bt_Status b \<in> {pub_StatusDraft, pub_StatusReviewApproved, pub_StatusOwnerChangesRequested,
       pub_StatusRejected, pub_StatusPublished} \<and>
     (bt_Status b \<in> {pub_StatusReviewApproved, pub_StatusPublished} \<longrightarrow>
        bt_ReviewApprovedAt b \<noteq> None \<and> bt_ReviewApprovedBy b \<noteq> []) \<and>
     (bt_Status b = pub_StatusPublished \<longrightarrow> bt_OwnerDecidedAt b \<noteq> None \<and> bt_OwnerDecidedBy b \<noteq> [])"

definition pub_batch_ok :: "int \<Rightarrow> int \<Rightarrow> int \<Rightarrow> pub_Batch \<Rightarrow> bool" where
  "pub_batch_ok ni nf bid b \<longleftrightarrow>
     bt_ID b = bid \<and> 1 \<le> bid \<and> 1 \<le> bt_ProjectID b \<and> 1 \<le> bt_SnapshotID b \<and> pub_isValidSource (bt_Source b) \<and>
     pub_cloneBatch b = b \<and> pub_items_ok ni b \<and> pub_feedback_ok nf b \<and>
     pub_refs_ok ni (bt_Feedback b) \<and> pub_status_ok b"

definition pub_record_of :: "pub_Batch \<Rightarrow> pub_Record \<Rightarrow> bool" where
  "pub_record_of b x \<longleftrightarrow>
     bt_Status b = pub_StatusPublished \<and> rec_Status x = pub_StatusPublished \<and> rec_PublishBatchID x = bt_ID b \<and>
     rec_ProjectID x = bt_ProjectID b \<and> rec_SnapshotID x = bt_SnapshotID b \<and>
     rec_ApprovedByOwner x = bt_OwnerDecidedBy b \<and> Some (rec_ApprovedAt x) = bt_OwnerDecidedAt b"

definition pub_binv :: "pub_Repo \<Rightarrow> bool" where
  "pub_binv r \<longleftrightarrow>
     1 \<le> pr_nextBatch r \<and> 1 \<le> pr_nextItem r \<and> 1 \<le> pr_nextFeed r \<and>
     (\<forall>bid b. pr_batches r bid = Some b \<longrightarrow>
        pub_batch_ok (pr_nextItem r) (pr_nextFeed r) bid b \<and> bid < pr_nextBatch r) \<and>
     (\<forall>bid bid' b b' i i'. pr_batches r bid = Some b \<longrightarrow> pr_batches r bid' = Some b' \<longrightarrow>
        i \<in> set (bt_Items b) \<longrightarrow> i' \<in> set (bt_Items b') \<longrightarrow> bi_ID i = bi_ID i' \<longrightarrow> bid = bid')"

definition pub_rinv :: "pub_Repo \<Rightarrow> bool" where
  "pub_rinv r \<longleftrightarrow>
     1 \<le> pr_nextRecord r \<and>
     (\<forall>bid b. pr_batches r bid = Some b \<longrightarrow> bt_Status b = pub_StatusPublished \<longrightarrow>
        (\<exists>rid x. pr_records r rid = Some x \<and> rec_PublishBatchID x = bid)) \<and>
     (\<forall>rid x. pr_records r rid = Some x \<longrightarrow>
        rec_ID x = rid \<and> 1 \<le> rid \<and> rid < pr_nextRecord r \<and> pub_cloneRecord x = x \<and>
        (\<exists>b. pr_batches r (rec_PublishBatchID x) = Some b \<and> pub_record_of b x)) \<and>
     (\<forall>rid rid' x x'. pr_records r rid = Some x \<longrightarrow> pr_records r rid' = Some x' \<longrightarrow>
        rec_PublishBatchID x = rec_PublishBatchID x' \<longrightarrow> rid = rid')"

definition pub_inv :: "pub_Repo \<Rightarrow> bool" where
  "pub_inv r \<longleftrightarrow> pub_binv r \<and> pub_rinv r"

subsection \<open>The evolution of a batch\<close>

definition pub_evolves :: "pub_Batch \<Rightarrow> pub_Batch \<Rightarrow> bool" where
  "pub_evolves a b \<longleftrightarrow>
     bt_ID b = bt_ID a \<and> bt_ProjectID b = bt_ProjectID a \<and> bt_SnapshotID b = bt_SnapshotID a \<and>
     bt_Source b = bt_Source a \<and> bt_RuleSummary b = bt_RuleSummary a \<and> bt_CreatedAt b = bt_CreatedAt a \<and>
     prefix (bt_Feedback a) (bt_Feedback b) \<and> bt_OwnerEditVersion a \<le> bt_OwnerEditVersion b \<and>
     (bt_OwnerEditVersion b = bt_OwnerEditVersion a \<longrightarrow> bt_Items b = bt_Items a) \<and>
     (pub_final (bt_Status a) \<longrightarrow>
        b = a\<lparr>bt_Feedback := bt_Feedback b, bt_UpdatedAt := bt_UpdatedAt b\<rparr>)"

definition pub_le :: "pub_Repo \<Rightarrow> pub_Repo \<Rightarrow> bool" where
  "pub_le r r' \<longleftrightarrow>
     (\<forall>bid a. pr_batches r bid = Some a \<longrightarrow> (\<exists>b. pr_batches r' bid = Some b \<and> pub_evolves a b)) \<and>
     (\<forall>rid x. pr_records r rid = Some x \<longrightarrow> pr_records r' rid = Some x)"

lemma pub_evolves_refl [simp]: "pub_evolves a a"
  by (simp add: pub_evolves_def)

lemma pub_evolves_final:
  "pub_evolves a b \<Longrightarrow> pub_final (bt_Status a) \<Longrightarrow>
     b = a\<lparr>bt_Feedback := bt_Feedback b, bt_UpdatedAt := bt_UpdatedAt b\<rparr>"
  by (simp add: pub_evolves_def)

lemma pub_final_simps [simp]:
  "pub_final pub_StatusPublished" "pub_final pub_StatusRejected" "pub_final pub_StatusSuperseded"
  "\<not> pub_final pub_StatusDraft" "\<not> pub_final pub_StatusReviewApproved"
  "\<not> pub_final pub_StatusOwnerChangesRequested" "\<not> pub_final pub_StatusOwnerPending"
  "\<not> pub_final pub_StatusReviewPending"
  by (simp_all add: pub_final_def)

lemma pub_evolves_trans:
  assumes ab: "pub_evolves a b" and bc: "pub_evolves b c"
  shows "pub_evolves a c"
proof -
  have fin: "c = a\<lparr>bt_Feedback := bt_Feedback c, bt_UpdatedAt := bt_UpdatedAt c\<rparr>" if h: "pub_final (bt_Status a)"
  proof -
    obtain f u where b: "b = a\<lparr>bt_Feedback := f, bt_UpdatedAt := u\<rparr>"
      using pub_evolves_final [OF ab h] by blast
    then have "pub_final (bt_Status b)" using h by simp
    then obtain f' u' where "c = b\<lparr>bt_Feedback := f', bt_UpdatedAt := u'\<rparr>"
      using pub_evolves_final [OF bc] by blast
    then have "c = a\<lparr>bt_Feedback := f', bt_UpdatedAt := u'\<rparr>" unfolding b by simp
    then show ?thesis by simp
  qed
  have "prefix (bt_Feedback a) (bt_Feedback c)"
    using ab bc unfolding pub_evolves_def by (meson prefix_order.trans)
  with fin ab bc show ?thesis unfolding pub_evolves_def by (metis antisym order_trans)
qed

lemma pub_le_refl [simp]: "pub_le r r"
  by (simp add: pub_le_def)

lemma pub_le_trans: "pub_le r s \<Longrightarrow> pub_le s t \<Longrightarrow> pub_le r t"
  unfolding pub_le_def by (meson pub_evolves_trans)

subsection \<open>Preservation\<close>

lemma pub_binvD:
  assumes "pub_binv r"
  shows "1 \<le> pr_nextBatch r" "1 \<le> pr_nextItem r" "1 \<le> pr_nextFeed r"
    and "pr_batches r bid = Some b \<Longrightarrow> pub_batch_ok (pr_nextItem r) (pr_nextFeed r) bid b"
    and "pr_batches r bid = Some b \<Longrightarrow> bid < pr_nextBatch r"
    and "pr_batches r bid = Some b \<Longrightarrow> pr_batches r bid' = Some b' \<Longrightarrow>
        i \<in> set (bt_Items b) \<Longrightarrow> i' \<in> set (bt_Items b') \<Longrightarrow> bi_ID i = bi_ID i' \<Longrightarrow> bid = bid'"
  using assms unfolding pub_binv_def by blast+

lemma pub_rinvD:
  assumes "pub_rinv r"
  shows "1 \<le> pr_nextRecord r"
    and "pr_batches r bid = Some b \<Longrightarrow> bt_Status b = pub_StatusPublished \<Longrightarrow>
        \<exists>rid x. pr_records r rid = Some x \<and> rec_PublishBatchID x = bid"
    and "pr_records r rid = Some x \<Longrightarrow> rec_ID x = rid \<and> 1 \<le> rid \<and> rid < pr_nextRecord r \<and> pub_cloneRecord x = x"
    and "pr_records r rid = Some x \<Longrightarrow> \<exists>b. pr_batches r (rec_PublishBatchID x) = Some b \<and> pub_record_of b x"
    and "pr_records r rid = Some x \<Longrightarrow> pr_records r rid' = Some x' \<Longrightarrow>
        rec_PublishBatchID x = rec_PublishBatchID x' \<Longrightarrow> rid = rid'"
  using assms unfolding pub_rinv_def by blast+

lemma pub_batch_ok_mono:
  "pub_batch_ok ni nf bid b \<Longrightarrow> ni \<le> ni' \<Longrightarrow> nf \<le> nf' \<Longrightarrow> pub_batch_ok ni' nf' bid b"
  by (fastforce simp: pub_batch_ok_def pub_items_ok_def pub_feedback_ok_def pub_item_ok_def pub_refs_ok_def)

lemma pub_binv_put:
  assumes inv: "pub_binv r" and rows: "pr_batches r' = (pr_batches r)(bid \<mapsto> b')"
    and next_ids: "pr_nextBatch r \<le> pr_nextBatch r'" "pr_nextItem r \<le> pr_nextItem r'" "pr_nextFeed r \<le> pr_nextFeed r'"
    and ok: "pub_batch_ok (pr_nextItem r') (pr_nextFeed r') bid b'" "bid < pr_nextBatch r'"
    and items: "\<And>i. i \<in> set (bt_Items b') \<Longrightarrow>
        pr_nextItem r \<le> bi_ID i \<or> (\<exists>b. pr_batches r bid = Some b \<and> i \<in> set (bt_Items b))"
  shows "pub_binv r'"
proof -
  have row: "pub_batch_ok (pr_nextItem r') (pr_nextFeed r') k c \<and> k < pr_nextBatch r'" if "pr_batches r' k = Some c" for k c
  proof (cases "k = bid")
    case True
    with that ok show ?thesis by (simp add: rows)
  next
    case False
    with that have "pr_batches r k = Some c" by (simp add: rows)
    with pub_binvD(4,5) [OF inv this] next_ids show ?thesis by (auto intro: pub_batch_ok_mono)
  qed
  have from_old: "(k = bid \<and> pr_nextItem r \<le> bi_ID i) \<or>
      (\<exists>c0. pr_batches r k = Some c0 \<and> i \<in> set (bt_Items c0) \<and> bi_ID i < pr_nextItem r)"
    if "pr_batches r' k = Some c" "i \<in> set (bt_Items c)" for k c i
  proof -
    have old: "bi_ID i < pr_nextItem r" if "pr_batches r k = Some c0" "i \<in> set (bt_Items c0)" for c0
      using pub_binvD(4) [OF inv that(1)] that(2) by (simp add: pub_batch_ok_def pub_items_ok_def pub_item_ok_def)
    show ?thesis
    proof (cases "k = bid")
      case True
      with that items [of i] old show ?thesis by (auto simp: rows)
    next
      case False
      with that old show ?thesis by (auto simp: rows)
    qed
  qed
  have "k = k'" if "pr_batches r' k = Some c" "pr_batches r' k' = Some c'" "i \<in> set (bt_Items c)"
      "i' \<in> set (bt_Items c')" "bi_ID i = bi_ID i'" for k k' c c' i i'
    using from_old [OF that(1,3)] from_old [OF that(2,4)] that(5) pub_binvD(6) [OF inv, of k _ k' _ i i'] by auto
  moreover have "1 \<le> pr_nextBatch r'" "1 \<le> pr_nextItem r'" "1 \<le> pr_nextFeed r'"
    using pub_binvD(1-3) [OF inv] next_ids by linarith+
  ultimately show ?thesis unfolding pub_binv_def using row by blast
qed

lemma pub_record_of_evolves: "pub_record_of a x \<Longrightarrow> pub_evolves a b \<Longrightarrow> pub_record_of b x"
  using pub_evolves_final [of a b] by (auto simp: pub_record_of_def) (metis pub_Batch.ext_inject pub_Batch.surjective pub_Batch.update_convs(13,15))+

lemma pub_rinv_put:
  assumes inv: "pub_rinv r" and rows: "pr_batches r' = (pr_batches r)(bid \<mapsto> b')"
    and recs: "pr_records r' = pr_records r" "pr_nextRecord r' = pr_nextRecord r"
    and old: "\<And>b. pr_batches r bid = Some b \<Longrightarrow> pub_evolves b b'"
    and pub: "bt_Status b' = pub_StatusPublished \<Longrightarrow>
        \<exists>b. pr_batches r bid = Some b \<and> bt_Status b = pub_StatusPublished"
  shows "pub_rinv r'"
proof -
  have "\<exists>rid x. pr_records r' rid = Some x \<and> rec_PublishBatchID x = k"
    if "pr_batches r' k = Some c" "bt_Status c = pub_StatusPublished" for k c
    using that pub pub_rinvD(2) [OF inv, of k] by (cases "k = bid") (auto simp: rows recs)
  moreover have "\<exists>c. pr_batches r' (rec_PublishBatchID x) = Some c \<and> pub_record_of c x"
    if "pr_records r' rid = Some x" for rid x
  proof -
    obtain c where c: "pr_batches r (rec_PublishBatchID x) = Some c" "pub_record_of c x"
      using pub_rinvD(4) [OF inv] \<open>pr_records r' rid = Some x\<close> recs by auto
    show ?thesis
      using c old pub_record_of_evolves [OF c(2)] by (cases "rec_PublishBatchID x = bid") (auto simp: rows)
  qed
  ultimately show ?thesis
    unfolding pub_rinv_def recs using pub_rinvD(1,3,5) [OF inv] by blast
qed

lemma pub_rinv_publish:
  assumes inv: "pub_rinv r" and rows: "pr_batches r' = (pr_batches r)(bid \<mapsto> b')"
    and recs: "pr_records r' = (pr_records r)(pr_nextRecord r \<mapsto> x)" "pr_nextRecord r' = pr_nextRecord r + 1"
    and b: "pr_batches r bid = Some b" "bt_Status b \<noteq> pub_StatusPublished"
    and x: "rec_ID x = pr_nextRecord r" "pub_cloneRecord x = x" "pub_record_of b' x" "rec_PublishBatchID x = bid"
  shows "pub_rinv r'"
proof -
  have none: "rec_PublishBatchID y \<noteq> bid" if "pr_records r rid = Some y" for rid y
    using pub_rinvD(4) [OF inv that] b by (auto simp: pub_record_of_def)
  have fresh: "pr_records r (pr_nextRecord r) = None"
    using pub_rinvD(3) [OF inv, of "pr_nextRecord r"] by fastforce
  have old: "rid = pr_nextRecord r \<and> y = x \<or> rid \<noteq> pr_nextRecord r \<and> pr_records r rid = Some y"
    if "pr_records r' rid = Some y" for rid y
    using that by (auto simp: recs split: if_splits)
  have "\<exists>rid y. pr_records r' rid = Some y \<and> rec_PublishBatchID y = k"
    if "pr_batches r' k = Some c" "bt_Status c = pub_StatusPublished" for k c
  proof (cases "k = bid")
    case True
    then show ?thesis using x(4) by (auto simp: recs)
  next
    case False
    with that obtain rid y where y: "pr_records r rid = Some y" "rec_PublishBatchID y = k"
      using pub_rinvD(2) [OF inv, of k] by (auto simp: rows)
    then have "pr_records r' rid = Some y" using fresh by (auto simp: recs)
    with y show ?thesis by blast
  qed
  moreover have "rec_ID y = rid \<and> 1 \<le> rid \<and> rid < pr_nextRecord r' \<and> pub_cloneRecord y = y \<and>
      (\<exists>c. pr_batches r' (rec_PublishBatchID y) = Some c \<and> pub_record_of c y)"
    if "pr_records r' rid = Some y" for rid y
    using old [OF that]
  proof
    assume "rid = pr_nextRecord r \<and> y = x"
    then show ?thesis using x pub_rinvD(1) [OF inv] by (simp add: rows recs(2))
  next
    assume h: "rid \<noteq> pr_nextRecord r \<and> pr_records r rid = Some y"
    with none have "rec_PublishBatchID y \<noteq> bid" by blast
    then show ?thesis using pub_rinvD(3,4) [OF inv, of rid y] h by (auto simp: rows recs(2))
  qed
  moreover have "rid = rid'" if "pr_records r' rid = Some y" "pr_records r' rid' = Some y'"
      "rec_PublishBatchID y = rec_PublishBatchID y'" for rid rid' y y'
    using old [OF that(1)] old [OF that(2)] that(3) x(4) none pub_rinvD(5) [OF inv, of rid y rid' y'] by metis
  moreover have "1 \<le> pr_nextRecord r'" using pub_rinvD(1) [OF inv] by (simp add: recs)
  ultimately show ?thesis unfolding pub_rinv_def by blast
qed

lemma pub_batch_okD:
  assumes "pub_batch_ok ni nf bid b"
  shows "bt_ID b = bid" "1 \<le> bid" "pub_items_ok ni b" "pub_feedback_ok nf b" "pub_status_ok b" "pub_cloneBatch b = b"
    and "pub_refs_ok ni (bt_Feedback b)"
  using assms by (simp_all add: pub_batch_ok_def)

lemma pub_clone_eq:
  "pub_cloneBatch b = b \<longleftrightarrow> json_clone (bt_RuleSummary b) = bt_RuleSummary b \<and> map pub_cloneItem (bt_Items b) = bt_Items b"
  by (cases b) (simp add: pub_cloneBatch_def)

text \<open>Feedback numbered from the next number on keeps the feedback well-formed.\<close>

lemma pub_feedback_ok_app:
  assumes "pub_feedback_ok nf b" and "1 \<le> nf" and "bt_ID b' = bt_ID b"
    and "bt_Feedback b' = bt_Feedback b @ fs" and "map fb_ID fs = [nf..nf + int n - 1]"
    and "\<forall>f \<in> set fs. fb_PublishBatchID f = bt_ID b"
  shows "pub_feedback_ok (nf + int n) b'"
proof -
  have ids: "fb_ID f \<in> {nf..nf + int n - 1}" if "f \<in> set fs" for f
    using that assms(5) by (metis set_upto image_eqI list.set_map)
  have old: "fb_ID f < nf" if "f \<in> set (bt_Feedback b)" for f
    using that assms(1) by (simp add: pub_feedback_ok_def)
  have "fb_ID ` set (bt_Feedback b) \<inter> fb_ID ` set fs = {}" using ids old by force
  moreover have "distinct (map fb_ID fs)" unfolding assms(5) by simp
  ultimately show ?thesis
    using assms(1-4,6) ids by (fastforce simp: pub_feedback_ok_def)
qed

lemma pub_makeItems_ok:
  assumes "pub_validateItems (bt_SnapshotID b) xs = Inr ()" and "xs \<noteq> []" and "1 \<le> n"
    and "bt_Items b = pub_makeItems now (bt_ID b) n 0 xs"
  shows "pub_items_ok (n + int (length xs)) b" "map pub_cloneItem (bt_Items b) = bt_Items b"
    and "i \<in> set (bt_Items b) \<Longrightarrow> n \<le> bi_ID i"
proof -
  have "pub_item_ok (n + int (length xs)) b i \<and> n \<le> bi_ID i" if "i \<in> set (bt_Items b)" for i
    using pub_makeItems_in [OF _ assms(1), of i now "bt_ID b" n 0] that assms(3,4)
    by (auto simp: pub_item_ok_def)
  moreover have "bt_Items b \<noteq> []"
    using assms(2,4) pub_makeItems_facts(1) [of now "bt_ID b" n 0 xs] by (metis length_0_conv)
  ultimately show "pub_items_ok (n + int (length xs)) b" "map pub_cloneItem (bt_Items b) = bt_Items b"
    "i \<in> set (bt_Items b) \<Longrightarrow> n \<le> bi_ID i"
    using pub_makeItems_facts [of now "bt_ID b" n 0 xs] by (auto simp: pub_items_ok_def assms(4))
qed

lemma pub_same_items_ok:
  "bt_Items b' = bt_Items b \<Longrightarrow> bt_ID b' = bt_ID b \<Longrightarrow> bt_SnapshotID b' = bt_SnapshotID b \<Longrightarrow>
     pub_items_ok ni b' = pub_items_ok ni b"
  by (simp add: pub_items_ok_def pub_item_ok_def)

text \<open>A step that only appends feedback and changes stamps or the status.\<close>

lemma pub_stamped_ok:
  assumes ok: "pub_batch_ok ni nf bid b" and nf: "1 \<le> nf"
    and same: "bt_Items b' = bt_Items b" "bt_ID b' = bt_ID b" "bt_SnapshotID b' = bt_SnapshotID b"
      "bt_ProjectID b' = bt_ProjectID b" "bt_Source b' = bt_Source b" "bt_RuleSummary b' = bt_RuleSummary b"
    and fs: "bt_Feedback b' = bt_Feedback b @ fs" "map fb_ID fs = [nf..nf + int n - 1]"
      "\<forall>f \<in> set fs. fb_PublishBatchID f = bid" "pub_refs_ok ni fs"
    and st: "pub_status_ok b'"
  shows "pub_batch_ok ni (nf + int n) bid b'"
proof -
  have "bt_ID b = bid" using ok by (simp add: pub_batch_ok_def)
  then have "pub_feedback_ok (nf + int n) b'"
    using pub_feedback_ok_app [OF pub_batch_okD(4) [OF ok] nf same(2) fs(1,2)] fs(3) by simp
  moreover have "pub_cloneBatch b' = b'"
    using pub_batch_okD(6) [OF ok] same by (simp add: pub_clone_eq)
  moreover have "pub_refs_ok ni (bt_Feedback b')"
    using pub_batch_okD(7) [OF ok] fs(1,4) by (auto simp: pub_refs_ok_def)
  ultimately show ?thesis
    using ok same st pub_same_items_ok [of b' b ni] by (simp add: pub_batch_ok_def)
qed

lemma pub_stamped_binv:
  assumes inv: "pub_binv r" and row: "pr_batches r bid = Some b"
    and rows: "pr_batches r' = (pr_batches r)(bid \<mapsto> b')"
    and nexts: "pr_nextBatch r' = pr_nextBatch r" "pr_nextItem r' = pr_nextItem r" "pr_nextFeed r' = pr_nextFeed r + int n"
    and same: "bt_Items b' = bt_Items b" "bt_ID b' = bt_ID b" "bt_SnapshotID b' = bt_SnapshotID b"
      "bt_ProjectID b' = bt_ProjectID b" "bt_Source b' = bt_Source b" "bt_RuleSummary b' = bt_RuleSummary b"
    and fs: "bt_Feedback b' = bt_Feedback b @ fs" "map fb_ID fs = [pr_nextFeed r..pr_nextFeed r + int n - 1]"
      "\<forall>f \<in> set fs. fb_PublishBatchID f = bid" "pub_refs_ok (pr_nextItem r) fs"
    and st: "pub_status_ok b'"
  shows "pub_binv r'"
proof (rule pub_binv_put [OF inv rows])
  show "pub_batch_ok (pr_nextItem r') (pr_nextFeed r') bid b'"
    unfolding nexts
    by (rule pub_stamped_ok [OF pub_binvD(4) [OF inv row] pub_binvD(3) [OF inv] same fs st])
  show "bid < pr_nextBatch r'" using pub_binvD(5) [OF inv row] nexts by simp
  show "pr_nextItem r \<le> bi_ID i \<or> (\<exists>b. pr_batches r bid = Some b \<and> i \<in> set (bt_Items b))"
    if "i \<in> set (bt_Items b')" for i
    using that row same(1) by auto
qed (simp_all add: nexts)

lemma pub_reviewed_status_ok:
  "actor \<noteq> [] \<Longrightarrow> pub_status_ok (pub_reviewed now d actor fs b)"
  by (simp add: pub_status_ok_def pub_reviewed_def)

lemma pub_decided_status_ok:
  assumes "pub_status_ok b" "bt_Status b = pub_StatusReviewApproved \<or> bt_Status b = pub_StatusOwnerPending" "actor \<noteq> []"
  shows "pub_status_ok (pub_decided now d actor fs b)"
  using assms by (auto simp: pub_status_ok_def pub_decided_def)

lemma pub_evolves_changes:
  "\<not> pub_final (bt_Status b) \<Longrightarrow> pub_evolves b (pub_reviewed now d actor fs b)"
  "\<not> pub_final (bt_Status b) \<Longrightarrow> pub_evolves b (pub_decided now d actor fs b)"
  "\<not> pub_final (bt_Status b) \<Longrightarrow> pub_evolves b (pub_replaced now n items b)"
  "pub_evolves b (pub_commented f b)"
  by (simp_all add: pub_evolves_def pub_reviewed_def pub_decided_def pub_replaced_def pub_commented_def)

lemma pub_new_refs_ok:
  assumes "pub_binv r"
  shows "pub_refs_ok (pr_nextItem r) (pub_newFeedbacks clk n bid xs)"
    and "pr_batches r bid = Some b \<Longrightarrow> (\<And>i. iid = Some i \<Longrightarrow> i \<in> bi_ID ` set (bt_Items b)) \<Longrightarrow>
      pub_refs_ok (pr_nextItem r) [pub_newFeedback now n bid iid inp]"
proof -
  have n: "1 \<le> pr_nextItem r" using pub_binvD [OF assms] by blast
  then show "pub_refs_ok (pr_nextItem r) (pub_newFeedbacks clk n bid xs)"
    using pub_newFeedbacks_facts(3) [of clk n bid xs] by (simp add: pub_refs_ok_def)
  show "pub_refs_ok (pr_nextItem r) [pub_newFeedback now n bid iid inp]"
    if b: "pr_batches r bid = Some b" and i: "\<And>i. iid = Some i \<Longrightarrow> i \<in> bi_ID ` set (bt_Items b)"
    using n i pub_binvD(4) [OF assms b]
    by (cases iid) (auto simp: pub_refs_ok_def pub_newFeedback_def pub_batch_ok_def pub_items_ok_def pub_item_ok_def)
qed

lemma pub_step_binv: "pub_step r r' \<Longrightarrow> pub_binv r \<Longrightarrow> pub_binv r'"
proof (induction rule: pub_step.induct)
  case (stay r)
  then show ?case .
next
  case (seeded r cs)
  then show ?case by (simp add: pub_binv_def)
next
  case (created inp r now)
  let ?b = "pub_first now inp r"
  have n: "1 \<le> pr_nextItem r" "1 \<le> pr_nextBatch r" using pub_binvD [OF created.prems] by blast+
  have eq: "bt_Items ?b = pub_makeItems now (bt_ID ?b) (pr_nextItem r) 0 (cb_Items inp)"
    by (simp add: pub_first_def)
  have v: "pub_validateItems (bt_SnapshotID ?b) (cb_Items inp) = Inr ()" using created.hyps by (simp add: pub_first_def)
  note items = pub_makeItems_ok [OF v created.hyps(4) n(1) eq]
  have "pub_cloneBatch ?b = ?b" using items(2) by (simp add: pub_clone_eq) (simp add: pub_first_def)
  moreover have "pub_status_ok ?b" "pub_feedback_ok (pr_nextFeed r) ?b" "pub_refs_ok ni (bt_Feedback ?b)" for ni
    by (simp_all add: pub_status_ok_def pub_feedback_ok_def pub_first_def pub_refs_ok_def)
  moreover have "bt_ID ?b = pr_nextBatch r" "1 \<le> bt_ProjectID ?b" "1 \<le> bt_SnapshotID ?b" "pub_isValidSource (bt_Source ?b)"
    using created.hyps by (simp_all add: pub_first_def)
  ultimately have "pub_batch_ok (pr_nextItem r + int (length (cb_Items inp))) (pr_nextFeed r) (pr_nextBatch r) ?b"
    using items(1) n(2) by (simp add: pub_batch_ok_def)
  then show ?case using items(3) by (intro pub_binv_put [OF created.prems]) auto
next
  case (replaced r bid b items now)
  let ?b = "pub_replaced now (pr_nextItem r) items b"
  have n: "1 \<le> pr_nextItem r" using pub_binvD [OF replaced.prems] by blast
  note ok = pub_binvD(4) [OF replaced.prems replaced.hyps(1)]
  have eq: "bt_Items ?b = pub_makeItems now (bt_ID ?b) (pr_nextItem r) 0 items" by (simp add: pub_replaced_def)
  have v: "pub_validateItems (bt_SnapshotID ?b) items = Inr ()" using replaced.hyps by (simp add: pub_replaced_def)
  note items = pub_makeItems_ok [OF v replaced.hyps(3) n eq]
  have "pub_cloneBatch ?b = ?b"
    using items(2) pub_batch_okD(6) [OF ok] unfolding pub_clone_eq by (simp add: pub_replaced_def)
  moreover have "pub_status_ok ?b" by (simp add: pub_status_ok_def pub_replaced_def)
  moreover have "pub_feedback_ok (pr_nextFeed r) ?b"
    using pub_batch_okD(4) [OF ok] by (simp add: pub_feedback_ok_def pub_replaced_def)
  moreover have "pub_refs_ok (pr_nextItem r + int (length items)) (bt_Feedback ?b)"
    using pub_batch_okD(7) [OF ok] by (force simp: pub_refs_ok_def pub_replaced_def)
  ultimately have "pub_batch_ok (pr_nextItem r + int (length items)) (pr_nextFeed r) bid ?b"
    using items(1) ok unfolding pub_batch_ok_def by (simp add: pub_replaced_def)
  then show ?case
    using items(3) pub_binvD(5) [OF replaced.prems replaced.hyps(1)]
    by (intro pub_binv_put [OF replaced.prems]) auto
next
  case (reviewed r bid b actor decision clk fs)
  show ?case
    by (rule pub_stamped_binv [OF reviewed.prems reviewed.hyps(1), where n = "length fs" and
        b' = "pub_reviewed (clk (length fs)) decision actor (pub_newFeedbacks clk (pr_nextFeed r) bid fs) b" and
        fs = "pub_newFeedbacks clk (pr_nextFeed r) bid fs"])
      (simp_all add: pub_reviewed_status_ok [OF reviewed.hyps(3)] pub_newFeedbacks_facts
        pub_new_refs_ok [OF reviewed.prems], simp_all add: pub_reviewed_def)
next
  case (turned_down r bid b decision actor clk fs)
  have st: "pub_status_ok b" using pub_binvD(4) [OF turned_down.prems turned_down.hyps(1)] by (simp add: pub_batch_ok_def)
  show ?case
    by (rule pub_stamped_binv [OF turned_down.prems turned_down.hyps(1), where n = "length fs" and
        b' = "pub_decided (clk (length fs)) decision actor (pub_newFeedbacks clk (pr_nextFeed r) bid fs) b" and
        fs = "pub_newFeedbacks clk (pr_nextFeed r) bid fs"])
      (simp_all add: pub_decided_status_ok [OF st turned_down.hyps(2,4)] pub_newFeedbacks_facts
        pub_new_refs_ok [OF turned_down.prems], simp_all add: pub_decided_def)
next
  case (published r bid b actor clk fs)
  have st: "pub_status_ok b" using pub_binvD(4) [OF published.prems published.hyps(1)] by (simp add: pub_batch_ok_def)
  show ?case
    by (rule pub_stamped_binv [OF published.prems published.hyps(1), where n = "length fs" and
        b' = "pub_decided (clk (length fs)) pub_OwnerDecisionApprove actor
                (pub_newFeedbacks clk (pr_nextFeed r) bid fs) b" and
        fs = "pub_newFeedbacks clk (pr_nextFeed r) bid fs"])
      (simp_all add: pub_decided_status_ok [OF st published.hyps(2,3)] pub_newFeedbacks_facts
        pub_new_refs_ok [OF published.prems], simp_all add: pub_decided_def)
next
  case (commented r bid b iid now inp)
  have st: "pub_status_ok b" using pub_binvD(4) [OF commented.prems commented.hyps(1)] by (simp add: pub_batch_ok_def)
  show ?case
    by (rule pub_stamped_binv [OF commented.prems commented.hyps(1), where n = 1 and
        b' = "pub_commented (pub_newFeedback now (pr_nextFeed r) bid iid inp) b" and
        fs = "[pub_newFeedback now (pr_nextFeed r) bid iid inp]"])
      (use st pub_new_refs_ok(2) [OF commented.prems commented.hyps] in
        \<open>simp_all add: pub_commented_def pub_status_ok_def pub_newFeedback_def\<close>)
qed

lemma pub_fresh_batch: "pub_binv r \<Longrightarrow> pr_batches r (pr_nextBatch r) = None"
  using pub_binvD(5) [of r "pr_nextBatch r"] by (cases "pr_batches r (pr_nextBatch r)") auto

lemma pub_status_simps [simp]:
  "bt_Status (pub_first now inp r) = pub_StatusDraft"
  "bt_Status (pub_replaced now n items b) = pub_StatusOwnerChangesRequested"
  "bt_Status (pub_reviewed now d actor fs b) =
     (if d = pub_ReviewDecisionApprove then pub_StatusReviewApproved
      else if d = pub_ReviewDecisionReject then pub_StatusRejected else pub_StatusOwnerChangesRequested)"
  "bt_Status (pub_decided now d actor fs b) =
     (if d = pub_OwnerDecisionApprove then pub_StatusPublished
      else if d = pub_OwnerDecisionReject then pub_StatusRejected else pub_StatusOwnerChangesRequested)"
  "bt_Status (pub_commented f b) = bt_Status b"
  by (simp_all add: pub_first_def pub_replaced_def pub_reviewed_def pub_decided_def pub_commented_def)

lemma pub_not_final_ready:
  "st = pub_StatusReviewApproved \<or> st = pub_StatusOwnerPending \<Longrightarrow> \<not> pub_final st \<and> st \<noteq> pub_StatusPublished"
  by auto

lemma pub_step_rinv: "pub_step r r' \<Longrightarrow> pub_binv r \<Longrightarrow> pub_rinv r \<Longrightarrow> pub_rinv r'"
proof (induction rule: pub_step.induct)
  case (stay r)
  show ?case by (rule stay.prems(2))
next
  case (seeded r cs)
  then show ?case by (simp add: pub_rinv_def)
next
  case (created inp r now)
  show ?case
    by (rule pub_rinv_put [OF created.prems(2), where bid = "pr_nextBatch r" and b' = "pub_first now inp r"])
      (simp_all add: pub_fresh_batch [OF created.prems(1)])
next
  case (replaced r bid b items now)
  show ?case
    by (rule pub_rinv_put [OF replaced.prems(2)])
      (use replaced.hyps(1,2) in \<open>auto simp: pub_evolves_changes\<close>)
next
  case (reviewed r bid b actor decision clk fs)
  show ?case
    by (rule pub_rinv_put [OF reviewed.prems(2)])
      (use reviewed.hyps(1,2) in \<open>auto simp: pub_evolves_changes split: if_splits\<close>)
next
  case (turned_down r bid b decision actor clk fs)
  show ?case
    by (rule pub_rinv_put [OF turned_down.prems(2)])
      (use turned_down.hyps pub_not_final_ready [OF turned_down.hyps(2)] in
        \<open>auto simp: pub_evolves_changes split: if_splits\<close>)
next
  case (published r bid b actor clk fs)
  have bid: "bt_ID b = bid" using pub_binvD(4) [OF published.prems(1) published.hyps(1)] by (simp add: pub_batch_ok_def)
  have st: "bt_Status b \<noteq> pub_StatusPublished" using published.hyps(2) by auto
  show ?case
    by (rule pub_rinv_publish [OF published.prems(2) _ _ _ published.hyps(1) st,
          where b' = "pub_decided (clk (length fs)) pub_OwnerDecisionApprove actor
              (pub_newFeedbacks clk (pr_nextFeed r) bid fs) b" and
            x = "pub_new_record (clk (length fs)) actor (pr_nextRecord r) b"])
      (simp_all add: pub_record_of_def pub_new_record_def pub_cloneRecord_def bid,
        simp_all add: pub_decided_def bid)
next
  case (commented r bid b iid now inp)
  show ?case
    by (rule pub_rinv_put [OF commented.prems(2)])
      (use commented.hyps(1) in \<open>auto simp: pub_evolves_changes\<close>)
qed

lemma pub_step_inv: "pub_step r r' \<Longrightarrow> pub_inv r \<Longrightarrow> pub_inv r'"
  using pub_step_binv pub_step_rinv unfolding pub_inv_def by blast

lemma pub_le_put:
  assumes "pr_batches r' = (pr_batches r)(bid \<mapsto> b')" and "\<And>b. pr_batches r bid = Some b \<Longrightarrow> pub_evolves b b'"
    and "\<And>rid x. pr_records r rid = Some x \<Longrightarrow> pr_records r' rid = Some x"
  shows "pub_le r r'"
  using assms unfolding pub_le_def by (auto simp: assms(1))

lemma pub_step_le: "pub_step r r' \<Longrightarrow> pub_inv r \<Longrightarrow> pub_le r r'"
proof (induction rule: pub_step.induct)
  case (created inp r now)
  then show ?case by (intro pub_le_put [where bid = "pr_nextBatch r"]) (auto simp: pub_inv_def pub_fresh_batch)
next
  case (replaced r bid b items now)
  then show ?case by (intro pub_le_put [where bid = bid]) (auto simp: pub_evolves_changes)
next
  case (reviewed r bid b actor decision clk fs)
  show ?case by (rule pub_le_put [where bid = bid]) (use reviewed.hyps(1,2) in \<open>auto simp: pub_evolves_changes\<close>)
next
  case (turned_down r bid b decision actor clk fs)
  show ?case
    by (rule pub_le_put [where bid = bid])
      (use turned_down.hyps(1) pub_not_final_ready [OF turned_down.hyps(2)] in \<open>auto simp: pub_evolves_changes\<close>)
next
  case (published r bid b actor clk fs)
  have "pr_records r (pr_nextRecord r) = None"
    using published.prems pub_rinvD(3) [of r "pr_nextRecord r"] by (fastforce simp: pub_inv_def)
  then show ?case
    by (intro pub_le_put [where bid = bid])
      (use published.hyps(1) pub_not_final_ready [OF published.hyps(2)] in \<open>auto simp: pub_evolves_changes\<close>)
next
  case (commented r bid b iid now inp)
  then show ?case by (intro pub_le_put [where bid = bid]) (auto simp: pub_evolves_changes)
qed (simp_all add: pub_le_def)

lemma pub_empty_inv: "pub_inv pub_NewInMemoryRepository"
  by (simp add: pub_inv_def pub_binv_def pub_rinv_def pub_NewInMemoryRepository_def)

end
