(* ===== verification/Publish_Props.thy ===== *)
theory Publish_Props
  imports Publish_Facts
begin

section \<open>Publish: the service refines the lifecycle\<close>

text \<open>
  Every call of the publish service is one step of \<open>pub_step\<close>. The evaluation task of an
  approval is opened through the interface \<open>task_creator\<close>, interpreted on the task service;
  histories interleave the publish calls with the calls of the task service.
\<close>

subsection \<open>Repository operations on stored batches\<close>

lemma pub_cloneItem_idem [simp]: "pub_cloneItem (pub_cloneItem i) = pub_cloneItem i"
  by (simp add: pub_cloneItem_def)

lemma pub_clone_changes:
  assumes "pub_cloneBatch b = b"
  shows "pub_cloneBatch (pub_reviewed now d actor fs b) = pub_reviewed now d actor fs b"
    and "pub_cloneBatch (pub_decided now d actor fs b) = pub_decided now d actor fs b"
    and "pub_cloneBatch (pub_commented f b) = pub_commented f b"
    and "pub_cloneBatch (pub_replaced now n items b) = pub_replaced now n items b"
  using assms unfolding pub_clone_eq
  by (simp_all add: pub_reviewed_def pub_decided_def pub_commented_def pub_replaced_def pub_makeItems_facts)

lemma pub_clone_first [simp]: "pub_cloneBatch (pub_first now inp r) = pub_first now inp r"
  unfolding pub_clone_eq by (simp add: pub_first_def pub_makeItems_facts)

lemma pub_stored_clone: "pub_inv r \<Longrightarrow> pr_batches r bid = Some b \<Longrightarrow> pub_cloneBatch b = b \<and> bt_ID b = bid \<and> 1 \<le> bid"
  using pub_binvD(4) [of r bid b] by (simp add: pub_inv_def pub_batch_ok_def)

lemma pub_repo_CreateBatch_eq:
  "pub_repo_CreateBatch now inp r =
     (Inr (pub_first now inp r), pub_put (pr_nextBatch r) (pub_first now inp r)
        (r\<lparr>pr_nextBatch := pr_nextBatch r + 1, pr_nextItem := pr_nextItem r + int (length (cb_Items inp))\<rparr>))"
  unfolding pub_repo_CreateBatch_def Let_def pub_first_def [symmetric]
  by (simp add: pub_put_def) (simp add: pub_first_def)

lemma pub_repo_ReplaceBatchItems_eq:
  assumes "pub_inv r" and b: "pr_batches r bid = Some b"
  shows "pub_repo_ReplaceBatchItems now bid items r =
     (Inr (pub_replaced now (pr_nextItem r) items b), pub_put bid (pub_replaced now (pr_nextItem r) items b)
        (r\<lparr>pr_nextItem := pr_nextItem r + int (length items)\<rparr>))"
proof -
  have "pub_cloneBatch b = b" using pub_stored_clone [OF assms] by blast
  note c = pub_clone_changes(4) [OF this]
  show ?thesis
    unfolding pub_repo_ReplaceBatchItems_def Let_def b option.case pub_replaced_def [symmetric] c
    by (simp add: pub_put_def)
qed

lemma pub_repo_ApplyReviewDecision_eq:
  assumes "pub_inv r" and b: "pr_batches r bid = Some b"
    and d: "decision \<in> {pub_ReviewDecisionApprove, pub_ReviewDecisionReject, pub_ReviewDecisionRework}"
  shows "pub_repo_ApplyReviewDecision clk bid decision actor fs r =
     (Inr (), pub_put bid
        (pub_reviewed (clk (length fs)) decision actor (pub_newFeedbacks clk (pr_nextFeed r) bid fs) b)
        (r\<lparr>pr_nextFeed := pr_nextFeed r + int (length fs)\<rparr>))"
proof -
  have "pub_cloneBatch b = b" using pub_stored_clone [OF assms(1) b] by blast
  note c = pub_clone_changes(1) [OF this, of "clk (length fs)" decision actor "pub_newFeedbacks clk (pr_nextFeed r) bid fs"]
  from d consider "decision = pub_ReviewDecisionApprove" | "decision = pub_ReviewDecisionReject" | "decision = pub_ReviewDecisionRework"
    by blast
  then show ?thesis
    using c by cases (simp_all add: pub_repo_ApplyReviewDecision_def Let_def b pub_put_def pub_reviewed_def)
qed

lemma pub_repo_ApplyOwnerDecision_eq:
  assumes "pub_inv r" and b: "pr_batches r bid = Some b"
    and d: "decision \<in> {pub_OwnerDecisionReject, pub_OwnerDecisionRework}"
  shows "pub_repo_ApplyOwnerDecision clk bid decision actor fs r =
     (Inr None, pub_put bid
        (pub_decided (clk (length fs)) decision actor (pub_newFeedbacks clk (pr_nextFeed r) bid fs) b)
        (r\<lparr>pr_nextFeed := pr_nextFeed r + int (length fs)\<rparr>))"
proof -
  have "pub_cloneBatch b = b" using pub_stored_clone [OF assms(1) b] by blast
  note c = pub_clone_changes(2) [OF this, of "clk (length fs)" decision actor "pub_newFeedbacks clk (pr_nextFeed r) bid fs"]
  from d consider "decision = pub_OwnerDecisionReject" | "decision = pub_OwnerDecisionRework" by blast
  then show ?thesis
    using c by cases (simp_all add: pub_repo_ApplyOwnerDecision_def Let_def b pub_put_def pub_decided_def)
qed

lemma pub_repo_OwnerApprove_eq:
  assumes "pub_inv r" and b: "pr_batches r bid = Some b"
  shows "pub_repo_ApplyOwnerDecision clk bid pub_OwnerDecisionApprove actor fs r =
     (Inr (Some (pub_new_record (clk (length fs)) actor (pr_nextRecord r) b)), pub_put bid
        (pub_decided (clk (length fs)) pub_OwnerDecisionApprove actor (pub_newFeedbacks clk (pr_nextFeed r) bid fs) b)
        (r\<lparr>pr_nextFeed := pr_nextFeed r + int (length fs), pr_nextRecord := pr_nextRecord r + 1,
           pr_records := (pr_records r)(pr_nextRecord r \<mapsto> pub_new_record (clk (length fs)) actor (pr_nextRecord r) b)\<rparr>))"
proof -
  have "pub_cloneBatch b = b" using pub_stored_clone [OF assms] by blast
  note c = pub_clone_changes(2) [OF this, of "clk (length fs)" pub_OwnerDecisionApprove actor
    "pub_newFeedbacks clk (pr_nextFeed r) bid fs"]
  show ?thesis
    using c by (simp add: pub_repo_ApplyOwnerDecision_def Let_def b pub_put_def pub_decided_def pub_new_record_def
        pub_cloneRecord_def)
qed

lemma pub_repo_addFeedback_eq:
  assumes "pub_inv r" and b: "pr_batches r bid = Some b"
  shows "pub_repo_addFeedback now bid iid inp b r =
     (Inr (pub_newFeedback now (pr_nextFeed r) bid iid inp),
      pub_put bid (pub_commented (pub_newFeedback now (pr_nextFeed r) bid iid inp) b)
        (r\<lparr>pr_nextFeed := pr_nextFeed r + 1\<rparr>))"
proof -
  have "pub_cloneBatch b = b" using pub_stored_clone [OF assms] by blast
  note c = pub_clone_changes(3) [OF this, of "pub_newFeedback now (pr_nextFeed r) bid iid inp"]
  show ?thesis
    using c by (simp add: pub_repo_addFeedback_def Let_def pub_put_def pub_commented_def)
qed

subsection \<open>What publish needs of a task service\<close>

definition pub_evaluates :: "pub_Batch \<Rightarrow> int \<Rightarrow> tasks_Task \<Rightarrow> bool" where
  "pub_evaluates b rid t \<longleftrightarrow>
     task_ProjectID t = bt_ProjectID b \<and> task_SnapshotID t = Some (bt_SnapshotID b) \<and>
     task_Title t = ''Evaluate publish record '' @ show_int rid \<and> task_Kind t = tasks_KindTrainingCandidate \<and>
     task_Status t = tasks_StatusQueued \<and> task_Priority t = tasks_PriorityHigh \<and> task_Assignee t = ''ml-engineer''"

text \<open>
  Opening the evaluation task of a batch with a positive project and snapshot succeeds, adds a
  task under a new number and touches no other.
\<close>

locale task_creator =
  fixes create :: "clock \<Rightarrow> tasks_CreateTaskInput \<Rightarrow> 's \<Rightarrow> (tasks_error, tasks_Task, 's) outcome"
    and stored :: "'s \<Rightarrow> int \<Rightarrow> tasks_Task option"
    and ok :: "'s \<Rightarrow> bool"
  assumes create_ok: "ok s \<Longrightarrow> ok (snd (create clk inp s))"
    and create_keeps: "ok s \<Longrightarrow> stored s tid = Some t \<Longrightarrow> stored (snd (create clk inp s)) tid = Some t"
    and opens: "ok s \<Longrightarrow> 0 < bt_ProjectID b \<Longrightarrow> 0 < bt_SnapshotID b \<Longrightarrow>
      \<exists>t s'. create clk (pub_evaluationTask b rid) s = (Inr t, s') \<and> stored s (task_ID t) = None \<and>
             stored s' (task_ID t) = Some t \<and> pub_evaluates b rid t"

definition pub_state :: "pub_Repo \<Rightarrow> 't \<Rightarrow> 't pub_Service" where
  "pub_state r t = \<lparr>psv_repo = r, psv_tasks = Some t\<rparr>"

lemma pub_state_simps [simp]:
  "psv_repo (pub_state r t) = r" "psv_tasks (pub_state r t) = Some t"
  "(pub_state r t)\<lparr>psv_repo := r'\<rparr> = pub_state r' t" "(pub_state r t)\<lparr>psv_tasks := Some t'\<rparr> = pub_state r t'"
  "pub_state r t = pub_state r' t' \<longleftrightarrow> r = r' \<and> t = t'"
  by (simp_all add: pub_state_def)

lemma pub_on_repo_state [simp]:
  "pub_on_repo f (pub_state r t) = (fst (f r), pub_state (snd (f r)) t)"
  by (simp add: pub_on_repo_def case_prod_beta)

lemma pub_GetBatch_state:
  "pub_inv r \<Longrightarrow> pub_GetBatch bid (pub_state r t) =
     (if bid \<le> 0 then Inl PubBatchIDNotPositive
      else case pr_batches r bid of None \<Rightarrow> Inl (PubBatchNotFound bid) | Some b \<Rightarrow> Inr b)"
  using pub_stored_clone [of r bid] by (auto simp: pub_GetBatch_def pub_repo_GetBatch_def split: option.split)

lemma pub_GetBatch_found:
  "pub_inv r \<Longrightarrow> pr_batches r bid = Some b \<Longrightarrow> pub_GetBatch bid (pub_state r t) = Inr b"
  using pub_stored_clone [of r bid b] by (simp add: pub_GetBatch_state)

lemma pub_GetBatch_Inr:
  "pub_inv r \<Longrightarrow> pub_GetBatch bid (pub_state r t) = Inr b \<Longrightarrow> pr_batches r bid = Some b"
  by (simp add: pub_GetBatch_state split: if_splits option.splits)

lemma pub_actor_nonempty [simp]: "pub_normalizeActor a \<noteq> []"
  by (simp add: pub_normalizeActor_def Let_def)

lemma pub_length_feedback [simp]: "length (pub_normalizeDecisionFeedback xs a st) = length xs"
  by (simp add: pub_normalizeDecisionFeedback_def)

definition pub_ready :: "pub_Batch \<Rightarrow> bool" where
  "pub_ready b \<longleftrightarrow> bt_Status b = pub_StatusReviewApproved \<or> bt_Status b = pub_StatusOwnerPending"

definition pub_published_repo ::
  "clock \<Rightarrow> string \<Rightarrow> pub_CreateFeedbackInput list \<Rightarrow> pub_Batch \<Rightarrow> pub_Repo \<Rightarrow> pub_Repo" where
  "pub_published_repo clk actor fs b r =
     pub_put (bt_ID b)
       (pub_decided (clk (length fs)) pub_OwnerDecisionApprove actor (pub_newFeedbacks clk (pr_nextFeed r) (bt_ID b) fs) b)
       (r\<lparr>pr_nextFeed := pr_nextFeed r + int (length fs), pr_nextRecord := pr_nextRecord r + 1,
          pr_records := (pr_records r)(pr_nextRecord r \<mapsto> pub_new_record (clk (length fs)) actor (pr_nextRecord r) b)\<rparr>)"

lemma pub_OwnerApprove_run:
  assumes inv: "pub_inv r" and b: "pr_batches r bid = Some b" and ready: "pub_ready b"
  shows "pub_OwnerApprove create clk bid actor fs (pub_state r t) =
     (let who = pub_normalizeActor actor; fb = pub_normalizeDecisionFeedback fs who pub_FeedbackStageOwner;
          x = pub_new_record (clk (length fs)) who (pr_nextRecord r) b; r' = pub_published_repo clk who fb b r
      in case create (clock_drop (length fs + 1) clk) (pub_evaluationTask b (pr_nextRecord r)) t of
           (Inl e, t') \<Rightarrow> (Inl (PubTaskError e), pub_state r' t')
         | (Inr _, t') \<Rightarrow> (Inr (Some x), pub_state r' t'))"
proof -
  have bid: "bt_ID b = bid" using pub_stored_clone [OF inv b] by blast
  have x: "rec_ID (pub_new_record now who n b) = n" for now who n by (simp add: pub_new_record_def)
  have c: "(bt_Status b \<noteq> pub_StatusReviewApproved \<and> bt_Status b \<noteq> pub_StatusOwnerPending) = False"
    using ready by (auto simp: pub_ready_def)
  show ?thesis
    unfolding pub_OwnerApprove_def pub_GetBatch_found [OF inv b] sum.case c if_False Let_def pub_on_repo_state
      pub_repo_OwnerApprove_eq [OF inv b] fst_conv snd_conv and_then_simps pub_state_simps option.case
      pub_published_repo_def bid pub_length_feedback x ..
qed

lemma pub_OwnerApprove_cases:
  assumes inv: "pub_inv r"
  obtains (refused) e where "pub_OwnerApprove create clk bid actor fs (pub_state r t) = (Inl e, pub_state r t)"
  | (approved) b where "pr_batches r bid = Some b" "pub_ready b"
proof (cases "\<exists>b. pub_GetBatch bid (pub_state r t) = Inr b \<and> pub_ready b")
  case True
  then obtain b where "pub_GetBatch bid (pub_state r t) = Inr b" "pub_ready b" by blast
  then show ?thesis by (intro approved [of b]) (auto dest: pub_GetBatch_Inr [OF inv])
next
  case False
  then have "\<exists>e. pub_OwnerApprove create clk bid actor fs (pub_state r t) = (Inl e, pub_state r t)"
    by (cases "pub_GetBatch bid (pub_state r t)") (auto simp: pub_OwnerApprove_def pub_ready_def)
  then show ?thesis using refused by blast
qed

lemma pub_published_step:
  assumes "pub_inv r" and b: "pr_batches r bid = Some b" and "pub_ready b" and "actor \<noteq> []"
  shows "pub_step r (pub_published_repo clk actor fs b r)"
  using pub_step.published [OF b, of actor clk fs] assms pub_stored_clone [OF assms(1,2)]
  by (auto simp: pub_published_repo_def pub_ready_def)

context task_creator begin

lemma owner_approve_done:
  assumes inv: "pub_inv r" "ok t" and b: "pr_batches r bid = Some b" and ready: "pub_ready b"
  shows "\<exists>task t'. pub_OwnerApprove create clk bid actor fs (pub_state r t) =
           (Inr (Some (pub_new_record (clk (length fs)) (pub_normalizeActor actor) (pr_nextRecord r) b)),
            pub_state (pub_published_repo clk (pub_normalizeActor actor)
              (pub_normalizeDecisionFeedback fs (pub_normalizeActor actor) pub_FeedbackStageOwner) b r) t') \<and>
         ok t' \<and> stored t (task_ID task) = None \<and> stored t' (task_ID task) = Some task \<and>
         pub_evaluates b (pr_nextRecord r) task"
proof -
  have "pub_batch_ok (pr_nextItem r) (pr_nextFeed r) bid b"
    using inv(1) b pub_binvD(4) unfolding pub_inv_def by blast
  then have pos: "0 < bt_ProjectID b" "0 < bt_SnapshotID b" by (simp_all add: pub_batch_ok_def)
  let ?clk = "clock_drop (length fs + 1) clk"
  obtain task t' where c: "create ?clk (pub_evaluationTask b (pr_nextRecord r)) t = (Inr task, t')"
    "stored t (task_ID task) = None" "stored t' (task_ID task) = Some task" "pub_evaluates b (pr_nextRecord r) task"
    using opens [OF inv(2) pos] by blast
  have "ok t'" using create_ok [OF inv(2), of ?clk "pub_evaluationTask b (pr_nextRecord r)"] c(1) by simp
  then show ?thesis
    unfolding pub_OwnerApprove_run [OF inv(1) b ready] Let_def c(1) prod.case sum.case using c(2-4) by blast
qed

end

subsection \<open>Every call is a lifecycle step\<close>

definition pub_moves :: "pub_Repo \<Rightarrow> 't \<Rightarrow> 't pub_Service \<Rightarrow> bool" where
  "pub_moves r t s \<longleftrightarrow> (\<exists>r'. s = pub_state r' t \<and> pub_step r r' \<and> pr_nextRecord r' = pr_nextRecord r)"

lemma pub_moves_stay [simp]: "pub_moves r t (pub_state r t)"
  by (auto simp: pub_moves_def intro: pub_step.stay)

lemma pub_movesI: "pub_step r r' \<Longrightarrow> pr_nextRecord r' = pr_nextRecord r \<Longrightarrow> pub_moves r t (pub_state r' t)"
  by (auto simp: pub_moves_def)

lemma pub_CreateBatch_moves: "pub_moves r t (snd (pub_CreateBatch clk inp (pub_state r t)))"
proof -
  let ?inp = "inp\<lparr>cb_Source := pub_normalizeSource (cb_Source inp)\<rparr>"
  show ?thesis
  proof (cases "0 < cb_ProjectID inp \<and> 0 < cb_SnapshotID inp \<and> pub_isValidSource (cb_Source ?inp) \<and>
      cb_Items inp \<noteq> [] \<and> pub_validateItems (cb_SnapshotID inp) (cb_Items inp) = Inr ()")
    case True
    have "pub_step r (snd (pub_repo_CreateBatch (clk 0) ?inp r))"
      unfolding pub_repo_CreateBatch_eq snd_conv using True by (intro pub_step.created) simp_all
    moreover have "pr_nextRecord (snd (pub_repo_CreateBatch (clk 0) ?inp r)) = pr_nextRecord r"
      by (simp add: pub_repo_CreateBatch_eq)
    ultimately show ?thesis using True by (simp add: pub_CreateBatch_def Let_def pub_movesI)
  next
    case False
    then show ?thesis by (auto simp: pub_CreateBatch_def Let_def split: sum.split)
  qed
qed

lemma pub_editable_final: "pub_isEditableStatus st \<Longrightarrow> \<not> pub_final st"
  by (auto simp: pub_isEditableStatus_def)

lemma pub_ReplaceBatchItems_moves:
  assumes inv: "pub_inv r"
  shows "pub_moves r t (snd (pub_ReplaceBatchItems clk bid items (pub_state r t)))"
proof (cases "pub_GetBatch bid (pub_state r t)")
  case (Inl e)
  then show ?thesis by (simp add: pub_ReplaceBatchItems_def)
next
  case (Inr b)
  note b = pub_GetBatch_Inr [OF inv Inr]
  show ?thesis
  proof (cases "pub_isEditableStatus (bt_Status b) \<and> items \<noteq> [] \<and> pub_validateItems (bt_SnapshotID b) items = Inr ()")
    case True
    have "pub_step r (snd (pub_repo_ReplaceBatchItems (clk 0) bid items r))"
      unfolding pub_repo_ReplaceBatchItems_eq [OF inv b] snd_conv
      using True b pub_editable_final by (intro pub_step.replaced) simp_all
    moreover have "pr_nextRecord (snd (pub_repo_ReplaceBatchItems (clk 0) bid items r)) = pr_nextRecord r"
      by (simp add: pub_repo_ReplaceBatchItems_eq [OF inv b])
    ultimately show ?thesis using True Inr by (simp add: pub_ReplaceBatchItems_def pub_movesI)
  next
    case False
    with Inr show ?thesis by (auto simp: pub_ReplaceBatchItems_def split: sum.split)
  qed
qed

lemma pub_applyReviewDecision_run:
  assumes inv: "pub_inv r" and b: "pr_batches r bid = Some b" and st: "\<not> pub_final (bt_Status b)"
    and d: "decision \<in> {pub_ReviewDecisionApprove, pub_ReviewDecisionReject, pub_ReviewDecisionRework}"
  shows "pub_applyReviewDecision decision clk bid actor fs (pub_state r t) =
    (let who = pub_normalizeActor actor; fb = pub_normalizeDecisionFeedback fs who pub_FeedbackStageReview
     in (Inr (), pub_state (pub_put bid
       (pub_reviewed (clk (length fb)) decision who (pub_newFeedbacks clk (pr_nextFeed r) bid fb) b)
       (r\<lparr>pr_nextFeed := pr_nextFeed r + int (length fb)\<rparr>)) t))"
proof -
  have c: "(bt_Status b = pub_StatusPublished \<or> bt_Status b = pub_StatusRejected \<or> bt_Status b = pub_StatusSuperseded) = False"
    using st by (auto simp: pub_final_def)
  show ?thesis
    unfolding pub_applyReviewDecision_def pub_GetBatch_found [OF inv b] sum.case c if_False Let_def
      pub_on_repo_state pub_repo_ApplyReviewDecision_eq [OF inv b d] fst_conv snd_conv ..
qed

lemma pub_applyReviewDecision_moves:
  assumes inv: "pub_inv r"
    and d: "decision \<in> {pub_ReviewDecisionApprove, pub_ReviewDecisionReject, pub_ReviewDecisionRework}"
  shows "pub_moves r t (snd (pub_applyReviewDecision decision clk bid actor fs (pub_state r t)))"
proof (cases "pub_GetBatch bid (pub_state r t)")
  case (Inl e)
  then show ?thesis by (simp add: pub_applyReviewDecision_def)
next
  case (Inr b)
  note b = pub_GetBatch_Inr [OF inv Inr]
  show ?thesis
  proof (cases "pub_final (bt_Status b)")
    case True
    then have "snd (pub_applyReviewDecision decision clk bid actor fs (pub_state r t)) = pub_state r t"
      by (auto simp: pub_applyReviewDecision_def Inr pub_final_def)
    then show ?thesis by simp
  next
    case False
    show ?thesis
      unfolding pub_applyReviewDecision_run [OF inv b False d] Let_def snd_conv
      by (rule pub_movesI, rule pub_step.reviewed [OF b False _ d]) simp_all
  qed
qed

lemma pub_applyOwnerDecision_run:
  assumes inv: "pub_inv r" and b: "pr_batches r bid = Some b" and st: "pub_ready b"
    and d: "decision \<in> {pub_OwnerDecisionReject, pub_OwnerDecisionRework}"
  shows "pub_applyOwnerDecision decision clk bid actor fs (pub_state r t) =
    (let who = pub_normalizeActor actor; fb = pub_normalizeDecisionFeedback fs who pub_FeedbackStageOwner
     in (Inr (), pub_state (pub_put bid
       (pub_decided (clk (length fb)) decision who (pub_newFeedbacks clk (pr_nextFeed r) bid fb) b)
       (r\<lparr>pr_nextFeed := pr_nextFeed r + int (length fb)\<rparr>)) t))"
proof -
  have c: "(bt_Status b \<noteq> pub_StatusReviewApproved \<and> bt_Status b \<noteq> pub_StatusOwnerPending) = False"
    using st unfolding pub_ready_def by blast
  show ?thesis
    unfolding pub_applyOwnerDecision_def pub_GetBatch_found [OF inv b] sum.case c if_False Let_def
      pub_on_repo_state pub_repo_ApplyOwnerDecision_eq [OF inv b d] fst_conv snd_conv and_then_simps ..
qed

lemma pub_applyOwnerDecision_moves:
  assumes inv: "pub_inv r" and d: "decision \<in> {pub_OwnerDecisionReject, pub_OwnerDecisionRework}"
  shows "pub_moves r t (snd (pub_applyOwnerDecision decision clk bid actor fs (pub_state r t)))"
proof (cases "pub_GetBatch bid (pub_state r t)")
  case (Inl e)
  then show ?thesis by (simp add: pub_applyOwnerDecision_def)
next
  case (Inr b)
  note b = pub_GetBatch_Inr [OF inv Inr]
  show ?thesis
  proof (cases "pub_ready b")
    case True
    show ?thesis
      unfolding pub_applyOwnerDecision_run [OF inv b True d] Let_def snd_conv
      by (rule pub_movesI, rule pub_step.turned_down [OF b True [unfolded pub_ready_def] d]) simp_all
  next
    case False
    then show ?thesis by (simp add: pub_applyOwnerDecision_def Inr pub_ready_def)
  qed
qed

lemma pub_AddBatchFeedback_moves:
  assumes inv: "pub_inv r"
  shows "pub_moves r t (snd (pub_AddBatchFeedback clk bid inp (pub_state r t)))"
proof (cases "pr_batches r bid")
  case (Some b)
  show ?thesis
    using pub_step.commented [OF Some, of None "clk 0"]
    by (simp add: pub_AddBatchFeedback_def pub_repo_AddBatchFeedback_def Some pub_repo_addFeedback_eq [OF inv Some] pub_movesI)
qed (simp add: pub_AddBatchFeedback_def pub_repo_AddBatchFeedback_def)

lemma pub_AddItemFeedback_moves:
  assumes inv: "pub_inv r"
  shows "pub_moves r t (snd (pub_AddItemFeedback clk bid iid inp (pub_state r t)))"
proof (cases "pr_batches r bid")
  case (Some b)
  show ?thesis
    using pub_step.commented [OF Some, of "Some iid" "clk 0"]
    by (simp add: pub_AddItemFeedback_def pub_repo_AddItemFeedback_def Some pub_repo_addFeedback_eq [OF inv Some] pub_movesI)
qed (simp add: pub_AddItemFeedback_def pub_repo_AddItemFeedback_def)

subsection \<open>The task service opens evaluation tasks\<close>

lemma show_int_last: "show_int i \<noteq> [] \<and> \<not> is_space (last (show_int i))"
proof -
  have "\<not> is_space c" if "is_digit c" for c using that by (auto simp: is_digit_def is_space_def)
  then have "\<not> is_space (last (show_nat n))" for n
    using show_nat_digits [of n] last_in_set [OF show_nat_nonempty [of n]] by blast
  then show ?thesis by (simp add: show_int_def)
qed

lemma pub_title_trimmed: "trim_space (''Evaluate publish record '' @ show_int rid) = ''Evaluate publish record '' @ show_int rid"
  using show_int_last [of rid] by (intro trimmed_trim_space_id) (simp add: trimmed_def is_space_def)

definition pub_evaluationChecked :: "time \<Rightarrow> pub_Batch \<Rightarrow> int \<Rightarrow> tasks_CreateTaskInput" where
  "pub_evaluationChecked now b rid =
     (pub_evaluationTask b rid)\<lparr>ct_OntologyVersion := ''v1'', ct_LastActivityAt := now\<rparr>"

lemma pub_evaluation_norms:
  "tasks_normalizeKind tasks_KindTrainingCandidate = tasks_KindTrainingCandidate"
  "tasks_normalizeStatus tasks_StatusQueued = tasks_StatusQueued"
  "tasks_normalizePriority tasks_PriorityHigh = tasks_PriorityHigh"
  "tasks_normalizeMediaKind [] = []" "trim_space ''ml-engineer'' = ''ml-engineer''"
  by (simp_all add: tasks_normalizeKind_def tasks_normalizeStatus_def tasks_normalizePriority_def
      tasks_normalizeMediaKind_def tasks_kind_defs tasks_status_defs tasks_priority_defs norm_token_lit
      norm_lit_simps trimmed_trim_space_id)

lemma pub_evaluation_checks:
  assumes "0 < bt_ProjectID b" and "0 < bt_SnapshotID b"
  shows "tasks_checkCreate now (pub_evaluationTask b rid) = Inr (pub_evaluationChecked now b rid)"
  using assms
  by (simp add: tasks_checkCreate_def Let_def pub_evaluationTask_def pub_evaluationChecked_def pub_title_trimmed [simplified]
      pub_evaluation_norms tasks_isValidKind_def tasks_isValidStatus_def tasks_isValidPriority_def)

interpretation pub_tasks: task_creator tasks_CreateTask tr_byID tasks_inv
proof unfold_locales
  fix s :: tasks_Repo and b :: pub_Batch and clk inp tid t rid
  assume inv: "tasks_inv s"
  show "tasks_inv (snd (tasks_CreateTask clk inp s))" by (rule tasks_CreateTask_inv [OF inv])
  show "tr_byID s tid = Some t \<Longrightarrow> tr_byID (snd (tasks_CreateTask clk inp s)) tid = Some t"
    using tasks_fresh [OF inv] by (cases rule: tasks_CreateTask_cases [of clk inp s]) auto
  assume pos: "0 < bt_ProjectID b" "0 < bt_SnapshotID b"
  let ?t = "tasks_newTask (clk 1) (tr_nextID s) (pub_evaluationChecked (clk 0) b rid)"
  have "pub_evaluates b rid ?t"
    by (simp add: pub_evaluates_def tasks_newTask_def pub_evaluationChecked_def pub_evaluationTask_def)
  moreover have "\<exists>s'. tasks_CreateTask clk (pub_evaluationTask b rid) s = (Inr ?t, s') \<and> tr_byID s' (tr_nextID s) = Some ?t"
    using pub_evaluation_checks [OF pos, of "clk 0" rid]
    by (simp add: tasks_CreateTask_def tasks_repo_CreateTask_def Let_def)
  ultimately show "\<exists>t s'. tasks_CreateTask clk (pub_evaluationTask b rid) s = (Inr t, s') \<and>
      tr_byID s (task_ID t) = None \<and> tr_byID s' (task_ID t) = Some t \<and> pub_evaluates b rid t"
    using tasks_fresh [OF inv] by (metis tasks_newTask_ID)
qed

subsection \<open>Histories of publish and task calls\<close>

datatype pub_call =
    CallSeedSuggested "pub_SuggestedCandidate list"
  | CallCreateBatch clock pub_CreateBatchInput
  | CallReplaceBatchItems clock int "pub_CreateBatchItemInput list"
  | CallReviewApprove clock int string "pub_CreateFeedbackInput list"
  | CallReviewReject clock int string "pub_CreateFeedbackInput list"
  | CallReviewRework clock int string "pub_CreateFeedbackInput list"
  | CallOwnerApprove clock int string "pub_CreateFeedbackInput list"
  | CallOwnerReject clock int string "pub_CreateFeedbackInput list"
  | CallOwnerRework clock int string "pub_CreateFeedbackInput list"
  | CallAddBatchFeedback clock int pub_CreateFeedbackInput
  | CallAddItemFeedback clock int int pub_CreateFeedbackInput
  | CallTasks tasks_call

definition pub_task_call :: "tasks_call \<Rightarrow> tasks_Repo pub_Service \<Rightarrow> tasks_Repo pub_Service" where
  "pub_task_call c s = s\<lparr>psv_tasks := map_option (\<lambda>t. tasks_serve t c) (psv_tasks s)\<rparr>"

fun pub_serve :: "tasks_Repo pub_Service \<Rightarrow> pub_call \<Rightarrow> tasks_Repo pub_Service" where
  "pub_serve s (CallSeedSuggested cs) = s\<lparr>psv_repo := pub_SeedSuggestedCandidates cs (psv_repo s)\<rparr>"
| "pub_serve s (CallCreateBatch clk inp) = snd (pub_CreateBatch clk inp s)"
| "pub_serve s (CallReplaceBatchItems clk bid items) = snd (pub_ReplaceBatchItems clk bid items s)"
| "pub_serve s (CallReviewApprove clk bid actor fs) = snd (pub_ReviewApprove clk bid actor fs s)"
| "pub_serve s (CallReviewReject clk bid actor fs) = snd (pub_ReviewReject clk bid actor fs s)"
| "pub_serve s (CallReviewRework clk bid actor fs) = snd (pub_ReviewRework clk bid actor fs s)"
| "pub_serve s (CallOwnerApprove clk bid actor fs) = snd (pub_OwnerApprove tasks_CreateTask clk bid actor fs s)"
| "pub_serve s (CallOwnerReject clk bid actor fs) = snd (pub_OwnerReject clk bid actor fs s)"
| "pub_serve s (CallOwnerRework clk bid actor fs) = snd (pub_OwnerRework clk bid actor fs s)"
| "pub_serve s (CallAddBatchFeedback clk bid inp) = snd (pub_AddBatchFeedback clk bid inp s)"
| "pub_serve s (CallAddItemFeedback clk bid iid inp) = snd (pub_AddItemFeedback clk bid iid inp s)"
| "pub_serve s (CallTasks c) = pub_task_call c s"

text \<open>Every record has its evaluation task.\<close>

definition pub_evaluated :: "pub_Record \<Rightarrow> tasks_Task \<Rightarrow> bool" where
  "pub_evaluated x t \<longleftrightarrow>
     task_ProjectID t = rec_ProjectID x \<and> task_SnapshotID t = Some (rec_SnapshotID x) \<and>
     task_Title t = ''Evaluate publish record '' @ show_int (rec_ID x) \<and> task_Kind t = tasks_KindTrainingCandidate"

definition pub_linked :: "pub_Repo \<Rightarrow> tasks_Repo \<Rightarrow> bool" where
  "pub_linked r t \<longleftrightarrow>
     (\<forall>rid x. pr_records r rid = Some x \<longrightarrow> (\<exists>tid a. tr_byID t tid = Some a \<and> pub_evaluated x a))"

definition pub_good :: "pub_Repo \<Rightarrow> tasks_Repo \<Rightarrow> bool" where
  "pub_good r t \<longleftrightarrow> pub_inv r \<and> tasks_inv t \<and> pub_linked r t"

text \<open>One call: a lifecycle step, and an evolution of the tasks.\<close>

definition pub_advances :: "pub_Repo \<Rightarrow> tasks_Repo \<Rightarrow> tasks_Repo pub_Service \<Rightarrow> bool" where
  "pub_advances r t s \<longleftrightarrow> (\<exists>r' t'. s = pub_state r' t' \<and> pub_step r r' \<and> tasks_le t t' \<and> pub_good r' t')"

lemma pub_linked_tasks: "pub_linked r t \<Longrightarrow> tasks_le t t' \<Longrightarrow> pub_linked r t'"
  unfolding pub_linked_def tasks_le_def pub_evaluated_def tasks_same_def by metis

lemma pub_step_records:
  "pub_step r r' \<Longrightarrow> pr_nextRecord r' = pr_nextRecord r \<Longrightarrow> pr_records r' = pr_records r"
  by (induction rule: pub_step.induct) simp_all

lemma pub_advances_stay: "pub_good r t \<Longrightarrow> pub_advances r t (pub_state r t)"
  by (auto simp: pub_advances_def intro: pub_step.stay)

lemma pub_advances_step:
  assumes good: "pub_good r t" and step: "pub_step r r'" and n: "pr_nextRecord r' = pr_nextRecord r"
  shows "pub_advances r t (pub_state r' t)"
proof -
  have "pub_good r' t"
    using good pub_step_inv [OF step] pub_step_records [OF step n] by (simp add: pub_good_def pub_linked_def)
  with step show ?thesis by (auto simp: pub_advances_def)
qed

lemma pub_advances_moves: "pub_good r t \<Longrightarrow> pub_moves r t s \<Longrightarrow> pub_advances r t s"
  using pub_advances_step unfolding pub_moves_def by blast

lemma pub_task_call_advances:
  assumes good: "pub_good r t"
  shows "pub_advances r t (pub_task_call c (pub_state r t))"
proof -
  have "tasks_le t (tasks_serve t c)" using good tasks_serve_le by (simp add: pub_good_def)
  moreover have "pub_good r (tasks_serve t c)"
    using good tasks_serve_inv pub_linked_tasks [OF _ calculation] unfolding pub_good_def by blast
  ultimately have "pub_advances r t (pub_state r (tasks_serve t c))"
    unfolding pub_advances_def using pub_step.stay by blast
  then show ?thesis by (simp add: pub_task_call_def)
qed

text \<open>Approving a batch that is ready: the record, the frozen batch and the new task.\<close>

lemma pub_approved_good:
  assumes good: "pub_good r t" and b: "pr_batches r bid = Some b" and ready: "pub_ready b" and who: "who \<noteq> []"
    and t': "tasks_inv t'" "tasks_le t t'" "tr_byID t' (task_ID task) = Some task"
      "pub_evaluates b (pr_nextRecord r) task"
  shows "pub_good (pub_published_repo clk who fs b r) t'"
proof -
  have inv: "pub_inv r" using good by (simp add: pub_good_def)
  have step: "pub_step r (pub_published_repo clk who fs b r)"
    by (rule pub_published_step [OF inv b ready who])
  have "pub_linked r t'" using good pub_linked_tasks [OF _ t'(2)] unfolding pub_good_def by blast
  moreover have "pub_evaluated (pub_new_record now who (pr_nextRecord r) b) task" for now
    using t'(4) by (simp add: pub_evaluated_def pub_evaluates_def pub_new_record_def)
  moreover have "pr_records (pub_published_repo clk who fs b r) =
      (pr_records r)(pr_nextRecord r \<mapsto> pub_new_record (clk (length fs)) who (pr_nextRecord r) b)"
    by (simp add: pub_published_repo_def)
  ultimately have "\<exists>tid a. tr_byID t' tid = Some a \<and> pub_evaluated x a"
    if "pr_records (pub_published_repo clk who fs b r) rid = Some x" for rid x
    using t'(3) that unfolding pub_linked_def by (cases "rid = pr_nextRecord r") (auto, blast)
  then have "pub_linked (pub_published_repo clk who fs b r) t'" unfolding pub_linked_def by blast
  then show ?thesis using pub_step_inv [OF step inv] t'(1) by (simp add: pub_good_def)
qed

lemma pub_OwnerApprove_advances:
  assumes good: "pub_good r t"
  shows "pub_advances r t (snd (pub_OwnerApprove tasks_CreateTask clk bid actor fs (pub_state r t)))"
proof -
  have inv: "pub_inv r" "tasks_inv t" using good by (simp_all add: pub_good_def)
  from inv(1) show ?thesis
  proof (cases rule: pub_OwnerApprove_cases
      [where clk = clk and bid = bid and actor = actor and fs = fs and t = t and create = tasks_CreateTask])
    case (refused e)
    then show ?thesis using good by (simp add: pub_advances_stay)
  next
    case (approved b)
    let ?who = "pub_normalizeActor actor"
    let ?fb = "pub_normalizeDecisionFeedback fs ?who pub_FeedbackStageOwner"
    obtain task t' where res: "pub_OwnerApprove tasks_CreateTask clk bid actor fs (pub_state r t) =
        (Inr (Some (pub_new_record (clk (length fs)) ?who (pr_nextRecord r) b)),
         pub_state (pub_published_repo clk ?who ?fb b r) t')" and t': "tasks_inv t'"
      "tr_byID t (task_ID task) = None" "tr_byID t' (task_ID task) = Some task" "pub_evaluates b (pr_nextRecord r) task"
      using pub_tasks.owner_approve_done [OF inv approved, of clk actor fs] by blast
    have run: "snd (pub_OwnerApprove tasks_CreateTask clk bid actor fs (pub_state r t)) =
        pub_state (pub_published_repo clk ?who ?fb b r) t'" unfolding res by (rule snd_conv)
    have le: "tasks_le t t'"
    proof -
      have "t' = snd (tasks_CreateTask (clock_drop (length fs + 1) clk) (pub_evaluationTask b (pr_nextRecord r)) t)"
        using run unfolding pub_OwnerApprove_run [OF inv(1) approved] Let_def
        by (simp split: prod.splits sum.splits)
      then show ?thesis using tasks_CreateTask_le [OF inv(2)] by simp
    qed
    show ?thesis
      unfolding run pub_advances_def
      using pub_published_step [OF inv(1) approved pub_actor_nonempty] le
        pub_approved_good [OF good approved pub_actor_nonempty t'(1) le t'(3,4)] by blast
  qed
qed

lemma pub_goodD: "pub_good r t \<Longrightarrow> pub_inv r" "pub_good r t \<Longrightarrow> tasks_inv t"
  by (simp_all add: pub_good_def)

lemma pub_serve_advances:
  assumes good: "pub_good r t"
  shows "pub_advances r t (pub_serve (pub_state r t) c)"
proof (cases c)
  case (CallSeedSuggested cs)
  then show ?thesis
    using pub_advances_step [OF good pub_step.seeded] by (simp add: pub_SeedSuggestedCandidates_def)
next
  case (CallTasks c)
  then show ?thesis using pub_task_call_advances [OF good] by simp
next
  case (CallOwnerApprove clk bid actor fs)
  then show ?thesis using pub_OwnerApprove_advances [OF good] by simp
qed (simp_all add: pub_advances_moves [OF good] pub_goodD(1) [OF good] pub_CreateBatch_moves
    pub_ReplaceBatchItems_moves pub_applyReviewDecision_moves
    pub_applyOwnerDecision_moves pub_AddBatchFeedback_moves pub_AddItemFeedback_moves
    pub_ReviewApprove_def pub_ReviewReject_def pub_ReviewRework_def pub_OwnerReject_def pub_OwnerRework_def)

end
