(* ===== verification/Publish_Claims.thy ===== *)
theory Publish_Claims
  imports Publish_Props
begin

section \<open>Publish: properties\<close>

text \<open>
  The properties of the publish service over its histories, each with a witness on a short
  concrete history: create a batch, approve it in review, approve it as owner.
\<close>

definition pub_start :: "tasks_Repo pub_Service" where
  "pub_start = pub_state pub_NewInMemoryRepository tasks_NewInMemoryRepository"

definition pub_work_inv :: "tasks_Repo pub_Service \<Rightarrow> bool" where
  "pub_work_inv s \<longleftrightarrow> (\<exists>r t. s = pub_state r t \<and> pub_good r t)"

definition pub_work_le :: "tasks_Repo pub_Service \<Rightarrow> tasks_Repo pub_Service \<Rightarrow> bool" where
  "pub_work_le s s' \<longleftrightarrow> pub_le (psv_repo s) (psv_repo s') \<and>
     (\<forall>t. psv_tasks s = Some t \<longrightarrow> (\<exists>t'. psv_tasks s' = Some t' \<and> tasks_le t t'))"

lemma pub_serve_inv: "pub_work_inv s \<Longrightarrow> pub_work_inv (pub_serve s c)"
  using pub_serve_advances unfolding pub_work_inv_def pub_advances_def by metis

lemma pub_serve_le: "pub_work_inv s \<Longrightarrow> pub_work_le s (pub_serve s c)"
proof -
  assume "pub_work_inv s"
  then obtain r t where s: "s = pub_state r t" "pub_good r t" by (auto simp: pub_work_inv_def)
  obtain r' t' where "pub_serve s c = pub_state r' t'" "pub_step r r'" "tasks_le t t'"
    using pub_serve_advances [OF s(2), of c] s(1) by (auto simp: pub_advances_def)
  moreover have "pub_inv r" using s(2) by (simp add: pub_good_def)
  ultimately show ?thesis using s(1) pub_step_le by (simp add: pub_work_le_def)
qed

lemma pub_start_inv: "pub_work_inv pub_start"
  using pub_empty_inv tasks_empty_inv
  by (auto simp: pub_work_inv_def pub_start_def pub_good_def pub_linked_def pub_NewInMemoryRepository_def)

lemma pub_work_le_trans:
  assumes "pub_work_le s t" and "pub_work_le t u"
  shows "pub_work_le s u"
proof -
  have "pub_le (psv_repo s) (psv_repo u)" using assms pub_le_trans unfolding pub_work_le_def by blast
  moreover have "\<exists>z. psv_tasks u = Some z \<and> tasks_le x z" if "psv_tasks s = Some x" for x
  proof -
    obtain y where "psv_tasks t = Some y" "tasks_le x y" using assms(1) \<open>psv_tasks s = Some x\<close> unfolding pub_work_le_def by blast
    moreover obtain z where "psv_tasks u = Some z" "tasks_le y z"
      using assms(2) \<open>psv_tasks t = Some y\<close> unfolding pub_work_le_def by blast
    ultimately show ?thesis using tasks_le_trans by blast
  qed
  ultimately show ?thesis by (simp add: pub_work_le_def)
qed

interpretation pub_machine: progress_machine "\<lambda>s. s = pub_start" pub_serve pub_work_inv pub_work_le
proof unfold_locales
  show "s = pub_start \<Longrightarrow> pub_work_inv s" for s using pub_start_inv by simp
  show "pub_work_inv s \<Longrightarrow> pub_work_inv (pub_serve s p)" for s p by (rule pub_serve_inv)
  show "pub_work_le s s" for s by (simp add: pub_work_le_def)
  show "pub_work_le s t \<Longrightarrow> pub_work_le t u \<Longrightarrow> pub_work_le s u" for s t u by (rule pub_work_le_trans)
  show "pub_work_inv s \<Longrightarrow> pub_work_le s (pub_serve s p)" for s p by (rule pub_serve_le)
qed

definition pub_after :: "pub_call list \<Rightarrow> tasks_Repo pub_Service" where
  "pub_after cs = foldl pub_serve pub_start cs"

definition pub_at :: "pub_call list \<Rightarrow> int \<Rightarrow> pub_Batch option" where
  "pub_at cs bid = pr_batches (psv_repo (pub_after cs)) bid"

definition pub_record_at :: "pub_call list \<Rightarrow> int \<Rightarrow> pub_Record option" where
  "pub_record_at cs rid = pr_records (psv_repo (pub_after cs)) rid"

definition pub_task_at :: "pub_call list \<Rightarrow> int \<Rightarrow> tasks_Task option" where
  "pub_task_at cs tid = (case psv_tasks (pub_after cs) of None \<Rightarrow> None | Some t \<Rightarrow> tr_byID t tid)"

lemma pub_after_state:
  obtains r t where "pub_after cs = pub_state r t" "pub_good r t"
  using pub_machine.run_inv [OF refl, of cs] unfolding pub_after_def pub_work_inv_def by blast

lemma pub_after_le: "pub_work_le (pub_after cs) (pub_after (cs @ cs'))"
  unfolding pub_after_def by (rule pub_machine.run_le_later [OF pub_start_inv])

lemma pub_after_snoc: "pub_after (cs @ [c]) = pub_serve (pub_after cs) c"
  by (simp add: pub_after_def)

subsection \<open>Properties\<close>

text \<open>
  C14. Through every history of publish and task calls a stored batch is well-formed (its items
  belong to it and to its snapshot, in their positions and with their own numbers; its approval stamps
  are those its status needs) and only evolves: identity and source fixed, feedback only
  appended, items changed only together with the edit version, and nothing but new feedback once
  it is published or rejected. Records are never changed or removed.
\<close>

theorem pub_histories:
  assumes "pub_at cs bid = Some b"
  shows "(\<exists>ni nf. pub_batch_ok ni nf bid b) \<and>
         (\<exists>b'. pub_at (cs @ cs') bid = Some b' \<and> pub_evolves b b') \<and>
         (\<forall>rid x. pub_record_at cs rid = Some x \<longrightarrow> pub_record_at (cs @ cs') rid = Some x)"
proof -
  obtain r t where s: "pub_after cs = pub_state r t" "pub_good r t" by (rule pub_after_state)
  have "pub_binv r" "pr_batches r bid = Some b" using s assms by (simp_all add: pub_good_def pub_inv_def pub_at_def)
  then have "pub_batch_ok (pr_nextItem r) (pr_nextFeed r) bid b" using pub_binvD(4) by blast
  moreover have "pub_le (psv_repo (pub_after cs)) (psv_repo (pub_after (cs @ cs')))"
    using pub_after_le by (simp add: pub_work_le_def)
  ultimately show ?thesis using assms unfolding pub_le_def pub_at_def pub_record_at_def by blast
qed

text \<open>
  In every reachable state the published batches and the records correspond one to one, a
  record repeats the project, snapshot, owner and decision time of its batch, and the task
  service holds an evaluation task for it.
\<close>

theorem pub_record_per_publication:
  "(\<exists>b. pub_at cs bid = Some b \<and> bt_Status b = pub_StatusPublished) =
     (\<exists>!rid. \<exists>x. pub_record_at cs rid = Some x \<and> rec_PublishBatchID x = bid) \<and>
   (pub_record_at cs rid = Some x \<longrightarrow>
      (\<exists>b. pub_at cs (rec_PublishBatchID x) = Some b \<and> pub_record_of b x) \<and>
      (\<exists>tid a. pub_task_at cs tid = Some a \<and> pub_evaluated x a))"
proof -
  obtain r t where s: "pub_after cs = pub_state r t" "pub_good r t" by (rule pub_after_state)
  have inv: "pub_rinv r" and link: "pub_linked r t" using s(2) by (simp_all add: pub_good_def pub_inv_def)
  have at: "pub_at cs = pr_batches r" "pub_record_at cs = pr_records r" "pub_task_at cs = tr_byID t"
    by (simp_all add: fun_eq_iff pub_at_def pub_record_at_def pub_task_at_def s)
  have "(\<exists>b. pr_batches r bid = Some b \<and> bt_Status b = pub_StatusPublished) =
      (\<exists>!rid. \<exists>x. pr_records r rid = Some x \<and> rec_PublishBatchID x = bid)" (is "?l = ?r")
  proof
    assume ?l
    then obtain rid x where x: "pr_records r rid = Some x" "rec_PublishBatchID x = bid"
      using pub_rinvD(2) [OF inv] by blast
    show ?r
    proof (rule ex1I [of _ rid])
      show "\<exists>x. pr_records r rid = Some x \<and> rec_PublishBatchID x = bid" using x by blast
      show "rid' = rid" if "\<exists>x. pr_records r rid' = Some x \<and> rec_PublishBatchID x = bid" for rid'
        using that x pub_rinvD(5) [OF inv] by blast
    qed
  next
    assume ?r
    then show ?l using pub_rinvD(4) [OF inv] unfolding pub_record_of_def by blast
  qed
  then show ?thesis
    unfolding at using pub_rinvD(4) [OF inv] link unfolding pub_linked_def by blast
qed

text \<open>The task an approval asks the task service for.\<close>

definition pub_asks_evaluation :: "pub_Batch \<Rightarrow> int \<Rightarrow> tasks_CreateTaskInput \<Rightarrow> bool" where
  "pub_asks_evaluation b rid inp \<longleftrightarrow>
     ct_ProjectID inp = bt_ProjectID b \<and> ct_SnapshotID inp = Some (bt_SnapshotID b) \<and>
     ct_Title inp = ''Evaluate publish record '' @ show_int rid \<and> ct_Kind inp = ''training_candidate'' \<and>
     ct_Status inp = ''queued'' \<and> ct_Priority inp = ''high'' \<and> ct_Assignee inp = ''ml-engineer''"

text \<open>The repository after batch \<open>bid\<close> was published as record \<open>x\<close>, beside the one before.\<close>

definition pub_published :: "pub_Repo \<Rightarrow> int \<Rightarrow> pub_Batch \<Rightarrow> pub_Record \<Rightarrow> pub_Repo \<Rightarrow> bool" where
  "pub_published r bid b x r' \<longleftrightarrow>
     pr_records r (rec_ID x) = None \<and> pr_records r' = (pr_records r)(rec_ID x \<mapsto> x) \<and>
     (\<exists>b'. pr_batches r' = (pr_batches r)(bid \<mapsto> b') \<and> bt_Status b' = pub_StatusPublished \<and> pub_record_of b' x \<and>
        bt_Items b' = bt_Items b \<and> bt_OwnerEditVersion b' = bt_OwnerEditVersion b)"

lemma pub_published_repo_published:
  assumes rinv: "pub_rinv r" and id: "bt_ID b = bid"
  shows "pub_published r bid b (pub_new_record (clk (length fs)) who (pr_nextRecord r) b) (pub_published_repo clk who fs b r)"
proof -
  let ?x = "pub_new_record (clk (length fs)) who (pr_nextRecord r) b"
  let ?b = "pub_decided (clk (length fs)) pub_OwnerDecisionApprove who (pub_newFeedbacks clk (pr_nextFeed r) bid fs) b"
  have x: "rec_ID ?x = pr_nextRecord r" by (simp add: pub_new_record_def)
  have "pr_records r (rec_ID ?x) = None" unfolding x using pub_rinvD(3) [OF rinv, of "pr_nextRecord r"] by fastforce
  moreover have "pr_records (pub_published_repo clk who fs b r) = (pr_records r)(rec_ID ?x \<mapsto> ?x)"
    unfolding x by (simp add: pub_published_repo_def)
  moreover have "pr_batches (pub_published_repo clk who fs b r) = (pr_batches r)(bid \<mapsto> ?b)"
    by (simp add: pub_published_repo_def pub_put_def id)
  moreover have "pub_record_of ?b ?x" by (simp add: pub_record_of_def pub_new_record_def) (simp add: pub_decided_def)
  moreover have "bt_Status ?b = pub_StatusPublished" using calculation(4) by (simp add: pub_record_of_def)
  moreover have "bt_Items ?b = bt_Items b" "bt_OwnerEditVersion ?b = bt_OwnerEditVersion b" by (simp_all add: pub_decided_def)
  ultimately show ?thesis unfolding pub_published_def by blast
qed

lemma pub_evaluationTask_asks: "pub_asks_evaluation b rid (pub_evaluationTask b rid)"
  by (simp add: pub_asks_evaluation_def pub_evaluationTask_def tasks_KindTrainingCandidate_def tasks_StatusQueued_def
      tasks_PriorityHigh_def)

lemma pub_approve_refused:
  assumes inv: "pub_inv r" and no: "\<And>b. pr_batches r bid = Some b \<Longrightarrow> \<not> pub_ready b"
  shows "\<exists>e. pub_OwnerApprove create clk bid actor fs \<lparr>psv_repo = r, psv_tasks = tasks\<rparr> =
    (Inl e, \<lparr>psv_repo = r, psv_tasks = tasks\<rparr>)"
proof (cases "pub_repo_GetBatch bid r")
  case (Inl e)
  then show ?thesis by (simp add: pub_OwnerApprove_def pub_GetBatch_def)
next
  case (Inr b)
  then have "0 < bid \<Longrightarrow> pr_batches r bid = Some b"
    using pub_GetBatch_Inr [OF inv, of bid undefined b] by (simp add: pub_GetBatch_def)
  then show ?thesis using no [of b] Inr by (auto simp: pub_OwnerApprove_def pub_GetBatch_def pub_ready_def)
qed

lemma pub_approve_alone:
  assumes inv: "pub_inv r" and b: "pr_batches r bid = Some b" and ready: "pub_ready b"
  shows "pub_OwnerApprove create clk bid actor fs \<lparr>psv_repo = r, psv_tasks = None\<rparr> =
     (let who = pub_normalizeActor actor; fb = pub_normalizeDecisionFeedback fs who pub_FeedbackStageOwner
      in (Inr (Some (pub_new_record (clk (length fs)) who (pr_nextRecord r) b)),
          \<lparr>psv_repo = pub_published_repo clk who fb b r, psv_tasks = None\<rparr>))"
proof -
  have bid: "bt_ID b = bid" using pub_stored_clone [OF inv b] by blast
  have get: "pub_GetBatch bid \<lparr>psv_repo = r, psv_tasks = None\<rparr> = Inr b"
    using pub_GetBatch_found [OF inv b, of undefined] by (simp add: pub_GetBatch_def split: if_splits)
  have c: "(bt_Status b \<noteq> pub_StatusReviewApproved \<and> bt_Status b \<noteq> pub_StatusOwnerPending) = False"
    using ready by (auto simp: pub_ready_def)
  show ?thesis
    unfolding pub_OwnerApprove_def get sum.case c if_False Let_def pub_on_repo_def
    by (simp add: pub_repo_OwnerApprove_eq [OF inv b] pub_published_repo_def bid)
qed

text \<open>
  C15. The owner's approval, on every repository that service calls can reach, with any task service or none. It is refused
  exactly when there is no such batch or its review approval does not stand, and then nothing changes. Otherwise the batch is
  published and a new record of it is stored, every other batch and record staying as it is, and only then the evaluation
  task is asked for: if the task service refuses, the caller gets its error although batch and record are published; else,
  or without a task service, the record is the answer. With the in-memory task service nothing is refused and the task
  is new and stored.
\<close>

theorem pub_owner_approve_exact:
  assumes run: "pub_OwnerApprove create clk bid actor fs \<lparr>psv_repo = psv_repo (pub_after cs), psv_tasks = tasks\<rparr> = (res, s')"
  shows "if \<exists>b. pub_at cs bid = Some b \<and> bt_Status b = pub_StatusReviewApproved then
      \<exists>b x r'. pub_at cs bid = Some b \<and> pub_published (psv_repo (pub_after cs)) bid b x r' \<and>
        (case tasks of
           None \<Rightarrow> res = Inr (Some x) \<and> s' = \<lparr>psv_repo = r', psv_tasks = None\<rparr>
         | Some t \<Rightarrow> \<exists>inp. pub_asks_evaluation b (rec_ID x) inp \<and>
             (case create (clock_drop (length fs + 1) clk) inp t of
                (Inl e, t') \<Rightarrow> res = Inl (PubTaskError e) \<and> s' = \<lparr>psv_repo = r', psv_tasks = Some t'\<rparr>
              | (Inr a, t') \<Rightarrow> res = Inr (Some x) \<and> s' = \<lparr>psv_repo = r', psv_tasks = Some t'\<rparr>)) \<and>
        (\<exists>t' a. pub_OwnerApprove tasks_CreateTask clk bid actor fs (pub_after cs) =
             (Inr (Some x), \<lparr>psv_repo = r', psv_tasks = Some t'\<rparr>) \<and>
           pub_task_at cs (task_ID a) = None \<and> tr_byID t' (task_ID a) = Some a \<and> pub_evaluates b (rec_ID x) a)
    else (\<exists>e. res = Inl e) \<and> s' = \<lparr>psv_repo = psv_repo (pub_after cs), psv_tasks = tasks\<rparr>"
proof -
  obtain r t where s: "pub_after cs = pub_state r t" "pub_good r t" by (rule pub_after_state)
  have inv: "pub_inv r" "tasks_inv t" and rinv: "pub_rinv r" and binv: "pub_binv r"
    using s(2) by (simp_all add: pub_good_def pub_inv_def)
  have at: "pub_at cs = pr_batches r" "pub_task_at cs = tr_byID t" "psv_repo (pub_after cs) = r"
    by (simp_all add: fun_eq_iff pub_at_def pub_task_at_def s)
  have ready: "pub_ready b \<longleftrightarrow> bt_Status b = pub_StatusReviewApproved" if "pr_batches r bid = Some b" for b
    using pub_binvD(4) [OF binv that] by (auto simp: pub_ready_def pub_batch_ok_def pub_status_ok_def)
  show ?thesis
  proof (cases "\<exists>b. pr_batches r bid = Some b \<and> pub_ready b")
    case False
    then show ?thesis using pub_approve_refused [OF inv(1), of bid create clk actor fs tasks] run ready unfolding at by auto
  next
    case True
    then obtain b where b: "pr_batches r bid = Some b" "pub_ready b" by blast
    have bid: "bt_ID b = bid" using pub_stored_clone [OF inv(1) b(1)] by blast
    define who fb where "who = pub_normalizeActor actor" and "fb = pub_normalizeDecisionFeedback fs who pub_FeedbackStageOwner"
    define x r' where "x = pub_new_record (clk (length fs)) who (pr_nextRecord r) b" and "r' = pub_published_repo clk who fb b r"
    have pub: "pub_published r bid b x r'"
      using pub_published_repo_published [OF rinv bid, of clk fb who] by (simp add: x_def r'_def fb_def)
    have id: "rec_ID x = pr_nextRecord r" by (simp add: x_def pub_new_record_def)
    have some: "case create (clock_drop (length fs + 1) clk) (pub_evaluationTask b (rec_ID x)) u of
        (Inl e, t') \<Rightarrow> res = Inl (PubTaskError e) \<and> s' = \<lparr>psv_repo = r', psv_tasks = Some t'\<rparr>
      | (Inr a, t') \<Rightarrow> res = Inr (Some x) \<and> s' = \<lparr>psv_repo = r', psv_tasks = Some t'\<rparr>" if "tasks = Some u" for u
    proof -
      obtain y t' where c: "create (clock_drop (length fs + 1) clk) (pub_evaluationTask b (pr_nextRecord r)) u = (y, t')"
        by (cases "create (clock_drop (length fs + 1) clk) (pub_evaluationTask b (pr_nextRecord r)) u")
      have "(res, s') = (case y of Inl e \<Rightarrow> (Inl (PubTaskError e), pub_state r' t') | Inr a \<Rightarrow> (Inr (Some x), pub_state r' t'))"
        using trans [OF run [symmetric, unfolded at that pub_state_def [symmetric]] pub_OwnerApprove_run [OF inv(1) b]]
        unfolding Let_def c prod.case who_def [symmetric] fb_def [symmetric] x_def [symmetric] r'_def [symmetric] .
      then show ?thesis unfolding id c prod.case by (cases y) (simp_all add: pub_state_def)
    qed
    have none: "res = Inr (Some x) \<and> s' = \<lparr>psv_repo = r', psv_tasks = None\<rparr>" if "tasks = None"
      using run pub_approve_alone [OF inv(1) b, of create clk actor fs]
      unfolding at that Let_def who_def [symmetric] fb_def [symmetric] x_def [symmetric] r'_def [symmetric] by simp
    have outcome: "case tasks of
           None \<Rightarrow> res = Inr (Some x) \<and> s' = \<lparr>psv_repo = r', psv_tasks = None\<rparr>
         | Some t \<Rightarrow> \<exists>inp. pub_asks_evaluation b (rec_ID x) inp \<and>
             (case create (clock_drop (length fs + 1) clk) inp t of
                (Inl e, t') \<Rightarrow> res = Inl (PubTaskError e) \<and> s' = \<lparr>psv_repo = r', psv_tasks = Some t'\<rparr>
              | (Inr a, t') \<Rightarrow> res = Inr (Some x) \<and> s' = \<lparr>psv_repo = r', psv_tasks = Some t'\<rparr>)"
    proof (cases tasks)
      case None
      then show ?thesis using none by simp
    next
      case (Some u)
      show ?thesis unfolding Some option.case
        by (intro exI [of _ "pub_evaluationTask b (rec_ID x)"] conjI pub_evaluationTask_asks some [OF Some])
    qed
    have memory: "\<exists>t' a. pub_OwnerApprove tasks_CreateTask clk bid actor fs (pub_after cs) =
             (Inr (Some x), \<lparr>psv_repo = r', psv_tasks = Some t'\<rparr>) \<and>
           pub_task_at cs (task_ID a) = None \<and> tr_byID t' (task_ID a) = Some a \<and> pub_evaluates b (rec_ID x) a"
    proof -
      obtain a t' where m: "pub_OwnerApprove tasks_CreateTask clk bid actor fs (pub_state r t) =
          (Inr (Some (pub_new_record (clk (length fs)) (pub_normalizeActor actor) (pr_nextRecord r) b)),
           pub_state (pub_published_repo clk (pub_normalizeActor actor)
             (pub_normalizeDecisionFeedback fs (pub_normalizeActor actor) pub_FeedbackStageOwner) b r) t')"
        "tr_byID t (task_ID a) = None" "tr_byID t' (task_ID a) = Some a" "pub_evaluates b (pr_nextRecord r) a"
        using pub_tasks.owner_approve_done [OF inv b, of clk actor fs] by blast
      note run' = m(1) [folded who_def, folded fb_def, folded x_def r'_def, unfolded pub_state_def [of r' t']]
      show ?thesis by (intro exI [of _ t'] exI [of _ a] conjI) (simp_all only: s(1) run' at m(2-4) id)
    qed
    have approved: "\<exists>b. pub_at cs bid = Some b \<and> bt_Status b = pub_StatusReviewApproved" using b ready by (auto simp: at)
    show ?thesis unfolding if_P [OF approved]
      by (intro exI [of _ b] exI [of _ x] exI [of _ r'] conjI outcome memory) (simp_all only: at b(1) pub)
  qed
qed

text \<open>
  C16. An edit by the owner replaces the items by the new ones under fresh numbers, raises the
  edit version and takes every approval back: the owner cannot approve the edited batch until
  a review has approved it again.
\<close>

theorem pub_edit_resets_approval:
  assumes run: "pub_ReplaceBatchItems clk bid items (pub_after cs) = (Inr b', s')"
  shows "(\<exists>b. pub_at cs bid = Some b \<and> bt_OwnerEditVersion b' = bt_OwnerEditVersion b + 1 \<and>
            set (map bi_ID (bt_Items b')) \<inter> set (map bi_ID (bt_Items b)) = {}) \<and>
         map bi_CandidateID (bt_Items b') = map ci_CandidateID items \<and>
         bt_ReviewApprovedAt b' = None \<and> bt_OwnerDecidedAt b' = None \<and>
         (\<exists>e. pub_OwnerApprove tasks_CreateTask clk' bid actor fs s' = (Inl e, s'))"
proof -
  obtain r t where s: "pub_after cs = pub_state r t" "pub_good r t" by (rule pub_after_state)
  have inv: "pub_inv r" "pub_binv r" using s(2) by (simp_all add: pub_good_def pub_inv_def)
  obtain b where get: "pub_GetBatch bid (pub_state r t) = Inr b"
    using run by (cases "pub_GetBatch bid (pub_state r t)") (auto simp: pub_ReplaceBatchItems_def s(1))
  note b = pub_GetBatch_Inr [OF inv(1) get]
  have ok: "pub_isEditableStatus (bt_Status b)" "items \<noteq> []" "pub_validateItems (bt_SnapshotID b) items = Inr ()"
    using run by (auto simp: pub_ReplaceBatchItems_def s(1) get split: if_splits sum.splits)
  let ?b = "pub_replaced (clk 0) (pr_nextItem r) items b"
  let ?r = "pub_put bid ?b (r\<lparr>pr_nextItem := pr_nextItem r + int (length items)\<rparr>)"
  have "pub_ReplaceBatchItems clk bid items (pub_after cs) = (Inr ?b, pub_state ?r t)"
    using ok by (simp add: pub_ReplaceBatchItems_def s(1) get pub_repo_ReplaceBatchItems_eq [OF inv(1) b])
  then have res: "b' = ?b" "s' = pub_state ?r t" using run by simp_all
  have "pub_step r ?r" by (rule pub_step.replaced [OF b pub_editable_final [OF ok(1)] ok(2,3)])
  then have inv': "pub_inv ?r" using pub_step_inv inv(1) by blast
  have row: "pr_batches ?r bid = Some ?b" by simp
  have "\<exists>e. pub_OwnerApprove tasks_CreateTask clk' bid actor fs (pub_state ?r t) = (Inl e, pub_state ?r t)"
    using inv' by (cases rule: pub_OwnerApprove_cases
      [where clk = clk' and bid = bid and actor = actor and fs = fs and t = t and create = tasks_CreateTask])
      (auto simp: pub_ready_def)
  moreover have "bt_Items ?b = pub_makeItems (clk 0) (bt_ID b) (pr_nextItem r) 0 items" by (simp add: pub_replaced_def)
  moreover have "map bi_CandidateID (pub_makeItems now k n pos items) = map ci_CandidateID items" for now k n pos
    by (induction now k n pos items rule: pub_makeItems.induct) simp_all
  moreover have "set (map bi_ID (pub_makeItems (clk 0) (bt_ID b) (pr_nextItem r) 0 items)) \<inter> set (map bi_ID (bt_Items b)) = {}"
  proof -
    have "bi_ID i < pr_nextItem r" if "i \<in> set (bt_Items b)" for i
      using pub_binvD(4) [OF inv(2) b] that by (simp add: pub_batch_ok_def pub_items_ok_def pub_item_ok_def)
    then show ?thesis unfolding pub_makeItems_facts(2) by force
  qed
  ultimately show ?thesis unfolding res using b by (simp add: pub_at_def s(1)) (simp add: pub_replaced_def)
qed

text \<open>
  A published or rejected batch is closed for good: edits, reviews and owner decisions are
  refused and leave the service as it is.
\<close>

theorem pub_final_refuses:
  assumes at: "pub_at cs bid = Some b" and final: "bt_Status b \<in> {pub_StatusPublished, pub_StatusRejected}"
  shows "pub_ReplaceBatchItems clk bid items (pub_after cs) = (Inl (PubNotEditable bid), pub_after cs) \<and>
    pub_ReviewApprove clk bid actor fs (pub_after cs) = (Inl (PubNotReviewable bid), pub_after cs) \<and>
    pub_ReviewReject clk bid actor fs (pub_after cs) = (Inl (PubNotReviewable bid), pub_after cs) \<and>
    pub_ReviewRework clk bid actor fs (pub_after cs) = (Inl (PubNotReviewable bid), pub_after cs) \<and>
    pub_OwnerApprove tasks_CreateTask clk bid actor fs (pub_after cs) =
      (Inl (PubNotReadyForApproval bid), pub_after cs) \<and>
    pub_OwnerReject clk bid actor fs (pub_after cs) = (Inl (PubNotReadyForDecision bid), pub_after cs) \<and>
    pub_OwnerRework clk bid actor fs (pub_after cs) = (Inl (PubNotReadyForDecision bid), pub_after cs)"
proof -
  obtain r t where s: "pub_after cs = pub_state r t" "pub_good r t" by (rule pub_after_state)
  have "pub_inv r" "pr_batches r bid = Some b" using s at by (simp_all add: pub_good_def pub_at_def)
  note get = pub_GetBatch_found [OF this, of t]
  have st: "(\<not> pub_isEditableStatus (bt_Status b)) = True"
    "(bt_Status b = pub_StatusPublished \<or> bt_Status b = pub_StatusRejected \<or> bt_Status b = pub_StatusSuperseded) = True"
    "(bt_Status b \<noteq> pub_StatusReviewApproved \<and> bt_Status b \<noteq> pub_StatusOwnerPending) = True"
    using final by (auto simp: pub_isEditableStatus_def)
  show ?thesis
    unfolding s(1) pub_ReplaceBatchItems_def pub_ReviewApprove_def pub_ReviewReject_def pub_ReviewRework_def
      pub_applyReviewDecision_def pub_OwnerApprove_def pub_OwnerReject_def pub_OwnerRework_def
      pub_applyOwnerDecision_def get sum.case st if_True by (intro conjI refl)
qed

text \<open>
  The guard and the write of an approval are two critical sections of the repository, and
  the write does not repeat the guard: two approvals that both passed the guard before either
  wrote leave two records for one batch.
\<close>

theorem pub_approval_race:
  assumes at: "pub_at cs bid = Some b" and ready: "bt_Status b = pub_StatusReviewApproved"
  shows "\<exists>x1 r1 x2 r2.
     pub_repo_ApplyOwnerDecision clk bid pub_OwnerDecisionApprove a1 fs1 (psv_repo (pub_after cs)) = (Inr (Some x1), r1) \<and>
     pub_repo_ApplyOwnerDecision clk' bid pub_OwnerDecisionApprove a2 fs2 r1 = (Inr (Some x2), r2) \<and>
     rec_ID x1 \<noteq> rec_ID x2 \<and> pr_records r2 (rec_ID x1) = Some x1 \<and> pr_records r2 (rec_ID x2) = Some x2 \<and>
     rec_PublishBatchID x1 = bid \<and> rec_PublishBatchID x2 = bid"
proof -
  obtain r t where s: "pub_after cs = pub_state r t" "pub_good r t" by (rule pub_after_state)
  have inv: "pub_inv r" and b: "pr_batches r bid = Some b" using s at by (simp_all add: pub_good_def pub_at_def)
  have id: "bt_ID b = bid" using pub_stored_clone [OF inv b] by blast
  let ?b = "pub_decided (clk (length fs1)) pub_OwnerDecisionApprove a1 (pub_newFeedbacks clk (pr_nextFeed r) bid fs1) b"
  let ?x = "pub_new_record (clk (length fs1)) a1 (pr_nextRecord r) b"
  let ?r = "pub_put bid ?b (r\<lparr>pr_nextFeed := pr_nextFeed r + int (length fs1), pr_nextRecord := pr_nextRecord r + 1,
           pr_records := (pr_records r)(pr_nextRecord r \<mapsto> ?x)\<rparr>)"
  let ?y = "pub_new_record (clk' (length fs2)) a2 (pr_nextRecord r + 1) ?b"
  have one: "pub_repo_ApplyOwnerDecision clk bid pub_OwnerDecisionApprove a1 fs1 (psv_repo (pub_after cs)) =
      (Inr (Some ?x), ?r)"
    unfolding s(1) pub_state_simps pub_repo_OwnerApprove_eq [OF inv b] ..
  have "\<exists>r2. pub_repo_ApplyOwnerDecision clk' bid pub_OwnerDecisionApprove a2 fs2 ?r = (Inr (Some ?y), r2) \<and>
      pr_records r2 = (pr_records r)(pr_nextRecord r \<mapsto> ?x, pr_nextRecord r + 1 \<mapsto> ?y)"
    by (simp add: pub_repo_ApplyOwnerDecision_def Let_def pub_new_record_def pub_cloneRecord_def)
  then obtain r2 where two: "pub_repo_ApplyOwnerDecision clk' bid pub_OwnerDecisionApprove a2 fs2 ?r = (Inr (Some ?y), r2)"
    "pr_records r2 = (pr_records r)(pr_nextRecord r \<mapsto> ?x, pr_nextRecord r + 1 \<mapsto> ?y)"
    by blast
  have ids: "rec_ID ?x = pr_nextRecord r" "rec_ID ?y = pr_nextRecord r + 1"
    "rec_PublishBatchID ?x = bid" "rec_PublishBatchID ?y = bid"
    by (simp_all add: pub_new_record_def id) (simp add: pub_decided_def id)
  have "rec_ID ?x \<noteq> rec_ID ?y" "pr_records r2 (rec_ID ?x) = Some ?x" "pr_records r2 (rec_ID ?y) = Some ?y"
    unfolding two(2) ids by simp_all
  with one two(1) ids(3,4) show ?thesis by blast
qed

text \<open>
  After an owner's rework and a new review approval the workspace history shows an
  owner entry with the action \<open>review_approved\<close>, which no owner took: the entry repeats the
  current status of the batch.
\<close>

theorem pub_history_mislabels_owner:
  assumes at: "pub_at cs bid = Some b" and ready: "bt_Status b = pub_StatusReviewApproved"
  shows "\<exists>ws. pub_GetWorkspace bid
       (pub_after (cs @ [CallOwnerRework clk bid owner fs, CallReviewApprove clk' bid reviewer fs'])) = Inr ws \<and>
     \<lparr>tl_Stage = pub_FeedbackStageOwner, tl_Actor = pub_normalizeActor owner,
       tl_Action = pub_StatusReviewApproved, tl_At = clk (length fs)\<rparr> \<in> set (pw_History ws)"
proof -
  obtain r t where s: "pub_after cs = pub_state r t" "pub_good r t" by (rule pub_after_state)
  have inv: "pub_inv r" and b: "pr_batches r bid = Some b" using s at by (simp_all add: pub_good_def pub_at_def)
  have rdy: "pub_ready b" using ready by (simp add: pub_ready_def)
  have d: "pub_OwnerDecisionRework \<in> {pub_OwnerDecisionReject, pub_OwnerDecisionRework}"
    "pub_ReviewDecisionApprove \<in> {pub_ReviewDecisionApprove, pub_ReviewDecisionReject, pub_ReviewDecisionRework}"
    by simp_all
  let ?who = "pub_normalizeActor owner"
  let ?fb = "pub_normalizeDecisionFeedback fs ?who pub_FeedbackStageOwner"
  let ?b = "pub_decided (clk (length ?fb)) pub_OwnerDecisionRework ?who (pub_newFeedbacks clk (pr_nextFeed r) bid ?fb) b"
  let ?r = "pub_put bid ?b (r\<lparr>pr_nextFeed := pr_nextFeed r + int (length ?fb)\<rparr>)"
  have one: "snd (pub_OwnerRework clk bid owner fs (pub_state r t)) = pub_state ?r t"
    unfolding pub_OwnerRework_def pub_applyOwnerDecision_run [OF inv b rdy d(1)] Let_def snd_conv ..
  have "pub_step r ?r" by (rule pub_step.turned_down [OF b rdy [unfolded pub_ready_def] d(1)]) simp
  then have inv': "pub_inv ?r" using pub_step_inv inv by blast
  have b': "pr_batches ?r bid = Some ?b" "\<not> pub_final (bt_Status ?b)" by simp_all
  let ?rev = "pub_normalizeActor reviewer"
  let ?fb' = "pub_normalizeDecisionFeedback fs' ?rev pub_FeedbackStageReview"
  let ?c = "pub_reviewed (clk' (length ?fb')) pub_ReviewDecisionApprove ?rev (pub_newFeedbacks clk' (pr_nextFeed ?r) bid ?fb') ?b"
  let ?q = "pub_put bid ?c (?r\<lparr>pr_nextFeed := pr_nextFeed ?r + int (length ?fb')\<rparr>)"
  have two: "snd (pub_ReviewApprove clk' bid reviewer fs' (pub_state ?r t)) = pub_state ?q t"
    unfolding pub_ReviewApprove_def pub_applyReviewDecision_run [OF inv' b' d(2)] Let_def snd_conv ..
  have after: "pub_after (cs @ [CallOwnerRework clk bid owner fs, CallReviewApprove clk' bid reviewer fs']) = pub_state ?q t"
    using s(1) one two by (simp add: pub_after_def)
  have "1 \<le> bid" using pub_stored_clone [OF inv b] by blast
  then have "pub_GetWorkspace bid (pub_state ?q t) = Inr (pub_buildWorkspace (pub_cloneBatch ?c))"
    by (simp add: pub_GetWorkspace_def pub_repo_BuildWorkspace_def)
  moreover have "bt_OwnerDecidedAt (pub_cloneBatch ?c) = Some (clk (length fs))"
    "bt_OwnerDecidedBy (pub_cloneBatch ?c) = ?who" "bt_Status (pub_cloneBatch ?c) = pub_StatusReviewApproved"
    by (simp_all add: pub_cloneBatch_def pub_reviewed_def pub_decided_def)
  then have "\<lparr>tl_Stage = pub_FeedbackStageOwner, tl_Actor = ?who,
       tl_Action = pub_StatusReviewApproved, tl_At = clk (length fs)\<rparr> \<in> set (pw_History (pub_buildWorkspace (pub_cloneBatch ?c)))"
    by (simp add: pub_buildWorkspace_def)
  ultimately show ?thesis unfolding after by blast
qed

text \<open>
  Once the owner has edited a batch, the workspace shows no item feedback given so far:
  the items got new numbers, and the old feedback stays attached to the old ones.
\<close>

theorem pub_edit_hides_item_feedback:
  assumes run: "pub_ReplaceBatchItems clk bid items (pub_after cs) = (Inr b', s')"
  shows "bt_Feedback b' = bt_Feedback (the (pub_at cs bid)) \<and>
         (\<exists>ws. pub_GetWorkspace bid s' = Inr ws \<and> length (pw_Items ws) = length items \<and>
            (\<forall>i \<in> set (pw_Items ws). wi_Feedback i = []))"
proof -
  obtain r t where s: "pub_after cs = pub_state r t" "pub_good r t" by (rule pub_after_state)
  have inv: "pub_inv r" "pub_binv r" using s(2) by (simp_all add: pub_good_def pub_inv_def)
  obtain b where get: "pub_GetBatch bid (pub_state r t) = Inr b"
    using run by (cases "pub_GetBatch bid (pub_state r t)") (auto simp: pub_ReplaceBatchItems_def s(1))
  note b = pub_GetBatch_Inr [OF inv(1) get]
  have ok: "pub_isEditableStatus (bt_Status b)" "items \<noteq> []" "pub_validateItems (bt_SnapshotID b) items = Inr ()"
    using run by (auto simp: pub_ReplaceBatchItems_def s(1) get split: if_splits sum.splits)
  let ?b = "pub_replaced (clk 0) (pr_nextItem r) items b"
  let ?r = "pub_put bid ?b (r\<lparr>pr_nextItem := pr_nextItem r + int (length items)\<rparr>)"
  have "pub_ReplaceBatchItems clk bid items (pub_after cs) = (Inr ?b, pub_state ?r t)"
    using ok by (simp add: pub_ReplaceBatchItems_def s(1) get pub_repo_ReplaceBatchItems_eq [OF inv(1) b])
  then have res: "b' = ?b" "s' = pub_state ?r t" using run by simp_all
  have clone: "pub_cloneBatch ?b = ?b" using pub_stored_clone [OF inv(1) b] pub_clone_changes(4) by blast
  have pos: "1 \<le> bid" using pub_stored_clone [OF inv(1) b] by blast
  have ws: "pub_GetWorkspace bid s' = Inr (pub_buildWorkspace ?b)"
    unfolding res using pos by (simp add: pub_GetWorkspace_def pub_repo_BuildWorkspace_def clone)
  have items: "bt_Items ?b = pub_makeItems (clk 0) (bt_ID b) (pr_nextItem r) 0 items" by (simp add: pub_replaced_def)
  have at: "pub_at cs bid = Some b" using b by (simp add: pub_at_def s(1))
  have low: "fb_PublishBatchItemID f < pr_nextItem r" if "f \<in> set (bt_Feedback b)" for f
    using pub_binvD(4) [OF inv(2) b] that by (simp add: pub_batch_ok_def pub_refs_ok_def)
  have new: "pr_nextItem r \<le> bi_ID i" if "i \<in> set (bt_Items ?b)" for i
    using pub_makeItems_in [OF _ ok(3)] that unfolding items by blast
  have fb: "bt_Feedback ?b = bt_Feedback b" by (simp add: pub_replaced_def)
  have "length (pw_Items (pub_buildWorkspace ?b)) = length items"
    by (simp add: pub_buildWorkspace_def items pub_makeItems_facts)
  moreover have "filter (\<lambda>f. fb_Scope f = pub_FeedbackScopeItem \<and> fb_PublishBatchItemID f = bi_ID i) (bt_Feedback ?b) = []"
    if "i \<in> set (bt_Items ?b)" for i
    using low new [OF that] unfolding fb by (force simp: filter_empty_conv)
  then have "\<forall>i \<in> set (pw_Items (pub_buildWorkspace ?b)). wi_Feedback i = []"
    by (auto simp: pub_buildWorkspace_def)
  ultimately show ?thesis using ws at fb res(1) by simp
qed

subsection \<open>Witnesses\<close>

definition pub_sample_items :: "pub_CreateBatchItemInput list" where
  "pub_sample_items = [\<lparr>ci_CandidateID = 7, ci_TaskID = 2, ci_DatasetID = 1, ci_SnapshotID = 3, ci_ItemPayload = []\<rparr>]"

definition pub_sample_req :: pub_CreateBatchInput where
  "pub_sample_req = \<lparr>cb_ProjectID = 1, cb_SnapshotID = 3, cb_Source = [], cb_RuleSummary = [], cb_Items = pub_sample_items\<rparr>"

definition pub_sample0 :: "pub_call list" where
  "pub_sample0 = [CallCreateBatch (\<lambda>_. 5) pub_sample_req]"

definition pub_sample :: "pub_call list" where
  "pub_sample = pub_sample0 @ [CallReviewApprove (\<lambda>_. 6) 1 ''rev'' []]"

definition pub_sample_batch0 :: pub_Batch where
  "pub_sample_batch0 = pub_first 5 (pub_sample_req\<lparr>cb_Source := pub_SourceManual\<rparr>) pub_NewInMemoryRepository"

definition pub_sample_batch :: pub_Batch where
  "pub_sample_batch = pub_reviewed 6 pub_ReviewDecisionApprove ''rev'' [] pub_sample_batch0"

lemma pub_sample_valid:
  "pub_validateItems 3 pub_sample_items = Inr ()" "pub_sample_items \<noteq> []" "length pub_sample_items = 1"
  by (simp_all add: pub_sample_items_def pub_validateBatchItem_def)

lemma pub_sample0_after:
  "pub_after pub_sample0 = pub_state (pub_put 1 pub_sample_batch0
     (pub_NewInMemoryRepository\<lparr>pr_nextBatch := 2, pr_nextItem := 2\<rparr>)) tasks_NewInMemoryRepository"
proof -
  have "pub_normalizeSource [] = pub_SourceManual" by (simp add: pub_normalizeSource_def)
  then show ?thesis
    using pub_sample_valid
    by (simp add: pub_after_def pub_sample0_def pub_start_def pub_CreateBatch_def Let_def pub_isValidSource_def
        pub_repo_CreateBatch_eq pub_sample_batch0_def)
      (simp add: pub_sample_req_def pub_isValidSource_def pub_NewInMemoryRepository_def pub_repo_CreateBatch_eq)
qed

lemma pub_sample0_at: "pub_at pub_sample0 1 = Some pub_sample_batch0"
  by (simp add: pub_at_def pub_sample0_after)

lemma pub_sample_after:
  "pub_after pub_sample = pub_state (pub_put 1 pub_sample_batch
     (pub_NewInMemoryRepository\<lparr>pr_nextBatch := 2, pr_nextItem := 2\<rparr>)) tasks_NewInMemoryRepository"
proof -
  let ?r = "pub_put 1 pub_sample_batch0 (pub_NewInMemoryRepository\<lparr>pr_nextBatch := 2, pr_nextItem := 2\<rparr>)"
  obtain r t where "pub_after pub_sample0 = pub_state r t" "pub_good r t" by (rule pub_after_state)
  then have inv: "pub_inv ?r" by (simp add: pub_sample0_after pub_good_def)
  have b: "pr_batches ?r 1 = Some pub_sample_batch0" "\<not> pub_final (bt_Status pub_sample_batch0)"
    by (simp_all add: pub_sample_batch0_def)
  have d: "pub_ReviewDecisionApprove \<in> {pub_ReviewDecisionApprove, pub_ReviewDecisionReject, pub_ReviewDecisionRework}"
    by simp
  have actor: "pub_normalizeActor ''rev'' = ''rev''"
    by (simp add: pub_normalizeActor_def trimmed_trim_space_id norm_lit_simps)
  have "snd (pub_ReviewApprove (\<lambda>_. 6) 1 ''rev'' [] (pub_after pub_sample0)) = pub_state (pub_put 1 pub_sample_batch ?r) tasks_NewInMemoryRepository"
    unfolding pub_sample0_after pub_ReviewApprove_def pub_applyReviewDecision_run [OF inv b d] Let_def actor
    by (simp add: pub_normalizeDecisionFeedback_def pub_sample_batch_def pub_put_def)
  then show ?thesis by (simp add: pub_sample_def pub_after_snoc pub_put_def)
qed

lemma pub_sample_at: "pub_at pub_sample 1 = Some pub_sample_batch"
  by (simp add: pub_at_def pub_sample_after)

lemma pub_sample_ready: "bt_Status pub_sample_batch = pub_StatusReviewApproved"
  by (simp add: pub_sample_batch_def)

theorem pub_histories_witness:
  "\<exists>b'. pub_at (pub_sample @ [CallOwnerApprove (\<lambda>_. 7) 1 ''own'' []]) 1 = Some b' \<and> pub_evolves pub_sample_batch b'"
  using pub_histories [OF pub_sample_at] by blast

text \<open>With a task service that refuses, the sample batch is published and the caller gets an error.\<close>

theorem pub_owner_approve_exact_witness:
  "\<exists>r' b'. pub_OwnerApprove (\<lambda>c inp t. (Inl TaskProjectIDNotPositive, t)) (\<lambda>_. 7) 1 ''own'' []
       \<lparr>psv_repo = psv_repo (pub_after pub_sample), psv_tasks = Some ()\<rparr> =
     (Inl (PubTaskError TaskProjectIDNotPositive), \<lparr>psv_repo = r', psv_tasks = Some ()\<rparr>) \<and>
     pr_batches r' 1 = Some b' \<and> bt_Status b' = pub_StatusPublished"
proof -
  let ?create = "\<lambda>(c :: clock) (inp :: tasks_CreateTaskInput) (t :: unit). (Inl TaskProjectIDNotPositive :: tasks_error + tasks_Task, t)"
  obtain res s' where run: "pub_OwnerApprove ?create (\<lambda>_. 7) 1 ''own'' []
      \<lparr>psv_repo = psv_repo (pub_after pub_sample), psv_tasks = Some ()\<rparr> = (res, s')"
    by (cases "pub_OwnerApprove ?create (\<lambda>_. 7) 1 ''own'' [] \<lparr>psv_repo = psv_repo (pub_after pub_sample), psv_tasks = Some ()\<rparr>")
  have ready: "\<exists>b. pub_at pub_sample 1 = Some b \<and> bt_Status b = pub_StatusReviewApproved"
    using pub_sample_at pub_sample_ready by blast
  obtain b x r' where "pub_published (psv_repo (pub_after pub_sample)) 1 b x r'"
    "res = Inl (PubTaskError TaskProjectIDNotPositive)" "s' = \<lparr>psv_repo = r', psv_tasks = Some ()\<rparr>"
    using pub_owner_approve_exact [OF run, unfolded if_P [OF ready]] by auto
  then show ?thesis using run unfolding pub_published_def by auto
qed

lemma pub_sample_edit:
  "\<exists>b' s'. pub_ReplaceBatchItems (\<lambda>_. 7) 1 pub_sample_items (pub_after pub_sample) = (Inr b', s')"
proof -
  let ?r = "pub_put 1 pub_sample_batch (pub_NewInMemoryRepository\<lparr>pr_nextBatch := 2, pr_nextItem := 2\<rparr>)"
  obtain r t where "pub_after pub_sample = pub_state r t" "pub_good r t" by (rule pub_after_state)
  then have inv: "pub_inv ?r" by (simp add: pub_sample_after pub_good_def)
  have b: "pr_batches ?r 1 = Some pub_sample_batch" by simp
  have sn: "bt_SnapshotID pub_sample_batch = 3"
    by (simp add: pub_sample_batch_def pub_sample_batch0_def pub_reviewed_def pub_first_def pub_sample_req_def)
  show ?thesis
    unfolding pub_sample_after pub_ReplaceBatchItems_def pub_GetBatch_found [OF inv b]
    using pub_sample_valid by (simp add: pub_sample_ready pub_isEditableStatus_def sn pub_repo_ReplaceBatchItems_eq [OF inv b])
qed

theorem pub_edit_resets_approval_witness:
  "\<exists>b' s' e. pub_ReplaceBatchItems (\<lambda>_. 7) 1 pub_sample_items (pub_after pub_sample) = (Inr b', s') \<and>
     pub_OwnerApprove tasks_CreateTask (\<lambda>_. 8) 1 ''own'' [] s' = (Inl e, s')"
proof -
  obtain b' s' where run: "pub_ReplaceBatchItems (\<lambda>_. 7) 1 pub_sample_items (pub_after pub_sample) = (Inr b', s')"
    using pub_sample_edit by blast
  from pub_edit_resets_approval [OF run, of "\<lambda>_. 8" "''own''" "[]"] run show ?thesis by blast
qed

theorem pub_edit_hides_item_feedback_witness:
  "\<exists>b' s' ws. pub_ReplaceBatchItems (\<lambda>_. 7) 1 pub_sample_items (pub_after pub_sample) = (Inr b', s') \<and>
     pub_GetWorkspace 1 s' = Inr ws \<and> (\<forall>i \<in> set (pw_Items ws). wi_Feedback i = [])"
proof -
  obtain b' s' where run: "pub_ReplaceBatchItems (\<lambda>_. 7) 1 pub_sample_items (pub_after pub_sample) = (Inr b', s')"
    using pub_sample_edit by blast
  from pub_edit_hides_item_feedback [OF run] run show ?thesis by blast
qed

definition pub_sample_done :: "pub_call list" where
  "pub_sample_done = pub_sample @ [CallOwnerApprove (\<lambda>_. 7) 1 ''own'' []]"

lemma pub_sample_done_at:
  "\<exists>b. pub_at pub_sample_done 1 = Some b \<and> bt_Status b = pub_StatusPublished"
  "\<exists>x. pub_record_at pub_sample_done 1 = Some x"
proof -
  let ?r = "pub_put 1 pub_sample_batch (pub_NewInMemoryRepository\<lparr>pr_nextBatch := 2, pr_nextItem := 2\<rparr>)"
  obtain r t where "pub_after pub_sample = pub_state r t" "pub_good r t" by (rule pub_after_state)
  then have good: "pub_good ?r tasks_NewInMemoryRepository" by (simp add: pub_sample_after)
  have b: "pr_batches ?r 1 = Some pub_sample_batch" "pub_ready pub_sample_batch"
    by (simp_all add: pub_ready_def pub_sample_ready)
  let ?fb = "pub_normalizeDecisionFeedback [] (pub_normalizeActor ''own'') pub_FeedbackStageOwner"
  obtain task t' where "pub_OwnerApprove tasks_CreateTask (\<lambda>_. 7) 1 ''own'' [] (pub_after pub_sample) =
      (Inr (Some (pub_new_record 7 (pub_normalizeActor ''own'') (pr_nextRecord ?r) pub_sample_batch)),
       pub_state (pub_published_repo (\<lambda>_. 7) (pub_normalizeActor ''own'') ?fb pub_sample_batch ?r) t')"
    unfolding pub_sample_after
    using pub_tasks.owner_approve_done [OF pub_goodD [OF good] b, of "\<lambda>_. 7" "''own''" "[]"] by blast
  then have s': "pub_after pub_sample_done =
      pub_state (pub_published_repo (\<lambda>_. 7) (pub_normalizeActor ''own'') ?fb pub_sample_batch ?r) t'"
    by (simp add: pub_sample_done_def pub_after_snoc)
  have id: "bt_ID pub_sample_batch = 1"
    using pub_stored_clone [OF pub_goodD(1) [OF good] b(1)] by blast
  show "\<exists>b. pub_at pub_sample_done 1 = Some b \<and> bt_Status b = pub_StatusPublished"
    by (simp add: pub_at_def s' pub_published_repo_def id)
  show "\<exists>x. pub_record_at pub_sample_done 1 = Some x"
    by (simp add: pub_record_at_def s' pub_published_repo_def pub_NewInMemoryRepository_def)
qed

theorem pub_final_refuses_witness:
  "pub_ReviewReject (\<lambda>_. 8) 1 ''rev'' [] (pub_after pub_sample_done) =
     (Inl (PubNotReviewable 1), pub_after pub_sample_done)"
proof -
  obtain b where b: "pub_at pub_sample_done 1 = Some b" "bt_Status b = pub_StatusPublished"
    using pub_sample_done_at(1) by blast
  then have "bt_Status b \<in> {pub_StatusPublished, pub_StatusRejected}" by simp
  from pub_final_refuses [OF b(1) this, of "\<lambda>_. 8" _ "''rev''" "[]"] show ?thesis by blast
qed

theorem pub_record_per_publication_witness:
  "\<exists>x tid a. pub_record_at pub_sample_done 1 = Some x \<and> pub_task_at pub_sample_done tid = Some a \<and> pub_evaluated x a"
  using pub_record_per_publication pub_sample_done_at(2) by blast

theorem pub_approval_race_witness:
  "\<exists>x1 r1 x2 r2.
     pub_repo_ApplyOwnerDecision (\<lambda>_. 7) 1 pub_OwnerDecisionApprove ''a'' [] (psv_repo (pub_after pub_sample)) = (Inr (Some x1), r1) \<and>
     pub_repo_ApplyOwnerDecision (\<lambda>_. 8) 1 pub_OwnerDecisionApprove ''b'' [] r1 = (Inr (Some x2), r2) \<and> rec_ID x1 \<noteq> rec_ID x2"
  using pub_approval_race [OF pub_sample_at pub_sample_ready, of "\<lambda>_. 7" "''a''" "[]" "\<lambda>_. 8" "''b''" "[]"] by blast

theorem pub_history_mislabels_owner_witness:
  "\<exists>ws e. pub_GetWorkspace 1 (pub_after (pub_sample @
       [CallOwnerRework (\<lambda>_. 7) 1 ''own'' [], CallReviewApprove (\<lambda>_. 8) 1 ''rev'' []])) = Inr ws \<and>
     e \<in> set (pw_History ws) \<and> tl_Stage e = pub_FeedbackStageOwner \<and> tl_Action e = pub_StatusReviewApproved"
proof -
  from pub_history_mislabels_owner [OF pub_sample_at pub_sample_ready, of "\<lambda>_. 7" "''own''" "[]" "\<lambda>_. 8" "''rev''" "[]"]
  obtain ws where "pub_GetWorkspace 1 (pub_after (pub_sample @
       [CallOwnerRework (\<lambda>_. 7) 1 ''own'' [], CallReviewApprove (\<lambda>_. 8) 1 ''rev'' []])) = Inr ws"
    "\<lparr>tl_Stage = pub_FeedbackStageOwner, tl_Actor = pub_normalizeActor ''own'',
       tl_Action = pub_StatusReviewApproved, tl_At = 7\<rparr> \<in> set (pw_History ws)" by blast
  then show ?thesis by (intro exI conjI) (assumption, assumption, simp_all)
qed

end
