(* ===== verification/Auth_Facts.thy ===== *)
theory Auth_Facts
  imports Auth
begin

section \<open>Auth: what the middlewares guarantee\<close>

text \<open>
  The bound of the limiter by a ledger of the windows that the admitted calls of one client are counted in, the exact
  conditions of the bearer check and of the project scopes.
\<close>

subsection \<open>Scopes\<close>

lemma auth_keepNew_mem: "q \<in> set (auth_keepNew seen ps) \<longleftrightarrow> q \<in> set ps \<and> 0 < q \<and> q \<notin> set seen"
proof (induction ps arbitrary: seen)
  case (Cons p ps)
  show ?case
  proof (cases "p \<le> 0 \<or> p \<in> set seen")
    case True
    then have "auth_keepNew seen (p # ps) = auth_keepNew seen ps" by simp
    with True Cons.IH [of seen] show ?thesis by (cases "q = p") auto
  next
    case False
    then have "auth_keepNew seen (p # ps) = p # auth_keepNew (p # seen) ps" by simp
    with False Cons.IH [of "p # seen"] show ?thesis by (cases "q = p") auto
  qed
qed simp

lemma auth_keepNew_set: "set (auth_keepNew seen ps) = {p \<in> set ps. 0 < p} - set seen"
  using auth_keepNew_mem by blast

lemma auth_keepNew_distinct: "distinct (auth_keepNew seen ps)"
  by (induction seen ps rule: auth_keepNew.induct) (simp_all add: auth_keepNew_mem)

lemma auth_keepNew_id:
  "distinct ps \<Longrightarrow> set ps \<inter> set seen = {} \<Longrightarrow> (\<And>p. p \<in> set ps \<Longrightarrow> 0 < p) \<Longrightarrow> auth_keepNew seen ps = ps"
proof (induction ps arbitrary: seen)
  case (Cons p ps)
  have "auth_keepNew (p # seen) ps = ps" using Cons.prems by (intro Cons.IH) auto
  moreover have "0 < p" "p \<notin> set seen" using Cons.prems by auto
  ultimately show ?case by simp
qed simp

lemma auth_normalize_facts:
  "set (auth_normalizeProjectIDs ps) = {p \<in> set ps. 0 < p}" "distinct (auth_normalizeProjectIDs ps)"
  "auth_normalizeProjectIDs (auth_normalizeProjectIDs ps) = auth_normalizeProjectIDs ps"
proof -
  show s: "set (auth_normalizeProjectIDs ps) = {p \<in> set ps. 0 < p}"
    and d: "distinct (auth_normalizeProjectIDs ps)"
    by (simp_all add: auth_normalizeProjectIDs_def auth_keepNew_set auth_keepNew_distinct)
  have "auth_keepNew [] (auth_normalizeProjectIDs ps) = auth_normalizeProjectIDs ps"
    using s d by (intro auth_keepNew_id) auto
  then show "auth_normalizeProjectIDs (auth_normalizeProjectIDs ps) = auth_normalizeProjectIDs ps"
    by (simp add: auth_normalizeProjectIDs_def)
qed

text \<open>The project IDs a header lists: positive 64-bit numbers, other parts are skipped.\<close>

definition auth_listed :: "string \<Rightarrow> int \<Rightarrow> bool" where
  "auth_listed raw p \<longleftrightarrow> 0 < p \<and> (\<exists>part \<in> set (split_on (CHR '','') raw). parse_int64 (trim_space part) = (p, True))"

lemma auth_blank_parts:
  assumes "trim_space raw = []" and "part \<in> set (split_on (CHR '','') raw)"
  shows "trim_space part = []"
proof -
  have "trimmed (trim_left raw)" if "trim_left raw = []" using that by (simp add: trimmed_def)
  have left: "trim_left raw = []"
  proof (rule ccontr)
    assume ne: "trim_left raw \<noteq> []"
    then have hd: "\<not> is_space (hd (trim_left raw))" using trim_left_cases [of raw] by blast
    have "trim_left (rev (trim_left raw)) = []" using assms(1) by (simp add: trim_space_def)
    then have "\<forall>c \<in> set (rev (trim_left raw)). is_space c" by (simp add: trim_left_def)
    with hd ne show False by (metis hd_in_set set_rev)
  qed
  then have sp: "\<forall>c \<in> set raw. is_space c" by (simp add: trim_left_def)
  have "CHR '','' \<notin> set raw" using sp by (auto simp: is_space_def)
  then have "part = raw" using assms(2) by (simp add: split_on_plain)
  with assms(1) show ?thesis by simp
qed

lemma auth_header_set: "set (auth_parseProjectIDsHeader raw) = {p. auth_listed raw p}"
proof (cases "trim_space raw = []")
  case True
  have "parse_int64 [] = (0, False)" by (simp add: parse_int64_def)
  then have "\<not> auth_listed raw p" for p using auth_blank_parts [OF True] by (force simp: auth_listed_def)
  with True show ?thesis by (simp add: auth_parseProjectIDsHeader_def)
next
  case False
  let ?f = "\<lambda>part. let (v, parsed) = parse_int64 (trim_space part) in if \<not> parsed \<or> v \<le> 0 then [] else [v]"
  have mem: "p \<in> set (?f part) \<longleftrightarrow> 0 < p \<and> parse_int64 (trim_space part) = (p, True)" for p part
    by (cases "parse_int64 (trim_space part)") auto
  have "p \<in> set (auth_parseProjectIDsHeader raw) \<longleftrightarrow>
      0 < p \<and> (\<exists>part \<in> set (split_on (CHR '','') raw). p \<in> set (?f part))" for p
    using False by (simp add: auth_parseProjectIDsHeader_def auth_normalize_facts) blast
  then show ?thesis unfolding mem auth_listed_def by blast
qed

subsection \<open>The limiter\<close>

text \<open>
  \<open>allow\<close> reads the clock before it takes the mutex, so the calls enter the critical section in
  an order that need not be that of their readings. An arrival holds both instants; a run of the limiter
  takes the arrivals in the order of the mutex.
\<close>

record auth_arrival =
  av_key :: string
  av_read :: time
  av_lock :: time

fun auth_admitted :: "auth_limiter \<Rightarrow> auth_arrival list \<Rightarrow> auth_arrival list" where
  "auth_admitted l [] = []"
| "auth_admitted l (a # as) =
     (let ((ok, _), l') = auth_allow (av_read a) (av_key a) l
      in if ok then a # auth_admitted l' as else auth_admitted l' as)"

text \<open>No call waits longer than \<open>lag\<close> between its reading and the mutex.\<close>

definition auth_lagging :: "duration \<Rightarrow> auth_arrival \<Rightarrow> bool" where
  "auth_lagging lag a \<longleftrightarrow> av_read a \<le> av_lock a \<and> av_lock a \<le> av_read a + lag"

text \<open>
  The ledger of one client: every admitted arrival beside the start of the window it was counted in. The
  starts lie at least a window length apart and no window counts more than the limit; a late
  reading may lie before the window it is counted in, by no more than the lag.
\<close>

definition auth_booked :: "duration \<Rightarrow> duration \<Rightarrow> time \<times> auth_arrival \<Rightarrow> bool" where
  "auth_booked w lag p \<longleftrightarrow>
     auth_lagging lag (snd p) \<and> fst p \<le> av_lock (snd p) \<and> av_read (snd p) < fst p + w"

definition auth_apart :: "duration \<Rightarrow> time set \<Rightarrow> bool" where
  "auth_apart w S \<longleftrightarrow> (\<forall>s \<in> S. \<forall>s' \<in> S. s < s' \<longrightarrow> s + w \<le> s')"

abbreviation auth_inWindow :: "time \<Rightarrow> (time \<times> auth_arrival) list \<Rightarrow> (time \<times> auth_arrival) list" where
  "auth_inWindow s ps \<equiv> filter (\<lambda>p. fst p = s) ps"

definition auth_ledger ::
  "int \<Rightarrow> duration \<Rightarrow> duration \<Rightarrow> auth_bucket option \<Rightarrow> (time \<times> auth_arrival) list \<Rightarrow> time \<Rightarrow> bool" where
  "auth_ledger mx w lag b ps m \<longleftrightarrow>
     (\<forall>p \<in> set ps. auth_booked w lag p) \<and> auth_apart w (fst ` set ps) \<and>
     (\<forall>s. int (length (auth_inWindow s ps)) \<le> mx) \<and>
     (case b of
        None \<Rightarrow> ps = []
      | Some k \<Rightarrow>
          bk_windowStart k \<le> m \<and> bk_windowStart k \<in> fst ` set ps \<and>
          (\<forall>s \<in> fst ` set ps. s \<le> bk_windowStart k) \<and>
          int (length (auth_inWindow (bk_windowStart k) ps)) = bk_count k)"

lemma auth_ledger_wait: "auth_ledger mx w lag b ps m \<Longrightarrow> m \<le> m' \<Longrightarrow> auth_ledger mx w lag b ps m'"
  by (auto simp: auth_ledger_def split: option.splits)

text \<open>A first arrival, and one that opens a new window.\<close>

lemma auth_ledger_open:
  assumes ledger: "auth_ledger mx w lag b ps m" and pos: "0 < mx" "0 < w" and lag: "auth_lagging lag a"
    and over: "\<And>k. b = Some k \<Longrightarrow> bk_windowStart k + w \<le> av_read a"
  shows "auth_ledger mx w lag (Some \<lparr>bk_windowStart = av_read a, bk_count = 1\<rparr>) (ps @ [(av_read a, a)]) (av_lock a)"
proof -
  have past: "s + w \<le> av_read a" if "s \<in> fst ` set ps" for s
  proof (cases b)
    case None
    with ledger that show ?thesis by (simp add: auth_ledger_def)
  next
    case (Some k)
    then have "s \<le> bk_windowStart k" using ledger that by (auto simp: auth_ledger_def)
    with over [OF Some] show ?thesis by linarith
  qed
  then have new: "auth_inWindow (av_read a) ps = []" using pos by (fastforce simp: filter_empty_conv)
  have apart: "auth_apart w (insert (av_read a) (fst ` set ps))"
    using ledger past pos unfolding auth_ledger_def auth_apart_def by fastforce
  have few: "int (length (auth_inWindow s (ps @ [(av_read a, a)]))) \<le> mx" for s
    using ledger new pos by (cases "s = av_read a") (auto simp: auth_ledger_def)
  have "s \<le> av_read a" if "s \<in> fst ` set ps" for s using past [OF that] pos by linarith
  with ledger new apart few pos lag show ?thesis
    unfolding auth_ledger_def by (auto simp: auth_booked_def auth_lagging_def)
qed

lemma auth_ledger_count:
  assumes ledger: "auth_ledger mx w lag (Some k) ps m" and now: "m \<le> av_lock a" and lag: "auth_lagging lag a"
    and room: "av_read a < bk_windowStart k + w" "bk_count k < mx"
  shows "auth_ledger mx w lag (Some (k\<lparr>bk_count := bk_count k + 1\<rparr>)) (ps @ [(bk_windowStart k, a)]) (av_lock a)"
proof -
  have start: "bk_windowStart k \<in> fst ` set ps" "bk_windowStart k \<le> av_lock a"
    using ledger now by (simp_all add: auth_ledger_def)
  have starts: "fst ` set (ps @ [(bk_windowStart k, a)]) = fst ` set ps" using start(1) by auto
  have few: "int (length (auth_inWindow s (ps @ [(bk_windowStart k, a)]))) \<le> mx" for s
    using ledger room(2) by (cases "s = bk_windowStart k") (auto simp: auth_ledger_def)
  show ?thesis
    using ledger start few room lag unfolding auth_ledger_def starts by (auto simp: auth_booked_def)
qed

definition auth_limits :: "int \<Rightarrow> duration \<Rightarrow> auth_limiter \<Rightarrow> bool" where
  "auth_limits mx w l \<longleftrightarrow> lm_limit l = mx \<and> lm_window l = w"

lemma auth_allow_limits: "auth_limits mx w l \<Longrightarrow> auth_limits mx w (snd (auth_allow now key l))"
  by (auto simp: auth_limits_def auth_allow_def Let_def split: option.split)

lemma auth_allow_other: "key' \<noteq> key \<Longrightarrow> lm_buckets (snd (auth_allow now key l)) key' = lm_buckets l key'"
  by (auto simp: auth_allow_def Let_def split: option.split)

lemma auth_allow_ledger:
  assumes l: "auth_limits mx w l" "0 < mx" "0 < w" and now: "m \<le> av_lock a" and lag: "auth_lagging lag a"
    and ledger: "auth_ledger mx w lag (lm_buckets l (av_key a)) ps m"
    and run: "auth_allow (av_read a) (av_key a) l = ((ok, d), l')"
  shows "\<exists>s. auth_ledger mx w lag (lm_buckets l' (av_key a)) (if ok then ps @ [(s, a)] else ps) (av_lock a)"
proof -
  have on: "lm_limit l = mx" "lm_window l = w" "(mx \<le> 0 \<or> w \<le> 0) = False"
    using l by (auto simp: auth_limits_def)
  show ?thesis
  proof (cases "lm_buckets l (av_key a)")
    case None
    with auth_ledger_open [OF ledger l(2,3) lag] run show ?thesis unfolding auth_allow_def on by auto
  next
    case (Some k)
    note ledger' = ledger [unfolded Some]
    consider "bk_windowStart k + w \<le> av_read a" | "av_read a < bk_windowStart k + w" "mx \<le> bk_count k"
      | "av_read a < bk_windowStart k + w" "bk_count k < mx" by linarith
    then show ?thesis
    proof cases
      case 1
      with auth_ledger_open [OF ledger' l(2,3) lag] Some run show ?thesis unfolding auth_allow_def on by auto
    next
      case 2
      with auth_ledger_wait [OF ledger' now] Some run show ?thesis unfolding auth_allow_def on by (auto simp: Let_def)
    next
      case 3
      with auth_ledger_count [OF ledger' now lag 3] Some run show ?thesis unfolding auth_allow_def on by (auto simp: Let_def)
    qed
  qed
qed

lemma auth_admitted_ledger:
  assumes "auth_limits mx w l" "0 < mx" "0 < w" and "sorted (map av_lock as)" and "\<And>a. a \<in> set as \<Longrightarrow> m \<le> av_lock a"
    and "\<And>a. a \<in> set as \<Longrightarrow> auth_lagging lag a" and "auth_ledger mx w lag (lm_buckets l key) ps m"
  shows "\<exists>qs b m'. map snd qs = filter (\<lambda>a. av_key a = key) (auth_admitted l as) \<and> auth_ledger mx w lag b (ps @ qs) m'"
  using assms
proof (induction as arbitrary: l ps m)
  case Nil
  then show ?case by (intro exI [of _ "[]"]) auto
next
  case (Cons a as)
  obtain ok d l' where run: "auth_allow (av_read a) (av_key a) l = ((ok, d), l')" by (metis surj_pair)
  have now: "m \<le> av_lock a" and lag: "auth_lagging lag a" using Cons.prems(5,6) by simp_all
  have l': "auth_limits mx w l'" using auth_allow_limits [OF Cons.prems(1), of "av_read a" "av_key a"] run by simp
  have sorted: "sorted (map av_lock as)" "\<And>x. x \<in> set as \<Longrightarrow> av_lock a \<le> av_lock x"
    "\<And>x. x \<in> set as \<Longrightarrow> auth_lagging lag x" using Cons.prems(4,6) by auto
  have IH: "\<exists>qs b m'. map snd qs = filter (\<lambda>a. av_key a = key) (auth_admitted l' as) \<and> auth_ledger mx w lag b (rs @ qs) m'"
    if "auth_ledger mx w lag (lm_buckets l' key) rs (av_lock a)" for rs
    using Cons.IH [OF l' Cons.prems(2,3) sorted(1) _ _ that] sorted(2,3) by blast
  have adm: "auth_admitted l (a # as) = (if ok then a # auth_admitted l' as else auth_admitted l' as)" by (simp add: run)
  show ?case
  proof (cases "av_key a = key")
    case True
    obtain s where s: "auth_ledger mx w lag (lm_buckets l' key) (if ok then ps @ [(s, a)] else ps) (av_lock a)"
      using auth_allow_ledger [OF Cons.prems(1-3) now lag _ run, of ps] Cons.prems(7) True by auto
    obtain qs b m' where qs: "map snd qs = filter (\<lambda>a. av_key a = key) (auth_admitted l' as)"
      "auth_ledger mx w lag b ((if ok then ps @ [(s, a)] else ps) @ qs) m'" using IH [OF s] by blast
    show ?thesis
      using qs True adm by (intro exI [of _ "if ok then (s, a) # qs else qs"] exI [of _ b] exI [of _ m']) (auto split: if_splits)
  next
    case False
    have "lm_buckets l' key = lm_buckets l key" using auth_allow_other [of key "av_key a" "av_read a" l] False run by simp
    then have "auth_ledger mx w lag (lm_buckets l' key) ps (av_lock a)" using auth_ledger_wait [OF Cons.prems(7) now] by simp
    from IH [OF this] adm False show ?thesis by (auto split: if_splits)
  qed
qed

text \<open>Starts a window length apart in a span: their quotients by the window length differ.\<close>

lemma auth_apart_card:
  assumes "auth_apart w S" and "0 < w" and "0 \<le> lag" and "\<And>s. s \<in> S \<Longrightarrow> u < s \<and> s < u + 2 * w + lag"
  shows "int (card S) \<le> 2 + (lag + w - 1) div w"
proof -
  let ?q = "\<lambda>s. (s - u - 1) div w"
  have step: "?q s < ?q s'" if "s \<in> S" "s' \<in> S" "s < s'" for s s'
  proof -
    have "(s - u - 1 + w) div w \<le> ?q s'"
      using assms(1,2) that unfolding auth_apart_def by (intro zdiv_mono1) force+
    then show ?thesis using assms(2) by (simp add: div_add_self2)
  qed
  have inj: "inj_on ?q S"
  proof (rule inj_onI)
    fix s s' assume "s \<in> S" "s' \<in> S" "?q s = ?q s'"
    then show "s = s'" using step [of s s'] step [of s' s] by (cases s s' rule: linorder_cases) simp_all
  qed
  have "?q ` S \<subseteq> {0..(2 * w + lag - 2) div w}"
  proof
    fix x assume "x \<in> ?q ` S"
    then obtain s where s: "s \<in> S" "x = ?q s" by blast
    have "s - u - 1 \<le> 2 * w + lag - 2" "0 \<le> s - u - 1" using assms(4) [OF s(1)] by linarith+
    then show "x \<in> {0..(2 * w + lag - 2) div w}"
      using assms(2) s(2) zdiv_mono1 [of "s - u - 1" "2 * w + lag - 2" w] by (simp add: pos_imp_zdiv_nonneg_iff)
  qed
  then have "card S \<le> card {0..(2 * w + lag - 2) div w}"
    using card_image [OF inj] card_mono [OF finite_atLeastAtMost_int] by metis
  moreover have "(2 * w + lag - 2) div w + 1 = 2 + (lag + w - 2) div w"
  proof -
    have eq: "2 * w + lag - 2 = lag + w - 2 + w" by simp
    have "(lag + w - 2 + w) div w = (lag + w - 2) div w + 1" using assms(2) by (intro div_add_self2) simp
    then show ?thesis by (simp only: eq)
  qed
  moreover have "(lag + w - 2) div w \<le> (lag + w - 1) div w" using assms(2) by (intro zdiv_mono1) simp_all
  moreover have "0 \<le> (2 * w + lag - 2) div w + 1 \<or> card S = 0"
    using assms(2,3) by (smt (verit) pos_imp_zdiv_nonneg_iff)
  ultimately show ?thesis using assms(2,3) by (auto simp: pos_imp_zdiv_nonneg_iff)
qed

lemma auth_count_by_start:
  assumes "finite S" and "\<And>p. p \<in> set ps \<Longrightarrow> Q p \<Longrightarrow> fst p \<in> S"
  shows "length (filter Q ps) \<le> (\<Sum>s\<in>S. length (auth_inWindow s ps))"
  using assms(2)
proof (induction ps)
  case (Cons p ps)
  have IH: "length (filter Q ps) \<le> (\<Sum>s\<in>S. length (auth_inWindow s ps))" using Cons.prems by (intro Cons.IH) auto
  have sum: "(\<Sum>s\<in>S. length (auth_inWindow s (p # ps))) =
      (\<Sum>s\<in>S. if fst p = s then 1 else 0) + (\<Sum>s\<in>S. length (auth_inWindow s ps))"
    unfolding sum.distrib [symmetric] by (rule sum.cong) auto
  show ?case
  proof (cases "Q p")
    case True
    then have "(\<Sum>s\<in>S. if fst p = s then 1 else 0 :: nat) = 1" using Cons.prems assms(1) by simp
    then show ?thesis using True IH unfolding sum by simp
  qed (use IH sum in simp)
qed simp

lemma auth_ledger_span:
  assumes ledger: "auth_ledger mx w lag b ps m" and w: "0 < w" "0 \<le> lag" and mx: "0 < mx"
    and span: "\<And>p. p \<in> set ps \<Longrightarrow> P (snd p) \<Longrightarrow> u < fst p \<and> fst p < u + 2 * w + lag"
  shows "int (length (filter P (map snd ps))) \<le> (2 + (lag + w - 1) div w) * mx"
proof -
  let ?S = "{s \<in> fst ` set ps. u < s \<and> s < u + 2 * w + lag}"
  have "auth_apart w ?S" using ledger unfolding auth_ledger_def auth_apart_def by blast
  then have card: "int (card ?S) \<le> 2 + (lag + w - 1) div w" by (rule auth_apart_card [OF _ w, of _ u]) simp
  have "length (filter P (map snd ps)) = length (filter (P \<circ> snd) ps)" by (simp add: filter_map)
  also have "\<dots> \<le> (\<Sum>s\<in>?S. length (auth_inWindow s ps))" by (rule auth_count_by_start) (auto dest: span)
  finally have "int (length (filter P (map snd ps))) \<le> (\<Sum>s\<in>?S. int (length (auth_inWindow s ps)))"
    by (simp flip: of_nat_sum)
  also have "\<dots> \<le> (\<Sum>s\<in>?S. mx)" using ledger by (intro sum_mono) (simp add: auth_ledger_def)
  also have "\<dots> = int (card ?S) * mx" by simp
  also have "\<dots> \<le> (2 + (lag + w - 1) div w) * mx" using card mx by (intro mult_right_mono) simp_all
  finally show ?thesis .
qed

subsection \<open>Properties\<close>

text \<open>
  C32. Whatever clients arrive, and whatever the order in which their calls get the mutex after they have read the clock: when no call
  waits longer than \<open>lag\<close> between the two, no client is admitted more than \<open>(2 + \<lceil>lag / window\<rceil>) * limit\<close> times
  within any span of one window length, whether a call is dated by its reading or by the moment it holds the mutex. Without a lag that is
  twice the limit.
\<close>

theorem auth_window_bound:
  assumes "0 < limit" and "0 < window" and "0 \<le> lag" and "sorted (map av_lock as)" and "list_all (auth_lagging lag) as"
  shows "let mine = filter (\<lambda>a. av_key a = key) (auth_admitted (auth_newFixedWindowLimiter limit window) as);
             bound = (2 + (lag + window - 1) div window) * limit
         in int (length (filter (\<lambda>a. t \<le> av_read a \<and> av_read a < t + window) mine)) \<le> bound \<and>
            int (length (filter (\<lambda>a. t \<le> av_lock a \<and> av_lock a < t + window) mine)) \<le> bound"
proof -
  let ?l = "auth_newFixedWindowLimiter limit window" and ?m = "Min (insert 0 (av_lock ` set as))"
  have "auth_ledger limit window lag (lm_buckets ?l key) [] ?m"
    using assms(1) by (simp add: auth_ledger_def auth_newFixedWindowLimiter_def auth_apart_def)
  moreover have "auth_limits limit window ?l" by (simp add: auth_limits_def auth_newFixedWindowLimiter_def)
  moreover have "?m \<le> av_lock a" if "a \<in> set as" for a using that by simp
  moreover have "auth_lagging lag a" if "a \<in> set as" for a using assms(5) that by (simp add: list_all_iff)
  ultimately obtain qs b m' where qs: "map snd qs = filter (\<lambda>a. av_key a = key) (auth_admitted ?l as)"
    "auth_ledger limit window lag b qs m'"
    using auth_admitted_ledger [of limit window ?l as ?m lag key "[]"] assms(1,2,4) by auto
  have booked: "auth_booked window lag p" if "p \<in> set qs" for p using qs(2) that by (simp add: auth_ledger_def)
  note span = auth_ledger_span [OF qs(2) assms(2,3,1), unfolded qs(1)]
  have "int (length (filter (\<lambda>a. t \<le> av_read a \<and> av_read a < t + window) (filter (\<lambda>a. av_key a = key) (auth_admitted ?l as)))) \<le>
      (2 + (lag + window - 1) div window) * limit"
    by (rule span [of _ "t - window"]) (use booked in \<open>force simp: auth_booked_def auth_lagging_def\<close>)
  moreover have "int (length (filter (\<lambda>a. t \<le> av_lock a \<and> av_lock a < t + window) (filter (\<lambda>a. av_key a = key) (auth_admitted ?l as)))) \<le>
      (2 + (lag + window - 1) div window) * limit"
    by (rule span [of _ "t - window - lag"]) (use booked in \<open>force simp: auth_booked_def auth_lagging_def\<close>)
  ultimately show ?thesis by (simp add: Let_def)
qed

text \<open>
  A refusal names a wait of more than nothing and at most one window, changes no bucket,
  and the same client is admitted when it comes back after that wait; other clients are not
  affected by it.
\<close>

theorem auth_refusal_wait:
  assumes run: "auth_allow now key l = ((False, d), l')"
    and start: "\<And>b. lm_buckets l key = Some b \<Longrightarrow> bk_windowStart b \<le> now"
  shows "l' = l \<and> 0 < d \<and> d \<le> lm_window l \<and> fst (fst (auth_allow (now + d) key l')) \<and>
         1 \<le> auth_retrySeconds d \<and> d \<le> auth_retrySeconds d * second"
proof -
  have pos: "0 < lm_limit l" "0 < lm_window l" using run by (auto simp: auth_allow_def split: if_splits)
  obtain b where b: "lm_buckets l key = Some b" "now < bk_windowStart b + lm_window l" "lm_limit l \<le> bk_count b"
    using run pos by (auto simp: auth_allow_def Let_def split: option.splits if_splits)
  have l': "l' = l" "d = bk_windowStart b + lm_window l - now"
    using run pos b by (auto simp: auth_allow_def Let_def)
  have "fst (fst (auth_allow (now + d) key l))" using b(1) pos l'(2) by (simp add: auth_allow_def Let_def)
  moreover have "d \<le> (d + second - 1) div second * second"
    by (simp add: second_def)
  moreover have "(d + second - 1) div second * second \<le> auth_retrySeconds d * second"
    by (rule mult_right_mono) (simp_all add: auth_retrySeconds_def second_def)
  ultimately show ?thesis using b(2) start [OF b(1)] l' by (simp add: auth_retrySeconds_def)
qed

text \<open>
  With a token configured a mutation reaches the rate limiter exactly when its
  Authorization header is the scheme \<open>Bearer\<close>, in any case, and that token; otherwise it is
  answered 401 and no bucket changes.
\<close>

theorem auth_bearer_exact:
  assumes "trim_space token \<noteq> []"
  shows "(if \<exists>scheme. text_fields (trim_space (rq_Authorization rq)) = [scheme, trim_space token] \<and>
            to_lower scheme = ''bearer''
          then auth_MutationMiddleware token now rq l = auth_FixedWindowRateLimitMiddleware now rq l
          else auth_MutationMiddleware token now rq l = (AuthUnauthorized, l))"
proof -
  let ?fs = "text_fields (trim_space (rq_Authorization rq))"
  have words: "p \<noteq> []" if "p \<in> set ?fs" for p using text_fields_all_words [OF that] by (simp add: word_def)
  have eq: "auth_matchesBearerToken (rq_Authorization rq) (trim_space token) \<longleftrightarrow>
      (\<exists>scheme. ?fs = [scheme, trim_space token] \<and> to_lower scheme = ''bearer'')" (is "?m \<longleftrightarrow> ?e")
  proof
    show "?e \<Longrightarrow> ?m" using assms by (auto simp: auth_matchesBearerToken_def auth_bearerToken_def)
    show "?m \<Longrightarrow> ?e"
      by (auto simp: auth_matchesBearerToken_def auth_bearerToken_def Let_def split: list.splits if_splits)
  qed
  show ?thesis
    using assms eq by (simp add: auth_MutationMiddleware_def auth_StaticBearerMiddleware_def)
qed

text \<open>
  Access to a project is granted exactly when the caller has no identity (neither scopes
  nor an actor), or the project is in scope: among the header's project IDs if it lists any,
  else among the configured defaults.
\<close>

theorem auth_scope_exact:
  assumes "0 < p"
  shows "auth_RequireProjectAccess (auth_IdentityMiddleware defaults rq None) p = Inr () \<longleftrightarrow>
     (if \<exists>q. auth_listed (rq_ProjectScopes rq) q then auth_listed (rq_ProjectScopes rq) p
      else p \<in> set defaults \<or> ((\<forall>q \<in> set defaults. q \<le> 0) \<and> trim_space (rq_Actor rq) = []))"
proof -
  let ?h = "auth_parseProjectIDsHeader (rq_ProjectScopes rq)"
  have h: "?h \<noteq> [] \<longleftrightarrow> (\<exists>q. auth_listed (rq_ProjectScopes rq) q)" "p \<in> set ?h \<longleftrightarrow> auth_listed (rq_ProjectScopes rq) p"
    using auth_header_set [of "rq_ProjectScopes rq"] by (force simp flip: set_empty, simp)
  let ?d = "auth_normalizeProjectIDs defaults"
  have d: "?d = [] \<longleftrightarrow> (\<forall>q \<in> set defaults. q \<le> 0)" "p \<in> set ?d \<longleftrightarrow> p \<in> set defaults"
    using auth_normalize_facts(1) [of defaults] assms by (force simp flip: set_empty, simp)
  have in_ctx: "auth_RequireProjectAccess (auth_WithIdentity None (auth_NewIdentity a ps)) p = Inr () \<longleftrightarrow> p \<in> set ps" for a ps
    using assms by (simp add: auth_RequireProjectAccess_def auth_WithIdentity_def auth_NewIdentity_def
        auth_AllowsProject_def auth_normalize_facts)
  show ?thesis
  proof (cases "?h = []")
    case False
    then show ?thesis using h in_ctx by (simp add: auth_IdentityMiddleware_def Let_def)
  next
    case True
    show ?thesis
    proof (cases "?d = [] \<and> trim_space (rq_Actor rq) = []")
      case none: True
      with True h(1) d(1) show ?thesis
        by (simp add: auth_IdentityMiddleware_def Let_def) (simp add: auth_RequireProjectAccess_def)
    next
      case some: False
      then have "auth_IdentityMiddleware defaults rq None = auth_WithIdentity None (auth_NewIdentity (trim_space (rq_Actor rq)) ?d)"
        using True by (auto simp: auth_IdentityMiddleware_def Let_def)
      with in_ctx d(2) have "auth_RequireProjectAccess (auth_IdentityMiddleware defaults rq None) p = Inr () \<longleftrightarrow> p \<in> set defaults"
        by simp
      with True some h(1) d(1) show ?thesis by (simp only: if_split) blast
    qed
  qed
qed

text \<open>
  Naming an actor takes access away: without scopes a request with no \<open>X-Actor\<close> may touch
  every project, and the same request with one may touch none.
\<close>

theorem auth_actor_locks_out:
  assumes "trim_space (rq_ProjectScopes rq) = []" and "0 < p" and "trim_space actor \<noteq> []"
  shows "auth_RequireProjectAccess (auth_IdentityMiddleware [] (rq\<lparr>rq_Actor := []\<rparr>) None) p = Inr () \<and>
         auth_RequireProjectAccess (auth_IdentityMiddleware [] (rq\<lparr>rq_Actor := actor\<rparr>) None) p = Inl (AuthForbidden p)"
  using assms
  by (simp add: auth_IdentityMiddleware_def auth_parseProjectIDsHeader_def auth_normalizeProjectIDs_def
      auth_RequireProjectAccess_def auth_WithIdentity_def auth_NewIdentity_def auth_AllowsProject_def)

subsection \<open>Witnesses\<close>

definition auth_sample :: auth_Request where
  "auth_sample = \<lparr>rq_Authorization = ''bearer tok'', rq_ForwardedFor = [], rq_RealIp = [], rq_RemoteAddr = ''10.0.0.1:80'',
     rq_Actor = [], rq_ProjectScopes = []\<rparr>"

text \<open>
  Calls that read the clock at 18 and hold the mutex after 20 are counted in a window that starts at 20: with a limit of 3 and a
  window of 10, seven calls with readings from 9 to 18 are admitted, one more than twice the limit.
\<close>

definition auth_late :: "auth_arrival list" where
  "auth_late = map (\<lambda>(x, y). \<lparr>av_key = ''k'', av_read = x, av_lock = y\<rparr>)
     [(0, 0), (9, 9), (9, 9), (10, 10), (10, 10), (10, 10), (20, 20), (18, 20), (18, 20)]"

lemma auth_late_admitted: "auth_admitted (auth_newFixedWindowLimiter 3 10) auth_late = auth_late"
  by (simp add: auth_late_def auth_newFixedWindowLimiter_def auth_allow_def)

theorem auth_window_bound_witness:
  "length (filter (\<lambda>a. 9 \<le> av_read a \<and> av_read a < 9 + 10) auth_late) = 7 \<and>
   int (length (filter (\<lambda>a. 9 \<le> av_read a \<and> av_read a < 9 + 10) auth_late)) \<le> 3 * 3"
proof -
  have "list_all (auth_lagging 2) auth_late" "sorted (map av_lock auth_late)" by (simp_all add: auth_late_def auth_lagging_def)
  moreover have "filter (\<lambda>a. av_key a = ''k'') auth_late = auth_late" by (simp add: auth_late_def)
  ultimately have "int (length (filter (\<lambda>a. 9 \<le> av_read a \<and> av_read a < 9 + 10) auth_late)) \<le> 3 * 3"
    using auth_window_bound [of 3 10 2 auth_late "''k''" 9] by (simp add: auth_late_admitted Let_def)
  then show ?thesis by (simp add: auth_late_def)
qed

theorem auth_refusal_wait_witness:
  "\<exists>d l'. auth_allow 7 ''k'' (snd (auth_allow 5 ''k'' (auth_newFixedWindowLimiter 1 60))) = ((False, d), l') \<and> 0 < d \<and> d \<le> 60"
proof -
  let ?l = "snd (auth_allow 5 ''k'' (auth_newFixedWindowLimiter 1 60))"
  have l: "lm_buckets ?l ''k'' = Some \<lparr>bk_windowStart = 5, bk_count = 1\<rparr>" "lm_window ?l = 60" "lm_limit ?l = 1"
    by (simp_all add: auth_allow_def auth_newFixedWindowLimiter_def)
  have run: "auth_allow 7 ''k'' ?l = ((False, 58), ?l)"
    using l by (subst auth_allow_def) simp
  have "0 < (58 :: int) \<and> (58 :: int) \<le> lm_window ?l" using auth_refusal_wait [OF run] l(1) by simp
  with run show ?thesis unfolding l by blast
qed

theorem auth_bearer_exact_witness:
  "auth_MutationMiddleware ''tok'' 5 (auth_sample\<lparr>rq_Authorization := ''tok''\<rparr>) (auth_newFixedWindowLimiter 5 60) =
     (AuthUnauthorized, auth_newFixedWindowLimiter 5 60)"
proof -
  have t: "trim_space ''tok'' = ''tok''" by (simp add: trimmed_trim_space_id norm_lit_simps)
  have "text_fields ''tok'' = [''tok'']" by (rule text_fields_word) (simp add: word_def is_space_def)
  then show ?thesis using auth_bearer_exact [of "''tok''" "auth_sample\<lparr>rq_Authorization := ''tok''\<rparr>" 5 "auth_newFixedWindowLimiter 5 60"]
    by (simp add: t)
qed

theorem auth_scope_exact_witness:
  "auth_RequireProjectAccess (auth_IdentityMiddleware [3] auth_sample None) 3 = Inr ()"
proof -
  have "\<not> auth_listed [] q" for q by (simp add: auth_listed_def parse_int64_def)
  then show ?thesis using auth_scope_exact [of 3 "[3]" auth_sample] by (simp add: auth_sample_def)
qed

theorem auth_actor_locks_out_witness:
  "auth_RequireProjectAccess (auth_IdentityMiddleware [] (auth_sample\<lparr>rq_Actor := ''bob''\<rparr>) None) 1 = Inl (AuthForbidden 1)"
proof -
  have "trim_space ''bob'' \<noteq> []" by (simp add: trimmed_trim_space_id norm_lit_simps)
  then show ?thesis using auth_actor_locks_out [of auth_sample 1 "''bob''"] by (simp add: auth_sample_def)
qed

end
