(* ===== verification/Review.thy ===== *)
theory Review
  imports Http Job_Service
begin

section \<open>Review: candidates and their decisions\<close>

text \<open>
  \<open>internal/review\<close>: the in-memory repository, the service and the handlers, and the adapter of
  \<open>cmd/api-server\<close> through which the job service stores candidates. A loop over the candidate map
  takes the visiting order \<open>ks\<close>.
\<close>

definition rev_StatusQueuedForReview :: string where
  "rev_StatusQueuedForReview = ''queued_for_review''"

definition rev_legacyStatusPending :: string where
  "rev_legacyStatusPending = ''pending''"

definition rev_accepted :: string where
  "rev_accepted = ''accepted''"

definition rev_rejected :: string where
  "rev_rejected = ''rejected''"

lemmas rev_status_defs [status_defs] =
  rev_StatusQueuedForReview_def rev_legacyStatusPending_def rev_accepted_def rev_rejected_def

lemma rev_status_distinct [simp]:
  "rev_StatusQueuedForReview \<noteq> rev_accepted" "rev_accepted \<noteq> rev_StatusQueuedForReview"
  "rev_StatusQueuedForReview \<noteq> rev_rejected" "rev_rejected \<noteq> rev_StatusQueuedForReview"
  "rev_accepted \<noteq> rev_rejected" "rev_rejected \<noteq> rev_accepted"
  "rev_accepted \<noteq> rev_legacyStatusPending" "rev_rejected \<noteq> rev_legacyStatusPending"
  "rev_StatusQueuedForReview \<noteq> rev_legacyStatusPending"
  "rev_StatusQueuedForReview \<noteq> []" "rev_accepted \<noteq> []" "rev_rejected \<noteq> []" "rev_legacyStatusPending \<noteq> []"
  by (simp_all add: rev_status_defs)

record rev_CandidateSource =
  cs_JobID :: "int option"
  cs_Confidence :: "real option"
  cs_ModelName :: string
  cs_IsPseudo :: bool
  cs_CreatedAt :: "time option"

record rev_CandidateBBox =
  bb_X :: real
  bb_Y :: real
  bb_W :: real
  bb_H :: real

record rev_PersistCandidateInput =
  pc_DatasetID :: int
  pc_SnapshotID :: int
  pc_ItemID :: int
  pc_ObjectKey :: string
  pc_CategoryID :: int
  pc_CategoryName :: string
  pc_BBox :: rev_CandidateBBox
  pc_Confidence :: "real option"
  pc_ModelName :: string
  pc_IsPseudo :: bool

record rev_Candidate =
  cd_ID :: int
  cd_ProjectID :: int
  cd_DatasetID :: int
  cd_SnapshotID :: int
  cd_ItemID :: int
  cd_ObjectKey :: string
  cd_CategoryID :: int
  cd_BBox :: rev_CandidateBBox
  cd_Status :: string
  cd_ReviewStatus :: string
  cd_ReviewerID :: string
  cd_ReviewedAt :: time
  cd_Source :: rev_CandidateSource

record rev_Annotation =
  ra_CandidateID :: int
  ra_ReviewerID :: string
  ra_CreatedAt :: time

record rev_AuditEvent =
  ae_Actor :: string
  ae_Action :: string
  ae_ResourceType :: string
  ae_ResourceID :: string
  ae_Detail :: obj
  ae_TS :: time

record rev_PublishableCandidate =
  pu_ID :: int
  pu_ProjectID :: int
  pu_DatasetID :: int
  pu_SnapshotID :: int
  pu_ItemID :: int
  pu_TaskID :: int
  pu_ReviewStatus :: string
  pu_RiskLevel :: string
  pu_SourceModel :: string
  pu_AcceptedAt :: time
  pu_Summary :: obj

datatype rev_error =
    RevCandidateNotFound int
  | RevCandidateIs string
  | RevReasonRequired
  | RevJobIDRequired
  | RevCandidatesRequired
  | RevIDsRequired
  | RevCategoryRequired
  | RevBBoxNotPositive

subsection \<open>Statuses\<close>

definition rev_normalizeCandidateStatus :: "string \<Rightarrow> string" where
  "rev_normalizeCandidateStatus st = (if st = [] \<or> st = rev_legacyStatusPending then rev_StatusQueuedForReview else st)"

definition rev_isQueued :: "string \<Rightarrow> bool" where
  "rev_isQueued st \<longleftrightarrow> rev_normalizeCandidateStatus st = rev_StatusQueuedForReview"

definition rev_normalizeCandidate :: "rev_Candidate \<Rightarrow> rev_Candidate" where
  "rev_normalizeCandidate c =
     (let st = (if cd_Status c = [] then cd_ReviewStatus c else cd_Status c); st' = rev_normalizeCandidateStatus st
      in c\<lparr>cd_Status := st', cd_ReviewStatus := st'\<rparr>)"

subsection \<open>The repository\<close>

record rev_Repo =
  rr_nextID :: int
  rr_candidates :: "int \<rightharpoonup> rev_Candidate"
  rr_annotations :: "rev_Annotation list"
  rr_audits :: "rev_AuditEvent list"

definition rev_NewInMemoryRepository :: rev_Repo where
  "rev_NewInMemoryRepository = \<lparr>rr_nextID = 1, rr_candidates = Map.empty, rr_annotations = [], rr_audits = []\<rparr>"

definition rev_SeedCandidate :: "rev_Candidate \<Rightarrow> rev_Repo \<Rightarrow> rev_Repo" where
  "rev_SeedCandidate c r =
     (let st0 = (if cd_Status c = [] then cd_ReviewStatus c else cd_Status c);
          st = rev_normalizeCandidateStatus (if st0 = [] then rev_StatusQueuedForReview else st0)
      in r\<lparr>rr_candidates := (rr_candidates r)(cd_ID c \<mapsto>
             rev_normalizeCandidate (c\<lparr>cd_Status := st, cd_ReviewStatus := st\<rparr>))\<rparr>)"

definition rev_shown_status :: "rev_Candidate \<Rightarrow> string" where
  "rev_shown_status c = (if cd_Status c = [] then cd_ReviewStatus c else cd_Status c)"

definition rev_repo_ListPending :: "int list \<Rightarrow> rev_Repo \<Rightarrow> rev_Candidate list" where
  "rev_repo_ListPending ks r =
     map rev_normalizeCandidate
       (filter (\<lambda>c. rev_isQueued (rev_shown_status c)) (map (\<lambda>k. the (rr_candidates r k)) ks))"

text \<open>\<open>Accept\<close> and \<open>Reject\<close> share the lookup and the guard.\<close>

definition rev_decide ::
  "int \<Rightarrow> rev_Repo \<Rightarrow> (rev_Candidate \<Rightarrow> rev_Repo) \<Rightarrow> (rev_error, unit, rev_Repo) outcome" where
  "rev_decide cid r write =
     (case rr_candidates r cid of
        None \<Rightarrow> (Inl (RevCandidateNotFound cid), r)
      | Some c \<Rightarrow>
          if \<not> rev_isQueued (cd_Status c) \<and> \<not> rev_isQueued (cd_ReviewStatus c)
          then (Inl (RevCandidateIs (rev_normalizeCandidateStatus (rev_shown_status c))), r)
          else (Inr (), write c))"

definition rev_repo_Accept :: "time \<Rightarrow> int \<Rightarrow> string \<Rightarrow> rev_Repo \<Rightarrow> (rev_error, unit, rev_Repo) outcome" where
  "rev_repo_Accept now cid reviewer r =
     rev_decide cid r (\<lambda>c.
       r\<lparr>rr_candidates := (rr_candidates r)(cid \<mapsto> rev_normalizeCandidate
           (c\<lparr>cd_Status := rev_accepted, cd_ReviewStatus := rev_accepted, cd_ReviewerID := reviewer, cd_ReviewedAt := now\<rparr>)),
         rr_annotations := rr_annotations r @ [\<lparr>ra_CandidateID = cid, ra_ReviewerID = reviewer, ra_CreatedAt = now\<rparr>],
         rr_audits := rr_audits r @ [\<lparr>ae_Actor = reviewer, ae_Action = ''review.accept'',
           ae_ResourceType = ''annotation_candidate'', ae_ResourceID = show_int cid, ae_Detail = [], ae_TS = now\<rparr>]\<rparr>)"

definition rev_repo_Reject ::
  "time \<Rightarrow> int \<Rightarrow> string \<Rightarrow> string \<Rightarrow> rev_Repo \<Rightarrow> (rev_error, unit, rev_Repo) outcome" where
  "rev_repo_Reject now cid reviewer reason r =
     rev_decide cid r (\<lambda>c.
       r\<lparr>rr_candidates := (rr_candidates r)(cid \<mapsto> rev_normalizeCandidate
           (c\<lparr>cd_Status := rev_rejected, cd_ReviewStatus := rev_rejected, cd_ReviewerID := reviewer, cd_ReviewedAt := now\<rparr>)),
         rr_audits := rr_audits r @ [\<lparr>ae_Actor = reviewer, ae_Action = ''review.reject'',
           ae_ResourceType = ''annotation_candidate'', ae_ResourceID = show_int cid,
           ae_Detail = [(''reason_code'', GStr reason)], ae_TS = now\<rparr>]\<rparr>)"

definition rev_ListPublishableCandidates :: "int list \<Rightarrow> int \<Rightarrow> rev_Repo \<Rightarrow> rev_PublishableCandidate list" where
  "rev_ListPublishableCandidates ks projectID r =
     map (\<lambda>c0. let c = rev_normalizeCandidate c0 in
            \<lparr>pu_ID = cd_ID c, pu_ProjectID = projectID, pu_DatasetID = cd_DatasetID c, pu_SnapshotID = cd_SnapshotID c,
             pu_ItemID = cd_ItemID c, pu_TaskID = 0, pu_ReviewStatus = cd_ReviewStatus c, pu_RiskLevel = ''normal'',
             pu_SourceModel = [], pu_AcceptedAt = cd_ReviewedAt c, pu_Summary = []\<rparr>)
       (filter (\<lambda>c. \<not> (rev_normalizeCandidateStatus (cd_ReviewStatus c) \<noteq> rev_accepted \<and>
                        rev_normalizeCandidateStatus (cd_Status c) \<noteq> rev_accepted))
          (map (\<lambda>k. the (rr_candidates r k)) ks))"

definition rev_newCandidate :: "time \<Rightarrow> int \<Rightarrow> int \<Rightarrow> rev_PersistCandidateInput \<Rightarrow> rev_Candidate" where
  "rev_newCandidate now jobID cid x =
     rev_normalizeCandidate
       \<lparr>cd_ID = cid, cd_ProjectID = 0, cd_DatasetID = pc_DatasetID x, cd_SnapshotID = pc_SnapshotID x,
        cd_ItemID = pc_ItemID x, cd_ObjectKey = pc_ObjectKey x, cd_CategoryID = pc_CategoryID x, cd_BBox = pc_BBox x,
        cd_Status = rev_StatusQueuedForReview, cd_ReviewStatus = rev_StatusQueuedForReview,
        cd_ReviewerID = [], cd_ReviewedAt = zero_time,
        cd_Source = \<lparr>cs_JobID = Some jobID, cs_Confidence = pc_Confidence x, cs_ModelName = pc_ModelName x,
                     cs_IsPseudo = True, cs_CreatedAt = Some now\<rparr>\<rparr>"

fun rev_repo_PersistCandidates ::
  "time \<Rightarrow> int \<Rightarrow> rev_PersistCandidateInput list \<Rightarrow> rev_Repo \<Rightarrow> rev_Candidate list \<times> rev_Repo" where
  "rev_repo_PersistCandidates now jobID [] r = ([], r)"
| "rev_repo_PersistCandidates now jobID (x # xs) r =
     (let c = rev_newCandidate now jobID (rr_nextID r) x;
          (cs, r') = rev_repo_PersistCandidates now jobID xs
             (r\<lparr>rr_nextID := rr_nextID r + 1, rr_candidates := (rr_candidates r)(cd_ID c \<mapsto> c)\<rparr>)
      in (c # cs, r'))"

definition rev_AnnotationCount :: "rev_Repo \<Rightarrow> int" where
  "rev_AnnotationCount r = int (length (rr_annotations r))"

text \<open>\<open>GetCandidate\<close>: \<open>None\<close> is the \<open>false\<close> of the pair.\<close>

definition rev_repo_GetCandidate :: "int \<Rightarrow> rev_Repo \<Rightarrow> rev_Candidate option" where
  "rev_repo_GetCandidate cid r = map_option rev_normalizeCandidate (rr_candidates r cid)"

subsection \<open>The service\<close>

definition rev_ListCandidates :: "int list \<Rightarrow> rev_Repo \<Rightarrow> rev_Candidate list" where
  "rev_ListCandidates ks r = map rev_normalizeCandidate (rev_repo_ListPending ks r)"

definition rev_AcceptCandidate :: "time \<Rightarrow> int \<Rightarrow> string \<Rightarrow> rev_Repo \<Rightarrow> (rev_error, unit, rev_Repo) outcome" where
  "rev_AcceptCandidate = rev_repo_Accept"

definition rev_RejectCandidate ::
  "time \<Rightarrow> int \<Rightarrow> string \<Rightarrow> string \<Rightarrow> rev_Repo \<Rightarrow> (rev_error, unit, rev_Repo) outcome" where
  "rev_RejectCandidate now cid reviewer reason r =
     (let reason' = trim_space reason in
      if reason' = [] then (Inl RevReasonRequired, r) else rev_repo_Reject now cid reviewer reason' r)"

definition rev_checkItem :: "rev_PersistCandidateInput \<Rightarrow> rev_error + rev_PersistCandidateInput" where
  "rev_checkItem x =
     (if pc_DatasetID x \<le> 0 \<or> pc_SnapshotID x \<le> 0 \<or> pc_ItemID x \<le> 0 then Inl RevIDsRequired
      else if pc_CategoryID x \<le> 0 \<and> trim_space (pc_CategoryName x) = [] then Inl RevCategoryRequired
      else if bb_W (pc_BBox x) \<le> 0 \<or> bb_H (pc_BBox x) \<le> 0 then Inl RevBBoxNotPositive
      else Inr (x\<lparr>pc_CategoryName := trim_space (pc_CategoryName x), pc_ModelName := trim_space (pc_ModelName x),
                  pc_IsPseudo := True\<rparr>))"

fun rev_checkItems :: "rev_PersistCandidateInput list \<Rightarrow> rev_error + rev_PersistCandidateInput list" where
  "rev_checkItems [] = Inr []"
| "rev_checkItems (x # xs) =
     (case rev_checkItem x of
        Inl e \<Rightarrow> Inl e
      | Inr y \<Rightarrow> (case rev_checkItems xs of Inl e \<Rightarrow> Inl e | Inr ys \<Rightarrow> Inr (y # ys)))"

definition rev_PersistCandidates ::
  "time \<Rightarrow> int \<Rightarrow> rev_PersistCandidateInput list \<Rightarrow> rev_Repo \<Rightarrow> (rev_error, rev_Candidate list, rev_Repo) outcome" where
  "rev_PersistCandidates now jobID items r =
     (if jobID \<le> 0 then (Inl RevJobIDRequired, r)
      else if items = [] then (Inl RevCandidatesRequired, r)
      else case rev_checkItems items of
             Inl e \<Rightarrow> (Inl e, r)
           | Inr xs \<Rightarrow> (let (cs, r') = rev_repo_PersistCandidates now jobID xs r in (Inr cs, r')))"

definition rev_GetCandidate :: "int \<Rightarrow> rev_Repo \<Rightarrow> rev_Candidate option" where
  "rev_GetCandidate cid r = map_option rev_normalizeCandidate (rev_repo_GetCandidate cid r)"

subsection \<open>The handlers\<close>

record rev_ActionRequest =
  ar_ReviewerID :: string
  ar_ReasonCode :: string

definition rev_HandleListCandidates :: "int list \<Rightarrow> auth_context \<Rightarrow> rev_Repo \<Rightarrow> (rev_error http_error, rev_Candidate list) reply" where
  "rev_HandleListCandidates ks ctx r =
     (let items = rev_ListCandidates ks r in
      Reply StatusOK
        (case ctx of
           None \<Rightarrow> items
         | Some i \<Rightarrow> if id_ProjectIDs i \<noteq> [] then filter (\<lambda>c. auth_AllowsProject i (cd_ProjectID c)) items else items))"

text \<open>The part \<open>AcceptCandidate\<close> and \<open>RejectCandidate\<close> share: parse, decode, check the scope.\<close>

definition rev_handle_action ::
  "auth_context \<Rightarrow> string \<Rightarrow> string + rev_ActionRequest \<Rightarrow> rev_Repo \<Rightarrow>
     (int \<Rightarrow> rev_ActionRequest \<Rightarrow> (rev_error, unit, rev_Repo) outcome) \<Rightarrow>
     (rev_error http_error, unit) reply \<times> rev_Repo" where
  "rev_handle_action ctx rawID body r act =
     (case path_int64 rawID of
        Inl e \<Rightarrow> (ReplyError StatusBadRequest e, r)
      | Inr cid \<Rightarrow>
          (case body of
             Inl e \<Rightarrow> (ReplyError StatusBadRequest (HttpDecode e), r)
           | Inr inp0 \<Rightarrow>
               let inp = (if ar_ReviewerID inp0 = [] then inp0\<lparr>ar_ReviewerID := ''system''\<rparr> else inp0);
                   denied = (case rev_GetCandidate cid r of
                               None \<Rightarrow> False
                             | Some c \<Rightarrow> auth_RequireProjectAccess ctx (cd_ProjectID c) \<noteq> Inr ())
               in if denied
                  then (ReplyError StatusForbidden
                          (HttpForbidden (case rev_GetCandidate cid r of None \<Rightarrow> 0 | Some c \<Rightarrow> cd_ProjectID c)), r)
                  else (case act cid inp of
                          (Inl e, r') \<Rightarrow> (ReplyError StatusBadRequest (HttpService e), r')
                        | (Inr _, r') \<Rightarrow> (Reply StatusOK (), r'))))"

definition rev_HandleAccept ::
  "time \<Rightarrow> auth_context \<Rightarrow> string \<Rightarrow> string + rev_ActionRequest \<Rightarrow> rev_Repo \<Rightarrow> (rev_error http_error, unit) reply \<times> rev_Repo" where
  "rev_HandleAccept now ctx rawID body r =
     rev_handle_action ctx rawID body r (\<lambda>cid inp. rev_AcceptCandidate now cid (ar_ReviewerID inp) r)"

definition rev_HandleReject ::
  "time \<Rightarrow> auth_context \<Rightarrow> string \<Rightarrow> string + rev_ActionRequest \<Rightarrow> rev_Repo \<Rightarrow> (rev_error http_error, unit) reply \<times> rev_Repo" where
  "rev_HandleReject now ctx rawID body r =
     rev_handle_action ctx rawID body r
       (\<lambda>cid inp. rev_RejectCandidate now cid (ar_ReviewerID inp) (ar_ReasonCode inp) r)"

subsection \<open>The sink of the job service\<close>

definition rev_error_text :: "rev_error \<Rightarrow> string" where
  "rev_error_text e =
     (case e of
        RevCandidateNotFound i \<Rightarrow> ''candidate '' @ show_int i @ '' not found''
      | RevCandidateIs st \<Rightarrow> ''candidate is '' @ st
      | RevReasonRequired \<Rightarrow> ''reason_code is required''
      | RevJobIDRequired \<Rightarrow> ''job_id is required''
      | RevCandidatesRequired \<Rightarrow> ''at least one candidate is required''
      | RevIDsRequired \<Rightarrow> ''dataset_id, snapshot_id, and item_id are required''
      | RevCategoryRequired \<Rightarrow> ''category_id or category_name is required''
      | RevBBoxNotPositive \<Rightarrow> ''bbox.w and bbox.h must be > 0'')"

definition rev_sinkInput :: "jobs_ReviewCandidateInput \<Rightarrow> rev_PersistCandidateInput" where
  "rev_sinkInput c =
     \<lparr>pc_DatasetID = rc_DatasetID c, pc_SnapshotID = rc_SnapshotID c, pc_ItemID = rc_ItemID c,
      pc_ObjectKey = rc_ObjectKey c, pc_CategoryID = rc_CategoryID c, pc_CategoryName = rc_CategoryName c,
      pc_BBox = (case rc_BBox c of (x, y, w, h) \<Rightarrow> \<lparr>bb_X = x, bb_Y = y, bb_W = w, bb_H = h\<rparr>),
      pc_Confidence = rc_Confidence c, pc_ModelName = rc_ModelName c, pc_IsPseudo = rc_IsPseudo c\<rparr>"

definition rev_sink :: "time \<Rightarrow> rev_Repo jobs_persist" where
  "rev_sink now jobID items r =
     (case rev_PersistCandidates now jobID (map rev_sinkInput items) r of
        (Inl e, r') \<Rightarrow> (Inl (rev_error_text e), r')
      | (Inr cs, r') \<Rightarrow> (Inr (map cd_ID cs), r'))"

end
