(* ===== verification/Review_Facts.thy ===== *)
theory Review_Facts
  imports Review Job_Sweeper_Facts "HOL-Library.Sublist"
begin

section \<open>Review: what the candidate store guarantees\<close>

text \<open>
  The invariant of the store over histories of persisting and deciding candidates, the exact
  effect of a decision, and the job service as a client of the store through \<open>review_sink\<close>.
\<close>

subsection \<open>The invariant\<close>

definition rev_decided :: "string \<Rightarrow> bool" where
  "rev_decided st \<longleftrightarrow> st = rev_accepted \<or> st = rev_rejected"

definition rev_cand_ok :: "int \<Rightarrow> int \<Rightarrow> rev_Candidate \<Rightarrow> bool" where
  "rev_cand_ok n cid c \<longleftrightarrow>
     cd_ID c = cid \<and> 1 \<le> cid \<and> cid < n \<and> cd_ReviewStatus c = cd_Status c \<and> cd_ProjectID c = 0 \<and>
     (cd_Status c = rev_StatusQueuedForReview \<or> rev_decided (cd_Status c))"

definition rev_in_status :: "string \<Rightarrow> rev_Repo \<Rightarrow> int set" where
  "rev_in_status st r = {cid. \<exists>c. rr_candidates r cid = Some c \<and> cd_Status c = st}"

definition rev_inv :: "rev_Repo \<Rightarrow> bool" where
  "rev_inv r \<longleftrightarrow>
     1 \<le> rr_nextID r \<and> (\<forall>cid c. rr_candidates r cid = Some c \<longrightarrow> rev_cand_ok (rr_nextID r) cid c) \<and>
     distinct (map ra_CandidateID (rr_annotations r)) \<and>
     set (map ra_CandidateID (rr_annotations r)) = rev_in_status rev_accepted r \<and>
     distinct (map ae_ResourceID (rr_audits r)) \<and>
     set (map (\<lambda>e. (ae_Action e, ae_ResourceID e)) (rr_audits r)) =
       (\<lambda>cid. (''review.accept'', show_int cid)) ` rev_in_status rev_accepted r \<union>
       (\<lambda>cid. (''review.reject'', show_int cid)) ` rev_in_status rev_rejected r"

lemma rev_invD:
  assumes "rev_inv r"
  shows "1 \<le> rr_nextID r" and "rr_candidates r cid = Some c \<Longrightarrow> rev_cand_ok (rr_nextID r) cid c"
    and "distinct (map ra_CandidateID (rr_annotations r))"
    and "set (map ra_CandidateID (rr_annotations r)) = rev_in_status rev_accepted r"
    and "distinct (map ae_ResourceID (rr_audits r))"
    and "set (map (\<lambda>e. (ae_Action e, ae_ResourceID e)) (rr_audits r)) =
       (\<lambda>cid. (''review.accept'', show_int cid)) ` rev_in_status rev_accepted r \<union>
       (\<lambda>cid. (''review.reject'', show_int cid)) ` rev_in_status rev_rejected r"
proof -
  note inv = assms[unfolded rev_inv_def]
  show "1 \<le> rr_nextID r" by (rule conjunct1 [OF inv])
  show "rr_candidates r cid = Some c \<Longrightarrow> rev_cand_ok (rr_nextID r) cid c" using conjunct1 [OF conjunct2 [OF inv]] by blast
  note inv = conjunct2 [OF conjunct2 [OF inv]]
  show "distinct (map ra_CandidateID (rr_annotations r))" by (rule conjunct1 [OF inv])
  note inv = conjunct2 [OF inv]
  show "set (map ra_CandidateID (rr_annotations r)) = rev_in_status rev_accepted r" by (rule conjunct1 [OF inv])
  note inv = conjunct2 [OF inv]
  show "distinct (map ae_ResourceID (rr_audits r))" by (rule conjunct1 [OF inv])
  show "set (map (\<lambda>e. (ae_Action e, ae_ResourceID e)) (rr_audits r)) =
       (\<lambda>cid. (''review.accept'', show_int cid)) ` rev_in_status rev_accepted r \<union>
       (\<lambda>cid. (''review.reject'', show_int cid)) ` rev_in_status rev_rejected r"
    by (rule conjunct2 [OF inv])
qed

lemma rev_empty_inv: "rev_inv rev_NewInMemoryRepository"
  by (simp add: rev_inv_def rev_NewInMemoryRepository_def rev_in_status_def)

lemma rev_normal [simp]:
  "rev_normalizeCandidateStatus rev_accepted = rev_accepted" "rev_normalizeCandidateStatus rev_rejected = rev_rejected"
  "rev_normalizeCandidateStatus rev_StatusQueuedForReview = rev_StatusQueuedForReview"
  by (simp_all add: rev_normalizeCandidateStatus_def)

lemma rev_queued_simps [simp]:
  "rev_isQueued rev_StatusQueuedForReview" "\<not> rev_isQueued rev_accepted" "\<not> rev_isQueued rev_rejected"
  by (simp_all add: rev_isQueued_def)

lemma rev_ok_normal:
  assumes "rev_cand_ok n cid c"
  shows "rev_normalizeCandidate c = c" "rev_shown_status c = cd_Status c" "cd_Status c \<noteq> []"
    and "rev_isQueued (cd_Status c) \<longleftrightarrow> cd_Status c = rev_StatusQueuedForReview"
proof -
  have st: "cd_Status c \<in> {rev_StatusQueuedForReview, rev_accepted, rev_rejected}" "cd_ReviewStatus c = cd_Status c"
    using assms by (auto simp: rev_cand_ok_def rev_decided_def)
  then show "cd_Status c \<noteq> []" and "rev_isQueued (cd_Status c) \<longleftrightarrow> cd_Status c = rev_StatusQueuedForReview" by auto
  then show "rev_shown_status c = cd_Status c" by (simp add: rev_shown_status_def)
  have "rev_normalizeCandidateStatus (cd_Status c) = cd_Status c" using st(1) by auto
  with st \<open>cd_Status c \<noteq> []\<close> show "rev_normalizeCandidate c = c"
    by (cases c) (simp add: rev_normalizeCandidate_def)
qed

subsection \<open>Decisions\<close>

definition rev_closed :: "string \<Rightarrow> time \<Rightarrow> string \<Rightarrow> rev_Candidate \<Rightarrow> rev_Candidate" where
  "rev_closed st now reviewer c =
     c\<lparr>cd_Status := st, cd_ReviewStatus := st, cd_ReviewerID := reviewer, cd_ReviewedAt := now\<rparr>"

definition rev_accepted_repo :: "time \<Rightarrow> int \<Rightarrow> string \<Rightarrow> rev_Candidate \<Rightarrow> rev_Repo \<Rightarrow> rev_Repo" where
  "rev_accepted_repo now cid reviewer c r =
     r\<lparr>rr_candidates := (rr_candidates r)(cid \<mapsto> rev_closed rev_accepted now reviewer c),
       rr_annotations := rr_annotations r @ [\<lparr>ra_CandidateID = cid, ra_ReviewerID = reviewer, ra_CreatedAt = now\<rparr>],
       rr_audits := rr_audits r @ [\<lparr>ae_Actor = reviewer, ae_Action = ''review.accept'',
         ae_ResourceType = ''annotation_candidate'', ae_ResourceID = show_int cid, ae_Detail = [], ae_TS = now\<rparr>]\<rparr>"

definition rev_rejected_repo :: "time \<Rightarrow> int \<Rightarrow> string \<Rightarrow> string \<Rightarrow> rev_Candidate \<Rightarrow> rev_Repo \<Rightarrow> rev_Repo" where
  "rev_rejected_repo now cid reviewer reason c r =
     r\<lparr>rr_candidates := (rr_candidates r)(cid \<mapsto> rev_closed rev_rejected now reviewer c),
       rr_audits := rr_audits r @ [\<lparr>ae_Actor = reviewer, ae_Action = ''review.reject'',
         ae_ResourceType = ''annotation_candidate'', ae_ResourceID = show_int cid,
         ae_Detail = [(''reason_code'', GStr reason)], ae_TS = now\<rparr>]\<rparr>"

lemma rev_closed_normal:
  "st = rev_accepted \<or> st = rev_rejected \<Longrightarrow> rev_normalizeCandidate (rev_closed st now reviewer c) = rev_closed st now reviewer c"
  by (auto simp: rev_normalizeCandidate_def rev_closed_def)

text \<open>A decision on every branch.\<close>

lemma rev_decision_spec:
  assumes "rev_inv r"
  shows "rev_AcceptCandidate now cid reviewer r =
      (case rr_candidates r cid of
         None \<Rightarrow> (Inl (RevCandidateNotFound cid), r)
       | Some c \<Rightarrow> if cd_Status c = rev_StatusQueuedForReview then (Inr (), rev_accepted_repo now cid reviewer c r)
                   else (Inl (RevCandidateIs (cd_Status c)), r))"
    and "rev_RejectCandidate now cid reviewer reason r =
      (if trim_space reason = [] then (Inl RevReasonRequired, r)
       else case rr_candidates r cid of
         None \<Rightarrow> (Inl (RevCandidateNotFound cid), r)
       | Some c \<Rightarrow> if cd_Status c = rev_StatusQueuedForReview
                   then (Inr (), rev_rejected_repo now cid reviewer (trim_space reason) c r)
                   else (Inl (RevCandidateIs (cd_Status c)), r))"
proof -
  have ok: "(\<not> rev_isQueued (cd_Status c) \<and> \<not> rev_isQueued (cd_ReviewStatus c)) = (cd_Status c \<noteq> rev_StatusQueuedForReview)"
    "rev_normalizeCandidateStatus (rev_shown_status c) = cd_Status c" if "rr_candidates r cid = Some c" for c
  proof -
    note c = rev_invD(2) [OF assms that]
    show "(\<not> rev_isQueued (cd_Status c) \<and> \<not> rev_isQueued (cd_ReviewStatus c)) = (cd_Status c \<noteq> rev_StatusQueuedForReview)"
      using rev_ok_normal [OF c] c by (simp add: rev_cand_ok_def)
    show "rev_normalizeCandidateStatus (rev_shown_status c) = cd_Status c"
      using rev_ok_normal [OF c] c by (auto simp: rev_cand_ok_def rev_decided_def)
  qed
  show "rev_AcceptCandidate now cid reviewer r =
      (case rr_candidates r cid of
         None \<Rightarrow> (Inl (RevCandidateNotFound cid), r)
       | Some c \<Rightarrow> if cd_Status c = rev_StatusQueuedForReview then (Inr (), rev_accepted_repo now cid reviewer c r)
                   else (Inl (RevCandidateIs (cd_Status c)), r))"
    unfolding rev_AcceptCandidate_def rev_repo_Accept_def rev_decide_def rev_closed_def [symmetric]
    using ok by (simp add: rev_closed_normal rev_accepted_repo_def split: option.split)
  have "rev_repo_Reject now cid reviewer (trim_space reason) r =
      (case rr_candidates r cid of
         None \<Rightarrow> (Inl (RevCandidateNotFound cid), r)
       | Some c \<Rightarrow> if cd_Status c = rev_StatusQueuedForReview
                   then (Inr (), rev_rejected_repo now cid reviewer (trim_space reason) c r)
                   else (Inl (RevCandidateIs (cd_Status c)), r))"
    unfolding rev_repo_Reject_def rev_decide_def rev_closed_def [symmetric]
    using ok by (simp add: rev_closed_normal rev_rejected_repo_def split: option.split)
  then show "rev_RejectCandidate now cid reviewer reason r =
      (if trim_space reason = [] then (Inl RevReasonRequired, r)
       else case rr_candidates r cid of
         None \<Rightarrow> (Inl (RevCandidateNotFound cid), r)
       | Some c \<Rightarrow> if cd_Status c = rev_StatusQueuedForReview
                   then (Inr (), rev_rejected_repo now cid reviewer (trim_space reason) c r)
                   else (Inl (RevCandidateIs (cd_Status c)), r))"
    unfolding rev_RejectCandidate_def Let_def by simp
qed

lemma rev_fresh_id:
  assumes "rev_inv r" and c: "rr_candidates r cid = Some c" "cd_Status c = rev_StatusQueuedForReview"
  shows "cid \<notin> set (map ra_CandidateID (rr_annotations r))" and "show_int cid \<notin> set (map ae_ResourceID (rr_audits r))"
proof -
  have open_cid: "cid \<notin> rev_in_status rev_accepted r" "cid \<notin> rev_in_status rev_rejected r"
    using c by (auto simp: rev_in_status_def)
  then show "cid \<notin> set (map ra_CandidateID (rr_annotations r))" using rev_invD(4) [OF assms(1)] by simp
  show "show_int cid \<notin> set (map ae_ResourceID (rr_audits r))"
  proof
    assume "show_int cid \<in> set (map ae_ResourceID (rr_audits r))"
    then obtain e where "e \<in> set (rr_audits r)" "ae_ResourceID e = show_int cid" by auto
    then have "(ae_Action e, show_int cid) \<in> set (map (\<lambda>e. (ae_Action e, ae_ResourceID e)) (rr_audits r))" by force
    with rev_invD(6) [OF assms(1)] open_cid show False by auto
  qed
qed

lemma rev_in_status_put:
  "rr_candidates r' = (rr_candidates r)(cid \<mapsto> c) \<Longrightarrow>
     rev_in_status st r' = (if cd_Status c = st then insert cid (rev_in_status st r) else rev_in_status st r - {cid})"
  by (auto simp: rev_in_status_def)

lemma rev_closed_status [simp]: "cd_Status (rev_closed st now reviewer c) = st"
  by (simp add: rev_closed_def)

lemma rev_closed_ok: "rev_cand_ok n cid c \<Longrightarrow> rev_decided st \<Longrightarrow> rev_cand_ok n cid (rev_closed st now reviewer c)"
  by (simp add: rev_closed_def rev_cand_ok_def)

lemma rev_decision_inv:
  assumes inv: "rev_inv r" and c: "rr_candidates r cid = Some c" "cd_Status c = rev_StatusQueuedForReview"
  shows "rev_inv (rev_accepted_repo now cid reviewer c r)" and "rev_inv (rev_rejected_repo now cid reviewer reason c r)"
proof -
  note fresh = rev_fresh_id [OF inv c]
  note ok = rev_invD(2) [OF inv c(1)]
  have open_cid: "cid \<notin> rev_in_status rev_accepted r" "cid \<notin> rev_in_status rev_rejected r"
    using c by (auto simp: rev_in_status_def)
  have row: "rev_cand_ok (rr_nextID r) i d"
    if "((rr_candidates r)(cid \<mapsto> rev_closed st now reviewer c)) i = Some d" "rev_decided st" for i d st
    using that rev_invD(2) [OF inv] rev_closed_ok [OF ok that(2)] by (cases "i = cid") auto
  let ?a = "rev_accepted_repo now cid reviewer c r"
  have ra: "rr_candidates ?a = (rr_candidates r)(cid \<mapsto> rev_closed rev_accepted now reviewer c)"
    "rr_nextID ?a = rr_nextID r" by (simp_all add: rev_accepted_repo_def)
  have "rev_in_status rev_accepted ?a = insert cid (rev_in_status rev_accepted r)"
    "rev_in_status rev_rejected ?a = rev_in_status rev_rejected r"
    using rev_in_status_put [OF ra(1)] open_cid by simp_all
  then show "rev_inv ?a"
    using rev_invD [OF inv] fresh row [of rev_accepted]
    unfolding rev_inv_def ra by (simp add: rev_accepted_repo_def rev_decided_def insert_commute)
  let ?b = "rev_rejected_repo now cid reviewer reason c r"
  have rb: "rr_candidates ?b = (rr_candidates r)(cid \<mapsto> rev_closed rev_rejected now reviewer c)"
    "rr_nextID ?b = rr_nextID r" by (simp_all add: rev_rejected_repo_def)
  have "rev_in_status rev_accepted ?b = rev_in_status rev_accepted r"
    "rev_in_status rev_rejected ?b = insert cid (rev_in_status rev_rejected r)"
    using rev_in_status_put [OF rb(1)] open_cid by simp_all
  then show "rev_inv ?b"
    using rev_invD [OF inv] fresh row [of rev_rejected]
    unfolding rev_inv_def rb by (simp add: rev_rejected_repo_def rev_decided_def)
qed

subsection \<open>Persisting\<close>

lemma rev_cand_ok_mono: "rev_cand_ok n cid c \<Longrightarrow> n \<le> m \<Longrightarrow> rev_cand_ok m cid c"
  by (auto simp: rev_cand_ok_def)

lemma rev_new_simps [simp]:
  "cd_ID (rev_newCandidate now jobID cid x) = cid"
  "cd_Status (rev_newCandidate now jobID cid x) = rev_StatusQueuedForReview"
  "cd_ReviewStatus (rev_newCandidate now jobID cid x) = rev_StatusQueuedForReview"
  "cd_ProjectID (rev_newCandidate now jobID cid x) = 0"
  "cs_JobID (cd_Source (rev_newCandidate now jobID cid x)) = Some jobID"
  by (simp_all add: rev_newCandidate_def rev_normalizeCandidate_def)

definition rev_put_new :: "time \<Rightarrow> int \<Rightarrow> rev_PersistCandidateInput \<Rightarrow> rev_Repo \<Rightarrow> rev_Repo" where
  "rev_put_new now jobID x r =
     r\<lparr>rr_nextID := rr_nextID r + 1,
       rr_candidates := (rr_candidates r)(rr_nextID r \<mapsto> rev_newCandidate now jobID (rr_nextID r) x)\<rparr>"

lemma rev_put_new_sel [simp]:
  "rr_nextID (rev_put_new now jobID x r) = rr_nextID r + 1"
  "rr_annotations (rev_put_new now jobID x r) = rr_annotations r"
  "rr_audits (rev_put_new now jobID x r) = rr_audits r"
  by (simp_all add: rev_put_new_def)

lemma rev_put_new_candidates:
  "rr_candidates (rev_put_new now jobID x r) =
     (rr_candidates r)(rr_nextID r \<mapsto> rev_newCandidate now jobID (rr_nextID r) x)"
  by (simp add: rev_put_new_def)

lemma rev_unused_id: "rev_inv r \<Longrightarrow> rr_nextID r \<le> cid \<Longrightarrow> rr_candidates r cid = None"
  using rev_invD(2) [of r cid] by (cases "rr_candidates r cid") (auto simp: rev_cand_ok_def)

lemma rev_put_new_inv:
  assumes inv: "rev_inv r"
  shows "rev_inv (rev_put_new now jobID x r)"
proof -
  let ?r = "rev_put_new now jobID x r"
  have none: "rr_candidates r (rr_nextID r) = None" by (rule rev_unused_id [OF inv order_refl])
  then have "rev_in_status st ?r = rev_in_status st r" if "st \<noteq> rev_StatusQueuedForReview" for st
    using rev_in_status_put [OF rev_put_new_candidates, of st now jobID x r] that by (auto simp: rev_in_status_def)
  then have sets: "rev_in_status rev_accepted ?r = rev_in_status rev_accepted r"
    "rev_in_status rev_rejected ?r = rev_in_status rev_rejected r" by simp_all
  have rows: "rev_cand_ok (rr_nextID r + 1) i d" if "rr_candidates ?r i = Some d" for i d
  proof (cases "i = rr_nextID r")
    case True
    with that rev_invD(1) [OF inv] show ?thesis by (auto simp: rev_put_new_candidates rev_cand_ok_def)
  next
    case False
    with that have "rr_candidates r i = Some d" by (simp add: rev_put_new_candidates)
    from rev_invD(2) [OF inv this] show ?thesis by (rule rev_cand_ok_mono) simp
  qed
  show ?thesis unfolding rev_inv_def sets using rev_invD [OF inv] rows by simp
qed

lemma rev_persist_Cons:
  "rev_repo_PersistCandidates now jobID (x # xs) r =
     (let (cs, r') = rev_repo_PersistCandidates now jobID xs (rev_put_new now jobID x r)
      in (rev_newCandidate now jobID (rr_nextID r) x # cs, r'))"
  by (simp add: Let_def rev_put_new_def)

declare rev_repo_PersistCandidates.simps(2) [simp del]

text \<open>The stored candidates are numbered consecutively from the next number, in the order of the inputs.\<close>

lemma rev_persist_spec:
  assumes "rev_repo_PersistCandidates now jobID xs r = (cs, r')" and "rev_inv r"
  shows "rev_inv r' \<and> cs = map2 (rev_newCandidate now jobID) (map (\<lambda>k. rr_nextID r + int k) [0..<length xs]) xs \<and>
     rr_nextID r' = rr_nextID r + int (length xs) \<and>
     rr_annotations r' = rr_annotations r \<and> rr_audits r' = rr_audits r \<and>
     (\<forall>cid. cid < rr_nextID r \<longrightarrow> rr_candidates r' cid = rr_candidates r cid) \<and>
     (\<forall>c \<in> set cs. rr_candidates r' (cd_ID c) = Some c)"
  using assms
proof (induction xs arbitrary: r cs)
  case (Cons x xs)
  let ?r1 = "rev_put_new now jobID x r" and ?c = "rev_newCandidate now jobID (rr_nextID r) x"
  obtain ds where ds: "rev_repo_PersistCandidates now jobID xs ?r1 = (ds, r')" "cs = ?c # ds"
    using Cons.prems(1) by (auto simp: rev_persist_Cons split: prod.splits)
  note IH = Cons.IH [OF ds(1) rev_put_new_inv [OF Cons.prems(2)], simplified]
  have ids: "map (\<lambda>k. rr_nextID r + int k) [0..<length (x # xs)] =
      rr_nextID r # map (\<lambda>k. rr_nextID r + 1 + int k) [0..<length xs]"
    by (simp add: upt_conv_Cons map_Suc_upt [symmetric] del: upt_Suc)
  have "rr_candidates r' (rr_nextID r) = Some ?c"
    using IH by (simp add: rev_put_new_candidates)
  moreover have "rr_candidates r' cid = rr_candidates r cid" if "cid < rr_nextID r" for cid
    using IH that by (simp add: rev_put_new_candidates)
  ultimately show ?case using IH unfolding ids ds(2) by (simp add: algebra_simps)
qed simp

end
