(* ===== verification/Review_Sink.thy ===== *)
theory Review_Sink
  imports Review_Facts Job_Witnesses
begin

section \<open>Review candidates of a job\<close>

text \<open>
  The contract the job service meets in its candidate sink is the locale \<open>review_sink\<close>: a refused call
  stores nothing, a successful one stores as many fresh candidates as it was given and forgets
  none. The effect of the event \<open>review_candidates_materialized\<close> is proved in it; the review service
  behind the adapter of \<open>cmd/api-server\<close> interprets it.
\<close>

definition jobs_candidatesDetail :: "int list \<Rightarrow> obj" where
  "jobs_candidatesDetail ids =
     [(''result_type'', GStr ''annotation_candidates''), (''result_count'', GInt (int (length ids))),
      (''candidate_ids'', GInts ids)]"

text \<open>What a stored candidate event leaves in the repository: one event, and the result on the job.\<close>

definition jobs_logged_result :: "int \<Rightarrow> int list \<Rightarrow> jobs_Repo \<Rightarrow> jobs_Repo \<Rightarrow> bool" where
  "jobs_logged_result jid ids r r' \<longleftrightarrow>
     (\<exists>ev. jobs_ListEvents jid r' = jobs_ListEvents jid r @ [ev] \<and> ev_JobID ev = jid \<and>
           ev_EventType ev = ''review_candidates_materialized'' \<and> ev_Detail ev = jobs_candidatesDetail ids) \<and>
     (\<exists>job. jr_byID r' jid = Some job \<and> job_ResultType job = ''annotation_candidates'' \<and>
            job_ResultCount job = int (length ids) \<and>
            obj_get (job_ResultRef job) ''candidate_ids'' = GInts ids)"

lemma jobs_log_result:
  assumes "jr_byID r jid = Some a" and "ids \<noteq> []"
  shows "\<exists>ev r1 job r2.
     jobs_AppendEvent now jid it lv ''review_candidates_materialized'' msg (jobs_candidatesDetail ids) r = (Inr ev, r1) \<and>
     jobs_StoreResultRef jid (jobs_normalizeResultRef (jobs_candidatesDetail ids)) r1 = (Inr job, r2) \<and>
     jobs_logged_result jid ids r r2"
proof -
  let ?d = "jobs_candidatesDetail ids"
  have wf: "obj_wf ?d" by (simp add: obj_wf_def jobs_candidatesDetail_def)
  have "0 < int (length ids)" using assms(2) by simp
  then have norm: "jobs_normalizeResultRef ?d = ?d"
    by (simp add: jobs_normalizeResultRef_def jobs_normalizeResultDetail_def jobs_candidatesDetail_def obj_get_def)
  let ?m = "obj_merge (job_ResultRef a) ?d"
  have get: "obj_get ?m ''result_type'' = GStr ''annotation_candidates''"
    "obj_get ?m ''result_count'' = GInt (int (length ids))" "obj_get ?m ''candidate_ids'' = GInts ids"
    unfolding obj_get_def map_of_obj_merge [OF wf] by (simp_all add: jobs_candidatesDetail_def)
  have ne: "?d \<noteq> []" by (simp add: jobs_candidatesDetail_def)
  obtain ev r1 where ev: "jobs_AppendEvent now jid it lv ''review_candidates_materialized'' msg ?d r = (Inr ev, r1)"
    "ev_JobID ev = jid" "ev_EventType ev = ''review_candidates_materialized''" "ev_Detail ev = ?d"
    "jr_byID r1 = jr_byID r" "jobs_ListEvents jid r1 = jobs_ListEvents jid r @ [ev]"
    using assms(1) by (auto simp: jobs_AppendEvent_def jobs_ListEvents_def Let_def)
  let ?job = "a\<lparr>job_ResultRef := ?m, job_ResultType := jobs_stringValue (obj_get ?m ''result_type''),
     job_ResultCount := jobs_int64Value (obj_get ?m ''result_count''),
     job_ResultArtifactIDs := jobs_extractInt64Slice (obj_get ?m ''artifact_ids'')\<rparr>"
  have "jobs_StoreResultRef jid (jobs_normalizeResultRef ?d) r1 =
      (Inr ?job, r1\<lparr>jr_byID := (jr_byID r1)(jid \<mapsto> ?job)\<rparr>)"
    using assms(1) ne by (simp add: jobs_StoreResultRef_def jobs_with_def jobs_result_body_def jobs_mergeResultRefs_def
      norm ev(5) Let_def)
  moreover have "jobs_logged_result jid ids r (r1\<lparr>jr_byID := (jr_byID r1)(jid \<mapsto> ?job)\<rparr>)"
    unfolding jobs_logged_result_def using ev get by (simp add: jobs_ListEvents_def)
  ultimately show ?thesis using ev(1) by blast
qed

locale review_sink =
  fixes persist :: "'v jobs_persist" and inv :: "'v \<Rightarrow> bool" and job_of :: "'v \<Rightarrow> int \<Rightarrow> int option"
  assumes refused: "inv v \<Longrightarrow> persist jid items v = (Inl e, v') \<Longrightarrow> v' = v"
    and stored: "inv v \<Longrightarrow> items \<noteq> [] \<Longrightarrow> persist jid items v = (Inr ids, v') \<Longrightarrow>
       inv v' \<and> distinct ids \<and> length ids = length items \<and>
       (\<forall>i\<in>set ids. job_of v i = None \<and> job_of v' i = Some jid) \<and>
       (\<forall>i. job_of v i \<noteq> None \<longrightarrow> job_of v' i = job_of v i)"
begin

lemma event_spec:
  assumes inv: "inv v" and s: "svc_reviewSink s = Some v" "jr_byID (svc_repo s) jid = Some a"
    and msg: "trim_space msg \<noteq> []" and cands: "map_of detail ''candidates'' = Some raw" "decode raw = Inr cands" "cands \<noteq> []"
    and run: "jobs_ReportEvent persist decode clk jid None level ''review_candidates_materialized'' msg (Some detail) s = (res, s')"
  shows "(\<exists>e. res = Inl (ExternalError e) \<and> s' = s) \<or>
     (\<exists>ids v'. res = Inr () \<and> svc_reviewSink s' = Some v' \<and> inv v' \<and> distinct ids \<and> length ids = length cands \<and>
        (\<forall>i\<in>set ids. job_of v i = None \<and> job_of v' i = Some jid) \<and>
        (\<forall>i. job_of v i \<noteq> None \<longrightarrow> job_of v' i = job_of v i) \<and>
        jobs_logged_result jid ids (svc_repo s) (svc_repo s'))"
proof -
  let ?kind = "''review_candidates_materialized''" and ?items = "map (\<lambda>c. c\<lparr>rc_IsPseudo := True\<rparr>) cands"
  have kind: "trim_space ?kind = ?kind" by (rule trimmed_trim_space_id) (simp add: trimmed_def is_space_def)
  have norm: "jobs_normalizeEventDetail persist decode jid ?kind (Some detail) s =
      (case persist jid ?items v of
         (Inl e, v') \<Rightarrow> (Inl (ExternalError e), s\<lparr>svc_reviewSink := Some v'\<rparr>)
       | (Inr ids, v') \<Rightarrow> (Inr (jobs_candidatesDetail ids), s\<lparr>svc_reviewSink := Some v'\<rparr>))"
    using s(1) cands by (simp add: jobs_normalizeEventDetail_def jobs_persistReviewCandidates_def jobs_candidatesDetail_def
      split: prod.split sum.split)
  obtain out v' where p: "persist jid ?items v = (out, v')" by force
  show ?thesis
  proof (cases out)
    case (Inl e)
    have "v' = v" using refused [OF inv p [unfolded Inl]] .
    then have "s\<lparr>svc_reviewSink := Some v'\<rparr> = s" using s(1) by simp
    then have "(res, s') = (Inl (ExternalError e), s)"
      using run msg unfolding jobs_ReportEvent_def by (simp add: kind Let_def norm p Inl)
    then show ?thesis by simp
  next
    case (Inr ids)
    note st = stored [OF inv _ p [unfolded Inr], simplified, OF cands(3)]
    let ?s1 = "s\<lparr>svc_reviewSink := Some v'\<rparr>"
    have "ids \<noteq> []" using st cands(3) by auto
    then obtain ev r1 job r2 where l:
      "jobs_AppendEvent (clk 0) jid None (if trim_space level = [] then ''info'' else level) ?kind msg
         (jobs_candidatesDetail ids) (svc_repo s) = (Inr ev, r1)"
      "jobs_StoreResultRef jid (jobs_normalizeResultRef (jobs_candidatesDetail ids)) r1 = (Inr job, r2)"
      "jobs_logged_result jid ids (svc_repo s) r2"
      using jobs_log_result [OF s(2)] by blast
    have "jobs_stringValue (obj_get (jobs_candidatesDetail ids) ''result_type'') \<noteq> []"
      by (simp add: jobs_candidatesDetail_def obj_get_def)
    then have "(res, s') = (Inr (), ?s1\<lparr>svc_repo := r2\<rparr>)"
      using run msg l(1,2) unfolding jobs_ReportEvent_def by (simp add: kind Let_def norm p Inr jobs_on_repo_def)
    then show ?thesis using st l(3) by auto
  qed
qed

end

subsection \<open>The review service as the sink\<close>

definition rev_job_of :: "rev_Repo \<Rightarrow> int \<Rightarrow> int option" where
  "rev_job_of r cid = (case rr_candidates r cid of None \<Rightarrow> None | Some c \<Rightarrow> cs_JobID (cd_Source c))"

definition rev_sourced :: "rev_Repo \<Rightarrow> bool" where
  "rev_sourced r \<longleftrightarrow> rev_inv r \<and> (\<forall>cid. rr_candidates r cid \<noteq> None \<longrightarrow> rev_job_of r cid \<noteq> None)"

lemma rev_checkItems_length: "rev_checkItems xs = Inr ys \<Longrightarrow> length ys = length xs"
  by (induction xs arbitrary: ys) (auto split: sum.splits)

lemma rev_persist_ids:
  "map cd_ID (map2 (rev_newCandidate now jobID) is xs) = take (length xs) is"
  by (induction "is" xs rule: list_induct2') simp_all

lemma rev_numbers:
  "distinct (map (\<lambda>k. n + int k) [0..<m])" "set (map (\<lambda>k. n + int k) [0..<m]) = {n..<n + int m}"
proof -
  show "distinct (map (\<lambda>k. n + int k) [0..<m])" by (simp add: distinct_map inj_on_def)
  show "set (map (\<lambda>k. n + int k) [0..<m]) = {n..<n + int m}"
  proof (intro set_eqI iffI)
    fix i assume "i \<in> {n..<n + int m}"
    then have "i = n + int (nat (i - n))" "nat (i - n) < m" by auto
    then show "i \<in> set (map (\<lambda>k. n + int k) [0..<m])" by (metis atLeast0LessThan imageI lessThan_iff list.set_map set_upt)
  qed auto
qed

lemma rev_new_ids_inv: "rev_sourced r \<Longrightarrow> rr_nextID r \<le> cid \<Longrightarrow> rev_job_of r cid = None"
  by (simp add: rev_sourced_def rev_job_of_def rev_unused_id)

lemma rev_persist_sourced:
  assumes run: "rev_repo_PersistCandidates now jobID xs r = (cs, r')" and inv: "rev_sourced r"
  shows "rev_sourced r' \<and> map cd_ID cs = map (\<lambda>k. rr_nextID r + int k) [0..<length xs] \<and>
     (\<forall>i\<in>set (map cd_ID cs). rev_job_of r i = None \<and> rev_job_of r' i = Some jobID) \<and>
     (\<forall>i. rev_job_of r i \<noteq> None \<longrightarrow> rev_job_of r' i = rev_job_of r i)"
proof -
  let ?ids = "map (\<lambda>k. rr_nextID r + int k) [0..<length xs]"
  note p = rev_persist_spec [OF run]
  have ri: "rev_inv r" using inv by (simp add: rev_sourced_def)
  have "map cd_ID cs = take (length xs) ?ids" using p [OF ri] by (simp only: rev_persist_ids)
  then have ids: "map cd_ID cs = ?ids" by simp
  have rng: "i \<in> set (map cd_ID cs) \<longleftrightarrow> rr_nextID r \<le> i \<and> i < rr_nextID r'" for i
    unfolding ids rev_numbers using p [OF ri] by auto
  have src: "cs_JobID (cd_Source c) = Some jobID" if "c \<in> set cs" for c
    using p [OF ri] that by (auto simp: in_set_zip)
  have new: "rev_job_of r i = None \<and> rev_job_of r' i = Some jobID" if i: "i \<in> set (map cd_ID cs)" for i
  proof -
    obtain c where c: "c \<in> set cs" "i = cd_ID c" using i by auto
    then have "rr_candidates r' i = Some c" using p [OF ri] by blast
    with src [OF c(1)] rev_new_ids_inv [OF inv] rng [of i] i show ?thesis by (simp add: rev_job_of_def)
  qed
  have old: "rev_job_of r' i = rev_job_of r i" if "i < rr_nextID r" for i
    using p [OF ri] that by (simp add: rev_job_of_def)
  have keep: "rev_job_of r' i = rev_job_of r i" if "rev_job_of r i \<noteq> None" for i
    using rev_new_ids_inv [OF inv, of i] that old [of i] by force
  have "rev_job_of r' i \<noteq> None" if "rr_candidates r' i \<noteq> None" for i
  proof (cases "i < rr_nextID r")
    case True
    then have "rr_candidates r i \<noteq> None" using p [OF ri] that by simp
    with inv old [OF True] show ?thesis by (simp add: rev_sourced_def)
  next
    case False
    have "rev_inv r'" using p [OF ri] by blast
    then have "i < rr_nextID r'" using rev_unused_id [of r' i] that by force
    with False rng new show ?thesis by simp
  qed
  then show ?thesis using p [OF ri] ids new keep by (simp add: rev_sourced_def)
qed

interpretation rev_as_sink: review_sink "rev_sink now" rev_sourced rev_job_of for now
proof unfold_locales
  show "rev_sink now jid items v = (Inl e, v') \<Longrightarrow> v' = v" for jid items v e v'
    by (auto simp: rev_sink_def rev_PersistCandidates_def split: if_splits sum.splits prod.splits)
next
  fix v jid items ids v'
  assume inv: "rev_sourced v" and "items \<noteq> []" and run: "rev_sink now jid items v = (Inr ids, v')"
  then obtain xs cs where "rev_checkItems (map rev_sinkInput items) = Inr xs"
    and cs: "rev_repo_PersistCandidates now jid xs v = (cs, v')" "ids = map cd_ID cs"
    by (auto simp: rev_sink_def rev_PersistCandidates_def split: if_splits sum.splits prod.splits)
  then have len: "length xs = length items" using rev_checkItems_length by fastforce
  note p = rev_persist_sourced [OF cs(1) inv]
  from p have ids: "map cd_ID cs = map (\<lambda>k. rr_nextID v + int k) [0..<length xs]" by blast
  then have "distinct (map cd_ID cs)" by (simp only: rev_numbers(1))
  moreover have "length (map cd_ID cs) = length items" unfolding ids len by simp
  moreover note p
  ultimately show "rev_sourced v' \<and> distinct ids \<and> length ids = length items \<and>
       (\<forall>i\<in>set ids. rev_job_of v i = None \<and> rev_job_of v' i = Some jid) \<and>
       (\<forall>i. rev_job_of v i \<noteq> None \<longrightarrow> rev_job_of v' i = rev_job_of v i)"
    unfolding cs(2) by blast
qed

end
