(* ===== verification/Review_Props.thy ===== *)
theory Review_Props
  imports Review_Sink
begin

section \<open>Review: histories and properties\<close>

text \<open>
  The histories of the store under the requests of workers and reviewers: the machine
  \<open>rev_machine\<close>, its invariant \<open>rev_sourced\<close> and the order \<open>rev_le\<close> along which it moves.
\<close>

subsection \<open>The machine\<close>

datatype rev_call =
    RevPersist time int "jobs_ReviewCandidateInput list"
  | RevAccept time auth_context string "string + rev_ActionRequest"
  | RevReject time auth_context string "string + rev_ActionRequest"

fun rev_serve :: "rev_Repo \<Rightarrow> rev_call \<Rightarrow> rev_Repo" where
  "rev_serve r (RevPersist now jid items) = snd (rev_sink now jid items r)"
| "rev_serve r (RevAccept now ctx raw body) = snd (rev_HandleAccept now ctx raw body r)"
| "rev_serve r (RevReject now ctx raw body) = snd (rev_HandleReject now ctx raw body r)"

definition rev_evolves :: "rev_Candidate \<Rightarrow> rev_Candidate \<Rightarrow> bool" where
  "rev_evolves c c' \<longleftrightarrow> c' = c \<or>
     (cd_Status c = rev_StatusQueuedForReview \<and>
      (\<exists>st now reviewer. rev_decided st \<and> c' = rev_closed st now reviewer c))"

definition rev_le :: "rev_Repo \<Rightarrow> rev_Repo \<Rightarrow> bool" where
  "rev_le r r' \<longleftrightarrow>
     (\<forall>cid c. rr_candidates r cid = Some c \<longrightarrow> (\<exists>c'. rr_candidates r' cid = Some c' \<and> rev_evolves c c')) \<and>
     prefix (rr_annotations r) (rr_annotations r') \<and> prefix (rr_audits r) (rr_audits r')"

lemma rev_decided_not_queued: "rev_decided st \<Longrightarrow> st \<noteq> rev_StatusQueuedForReview"
  by (auto simp: rev_decided_def)

lemma rev_evolves_refl [simp]: "rev_evolves c c"
  by (simp add: rev_evolves_def)

lemma rev_evolves_trans: "rev_evolves a b \<Longrightarrow> rev_evolves b c \<Longrightarrow> rev_evolves a c"
  unfolding rev_evolves_def using rev_decided_not_queued by auto

lemma rev_le_refl [simp]: "rev_le r r"
  by (simp add: rev_le_def)

lemma rev_le_trans: "rev_le a b \<Longrightarrow> rev_le b c \<Longrightarrow> rev_le a c"
  unfolding rev_le_def by (meson rev_evolves_trans prefix_order.trans)

lemma rev_job_of_closed:
  "rev_job_of r' i = rev_job_of r i"
  if "rr_candidates r' = (rr_candidates r)(cid \<mapsto> rev_closed st now reviewer c)" "rr_candidates r cid = Some c"
  using that by (simp add: rev_job_of_def rev_closed_def)

lemma rev_decide_step:
  assumes inv: "rev_sourced r" and c: "rr_candidates r cid = Some c" "cd_Status c = rev_StatusQueuedForReview"
    and st: "rev_decided st" and new: "rr_candidates r' = (rr_candidates r)(cid \<mapsto> rev_closed st now reviewer c)"
    and logs: "prefix (rr_annotations r) (rr_annotations r')" "prefix (rr_audits r) (rr_audits r')" and inv': "rev_inv r'"
  shows "rev_sourced r' \<and> rev_le r r'"
proof -
  have "rev_job_of r' i \<noteq> None" if "rr_candidates r' i \<noteq> None" for i
    using that inv c unfolding rev_sourced_def rev_job_of_closed [OF new c(1)] by (auto simp: new split: if_splits)
  moreover have "\<exists>d'. rr_candidates r' i = Some d' \<and> rev_evolves d d'" if "rr_candidates r i = Some d" for i d
    using that c st by (cases "i = cid") (auto simp: new rev_evolves_def)
  ultimately show ?thesis using inv' logs by (simp add: rev_sourced_def rev_le_def)
qed

lemma rev_accept_step:
  assumes "rev_sourced r"
  shows "rev_sourced (snd (rev_AcceptCandidate now cid reviewer r)) \<and> rev_le r (snd (rev_AcceptCandidate now cid reviewer r))"
proof -
  have inv: "rev_inv r" using assms by (simp add: rev_sourced_def)
  have "rev_sourced (rev_accepted_repo now cid reviewer c r) \<and> rev_le r (rev_accepted_repo now cid reviewer c r)"
    if "rr_candidates r cid = Some c" "cd_Status c = rev_StatusQueuedForReview" for c
    using rev_decide_step [OF assms that, of rev_accepted] rev_decision_inv(1) [OF inv that]
    by (simp add: rev_accepted_repo_def rev_decided_def)
  then show ?thesis using assms unfolding rev_decision_spec(1) [OF inv] by (simp split: option.split)
qed

lemma rev_reject_step:
  assumes "rev_sourced r"
  shows "rev_sourced (snd (rev_RejectCandidate now cid reviewer reason r)) \<and>
     rev_le r (snd (rev_RejectCandidate now cid reviewer reason r))"
proof -
  have inv: "rev_inv r" using assms by (simp add: rev_sourced_def)
  have "rev_sourced (rev_rejected_repo now cid reviewer why c r) \<and> rev_le r (rev_rejected_repo now cid reviewer why c r)"
    if "rr_candidates r cid = Some c" "cd_Status c = rev_StatusQueuedForReview" for c why
    using rev_decide_step [OF assms that, of rev_rejected] rev_decision_inv(2) [OF inv that]
    by (simp add: rev_rejected_repo_def rev_decided_def)
  then show ?thesis using assms unfolding rev_decision_spec(2) [OF inv] by (simp split: option.split)
qed

lemma rev_handle_action_state:
  assumes act: "\<And>cid inp. P (snd (act cid inp))" and "P r"
  shows "P (snd (rev_handle_action ctx raw body r act))"
proof -
  have post: "P (snd (case act cid inp of
      (Inl e, r') \<Rightarrow> (ReplyError a (HttpService e), r') | (Inr _, r') \<Rightarrow> (Reply b (), r')))" for cid inp a b
    using act [of cid inp] by (cases "act cid inp") (auto split: sum.split)
  show ?thesis
  proof (cases "path_int64 raw :: rev_error http_error + int")
    case (Inr cid)
    with assms(2) post show ?thesis
      by (cases body) (simp_all add: rev_handle_action_def Let_def Inr)
  qed (simp add: rev_handle_action_def assms(2))
qed

lemma rev_persist_step:
  assumes "rev_sourced r"
  shows "rev_sourced (snd (rev_sink now jid items r)) \<and> rev_le r (snd (rev_sink now jid items r))"
proof -
  obtain out r' where run: "rev_sink now jid items r = (out, r')" by force
  show ?thesis
  proof (cases "r' = r")
    case True
    then show ?thesis using assms by (simp add: run)
  next
    case False
    with run obtain xs cs where cs: "rev_repo_PersistCandidates now jid xs r = (cs, r')"
      by (auto simp: rev_sink_def rev_PersistCandidates_def split: if_splits sum.splits prod.splits)
    have inv: "rev_inv r" using assms by (simp add: rev_sourced_def)
    note p = rev_persist_spec [OF cs inv]
    have "rr_candidates r' cid = Some c" if "rr_candidates r cid = Some c" for cid c
      using p that rev_unused_id [OF inv, of cid] by (cases "cid < rr_nextID r") auto
    then have "rev_le r r'" using p by (simp add: rev_le_def)
    then show ?thesis using rev_persist_sourced [OF cs assms] by (simp add: run)
  qed
qed

lemma rev_serve_step:
  assumes "rev_sourced r"
  shows "rev_sourced (rev_serve r p) \<and> rev_le r (rev_serve r p)"
proof (cases p)
  case (RevPersist now jid items)
  then show ?thesis using rev_persist_step [OF assms] by simp
next
  case (RevAccept now ctx raw body)
  show ?thesis unfolding RevAccept rev_serve.simps rev_HandleAccept_def
    by (rule rev_handle_action_state [where P = "\<lambda>s. rev_sourced s \<and> rev_le r s"])
      (use rev_accept_step [OF assms] assms in auto)
next
  case (RevReject now ctx raw body)
  show ?thesis unfolding RevReject rev_serve.simps rev_HandleReject_def
    by (rule rev_handle_action_state [where P = "\<lambda>s. rev_sourced s \<and> rev_le r s"])
      (use rev_reject_step [OF assms] assms in auto)
qed

lemma rev_start_sourced: "rev_sourced rev_NewInMemoryRepository"
  using rev_empty_inv by (simp add: rev_sourced_def rev_NewInMemoryRepository_def)

interpretation rev_machine: progress_machine "\<lambda>r. r = rev_NewInMemoryRepository" rev_serve rev_sourced rev_le
proof unfold_locales
  show "r = rev_NewInMemoryRepository \<Longrightarrow> rev_sourced r" for r by (simp add: rev_start_sourced)
  show "rev_sourced r \<Longrightarrow> rev_sourced (rev_serve r p)" for r p using rev_serve_step by blast
  show "rev_le r r" for r by simp
  show "rev_le r s \<Longrightarrow> rev_le s t \<Longrightarrow> rev_le r t" for r s t by (rule rev_le_trans)
  show "rev_sourced r \<Longrightarrow> rev_le r (rev_serve r p)" for r p using rev_serve_step by blast
qed

definition rev_after :: "rev_call list \<Rightarrow> rev_Repo" where
  "rev_after cs = foldl rev_serve rev_NewInMemoryRepository cs"

lemma rev_after_sourced: "rev_sourced (rev_after cs)"
  unfolding rev_after_def by (rule rev_machine.run_inv) simp

lemma rev_after_inv: "rev_inv (rev_after cs)"
  using rev_after_sourced by (simp add: rev_sourced_def)

lemma rev_after_le: "rev_le (rev_after cs) (rev_after (cs @ cs'))"
  unfolding rev_after_def by (rule rev_machine.run_le_later [OF rev_start_sourced])

end
