(* ===== verification/Review_Claims.thy ===== *)
theory Review_Claims
  imports Review_Props
begin

section \<open>Review: the properties\<close>

text \<open>
  The properties of the candidate store, of its handlers and of the job service on top of it, each with
  a concrete history.
\<close>

lemma count_distinct: "distinct (map f xs) \<Longrightarrow> length (filter (\<lambda>x. f x = k) xs) = (if k \<in> f ` set xs then 1 else 0)"
proof (induction xs)
  case (Cons x xs)
  then show ?case by (cases "f x = k") auto
qed simp

lemma rev_log_counts:
  assumes inv: "rev_inv r" and c: "rr_candidates r cid = Some c"
  shows "length (filter (\<lambda>a. ra_CandidateID a = cid) (rr_annotations r)) = (if cd_Status c = rev_accepted then 1 else 0)"
    and "length (filter (\<lambda>e. ae_ResourceID e = show_int cid) (rr_audits r)) = (if rev_decided (cd_Status c) then 1 else 0)"
proof -
  have acc: "cid \<in> rev_in_status st r \<longleftrightarrow> cd_Status c = st" for st using c by (simp add: rev_in_status_def)
  show "length (filter (\<lambda>a. ra_CandidateID a = cid) (rr_annotations r)) = (if cd_Status c = rev_accepted then 1 else 0)"
    unfolding count_distinct [OF rev_invD(3) [OF inv]] using rev_invD(4) [OF inv] acc by simp
  have "ae_ResourceID ` set (rr_audits r) = snd ` set (map (\<lambda>e. (ae_Action e, ae_ResourceID e)) (rr_audits r))" by force
  also have "\<dots> = show_int ` (rev_in_status rev_accepted r \<union> rev_in_status rev_rejected r)"
    unfolding rev_invD(6) [OF inv] by force
  finally have "show_int cid \<in> ae_ResourceID ` set (rr_audits r) \<longleftrightarrow> rev_decided (cd_Status c)"
    using acc by (auto simp: rev_decided_def inj_image_mem_iff inj_on_def)
  then show "length (filter (\<lambda>e. ae_ResourceID e = show_int cid) (rr_audits r)) = (if rev_decided (cd_Status c) then 1 else 0)"
    unfolding count_distinct [OF rev_invD(5) [OF inv]] by simp
qed

text \<open>
  C27. Through every history of candidate events and reviewer requests a stored candidate is decided at most
  once: it stays as it was stored, but for one decision that sets its status, its reviewer and its
  time, and stays as decided afterwards. It has one annotation exactly when it is accepted and one audit record
  exactly when it is decided, and both logs are only appended to.
\<close>

theorem rev_histories:
  assumes "rr_candidates (rev_after cs) cid = Some c"
  shows "(\<exists>c'. rr_candidates (rev_after (cs @ cs')) cid = Some c' \<and> rev_evolves c c') \<and>
     length (filter (\<lambda>a. ra_CandidateID a = cid) (rr_annotations (rev_after cs))) =
       (if cd_Status c = rev_accepted then 1 else 0) \<and>
     length (filter (\<lambda>e. ae_ResourceID e = show_int cid) (rr_audits (rev_after cs))) =
       (if rev_decided (cd_Status c) then 1 else 0) \<and>
     prefix (rr_annotations (rev_after cs)) (rr_annotations (rev_after (cs @ cs'))) \<and>
     prefix (rr_audits (rev_after cs)) (rr_audits (rev_after (cs @ cs')))"
  using rev_log_counts [OF rev_after_inv assms] rev_after_le [of cs cs'] assms unfolding rev_le_def by simp

lemma rev_get_stored:
  "rev_inv r \<Longrightarrow> rev_GetCandidate cid r = rr_candidates r cid"
  using rev_ok_normal(1) [OF rev_invD(2)]
  by (cases "rr_candidates r cid") (simp_all add: rev_GetCandidate_def rev_repo_GetCandidate_def)

lemma rev_no_scope:
  "rev_inv r \<Longrightarrow> rr_candidates r cid = Some c \<Longrightarrow> auth_RequireProjectAccess ctx (cd_ProjectID c) = Inr ()"
  using rev_invD(2) [of r cid c]
  by (simp add: rev_cand_ok_def auth_RequireProjectAccess_def auth_AllowsProject_def split: option.split)

lemma rev_handle_open:
  assumes "rev_inv r"
  shows "rev_handle_action ctx raw (Inr inp) r act =
     (case path_int64 raw of
        Inl e \<Rightarrow> (ReplyError StatusBadRequest e, r)
      | Inr cid \<Rightarrow>
          (case act cid (if ar_ReviewerID inp = [] then inp\<lparr>ar_ReviewerID := ''system''\<rparr> else inp) of
             (Inl e, r') \<Rightarrow> (ReplyError StatusBadRequest (HttpService e), r')
           | (Inr _, r') \<Rightarrow> (Reply StatusOK (), r')))"
proof -
  have "\<not> (case rev_GetCandidate cid r of None \<Rightarrow> False | Some c \<Rightarrow> auth_RequireProjectAccess ctx (cd_ProjectID c) \<noteq> Inr ())"
    for cid unfolding rev_get_stored [OF assms] using rev_no_scope [OF assms] by (simp split: option.split)
  then show ?thesis by (simp add: rev_handle_action_def Let_def split: sum.split)
qed

text \<open>
  What a decision depends on, written out apart from the code: who may decide on a candidate of a project, whether it is
  still open, and the status it is said to be in.
\<close>

definition rev_may_decide :: "auth_context \<Rightarrow> rev_Candidate \<Rightarrow> bool" where
  "rev_may_decide ctx c \<longleftrightarrow>
     (case ctx of
        None \<Rightarrow> True
      | Some i \<Rightarrow> cd_ProjectID c \<le> 0 \<or> cd_ProjectID c \<in> set (id_ProjectIDs i))"

definition rev_open :: "rev_Candidate \<Rightarrow> bool" where
  "rev_open c \<longleftrightarrow>
     cd_Status c \<in> {[], ''pending'', ''queued_for_review''} \<or> cd_ReviewStatus c \<in> {[], ''pending'', ''queued_for_review''}"

definition rev_closed_as :: "rev_Candidate \<Rightarrow> string" where
  "rev_closed_as c =
     (let st = (if cd_Status c = [] then cd_ReviewStatus c else cd_Status c)
      in if st \<in> {[], ''pending''} then ''queued_for_review'' else st)"

definition rev_recorded_reviewer :: "rev_ActionRequest \<Rightarrow> string" where
  "rev_recorded_reviewer inp = (if ar_ReviewerID inp = [] then ''system'' else ar_ReviewerID inp)"

lemma rev_open_iff: "(\<not> rev_isQueued (cd_Status c) \<and> \<not> rev_isQueued (cd_ReviewStatus c)) = (\<not> rev_open c)"
  by (auto simp: rev_open_def rev_isQueued_def rev_normalizeCandidateStatus_def rev_status_defs)

lemma rev_closed_as_eq: "rev_normalizeCandidateStatus (rev_shown_status c) = rev_closed_as c"
  by (simp add: rev_closed_as_def rev_shown_status_def rev_normalizeCandidateStatus_def rev_status_defs Let_def)

lemma rev_may_decide_iff: "auth_RequireProjectAccess ctx (cd_ProjectID c) = Inr () \<longleftrightarrow> rev_may_decide ctx c"
  by (auto simp: auth_RequireProjectAccess_def auth_AllowsProject_def rev_may_decide_def split: option.split)

lemma rev_looked_up:
  "(case rev_GetCandidate cid r of None \<Rightarrow> False | Some c \<Rightarrow> auth_RequireProjectAccess ctx (cd_ProjectID c) \<noteq> Inr ()) =
     (case rr_candidates r cid of None \<Rightarrow> False | Some c \<Rightarrow> \<not> rev_may_decide ctx c)"
  "(case rev_GetCandidate cid r of None \<Rightarrow> 0 | Some c \<Rightarrow> cd_ProjectID c) =
     (case rr_candidates r cid of None \<Rightarrow> 0 | Some c \<Rightarrow> cd_ProjectID c)"
  by (simp_all add: rev_may_decide_iff rev_GetCandidate_def rev_repo_GetCandidate_def rev_normalizeCandidate_def
      rev_may_decide_def Let_def split: option.split)

lemma rev_decide_any:
  "rev_decide cid r write =
     (case rr_candidates r cid of
        None \<Rightarrow> (Inl (RevCandidateNotFound cid), r)
      | Some c \<Rightarrow> if rev_open c then (Inr (), write c) else (Inl (RevCandidateIs (rev_closed_as c)), r))"
  unfolding rev_decide_def rev_open_iff rev_closed_as_eq by (simp split: option.split)

text \<open>
  C28. What a reviewer's request does, on every branch and on every store, whatever candidates it holds (reachable or seeded,
  of any project and in any status). An unparsable number and an undecodable body are answered 400; a candidate of a
  project outside the caller's scope 403; a reject without a reason, an unknown candidate and one whose two status
  fields are both past the queue 400 - each with its own error and none changes anything. Otherwise an
  accept closes the candidate with one annotation and one audit record, a reject with one audit record that holds the
  trimmed reason, both under the reviewer of the request or \<open>system\<close>, and nothing else changes.
\<close>

theorem rev_decisions_exact:
  "rev_HandleAccept now ctx raw body r =
     (case path_int64 raw of
        Inl e \<Rightarrow> (ReplyError StatusBadRequest e, r)
      | Inr cid \<Rightarrow>
          (case body of
             Inl e \<Rightarrow> (ReplyError StatusBadRequest (HttpDecode e), r)
           | Inr inp \<Rightarrow>
               (case rr_candidates r cid of
                  None \<Rightarrow> (ReplyError StatusBadRequest (HttpService (RevCandidateNotFound cid)), r)
                | Some c \<Rightarrow>
                    if \<not> rev_may_decide ctx c then (ReplyError StatusForbidden (HttpForbidden (cd_ProjectID c)), r)
                    else if \<not> rev_open c then (ReplyError StatusBadRequest (HttpService (RevCandidateIs (rev_closed_as c))), r)
                    else (Reply StatusOK (), rev_accepted_repo now cid (rev_recorded_reviewer inp) c r)))) \<and>
   rev_HandleReject now ctx raw body r =
     (case path_int64 raw of
        Inl e \<Rightarrow> (ReplyError StatusBadRequest e, r)
      | Inr cid \<Rightarrow>
          (case body of
             Inl e \<Rightarrow> (ReplyError StatusBadRequest (HttpDecode e), r)
           | Inr inp \<Rightarrow>
               let reason = trim_space (ar_ReasonCode inp) in
               (case rr_candidates r cid of
                  None \<Rightarrow>
                    (ReplyError StatusBadRequest (HttpService (if reason = [] then RevReasonRequired else RevCandidateNotFound cid)), r)
                | Some c \<Rightarrow>
                    if \<not> rev_may_decide ctx c then (ReplyError StatusForbidden (HttpForbidden (cd_ProjectID c)), r)
                    else if reason = [] then (ReplyError StatusBadRequest (HttpService RevReasonRequired), r)
                    else if \<not> rev_open c then (ReplyError StatusBadRequest (HttpService (RevCandidateIs (rev_closed_as c))), r)
                    else (Reply StatusOK (), rev_rejected_repo now cid (rev_recorded_reviewer inp) reason c r))))"
proof -
  have accept: "rev_AcceptCandidate now cid who r =
      (case rr_candidates r cid of
         None \<Rightarrow> (Inl (RevCandidateNotFound cid), r)
       | Some c \<Rightarrow> if rev_open c then (Inr (), rev_accepted_repo now cid who c r)
                   else (Inl (RevCandidateIs (rev_closed_as c)), r))" for cid who
    unfolding rev_AcceptCandidate_def rev_repo_Accept_def rev_decide_any rev_closed_def [symmetric]
    by (simp add: rev_closed_normal rev_accepted_repo_def split: option.split)
  have reject: "rev_RejectCandidate now cid who why r =
      (if trim_space why = [] then (Inl RevReasonRequired, r)
       else case rr_candidates r cid of
         None \<Rightarrow> (Inl (RevCandidateNotFound cid), r)
       | Some c \<Rightarrow> if rev_open c then (Inr (), rev_rejected_repo now cid who (trim_space why) c r)
                   else (Inl (RevCandidateIs (rev_closed_as c)), r))" for cid who why
    unfolding rev_RejectCandidate_def rev_repo_Reject_def rev_decide_any rev_closed_def [symmetric] Let_def
    by (simp add: rev_closed_normal rev_rejected_repo_def split: option.split)
  show ?thesis
    unfolding rev_HandleAccept_def rev_HandleReject_def rev_handle_action_def Let_def rev_looked_up accept reject
    by (simp add: rev_recorded_reviewer_def split: sum.split option.split)
qed

text \<open>
  In a reachable store the scope of the caller plays no role: candidates are stored without a project, and
  every scope allows project 0. So a caller that is confined to some projects is shown the queued candidates
  of all of them, as if it had no scope, and a decision is never refused as forbidden.
\<close>

theorem rev_scope_vacuous:
  assumes "set ks \<subseteq> dom (rr_candidates (rev_after cs))"
  shows "rev_HandleListCandidates ks ctx (rev_after cs) =
       Reply StatusOK (filter (\<lambda>c. cd_Status c = rev_StatusQueuedForReview) (map (\<lambda>k. the (rr_candidates (rev_after cs) k)) ks)) \<and>
     reply_status (fst (rev_HandleAccept now ctx raw body (rev_after cs))) \<noteq> StatusForbidden \<and>
     reply_status (fst (rev_HandleReject now ctx raw body (rev_after cs))) \<noteq> StatusForbidden"
proof -
  let ?r = "rev_after cs" and ?xs = "map (\<lambda>k. the (rr_candidates (rev_after cs) k)) ks"
  have ok: "\<exists>cid. rev_cand_ok (rr_nextID ?r) cid c" if "c \<in> set ?xs" for c
    using that assms rev_invD(2) [OF rev_after_inv, of cs] by fastforce
  have norm: "rev_normalizeCandidate c = c" "rev_isQueued (rev_shown_status c) \<longleftrightarrow> cd_Status c = rev_StatusQueuedForReview"
    "cd_ProjectID c = 0" if "c \<in> set ?xs" for c
    using ok [OF that] rev_ok_normal by (auto simp: rev_cand_ok_def)
  have "filter (\<lambda>c. rev_isQueued (rev_shown_status c)) ?xs = filter (\<lambda>c. cd_Status c = rev_StatusQueuedForReview) ?xs"
    by (rule filter_cong [OF refl]) (rule norm(2))
  then have "rev_ListCandidates ks ?r = filter (\<lambda>c. cd_Status c = rev_StatusQueuedForReview) ?xs"
    unfolding rev_ListCandidates_def rev_repo_ListPending_def map_map
    by (simp only:) (rule map_idI, simp add: norm(1) del: set_map)
  moreover have "filter (\<lambda>c. auth_AllowsProject i (cd_ProjectID c)) (filter (\<lambda>c. cd_Status c = rev_StatusQueuedForReview) ?xs) =
      filter (\<lambda>c. cd_Status c = rev_StatusQueuedForReview) ?xs" for i
    by (rule filter_True) (simp add: auth_AllowsProject_def norm(3) del: set_map)
  ultimately have "rev_HandleListCandidates ks ctx ?r =
       Reply StatusOK (filter (\<lambda>c. cd_Status c = rev_StatusQueuedForReview) ?xs)"
    by (simp add: rev_HandleListCandidates_def Let_def split: option.split)
  moreover have "reply_status (fst (rev_handle_action ctx raw body ?r act)) \<noteq> StatusForbidden" for act
  proof (cases body)
    case (Inr inp)
    then show ?thesis
      by (auto simp: rev_handle_open [OF rev_after_inv] http_status_defs split: sum.split prod.split)
  qed (simp add: rev_handle_action_def http_status_defs split: sum.split)
  ultimately show ?thesis by (simp add: rev_HandleAccept_def rev_HandleReject_def)
qed

text \<open>
  The job service over the review service: an event with candidates either fails and
  changes neither service, or stores one queued candidate for each it was given, under new numbers and with the job
  as their source, forgets none, and leaves one event and the result with these numbers on the job.
\<close>

theorem rev_event_materializes:
  assumes "jr_byID (svc_repo s) jid = Some a" and "svc_reviewSink s = Some (rev_after cs)"
    and "trim_space msg \<noteq> []" and "map_of detail ''candidates'' = Some raw" and "decode raw = Inr cands" and "cands \<noteq> []"
    and "jobs_ReportEvent (rev_sink now) decode clk jid None level ''review_candidates_materialized'' msg (Some detail) s = (res, s')"
  shows "(\<exists>e. res = Inl (ExternalError e) \<and> s' = s) \<or>
     (\<exists>ids r'. res = Inr () \<and> svc_reviewSink s' = Some r' \<and> rev_sourced r' \<and> distinct ids \<and> length ids = length cands \<and>
        (\<forall>i\<in>set ids. rev_job_of (rev_after cs) i = None \<and> rev_job_of r' i = Some jid) \<and>
        (\<forall>i. rev_job_of (rev_after cs) i \<noteq> None \<longrightarrow> rev_job_of r' i = rev_job_of (rev_after cs) i) \<and>
        jobs_logged_result jid ids (svc_repo s) (svc_repo s'))"
  by (rule rev_as_sink.event_spec [OF rev_after_sourced assms(2,1,3-7)])

subsection \<open>Concrete histories\<close>

definition rev_sample :: "rev_call list" where
  "rev_sample = [RevPersist 5 7 [jobs_candidate, jobs_candidate]]"

definition rev_sample_candidate :: "int \<Rightarrow> rev_Candidate" where
  "rev_sample_candidate cid =
     \<lparr>cd_ID = cid, cd_ProjectID = 0, cd_DatasetID = 1, cd_SnapshotID = 1, cd_ItemID = 4, cd_ObjectKey = ''a.jpg'',
      cd_CategoryID = 2, cd_BBox = \<lparr>bb_X = 0, bb_Y = 0, bb_W = 1, bb_H = 1\<rparr>,
      cd_Status = rev_StatusQueuedForReview, cd_ReviewStatus = rev_StatusQueuedForReview, cd_ReviewerID = [],
      cd_ReviewedAt = zero_time, cd_Source = \<lparr>cs_JobID = Some 7, cs_Confidence = None, cs_ModelName = ''m'',
        cs_IsPseudo = True, cs_CreatedAt = Some 5\<rparr>\<rparr>"

lemma rev_sample_checks:
  "rev_checkItem (rev_sinkInput jobs_candidate) = Inr ((rev_sinkInput jobs_candidate)\<lparr>pc_IsPseudo := True\<rparr>)"
proof -
  have "trim_space ''cat'' = ''cat''" "trim_space ''m'' = ''m''"
    by (rule trimmed_trim_space_id, simp add: trimmed_def is_space_def)+
  then show ?thesis by (simp add: rev_checkItem_def rev_sinkInput_def jobs_candidate_def)
qed

lemma rev_sample_store:
  "rev_after rev_sample =
     (let x = (rev_sinkInput jobs_candidate)\<lparr>pc_IsPseudo := True\<rparr>
      in rev_put_new 5 7 x (rev_put_new 5 7 x rev_NewInMemoryRepository))"
  by (simp add: rev_after_def rev_sample_def rev_sink_def rev_PersistCandidates_def rev_sample_checks
      rev_persist_Cons Let_def)

lemma rev_sample_candidates:
  "rr_candidates (rev_after rev_sample) = [1 \<mapsto> rev_sample_candidate 1, 2 \<mapsto> rev_sample_candidate 2]"
  by (simp add: rev_sample_store rev_put_new_def rev_NewInMemoryRepository_def rev_newCandidate_def rev_normalizeCandidate_def
      rev_sinkInput_def jobs_candidate_def rev_sample_candidate_def Let_def)

definition rev_sample_accept :: rev_call where
  "rev_sample_accept = RevAccept 6 None ''1'' (Inr \<lparr>ar_ReviewerID = ''rev'', ar_ReasonCode = []\<rparr>)"

theorem rev_histories_witness:
  "\<exists>c'. rr_candidates (rev_after (rev_sample @ [rev_sample_accept])) 1 = Some c' \<and> rev_evolves (rev_sample_candidate 1) c'"
  using rev_histories [of rev_sample 1 "rev_sample_candidate 1" "[rev_sample_accept]"] by (simp add: rev_sample_candidates)

theorem rev_scope_vacuous_witness:
  "rev_HandleListCandidates [1, 2] (Some \<lparr>id_Actor = ''a'', id_ProjectIDs = [9]\<rparr>) (rev_after rev_sample) =
     Reply StatusOK [rev_sample_candidate 1, rev_sample_candidate 2]"
  using rev_scope_vacuous [of "[1, 2]" rev_sample "Some \<lparr>id_Actor = ''a'', id_ProjectIDs = [9]\<rparr>"]
  by (simp add: rev_sample_candidates rev_sample_candidate_def)

theorem rev_event_materializes_witness:
  "fst (jobs_ReportEvent (rev_sink 6) (\<lambda>_. Inr [jobs_candidate]) (\<lambda>_. 6) 1 None ''info''
     ''review_candidates_materialized'' ''m'' (Some [(''candidates'', GArr [])])
     (jobs_start (None :: unit option) (Some (rev_after rev_sample)) jobs_one)) \<noteq> Inl (JobNotFound 1)"
proof -
  let ?s = "jobs_start (None :: unit option) (Some (rev_after rev_sample)) jobs_one"
  have m: "trim_space ''m'' \<noteq> []" by (simp add: trim_space_def trim_left_def is_space_def)
  obtain res s' where run: "jobs_ReportEvent (rev_sink 6) (\<lambda>_. Inr [jobs_candidate]) (\<lambda>_. 6) 1 None ''info''
     ''review_candidates_materialized'' ''m'' (Some [(''candidates'', GArr [])]) ?s = (res, s')" by force
  have "jr_byID (svc_repo ?s) 1 = Some (jobs_newJob 1 1 (jobs_req ''export'' ''k''))" by (simp add: jobs_one_job)
  from rev_event_materializes [OF this _ m _ _ _ run, of rev_sample "GArr []"] show ?thesis unfolding run by auto
qed

end
