(* ===== verification/Versioning.thy ===== *)
theory Versioning
  imports Http "HOL-Library.Multiset"
begin

section \<open>Versioning: the difference of two snapshots\<close>

text \<open>
  \<open>internal/versioning\<close>: the service that matches the boxes of two snapshots, and its handler.
  A \<open>float64\<close> is a real: rounding, infinities and NaN are not modelled. The loops over
  Go maps take their visiting order as an argument: \<open>ks\<close> for the groups, \<open>cks\<close> for the
  categories. The annotations of a snapshot, which the repository reads with SQL, are an argument
  of \<open>ver_DiffBySnapshotIDs\<close>.
\<close>

record ver_Annotation =
  va_ItemID :: int
  va_CategoryID :: int
  va_BBoxX :: real
  va_BBoxY :: real
  va_BBoxW :: real
  va_BBoxH :: real

record ver_Change =
  vc_ItemID :: int
  vc_CategoryID :: int
  vc_Before :: "ver_Annotation option"
  vc_After :: "ver_Annotation option"
  vc_IOU :: real

record ver_CategoryDelta =
  vd_CategoryID :: int
  vd_AddedCount :: int
  vd_RemovedCount :: int
  vd_UpdatedCount :: int
  vd_NetBoxDelta :: int

record ver_DiffStats =
  vs_AddedCount :: int
  vs_RemovedCount :: int
  vs_UpdatedCount :: int
  vs_TotalBoxDelta :: int
  vs_AverageIOUDrift :: real
  vs_PerCategoryDelta :: "ver_CategoryDelta list"

record ver_DiffResult =
  vr_Adds :: "ver_Change list"
  vr_Removes :: "ver_Change list"
  vr_Updates :: "ver_Change list"
  vr_Stats :: ver_DiffStats
  vr_CompatibilityScore :: real

record ver_bboxKey =
  bx_x :: real
  bx_y :: real
  bx_w :: real
  bx_h :: real

subsection \<open>Groups\<close>

definition ver_groupKey :: "int \<Rightarrow> int \<Rightarrow> string" where
  "ver_groupKey itemID categoryID = show_int itemID @ '':'' @ show_int categoryID"

definition ver_addToGroup :: "(string \<rightharpoonup> ver_Annotation list) \<Rightarrow> ver_Annotation \<Rightarrow> (string \<rightharpoonup> ver_Annotation list)" where
  "ver_addToGroup m a =
     (let k = ver_groupKey (va_ItemID a) (va_CategoryID a) in m(k \<mapsto> slice_at m k @ [a]))"

definition ver_groups :: "ver_Annotation list \<Rightarrow> (string \<rightharpoonup> ver_Annotation list)" where
  "ver_groups items = foldl ver_addToGroup Map.empty items"

subsection \<open>Exact matches\<close>

definition ver_sameBBox :: "ver_Annotation \<Rightarrow> ver_Annotation \<Rightarrow> bool" where
  "ver_sameBBox a b \<longleftrightarrow>
     va_BBoxX a = va_BBoxX b \<and> va_BBoxY a = va_BBoxY b \<and> va_BBoxW a = va_BBoxW b \<and> va_BBoxH a = va_BBoxH b"

definition ver_key :: "ver_Annotation \<Rightarrow> ver_bboxKey" where
  "ver_key a = \<lparr>bx_x = va_BBoxX a, bx_y = va_BBoxY a, bx_w = va_BBoxW a, bx_h = va_BBoxH a\<rparr>"

type_synonym ver_index = "ver_bboxKey \<rightharpoonup> nat list"

fun ver_indexFrom :: "nat \<Rightarrow> ver_Annotation list \<Rightarrow> ver_index \<Rightarrow> ver_index" where
  "ver_indexFrom idx [] index = index"
| "ver_indexFrom idx (item # items) index =
     ver_indexFrom (Suc idx) items (index(ver_key item \<mapsto> slice_at index (ver_key item) @ [idx]))"

definition ver_buildExactMatchIndex :: "ver_Annotation list \<Rightarrow> ver_index" where
  "ver_buildExactMatchIndex items = ver_indexFrom 0 items Map.empty"

fun ver_claim :: "ver_bboxKey \<Rightarrow> bool list \<Rightarrow> nat list \<Rightarrow> ver_index \<Rightarrow> nat option \<times> ver_index" where
  "ver_claim k matchedAfter [] index = (None, index)"
| "ver_claim k matchedAfter (idx # candidates) index =
     (let index' = index(k \<mapsto> candidates)
      in if matchedAfter ! idx then ver_claim k matchedAfter candidates index' else (Some idx, index'))"

definition ver_claimExactMatch :: "ver_index \<Rightarrow> ver_Annotation \<Rightarrow> bool list \<Rightarrow> nat option \<times> ver_index" where
  "ver_claimExactMatch index item matchedAfter =
     (let k = ver_key item in ver_claim k matchedAfter (slice_at index k) index)"

text \<open>The first loop over \<open>beforeItems\<close>: the new \<open>matchedBefore\<close> and \<open>matchedAfter\<close>.\<close>

fun ver_exactPhase :: "ver_Annotation list \<Rightarrow> ver_index \<Rightarrow> bool list \<Rightarrow> bool list \<times> bool list" where
  "ver_exactPhase [] index matchedAfter = ([], matchedAfter)"
| "ver_exactPhase (b # bs) index matchedAfter =
     (case ver_claimExactMatch index b matchedAfter of
        (Some ai, index') \<Rightarrow>
          (let (mb, ma) = ver_exactPhase bs index' (matchedAfter[ai := True]) in (True # mb, ma))
      | (None, index') \<Rightarrow>
          (let (mb, ma) = ver_exactPhase bs index' matchedAfter in (False # mb, ma)))"

subsection \<open>Overlap\<close>

definition ver_bboxIOU :: "ver_Annotation \<Rightarrow> ver_Annotation \<Rightarrow> real" where
  "ver_bboxIOU a b =
     (let ax2 = va_BBoxX a + va_BBoxW a; ay2 = va_BBoxY a + va_BBoxH a;
          bx2 = va_BBoxX b + va_BBoxW b; by2 = va_BBoxY b + va_BBoxH b;
          interW = max 0 (min ax2 bx2 - max (va_BBoxX a) (va_BBoxX b));
          interH = max 0 (min ay2 by2 - max (va_BBoxY a) (va_BBoxY b));
          inter = interW * interH
      in if inter = 0 then 0
         else
           let aArea = va_BBoxW a * va_BBoxH a; bArea = va_BBoxW b * va_BBoxH b;
               denom = aArea + bArea - inter
           in if denom \<le> 0 then 0 else inter / denom)"

text \<open>
  The search for the best remaining box: \<open>None\<close> is the index \<open>-1\<close>.
\<close>

fun ver_best :: "ver_Annotation \<Rightarrow> bool list \<Rightarrow> nat \<Rightarrow> ver_Annotation list \<Rightarrow> nat option \<times> real \<Rightarrow> nat option \<times> real" where
  "ver_best b matchedAfter ai [] best = best"
| "ver_best b matchedAfter ai (a # as) best =
     ver_best b matchedAfter (Suc ai) as
       (if matchedAfter ! ai then best
        else let iou = ver_bboxIOU b a in if iou > snd best then (Some ai, iou) else best)"

subsection \<open>The changes of a group\<close>

text \<open>What the loop over the groups writes.\<close>

record ver_acc =
  ac_Adds :: "ver_Change list"
  ac_Removes :: "ver_Change list"
  ac_Updates :: "ver_Change list"
  ac_iouSum :: real
  ac_delta :: "int \<rightharpoonup> ver_CategoryDelta"

definition ver_emptyAcc :: ver_acc where
  "ver_emptyAcc = \<lparr>ac_Adds = [], ac_Removes = [], ac_Updates = [], ac_iouSum = 0, ac_delta = Map.empty\<rparr>"

text \<open>\<open>recordCategoryDelta\<close> gives a pointer, through which the caller counts; \<open>write\<close> is that count.\<close>

definition ver_recordCategoryDelta ::
  "(ver_CategoryDelta \<Rightarrow> ver_CategoryDelta) \<Rightarrow> int \<Rightarrow> (int \<rightharpoonup> ver_CategoryDelta) \<Rightarrow> (int \<rightharpoonup> ver_CategoryDelta)" where
  "ver_recordCategoryDelta write c items =
     items(c \<mapsto> write (case items c of
         Some d \<Rightarrow> d
       | None \<Rightarrow> \<lparr>vd_CategoryID = c, vd_AddedCount = 0, vd_RemovedCount = 0, vd_UpdatedCount = 0, vd_NetBoxDelta = 0\<rparr>))"

definition ver_update :: "ver_Annotation \<Rightarrow> ver_Annotation \<Rightarrow> real \<Rightarrow> ver_acc \<Rightarrow> ver_acc" where
  "ver_update b a iou acc =
     acc\<lparr>ac_Updates := ac_Updates acc @ [\<lparr>vc_ItemID = va_ItemID a, vc_CategoryID = va_CategoryID a,
           vc_Before = Some b, vc_After = Some a, vc_IOU = iou\<rparr>],
         ac_iouSum := ac_iouSum acc + iou,
         ac_delta := ver_recordCategoryDelta (\<lambda>d. d\<lparr>vd_UpdatedCount := vd_UpdatedCount d + 1\<rparr>) (va_CategoryID a) (ac_delta acc)\<rparr>"

definition ver_remove :: "ver_Annotation \<Rightarrow> ver_acc \<Rightarrow> ver_acc" where
  "ver_remove b acc =
     acc\<lparr>ac_Removes := ac_Removes acc @ [\<lparr>vc_ItemID = va_ItemID b, vc_CategoryID = va_CategoryID b,
           vc_Before = Some b, vc_After = None, vc_IOU = 0\<rparr>],
         ac_delta := ver_recordCategoryDelta
           (\<lambda>d. d\<lparr>vd_RemovedCount := vd_RemovedCount d + 1, vd_NetBoxDelta := vd_NetBoxDelta d - 1\<rparr>)
           (va_CategoryID b) (ac_delta acc)\<rparr>"

definition ver_add :: "ver_Annotation \<Rightarrow> ver_acc \<Rightarrow> ver_acc" where
  "ver_add a acc =
     acc\<lparr>ac_Adds := ac_Adds acc @ [\<lparr>vc_ItemID = va_ItemID a, vc_CategoryID = va_CategoryID a,
           vc_Before = None, vc_After = Some a, vc_IOU = 0\<rparr>],
         ac_delta := ver_recordCategoryDelta
           (\<lambda>d. d\<lparr>vd_AddedCount := vd_AddedCount d + 1, vd_NetBoxDelta := vd_NetBoxDelta d + 1\<rparr>)
           (va_CategoryID a) (ac_delta acc)\<rparr>"

text \<open>
  The second loop over \<open>beforeItems\<close>, over the pairs of an item and its flag. Its own writes to
  \<open>matchedBefore\<close> are never read.
\<close>

fun ver_matchPhase ::
  "real \<Rightarrow> ver_Annotation list \<Rightarrow> (ver_Annotation \<times> bool) list \<Rightarrow> bool list \<Rightarrow> ver_acc \<Rightarrow> bool list \<times> ver_acc" where
  "ver_matchPhase thr afterItems [] matchedAfter acc = (matchedAfter, acc)"
| "ver_matchPhase thr afterItems ((b, matched) # bs) matchedAfter acc =
     (if matched then ver_matchPhase thr afterItems bs matchedAfter acc
      else
        case ver_best b matchedAfter 0 afterItems (None, 0) of
          (Some ai, iou) \<Rightarrow>
            if thr \<le> iou
            then ver_matchPhase thr afterItems bs (matchedAfter[ai := True]) (ver_update b (afterItems ! ai) iou acc)
            else ver_matchPhase thr afterItems bs matchedAfter (ver_remove b acc)
        | (None, iou) \<Rightarrow> ver_matchPhase thr afterItems bs matchedAfter (ver_remove b acc))"

fun ver_addPhase :: "(ver_Annotation \<times> bool) list \<Rightarrow> ver_acc \<Rightarrow> ver_acc" where
  "ver_addPhase [] acc = acc"
| "ver_addPhase ((a, matched) # as) acc = ver_addPhase as (if matched then acc else ver_add a acc)"

definition ver_diffGroup :: "real \<Rightarrow> ver_Annotation list \<Rightarrow> ver_Annotation list \<Rightarrow> ver_acc \<Rightarrow> ver_acc" where
  "ver_diffGroup thr beforeItems afterItems acc =
     (let (mb, ma) = ver_exactPhase beforeItems (ver_buildExactMatchIndex afterItems) (replicate (length afterItems) False);
          (ma', acc') = ver_matchPhase thr afterItems (zip beforeItems mb) ma acc
      in ver_addPhase (zip afterItems ma') acc')"

subsection \<open>The result\<close>

fun ver_maxInt :: "int list \<Rightarrow> int \<Rightarrow> int" where
  "ver_maxInt [] m = m"
| "ver_maxInt (v # vs) m = ver_maxInt vs (if v > m then v else m)"

definition ver_clamp01 :: "real \<Rightarrow> real" where
  "ver_clamp01 v = (if v < 0 then 0 else if v > 1 then 1 else v)"

definition ver_compatibilityScore :: "int \<Rightarrow> int \<Rightarrow> int \<Rightarrow> int \<Rightarrow> ver_Change list \<Rightarrow> real" where
  "ver_compatibilityScore beforeCount afterCount addedCount removedCount updates =
     (let baseline = ver_maxInt [afterCount, 1] beforeCount;
          exactMatches = baseline - addedCount - removedCount - int (length updates);
          weightedSimilarity = foldl (\<lambda>w u. w + vc_IOU u) (real_of_int exactMatches) updates
      in ver_clamp01 (weightedSimilarity / real_of_int baseline))"

definition ver_flattenCategoryDelta :: "int list \<Rightarrow> (int \<rightharpoonup> ver_CategoryDelta) \<Rightarrow> ver_CategoryDelta list" where
  "ver_flattenCategoryDelta cks items = sort_key vd_CategoryID (map (\<lambda>c. the (items c)) cks)"

definition ver_threshold :: "real \<Rightarrow> real" where
  "ver_threshold iouThreshold = (if iouThreshold \<le> 0 then 1 / 2 else iouThreshold)"

definition ver_changes :: "string list \<Rightarrow> ver_Annotation list \<Rightarrow> ver_Annotation list \<Rightarrow> real \<Rightarrow> ver_acc" where
  "ver_changes ks before after iouThreshold =
     foldl (\<lambda>acc k. ver_diffGroup (ver_threshold iouThreshold) (slice_at (ver_groups before) k) (slice_at (ver_groups after) k) acc)
       ver_emptyAcc ks"

definition ver_DiffSnapshots ::
  "string list \<Rightarrow> int list \<Rightarrow> ver_Annotation list \<Rightarrow> ver_Annotation list \<Rightarrow> real \<Rightarrow> ver_DiffResult" where
  "ver_DiffSnapshots ks cks before after iouThreshold =
     (let acc = ver_changes ks before after iouThreshold;
          na = int (length (ac_Adds acc)); nr = int (length (ac_Removes acc)); nu = int (length (ac_Updates acc))
      in \<lparr>vr_Adds = ac_Adds acc, vr_Removes = ac_Removes acc, vr_Updates = ac_Updates acc,
          vr_Stats = \<lparr>vs_AddedCount = na, vs_RemovedCount = nr, vs_UpdatedCount = nu, vs_TotalBoxDelta = na - nr,
            vs_AverageIOUDrift = (if nu > 0 then ac_iouSum acc / real_of_int nu else 0),
            vs_PerCategoryDelta = ver_flattenCategoryDelta cks (ac_delta acc)\<rparr>,
          vr_CompatibilityScore = ver_compatibilityScore (int (length before)) (int (length after)) na nr (ac_Updates acc)\<rparr>)"

datatype ver_error =
    VerRepositoryMissing
  | VerRepository string

definition ver_DiffBySnapshotIDs ::
  "(int \<Rightarrow> string + ver_Annotation list) option \<Rightarrow> string list \<Rightarrow> int list \<Rightarrow> int \<Rightarrow> int \<Rightarrow> real \<Rightarrow> ver_error + ver_DiffResult" where
  "ver_DiffBySnapshotIDs repo ks cks beforeID afterID iouThreshold =
     (case repo of
        None \<Rightarrow> Inl VerRepositoryMissing
      | Some listEffective \<Rightarrow>
          (case listEffective beforeID of
             Inl e \<Rightarrow> Inl (VerRepository e)
           | Inr before \<Rightarrow>
               (case listEffective afterID of
                  Inl e \<Rightarrow> Inl (VerRepository e)
                | Inr after \<Rightarrow> Inr (ver_DiffSnapshots ks cks before after iouThreshold))))"

subsection \<open>The handler\<close>

record ver_DiffRequest =
  vq_BeforeSnapshotID :: int
  vq_AfterSnapshotID :: int
  vq_Before :: "ver_Annotation list"
  vq_After :: "ver_Annotation list"
  vq_IOUThreshold :: real

definition ver_HandleDiff ::
  "(int \<Rightarrow> string + ver_Annotation list) option \<Rightarrow> string list \<Rightarrow> int list \<Rightarrow> string + ver_DiffRequest \<Rightarrow>
     (ver_error http_error, ver_DiffResult) reply" where
  "ver_HandleDiff repo ks cks body =
     (case body of
        Inl e \<Rightarrow> ReplyError StatusBadRequest (HttpDecode e)
      | Inr rq \<Rightarrow>
          if vq_BeforeSnapshotID rq > 0 \<or> vq_AfterSnapshotID rq > 0
          then (case ver_DiffBySnapshotIDs repo ks cks (vq_BeforeSnapshotID rq) (vq_AfterSnapshotID rq) (vq_IOUThreshold rq) of
                  Inl e \<Rightarrow> ReplyError StatusBadRequest (HttpService e)
                | Inr out \<Rightarrow> Reply StatusOK out)
          else Reply StatusOK (ver_DiffSnapshots ks cks (vq_Before rq) (vq_After rq) (vq_IOUThreshold rq)))"

end
