(* ===== verification/Versioning_Facts.thy ===== *)
theory Versioning_Facts
  imports Versioning
begin

section \<open>Versioning: the matching against multisets\<close>

text \<open>
  What the two matching loops leave unmatched, as multisets of boxes. The exact phase is proved
  against the contract \<open>claim_pool\<close> of an index that hands out equal boxes, which the index
  of the code interprets.
\<close>

subsection \<open>Flags and the boxes they leave free\<close>

definition ver_free :: "'a list \<Rightarrow> bool list \<Rightarrow> 'a multiset" where
  "ver_free xs fs = mset (map fst (filter (\<lambda>(x, f). \<not> f) (zip xs fs)))"

lemma ver_free_simps [simp]:
  "ver_free [] fs = {#}" "ver_free (x # xs) (f # fs) = (if f then ver_free xs fs else add_mset x (ver_free xs fs))"
  by (simp_all add: ver_free_def)

lemma ver_free_replicate [simp]: "ver_free xs (replicate (length xs) False) = mset xs"
  by (induction xs) simp_all

lemma ver_free_take:
  "length fs = length xs \<Longrightarrow> i < length xs \<Longrightarrow> \<not> fs ! i \<Longrightarrow>
     xs ! i \<in># ver_free xs fs \<and> ver_free xs (fs[i := True]) = ver_free xs fs - {#xs ! i#}"
proof (induction fs xs arbitrary: i rule: list_induct2)
  case (Cons f fs x xs)
  show ?case
  proof (cases i)
    case 0
    with Cons.prems show ?thesis by simp
  next
    case (Suc j)
    with Cons.IH [of j] Cons.prems have "xs ! j \<in># ver_free xs fs" "ver_free xs (fs[j := True]) = ver_free xs fs - {#xs ! j#}"
      by simp_all
    with Suc show ?thesis by (auto simp: insert_DiffM2 add_mset_diff_bothsides multiset_eq_iff)
  qed
qed simp

lemma ver_free_mem: "length fs = length xs \<Longrightarrow> a \<in># ver_free xs fs \<longleftrightarrow> (\<exists>i<length xs. \<not> fs ! i \<and> xs ! i = a)"
proof (induction fs xs rule: list_induct2)
  case (Cons f fs x xs)
  have "(\<exists>i<length (x # xs). \<not> (f # fs) ! i \<and> (x # xs) ! i = a) \<longleftrightarrow>
      (\<not> f \<and> x = a) \<or> (\<exists>i<length xs. \<not> fs ! i \<and> xs ! i = a)"
    by (auto simp: less_Suc_eq_0_disj)
  with Cons.IH show ?case by auto
qed simp

subsection \<open>The exact phase over any pool\<close>

fun pool_run :: "('a \<Rightarrow> 's \<Rightarrow> bool \<times> 's) \<Rightarrow> 'a list \<Rightarrow> 's \<Rightarrow> bool list \<times> 's" where
  "pool_run claim [] s = ([], s)"
| "pool_run claim (a # as) s = (let (f, s') = claim a s; (fs, s'') = pool_run claim as s' in (f # fs, s''))"

locale claim_pool =
  fixes claim :: "'a \<Rightarrow> 's \<Rightarrow> bool \<times> 's" and pool :: "'s \<Rightarrow> 'a multiset" and inv :: "'s \<Rightarrow> bool" and fits :: "'a \<Rightarrow> bool"
  assumes hit: "inv s \<Longrightarrow> fits a \<Longrightarrow> a \<in># pool s \<Longrightarrow> \<exists>s'. claim a s = (True, s') \<and> inv s' \<and> pool s' = pool s - {#a#}"
    and miss: "inv s \<Longrightarrow> fits a \<Longrightarrow> a \<notin># pool s \<Longrightarrow> \<exists>s'. claim a s = (False, s') \<and> inv s' \<and> pool s' = pool s"
begin

lemma run_spec:
  "inv s \<Longrightarrow> (\<And>a. a \<in> set as \<Longrightarrow> fits a) \<Longrightarrow> pool_run claim as s = (fs, s') \<Longrightarrow>
     inv s' \<and> pool s' = pool s - mset as \<and> length fs = length as \<and> ver_free as fs = mset as - pool s"
proof (induction as arbitrary: s fs)
  case (Cons a as)
  obtain f s1 where c: "claim a s = (f, s1)" by force
  obtain gs where r: "pool_run claim as s1 = (gs, s')" "fs = f # gs" using Cons.prems(3) by (auto simp: c split: prod.splits)
  have fits: "\<And>a. a \<in> set as \<Longrightarrow> fits a" using Cons.prems(2) by simp
  show ?case
  proof (cases "a \<in># pool s")
    case True
    then have h: "f" "inv s1" "pool s1 = pool s - {#a#}" using hit [OF Cons.prems(1), of a] Cons.prems(2) c by auto
    from Cons.IH [OF h(2) fits r(1)] have
      "inv s'" "pool s' = pool s - {#a#} - mset as" "length gs = length as" "ver_free as gs = mset as - (pool s - {#a#})"
      by (simp_all add: h(3))
    moreover have "mset as - (pool s - {#a#}) = mset (a # as) - pool s"
      using True by (metis insert_DiffM mset.simps(2) add_mset_diff_bothsides)
    ultimately show ?thesis using h(1) by (simp add: r(2))
  next
    case False
    then have h: "\<not> f" "inv s1" "pool s1 = pool s" using miss [OF Cons.prems(1), of a] Cons.prems(2) c by auto
    from Cons.IH [OF h(2) fits r(1)] False h(1) show ?thesis
      by (simp add: h(3) r(2))
  qed
qed simp

end

subsection \<open>The index of the code\<close>

text \<open>The numbers of the boxes with a key that are still free, in order.\<close>

definition ver_slots :: "ver_Annotation list \<Rightarrow> bool list \<Rightarrow> ver_bboxKey \<Rightarrow> nat list" where
  "ver_slots after ma k = filter (\<lambda>i. ver_key (after ! i) = k \<and> \<not> ma ! i) [0..<length after]"

definition ver_index_ok :: "ver_Annotation list \<Rightarrow> ver_index \<times> bool list \<Rightarrow> bool" where
  "ver_index_ok after s \<longleftrightarrow> length (snd s) = length after \<and> (\<forall>k. slice_at (fst s) k = ver_slots after (snd s) k)"

lemma ver_indexFrom_slots:
  "slice_at (ver_indexFrom n (drop n after) index) k =
     slice_at index k @ filter (\<lambda>i. ver_key (after ! i) = k) [n..<length after]"
proof (induction "length after - n" arbitrary: n index)
  case 0
  then show ?case by simp
next
  case (Suc m)
  then have n: "n < length after" "m = length after - Suc n" by simp_all
  have "drop n after = after ! n # drop (Suc n) after" using n(1) by (rule Cons_nth_drop_Suc [symmetric])
  moreover have "[n..<length after] = n # [Suc n..<length after]" using n(1) by (rule upt_conv_Cons)
  ultimately show ?case using Suc.hyps(1) [OF n(2)] by simp
qed

lemma ver_build_ok: "ver_index_ok after (ver_buildExactMatchIndex after, replicate (length after) False)"
proof -
  have "filter (\<lambda>i. ver_key (after ! i) = k) [0..<length after] = ver_slots after (replicate (length after) False) k" for k
    unfolding ver_slots_def by (rule filter_cong) simp_all
  then show ?thesis using ver_indexFrom_slots [of 0 after Map.empty]
    by (simp add: ver_index_ok_def ver_buildExactMatchIndex_def)
qed

lemma filter_without_first:
  "filter P xs = y # ys \<Longrightarrow> distinct xs \<Longrightarrow> filter (\<lambda>x. P x \<and> x \<noteq> y) xs = ys"
proof (induction xs)
  case (Cons x xs)
  show ?case
  proof (cases "P x")
    case True
    with Cons.prems have "x = y" "filter P xs = ys" "y \<notin> set xs" by auto
    moreover from this have "filter (\<lambda>x. P x \<and> x \<noteq> y) xs = filter P xs" by (auto intro: filter_cong)
    ultimately show ?thesis by simp
  next
    case False
    with Cons show ?thesis by simp
  qed
qed simp

lemma ver_slots_first:
  assumes "ver_slots after ma k = i # js" and len: "length ma = length after"
  shows "i < length after" "\<not> ma ! i" "ver_key (after ! i) = k"
    and "ver_slots after (ma[i := True]) k' = (if k' = k then js else ver_slots after ma k')"
proof -
  have "i \<in> set (ver_slots after ma k)" using assms(1) by simp
  then show i: "i < length after" "\<not> ma ! i" "ver_key (after ! i) = k" by (auto simp: ver_slots_def)
  have upd: "\<not> ma[i := True] ! j \<longleftrightarrow> \<not> ma ! j \<and> j \<noteq> i" if "j < length after" for j
    using that len i(1) by (auto simp: nth_list_update)
  have "ver_slots after (ma[i := True]) k' = filter (\<lambda>j. (ver_key (after ! j) = k' \<and> \<not> ma ! j) \<and> j \<noteq> i) [0..<length after]"
    unfolding ver_slots_def by (rule filter_cong) (use upd in auto)
  also have "\<dots> = (if k' = k then js else ver_slots after ma k')"
  proof (cases "k' = k")
    case True
    then show ?thesis using filter_without_first [OF assms(1) [unfolded ver_slots_def]] by simp
  next
    case False
    then show ?thesis using i(3) unfolding ver_slots_def by (auto intro!: filter_cong)
  qed
  finally show "ver_slots after (ma[i := True]) k' = (if k' = k then js else ver_slots after ma k')" .
qed

definition ver_claimStep :: "ver_Annotation \<Rightarrow> ver_index \<times> bool list \<Rightarrow> bool \<times> ver_index \<times> bool list" where
  "ver_claimStep b s =
     (case ver_claimExactMatch (fst s) b (snd s) of
        (Some ai, index') \<Rightarrow> (True, index', (snd s)[ai := True])
      | (None, index') \<Rightarrow> (False, index', snd s))"

lemma ver_exactPhase_run:
  "ver_exactPhase bs index ma =
     (fst (pool_run ver_claimStep bs (index, ma)), snd (snd (pool_run ver_claimStep bs (index, ma))))"
  by (induction bs arbitrary: index ma)
    (simp_all add: ver_claimStep_def Let_def case_prod_beta split: option.split)

text \<open>A claim takes the first free box with the key; the branch that skips a taken one is never reached.\<close>

lemma ver_claim_ok:
  assumes ok: "ver_index_ok after (index, ma)"
  shows "ver_slots after ma (ver_key b) = [] \<Longrightarrow> ver_claimStep b (index, ma) = (False, index, ma)"
    and "ver_slots after ma (ver_key b) = i # js \<Longrightarrow>
       ver_claimStep b (index, ma) = (True, index(ver_key b \<mapsto> js), ma[i := True]) \<and>
       ver_index_ok after (index(ver_key b \<mapsto> js), ma[i := True])"
proof -
  have len: "length ma = length after" and sl: "slice_at index k = ver_slots after ma k" for k
    using ok by (simp_all add: ver_index_ok_def)
  show "ver_slots after ma (ver_key b) = [] \<Longrightarrow> ver_claimStep b (index, ma) = (False, index, ma)"
    by (simp add: ver_claimStep_def ver_claimExactMatch_def Let_def sl)
  assume s: "ver_slots after ma (ver_key b) = i # js"
  note f = ver_slots_first [OF s len]
  show "ver_claimStep b (index, ma) = (True, index(ver_key b \<mapsto> js), ma[i := True]) \<and>
       ver_index_ok after (index(ver_key b \<mapsto> js), ma[i := True])"
    using f(2) by (simp add: ver_claimStep_def ver_claimExactMatch_def Let_def sl s ver_index_ok_def len f(4))
qed

interpretation ver_pool: claim_pool ver_claimStep "\<lambda>s. ver_free after (snd s)" "ver_index_ok after"
  "\<lambda>b. \<forall>a\<in>set after. ver_key a = ver_key b \<longrightarrow> a = b" for after
proof unfold_locales
  fix s b
  assume inv: "ver_index_ok after s" and fits: "\<forall>a\<in>set after. ver_key a = ver_key b \<longrightarrow> a = b"
  obtain index ma where s: "s = (index, ma)" by force
  note ok = inv [unfolded s] and len = inv [unfolded s ver_index_ok_def, simplified, THEN conjunct1]
  show "\<exists>s'. ver_claimStep b s = (True, s') \<and> ver_index_ok after s' \<and> ver_free after (snd s') = ver_free after (snd s) - {#b#}"
    if b: "b \<in># ver_free after (snd s)"
  proof -
    obtain j where "j < length after" "\<not> ma ! j" "after ! j = b" using b by (auto simp: s ver_free_mem [OF len])
    then have "j \<in> set (ver_slots after ma (ver_key b))" by (simp add: ver_slots_def)
    then obtain i js where sl: "ver_slots after ma (ver_key b) = i # js" by (cases "ver_slots after ma (ver_key b)") auto
    note f = ver_slots_first [OF sl len]
    have "after ! i = b" using fits f(1,3) by simp
    then have "ver_free after (ma[i := True]) = ver_free after ma - {#b#}" using ver_free_take [OF len f(1,2)] by simp
    with ver_claim_ok(2) [OF ok sl] show ?thesis by (simp add: s)
  qed
  show "\<exists>s'. ver_claimStep b s = (False, s') \<and> ver_index_ok after s' \<and> ver_free after (snd s') = ver_free after (snd s)"
    if b: "b \<notin># ver_free after (snd s)"
  proof -
    have "ver_slots after ma (ver_key b) = []"
    proof (cases "ver_slots after ma (ver_key b)")
      case (Cons i js)
      note f = ver_slots_first [OF Cons len]
      have "after ! i = b" using fits f(1,3) by simp
      with f b show ?thesis by (auto simp: s ver_free_mem [OF len])
    qed
    from ver_claim_ok(1) [OF ok this] show ?thesis using ok by (simp add: s)
  qed
qed

subsection \<open>One group\<close>

definition ver_together :: "ver_Annotation list \<Rightarrow> bool" where
  "ver_together xs \<longleftrightarrow> (\<forall>a\<in>set xs. \<forall>b\<in>set xs. va_ItemID a = va_ItemID b \<and> va_CategoryID a = va_CategoryID b)"

lemma ver_key_group:
  "va_ItemID a = va_ItemID b \<Longrightarrow> va_CategoryID a = va_CategoryID b \<Longrightarrow> ver_key a = ver_key b \<Longrightarrow> a = b"
  by (cases a, cases b) (simp add: ver_key_def)

lemma ver_exact_group:
  assumes "ver_together (bs @ after)"
    and "ver_exactPhase bs (ver_buildExactMatchIndex after) (replicate (length after) False) = (mb, ma)"
  shows "length mb = length bs" "length ma = length after"
    and "ver_free bs mb = mset bs - mset after" "ver_free after ma = mset after - mset bs"
proof -
  let ?s = "(ver_buildExactMatchIndex after, replicate (length after) False)"
  have fits: "\<forall>a\<in>set after. ver_key a = ver_key b \<longrightarrow> a = b" if "b \<in> set bs" for b
    using assms(1) that ver_key_group unfolding ver_together_def by (metis Un_iff set_append)
  obtain s' where r: "pool_run ver_claimStep bs ?s = (mb, s')" "ma = snd s'"
    using assms(2) unfolding ver_exactPhase_run by (cases "pool_run ver_claimStep bs ?s") auto
  from ver_pool.run_spec [OF ver_build_ok fits r(1)]
  have "ver_index_ok after s'" "ver_free after (snd s') = mset after - mset bs" "length mb = length bs"
    "ver_free bs mb = mset bs - mset after" by simp_all
  then show "length mb = length bs" "length ma = length after"
    "ver_free bs mb = mset bs - mset after" "ver_free after ma = mset after - mset bs"
    using r(2) by (simp_all add: ver_index_ok_def)
qed

text \<open>The search returns a free box with the largest overlap, or nothing when none overlaps.\<close>

lemma ver_best_spec:
  assumes "ver_best b ma n (drop n after) best = (r, x)"
    and "case fst best of None \<Rightarrow> snd best = 0 | Some j \<Rightarrow> j < length after \<and> \<not> ma ! j \<and> snd best = ver_bboxIOU b (after ! j)"
  shows "(case r of None \<Rightarrow> x = 0 | Some j \<Rightarrow> j < length after \<and> \<not> ma ! j \<and> x = ver_bboxIOU b (after ! j)) \<and>
     snd best \<le> x \<and> (\<forall>i. n \<le> i \<longrightarrow> i < length after \<longrightarrow> \<not> ma ! i \<longrightarrow> ver_bboxIOU b (after ! i) \<le> x)"
  using assms
proof (induction "length after - n" arbitrary: n best)
  case 0
  then show ?case by (cases r) auto
next
  case (Suc m)
  then have n: "n < length after" "m = length after - Suc n" by simp_all
  define best' where "best' = (if ma ! n then best else
    let iou = ver_bboxIOU b (after ! n) in if iou > snd best then (Some n, iou) else best)"
  have "drop n after = after ! n # drop (Suc n) after" using n(1) by (rule Cons_nth_drop_Suc [symmetric])
  with Suc.prems(1) have run: "ver_best b ma (Suc n) (drop (Suc n) after) best' = (r, x)" by (simp add: best'_def)
  have ok: "case fst best' of None \<Rightarrow> snd best' = 0 | Some j \<Rightarrow> j < length after \<and> \<not> ma ! j \<and> snd best' = ver_bboxIOU b (after ! j)"
    using Suc.prems(2) n(1) unfolding best'_def Let_def by (auto split: option.splits)
  have le: "snd best \<le> snd best'" "\<not> ma ! n \<Longrightarrow> ver_bboxIOU b (after ! n) \<le> snd best'"
    by (simp_all add: best'_def Let_def)
  note IH = Suc.hyps(1) [OF n(2) run ok]
  moreover have "ver_bboxIOU b (after ! i) \<le> x" if "n \<le> i" "i < length after" "\<not> ma ! i" for i
    using that IH le by (cases "i = n") auto
  ultimately show ?case using le(1) by auto
qed

definition ver_removal :: "ver_Annotation \<Rightarrow> ver_Change" where
  "ver_removal b = \<lparr>vc_ItemID = va_ItemID b, vc_CategoryID = va_CategoryID b, vc_Before = Some b, vc_After = None, vc_IOU = 0\<rparr>"

definition ver_addition :: "ver_Annotation \<Rightarrow> ver_Change" where
  "ver_addition a = \<lparr>vc_ItemID = va_ItemID a, vc_CategoryID = va_CategoryID a, vc_Before = None, vc_After = Some a, vc_IOU = 0\<rparr>"

definition ver_updating :: "ver_Annotation \<times> ver_Annotation \<Rightarrow> ver_Change" where
  "ver_updating p = \<lparr>vc_ItemID = va_ItemID (snd p), vc_CategoryID = va_CategoryID (snd p),
     vc_Before = Some (fst p), vc_After = Some (snd p), vc_IOU = ver_bboxIOU (fst p) (snd p)\<rparr>"

text \<open>The changes grow by these removals, updates and additions.\<close>

definition ver_grows :: "ver_acc \<Rightarrow> ver_Annotation list \<Rightarrow> (ver_Annotation \<times> ver_Annotation) list \<Rightarrow> ver_Annotation list \<Rightarrow> ver_acc \<Rightarrow> bool" where
  "ver_grows acc rs us as acc' \<longleftrightarrow>
     ac_Removes acc' = ac_Removes acc @ map ver_removal rs \<and> ac_Updates acc' = ac_Updates acc @ map ver_updating us \<and>
     ac_Adds acc' = ac_Adds acc @ map ver_addition as"

lemma ver_grows_simps:
  "ver_grows acc [] [] [] acc"
  "ver_grows (ver_remove b acc) rs us as acc' \<Longrightarrow> ver_grows acc (b # rs) us as acc'"
  "ver_grows (ver_update b a (ver_bboxIOU b a) acc) rs us as acc' \<Longrightarrow> ver_grows acc rs ((b, a) # us) as acc'"
  "ver_grows (ver_add a acc) rs us as acc' \<Longrightarrow> ver_grows acc rs us (a # as) acc'"
  by (simp_all add: ver_grows_def ver_remove_def ver_update_def ver_add_def ver_removal_def ver_updating_def ver_addition_def)

lemma ver_grows_trans:
  "ver_grows a rs us as b \<Longrightarrow> ver_grows b rs' us' as' c \<Longrightarrow> ver_grows a (rs @ rs') (us @ us') (as @ as') c"
  by (simp add: ver_grows_def)

lemma ver_add_spec: "length fs = length as \<Longrightarrow> \<exists>xs. ver_grows acc [] [] xs (ver_addPhase (zip as fs) acc) \<and> mset xs = ver_free as fs"
proof (induction fs as arbitrary: acc rule: list_induct2)
  case (Cons f fs a as)
  show ?case
  proof (cases f)
    case True
    with Cons.IH [of acc] show ?thesis by simp
  next
    case False
    obtain xs where "ver_grows (ver_add a acc) [] [] xs (ver_addPhase (zip as fs) (ver_add a acc))" "mset xs = ver_free as fs"
      using Cons.IH [of "ver_add a acc"] by blast
    with False show ?thesis by (intro exI [of _ "a # xs"]) (simp add: ver_grows_simps(4))
  qed
qed (auto intro: ver_grows_simps(1))

text \<open>
  What the matching of the boxes \<open>bs\<close> over the free boxes achieves: the removed and the updated ones are the
  unmatched ones, the partners are taken from the free ones, the updates reach the threshold, and no
  removed box does with a box that stays free.
\<close>

definition ver_matching ::
  "real \<Rightarrow> ver_Annotation multiset \<Rightarrow> ver_Annotation multiset \<Rightarrow> ver_Annotation multiset \<Rightarrow>
     ver_Annotation list \<Rightarrow> (ver_Annotation \<times> ver_Annotation) list \<Rightarrow> bool" where
  "ver_matching thr B F F' rs us \<longleftrightarrow>
     mset rs + mset (map fst us) = B \<and> mset (map snd us) + F' = F \<and>
     (\<forall>(b, a)\<in>set us. thr \<le> ver_bboxIOU b a) \<and> (\<forall>b\<in>set rs. \<forall>a\<in>#F'. ver_bboxIOU b a < thr)"

lemma ver_matching_update:
  assumes "ver_matching thr B (F - {#a#}) F' rs us" and "a \<in># F" and "thr \<le> ver_bboxIOU b a"
  shows "ver_matching thr (add_mset b B) F F' rs ((b, a) # us)"
proof -
  have "add_mset a (F - {#a#}) = F" using assms(2) by (rule insert_DiffM)
  with assms show ?thesis unfolding ver_matching_def by auto
qed

lemma ver_matching_remove:
  assumes "ver_matching thr B F F' rs us" and small: "\<And>a. a \<in># F \<Longrightarrow> ver_bboxIOU b a < thr"
  shows "ver_matching thr (add_mset b B) F F' (b # rs) us"
proof -
  have "F' \<subseteq># F" using assms(1) unfolding ver_matching_def by (metis mset_subset_eq_add_right)
  then have "\<forall>a\<in>#F'. ver_bboxIOU b a < thr" using small by (blast dest: mset_subset_eqD)
  with assms(1) show ?thesis unfolding ver_matching_def by auto
qed

definition ver_open :: "(ver_Annotation \<times> bool) list \<Rightarrow> ver_Annotation multiset" where
  "ver_open bs = mset (map fst (filter (\<lambda>(b, f). \<not> f) bs))"

lemma ver_open_simps [simp]:
  "ver_open [] = {#}" "ver_open ((b, f) # bs) = (if f then ver_open bs else add_mset b (ver_open bs))"
  by (simp_all add: ver_open_def)

lemma ver_match_spec:
  assumes "0 < thr" "length ma = length after" "ver_matchPhase thr after bs ma acc = (ma', acc')"
  shows "\<exists>rs us. length ma' = length after \<and> ver_grows acc rs us [] acc' \<and>
     ver_matching thr (ver_open bs) (ver_free after ma) (ver_free after ma') rs us"
  using assms(2,3)
proof (induction bs arbitrary: ma acc)
  case Nil
  then show ?case by (intro exI [of _ "[]"]) (simp add: ver_grows_simps(1) ver_matching_def)
next
  case (Cons p bs)
  obtain b f where p: "p = (b, f)" by force
  obtain r x where best: "ver_best b ma 0 after (None, 0) = (r, x)" by force
  note bs = ver_best_spec [of b ma 0 after "(None, 0)" r x, simplified, OF best]
  consider (skip) f | (upd) ai where "\<not> f" "r = Some ai" "thr \<le> x" | (rem) "\<not> f" "\<nexists>ai. r = Some ai \<and> thr \<le> x" by blast
  then show ?case
  proof cases
    case skip
    with Cons show ?thesis by (simp add: p)
  next
    case upd
    with bs have free: "ai < length after" "\<not> ma ! ai" "x = ver_bboxIOU b (after ! ai)" by auto
    note take = ver_free_take [OF Cons.prems(1) free(1,2)]
    have run: "ver_matchPhase thr after bs (ma[ai := True]) (ver_update b (after ! ai) (ver_bboxIOU b (after ! ai)) acc) = (ma', acc')"
      using Cons.prems(2) upd free(3) by (simp add: p best)
    have len: "length (ma[ai := True]) = length after" using Cons.prems(1) by simp
    obtain rs us where "length ma' = length after"
      "ver_grows (ver_update b (after ! ai) (ver_bboxIOU b (after ! ai)) acc) rs us [] acc'"
      "ver_matching thr (ver_open bs) (ver_free after ma - {#after ! ai#}) (ver_free after ma') rs us"
      using Cons.IH [OF len run] unfolding conjunct2 [OF take] by blast
    then show ?thesis
      using ver_matching_update [of thr "ver_open bs" "ver_free after ma" "after ! ai" "ver_free after ma'" rs us b]
        ver_grows_simps(3) [of b "after ! ai" acc rs us "[]" acc'] take upd(1,3) free(3) by (auto simp: p)
  next
    case rem
    have small: "ver_bboxIOU b a < thr" if a: "a \<in># ver_free after ma" for a
    proof -
      obtain i where "i < length after" "\<not> ma ! i" "after ! i = a" using a by (auto simp: ver_free_mem [OF Cons.prems(1)])
      then have "ver_bboxIOU b a \<le> x" using bs by auto
      with rem(2) bs assms(1) show ?thesis by (cases r) auto
    qed
    have "ver_matchPhase thr after bs ma (ver_remove b acc) = (ma', acc')"
      using Cons.prems(2) rem by (auto simp: p best split: option.splits if_splits)
    then obtain rs us where g: "length ma' = length after" "ver_grows (ver_remove b acc) rs us [] acc'"
      "ver_matching thr (ver_open bs) (ver_free after ma) (ver_free after ma') rs us"
      using Cons.IH [OF Cons.prems(1)] by blast
    have "ver_open (p # bs) = add_mset b (ver_open bs)" using rem(1) by (simp add: p)
    with g(1) ver_grows_simps(2) [OF g(2)] ver_matching_remove [OF g(3) small] show ?thesis by auto
  qed
qed

lemma ver_group_spec:
  assumes "0 < thr" and "ver_together (bs @ after)"
  shows "\<exists>rs us xs. ver_grows acc rs us xs (ver_diffGroup thr bs after acc) \<and>
     ver_matching thr (mset bs - mset after) (mset after - mset bs) (mset xs) rs us"
proof -
  obtain mb ma where e: "ver_exactPhase bs (ver_buildExactMatchIndex after) (replicate (length after) False) = (mb, ma)" by force
  obtain ma' acc' where m: "ver_matchPhase thr after (zip bs mb) ma acc = (ma', acc')" by force
  note ex = ver_exact_group [OF assms(2) e]
  have "ver_open (zip bs mb) = ver_free bs mb" by (simp add: ver_open_def ver_free_def)
  then obtain rs us where r: "length ma' = length after" "ver_grows acc rs us [] acc'"
    "ver_matching thr (mset bs - mset after) (mset after - mset bs) (ver_free after ma') rs us"
    using ver_match_spec [OF assms(1) ex(2) m] unfolding ex(3,4) by metis
  obtain xs where x: "ver_grows acc' [] [] xs (ver_addPhase (zip after ma') acc')" "mset xs = ver_free after ma'"
    using ver_add_spec [OF r(1)] by blast
  have "ver_diffGroup thr bs after acc = ver_addPhase (zip after ma') acc'" by (simp add: ver_diffGroup_def e m)
  moreover have "ver_grows acc rs us xs (ver_addPhase (zip after ma') acc')" using ver_grows_trans [OF r(2) x(1)] by simp
  ultimately show ?thesis using r(3) unfolding x(2) [symmetric] by metis
qed

subsection \<open>All groups\<close>

definition ver_gk :: "ver_Annotation \<Rightarrow> string" where
  "ver_gk a = ver_groupKey (va_ItemID a) (va_CategoryID a)"

lemma ver_groupKey_inject: "ver_groupKey i c = ver_groupKey j d \<longleftrightarrow> i = j \<and> c = d"
proof
  assume eq: "ver_groupKey i c = ver_groupKey j d"
  have split: "takeWhile (\<lambda>x. x \<noteq> CHR '':'') (ver_groupKey n m) = show_int n" for n m
    unfolding ver_groupKey_def by (subst takeWhile_append2) (use colon_notin_show_int in auto)
  have "show_int i = show_int j" using split eq by metis
  with eq show "i = j \<and> c = d" by (simp add: ver_groupKey_def)
qed simp

lemma ver_gk_eq: "ver_gk a = ver_gk b \<longleftrightarrow> va_ItemID a = va_ItemID b \<and> va_CategoryID a = va_CategoryID b"
  by (simp add: ver_gk_def ver_groupKey_inject)

lemma ver_groups_filter: "slice_at (ver_groups items) k = filter (\<lambda>a. ver_gk a = k) items"
proof -
  have "slice_at (foldl ver_addToGroup m items) k = slice_at m k @ filter (\<lambda>a. ver_gk a = k) items" for m
    by (induction items arbitrary: m) (simp_all add: ver_addToGroup_def ver_gk_def Let_def)
  then show ?thesis by (simp add: ver_groups_def)
qed

lemma ver_groups_dom: "dom (ver_groups items) = ver_gk ` set items"
proof -
  have "dom (foldl ver_addToGroup m items) = dom m \<union> ver_gk ` set items" for m
    by (induction items arbitrary: m) (auto simp: ver_addToGroup_def ver_gk_def Let_def)
  then show ?thesis by (simp add: ver_groups_def)
qed

definition ver_matched ::
  "real \<Rightarrow> ver_Annotation multiset \<Rightarrow> ver_Annotation multiset \<Rightarrow>
     ver_Annotation list \<Rightarrow> (ver_Annotation \<times> ver_Annotation) list \<Rightarrow> ver_Annotation list \<Rightarrow> bool" where
  "ver_matched thr D E rs us xs \<longleftrightarrow>
     mset rs + mset (map fst us) = D \<and> mset (map snd us) + mset xs = E \<and>
     (\<forall>(b, a)\<in>set us. thr \<le> ver_bboxIOU b a \<and> ver_gk b = ver_gk a) \<and>
     (\<forall>b\<in>set rs. \<forall>a\<in>set xs. ver_gk b = ver_gk a \<longrightarrow> ver_bboxIOU b a < thr)"

lemma ver_matchedD:
  assumes "ver_matched thr D E rs us xs"
  shows "mset rs + mset (map fst us) = D" "mset (map snd us) + mset xs = E"
    and "(b, a) \<in> set us \<Longrightarrow> thr \<le> ver_bboxIOU b a" "(b, a) \<in> set us \<Longrightarrow> ver_gk b = ver_gk a"
    and "c \<in> set rs \<Longrightarrow> d \<in> set xs \<Longrightarrow> ver_gk c = ver_gk d \<Longrightarrow> ver_bboxIOU c d < thr"
  using assms unfolding ver_matched_def by blast+

lemma ver_matched_keys:
  assumes "ver_matched thr D E rs us xs"
  shows "set rs \<subseteq> set_mset D" "fst ` set us \<subseteq> set_mset D" "snd ` set us \<subseteq> set_mset E" "set xs \<subseteq> set_mset E"
proof -
  have eqs: "D = mset rs + mset (map fst us)" "E = mset (map snd us) + mset xs"
    by (rule ver_matchedD(1,2) [OF assms, symmetric])+
  show "set rs \<subseteq> set_mset D" "fst ` set us \<subseteq> set_mset D" "snd ` set us \<subseteq> set_mset E" "set xs \<subseteq> set_mset E"
    unfolding eqs by auto
qed

lemma ver_matched_append:
  assumes m: "ver_matched thr D E rs us xs" "ver_matched thr D' E' rs' us' xs'"
    and keys: "\<And>d e. d \<in># D \<Longrightarrow> e \<in># E' \<Longrightarrow> ver_gk d \<noteq> ver_gk e" "\<And>d e. d \<in># D' \<Longrightarrow> e \<in># E \<Longrightarrow> ver_gk d \<noteq> ver_gk e"
  shows "ver_matched thr (D + D') (E + E') (rs @ rs') (us @ us') (xs @ xs')"
proof -
  have "ver_gk b \<noteq> ver_gk a" if "b \<in> set rs" "a \<in> set xs'" for a b
    by (rule keys(1) [OF subsetD [OF ver_matched_keys(1) [OF m(1)] that(1)] subsetD [OF ver_matched_keys(4) [OF m(2)] that(2)]])
  moreover have "ver_gk b \<noteq> ver_gk a" if "b \<in> set rs'" "a \<in> set xs" for a b
    by (rule keys(2) [OF subsetD [OF ver_matched_keys(1) [OF m(2)] that(1)] subsetD [OF ver_matched_keys(4) [OF m(1)] that(2)]])
  ultimately have "\<forall>b\<in>set (rs @ rs'). \<forall>a\<in>set (xs @ xs'). ver_gk b = ver_gk a \<longrightarrow> ver_bboxIOU b a < thr"
    using ver_matchedD(5) [OF m(1)] ver_matchedD(5) [OF m(2)] unfolding set_append by blast
  moreover have "mset (rs @ rs') + mset (map fst (us @ us')) = D + D'" "mset (map snd (us @ us')) + mset (xs @ xs') = E + E'"
    unfolding ver_matchedD(1) [OF m(1), symmetric] ver_matchedD(2) [OF m(1), symmetric]
      ver_matchedD(1) [OF m(2), symmetric] ver_matchedD(2) [OF m(2), symmetric] by simp_all
  moreover have "\<forall>(b, a)\<in>set (us @ us'). thr \<le> ver_bboxIOU b a \<and> ver_gk b = ver_gk a"
    using ver_matchedD(3,4) [OF m(1)] ver_matchedD(3,4) [OF m(2)] unfolding set_append by blast
  ultimately show ?thesis unfolding ver_matched_def by blast
qed

lemma filter_mset_all: "(\<And>x. x \<in># M \<Longrightarrow> P x) \<Longrightarrow> filter_mset P M = M"
  by (induction M) auto

lemma filter_mset_key_Cons:
  "k \<notin> K \<Longrightarrow> filter_mset (\<lambda>a. f a = k) X + filter_mset (\<lambda>a. f a \<in> K) X = filter_mset (\<lambda>a. f a = k \<or> f a \<in> K) X"
  by (induction X) auto

lemma ver_fold_spec:
  assumes "0 < thr" and "distinct ks"
  shows "\<exists>rs us xs. ver_grows acc rs us xs
       (foldl (\<lambda>acc k. ver_diffGroup thr (slice_at (ver_groups before) k) (slice_at (ver_groups after) k) acc) acc ks) \<and>
     ver_matched thr (filter_mset (\<lambda>a. ver_gk a \<in> set ks) (mset before - mset after))
       (filter_mset (\<lambda>a. ver_gk a \<in> set ks) (mset after - mset before)) rs us xs"
  using assms(2)
proof (induction ks arbitrary: acc)
  case Nil
  have "ver_matched thr {#} {#} [] [] []" by (simp add: ver_matched_def)
  then show ?case using ver_grows_simps(1) by fastforce
next
  case (Cons k ks)
  let ?B = "slice_at (ver_groups before) k" and ?A = "slice_at (ver_groups after) k"
  let ?D = "\<lambda>P. filter_mset (\<lambda>a. P (ver_gk a)) (mset before - mset after)"
  let ?E = "\<lambda>P. filter_mset (\<lambda>a. P (ver_gk a)) (mset after - mset before)"
  have sets: "mset ?B - mset ?A = ?D (\<lambda>g. g = k)" "mset ?A - mset ?B = ?E (\<lambda>g. g = k)"
    by (simp_all add: ver_groups_filter filter_diff_mset)
  have "ver_together (?B @ ?A)" by (auto simp: ver_together_def ver_groups_filter ver_gk_eq)
  from ver_group_spec [OF assms(1) this, of acc] obtain rs us xs where g: "ver_grows acc rs us xs (ver_diffGroup thr ?B ?A acc)"
    "ver_matching thr (?D (\<lambda>g. g = k)) (?E (\<lambda>g. g = k)) (mset xs) rs us" unfolding sets by blast
  have one: "ver_matched thr (?D (\<lambda>g. g = k)) (?E (\<lambda>g. g = k)) rs us xs"
  proof -
    have eqs: "mset rs + mset (map fst us) = ?D (\<lambda>g. g = k)" "mset (map snd us) + mset xs = ?E (\<lambda>g. g = k)"
      using g(2) by (simp_all add: ver_matching_def)
    have "fst ` set us \<subseteq> set_mset (?D (\<lambda>g. g = k))" "snd ` set us \<subseteq> set_mset (?E (\<lambda>g. g = k))"
      unfolding eqs [symmetric] by auto
    then have "\<forall>p\<in>set us. ver_gk (fst p) = k \<and> ver_gk (snd p) = k"
      by (simp add: image_subset_iff del: filter_diff_mset)
    with g(2) show ?thesis by (auto simp: ver_matching_def ver_matched_def)
  qed
  obtain rs' us' xs' where h: "ver_grows (ver_diffGroup thr ?B ?A acc) rs' us' xs'
       (foldl (\<lambda>acc k. ver_diffGroup thr (slice_at (ver_groups before) k) (slice_at (ver_groups after) k) acc)
          (ver_diffGroup thr ?B ?A acc) ks)"
    "ver_matched thr (?D (\<lambda>g. g \<in> set ks)) (?E (\<lambda>g. g \<in> set ks)) rs' us' xs'"
    using Cons by fastforce
  have k: "k \<notin> set ks" using Cons.prems by simp
  have "ver_matched thr (?D (\<lambda>g. g = k) + ?D (\<lambda>g. g \<in> set ks)) (?E (\<lambda>g. g = k) + ?E (\<lambda>g. g \<in> set ks))
      (rs @ rs') (us @ us') (xs @ xs')"
    by (rule ver_matched_append [OF one h(2)]) (use k in \<open>auto simp del: filter_diff_mset\<close>)
  then have "ver_matched thr (?D (\<lambda>g. g \<in> set (k # ks))) (?E (\<lambda>g. g \<in> set (k # ks))) (rs @ rs') (us @ us') (xs @ xs')"
    unfolding filter_mset_key_Cons [OF k] by simp
  with ver_grows_trans [OF g(1) h(1)] show ?case by auto
qed

text \<open>The visiting orders of the two map loops.\<close>

definition ver_visits :: "string list \<Rightarrow> ver_Annotation list \<Rightarrow> ver_Annotation list \<Rightarrow> bool" where
  "ver_visits ks before after \<longleftrightarrow> distinct ks \<and> set ks = dom (ver_groups before) \<union> dom (ver_groups after)"

lemma ver_changes_spec:
  assumes "ver_visits ks before after"
  shows "\<exists>rs us xs. ac_Removes (ver_changes ks before after t) = map ver_removal rs \<and>
     ac_Updates (ver_changes ks before after t) = map ver_updating us \<and>
     ac_Adds (ver_changes ks before after t) = map ver_addition xs \<and>
     ver_matched (ver_threshold t) (mset before - mset after) (mset after - mset before) rs us xs"
proof -
  have thr: "0 < ver_threshold t" by (simp add: ver_threshold_def)
  have "set ks = ver_gk ` (set before \<union> set after)" using assms by (auto simp: ver_visits_def ver_groups_dom)
  then have all: "filter_mset (\<lambda>a. ver_gk a \<in> set ks) (mset before - mset after) = mset before - mset after"
    "filter_mset (\<lambda>a. ver_gk a \<in> set ks) (mset after - mset before) = mset after - mset before"
    by (auto intro!: filter_mset_all dest: in_diffD simp del: filter_diff_mset)
  have "distinct ks" using assms by (simp add: ver_visits_def)
  from ver_fold_spec [OF thr this, of ver_emptyAcc before after, unfolded all] show ?thesis
    unfolding ver_changes_def ver_grows_def by (simp add: ver_emptyAcc_def)
qed

end
