(* ===== verification/Versioning_Claims.thy ===== *)
theory Versioning_Claims
  imports Versioning_Facts
begin

section \<open>Versioning: the properties\<close>

text \<open>
  Bounds of the overlap, the counts kept beside the changes, the compatibility score, and the
  independence from the visiting order of the Go maps; then the properties with concrete snapshots.
\<close>

subsection \<open>The overlap\<close>

definition overlap_1d :: "real \<Rightarrow> real \<Rightarrow> real \<Rightarrow> real \<Rightarrow> real" where
  "overlap_1d x w y v = max 0 (min (x + w) (y + v) - max x y)"

lemma overlap_1d_bounds:
  "0 \<le> overlap_1d x w y v"
  "overlap_1d x w y v \<noteq> 0 \<Longrightarrow> overlap_1d x w y v \<le> w" "overlap_1d x w y v \<noteq> 0 \<Longrightarrow> overlap_1d x w y v \<le> v"
  "overlap_1d x w y v \<noteq> 0 \<Longrightarrow> overlap_1d x w y v = w \<Longrightarrow> overlap_1d x w y v = v \<Longrightarrow> x = y"
  "overlap_1d x w y v = overlap_1d y v x w"
  by (auto simp: overlap_1d_def max_def min_def split: if_splits)

lemma ver_bboxIOU_alt:
  "ver_bboxIOU a b =
     (let i = overlap_1d (va_BBoxX a) (va_BBoxW a) (va_BBoxX b) (va_BBoxW b);
          j = overlap_1d (va_BBoxY a) (va_BBoxH a) (va_BBoxY b) (va_BBoxH b);
          d = va_BBoxW a * va_BBoxH a + va_BBoxW b * va_BBoxH b - i * j
      in if i * j = 0 \<or> d \<le> 0 then 0 else i * j / d)"
  by (simp add: ver_bboxIOU_def overlap_1d_def Let_def)

lemma ver_overlap_areas:
  assumes "i = overlap_1d (va_BBoxX a) (va_BBoxW a) (va_BBoxX b) (va_BBoxW b)"
    and "j = overlap_1d (va_BBoxY a) (va_BBoxH a) (va_BBoxY b) (va_BBoxH b)" and "i * j \<noteq> 0"
  shows "0 < i" "0 < j" "i \<le> va_BBoxW a" "i \<le> va_BBoxW b" "j \<le> va_BBoxH a" "j \<le> va_BBoxH b"
    and "i * j \<le> va_BBoxW a * va_BBoxH a" "i * j \<le> va_BBoxW b * va_BBoxH b"
proof -
  have "i \<noteq> 0" "j \<noteq> 0" "0 \<le> i" "0 \<le> j" using assms(3) by (auto simp: assms(1,2) overlap_1d_bounds(1))
  then show p: "0 < i" "0 < j" by simp_all
  show w: "i \<le> va_BBoxW a" "i \<le> va_BBoxW b" "j \<le> va_BBoxH a" "j \<le> va_BBoxH b"
    using \<open>i \<noteq> 0\<close> \<open>j \<noteq> 0\<close> overlap_1d_bounds(2,3) unfolding assms(1,2) by blast+
  show "i * j \<le> va_BBoxW a * va_BBoxH a" "i * j \<le> va_BBoxW b * va_BBoxH b"
    using p w by (auto intro!: mult_mono)
qed

lemma ver_iou_bounds: "0 \<le> ver_bboxIOU a b" "ver_bboxIOU a b \<le> 1"
proof -
  define i where "i = overlap_1d (va_BBoxX a) (va_BBoxW a) (va_BBoxX b) (va_BBoxW b)"
  define j where "j = overlap_1d (va_BBoxY a) (va_BBoxH a) (va_BBoxY b) (va_BBoxH b)"
  let ?d = "va_BBoxW a * va_BBoxH a + va_BBoxW b * va_BBoxH b - i * j"
  have eq: "ver_bboxIOU a b = (if i * j = 0 \<or> ?d \<le> 0 then 0 else i * j / ?d)"
    by (simp add: ver_bboxIOU_alt i_def j_def Let_def)
  have "0 \<le> i * j \<and> i * j \<le> ?d" if "i * j \<noteq> 0" using ver_overlap_areas [OF i_def j_def that] by simp
  then show "0 \<le> ver_bboxIOU a b" "ver_bboxIOU a b \<le> 1" unfolding eq by auto
qed

lemma ver_iou_one: "ver_bboxIOU a b = 1 \<Longrightarrow> ver_key a = ver_key b"
proof -
  assume one: "ver_bboxIOU a b = 1"
  define i where "i = overlap_1d (va_BBoxX a) (va_BBoxW a) (va_BBoxX b) (va_BBoxW b)"
  define j where "j = overlap_1d (va_BBoxY a) (va_BBoxH a) (va_BBoxY b) (va_BBoxH b)"
  let ?A = "va_BBoxW a * va_BBoxH a" and ?B = "va_BBoxW b * va_BBoxH b"
  have eq: "ver_bboxIOU a b = (if i * j = 0 \<or> ?A + ?B - i * j \<le> 0 then 0 else i * j / (?A + ?B - i * j))"
    by (simp add: ver_bboxIOU_alt i_def j_def Let_def)
  with one have ne: "i * j \<noteq> 0" "i * j = ?A + ?B - i * j" by (auto split: if_splits)
  note b = ver_overlap_areas [OF i_def j_def ne(1)]
  have areas: "i * j = ?A" "i * j = ?B" using ne(2) b(7,8) by simp_all
  have tight: "i = w \<and> j = h" if "i \<le> w" "j \<le> h" "i * j = w * h" for w h
  proof (rule ccontr)
    assume "\<not> (i = w \<and> j = h)"
    then have "i < w \<and> j \<le> h \<or> i \<le> w \<and> j < h" using that by auto
    then have "i * j < w * h"
    proof
      assume "i < w \<and> j \<le> h"
      then show ?thesis using b(1,2) by (intro mult_less_le_imp_less) auto
    next
      assume "i \<le> w \<and> j < h"
      then show ?thesis using b(1,2) by (intro mult_le_less_imp_less) auto
    qed
    with that(3) show False by simp
  qed
  from tight [OF b(3,5) areas(1)] tight [OF b(4,6) areas(2)]
  have wh: "i = va_BBoxW a" "j = va_BBoxH a" "i = va_BBoxW b" "j = va_BBoxH b" by simp_all
  moreover have "va_BBoxX a = va_BBoxX b" using overlap_1d_bounds(4) wh(1,3) b(1) unfolding i_def by (metis less_irrefl)
  moreover have "va_BBoxY a = va_BBoxY b" using overlap_1d_bounds(4) wh(2,4) b(2) unfolding j_def by (metis less_irrefl)
  ultimately show ?thesis by (simp add: ver_key_def)
qed

subsection \<open>The counts beside the changes\<close>

definition ver_count :: "int \<Rightarrow> ver_Change list \<Rightarrow> int" where
  "ver_count c xs = int (length (filter (\<lambda>x. vc_CategoryID x = c) xs))"

lemma ver_count_simps [simp]:
  "ver_count c [] = 0" "ver_count c (xs @ ys) = ver_count c xs + ver_count c ys"
  "ver_count c [x] = (if vc_CategoryID x = c then 1 else 0)" "0 \<le> ver_count c xs"
  by (simp_all add: ver_count_def)

definition ver_delta_of :: "ver_Change list \<Rightarrow> ver_Change list \<Rightarrow> ver_Change list \<Rightarrow> int \<Rightarrow> ver_CategoryDelta option" where
  "ver_delta_of as rs us c =
     (if ver_count c as = 0 \<and> ver_count c rs = 0 \<and> ver_count c us = 0 then None
      else Some \<lparr>vd_CategoryID = c, vd_AddedCount = ver_count c as, vd_RemovedCount = ver_count c rs,
                 vd_UpdatedCount = ver_count c us, vd_NetBoxDelta = ver_count c as - ver_count c rs\<rparr>)"

definition ver_acc_ok :: "ver_acc \<Rightarrow> bool" where
  "ver_acc_ok acc \<longleftrightarrow>
     ac_iouSum acc = sum_list (map vc_IOU (ac_Updates acc)) \<and>
     ac_delta acc = ver_delta_of (ac_Adds acc) (ac_Removes acc) (ac_Updates acc)"

lemma ver_count_nonneg_sum: "ver_count c xs + 1 \<noteq> 0"
  using ver_count_simps(4) [of c xs] by linarith

lemma ver_acc_ok_steps:
  assumes "ver_acc_ok acc"
  shows "ver_acc_ok (ver_update b a iou acc)" "ver_acc_ok (ver_remove b acc)" "ver_acc_ok (ver_add a acc)"
  using assms
  by (auto simp: ver_acc_ok_def ver_update_def ver_remove_def ver_add_def ver_recordCategoryDelta_def ver_delta_of_def
      ver_count_nonneg_sum fun_eq_iff split: option.splits if_splits)

lemma ver_match_ok: "ver_acc_ok acc \<Longrightarrow> ver_acc_ok (snd (ver_matchPhase thr after bs ma acc))"
proof (induction thr after bs ma acc rule: ver_matchPhase.induct)
  case (2 thr after b matched bs ma acc)
  then show ?case by (auto simp: ver_acc_ok_steps split: prod.split option.split)
qed simp

lemma ver_addPhase_ok: "ver_acc_ok acc \<Longrightarrow> ver_acc_ok (ver_addPhase as acc)"
  by (induction as acc rule: ver_addPhase.induct) (auto simp: ver_acc_ok_steps)

lemma ver_group_ok: "ver_acc_ok acc \<Longrightarrow> ver_acc_ok (ver_diffGroup thr bs as acc)"
  using ver_match_ok by (auto simp: ver_diffGroup_def Let_def split: prod.splits intro!: ver_addPhase_ok) (metis snd_conv)

lemma ver_changes_ok: "ver_acc_ok (ver_changes ks before after t)"
proof -
  have "ver_acc_ok acc \<Longrightarrow> ver_acc_ok (foldl (\<lambda>acc k. ver_diffGroup thr (f k) (g k) acc) acc ks)" for acc thr f g
    by (induction ks arbitrary: acc) (simp_all add: ver_group_ok)
  moreover have "ver_acc_ok ver_emptyAcc" by (simp add: ver_acc_ok_def ver_emptyAcc_def ver_delta_of_def fun_eq_iff)
  ultimately show ?thesis by (simp add: ver_changes_def)
qed

subsection \<open>The visiting order\<close>

lemma ver_match_uniform:
  "\<exists>ma' rs us. \<forall>acc. \<exists>acc'. ver_matchPhase thr after bs ma acc = (ma', acc') \<and> ver_grows acc rs us [] acc'"
proof (induction bs arbitrary: ma)
  case Nil
  then show ?case using ver_grows_simps(1) by fastforce
next
  case (Cons p bs)
  obtain b f where p: "p = (b, f)" by force
  obtain r x where best: "ver_best b ma 0 after (None, 0) = (r, x)" by force
  have x: "x = ver_bboxIOU b (after ! ai)" if "r = Some ai" for ai
    using ver_best_spec [of b ma 0 after "(None, 0)" r x, simplified, OF best] that by simp
  consider f | ai where "\<not> f" "r = Some ai" "thr \<le> x" | "\<not> f" "\<nexists>ai. r = Some ai \<and> thr \<le> x" by blast
  then show ?case
  proof cases
    case 1
    with Cons.IH [of ma] show ?thesis by (simp add: p)
  next
    case (2 ai)
    obtain ma' rs us where IH: "\<forall>acc. \<exists>acc'. ver_matchPhase thr after bs (ma[ai := True]) acc = (ma', acc') \<and> ver_grows acc rs us [] acc'"
      using Cons.IH [of "ma[ai := True]"] by blast
    have "\<exists>acc'. ver_matchPhase thr after (p # bs) ma acc = (ma', acc') \<and> ver_grows acc rs ((b, after ! ai) # us) [] acc'" for acc
    proof -
      obtain acc' where "ver_matchPhase thr after bs (ma[ai := True]) (ver_update b (after ! ai) x acc) = (ma', acc')"
        "ver_grows (ver_update b (after ! ai) x acc) rs us [] acc'" using IH by blast
      with 2 ver_grows_simps(3) show ?thesis unfolding x [OF 2(2)] by (auto simp: p best x [OF 2(2)])
    qed
    then show ?thesis by blast
  next
    case 3
    obtain ma' rs us where IH: "\<forall>acc. \<exists>acc'. ver_matchPhase thr after bs ma acc = (ma', acc') \<and> ver_grows acc rs us [] acc'"
      using Cons.IH [of ma] by blast
    have "\<exists>acc'. ver_matchPhase thr after (p # bs) ma acc = (ma', acc') \<and> ver_grows acc (b # rs) us [] acc'" for acc
    proof -
      obtain acc' where "ver_matchPhase thr after bs ma (ver_remove b acc) = (ma', acc')"
        "ver_grows (ver_remove b acc) rs us [] acc'" using IH by blast
      with 3 ver_grows_simps(2) show ?thesis by (cases r) (auto simp: p best)
    qed
    then show ?thesis by blast
  qed
qed

lemma ver_add_uniform: "\<exists>xs. \<forall>acc. ver_grows acc [] [] xs (ver_addPhase as acc)"
proof (induction as)
  case (Cons p as)
  obtain xs where "\<forall>acc. ver_grows acc [] [] xs (ver_addPhase as acc)" using Cons by blast
  then show ?case using ver_grows_simps(4) by (cases p; cases "snd p") (auto, blast+)
qed (use ver_grows_simps(1) in auto)

lemma ver_group_uniform: "\<exists>rs us xs. \<forall>acc. ver_grows acc rs us xs (ver_diffGroup thr bs as acc)"
proof -
  obtain mb ma where e: "ver_exactPhase bs (ver_buildExactMatchIndex as) (replicate (length as) False) = (mb, ma)" by force
  obtain ma' rs us where m: "\<forall>acc. \<exists>acc'. ver_matchPhase thr as (zip bs mb) ma acc = (ma', acc') \<and> ver_grows acc rs us [] acc'"
    using ver_match_uniform by blast
  obtain xs where a: "\<forall>acc. ver_grows acc [] [] xs (ver_addPhase (zip as ma') acc)" using ver_add_uniform by blast
  have "ver_grows acc rs us xs (ver_diffGroup thr bs as acc)" for acc
  proof -
    obtain acc' where acc': "ver_matchPhase thr as (zip bs mb) ma acc = (ma', acc')" "ver_grows acc rs us [] acc'" using m by blast
    have "ver_diffGroup thr bs as acc = ver_addPhase (zip as ma') acc'" by (simp add: ver_diffGroup_def e acc'(1))
    with ver_grows_trans [OF acc'(2)] a show ?thesis by fastforce
  qed
  then show ?thesis by blast
qed

text \<open>A group contributes the same lists whatever was accumulated before it.\<close>

definition ver_part :: "real \<Rightarrow> ver_Annotation list \<Rightarrow> ver_Annotation list \<Rightarrow> string \<Rightarrow> ver_acc" where
  "ver_part thr before after k = ver_diffGroup thr (slice_at (ver_groups before) k) (slice_at (ver_groups after) k) ver_emptyAcc"

lemma ver_group_part:
  "ac_Removes (ver_diffGroup thr (slice_at (ver_groups before) k) (slice_at (ver_groups after) k) acc) =
     ac_Removes acc @ ac_Removes (ver_part thr before after k)"
  "ac_Updates (ver_diffGroup thr (slice_at (ver_groups before) k) (slice_at (ver_groups after) k) acc) =
     ac_Updates acc @ ac_Updates (ver_part thr before after k)"
  "ac_Adds (ver_diffGroup thr (slice_at (ver_groups before) k) (slice_at (ver_groups after) k) acc) =
     ac_Adds acc @ ac_Adds (ver_part thr before after k)"
proof -
  obtain rs us xs where u: "\<forall>acc. ver_grows acc rs us xs
      (ver_diffGroup thr (slice_at (ver_groups before) k) (slice_at (ver_groups after) k) acc)"
    using ver_group_uniform by blast
  from u [rule_format, of acc] u [rule_format, of ver_emptyAcc]
  show "ac_Removes (ver_diffGroup thr (slice_at (ver_groups before) k) (slice_at (ver_groups after) k) acc) =
     ac_Removes acc @ ac_Removes (ver_part thr before after k)"
    and "ac_Updates (ver_diffGroup thr (slice_at (ver_groups before) k) (slice_at (ver_groups after) k) acc) =
     ac_Updates acc @ ac_Updates (ver_part thr before after k)"
    and "ac_Adds (ver_diffGroup thr (slice_at (ver_groups before) k) (slice_at (ver_groups after) k) acc) =
     ac_Adds acc @ ac_Adds (ver_part thr before after k)"
    by (simp_all add: ver_grows_def ver_part_def ver_emptyAcc_def)
qed

lemma ver_changes_parts:
  "mset (ac_Removes (ver_changes ks before after t)) =
     (\<Sum>k\<in>#mset ks. mset (ac_Removes (ver_part (ver_threshold t) before after k)))"
  "mset (ac_Updates (ver_changes ks before after t)) =
     (\<Sum>k\<in>#mset ks. mset (ac_Updates (ver_part (ver_threshold t) before after k)))"
  "mset (ac_Adds (ver_changes ks before after t)) =
     (\<Sum>k\<in>#mset ks. mset (ac_Adds (ver_part (ver_threshold t) before after k)))"
proof -
  let ?f = "\<lambda>acc k. ver_diffGroup (ver_threshold t) (slice_at (ver_groups before) k) (slice_at (ver_groups after) k) acc"
  let ?p = "ver_part (ver_threshold t) before after"
  have "mset (ac_Removes (foldl ?f acc ks)) = mset (ac_Removes acc) + (\<Sum>k\<in>#mset ks. mset (ac_Removes (?p k)))"
    "mset (ac_Updates (foldl ?f acc ks)) = mset (ac_Updates acc) + (\<Sum>k\<in>#mset ks. mset (ac_Updates (?p k)))"
    "mset (ac_Adds (foldl ?f acc ks)) = mset (ac_Adds acc) + (\<Sum>k\<in>#mset ks. mset (ac_Adds (?p k)))" for acc
    by (induction ks arbitrary: acc) (simp_all add: ver_group_part)
  then show "mset (ac_Removes (ver_changes ks before after t)) = (\<Sum>k\<in>#mset ks. mset (ac_Removes (?p k)))"
    and "mset (ac_Updates (ver_changes ks before after t)) = (\<Sum>k\<in>#mset ks. mset (ac_Updates (?p k)))"
    and "mset (ac_Adds (ver_changes ks before after t)) = (\<Sum>k\<in>#mset ks. mset (ac_Adds (?p k)))"
    by (simp_all add: ver_changes_def ver_emptyAcc_def)
qed

lemma ver_visits_same: "ver_visits ks before after \<Longrightarrow> ver_visits ks' before after \<Longrightarrow> mset ks = mset ks'"
  unfolding ver_visits_def by (metis set_eq_iff_mset_eq_distinct)

lemma ver_acc_order:
  assumes "ver_visits ks before after" and "ver_visits ks' before after"
  shows "mset (ac_Removes (ver_changes ks before after t)) = mset (ac_Removes (ver_changes ks' before after t))"
    and "mset (ac_Updates (ver_changes ks before after t)) = mset (ac_Updates (ver_changes ks' before after t))"
    and "mset (ac_Adds (ver_changes ks before after t)) = mset (ac_Adds (ver_changes ks' before after t))"
  unfolding ver_changes_parts ver_visits_same [OF assms] by (rule refl)+

text \<open>Counts and sums only depend on the multisets.\<close>

lemma ver_count_mset: "ver_count c xs = int (size (filter_mset (\<lambda>x. vc_CategoryID x = c) (mset xs)))"
  unfolding ver_count_def by (simp flip: mset_filter)

lemma ver_delta_mset:
  "mset as = mset as' \<Longrightarrow> mset rs = mset rs' \<Longrightarrow> mset us = mset us' \<Longrightarrow> ver_delta_of as rs us = ver_delta_of as' rs' us'"
  by (simp add: ver_delta_of_def ver_count_mset fun_eq_iff)

lemma sum_list_mset_eq: "mset xs = mset ys \<Longrightarrow> sum_list (map f xs) = sum_list (map f ys :: real list)"
  by (metis mset_map sum_mset_sum_list)

definition ver_delta_order :: "int list \<Rightarrow> ver_acc \<Rightarrow> bool" where
  "ver_delta_order cks acc \<longleftrightarrow> distinct cks \<and> set cks = dom (ac_delta acc)"

lemma ver_flatten_sorted:
  assumes ok: "ver_acc_ok acc" and cks: "ver_delta_order cks acc"
  shows "ver_flattenCategoryDelta cks (ac_delta acc) = map (\<lambda>c. the (ac_delta acc c)) (sort cks)"
proof -
  have id: "vd_CategoryID (the (ac_delta acc c)) = c" if "c \<in> set cks" for c
    using that ok cks by (auto simp: ver_acc_ok_def ver_delta_order_def ver_delta_of_def split: if_splits)
  have ins: "insort_key vd_CategoryID (the (ac_delta acc c)) (map (\<lambda>c. the (ac_delta acc c)) xs) =
      map (\<lambda>c. the (ac_delta acc c)) (insort c xs)" if "c \<in> set cks" "set xs \<subseteq> set cks" for c xs
    using that(2) by (induction xs) (simp_all add: id that(1))
  have "sort_key vd_CategoryID (map (\<lambda>c. the (ac_delta acc c)) xs) = map (\<lambda>c. the (ac_delta acc c)) (sort xs)"
    if "set xs \<subseteq> set cks" for xs
    using that by (induction xs) (simp_all add: ins)
  then show ?thesis by (simp add: ver_flattenCategoryDelta_def)
qed

lemma foldl_iou: "foldl (\<lambda>w u. w + vc_IOU u) x us = x + sum_list (map vc_IOU us)"
  by (induction us arbitrary: x) simp_all

subsection \<open>Properties\<close>

lemma ver_result_lists [simp]:
  "vr_Adds (ver_DiffSnapshots ks cks before after t) = ac_Adds (ver_changes ks before after t)"
  "vr_Removes (ver_DiffSnapshots ks cks before after t) = ac_Removes (ver_changes ks before after t)"
  "vr_Updates (ver_DiffSnapshots ks cks before after t) = ac_Updates (ver_changes ks before after t)"
  by (simp_all add: ver_DiffSnapshots_def Let_def)

lemma ver_disjoint: "a \<in># M - N \<Longrightarrow> a \<notin># N - (M :: 'a multiset)"
  by (simp add: in_diff_count)

lemma ver_change_simps [simp]:
  "vc_Before (ver_removal b) = Some b" "vc_After (ver_addition a) = Some a" "vc_IOU (ver_updating p) = ver_bboxIOU (fst p) (snd p)"
  "vc_Before (ver_updating p) = Some (fst p)" "vc_After (ver_updating p) = Some (snd p)"
  by (simp_all add: ver_removal_def ver_addition_def ver_updating_def)

lemma ver_change_images [simp]:
  "(the \<circ> vc_Before) \<circ> ver_removal = id" "(the \<circ> vc_Before) \<circ> ver_updating = fst"
  "(the \<circ> vc_After) \<circ> ver_updating = snd" "(the \<circ> vc_After) \<circ> ver_addition = id"
  by (simp_all add: fun_eq_iff)

lemma ver_matched_pair:
  assumes "ver_matched thr (mset before - mset after) (mset after - mset before) rs us xs" and "(b, a) \<in> set us"
  shows "va_ItemID b = va_ItemID a \<and> va_CategoryID b = va_CategoryID a \<and> ver_key b \<noteq> ver_key a \<and> thr \<le> ver_bboxIOU b a"
proof -
  have g: "va_ItemID b = va_ItemID a" "va_CategoryID b = va_CategoryID a" "thr \<le> ver_bboxIOU b a"
    using ver_matchedD(3,4) [OF assms] by (simp_all add: ver_gk_eq)
  have "b \<in># mset before - mset after" "a \<in># mset after - mset before"
    using subsetD [OF ver_matched_keys(2) [OF assms(1)]] subsetD [OF ver_matched_keys(3) [OF assms(1)]] assms(2) by force+
  then have "b \<noteq> a" using ver_disjoint [of b "mset before" "mset after"] by auto
  with g ver_key_group show ?thesis by blast
qed

lemma ver_diff_bounds:
  assumes "ver_visits ks before after" and "u \<in> set (ac_Updates (ver_changes ks before after t))"
  shows "ver_threshold t \<le> vc_IOU u \<and> vc_IOU u \<le> 1"
proof -
  obtain rs us xs where "ac_Updates (ver_changes ks before after t) = map ver_updating us"
    "ver_matched (ver_threshold t) (mset before - mset after) (mset after - mset before) rs us xs"
    using ver_changes_spec [OF assms(1)] by blast
  then show ?thesis using assms(2) ver_matched_pair ver_iou_bounds(2) by fastforce
qed

text \<open>
  C35. The difference of two snapshots against multisets of boxes: what is removed or updated is what \<open>before\<close> has
  more of than \<open>after\<close>, what is added or the target of an update is what \<open>after\<close> has more of, duplicates counted. So the
  index finds all exact matches. An update pairs different boxes of the same item and category that overlap
  by the threshold or more, and no pair that could still be matched so is left among the removals and additions.
\<close>

theorem ver_diff_exact:
  fixes ks cks before after t
  defines "d \<equiv> ver_DiffSnapshots ks cks before after t"
  assumes "ver_visits ks before after"
  shows "image_mset (the \<circ> vc_Before) (mset (vr_Removes d)) + image_mset (the \<circ> vc_Before) (mset (vr_Updates d)) =
       mset before - mset after \<and>
     image_mset (the \<circ> vc_After) (mset (vr_Updates d)) + image_mset (the \<circ> vc_After) (mset (vr_Adds d)) =
       mset after - mset before \<and>
     (\<forall>c\<in>set (vr_Removes d). \<exists>b. c = ver_removal b) \<and> (\<forall>c\<in>set (vr_Adds d). \<exists>a. c = ver_addition a) \<and>
     (\<forall>c\<in>set (vr_Updates d). \<exists>b a. c = ver_updating (b, a) \<and> va_ItemID b = va_ItemID a \<and> va_CategoryID b = va_CategoryID a \<and>
        ver_key b \<noteq> ver_key a \<and> ver_threshold t \<le> vc_IOU c \<and> vc_IOU c \<le> 1) \<and>
     (\<forall>b a. ver_removal b \<in> set (vr_Removes d) \<longrightarrow> ver_addition a \<in> set (vr_Adds d) \<longrightarrow>
        va_ItemID b = va_ItemID a \<longrightarrow> va_CategoryID b = va_CategoryID a \<longrightarrow> ver_bboxIOU b a < ver_threshold t)"
proof -
  obtain rs us xs where l: "vr_Removes d = map ver_removal rs" "vr_Updates d = map ver_updating us" "vr_Adds d = map ver_addition xs"
    and m: "ver_matched (ver_threshold t) (mset before - mset after) (mset after - mset before) rs us xs"
    unfolding d_def ver_result_lists using ver_changes_spec [OF assms(2)] by blast
  have eqs: "image_mset (the \<circ> vc_Before) (mset (vr_Removes d)) = mset rs"
    "image_mset (the \<circ> vc_Before) (mset (vr_Updates d)) = mset (map fst us)"
    "image_mset (the \<circ> vc_After) (mset (vr_Updates d)) = mset (map snd us)"
    "image_mset (the \<circ> vc_After) (mset (vr_Adds d)) = mset xs"
    unfolding l mset_map multiset.map_comp ver_change_images by simp_all
  have rem: "b \<in> set rs" if "ver_removal b \<in> set (map ver_removal rs)" for b
    using that by (auto simp: ver_removal_def)
  have add: "a \<in> set xs" if "ver_addition a \<in> set (map ver_addition xs)" for a
    using that by (auto simp: ver_addition_def)
  have upd: "\<exists>b a. c = ver_updating (b, a) \<and> va_ItemID b = va_ItemID a \<and> va_CategoryID b = va_CategoryID a \<and>
        ver_key b \<noteq> ver_key a \<and> ver_threshold t \<le> vc_IOU c \<and> vc_IOU c \<le> 1" if c: "c \<in> set (vr_Updates d)" for c
  proof -
    obtain b a where "(b, a) \<in> set us" "c = ver_updating (b, a)" using c by (auto simp: l)
    with ver_matched_pair [OF m] ver_iou_bounds(2) show ?thesis by fastforce
  qed
  have free: "ver_bboxIOU b a < ver_threshold t"
    if "ver_removal b \<in> set (vr_Removes d)" "ver_addition a \<in> set (vr_Adds d)" "va_ItemID b = va_ItemID a" "va_CategoryID b = va_CategoryID a" for b a
    using ver_matchedD(5) [OF m rem add] that by (simp add: l ver_gk_eq)
  have "\<forall>c\<in>set (vr_Removes d). \<exists>b. c = ver_removal b" "\<forall>c\<in>set (vr_Adds d). \<exists>a. c = ver_addition a" by (auto simp: l)
  with upd free show ?thesis unfolding eqs ver_matchedD(1,2) [OF m] by blast
qed

lemma ver_sizes:
  assumes "ver_visits ks before after"
  shows "\<exists>n. size (mset before \<inter># mset after) = n \<and>
     length before = n + length (ac_Removes (ver_changes ks before after t)) + length (ac_Updates (ver_changes ks before after t)) \<and>
     length after = n + length (ac_Adds (ver_changes ks before after t)) + length (ac_Updates (ver_changes ks before after t))"
proof -
  obtain rs us xs where l: "ac_Removes (ver_changes ks before after t) = map ver_removal rs"
    "ac_Updates (ver_changes ks before after t) = map ver_updating us" "ac_Adds (ver_changes ks before after t) = map ver_addition xs"
    and m: "ver_matched (ver_threshold t) (mset before - mset after) (mset after - mset before) rs us xs"
    using ver_changes_spec [OF assms] by blast
  have "mset before = mset before \<inter># mset after + (mset rs + mset (map fst us))"
    "mset after = mset before \<inter># mset after + (mset (map snd us) + mset xs)"
    unfolding ver_matchedD(1,2) [OF m] by (auto simp: multiset_eq_iff min_def)
  from arg_cong [OF this(1), of size] arg_cong [OF this(2), of size] show ?thesis unfolding l by simp
qed

lemma ver_drift_bounds:
  assumes "ver_visits ks before after" and "ac_Updates (ver_changes ks before after t) \<noteq> []"
  shows "ver_threshold t \<le> vs_AverageIOUDrift (vr_Stats (ver_DiffSnapshots ks cks before after t)) \<and>
     vs_AverageIOUDrift (vr_Stats (ver_DiffSnapshots ks cks before after t)) \<le> 1"
proof -
  let ?us = "ac_Updates (ver_changes ks before after t)"
  have each: "ver_threshold t \<le> vc_IOU u" "vc_IOU u \<le> 1" if "u \<in> set ?us" for u
    using ver_diff_bounds [OF assms(1) that] by simp_all
  have n: "0 < real (length ?us)" using assms(2) by simp
  have "ver_threshold t * real (length ?us) \<le> sum_list (map vc_IOU ?us)" "sum_list (map vc_IOU ?us) \<le> 1 * real (length ?us)"
    using sum_list_mono [of ?us "\<lambda>_. ver_threshold t" vc_IOU] sum_list_mono [of ?us vc_IOU "\<lambda>_. 1"] each
    by (simp_all add: sum_list_triv mult.commute)
  moreover have "vs_AverageIOUDrift (vr_Stats (ver_DiffSnapshots ks cks before after t)) =
      sum_list (map vc_IOU ?us) / real (length ?us)"
    using ver_changes_ok n by (simp add: ver_DiffSnapshots_def Let_def ver_acc_ok_def)
  ultimately show ?thesis using n by (simp add: pos_le_divide_eq pos_divide_le_eq)
qed

text \<open>
  The statistics say what the lists say: the box delta is the difference of the snapshot sizes, the average drift
  of a result with updates lies between the threshold and 1, and the categories appear
  once each, ascending, exactly those with a change, with the counts of their additions, removals and updates.
\<close>

theorem ver_stats_exact:
  fixes ks cks before after t
  defines "d \<equiv> ver_DiffSnapshots ks cks before after t" and "s \<equiv> vr_Stats (ver_DiffSnapshots ks cks before after t)"
  assumes "ver_visits ks before after" and "ver_delta_order cks (ver_changes ks before after t)"
  shows "vs_AddedCount s = int (length (vr_Adds d)) \<and> vs_RemovedCount s = int (length (vr_Removes d)) \<and>
     vs_UpdatedCount s = int (length (vr_Updates d)) \<and> vs_TotalBoxDelta s = int (length after) - int (length before) \<and>
     (vr_Updates d \<noteq> [] \<longrightarrow> ver_threshold t \<le> vs_AverageIOUDrift s \<and> vs_AverageIOUDrift s \<le> 1) \<and>
     (\<exists>cs. sorted_wrt (<) cs \<and> set cs = vc_CategoryID ` set (vr_Adds d @ vr_Removes d @ vr_Updates d) \<and>
        vs_PerCategoryDelta s = map (\<lambda>c. \<lparr>vd_CategoryID = c, vd_AddedCount = ver_count c (vr_Adds d),
           vd_RemovedCount = ver_count c (vr_Removes d), vd_UpdatedCount = ver_count c (vr_Updates d),
           vd_NetBoxDelta = ver_count c (vr_Adds d) - ver_count c (vr_Removes d)\<rparr>) cs)"
proof -
  let ?acc = "ver_changes ks before after t"
  have ok: "ver_acc_ok ?acc" by (rule ver_changes_ok)
  have some: "ac_delta ?acc c = ver_delta_of (ac_Adds ?acc) (ac_Removes ?acc) (ac_Updates ?acc) c" for c
    using ok by (simp add: ver_acc_ok_def)
  have in_dom: "c \<in> set cks \<longleftrightarrow> c \<in> vc_CategoryID ` set (vr_Adds d @ vr_Removes d @ vr_Updates d)" for c
  proof -
    have nz: "ver_count c zs = 0 \<longleftrightarrow> c \<notin> vc_CategoryID ` set zs" for zs
      by (auto simp: ver_count_def filter_empty_conv)
    have "c \<in> set cks \<longleftrightarrow> ac_delta ?acc c \<noteq> None" using assms(4) by (auto simp: ver_delta_order_def)
    also have "\<dots> \<longleftrightarrow> c \<in> vc_CategoryID ` set (vr_Adds d @ vr_Removes d @ vr_Updates d)"
      unfolding some by (auto simp: ver_delta_of_def d_def nz)
    finally show ?thesis .
  qed
  have "sorted_wrt (<) (sort cks)" using assms(4) by (simp add: ver_delta_order_def strict_sorted_iff)
  moreover have "set (sort cks) = vc_CategoryID ` set (vr_Adds d @ vr_Removes d @ vr_Updates d)"
    using in_dom by (auto simp del: set_append)
  moreover have "vs_PerCategoryDelta s = map (\<lambda>c. \<lparr>vd_CategoryID = c, vd_AddedCount = ver_count c (vr_Adds d),
           vd_RemovedCount = ver_count c (vr_Removes d), vd_UpdatedCount = ver_count c (vr_Updates d),
           vd_NetBoxDelta = ver_count c (vr_Adds d) - ver_count c (vr_Removes d)\<rparr>) (sort cks)"
  proof -
    have "vs_PerCategoryDelta s = map (\<lambda>c. the (ac_delta ?acc c)) (sort cks)"
      using ver_flatten_sorted [OF ok assms(4)] by (simp add: s_def ver_DiffSnapshots_def Let_def)
    then show ?thesis unfolding some
      using assms(4) by (auto simp: ver_delta_of_def d_def ver_delta_order_def some split: if_splits)
  qed
  moreover have "ver_threshold t \<le> vs_AverageIOUDrift s \<and> vs_AverageIOUDrift s \<le> 1" if "vr_Updates d \<noteq> []"
    unfolding s_def by (rule ver_drift_bounds [OF assms(3)]) (use that in \<open>simp add: d_def\<close>)
  moreover have "vs_TotalBoxDelta s = int (length after) - int (length before)"
    using ver_sizes [OF assms(3), of t] by (auto simp: s_def ver_DiffSnapshots_def Let_def)
  moreover have "vs_AddedCount s = int (length (vr_Adds d))" "vs_RemovedCount s = int (length (vr_Removes d))"
    "vs_UpdatedCount s = int (length (vr_Updates d))" by (simp_all add: s_def d_def ver_DiffSnapshots_def Let_def)
  ultimately show ?thesis by blast
qed

lemma sum_list_pos_cases:
  fixes f :: "'a \<Rightarrow> real"
  assumes "\<And>x. x \<in> set xs \<Longrightarrow> 0 < f x"
  shows "0 \<le> sum_list (map f xs)" and "sum_list (map f xs) = 0 \<longleftrightarrow> xs = []"
  using assms by (induction xs) (auto simp: add_nonneg_eq_0_iff less_imp_le dest: less_imp_neq)

lemma loss_ratio:
  fixes base :: real
  assumes "0 \<le> loss" and "1 \<le> base"
  shows "(base - loss) / base \<le> 1" "(base - loss) / base = 1 \<longleftrightarrow> loss = 0"
  using assms by (auto simp: field_simps)

lemma ver_clamp_bounds:
  "0 \<le> ver_clamp01 x" "ver_clamp01 x \<le> 1" "x \<le> 1 \<Longrightarrow> ver_clamp01 x = 1 \<longleftrightarrow> x = 1"
  by (auto simp: ver_clamp01_def)

lemma ver_maxInt_simp: "ver_maxInt [a, 1] b = max (max b a) 1"
  by (simp add: max_def)

lemma ver_score_loss:
  assumes "ac_Removes (ver_changes ks before after t) = map ver_removal rs"
    and "ac_Updates (ver_changes ks before after t) = map ver_updating us" and "ac_Adds (ver_changes ks before after t) = map ver_addition xs"
  shows "vr_CompatibilityScore (ver_DiffSnapshots ks cks before after t) =
     (let base = real_of_int (max (max (int (length before)) (int (length after))) 1)
      in ver_clamp01 ((base - (real (length xs) + real (length rs) + (\<Sum>p\<leftarrow>us. 1 - ver_bboxIOU (fst p) (snd p)))) / base))"
proof -
  have "real (length us) = (\<Sum>p\<leftarrow>us. 1 - ver_bboxIOU (fst p) (snd p)) + sum_list (map vc_IOU (map ver_updating us))"
    by (induction us) simp_all
  then show ?thesis using assms
    by (simp add: ver_DiffSnapshots_def ver_compatibilityScore_def Let_def ver_maxInt_simp foldl_iou algebra_simps
      del: ver_maxInt.simps)
qed

text \<open>
  The compatibility score lies between 0 and 1, and is 1 exactly when the two snapshots hold the same boxes, duplicates
  counted; then the result lists no change.
\<close>

theorem ver_score_one:
  fixes ks cks before after t
  defines "d \<equiv> ver_DiffSnapshots ks cks before after t"
  assumes "ver_visits ks before after"
  shows "0 \<le> vr_CompatibilityScore d \<and> vr_CompatibilityScore d \<le> 1 \<and>
     (vr_CompatibilityScore d = 1 \<longleftrightarrow> mset before = mset after) \<and>
     (mset before = mset after \<longleftrightarrow> vr_Adds d = [] \<and> vr_Removes d = [] \<and> vr_Updates d = [])"
proof -
  obtain rs us xs where l: "vr_Removes d = map ver_removal rs" "vr_Updates d = map ver_updating us" "vr_Adds d = map ver_addition xs"
    and m: "ver_matched (ver_threshold t) (mset before - mset after) (mset after - mset before) rs us xs"
    unfolding d_def ver_result_lists using ver_changes_spec [OF assms(2)] by blast
  let ?base = "max (max (int (length before)) (int (length after))) 1"
  let ?loss = "real (length xs) + real (length rs) + (\<Sum>p\<leftarrow>us. 1 - ver_bboxIOU (fst p) (snd p))"
  have same: "mset before = mset after \<longleftrightarrow> xs = [] \<and> rs = [] \<and> us = []"
  proof -
    have "mset before = mset after \<longleftrightarrow> mset before - mset after = {#} \<and> mset after - mset before = {#}"
      by (metis Diff_eq_empty_iff_mset subset_mset.antisym diff_cancel)
    then show ?thesis unfolding ver_matchedD(1,2) [OF m, symmetric] by auto
  qed
  have strict: "0 < 1 - ver_bboxIOU (fst p) (snd p)" if "p \<in> set us" for p
    using ver_matched_pair [OF m, of "fst p" "snd p"] that ver_iou_one [of "fst p" "snd p"] ver_iou_bounds(2) [of "fst p" "snd p"]
    by fastforce
  then have sum: "0 \<le> (\<Sum>p\<leftarrow>us. 1 - ver_bboxIOU (fst p) (snd p))"
    "(\<Sum>p\<leftarrow>us. 1 - ver_bboxIOU (fst p) (snd p)) = 0 \<longleftrightarrow> us = []"
    using sum_list_pos_cases [of us "\<lambda>p. 1 - ver_bboxIOU (fst p) (snd p)"] by blast+
  then have loss: "0 \<le> ?loss" "?loss = 0 \<longleftrightarrow> xs = [] \<and> rs = [] \<and> us = []"
    by (auto simp: add_nonneg_eq_0_iff)
  have score: "vr_CompatibilityScore d = ver_clamp01 ((real_of_int ?base - ?loss) / real_of_int ?base)"
    using ver_score_loss [of ks before after t rs us xs cks] l by (simp add: d_def Let_def)
  have "1 \<le> real_of_int ?base" by simp
  note ratio = loss_ratio [OF loss(1) this]
  have "vr_CompatibilityScore d = 1 \<longleftrightarrow> ?loss = 0" "0 \<le> vr_CompatibilityScore d" "vr_CompatibilityScore d \<le> 1"
    unfolding score ver_clamp_bounds(3) [OF ratio(1)] ratio(2) by (rule refl, rule ver_clamp_bounds(1), rule ver_clamp_bounds(2))
  then show ?thesis unfolding same loss(2) l by simp
qed

text \<open>
  Go visits a map in any order, but only the order of the three lists depends on it: two results for the same
  snapshots have the same changes, the same statistics and the same score.
\<close>

theorem ver_order_irrelevant:
  assumes "ver_visits ks before after" and "ver_visits ks' before after"
    and "ver_delta_order cks (ver_changes ks before after t)" and "ver_delta_order cks' (ver_changes ks' before after t)"
  shows "mset (vr_Adds (ver_DiffSnapshots ks cks before after t)) = mset (vr_Adds (ver_DiffSnapshots ks' cks' before after t)) \<and>
     mset (vr_Removes (ver_DiffSnapshots ks cks before after t)) = mset (vr_Removes (ver_DiffSnapshots ks' cks' before after t)) \<and>
     mset (vr_Updates (ver_DiffSnapshots ks cks before after t)) = mset (vr_Updates (ver_DiffSnapshots ks' cks' before after t)) \<and>
     vr_Stats (ver_DiffSnapshots ks cks before after t) = vr_Stats (ver_DiffSnapshots ks' cks' before after t) \<and>
     vr_CompatibilityScore (ver_DiffSnapshots ks cks before after t) =
       vr_CompatibilityScore (ver_DiffSnapshots ks' cks' before after t)"
proof -
  let ?a = "ver_changes ks before after t" and ?b = "ver_changes ks' before after t"
  note order = ver_acc_order [OF assms(1,2), of t]
  note len = order [THEN mset_eq_length]
  have ok: "ver_acc_ok ?a" "ver_acc_ok ?b" by (rule ver_changes_ok)+
  have delta: "ac_delta ?a = ac_delta ?b" using ok ver_delta_mset [OF order(3,1,2)] by (simp add: ver_acc_ok_def)
  have iou: "sum_list (map vc_IOU (ac_Updates ?a)) = sum_list (map vc_IOU (ac_Updates ?b))" by (rule sum_list_mset_eq [OF order(2)])
  then have sums: "ac_iouSum ?a = ac_iouSum ?b" using ok by (simp add: ver_acc_ok_def)
  have "mset cks = mset cks'" using assms(3,4) delta by (simp add: ver_delta_order_def set_eq_iff_mset_eq_distinct [symmetric])
  then have "sort cks = sort cks'" by (metis properties_for_sort mset_sort sorted_sort)
  then have "ver_flattenCategoryDelta cks (ac_delta ?a) = ver_flattenCategoryDelta cks' (ac_delta ?b)"
    using ver_flatten_sorted [OF ok(1) assms(3)] ver_flatten_sorted [OF ok(2) assms(4)] delta by simp
  moreover have "ac_Updates ?a = [] \<longleftrightarrow> ac_Updates ?b = []" using len(2) by auto
  ultimately show ?thesis using order len sums iou
    by (simp add: ver_DiffSnapshots_def Let_def ver_compatibilityScore_def foldl_iou)
qed

subsection \<open>Concrete snapshots\<close>

definition ver_box :: "real \<Rightarrow> ver_Annotation" where
  "ver_box x = \<lparr>va_ItemID = 1, va_CategoryID = 2, va_BBoxX = x, va_BBoxY = 0, va_BBoxW = 10, va_BBoxH = 10\<rparr>"

lemma ver_box_inject [simp]: "ver_box x = ver_box y \<longleftrightarrow> x = y"
  by (simp add: ver_box_def)

lemma ver_sample_groups:
  "slice_at (ver_groups [ver_box 0, ver_box 30]) (ver_gk (ver_box 0)) = [ver_box 0, ver_box 30]"
  "slice_at (ver_groups [ver_box 0, ver_box 32]) (ver_gk (ver_box 0)) = [ver_box 0, ver_box 32]"
  by (simp_all add: ver_groups_filter ver_gk_eq) (simp_all add: ver_box_def)

lemma ver_sample_visits: "ver_visits [ver_gk (ver_box 0)] [ver_box 0, ver_box 30] [ver_box 0, ver_box 32]"
  by (simp add: ver_visits_def ver_groups_dom ver_gk_eq) (simp add: ver_box_def ver_gk_def)

lemma ver_sample_changes:
  "ver_changes [ver_gk (ver_box 0)] [ver_box 0, ver_box 30] [ver_box 0, ver_box 32] 0 =
     ver_update (ver_box 30) (ver_box 32) (2 / 3) ver_emptyAcc"
  unfolding ver_changes_def foldl.simps ver_sample_groups
  by (simp add: ver_diffGroup_def ver_buildExactMatchIndex_def ver_claimExactMatch_def Let_def ver_key_def ver_box_def
      ver_bboxIOU_def ver_threshold_def slice_at_def)

lemma ver_sample_delta:
  "ver_delta_order [2] (ver_changes [ver_gk (ver_box 0)] [ver_box 0, ver_box 30] [ver_box 0, ver_box 32] 0)"
  unfolding ver_sample_changes
  by (simp add: ver_delta_order_def ver_update_def ver_emptyAcc_def ver_recordCategoryDelta_def ver_box_def)

theorem ver_diff_exact_witness:
  "image_mset (the \<circ> vc_Before) (mset (vr_Updates (ver_DiffSnapshots [ver_gk (ver_box 0)] [2] [ver_box 0, ver_box 30] [ver_box 0, ver_box 32] 0))) =
     {#ver_box 30#}"
  using ver_diff_exact [OF ver_sample_visits, of "[2]" 0]
  by (simp add: ver_sample_changes ver_update_def ver_emptyAcc_def)

theorem ver_stats_exact_witness:
  "vs_TotalBoxDelta (vr_Stats (ver_DiffSnapshots [ver_gk (ver_box 0)] [2] [ver_box 0, ver_box 30] [ver_box 0, ver_box 32] 0)) = 0"
  using ver_stats_exact [OF ver_sample_visits ver_sample_delta] by simp

theorem ver_score_one_witness:
  "vr_CompatibilityScore (ver_DiffSnapshots [ver_gk (ver_box 0)] [2] [ver_box 0, ver_box 30] [ver_box 0, ver_box 32] 0) \<noteq> 1"
proof -
  have "mset [ver_box 0, ver_box 30] \<noteq> mset [ver_box 0, ver_box 32]" by simp
  with ver_score_one [OF ver_sample_visits, of "[2]" 0] show ?thesis by blast
qed

definition ver_other :: ver_Annotation where
  "ver_other = \<lparr>va_ItemID = 2, va_CategoryID = 3, va_BBoxX = 5, va_BBoxY = 0, va_BBoxW = 10, va_BBoxH = 10\<rparr>"

lemma ver_other_groups:
  "slice_at (ver_groups [ver_box 0]) (ver_gk (ver_box 0)) = [ver_box 0]" "slice_at (ver_groups [ver_box 0]) (ver_gk ver_other) = []"
  "slice_at (ver_groups [ver_other]) (ver_gk (ver_box 0)) = []" "slice_at (ver_groups [ver_other]) (ver_gk ver_other) = [ver_other]"
  by (simp_all add: ver_groups_filter ver_gk_eq) (simp_all add: ver_box_def ver_other_def)

lemma ver_other_visits:
  "ver_visits [ver_gk (ver_box 0), ver_gk ver_other] [ver_box 0] [ver_other]"
  "ver_visits [ver_gk ver_other, ver_gk (ver_box 0)] [ver_box 0] [ver_other]"
  by (auto simp: ver_visits_def ver_groups_dom ver_gk_eq) (simp_all add: ver_box_def ver_other_def)

lemma ver_other_changes:
  "ver_changes [ver_gk (ver_box 0), ver_gk ver_other] [ver_box 0] [ver_other] 0 =
     ver_add ver_other (ver_remove (ver_box 0) ver_emptyAcc)"
  "ver_changes [ver_gk ver_other, ver_gk (ver_box 0)] [ver_box 0] [ver_other] 0 =
     ver_remove (ver_box 0) (ver_add ver_other ver_emptyAcc)"
  unfolding ver_changes_def foldl.simps ver_other_groups
  by (simp_all add: ver_diffGroup_def ver_buildExactMatchIndex_def ver_claimExactMatch_def Let_def slice_at_def)

lemma ver_other_delta:
  "ver_delta_order [2, 3] (ver_changes [ver_gk (ver_box 0), ver_gk ver_other] [ver_box 0] [ver_other] 0)"
  "ver_delta_order [3, 2] (ver_changes [ver_gk ver_other, ver_gk (ver_box 0)] [ver_box 0] [ver_other] 0)"
  unfolding ver_other_changes
  by (auto simp: ver_delta_order_def ver_add_def ver_remove_def ver_emptyAcc_def ver_recordCategoryDelta_def ver_box_def ver_other_def)

theorem ver_order_irrelevant_witness:
  "vr_Stats (ver_DiffSnapshots [ver_gk (ver_box 0), ver_gk ver_other] [2, 3] [ver_box 0] [ver_other] 0) =
     vr_Stats (ver_DiffSnapshots [ver_gk ver_other, ver_gk (ver_box 0)] [3, 2] [ver_box 0] [ver_other] 0)"
  using ver_order_irrelevant [OF ver_other_visits ver_other_delta] by blast

end
