(* ===== verification/Datahub.thy ===== *)
theory Datahub
  imports Http "HOL-Library.Multiset" "HOL-Library.List_Lexorder" "HOL-Library.Char_ord"
begin

section \<open>Data hub: datasets, snapshots, items and imports\<close>

text \<open>
  \<open>internal/datahub\<close>: the data model, the in-memory repository and the service. The object scanner, the
  presigner and the clock are arguments. A loop over the dataset map takes its visiting order \<open>dks\<close>.
  A box coordinate is a real.
\<close>

record dh_Dataset =
  ds_ID :: int
  ds_ProjectID :: int
  ds_Name :: string
  ds_Bucket :: string
  ds_Prefix :: string

record dh_Snapshot =
  sn_ID :: int
  sn_DatasetID :: int
  sn_Version :: string
  sn_BasedOnSnapshot :: "int option"
  sn_Note :: string

record dh_CreateDatasetInput =
  cd_in_ProjectID :: int
  cd_in_Name :: string
  cd_in_Bucket :: string
  cd_in_Prefix :: string

record dh_CreateSnapshotInput =
  cs_in_BasedOnSnapshotID :: "int option"
  cs_in_Note :: string

record dh_PresignInput =
  ps_DatasetID :: int
  ps_ObjectKey :: string
  ps_TTLSeconds :: int

record dh_DatasetItem =
  di_ID :: int
  di_DatasetID :: int
  di_ObjectKey :: string
  di_ETag :: string

record dh_ScannedObject =
  so_Key :: string
  so_ETag :: string
  so_Size :: int
  so_Mime :: string
  so_Width :: int
  so_Height :: int

record dh_ImportedAnnotation =
  ia_ObjectKey :: string
  ia_CategoryName :: string
  ia_BBoxX :: real
  ia_BBoxY :: real
  ia_BBoxW :: real
  ia_BBoxH :: real

record dh_ImportSnapshotInput =
  is_Format :: string
  is_SourceURI :: string
  is_Entries :: "dh_ImportedAnnotation list"

record dh_ImportSnapshotResult =
  ir_DatasetID :: int
  ir_SnapshotID :: int
  ir_ImportedAnnotations :: int

record dh_StoredAnnotation =
  st_SnapshotID :: int
  st_DatasetID :: int
  st_ItemID :: int
  st_ObjectKey :: string
  st_CategoryID :: int
  st_CategoryName :: string
  st_BBoxX :: real
  st_BBoxY :: real
  st_BBoxW :: real
  st_BBoxH :: real

record dh_AnnotationChangePayload =
  cp_ObjectKey :: string
  cp_CategoryID :: int
  cp_CategoryName :: string
  cp_BBoxX :: real
  cp_BBoxY :: real
  cp_BBoxW :: real
  cp_BBoxH :: real

record dh_AnnotationChange =
  ac_FromSnapshotID :: int
  ac_ToSnapshotID :: int
  ac_ItemID :: int
  ac_ChangeType :: string
  ac_Before :: "dh_AnnotationChangePayload option"
  ac_After :: "dh_AnnotationChangePayload option"

record dh_DatasetSummary =
  sm_ID :: int
  sm_ProjectID :: int
  sm_Name :: string
  sm_Bucket :: string
  sm_Prefix :: string
  sm_ItemCount :: int
  sm_SnapshotCount :: int
  sm_LatestSnapshotID :: "int option"
  sm_LatestSnapshotVersion :: string

record dh_DatasetDetail =
  dd_ID :: int
  dd_ProjectID :: int
  dd_Name :: string
  dd_Bucket :: string
  dd_Prefix :: string
  dd_ItemCount :: int
  dd_SnapshotCount :: int
  dd_LatestSnapshotID :: "int option"
  dd_LatestSnapshotVersion :: string

record dh_SnapshotDetail =
  sdt_ID :: int
  sdt_DatasetID :: int
  sdt_Version :: string
  sdt_ProjectID :: int
  sdt_DatasetName :: string
  sdt_BasedOnSnapshotID :: "int option"
  sdt_Note :: string
  sdt_AnnotationCount :: int

subsection \<open>Errors\<close>

text \<open>
  The first four carry the typed kinds of \<open>errors.go\<close>; the others are plain errors, which
  \<open>errors.Is\<close> does not recognise. \<open>DhMissing\<close> is \<open>fmt.Errorf("... not found")\<close>.
\<close>

datatype dh_error =
    DhNotFound string int
  | DhNamedNotFound string string
  | DhConflict int
  | DhValidation string string
  | DhMissing string int
  | DhPlain string
  | DhExternal string

datatype dh_kind = DhErrNotFound | DhErrConflict | DhErrValidation

definition dh_error_is :: "dh_error \<Rightarrow> dh_kind \<Rightarrow> bool" where
  "dh_error_is e k =
     (case e of
        DhNotFound r i \<Rightarrow> k = DhErrNotFound
      | DhNamedNotFound r n \<Rightarrow> k = DhErrNotFound
      | DhConflict i \<Rightarrow> k = DhErrConflict
      | DhValidation msg detail \<Rightarrow> k = DhErrValidation
      | DhMissing r i \<Rightarrow> False
      | DhPlain msg \<Rightarrow> False
      | DhExternal msg \<Rightarrow> False)"

subsection \<open>The repository\<close>

record dh_Repo =
  dr_nextDataset :: int
  dr_nextSnapshot :: int
  dr_nextItem :: int
  dr_nextCategory :: int
  dr_datasets :: "int \<rightharpoonup> dh_Dataset"
  dr_snapshots :: "int \<rightharpoonup> dh_Snapshot list"
  dr_items :: "int \<rightharpoonup> dh_DatasetItem list"
  dr_categoryIDs :: "string \<rightharpoonup> int"
  dr_categoryNames :: "int \<rightharpoonup> string"
  dr_annotations :: "dh_StoredAnnotation list"
  dr_changes :: "dh_AnnotationChange list"

definition dh_NewInMemoryRepository :: dh_Repo where
  "dh_NewInMemoryRepository =
     \<lparr>dr_nextDataset = 1, dr_nextSnapshot = 1, dr_nextItem = 1, dr_nextCategory = 1, dr_datasets = Map.empty,
      dr_snapshots = Map.empty, dr_items = Map.empty, dr_categoryIDs = Map.empty, dr_categoryNames = Map.empty,
      dr_annotations = [], dr_changes = []\<rparr>"

definition dh_repo_CreateDataset :: "dh_CreateDatasetInput \<Rightarrow> dh_Repo \<Rightarrow> dh_Dataset \<times> dh_Repo" where
  "dh_repo_CreateDataset inp r =
     (let d = \<lparr>ds_ID = dr_nextDataset r, ds_ProjectID = cd_in_ProjectID inp, ds_Name = cd_in_Name inp,
               ds_Bucket = cd_in_Bucket inp, ds_Prefix = cd_in_Prefix inp\<rparr>
      in (d, r\<lparr>dr_nextDataset := dr_nextDataset r + 1, dr_datasets := (dr_datasets r)(ds_ID d \<mapsto> d),
               dr_items := (dr_items r)(ds_ID d \<mapsto> [])\<rparr>))"

definition dh_repo_GetDataset :: "int \<Rightarrow> dh_Repo \<Rightarrow> dh_error + dh_Dataset" where
  "dh_repo_GetDataset did r = (case dr_datasets r did of None \<Rightarrow> Inl (DhMissing ''dataset'' did) | Some d \<Rightarrow> Inr d)"

definition dh_summary :: "dh_Repo \<Rightarrow> dh_Dataset \<Rightarrow> dh_DatasetSummary" where
  "dh_summary r d =
     (let sns = slice_at (dr_snapshots r) (ds_ID d);
          s = \<lparr>sm_ID = ds_ID d, sm_ProjectID = ds_ProjectID d, sm_Name = ds_Name d, sm_Bucket = ds_Bucket d,
               sm_Prefix = ds_Prefix d, sm_ItemCount = int (length (slice_at (dr_items r) (ds_ID d))),
               sm_SnapshotCount = int (length sns), sm_LatestSnapshotID = None, sm_LatestSnapshotVersion = []\<rparr>
      in if sns \<noteq> [] then s\<lparr>sm_LatestSnapshotID := Some (sn_ID (last sns)), sm_LatestSnapshotVersion := sn_Version (last sns)\<rparr>
         else s)"

text \<open>\<open>dks\<close> is the order in which the loop over the dataset map collects the numbers.\<close>

definition dh_repo_ListDatasets :: "int list \<Rightarrow> int \<Rightarrow> dh_Repo \<Rightarrow> dh_DatasetSummary list" where
  "dh_repo_ListDatasets dks projectID r =
     map (dh_summary r) (filter (\<lambda>d. ds_ProjectID d = projectID) (map (\<lambda>k. the (dr_datasets r k)) (sort dks)))"

definition dh_repo_GetDatasetDetail :: "int \<Rightarrow> dh_Repo \<Rightarrow> dh_error + dh_DatasetDetail" where
  "dh_repo_GetDatasetDetail did r =
     (case dr_datasets r did of
        None \<Rightarrow> Inl (DhNotFound ''dataset'' did)
      | Some d \<Rightarrow>
          let sns = slice_at (dr_snapshots r) (ds_ID d);
              x = \<lparr>dd_ID = ds_ID d, dd_ProjectID = ds_ProjectID d, dd_Name = ds_Name d, dd_Bucket = ds_Bucket d,
                   dd_Prefix = ds_Prefix d, dd_ItemCount = int (length (slice_at (dr_items r) (ds_ID d))),
                   dd_SnapshotCount = int (length sns), dd_LatestSnapshotID = None, dd_LatestSnapshotVersion = []\<rparr>
          in Inr (if sns \<noteq> []
                  then x\<lparr>dd_LatestSnapshotID := Some (sn_ID (last sns)), dd_LatestSnapshotVersion := sn_Version (last sns)\<rparr>
                  else x))"

definition dh_repo_CreateSnapshot ::
  "int \<Rightarrow> dh_CreateSnapshotInput \<Rightarrow> dh_Repo \<Rightarrow> (dh_error, dh_Snapshot, dh_Repo) outcome" where
  "dh_repo_CreateSnapshot did inp r =
     (case dr_datasets r did of
        None \<Rightarrow> (Inl (DhMissing ''dataset'' did), r)
      | Some _ \<Rightarrow>
          let sns = slice_at (dr_snapshots r) did;
              s = \<lparr>sn_ID = dr_nextSnapshot r, sn_DatasetID = did, sn_Version = ''v'' @ show_int (int (length sns) + 1),
                   sn_BasedOnSnapshot = cs_in_BasedOnSnapshotID inp, sn_Note = cs_in_Note inp\<rparr>
          in (Inr s, r\<lparr>dr_nextSnapshot := dr_nextSnapshot r + 1, dr_snapshots := (dr_snapshots r)(did \<mapsto> sns @ [s])\<rparr>))"

definition dh_repo_ListSnapshots :: "int \<Rightarrow> dh_Repo \<Rightarrow> dh_error + dh_Snapshot list" where
  "dh_repo_ListSnapshots did r =
     (case dr_datasets r did of None \<Rightarrow> Inl (DhMissing ''dataset'' did) | Some _ \<Rightarrow> Inr (slice_at (dr_snapshots r) did))"

text \<open>The nested loops of \<open>GetSnapshot\<close> and \<open>GetSnapshotDetail\<close> stop at the first match.\<close>

definition dh_findSnapshot :: "int list \<Rightarrow> int \<Rightarrow> dh_Repo \<Rightarrow> dh_Snapshot option" where
  "dh_findSnapshot dks sid r = find (\<lambda>s. sn_ID s = sid) (concat (map (slice_at (dr_snapshots r)) dks))"

definition dh_repo_GetSnapshot :: "int list \<Rightarrow> int \<Rightarrow> dh_Repo \<Rightarrow> dh_error + dh_Snapshot" where
  "dh_repo_GetSnapshot dks sid r =
     (case dh_findSnapshot dks sid r of None \<Rightarrow> Inl (DhMissing ''snapshot'' sid) | Some s \<Rightarrow> Inr s)"

definition dh_repo_GetSnapshotDetail :: "int list \<Rightarrow> int \<Rightarrow> dh_Repo \<Rightarrow> dh_error + dh_SnapshotDetail" where
  "dh_repo_GetSnapshotDetail sks sid r =
     (case dh_findSnapshot sks sid r of
        None \<Rightarrow> Inl (DhNotFound ''snapshot'' sid)
      | Some s \<Rightarrow>
          (case dr_datasets r (sn_DatasetID s) of
             None \<Rightarrow> Inl (DhNotFound ''dataset'' (sn_DatasetID s))
           | Some d \<Rightarrow> Inr
               \<lparr>sdt_ID = sn_ID s, sdt_DatasetID = sn_DatasetID s, sdt_Version = sn_Version s, sdt_ProjectID = ds_ProjectID d,
                sdt_DatasetName = ds_Name d, sdt_BasedOnSnapshotID = sn_BasedOnSnapshot s, sdt_Note = sn_Note s,
                sdt_AnnotationCount = int (length (filter
                  (\<lambda>a. st_DatasetID a = sn_DatasetID s \<and> st_SnapshotID a \<le> sid) (dr_annotations r)))\<rparr>))"

subsubsection \<open>Items\<close>

fun dh_upsertLoop :: "int \<Rightarrow> dh_ScannedObject list \<Rightarrow> (string \<Rightarrow> bool) \<Rightarrow> int \<Rightarrow> dh_Repo \<Rightarrow> int \<times> dh_Repo" where
  "dh_upsertLoop did [] existing added r = (added, r)"
| "dh_upsertLoop did (ob # obs) existing added r =
     (if so_Key ob = [] \<or> existing (so_Key ob) then dh_upsertLoop did obs existing added r
      else
        let item = \<lparr>di_ID = dr_nextItem r, di_DatasetID = did, di_ObjectKey = so_Key ob,
                    di_ETag = (if so_ETag ob = [] then ''etag-'' @ show_int (dr_nextItem r) else so_ETag ob)\<rparr>
        in dh_upsertLoop did obs (existing(so_Key ob := True)) (added + 1)
             (r\<lparr>dr_nextItem := dr_nextItem r + 1, dr_items := (dr_items r)(did \<mapsto> slice_at (dr_items r) did @ [item])\<rparr>))"

definition dh_repo_UpsertScannedItems :: "int \<Rightarrow> dh_ScannedObject list \<Rightarrow> dh_Repo \<Rightarrow> (dh_error, int, dh_Repo) outcome" where
  "dh_repo_UpsertScannedItems did obs r =
     (case dr_datasets r did of
        None \<Rightarrow> (Inl (DhMissing ''dataset'' did), r)
      | Some _ \<Rightarrow>
          (let (added, r') = dh_upsertLoop did obs (\<lambda>k. k \<in> set (map di_ObjectKey (slice_at (dr_items r) did))) 0 r
           in (Inr added, r')))"

text \<open>\<open>now\<close> is the clock's \<open>UnixNano\<close>.\<close>

definition dh_repo_InsertItems :: "time \<Rightarrow> int \<Rightarrow> string list \<Rightarrow> dh_Repo \<Rightarrow> (dh_error, int, dh_Repo) outcome" where
  "dh_repo_InsertItems now did objectKeys r =
     (case dh_repo_GetDataset did r of
        Inl e \<Rightarrow> (Inl e, r)
      | Inr d \<Rightarrow>
          let keys = (if objectKeys = [] then [ds_Prefix d @ ''/sample-'' @ show_int now @ ''.jpg''] else objectKeys)
          in dh_repo_UpsertScannedItems did
               (map (\<lambda>k. \<lparr>so_Key = k, so_ETag = [], so_Size = 0, so_Mime = [], so_Width = 0, so_Height = 0\<rparr>)
                 (filter (\<lambda>k. k \<noteq> []) keys)) r)"

definition dh_repo_ListItems :: "int \<Rightarrow> dh_Repo \<Rightarrow> dh_error + dh_DatasetItem list" where
  "dh_repo_ListItems did r =
     (case dr_datasets r did of None \<Rightarrow> Inl (DhMissing ''dataset'' did) | Some _ \<Rightarrow> Inr (slice_at (dr_items r) did))"

definition dh_repo_GetItemByObjectKey :: "int \<Rightarrow> string \<Rightarrow> dh_Repo \<Rightarrow> dh_error + dh_DatasetItem" where
  "dh_repo_GetItemByObjectKey did k r =
     (case find (\<lambda>i. di_ObjectKey i = k) (slice_at (dr_items r) did) of
        None \<Rightarrow> Inl (DhNamedNotFound ''dataset item'' k)
      | Some i \<Rightarrow> Inr i)"

subsubsection \<open>Categories and annotations\<close>

definition dh_categoryKey :: "int \<Rightarrow> string \<Rightarrow> string" where
  "dh_categoryKey projectID categoryName = show_int projectID @ '':'' @ categoryName"

definition dh_EnsureCategory :: "int \<Rightarrow> string \<Rightarrow> dh_Repo \<Rightarrow> int \<times> dh_Repo" where
  "dh_EnsureCategory projectID categoryName r =
     (let k = dh_categoryKey projectID categoryName in
      case dr_categoryIDs r k of
        Some i \<Rightarrow> (i, r)
      | None \<Rightarrow>
          let i = dr_nextCategory r in
          (i, r\<lparr>dr_nextCategory := dr_nextCategory r + 1, dr_categoryIDs := (dr_categoryIDs r)(k \<mapsto> i),
                dr_categoryNames := (dr_categoryNames r)(i \<mapsto> categoryName)\<rparr>))"

definition dh_LookupCategory :: "int \<Rightarrow> string \<Rightarrow> dh_Repo \<Rightarrow> dh_error + int" where
  "dh_LookupCategory projectID categoryName r =
     (case dr_categoryIDs r (dh_categoryKey projectID categoryName) of
        Some i \<Rightarrow> Inr i
      | None \<Rightarrow> Inl (DhNamedNotFound ''category'' categoryName))"

definition dh_CreateAnnotation :: "dh_StoredAnnotation \<Rightarrow> dh_Repo \<Rightarrow> dh_Repo" where
  "dh_CreateAnnotation a r = r\<lparr>dr_annotations := dr_annotations r @ [a]\<rparr>"

definition dh_ListAnnotationsForSnapshot :: "int \<Rightarrow> dh_Repo \<Rightarrow> dh_StoredAnnotation list" where
  "dh_ListAnnotationsForSnapshot sid r = filter (\<lambda>a. st_SnapshotID a = sid) (dr_annotations r)"

definition dh_cloneAnnotationChange :: "dh_AnnotationChange \<Rightarrow> dh_AnnotationChange" where
  "dh_cloneAnnotationChange c =
     \<lparr>ac_FromSnapshotID = ac_FromSnapshotID c, ac_ToSnapshotID = ac_ToSnapshotID c, ac_ItemID = ac_ItemID c,
      ac_ChangeType = ac_ChangeType c, ac_Before = ac_Before c, ac_After = ac_After c\<rparr>"

definition dh_RecordAnnotationChange :: "dh_AnnotationChange \<Rightarrow> dh_Repo \<Rightarrow> dh_Repo" where
  "dh_RecordAnnotationChange c r = r\<lparr>dr_changes := dr_changes r @ [dh_cloneAnnotationChange c]\<rparr>"

definition dh_AnnotationChangesForSnapshot :: "int \<Rightarrow> dh_Repo \<Rightarrow> dh_AnnotationChange list" where
  "dh_AnnotationChangesForSnapshot sid r = map dh_cloneAnnotationChange (filter (\<lambda>c. ac_ToSnapshotID c = sid) (dr_changes r))"

end
