(* ===== verification/Datahub_Service.thy ===== *)
theory Datahub_Service
  imports Datahub
begin

section \<open>Data hub: the service\<close>

text \<open>
  The operations of \<open>service.go\<close> over the in-memory repository. A read gives its result, a write
  the result and the new repository, also on the error path.
\<close>

type_synonym dh_scanner = "string \<Rightarrow> string \<Rightarrow> string + dh_ScannedObject list"
type_synonym dh_presign = "int \<Rightarrow> string \<Rightarrow> int \<Rightarrow> string + string"

definition dh_CreateDataset :: "dh_CreateDatasetInput \<Rightarrow> dh_Repo \<Rightarrow> (dh_error, dh_Dataset, dh_Repo) outcome" where
  "dh_CreateDataset inp r =
     (if cd_in_ProjectID inp \<le> 0 then (Inl (DhPlain ''project_id must be > 0''), r)
      else if cd_in_Name inp = [] \<or> cd_in_Bucket inp = [] then (Inl (DhPlain ''name and bucket are required''), r)
      else (let (d, r') = dh_repo_CreateDataset inp r in (Inr d, r')))"

definition dh_CreateSnapshot :: "int \<Rightarrow> dh_CreateSnapshotInput \<Rightarrow> dh_Repo \<Rightarrow> (dh_error, dh_Snapshot, dh_Repo) outcome" where
  "dh_CreateSnapshot = dh_repo_CreateSnapshot"

definition dh_GetSnapshot :: "int list \<Rightarrow> int \<Rightarrow> dh_Repo \<Rightarrow> dh_error + dh_Snapshot" where
  "dh_GetSnapshot = dh_repo_GetSnapshot"

definition dh_ListSnapshots :: "int \<Rightarrow> dh_Repo \<Rightarrow> dh_error + dh_Snapshot list" where
  "dh_ListSnapshots = dh_repo_ListSnapshots"

definition dh_ListDatasets :: "int list \<Rightarrow> int \<Rightarrow> dh_Repo \<Rightarrow> dh_error + dh_DatasetSummary list" where
  "dh_ListDatasets dks projectID r =
     (if projectID \<le> 0 then Inl (DhPlain ''project_id must be > 0'') else Inr (dh_repo_ListDatasets dks projectID r))"

definition dh_GetDatasetDetail :: "int \<Rightarrow> dh_Repo \<Rightarrow> dh_error + dh_DatasetDetail" where
  "dh_GetDatasetDetail did r =
     (if did \<le> 0 then Inl (DhPlain ''dataset_id must be > 0'') else dh_repo_GetDatasetDetail did r)"

definition dh_GetSnapshotDetail :: "int list \<Rightarrow> int \<Rightarrow> dh_Repo \<Rightarrow> dh_error + dh_SnapshotDetail" where
  "dh_GetSnapshotDetail sks sid r =
     (if sid \<le> 0 then Inl (DhPlain ''snapshot_id must be > 0'') else dh_repo_GetSnapshotDetail sks sid r)"

definition dh_ScanDataset ::
  "dh_scanner option \<Rightarrow> time \<Rightarrow> int \<Rightarrow> string list \<Rightarrow> dh_Repo \<Rightarrow> (dh_error, int, dh_Repo) outcome" where
  "dh_ScanDataset scanner now did objectKeys r =
     (if objectKeys \<noteq> [] then dh_repo_InsertItems now did objectKeys r
      else
        case scanner of
          Some scan \<Rightarrow>
            (case dh_repo_GetDataset did r of
               Inl e \<Rightarrow> (Inl e, r)
             | Inr d \<Rightarrow>
                 (case scan (ds_Bucket d) (ds_Prefix d) of
                    Inl e \<Rightarrow> (Inl (DhExternal e), r)
                  | Inr obs \<Rightarrow> dh_repo_UpsertScannedItems did obs r))
        | None \<Rightarrow> dh_repo_InsertItems now did objectKeys r)"

definition dh_ListItems :: "int \<Rightarrow> dh_Repo \<Rightarrow> dh_error + dh_DatasetItem list" where
  "dh_ListItems = dh_repo_ListItems"

definition dh_PresignObject :: "dh_presign option \<Rightarrow> dh_PresignInput \<Rightarrow> dh_error + string" where
  "dh_PresignObject presign inp =
     (case presign of
        None \<Rightarrow> Inl (DhPlain ''presign function is not configured'')
      | Some f \<Rightarrow>
          if ps_DatasetID inp \<le> 0 \<or> ps_ObjectKey inp = [] then Inl (DhPlain ''dataset_id and object_key are required'')
          else
            let ttl = (if ps_TTLSeconds inp \<le> 0 then 120 else ps_TTLSeconds inp) in
            (case f (ps_DatasetID inp) (ps_ObjectKey inp) ttl of Inl e \<Rightarrow> Inl (DhExternal e) | Inr url \<Rightarrow> Inr url))"

subsection \<open>Imports\<close>

definition dh_isSupportedImportFormat :: "string \<Rightarrow> bool" where
  "dh_isSupportedImportFormat format \<longleftrightarrow> format = ''yolo'' \<or> format = ''coco''"

definition dh_importedAnnotationKey :: "dh_ImportedAnnotation \<Rightarrow> string" where
  "dh_importedAnnotationKey e =
     join_with ''|'' [ia_ObjectKey e, ia_CategoryName e, show_fixed6 (ia_BBoxX e), show_fixed6 (ia_BBoxY e),
                      show_fixed6 (ia_BBoxW e), show_fixed6 (ia_BBoxH e)]"

definition dh_storedEntry :: "dh_StoredAnnotation \<Rightarrow> dh_ImportedAnnotation" where
  "dh_storedEntry a =
     \<lparr>ia_ObjectKey = st_ObjectKey a, ia_CategoryName = st_CategoryName a, ia_BBoxX = st_BBoxX a, ia_BBoxY = st_BBoxY a,
      ia_BBoxW = st_BBoxW a, ia_BBoxH = st_BBoxH a\<rparr>"

definition dh_importEntriesMatchSnapshot :: "dh_StoredAnnotation list \<Rightarrow> dh_ImportedAnnotation list \<Rightarrow> bool" where
  "dh_importEntriesMatchSnapshot existing incoming =
     (if length existing \<noteq> length incoming then False
      else
        let existingKeys = sort (map (\<lambda>a. dh_importedAnnotationKey (dh_storedEntry a)) existing);
            incomingKeys = sort (map dh_importedAnnotationKey incoming)
        in list_all2 (\<lambda>a b. a = b) existingKeys incomingKeys)"

text \<open>One entry of the loop: its checks in their order, then the annotation and its change record.\<close>

definition dh_stored :: "dh_Snapshot \<Rightarrow> dh_Dataset \<Rightarrow> dh_DatasetItem \<Rightarrow> int \<Rightarrow> dh_ImportedAnnotation \<Rightarrow> dh_StoredAnnotation" where
  "dh_stored s d item categoryID e =
     \<lparr>st_SnapshotID = sn_ID s, st_DatasetID = ds_ID d, st_ItemID = di_ID item, st_ObjectKey = di_ObjectKey item,
      st_CategoryID = categoryID, st_CategoryName = ia_CategoryName e, st_BBoxX = ia_BBoxX e, st_BBoxY = ia_BBoxY e,
      st_BBoxW = ia_BBoxW e, st_BBoxH = ia_BBoxH e\<rparr>"

definition dh_added :: "int \<Rightarrow> dh_StoredAnnotation \<Rightarrow> dh_AnnotationChange" where
  "dh_added fromSnapshotID a =
     \<lparr>ac_FromSnapshotID = fromSnapshotID, ac_ToSnapshotID = st_SnapshotID a, ac_ItemID = st_ItemID a, ac_ChangeType = ''added'',
      ac_Before = None,
      ac_After = Some \<lparr>cp_ObjectKey = st_ObjectKey a, cp_CategoryID = st_CategoryID a, cp_CategoryName = st_CategoryName a,
        cp_BBoxX = st_BBoxX a, cp_BBoxY = st_BBoxY a, cp_BBoxW = st_BBoxW a, cp_BBoxH = st_BBoxH a\<rparr>\<rparr>"

definition dh_checkEntry ::
  "dh_Snapshot \<Rightarrow> dh_Dataset \<Rightarrow> string set \<Rightarrow> dh_ImportedAnnotation \<Rightarrow> dh_Repo \<Rightarrow> dh_error + dh_StoredAnnotation" where
  "dh_checkEntry s d seen e r =
     (if ia_ObjectKey e = [] \<or> ia_CategoryName e = [] then Inl (DhValidation ''object_key and category_name are required'' [])
      else if ia_BBoxX e < 0 \<or> ia_BBoxY e < 0 \<or> ia_BBoxW e \<le> 0 \<or> ia_BBoxH e \<le> 0
      then Inl (DhValidation ''bbox geometry is invalid'' [])
      else if dh_importedAnnotationKey e \<in> seen then Inl (DhValidation ''duplicate annotation for'' (ia_ObjectKey e))
      else
        case dh_repo_GetItemByObjectKey (ds_ID d) (ia_ObjectKey e) r of
          Inl err \<Rightarrow> Inl err
        | Inr item \<Rightarrow>
            (case dh_LookupCategory (ds_ProjectID d) (ia_CategoryName e) r of
               Inl err \<Rightarrow> if dh_error_is err DhErrNotFound then Inl (DhValidation ''unknown category'' (ia_CategoryName e))
                          else Inl err
             | Inr categoryID \<Rightarrow> Inr (dh_stored s d item categoryID e)))"

fun dh_importLoop ::
  "dh_Snapshot \<Rightarrow> dh_Dataset \<Rightarrow> int \<Rightarrow> string set \<Rightarrow> int \<Rightarrow> dh_ImportedAnnotation list \<Rightarrow> dh_Repo \<Rightarrow>
     (dh_error, int, dh_Repo) outcome" where
  "dh_importLoop s d from seen imported [] r = (Inr imported, r)"
| "dh_importLoop s d from seen imported (e # es) r =
     (case dh_checkEntry s d seen e r of
        Inl err \<Rightarrow> (Inl err, r)
      | Inr a \<Rightarrow>
          dh_importLoop s d from (insert (dh_importedAnnotationKey e) seen) (imported + 1) es
            (dh_RecordAnnotationChange (dh_added from a) (dh_CreateAnnotation a r)))"

text \<open>
  The whole import is one step. The in-memory repository takes its lock once for each look-up and each entry, so two imports that run at
  the same time could mix their steps; that is not modelled.
\<close>

definition dh_ImportSnapshot ::
  "int list \<Rightarrow> int \<Rightarrow> dh_ImportSnapshotInput \<Rightarrow> dh_Repo \<Rightarrow> (dh_error, dh_ImportSnapshotResult, dh_Repo) outcome" where
  "dh_ImportSnapshot dks sid inp r =
     (if is_Format inp = [] then (Inl (DhValidation ''format is required'' []), r)
      else if \<not> dh_isSupportedImportFormat (is_Format inp) then (Inl (DhValidation ''unsupported format'' (is_Format inp)), r)
      else if is_Entries inp = [] then (Inl (DhValidation ''entries are required'' []), r)
      else
        case dh_repo_GetSnapshot dks sid r of
          Inl e \<Rightarrow> (Inl e, r)
        | Inr s \<Rightarrow>
            (case dh_repo_GetDataset (sn_DatasetID s) r of
               Inl e \<Rightarrow> (Inl e, r)
             | Inr d \<Rightarrow>
                 let existing = dh_ListAnnotationsForSnapshot (sn_ID s) r in
                 if existing \<noteq> []
                 then
                   if dh_importEntriesMatchSnapshot existing (is_Entries inp)
                   then (Inr \<lparr>ir_DatasetID = ds_ID d, ir_SnapshotID = sn_ID s, ir_ImportedAnnotations = int (length existing)\<rparr>, r)
                   else (Inl (DhConflict (sn_ID s)), r)
                 else
                   let from = (case sn_BasedOnSnapshot s of None \<Rightarrow> sn_ID s | Some b \<Rightarrow> b) in
                   and_then (dh_importLoop s d from {} 0 (is_Entries inp) r) (\<lambda>n r'.
                     (Inr \<lparr>ir_DatasetID = ds_ID d, ir_SnapshotID = sn_ID s, ir_ImportedAnnotations = n\<rparr>, r'))))"

end
