(* ===== verification/Datahub_Facts.thy ===== *)
theory Datahub_Facts
  imports Datahub_Service "HOL-Library.Sublist"
begin

section \<open>Data hub: the invariant of the repository\<close>

text \<open>
  Numbering and keys of snapshots and items, and the change log that mirrors the annotations; every
  operation keeps them and only adds to what is stored.
\<close>

subsection \<open>Numbered lists\<close>

text \<open>All elements of the lists of a map carry numbers below the next one, each number once.\<close>

definition numbered :: "('a \<Rightarrow> int) \<Rightarrow> int \<Rightarrow> ('k \<Rightarrow> 'a list) \<Rightarrow> bool" where
  "numbered num n f \<longleftrightarrow>
     (\<forall>k. distinct (map num (f k)) \<and> (\<forall>x\<in>set (f k). 1 \<le> num x \<and> num x < n)) \<and>
     (\<forall>k k' x y. x \<in> set (f k) \<longrightarrow> y \<in> set (f k') \<longrightarrow> num x = num y \<longrightarrow> k = k')"

lemma numberedD:
  assumes "numbered num n f"
  shows "distinct (map num (f k))" "x \<in> set (f k) \<Longrightarrow> 1 \<le> num x" "x \<in> set (f k) \<Longrightarrow> num x < n"
    and "x \<in> set (f k) \<Longrightarrow> y \<in> set (f k') \<Longrightarrow> num x = num y \<Longrightarrow> k = k'"
  using assms unfolding numbered_def by blast+

lemma numbered_unique:
  assumes "numbered num n f" and "x \<in> set (f k)" "y \<in> set (f k')" "num x = num y"
  shows "x = y"
proof -
  have "k = k'" by (rule numberedD(4) [OF assms])
  then show ?thesis using numberedD(1) [OF assms(1), of k] assms(2-4) by (auto simp: distinct_map inj_on_def)
qed

lemma numbered_append:
  assumes old: "numbered num n f" and new: "map num xs = map (\<lambda>i. n + int i) [0..<length xs]" and "1 \<le> n"
  shows "numbered num (n + int (length xs)) (f(k := f k @ xs))"
proof -
  let ?f = "f(k := f k @ xs)"
  have "num ` set xs = set (map num xs)" by simp
  also have "\<dots> = set (map (\<lambda>i. n + int i) [0..<length xs])" by (simp only: new)
  finally have range: "n \<le> num x \<and> num x < n + int (length xs)" if "x \<in> set xs" for x
    using that by (auto simp: set_eq_iff image_iff) (metis atLeastLessThan_iff imageI le_add_same_cancel1 of_nat_0_le_iff add_less_cancel_left of_nat_less_iff)+
  have dist: "distinct (map num xs)" unfolding new by (simp add: distinct_map inj_on_def)
  have mem: "x \<in> set (?f j) \<longleftrightarrow> x \<in> set (f j) \<or> (j = k \<and> x \<in> set xs)" for x j by auto
  have "distinct (map num (?f j))" for j
    using numberedD(1) [OF old, of j] dist numberedD(3) [OF old] range by fastforce
  moreover have "1 \<le> num x \<and> num x < n + int (length xs)" if "x \<in> set (?f j)" for x j
    using that numberedD(2,3) [OF old, of x j] range [of x] \<open>1 \<le> n\<close> unfolding mem by fastforce
  moreover have "j = j'" if "x \<in> set (?f j)" "y \<in> set (?f j')" "num x = num y" for x y j j'
    using that numberedD(3,4) [OF old] range unfolding mem by (metis not_less)
  ultimately show ?thesis unfolding numbered_def by blast
qed

subsection \<open>The invariant\<close>

definition dh_from :: "dh_Snapshot \<Rightarrow> int" where
  "dh_from s = (case sn_BasedOnSnapshot s of None \<Rightarrow> sn_ID s | Some b \<Rightarrow> b)"

definition dh_ann_ok :: "dh_Repo \<Rightarrow> dh_StoredAnnotation \<Rightarrow> dh_AnnotationChange \<Rightarrow> bool" where
  "dh_ann_ok r a c \<longleftrightarrow>
     (\<exists>s item d. s \<in> set (slice_at (dr_snapshots r) (st_DatasetID a)) \<and> sn_ID s = st_SnapshotID a \<and>
        item \<in> set (slice_at (dr_items r) (st_DatasetID a)) \<and> di_ID item = st_ItemID a \<and> di_ObjectKey item = st_ObjectKey a \<and>
        dr_datasets r (st_DatasetID a) = Some d \<and>
        dr_categoryIDs r (dh_categoryKey (ds_ProjectID d) (st_CategoryName a)) = Some (st_CategoryID a) \<and>
        c = dh_added (dh_from s) a)"

definition dh_versions :: "int \<Rightarrow> dh_Snapshot list \<Rightarrow> bool" where
  "dh_versions did sns \<longleftrightarrow>
     map sn_Version sns = map (\<lambda>i. ''v'' @ show_int (int i + 1)) [0..<length sns] \<and> (\<forall>s\<in>set sns. sn_DatasetID s = did)"

definition dh_keys_ok :: "int \<Rightarrow> dh_DatasetItem list \<Rightarrow> bool" where
  "dh_keys_ok did xs \<longleftrightarrow> distinct (map di_ObjectKey xs) \<and> (\<forall>x\<in>set xs. di_DatasetID x = did \<and> di_ObjectKey x \<noteq> [])"

definition dh_datasets_ok :: "dh_Repo \<Rightarrow> bool" where
  "dh_datasets_ok r \<longleftrightarrow>
     1 \<le> dr_nextDataset r \<and> 1 \<le> dr_nextSnapshot r \<and> 1 \<le> dr_nextItem r \<and>
     (\<forall>did d. dr_datasets r did = Some d \<longrightarrow> ds_ID d = did \<and> 1 \<le> did \<and> did < dr_nextDataset r) \<and>
     (\<forall>did. slice_at (dr_snapshots r) did \<noteq> [] \<or> slice_at (dr_items r) did \<noteq> [] \<longrightarrow> dr_datasets r did \<noteq> None)"

definition dh_inv :: "dh_Repo \<Rightarrow> bool" where
  "dh_inv r \<longleftrightarrow>
     dh_datasets_ok r \<and>
     numbered sn_ID (dr_nextSnapshot r) (slice_at (dr_snapshots r)) \<and> (\<forall>did. dh_versions did (slice_at (dr_snapshots r) did)) \<and>
     numbered di_ID (dr_nextItem r) (slice_at (dr_items r)) \<and> (\<forall>did. dh_keys_ok did (slice_at (dr_items r) did)) \<and>
     list_all2 (dh_ann_ok r) (dr_annotations r) (dr_changes r)"

lemma dh_invD:
  assumes "dh_inv r"
  shows "dh_datasets_ok r" "numbered sn_ID (dr_nextSnapshot r) (slice_at (dr_snapshots r))"
    "dh_versions did (slice_at (dr_snapshots r) did)" "numbered di_ID (dr_nextItem r) (slice_at (dr_items r))"
    "dh_keys_ok did (slice_at (dr_items r) did)" "list_all2 (dh_ann_ok r) (dr_annotations r) (dr_changes r)"
  using assms unfolding dh_inv_def by blast+

definition dh_le :: "dh_Repo \<Rightarrow> dh_Repo \<Rightarrow> bool" where
  "dh_le r r' \<longleftrightarrow>
     (\<forall>did d. dr_datasets r did = Some d \<longrightarrow> dr_datasets r' did = Some d) \<and>
     (\<forall>did. prefix (slice_at (dr_snapshots r) did) (slice_at (dr_snapshots r') did)) \<and>
     (\<forall>did. prefix (slice_at (dr_items r) did) (slice_at (dr_items r') did)) \<and>
     (\<forall>k i. dr_categoryIDs r k = Some i \<longrightarrow> dr_categoryIDs r' k = Some i) \<and>
     prefix (dr_annotations r) (dr_annotations r') \<and> prefix (dr_changes r) (dr_changes r')"

lemma dh_leD:
  assumes "dh_le r r'"
  shows "dr_datasets r did = Some d \<Longrightarrow> dr_datasets r' did = Some d"
    "prefix (slice_at (dr_snapshots r) did) (slice_at (dr_snapshots r') did)"
    "prefix (slice_at (dr_items r) did) (slice_at (dr_items r') did)"
    "dr_categoryIDs r k = Some i \<Longrightarrow> dr_categoryIDs r' k = Some i"
    "prefix (dr_annotations r) (dr_annotations r')" "prefix (dr_changes r) (dr_changes r')"
  using assms unfolding dh_le_def by blast+

lemma dh_le_refl [simp]: "dh_le r r"
  by (simp add: dh_le_def)

lemma dh_le_trans: "dh_le a b \<Longrightarrow> dh_le b c \<Longrightarrow> dh_le a c"
  unfolding dh_le_def by (meson prefix_order.trans)

lemma dh_ann_ok_mono:
  assumes "dh_ann_ok r a c" and le: "dh_le r r'"
  shows "dh_ann_ok r' a c"
  using assms(1) dh_leD(1,4) [OF le] set_mono_prefix [OF dh_leD(2) [OF le]] set_mono_prefix [OF dh_leD(3) [OF le]]
  unfolding dh_ann_ok_def by blast

lemma dh_log_mono: "list_all2 (dh_ann_ok r) as cs \<Longrightarrow> dh_le r r' \<Longrightarrow> list_all2 (dh_ann_ok r') as cs"
  by (erule list_all2_mono) (rule dh_ann_ok_mono)

lemma dh_empty_inv: "dh_inv dh_NewInMemoryRepository"
  by (simp add: dh_inv_def dh_datasets_ok_def dh_NewInMemoryRepository_def numbered_def dh_versions_def dh_keys_ok_def)

subsection \<open>Datasets, snapshots, categories\<close>

lemma slice_at_upd [simp]: "slice_at (m(k \<mapsto> v)) = (slice_at m)(k := v)"
  by (simp add: fun_eq_iff)

lemma dh_CreateDataset_step:
  assumes inv: "dh_inv r"
  shows "dh_inv (snd (dh_CreateDataset inp r)) \<and> dh_le r (snd (dh_CreateDataset inp r))"
proof -
  let ?r = "snd (dh_repo_CreateDataset inp r)"
  note d = dh_invD(1) [OF inv, unfolded dh_datasets_ok_def]
  have none: "dr_datasets r (dr_nextDataset r) = None" using d by (cases "dr_datasets r (dr_nextDataset r)") force+
  then have empty: "slice_at (dr_items r) (dr_nextDataset r) = []" "slice_at (dr_snapshots r) (dr_nextDataset r) = []" using d by blast+
  then have items: "slice_at (dr_items ?r) = slice_at (dr_items r)"
    by (simp add: dh_repo_CreateDataset_def fun_upd_idem Let_def)
  have sel: "dr_snapshots ?r = dr_snapshots r" "dr_nextSnapshot ?r = dr_nextSnapshot r" "dr_nextItem ?r = dr_nextItem r"
    "dr_annotations ?r = dr_annotations r" "dr_changes ?r = dr_changes r" "dr_categoryIDs ?r = dr_categoryIDs r"
    by (simp_all add: dh_repo_CreateDataset_def Let_def)
  have ds: "dr_datasets ?r = (dr_datasets r)(dr_nextDataset r \<mapsto> fst (dh_repo_CreateDataset inp r))"
    "ds_ID (fst (dh_repo_CreateDataset inp r)) = dr_nextDataset r" "dr_nextDataset ?r = dr_nextDataset r + 1"
    by (simp_all add: dh_repo_CreateDataset_def Let_def)
  have le: "dh_le r ?r" unfolding dh_le_def items sel using none ds by auto
  moreover have "dh_datasets_ok ?r" unfolding dh_datasets_ok_def items sel ds(3) using d ds(1,2) by force
  ultimately have "dh_inv ?r"
    using dh_invD [OF inv] dh_log_mono [OF dh_invD(6) [OF inv] le] unfolding dh_inv_def items sel by blast
  with le inv show ?thesis by (simp add: dh_CreateDataset_def case_prod_beta)
qed

lemma dh_CreateSnapshot_step:
  assumes inv: "dh_inv r"
  shows "dh_inv (snd (dh_CreateSnapshot did inp r)) \<and> dh_le r (snd (dh_CreateSnapshot did inp r))"
proof (cases "dr_datasets r did")
  case None
  then show ?thesis using inv by (simp add: dh_CreateSnapshot_def dh_repo_CreateSnapshot_def)
next
  case (Some d)
  let ?sns = "slice_at (dr_snapshots r) did"
  define s where "s = \<lparr>sn_ID = dr_nextSnapshot r, sn_DatasetID = did, sn_Version = ''v'' @ show_int (int (length ?sns) + 1),
     sn_BasedOnSnapshot = cs_in_BasedOnSnapshotID inp, sn_Note = cs_in_Note inp\<rparr>"
  define r' where "r' = r\<lparr>dr_nextSnapshot := dr_nextSnapshot r + 1, dr_snapshots := (dr_snapshots r)(did \<mapsto> ?sns @ [s])\<rparr>"
  have run: "snd (dh_CreateSnapshot did inp r) = r'"
    using Some by (simp add: dh_CreateSnapshot_def dh_repo_CreateSnapshot_def Let_def r'_def s_def)
  have sl: "slice_at (dr_snapshots r') = (slice_at (dr_snapshots r))(did := ?sns @ [s])" by (simp add: r'_def)
  have sel: "dr_items r' = dr_items r" "dr_datasets r' = dr_datasets r" "dr_nextItem r' = dr_nextItem r" "dr_nextDataset r' = dr_nextDataset r"
    "dr_annotations r' = dr_annotations r" "dr_changes r' = dr_changes r" "dr_categoryIDs r' = dr_categoryIDs r"
    "dr_nextSnapshot r' = dr_nextSnapshot r + 1" by (simp_all add: r'_def)
  note d = dh_invD(1) [OF inv, unfolded dh_datasets_ok_def]
  have le: "dh_le r r'" unfolding dh_le_def sel sl by simp
  have "numbered sn_ID (dr_nextSnapshot r + int (length [s])) ((slice_at (dr_snapshots r))(did := ?sns @ [s]))"
    by (rule numbered_append [OF dh_invD(2) [OF inv]]) (use d in \<open>simp_all add: s_def\<close>)
  then have "numbered sn_ID (dr_nextSnapshot r') (slice_at (dr_snapshots r'))" by (simp add: sel sl)
  moreover have "dh_versions k (slice_at (dr_snapshots r') k)" for k
    using dh_invD(3) [OF inv, of k] by (auto simp: sl dh_versions_def s_def)
  moreover have "dh_datasets_ok r'" unfolding dh_datasets_ok_def sel sl using d Some by auto
  ultimately have "dh_inv r'"
    using dh_invD(4,5) [OF inv] dh_log_mono [OF dh_invD(6) [OF inv] le] unfolding dh_inv_def sel by blast
  with le run show ?thesis by simp
qed

lemma dh_EnsureCategory_step:
  assumes inv: "dh_inv r"
  shows "dh_inv (snd (dh_EnsureCategory p c r)) \<and> dh_le r (snd (dh_EnsureCategory p c r))"
proof (cases "dr_categoryIDs r (dh_categoryKey p c)")
  case (Some i)
  then show ?thesis using inv by (simp add: dh_EnsureCategory_def)
next
  case None
  let ?r = "snd (dh_EnsureCategory p c r)"
  have sel: "dr_items ?r = dr_items r" "dr_datasets ?r = dr_datasets r" "dr_nextItem ?r = dr_nextItem r" "dr_nextDataset ?r = dr_nextDataset r"
    "dr_annotations ?r = dr_annotations r" "dr_changes ?r = dr_changes r" "dr_snapshots ?r = dr_snapshots r"
    "dr_nextSnapshot ?r = dr_nextSnapshot r" "dr_categoryIDs ?r = (dr_categoryIDs r)(dh_categoryKey p c \<mapsto> dr_nextCategory r)"
    using None by (simp_all add: dh_EnsureCategory_def Let_def)
  have le: "dh_le r ?r" unfolding dh_le_def sel using None by auto
  have "dh_datasets_ok ?r" using dh_invD(1) [OF inv] unfolding dh_datasets_ok_def sel .
  with le have "dh_inv ?r"
    using dh_invD [OF inv] dh_log_mono [OF dh_invD(6) [OF inv] le] unfolding dh_inv_def sel by blast
  with le show ?thesis by simp
qed

subsection \<open>Items\<close>

text \<open>The keys a scan adds: in order, without empty ones and without those already known.\<close>

fun new_keys :: "string set \<Rightarrow> string list \<Rightarrow> string list" where
  "new_keys known [] = []"
| "new_keys known (k # ks) = (if k = [] \<or> k \<in> known then new_keys known ks else k # new_keys (insert k known) ks)"

lemma new_keys_props:
  "set (new_keys known ks) = set ks - known - {[]}" "distinct (new_keys known ks)"
  by (induction known ks rule: new_keys.induct) auto

lemma new_keys_known: "set ks \<subseteq> insert [] known \<Longrightarrow> new_keys known ks = []"
  by (induction ks arbitrary: known) auto

definition dh_with_items :: "int \<Rightarrow> dh_DatasetItem list \<Rightarrow> dh_Repo \<Rightarrow> dh_Repo" where
  "dh_with_items did new r =
     (if new = [] then r
      else r\<lparr>dr_nextItem := dr_nextItem r + int (length new),
             dr_items := (dr_items r)(did \<mapsto> slice_at (dr_items r) did @ new)\<rparr>)"

lemma dh_with_items_sel [simp]:
  "dr_datasets (dh_with_items did new r) = dr_datasets r" "dr_snapshots (dh_with_items did new r) = dr_snapshots r"
  "dr_nextSnapshot (dh_with_items did new r) = dr_nextSnapshot r" "dr_nextDataset (dh_with_items did new r) = dr_nextDataset r"
  "dr_annotations (dh_with_items did new r) = dr_annotations r" "dr_changes (dh_with_items did new r) = dr_changes r"
  "dr_categoryIDs (dh_with_items did new r) = dr_categoryIDs r"
  "dr_nextItem (dh_with_items did new r) = dr_nextItem r + int (length new)"
  "slice_at (dr_items (dh_with_items did new r)) = (slice_at (dr_items r))(did := slice_at (dr_items r) did @ new)"
  by (simp_all add: dh_with_items_def)

lemma dh_with_items_Cons: "dh_with_items did new (dh_with_items did [x] r) = dh_with_items did (x # new) r"
  by (simp add: dh_with_items_def)

lemma dh_upsert_spec:
  "\<exists>new. dh_upsertLoop did obs (\<lambda>k. k \<in> known) added r = (added + int (length new), dh_with_items did new r) \<and>
     map di_ObjectKey new = new_keys known (map so_Key obs) \<and>
     map di_ID new = map (\<lambda>i. dr_nextItem r + int i) [0..<length new] \<and> (\<forall>x\<in>set new. di_DatasetID x = did)"
proof (induction obs arbitrary: known added r)
  case Nil
  then show ?case by (intro exI [of _ "[]"]) (simp add: dh_with_items_def)
next
  case (Cons ob obs)
  show ?case
  proof (cases "so_Key ob = [] \<or> so_Key ob \<in> known")
    case True
    with Cons.IH [of known added r] show ?thesis by auto
  next
    case False
    let ?x = "\<lparr>di_ID = dr_nextItem r, di_DatasetID = did, di_ObjectKey = so_Key ob,
      di_ETag = (if so_ETag ob = [] then ''etag-'' @ show_int (dr_nextItem r) else so_ETag ob)\<rparr>"
    let ?r = "dh_with_items did [?x] r"
    obtain new where new: "dh_upsertLoop did obs (\<lambda>k. k \<in> insert (so_Key ob) known) (added + 1) ?r =
        (added + 1 + int (length new), dh_with_items did new ?r)"
      "map di_ObjectKey new = new_keys (insert (so_Key ob) known) (map so_Key obs)"
      "map di_ID new = map (\<lambda>i. dr_nextItem ?r + int i) [0..<length new]" "\<forall>x\<in>set new. di_DatasetID x = did"
      using Cons.IH [of "insert (so_Key ob) known" "added + 1" ?r] by blast
    have "(\<lambda>k. k \<in> known)(so_Key ob := True) = (\<lambda>k. k \<in> insert (so_Key ob) known)" by (auto simp: fun_eq_iff)
    moreover have "r\<lparr>dr_nextItem := dr_nextItem r + 1, dr_items := (dr_items r)(did \<mapsto> slice_at (dr_items r) did @ [?x])\<rparr> = ?r"
      by (simp add: dh_with_items_def)
    ultimately have run: "dh_upsertLoop did (ob # obs) (\<lambda>k. k \<in> known) added r =
        (added + int (length (?x # new)), dh_with_items did (?x # new) r)"
      using False new(1) by (simp add: dh_with_items_Cons Let_def)
    have "map di_ID (?x # new) = map (\<lambda>i. dr_nextItem r + int i) [0..<length (?x # new)]"
      using new(3) by (simp add: upt_conv_Cons map_Suc_upt [symmetric] del: upt_Suc)
    moreover have "map di_ObjectKey (?x # new) = new_keys known (map so_Key (ob # obs))" using new(2) False by simp
    ultimately show ?thesis using run new(4) by (intro exI [of _ "?x # new"]) simp
  qed
qed

lemma dh_with_items_step:
  assumes inv: "dh_inv r" and did: "dr_datasets r did \<noteq> None"
    and new: "map di_ObjectKey new = new_keys (set (map di_ObjectKey (slice_at (dr_items r) did))) ks"
      "map di_ID new = map (\<lambda>i. dr_nextItem r + int i) [0..<length new]" "\<forall>x\<in>set new. di_DatasetID x = did"
  shows "dh_inv (dh_with_items did new r) \<and> dh_le r (dh_with_items did new r)"
proof -
  let ?r = "dh_with_items did new r"
  note d = dh_invD(1) [OF inv, unfolded dh_datasets_ok_def]
  have le: "dh_le r ?r" by (simp add: dh_le_def)
  have "numbered di_ID (dr_nextItem ?r) (slice_at (dr_items ?r))"
    using numbered_append [OF dh_invD(4) [OF inv] new(2)] d by simp
  moreover have "dh_keys_ok k (slice_at (dr_items ?r) k)" for k
  proof -
    have "distinct (map di_ObjectKey new)" "set (map di_ObjectKey new) \<inter> set (map di_ObjectKey (slice_at (dr_items r) did)) = {}"
      "[] \<notin> set (map di_ObjectKey new)" unfolding new(1) using new_keys_props by blast+
    with dh_invD(5) [OF inv, of k] new(3) show ?thesis by (auto simp: dh_keys_ok_def image_iff)
  qed
  moreover have "dh_datasets_ok ?r" unfolding dh_datasets_ok_def using d did by (simp split: if_splits)
  ultimately show ?thesis
    using dh_invD(2,3) [OF inv] dh_log_mono [OF dh_invD(6) [OF inv] le] le unfolding dh_inv_def by simp
qed

text \<open>An upsert on every branch.\<close>

lemma dh_UpsertScannedItems_spec:
  assumes "dr_datasets r did = Some d"
  shows "\<exists>new. dh_repo_UpsertScannedItems did obs r = (Inr (int (length new)), dh_with_items did new r) \<and>
     map di_ObjectKey new = new_keys (set (map di_ObjectKey (slice_at (dr_items r) did))) (map so_Key obs) \<and>
     map di_ID new = map (\<lambda>i. dr_nextItem r + int i) [0..<length new] \<and> (\<forall>x\<in>set new. di_DatasetID x = did)"
proof -
  obtain new where "dh_upsertLoop did obs (\<lambda>k. k \<in> set (map di_ObjectKey (slice_at (dr_items r) did))) 0 r =
      (int (length new), dh_with_items did new r)"
    "map di_ObjectKey new = new_keys (set (map di_ObjectKey (slice_at (dr_items r) did))) (map so_Key obs)"
    "map di_ID new = map (\<lambda>i. dr_nextItem r + int i) [0..<length new]" "\<forall>x\<in>set new. di_DatasetID x = did"
    using dh_upsert_spec [of did obs "set (map di_ObjectKey (slice_at (dr_items r) did))" 0 r] by auto
  then show ?thesis using assms by (intro exI [of _ new]) (simp add: dh_repo_UpsertScannedItems_def)
qed

lemma dh_Upsert_step:
  assumes inv: "dh_inv r"
  shows "dh_inv (snd (dh_repo_UpsertScannedItems did obs r)) \<and> dh_le r (snd (dh_repo_UpsertScannedItems did obs r))"
proof (cases "dr_datasets r did")
  case None
  then show ?thesis using inv by (simp add: dh_repo_UpsertScannedItems_def)
next
  case (Some d)
  from dh_UpsertScannedItems_spec [OF Some, of obs] obtain new where
    "dh_repo_UpsertScannedItems did obs r = (Inr (int (length new)), dh_with_items did new r)"
    "map di_ObjectKey new = new_keys (set (map di_ObjectKey (slice_at (dr_items r) did))) (map so_Key obs)"
    "map di_ID new = map (\<lambda>i. dr_nextItem r + int i) [0..<length new]" "\<forall>x\<in>set new. di_DatasetID x = did" by blast
  with dh_with_items_step [OF inv, of did new] Some show ?thesis by simp
qed

lemma dh_ScanDataset_step:
  assumes inv: "dh_inv r"
  shows "dh_inv (snd (dh_ScanDataset scanner now did ks r)) \<and> dh_le r (snd (dh_ScanDataset scanner now did ks r))"
proof -
  have ins: "dh_inv (snd (dh_repo_InsertItems now did ks r)) \<and> dh_le r (snd (dh_repo_InsertItems now did ks r))" for ks
    using dh_Upsert_step [OF inv] inv by (simp add: dh_repo_InsertItems_def Let_def split: sum.split)
  show ?thesis using ins dh_Upsert_step [OF inv] inv
    by (simp add: dh_ScanDataset_def split: option.split sum.split)
qed

subsection \<open>Imports\<close>

definition dh_with_log :: "int \<Rightarrow> dh_StoredAnnotation list \<Rightarrow> dh_Repo \<Rightarrow> dh_Repo" where
  "dh_with_log from as r =
     r\<lparr>dr_annotations := dr_annotations r @ as, dr_changes := dr_changes r @ map (dh_added from) as\<rparr>"

lemma dh_with_log_sel [simp]:
  "dr_datasets (dh_with_log from as r) = dr_datasets r" "dr_snapshots (dh_with_log from as r) = dr_snapshots r"
  "dr_nextSnapshot (dh_with_log from as r) = dr_nextSnapshot r" "dr_nextDataset (dh_with_log from as r) = dr_nextDataset r"
  "dr_items (dh_with_log from as r) = dr_items r" "dr_nextItem (dh_with_log from as r) = dr_nextItem r"
  "dr_categoryIDs (dh_with_log from as r) = dr_categoryIDs r"
  "dr_annotations (dh_with_log from as r) = dr_annotations r @ as"
  "dr_changes (dh_with_log from as r) = dr_changes r @ map (dh_added from) as"
  by (simp_all add: dh_with_log_def)

lemma dh_with_log_Nil [simp]: "dh_with_log from [] r = r"
  by (simp add: dh_with_log_def)

lemma dh_with_log_Cons: "dh_with_log from as (dh_with_log from [a] r) = dh_with_log from (a # as) r"
  by (simp add: dh_with_log_def)

lemma dh_log_one: "dh_RecordAnnotationChange (dh_added from a) (dh_CreateAnnotation a r) = dh_with_log from [a] r"
  by (simp add: dh_RecordAnnotationChange_def dh_CreateAnnotation_def dh_cloneAnnotationChange_def dh_with_log_def)

text \<open>The checks of an entry read items and categories only.\<close>

lemma dh_check_log [simp]: "dh_checkEntry s d seen e (dh_with_log from as r) = dh_checkEntry s d seen e r"
proof -
  have "dh_repo_GetItemByObjectKey did k (dh_with_log from as r) = dh_repo_GetItemByObjectKey did k r"
    "dh_LookupCategory p c (dh_with_log from as r) = dh_LookupCategory p c r" for did k p c
    by (simp_all add: dh_repo_GetItemByObjectKey_def dh_LookupCategory_def)
  then show ?thesis by (simp only: dh_checkEntry_def)
qed

definition dh_entry_ok :: "dh_Dataset \<Rightarrow> dh_Repo \<Rightarrow> dh_ImportedAnnotation \<Rightarrow> bool" where
  "dh_entry_ok d r e \<longleftrightarrow>
     ia_ObjectKey e \<noteq> [] \<and> ia_CategoryName e \<noteq> [] \<and> 0 \<le> ia_BBoxX e \<and> 0 \<le> ia_BBoxY e \<and> 0 < ia_BBoxW e \<and> 0 < ia_BBoxH e \<and>
     ia_ObjectKey e \<in> set (map di_ObjectKey (slice_at (dr_items r) (ds_ID d))) \<and>
     dr_categoryIDs r (dh_categoryKey (ds_ProjectID d) (ia_CategoryName e)) \<noteq> None"

definition dh_stored_as :: "dh_Snapshot \<Rightarrow> dh_Dataset \<Rightarrow> dh_Repo \<Rightarrow> dh_ImportedAnnotation \<Rightarrow> dh_StoredAnnotation \<Rightarrow> bool" where
  "dh_stored_as s d r e a \<longleftrightarrow>
     (\<exists>item \<in> set (slice_at (dr_items r) (ds_ID d)). \<exists>c. di_ObjectKey item = ia_ObjectKey e \<and>
        dr_categoryIDs r (dh_categoryKey (ds_ProjectID d) (ia_CategoryName e)) = Some c \<and> a = dh_stored s d item c e)"

lemma dh_stored_simps [simp]:
  "st_SnapshotID (dh_stored s d item c e) = sn_ID s" "st_DatasetID (dh_stored s d item c e) = ds_ID d"
  "st_ItemID (dh_stored s d item c e) = di_ID item" "st_ObjectKey (dh_stored s d item c e) = di_ObjectKey item"
  "st_CategoryID (dh_stored s d item c e) = c" "st_CategoryName (dh_stored s d item c e) = ia_CategoryName e"
  by (simp_all add: dh_stored_def)

lemma dh_stored_as_entry: "dh_stored_as s d r e a \<Longrightarrow> dh_storedEntry a = e \<and> st_SnapshotID a = sn_ID s"
  by (auto simp: dh_stored_as_def dh_storedEntry_def dh_stored_def)

lemma dh_check_spec:
  "(\<exists>a. dh_checkEntry s d seen e r = Inr a \<and> dh_stored_as s d r e a) \<and> dh_entry_ok d r e \<and> dh_importedAnnotationKey e \<notin> seen \<or>
   (\<exists>err. dh_checkEntry s d seen e r = Inl err) \<and> \<not> (dh_entry_ok d r e \<and> dh_importedAnnotationKey e \<notin> seen)"
proof -
  have item: "find (\<lambda>i. di_ObjectKey i = k) xs = None \<longleftrightarrow> k \<notin> set (map di_ObjectKey xs)" for k xs
    by (auto simp: find_None_iff)
  have found: "i \<in> set xs \<and> di_ObjectKey i = k" if "find (\<lambda>i. di_ObjectKey i = k) xs = Some i" for k xs i
    using that by (auto simp: find_Some_iff)
  show ?thesis
  proof (cases "dh_entry_ok d r e \<and> dh_importedAnnotationKey e \<notin> seen")
    case True
    then obtain i c where "find (\<lambda>i. di_ObjectKey i = ia_ObjectKey e) (slice_at (dr_items r) (ds_ID d)) = Some i"
      "dr_categoryIDs r (dh_categoryKey (ds_ProjectID d) (ia_CategoryName e)) = Some c"
      using item by (fastforce simp: dh_entry_ok_def)
    moreover from this(1) have "i \<in> set (slice_at (dr_items r) (ds_ID d))" "di_ObjectKey i = ia_ObjectKey e" using found by blast+
    ultimately show ?thesis using True
      by (auto simp: dh_checkEntry_def dh_entry_ok_def dh_stored_as_def dh_repo_GetItemByObjectKey_def dh_LookupCategory_def)
  next
    case False
    then have "\<exists>err. dh_checkEntry s d seen e r = Inl err"
      using item [of "ia_ObjectKey e" "slice_at (dr_items r) (ds_ID d)"]
      by (auto simp: dh_checkEntry_def dh_entry_ok_def dh_repo_GetItemByObjectKey_def dh_LookupCategory_def split: option.split)
    with False show ?thesis by blast
  qed
qed

text \<open>The loop stores the entries before the first bad one, and all of them when there is none.\<close>

lemma dh_importLoop_spec:
  "\<exists>as. snd (dh_importLoop s d from seen n es r) = dh_with_log from as r \<and>
     list_all2 (dh_stored_as s d r) (take (length as) es) as \<and>
     (if list_all (dh_entry_ok d r) es \<and> distinct (map dh_importedAnnotationKey es) \<and>
         set (map dh_importedAnnotationKey es) \<inter> seen = {}
      then fst (dh_importLoop s d from seen n es r) = Inr (n + int (length es)) \<and> length as = length es
      else (\<exists>err. fst (dh_importLoop s d from seen n es r) = Inl err) \<and> length as < length es)"
proof (induction es arbitrary: seen n r)
  case Nil
  then show ?case by (intro exI [of _ "[]"]) simp
next
  case (Cons e es)
  let ?k = "dh_importedAnnotationKey e"
  consider (good) a where "dh_checkEntry s d seen e r = Inr a" "dh_stored_as s d r e a" "dh_entry_ok d r e" "?k \<notin> seen"
    | (bad) err where "dh_checkEntry s d seen e r = Inl err" "\<not> (dh_entry_ok d r e \<and> ?k \<notin> seen)"
    using dh_check_spec [of s d seen e r] by blast
  then show ?case
  proof cases
    case good
    let ?r = "dh_with_log from [a] r"
    have same: "dh_stored_as s d ?r = dh_stored_as s d r" "dh_entry_ok d ?r = dh_entry_ok d r"
      by (simp_all add: dh_stored_as_def dh_entry_ok_def fun_eq_iff)
    have run: "dh_importLoop s d from seen n (e # es) r = dh_importLoop s d from (insert ?k seen) (n + 1) es ?r"
      using good(1) by (simp add: dh_log_one)
    obtain as where IH: "snd (dh_importLoop s d from (insert ?k seen) (n + 1) es ?r) = dh_with_log from as ?r"
      "list_all2 (dh_stored_as s d r) (take (length as) es) as"
      "if list_all (dh_entry_ok d r) es \<and> distinct (map dh_importedAnnotationKey es) \<and>
         set (map dh_importedAnnotationKey es) \<inter> insert ?k seen = {}
       then fst (dh_importLoop s d from (insert ?k seen) (n + 1) es ?r) = Inr (n + 1 + int (length es)) \<and> length as = length es
       else (\<exists>err. fst (dh_importLoop s d from (insert ?k seen) (n + 1) es ?r) = Inl err) \<and> length as < length es"
      using Cons.IH [of "insert ?k seen" "n + 1" ?r] unfolding same by blast
    have cond: "(list_all (dh_entry_ok d r) (e # es) \<and> distinct (map dh_importedAnnotationKey (e # es)) \<and>
         set (map dh_importedAnnotationKey (e # es)) \<inter> seen = {}) \<longleftrightarrow>
        (list_all (dh_entry_ok d r) es \<and> distinct (map dh_importedAnnotationKey es) \<and>
         set (map dh_importedAnnotationKey es) \<inter> insert ?k seen = {})" using good(3,4) by auto
    show ?thesis unfolding run cond using IH good(2)
      by (intro exI [of _ "a # as"]) (auto simp: dh_with_log_Cons split: if_splits)
  next
    case bad
    then show ?thesis by (intro exI [of _ "[]"]) auto
  qed
qed

lemma dh_find_member:
  assumes "dh_findSnapshot dks sid r = Some s"
  shows "\<exists>did. s \<in> set (slice_at (dr_snapshots r) did) \<and> sn_ID s = sid"
  using assms by (auto simp: dh_findSnapshot_def find_Some_iff dest!: nth_mem)

text \<open>The snapshot that an import works on, with its dataset.\<close>

definition dh_target :: "int list \<Rightarrow> int \<Rightarrow> dh_Repo \<Rightarrow> dh_Snapshot \<Rightarrow> dh_Dataset \<Rightarrow> bool" where
  "dh_target dks sid r s d \<longleftrightarrow> dh_findSnapshot dks sid r = Some s \<and> dr_datasets r (sn_DatasetID s) = Some d"

lemma dh_targetD:
  assumes inv: "dh_inv r" and t: "dh_target dks sid r s d"
  shows "sn_ID s = sid" "ds_ID d = sn_DatasetID s" "s \<in> set (slice_at (dr_snapshots r) (ds_ID d))" "dr_datasets r (ds_ID d) = Some d"
proof -
  obtain did where did: "s \<in> set (slice_at (dr_snapshots r) did)" "sn_ID s = sid"
    using dh_find_member [of dks sid r s] t unfolding dh_target_def by blast
  then have "sn_DatasetID s = did" using dh_invD(3) [OF inv, of did] by (simp add: dh_versions_def)
  moreover have "ds_ID d = sn_DatasetID s" using dh_invD(1) [OF inv] t by (auto simp: dh_datasets_ok_def dh_target_def)
  ultimately show "sn_ID s = sid" "ds_ID d = sn_DatasetID s" "s \<in> set (slice_at (dr_snapshots r) (ds_ID d))" "dr_datasets r (ds_ID d) = Some d"
    using did t by (simp_all add: dh_target_def)
qed

definition dh_well_formed :: "dh_ImportSnapshotInput \<Rightarrow> bool" where
  "dh_well_formed inp \<longleftrightarrow> dh_isSupportedImportFormat (is_Format inp) \<and> is_Entries inp \<noteq> []"

lemma dh_format_nonempty: "dh_isSupportedImportFormat f \<Longrightarrow> f \<noteq> []"
  by (auto simp: dh_isSupportedImportFormat_def)

text \<open>An import with a snapshot to work on: a replay when the snapshot has annotations, else the loop.\<close>

lemma dh_import_run:
  assumes "dh_target dks sid r s d" and "dh_well_formed inp"
  shows "dh_ListAnnotationsForSnapshot (sn_ID s) r \<noteq> [] \<Longrightarrow>
      dh_ImportSnapshot dks sid inp r =
        (if dh_importEntriesMatchSnapshot (dh_ListAnnotationsForSnapshot (sn_ID s) r) (is_Entries inp)
         then (Inr \<lparr>ir_DatasetID = ds_ID d, ir_SnapshotID = sn_ID s,
                    ir_ImportedAnnotations = int (length (dh_ListAnnotationsForSnapshot (sn_ID s) r))\<rparr>, r)
         else (Inl (DhConflict (sn_ID s)), r))"
    and "dh_ListAnnotationsForSnapshot (sn_ID s) r = [] \<Longrightarrow>
      dh_ImportSnapshot dks sid inp r =
        and_then (dh_importLoop s d (dh_from s) {} 0 (is_Entries inp) r) (\<lambda>n r'.
          (Inr \<lparr>ir_DatasetID = ds_ID d, ir_SnapshotID = sn_ID s, ir_ImportedAnnotations = n\<rparr>, r'))"
  using assms dh_format_nonempty [of "is_Format inp"]
  by (auto simp: dh_ImportSnapshot_def dh_well_formed_def dh_target_def dh_repo_GetSnapshot_def dh_repo_GetDataset_def Let_def
      dh_from_def split: option.split)

lemma dh_import_refused:
  assumes "\<not> (dh_well_formed inp \<and> (\<exists>s d. dh_target dks sid r s d))"
  shows "\<exists>e. dh_ImportSnapshot dks sid inp r = (Inl e, r)"
  using assms
  by (auto simp: dh_ImportSnapshot_def dh_well_formed_def dh_target_def dh_repo_GetSnapshot_def dh_repo_GetDataset_def Let_def
      split: option.splits)

lemma dh_log_step:
  assumes inv: "dh_inv r" and t: "dh_target dks sid r s d"
    and as: "list_all2 (dh_stored_as s d r) es as"
  shows "dh_inv (dh_with_log (dh_from s) as r) \<and> dh_le r (dh_with_log (dh_from s) as r)"
proof -
  let ?r = "dh_with_log (dh_from s) as r"
  have le: "dh_le r ?r" by (simp add: dh_le_def)
  have "dh_ann_ok ?r a (dh_added (dh_from s) a)" if "a \<in> set as" for a
  proof -
    obtain e where "dh_stored_as s d r e a" using as \<open>a \<in> set as\<close> by (metis in_set_conv_nth list_all2_conv_all_nth)
    then show ?thesis using dh_targetD [OF inv t] by (fastforce simp: dh_stored_as_def dh_ann_ok_def)
  qed
  then have "list_all2 (dh_ann_ok ?r) as (map (dh_added (dh_from s)) as)" by (simp add: list_all2_conv_all_nth)
  then have "list_all2 (dh_ann_ok ?r) (dr_annotations ?r) (dr_changes ?r)"
    using dh_log_mono [OF dh_invD(6) [OF inv] le] by (simp add: list_all2_appendI)
  moreover have "dh_datasets_ok ?r" using dh_invD(1) [OF inv] by (simp add: dh_datasets_ok_def dh_with_log_def)
  ultimately show ?thesis using le dh_invD(2-5) [OF inv] unfolding dh_inv_def by simp
qed

lemma dh_and_then_state: "snd (and_then m (\<lambda>n r. (Inr (f n), r))) = snd m"
  by (cases m; cases "fst m") auto

lemma dh_ImportSnapshot_step:
  assumes inv: "dh_inv r"
  shows "dh_inv (snd (dh_ImportSnapshot dks sid inp r)) \<and> dh_le r (snd (dh_ImportSnapshot dks sid inp r))"
proof (cases "dh_well_formed inp \<and> (\<exists>s d. dh_target dks sid r s d)")
  case False
  from dh_import_refused [OF this] inv show ?thesis by auto
next
  case True
  then obtain s d where t: "dh_target dks sid r s d" and wf: "dh_well_formed inp" by blast
  show ?thesis
  proof (cases "dh_ListAnnotationsForSnapshot (sn_ID s) r = []")
    case False
    then show ?thesis using dh_import_run(1) [OF t wf] inv by simp
  next
    case True
    obtain as where "snd (dh_importLoop s d (dh_from s) {} 0 (is_Entries inp) r) = dh_with_log (dh_from s) as r"
      "list_all2 (dh_stored_as s d r) (take (length as) (is_Entries inp)) as"
      using dh_importLoop_spec [of s d "dh_from s" "{}" 0 "is_Entries inp" r] by blast
    then show ?thesis using dh_log_step [OF inv t] unfolding dh_import_run(2) [OF t wf True] dh_and_then_state by simp
  qed
qed

subsection \<open>The machine\<close>

datatype dh_call =
    DhCreateDataset dh_CreateDatasetInput
  | DhCreateSnapshot int dh_CreateSnapshotInput
  | DhScan "dh_scanner option" time int "string list"
  | DhEnsureCategory int string
  | DhImport "int list" int dh_ImportSnapshotInput

fun dh_serve :: "dh_Repo \<Rightarrow> dh_call \<Rightarrow> dh_Repo" where
  "dh_serve r (DhCreateDataset inp) = snd (dh_CreateDataset inp r)"
| "dh_serve r (DhCreateSnapshot did inp) = snd (dh_CreateSnapshot did inp r)"
| "dh_serve r (DhScan scanner now did ks) = snd (dh_ScanDataset scanner now did ks r)"
| "dh_serve r (DhEnsureCategory p c) = snd (dh_EnsureCategory p c r)"
| "dh_serve r (DhImport dks sid inp) = snd (dh_ImportSnapshot dks sid inp r)"

lemma dh_serve_step: "dh_inv r \<Longrightarrow> dh_inv (dh_serve r c) \<and> dh_le r (dh_serve r c)"
  by (cases c) (simp_all add: dh_CreateDataset_step dh_CreateSnapshot_step dh_ScanDataset_step dh_EnsureCategory_step dh_ImportSnapshot_step)

interpretation dh_machine: progress_machine "\<lambda>r. r = dh_NewInMemoryRepository" dh_serve dh_inv dh_le
proof unfold_locales
  show "r = dh_NewInMemoryRepository \<Longrightarrow> dh_inv r" for r by (simp add: dh_empty_inv)
  show "dh_inv r \<Longrightarrow> dh_inv (dh_serve r c)" for r c using dh_serve_step by blast
  show "dh_le r r" for r by simp
  show "dh_le r s \<Longrightarrow> dh_le s t \<Longrightarrow> dh_le r t" for r s t by (rule dh_le_trans)
  show "dh_inv r \<Longrightarrow> dh_le r (dh_serve r c)" for r c using dh_serve_step by blast
qed

definition dh_after :: "dh_call list \<Rightarrow> dh_Repo" where
  "dh_after cs = foldl dh_serve dh_NewInMemoryRepository cs"

lemma dh_after_inv: "dh_inv (dh_after cs)"
  unfolding dh_after_def by (rule dh_machine.run_inv) simp

lemma dh_after_le: "dh_le (dh_after cs) (dh_after (cs @ cs'))"
  unfolding dh_after_def by (rule dh_machine.run_le_later [OF dh_empty_inv])

end
