(* ===== verification/Audit_Log.thy ===== *)
theory Audit_Log
  imports Go_Text
begin

section \<open>The audit log\<close>

text \<open>
  \<open>internal/audit/logger.go\<close>: the event, its normalisation and the recorder that keeps events in memory. A logger
  is a function over its own state; a handler holds a logger or none. The logger that inserts into the
  \<open>audit_logs\<close> table is SQL and stays a parameter of that type.
\<close>

record audit_Event =
  ev_Actor :: string
  ev_Action :: string
  ev_ResourceType :: string
  ev_ResourceID :: string
  ev_Detail :: "obj option"

definition audit_SystemActor :: string where "audit_SystemActor = ''system''"

definition audit_NormalizeActor :: "string \<Rightarrow> string" where
  "audit_NormalizeActor actor = (let a = trim_space actor in if a = [] then audit_SystemActor else a)"

definition audit_normalizeEvent :: "audit_Event \<Rightarrow> audit_Event" where
  "audit_normalizeEvent ev =
     \<lparr>ev_Actor = audit_NormalizeActor (ev_Actor ev), ev_Action = trim_space (ev_Action ev),
      ev_ResourceType = trim_space (ev_ResourceType ev), ev_ResourceID = trim_space (ev_ResourceID ev),
      ev_Detail = Some (case ev_Detail ev of None \<Rightarrow> [] | Some d \<Rightarrow> d)\<rparr>"

type_synonym 'l audit_logger = "audit_Event \<Rightarrow> 'l \<Rightarrow> string option \<times> 'l"

definition audit_Record :: "audit_Event list audit_logger" where
  "audit_Record ev events = (None, events @ [audit_normalizeEvent ev])"

text \<open>The \<open>recordAudit\<close> that the handlers share: nothing without a logger.\<close>

definition audit_recordAudit :: "'l audit_logger \<Rightarrow> audit_Event \<Rightarrow> 'l option \<Rightarrow> string option \<times> 'l option" where
  "audit_recordAudit record ev lg =
     (case lg of None \<Rightarrow> (None, None) | Some l \<Rightarrow> (let (e, l') = record ev l in (e, Some l')))"

lemma audit_normalize_idem: "audit_normalizeEvent (audit_normalizeEvent ev) = audit_normalizeEvent ev"
proof -
  have "audit_NormalizeActor (audit_NormalizeActor a) = audit_NormalizeActor a" for a
  proof (cases "trim_space a = []")
    case True
    then have "audit_NormalizeActor a = ''system''" by (simp add: audit_NormalizeActor_def audit_SystemActor_def)
    moreover have "audit_NormalizeActor ''system'' = ''system''" by code_simp
    ultimately show ?thesis by simp
  next
    case False
    then show ?thesis by (simp add: audit_NormalizeActor_def)
  qed
  then show ?thesis by (simp add: audit_normalizeEvent_def)
qed

text \<open>The numbers and names the handlers log are trimmed already.\<close>

lemma trim_space_show_int [simp]: "trim_space (show_int i) = show_int i"
proof (rule trimmed_trim_space_id)
  have digit: "\<not> is_space c" if "is_digit c" for c
    using that by (auto simp: is_digit_def is_space_def)
  have "\<not> is_space c" if "c \<in> set (show_int i)" for c
    using that digit show_nat_digits by (fastforce simp: show_int_def is_space_def split: if_splits)
  then show "trimmed (show_int i)" unfolding trimmed_def using hd_in_set last_in_set by blast
qed

lemma audit_actor_blank: "audit_NormalizeActor [] = ''system''"
  by code_simp

end
