(* ===== verification/Datahub_Handler.thy ===== *)
theory Datahub_Handler
  imports Datahub_Facts Audit_Log Job_Service "HOL-Library.Product_Lexorder"
begin

section \<open>Data hub: the handlers\<close>

text \<open>
  \<open>internal/datahub/handler.go\<close> over the service and its repository. The audit logger, the job creator and the
  presigners are arguments, each with its own state where it has one; each may be absent. A request is
  the authenticated context, the raw path parameter, what decoding the body gave and the trace identifiers.
\<close>

datatype dh_failure =
    DhFailed dh_error
  | DhForbidden int
  | DhJobs jobs_error
  | DhAudit string
  | DhSource string

type_synonym dh_fail = "dh_failure http_error"
type_synonym 'j dh_jobCreator = "jobs_CreateJobInput \<Rightarrow> 'j \<Rightarrow> (jobs_error, jobs_Job, 'j) outcome"
type_synonym dh_sourcePresign = "string \<Rightarrow> int \<Rightarrow> string + string"

record ('l, 'j) dh_Handler =
  hh_repo :: dh_Repo
  hh_audit :: "'l option"
  hh_jobs :: "'j option"

definition dh_recordAudit :: "'l audit_logger \<Rightarrow> audit_Event \<Rightarrow> ('l, 'j) dh_Handler \<Rightarrow> string option \<times> ('l, 'j) dh_Handler" where
  "dh_recordAudit lg ev h = (let (e, a) = audit_recordAudit lg ev (hh_audit h) in (e, h\<lparr>hh_audit := a\<rparr>))"

text \<open>What every audited handler does at its end: the event, then the answer, or 500.\<close>

definition dh_audited ::
  "'l audit_logger \<Rightarrow> audit_Event \<Rightarrow> 'a \<Rightarrow> ('l, 'j) dh_Handler \<Rightarrow> (dh_fail, 'a) reply \<times> ('l, 'j) dh_Handler" where
  "dh_audited lg ev answer h =
     (case dh_recordAudit lg ev h of
        (Some e, h') \<Rightarrow> (ReplyError StatusInternalServerError (HttpService (DhAudit e)), h')
      | (None, h') \<Rightarrow> (Reply StatusOK answer, h'))"

subsection \<open>Error answers\<close>

definition dh_writeServiceError :: "dh_error \<Rightarrow> (dh_fail, 'a) reply" where
  "dh_writeServiceError e =
     ReplyError (if dh_error_is e DhErrNotFound then StatusNotFound else StatusBadRequest) (HttpService (DhFailed e))"

definition dh_writeImportError :: "dh_error \<Rightarrow> (dh_fail, 'a) reply" where
  "dh_writeImportError e =
     ReplyError
       (if dh_error_is e DhErrNotFound then StatusNotFound
        else if dh_error_is e DhErrConflict then StatusConflict
        else if dh_error_is e DhErrValidation then StatusUnprocessableEntity
        else StatusBadRequest) (HttpService (DhFailed e))"

datatype dh_access = DhAccessError dh_error | DhAccessForbidden int

definition dh_requireProject :: "auth_context \<Rightarrow> int \<Rightarrow> dh_access + unit" where
  "dh_requireProject ctx projectID =
     (case auth_RequireProjectAccess ctx projectID of Inl (AuthForbidden p) \<Rightarrow> Inl (DhAccessForbidden p) | Inr _ \<Rightarrow> Inr ())"

definition dh_authorizeDatasetProject :: "auth_context \<Rightarrow> int \<Rightarrow> dh_Repo \<Rightarrow> dh_access + unit" where
  "dh_authorizeDatasetProject ctx did r =
     (case dh_GetDatasetDetail did r of Inl e \<Rightarrow> Inl (DhAccessError e) | Inr d \<Rightarrow> dh_requireProject ctx (dd_ProjectID d))"

definition dh_authorizeSnapshotProject :: "int list \<Rightarrow> auth_context \<Rightarrow> int \<Rightarrow> dh_Repo \<Rightarrow> dh_access + unit" where
  "dh_authorizeSnapshotProject dks ctx sid r =
     (case dh_GetSnapshot dks sid r of
        Inl e \<Rightarrow> Inl (DhAccessError e)
      | Inr s \<Rightarrow> dh_authorizeDatasetProject ctx (sn_DatasetID s) r)"

definition dh_writeProjectAccessError :: "dh_access \<Rightarrow> (dh_fail, 'a) reply" where
  "dh_writeProjectAccessError a =
     (case a of
        DhAccessForbidden p \<Rightarrow> ReplyError StatusForbidden (HttpService (DhForbidden p))
      | DhAccessError e \<Rightarrow> dh_writeServiceError e)"

definition dh_writeProjectReadError :: "dh_access \<Rightarrow> string \<Rightarrow> int \<Rightarrow> (dh_fail, 'a) reply" where
  "dh_writeProjectReadError a resource i =
     (case a of DhAccessForbidden p \<Rightarrow> dh_writeServiceError (DhNotFound resource i) | DhAccessError e \<Rightarrow> dh_writeServiceError e)"

subsection \<open>Datasets, snapshots and scans\<close>

definition dh_HandleCreateDataset ::
  "'l audit_logger \<Rightarrow> auth_context \<Rightarrow> dh_CreateDatasetInput http_body \<Rightarrow> ('l, 'j) dh_Handler \<Rightarrow>
     (dh_fail, int) reply \<times> ('l, 'j) dh_Handler" where
  "dh_HandleCreateDataset lg ctx body h =
     (case decode_body body of
        Inl e \<Rightarrow> (ReplyError StatusBadRequest e, h)
      | Inr inp \<Rightarrow>
          (case dh_requireProject ctx (cd_in_ProjectID inp) of
             Inl a \<Rightarrow> (ReplyError StatusForbidden (HttpService (DhForbidden (cd_in_ProjectID inp))), h)
           | Inr _ \<Rightarrow>
               (case dh_CreateDataset inp (hh_repo h) of
                  (Inl e, r) \<Rightarrow> (ReplyError StatusBadRequest (HttpService (DhFailed e)), h\<lparr>hh_repo := r\<rparr>)
                | (Inr d, r) \<Rightarrow>
                    dh_audited lg
                      \<lparr>ev_Actor = [], ev_Action = ''dataset.create'', ev_ResourceType = ''dataset'', ev_ResourceID = show_int (ds_ID d),
                       ev_Detail = Some [(''project_id'', GInt64 (ds_ProjectID d)), (''name'', GStr (ds_Name d)),
                         (''bucket'', GStr (ds_Bucket d)), (''prefix'', GStr (ds_Prefix d))]\<rparr>
                      (ds_ID d) (h\<lparr>hh_repo := r\<rparr>))))"

definition dh_HandleCreateSnapshot ::
  "'l audit_logger \<Rightarrow> auth_context \<Rightarrow> string \<Rightarrow> dh_CreateSnapshotInput http_body \<Rightarrow> ('l, 'j) dh_Handler \<Rightarrow>
     (dh_fail, dh_Snapshot) reply \<times> ('l, 'j) dh_Handler" where
  "dh_HandleCreateSnapshot lg ctx rawID body h =
     (case path_int64 rawID of
        Inl e \<Rightarrow> (ReplyError StatusBadRequest e, h)
      | Inr did \<Rightarrow>
          (case decode_body body of
             Inl e \<Rightarrow> (ReplyError StatusBadRequest e, h)
           | Inr inp \<Rightarrow>
               (case dh_authorizeDatasetProject ctx did (hh_repo h) of
                  Inl a \<Rightarrow> (dh_writeProjectAccessError a, h)
                | Inr _ \<Rightarrow>
                    (case dh_CreateSnapshot did inp (hh_repo h) of
                       (Inl e, r) \<Rightarrow> (ReplyError StatusBadRequest (HttpService (DhFailed e)), h\<lparr>hh_repo := r\<rparr>)
                     | (Inr s, r) \<Rightarrow>
                         dh_audited lg
                           \<lparr>ev_Actor = [], ev_Action = ''snapshot.create'', ev_ResourceType = ''snapshot'', ev_ResourceID = show_int (sn_ID s),
                            ev_Detail = Some [(''dataset_id'', GInt64 (sn_DatasetID s)), (''version'', GStr (sn_Version s)),
                              (''note'', GStr (sn_Note s))]\<rparr>
                           s (h\<lparr>hh_repo := r\<rparr>)))))"

text \<open>An empty body scans the bucket: the decoder's \<open>io.EOF\<close> is accepted and leaves no keys.\<close>

definition dh_HandleScanDataset ::
  "'l audit_logger \<Rightarrow> dh_scanner option \<Rightarrow> time \<Rightarrow> auth_context \<Rightarrow> string \<Rightarrow> string list http_body \<Rightarrow> ('l, 'j) dh_Handler \<Rightarrow>
     (dh_fail, int) reply \<times> ('l, 'j) dh_Handler" where
  "dh_HandleScanDataset lg scanner now ctx rawID body h =
     (case path_int64 rawID of
        Inl e \<Rightarrow> (ReplyError StatusBadRequest e, h)
      | Inr did \<Rightarrow>
          (case (if body = BodyEOF then Inr [] else decode_body body) of
             Inl e \<Rightarrow> (ReplyError StatusBadRequest e, h)
           | Inr objectKeys \<Rightarrow>
               (case dh_authorizeDatasetProject ctx did (hh_repo h) of
                  Inl a \<Rightarrow> (dh_writeProjectAccessError a, h)
                | Inr _ \<Rightarrow>
                    (case dh_ScanDataset scanner now did objectKeys (hh_repo h) of
                       (Inl e, r) \<Rightarrow> (ReplyError StatusBadRequest (HttpService (DhFailed e)), h\<lparr>hh_repo := r\<rparr>)
                     | (Inr added, r) \<Rightarrow>
                         dh_audited lg
                           \<lparr>ev_Actor = [], ev_Action = ''dataset.scan'', ev_ResourceType = ''dataset'', ev_ResourceID = show_int did,
                            ev_Detail = Some [(''added_items'', GInt added), (''object_keys_count'', GInt (int (length objectKeys)))]\<rparr>
                           added (h\<lparr>hh_repo := r\<rparr>)))))"

subsection \<open>Reads\<close>

definition dh_browseProjectScopes :: "auth_context \<Rightarrow> int list" where
  "dh_browseProjectScopes ctx =
     (case ctx of None \<Rightarrow> [1] | Some i \<Rightarrow> if id_ProjectIDs i \<noteq> [] then id_ProjectIDs i else [1])"

text \<open>\<open>dks p\<close> is the order in which the listing of project \<open>p\<close> visits the dataset map.\<close>

fun dh_listScopes :: "(int \<Rightarrow> int list) \<Rightarrow> int list \<Rightarrow> dh_DatasetSummary list \<Rightarrow> dh_Repo \<Rightarrow> dh_error + dh_DatasetSummary list" where
  "dh_listScopes dks [] items r = Inr items"
| "dh_listScopes dks (p # ps) items r =
     (case dh_ListDatasets (dks p) p r of Inl e \<Rightarrow> Inl e | Inr xs \<Rightarrow> dh_listScopes dks ps (items @ xs) r)"

definition dh_HandleListDatasets :: "(int \<Rightarrow> int list) \<Rightarrow> auth_context \<Rightarrow> dh_Repo \<Rightarrow> (dh_fail, dh_DatasetSummary list) reply" where
  "dh_HandleListDatasets dks ctx r =
     (case dh_listScopes dks (dh_browseProjectScopes ctx) [] r of
        Inl e \<Rightarrow> dh_writeServiceError e
      | Inr items \<Rightarrow> Reply StatusOK (sort_key (\<lambda>s. (sm_ProjectID s, sm_ID s)) items))"

definition dh_HandleListSnapshots :: "auth_context \<Rightarrow> string \<Rightarrow> dh_Repo \<Rightarrow> (dh_fail, dh_Snapshot list) reply" where
  "dh_HandleListSnapshots ctx rawID r =
     (case path_int64 rawID of
        Inl e \<Rightarrow> ReplyError StatusBadRequest e
      | Inr did \<Rightarrow>
          (case dh_authorizeDatasetProject ctx did r of
             Inl a \<Rightarrow> dh_writeProjectReadError a ''dataset'' did
           | Inr _ \<Rightarrow>
               (case dh_ListSnapshots did r of
                  Inl e \<Rightarrow> ReplyError StatusBadRequest (HttpService (DhFailed e))
                | Inr xs \<Rightarrow> Reply StatusOK xs)))"

definition dh_HandleGetDatasetDetail :: "auth_context \<Rightarrow> string \<Rightarrow> dh_Repo \<Rightarrow> (dh_fail, dh_DatasetDetail) reply" where
  "dh_HandleGetDatasetDetail ctx rawID r =
     (case path_int64 rawID of
        Inl e \<Rightarrow> ReplyError StatusBadRequest e
      | Inr did \<Rightarrow>
          (case dh_GetDatasetDetail did r of
             Inl e \<Rightarrow> dh_writeServiceError e
           | Inr d \<Rightarrow>
               (case dh_requireProject ctx (dd_ProjectID d) of
                  Inl _ \<Rightarrow> dh_writeServiceError (DhNotFound ''dataset'' did)
                | Inr _ \<Rightarrow> Reply StatusOK d)))"

definition dh_HandleGetSnapshotDetail :: "int list \<Rightarrow> auth_context \<Rightarrow> string \<Rightarrow> dh_Repo \<Rightarrow> (dh_fail, dh_SnapshotDetail) reply" where
  "dh_HandleGetSnapshotDetail sks ctx rawID r =
     (case path_int64 rawID of
        Inl e \<Rightarrow> ReplyError StatusBadRequest e
      | Inr sid \<Rightarrow>
          (case dh_GetSnapshotDetail sks sid r of
             Inl e \<Rightarrow> dh_writeServiceError e
           | Inr d \<Rightarrow>
               (case dh_requireProject ctx (sdt_ProjectID d) of
                  Inl _ \<Rightarrow> dh_writeServiceError (DhNotFound ''snapshot'' sid)
                | Inr _ \<Rightarrow> Reply StatusOK d)))"

definition dh_HandleListItems :: "auth_context \<Rightarrow> string \<Rightarrow> dh_Repo \<Rightarrow> (dh_fail, dh_DatasetItem list) reply" where
  "dh_HandleListItems ctx rawID r =
     (case path_int64 rawID of
        Inl e \<Rightarrow> ReplyError StatusBadRequest e
      | Inr did \<Rightarrow>
          (case dh_authorizeDatasetProject ctx did r of
             Inl a \<Rightarrow> dh_writeProjectReadError a ''dataset'' did
           | Inr _ \<Rightarrow>
               (case dh_ListItems did r of
                  Inl e \<Rightarrow> ReplyError StatusBadRequest (HttpService (DhFailed e))
                | Inr xs \<Rightarrow> Reply StatusOK xs)))"

definition dh_HandlePresignObject ::
  "dh_presign option \<Rightarrow> auth_context \<Rightarrow> dh_PresignInput http_body \<Rightarrow> dh_Repo \<Rightarrow> (dh_fail, string) reply" where
  "dh_HandlePresignObject presign ctx body r =
     (case decode_body body of
        Inl e \<Rightarrow> ReplyError StatusBadRequest e
      | Inr inp \<Rightarrow>
          (case dh_authorizeDatasetProject ctx (ps_DatasetID inp) r of
             Inl a \<Rightarrow> dh_writeProjectAccessError a
           | Inr _ \<Rightarrow>
               (case dh_PresignObject presign inp of
                  Inl e \<Rightarrow> ReplyError StatusBadRequest (HttpService (DhFailed e))
                | Inr url \<Rightarrow> Reply StatusOK url)))"

subsection \<open>Imports\<close>

record dh_importSnapshotRequest =
  ri_Format :: string
  ri_SourceURI :: string
  ri_IdempotencyKey :: string
  ri_RequiredResourceType :: string
  ri_RequiredCapabilities :: "string list"
  ri_Labels :: "(string \<times> string) list option"
  ri_Names :: "string list option"
  ri_Images :: "(string \<times> string) list option"

record dh_importJobAnswer =
  ij_JobID :: int
  ij_Status :: string
  ij_DatasetID :: int
  ij_SnapshotID :: int

definition dh_writeBodyDecodeError :: "'b http_body \<Rightarrow> 'e http_error \<Rightarrow> ('e http_error, 'a) reply" where
  "dh_writeBodyDecodeError body e =
     (case body of
        BodyTooLarge \<Rightarrow> ReplyError StatusRequestEntityTooLarge (HttpMessage ''request body exceeds 8388608 bytes'')
      | _ \<Rightarrow> ReplyError StatusBadRequest e)"

definition dh_strings_value :: "(string \<times> string) list option \<Rightarrow> gval" where
  "dh_strings_value m = (case m of None \<Rightarrow> GNil | Some xs \<Rightarrow> GObj (map (map_prod id GStr) xs))"

definition dh_importPayload :: "string \<Rightarrow> string option \<Rightarrow> dh_importSnapshotRequest \<Rightarrow> obj" where
  "dh_importPayload traceID downloadURL inp =
     [(''format'', GStr (ri_Format inp)), (''source_uri'', GStr (ri_SourceURI inp)),
      (''labels'', dh_strings_value (ri_Labels inp)),
      (''names'', (case ri_Names inp of None \<Rightarrow> GNil | Some ns \<Rightarrow> GStrs ns)),
      (''images'', dh_strings_value (ri_Images inp))] @
     (if traceID = [] then [] else [(''trace_id'', GStr traceID)]) @
     (case downloadURL of None \<Rightarrow> [] | Some u \<Rightarrow> [(''source_download_url'', GStr u)])"

text \<open>The snapshot is looked up twice, and each look visits the dataset map in its own order.\<close>

definition dh_HandleImportSnapshot ::
  "'l audit_logger \<Rightarrow> 'j dh_jobCreator \<Rightarrow> dh_sourcePresign option \<Rightarrow> int list \<Rightarrow> int list \<Rightarrow> auth_context \<Rightarrow> obs_Trace \<Rightarrow>
     string \<Rightarrow> dh_importSnapshotRequest http_body \<Rightarrow> ('l, 'j) dh_Handler \<Rightarrow> (dh_fail, dh_importJobAnswer) reply \<times> ('l, 'j) dh_Handler" where
  "dh_HandleImportSnapshot lg create presign dks dks' ctx tr rawID body h =
     (case path_int64 rawID of
        Inl e \<Rightarrow> (ReplyError StatusBadRequest e, h)
      | Inr sid \<Rightarrow>
          (case hh_jobs h of
             None \<Rightarrow> (ReplyError StatusNotImplemented (HttpMessage ''snapshot import queue is not configured''), h)
           | Some j \<Rightarrow>
               (case dh_authorizeSnapshotProject dks ctx sid (hh_repo h) of
                  Inl a \<Rightarrow> (dh_writeProjectAccessError a, h)
                | Inr _ \<Rightarrow>
                    (case decode_body body of
                       Inl e \<Rightarrow> (dh_writeBodyDecodeError body e, h)
                     | Inr inp0 \<Rightarrow>
                         if ri_Format inp0 = [] then (ReplyError StatusBadRequest (HttpMessage ''format is required''), h)
                         else if \<not> dh_isSupportedImportFormat (ri_Format inp0)
                         then (ReplyError StatusBadRequest (HttpMessage ''unsupported format''), h)
                         else if ri_IdempotencyKey inp0 = []
                         then (ReplyError StatusBadRequest (HttpMessage ''idempotency_key is required''), h)
                         else
                           let inp = (if ri_RequiredResourceType inp0 = [] then inp0\<lparr>ri_RequiredResourceType := ''cpu''\<rparr> else inp0) in
                           (case dh_GetSnapshot dks' sid (hh_repo h) of
                              Inl e \<Rightarrow> (ReplyError StatusNotFound (HttpService (DhFailed e)), h)
                            | Inr s \<Rightarrow>
                                (case dh_GetDatasetDetail (sn_DatasetID s) (hh_repo h) of
                                   Inl e \<Rightarrow> (dh_writeServiceError e, h)
                                 | Inr d \<Rightarrow>
                                     (case (case presign of
                                              None \<Rightarrow> Inr None
                                            | Some f \<Rightarrow> if ri_SourceURI inp = [] then Inr None
                                                        else map_sum id Some (f (ri_SourceURI inp) 300)) of
                                        Inl e \<Rightarrow> (ReplyError StatusBadRequest (HttpService (DhSource e)), h)
                                      | Inr url \<Rightarrow>
                                          (case create
                                             \<lparr>cj_ProjectID = dd_ProjectID d, cj_DatasetID = sn_DatasetID s, cj_SnapshotID = sn_ID s,
                                              cj_JobType = ''snapshot-import'', cj_RequiredResourceType = ri_RequiredResourceType inp,
                                              cj_RequiredCapabilities = ri_RequiredCapabilities inp,
                                              cj_IdempotencyKey = ri_IdempotencyKey inp,
                                              cj_Payload = Some (dh_importPayload (obs_TraceIDFromRequest tr) url inp)\<rparr> j of
                                             (Inl e, j') \<Rightarrow> (ReplyError StatusBadRequest (HttpService (DhJobs e)), h\<lparr>hh_jobs := Some j'\<rparr>)
                                           | (Inr job, j') \<Rightarrow>
                                               dh_audited lg
                                                 \<lparr>ev_Actor = [], ev_Action = ''job.create.snapshot-import'', ev_ResourceType = ''job'',
                                                  ev_ResourceID = show_int (job_ID job),
                                                  ev_Detail = Some [(''dataset_id'', GInt64 (sn_DatasetID s)),
                                                    (''snapshot_id'', GInt64 (sn_ID s)), (''format'', GStr (ri_Format inp))]\<rparr>
                                                 \<lparr>ij_JobID = job_ID job, ij_Status = job_Status job,
                                                  ij_DatasetID = sn_DatasetID s, ij_SnapshotID = sn_ID s\<rparr>
                                                 (h\<lparr>hh_jobs := Some j'\<rparr>)))))))))"

record dh_completeImportRequest =
  rc_Format :: string
  rc_SourceURI :: string
  rc_Entries :: "dh_ImportedAnnotation list"

definition dh_HandleCompleteImportSnapshot ::
  "int list \<Rightarrow> string \<Rightarrow> dh_completeImportRequest http_body \<Rightarrow> ('l, 'j) dh_Handler \<Rightarrow>
     (dh_fail, dh_ImportSnapshotResult) reply \<times> ('l, 'j) dh_Handler" where
  "dh_HandleCompleteImportSnapshot dks rawID body h =
     (case path_int64 rawID of
        Inl e \<Rightarrow> (ReplyError StatusBadRequest e, h)
      | Inr sid \<Rightarrow>
          (case decode_body body of
             Inl e \<Rightarrow> (dh_writeBodyDecodeError body e, h)
           | Inr inp \<Rightarrow>
               if \<not> dh_isSupportedImportFormat (rc_Format inp)
               then (ReplyError StatusBadRequest (HttpMessage ''unsupported format''), h)
               else
                 (case dh_ImportSnapshot dks sid
                         \<lparr>is_Format = rc_Format inp, is_SourceURI = rc_SourceURI inp, is_Entries = rc_Entries inp\<rparr> (hh_repo h) of
                    (Inl e, r) \<Rightarrow> (dh_writeImportError e, h\<lparr>hh_repo := r\<rparr>)
                  | (Inr report, r) \<Rightarrow> (Reply StatusOK report, h\<lparr>hh_repo := r\<rparr>))))"

end
