(* ===== verification/Datahub_Claims.thy ===== *)
theory Datahub_Claims
  imports Datahub_Facts
begin

section \<open>Data hub: the properties\<close>

text \<open>
  Histories of the repository, the exact effect of a scan and of an import, the replay of an import, and the
  snapshot that a failed import leaves blocked.
\<close>

subsection \<open>Histories\<close>

text \<open>
  C36. After any calls from the empty repository, datasets, snapshots and items are numbered without
  repetition, the snapshots of a dataset are called v1, v2, ... in order, no dataset holds two items with
  one object key, every stored annotation belongs to a snapshot, an item and a category of its dataset, and the
  change log has exactly one "added" record per annotation, in the same order. Further calls only add.
\<close>

theorem dh_histories:
  "dh_inv (dh_after cs) \<and> dh_le (dh_after cs) (dh_after (cs @ cs'))"
  by (simp add: dh_after_inv dh_after_le)

subsection \<open>Scans\<close>

lemma dh_upsert_twice:
  assumes d: "dr_datasets r did = Some d"
    and new: "map di_ObjectKey new = new_keys (set (map di_ObjectKey (slice_at (dr_items r) did))) (map so_Key obs)"
  shows "dh_repo_UpsertScannedItems did obs (dh_with_items did new r) = (Inr 0, dh_with_items did new r)"
proof -
  let ?r = "dh_with_items did new r" and ?old = "set (map di_ObjectKey (slice_at (dr_items r) did))"
  have known: "set (map di_ObjectKey (slice_at (dr_items ?r) did)) = ?old \<union> set (new_keys ?old (map so_Key obs))"
    unfolding new [symmetric] by auto
  obtain more where "dh_repo_UpsertScannedItems did obs ?r = (Inr (int (length more)), dh_with_items did more ?r)"
    "map di_ObjectKey more = new_keys (set (map di_ObjectKey (slice_at (dr_items ?r) did))) (map so_Key obs)"
    using dh_UpsertScannedItems_spec [of ?r did d obs] d by auto
  moreover have "new_keys (set (map di_ObjectKey (slice_at (dr_items ?r) did))) (map so_Key obs) = []"
    unfolding known by (rule new_keys_known) (auto simp: new_keys_props)
  ultimately show ?thesis by (simp add: dh_with_items_def)
qed

text \<open>
  A scan of the bucket of an existing dataset answers the number of objects whose key is new and not empty,
  appends items with exactly these keys in the order of their first appearance, leaves the items of other datasets
  alone, and scanning the same listing again adds nothing.
\<close>

theorem dh_scan_exact:
  assumes "dr_datasets r did = Some d" and "scan (ds_Bucket d) (ds_Prefix d) = Inr obs"
  defines "keys \<equiv> \<lambda>r. map di_ObjectKey (slice_at (dr_items r) did)"
  shows "\<exists>r'. dh_ScanDataset (Some scan) now did [] r = (Inr (int (length (new_keys (set (keys r)) (map so_Key obs)))), r') \<and>
     keys r' = keys r @ new_keys (set (keys r)) (map so_Key obs) \<and>
     (\<forall>k. k \<noteq> did \<longrightarrow> slice_at (dr_items r') k = slice_at (dr_items r) k) \<and>
     dh_ScanDataset (Some scan) now' did [] r' = (Inr 0, r')"
proof -
  obtain new where new: "dh_repo_UpsertScannedItems did obs r = (Inr (int (length new)), dh_with_items did new r)"
    "map di_ObjectKey new = new_keys (set (keys r)) (map so_Key obs)"
    using dh_UpsertScannedItems_spec [OF assms(1), of obs] unfolding keys_def by blast
  have len: "length new = length (new_keys (set (keys r)) (map so_Key obs))" unfolding new(2) [symmetric] by simp
  have "dh_ScanDataset (Some scan) t did [] q = dh_repo_UpsertScannedItems did obs q" if "dr_datasets q = dr_datasets r" for t q
    using assms(1,2) that by (simp add: dh_ScanDataset_def dh_repo_GetDataset_def)
  then show ?thesis
    using new len dh_upsert_twice [OF assms(1) new(2) [unfolded keys_def]]
    by (intro exI [of _ "dh_with_items did new r"]) (simp add: keys_def)
qed

subsection \<open>Imports\<close>

lemma dh_log_snapshot:
  "list_all2 (dh_stored_as s d r) es as \<Longrightarrow>
   dh_ListAnnotationsForSnapshot (sn_ID s) (dh_with_log from as r) = dh_ListAnnotationsForSnapshot (sn_ID s) r @ as"
proof -
  assume "list_all2 (dh_stored_as s d r) es as"
  then have "\<forall>a\<in>set as. st_SnapshotID a = sn_ID s"
    by (metis dh_stored_as_entry in_set_conv_nth list_all2_conv_all_nth)
  then show ?thesis by (simp add: dh_ListAnnotationsForSnapshot_def)
qed

lemma dh_stored_entries: "list_all2 (dh_stored_as s d r) es as \<Longrightarrow> map dh_storedEntry as = es"
  by (induction rule: list_all2_induct) (simp_all add: dh_stored_as_entry)

lemma dh_target_log [simp]: "dh_target dks sid (dh_with_log from as r) s d \<longleftrightarrow> dh_target dks sid r s d"
  by (simp add: dh_target_def dh_findSnapshot_def)

definition dh_acceptable :: "dh_Dataset \<Rightarrow> dh_Repo \<Rightarrow> dh_ImportedAnnotation list \<Rightarrow> bool" where
  "dh_acceptable d r es \<longleftrightarrow> list_all (dh_entry_ok d r) es \<and> distinct (map dh_importedAnnotationKey es)"

text \<open>An import on a snapshot without annotations, on both branches.\<close>

lemma dh_import_fresh:
  assumes t: "dh_target dks sid r s d" and wf: "dh_well_formed inp" and fresh: "dh_ListAnnotationsForSnapshot (sn_ID s) r = []"
  obtains as where "snd (dh_ImportSnapshot dks sid inp r) = dh_with_log (dh_from s) as r"
    "list_all2 (dh_stored_as s d r) (take (length as) (is_Entries inp)) as"
    "if dh_acceptable d r (is_Entries inp)
     then fst (dh_ImportSnapshot dks sid inp r) =
            Inr \<lparr>ir_DatasetID = ds_ID d, ir_SnapshotID = sn_ID s, ir_ImportedAnnotations = int (length (is_Entries inp))\<rparr> \<and>
          length as = length (is_Entries inp)
     else (\<exists>err. fst (dh_ImportSnapshot dks sid inp r) = Inl err) \<and> length as < length (is_Entries inp)"
proof -
  let ?loop = "dh_importLoop s d (dh_from s) {} 0 (is_Entries inp) r"
  obtain as where as: "snd ?loop = dh_with_log (dh_from s) as r"
    "list_all2 (dh_stored_as s d r) (take (length as) (is_Entries inp)) as"
    "if dh_acceptable d r (is_Entries inp) then fst ?loop = Inr (int (length (is_Entries inp))) \<and> length as = length (is_Entries inp)
     else (\<exists>err. fst ?loop = Inl err) \<and> length as < length (is_Entries inp)"
    using dh_importLoop_spec [of s d "dh_from s" "{}" 0 "is_Entries inp" r] unfolding dh_acceptable_def by auto
  have fst_eq: "fst (and_then m (\<lambda>n r. (Inr (f n), r))) = map_sum id f (fst m)" for m :: "(dh_error + int) \<times> dh_Repo"
    and f :: "int \<Rightarrow> dh_ImportSnapshotResult" by (cases m; cases "fst m") auto
  show thesis
  proof (rule that)
    show "snd (dh_ImportSnapshot dks sid inp r) = dh_with_log (dh_from s) as r"
      unfolding dh_import_run(2) [OF t wf fresh] dh_and_then_state by (rule as(1))
    show "list_all2 (dh_stored_as s d r) (take (length as) (is_Entries inp)) as" by (rule as(2))
    show "if dh_acceptable d r (is_Entries inp)
     then fst (dh_ImportSnapshot dks sid inp r) =
            Inr \<lparr>ir_DatasetID = ds_ID d, ir_SnapshotID = sn_ID s, ir_ImportedAnnotations = int (length (is_Entries inp))\<rparr> \<and>
          length as = length (is_Entries inp)
     else (\<exists>err. fst (dh_ImportSnapshot dks sid inp r) = Inl err) \<and> length as < length (is_Entries inp)"
      unfolding dh_import_run(2) [OF t wf fresh] fst_eq using as(3) by (auto split: if_splits)
  qed
qed

text \<open>
  C37. An import, in a supported format and with some entries, into a stored snapshot without annotations succeeds exactly when every entry names a known item and a known
  category with a valid box and no two entries have the same key text; then it reports the number of entries and stores
  one annotation per entry, in order, each with its "added" change whose base is the parent snapshot. Otherwise it
  fails and a proper prefix of the entries stays stored. Nothing else of the repository changes.
\<close>

theorem dh_import_exact:
  assumes "dh_target dks sid r s d" and "dh_well_formed inp" and "dh_ListAnnotationsForSnapshot (sn_ID s) r = []"
  shows "\<exists>as. snd (dh_ImportSnapshot dks sid inp r) =
        r\<lparr>dr_annotations := dr_annotations r @ as, dr_changes := dr_changes r @ map (dh_added (dh_from s)) as\<rparr> \<and>
     list_all2 (dh_stored_as s d r) (take (length as) (is_Entries inp)) as \<and>
     (if list_all (dh_entry_ok d r) (is_Entries inp) \<and> distinct (map dh_importedAnnotationKey (is_Entries inp))
      then fst (dh_ImportSnapshot dks sid inp r) =
             Inr \<lparr>ir_DatasetID = ds_ID d, ir_SnapshotID = sn_ID s, ir_ImportedAnnotations = int (length (is_Entries inp))\<rparr> \<and>
           length as = length (is_Entries inp)
      else (\<exists>err. fst (dh_ImportSnapshot dks sid inp r) = Inl err) \<and> length as < length (is_Entries inp))"
  using dh_import_fresh [OF assms] unfolding dh_with_log_def dh_acceptable_def by metis

lemma dh_match_mset:
  "dh_importEntriesMatchSnapshot as es \<longleftrightarrow>
     mset (map (\<lambda>a. dh_importedAnnotationKey (dh_storedEntry a)) as) = mset (map dh_importedAnnotationKey es)"
proof -
  have sorted: "sort xs = sort ys \<longleftrightarrow> mset xs = mset ys" for xs ys :: "string list"
    by (metis mset_sort properties_for_sort sorted_sort)
  have "length as = length es" if "mset (map (\<lambda>a. dh_importedAnnotationKey (dh_storedEntry a)) as) = mset (map dh_importedAnnotationKey es)"
    using arg_cong [OF that, of size] by simp
  then show ?thesis by (auto simp: dh_importEntriesMatchSnapshot_def list.rel_eq sorted Let_def)
qed

text \<open>
  An import that succeeded can be replayed: the same entries in any order, in either format, are answered with
  the same result and change nothing.
\<close>

theorem dh_import_replay:
  assumes "dh_target dks sid r s d" and "dh_well_formed inp" and "dh_ListAnnotationsForSnapshot (sn_ID s) r = []"
    and "dh_ImportSnapshot dks sid inp r = (Inr res, r')"
    and "mset (is_Entries inp') = mset (is_Entries inp)" and "dh_isSupportedImportFormat (is_Format inp')"
  shows "dh_ImportSnapshot dks sid inp' r' = (Inr res, r')"
proof -
  obtain as where as: "r' = dh_with_log (dh_from s) as r" "list_all2 (dh_stored_as s d r) (is_Entries inp) as"
    "res = \<lparr>ir_DatasetID = ds_ID d, ir_SnapshotID = sn_ID s, ir_ImportedAnnotations = int (length (is_Entries inp))\<rparr>"
    "length as = length (is_Entries inp)"
  proof -
    obtain as where run: "snd (dh_ImportSnapshot dks sid inp r) = dh_with_log (dh_from s) as r"
      "list_all2 (dh_stored_as s d r) (take (length as) (is_Entries inp)) as"
      "if dh_acceptable d r (is_Entries inp)
       then fst (dh_ImportSnapshot dks sid inp r) =
              Inr \<lparr>ir_DatasetID = ds_ID d, ir_SnapshotID = sn_ID s, ir_ImportedAnnotations = int (length (is_Entries inp))\<rparr> \<and>
            length as = length (is_Entries inp)
       else (\<exists>err. fst (dh_ImportSnapshot dks sid inp r) = Inl err) \<and> length as < length (is_Entries inp)"
      by (rule dh_import_fresh [OF assms(1-3)])
    have "r' = dh_with_log (dh_from s) as r" using run(1) assms(4) by simp
    moreover from run(3) assms(4) have "dh_acceptable d r (is_Entries inp)" by (simp split: if_splits)
    ultimately show thesis using that [of as] run(2,3) assms(4) by simp
  qed
  have listed: "dh_ListAnnotationsForSnapshot (sn_ID s) r' = as" using dh_log_snapshot [OF as(2)] assms(3) as(1) by simp
  have ne: "is_Entries inp \<noteq> []" using assms(2) by (simp add: dh_well_formed_def)
  then have wf: "dh_well_formed inp'" using assms(5,6) by (auto simp: dh_well_formed_def)
  have keys: "map (\<lambda>a. dh_importedAnnotationKey (dh_storedEntry a)) as = map dh_importedAnnotationKey (is_Entries inp)"
    unfolding dh_stored_entries [OF as(2), symmetric] by simp
  have m: "dh_importEntriesMatchSnapshot as (is_Entries inp')" unfolding dh_match_mset keys by (simp only: mset_map assms(5))
  have some: "as \<noteq> []" using as(4) ne by auto
  have t: "dh_target dks sid r' s d" using assms(1) unfolding as(1) dh_target_log .
  show ?thesis using dh_import_run(1) [OF t wf] unfolding listed as(3,4) by (simp only: some m if_True not_False_eq_True simp_thms)
qed

text \<open>
  An import that fails after storing an entry blocks its snapshot: the stored prefix stays, and a corrected import
  with at least as many entries is refused with the conflict of the snapshot.
\<close>

theorem dh_import_partial_blocks:
  assumes "dh_target dks sid r s d" and "dh_well_formed inp" and "dh_ListAnnotationsForSnapshot (sn_ID s) r = []"
    and "dh_ImportSnapshot dks sid inp r = (Inl e, r')" and "r' \<noteq> r"
    and "dh_isSupportedImportFormat (is_Format inp')" and "length (is_Entries inp) \<le> length (is_Entries inp')"
  shows "dh_ImportSnapshot dks sid inp' r' = (Inl (DhConflict (sn_ID s)), r')"
proof -
  obtain as where as: "r' = dh_with_log (dh_from s) as r" "list_all2 (dh_stored_as s d r) (take (length as) (is_Entries inp)) as"
    "length as < length (is_Entries inp)"
  proof -
    obtain as where run: "snd (dh_ImportSnapshot dks sid inp r) = dh_with_log (dh_from s) as r"
      "list_all2 (dh_stored_as s d r) (take (length as) (is_Entries inp)) as"
      "if dh_acceptable d r (is_Entries inp)
       then fst (dh_ImportSnapshot dks sid inp r) =
              Inr \<lparr>ir_DatasetID = ds_ID d, ir_SnapshotID = sn_ID s, ir_ImportedAnnotations = int (length (is_Entries inp))\<rparr> \<and>
            length as = length (is_Entries inp)
       else (\<exists>err. fst (dh_ImportSnapshot dks sid inp r) = Inl err) \<and> length as < length (is_Entries inp)"
      by (rule dh_import_fresh [OF assms(1-3)])
    have "length as < length (is_Entries inp)" using run(3) assms(4) by (simp split: if_splits)
    with run(1,2) assms(4) show thesis by (intro that [of as]) simp_all
  qed
  have listed: "dh_ListAnnotationsForSnapshot (sn_ID s) r' = as" using dh_log_snapshot [OF as(2)] assms(3) as(1) by simp
  have some: "as \<noteq> []" using as(1) assms(5) by auto
  have wf: "dh_well_formed inp'" using assms(2,6,7) by (auto simp: dh_well_formed_def)
  have m: "\<not> dh_importEntriesMatchSnapshot as (is_Entries inp')" using as(3) assms(7) by (simp add: dh_importEntriesMatchSnapshot_def)
  have t: "dh_target dks sid r' s d" using assms(1) unfolding as(1) dh_target_log .
  show ?thesis using dh_import_run(1) [OF t wf] unfolding listed by (simp only: some m if_False not_False_eq_True simp_thms)
qed

subsection \<open>A concrete data hub\<close>

definition dh_demo :: dh_Repo where
  "dh_demo = dh_after
     [DhCreateDataset \<lparr>cd_in_ProjectID = 1, cd_in_Name = ''d'', cd_in_Bucket = ''b'', cd_in_Prefix = ''p''\<rparr>,
      DhCreateSnapshot 1 \<lparr>cs_in_BasedOnSnapshotID = None, cs_in_Note = []\<rparr>,
      DhScan None 0 1 [''x.jpg'', ''y.jpg''], DhEnsureCategory 1 ''car'']"

definition dh_demo_entry :: "string \<Rightarrow> string \<Rightarrow> dh_ImportedAnnotation" where
  "dh_demo_entry k c = \<lparr>ia_ObjectKey = k, ia_CategoryName = c, ia_BBoxX = 0, ia_BBoxY = 0, ia_BBoxW = 1, ia_BBoxH = 1\<rparr>"

definition dh_demo_import :: "string \<Rightarrow> dh_ImportedAnnotation list \<Rightarrow> dh_ImportSnapshotInput" where
  "dh_demo_import f es = \<lparr>is_Format = f, is_SourceURI = [], is_Entries = es\<rparr>"

definition dh_demo_dataset :: dh_Dataset where
  "dh_demo_dataset = \<lparr>ds_ID = 1, ds_ProjectID = 1, ds_Name = ''d'', ds_Bucket = ''b'', ds_Prefix = ''p''\<rparr>"

definition dh_demo_snapshot :: dh_Snapshot where
  "dh_demo_snapshot = \<lparr>sn_ID = 1, sn_DatasetID = 1, sn_Version = ''v1'', sn_BasedOnSnapshot = None, sn_Note = []\<rparr>"

lemmas dh_op_defs = dh_CreateDataset_def dh_repo_CreateDataset_def dh_CreateSnapshot_def dh_repo_CreateSnapshot_def
  dh_ScanDataset_def dh_repo_InsertItems_def dh_repo_GetDataset_def dh_repo_UpsertScannedItems_def dh_EnsureCategory_def
  dh_NewInMemoryRepository_def Let_def

lemma show_int_one: "show_int 1 = ''1''"
  by code_simp

lemma dh_demo_fields:
  "dr_datasets dh_demo = [1 \<mapsto> dh_demo_dataset]" "dr_snapshots dh_demo = [1 \<mapsto> [dh_demo_snapshot]]"
  "map di_ObjectKey (slice_at (dr_items dh_demo) 1) = [''x.jpg'', ''y.jpg'']"
  "dr_categoryIDs dh_demo = [dh_categoryKey 1 ''car'' \<mapsto> 1]" "dr_annotations dh_demo = []"
  by (simp_all add: dh_demo_def dh_after_def dh_op_defs dh_demo_dataset_def dh_demo_snapshot_def show_int_one)

lemma dh_demo_target: "dh_target [1] 1 dh_demo dh_demo_snapshot dh_demo_dataset"
  by (simp add: dh_target_def dh_findSnapshot_def dh_demo_fields) (simp add: dh_demo_snapshot_def)

lemma dh_demo_numbers [simp]: "sn_ID dh_demo_snapshot = 1" "ds_ID dh_demo_dataset = 1" "ds_ProjectID dh_demo_dataset = 1"
  by (simp_all add: dh_demo_snapshot_def dh_demo_dataset_def)

lemma dh_demo_fresh: "dh_ListAnnotationsForSnapshot (sn_ID dh_demo_snapshot) dh_demo = []"
  by (simp add: dh_ListAnnotationsForSnapshot_def dh_demo_fields)

lemma dh_demo_category: "dr_categoryIDs dh_demo (dh_categoryKey 1 c) \<noteq> None \<longleftrightarrow> c = ''car''"
  by (simp add: dh_demo_fields dh_categoryKey_def)

lemma dh_demo_entry_ok:
  "dh_entry_ok dh_demo_dataset dh_demo (dh_demo_entry k c) \<longleftrightarrow> k \<in> {''x.jpg'', ''y.jpg''} \<and> c = ''car''"
  using dh_demo_fields(3)
  by (simp only: dh_entry_ok_def dh_demo_numbers dh_demo_entry_def dh_ImportedAnnotation.select_convs dh_demo_category dh_demo_fields(3))
    auto

lemma dh_demo_keys: "distinct (map dh_importedAnnotationKey [dh_demo_entry ''x.jpg'' c, dh_demo_entry ''y.jpg'' c'])"
  by (simp add: dh_importedAnnotationKey_def dh_demo_entry_def join_with.simps)

definition dh_demo_good :: dh_ImportSnapshotInput where
  "dh_demo_good = dh_demo_import ''coco'' [dh_demo_entry ''x.jpg'' ''car'', dh_demo_entry ''y.jpg'' ''car'']"

definition dh_demo_bad :: dh_ImportSnapshotInput where
  "dh_demo_bad = dh_demo_import ''coco'' [dh_demo_entry ''x.jpg'' ''car'', dh_demo_entry ''y.jpg'' ''bus'']"

lemma dh_demo_wf: "dh_well_formed dh_demo_good" "dh_well_formed dh_demo_bad"
  by (simp_all add: dh_well_formed_def dh_demo_good_def dh_demo_bad_def dh_demo_import_def dh_isSupportedImportFormat_def)

lemma dh_demo_entries:
  "is_Entries dh_demo_good = [dh_demo_entry ''x.jpg'' ''car'', dh_demo_entry ''y.jpg'' ''car'']"
  "is_Entries dh_demo_bad = [dh_demo_entry ''x.jpg'' ''car'', dh_demo_entry ''y.jpg'' ''bus'']"
  by (simp_all add: dh_demo_good_def dh_demo_bad_def dh_demo_import_def)

lemma dh_demo_good_ok:
  "list_all (dh_entry_ok dh_demo_dataset dh_demo) (is_Entries dh_demo_good) \<and> distinct (map dh_importedAnnotationKey (is_Entries dh_demo_good))"
  using dh_demo_keys [of "''car''" "''car''"] by (simp add: dh_demo_entries dh_demo_entry_ok)

lemma dh_demo_bad_run:
  "\<exists>e r'. dh_ImportSnapshot [1] 1 dh_demo_bad dh_demo = (Inl e, r') \<and> r' \<noteq> dh_demo"
proof -
  have "dh_ImportSnapshot [1] 1 dh_demo_bad dh_demo =
    and_then (dh_importLoop dh_demo_snapshot dh_demo_dataset (dh_from dh_demo_snapshot) {} 0 (is_Entries dh_demo_bad) dh_demo)
      (\<lambda>n r'. (Inr \<lparr>ir_DatasetID = 1, ir_SnapshotID = 1, ir_ImportedAnnotations = n\<rparr>, r'))"
    using dh_import_run(2) [OF dh_demo_target dh_demo_wf(2) dh_demo_fresh] by simp
  moreover obtain a where "dh_checkEntry dh_demo_snapshot dh_demo_dataset {} (dh_demo_entry ''x.jpg'' ''car'') dh_demo = Inr a"
    using dh_check_spec [of dh_demo_snapshot dh_demo_dataset "{}" "dh_demo_entry ''x.jpg'' ''car''" dh_demo] by (auto simp: dh_demo_entry_ok)
  moreover obtain err where "dh_checkEntry dh_demo_snapshot dh_demo_dataset {dh_importedAnnotationKey (dh_demo_entry ''x.jpg'' ''car'')}
      (dh_demo_entry ''y.jpg'' ''bus'') dh_demo = Inl err"
    using dh_check_spec [of dh_demo_snapshot dh_demo_dataset "{dh_importedAnnotationKey (dh_demo_entry ''x.jpg'' ''car'')}"
      "dh_demo_entry ''y.jpg'' ''bus''" dh_demo] by (auto simp: dh_demo_entry_ok)
  moreover have "dh_with_log base [b] dh_demo \<noteq> dh_demo" for base b
    by (metis dh_with_log_sel(8) dh_demo_fields(5) append_Nil list.distinct(1))
  ultimately show ?thesis by (simp add: dh_demo_entries dh_log_one)
qed

definition dh_demo_object :: "string \<Rightarrow> dh_ScannedObject" where
  "dh_demo_object k = \<lparr>so_Key = k, so_ETag = [], so_Size = 1, so_Mime = [], so_Width = 1, so_Height = 1\<rparr>"

definition dh_demo_scanner :: dh_scanner where
  "dh_demo_scanner bucket pre = Inr [dh_demo_object ''y.jpg'', dh_demo_object ''z.jpg'']"

theorem dh_scan_exact_witness:
  "\<exists>r'. dh_ScanDataset (Some dh_demo_scanner) 0 1 [] dh_demo = (Inr 1, r') \<and>
     map di_ObjectKey (slice_at (dr_items r') 1) = [''x.jpg'', ''y.jpg'', ''z.jpg'']"
proof -
  have d: "dr_datasets dh_demo 1 = Some dh_demo_dataset" by (simp add: dh_demo_fields)
  have s: "dh_demo_scanner (ds_Bucket dh_demo_dataset) (ds_Prefix dh_demo_dataset) = Inr [dh_demo_object ''y.jpg'', dh_demo_object ''z.jpg'']"
    by (simp add: dh_demo_scanner_def)
  have new: "new_keys (set [''x.jpg'', ''y.jpg'']) (map so_Key [dh_demo_object ''y.jpg'', dh_demo_object ''z.jpg'']) = [''z.jpg'']"
    by (simp add: dh_demo_object_def)
  have one: "int (length [''z.jpg'']) = 1" by simp
  have app: "[''x.jpg'', ''y.jpg''] @ [''z.jpg''] = [''x.jpg'', ''y.jpg'', ''z.jpg'']" by simp
  show ?thesis using dh_scan_exact [where scan = dh_demo_scanner, OF d s, of 0 0] unfolding dh_demo_fields(3) new one app
    by (elim exE conjE, intro exI conjI) assumption+
qed

theorem dh_import_exact_witness:
  "fst (dh_ImportSnapshot [1] 1 dh_demo_good dh_demo) = Inr \<lparr>ir_DatasetID = 1, ir_SnapshotID = 1, ir_ImportedAnnotations = 2\<rparr>"
  using dh_import_exact [OF dh_demo_target dh_demo_wf(1) dh_demo_fresh] dh_demo_good_ok by (auto simp: dh_demo_entries)

theorem dh_import_replay_witness:
  "\<exists>r'. dh_ImportSnapshot [1] 1 dh_demo_good dh_demo = (Inr \<lparr>ir_DatasetID = 1, ir_SnapshotID = 1, ir_ImportedAnnotations = 2\<rparr>, r') \<and>
     dh_ImportSnapshot [1] 1 (dh_demo_import ''yolo'' (rev (is_Entries dh_demo_good))) r' =
       (Inr \<lparr>ir_DatasetID = 1, ir_SnapshotID = 1, ir_ImportedAnnotations = 2\<rparr>, r')"
proof -
  let ?res = "\<lparr>ir_DatasetID = 1, ir_SnapshotID = 1, ir_ImportedAnnotations = 2\<rparr>"
  have "fst (dh_ImportSnapshot [1] 1 dh_demo_good dh_demo) = Inr ?res"
    using dh_import_fresh [OF dh_demo_target dh_demo_wf(1) dh_demo_fresh] dh_demo_good_ok
    by (auto simp: dh_acceptable_def dh_demo_entries)
  then obtain r' where run: "dh_ImportSnapshot [1] 1 dh_demo_good dh_demo = (Inr ?res, r')" by (metis prod.collapse)
  have "dh_ImportSnapshot [1] 1 (dh_demo_import ''yolo'' (rev (is_Entries dh_demo_good))) r' = (Inr ?res, r')"
    by (rule dh_import_replay [OF dh_demo_target dh_demo_wf(1) dh_demo_fresh run])
      (simp_all add: dh_demo_import_def dh_isSupportedImportFormat_def)
  with run show ?thesis by blast
qed

theorem dh_import_partial_blocks_witness:
  "\<exists>e r'. dh_ImportSnapshot [1] 1 dh_demo_bad dh_demo = (Inl e, r') \<and>
     dh_ImportSnapshot [1] 1 dh_demo_good r' = (Inl (DhConflict 1), r')"
proof -
  obtain e r' where run: "dh_ImportSnapshot [1] 1 dh_demo_bad dh_demo = (Inl e, r')" and ne: "r' \<noteq> dh_demo"
    using dh_demo_bad_run by blast
  have "dh_ImportSnapshot [1] 1 dh_demo_good r' = (Inl (DhConflict (sn_ID dh_demo_snapshot)), r')"
    by (rule dh_import_partial_blocks [OF dh_demo_target dh_demo_wf(2) dh_demo_fresh run ne])
      (simp_all add: dh_demo_entries dh_demo_good_def dh_demo_import_def dh_isSupportedImportFormat_def)
  with run show ?thesis by auto
qed

end
