(* ===== verification/Datahub_Handler_Claims.thy ===== *)
theory Datahub_Handler_Claims
  imports Datahub_Handler Datahub_Claims
begin

section \<open>Data hub handlers: project scopes, audit, unknown snapshots\<close>

text \<open>
  What a caller outside a dataset's project can see and do, what the audit log records, and how the handlers
  answer for a snapshot that does not exist.
\<close>

subsection \<open>Project scopes\<close>

definition dh_outside :: "auth_context \<Rightarrow> int \<Rightarrow> bool" where
  "dh_outside ctx p \<longleftrightarrow> (\<exists>i. ctx = Some i \<and> \<not> auth_AllowsProject i p)"


lemma dh_outside_requires: "dh_outside ctx p \<Longrightarrow> dh_requireProject ctx p = Inl (DhAccessForbidden p)"
  by (auto simp: dh_outside_def dh_requireProject_def auth_RequireProjectAccess_def)

lemma dh_inside_requires: "\<not> dh_outside ctx p \<Longrightarrow> dh_requireProject ctx p = Inr ()"
  by (auto simp: dh_outside_def dh_requireProject_def auth_RequireProjectAccess_def split: option.split)

lemma dh_stored_positive: "dh_inv r \<Longrightarrow> dr_datasets r did = Some d \<Longrightarrow> \<not> did \<le> 0"
  using dh_invD(1) [of r] unfolding dh_datasets_ok_def by force

lemma dh_detail_project:
  assumes "dh_inv r" "dr_datasets r did = Some d"
  obtains x where "dh_GetDatasetDetail did r = Inr x" "dd_ProjectID x = ds_ProjectID d"
proof -
  have "\<not> did \<le> 0" by (rule dh_stored_positive [OF assms(1,2)])
  with assms(2) that show thesis
    by (cases "slice_at (dr_snapshots r) (ds_ID d) = []") (auto simp: dh_GetDatasetDetail_def dh_repo_GetDatasetDetail_def Let_def)
qed



lemma dh_not_found_answer: "dh_writeServiceError (DhNotFound x i) = ReplyError 404 (HttpService (DhFailed (DhNotFound x i)))"
  by (simp add: dh_writeServiceError_def dh_error_is_def status_defs)










subsection \<open>The audit log\<close>

lemma dh_audited_Record:
  assumes "hh_audit h = Some evs"
  shows "dh_audited audit_Record ev x h = (Reply StatusOK x, h\<lparr>hh_audit := Some (evs @ [audit_normalizeEvent ev])\<rparr>)"
  using assms by (simp add: dh_audited_def dh_recordAudit_def audit_recordAudit_def audit_Record_def)

definition dh_dataset_event :: "dh_Dataset \<Rightarrow> audit_Event" where
  "dh_dataset_event d =
     \<lparr>ev_Actor = ''system'', ev_Action = ''dataset.create'', ev_ResourceType = ''dataset'', ev_ResourceID = show_int (ds_ID d),
      ev_Detail = Some [(''project_id'', GInt64 (ds_ProjectID d)), (''name'', GStr (ds_Name d)), (''bucket'', GStr (ds_Bucket d)),
        (''prefix'', GStr (ds_Prefix d))]\<rparr>"

lemma dh_dataset_event_normal:
  "audit_normalizeEvent
     \<lparr>ev_Actor = [], ev_Action = ''dataset.create'', ev_ResourceType = ''dataset'', ev_ResourceID = show_int (ds_ID d),
      ev_Detail = Some [(''project_id'', GInt64 (ds_ProjectID d)), (''name'', GStr (ds_Name d)), (''bucket'', GStr (ds_Bucket d)),
        (''prefix'', GStr (ds_Prefix d))]\<rparr> = dh_dataset_event d"
proof -
  have "trim_space ''dataset.create'' = ''dataset.create''" "trim_space ''dataset'' = ''dataset''" by code_simp+
  then show ?thesis by (simp add: audit_normalizeEvent_def dh_dataset_event_def audit_actor_blank)
qed

definition dh_dataset_accepted :: "auth_context \<Rightarrow> dh_CreateDatasetInput \<Rightarrow> bool" where
  "dh_dataset_accepted ctx inp \<longleftrightarrow>
     \<not> dh_outside ctx (cd_in_ProjectID inp) \<and> 0 < cd_in_ProjectID inp \<and> cd_in_Name inp \<noteq> [] \<and> cd_in_Bucket inp \<noteq> []"

lemma dh_accepted_create:
  assumes "dh_dataset_accepted ctx inp"
  shows "dh_requireProject ctx (cd_in_ProjectID inp) = Inr ()"
    "dh_CreateDataset inp r = (Inr (fst (dh_repo_CreateDataset inp r)), snd (dh_repo_CreateDataset inp r))"
  using assms dh_inside_requires by (simp_all add: dh_dataset_accepted_def dh_CreateDataset_def case_prod_beta)

text \<open>
  Creating a dataset with the recorder as audit log: the request is accepted exactly when the body decodes, the caller
  may use the project, and project, name and bucket are set. Then the dataset is stored, its number is answered
  and one event is appended, whose actor is "system" whoever the caller is. In every other case the answer is 403 for
  a foreign project and 400 otherwise, and neither the repository nor the log changes.
\<close>

theorem dh_create_dataset_audited:
  assumes "hh_audit h = Some evs"
  shows "case body of
       Body inp \<Rightarrow>
         if dh_dataset_accepted ctx inp
         then let (d, r) = dh_repo_CreateDataset inp (hh_repo h) in
              dh_HandleCreateDataset audit_Record ctx body h =
                (Reply 200 (ds_ID d), h\<lparr>hh_repo := r, hh_audit := Some (evs @ [dh_dataset_event d])\<rparr>)
         else reply_status (fst (dh_HandleCreateDataset audit_Record ctx body h)) =
                (if dh_outside ctx (cd_in_ProjectID inp) then 403 else 400) \<and>
              snd (dh_HandleCreateDataset audit_Record ctx body h) = h
     | _ \<Rightarrow> reply_status (fst (dh_HandleCreateDataset audit_Record ctx body h)) = 400 \<and>
           snd (dh_HandleCreateDataset audit_Record ctx body h) = h"
proof (cases body)
  case (Body inp)
  show ?thesis
  proof (cases "dh_dataset_accepted ctx inp")
    case True
    then show ?thesis using assms(1)
      by (simp add: Body dh_HandleCreateDataset_def decode_body_def dh_accepted_create dh_audited_Record dh_dataset_event_normal
          case_prod_beta StatusOK_def)
  next
    case no: False
    show ?thesis
    proof (cases "dh_outside ctx (cd_in_ProjectID inp)")
      case True
      then show ?thesis using no by (simp add: Body dh_HandleCreateDataset_def decode_body_def dh_outside_requires status_defs)
    next
      case False
      with no show ?thesis
        by (auto simp: Body dh_HandleCreateDataset_def decode_body_def dh_inside_requires status_defs dh_CreateDataset_def
            dh_dataset_accepted_def)
    qed
  qed
qed (simp_all add: dh_HandleCreateDataset_def decode_body_def status_defs)

text \<open>When the audit log fails instead, the answer is 500 although the dataset is stored.\<close>

lemma dh_create_dataset_unaudited:
  assumes "hh_audit h = Some l" and "\<And>ev. fst (lg ev l) = Some e" and a: "dh_dataset_accepted ctx inp"
  shows "reply_status (fst (dh_HandleCreateDataset lg ctx (Body inp) h)) = 500"
    and "hh_repo (snd (dh_HandleCreateDataset lg ctx (Body inp) h)) = snd (dh_repo_CreateDataset inp (hh_repo h))"
proof -
  have "lg ev l = (Some e, snd (lg ev l))" for ev using assms(2) [of ev] by (simp add: prod_eq_iff)
  then show "reply_status (fst (dh_HandleCreateDataset lg ctx (Body inp) h)) = 500"
    and "hh_repo (snd (dh_HandleCreateDataset lg ctx (Body inp) h)) = snd (dh_repo_CreateDataset inp (hh_repo h))"
    using assms(1) by (simp_all add: dh_HandleCreateDataset_def decode_body_def dh_accepted_create [OF a] dh_audited_def
        dh_recordAudit_def audit_recordAudit_def status_defs case_prod_beta assms(2))
qed

subsection \<open>Snapshots that do not exist\<close>

text \<open>
  For a number no snapshot has, the detail endpoint answers 404, but the import endpoint answers 400 whatever the body
  is, before the look-up that would answer 404, and the completion endpoint 400 for a well-formed import: the error of their
  look-up is not a typed one. Nothing is changed.
\<close>

theorem dh_unknown_snapshot:
  assumes "\<And>did s. s \<in> set (slice_at (dr_snapshots (hh_repo h)) did) \<Longrightarrow> sn_ID s \<noteq> sid"
    and "path_int64 rawID = Inr sid" and "0 < sid" and "hh_jobs h = Some j"
  shows "reply_status (dh_HandleGetSnapshotDetail sks ctx rawID (hh_repo h)) = 404 \<and>
     reply_status (fst (dh_HandleImportSnapshot lg create presign dks dks' ctx tr rawID body h)) = 400 \<and>
     snd (dh_HandleImportSnapshot lg create presign dks dks' ctx tr rawID body h) = h \<and>
     reply_status (fst (dh_HandleCompleteImportSnapshot dks rawID (Body req) h)) \<in> {400, 422} \<and>
     (rc_Format req = ''yolo'' \<and> rc_Entries req \<noteq> [] \<longrightarrow>
        reply_status (fst (dh_HandleCompleteImportSnapshot dks rawID (Body req) h)) = 400)"
proof -
  have path2: "(path_int64 rawID :: dh_fail + int) = Inr sid"
    using assms(2) by (auto simp: path_int64_def Let_def split: prod.splits if_splits)
  have none: "dh_findSnapshot ks sid (hh_repo h) = None" for ks
    using assms(1) by (auto simp: dh_findSnapshot_def find_None_iff)
  have miss: "dh_repo_GetSnapshot ks sid (hh_repo h) = Inl (DhMissing ''snapshot'' sid)" for ks
    by (simp add: dh_repo_GetSnapshot_def none)
  have detail: "reply_status (dh_HandleGetSnapshotDetail sks ctx rawID (hh_repo h)) = 404"
    using assms(3) by (simp add: dh_HandleGetSnapshotDetail_def path2 dh_GetSnapshotDetail_def dh_repo_GetSnapshotDetail_def none
        dh_not_found_answer)
  have "dh_HandleImportSnapshot lg create presign dks dks' ctx tr rawID body h =
      (ReplyError 400 (HttpService (DhFailed (DhMissing ''snapshot'' sid))), h)"
    by (simp add: dh_HandleImportSnapshot_def path2 assms(4) dh_authorizeSnapshotProject_def dh_GetSnapshot_def miss
        dh_writeProjectAccessError_def dh_writeServiceError_def dh_error_is_def status_defs)
  moreover have "reply_status (fst (dh_HandleCompleteImportSnapshot dks rawID (Body req) h)) \<in> {400, 422} \<and>
     (rc_Format req = ''yolo'' \<and> rc_Entries req \<noteq> [] \<longrightarrow>
        reply_status (fst (dh_HandleCompleteImportSnapshot dks rawID (Body req) h)) = 400)"
    by (simp add: dh_HandleCompleteImportSnapshot_def path2 decode_body_def dh_ImportSnapshot_def miss dh_writeImportError_def
        dh_error_is_def status_defs dh_isSupportedImportFormat_def)
  ultimately show ?thesis using detail by simp
qed

subsection \<open>Concrete requests\<close>

definition dh_demo_handler :: "(audit_Event list, unit) dh_Handler" where
  "dh_demo_handler = \<lparr>hh_repo = dh_demo, hh_audit = Some [], hh_jobs = Some ()\<rparr>"

definition dh_demo_stranger :: auth_context where
  "dh_demo_stranger = Some \<lparr>id_Actor = ''eve'', id_ProjectIDs = [2]\<rparr>"

lemma dh_demo_inv: "dh_inv dh_demo"
  unfolding dh_demo_def by (rule dh_after_inv)


lemma path_one: "path_int64 ''1'' = Inr 1" "path_int64 ''9'' = Inr 9"
proof -
  have "parse_int64 ''1'' = (1, True)" "parse_int64 ''9'' = (9, True)" by code_simp+
  then show "path_int64 ''1'' = Inr 1" "path_int64 ''9'' = Inr 9" by (simp_all add: path_int64_def)
qed


text \<open>A caller without scopes may open no dataset, but is listed those of project 1.\<close>

lemma dh_unscoped_listing:
  "dh_HandleListDatasets (\<lambda>_. [1]) (Some \<lparr>id_Actor = ''eve'', id_ProjectIDs = []\<rparr>) dh_demo = Reply 200 [dh_summary dh_demo dh_demo_dataset]"
  "dh_HandleGetDatasetDetail (Some \<lparr>id_Actor = ''eve'', id_ProjectIDs = []\<rparr>) ''1'' dh_demo =
     ReplyError 404 (HttpService (DhFailed (DhNotFound ''dataset'' 1)))"
proof -
  have out: "dh_outside (Some \<lparr>id_Actor = ''eve'', id_ProjectIDs = []\<rparr>) (ds_ProjectID dh_demo_dataset)"
    by (simp add: dh_outside_def auth_AllowsProject_def)
  obtain x where "dh_GetDatasetDetail 1 dh_demo = Inr x" "dd_ProjectID x = ds_ProjectID dh_demo_dataset"
    using dh_detail_project [OF dh_demo_inv, of 1 dh_demo_dataset] by (auto simp: dh_demo_fields)
  then show "dh_HandleGetDatasetDetail (Some \<lparr>id_Actor = ''eve'', id_ProjectIDs = []\<rparr>) ''1'' dh_demo =
      ReplyError 404 (HttpService (DhFailed (DhNotFound ''dataset'' 1)))"
    using dh_outside_requires [OF out] by (simp add: dh_HandleGetDatasetDetail_def path_one dh_not_found_answer)
  show "dh_HandleListDatasets (\<lambda>_. [1]) (Some \<lparr>id_Actor = ''eve'', id_ProjectIDs = []\<rparr>) dh_demo =
      Reply 200 [dh_summary dh_demo dh_demo_dataset]"
    by (simp add: dh_HandleListDatasets_def dh_browseProjectScopes_def dh_ListDatasets_def dh_repo_ListDatasets_def
        dh_demo_fields StatusOK_def)
qed

theorem dh_create_dataset_audited_witness:
  "reply_status (fst (dh_HandleCreateDataset audit_Record dh_demo_stranger
      (Body \<lparr>cd_in_ProjectID = 1, cd_in_Name = ''e'', cd_in_Bucket = ''b'', cd_in_Prefix = []\<rparr>) dh_demo_handler)) = 403 \<and>
   hh_audit (snd (dh_HandleCreateDataset audit_Record dh_demo_stranger
      (Body \<lparr>cd_in_ProjectID = 2, cd_in_Name = ''e'', cd_in_Bucket = ''b'', cd_in_Prefix = []\<rparr>) dh_demo_handler)) =
     Some [dh_dataset_event \<lparr>ds_ID = 2, ds_ProjectID = 2, ds_Name = ''e'', ds_Bucket = ''b'', ds_Prefix = []\<rparr>]"
proof -
  have a: "hh_audit dh_demo_handler = Some []" by (simp add: dh_demo_handler_def)
  have n: "dr_nextDataset dh_demo = 2" by (simp add: dh_demo_def dh_after_def dh_op_defs)
  have no: "\<not> dh_dataset_accepted dh_demo_stranger \<lparr>cd_in_ProjectID = 1, cd_in_Name = ''e'', cd_in_Bucket = ''b'', cd_in_Prefix = []\<rparr>"
    and out: "dh_outside dh_demo_stranger 1"
    and yes: "dh_dataset_accepted dh_demo_stranger \<lparr>cd_in_ProjectID = 2, cd_in_Name = ''e'', cd_in_Bucket = ''b'', cd_in_Prefix = []\<rparr>"
    by (simp_all add: dh_dataset_accepted_def dh_outside_def dh_demo_stranger_def auth_AllowsProject_def)
  show ?thesis
    using dh_create_dataset_audited [OF a, where ctx = dh_demo_stranger and
        body = "Body \<lparr>cd_in_ProjectID = 1, cd_in_Name = ''e'', cd_in_Bucket = ''b'', cd_in_Prefix = []\<rparr>"]
      dh_create_dataset_audited [OF a, where ctx = dh_demo_stranger and
        body = "Body \<lparr>cd_in_ProjectID = 2, cd_in_Name = ''e'', cd_in_Bucket = ''b'', cd_in_Prefix = []\<rparr>"]
    by (simp add: no yes out dh_repo_CreateDataset_def Let_def n dh_demo_handler_def)
qed

theorem dh_unknown_snapshot_witness:
  "reply_status (dh_HandleGetSnapshotDetail [1] None ''9'' dh_demo) = 404 \<and>
   reply_status (fst (dh_HandleCompleteImportSnapshot [1] ''9''
     (Body \<lparr>rc_Format = ''yolo'', rc_SourceURI = [], rc_Entries = [dh_demo_entry ''x.jpg'' ''car'']\<rparr>) dh_demo_handler)) = 400"
proof -
  have none: "s \<in> set (slice_at (dr_snapshots (hh_repo dh_demo_handler)) did) \<Longrightarrow> sn_ID s \<noteq> 9" for did s
    by (simp add: dh_demo_handler_def dh_demo_fields split: if_splits)
  have j: "hh_jobs dh_demo_handler = Some ()" and r: "hh_repo dh_demo_handler = dh_demo" by (simp_all add: dh_demo_handler_def)
  show ?thesis
    using dh_unknown_snapshot [OF none path_one(2) _ j, where sks = "[1]" and ctx = None and dks = "[1]" and
        req = "\<lparr>rc_Format = ''yolo'', rc_SourceURI = [], rc_Entries = [dh_demo_entry ''x.jpg'' ''car'']\<rparr>"]
    by (simp add: r)
qed

end
