(* ===== verification/Server.thy ===== *)
theory Server
  imports Http
begin

section \<open>The server: routes and their guards\<close>

text \<open>
  \<open>internal/server/http_server.go\<close> and the middlewares that \<open>cmd/api-server/main.go\<close> hands to it: the route groups,
  the route table, the guard around the mutating routes and the readiness probe. Matching a path with
  a pattern is chi's: a request carries the index of the route it matched. The answer says whether the request reached
  its handler, found none, or was refused by a guard.
\<close>

subsection \<open>The route groups\<close>

datatype srv_DataHubRoutes =
    DataHubCreateDataset
  | DataHubListDatasets
  | DataHubGetDatasetDetail
  | DataHubScanDataset
  | DataHubCreateSnapshot
  | DataHubListSnapshots
  | DataHubListItems
  | DataHubPresignObject
  | DataHubGetSnapshotDetail
  | DataHubImportSnapshot
  | DataHubCompleteImportSnapshot

datatype srv_JobRoutes =
    JobsCreateZeroShot
  | JobsCreateVideoExtract
  | JobsCreateCleaning
  | JobsGetJob
  | JobsListWorkers
  | JobsListEvents
  | JobsRegisterWorker
  | JobsReportHeartbeat
  | JobsReportProgress
  | JobsReportItemError
  | JobsReportTerminal

datatype srv_VersioningRoutes =
    VersioningDiffSnapshots

datatype srv_ReviewRoutes =
    ReviewListCandidates
  | ReviewAcceptCandidate
  | ReviewRejectCandidate

datatype srv_PublishRoutes =
    PublishListCandidates
  | PublishCreateBatch
  | PublishGetBatch
  | PublishReplaceBatchItems
  | PublishReviewApprove
  | PublishReviewReject
  | PublishReviewRework
  | PublishOwnerApprove
  | PublishOwnerReject
  | PublishOwnerRework
  | PublishAddBatchFeedback
  | PublishAddItemFeedback
  | PublishGetWorkspace
  | PublishGetRecord

datatype srv_ArtifactRoutes =
    ArtifactsCreatePackage
  | ArtifactsExportSnapshot
  | ArtifactsResolveArtifact
  | ArtifactsGetArtifact
  | ArtifactsDownloadArtifact
  | ArtifactsPresignArtifact
  | ArtifactsCompleteArtifact

datatype srv_TaskRoutes =
    TasksListTasks
  | TasksCreateTask
  | TasksGetTask
  | TasksTransitionTask

datatype srv_AnnotationRoutes =
    AnnotationsGetWorkspace
  | AnnotationsSaveDraft
  | AnnotationsSubmitWorkspace

datatype srv_OverviewRoutes =
    OverviewGetProjectOverview

datatype srv_endpoint =
    EpDataHub srv_DataHubRoutes
  | EpOverview srv_OverviewRoutes
  | EpTasks srv_TaskRoutes
  | EpAnnotations srv_AnnotationRoutes
  | EpJobs srv_JobRoutes
  | EpVersioning srv_VersioningRoutes
  | EpReview srv_ReviewRoutes
  | EpPublish srv_PublishRoutes
  | EpArtifacts srv_ArtifactRoutes

datatype srv_method = GET | POST | PUT

record srv_Route =
  rt_Method :: srv_method
  rt_Pattern :: string
  rt_Mutation :: bool
  rt_Endpoint :: srv_endpoint

definition srv_route :: "srv_method \<Rightarrow> string \<Rightarrow> bool \<Rightarrow> srv_endpoint \<Rightarrow> srv_Route" where
  "srv_route m p g e = \<lparr>rt_Method = m, rt_Pattern = p, rt_Mutation = g, rt_Endpoint = e\<rparr>"

subsection \<open>The table\<close>

text \<open>The flag says whether the route is registered through \<open>mutationHandler\<close>.\<close>

definition srv_v1_routes :: "srv_Route list" where
  "srv_v1_routes =
    [
     srv_route POST ''/v1/datasets'' True (EpDataHub DataHubCreateDataset),
     srv_route GET ''/v1/datasets'' False (EpDataHub DataHubListDatasets),
     srv_route GET ''/v1/datasets/{id}'' False (EpDataHub DataHubGetDatasetDetail),
     srv_route POST ''/v1/datasets/{id}/scan'' True (EpDataHub DataHubScanDataset),
     srv_route POST ''/v1/datasets/{id}/snapshots'' True (EpDataHub DataHubCreateSnapshot),
     srv_route GET ''/v1/datasets/{id}/snapshots'' False (EpDataHub DataHubListSnapshots),
     srv_route GET ''/v1/datasets/{id}/items'' False (EpDataHub DataHubListItems),
     srv_route POST ''/v1/objects/presign'' True (EpDataHub DataHubPresignObject),
     srv_route GET ''/v1/snapshots/{id}'' False (EpDataHub DataHubGetSnapshotDetail),
     srv_route POST ''/v1/snapshots/{id}/import'' True (EpDataHub DataHubImportSnapshot),
     srv_route GET ''/v1/projects/{id}/overview'' False (EpOverview OverviewGetProjectOverview),
     srv_route GET ''/v1/projects/{id}/tasks'' False (EpTasks TasksListTasks),
     srv_route POST ''/v1/projects/{id}/tasks'' True (EpTasks TasksCreateTask),
     srv_route GET ''/v1/tasks/{id}'' False (EpTasks TasksGetTask),
     srv_route POST ''/v1/tasks/{id}/transition'' True (EpTasks TasksTransitionTask),
     srv_route GET ''/v1/tasks/{id}/workspace'' False (EpAnnotations AnnotationsGetWorkspace),
     srv_route PUT ''/v1/tasks/{id}/workspace/draft'' True (EpAnnotations AnnotationsSaveDraft),
     srv_route POST ''/v1/tasks/{id}/workspace/submit'' True (EpAnnotations AnnotationsSubmitWorkspace),
     srv_route POST ''/v1/jobs/zero-shot'' True (EpJobs JobsCreateZeroShot),
     srv_route POST ''/v1/jobs/video-extract'' True (EpJobs JobsCreateVideoExtract),
     srv_route POST ''/v1/jobs/cleaning'' True (EpJobs JobsCreateCleaning),
     srv_route GET ''/v1/jobs/{job_id}'' False (EpJobs JobsGetJob),
     srv_route GET ''/v1/jobs/workers'' False (EpJobs JobsListWorkers),
     srv_route GET ''/v1/jobs/{job_id}/events'' False (EpJobs JobsListEvents),
     srv_route POST ''/v1/snapshots/diff'' True (EpVersioning VersioningDiffSnapshots),
     srv_route GET ''/v1/review/candidates'' False (EpReview ReviewListCandidates),
     srv_route POST ''/v1/review/candidates/{id}/accept'' True (EpReview ReviewAcceptCandidate),
     srv_route POST ''/v1/review/candidates/{id}/reject'' True (EpReview ReviewRejectCandidate),
     srv_route GET ''/v1/publish/candidates'' False (EpPublish PublishListCandidates),
     srv_route POST ''/v1/publish/batches'' True (EpPublish PublishCreateBatch),
     srv_route GET ''/v1/publish/batches/{id}'' False (EpPublish PublishGetBatch),
     srv_route POST ''/v1/publish/batches/{id}/items'' True (EpPublish PublishReplaceBatchItems),
     srv_route POST ''/v1/publish/batches/{id}/review-approve'' True (EpPublish PublishReviewApprove),
     srv_route POST ''/v1/publish/batches/{id}/review-reject'' True (EpPublish PublishReviewReject),
     srv_route POST ''/v1/publish/batches/{id}/review-rework'' True (EpPublish PublishReviewRework),
     srv_route POST ''/v1/publish/batches/{id}/owner-approve'' True (EpPublish PublishOwnerApprove),
     srv_route POST ''/v1/publish/batches/{id}/owner-reject'' True (EpPublish PublishOwnerReject),
     srv_route POST ''/v1/publish/batches/{id}/owner-rework'' True (EpPublish PublishOwnerRework),
     srv_route POST ''/v1/publish/batches/{id}/feedback'' True (EpPublish PublishAddBatchFeedback),
     srv_route POST ''/v1/publish/batches/{id}/items/{itemId}/feedback'' True (EpPublish PublishAddItemFeedback),
     srv_route GET ''/v1/publish/batches/{id}/workspace'' False (EpPublish PublishGetWorkspace),
     srv_route GET ''/v1/publish/records/{id}'' False (EpPublish PublishGetRecord),
     srv_route POST ''/v1/artifacts/packages'' True (EpArtifacts ArtifactsCreatePackage),
     srv_route POST ''/v1/snapshots/{id}/export'' True (EpArtifacts ArtifactsExportSnapshot),
     srv_route GET ''/v1/artifacts/resolve'' False (EpArtifacts ArtifactsResolveArtifact),
     srv_route GET ''/v1/artifacts/{id}'' False (EpArtifacts ArtifactsGetArtifact),
     srv_route GET ''/v1/artifacts/{id}/download'' False (EpArtifacts ArtifactsDownloadArtifact),
     srv_route POST ''/v1/artifacts/{id}/presign'' True (EpArtifacts ArtifactsPresignArtifact)]"

definition srv_internal_routes :: "srv_Route list" where
  "srv_internal_routes =
    [
     srv_route POST ''/internal/jobs/workers/register'' False (EpJobs JobsRegisterWorker),
     srv_route POST ''/internal/jobs/{job_id}/heartbeat'' False (EpJobs JobsReportHeartbeat),
     srv_route POST ''/internal/jobs/{job_id}/progress'' False (EpJobs JobsReportProgress),
     srv_route POST ''/internal/jobs/{job_id}/events'' False (EpJobs JobsReportItemError),
     srv_route POST ''/internal/jobs/{job_id}/complete'' False (EpJobs JobsReportTerminal),
     srv_route POST ''/internal/snapshots/{id}/import'' False (EpDataHub DataHubCompleteImportSnapshot),
     srv_route POST ''/internal/artifacts/{id}/complete'' False (EpArtifacts ArtifactsCompleteArtifact)]"

definition srv_routes :: "srv_Route list" where
  "srv_routes = srv_v1_routes @ srv_internal_routes"

subsection \<open>Serving\<close>

text \<open>
  The modules: which handlers are set, the mutation middleware (bearer token and limit per minute) if any, and the
  readiness checks, each with the error it returns; a check may be nil.
\<close>

record srv_Modules =
  md_Implemented :: "srv_endpoint \<Rightarrow> bool"
  md_Mutation :: "(string \<times> int) option"
  md_ReadyChecks :: "string option option list"

datatype srv_answer =
    SrvCall srv_endpoint
  | SrvNotImplemented
  | SrvRefused auth_response
  | SrvNoRoute

text \<open>
  \<open>mutationHandler\<close> applies the middleware when the route is registered, and the middleware makes
  its limiter then: every mutating route has a limiter of its own.
\<close>

type_synonym srv_limiters = "nat \<Rightarrow> auth_limiter"

definition srv_NewHTTPServerWithModules :: "srv_Modules \<Rightarrow> srv_limiters" where
  "srv_NewHTTPServerWithModules m =
     (\<lambda>i. auth_newFixedWindowLimiter (case md_Mutation m of None \<Rightarrow> 0 | Some (token, limit) \<Rightarrow> limit) minute)"

definition srv_handlerOrNotImplemented :: "srv_Modules \<Rightarrow> srv_endpoint \<Rightarrow> srv_answer" where
  "srv_handlerOrNotImplemented m e = (if md_Implemented m e then SrvCall e else SrvNotImplemented)"

definition srv_mutationHandler ::
  "srv_Modules \<Rightarrow> time \<Rightarrow> auth_Request \<Rightarrow> srv_endpoint \<Rightarrow> auth_limiter \<Rightarrow> srv_answer \<times> auth_limiter" where
  "srv_mutationHandler m now rq e l =
     (case md_Mutation m of
        None \<Rightarrow> (srv_handlerOrNotImplemented m e, l)
      | Some (token, limit) \<Rightarrow>
          (case auth_MutationMiddleware token now rq l of
             (AuthNext, l') \<Rightarrow> (srv_handlerOrNotImplemented m e, l')
           | (refused, l') \<Rightarrow> (SrvRefused refused, l')))"

definition srv_serve :: "srv_Modules \<Rightarrow> time \<Rightarrow> auth_Request \<Rightarrow> nat \<Rightarrow> srv_limiters \<Rightarrow> srv_answer \<times> srv_limiters" where
  "srv_serve m now rq i s =
     (if length srv_routes \<le> i then (SrvNoRoute, s)
      else
        let rt = srv_routes ! i in
        if rt_Mutation rt
        then (let (a, l) = srv_mutationHandler m now rq (rt_Endpoint rt) (s i) in (a, s(i := l)))
        else (srv_handlerOrNotImplemented m (rt_Endpoint rt), s))"

fun srv_run :: "srv_Modules \<Rightarrow> (time \<times> auth_Request \<times> nat) list \<Rightarrow> srv_limiters \<Rightarrow> srv_answer list \<times> srv_limiters" where
  "srv_run m [] s = ([], s)"
| "srv_run m ((now, rq, i) # qs) s =
     (let (a, s') = srv_serve m now rq i s; (as, s'') = srv_run m qs s' in (a # as, s''))"

subsection \<open>Readiness\<close>

fun srv_readyz :: "string option option list \<Rightarrow> int \<times> string" where
  "srv_readyz [] = (StatusOK, ''ready'')"
| "srv_readyz (None # cs) = srv_readyz cs"
| "srv_readyz (Some None # cs) = srv_readyz cs"
| "srv_readyz (Some (Some e) # cs) = (StatusServiceUnavailable, e)"

end
