(* ===== verification/Server_Claims.thy ===== *)
theory Server_Claims
  imports Server Auth_Facts
begin

section \<open>The server: properties\<close>

text \<open>Which routes are guarded, what an unauthenticated request can reach, and how far the rate limit reaches.\<close>

subsection \<open>The table\<close>

definition srv_public :: "srv_Route \<Rightarrow> bool" where
  "srv_public rt \<longleftrightarrow> take 4 (rt_Pattern rt) = ''/v1/''"

lemma srv_routes_table:
  "length srv_routes = 55"
  "distinct (map (\<lambda>rt. (rt_Method rt, rt_Pattern rt)) srv_routes)" "distinct (map rt_Endpoint srv_routes)"
  "list_all (\<lambda>rt. rt_Mutation rt \<longleftrightarrow> rt_Method rt \<noteq> GET \<and> srv_public rt) srv_routes"
  by code_simp+

lemma srv_all_routed: "e \<in> set (map rt_Endpoint srv_routes)"
  by (cases e; rename_tac r; case_tac r)
    (simp_all add: srv_routes_def srv_v1_routes_def srv_internal_routes_def srv_route_def)

lemma srv_mutation_iff:
  "i < length srv_routes \<Longrightarrow> rt_Mutation (srv_routes ! i) \<longleftrightarrow> rt_Method (srv_routes ! i) \<noteq> GET \<and> srv_public (srv_routes ! i)"
  using srv_routes_table(4) by (simp add: list_all_length)

text \<open>
  C39. Every handler of the route groups is registered, under one method and pattern, and no two routes collide. With a
  bearer token configured, a request without it reaches the handlers of the read routes and of all internal routes,
  writes included; on every other route it gets 401, the handler does not run and the rate limiters do not count it.
\<close>

theorem srv_guards:
  assumes "md_Mutation m = Some (token, limit)" and "trim_space token \<noteq> []"
    and "\<not> auth_matchesBearerToken (rq_Authorization rq) (trim_space token)" and "i < length srv_routes"
  shows "distinct (map (\<lambda>rt. (rt_Method rt, rt_Pattern rt)) srv_routes) \<and>
     distinct (map rt_Endpoint srv_routes) \<and> set (map rt_Endpoint srv_routes) = UNIV \<and>
     srv_serve m now rq i s =
       (if rt_Method (srv_routes ! i) = GET \<or> \<not> srv_public (srv_routes ! i)
        then (srv_handlerOrNotImplemented m (rt_Endpoint (srv_routes ! i)), s)
        else (SrvRefused AuthUnauthorized, s))"
proof -
  have "set (map rt_Endpoint srv_routes) = UNIV" using srv_all_routed by blast
  moreover have "srv_mutationHandler m now rq e l = (SrvRefused AuthUnauthorized, l)" for e l
    using assms(1-3) by (simp add: srv_mutationHandler_def auth_MutationMiddleware_def auth_StaticBearerMiddleware_def)
  ultimately show ?thesis
    using assms(4) srv_routes_table(2,3) srv_mutation_iff [OF assms(4)] by (auto simp: srv_serve_def Let_def not_le)
qed

subsection \<open>The reach of the rate limit\<close>

definition srv_admitted :: "srv_answer \<Rightarrow> bool" where
  "srv_admitted a \<longleftrightarrow> (\<forall>x. a \<noteq> SrvRefused x)"

definition srv_mutating :: "nat list" where
  "srv_mutating = filter (\<lambda>i. rt_Mutation (srv_routes ! i)) [0..<length srv_routes]"

lemma srv_run_append:
  "srv_run m (xs @ ys) s =
     (fst (srv_run m xs s) @ fst (srv_run m ys (snd (srv_run m xs s))), snd (srv_run m ys (snd (srv_run m xs s))))"
  by (induction xs arbitrary: s) (auto simp: case_prod_beta Let_def)

lemma srv_run_Cons:
  "srv_run m ((now, rq, i) # qs) s =
     (fst (srv_serve m now rq i s) # fst (srv_run m qs (snd (srv_serve m now rq i s))),
      snd (srv_run m qs (snd (srv_serve m now rq i s))))"
  by (simp add: case_prod_beta Let_def)

text \<open>A request that passes the token check, and what its limiter says.\<close>

definition srv_passes :: "string \<Rightarrow> auth_Request \<Rightarrow> bool" where
  "srv_passes token rq \<longleftrightarrow> trim_space token = [] \<or> auth_matchesBearerToken (rq_Authorization rq) (trim_space token)"

lemma srv_serve_limited:
  assumes "md_Mutation m = Some (token, limit)" and "srv_passes token rq" and "i \<in> set srv_mutating"
    and "lm_limit (s i) = L" "0 < L" "lm_window (s i) = minute"
  shows "srv_serve m now rq i s =
     (if fst (fst (auth_allow now (auth_rateLimitKey rq) (s i)))
      then srv_handlerOrNotImplemented m (rt_Endpoint (srv_routes ! i))
      else SrvRefused (AuthTooManyRequests (auth_retrySeconds (snd (fst (auth_allow now (auth_rateLimitKey rq) (s i)))))),
      s(i := snd (auth_allow now (auth_rateLimitKey rq) (s i))))"
proof -
  have "auth_StaticBearerMiddleware token rq = AuthNext"
    using assms(2) by (auto simp: srv_passes_def auth_StaticBearerMiddleware_def Let_def)
  moreover have "\<not> minute \<le> 0" by (simp add: minute_def second_def)
  ultimately show ?thesis using assms
    by (cases "auth_allow now (auth_rateLimitKey rq) (s i)")
      (auto simp: srv_serve_def srv_mutating_def srv_mutationHandler_def auth_MutationMiddleware_def
        auth_FixedWindowRateLimitMiddleware_def Let_def not_le split: prod.splits bool.splits)
qed

definition srv_window :: "auth_limiter \<Rightarrow> int \<Rightarrow> string \<Rightarrow> time \<Rightarrow> int \<Rightarrow> bool" where
  "srv_window l L key now n \<longleftrightarrow>
     lm_limit l = L \<and> lm_window l = minute \<and>
     (if n = 0 then lm_buckets l key = None else lm_buckets l key = Some \<lparr>bk_windowStart = now, bk_count = n\<rparr>)"

lemma srv_window_step:
  assumes "srv_window l L key now n" and "0 \<le> n" "n < L"
  shows "fst (fst (auth_allow now key l))" "srv_window (snd (auth_allow now key l)) L key now (n + 1)"
  using assms by (auto simp: srv_window_def auth_allow_def minute_def second_def Let_def split: if_splits)

lemma srv_window_full:
  assumes "srv_window l L key now L" and "0 < L" and "now \<le> t" "t < now + minute"
  shows "\<not> fst (fst (auth_allow t key l))"
  using assms by (simp add: srv_window_def auth_allow_def Let_def minute_def second_def)

lemma srv_run_route:
  assumes "md_Mutation m = Some (token, limit)" and "srv_passes token rq" and i: "i \<in> set srv_mutating"
    and "srv_window (s i) L (auth_rateLimitKey rq) now n" and "0 \<le> n" "n + int k \<le> L" "0 < L"
  shows "list_all srv_admitted (fst (srv_run m (replicate k (now, rq, i)) s)) \<and>
     length (fst (srv_run m (replicate k (now, rq, i)) s)) = k \<and>
     (\<forall>j. j \<noteq> i \<longrightarrow> snd (srv_run m (replicate k (now, rq, i)) s) j = s j) \<and>
     srv_window (snd (srv_run m (replicate k (now, rq, i)) s) i) L (auth_rateLimitKey rq) now (n + int k)"
  using assms(4-7)
proof (induction k arbitrary: s n)
  case 0
  then show ?case by simp
next
  case (Suc k)
  have w: "lm_limit (s i) = L" "lm_window (s i) = minute" using Suc.prems(1) by (simp_all add: srv_window_def)
  define s' where "s' = s(i := snd (auth_allow now (auth_rateLimitKey rq) (s i)))"
  have n: "n < L" using Suc.prems(3) by simp
  note step = srv_window_step [OF Suc.prems(1,2) n]
  have serve: "srv_serve m now rq i s = (srv_handlerOrNotImplemented m (rt_Endpoint (srv_routes ! i)), s')"
    using srv_serve_limited [where s = s, OF assms(1,2) i w(1) Suc.prems(4) w(2)] step(1) by (simp add: s'_def)
  have other: "\<forall>j. j \<noteq> i \<longrightarrow> s' j = s j" and here: "srv_window (s' i) L (auth_rateLimitKey rq) now (n + 1)"
    using step(2) by (simp_all add: s'_def)
  have "0 \<le> n + 1" "n + 1 + int k \<le> L" using Suc.prems(2,3) by simp_all
  note IH = Suc.IH [of s' "n + 1", OF here this Suc.prems(4)]
  have "srv_admitted (srv_handlerOrNotImplemented m (rt_Endpoint (srv_routes ! i)))"
    by (simp add: srv_admitted_def srv_handlerOrNotImplemented_def)
  moreover have "n + int (Suc k) = n + 1 + int k" by simp
  ultimately show ?case unfolding replicate_Suc srv_run_Cons serve fst_conv snd_conv using IH other
    by (simp only: list.pred_inject list.size fst_conv snd_conv) simp
qed

lemma srv_run_routes:
  fixes now :: time
  assumes "md_Mutation m = Some (token, limit)" and "srv_passes token rq" and "0 < L"
    and "distinct is" "set is \<subseteq> set srv_mutating" and "\<forall>i\<in>set is. srv_window (s i) (int L) (auth_rateLimitKey rq) now 0"
  defines "burst \<equiv> concat (map (\<lambda>i. replicate L (now, rq, i)) is)"
  shows "list_all srv_admitted (fst (srv_run m burst s)) \<and> length (fst (srv_run m burst s)) = L * length is \<and>
     (\<forall>j. j \<notin> set is \<longrightarrow> snd (srv_run m burst s) j = s j) \<and>
     (\<forall>i\<in>set is. srv_window (snd (srv_run m burst s) i) (int L) (auth_rateLimitKey rq) now (int L))"
  using assms(4-6) unfolding burst_def
proof (induction "is" arbitrary: s)
  case Nil
  then show ?case by simp
next
  case (Cons i "is")
  let ?one = "replicate L (now, rq, i)" and ?rest = "concat (map (\<lambda>i. replicate L (now, rq, i)) is)"
  let ?s = "snd (srv_run m ?one s)"
  have one: "list_all srv_admitted (fst (srv_run m ?one s))" "length (fst (srv_run m ?one s)) = L"
    "\<forall>j. j \<noteq> i \<longrightarrow> ?s j = s j" "srv_window (?s i) (int L) (auth_rateLimitKey rq) now (int L)"
    using srv_run_route [OF assms(1,2), of i s "int L" now 0 L] Cons.prems assms(3) by auto
  have "\<forall>j\<in>set is. srv_window (?s j) (int L) (auth_rateLimitKey rq) now 0" using one(3) Cons.prems(1,3) by auto
  from Cons.IH [of ?s, OF _ _ this] Cons.prems(1,2)
  have rest: "list_all srv_admitted (fst (srv_run m ?rest ?s))" "length (fst (srv_run m ?rest ?s)) = L * length is"
    "\<forall>j. j \<notin> set is \<longrightarrow> snd (srv_run m ?rest ?s) j = ?s j"
    "\<forall>j\<in>set is. srv_window (snd (srv_run m ?rest ?s) j) (int L) (auth_rateLimitKey rq) now (int L)" by simp_all
  have "srv_window (snd (srv_run m ?rest ?s) i) (int L) (auth_rateLimitKey rq) now (int L)"
    using rest(3) Cons.prems(1) one(4) by simp
  then show ?case using one rest by (simp add: srv_run_append)
qed

lemma srv_mutating_count: "length srv_mutating = 28" "distinct srv_mutating"
  by code_simp+

text \<open>
  The limit per minute of a client is a limit per route: on a fresh server one client can have the limit admitted on
  each of the mutating routes at one and the same instant, and only then is every further mutation within
  the minute refused with 429.
\<close>

theorem srv_limit_per_route:
  fixes now :: time
  assumes "md_Mutation m = Some (token, int L)" and "0 < L" and "srv_passes token rq"
  defines "burst \<equiv> concat (map (\<lambda>i. replicate L (now, rq, i)) srv_mutating)"
    and "s \<equiv> srv_NewHTTPServerWithModules m"
  shows "list_all srv_admitted (fst (srv_run m burst s)) \<and> length (fst (srv_run m burst s)) = L * 28 \<and>
     (\<forall>i t. i \<in> set srv_mutating \<and> now \<le> t \<and> t < now + minute \<longrightarrow>
        (\<exists>wait. fst (srv_serve m t rq i (snd (srv_run m burst s))) = SrvRefused (AuthTooManyRequests wait)))"
proof -
  have fresh: "\<forall>i\<in>set srv_mutating. srv_window (s i) (int L) (auth_rateLimitKey rq) now 0"
    by (simp add: s_def srv_NewHTTPServerWithModules_def assms(1) srv_window_def auth_newFixedWindowLimiter_def)
  note run = srv_run_routes [OF assms(1,3,2) srv_mutating_count(2) subset_refl fresh, folded burst_def]
  have "\<exists>wait. fst (srv_serve m t rq i (snd (srv_run m burst s))) = SrvRefused (AuthTooManyRequests wait)"
    if "i \<in> set srv_mutating" "now \<le> t" "t < now + minute" for i t
  proof -
    let ?s = "snd (srv_run m burst s)"
    have w: "srv_window (?s i) (int L) (auth_rateLimitKey rq) now (int L)" using run that(1) by blast
    then have "lm_limit (?s i) = int L" "lm_window (?s i) = minute" by (simp_all add: srv_window_def)
    moreover have "\<not> fst (fst (auth_allow t (auth_rateLimitKey rq) (?s i)))"
      using srv_window_full [OF w _ that(2,3)] assms(2) by simp
    ultimately show ?thesis using srv_serve_limited [OF assms(1,3) that(1)] assms(2) by simp
  qed
  then show ?thesis using run srv_mutating_count(1) by auto
qed

subsection \<open>Concrete requests\<close>

definition srv_demo :: srv_Modules where
  "srv_demo = \<lparr>md_Implemented = (\<lambda>e. True), md_Mutation = Some (''tok'', 60), md_ReadyChecks = []\<rparr>"

theorem srv_guards_witness:
  "fst (srv_serve srv_demo 0 (auth_sample\<lparr>rq_Authorization := []\<rparr>) 0 (srv_NewHTTPServerWithModules srv_demo)) = SrvRefused AuthUnauthorized \<and>
   fst (srv_serve srv_demo 0 (auth_sample\<lparr>rq_Authorization := []\<rparr>) 54 (srv_NewHTTPServerWithModules srv_demo)) =
     SrvCall (EpArtifacts ArtifactsCompleteArtifact)"
proof -
  have m: "md_Mutation srv_demo = Some (''tok'', 60)" by (simp add: srv_demo_def)
  have t: "trim_space ''tok'' \<noteq> []" by code_simp
  have r: "\<not> auth_matchesBearerToken (rq_Authorization (auth_sample\<lparr>rq_Authorization := []\<rparr>)) (trim_space ''tok'')" by code_simp
  have i: "0 < length srv_routes" "54 < length srv_routes" by code_simp+
  have p: "rt_Method (srv_routes ! 0) \<noteq> GET" "srv_public (srv_routes ! 0)" "\<not> srv_public (srv_routes ! 54)"
    "rt_Endpoint (srv_routes ! 54) = EpArtifacts ArtifactsCompleteArtifact" by code_simp+
  show ?thesis using srv_guards [OF m t r i(1)] srv_guards [OF m t r i(2)] p
    by (simp add: srv_handlerOrNotImplemented_def srv_demo_def)
qed

theorem srv_limit_per_route_witness:
  "length (fst (srv_run srv_demo (concat (map (\<lambda>i. replicate 60 (7, auth_sample, i)) srv_mutating)) (srv_NewHTTPServerWithModules srv_demo))) =
     60 * 28 \<and>
   list_all srv_admitted
     (fst (srv_run srv_demo (concat (map (\<lambda>i. replicate 60 (7, auth_sample, i)) srv_mutating)) (srv_NewHTTPServerWithModules srv_demo)))"
proof -
  have m: "md_Mutation srv_demo = Some (''tok'', int 60)" by (simp add: srv_demo_def)
  have r: "srv_passes ''tok'' auth_sample" by code_simp
  show ?thesis using srv_limit_per_route [OF m _ r, of 7] by simp
qed

end
