(* ===== verification/Go_Path.thy ===== *)
theory Go_Path
  imports Go_Text
begin

section \<open>Slash-separated paths\<close>

text \<open>
  \<open>path\<close> and, on Unix, \<open>path/filepath\<close> of Go's standard library: \<open>Clean\<close>, \<open>Join\<close>, \<open>Base\<close>, \<open>Ext\<close>, and
  \<open>strings.HasPrefix\<close>, \<open>strings.TrimPrefix\<close>, \<open>strings.TrimSuffix\<close>. A cleaned path is given by its
  elements, kept in reverse while they are read.
\<close>

definition has_prefix :: "string \<Rightarrow> string \<Rightarrow> bool" where
  "has_prefix s p \<longleftrightarrow> take (length p) s = p"

definition trim_prefix :: "string \<Rightarrow> string \<Rightarrow> string" where
  "trim_prefix s p = (if has_prefix s p then drop (length p) s else s)"

definition trim_suffix :: "string \<Rightarrow> string \<Rightarrow> string" where
  "trim_suffix s p = (if has_prefix (rev s) (rev p) then take (length s - length p) s else s)"

abbreviation slash :: char where "slash \<equiv> CHR ''/''"

definition is_abs :: "string \<Rightarrow> bool" where
  "is_abs p \<longleftrightarrow> p \<noteq> [] \<and> hd p = slash"

definition clean_step :: "bool \<Rightarrow> string list \<Rightarrow> string \<Rightarrow> string list" where
  "clean_step rooted stack c =
     (if c = [] \<or> c = ''.'' then stack
      else if c = ''..''
      then (case stack of
              [] \<Rightarrow> if rooted then [] else [''..'']
            | d # ds \<Rightarrow> if d = ''..'' then ''..'' # stack else ds)
      else c # stack)"

definition path_elements :: "string \<Rightarrow> string list" where
  "path_elements p = rev (foldl (clean_step (is_abs p)) [] (split_on slash p))"

definition path_clean :: "string \<Rightarrow> string" where
  "path_clean p =
     (if is_abs p then slash # join_with [slash] (path_elements p)
      else if path_elements p = [] then ''.''
      else join_with [slash] (path_elements p))"

definition path_join :: "string list \<Rightarrow> string" where
  "path_join xs =
     (let ys = dropWhile (\<lambda>x. x = []) xs in if ys = [] then [] else path_clean (join_with [slash] ys))"

definition path_base :: "string \<Rightarrow> string" where
  "path_base p =
     (if p = [] then ''.''
      else let q = rev (dropWhile (\<lambda>c. c = slash) (rev p)); b = last (split_on slash q)
           in if b = [] then ''/'' else b)"

definition path_ext :: "string \<Rightarrow> string" where
  "path_ext p =
     (let b = last (split_on slash p); n = length (takeWhile (\<lambda>c. c \<noteq> CHR ''.'') (rev b))
      in if CHR ''.'' \<in> set b then drop (length b - Suc n) b else [])"

subsection \<open>Plain elements\<close>

definition plain :: "string \<Rightarrow> bool" where
  "plain c \<longleftrightarrow> c \<noteq> [] \<and> c \<noteq> ''.'' \<and> c \<noteq> ''..'' \<and> slash \<notin> set c"

lemma clean_step_plain: "plain c \<Longrightarrow> clean_step rooted stack c = c # stack"
  by (simp add: clean_step_def plain_def)

lemma clean_plain: "list_all plain cs \<Longrightarrow> foldl (clean_step rooted) stack cs = rev cs @ stack"
  by (induction cs arbitrary: stack) (simp_all add: clean_step_plain)

text \<open>What the loop can produce: plain elements, behind at most some leading parents of a relative path.\<close>

definition clean_shape :: "bool \<Rightarrow> string list \<Rightarrow> bool" where
  "clean_shape rooted stack \<longleftrightarrow>
     (\<exists>us vs. stack = us @ vs \<and> list_all plain us \<and> list_all (\<lambda>c. c = ''..'') vs \<and> (rooted \<longrightarrow> vs = []))"

lemma clean_shape_step:
  assumes "clean_shape rooted stack" and "slash \<notin> set c"
  shows "clean_shape rooted (clean_step rooted stack c)"
proof -
  obtain us vs where st: "stack = us @ vs" "list_all plain us" "list_all (\<lambda>c. c = ''..'') vs" "rooted \<longrightarrow> vs = []"
    using assms(1) by (auto simp: clean_shape_def)
  consider "c = [] \<or> c = ''.''" | "c = ''..''" "us = []" | u us' where "c = ''..''" "us = u # us'" | "plain c"
    using assms(2) by (cases us) (auto simp: plain_def)
  then show ?thesis
  proof cases
    case 1
    then show ?thesis using assms(1) by (auto simp: clean_step_def)
  next
    case 2
    have "clean_step rooted stack c = (if rooted then [] else ''..'' # vs)"
      using 2 st by (cases vs) (auto simp: clean_step_def)
    then show ?thesis using st(3) unfolding clean_shape_def
      by (intro exI [of _ "[]"] exI [of _ "if rooted then [] else ''..'' # vs"]) simp
  next
    case (3 u us')
    then have "u \<noteq> ''..''" using st(2) by (simp add: plain_def)
    with 3 st have "clean_step rooted stack c = us' @ vs" by (simp add: clean_step_def)
    with 3 st show ?thesis unfolding clean_shape_def by (intro exI [of _ us'] exI [of _ vs]) simp
  next
    case 4
    with st show ?thesis unfolding clean_shape_def
      by (intro exI [of _ "c # us"] exI [of _ vs]) (simp add: clean_step_plain)
  qed
qed

lemma clean_shape_foldl:
  "clean_shape rooted stack \<Longrightarrow> (\<And>c. c \<in> set cs \<Longrightarrow> slash \<notin> set c) \<Longrightarrow> clean_shape rooted (foldl (clean_step rooted) stack cs)"
  by (induction cs arbitrary: stack) (simp_all add: clean_shape_step)

lemma path_elements_shape:
  obtains vs us where "path_elements p = vs @ us" "list_all plain us" "list_all (\<lambda>c. c = ''..'') vs" "is_abs p \<Longrightarrow> vs = []"
proof -
  have "clean_shape (is_abs p) (foldl (clean_step (is_abs p)) [] (split_on slash p))"
    by (rule clean_shape_foldl) (auto simp: clean_shape_def dest: split_on_parts)
  then obtain us vs where "foldl (clean_step (is_abs p)) [] (split_on slash p) = us @ vs" "list_all plain us"
    "list_all (\<lambda>c. c = ''..'') vs" "is_abs p \<longrightarrow> vs = []" by (auto simp: clean_shape_def)
  then show thesis by (intro that [of "rev vs" "rev us"]) (simp_all add: path_elements_def)
qed

lemma split_join_plain: "list_all plain cs \<Longrightarrow> cs \<noteq> [] \<Longrightarrow> split_on slash (join_with [slash] cs) = cs"
  by (rule split_join) (auto simp: plain_def list_all_iff)

lemma join_plain_head: "list_all plain cs \<Longrightarrow> \<not> is_abs (join_with [slash] cs)"
proof (cases cs)
  case (Cons c ds)
  assume "list_all plain cs"
  with Cons have "c \<noteq> []" "hd c \<noteq> slash" by (auto simp: plain_def dest: hd_in_set)
  then show ?thesis by (cases ds) (auto simp: Cons is_abs_def hd_append)
qed (simp add: is_abs_def)

text \<open>Joining plain elements below a cleaned directory appends them to its elements.\<close>

lemma split_on_append: "split_on sep (a @ sep # b) = split_on sep a @ split_on sep b"
  by (induction a) (auto simp: hd_append tl_append split: list.split)

lemma join_with_Cons: "ds \<noteq> [] \<Longrightarrow> join_with [slash] (d # ds) = d @ slash # join_with [slash] ds"
  by (cases ds) simp_all

lemma path_join_elements:
  assumes "dir \<noteq> []" and "list_all plain cs" "cs \<noteq> []"
  shows "path_elements (dir @ slash # join_with [slash] cs) = path_elements dir @ cs"
    and "is_abs (dir @ slash # join_with [slash] cs) = is_abs dir"
proof -
  show abs: "is_abs (dir @ slash # join_with [slash] cs) = is_abs dir" using assms(1) by (simp add: is_abs_def)
  show "path_elements (dir @ slash # join_with [slash] cs) = path_elements dir @ cs"
    by (simp add: path_elements_def abs split_on_append split_join_plain [OF assms(2,3)] clean_plain [OF assms(2)])
qed

lemma path_clean_relative:
  assumes "list_all plain cs" "cs \<noteq> []"
  shows "path_clean (join_with [slash] cs) = join_with [slash] cs" "path_elements (join_with [slash] cs) = cs"
  using assms join_plain_head [OF assms(1)]
  by (simp_all add: path_clean_def path_elements_def split_join_plain clean_plain)

text \<open>The elements of a cleaned path are those of the path.\<close>

lemma path_join_two:
  assumes "dir \<noteq> []" "list_all plain cs" "cs \<noteq> []"
  shows "path_join [dir, join_with [slash] cs] = path_clean (dir @ slash # join_with [slash] cs)"
  using assms by (simp add: path_join_def)

lemma plain_join_nonempty: "list_all plain cs \<Longrightarrow> cs \<noteq> [] \<Longrightarrow> join_with [slash] cs \<noteq> []"
  by (cases cs; cases "tl cs") (auto simp: plain_def neq_Nil_conv)

subsection \<open>Cleaned paths\<close>

text \<open>The text of a cleaned path, given whether it is absolute and its elements.\<close>

definition path_text :: "bool \<Rightarrow> string list \<Rightarrow> string" where
  "path_text rooted es = (if rooted then slash # join_with [slash] es else if es = [] then ''.'' else join_with [slash] es)"

lemma path_clean_text: "path_clean p = path_text (is_abs p) (path_elements p)"
  by (simp add: path_clean_def path_text_def)

lemma clean_step_parent: "list_all (\<lambda>c. c = ''..'') st \<Longrightarrow> clean_step False st ''..'' = ''..'' # st"
  by (cases st) (simp_all add: clean_step_def)

lemma clean_parents:
  assumes "list_all (\<lambda>c. c = ''..'') vs" "list_all (\<lambda>c. c = ''..'') st"
  shows "foldl (clean_step False) st vs = rev vs @ st"
  using assms
proof (induction vs arbitrary: st)
  case (Cons v vs)
  have v: "v = ''..''" using Cons.prems(1) by simp
  have "foldl (clean_step False) (clean_step False st v) vs = rev vs @ clean_step False st v"
    using Cons.prems by (intro Cons.IH) (simp_all add: v clean_step_parent)
  then show ?case using clean_step_parent [OF Cons.prems(2)] by (simp add: v)
qed simp

text \<open>The elements a cleaned path can have.\<close>

definition clean_elements :: "bool \<Rightarrow> string list \<Rightarrow> bool" where
  "clean_elements rooted es \<longleftrightarrow> (\<exists>vs us. es = vs @ us \<and> list_all plain us \<and> list_all (\<lambda>c. c = ''..'') vs \<and> (rooted \<longrightarrow> vs = []))"

lemma clean_elements_path: "clean_elements (is_abs p) (path_elements p)"
  by (rule path_elements_shape [of p]) (auto simp: clean_elements_def)

lemma clean_elements_parts:
  assumes "clean_elements rooted es" "c \<in> set es"
  shows "c \<noteq> []" "slash \<notin> set c"
proof -
  obtain vs us where es: "es = vs @ us" "list_all plain us" "list_all (\<lambda>c. c = ''..'') vs"
    using assms(1) unfolding clean_elements_def by blast
  have "plain c \<or> c = ''..''" using assms(2) es by (auto simp: list_all_iff)
  then show "c \<noteq> []" "slash \<notin> set c" by (auto simp: plain_def)
qed

lemma clean_elements_fold: "clean_elements rooted es \<Longrightarrow> foldl (clean_step rooted) [] es = rev es"
proof -
  assume "clean_elements rooted es"
  then obtain vs us where es: "es = vs @ us" "list_all plain us" "list_all (\<lambda>c. c = ''..'') vs" "rooted \<longrightarrow> vs = []"
    unfolding clean_elements_def by blast
  have "foldl (clean_step rooted) [] vs = rev vs" using es(3,4) clean_parents [of vs "[]"] by (cases rooted) simp_all
  then show ?thesis by (simp add: es(1) clean_plain [OF es(2)])
qed

lemma clean_elements_text:
  assumes "clean_elements rooted es"
  shows "path_elements (path_text rooted es) = es" "is_abs (path_text rooted es) = rooted"
proof -
  have sp: "split_on slash (join_with [slash] es) = es" if "es \<noteq> []"
    using that clean_elements_parts [OF assms] by (intro split_join) auto
  have hd: "\<not> is_abs (join_with [slash] es)" if "es \<noteq> []"
  proof -
    obtain c ds where es: "es = c # ds" using \<open>es \<noteq> []\<close> by (cases es) auto
    then have "c \<noteq> []" "hd c \<noteq> slash" using clean_elements_parts [OF assms, of c] by (auto dest: hd_in_set)
    then show ?thesis by (cases ds) (auto simp: es is_abs_def hd_append)
  qed
  show abs: "is_abs (path_text rooted es) = rooted"
    using hd by (auto simp: path_text_def is_abs_def)
  show "path_elements (path_text rooted es) = es"
    using clean_elements_fold [OF assms] sp abs
    by (cases "es = []") (auto simp: path_elements_def path_text_def clean_step_def)
qed

lemma path_clean_elements [simp]: "path_elements (path_clean p) = path_elements p" "is_abs (path_clean p) = is_abs p"
  using clean_elements_text [OF clean_elements_path [of p]] by (simp_all add: path_clean_text)

lemma path_clean_idem [simp]: "path_clean (path_clean p) = path_clean p"
  by (simp add: path_clean_text [of "path_clean p"]) (simp add: path_clean_text)

lemma path_join_below:
  assumes "dir \<noteq> []" "list_all plain cs" "cs \<noteq> []"
  shows "path_elements (path_join [dir, join_with [slash] cs]) = path_elements dir @ cs"
    and "is_abs (path_join [dir, join_with [slash] cs]) = is_abs dir"
    and "path_clean (path_join [dir, join_with [slash] cs]) = path_join [dir, join_with [slash] cs]"
  by (simp_all add: path_join_two [OF assms] path_join_elements [OF assms])

lemma join_with_app: "es \<noteq> [] \<Longrightarrow> cs \<noteq> [] \<Longrightarrow> join_with [slash] (es @ cs) = join_with [slash] es @ slash # join_with [slash] cs"
proof (induction es)
  case (Cons e es)
  then show ?case by (cases "es = []") (simp_all add: join_with_Cons)
qed simp

text \<open>A cleaned path that starts with another cleaned path and a slash lies below it.\<close>

lemma clean_prefix_elements:
  assumes "path_clean p = p" "path_clean q = q" "has_prefix q (p @ [slash])"
  shows "\<exists>cs. path_elements q = path_elements p @ cs"
proof -
  let ?es = "path_elements p" and ?fs = "path_elements q"
  obtain rest where q: "q = p @ slash # rest"
    using assms(3) unfolding has_prefix_def by (metis append.assoc append_Cons append_Nil append_take_drop_id)
  have pt: "p = path_text (is_abs p) ?es" "q = path_text (is_abs q) ?fs"
    using assms(1,2) by (simp_all add: path_clean_text)
  have ne: "join_with [slash] (path_elements r) \<noteq> []" if "path_elements r \<noteq> []" for r
    using that clean_elements_parts [OF clean_elements_path [of r]] by (cases "path_elements r"; cases "tl (path_elements r)") auto
  have pne: "p \<noteq> []" by (subst pt(1)) (use ne [of p] in \<open>auto simp: path_text_def\<close>)
  have abs: "is_abs q = is_abs p" using pne by (simp add: q is_abs_def)
  have split: "split_on slash q = split_on slash p @ split_on slash rest" by (simp add: q split_on_append)
  have sp: "split_on slash (join_with [slash] (path_elements r)) = path_elements r" if "path_elements r \<noteq> []" for r
    using that clean_elements_parts [OF clean_elements_path [of r]] by (intro split_join) auto
  have parts: "split_on slash r = (if is_abs r then [] # path_elements r else path_elements r)"
    if "r = path_text (is_abs r) (path_elements r)" "path_elements r \<noteq> []" for r
    by (subst that(1)) (use sp [OF that(2)] that(2) in \<open>simp add: path_text_def\<close>)
  have long: "?fs \<noteq> []"
  proof
    assume "?fs = []"
    then have "length q = 1" by (subst pt(2)) (simp add: path_text_def)
    then show False using pne by (simp add: q)
  qed
  note q_parts = parts [OF pt(2) long]
  show ?thesis
  proof (cases "?es = []")
    case False
    then have "?fs = ?es @ split_on slash rest" using split q_parts parts [OF pt(1)] abs by (simp split: if_splits)
    then show ?thesis by blast
  next
    case True
    then have "p = (if is_abs p then [slash] else ''.'')" by (subst pt(1)) (simp add: path_text_def)
    then have "split_on slash p = (if is_abs p then [[], []] else [''.''])" by (auto split: if_splits)
    then have "[] \<in> set ?fs \<or> ''.'' \<in> set ?fs" using split q_parts abs by (cases "is_abs p") auto
    then show ?thesis using clean_elements_path [of q] by (auto simp: clean_elements_def plain_def list_all_iff)
  qed
qed

subsection \<open>Extensions\<close>

lemma path_ext_suffix: "slash \<notin> set p \<Longrightarrow> \<exists>stem. p = stem @ path_ext p \<and> trim_suffix p (path_ext p) = stem"
proof -
  assume p: "slash \<notin> set p"
  let ?e = "path_ext p"
  have "\<exists>stem. p = stem @ ?e"
  proof (cases "CHR ''.'' \<in> set p")
    case True
    then show ?thesis using p by (intro exI [of _ "take (length p - Suc (length (takeWhile (\<lambda>c. c \<noteq> CHR ''.'') (rev p)))) p"])
      (simp add: path_ext_def split_on_plain Let_def)
  next
    case False
    then show ?thesis using p by (simp add: path_ext_def split_on_plain Let_def)
  qed
  then obtain stem where stem: "p = stem @ ?e" by blast
  have "has_prefix (rev p) (rev ?e)" by (subst stem) (simp add: has_prefix_def)
  moreover have "take (length p - length ?e) p = stem" by (subst (2) stem, subst stem) simp
  ultimately show ?thesis using stem by (auto simp: trim_suffix_def)
qed

end
