(* ===== verification/Go_Fs.thy ===== *)
theory Go_Fs
  imports Go_Path "HOL-Library.Sublist"
begin

section \<open>A file system\<close>

text \<open>
  What the code uses of \<open>os\<close>: directories and files under paths given by their elements (\<open>path_elements\<close>), without
  links and permissions. The empty path is the root, or the working directory for relative paths. The
  content of a file is of any type. An operation that fails gives \<open>None\<close>.
\<close>

datatype 'c fs_node = Dir | File 'c

type_synonym 'c fs = "string list \<rightharpoonup> 'c fs_node"

definition fs_empty :: "'c fs" where
  "fs_empty = [[] \<mapsto> Dir]"

text \<open>\<open>MkdirAll\<close> goes down the path and makes what is missing.\<close>

fun fs_mkdirs :: "string list \<Rightarrow> string list \<Rightarrow> 'c fs \<Rightarrow> 'c fs option" where
  "fs_mkdirs d [] s = Some s"
| "fs_mkdirs d (c # cs) s =
     (case s (d @ [c]) of
        Some (File x) \<Rightarrow> None
      | Some Dir \<Rightarrow> fs_mkdirs (d @ [c]) cs s
      | None \<Rightarrow> fs_mkdirs (d @ [c]) cs (s(d @ [c] \<mapsto> Dir)))"

definition fs_MkdirAll :: "string list \<Rightarrow> 'c fs \<Rightarrow> 'c fs option" where
  "fs_MkdirAll p s = fs_mkdirs [] p s"

text \<open>\<open>WriteFile\<close>, \<open>Create\<close>: the directory must be there, and no directory of that name.\<close>

definition fs_WriteFile :: "string list \<Rightarrow> 'c \<Rightarrow> 'c fs \<Rightarrow> 'c fs option" where
  "fs_WriteFile p x s =
     (if p = [] \<or> s p = Some Dir \<or> s (butlast p) \<noteq> Some Dir then None else Some (s(p \<mapsto> File x)))"

definition fs_ReadFile :: "string list \<Rightarrow> 'c fs \<Rightarrow> 'c option" where
  "fs_ReadFile p s = (case s p of Some (File x) \<Rightarrow> Some x | _ \<Rightarrow> None)"

definition fs_RemoveAll :: "string list \<Rightarrow> 'c fs \<Rightarrow> 'c fs" where
  "fs_RemoveAll p s q = (if prefix p q then None else s q)"

text \<open>\<open>Remove\<close> of a name that may hold a file.\<close>

definition fs_Remove :: "string list \<Rightarrow> 'c fs \<Rightarrow> 'c fs" where
  "fs_Remove p s = (case s p of Some (File x) \<Rightarrow> s(p := None) | _ \<Rightarrow> s)"

text \<open>\<open>Rename\<close> of a directory to a free name.\<close>

definition fs_moved :: "string list \<Rightarrow> string list \<Rightarrow> 'c fs \<Rightarrow> 'c fs" where
  "fs_moved p q s k = (if prefix q k then s (p @ drop (length q) k) else if prefix p k then None else s k)"

definition fs_Rename :: "string list \<Rightarrow> string list \<Rightarrow> 'c fs \<Rightarrow> 'c fs option" where
  "fs_Rename p q s =
     (if s p = None \<or> s q \<noteq> None \<or> q = [] \<or> s (butlast q) \<noteq> Some Dir \<or> prefix p q then None
      else Some (fs_moved p q s))"

declare fun_upd_apply [code]

text \<open>\<open>MkdirAll(filepath.Dir(p))\<close>, then the file.\<close>

definition fs_put :: "string list \<Rightarrow> 'c \<Rightarrow> 'c fs \<Rightarrow> 'c fs option" where
  "fs_put p x s = (case fs_MkdirAll (butlast p) s of None \<Rightarrow> None | Some s' \<Rightarrow> fs_WriteFile p x s')"

fun fs_put_all :: "string list \<Rightarrow> (string list \<times> 'c) list \<Rightarrow> 'c fs \<Rightarrow> 'c fs option" where
  "fs_put_all d [] s = Some s"
| "fs_put_all d ((p, x) # ps) s = (case fs_put (d @ p) x s of None \<Rightarrow> None | Some s' \<Rightarrow> fs_put_all d ps s')"

subsection \<open>Lemmas\<close>

lemma fs_ReadFile_Some: "fs_ReadFile p s = Some c \<longleftrightarrow> s p = Some (File c)"
  by (auto simp: fs_ReadFile_def split: option.splits fs_node.splits)

text \<open>Every parent of what is stored is a directory.\<close>

definition fs_ok :: "'c fs \<Rightarrow> bool" where
  "fs_ok s \<longleftrightarrow> s [] = Some Dir \<and> (\<forall>p c. s (p @ [c]) \<noteq> None \<longrightarrow> s p = Some Dir)"

lemma fs_okD: "fs_ok s \<Longrightarrow> s [] = Some Dir" "fs_ok s \<Longrightarrow> s (p @ [c]) \<noteq> None \<Longrightarrow> s p = Some Dir"
  unfolding fs_ok_def by blast+

lemma fs_empty_ok: "fs_ok fs_empty"
  by (simp add: fs_ok_def fs_empty_def)

lemma fs_ok_butlast: "fs_ok s \<Longrightarrow> s p \<noteq> None \<Longrightarrow> p \<noteq> [] \<Longrightarrow> s (butlast p) = Some Dir"
  using fs_okD(2) [of s "butlast p" "last p"] by simp

lemma fs_mkdirs_spec:
  assumes "fs_mkdirs d cs s = Some s'"
  shows "s' q = (if s q = None \<and> (\<exists>k. 0 < k \<and> k \<le> length cs \<and> q = d @ take k cs) then Some Dir else s q)"
  using assms
proof (induction cs arbitrary: d s)
  case Nil
  then show ?case by simp
next
  case (Cons c cs)
  let ?s = "if s (d @ [c]) = None then s(d @ [c] \<mapsto> Dir) else s"
  have "fs_mkdirs (d @ [c]) cs ?s = Some s'" using Cons.prems by (auto split: option.splits fs_node.splits)
  note IH = Cons.IH [OF this]
  have split: "(\<exists>k. 0 < k \<and> k \<le> length (c # cs) \<and> q = d @ take k (c # cs)) \<longleftrightarrow>
      q = d @ [c] \<or> (\<exists>k. 0 < k \<and> k \<le> length cs \<and> q = (d @ [c]) @ take k cs)"
  proof
    assume "\<exists>k. 0 < k \<and> k \<le> length (c # cs) \<and> q = d @ take k (c # cs)"
    then obtain k where k: "0 < k" "k \<le> length (c # cs)" "q = d @ take k (c # cs)" by blast
    then show "q = d @ [c] \<or> (\<exists>k. 0 < k \<and> k \<le> length cs \<and> q = (d @ [c]) @ take k cs)"
      by (cases k; cases "k - 1") auto
  next
    assume "q = d @ [c] \<or> (\<exists>k. 0 < k \<and> k \<le> length cs \<and> q = (d @ [c]) @ take k cs)"
    then show "\<exists>k. 0 < k \<and> k \<le> length (c # cs) \<and> q = d @ take k (c # cs)"
    proof
      assume "q = d @ [c]"
      then show ?thesis by (intro exI [of _ 1]) simp
    next
      assume "\<exists>k. 0 < k \<and> k \<le> length cs \<and> q = (d @ [c]) @ take k cs"
      then obtain k where "0 < k" "k \<le> length cs" "q = (d @ [c]) @ take k cs" by blast
      then show ?thesis by (intro exI [of _ "Suc k"]) simp
    qed
  qed
  show ?case unfolding IH split by auto
qed

lemma fs_MkdirAll_spec:
  assumes "fs_MkdirAll p s = Some s'"
  shows "s' q = (if s q = None \<and> q \<noteq> [] \<and> prefix q p then Some Dir else s q)"
proof -
  have "(\<exists>k. 0 < k \<and> k \<le> length p \<and> q = [] @ take k p) \<longleftrightarrow> q \<noteq> [] \<and> prefix q p"
  proof
    assume "q \<noteq> [] \<and> prefix q p"
    then show "\<exists>k. 0 < k \<and> k \<le> length p \<and> q = [] @ take k p"
      by (intro exI [of _ "length q"]) (auto simp: prefix_def)
  qed (auto simp: take_is_prefix)
  with fs_mkdirs_spec [OF assms [unfolded fs_MkdirAll_def], of q] show ?thesis by simp
qed

lemma fs_mkdirs_append:
  "fs_mkdirs d (xs @ ys) s = (case fs_mkdirs d xs s of None \<Rightarrow> None | Some s' \<Rightarrow> fs_mkdirs (d @ xs) ys s')"
proof (induction xs arbitrary: d s)
  case (Cons c cs)
  show ?case
  proof (cases "s (d @ [c])")
    case None
    then show ?thesis by (simp only: append_Cons append_Nil append_assoc fs_mkdirs.simps option.case Cons.IH)
  next
    case (Some n)
    then show ?thesis using Cons.IH [of "d @ [c]" s] by (cases n) (simp_all split: option.splits)
  qed
qed simp

lemma fs_mkdirs_dir:
  assumes "fs_mkdirs d cs s = Some s'" and "s d = Some Dir"
  shows "s' (d @ cs) = Some Dir"
  using assms
proof (induction cs arbitrary: d s)
  case (Cons c cs)
  show ?case
  proof (cases "s (d @ [c])")
    case None
    with Cons.prems have "fs_mkdirs (d @ [c]) cs (s(d @ [c] \<mapsto> Dir)) = Some s'" by simp
    from Cons.IH [OF this] show ?thesis by simp
  next
    case (Some n)
    then show ?thesis using Cons.IH [of "d @ [c]" s] Cons.prems by (cases n) simp_all
  qed
qed simp

lemma fs_MkdirAll_dir: "fs_MkdirAll p s = Some s' \<Longrightarrow> fs_ok s \<Longrightarrow> s' p = Some Dir"
  using fs_mkdirs_dir [of "[]" p s s'] by (simp add: fs_MkdirAll_def fs_okD(1))

lemma fs_MkdirAll_ok:
  assumes "fs_MkdirAll p s = Some s'" and "fs_ok s"
  shows "fs_ok s'"
proof -
  note spec = fs_MkdirAll_spec [OF assms(1)]
  have "s' q = Some Dir" if "s' (q @ [c]) \<noteq> None" for q c
  proof (cases "s (q @ [c]) = None")
    case False
    then show ?thesis using fs_okD(2) [OF assms(2)] by (simp add: spec)
  next
    case True
    then have "prefix (q @ [c]) p" using that spec [of "q @ [c]"] by (auto split: if_splits)
    then obtain r where p: "p = q @ c # r" by (auto simp: prefix_def)
    have "\<exists>s1. fs_mkdirs [] q s = Some s1 \<and> fs_mkdirs q (c # r) s1 = Some s'"
      using assms(1) unfolding fs_MkdirAll_def p fs_mkdirs_append by (cases "fs_mkdirs [] q s") simp_all
    then obtain s1 where s1: "fs_MkdirAll q s = Some s1" "fs_mkdirs q (c # r) s1 = Some s'" by (auto simp: fs_MkdirAll_def)
    have "s1 q = Some Dir" by (rule fs_MkdirAll_dir [OF s1(1) assms(2)])
    then show ?thesis using fs_mkdirs_spec [OF s1(2), of q] by simp
  qed
  moreover have "s' [] = Some Dir" using spec [of "[]"] fs_okD(1) [OF assms(2)] by simp
  ultimately show ?thesis unfolding fs_ok_def by blast
qed

lemma fs_WriteFile_spec:
  assumes "fs_WriteFile p x s = Some s'"
  shows "s' = s(p \<mapsto> File x)" "p \<noteq> []" "s p \<noteq> Some Dir" "s (butlast p) = Some Dir"
  using assms by (auto simp: fs_WriteFile_def split: if_splits)

lemma fs_WriteFile_ok:
  assumes "fs_WriteFile p x s = Some s'" and "fs_ok s"
  shows "fs_ok s'"
proof -
  note w = fs_WriteFile_spec [OF assms(1)]
  have "s' q = Some Dir" if "s' (q @ [c]) \<noteq> None" for q c
  proof -
    have "s q = Some Dir"
    proof (cases "q @ [c] = p")
      case True
      then have "butlast p = q" by auto
      with w(4) show ?thesis by simp
    next
      case False
      then show ?thesis using that w(1) fs_okD(2) [OF assms(2), of q c] by simp
    qed
    moreover have "q \<noteq> p" using calculation w(3) by auto
    ultimately show ?thesis using w(1) by simp
  qed
  moreover have "s' [] = Some Dir" using w(1,2) fs_okD(1) [OF assms(2)] by simp
  ultimately show ?thesis unfolding fs_ok_def by blast
qed

text \<open>What a put leaves: the file, new directories above it, everything else.\<close>

lemma fs_put_spec:
  assumes "fs_put p x s = Some s'" and "fs_ok s"
  shows "s' p = Some (File x)" "fs_ok s'"
    "\<And>q y. q \<noteq> p \<Longrightarrow> s' q = Some (File y) \<longleftrightarrow> s q = Some (File y)"
    "\<And>q. s' q \<noteq> s q \<Longrightarrow> prefix q p" "\<And>q. s q = Some Dir \<Longrightarrow> s' q = Some Dir"
proof -
  obtain s1 where s1: "fs_MkdirAll (butlast p) s = Some s1" "fs_WriteFile p x s1 = Some s'"
    using assms(1) by (auto simp: fs_put_def split: option.splits)
  note m = fs_MkdirAll_spec [OF s1(1)] and w = fs_WriteFile_spec [OF s1(2)]
  show "s' p = Some (File x)" by (simp add: w(1))
  show "fs_ok s'" by (rule fs_WriteFile_ok [OF s1(2) fs_MkdirAll_ok [OF s1(1) assms(2)]])
  show "s' q = Some (File y) \<longleftrightarrow> s q = Some (File y)" if "q \<noteq> p" for q y
    using that by (simp add: w(1) m)
  show "prefix q p" if "s' q \<noteq> s q" for q
  proof (cases "q = p")
    case False
    then have "prefix q (butlast p)" using that by (auto simp: w(1) m split: if_splits)
    then show ?thesis by (meson prefix_order.trans prefixeq_butlast)
  qed simp
  show "s' q = Some Dir" if "s q = Some Dir" for q
    using that w(3) m [of q] m [of p] by (auto simp: w(1))
qed

lemma fs_ok_prefix: "fs_ok s \<Longrightarrow> s p \<noteq> None \<Longrightarrow> prefix q p \<Longrightarrow> s q \<noteq> None"
proof (induction p rule: rev_induct)
  case (snoc c p)
  show ?case
  proof (cases "q = p @ [c]")
    case False
    then have "prefix q p" using snoc.prems(3) by simp
    moreover have "s p \<noteq> None" using fs_okD(2) [OF snoc.prems(1), of p c] snoc.prems(2) by simp
    ultimately show ?thesis using snoc.IH snoc.prems(1) by blast
  qed (use snoc.prems(2) in simp)
qed simp

text \<open>Below a directory that is there, \<open>MkdirAll\<close> and writes change only what is below it.\<close>

lemma fs_MkdirAll_below:
  assumes "fs_MkdirAll p s = Some s'" "fs_ok s" "s d = Some Dir" "prefix p d \<or> prefix d p"
  shows "s' q \<noteq> s q \<Longrightarrow> prefix d q" "s' d = Some Dir"
proof -
  note spec = fs_MkdirAll_spec [OF assms(1)]
  show "s' d = Some Dir" using spec [of d] assms(3) by simp
  assume "s' q \<noteq> s q"
  then have q: "s q = None" "prefix q p" by (auto simp: spec split: if_splits)
  have "\<not> prefix q d" using fs_ok_prefix [OF assms(2), of d q] assms(3) q(1) by auto
  then show "prefix d q" using q(2) assms(4) by (meson prefix_order.trans prefix_same_cases)
qed

lemma fs_Remove_changes: "fs_Remove p s q \<noteq> s q \<Longrightarrow> q = p"
  by (auto simp: fs_Remove_def split: option.splits fs_node.splits if_splits)

lemma fs_RemoveAll_changes: "fs_RemoveAll p s q \<noteq> s q \<Longrightarrow> prefix p q"
  by (auto simp: fs_RemoveAll_def split: if_splits)

lemma fs_RemoveAll_ok: "fs_ok s \<Longrightarrow> p \<noteq> [] \<Longrightarrow> fs_ok (fs_RemoveAll p s)"
  unfolding fs_ok_def fs_RemoveAll_def by (auto simp: prefix_snoc)

text \<open>When the operations succeed.\<close>

lemma fs_ok_strict: "fs_ok s \<Longrightarrow> s p \<noteq> None \<Longrightarrow> strict_prefix q p \<Longrightarrow> s q = Some Dir"
proof -
  assume ok: "fs_ok s" and p: "s p \<noteq> None" and q: "strict_prefix q p"
  obtain c r where "p = q @ c # r" using q by (auto elim: strict_prefixE')
  then have "prefix (q @ [c]) p" by simp
  from fs_ok_prefix [OF ok p this] fs_okD(2) [OF ok] show ?thesis by blast
qed

lemma fs_mkdirs_success:
  "(\<And>k x. k \<le> length cs \<Longrightarrow> s (d @ take k cs) \<noteq> Some (File x)) \<Longrightarrow> \<exists>s'. fs_mkdirs d cs s = Some s'"
proof (induction cs arbitrary: d s)
  case (Cons c cs)
  have here: "s (d @ [c]) \<noteq> Some (File x)" for x using Cons.prems [of 1 x] by simp
  have deeper: "s ((d @ [c]) @ take k cs) \<noteq> Some (File x)" if "k \<le> length cs" for k x
    using Cons.prems [of "Suc k" x] that by simp
  show ?case
  proof (cases "s (d @ [c])")
    case None
    have "\<exists>s'. fs_mkdirs (d @ [c]) cs (s(d @ [c] \<mapsto> Dir)) = Some s'"
      using deeper by (intro Cons.IH) (auto simp del: append_assoc)
    then show ?thesis using None by simp
  next
    case (Some n)
    then show ?thesis using here Cons.IH [of s "d @ [c]", OF deeper] by (cases n) auto
  qed
qed simp

lemma fs_MkdirAll_success: "(\<And>q x. prefix q p \<Longrightarrow> s q \<noteq> Some (File x)) \<Longrightarrow> \<exists>s'. fs_MkdirAll p s = Some s'"
  unfolding fs_MkdirAll_def by (rule fs_mkdirs_success) (simp add: take_is_prefix)

lemma fs_put_success:
  assumes "fs_ok s" "p \<noteq> []" "s p \<noteq> Some Dir" "\<And>q x. strict_prefix q p \<Longrightarrow> s q \<noteq> Some (File x)"
  shows "\<exists>s'. fs_put p x s = Some s'"
proof -
  have up: "strict_prefix (butlast p) p" using assms(2) by (metis append_butlast_last_id strict_prefix_def prefixI append_self_conv not_Cons_self2)
  have "\<exists>s1. fs_MkdirAll (butlast p) s = Some s1"
    using assms(4) up by (intro fs_MkdirAll_success) (meson prefix_order.le_less_trans)
  then obtain s1 where s1: "fs_MkdirAll (butlast p) s = Some s1" by blast
  have "s1 (butlast p) = Some Dir" by (rule fs_MkdirAll_dir [OF s1 assms(1)])
  moreover have "s1 p \<noteq> Some Dir"
    using assms(3) up by (simp add: fs_MkdirAll_spec [OF s1]) (metis prefix_order.antisym strict_prefix_def)
  ultimately show ?thesis using assms(2) by (simp add: fs_put_def s1 fs_WriteFile_def)
qed

text \<open>A tree of files fits below a directory that is free at its paths.\<close>

lemma fs_put_all_success:
  assumes "fs_ok s" "s d = Some Dir" "distinct (map fst ps)" "\<And>p. p \<in> fst ` set ps \<Longrightarrow> p \<noteq> []"
    and "\<And>p q. p \<in> fst ` set ps \<Longrightarrow> q \<in> fst ` set ps \<Longrightarrow> \<not> strict_prefix p q"
    and "\<And>p. p \<in> fst ` set ps \<Longrightarrow> s (d @ p) \<noteq> Some Dir"
    and "\<And>p q x. p \<in> fst ` set ps \<Longrightarrow> strict_prefix q p \<Longrightarrow> s (d @ q) \<noteq> Some (File x)"
  shows "\<exists>s'. fs_put_all d ps s = Some s' \<and> fs_ok s' \<and> (\<forall>(p, x) \<in> set ps. s' (d @ p) = Some (File x)) \<and>
    (\<forall>q y. q \<notin> (\<lambda>p. d @ p) ` fst ` set ps \<longrightarrow> s' q = Some (File y) \<longleftrightarrow> s q = Some (File y)) \<and>
    (\<forall>q. s q = Some Dir \<longrightarrow> s' q = Some Dir)"
  using assms
proof (induction ps arbitrary: s)
  case (Cons px ps)
  obtain p x where px: "px = (p, x)" by force
  have ups: "s q \<noteq> Some (File y)" if "strict_prefix q (d @ p)" for q y
  proof (cases "strict_prefix q d")
    case True
    then show ?thesis using fs_ok_strict [OF Cons.prems(1) _ True] Cons.prems(2) by simp
  next
    case False
    have "q = d \<or> prefix d q" using that False by (metis prefix_order.le_less prefix_same_cases prefixI strict_prefix_def)
    then obtain r where r: "q = d @ r" by (auto elim: prefixE)
    then have "strict_prefix r p" using that by (simp add: strict_prefix_def)
    then show ?thesis using Cons.prems(7) [of p r y] px r by simp
  qed
  have "\<exists>s1. fs_put (d @ p) x s = Some s1"
    using Cons.prems(4) [of p] Cons.prems(6) [of p] ups px by (intro fs_put_success [OF Cons.prems(1)]) simp_all
  then obtain s1 where s1: "fs_put (d @ p) x s = Some s1" by blast
  note put = fs_put_spec [OF s1 Cons.prems(1)]
  have other: "q \<noteq> p \<and> \<not> strict_prefix q p \<and> \<not> strict_prefix p q" if "q \<in> fst ` set ps" for q
    using that Cons.prems(3,5) px by auto
  have dirs: "s1 (d @ q) \<noteq> Some Dir" if q: "q \<in> fst ` set ps" for q
  proof
    assume d: "s1 (d @ q) = Some Dir"
    moreover have "s (d @ q) \<noteq> Some Dir" using Cons.prems(6) [of q] q by simp
    ultimately have "prefix (d @ q) (d @ p)" using put(4) [of "d @ q"] by simp
    then show False using other [OF q] by (auto simp: strict_prefix_def)
  qed
  have files: "s1 (d @ r) \<noteq> Some (File y)" if q: "q \<in> fst ` set ps" "strict_prefix r q" for q r y
  proof
    assume f: "s1 (d @ r) = Some (File y)"
    have "r \<noteq> p" using other [OF q(1)] q(2) by blast
    then have "s (d @ r) = Some (File y)" using put(3) [of "d @ r" y] f by simp
    then show False using Cons.prems(7) [of q r y] q by simp
  qed
  have "\<exists>s'. fs_put_all d ps s1 = Some s' \<and> fs_ok s' \<and> (\<forall>(p, x) \<in> set ps. s' (d @ p) = Some (File x)) \<and>
    (\<forall>q y. q \<notin> (\<lambda>p. d @ p) ` fst ` set ps \<longrightarrow> s' q = Some (File y) \<longleftrightarrow> s1 q = Some (File y)) \<and>
    (\<forall>q. s1 q = Some Dir \<longrightarrow> s' q = Some Dir)"
    by (rule Cons.IH) (use put(2) put(5) Cons.prems dirs files px in \<open>auto simp: distinct_map\<close>)
  then obtain s' where s': "fs_put_all d ps s1 = Some s'" "fs_ok s'" "\<forall>(p, x) \<in> set ps. s' (d @ p) = Some (File x)"
    "\<forall>q y. q \<notin> (\<lambda>p. d @ p) ` fst ` set ps \<longrightarrow> s' q = Some (File y) \<longleftrightarrow> s1 q = Some (File y)"
    "\<forall>q. s1 q = Some Dir \<longrightarrow> s' q = Some Dir" by blast
  have "d @ p \<notin> (\<lambda>p. d @ p) ` fst ` set ps" using other by auto
  then have "s' (d @ p) = Some (File x)" using s'(4) put(1) by simp
  with s' put show ?case unfolding px by (intro exI [of _ s']) (simp add: s1)
qed simp

end
