(* ===== verification/Artifacts.thy ===== *)
theory Artifacts
  imports Go_Fs "HOL-Library.List_Lexorder" "HOL-Library.Char_ord"
begin

section \<open>Artifacts: model, packages, repository\<close>

text \<open>
  \<open>internal/artifacts\<close>: the artifact record, the pieces of an export package (\<open>packager.go\<close>) and the in-memory
  repository. SHA-256 is an argument (\<open>sha\<close>, the hexadecimal digest of a content). A label map is an
  association list. A loop over the artifact map takes its visiting order \<open>ks\<close>.
\<close>

record art_PackageRequest =
  pr_ProjectID :: int
  pr_DatasetID :: int
  pr_SnapshotID :: int
  pr_Format :: string
  pr_Version :: string
  pr_LabelMapJSON :: "(string \<times> string) list"

record art_BundleEntry =
  be_Path :: string
  be_Body :: string
  be_Checksum :: string

record art_Artifact =
  at_ID :: int
  at_ProjectID :: int
  at_DatasetID :: int
  at_SnapshotID :: int
  at_CreatedByJobID :: "int option"
  at_ArtifactType :: string
  at_Format :: string
  at_Version :: string
  at_URI :: string
  at_ManifestURI :: string
  at_Checksum :: string
  at_Size :: int
  at_LabelMapJSON :: "(string \<times> string) list"
  at_Entries :: "art_BundleEntry list"
  at_Status :: string
  at_ErrorMsg :: string
  at_CreatedAt :: time

definition art_StatusPending :: string where "art_StatusPending = ''pending''"
definition art_StatusQueued :: string where "art_StatusQueued = ''queued''"
definition art_StatusBuilding :: string where "art_StatusBuilding = ''building''"
definition art_StatusReady :: string where "art_StatusReady = ''ready''"
definition art_StatusFailed :: string where "art_StatusFailed = ''failed''"

lemmas art_status_defs = art_StatusPending_def art_StatusQueued_def art_StatusBuilding_def art_StatusReady_def art_StatusFailed_def

subsection \<open>Errors\<close>

datatype art_error =
    ArtNotFound int
  | ArtNoSnapshot int int
  | ArtState int string string
  | ArtConflict int
  | ArtMissing int
  | ArtUnresolved string string string
  | ArtMessage string
  | ArtExternal string

datatype art_kind = ArtErrNotFound | ArtErrConflict | ArtErrNotReady

definition art_error_is :: "art_error \<Rightarrow> art_kind \<Rightarrow> bool" where
  "art_error_is e k =
     (case e of
        ArtNotFound i \<Rightarrow> k = ArtErrNotFound
      | ArtNoSnapshot d n \<Rightarrow> k = ArtErrNotFound
      | ArtState i st act \<Rightarrow> k = ArtErrNotReady
      | ArtConflict i \<Rightarrow> k = ArtErrConflict
      | ArtMissing i \<Rightarrow> False
      | ArtUnresolved d f v \<Rightarrow> False
      | ArtMessage msg \<Rightarrow> False
      | ArtExternal msg \<Rightarrow> False)"

subsection \<open>Packages\<close>

record art_ManifestEntry =
  me_Path :: string
  me_Size :: int
  me_Checksum :: string

record art_ManifestStats =
  ms_TotalImages :: int
  ms_TotalAnnotations :: int
  ms_TotalClasses :: int

record art_Manifest =
  mf_Version :: string
  mf_GeneratedAt :: time
  mf_CategoryMap :: "(string \<times> string) list"
  mf_Stats :: art_ManifestStats
  mf_Entries :: "art_ManifestEntry list"

definition art_NormalizeSHA256Checksum :: "string \<Rightarrow> string" where
  "art_NormalizeSHA256Checksum c = (if c = [] \<or> has_prefix c ''sha256:'' then c else ''sha256:'' @ c)"

definition art_ApplyLabelMap :: "string list \<Rightarrow> (string \<times> string) list \<Rightarrow> string list" where
  "art_ApplyLabelMap xs m = map (\<lambda>v. case map_of m v of Some mv \<Rightarrow> mv | None \<Rightarrow> v) xs"

definition nl :: string where "nl = [CHR 0x0A]"

definition art_BuildDataYAML :: "string \<Rightarrow> string \<Rightarrow> string list \<Rightarrow> string" where
  "art_BuildDataYAML train val names =
     ''train: '' @ train @ nl @ ''val: '' @ val @ nl @
     (if names = [] then ''names: []'' @ nl
      else ''names:'' @ nl @ ''  - '' @ join_with (nl @ ''  - '') names @ nl)"

definition art_BuildManifestWithMetadata ::
  "time \<Rightarrow> string \<Rightarrow> (string \<times> string) list \<Rightarrow> art_ManifestStats \<Rightarrow> art_ManifestEntry list \<Rightarrow> art_Manifest" where
  "art_BuildManifestWithMetadata now version categoryMap stats entries =
     \<lparr>mf_Version = version, mf_GeneratedAt = now, mf_CategoryMap = categoryMap, mf_Stats = stats,
      mf_Entries = map (\<lambda>e. e\<lparr>me_Checksum := art_NormalizeSHA256Checksum (me_Checksum e)\<rparr>) entries\<rparr>"

definition art_BuildManifest :: "time \<Rightarrow> string \<Rightarrow> art_ManifestEntry list \<Rightarrow> art_Manifest" where
  "art_BuildManifest now version entries =
     art_BuildManifestWithMetadata now version [] \<lparr>ms_TotalImages = 0, ms_TotalAnnotations = 0, ms_TotalClasses = 0\<rparr> entries"

fun art_distinctLabels :: "string list \<Rightarrow> string list \<Rightarrow> string list" where
  "art_distinctLabels seen [] = []"
| "art_distinctLabels seen (l # ls) =
     (if l = [] \<or> l \<in> set seen then art_distinctLabels seen ls else l # art_distinctLabels (l # seen) ls)"

definition art_bundleNames :: "(string \<times> string) list \<Rightarrow> string list" where
  "art_bundleNames labelMap =
     (let names = art_distinctLabels [] (map snd labelMap) in if names = [] then [''person''] else sort names)"

definition art_newBundleEntry :: "(string \<Rightarrow> string) \<Rightarrow> string \<Rightarrow> string \<Rightarrow> art_BundleEntry" where
  "art_newBundleEntry sha path body =
     \<lparr>be_Path = path, be_Body = body, be_Checksum = art_NormalizeSHA256Checksum (sha body)\<rparr>"

definition art_BuildBundleEntries :: "(string \<Rightarrow> string) \<Rightarrow> art_Artifact \<Rightarrow> art_BundleEntry list" where
  "art_BuildBundleEntries sha a =
     [art_newBundleEntry sha ''data.yaml'' (art_BuildDataYAML ''./train/images'' ''./train/images'' (art_bundleNames (at_LabelMapJSON a))),
      art_newBundleEntry sha ''train/labels/0001.txt'' (''0 0.5 0.5 0.2 0.2'' @ nl)] @
     (if at_Format a \<noteq> ''yolo''
      then [art_newBundleEntry sha ''README.txt'' (''artifact format='' @ at_Format a @ '' version='' @ at_Version a @ nl)]
      else [art_newBundleEntry sha ''train/images/README.txt''
              (''dataset='' @ show_int (at_DatasetID a) @ '' snapshot='' @ show_int (at_SnapshotID a) @
               '' artifact='' @ show_int (at_ID a) @ nl)])"

subsection \<open>The repository\<close>

record art_BuildResult =
  br_Status :: string
  br_URI :: string
  br_ManifestURI :: string
  br_Checksum :: string
  br_Size :: int
  br_ErrorMsg :: string

record art_Repo =
  ar_nextID :: int
  ar_byID :: "int \<rightharpoonup> art_Artifact"

definition art_NewInMemoryRepository :: art_Repo where
  "art_NewInMemoryRepository = \<lparr>ar_nextID = 1, ar_byID = Map.empty\<rparr>"

definition art_repo_Create :: "time \<Rightarrow> art_Artifact \<Rightarrow> art_Repo \<Rightarrow> art_Artifact \<times> art_Repo" where
  "art_repo_Create now a r =
     (let a' = a\<lparr>at_ID := ar_nextID r, at_CreatedAt := (if at_CreatedAt a = zero_time then now else at_CreatedAt a)\<rparr>
      in (a', r\<lparr>ar_nextID := ar_nextID r + 1, ar_byID := (ar_byID r)(at_ID a' \<mapsto> a')\<rparr>))"

definition art_repo_Get :: "int \<Rightarrow> art_Repo \<Rightarrow> art_Artifact option" where
  "art_repo_Get i r = ar_byID r i"

definition art_repo_FindReadyByFormatVersion :: "int list \<Rightarrow> string \<Rightarrow> string \<Rightarrow> art_Repo \<Rightarrow> art_Artifact option" where
  "art_repo_FindReadyByFormatVersion ks format version r =
     find (\<lambda>a. at_Format a = format \<and> at_Version a = version \<and> at_Status a = art_StatusReady) (map (\<lambda>k. the (ar_byID r k)) ks)"

definition art_repo_FindReadyByDatasetFormatVersion ::
  "int list \<Rightarrow> string \<Rightarrow> string \<Rightarrow> string \<Rightarrow> art_Repo \<Rightarrow> art_Artifact option" where
  "art_repo_FindReadyByDatasetFormatVersion ks dataset format version r =
     find (\<lambda>a. \<not> (at_Format a \<noteq> format \<or> at_Version a \<noteq> version \<or> at_Status a \<noteq> art_StatusReady) \<and>
               \<not> (dataset \<noteq> [] \<and> dataset \<noteq> show_int (at_DatasetID a)))
       (map (\<lambda>k. the (ar_byID r k)) ks)"

definition art_on_stored :: "int \<Rightarrow> (art_Artifact \<Rightarrow> art_Artifact) \<Rightarrow> art_Repo \<Rightarrow> (art_error, art_Artifact, art_Repo) outcome" where
  "art_on_stored i f r =
     (case ar_byID r i of
        None \<Rightarrow> (Inl (ArtMissing i), r)
      | Some a \<Rightarrow> (Inr (f a), r\<lparr>ar_byID := (ar_byID r)(i \<mapsto> f a)\<rparr>))"

definition art_repo_LinkJob :: "int \<Rightarrow> int \<Rightarrow> art_Repo \<Rightarrow> (art_error, art_Artifact, art_Repo) outcome" where
  "art_repo_LinkJob i jobID r = art_on_stored i (\<lambda>a. a\<lparr>at_CreatedByJobID := Some jobID\<rparr>) r"

definition art_repo_UpdateStatus :: "int \<Rightarrow> string \<Rightarrow> string \<Rightarrow> art_Repo \<Rightarrow> (art_error, art_Artifact, art_Repo) outcome" where
  "art_repo_UpdateStatus i st msg r = art_on_stored i (\<lambda>a. a\<lparr>at_Status := st, at_ErrorMsg := msg\<rparr>) r"

definition art_repo_UpdateBuildResult :: "int \<Rightarrow> art_BuildResult \<Rightarrow> art_Repo \<Rightarrow> (art_error, art_Artifact, art_Repo) outcome" where
  "art_repo_UpdateBuildResult i res r =
     art_on_stored i (\<lambda>a. a\<lparr>at_Status := br_Status res, at_URI := br_URI res, at_ManifestURI := br_ManifestURI res,
       at_Checksum := br_Checksum res, at_Size := br_Size res, at_ErrorMsg := br_ErrorMsg res\<rparr>) r"

definition art_unfinished :: "string \<Rightarrow> bool" where
  "art_unfinished st \<longleftrightarrow> st = art_StatusPending \<or> st = art_StatusQueued \<or> st = art_StatusBuilding"

text \<open>The loop over the artifact map changes each entry on its own.\<close>

fun art_repo_MarkStaleBuildsFailed :: "int list \<Rightarrow> string \<Rightarrow> int \<Rightarrow> art_Repo \<Rightarrow> int \<times> art_Repo" where
  "art_repo_MarkStaleBuildsFailed [] reason affected r = (affected, r)"
| "art_repo_MarkStaleBuildsFailed (k # ks) reason affected r =
     (case ar_byID r k of
        None \<Rightarrow> art_repo_MarkStaleBuildsFailed ks reason affected r
      | Some a \<Rightarrow>
          if \<not> art_unfinished (at_Status a) then art_repo_MarkStaleBuildsFailed ks reason affected r
          else art_repo_MarkStaleBuildsFailed ks reason (affected + 1)
                 (r\<lparr>ar_byID := (ar_byID r)(k \<mapsto> a\<lparr>at_Status := art_StatusFailed, at_ErrorMsg := reason\<rparr>)\<rparr>))"

end
