(* ===== verification/Artifact_Export.thy ===== *)
theory Artifact_Export
  imports Artifacts
begin

section \<open>Artifacts: from rows to a package\<close>

text \<open>
  \<open>export_query.go\<close> behind its SQL (the rows are arguments), and \<open>builder.go\<close>. The package directory is a fresh file
  system; \<open>enc\<close> encodes documents and archives, \<open>sha\<close> is the hexadecimal SHA-256 of bytes, \<open>source\<close> reads
  an object or fails. Streaming an object and reading it whole write the same file.
\<close>

subsection \<open>The bundle\<close>

record art_YOLOBox =
  yb_CategoryID :: int
  yb_BBoxX :: real
  yb_BBoxY :: real
  yb_BBoxW :: real
  yb_BBoxH :: real
  yb_ClassIndex :: int
  yb_XCenter :: real
  yb_YCenter :: real
  yb_Width :: real
  yb_Height :: real

record art_ExportItem =
  xi_ItemID :: int
  xi_ObjectKey :: string
  xi_OutputName :: string
  xi_LabelFileName :: string
  xi_Width :: int
  xi_Height :: int
  xi_Boxes :: "art_YOLOBox list"

record art_ExportBundle =
  xb_ProjectID :: int
  xb_DatasetID :: int
  xb_SnapshotID :: int
  xb_Format :: string
  xb_Version :: string
  xb_Categories :: "string list"
  xb_CategoryIDs :: "int list"
  xb_CategoryMap :: "int \<rightharpoonup> int"
  xb_Items :: "art_ExportItem list"
  xb_TotalBoxes :: int

subsection \<open>Names\<close>

definition art_candidate :: "string \<Rightarrow> int \<Rightarrow> string \<Rightarrow> nat \<Rightarrow> string" where
  "art_candidate stem itemID ext n =
     stem @ ''-'' @ show_int itemID @ (if 0 < n then ''-'' @ show_nat n else []) @ ext"

text \<open>The loop over suffixes has no bound; \<open>None\<close> is a search that does not end.\<close>

partial_function (option) art_searchName :: "string \<Rightarrow> int \<Rightarrow> string \<Rightarrow> string set \<Rightarrow> nat \<Rightarrow> string option" where
  "art_searchName stem itemID ext used n =
     (if art_candidate stem itemID ext n \<in> used then art_searchName stem itemID ext used (Suc n)
      else Some (art_candidate stem itemID ext n))"

definition art_buildOutputName :: "int \<Rightarrow> string \<Rightarrow> string set \<Rightarrow> (string \<times> string set) option" where
  "art_buildOutputName itemID objectKey used =
     (let base0 = path_base objectKey;
          base = (if base0 = ''.'' \<or> base0 = ''/'' \<or> base0 = [] then show_int itemID else base0)
      in if base \<notin> used then Some (base, insert base used)
         else
           let ext = path_ext base; stem = trim_suffix base ext
           in case art_searchName stem itemID ext used 0 of
                None \<Rightarrow> None
              | Some candidate \<Rightarrow> Some (candidate, insert candidate used))"

definition art_buildLabelFileName :: "string \<Rightarrow> string" where
  "art_buildLabelFileName outputName =
     (let stem = trim_suffix outputName (path_ext outputName)
      in (if stem = [] then outputName else stem) @ ''.txt'')"

subsection \<open>Loading\<close>

text \<open>\<open>loadBundleMetadata\<close> after its row: project and version of the snapshot, or no row.\<close>

definition art_loadBundleMetadata :: "(int \<times> string) option \<Rightarrow> int \<Rightarrow> int \<Rightarrow> string \<Rightarrow> art_error + art_ExportBundle" where
  "art_loadBundleMetadata row datasetID snapshotID version =
     (case row of
        None \<Rightarrow> Inl (ArtMessage (''dataset '' @ show_int datasetID @ '' snapshot '' @ show_int snapshotID @ '' not found''))
      | Some (projectID, snapshotVersion) \<Rightarrow> Inr
          \<lparr>xb_ProjectID = projectID, xb_DatasetID = datasetID, xb_SnapshotID = snapshotID, xb_Format = [],
           xb_Version = (if version = [] then snapshotVersion else version), xb_Categories = [], xb_CategoryIDs = [],
           xb_CategoryMap = Map.empty, xb_Items = [], xb_TotalBoxes = 0\<rparr>)"

fun art_loadCategories :: "(int \<times> string) list \<Rightarrow> art_ExportBundle \<Rightarrow> art_ExportBundle" where
  "art_loadCategories [] b = b"
| "art_loadCategories ((i, name) # rows) b =
     art_loadCategories rows
       (b\<lparr>xb_CategoryMap := (xb_CategoryMap b)(i \<mapsto> int (length (xb_Categories b))),
          xb_CategoryIDs := xb_CategoryIDs b @ [i], xb_Categories := xb_Categories b @ [name]\<rparr>)"

fun art_loadItems :: "(int \<times> string \<times> int option \<times> int option) list \<Rightarrow> string set \<Rightarrow> art_ExportBundle \<Rightarrow> art_ExportBundle option" where
  "art_loadItems [] used b = Some b"
| "art_loadItems ((i, key, width, height) # rows) used b =
     (case art_buildOutputName i key used of
        None \<Rightarrow> None
      | Some (name, used') \<Rightarrow>
          art_loadItems rows used'
            (b\<lparr>xb_Items := xb_Items b @
               [\<lparr>xi_ItemID = i, xi_ObjectKey = key, xi_OutputName = name, xi_LabelFileName = art_buildLabelFileName name,
                 xi_Width = (case width of None \<Rightarrow> 0 | Some w \<Rightarrow> w), xi_Height = (case height of None \<Rightarrow> 0 | Some h \<Rightarrow> h),
                 xi_Boxes = []\<rparr>]\<rparr>))"

text \<open>\<open>itemIndex\<close> keeps the last position of an item number.\<close>

definition art_itemIndex :: "art_ExportItem list \<Rightarrow> int \<Rightarrow> nat option" where
  "art_itemIndex items = map_of (rev (zip (map xi_ItemID items) [0..<length items]))"

record art_AnnotationRow =
  aw_ItemID :: int
  aw_CategoryID :: int
  aw_BBoxX :: real
  aw_BBoxY :: real
  aw_BBoxW :: real
  aw_BBoxH :: real

definition art_box :: "art_AnnotationRow \<Rightarrow> int \<Rightarrow> art_YOLOBox" where
  "art_box a classIndex =
     \<lparr>yb_CategoryID = aw_CategoryID a, yb_BBoxX = aw_BBoxX a, yb_BBoxY = aw_BBoxY a, yb_BBoxW = aw_BBoxW a, yb_BBoxH = aw_BBoxH a,
      yb_ClassIndex = classIndex, yb_XCenter = aw_BBoxX a + aw_BBoxW a / 2, yb_YCenter = aw_BBoxY a + aw_BBoxH a / 2,
      yb_Width = aw_BBoxW a, yb_Height = aw_BBoxH a\<rparr>"

fun art_loadAnnotations :: "(int \<Rightarrow> nat option) \<Rightarrow> art_AnnotationRow list \<Rightarrow> art_ExportBundle \<Rightarrow> art_error + art_ExportBundle" where
  "art_loadAnnotations itemIndex [] b = Inr b"
| "art_loadAnnotations itemIndex (a # rows) b =
     (case itemIndex (aw_ItemID a) of
        None \<Rightarrow> Inl (ArtMessage (''annotation references unknown item '' @ show_int (aw_ItemID a)))
      | Some idx \<Rightarrow>
          (case xb_CategoryMap b (aw_CategoryID a) of
             None \<Rightarrow> Inl (ArtMessage (''annotation references unknown category '' @ show_int (aw_CategoryID a)))
           | Some classIndex \<Rightarrow>
               art_loadAnnotations itemIndex rows
                 (b\<lparr>xb_Items := (xb_Items b)[idx := (xb_Items b ! idx)\<lparr>xi_Boxes := xi_Boxes (xb_Items b ! idx) @ [art_box a classIndex]\<rparr>],
                    xb_TotalBoxes := xb_TotalBoxes b + 1\<rparr>)))"

record art_SnapshotRows =
  sr_Metadata :: "(int \<times> string) option"
  sr_Categories :: "(int \<times> string) list"
  sr_Items :: "(int \<times> string \<times> int option \<times> int option) list"
  sr_Annotations :: "art_AnnotationRow list"

definition art_LoadSnapshotBundle :: "art_SnapshotRows \<Rightarrow> int \<Rightarrow> int \<Rightarrow> string \<Rightarrow> (art_error + art_ExportBundle) option" where
  "art_LoadSnapshotBundle rows datasetID snapshotID version =
     (case art_loadBundleMetadata (sr_Metadata rows) datasetID snapshotID version of
        Inl e \<Rightarrow> Some (Inl e)
      | Inr b0 \<Rightarrow>
          (case art_loadItems (sr_Items rows) {} (art_loadCategories (sr_Categories rows) b0) of
             None \<Rightarrow> None
           | Some b \<Rightarrow> Some (art_loadAnnotations (art_itemIndex (xb_Items b)) (sr_Annotations rows) b)))"

subsection \<open>File contents\<close>

record art_cocoImage =
  ci_ID :: int
  ci_FileName :: string
  ci_Width :: int
  ci_Height :: int

record art_cocoAnnotation =
  ca_ID :: int
  ca_ImageID :: int
  ca_CategoryID :: int
  ca_BBox :: "real list"
  ca_Area :: real
  ca_IsCrowd :: int

record art_cocoCategory =
  cc_ID :: int
  cc_Name :: string

record art_cocoDocument =
  co_Images :: "art_cocoImage list"
  co_Annotations :: "art_cocoAnnotation list"
  co_Categories :: "art_cocoCategory list"

text \<open>A file holds bytes, an encoded document, or an archive of named files.\<close>

datatype art_content =
    Raw string
  | CocoFile art_cocoDocument
  | ManifestFile art_Manifest
  | TarGz "(string \<times> art_content) list"

type_synonym art_encoder = "art_content \<Rightarrow> string"

definition art_bytes :: "art_encoder \<Rightarrow> art_content \<Rightarrow> string" where
  "art_bytes enc c = (case c of Raw s \<Rightarrow> s | CocoFile d \<Rightarrow> enc c | ManifestFile m \<Rightarrow> enc c | TarGz xs \<Rightarrow> enc c)"

definition art_checksum :: "art_encoder \<Rightarrow> (string \<Rightarrow> string) \<Rightarrow> art_content \<Rightarrow> string" where
  "art_checksum enc sha c = art_NormalizeSHA256Checksum (sha (art_bytes enc c))"

definition art_size :: "art_encoder \<Rightarrow> art_content \<Rightarrow> int" where
  "art_size enc c = int (length (art_bytes enc c))"

subsection \<open>The package directory\<close>

text \<open>A fresh directory: its content, the directories made in it and the files written in it, a file once.\<close>

record art_Package =
  pk_Files :: "art_content fs"
  pk_Dirs :: "string list list"
  pk_Written :: "string list list"

definition art_NewPackage :: art_Package where
  "art_NewPackage = \<lparr>pk_Files = fs_empty, pk_Dirs = [], pk_Written = []\<rparr>"

definition art_write :: "string list \<Rightarrow> art_content \<Rightarrow> art_Package \<Rightarrow> (art_error, unit, art_Package) outcome" where
  "art_write p c k =
     (case fs_WriteFile p c (pk_Files k) of
        None \<Rightarrow> (Inl (ArtExternal ''write''), k)
      | Some s \<Rightarrow> (Inr (), k\<lparr>pk_Files := s, pk_Written := (if p \<in> set (pk_Written k) then pk_Written k else pk_Written k @ [p])\<rparr>))"

definition art_mkdir :: "string list \<Rightarrow> art_Package \<Rightarrow> (art_error, unit, art_Package) outcome" where
  "art_mkdir p k =
     (case fs_MkdirAll p (pk_Files k) of
        None \<Rightarrow> (Inl (ArtExternal ''mkdir''), k)
      | Some s \<Rightarrow> (Inr (), k\<lparr>pk_Files := s, pk_Dirs := pk_Dirs k @ [p]\<rparr>))"

type_synonym art_source = "string \<Rightarrow> string + string"

definition art_entry :: "art_encoder \<Rightarrow> (string \<Rightarrow> string) \<Rightarrow> string \<Rightarrow> art_content \<Rightarrow> art_ManifestEntry" where
  "art_entry enc sha path c = \<lparr>me_Path = path, me_Size = art_size enc c, me_Checksum = art_checksum enc sha c\<rparr>"

text \<open>Reads the object, writes it, and answers its content; size and digest are those of the bytes.\<close>

definition art_writeObjectFile ::
  "art_source \<Rightarrow> string \<Rightarrow> string list \<Rightarrow> art_Package \<Rightarrow> (art_error, art_content, art_Package) outcome" where
  "art_writeObjectFile source objectKey p k =
     (case source objectKey of
        Inl e \<Rightarrow> (Inl (ArtExternal (''read object '' @ objectKey @ '': '' @ e)), k)
      | Inr body \<Rightarrow> and_then (art_write p (Raw body) k) (\<lambda>_ k'. (Inr (Raw body), k')))"

subsection \<open>YOLO packages\<close>

definition art_boxLine :: "art_YOLOBox \<Rightarrow> string" where
  "art_boxLine b =
     join_with '' '' [show_int (yb_ClassIndex b), show_fixed6 (yb_XCenter b), show_fixed6 (yb_YCenter b),
                      show_fixed6 (yb_Width b), show_fixed6 (yb_Height b)] @ nl"

definition art_renderYOLOLabelFile :: "art_YOLOBox list \<Rightarrow> string" where
  "art_renderYOLOLabelFile boxes = (if boxes = [] then [] else concat (map art_boxLine boxes))"

fun art_yoloItems ::
  "art_encoder \<Rightarrow> (string \<Rightarrow> string) \<Rightarrow> art_source \<Rightarrow> art_ExportItem list \<Rightarrow> art_ManifestEntry list \<Rightarrow> int \<Rightarrow> art_Package \<Rightarrow>
     (art_error, art_ManifestEntry list \<times> int, art_Package) outcome" where
  "art_yoloItems enc sha source [] entries n k = (Inr (entries, n), k)"
| "art_yoloItems enc sha source (item # items) entries n k =
     and_then (art_writeObjectFile source (xi_ObjectKey item) (path_elements (path_join [''train/images'', xi_OutputName item])) k)
       (\<lambda>image k1.
          let label = Raw (art_renderYOLOLabelFile (xi_Boxes item)) in
          and_then (art_write (path_elements (path_join [''train/labels'', xi_LabelFileName item])) label k1) (\<lambda>_ k2.
            art_yoloItems enc sha source items
              (entries @ [art_entry enc sha (path_join [''train'', ''images'', xi_OutputName item]) image,
                          art_entry enc sha (path_join [''train'', ''labels'', xi_LabelFileName item]) label])
              (n + int (length (xi_Boxes item))) k2))"

definition art_writeYOLOPackage ::
  "art_encoder \<Rightarrow> (string \<Rightarrow> string) \<Rightarrow> art_source \<Rightarrow> art_ExportBundle \<Rightarrow> art_Package \<Rightarrow>
     (art_error, art_ManifestEntry list \<times> int, art_Package) outcome" where
  "art_writeYOLOPackage enc sha source b k =
     and_then (art_mkdir [''train'', ''images''] k) (\<lambda>_ k1.
     and_then (art_mkdir [''train'', ''labels''] k1) (\<lambda>_ k2.
     and_then (art_yoloItems enc sha source (xb_Items b) [] 0 k2) (\<lambda>(entries, n) k3.
       let yaml = Raw (art_BuildDataYAML ''./train/images'' ''./train/images'' (xb_Categories b)) in
       and_then (art_write [''data.yaml''] yaml k3) (\<lambda>_ k4.
         (Inr (entries @ [art_entry enc sha ''data.yaml'' yaml], n), k4)))))"

subsection \<open>COCO packages\<close>

definition art_categoryIDAt :: "art_ExportBundle \<Rightarrow> int \<Rightarrow> int" where
  "art_categoryIDAt b i =
     (if 0 \<le> i \<and> i < int (length (xb_CategoryIDs b)) \<and> 0 < xb_CategoryIDs b ! nat i then xb_CategoryIDs b ! nat i else i + 1)"

definition art_cocoCategoryID :: "art_ExportBundle \<Rightarrow> art_YOLOBox \<Rightarrow> int" where
  "art_cocoCategoryID b box =
     (if 0 < yb_CategoryID box then yb_CategoryID box
      else if 0 \<le> yb_ClassIndex box \<and> yb_ClassIndex box < int (length (xb_CategoryIDs b)) then art_categoryIDAt b (yb_ClassIndex box)
      else yb_ClassIndex box + 1)"

fun art_cocoBoxes :: "art_ExportBundle \<Rightarrow> int \<Rightarrow> art_YOLOBox list \<Rightarrow> int \<Rightarrow> art_cocoAnnotation list" where
  "art_cocoBoxes b itemID [] nextID = []"
| "art_cocoBoxes b itemID (x # xs) nextID =
     \<lparr>ca_ID = nextID, ca_ImageID = itemID, ca_CategoryID = art_cocoCategoryID b x,
      ca_BBox = [yb_BBoxX x, yb_BBoxY x, yb_BBoxW x, yb_BBoxH x], ca_Area = yb_BBoxW x * yb_BBoxH x, ca_IsCrowd = 0\<rparr> #
     art_cocoBoxes b itemID xs (nextID + 1)"

fun art_cocoItems ::
  "art_encoder \<Rightarrow> (string \<Rightarrow> string) \<Rightarrow> art_source \<Rightarrow> art_ExportBundle \<Rightarrow> art_ExportItem list \<Rightarrow> art_ManifestEntry list \<Rightarrow>
     art_cocoDocument \<Rightarrow> int \<Rightarrow> art_Package \<Rightarrow> (art_error, art_ManifestEntry list \<times> art_cocoDocument \<times> int, art_Package) outcome" where
  "art_cocoItems enc sha source b [] entries doc n k = (Inr (entries, doc, n), k)"
| "art_cocoItems enc sha source b (item # items) entries doc n k =
     and_then (art_writeObjectFile source (xi_ObjectKey item) (path_elements (path_join [''images'', xi_OutputName item])) k)
       (\<lambda>image k1.
          art_cocoItems enc sha source b items
            (entries @ [art_entry enc sha (path_join [''images'', xi_OutputName item]) image])
            (doc\<lparr>co_Images := co_Images doc @
                  [\<lparr>ci_ID = xi_ItemID item, ci_FileName = path_join [''images'', xi_OutputName item],
                    ci_Width = xi_Width item, ci_Height = xi_Height item\<rparr>],
                 co_Annotations := co_Annotations doc @ art_cocoBoxes b (xi_ItemID item) (xi_Boxes item) (n + 1)\<rparr>)
            (n + int (length (xi_Boxes item))) k1)"

definition art_writeCOCOPackage ::
  "art_encoder \<Rightarrow> (string \<Rightarrow> string) \<Rightarrow> art_source \<Rightarrow> art_ExportBundle \<Rightarrow> art_Package \<Rightarrow>
     (art_error, art_ManifestEntry list \<times> int, art_Package) outcome" where
  "art_writeCOCOPackage enc sha source b k =
     and_then (art_mkdir [''images''] k) (\<lambda>_ k1.
       let doc = \<lparr>co_Images = [], co_Annotations = [],
                  co_Categories = map (\<lambda>i. \<lparr>cc_ID = art_categoryIDAt b (int i), cc_Name = xb_Categories b ! i\<rparr>) [0..<length (xb_Categories b)]\<rparr> in
       and_then (art_cocoItems enc sha source b (xb_Items b) [] doc 0 k1) (\<lambda>(entries, doc', n) k2.
         and_then (art_write [''annotations.json''] (CocoFile doc') k2) (\<lambda>_ k3.
           (Inr (entries @ [art_entry enc sha ''annotations.json'' (CocoFile doc')], n), k3))))"

subsection \<open>Building\<close>

definition art_writePackageContents ::
  "art_encoder \<Rightarrow> (string \<Rightarrow> string) \<Rightarrow> art_source \<Rightarrow> art_ExportBundle \<Rightarrow> string \<Rightarrow> art_Package \<Rightarrow>
     (art_error, art_ManifestEntry list \<times> int, art_Package) outcome" where
  "art_writePackageContents enc sha source b format k =
     (if format = ''coco'' then art_writeCOCOPackage enc sha source b k
      else if format = ''yolo'' then art_writeYOLOPackage enc sha source b k
      else (Inl (ArtMessage (''unsupported format: '' @ format)), k))"

definition art_buildManifestCategoryMap :: "string list \<Rightarrow> (string \<times> string) list" where
  "art_buildManifestCategoryMap categories = map (\<lambda>i. (show_int (int i), categories ! i)) [0..<length categories]"

text \<open>The archive lists the files of the directory by name.\<close>

definition art_tarGzDir :: "art_Package \<Rightarrow> art_content" where
  "art_tarGzDir k =
     TarGz (sort_key fst (map (\<lambda>p. (join_with ''/'' p, the (fs_ReadFile p (pk_Files k)))) (pk_Written k)))"

record art_BuildOutput =
  bo_Package :: art_Package
  bo_Manifest :: art_Manifest
  bo_ArchiveName :: string
  bo_Archive :: art_content
  bo_ArchiveSHA256 :: string
  bo_ArchiveSize :: int

definition art_Build ::
  "art_encoder \<Rightarrow> (string \<Rightarrow> string) \<Rightarrow> art_source option \<Rightarrow> time \<Rightarrow> art_ExportBundle \<Rightarrow> art_error + art_BuildOutput" where
  "art_Build enc sha src now b =
     (case src of
        None \<Rightarrow> Inl (ArtMessage ''artifact builder source is not configured'')
      | Some source \<Rightarrow>
          let format = (if xb_Format b = [] then ''yolo'' else xb_Format b) in
          fst (and_then (art_writePackageContents enc sha source b format art_NewPackage) (\<lambda>(entries, n) k.
            let manifest = art_BuildManifestWithMetadata now (xb_Version b) (art_buildManifestCategoryMap (xb_Categories b))
                  \<lparr>ms_TotalImages = int (length (xb_Items b)), ms_TotalAnnotations = n, ms_TotalClasses = int (length (xb_Categories b))\<rparr>
                  (sort_key me_Path entries) in
            and_then (art_write [''manifest.json''] (ManifestFile manifest) k) (\<lambda>_ k'.
              let archive = art_tarGzDir k' in
              (Inr \<lparr>bo_Package = k', bo_Manifest = manifest, bo_ArchiveName = ''package.'' @ format @ ''.tar.gz'', bo_Archive = archive,
                    bo_ArchiveSHA256 = art_checksum enc sha archive, bo_ArchiveSize = art_size enc archive\<rparr>, k')))))"

end
