(* ===== verification/Artifact_Storage.thy ===== *)
theory Artifact_Storage
  imports Artifact_Export
begin

section \<open>Artifacts: the storage on the file system\<close>

text \<open>
  \<open>filesystem_storage.go\<close> and the package of a completed artifact (\<open>materializeCompletedArtifact\<close> in
  \<open>service.go\<close>). The working directory of a build is an \<open>art_Package\<close>; the storage lies under \<open>root\<close> in the file system of the
  process. The context of a request is never cancelled here, and a directory is not opened as an archive.
\<close>

definition artifactURIPrefix :: string where "artifactURIPrefix = ''artifact://''"

record art_StoreRequest =
  sq_Version :: string
  sq_ArchiveName :: string
  sq_Archive :: art_content
  sq_Package :: art_Package

record art_StoredArtifact =
  st_ArchivePath :: "string list"
  st_ManifestPath :: "string list"
  st_ArchiveURI :: string
  st_ManifestURI :: string
  st_ArchiveSize :: int

subsection \<open>Copying\<close>

definition art_copyFile :: "art_content option \<Rightarrow> string list \<Rightarrow> art_content fs \<Rightarrow> art_content fs option" where
  "art_copyFile src dst s = (case src of None \<Rightarrow> None | Some c \<Rightarrow> fs_put dst c s)"

text \<open>\<open>filepath.Walk\<close> visits names in lexical order, a directory before what it holds.\<close>

definition art_walk :: "art_Package \<Rightarrow> string list list" where
  "art_walk k = sort (pk_Dirs k @ pk_Written k)"

fun art_copyEntries :: "art_content fs \<Rightarrow> string list list \<Rightarrow> string list \<Rightarrow> art_content fs \<Rightarrow> art_content fs option" where
  "art_copyEntries src [] dst s = Some s"
| "art_copyEntries src (p # ps) dst s =
     (case (if src p = Some Dir then fs_MkdirAll (dst @ p) s else art_copyFile (fs_ReadFile p src) (dst @ p) s) of
        None \<Rightarrow> None
      | Some s' \<Rightarrow> art_copyEntries src ps dst s')"

definition art_copyDirContents :: "art_Package \<Rightarrow> string list \<Rightarrow> art_content fs \<Rightarrow> art_content fs option" where
  "art_copyDirContents k dst s = art_copyEntries (pk_Files k) (art_walk k) dst s"

subsection \<open>Storing a build\<close>

text \<open>\<open>filepath.Rel\<close> between two cleaned paths of which the second was joined from the first.\<close>

definition path_rel :: "string list \<Rightarrow> string list \<Rightarrow> string" where
  "path_rel base targ =
     (let n = length (longest_common_prefix base targ); xs = replicate (length base - n) ''..'' @ drop n targ
      in if xs = [] then ''.'' else join_with ''/'' xs)"

definition art_finalDir :: "string \<Rightarrow> string \<Rightarrow> string" where
  "art_finalDir dir version = path_join [dir, version]"

definition art_tempDir :: "string \<Rightarrow> string \<Rightarrow> string" where
  "art_tempDir dir version = art_finalDir dir version @ ''.tmp''"

text \<open>
  Everything between making the temporary directory and renaming it; the deferred \<open>RemoveAll\<close> follows. What fails
  half-way has changed only the temporary directory, so \<open>None\<close> need not keep it.
\<close>

definition art_fillTemp :: "art_StoreRequest \<Rightarrow> string list \<Rightarrow> string list \<Rightarrow> art_content fs \<Rightarrow> art_content fs option" where
  "art_fillTemp req tmp final s =
     (case art_copyDirContents (sq_Package req) tmp s of
        None \<Rightarrow> None
      | Some s1 \<Rightarrow>
          (case art_copyFile (Some (sq_Archive req)) (tmp @ [sq_ArchiveName req]) s1 of
             None \<Rightarrow> None
           | Some s2 \<Rightarrow>
               (case art_copyFile (fs_ReadFile [''manifest.json''] (pk_Files (sq_Package req))) (tmp @ [''manifest.json'']) s2 of
                  None \<Rightarrow> None
                | Some s3 \<Rightarrow> fs_Rename tmp final s3)))"

definition art_StoreBuild ::
  "art_encoder \<Rightarrow> string \<Rightarrow> art_StoreRequest \<Rightarrow> art_content fs \<Rightarrow> (art_error, art_StoredArtifact, art_content fs) outcome" where
  "art_StoreBuild enc dir req s =
     (if dir = [] then (Inl (ArtMessage ''filesystem storage root is not configured''), s)
      else if sq_Version req = [] then (Inl (ArtMessage ''version is required''), s)
      else if sq_ArchiveName req = [] then (Inl (ArtMessage ''archive path is required''), s)
      else
        let final = path_elements (art_finalDir dir (sq_Version req)); tmp = path_elements (art_tempDir dir (sq_Version req)) in
        case fs_MkdirAll (path_elements dir) s of
          None \<Rightarrow> (Inl (ArtExternal ''mkdir''), s)
        | Some s1 \<Rightarrow>
            if s1 final \<noteq> None then (Inl (ArtMessage (''artifact version '' @ sq_Version req @ '' already exists'')), s1)
            else
              (case fs_MkdirAll tmp (fs_RemoveAll tmp s1) of
                 None \<Rightarrow> (Inl (ArtExternal ''mkdir''), fs_RemoveAll tmp s1)
               | Some s2 \<Rightarrow>
                   (case art_fillTemp req tmp final s2 of
                      None \<Rightarrow> (Inl (ArtExternal ''store''), fs_RemoveAll tmp s2)
                    | Some s3 \<Rightarrow>
                        (case fs_ReadFile (final @ [sq_ArchiveName req]) s3 of
                           None \<Rightarrow> (Inl (ArtExternal ''stat''), fs_RemoveAll tmp s3)
                         | Some c \<Rightarrow>
                             (Inr \<lparr>st_ArchivePath = final @ [sq_ArchiveName req], st_ManifestPath = final @ [''manifest.json''],
                              st_ArchiveURI = artifactURIPrefix @ path_rel (path_elements dir) (final @ [sq_ArchiveName req]),
                              st_ManifestURI = artifactURIPrefix @ path_rel (path_elements dir) (final @ [''manifest.json'']),
                              st_ArchiveSize = art_size enc c\<rparr>, fs_RemoveAll tmp s3)))))"

definition art_OpenArchive :: "string \<Rightarrow> string \<Rightarrow> art_content fs \<Rightarrow> art_error + art_content" where
  "art_OpenArchive dir uri s =
     (if dir = [] then Inl (ArtMessage ''filesystem storage root is not configured'')
      else if \<not> has_prefix uri artifactURIPrefix then Inl (ArtMessage (''unsupported artifact uri '' @ uri))
      else case fs_ReadFile (path_elements (path_join [dir, trim_prefix uri artifactURIPrefix])) s of
             None \<Rightarrow> Inl (ArtExternal ''open'')
           | Some c \<Rightarrow> Inr c)"

subsection \<open>The package of a completed artifact\<close>

definition art_entryPath :: "art_BundleEntry \<Rightarrow> art_error + string list" where
  "art_entryPath e =
     (if be_Path e = [] then Inl (ArtMessage ''bundle entry path is required'')
      else
        let cleaned = path_clean (be_Path e) in
        if cleaned = ''.'' \<or> cleaned = [] \<or> is_abs cleaned \<or> has_prefix cleaned ''..''
        then Inl (ArtMessage (''invalid bundle entry path '' @ be_Path e))
        else Inr (path_elements cleaned))"

definition art_writeBundleEntry :: "art_BundleEntry \<Rightarrow> art_Package \<Rightarrow> (art_error, string list, art_Package) outcome" where
  "art_writeBundleEntry e k =
     (case art_entryPath e of
        Inl err \<Rightarrow> (Inl err, k)
      | Inr p \<Rightarrow>
          and_then (if butlast p = [] then (Inr (), k) else art_mkdir (butlast p) k) (\<lambda>_ k1.
          and_then (art_write p (Raw (be_Body e)) k1) (\<lambda>_ k2. (Inr p, k2))))"

fun art_writeBundleEntries ::
  "art_BundleEntry list \<Rightarrow> art_ManifestEntry list \<Rightarrow> art_Package \<Rightarrow> (art_error, art_ManifestEntry list, art_Package) outcome" where
  "art_writeBundleEntries [] ms k = (Inr ms, k)"
| "art_writeBundleEntries (e # es) ms k =
     and_then (art_writeBundleEntry e k) (\<lambda>p k'.
       art_writeBundleEntries es
         (ms @ [\<lparr>me_Path = join_with ''/'' p, me_Size = int (length (be_Body e)), me_Checksum = be_Checksum e\<rparr>]) k')"

definition art_materializeCompletedArtifact ::
  "time \<Rightarrow> string \<Rightarrow> string \<Rightarrow> art_BundleEntry list \<Rightarrow> art_error + art_StoreRequest" where
  "art_materializeCompletedArtifact now format version entries =
     fst (and_then (art_writeBundleEntries entries [] art_NewPackage) (\<lambda>ms k.
       and_then (art_write [''manifest.json''] (ManifestFile (art_BuildManifest now version (sort_key me_Path ms))) k) (\<lambda>_ k'.
         (Inr \<lparr>sq_Version = version, sq_ArchiveName = ''package.'' @ (if format = [] then ''yolo'' else format) @ ''.tar.gz'',
               sq_Archive = art_tarGzDir k', sq_Package = k'\<rparr>, k'))))"

end
