(* ===== verification/Artifact_Service.thy ===== *)
theory Artifact_Service
  imports Artifact_Storage Metrics
begin

section \<open>Artifacts: the service and the build runner\<close>

text \<open>
  \<open>service.go\<close>, \<open>build_runner.go\<close> and \<open>ExportQuery.ResolveProjectID\<close>. What the constructors wire is \<open>art_Config\<close>, each part
  of it optional as in the code; what operations change is \<open>art_Service\<close>. Uploads, presigned URLs and database rows
  come from functions of the configuration; uploads are kept in order. The queue of the runner holds artifact
  numbers; a send on a full channel blocks its caller and is not a step.
\<close>

subsection \<open>Configuration and state\<close>

type_synonym art_query = "int \<Rightarrow> int \<Rightarrow> art_error + art_SnapshotRows"
type_synonym art_upload = "string \<Rightarrow> string \<Rightarrow> string + int"
type_synonym art_presign = "string \<Rightarrow> int \<Rightarrow> string + string"
type_synonym art_scope = "int \<Rightarrow> int \<Rightarrow> art_error + int"

record art_Config =
  ac_enc :: art_encoder
  ac_sha :: "string \<Rightarrow> string"
  ac_completion :: "int \<Rightarrow> string \<Rightarrow> art_BundleEntry list \<Rightarrow> string"
  ac_query :: "art_query option"
  ac_builder :: "art_source option option"
  ac_storage :: "string option"
  ac_runner :: bool
  ac_bucket :: string
  ac_upload :: "art_upload option"
  ac_presign :: "art_presign option"
  ac_scope :: "art_scope option"

record art_Service =
  as_Repo :: art_Repo
  as_Files :: "art_content fs"
  as_Queue :: "int list"
  as_Uploads :: "(string \<times> string) list"
  as_Metrics :: "obs_Metrics option"

definition art_on_repo :: "(art_Repo \<Rightarrow> (art_error, 'a, art_Repo) outcome) \<Rightarrow> art_Service \<Rightarrow> (art_error, 'a, art_Service) outcome" where
  "art_on_repo f s = (let (x, r) = f (as_Repo s) in (x, s\<lparr>as_Repo := r\<rparr>))"

definition art_outcome :: "string \<Rightarrow> art_Service \<Rightarrow> art_Service" where
  "art_outcome st s = s\<lparr>as_Metrics := obs_IncArtifactBuildOutcome st (as_Metrics s)\<rparr>"

text \<open>\<open>ExportQuery.ResolveProjectID\<close>: the first column of the metadata row.\<close>

definition art_query_ResolveProjectID :: "art_query \<Rightarrow> art_scope" where
  "art_query_ResolveProjectID q datasetID snapshotID =
     (case q datasetID snapshotID of
        Inl e \<Rightarrow> Inl e
      | Inr rows \<Rightarrow> (case sr_Metadata rows of None \<Rightarrow> Inl (ArtNoSnapshot datasetID snapshotID) | Some (projectID, v) \<Rightarrow> Inr projectID))"

definition art_resolveProjectID :: "art_Config \<Rightarrow> int \<Rightarrow> int \<Rightarrow> int \<Rightarrow> art_error + int" where
  "art_resolveProjectID cfg datasetID snapshotID fallbackProjectID =
     (case ac_scope cfg of
        Some scope \<Rightarrow> scope datasetID snapshotID
      | None \<Rightarrow> Inr (if 0 < fallbackProjectID then fallbackProjectID else 1))"

subsection \<open>Creating\<close>

definition art_MarkStaleBuildsFailed :: "int list \<Rightarrow> string \<Rightarrow> art_Service \<Rightarrow> int \<times> art_Service" where
  "art_MarkStaleBuildsFailed ks reason s =
     (let (n, r) = art_repo_MarkStaleBuildsFailed ks reason 0 (as_Repo s) in (n, s\<lparr>as_Repo := r\<rparr>))"

definition art_objectURI :: "string \<Rightarrow> int \<Rightarrow> int \<Rightarrow> string \<Rightarrow> string \<Rightarrow> string" where
  "art_objectURI bucket datasetID snapshotID version name =
     ''s3://'' @ bucket @ ''/artifacts/'' @ show_int datasetID @ ''/'' @ show_int snapshotID @ ''/'' @ version @ ''/'' @ name"

definition art_CreateArtifact ::
  "art_Config \<Rightarrow> time \<Rightarrow> art_PackageRequest \<Rightarrow> string \<Rightarrow> art_Service \<Rightarrow> (art_error, art_Artifact, art_Service) outcome" where
  "art_CreateArtifact cfg now inp status s =
     (if pr_DatasetID inp \<le> 0 \<or> pr_SnapshotID inp \<le> 0 then (Inl (ArtMessage ''dataset_id and snapshot_id are required''), s)
      else if pr_Format inp = [] then (Inl (ArtMessage ''format is required''), s)
      else if pr_Format inp \<noteq> ''yolo'' \<and> pr_Format inp \<noteq> ''coco'' then (Inl (ArtMessage (''unsupported format: '' @ pr_Format inp)), s)
      else
        let version = (if pr_Version inp = [] then ''v'' @ show_int (pr_SnapshotID inp) else pr_Version inp);
            uri = art_objectURI (ac_bucket cfg) (pr_DatasetID inp) (pr_SnapshotID inp) version;
            (a, r) = art_repo_Create now
              \<lparr>at_ID = 0, at_ProjectID = (if pr_ProjectID inp \<le> 0 then 1 else pr_ProjectID inp), at_DatasetID = pr_DatasetID inp,
               at_SnapshotID = pr_SnapshotID inp, at_CreatedByJobID = None, at_ArtifactType = ''dataset-export'',
               at_Format = pr_Format inp, at_Version = version, at_URI = uri (''package.'' @ pr_Format inp @ ''.tar.gz''),
               at_ManifestURI = uri ''manifest.json'', at_Checksum = ''pending'', at_Size = 0,
               at_LabelMapJSON = pr_LabelMapJSON inp, at_Entries = [],
               at_Status = (if status = [] then art_StatusPending else status), at_ErrorMsg = [], at_CreatedAt = zero_time\<rparr> (as_Repo s)
        in (Inr a, s\<lparr>as_Repo := r\<rparr>))"

definition art_CreatePackageJob ::
  "art_Config \<Rightarrow> time \<Rightarrow> art_PackageRequest \<Rightarrow> art_Service \<Rightarrow> (art_error, art_Artifact, art_Service) outcome" where
  "art_CreatePackageJob cfg now inp s =
     and_then (art_CreateArtifact cfg now inp art_StatusPending s) (\<lambda>a s'.
       (Inr a, if ac_runner cfg then s'\<lparr>as_Queue := as_Queue s' @ [at_ID a]\<rparr> else s'))"

definition art_LinkArtifactJob :: "int \<Rightarrow> int \<Rightarrow> art_Service \<Rightarrow> (art_error, art_Artifact, art_Service) outcome" where
  "art_LinkArtifactJob artifactID jobID s =
     (if artifactID \<le> 0 \<or> jobID \<le> 0 then (Inl (ArtMessage ''artifact_id and job_id are required''), s)
      else art_on_repo (art_repo_LinkJob artifactID jobID) s)"

subsection \<open>Reading\<close>

definition art_GetArtifact :: "int \<Rightarrow> art_Repo \<Rightarrow> art_error + art_Artifact" where
  "art_GetArtifact i r = (case art_repo_Get i r of None \<Rightarrow> Inl (ArtNotFound i) | Some a \<Rightarrow> Inr a)"

definition art_ResolveArtifact :: "int list \<Rightarrow> string \<Rightarrow> string \<Rightarrow> string \<Rightarrow> art_Repo \<Rightarrow> art_error + art_Artifact" where
  "art_ResolveArtifact ks dataset format version r =
     (case (if dataset \<noteq> [] then art_repo_FindReadyByDatasetFormatVersion ks dataset format version r
            else art_repo_FindReadyByFormatVersion ks format version r) of
        None \<Rightarrow> Inl (ArtUnresolved dataset format version)
      | Some a \<Rightarrow> Inr a)"

definition art_PresignArtifact :: "art_Config \<Rightarrow> int \<Rightarrow> int \<Rightarrow> art_Repo \<Rightarrow> art_error + string" where
  "art_PresignArtifact cfg i ttlSeconds r =
     (case art_GetArtifact i r of
        Inl e \<Rightarrow> Inl e
      | Inr a \<Rightarrow>
          if at_Status a \<noteq> art_StatusReady then Inl (ArtState (at_ID a) (at_Status a) ''downloaded'')
          else
            (case ac_presign cfg of
               Some presign \<Rightarrow>
                 (case presign (at_URI a) (if ttlSeconds \<le> 0 then 120 else ttlSeconds) of Inl e \<Rightarrow> Inl (ArtExternal e) | Inr u \<Rightarrow> Inr u)
             | None \<Rightarrow>
                 if ac_storage cfg \<noteq> None \<and> has_prefix (at_URI a) artifactURIPrefix
                 then Inr (''/v1/artifacts/'' @ show_int (at_ID a) @ ''/download'')
                 else Inl (ArtMessage ''artifact presign is not configured'')))"

definition art_OpenArtifactArchive :: "art_Config \<Rightarrow> int \<Rightarrow> art_Service \<Rightarrow> art_error + art_content \<times> int \<times> art_Artifact" where
  "art_OpenArtifactArchive cfg i s =
     (case art_GetArtifact i (as_Repo s) of
        Inl e \<Rightarrow> Inl e
      | Inr a \<Rightarrow>
          if at_Status a \<noteq> art_StatusReady then Inl (ArtState (at_ID a) (at_Status a) ''downloaded'')
          else
            (case ac_storage cfg of
               None \<Rightarrow> Inl (ArtMessage ''artifact storage is not configured'')
             | Some dir \<Rightarrow>
                 (case art_OpenArchive dir (at_URI a) (as_Files s) of
                    Inl e \<Rightarrow> Inl e
                  | Inr c \<Rightarrow> Inr (c, art_size (ac_enc cfg) c, a))))"

subsection \<open>Completion\<close>

definition art_buildArtifactCompletionPackage :: "art_Config \<Rightarrow> int \<Rightarrow> string \<Rightarrow> art_BundleEntry list \<Rightarrow> string \<times> string" where
  "art_buildArtifactCompletionPackage cfg i version entries =
     (let body = ac_completion cfg i version entries in (art_NormalizeSHA256Checksum (ac_sha cfg body), body))"

definition art_MarkArtifactReady ::
  "int \<Rightarrow> string \<Rightarrow> string \<Rightarrow> string \<Rightarrow> int \<Rightarrow> art_Service \<Rightarrow> (art_error, art_Artifact, art_Service) outcome" where
  "art_MarkArtifactReady i uri manifestURI checksum sz s =
     (if uri = [] then (Inl (ArtMessage ''uri is required''), s)
      else if manifestURI = [] then (Inl (ArtMessage ''manifest_uri is required''), s)
      else if checksum = [] then (Inl (ArtMessage ''checksum is required''), s)
      else if sz < 0 then (Inl (ArtMessage ''size must be >= 0''), s)
      else art_on_repo (art_repo_UpdateBuildResult i
             \<lparr>br_Status = art_StatusReady, br_URI = uri, br_ManifestURI = manifestURI,
              br_Checksum = art_NormalizeSHA256Checksum checksum, br_Size = sz, br_ErrorMsg = []\<rparr>) s)"

text \<open>The end of both completions: the artifact becomes ready, the outcome is counted, the record is read again.\<close>

definition art_finishCompletion ::
  "int \<Rightarrow> string \<Rightarrow> string \<Rightarrow> string \<Rightarrow> int \<Rightarrow> art_Service \<Rightarrow> (art_error, art_Artifact, art_Service) outcome" where
  "art_finishCompletion i uri manifestURI checksum sz s =
     and_then (art_MarkArtifactReady i uri manifestURI checksum sz s) (\<lambda>_ s'.
       (art_GetArtifact i (as_Repo s'), art_outcome art_StatusReady s'))"

definition art_store :: "art_Config \<Rightarrow> string \<Rightarrow> art_StoreRequest \<Rightarrow> art_Service \<Rightarrow> (art_error, art_StoredArtifact, art_Service) outcome" where
  "art_store cfg dir req s =
     (let (x, fs) = art_StoreBuild (ac_enc cfg) dir req (as_Files s) in (x, s\<lparr>as_Files := fs\<rparr>))"

definition art_completeArtifactToStorage ::
  "art_Config \<Rightarrow> time \<Rightarrow> string \<Rightarrow> art_Artifact \<Rightarrow> art_BundleEntry list \<Rightarrow> art_Service \<Rightarrow> (art_error, art_Artifact, art_Service) outcome" where
  "art_completeArtifactToStorage cfg now dir a entries s =
     (let checksum = fst (art_buildArtifactCompletionPackage cfg (at_ID a) (at_Version a) entries) in
      case art_materializeCompletedArtifact now (at_Format a) (at_Version a) entries of
        Inl e \<Rightarrow> (Inl e, s)
      | Inr req \<Rightarrow>
          and_then (art_store cfg dir req s) (\<lambda>st s'.
            art_finishCompletion (at_ID a) (st_ArchiveURI st) (st_ManifestURI st) checksum (st_ArchiveSize st) s'))"

definition art_put_object :: "art_upload \<Rightarrow> string \<Rightarrow> string \<Rightarrow> art_Service \<Rightarrow> (art_error, int, art_Service) outcome" where
  "art_put_object upload uri body s =
     (case upload uri body of
        Inl e \<Rightarrow> (Inl (ArtExternal e), s)
      | Inr n \<Rightarrow> (Inr n, s\<lparr>as_Uploads := as_Uploads s @ [(uri, body)]\<rparr>))"

definition art_completeArtifactToObjects ::
  "art_Config \<Rightarrow> time \<Rightarrow> art_upload \<Rightarrow> art_Artifact \<Rightarrow> art_BundleEntry list \<Rightarrow> art_Service \<Rightarrow> (art_error, art_Artifact, art_Service) outcome" where
  "art_completeArtifactToObjects cfg now upload a entries s =
     (let (checksum, body) = art_buildArtifactCompletionPackage cfg (at_ID a) (at_Version a) entries;
          manifest = art_BuildManifest now (at_Version a)
            (map (\<lambda>e. \<lparr>me_Path = be_Path e, me_Size = int (length (be_Body e)), me_Checksum = be_Checksum e\<rparr>) entries)
      in and_then (art_put_object upload (at_URI a) body s) (\<lambda>n s1.
         and_then (art_put_object upload (at_ManifestURI a) (ac_enc cfg (ManifestFile manifest)) s1) (\<lambda>_ s2.
           art_finishCompletion (at_ID a) (at_URI a) (at_ManifestURI a) checksum n s2)))"

definition art_CompleteArtifact ::
  "art_Config \<Rightarrow> time \<Rightarrow> int \<Rightarrow> art_BundleEntry list \<Rightarrow> art_Service \<Rightarrow> (art_error, art_Artifact, art_Service) outcome" where
  "art_CompleteArtifact cfg now i entries s =
     (case art_GetArtifact i (as_Repo s) of
        Inl e \<Rightarrow> (Inl e, s)
      | Inr a \<Rightarrow>
          if at_Status a = art_StatusReady then
            (if entries = [] then Inl (ArtMessage ''entries are required'')
             else if art_NormalizeSHA256Checksum (at_Checksum a) = fst (art_buildArtifactCompletionPackage cfg (at_ID a) (at_Version a) entries)
             then Inr a else Inl (ArtConflict (at_ID a)), s)
          else if \<not> art_unfinished (at_Status a) then (Inl (ArtState (at_ID a) (at_Status a) ''completed''), s)
          else if entries = [] then (Inl (ArtMessage ''entries are required''), s)
          else
            (case ac_storage cfg of
               Some dir \<Rightarrow> art_completeArtifactToStorage cfg now dir a entries s
             | None \<Rightarrow>
                 (case ac_upload cfg of
                    None \<Rightarrow> (Inl (ArtMessage ''artifact storage is not configured''), s)
                  | Some upload \<Rightarrow> art_completeArtifactToObjects cfg now upload a entries s)))"

subsection \<open>Builds in the process\<close>

text \<open>\<open>msg\<close> is \<open>Error()\<close> of the build error; the error itself is the result.\<close>

definition art_error_text :: "art_error \<Rightarrow> string" where
  "art_error_text e =
     (case e of
        ArtNotFound i \<Rightarrow> ''artifact '' @ show_int i @ '': not found''
      | ArtNoSnapshot d n \<Rightarrow> ''dataset '' @ show_int d @ '' snapshot '' @ show_int n @ '': not found''
      | ArtState i st act \<Rightarrow> ''artifact '' @ show_int i @ '' is '' @ st @ (if act = [] then [] else '' and cannot be '' @ act)
      | ArtConflict i \<Rightarrow> ''artifact '' @ show_int i @ '' already completed with different bundle entries''
      | ArtMissing i \<Rightarrow> ''artifact '' @ show_int i @ '' not found''
      | ArtUnresolved d f v \<Rightarrow> ''artifact '' @ (if d = [] then [] else d @ ''/'') @ f @ ''@'' @ v @ '' not found''
      | ArtMessage msg \<Rightarrow> msg
      | ArtExternal msg \<Rightarrow> msg)"

definition art_failBuild :: "int \<Rightarrow> art_error \<Rightarrow> art_Service \<Rightarrow> (art_error, unit, art_Service) outcome" where
  "art_failBuild i e s =
     and_then (art_on_repo (art_repo_UpdateBuildResult i
         \<lparr>br_Status = art_StatusFailed, br_URI = [], br_ManifestURI = [], br_Checksum = [], br_Size = 0, br_ErrorMsg = art_error_text e\<rparr>) s)
       (\<lambda>_ s'. (Inl e, art_outcome art_StatusFailed s'))"

definition art_bundleFor :: "art_Artifact \<Rightarrow> art_ExportBundle \<Rightarrow> art_ExportBundle" where
  "art_bundleFor a b =
     b\<lparr>xb_Format := at_Format a,
       xb_Categories := (if at_LabelMapJSON a = [] then xb_Categories b else art_ApplyLabelMap (xb_Categories b) (at_LabelMapJSON a))\<rparr>"

definition art_buildAndStore ::
  "art_Config \<Rightarrow> time \<Rightarrow> art_source option \<Rightarrow> string \<Rightarrow> art_Artifact \<Rightarrow> art_ExportBundle \<Rightarrow> art_Service \<Rightarrow>
     (art_error, unit, art_Service) outcome" where
  "art_buildAndStore cfg now source dir a b s =
     (case art_Build (ac_enc cfg) (ac_sha cfg) source now (art_bundleFor a b) of
        Inl e \<Rightarrow> art_failBuild (at_ID a) e s
      | Inr out \<Rightarrow>
          (case art_store cfg dir
                  \<lparr>sq_Version = at_Version a, sq_ArchiveName = bo_ArchiveName out, sq_Archive = bo_Archive out, sq_Package = bo_Package out\<rparr> s of
             (Inl e, s') \<Rightarrow> art_failBuild (at_ID a) e s'
           | (Inr st, s') \<Rightarrow>
               and_then (art_on_repo (art_repo_UpdateBuildResult (at_ID a)
                   \<lparr>br_Status = art_StatusReady, br_URI = st_ArchiveURI st, br_ManifestURI = st_ManifestURI st,
                    br_Checksum = bo_ArchiveSHA256 out, br_Size = st_ArchiveSize st, br_ErrorMsg = []\<rparr>) s')
                 (\<lambda>_ s2. (Inr (), art_outcome art_StatusReady s2))))"

text \<open>\<open>None\<close>: the search for an output name does not end.\<close>

definition art_buildArtifact :: "art_Config \<Rightarrow> time \<Rightarrow> int \<Rightarrow> art_Service \<Rightarrow> (art_error, unit, art_Service) outcome option" where
  "art_buildArtifact cfg now i s =
     (case (ac_query cfg, ac_builder cfg, ac_storage cfg) of
        (Some q, Some source, Some dir) \<Rightarrow>
          (case art_repo_Get i (as_Repo s) of
             None \<Rightarrow> Some (Inl (ArtMissing i), s)
           | Some a \<Rightarrow>
               (case art_on_repo (art_repo_UpdateStatus i art_StatusBuilding []) s of
                  (Inl e, s') \<Rightarrow> Some (Inl e, s')
                | (Inr _, s') \<Rightarrow>
                    (case q (at_DatasetID a) (at_SnapshotID a) of
                       Inl e \<Rightarrow> Some (art_failBuild i e s')
                     | Inr rows \<Rightarrow>
                         (case art_LoadSnapshotBundle rows (at_DatasetID a) (at_SnapshotID a) (at_Version a) of
                            None \<Rightarrow> None
                          | Some (Inl e) \<Rightarrow> Some (art_failBuild i e s')
                          | Some (Inr b) \<Rightarrow> Some (art_buildAndStore cfg now source dir a b s')))))
      | _ \<Rightarrow> Some (art_failBuild i (ArtMessage ''artifact build dependencies are not configured'') s))"

text \<open>One turn of a worker: it takes the oldest number and drops the error of its build.\<close>

definition art_runner_step :: "art_Config \<Rightarrow> time \<Rightarrow> art_Service \<Rightarrow> art_Service option" where
  "art_runner_step cfg now s =
     (case as_Queue s of
        [] \<Rightarrow> Some s
      | i # rest \<Rightarrow> map_option snd (art_buildArtifact cfg now i (s\<lparr>as_Queue := rest\<rparr>)))"

end
