(* ===== verification/Artifact_Store_Facts.thy ===== *)
theory Artifact_Store_Facts
  imports Artifact_Storage
begin

section \<open>Artifacts: what the storage keeps\<close>

text \<open>
  A version that is one path element gets its own directory below the root. What a store leaves there opens again
  under the URI it reports, and it touches nothing but that directory and the temporary one beside it.
\<close>

lemma longest_common_prefix_append: "longest_common_prefix xs (xs @ ys) = xs"
  by (induction xs) (cases ys, simp_all)

lemma path_rel_below: "ys \<noteq> [] \<Longrightarrow> path_rel xs (xs @ ys) = join_with [slash] ys"
  by (simp add: path_rel_def longest_common_prefix_append)

lemma path_text_snoc: "path_text r (es @ [v]) @ w = path_text r (es @ [v @ w])"
proof -
  have "join_with [slash] (es @ [v]) @ w = join_with [slash] (es @ [v @ w])"
    by (cases "es = []") (simp_all add: join_with_app)
  then show ?thesis by (simp add: path_text_def)
qed

lemma clean_elements_snoc: "clean_elements r es \<Longrightarrow> plain v \<Longrightarrow> clean_elements r (es @ [v])"
proof -
  assume "clean_elements r es" "plain v"
  then obtain vs us where "es = vs @ us" "list_all plain us" "list_all (\<lambda>c. c = ''..'') vs" "r \<longrightarrow> vs = []"
    unfolding clean_elements_def by blast
  with \<open>plain v\<close> show ?thesis unfolding clean_elements_def by (intro exI [of _ vs] exI [of _ "us @ [v]"]) simp
qed

definition version_ok :: "string \<Rightarrow> bool" where
  "version_ok v \<longleftrightarrow> plain v \<and> \<not> has_prefix (rev v) (rev ''.tmp'')"

lemma art_dirs:
  assumes "dir \<noteq> []" "plain v"
  shows "path_elements (art_finalDir dir v) = path_elements dir @ [v]"
    and "path_elements (art_tempDir dir v) = path_elements dir @ [v @ ''.tmp'']"
proof -
  have j: "path_elements (path_join [dir, v]) = path_elements dir @ [v]" "is_abs (path_join [dir, v]) = is_abs dir"
    "path_clean (path_join [dir, v]) = path_join [dir, v]"
    using path_join_below [OF assms(1), of "[v]"] assms(2) by simp_all
  then show "path_elements (art_finalDir dir v) = path_elements dir @ [v]" by (simp add: art_finalDir_def)
  have pv: "plain (v @ ''.tmp'')" using assms(2) by (auto simp: plain_def)
  have "path_join [dir, v] = path_text (is_abs dir) (path_elements dir @ [v])"
    using path_clean_text [of "path_join [dir, v]"] unfolding j .
  then have "art_tempDir dir v = path_text (is_abs dir) (path_elements dir @ [v @ ''.tmp''])"
    unfolding art_tempDir_def art_finalDir_def by (simp only: path_text_snoc)
  then show "path_elements (art_tempDir dir v) = path_elements dir @ [v @ ''.tmp'']"
    using clean_elements_text(1) [OF clean_elements_snoc [OF clean_elements_path [of dir] pv]] by simp
qed

subsection \<open>What filling the temporary directory can change\<close>

definition fs_within :: "string list \<Rightarrow> 'c fs \<Rightarrow> 'c fs \<Rightarrow> bool" where
  "fs_within d s s' \<longleftrightarrow> fs_ok s' \<and> s' d = Some Dir \<and> (\<forall>q. s' q \<noteq> s q \<longrightarrow> prefix d q)"

lemma fs_within_trans: "fs_within d s s1 \<Longrightarrow> fs_within d s1 s2 \<Longrightarrow> fs_within d s s2"
  unfolding fs_within_def by metis

lemma fs_MkdirAll_within: "fs_MkdirAll (d @ p) s = Some s' \<Longrightarrow> fs_ok s \<Longrightarrow> s d = Some Dir \<Longrightarrow> fs_within d s s'"
  using fs_MkdirAll_below [of "d @ p" s s' d] fs_MkdirAll_ok [of "d @ p" s s'] by (auto simp: fs_within_def)

lemma fs_put_within:
  assumes "fs_put (d @ p) c s = Some s'" "fs_ok s" "s d = Some Dir"
  shows "fs_within d s s'"
proof -
  note put = fs_put_spec [OF assms(1,2)]
  have "prefix d q" if h: "s' q \<noteq> s q" for q
  proof (rule ccontr)
    assume n: "\<not> prefix d q"
    have "prefix q (d @ p)" by (rule put(4) [OF h])
    then have "strict_prefix q d" using n prefix_same_cases [of q "d @ p" d] by (auto simp: strict_prefix_def)
    then have "s q = Some Dir" using fs_ok_strict [OF assms(2), of d q] assms(3) by simp
    then show False using put(5) h by simp
  qed
  then show ?thesis using put(2,5) assms(3) by (simp add: fs_within_def)
qed

lemma art_copyEntries_within:
  "art_copyEntries src ps d s = Some s' \<Longrightarrow> fs_ok s \<Longrightarrow> s d = Some Dir \<Longrightarrow> fs_within d s s'"
proof (induction ps arbitrary: s)
  case (Cons p ps)
  obtain s1 where s1: "(if src p = Some Dir then fs_MkdirAll (d @ p) s else art_copyFile (fs_ReadFile p src) (d @ p) s) = Some s1"
    "art_copyEntries src ps d s1 = Some s'" using Cons.prems(1) by (auto split: option.splits)
  have "fs_within d s s1"
    using s1(1) fs_MkdirAll_within [of d p s s1] fs_put_within [of d p _ s s1] Cons.prems(2,3)
    by (auto simp: art_copyFile_def split: if_splits option.splits)
  moreover from this have "fs_within d s1 s'" using Cons.IH [OF s1(2)] by (simp add: fs_within_def)
  ultimately show ?case by (rule fs_within_trans)
qed (simp add: fs_within_def)

lemma art_fillTemp_within:
  assumes "art_fillTemp req tmp final s = Some s'" "fs_ok s" "s tmp = Some Dir" "sq_ArchiveName req \<noteq> ''manifest.json''"
  obtains s3 where "fs_within tmp s s3" "s3 (tmp @ [sq_ArchiveName req]) = Some (File (sq_Archive req))" "fs_Rename tmp final s3 = Some s'"
proof -
  obtain s1 s2 s3 m where st: "art_copyDirContents (sq_Package req) tmp s = Some s1"
    "fs_put (tmp @ [sq_ArchiveName req]) (sq_Archive req) s1 = Some s2"
    "fs_put (tmp @ [''manifest.json'']) m s2 = Some s3" "fs_Rename tmp final s3 = Some s'"
    using assms(1) by (auto simp: art_fillTemp_def art_copyFile_def split: option.splits)
  have w1: "fs_within tmp s s1" using art_copyEntries_within [OF st(1) [unfolded art_copyDirContents_def] assms(2,3)] .
  have w2: "fs_within tmp s1 s2" using fs_put_within [OF st(2)] w1 by (simp add: fs_within_def)
  have w3: "fs_within tmp s2 s3" using fs_put_within [OF st(3)] w2 by (simp add: fs_within_def)
  have "s2 (tmp @ [sq_ArchiveName req]) = Some (File (sq_Archive req))" using fs_put_spec(1) [OF st(2)] w1 by (simp add: fs_within_def)
  then have "s3 (tmp @ [sq_ArchiveName req]) = Some (File (sq_Archive req))"
    using fs_put_spec(3) [OF st(3), of "tmp @ [sq_ArchiveName req]"] w2 assms(4) by (simp add: fs_within_def)
  with fs_within_trans [OF fs_within_trans [OF w1 w2] w3] st(4) show thesis by (intro that)
qed

subsection \<open>Storing and opening\<close>

text \<open>
  Success or not, a store changes only the directory of the version, the temporary directory and, where they are missing,
  directories above.
\<close>

lemma fs_Rename_spec:
  assumes "fs_Rename p q s = Some s'"
  shows "s' k = (if prefix q k then s (p @ drop (length q) k) else if prefix p k then None else s k)" "q \<noteq> []" "s (butlast q) = Some Dir" "\<not> prefix p q" "s q = None"
  using assms by (auto simp: fs_Rename_def fs_moved_def split: if_splits)

lemma fs_Rename_ok:
  assumes "fs_Rename p q s = Some s'" "fs_ok s" "p \<noteq> []" "\<not> prefix q p" "s p = Some Dir"
  shows "fs_ok s'"
proof -
  note r = fs_Rename_spec [OF assms(1)]
  have "s' [] = Some Dir" using r(1) [of "[]"] r(2) assms(2,3) by (simp add: fs_okD)
  moreover have "s' k = Some Dir" if h: "s' (k @ [c]) \<noteq> None" for k c
  proof (cases "prefix q (k @ [c])")
    case True
    show ?thesis
    proof (cases "q = k @ [c]")
      case True
      then have k: "k = butlast q" by simp
      have "\<not> prefix q k" using r(2) unfolding k by (metis append_butlast_last_id not_Cons_self2 prefix_order.antisym prefixeq_butlast append_self_conv)
      moreover have "\<not> prefix p k" using r(4) unfolding k by (meson prefix_order.trans prefixeq_butlast)
      ultimately show ?thesis using r(1) [of k] r(3) by (simp add: k)
    next
      case False
      then have q: "prefix q k" using True by simp
      then have "drop (length q) (k @ [c]) = drop (length q) k @ [c]" using prefix_length_le by fastforce
      then have "s ((p @ drop (length q) k) @ [c]) \<noteq> None" using h r(1) [of "k @ [c]"] True by simp
      from fs_okD(2) [OF assms(2) this] show ?thesis using r(1) [of k] q by simp
    qed
  next
    case False
    then have nq: "\<not> prefix q k" by (meson prefix_order.trans prefixI)
    have "\<not> prefix p (k @ [c])" using h r(1) [of "k @ [c]"] False by (auto split: if_splits)
    then have np: "\<not> prefix p k" by (meson prefix_order.trans prefixI)
    have "s (k @ [c]) \<noteq> None" using h r(1) [of "k @ [c]"] False by (auto split: if_splits)
    from fs_okD(2) [OF assms(2) this] show ?thesis using r(1) [of k] nq np by simp
  qed
  ultimately show ?thesis unfolding fs_ok_def by blast
qed

definition art_archiveURI :: "string \<Rightarrow> string \<Rightarrow> string" where
  "art_archiveURI version name = artifactURIPrefix @ join_with [slash] [version, name]"

text \<open>Files outside a directory stay what they are.\<close>

definition fs_keeps :: "string list \<Rightarrow> 'c fs \<Rightarrow> 'c fs \<Rightarrow> bool" where
  "fs_keeps d s s' \<longleftrightarrow> (\<forall>q c. s q = Some (File c) \<longrightarrow> \<not> prefix d q \<longrightarrow> s' q = Some (File c))"

lemma fs_keeps_refl [simp]: "fs_keeps d s s"
  by (simp add: fs_keeps_def)

lemma fs_keeps_trans: "fs_keeps d s s1 \<Longrightarrow> fs_keeps d s1 s2 \<Longrightarrow> fs_keeps d s s2"
  by (simp add: fs_keeps_def)

lemma fs_keeps_MkdirAll: "fs_MkdirAll p s = Some s' \<Longrightarrow> fs_keeps d s s'"
  by (simp add: fs_keeps_def fs_MkdirAll_spec)

lemma fs_keeps_RemoveAll: "fs_keeps d s (fs_RemoveAll d s)"
  by (simp add: fs_keeps_def fs_RemoveAll_def)

lemma fs_keeps_within: "fs_within d s s' \<Longrightarrow> fs_keeps d s s'"
  unfolding fs_keeps_def fs_within_def by metis

lemma art_fillTemp_spec:
  assumes "art_fillTemp req tmp final s = Some s'" "fs_ok s" "s tmp = Some Dir" "sq_ArchiveName req \<noteq> ''manifest.json''"
    and "s final = None" "tmp \<noteq> []" "\<not> prefix final tmp" "\<not> prefix tmp final"
  shows "fs_ok s'" "fs_keeps tmp s s'" "s' (final @ [sq_ArchiveName req]) = Some (File (sq_Archive req))"
proof -
  obtain s3 where s3: "fs_within tmp s s3" "s3 (tmp @ [sq_ArchiveName req]) = Some (File (sq_Archive req))" "fs_Rename tmp final s3 = Some s'"
    by (rule art_fillTemp_within [OF assms(1-4)])
  note r = fs_Rename_spec [OF s3(3)]
  show "fs_ok s'" using fs_Rename_ok [OF s3(3) _ assms(6,7)] s3(1) by (simp add: fs_within_def)
  show "s' (final @ [sq_ArchiveName req]) = Some (File (sq_Archive req))" using r(1) s3(2) by simp
  have "s' q = Some (File c)" if h: "s3 q = Some (File c)" "\<not> prefix tmp q" for q c
  proof -
    have "\<not> prefix final q"
    proof
      assume "prefix final q"
      then have "s3 final \<noteq> None" using fs_ok_prefix [of s3 q final] s3(1) h(1) by (simp add: fs_within_def)
      then show False using r(5) by simp
    qed
    then show ?thesis using r(1) [of q] h by simp
  qed
  then have "fs_keeps tmp s3 s'" by (simp add: fs_keeps_def)
  then show "fs_keeps tmp s s'" using fs_keeps_trans [OF fs_keeps_within [OF s3(1)]] by blast
qed

lemma art_StoreBuild_spec:
  assumes st: "art_StoreBuild enc dir req s = (x, s')" and dir: "dir \<noteq> []" and v: "plain (sq_Version req)"
    and n: "plain (sq_ArchiveName req)" "sq_ArchiveName req \<noteq> ''manifest.json''" and ok: "fs_ok s"
  shows "fs_ok s' \<and> fs_keeps (path_elements dir @ [sq_Version req @ ''.tmp'']) s s' \<and>
    (\<forall>r. x = Inr r \<longrightarrow> s (path_elements dir @ [sq_Version req]) = None \<and>
       s' (path_elements dir @ [sq_Version req, sq_ArchiveName req]) = Some (File (sq_Archive req)) \<and>
       st_ArchiveURI r = art_archiveURI (sq_Version req) (sq_ArchiveName req) \<and>
       st_ManifestURI r = art_archiveURI (sq_Version req) ''manifest.json'' \<and>
       st_ArchiveSize r = art_size enc (sq_Archive req))"
proof -
  let ?d = "path_elements dir" and ?v = "sq_Version req" and ?n = "sq_ArchiveName req"
  let ?final = "?d @ [?v]" and ?tmp = "?d @ [?v @ ''.tmp'']"
  have vn: "?v \<noteq> []" "?n \<noteq> []" using v n by (simp_all add: plain_def)
  note dirs = art_dirs [OF dir v]
  have apart: "\<not> prefix ?final ?tmp" "\<not> prefix ?tmp ?final" by simp_all
  show ?thesis
  proof (cases "fs_MkdirAll ?d s")
    case None
    then show ?thesis using st ok dir vn by (auto simp: art_StoreBuild_def Let_def)
  next
    case (Some s1)
    note ok1 = fs_MkdirAll_ok [OF Some ok] and k1 = fs_keeps_MkdirAll [OF Some, of ?tmp]
    have okr: "fs_ok (fs_RemoveAll ?tmp s1)" using fs_RemoveAll_ok [OF ok1] by simp
    note kr = fs_keeps_trans [OF k1 fs_keeps_RemoveAll]
    have final0: "s1 ?final = None \<Longrightarrow> s ?final = None" by (simp add: fs_MkdirAll_spec [OF Some])
    show ?thesis
    proof (cases "s1 ?final = None")
      case False
      then show ?thesis using st ok1 k1 dir vn by (auto simp: art_StoreBuild_def Let_def dirs Some)
    next
      case free: True
      show ?thesis
      proof (cases "fs_MkdirAll ?tmp (fs_RemoveAll ?tmp s1)")
        case None
        then show ?thesis using st okr kr dir vn free by (auto simp: art_StoreBuild_def Let_def dirs Some)
      next
        case s2: (Some s2)
        note ok2 = fs_MkdirAll_ok [OF s2 okr] and dir2 = fs_MkdirAll_dir [OF s2 okr]
        note k2 = fs_keeps_trans [OF kr fs_keeps_MkdirAll [OF s2]]
        have ok2r: "fs_ok (fs_RemoveAll ?tmp s2)" using fs_RemoveAll_ok [OF ok2] by simp
        have free2: "s2 ?final = None" using free apart by (auto simp: fs_MkdirAll_spec [OF s2] fs_RemoveAll_def)
        show ?thesis
        proof (cases "art_fillTemp req ?tmp ?final s2")
          case None
          then show ?thesis using st ok2r fs_keeps_trans [OF k2 fs_keeps_RemoveAll] dir vn free s2
            by (auto simp: art_StoreBuild_def Let_def dirs Some)
        next
          case s3: (Some s3)
          note f = art_fillTemp_spec [OF s3 ok2 dir2 n(2) free2 _ apart, simplified]
          have ok3: "fs_ok (fs_RemoveAll ?tmp s3)" using fs_RemoveAll_ok [OF f(1)] by simp
          note k3 = fs_keeps_trans [OF fs_keeps_trans [OF k2 f(2)] fs_keeps_RemoveAll]
          have here: "fs_RemoveAll ?tmp s3 (?d @ [?v, ?n]) = Some (File (sq_Archive req))"
            using f(3) by (simp add: fs_RemoveAll_def)
          have read: "fs_ReadFile (?d @ [?v, ?n]) s3 = Some (sq_Archive req)" using f(3) by (simp add: fs_ReadFile_Some)
          have rel: "path_rel ?d (?d @ [?v, y]) = join_with [slash] [?v, y]" for y by (rule path_rel_below) simp
          have x: "x = Inr \<lparr>st_ArchivePath = ?d @ [?v, ?n], st_ManifestPath = ?d @ [?v, ''manifest.json''],
              st_ArchiveURI = artifactURIPrefix @ path_rel ?d (?d @ [?v, ?n]),
              st_ManifestURI = artifactURIPrefix @ path_rel ?d (?d @ [?v, ''manifest.json'']),
              st_ArchiveSize = art_size enc (sq_Archive req)\<rparr>" "s' = fs_RemoveAll ?tmp s3"
            using st dir vn free s2 s3 read by (simp_all add: art_StoreBuild_def Let_def dirs Some)
          show ?thesis using ok3 k3 here final0 [OF free] unfolding x rel art_archiveURI_def by simp
        qed
      qed
    qed
  qed
qed

text \<open>Opening by the URI of a stored archive.\<close>

lemma art_OpenArchive_uri:
  assumes "dir \<noteq> []" "plain v" "plain n"
  shows "art_OpenArchive dir (art_archiveURI v n) s =
    (case fs_ReadFile (path_elements dir @ [v, n]) s of None \<Rightarrow> Inl (ArtExternal ''open'') | Some c \<Rightarrow> Inr c)"
proof -
  have p: "has_prefix (artifactURIPrefix @ w) artifactURIPrefix" "trim_prefix (artifactURIPrefix @ w) artifactURIPrefix = w" for w
    by (simp_all add: has_prefix_def trim_prefix_def)
  have "path_elements (path_join [dir, join_with [slash] [v, n]]) = path_elements dir @ [v, n]"
    using path_join_below(1) [OF assms(1), of "[v, n]"] assms(2,3) by simp
  then show ?thesis unfolding art_OpenArchive_def art_archiveURI_def p(2) using assms(1) p(1) by (simp del: join_with.simps)
qed

lemma art_store_open:
  assumes "art_StoreBuild enc dir req s = (Inr st, s')" "dir \<noteq> []" "plain (sq_Version req)"
    and "plain (sq_ArchiveName req)" "sq_ArchiveName req \<noteq> ''manifest.json''" "fs_ok s"
  shows "art_OpenArchive dir (st_ArchiveURI st) s' = Inr (sq_Archive req) \<and> st_ArchiveSize st = art_size enc (sq_Archive req)"
proof -
  note spec = art_StoreBuild_spec [OF assms]
  have f: "s' (path_elements dir @ [sq_Version req, sq_ArchiveName req]) = Some (File (sq_Archive req))" using spec by simp
  have "st_ArchiveURI st = art_archiveURI (sq_Version req) (sq_ArchiveName req)" using spec by simp
  then show ?thesis using spec f art_OpenArchive_uri [OF assms(2-4)] by (simp add: fs_ReadFile_def)
qed

end
