(* ===== verification/Artifact_Names.thy ===== *)
theory Artifact_Names
  imports Artifact_Export
begin

section \<open>Artifacts: the names in a package\<close>

text \<open>
  The search for a free output name ends, since the candidates are pairwise different and only finitely many names are
  used; the output names of a bundle are pairwise different.
\<close>

lemma show_nat_inj: "show_nat m = show_nat n \<Longrightarrow> m = n"
  using show_int_inject [of "int m" "int n"] by (simp add: show_int_def)

lemma art_candidate_inj: "art_candidate stem i ext m = art_candidate stem i ext n \<Longrightarrow> m = n"
proof -
  assume "art_candidate stem i ext m = art_candidate stem i ext n"
  then have "(if 0 < m then ''-'' @ show_nat m else []) = (if 0 < n then ''-'' @ show_nat n else [])"
    by (simp add: art_candidate_def split del: if_split)
  then show "m = n" by (auto dest: show_nat_inj split: if_splits)
qed

lemma art_candidate_free:
  assumes "finite used"
  shows "\<exists>n. art_candidate stem i ext n \<notin> used"
proof (rule ccontr)
  assume "\<nexists>n. art_candidate stem i ext n \<notin> used"
  then have "range (art_candidate stem i ext) \<subseteq> used" by blast
  then have "finite (range (art_candidate stem i ext))" using assms finite_subset by blast
  moreover have "inj (art_candidate stem i ext)" using art_candidate_inj by (rule injI)
  ultimately show False using finite_imageD infinite_UNIV_nat by blast
qed

lemma art_searchName_ends:
  "art_candidate stem i ext (n + d) \<notin> used \<Longrightarrow>
     \<exists>k\<ge>n. art_searchName stem i ext used n = Some (art_candidate stem i ext k) \<and> art_candidate stem i ext k \<notin> used"
proof (induction d arbitrary: n)
  case 0
  then show ?case by (subst art_searchName.simps) auto
next
  case (Suc d)
  show ?case
  proof (cases "art_candidate stem i ext n \<in> used")
    case True
    from Suc.IH [of "Suc n"] Suc.prems obtain k where
      "k \<ge> Suc n" "art_searchName stem i ext used (Suc n) = Some (art_candidate stem i ext k)" "art_candidate stem i ext k \<notin> used" by auto
    then show ?thesis using True by (intro exI [of _ k]) (subst art_searchName.simps, simp)
  next
    case False
    then show ?thesis by (subst art_searchName.simps) auto
  qed
qed

text \<open>The names \<open>path.Base\<close> and the search give: one element of a path, and a new one.\<close>

lemma art_buildOutputName_ends:
  assumes "finite used"
  shows "\<exists>name. art_buildOutputName i key used = Some (name, insert name used) \<and> name \<notin> used"
proof -
  have search: "\<exists>k. art_searchName stem i ext used 0 = Some (art_candidate stem i ext k) \<and> art_candidate stem i ext k \<notin> used" for stem ext
    using art_candidate_free [OF assms, of stem i ext] art_searchName_ends [of stem i ext 0 _ used] by (metis add_0)
  define base where "base = (if path_base key = ''.'' \<or> path_base key = ''/'' \<or> path_base key = [] then show_int i else path_base key)"
  obtain k where k: "art_searchName (trim_suffix base (path_ext base)) i (path_ext base) used 0 =
      Some (art_candidate (trim_suffix base (path_ext base)) i (path_ext base) k)"
    "art_candidate (trim_suffix base (path_ext base)) i (path_ext base) k \<notin> used" using search by blast
  have "art_buildOutputName i key used =
      (if base \<notin> used then Some (base, insert base used)
       else Some (art_candidate (trim_suffix base (path_ext base)) i (path_ext base) k,
         insert (art_candidate (trim_suffix base (path_ext base)) i (path_ext base) k) used))"
    unfolding art_buildOutputName_def Let_def base_def [symmetric] k(1) by simp
  then show ?thesis using k(2) by (cases "base \<in> used") auto
qed

lemma art_loadItems_ends:
  assumes "finite used"
  shows "\<exists>names. art_loadItems rows used b \<noteq> None \<and>
     map xi_OutputName (xb_Items (the (art_loadItems rows used b))) = map xi_OutputName (xb_Items b) @ names \<and>
     length names = length rows \<and> distinct names \<and> set names \<inter> used = {}"
  using assms
proof (induction rows arbitrary: used b)
  case (Cons row rows)
  obtain i key width height where row: "row = (i, key, width, height)" by (metis prod_cases4)
  obtain name where name: "art_buildOutputName i key used = Some (name, insert name used)" "name \<notin> used"
    using art_buildOutputName_ends [OF Cons.prems] by blast
  let ?b = "b\<lparr>xb_Items := xb_Items b @
               [\<lparr>xi_ItemID = i, xi_ObjectKey = key, xi_OutputName = name, xi_LabelFileName = art_buildLabelFileName name,
                 xi_Width = (case width of None \<Rightarrow> 0 | Some w \<Rightarrow> w), xi_Height = (case height of None \<Rightarrow> 0 | Some h \<Rightarrow> h),
                 xi_Boxes = []\<rparr>]\<rparr>"
  have step: "art_loadItems (row # rows) used b = art_loadItems rows (insert name used) ?b" by (simp add: row name(1))
  obtain names where names: "art_loadItems rows (insert name used) ?b \<noteq> None"
    "map xi_OutputName (xb_Items (the (art_loadItems rows (insert name used) ?b))) = map xi_OutputName (xb_Items ?b) @ names"
    "length names = length rows" "distinct names" "set names \<inter> insert name used = {}"
    using Cons.IH [of "insert name used" ?b] Cons.prems by auto
  show ?case unfolding step
    by (intro exI [of _ "name # names"]) (use names name(2) in auto)
qed simp

text \<open>The other steps of a load keep the names.\<close>

lemma art_loadCategories_items: "xb_Items (art_loadCategories rows b) = xb_Items b"
  by (induction rows b rule: art_loadCategories.induct) simp_all

lemma art_loadAnnotations_names:
  "art_loadAnnotations ix rows b = Inr b' \<Longrightarrow> map xi_OutputName (xb_Items b') = map xi_OutputName (xb_Items b)"
proof (induction ix rows b rule: art_loadAnnotations.induct)
  case (2 ix a rows b)
  obtain idx where idx: "ix (aw_ItemID a) = Some idx" using 2(2) by (cases "ix (aw_ItemID a)") auto
  obtain c where c: "xb_CategoryMap b (aw_CategoryID a) = Some c" using 2(2) idx by (cases "xb_CategoryMap b (aw_CategoryID a)") auto
  have "map xi_OutputName ((xb_Items b)[idx := (xb_Items b ! idx)\<lparr>xi_Boxes := xi_Boxes (xb_Items b ! idx) @ [art_box a c]\<rparr>]) =
      map xi_OutputName (xb_Items b)"
    by (cases "idx < length (xb_Items b)") (simp_all add: map_update list_update_same_conv list_update_beyond)
  then show ?case using 2(1) [OF idx c] 2(2) idx c by simp
qed simp

text \<open>A load ends, and its images have different file names, one for every item.\<close>

lemma art_load_ends:
  "art_LoadSnapshotBundle rows d n v \<noteq> None \<and>
   (\<forall>b. art_LoadSnapshotBundle rows d n v = Some (Inr b) \<longrightarrow>
      distinct (map xi_OutputName (xb_Items b)) \<and> length (xb_Items b) = length (sr_Items rows))"
proof (cases "art_loadBundleMetadata (sr_Metadata rows) d n v")
  case (Inl e)
  then show ?thesis by (simp add: art_LoadSnapshotBundle_def)
next
  case (Inr b0)
  let ?b = "art_loadCategories (sr_Categories rows) b0"
  have empty: "xb_Items ?b = []"
    using Inr by (auto simp: art_loadCategories_items art_loadBundleMetadata_def split: option.splits)
  obtain names b1 where b1: "art_loadItems (sr_Items rows) {} ?b = Some b1"
    "map xi_OutputName (xb_Items b1) = names" "length names = length (sr_Items rows)" "distinct names"
    using art_loadItems_ends [of "{}" "sr_Items rows" ?b] empty by auto
  have load: "art_LoadSnapshotBundle rows d n v = Some (art_loadAnnotations (art_itemIndex (xb_Items b1)) (sr_Annotations rows) b1)"
    by (simp add: art_LoadSnapshotBundle_def Inr b1(1))
  have "distinct (map xi_OutputName (xb_Items b)) \<and> length (xb_Items b) = length (sr_Items rows)"
    if "art_LoadSnapshotBundle rows d n v = Some (Inr b)" for b
  proof -
    have "map xi_OutputName (xb_Items b) = names"
      using art_loadAnnotations_names that unfolding load b1(2) [symmetric] by simp
    then show ?thesis using b1(3,4) by (metis length_map)
  qed
  with load show ?thesis by simp
qed

end
