(* ===== verification/Artifact_Package.thy ===== *)
theory Artifact_Package
  imports Artifact_Names
begin

section \<open>Artifacts: what a package holds\<close>

text \<open>
  The package directory of a build is well formed (\<open>art_pkg_ok\<close>), and every manifest entry describes a file in it
  (\<open>art_covers\<close>) as long as no later write hits the same path.
\<close>

definition pk_file :: "art_Package \<Rightarrow> string list \<rightharpoonup> art_content" where
  "pk_file k p = fs_ReadFile p (pk_Files k)"

definition art_pkg_ok :: "art_Package \<Rightarrow> bool" where
  "art_pkg_ok k \<longleftrightarrow> fs_ok (pk_Files k) \<and> distinct (pk_Written k) \<and> set (pk_Written k) = dom (pk_file k) \<and>
     (\<forall>p \<in> set (pk_Written k). p \<noteq> [] \<and> list_all plain p)"

lemma art_pkg_ok_new: "art_pkg_ok art_NewPackage" "pk_file art_NewPackage = Map.empty"
  by (auto simp: art_pkg_ok_def art_NewPackage_def fs_empty_ok [unfolded fs_empty_def] pk_file_def fs_ReadFile_def fs_empty_def dom_def split: if_splits)

lemma art_write_ok:
  assumes "art_write p c k = (Inr u, k')" "art_pkg_ok k" "list_all plain p"
  shows "art_pkg_ok k'" "pk_file k' = (pk_file k)(p \<mapsto> c)"
proof -
  obtain s where s: "fs_WriteFile p c (pk_Files k) = Some s"
    "k' = k\<lparr>pk_Files := s, pk_Written := (if p \<in> set (pk_Written k) then pk_Written k else pk_Written k @ [p])\<rparr>"
    using assms(1) by (auto simp: art_write_def split: option.splits)
  note w = fs_WriteFile_spec [OF s(1)]
  show f: "pk_file k' = (pk_file k)(p \<mapsto> c)" by (auto simp: s(2) pk_file_def fs_ReadFile_def w(1))
  have "set (pk_Written k') = insert p (set (pk_Written k))" by (auto simp: s(2))
  then show "art_pkg_ok k'"
    using assms(2,3) fs_WriteFile_ok [OF s(1)] w(2) unfolding art_pkg_ok_def f by (auto simp: s(2))
qed

lemma art_mkdir_ok:
  assumes "art_mkdir p k = (Inr u, k')" "art_pkg_ok k"
  shows "art_pkg_ok k'" "pk_file k' = pk_file k"
proof -
  obtain s where s: "fs_MkdirAll p (pk_Files k) = Some s" "k' = k\<lparr>pk_Files := s, pk_Dirs := pk_Dirs k @ [p]\<rparr>"
    using assms(1) by (auto simp: art_mkdir_def split: option.splits)
  show f: "pk_file k' = pk_file k"
    by (rule ext) (simp add: s(2) pk_file_def fs_ReadFile_def fs_MkdirAll_spec [OF s(1)] split: option.splits fs_node.splits)
  show "art_pkg_ok k'"
    using assms(2) fs_MkdirAll_ok [OF s(1)] unfolding art_pkg_ok_def f by (simp add: s(2))
qed

definition art_covers :: "art_encoder \<Rightarrow> (string \<Rightarrow> string) \<Rightarrow> art_Package \<Rightarrow> art_ManifestEntry list \<Rightarrow> bool" where
  "art_covers enc sha k es \<longleftrightarrow>
     (\<forall>e \<in> set es. \<exists>p c. p \<noteq> [] \<and> list_all plain p \<and> pk_file k p = Some c \<and> e = art_entry enc sha (join_with [slash] p) c)"

lemma art_covers_app [simp]: "art_covers enc sha k (es @ es') \<longleftrightarrow> art_covers enc sha k es \<and> art_covers enc sha k es'"
  by (auto simp: art_covers_def)

lemma art_covers_new:
  "p \<noteq> [] \<Longrightarrow> list_all plain p \<Longrightarrow> pk_file k p = Some c \<Longrightarrow> art_covers enc sha k [art_entry enc sha (join_with [slash] p) c]"
  by (auto simp: art_covers_def)

lemma art_covers_mono:
  assumes "art_covers enc sha k es" "pk_file k' = (pk_file k)(p \<mapsto> c)" "join_with [slash] p \<notin> me_Path ` set es"
  shows "art_covers enc sha k' es"
  unfolding art_covers_def
proof
  fix e assume e: "e \<in> set es"
  then obtain q d where q: "q \<noteq> []" "list_all plain q" "pk_file k q = Some d" "e = art_entry enc sha (join_with [slash] q) d"
    using assms(1) unfolding art_covers_def by blast
  then have "me_Path e = join_with [slash] q" by (simp add: art_entry_def)
  with e assms(3) have "q \<noteq> p" by force
  then have "pk_file k' q = Some d" using q(3) assms(2) by simp
  with q show "\<exists>p c. p \<noteq> [] \<and> list_all plain p \<and> pk_file k' p = Some c \<and> e = art_entry enc sha (join_with [slash] p) c" by blast
qed

lemma me_Path_entry [simp]: "me_Path (art_entry enc sha p c) = p"
  by (simp add: art_entry_def)

lemma plain_join_inject:
  "list_all plain p \<Longrightarrow> list_all plain q \<Longrightarrow> p \<noteq> [] \<Longrightarrow> q \<noteq> [] \<Longrightarrow> join_with [slash] p = join_with [slash] q \<longleftrightarrow> p = q"
  by (metis path_clean_relative(2))

subsection \<open>One write of an object, and its entry\<close>

lemma art_writeObjectFile_ok:
  assumes "art_writeObjectFile source key p k = (Inr c, k')" "art_pkg_ok k" "list_all plain p"
  shows "art_pkg_ok k'" "pk_file k' = (pk_file k)(p \<mapsto> c)" "\<exists>body. source key = Inr body \<and> c = Raw body"
proof -
  obtain body where body: "source key = Inr body"
    using assms(1) by (cases "source key") (auto simp: art_writeObjectFile_def)
  obtain k1 where w: "art_write p (Raw body) k = (Inr (), k1)" and c: "c = Raw body" "k' = k1"
    using assms(1) by (auto simp: art_writeObjectFile_def body and_then_def split: prod.splits sum.splits)
  from art_write_ok [OF w assms(2,3)] show "art_pkg_ok k'" "pk_file k' = (pk_file k)(p \<mapsto> c)" by (simp_all add: c)
  show "\<exists>body. source key = Inr body \<and> c = Raw body" using body c by blast
qed

text \<open>A write of a new path keeps the entries so far and can be described by one more.\<close>

lemma art_covers_step:
  assumes "art_covers enc sha k es" "pk_file k' = (pk_file k)(p \<mapsto> c)" "join_with [slash] p \<notin> me_Path ` set es"
    and "p \<noteq> []" "list_all plain p"
  shows "art_covers enc sha k' (es @ [art_entry enc sha (join_with [slash] p) c])"
  using art_covers_mono [OF assms(1-3)] art_covers_new [OF assms(4,5), of k' c enc sha] assms(2) by simp

subsection \<open>The paths of a package\<close>

lemma image_path:
  assumes "plain x"
  shows "path_elements (path_join [''train/images'', x]) = [''train'', ''images'', x]"
    and "path_elements (path_join [''train/labels'', x]) = [''train'', ''labels'', x]"
    and "path_elements (path_join [''images'', x]) = [''images'', x]"
    and "path_join [''train'', ''images'', x] = join_with [slash] [''train'', ''images'', x]"
    and "path_join [''train'', ''labels'', x] = join_with [slash] [''train'', ''labels'', x]"
    and "path_join [''images'', x] = join_with [slash] [''images'', x]"
proof -
  have dirs: "path_elements ''train/images'' = [''train'', ''images'']" "path_elements ''train/labels'' = [''train'', ''labels'']"
    "path_elements ''images'' = [''images'']" by code_simp+
  have pl: "plain ''train''" "plain ''images''" "plain ''labels''" by code_simp+
  note b = path_join_below(1) [of _ "[x]", simplified, OF _ assms]
  show "path_elements (path_join [''train/images'', x]) = [''train'', ''images'', x]"
    "path_elements (path_join [''train/labels'', x]) = [''train'', ''labels'', x]"
    "path_elements (path_join [''images'', x]) = [''images'', x]" by (simp_all add: b dirs)
  have "path_join cs = join_with [slash] cs" if "list_all plain cs" "cs \<noteq> []" for cs
  proof -
    have "dropWhile (\<lambda>x. x = []) cs = cs" using that by (cases cs) (auto simp: plain_def)
    then show ?thesis using that path_clean_relative(1) [OF that] by (simp add: path_join_def)
  qed
  then show "path_join [''train'', ''images'', x] = join_with [slash] [''train'', ''images'', x]"
    "path_join [''train'', ''labels'', x] = join_with [slash] [''train'', ''labels'', x]"
    "path_join [''images'', x] = join_with [slash] [''images'', x]" using pl assms by (simp_all del: join_with.simps)
qed

lemma plain_dirs: "plain ''train''" "plain ''images''" "plain ''labels''" "plain ''data.yaml''" "plain ''annotations.json''" "plain ''manifest.json''"
  by code_simp+

subsection \<open>The packages of both formats\<close>

definition yolo_paths :: "art_ExportItem list \<Rightarrow> string list" where
  "yolo_paths items =
     concat (map (\<lambda>x. [join_with [slash] [''train'', ''images'', xi_OutputName x], join_with [slash] [''train'', ''labels'', xi_LabelFileName x]]) items)"

definition coco_paths :: "art_ExportItem list \<Rightarrow> string list" where
  "coco_paths items = map (\<lambda>x. join_with [slash] [''images'', xi_OutputName x]) items"

lemma paths_simps [simp]:
  "yolo_paths [] = []" "coco_paths [] = []"
  "yolo_paths (x # xs) = join_with [slash] [''train'', ''images'', xi_OutputName x] #
     join_with [slash] [''train'', ''labels'', xi_LabelFileName x] # yolo_paths xs"
  "coco_paths (x # xs) = join_with [slash] [''images'', xi_OutputName x] # coco_paths xs"
  by (simp_all add: yolo_paths_def coco_paths_def)

lemma art_yoloItems_ok:
  assumes "art_yoloItems enc sha source items entries n k = (Inr (entries', n'), k')"
    and "art_pkg_ok k" "art_covers enc sha k entries"
    and "\<And>x. x \<in> set items \<Longrightarrow> plain (xi_OutputName x) \<and> plain (xi_LabelFileName x)"
    and "distinct (map me_Path entries @ yolo_paths items)"
  shows "art_pkg_ok k' \<and> art_covers enc sha k' entries' \<and> map me_Path entries' = map me_Path entries @ yolo_paths items \<and>
    n' = n + int (sum_list (map (\<lambda>x. length (xi_Boxes x)) items))"
  using assms
proof (induction items arbitrary: entries n k)
  case (Cons x xs)
  have px: "plain (xi_OutputName x)" "plain (xi_LabelFileName x)" using Cons.prems(4) [of x] by simp_all
  note pi = image_path [OF px(1)] and pl = image_path [OF px(2)]
  let ?ip = "[''train'', ''images'', xi_OutputName x]" and ?lp = "[''train'', ''labels'', xi_LabelFileName x]"
  let ?label = "Raw (art_renderYOLOLabelFile (xi_Boxes x))"
  obtain c k1 where w1: "art_writeObjectFile source (xi_ObjectKey x) ?ip k = (Inr c, k1)"
    using Cons.prems(1) by (auto simp: and_then_def pi(1) split: prod.splits sum.splits)
  obtain k2 where w2: "art_write ?lp ?label k1 = (Inr (), k2)"
    using Cons.prems(1) w1 by (auto simp: Let_def and_then_def pi(1) pl(2) split: prod.splits sum.splits)
  let ?ie = "art_entry enc sha (join_with [slash] ?ip) c" and ?le = "art_entry enc sha (join_with [slash] ?lp) ?label"
  have rest: "art_yoloItems enc sha source xs (entries @ [?ie, ?le]) (n + int (length (xi_Boxes x))) k2 = (Inr (entries', n'), k')"
    using Cons.prems(1) w1 w2 by (simp add: Let_def pi(1,4) pl(2,5) del: join_with.simps)
  have lists: "list_all plain ?ip" "list_all plain ?lp" using px plain_dirs by simp_all
  note o1 = art_writeObjectFile_ok [OF w1 Cons.prems(2) lists(1)]
  note o2 = art_write_ok [OF w2 o1(1) lists(2)]
  have new: "join_with [slash] ?ip \<notin> me_Path ` set entries" "join_with [slash] ?lp \<notin> me_Path ` set (entries @ [?ie])"
    using Cons.prems(5) by (auto simp del: join_with.simps)
  have c1: "art_covers enc sha k1 (entries @ [?ie])" by (rule art_covers_step [OF Cons.prems(3) o1(2) new(1) _ lists(1)]) simp
  have c2: "art_covers enc sha k2 (entries @ [?ie, ?le])"
    using art_covers_step [OF c1 o2(2) new(2) _ lists(2)] by simp
  have d: "distinct (map me_Path (entries @ [?ie, ?le]) @ yolo_paths xs)" using Cons.prems(5) by (auto simp del: join_with.simps)
  from Cons.IH [OF rest o2(1) c2 Cons.prems(4) d] show ?case by (simp del: join_with.simps)
qed simp

lemma art_cocoItems_ok:
  assumes "art_cocoItems enc sha source b items entries doc n k = (Inr (entries', doc', n'), k')"
    and "art_pkg_ok k" "art_covers enc sha k entries"
    and "\<And>x. x \<in> set items \<Longrightarrow> plain (xi_OutputName x)"
    and "distinct (map me_Path entries @ coco_paths items)"
  shows "art_pkg_ok k' \<and> art_covers enc sha k' entries' \<and> map me_Path entries' = map me_Path entries @ coco_paths items \<and>
    n' = n + int (sum_list (map (\<lambda>x. length (xi_Boxes x)) items))"
  using assms
proof (induction items arbitrary: entries doc n k)
  case (Cons x xs)
  have px: "plain (xi_OutputName x)" using Cons.prems(4) [of x] by simp
  note pi = image_path [OF px]
  let ?ip = "[''images'', xi_OutputName x]"
  obtain c k1 where w1: "art_writeObjectFile source (xi_ObjectKey x) ?ip k = (Inr c, k1)"
    using Cons.prems(1) by (auto simp: and_then_def pi(3) split: prod.splits sum.splits)
  let ?ie = "art_entry enc sha (join_with [slash] ?ip) c"
  obtain doc1 where rest: "art_cocoItems enc sha source b xs (entries @ [?ie]) doc1 (n + int (length (xi_Boxes x))) k1 = (Inr (entries', doc', n'), k')"
    using Cons.prems(1) w1 pi(3) by (simp add: pi(6) del: join_with.simps)
  have lists: "list_all plain ?ip" using px plain_dirs by simp
  note o1 = art_writeObjectFile_ok [OF w1 Cons.prems(2) lists]
  have new: "join_with [slash] ?ip \<notin> me_Path ` set entries" using Cons.prems(5) by (auto simp del: join_with.simps)
  have c1: "art_covers enc sha k1 (entries @ [?ie])" by (rule art_covers_step [OF Cons.prems(3) o1(2) new _ lists]) simp
  have d: "distinct (map me_Path (entries @ [?ie]) @ coco_paths xs)" using Cons.prems(5) by (auto simp del: join_with.simps)
  from Cons.IH [OF rest o1(1) c1 Cons.prems(4) d] show ?case by (simp del: join_with.simps)
qed simp

text \<open>What the manifest of a build is about: the paths, none of them twice and none the manifest itself.\<close>

definition art_package_paths :: "string \<Rightarrow> art_ExportBundle \<Rightarrow> string list" where
  "art_package_paths format b =
     (if format = ''coco'' then coco_paths (xb_Items b) @ [''annotations.json''] else yolo_paths (xb_Items b) @ [''data.yaml''])"

definition art_plain_names :: "art_ExportBundle \<Rightarrow> bool" where
  "art_plain_names b \<longleftrightarrow>
     list_all (\<lambda>x. plain (xi_OutputName x) \<and> plain (xi_LabelFileName x)) (xb_Items b) \<and> distinct (map xi_OutputName (xb_Items b))"

lemma join2: "join_with [slash] [d, x] = d @ slash # x" "join_with [slash] [d, e, x] = d @ slash # e @ slash # x"
  by simp_all

lemma yolo_paths_distinct:
  assumes "distinct (map xi_OutputName items)" "distinct (map xi_LabelFileName items)"
  shows "distinct (yolo_paths items) \<and> ''data.yaml'' \<notin> set (yolo_paths items) \<and> ''manifest.json'' \<notin> set (yolo_paths items)"
  using assms by (induction items) (auto simp: yolo_paths_def)

lemma coco_paths_distinct:
  assumes "distinct (map xi_OutputName items)"
  shows "distinct (coco_paths items) \<and> ''annotations.json'' \<notin> set (coco_paths items) \<and> ''manifest.json'' \<notin> set (coco_paths items)"
  using assms by (induction items) (auto simp: coco_paths_def)

lemma art_writePackageContents_ok:
  assumes w: "art_writePackageContents enc sha source b format art_NewPackage = (Inr (entries, n), k)"
    and "art_plain_names b" and labels: "format = ''yolo'' \<Longrightarrow> distinct (map xi_LabelFileName (xb_Items b))"
  shows "art_pkg_ok k \<and> art_covers enc sha k entries \<and> map me_Path entries = art_package_paths format b \<and>
    n = int (sum_list (map (\<lambda>x. length (xi_Boxes x)) (xb_Items b)))"
proof -
  have names: "\<And>x. x \<in> set (xb_Items b) \<Longrightarrow> plain (xi_OutputName x) \<and> plain (xi_LabelFileName x)"
    and outs: "distinct (map xi_OutputName (xb_Items b))" using assms(2) by (auto simp: art_plain_names_def list_all_iff)
  show ?thesis
  proof (cases "format = ''coco''")
    case True
    obtain k1 where k1: "art_mkdir [''images''] art_NewPackage = (Inr (), k1)"
      using w True by (auto simp: art_writePackageContents_def art_writeCOCOPackage_def and_then_def split: prod.splits sum.splits)
    obtain es doc doc' m k2 where k2: "art_cocoItems enc sha source b (xb_Items b) [] doc 0 k1 = (Inr (es, doc', m), k2)"
      "and_then (art_write [''annotations.json''] (CocoFile doc') k2) (\<lambda>_ k3.
           (Inr (es @ [art_entry enc sha ''annotations.json'' (CocoFile doc')], m), k3)) = (Inr (entries, n), k)"
      using w True k1 by (auto simp: art_writePackageContents_def art_writeCOCOPackage_def Let_def and_then_Inr_conv)
    obtain k3 where k3: "art_write [''annotations.json''] (CocoFile doc') k2 = (Inr (), k3)" "k = k3" "n = m"
      "entries = es @ [art_entry enc sha (join_with [slash] [''annotations.json'']) (CocoFile doc')]"
      using k2(2) by (auto simp: and_then_Inr_conv)
    note m = art_mkdir_ok [OF k1 art_pkg_ok_new(1)]
    have items: "art_pkg_ok k2 \<and> art_covers enc sha k2 es \<and> map me_Path es = coco_paths (xb_Items b) \<and>
        m = int (sum_list (map (\<lambda>x. length (xi_Boxes x)) (xb_Items b)))"
      using art_cocoItems_ok [OF k2(1) m(1)] names coco_paths_distinct [OF outs] by (simp add: art_covers_def)
    note f = art_write_ok [OF k3(1) conjunct1 [OF items]]
    have pa: "list_all plain [''annotations.json'']" using plain_dirs by simp
    have "join_with [slash] [''annotations.json''] \<notin> me_Path ` set es"
      using items coco_paths_distinct [OF outs] by (metis join_with.simps(2) list.set_map)
    from art_covers_step [OF _ f(2) [OF pa] this _ pa] items
    have "art_covers enc sha k entries" by (simp add: k3(2,4))
    then show ?thesis using f(1) [OF pa] items by (simp add: k3 art_package_paths_def True)
  next
    case False
    then have yolo: "format = ''yolo''" using w by (auto simp: art_writePackageContents_def split: if_splits)
    obtain k1 where k1: "art_mkdir [''train'', ''images''] art_NewPackage = (Inr (), k1)"
      using w yolo by (auto simp: art_writePackageContents_def art_writeYOLOPackage_def and_then_def split: prod.splits sum.splits)
    obtain k2 where k2: "art_mkdir [''train'', ''labels''] k1 = (Inr (), k2)"
      using w yolo k1 by (auto simp: art_writePackageContents_def art_writeYOLOPackage_def and_then_def split: prod.splits sum.splits)
    let ?yaml = "Raw (art_BuildDataYAML ''./train/images'' ''./train/images'' (xb_Categories b))"
    obtain es m k3 where k3: "art_yoloItems enc sha source (xb_Items b) [] 0 k2 = (Inr (es, m), k3)"
      "and_then (art_write [''data.yaml''] ?yaml k3) (\<lambda>_ k4. (Inr (es @ [art_entry enc sha ''data.yaml'' ?yaml], m), k4)) = (Inr (entries, n), k)"
      using w yolo k1 k2 by (auto simp: art_writePackageContents_def art_writeYOLOPackage_def Let_def and_then_Inr_conv)
    obtain k4 where k4: "art_write [''data.yaml''] ?yaml k3 = (Inr (), k4)" "k = k4" "n = m"
      "entries = es @ [art_entry enc sha (join_with [slash] [''data.yaml'']) ?yaml]"
      using k3(2) by (auto simp: and_then_Inr_conv)
    note m1 = art_mkdir_ok [OF k1 art_pkg_ok_new(1)]
    note m2 = art_mkdir_ok [OF k2 m1(1)]
    note dist = yolo_paths_distinct [OF outs labels [OF yolo]]
    have items: "art_pkg_ok k3 \<and> art_covers enc sha k3 es \<and> map me_Path es = yolo_paths (xb_Items b) \<and>
        m = int (sum_list (map (\<lambda>x. length (xi_Boxes x)) (xb_Items b)))"
      using art_yoloItems_ok [OF k3(1) m2(1)] names dist by (simp add: art_covers_def)
    note f = art_write_ok [OF k4(1) conjunct1 [OF items]]
    have pa: "list_all plain [''data.yaml'']" using plain_dirs by simp
    have "join_with [slash] [''data.yaml''] \<notin> me_Path ` set es"
      using items dist by (metis join_with.simps(2) list.set_map)
    from art_covers_step [OF _ f(2) [OF pa] this _ pa] items
    have "art_covers enc sha k entries" by (simp add: k4(2,4))
    then show ?thesis using f(1) [OF pa] items by (simp add: k4 art_package_paths_def yolo)
  qed
qed

end
