(* ===== verification/Cli_Pull.thy ===== *)
theory Cli_Pull
  imports Artifact_Storage
begin

section \<open>The command line client: pull and verify\<close>

text \<open>
  \<open>internal/cli\<close>: extraction of an archive, verification of the files against the manifest, and \<open>Pull\<close>. A path
  is its elements from the root of the file system or, where it is relative, from the working directory. The source
  of artifacts is an argument: \<open>resolve k\<close> is its answer to try \<open>k\<close>, \<open>download\<close> gives what it leaves in the temporary
  file, or fails. Interrupts are not modelled.
\<close>

subsection \<open>Extraction\<close>

definition cli_safeExtractPath :: "string \<Rightarrow> string \<Rightarrow> string + string" where
  "cli_safeExtractPath outDir entryName =
     (let cleanPath = path_clean (path_join [outDir, entryName])
      in if cleanPath \<noteq> outDir \<and> \<not> has_prefix cleanPath (outDir @ ''/'')
         then Inl (''archive entry escapes output dir: '' @ entryName)
         else Inr cleanPath)"

text \<open>
  What \<open>tarReader\<close> yields: entries, of which only directories and regular files are accepted, and possibly the error of a
  stream that breaks, in the middle of a file after the part of it that was read.
\<close>

datatype cli_tarEntry =
    TarDir string
  | TarFile string art_content
  | TarOther string
  | TarBroken string

definition cli_tarName :: "cli_tarEntry \<Rightarrow> string" where
  "cli_tarName e = (case e of TarDir n \<Rightarrow> n | TarFile n c \<Rightarrow> n | TarOther n \<Rightarrow> n | TarBroken err \<Rightarrow> [])"

definition cli_unpackEntry :: "string list \<Rightarrow> cli_tarEntry \<Rightarrow> art_content fs \<Rightarrow> (string, unit, art_content fs) outcome" where
  "cli_unpackEntry target e s =
     (case e of
        TarDir n \<Rightarrow> (case fs_MkdirAll target s of None \<Rightarrow> (Inl ''mkdir'', s) | Some s' \<Rightarrow> (Inr (), s'))
      | TarFile n c \<Rightarrow>
          (case fs_MkdirAll (butlast target) s of
             None \<Rightarrow> (Inl ''mkdir'', s)
           | Some s1 \<Rightarrow> (case fs_WriteFile target c s1 of None \<Rightarrow> (Inl ''open'', s1) | Some s2 \<Rightarrow> (Inr (), s2)))
      | TarOther n \<Rightarrow> (Inl (''unsupported tar entry '' @ n), s)
      | TarBroken err \<Rightarrow> (Inl err, s))"

fun cli_extract :: "string \<Rightarrow> cli_tarEntry list \<Rightarrow> art_content fs \<Rightarrow> (string, unit, art_content fs) outcome" where
  "cli_extract outDir [] s = (Inr (), s)"
| "cli_extract outDir (e # es) s =
     (case e of
        TarBroken err \<Rightarrow> (Inl err, s)
      | _ \<Rightarrow>
          (case cli_safeExtractPath outDir (cli_tarName e) of
             Inl err \<Rightarrow> (Inl err, s)
           | Inr target \<Rightarrow> and_then (cli_unpackEntry (path_elements target) e s) (\<lambda>_ s'. cli_extract outDir es s')))"

text \<open>
  The content of an archive that the builder made is the list of its files, so gzip and tar, and that reading gives back
  what was written, are built into this model. \<open>untar\<close> reads an archive that was not made by \<open>tarGzDir\<close>; its error is the one of the gzip header.
\<close>

type_synonym cli_untar = "art_content \<Rightarrow> string + cli_tarEntry list"

definition cli_tarEntries :: "cli_untar \<Rightarrow> art_content \<Rightarrow> string + cli_tarEntry list" where
  "cli_tarEntries untar c = (case c of TarGz xs \<Rightarrow> Inr (map (\<lambda>(n, x). TarFile n x) xs) | _ \<Rightarrow> untar c)"

definition cli_extractTarGz :: "cli_untar \<Rightarrow> string list \<Rightarrow> string \<Rightarrow> art_content fs \<Rightarrow> (string, unit, art_content fs) outcome" where
  "cli_extractTarGz untar archivePath outDir s =
     (case fs_ReadFile archivePath s of
        None \<Rightarrow> (Inl ''open'', s)
      | Some c \<Rightarrow>
          (case cli_tarEntries untar c of
             Inl e \<Rightarrow> (Inl e, s)
           | Inr es \<Rightarrow>
               (case fs_MkdirAll (path_elements outDir) s of
                  None \<Rightarrow> (Inl ''mkdir'', s)
                | Some s1 \<Rightarrow> cli_extract outDir es s1)))"

subsection \<open>Verification\<close>

record cli_VerifyFileResult =
  vr_Path :: string
  vr_Size :: int
  vr_Checksum :: string
  vr_Status :: string
  vr_Error :: string

definition VerifyStatusPassed :: string where "VerifyStatusPassed = ''passed''"
definition VerifyStatusFailed :: string where "VerifyStatusFailed = ''failed''"

text \<open>\<open>strings.SplitN(s, ":", 2)\<close> has two parts: the text before the first colon, and the rest.\<close>

definition split_colon :: "string \<Rightarrow> (string \<times> string) option" where
  "split_colon s = (if CHR '':'' \<in> set s
     then Some (takeWhile (\<lambda>c. c \<noteq> CHR '':'') s, tl (dropWhile (\<lambda>c. c \<noteq> CHR '':'') s)) else None)"

definition cli_VerifyFile ::
  "art_encoder \<Rightarrow> (string \<Rightarrow> string) \<Rightarrow> art_content fs \<Rightarrow> string list \<Rightarrow> string \<Rightarrow> string + unit" where
  "cli_VerifyFile enc sha s p expected =
     (case split_colon expected of
        None \<Rightarrow> Inl (''unsupported checksum algorithm '' @ expected)
      | Some (algorithm, digest) \<Rightarrow>
          if algorithm \<noteq> ''sha256'' then Inl (''unsupported checksum algorithm '' @ expected)
          else
            (case fs_ReadFile p s of
               None \<Rightarrow> Inl ''open''
             | Some c \<Rightarrow>
                 if sha (art_bytes enc c) \<noteq> digest
                 then Inl (''checksum mismatch: got sha256:'' @ sha (art_bytes enc c) @ '' expected '' @ expected)
                 else Inr ()))"

definition cli_result :: "art_ManifestEntry \<Rightarrow> string \<Rightarrow> string \<Rightarrow> cli_VerifyFileResult" where
  "cli_result e status err =
     \<lparr>vr_Path = me_Path e, vr_Size = me_Size e, vr_Checksum = me_Checksum e, vr_Status = status, vr_Error = err\<rparr>"

definition cli_VerifyManifestEntry ::
  "art_encoder \<Rightarrow> (string \<Rightarrow> string) \<Rightarrow> art_content fs \<Rightarrow> string list \<Rightarrow> art_ManifestEntry \<Rightarrow> cli_VerifyFileResult \<times> string option" where
  "cli_VerifyManifestEntry enc sha s p e =
     (let failed = (\<lambda>err. (cli_result e VerifyStatusFailed err, Some err));
          checked = (case cli_VerifyFile enc sha s p (me_Checksum e) of Inl err \<Rightarrow> failed err | Inr _ \<Rightarrow> (cli_result e VerifyStatusPassed [], None))
      in if 0 < me_Size e then
           (case fs_ReadFile p s of
              None \<Rightarrow> failed ''stat''
            | Some c \<Rightarrow>
                if art_size enc c \<noteq> me_Size e
                then failed (''size mismatch: got '' @ show_int (art_size enc c) @ '' expected '' @ show_int (me_Size e))
                else checked)
         else checked)"

text \<open>
  The workers take the entries in order and finish them in some order \<open>finished\<close>, a permutation of the positions; each
  result lands at its position, and the error of the first to finish with one is returned.
\<close>

definition cli_verifyManifestEntries ::
  "nat list \<Rightarrow> (string list \<Rightarrow> art_ManifestEntry \<Rightarrow> cli_VerifyFileResult \<times> string option) \<Rightarrow> string \<Rightarrow> art_ManifestEntry list \<Rightarrow>
     cli_VerifyFileResult list \<times> string option" where
  "cli_verifyManifestEntries finished verify rootDir entries =
     (let outcomes = map (\<lambda>e. verify (path_elements (path_join [rootDir, me_Path e])) e) entries
      in (map fst outcomes,
          case filter (\<lambda>i. snd (outcomes ! i) \<noteq> None) finished of [] \<Rightarrow> None | i # _ \<Rightarrow> snd (outcomes ! i)))"

subsection \<open>Pull\<close>

record cli_PullOptions =
  po_Dataset :: string
  po_Format :: string
  po_Version :: string
  po_AllowPartial :: bool
  po_OutputDir :: string
  po_ResolveTimeout :: duration
  po_PollInterval :: duration
  po_VerifyWorkers :: int

record cli_ResolvedArtifact =
  ra_ArtifactID :: int
  ra_Version :: string
  ra_DownloadURL :: string

definition cli_defaultResolveTimeout :: duration where "cli_defaultResolveTimeout = 30 * second"
definition cli_defaultPollInterval :: duration where "cli_defaultPollInterval = 500000000"

definition cli_normalizeResolveTimeout :: "duration \<Rightarrow> duration" where
  "cli_normalizeResolveTimeout t = (if t \<le> 0 then cli_defaultResolveTimeout else t)"

definition cli_normalizePollInterval :: "duration \<Rightarrow> duration" where
  "cli_normalizePollInterval t = (if t \<le> 0 then cli_defaultPollInterval else t)"

definition cli_defaultVerifyWorkers :: "int \<Rightarrow> int" where
  "cli_defaultVerifyWorkers cpus = (if cpus < 1 then 1 else if 4 < cpus then 4 else cpus)"

definition cli_normalizeVerifyWorkers :: "int \<Rightarrow> int \<Rightarrow> int" where
  "cli_normalizeVerifyWorkers cpus workers = (if workers \<le> 0 then cli_defaultVerifyWorkers cpus else workers)"

datatype cli_error =
    CliMessage string
  | CliUnavailable string
  | CliTimeout string
  | CliVerify string

lemma cli_normalizePollInterval_pos: "0 < cli_normalizePollInterval t"
  by (simp add: cli_normalizePollInterval_def cli_defaultPollInterval_def)

text \<open>
  The loop of \<open>resolveArtifact\<close>: try \<open>k\<close> begins \<open>spent\<close> after the first and takes \<open>took k\<close>. The wait ends at the
  deadline, or with the poll interval.
\<close>

function cli_resolveLoop ::
  "(nat \<Rightarrow> cli_error + cli_ResolvedArtifact) \<Rightarrow> (nat \<Rightarrow> nat) \<Rightarrow> cli_PullOptions \<Rightarrow> nat \<Rightarrow> int \<Rightarrow> cli_error + cli_ResolvedArtifact" where
  "cli_resolveLoop resolve took opts k spent =
     (case resolve k of
        Inr ra \<Rightarrow> Inr (if ra_Version ra = [] then ra\<lparr>ra_Version := po_Version opts\<rparr> else ra)
      | Inl (CliUnavailable e) \<Rightarrow>
          if cli_normalizeResolveTimeout (po_ResolveTimeout opts) \<le> spent + int (took k) + cli_normalizePollInterval (po_PollInterval opts)
          then Inl (CliTimeout e)
          else cli_resolveLoop resolve took opts (Suc k) (spent + int (took k) + cli_normalizePollInterval (po_PollInterval opts))
      | Inl e \<Rightarrow> Inl e)"
  by pat_completeness auto
termination
proof (relation "measure (\<lambda>(resolve, took, opts, k, spent). nat (cli_normalizeResolveTimeout (po_ResolveTimeout opts) - spent))")
  fix took :: "nat \<Rightarrow> nat" and k :: nat and opts :: cli_PullOptions and spent :: int
  let ?t = "cli_normalizeResolveTimeout (po_ResolveTimeout opts)" and ?p = "cli_normalizePollInterval (po_PollInterval opts)"
  assume "\<not> ?t \<le> spent + int (took k) + ?p"
  with cli_normalizePollInterval_pos [of "po_PollInterval opts"]
  show "((resolve :: nat \<Rightarrow> cli_error + cli_ResolvedArtifact, took, opts, Suc k, spent + int (took k) + ?p), (resolve, took, opts, k, spent))
      \<in> measure (\<lambda>(resolve, took, opts, k, spent). nat (cli_normalizeResolveTimeout (po_ResolveTimeout opts) - spent))" for resolve
    by simp
qed simp

declare cli_resolveLoop.simps [simp del]

record cli_VerifyReport =
  rp_ArtifactID :: int
  rp_Snapshot :: string
  rp_TotalFiles :: int
  rp_VerifiedFiles :: int
  rp_FailedFiles :: int
  rp_VerificationWorkers :: int
  rp_Files :: "cli_VerifyFileResult list"

record cli_Env =
  ce_enc :: art_encoder
  ce_sha :: "string \<Rightarrow> string"
  ce_untar :: cli_untar
  ce_parse :: "art_content \<Rightarrow> string + art_Manifest"
  ce_report :: "cli_VerifyReport \<Rightarrow> string"
  ce_cpus :: int
  ce_wd :: string

record cli_Source =
  cs_resolve :: "nat \<Rightarrow> cli_error + cli_ResolvedArtifact"
  cs_took :: "nat \<Rightarrow> nat"
  cs_download :: "cli_ResolvedArtifact \<Rightarrow> string + art_content"

definition cli_loadManifest :: "cli_Env \<Rightarrow> string list \<Rightarrow> art_content fs \<Rightarrow> string + art_Manifest" where
  "cli_loadManifest env p s =
     (case fs_ReadFile p s of
        None \<Rightarrow> Inl ''open''
      | Some c \<Rightarrow> (case c of ManifestFile m \<Rightarrow> Inr m | _ \<Rightarrow> ce_parse env c))"

text \<open>What is done once the archive is in the temporary file; \<open>finished\<close> orders the verification.\<close>

definition cli_unpackAndVerify ::
  "cli_Env \<Rightarrow> (nat \<Rightarrow> nat list) \<Rightarrow> cli_PullOptions \<Rightarrow> string \<Rightarrow> cli_ResolvedArtifact \<Rightarrow> string list \<Rightarrow> art_content fs \<Rightarrow>
     (cli_error, cli_VerifyReport, art_content fs) outcome" where
  "cli_unpackAndVerify env finished opts outDir ra tmp s =
     (let artifactDir = path_join [outDir, ''pulled-'' @ ra_Version ra] in
      case cli_extractTarGz (ce_untar env) tmp artifactDir (fs_RemoveAll (path_elements artifactDir) s) of
        (Inl e, s1) \<Rightarrow> (Inl (CliMessage e), s1)
      | (Inr _, s1) \<Rightarrow>
          (case cli_loadManifest env (path_elements (path_join [artifactDir, ''manifest.json''])) s1 of
             Inl e \<Rightarrow> (Inl (CliMessage e), s1)
           | Inr m \<Rightarrow>
               let entries = mf_Entries m;
                   (results, err) = cli_verifyManifestEntries (finished (length entries))
                     (cli_VerifyManifestEntry (ce_enc env) (ce_sha env) s1) artifactDir entries;
                   report = \<lparr>rp_ArtifactID = ra_ArtifactID ra, rp_Snapshot = ra_Version ra, rp_TotalFiles = int (length entries),
                     rp_VerifiedFiles = int (length (filter (\<lambda>v. vr_Status v \<noteq> VerifyStatusFailed) results)),
                     rp_FailedFiles = int (length (filter (\<lambda>v. vr_Status v = VerifyStatusFailed) results)),
                     rp_VerificationWorkers = cli_normalizeVerifyWorkers (ce_cpus env) (po_VerifyWorkers opts), rp_Files = results\<rparr>
               in case fs_WriteFile (path_elements (path_join [outDir, ''verify-report.json''])) (Raw (ce_report env report)) s1 of
                    None \<Rightarrow> (Inl (CliMessage ''write report''), s1)
                  | Some s2 \<Rightarrow>
                      (case err of
                         Some e \<Rightarrow> (if po_AllowPartial opts then Inr report else Inl (CliVerify e), s2)
                       | None \<Rightarrow> (Inr report, s2))))"

definition cli_outDir :: "cli_Env \<Rightarrow> string \<Rightarrow> cli_PullOptions \<Rightarrow> string" where
  "cli_outDir env clientDir opts =
     (if po_OutputDir opts \<noteq> [] then po_OutputDir opts else if clientDir \<noteq> [] then clientDir else ce_wd env)"

definition cli_Pull ::
  "cli_Env \<Rightarrow> (nat \<Rightarrow> nat list) \<Rightarrow> cli_Source option \<Rightarrow> string \<Rightarrow> cli_PullOptions \<Rightarrow> art_content fs \<Rightarrow>
     (cli_error, cli_VerifyReport, art_content fs) outcome" where
  "cli_Pull env finished source clientDir opts s =
     (if po_Format opts = [] \<or> po_Version opts = [] then (Inl (CliMessage ''format and version are required''), s)
      else case source of
        None \<Rightarrow> (Inl (CliMessage ''artifact source is not configured''), s)
      | Some src \<Rightarrow>
          if po_ResolveTimeout opts < 0 then (Inl (CliMessage ''resolve timeout must be >= 0''), s)
          else if po_PollInterval opts < 0 then (Inl (CliMessage ''poll interval must be >= 0''), s)
          else if po_VerifyWorkers opts < 0 then (Inl (CliMessage ''verify workers must be >= 0''), s)
          else
            let outDir = cli_outDir env clientDir opts in
            case cli_resolveLoop (cs_resolve src) (cs_took src) opts 0 0 of
              Inl e \<Rightarrow> (Inl e, s)
            | Inr ra \<Rightarrow>
                let tmp = path_elements (path_join [outDir, ''pull-'' @ ra_Version ra @ ''.tar.gz.part'']) in
                (case cs_download src ra of
                   Inl e \<Rightarrow> (Inl (CliMessage e), fs_Remove tmp s)
                 | Inr c \<Rightarrow>
                     (case fs_WriteFile tmp c s of
                        None \<Rightarrow> (Inl (CliMessage ''open''), fs_Remove tmp s)
                      | Some s1 \<Rightarrow>
                          (case cli_unpackAndVerify env finished opts outDir ra tmp s1 of
                             (x, s2) \<Rightarrow> (x, fs_Remove tmp s2)))))"

end
