(* ===== verification/Cli_Facts.thy ===== *)
theory Cli_Facts
  imports Cli_Pull
begin

section \<open>The command line client: facts\<close>

text \<open>
  Where a pull can write. \<open>cli_changes d s s'\<close> says that between the two states only what lies below the directory \<open>d\<close>
  differs; it is reflexive and transitive, and every step of a pull has it.
\<close>

definition cli_changes :: "string list \<Rightarrow> art_content fs \<Rightarrow> art_content fs \<Rightarrow> bool" where
  "cli_changes d s s' \<longleftrightarrow> (\<forall>q. s' q \<noteq> s q \<longrightarrow> prefix d q)"

lemma cli_changes_refl [simp]: "cli_changes d s s"
  by (simp add: cli_changes_def)

lemma cli_changes_trans: "cli_changes d s s1 \<Longrightarrow> cli_changes d s1 s2 \<Longrightarrow> cli_changes d s s2"
  unfolding cli_changes_def by metis

lemma cli_changes_up: "cli_changes d s s' \<Longrightarrow> prefix d' d \<Longrightarrow> cli_changes d' s s'"
  unfolding cli_changes_def by (meson prefix_order.trans)

lemma cli_safeExtractPath_below:
  assumes "cli_safeExtractPath outDir n = Inr t" "path_clean outDir = outDir"
  shows "prefix (path_elements outDir) (path_elements t)"
proof -
  have t: "path_clean t = t" "t = outDir \<or> has_prefix t (outDir @ [slash])"
    using assms by (auto simp: cli_safeExtractPath_def Let_def split: if_splits)
  from t(2) show ?thesis
  proof
    assume "has_prefix t (outDir @ [slash])"
    from clean_prefix_elements [OF assms(2) t(1) this] show ?thesis by auto
  qed simp
qed

definition cli_kept :: "string list \<Rightarrow> art_content fs \<Rightarrow> bool" where
  "cli_kept d s \<longleftrightarrow> fs_ok s \<and> s d = Some Dir"

lemma cli_MkdirAll_step:
  assumes "fs_MkdirAll p s = Some s'" "cli_kept d s" "prefix p d \<or> prefix d p"
  shows "cli_kept d s'" "cli_changes d s s'"
  using fs_MkdirAll_below [OF assms(1), of d] fs_MkdirAll_ok [OF assms(1)] assms(2,3)
  by (auto simp: cli_kept_def cli_changes_def)

lemma cli_WriteFile_step:
  assumes "fs_WriteFile p c s = Some s'" "cli_kept d s" "prefix d p"
  shows "cli_kept d s'" "cli_changes d s s'"
proof -
  note w = fs_WriteFile_spec [OF assms(1)]
  have "p \<noteq> d" using w(3) assms(2) by (auto simp: cli_kept_def)
  then show "cli_kept d s'" using fs_WriteFile_ok [OF assms(1)] assms(2) by (simp add: cli_kept_def w(1))
  show "cli_changes d s s'" using assms(3) by (auto simp: cli_changes_def w(1))
qed

lemma cli_unpackEntry_step:
  assumes "cli_unpackEntry p e s = (x, s')" "cli_kept d s" "prefix d p"
  shows "cli_kept d s' \<and> cli_changes d s s'"
proof (cases e)
  case (TarDir n)
  show ?thesis
  proof (cases "fs_MkdirAll p s")
    case (Some s1)
    then show ?thesis using cli_MkdirAll_step [OF Some assms(2)] assms(1,3) by (simp add: TarDir cli_unpackEntry_def)
  qed (use assms in \<open>simp add: TarDir cli_unpackEntry_def\<close>)
next
  case (TarFile n c)
  have around: "prefix (butlast p) d \<or> prefix d (butlast p)"
    using assms(3) by (metis append_butlast_last_id prefix_order.dual_order.refl prefix_snoc prefixeq_butlast butlast.simps(1))
  show ?thesis
  proof (cases "fs_MkdirAll (butlast p) s")
    case (Some s1)
    note m = cli_MkdirAll_step [OF Some assms(2) around]
    show ?thesis
    proof (cases "fs_WriteFile p c s1")
      case w: (Some s2)
      then show ?thesis using cli_WriteFile_step [OF w m(1) assms(3)] m(2) cli_changes_trans assms(1)
        by (auto simp: TarFile cli_unpackEntry_def Some)
    qed (use assms m in \<open>simp add: TarFile cli_unpackEntry_def Some\<close>)
  qed (use assms in \<open>simp add: TarFile cli_unpackEntry_def\<close>)
qed (use assms in \<open>simp_all add: cli_unpackEntry_def\<close>)

lemma cli_extract_step:
  assumes "path_clean outDir = outDir" "d = path_elements outDir"
  shows "cli_kept d s \<Longrightarrow> cli_extract outDir es s = (x, s') \<Longrightarrow> cli_kept d s' \<and> cli_changes d s s'"
proof (induction es arbitrary: s)
  case (Cons e es)
  show ?case
  proof (cases "\<exists>err. e = TarBroken err")
    case True
    then show ?thesis using Cons.prems by auto
  next
    case False
    then have run: "(case cli_safeExtractPath outDir (cli_tarName e) of Inl err \<Rightarrow> (Inl err, s)
        | Inr target \<Rightarrow> and_then (cli_unpackEntry (path_elements target) e s) (\<lambda>_ s'. cli_extract outDir es s')) = (x, s')"
      using Cons.prems(2) False by (auto split: cli_tarEntry.splits)
    show ?thesis
    proof (cases "cli_safeExtractPath outDir (cli_tarName e)")
      case (Inl err)
      then show ?thesis using run Cons.prems(1) by simp
    next
      case (Inr t)
      have below: "prefix d (path_elements t)" unfolding assms(2) by (rule cli_safeExtractPath_below [OF Inr assms(1)])
      obtain y s1 where one: "cli_unpackEntry (path_elements t) e s = (y, s1)" by fastforce
      note k = cli_unpackEntry_step [OF one Cons.prems(1) below]
      show ?thesis
      proof (cases y)
        case Inl
        then show ?thesis using run k by (auto simp: \<open>cli_safeExtractPath outDir (cli_tarName e) = Inr t\<close> one and_then_def)
      next
        case (Inr u)
        then have "cli_extract outDir es s1 = (x, s')"
          using run by (simp add: \<open>cli_safeExtractPath outDir (cli_tarName e) = Inr t\<close> one and_then_def)
        from Cons.IH [OF conjunct1 [OF k] this] k show ?thesis using cli_changes_trans by blast
      qed
    qed
  qed
qed simp

lemma cli_extractTarGz_step:
  assumes "cli_extractTarGz untar a outDir s = (x, s')" "path_clean outDir = outDir"
    and "prefix d (path_elements outDir)" "cli_kept d s"
  shows "cli_kept d s' \<and> cli_changes d s s'"
proof (cases "fs_ReadFile a s")
  case None
  then show ?thesis using assms(1,4) by (simp add: cli_extractTarGz_def)
next
  case c: (Some c)
  show ?thesis
  proof (cases "cli_tarEntries untar c")
    case (Inl e)
    then show ?thesis using assms(1,4) c by (simp add: cli_extractTarGz_def)
  next
    case es: (Inr es)
    show ?thesis
    proof (cases "fs_MkdirAll (path_elements outDir) s")
      case None
      then show ?thesis using assms(1,4) c es by (simp add: cli_extractTarGz_def)
    next
      case (Some s1)
      have ext: "cli_extract outDir es s1 = (x, s')" using assms(1) c es Some by (simp add: cli_extractTarGz_def)
      note m = cli_MkdirAll_step [OF Some assms(4) disjI2 [OF assms(3)]]
      have "cli_kept (path_elements outDir) s1"
        using fs_MkdirAll_dir [OF Some] m(1) assms(4) by (simp add: cli_kept_def)
      from cli_extract_step [OF assms(2) refl this ext]
      have e: "cli_kept (path_elements outDir) s'" "cli_changes d s1 s'" using cli_changes_up assms(3) by blast+
      have "s' d = Some Dir"
      proof (cases "d = path_elements outDir")
        case False
        then obtain b bs where "path_elements outDir = d @ b # bs" using assms(3) by (metis append_Nil2 list.exhaust prefixE)
        then have "s' d \<noteq> None" using fs_ok_prefix [of s' "path_elements outDir" d] e(1) assms(3) by (simp add: cli_kept_def)
        moreover have "\<not> prefix (path_elements outDir) d" using False assms(3) prefix_order.antisym by blast
        then have "s' d = s1 d" using cli_extract_step [OF assms(2) refl \<open>cli_kept (path_elements outDir) s1\<close> ext]
          by (auto simp: cli_changes_def)
        ultimately show ?thesis using m(1) by (simp add: cli_kept_def)
      qed (use e(1) in \<open>simp add: cli_kept_def\<close>)
      with e m(2) show ?thesis using cli_changes_trans by (auto simp: cli_kept_def)
    qed
  qed
qed

lemma cli_RemoveAll_step:
  assumes "cli_kept d s" "prefix d p" "p \<noteq> d"
  shows "cli_kept d (fs_RemoveAll p s)" "cli_changes d s (fs_RemoveAll p s)"
proof -
  have "\<not> prefix p d" using assms(2,3) prefix_order.antisym by blast
  moreover have "p \<noteq> []" using assms(2,3) by auto
  ultimately show "cli_kept d (fs_RemoveAll p s)"
    using assms(1) fs_RemoveAll_ok [of s p] by (simp add: cli_kept_def) (simp add: fs_RemoveAll_def)
  show "cli_changes d s (fs_RemoveAll p s)"
    using assms(2) fs_RemoveAll_changes [of p s] unfolding cli_changes_def by (meson prefix_order.trans)
qed

lemma cli_Remove_step: "prefix d p \<Longrightarrow> cli_changes d s (fs_Remove p s)"
  unfolding cli_changes_def using fs_Remove_changes [of p s] by blast

lemma cli_child:
  assumes "slash \<notin> set v" "v \<noteq> []" "v \<noteq> ''.''" "v \<noteq> ''..''" "dir \<noteq> []"
  shows "path_elements (path_join [dir, v]) = path_elements dir @ [v]" "path_clean (path_join [dir, v]) = path_join [dir, v]"
  using path_join_below [OF assms(5), of "[v]"] assms by (simp_all add: plain_def)

lemma cli_unpack_step:
  assumes "cli_unpackAndVerify env finished opts outDir ra tmp s = (x, s')" "outDir \<noteq> []" "slash \<notin> set (ra_Version ra)"
    and "cli_kept (path_elements outDir) s"
  shows "cli_changes (path_elements outDir) s s'"
proof -
  let ?o = "path_elements outDir" and ?dir = "path_join [outDir, ''pulled-'' @ ra_Version ra]"
  have dir: "path_elements ?dir = ?o @ [''pulled-'' @ ra_Version ra]" "path_clean ?dir = ?dir"
    using cli_child [of "''pulled-'' @ ra_Version ra" outDir] assms(2,3) by simp_all
  have rep: "path_elements (path_join [outDir, ''verify-report.json'']) = ?o @ [''verify-report.json'']"
    using cli_child [of "''verify-report.json''" outDir] assms(2) by simp
  have below: "prefix ?o (path_elements ?dir)" "path_elements ?dir \<noteq> ?o" unfolding dir(1) by simp_all
  note r = cli_RemoveAll_step [OF assms(4) below]
  obtain y s1 where ex: "cli_extractTarGz (ce_untar env) tmp ?dir (fs_RemoveAll (path_elements ?dir) s) = (y, s1)"
    by (cases "cli_extractTarGz (ce_untar env) tmp ?dir (fs_RemoveAll (path_elements ?dir) s)")
  note e = cli_extractTarGz_step [OF ex dir(2) below(1) r(1)]
  have to1: "cli_changes ?o s s1" using e r(2) cli_changes_trans by blast
  have "s' = s1 \<or> (\<exists>c. fs_WriteFile (?o @ [''verify-report.json'']) c s1 = Some s')"
    using assms(1) ex by (auto simp: cli_unpackAndVerify_def Let_def rep split: sum.splits option.splits prod.splits if_splits)
  then show ?thesis
  proof
    assume "\<exists>c. fs_WriteFile (?o @ [''verify-report.json'']) c s1 = Some s'"
    then obtain c where "fs_WriteFile (?o @ [''verify-report.json'']) c s1 = Some s'" by blast
    from cli_WriteFile_step(2) [OF this, of ?o] e to1 show ?thesis using cli_changes_trans by auto
  qed (use to1 in simp)
qed

text \<open>
  C33. A pull of a version whose name has no slash changes nothing outside its output directory, whatever the archive
  holds: an entry named with parents or an absolute path cannot leave it, and the temporary file, the
  unpacked directory that is replaced and the report lie in it.
\<close>

theorem cli_pull_confined:
  assumes "fs_ok s" "cli_outDir env clientDir opts \<noteq> []"
    and "\<And>src ra. source = Some src \<Longrightarrow> cli_resolveLoop (cs_resolve src) (cs_took src) opts 0 0 = Inr ra \<Longrightarrow> slash \<notin> set (ra_Version ra)"
    and "cli_Pull env finished source clientDir opts s = (x, s')" "s' q \<noteq> s q"
  shows "prefix (path_elements (cli_outDir env clientDir opts)) q"
proof -
  let ?out = "cli_outDir env clientDir opts" and ?o = "path_elements (cli_outDir env clientDir opts)"
  have "cli_changes ?o s s'"
  proof (cases "s' = s")
    case False
    then obtain src where src: "source = Some src" using assms(4) by (cases source) (auto simp: cli_Pull_def split: if_splits)
    obtain ra where ra: "cli_resolveLoop (cs_resolve src) (cs_took src) opts 0 0 = Inr ra"
      using assms(4) False src by (cases "cli_resolveLoop (cs_resolve src) (cs_took src) opts 0 0") (auto simp: cli_Pull_def split: if_splits)
    let ?tmp = "?o @ [''pull-'' @ ra_Version ra @ ''.tar.gz.part'']"
    have tmp: "path_elements (path_join [?out, ''pull-'' @ ra_Version ra @ ''.tar.gz.part'']) = ?tmp"
      using cli_child [of "''pull-'' @ ra_Version ra @ ''.tar.gz.part''" ?out] assms(2) assms(3) [OF src ra] by simp
    consider "s' = fs_Remove ?tmp s"
      | c s1 y s2 where "fs_WriteFile ?tmp c s = Some s1"
          "cli_unpackAndVerify env finished opts ?out ra ?tmp s1 = (y, s2)" "s' = fs_Remove ?tmp s2"
      using assms(4) False
      by (auto simp: cli_Pull_def src ra Let_def tmp [simplified] split: if_splits sum.splits option.splits prod.splits)
    then show ?thesis
    proof cases
      case 1
      then show ?thesis using cli_Remove_step by simp
    next
      case (2 c s1 y s2)
      have kept: "cli_kept ?o s" using fs_WriteFile_spec(4) [OF 2(1)] assms(1) by (simp add: cli_kept_def)
      note w = cli_WriteFile_step [OF 2(1) kept, simplified]
      from cli_unpack_step [OF 2(2) assms(2) assms(3) [OF src ra] w(1)] w(2)
      have "cli_changes ?o s s2" using cli_changes_trans by blast
      from cli_changes_trans [OF this cli_Remove_step] show ?thesis unfolding 2(3) by simp
    qed
  qed simp
  then show ?thesis using assms(5) by (simp add: cli_changes_def)
qed

end
