(* ===== verification/Artifact_Delivery.thy ===== *)
theory Artifact_Delivery
  imports Artifact_Package Cli_Facts
begin

section \<open>From a build to a verified pull\<close>

text \<open>
  What a build leaves, what its archive lists, how the archive unpacks, and that every file of the unpacked
  artifact then passes the verification against the manifest it carries.
\<close>

subsection \<open>A build\<close>

lemma art_normalize_idem [simp]: "art_NormalizeSHA256Checksum (art_NormalizeSHA256Checksum c) = art_NormalizeSHA256Checksum c"
  by (simp add: art_NormalizeSHA256Checksum_def has_prefix_def)

definition art_labels_distinct :: "art_ExportBundle \<Rightarrow> bool" where
  "art_labels_distinct b \<longleftrightarrow> (xb_Format b \<noteq> ''coco'' \<longrightarrow> distinct (map xi_LabelFileName (xb_Items b)))"

lemma art_Build_ok:
  assumes "art_Build enc sha src now b = Inr out" "art_plain_names b" "art_labels_distinct b"
  shows "art_pkg_ok (bo_Package out)"
    and "pk_file (bo_Package out) [''manifest.json''] = Some (ManifestFile (bo_Manifest out))"
    and "art_covers enc sha (bo_Package out) (mf_Entries (bo_Manifest out))"
    and "bo_Archive out = art_tarGzDir (bo_Package out)"
    and "bo_ArchiveSHA256 out = art_checksum enc sha (bo_Archive out)" "bo_ArchiveSize out = art_size enc (bo_Archive out)"
    and "length (mf_Entries (bo_Manifest out)) = length (art_package_paths (xb_Format b) b)"
proof -
  let ?f = "if xb_Format b = [] then ''yolo'' else xb_Format b"
  obtain source where src: "src = Some source" using assms(1) by (cases src) (auto simp: art_Build_def)
  obtain entries n k where c: "art_writePackageContents enc sha source b ?f art_NewPackage = (Inr (entries, n), k)"
    using assms(1) by (auto simp: art_Build_def src and_then_def Let_def split: prod.splits sum.splits if_splits)
  define m where "m = art_BuildManifestWithMetadata now (xb_Version b) (art_buildManifestCategoryMap (xb_Categories b))
                  \<lparr>ms_TotalImages = int (length (xb_Items b)), ms_TotalAnnotations = n, ms_TotalClasses = int (length (xb_Categories b))\<rparr>
                  (sort_key me_Path entries)"
  obtain k' where w: "art_write [''manifest.json''] (ManifestFile m) k = (Inr (), k')"
    using assms(1) c by (auto simp: art_Build_def src Let_def m_def and_then_def split: prod.splits sum.splits if_splits)
  have out: "bo_Package out = k'" "bo_Manifest out = m" "bo_Archive out = art_tarGzDir k'"
    "bo_ArchiveSHA256 out = art_checksum enc sha (art_tarGzDir k')" "bo_ArchiveSize out = art_size enc (art_tarGzDir k')"
    using assms(1) c w by (auto simp: art_Build_def src Let_def m_def [symmetric] split: if_splits)
  have ok: "art_pkg_ok k" "art_covers enc sha k entries" "map me_Path entries = art_package_paths ?f b"
    using art_writePackageContents_ok [OF c assms(2)] assms(3) by (simp_all add: art_labels_distinct_def split: if_splits)
  have pm: "list_all plain [''manifest.json'']" using plain_dirs by simp
  note f = art_write_ok [OF w ok(1) pm]
  have outs: "distinct (map xi_OutputName (xb_Items b))" using assms(2) by (simp add: art_plain_names_def)
  have "''manifest.json'' \<notin> set (art_package_paths ?f b)"
    using coco_paths_distinct [OF outs] yolo_paths_distinct [OF outs] assms(3)
    by (auto simp: art_package_paths_def art_labels_distinct_def)
  then have "join_with [slash] [''manifest.json''] \<notin> me_Path ` set entries" using ok(3) by (metis join_with.simps(2) list.set_map)
  from art_covers_mono [OF ok(2) f(2) this] have cov: "art_covers enc sha k' entries" .
  have "map (\<lambda>e. e\<lparr>me_Checksum := art_NormalizeSHA256Checksum (me_Checksum e)\<rparr>) (sort_key me_Path entries) = sort_key me_Path entries"
  proof (rule map_idI)
    fix e assume "e \<in> set (sort_key me_Path entries)"
    then obtain p c where "e = art_entry enc sha p c" using cov by (auto simp: art_covers_def)
    then show "e\<lparr>me_Checksum := art_NormalizeSHA256Checksum (me_Checksum e)\<rparr> = e" by (simp add: art_entry_def art_checksum_def)
  qed
  then have es: "mf_Entries m = sort_key me_Path entries" by (simp add: m_def art_BuildManifestWithMetadata_def)
  show "art_pkg_ok (bo_Package out)" using f(1) by (simp add: out)
  show "pk_file (bo_Package out) [''manifest.json''] = Some (ManifestFile (bo_Manifest out))" by (simp add: out f(2))
  show "art_covers enc sha (bo_Package out) (mf_Entries (bo_Manifest out))" using cov by (simp add: out es art_covers_def)
  show "bo_Archive out = art_tarGzDir (bo_Package out)" "bo_ArchiveSHA256 out = art_checksum enc sha (bo_Archive out)"
    "bo_ArchiveSize out = art_size enc (bo_Archive out)" by (simp_all add: out)
  show "length (mf_Entries (bo_Manifest out)) = length (art_package_paths (xb_Format b) b)"
    using arg_cong [OF ok(3), of length] by (auto simp: out es art_package_paths_def split: if_splits)
qed

subsection \<open>The archive\<close>

lemma sort_key_map: "sort_key f (map g xs) = map g (sort_key (f \<circ> g) xs)"
proof -
  have "insort_key f (g x) (map g ys) = map g (insort_key (f \<circ> g) x ys)" for x ys
    by (induction ys) simp_all
  then show ?thesis by (induction xs) simp_all
qed

lemma art_tarGzDir_ok:
  assumes "art_pkg_ok k"
  obtains ps where "art_tarGzDir k = TarGz (map (\<lambda>p. (join_with [slash] p, the (pk_file k p))) ps)"
    "distinct ps" "set ps = dom (pk_file k)"
proof -
  let ?ps = "sort_key (fst \<circ> (\<lambda>p. (join_with [slash] p, the (pk_file k p)))) (pk_Written k)"
  have "art_tarGzDir k = TarGz (map (\<lambda>p. (join_with [slash] p, the (pk_file k p))) ?ps)"
    unfolding art_tarGzDir_def pk_file_def sort_key_map by simp
  moreover have "distinct ?ps" "set ?ps = dom (pk_file k)" using assms by (simp_all add: art_pkg_ok_def)
  ultimately show thesis by (rule that)
qed

subsection \<open>Unpacking\<close>

lemma cli_safeExtractPath_inside:
  assumes "path_clean outDir = outDir" "path_elements outDir \<noteq> []" "list_all plain p" "p \<noteq> []"
  shows "\<exists>t. cli_safeExtractPath outDir (join_with [slash] p) = Inr t \<and> path_elements t = path_elements outDir @ p"
proof -
  let ?t = "path_join [outDir, join_with [slash] p]"
  have out: "outDir = path_text (is_abs outDir) (path_elements outDir)" using assms(1) by (simp add: path_clean_text)
  have ne: "outDir \<noteq> []"
  proof
    assume "outDir = []"
    then have "path_elements outDir = []" by (simp add: path_elements_def clean_step_def)
    with assms(2) show False by simp
  qed
  note b = path_join_below [OF ne assms(3,4)]
  have "?t = path_text (is_abs outDir) (path_elements outDir @ p)" using b(3) by (simp add: path_clean_text b(1,2))
  also have "\<dots> = outDir @ slash # join_with [slash] p"
    using assms(2,4) by (subst out) (simp add: path_text_def join_with_app)
  finally have "has_prefix ?t (outDir @ [slash])" by (simp add: has_prefix_def)
  then show ?thesis using b by (simp add: cli_safeExtractPath_def)
qed

lemma cli_extract_files:
  assumes "path_clean outDir = outDir" "path_elements outDir \<noteq> []" "\<And>p. p \<in> set ps \<Longrightarrow> list_all plain p \<and> p \<noteq> []"
    and "fs_put_all (path_elements outDir) (map (\<lambda>p. (p, f p)) ps) s = Some s'"
  shows "cli_extract outDir (map (\<lambda>p. TarFile (join_with [slash] p) (f p)) ps) s = (Inr (), s')"
  using assms(3,4)
proof (induction ps arbitrary: s)
  case (Cons p ps)
  have p: "list_all plain p" "p \<noteq> []" using Cons.prems(1) [of p] by simp_all
  obtain t where t: "cli_safeExtractPath outDir (join_with [slash] p) = Inr t" "path_elements t = path_elements outDir @ p"
    using cli_safeExtractPath_inside [OF assms(1,2) p] by blast
  obtain s1 where s1: "fs_put (path_elements outDir @ p) (f p) s = Some s1"
    "fs_put_all (path_elements outDir) (map (\<lambda>p. (p, f p)) ps) s1 = Some s'"
    using Cons.prems(2) by (auto split: option.splits)
  obtain s0 where s0: "fs_MkdirAll (butlast (path_elements outDir @ p)) s = Some s0" "fs_WriteFile (path_elements outDir @ p) (f p) s0 = Some s1"
    using s1(1) by (auto simp: fs_put_def split: option.splits)
  show ?case using t s0 Cons.IH [OF _ s1(2)] Cons.prems(1) by (simp add: cli_tarName_def cli_unpackEntry_def)
qed simp

text \<open>Unpacking a package below a new directory succeeds and leaves each of its files.\<close>

lemma cli_unpack_package:
  assumes pkg: "art_pkg_ok k" and out: "path_clean outDir = outDir" "path_elements outDir = o' @ [c]"
    and s: "fs_ok s" "s o' = Some Dir" "\<And>q. prefix (path_elements outDir) q \<Longrightarrow> s q = None"
    and tmp: "fs_ReadFile tmp s = Some (art_tarGzDir k)"
  shows "\<exists>s'. cli_extractTarGz untar tmp outDir s = (Inr (), s') \<and> fs_ok s' \<and> s' o' = Some Dir \<and>
    (\<forall>p x. pk_file k p = Some x \<longrightarrow> s' (path_elements outDir @ p) = Some (File x)) \<and>
    (\<forall>q. \<not> prefix (path_elements outDir) q \<longrightarrow> s' q = s q)"
proof -
  let ?d = "path_elements outDir"
  obtain ps where ps: "art_tarGzDir k = TarGz (map (\<lambda>p. (join_with [slash] p, the (pk_file k p))) ps)"
    "distinct ps" "set ps = dom (pk_file k)" by (rule art_tarGzDir_ok [OF pkg])
  have written: "\<And>p. p \<in> set ps \<Longrightarrow> list_all plain p \<and> p \<noteq> []" using pkg ps(3) unfolding art_pkg_ok_def by blast
  have "\<exists>s1. fs_MkdirAll ?d s = Some s1"
  proof (rule fs_MkdirAll_success)
    fix q x assume q: "prefix q ?d"
    show "s q \<noteq> Some (File x)"
    proof (cases "q = ?d")
      case True
      then show ?thesis using s(3) by simp
    next
      case False
      then have "prefix q o'" using q out(2) by simp
      then have "q = o' \<or> strict_prefix q o'" by (auto simp: strict_prefix_def)
      then show ?thesis using fs_ok_strict [OF s(1), of o' q] s(2) by auto
    qed
  qed
  then obtain s1 where s1: "fs_MkdirAll ?d s = Some s1" by blast
  note ok1 = fs_MkdirAll_ok [OF s1 s(1)] and dir1 = fs_MkdirAll_dir [OF s1 s(1)]
  have empty: "s1 (?d @ q) = None" if "q \<noteq> []" for q
    using that s(3) [of "?d @ q"] by (simp add: fs_MkdirAll_spec [OF s1])
  have chain: "\<not> strict_prefix p q" if h: "p \<in> set ps" "q \<in> set ps" for p q
  proof
    assume "strict_prefix p q"
    moreover obtain x y where f: "pk_Files k p = Some (File x)" "pk_Files k q = Some (File y)"
      using h unfolding ps(3) by (auto simp: dom_def pk_file_def fs_ReadFile_Some)
    ultimately show False using fs_ok_strict [of "pk_Files k" q p] pkg by (simp add: art_pkg_ok_def)
  qed
  let ?pcs = "map (\<lambda>p. (p, the (pk_file k p))) ps"
  have fsts: "fst ` set ?pcs = set ps" by force
  have "\<exists>s'. fs_put_all ?d ?pcs s1 = Some s' \<and> fs_ok s' \<and> (\<forall>(p, x) \<in> set ?pcs. s' (?d @ p) = Some (File x)) \<and>
    (\<forall>q y. q \<notin> (\<lambda>p. ?d @ p) ` fst ` set ?pcs \<longrightarrow> s' q = Some (File y) \<longleftrightarrow> s1 q = Some (File y)) \<and>
    (\<forall>q. s1 q = Some Dir \<longrightarrow> s' q = Some Dir)"
  proof (rule fs_put_all_success [OF ok1 dir1])
    show "distinct (map fst ?pcs)" by (simp add: comp_def ps(2))
    show "p \<noteq> []" if "p \<in> fst ` set ?pcs" for p using that written unfolding fsts by blast
    show "\<not> strict_prefix p q" if "p \<in> fst ` set ?pcs" "q \<in> fst ` set ?pcs" for p q using that chain unfolding fsts by blast
    show "s1 (?d @ p) \<noteq> Some Dir" if "p \<in> fst ` set ?pcs" for p using that written [of p] empty [of p] unfolding fsts by auto
    show "s1 (?d @ q) \<noteq> Some (File x)" if "p \<in> fst ` set ?pcs" "strict_prefix q p" for p q x
      using empty [of q] dir1 by (cases "q = []") auto
  qed
  then obtain s' where s': "fs_put_all ?d ?pcs s1 = Some s'" "fs_ok s'" "\<forall>(p, x) \<in> set ?pcs. s' (?d @ p) = Some (File x)"
    "\<forall>q. s1 q = Some Dir \<longrightarrow> s' q = Some Dir" by blast
  have "cli_extract outDir (map (\<lambda>p. TarFile (join_with [slash] p) (the (pk_file k p))) ps) s1 = (Inr (), s')"
    by (rule cli_extract_files [OF out(1) _ written s'(1)]) (simp_all add: out(2))
  then have ex: "cli_extractTarGz untar tmp outDir s = (Inr (), s')"
    by (simp add: cli_extractTarGz_def tmp ps(1) cli_tarEntries_def s1 comp_def)
  have files: "s' (?d @ p) = Some (File x)" if "pk_file k p = Some x" for p x
    using s'(3) that ps(3) by (force simp: dom_def)
  have o1: "s1 o' = Some Dir" using s(2) by (simp add: fs_MkdirAll_spec [OF s1])
  have kept: "s' q = s q" if q: "\<not> prefix ?d q" for q
  proof -
    have "cli_kept ?d s1" using ok1 dir1 by (simp add: cli_kept_def)
    from cli_extract_step [OF out(1) refl this] ex have "cli_changes ?d s1 s'"
      by (auto simp: cli_extractTarGz_def tmp ps(1) cli_tarEntries_def s1)
    then have "s' q = s1 q" using q by (auto simp: cli_changes_def)
    also have "s1 q = s q"
    proof (cases "prefix q ?d")
      case True
      then have "prefix q o'" using q out(2) by auto
      then have "s q \<noteq> None" using fs_ok_prefix [OF s(1), of o' q] s(2) by simp
      then show ?thesis by (simp add: fs_MkdirAll_spec [OF s1])
    qed (simp add: fs_MkdirAll_spec [OF s1])
    finally show ?thesis .
  qed
  show ?thesis using ex s'(2,4) o1 files kept by blast
qed

subsection \<open>Verification\<close>

text \<open>A hexadecimal digest is not empty and has no colon.\<close>

definition sha_hex :: "(string \<Rightarrow> string) \<Rightarrow> bool" where
  "sha_hex sha \<longleftrightarrow> (\<forall>x. sha x \<noteq> [] \<and> CHR '':'' \<notin> set (sha x))"

lemma art_checksum_hex:
  assumes "sha_hex sha"
  shows "art_checksum enc sha c = ''sha256:'' @ sha (art_bytes enc c)" "split_colon (art_checksum enc sha c) = Some (''sha256'', sha (art_bytes enc c))"
proof -
  let ?h = "sha (art_bytes enc c)"
  have h: "?h \<noteq> []" "CHR '':'' \<notin> set ?h" using assms unfolding sha_hex_def by blast+
  have "\<not> has_prefix ?h ''sha256:''"
  proof
    assume "has_prefix ?h ''sha256:''"
    then have "set ''sha256:'' \<subseteq> set ?h" unfolding has_prefix_def by (metis set_take_subset)
    with h(2) show False by simp
  qed
  then show c: "art_checksum enc sha c = ''sha256:'' @ ?h"
    using h(1) by (simp add: art_checksum_def art_NormalizeSHA256Checksum_def)
  show "split_colon (art_checksum enc sha c) = Some (''sha256'', ?h)" unfolding c by (simp add: split_colon_def)
qed

lemma cli_VerifyManifestEntry_passes:
  assumes "sha_hex sha" "s p = Some (File c)" "e = art_entry enc sha name c"
  shows "cli_VerifyManifestEntry enc sha s p e = (cli_result e VerifyStatusPassed [], None)"
proof -
  have e: "me_Checksum e = art_checksum enc sha c" "me_Size e = art_size enc c" using assms(3) by (simp_all add: art_entry_def)
  have read: "fs_ReadFile p s = Some c" using assms(2) by (simp add: fs_ReadFile_Some)
  have "cli_VerifyFile enc sha s p (me_Checksum e) = Inr ()"
    unfolding cli_VerifyFile_def e(1) art_checksum_hex(2) [OF assms(1)] by (simp add: read)
  then show ?thesis by (simp add: cli_VerifyManifestEntry_def Let_def read e(2))
qed

lemma cli_verify_all:
  assumes "\<And>e. e \<in> set entries \<Longrightarrow> verify (path_elements (path_join [dir, me_Path e])) e = (cli_result e VerifyStatusPassed [], None)"
    and "set finished \<subseteq> {..<length entries}"
  shows "cli_verifyManifestEntries finished verify dir entries = (map (\<lambda>e. cli_result e VerifyStatusPassed []) entries, None)"
proof -
  have m: "map (\<lambda>e. verify (path_elements (path_join [dir, me_Path e])) e) entries = map (\<lambda>e. (cli_result e VerifyStatusPassed [], None)) entries"
    using assms(1) by (intro map_cong) auto
  have f: "filter (\<lambda>i. snd (map (\<lambda>e. (cli_result e VerifyStatusPassed [], None)) entries ! i) \<noteq> None) finished = []"
    using assms(2) by (auto simp: filter_empty_conv)
  show ?thesis unfolding cli_verifyManifestEntries_def Let_def m f by (simp add: comp_def)
qed

subsection \<open>A pull of a build\<close>

text \<open>What the pull is run with: the encodings of the platform, a directory, options in range, a source that answers.\<close>

definition cli_ready :: "cli_Env \<Rightarrow> (nat \<Rightarrow> nat list) \<Rightarrow> cli_Source \<Rightarrow> string \<Rightarrow> cli_PullOptions \<Rightarrow> cli_ResolvedArtifact \<Rightarrow> art_content fs \<Rightarrow> bool" where
  "cli_ready env finished src clientDir opts ra s \<longleftrightarrow>
     sha_hex (ce_sha env) \<and> (\<forall>n. set (finished n) \<subseteq> {..<n}) \<and>
     po_Format opts \<noteq> [] \<and> po_Version opts \<noteq> [] \<and> 0 \<le> po_ResolveTimeout opts \<and> 0 \<le> po_PollInterval opts \<and> 0 \<le> po_VerifyWorkers opts \<and>
     cli_resolveLoop (cs_resolve src) (cs_took src) opts 0 0 = Inr ra \<and> slash \<notin> set (ra_Version ra) \<and>
     cli_outDir env clientDir opts \<noteq> [] \<and> fs_ok s \<and>
     (let out = path_elements (cli_outDir env clientDir opts) in
      s out = Some Dir \<and> s (out @ [''pull-'' @ ra_Version ra @ ''.tar.gz.part'']) \<noteq> Some Dir \<and> s (out @ [''verify-report.json'']) \<noteq> Some Dir)"

lemma cli_unpack_verified:
  assumes build: "art_Build (ce_enc env) (ce_sha env) bsrc now b = Inr out" "art_plain_names b" "art_labels_distinct b"
    and hex: "sha_hex (ce_sha env)" and fin: "\<And>n. set (finished n) \<subseteq> {..<n}"
    and dir: "outDir \<noteq> []" "slash \<notin> set (ra_Version ra)"
    and s: "fs_ok s" "s (path_elements outDir) = Some Dir" "s (path_elements outDir @ [''verify-report.json'']) \<noteq> Some Dir"
    and tmp: "tmp = path_elements outDir @ [''pull-'' @ ra_Version ra @ ''.tar.gz.part'']" "s tmp = Some (File (bo_Archive out))"
  shows "\<exists>report s'. cli_unpackAndVerify env finished opts outDir ra tmp s = (Inr report, s') \<and>
    rp_TotalFiles report = int (length (mf_Entries (bo_Manifest out))) \<and> rp_FailedFiles report = 0 \<and> rp_VerifiedFiles report = rp_TotalFiles report"
proof -
  note built = art_Build_ok [OF build]
  let ?o = "path_elements outDir" and ?n = "''pulled-'' @ ra_Version ra" and ?k = "bo_Package out"
  let ?rep = "?o @ [''verify-report.json'']"
  define adir where "adir = path_join [outDir, ?n]"
  have d: "path_elements adir = ?o @ [?n]" "path_clean adir = adir"
    using cli_child [of ?n outDir] dir by (simp_all add: adir_def)
  have rep: "path_elements (path_join [outDir, ''verify-report.json'']) = ?rep"
    using cli_child [of "''verify-report.json''" outDir] dir(1) by simp
  let ?s = "fs_RemoveAll (?o @ [?n]) s"
  have s1: "fs_ok ?s" using fs_RemoveAll_ok [OF s(1)] by simp
  have gone: "?s q = None" if "prefix (path_elements adir) q" for q using that unfolding d(1) by (simp add: fs_RemoveAll_def)
  have kept: "?s q = s q" if "\<not> prefix (?o @ [?n]) q" for q using that by (simp add: fs_RemoveAll_def)
  have o1: "?s ?o = Some Dir" using kept [of ?o] s(2) by simp
  have t1: "fs_ReadFile tmp ?s = Some (art_tarGzDir ?k)"
    using kept [of tmp] tmp built(4) by (simp add: fs_ReadFile_Some)
  obtain s2 where s2: "cli_extractTarGz (ce_untar env) tmp adir ?s = (Inr (), s2)" "fs_ok s2" "s2 ?o = Some Dir"
    "\<forall>p x. pk_file ?k p = Some x \<longrightarrow> s2 (path_elements adir @ p) = Some (File x)" "\<forall>q. \<not> prefix (path_elements adir) q \<longrightarrow> s2 q = ?s q"
    using cli_unpack_package [OF built(1) d(2,1) s1 o1 gone t1, of "ce_untar env"] by blast
  have ne: "adir \<noteq> []"
  proof
    assume e: "adir = []"
    have "path_elements adir = []" unfolding e by code_simp
    with d(1) show False by simp
  qed
  have inside: "path_elements (path_join [adir, join_with [slash] p]) = path_elements adir @ p" if "list_all plain p" "p \<noteq> []" for p
    by (rule path_join_below(1) [OF ne that])
  have mp: "path_elements (path_join [adir, ''manifest.json'']) = path_elements adir @ [''manifest.json'']"
    using inside [of "[''manifest.json'']"] plain_dirs by simp
  have "s2 (path_elements adir @ [''manifest.json'']) = Some (File (ManifestFile (bo_Manifest out)))" using s2(4) built(2) by blast
  then have man: "cli_loadManifest env (path_elements adir @ [''manifest.json'']) s2 = Inr (bo_Manifest out)"
    unfolding cli_loadManifest_def fs_ReadFile_def by simp
  let ?verify = "cli_VerifyManifestEntry (ce_enc env) (ce_sha env) s2" and ?es = "mf_Entries (bo_Manifest out)"
  have passes: "?verify (path_elements (path_join [adir, me_Path e])) e = (cli_result e VerifyStatusPassed [], None)" if h: "e \<in> set ?es" for e
  proof -
    obtain p c where p: "p \<noteq> []" "list_all plain p" "pk_file ?k p = Some c" "e = art_entry (ce_enc env) (ce_sha env) (join_with [slash] p) c"
      using built(3) h unfolding art_covers_def by blast
    have "s2 (path_elements adir @ p) = Some (File c)" using s2(4) p(3) by simp
    then have "s2 (path_elements (path_join [adir, me_Path e])) = Some (File c)" unfolding p(4) me_Path_entry inside [OF p(2,1)] .
    then show ?thesis by (rule cli_VerifyManifestEntry_passes [OF hex _ p(4)])
  qed
  have verified: "cli_verifyManifestEntries (finished (length ?es)) ?verify adir ?es = (map (\<lambda>e. cli_result e VerifyStatusPassed []) ?es, None)"
    using cli_verify_all [of ?es ?verify adir "finished (length ?es)"] passes fin by blast
  have "\<not> prefix (path_elements adir) ?rep" unfolding d(1) by simp
  then have "s2 ?rep \<noteq> Some Dir" using s2(5) kept [of ?rep] s(3) d(1) by simp
  then have "\<And>c. \<exists>s3. fs_WriteFile ?rep c s2 = Some s3" using s2(3) by (simp add: fs_WriteFile_def)
  then obtain wr where wr: "\<And>c. fs_WriteFile ?rep c s2 = Some (wr c)" by metis
  show ?thesis
    unfolding cli_unpackAndVerify_def adir_def [symmetric] Let_def s2(1) [folded d(1)] sum.case prod.case mp man verified rep wr sum.case prod.case option.case
    by (simp add: cli_result_def VerifyStatusPassed_def VerifyStatusFailed_def comp_def)
qed

text \<open>The archive of a successful build, delivered to a client, is verified without a failure.\<close>

lemma cli_pull_built:
  assumes "art_Build (ce_enc env) (ce_sha env) bsrc now b = Inr out" "art_plain_names b" "art_labels_distinct b"
    and "cli_ready env finished src clientDir opts ra s" "cs_download src ra = Inr (bo_Archive out)"
  shows "\<exists>report s'. cli_Pull env finished (Some src) clientDir opts s = (Inr report, s') \<and>
    rp_TotalFiles report = int (length (mf_Entries (bo_Manifest out))) \<and> rp_FailedFiles report = 0 \<and>
    rp_VerifiedFiles report = rp_TotalFiles report"
proof -
  let ?out = "cli_outDir env clientDir opts"
  let ?o = "path_elements ?out" and ?n = "''pull-'' @ ra_Version ra @ ''.tar.gz.part''"
  note r = assms(4) [unfolded cli_ready_def Let_def]
  have tmp: "path_elements (path_join [?out, ?n]) = ?o @ [?n]"
    using cli_child [of ?n ?out] r by simp
  have "\<exists>s1. fs_WriteFile (?o @ [?n]) (bo_Archive out) s = Some s1" using r by (simp add: fs_WriteFile_def)
  then obtain s1 where s1: "fs_WriteFile (?o @ [?n]) (bo_Archive out) s = Some s1" by blast
  note w = fs_WriteFile_spec(1) [OF s1]
  have "fs_ok s1" using fs_WriteFile_ok [OF s1] r by blast
  moreover have "s1 ?o = Some Dir" "s1 (?o @ [''verify-report.json'']) \<noteq> Some Dir" using r by (simp_all add: w)
  moreover have "s1 (?o @ [?n]) = Some (File (bo_Archive out))" by (simp add: w)
  ultimately obtain report s' where u: "cli_unpackAndVerify env finished opts ?out ra (?o @ [?n]) s1 = (Inr report, s')"
    "rp_TotalFiles report = int (length (mf_Entries (bo_Manifest out)))" "rp_FailedFiles report = 0" "rp_VerifiedFiles report = rp_TotalFiles report"
    using cli_unpack_verified [OF assms(1-3), of finished ?out ra s1 "?o @ [?n]" opts] r by blast
  have "cli_Pull env finished (Some src) clientDir opts s = (Inr report, fs_Remove (?o @ [?n]) s')"
    unfolding cli_Pull_def Let_def using r by (simp add: assms(5) tmp [simplified] s1 [simplified] u(1) [simplified])
  then show ?thesis using u(2-4) by blast
qed

end
