(* ===== verification/Artifact_Service_Facts.thy ===== *)
theory Artifact_Service_Facts
  imports Artifact_Service Artifact_Store_Facts Artifact_Delivery
begin

section \<open>Artifacts: what every history of the service keeps\<close>

text \<open>
  The service over a file system storage. The invariant describes each artifact on its own (\<open>art_good\<close>): its fields
  are in range, and if it is ready its archive is where its URI says, with the size it records. A store of another
  version keeps this, since it removes nothing but its own temporary directory.
\<close>

definition art_archiveName :: "string \<Rightarrow> string" where
  "art_archiveName format = ''package.'' @ format @ ''.tar.gz''"

lemma art_archiveName_plain:
  assumes "format \<in> {''yolo'', ''coco''}"
  shows "plain (art_archiveName format)" "art_archiveName format \<noteq> ''manifest.json''"
proof -
  have "plain (art_archiveName ''yolo'') \<and> plain (art_archiveName ''coco'') \<and> art_archiveName ''yolo'' \<noteq> ''manifest.json'' \<and>
    art_archiveName ''coco'' \<noteq> ''manifest.json''" by code_simp
  then show "plain (art_archiveName format)" "art_archiveName format \<noteq> ''manifest.json''" using assms by auto
qed

definition art_statuses :: "string list" where
  "art_statuses = [art_StatusPending, art_StatusQueued, art_StatusBuilding, art_StatusReady, art_StatusFailed]"

definition art_typed :: "art_Artifact \<Rightarrow> bool" where
  "art_typed a \<longleftrightarrow> at_Status a \<in> set art_statuses \<and> at_Format a \<in> {''yolo'', ''coco''} \<and> version_ok (at_Version a) \<and>
     0 < at_ProjectID a \<and> 0 < at_DatasetID a \<and> 0 < at_SnapshotID a \<and> 0 \<le> at_Size a \<and>
     (at_Status a = art_StatusReady \<longrightarrow> has_prefix (at_Checksum a) ''sha256:'' \<and> at_ErrorMsg a = [])"

definition art_stored :: "art_Config \<Rightarrow> string \<Rightarrow> art_content fs \<Rightarrow> art_Artifact \<Rightarrow> bool" where
  "art_stored cfg dir f a \<longleftrightarrow> (at_Status a = art_StatusReady \<longrightarrow>
     at_URI a = art_archiveURI (at_Version a) (art_archiveName (at_Format a)) \<and>
     (\<exists>c. f (path_elements dir @ [at_Version a, art_archiveName (at_Format a)]) = Some (File c) \<and> at_Size a = art_size (ac_enc cfg) c))"

definition art_inv :: "art_Config \<Rightarrow> string \<Rightarrow> art_Service \<Rightarrow> bool" where
  "art_inv cfg dir s \<longleftrightarrow> fs_ok (as_Files s) \<and> 1 \<le> ar_nextID (as_Repo s) \<and>
     (\<forall>i a. ar_byID (as_Repo s) i = Some a \<longrightarrow>
        at_ID a = i \<and> 1 \<le> i \<and> i < ar_nextID (as_Repo s) \<and> art_typed a \<and> art_stored cfg dir (as_Files s) a)"

lemma art_invD:
  assumes "art_inv cfg dir s" "ar_byID (as_Repo s) i = Some a"
  shows "at_ID a = i" "1 \<le> i" "i < ar_nextID (as_Repo s)" "art_typed a" "art_stored cfg dir (as_Files s) a"
  using assms unfolding art_inv_def by blast+

lemma art_invI:
  assumes "fs_ok (as_Files s)" "1 \<le> ar_nextID (as_Repo s)" "ar_byID (as_Repo s) = m"
    and "\<And>i a. m i = Some a \<Longrightarrow> at_ID a = i \<and> 1 \<le> i \<and> i < ar_nextID (as_Repo s) \<and> art_typed a \<and> art_stored cfg dir (as_Files s) a"
  shows "art_inv cfg dir s"
  unfolding art_inv_def assms(3) using assms(1,2,4) by blast

lemma art_inv_base: "art_inv cfg dir s \<Longrightarrow> fs_ok (as_Files s)" "art_inv cfg dir s \<Longrightarrow> 1 \<le> ar_nextID (as_Repo s)"
  by (simp_all add: art_inv_def)

definition art_cfg_ok :: "art_Config \<Rightarrow> string \<Rightarrow> bool" where
  "art_cfg_ok cfg dir \<longleftrightarrow> ac_storage cfg = Some dir \<and> dir \<noteq> [] \<and> sha_hex (ac_sha cfg)"

lemma art_stored_keeps:
  assumes "art_stored cfg dir f a" "art_typed a" "fs_keeps (path_elements dir @ [w @ ''.tmp'']) f f'"
  shows "art_stored cfg dir f' a"
proof -
  have "at_Version a \<noteq> w @ ''.tmp''"
    using assms(2) by (auto simp: art_typed_def version_ok_def has_prefix_def)
  then have "\<not> prefix (path_elements dir @ [w @ ''.tmp'']) (path_elements dir @ [at_Version a, n])" for n by simp
  then show ?thesis using assms(1,3) unfolding art_stored_def fs_keeps_def by blast
qed

subsection \<open>Updates of one artifact\<close>

lemma art_update_inv:
  assumes "art_inv cfg dir s"
    and "\<And>a. ar_byID (as_Repo s) i = Some a \<Longrightarrow> at_ID (f a) = at_ID a \<and> art_typed (f a) \<and> art_stored cfg dir (as_Files s) (f a)"
  shows "art_inv cfg dir (snd (art_on_repo (art_on_stored i f) s))"
proof (cases "ar_byID (as_Repo s) i")
  case None
  then show ?thesis using assms(1) by (simp add: art_on_repo_def art_on_stored_def)
next
  case (Some a)
  note d = art_invD [OF assms(1)] and u = assms(2) [OF Some]
  have st: "snd (art_on_repo (art_on_stored i f) s) = s\<lparr>as_Repo := (as_Repo s)\<lparr>ar_byID := (ar_byID (as_Repo s))(i \<mapsto> f a)\<rparr>\<rparr>"
    by (simp add: art_on_repo_def art_on_stored_def Some)
  have each: "at_ID b = k \<and> 1 \<le> k \<and> k < ar_nextID (as_Repo s) \<and> art_typed b \<and> art_stored cfg dir (as_Files s) b"
    if h: "((ar_byID (as_Repo s))(i \<mapsto> f a)) k = Some b" for k b
  proof (cases "k = i")
    case True
    then have "b = f a" using h by simp
    then show ?thesis using True d(1-3) [OF Some] u by simp
  next
    case False
    then have "ar_byID (as_Repo s) k = Some b" using h by simp
    from d [OF this] show ?thesis by simp
  qed
  show ?thesis unfolding st
  proof (rule art_invI [where m = "(ar_byID (as_Repo s))(i \<mapsto> f a)"])
    show "fs_ok (as_Files (s\<lparr>as_Repo := (as_Repo s)\<lparr>ar_byID := (ar_byID (as_Repo s))(i \<mapsto> f a)\<rparr>\<rparr>))" "1 \<le> ar_nextID (as_Repo (s\<lparr>as_Repo := (as_Repo s)\<lparr>ar_byID := (ar_byID (as_Repo s))(i \<mapsto> f a)\<rparr>\<rparr>))" "ar_byID (as_Repo (s\<lparr>as_Repo := (as_Repo s)\<lparr>ar_byID := (ar_byID (as_Repo s))(i \<mapsto> f a)\<rparr>\<rparr>)) = (ar_byID (as_Repo s))(i \<mapsto> f a)"
      using art_inv_base [OF assms(1)] by simp_all
    fix k b assume "((ar_byID (as_Repo s))(i \<mapsto> f a)) k = Some b"
    from each [OF this] show "at_ID b = k \<and> 1 \<le> k \<and> k < ar_nextID (as_Repo (s\<lparr>as_Repo := (as_Repo s)\<lparr>ar_byID := (ar_byID (as_Repo s))(i \<mapsto> f a)\<rparr>\<rparr>)) \<and> art_typed b \<and> art_stored cfg dir (as_Files (s\<lparr>as_Repo := (as_Repo s)\<lparr>ar_byID := (ar_byID (as_Repo s))(i \<mapsto> f a)\<rparr>\<rparr>)) b" by simp
  qed
qed

lemma art_link_inv: "art_inv cfg dir s \<Longrightarrow> art_inv cfg dir (snd (art_LinkArtifactJob i j s))"
  unfolding art_LinkArtifactJob_def art_repo_LinkJob_def
  by (auto intro!: art_update_inv dest: art_invD(4,5) simp: art_typed_def art_stored_def)

text \<open>The fields a build result sets.\<close>

lemma art_result_typed:
  assumes "art_typed a" "br_Status r \<in> set art_statuses" "0 \<le> br_Size r"
    and "br_Status r = art_StatusReady \<Longrightarrow> has_prefix (br_Checksum r) ''sha256:'' \<and> br_ErrorMsg r = []"
  shows "art_typed (a\<lparr>at_Status := br_Status r, at_URI := br_URI r, at_ManifestURI := br_ManifestURI r,
       at_Checksum := br_Checksum r, at_Size := br_Size r, at_ErrorMsg := br_ErrorMsg r\<rparr>)"
  using assms by (simp add: art_typed_def)

lemma art_result_inv:
  assumes inv: "art_inv cfg dir s" and "br_Status r \<in> set art_statuses" "0 \<le> br_Size r"
    and "br_Status r = art_StatusReady \<Longrightarrow> has_prefix (br_Checksum r) ''sha256:'' \<and> br_ErrorMsg r = []"
    and "\<And>a. ar_byID (as_Repo s) i = Some a \<Longrightarrow> br_Status r = art_StatusReady \<Longrightarrow>
       br_URI r = art_archiveURI (at_Version a) (art_archiveName (at_Format a)) \<and>
       (\<exists>c. as_Files s (path_elements dir @ [at_Version a, art_archiveName (at_Format a)]) = Some (File c) \<and> br_Size r = art_size (ac_enc cfg) c)"
  shows "art_inv cfg dir (snd (art_on_repo (art_repo_UpdateBuildResult i r) s))"
  unfolding art_repo_UpdateBuildResult_def
proof (rule art_update_inv [OF inv])
  fix a assume a: "ar_byID (as_Repo s) i = Some a"
  show "at_ID (a\<lparr>at_Status := br_Status r, at_URI := br_URI r, at_ManifestURI := br_ManifestURI r,
       at_Checksum := br_Checksum r, at_Size := br_Size r, at_ErrorMsg := br_ErrorMsg r\<rparr>) = at_ID a \<and>
    art_typed (a\<lparr>at_Status := br_Status r, at_URI := br_URI r, at_ManifestURI := br_ManifestURI r,
       at_Checksum := br_Checksum r, at_Size := br_Size r, at_ErrorMsg := br_ErrorMsg r\<rparr>) \<and>
    art_stored cfg dir (as_Files s) (a\<lparr>at_Status := br_Status r, at_URI := br_URI r, at_ManifestURI := br_ManifestURI r,
       at_Checksum := br_Checksum r, at_Size := br_Size r, at_ErrorMsg := br_ErrorMsg r\<rparr>)"
    using art_result_typed [OF art_invD(4) [OF inv a] assms(2-4)] assms(5) [OF a] by (simp add: art_stored_def)
qed

lemma art_outcome_inv [simp]: "art_inv cfg dir (art_outcome st s) = art_inv cfg dir s"
  by (simp add: art_inv_def art_outcome_def)

lemma art_then_inv:
  "art_inv cfg dir (snd m) \<Longrightarrow> (\<And>x s. art_inv cfg dir s \<Longrightarrow> art_inv cfg dir (snd (f x s))) \<Longrightarrow> art_inv cfg dir (snd (and_then m f))"
  by (cases m) (auto simp: and_then_def split: sum.splits)

lemma art_failBuild_inv: "art_inv cfg dir s \<Longrightarrow> art_inv cfg dir (snd (art_failBuild i e s))"
  unfolding art_failBuild_def
  by (rule art_then_inv) (auto intro!: art_result_inv simp: art_statuses_def art_status_defs)

lemma art_status_inv:
  assumes "art_inv cfg dir s" "st \<in> set art_statuses" "st \<noteq> art_StatusReady"
  shows "art_inv cfg dir (snd (art_on_repo (art_repo_UpdateStatus i st msg) s))"
  unfolding art_repo_UpdateStatus_def
  by (rule art_update_inv [OF assms(1)]) (use assms art_invD(4) in \<open>auto simp: art_typed_def art_stored_def\<close>)

subsection \<open>Creating\<close>

lemma has_prefix_hd: "has_prefix s (c # cs) \<Longrightarrow> s \<noteq> [] \<and> hd s = c"
  by (cases s) (simp_all add: has_prefix_def)

lemma rev_tmp: "rev ''.tmp'' = CHR ''p'' # ''mt.''"
  by simp

lemma version_ok_default: "version_ok (''v'' @ show_int i)"
proof -
  have "show_int i \<noteq> []" "\<And>c. c \<in> set (show_int i) \<Longrightarrow> is_digit c \<or> c = CHR ''-''"
    using show_nat_digits by (auto simp: show_int_def split: if_splits)
  then have "slash \<notin> set (show_int i)" "last (show_int i) \<noteq> CHR ''p''" "hd (show_int i) \<noteq> CHR ''.''"
    using last_in_set hd_in_set by (fastforce simp: is_digit_def)+
  moreover have "\<not> has_prefix (rev (''v'' @ show_int i)) (rev ''.tmp'')"
  proof
    assume "has_prefix (rev (''v'' @ show_int i)) (rev ''.tmp'')"
    from has_prefix_hd [OF this [unfolded rev_tmp]] have "hd (rev (''v'' @ show_int i)) = CHR ''p''" by simp
    then show False using \<open>show_int i \<noteq> []\<close> \<open>last (show_int i) \<noteq> CHR ''p''\<close> by (simp add: hd_append hd_rev)
  qed
  ultimately show ?thesis using \<open>show_int i \<noteq> []\<close> by (auto simp: version_ok_def plain_def)
qed

definition art_request_ok :: "art_PackageRequest \<Rightarrow> bool" where
  "art_request_ok p \<longleftrightarrow> pr_Version p = [] \<or> version_ok (pr_Version p)"

lemma art_create_result:
  assumes "\<not> (pr_DatasetID p \<le> 0 \<or> pr_SnapshotID p \<le> 0 \<or> pr_Format p = [] \<or> pr_Format p \<noteq> ''yolo'' \<and> pr_Format p \<noteq> ''coco'')"
    and "st \<noteq> []"
  shows "\<exists>a. art_CreateArtifact cfg now p st s =
      (Inr a, s\<lparr>as_Repo := (as_Repo s)\<lparr>ar_nextID := ar_nextID (as_Repo s) + 1, ar_byID := (ar_byID (as_Repo s))(ar_nextID (as_Repo s) \<mapsto> a)\<rparr>\<rparr>) \<and>
    at_ID a = ar_nextID (as_Repo s) \<and> at_ProjectID a = (if pr_ProjectID p \<le> 0 then 1 else pr_ProjectID p) \<and> at_DatasetID a = pr_DatasetID p \<and>
    at_SnapshotID a = pr_SnapshotID p \<and> at_Format a = pr_Format p \<and>
    at_Version a = (if pr_Version p = [] then ''v'' @ show_int (pr_SnapshotID p) else pr_Version p) \<and> at_Size a = 0 \<and> at_Status a = st \<and>
    at_CreatedByJobID a = None"
  using assms by (auto simp: art_CreateArtifact_def art_repo_Create_def Let_def)

lemma art_create_inv:
  assumes inv: "art_inv cfg dir s" and req: "art_request_ok p" and st: "st \<in> {art_StatusPending, art_StatusQueued}"
  shows "art_inv cfg dir (snd (art_CreateArtifact cfg now p st s))"
proof (cases "pr_DatasetID p \<le> 0 \<or> pr_SnapshotID p \<le> 0 \<or> pr_Format p = [] \<or> pr_Format p \<noteq> ''yolo'' \<and> pr_Format p \<noteq> ''coco''")
  case True
  then show ?thesis using inv by (auto simp: art_CreateArtifact_def)
next
  case False
  let ?v = "if pr_Version p = [] then ''v'' @ show_int (pr_SnapshotID p) else pr_Version p"
  let ?r = "as_Repo s"
  obtain a where a: "snd (art_CreateArtifact cfg now p st s) = s\<lparr>as_Repo := ?r\<lparr>ar_nextID := ar_nextID ?r + 1, ar_byID := (ar_byID ?r)(ar_nextID ?r \<mapsto> a)\<rparr>\<rparr>"
    "at_ID a = ar_nextID ?r" "at_ProjectID a = (if pr_ProjectID p \<le> 0 then 1 else pr_ProjectID p)" "at_DatasetID a = pr_DatasetID p"
    "at_SnapshotID a = pr_SnapshotID p" "at_Format a = pr_Format p" "at_Version a = ?v" "at_Size a = 0" "at_Status a = st"
    using art_create_result [OF False, of st cfg now s] st by (auto simp: art_status_defs)
  have v: "version_ok ?v" using req version_ok_default by (auto simp: art_request_ok_def)
  have good: "art_typed a" "art_stored cfg dir (as_Files s) a"
    using False st v unfolding art_typed_def art_stored_def a(3-9) by (auto simp: art_statuses_def art_status_defs)
  have each: "at_ID b = k \<and> 1 \<le> k \<and> k < ar_nextID ?r + 1 \<and> art_typed b \<and> art_stored cfg dir (as_Files s) b"
    if h: "((ar_byID ?r)(ar_nextID ?r \<mapsto> a)) k = Some b" for k b
  proof (cases "k = ar_nextID ?r")
    case True
    then have "b = a" using h by simp
    then show ?thesis using True good a(2) inv by (simp add: art_inv_def)
  next
    case False
    then have "ar_byID ?r k = Some b" using h by simp
    from art_invD [OF inv this] show ?thesis by simp
  qed
  show ?thesis unfolding a(1)
  proof (rule art_invI [where m = "(ar_byID ?r)(ar_nextID ?r \<mapsto> a)"])
    show "fs_ok (as_Files (s\<lparr>as_Repo := ?r\<lparr>ar_nextID := ar_nextID ?r + 1, ar_byID := (ar_byID ?r)(ar_nextID ?r \<mapsto> a)\<rparr>\<rparr>))" "1 \<le> ar_nextID (as_Repo (s\<lparr>as_Repo := ?r\<lparr>ar_nextID := ar_nextID ?r + 1, ar_byID := (ar_byID ?r)(ar_nextID ?r \<mapsto> a)\<rparr>\<rparr>))" "ar_byID (as_Repo (s\<lparr>as_Repo := ?r\<lparr>ar_nextID := ar_nextID ?r + 1, ar_byID := (ar_byID ?r)(ar_nextID ?r \<mapsto> a)\<rparr>\<rparr>)) = (ar_byID ?r)(ar_nextID ?r \<mapsto> a)"
      using art_inv_base [OF inv] by simp_all
    fix k b assume "((ar_byID ?r)(ar_nextID ?r \<mapsto> a)) k = Some b"
    from each [OF this] show "at_ID b = k \<and> 1 \<le> k \<and> k < ar_nextID (as_Repo (s\<lparr>as_Repo := ?r\<lparr>ar_nextID := ar_nextID ?r + 1, ar_byID := (ar_byID ?r)(ar_nextID ?r \<mapsto> a)\<rparr>\<rparr>)) \<and> art_typed b \<and> art_stored cfg dir (as_Files (s\<lparr>as_Repo := ?r\<lparr>ar_nextID := ar_nextID ?r + 1, ar_byID := (ar_byID ?r)(ar_nextID ?r \<mapsto> a)\<rparr>\<rparr>)) b" by simp
  qed
qed

subsection \<open>Storing, completing and building\<close>

lemma art_size_nonneg [simp]: "0 \<le> art_size enc c"
  by (simp add: art_size_def)

lemma art_size_not_neg [simp]: "\<not> art_size enc c < 0"
  by (simp add: art_size_def)

lemma art_normalized: "c \<noteq> [] \<Longrightarrow> has_prefix (art_NormalizeSHA256Checksum c) ''sha256:''"
  by (simp add: art_NormalizeSHA256Checksum_def has_prefix_def)

lemma art_normalized_nonempty: "c \<noteq> [] \<Longrightarrow> art_NormalizeSHA256Checksum c \<noteq> []"
  by (simp add: art_NormalizeSHA256Checksum_def)

lemma art_store_inv:
  assumes "art_cfg_ok cfg dir" "art_inv cfg dir s" "art_store cfg dir req s = (x, s')"
    and "version_ok (sq_Version req)" "sq_ArchiveName req = art_archiveName format" "format \<in> {''yolo'', ''coco''}"
  shows "art_inv cfg dir s'" "as_Repo s' = as_Repo s"
    and "x = Inr r \<Longrightarrow> st_ArchiveURI r = art_archiveURI (sq_Version req) (sq_ArchiveName req) \<and>
      as_Files s' (path_elements dir @ [sq_Version req, sq_ArchiveName req]) = Some (File (sq_Archive req)) \<and>
      st_ManifestURI r \<noteq> [] \<and> st_ArchiveSize r = art_size (ac_enc cfg) (sq_Archive req)"
proof -
  obtain f where f: "art_StoreBuild (ac_enc cfg) dir req (as_Files s) = (x, f)" "s' = s\<lparr>as_Files := f\<rparr>"
    using assms(3) by (auto simp: art_store_def split: prod.splits)
  have dir: "dir \<noteq> []" using assms(1) by (simp add: art_cfg_ok_def)
  have v: "plain (sq_Version req)" using assms(4) by (simp add: version_ok_def)
  note spec = art_StoreBuild_spec [OF f(1) dir v art_archiveName_plain [OF assms(6), folded assms(5)] art_inv_base(1) [OF assms(2)]]
  show "as_Repo s' = as_Repo s" by (simp add: f(2))
  show "art_inv cfg dir s'"
  proof (rule art_invI [where m = "ar_byID (as_Repo s)"])
    show "fs_ok (as_Files s')" "1 \<le> ar_nextID (as_Repo s')" "ar_byID (as_Repo s') = ar_byID (as_Repo s)"
      using spec art_inv_base [OF assms(2)] by (simp_all add: f(2))
    fix i a assume "ar_byID (as_Repo s) i = Some a"
    note d = art_invD [OF assms(2) this]
    have "art_stored cfg dir f a" using art_stored_keeps [OF d(5,4)] spec by blast
    then show "at_ID a = i \<and> 1 \<le> i \<and> i < ar_nextID (as_Repo s') \<and> art_typed a \<and> art_stored cfg dir (as_Files s') a"
      using d(1-4) by (simp add: f(2))
  qed
  show "st_ArchiveURI r = art_archiveURI (sq_Version req) (sq_ArchiveName req) \<and>
      as_Files s' (path_elements dir @ [sq_Version req, sq_ArchiveName req]) = Some (File (sq_Archive req)) \<and>
      st_ManifestURI r \<noteq> [] \<and> st_ArchiveSize r = art_size (ac_enc cfg) (sq_Archive req)" if "x = Inr r"
    using spec that by (simp add: f(2) art_archiveURI_def artifactURIPrefix_def)
qed

text \<open>An artifact becomes ready right after its archive was stored.\<close>

lemma art_ready_inv:
  assumes inv: "art_inv cfg dir s" and a: "ar_byID (as_Repo s) i = Some a"
    and uri: "uri = art_archiveURI (at_Version a) (art_archiveName (at_Format a))"
    and stored: "as_Files s (path_elements dir @ [at_Version a, art_archiveName (at_Format a)]) = Some (File c)"
    and sum: "has_prefix checksum ''sha256:''"
  shows "art_inv cfg dir (snd (art_on_repo (art_repo_UpdateBuildResult i
             \<lparr>br_Status = art_StatusReady, br_URI = uri, br_ManifestURI = muri,
              br_Checksum = checksum, br_Size = art_size (ac_enc cfg) c, br_ErrorMsg = []\<rparr>) s))"
  by (rule art_result_inv [OF inv]) (use a uri stored sum in \<open>auto simp: art_statuses_def\<close>)

lemma art_materialize_name:
  "art_materializeCompletedArtifact now format version entries = Inr req \<Longrightarrow> format \<noteq> [] \<Longrightarrow>
     sq_Version req = version \<and> sq_ArchiveName req = art_archiveName format"
  by (auto simp: art_materializeCompletedArtifact_def and_then_def art_archiveName_def split: prod.splits sum.splits)

lemma art_toStorage_inv:
  assumes cfg: "art_cfg_ok cfg dir" and inv: "art_inv cfg dir s" and a: "ar_byID (as_Repo s) i = Some a"
  shows "art_inv cfg dir (snd (art_completeArtifactToStorage cfg now dir a entries s))"
proof (cases "art_materializeCompletedArtifact now (at_Format a) (at_Version a) entries")
  case (Inl e)
  then show ?thesis using inv by (simp add: art_completeArtifactToStorage_def)
next
  case (Inr req)
  note d = art_invD [OF inv a]
  have ty: "at_Format a \<in> {''yolo'', ''coco''}" "version_ok (at_Version a)" using d(4) by (simp_all add: art_typed_def)
  have req: "sq_Version req = at_Version a" "sq_ArchiveName req = art_archiveName (at_Format a)"
    using art_materialize_name [OF Inr] ty(1) by auto
  obtain x s1 where st: "art_store cfg dir req s = (x, s1)" by (cases "art_store cfg dir req s")
  have v: "version_ok (sq_Version req)" using ty(2) by (simp add: req(1))
  note stored = art_store_inv [OF cfg inv st v req(2) ty(1)]
  let ?sum = "fst (art_buildArtifactCompletionPackage cfg (at_ID a) (at_Version a) entries)"
  have sum: "has_prefix ?sum ''sha256:''" "?sum \<noteq> []" "art_NormalizeSHA256Checksum ?sum = ?sum"
    using cfg art_normalized art_normalized_nonempty by (auto simp: art_buildArtifactCompletionPackage_def Let_def art_cfg_ok_def sha_hex_def)
  show ?thesis
  proof (cases x)
    case (Inl e)
    then show ?thesis using stored(1) Inr st by (simp add: art_completeArtifactToStorage_def)
  next
    case x: (Inr r)
    note r = stored(3) [OF x]
    have a1: "ar_byID (as_Repo s1) i = Some a" using a by (simp add: stored(2))
    have uri: "st_ArchiveURI r \<noteq> []" using r by (simp add: art_archiveURI_def artifactURIPrefix_def)
    have "art_inv cfg dir (snd (art_MarkArtifactReady i (st_ArchiveURI r) (st_ManifestURI r) ?sum (st_ArchiveSize r) s1))"
      using art_ready_inv [OF stored(1) a1, of "st_ArchiveURI r" "sq_Archive req" ?sum "st_ManifestURI r"] r sum uri req
      by (simp add: art_MarkArtifactReady_def)
    then have "art_inv cfg dir (snd (art_finishCompletion i (st_ArchiveURI r) (st_ManifestURI r) ?sum (st_ArchiveSize r) s1))"
      unfolding art_finishCompletion_def by (rule art_then_inv) simp
    then show ?thesis using Inr st x d(1) by (simp add: art_completeArtifactToStorage_def)
  qed
qed

lemma art_complete_inv:
  assumes cfg: "art_cfg_ok cfg dir" and inv: "art_inv cfg dir s"
  shows "art_inv cfg dir (snd (art_CompleteArtifact cfg now i entries s))"
proof (cases "ar_byID (as_Repo s) i")
  case None
  then show ?thesis using inv by (simp add: art_CompleteArtifact_def art_GetArtifact_def art_repo_Get_def)
next
  case (Some a)
  have st: "ac_storage cfg = Some dir" using cfg by (simp add: art_cfg_ok_def)
  show ?thesis using inv art_toStorage_inv [OF cfg inv Some]
    by (simp add: art_CompleteArtifact_def art_GetArtifact_def art_repo_Get_def Some st)
qed

lemma art_Build_fields:
  "art_Build enc sha src now b = Inr out \<Longrightarrow> xb_Format b \<noteq> [] \<Longrightarrow>
     bo_ArchiveName out = art_archiveName (xb_Format b) \<and> bo_ArchiveSHA256 out = art_checksum enc sha (bo_Archive out)"
  by (auto simp: art_Build_def Let_def and_then_def art_archiveName_def split: option.splits prod.splits sum.splits)

lemma art_buildAndStore_inv:
  assumes cfg: "art_cfg_ok cfg dir" and inv: "art_inv cfg dir s" and a: "ar_byID (as_Repo s) i = Some a0"
    and same: "at_ID a = i" "at_Version a = at_Version a0" "at_Format a = at_Format a0"
  shows "art_inv cfg dir (snd (art_buildAndStore cfg now source dir a b s))"
proof (cases "art_Build (ac_enc cfg) (ac_sha cfg) source now (art_bundleFor a b)")
  case (Inl e)
  then show ?thesis using art_failBuild_inv [OF inv] by (simp add: art_buildAndStore_def)
next
  case (Inr out)
  note d = art_invD [OF inv a]
  have ty: "at_Format a \<in> {''yolo'', ''coco''}" "version_ok (at_Version a)" using d(4) same by (simp_all add: art_typed_def)
  have fmt: "xb_Format (art_bundleFor a b) = at_Format a" by (simp add: art_bundleFor_def)
  have out: "bo_ArchiveName out = art_archiveName (at_Format a)" "bo_ArchiveSHA256 out = art_checksum (ac_enc cfg) (ac_sha cfg) (bo_Archive out)"
    using art_Build_fields [OF Inr] ty(1) unfolding fmt by auto
  let ?req = "\<lparr>sq_Version = at_Version a, sq_ArchiveName = bo_ArchiveName out, sq_Archive = bo_Archive out, sq_Package = bo_Package out\<rparr>"
  obtain x s1 where st: "art_store cfg dir ?req s = (x, s1)" by (cases "art_store cfg dir ?req s")
  have q: "version_ok (sq_Version ?req)" "sq_ArchiveName ?req = art_archiveName (at_Format a)" using ty(2) out(1) by simp_all
  note stored = art_store_inv [OF cfg inv st q ty(1)]
  show ?thesis
  proof (cases x)
    case (Inl e)
    then show ?thesis using art_failBuild_inv [OF stored(1)] Inr st by (simp add: art_buildAndStore_def)
  next
    case x: (Inr r)
    note r = stored(3) [OF x]
    have a1: "ar_byID (as_Repo s1) i = Some a0" using a by (simp add: stored(2))
    have sum: "has_prefix (bo_ArchiveSHA256 out) ''sha256:''"
      using cfg art_normalized by (simp add: out(2) art_checksum_def art_cfg_ok_def sha_hex_def)
    have "art_inv cfg dir (snd (art_on_repo (art_repo_UpdateBuildResult i
             \<lparr>br_Status = art_StatusReady, br_URI = st_ArchiveURI r, br_ManifestURI = st_ManifestURI r,
              br_Checksum = bo_ArchiveSHA256 out, br_Size = st_ArchiveSize r, br_ErrorMsg = []\<rparr>) s1))"
      using art_ready_inv [OF stored(1) a1, of "st_ArchiveURI r" "bo_Archive out" "bo_ArchiveSHA256 out" "st_ManifestURI r"] r sum q same
      by simp
    then show ?thesis unfolding art_buildAndStore_def Inr st x sum.case prod.case same(1)
      by (rule art_then_inv) simp
  qed
qed

lemma building: "art_StatusBuilding \<in> set art_statuses" "art_StatusBuilding \<noteq> art_StatusReady"
  by (simp_all add: art_statuses_def art_status_defs)

lemma art_build_inv:
  assumes cfg: "art_cfg_ok cfg dir" and inv: "art_inv cfg dir s" and run: "art_buildArtifact cfg now i s = Some (x, s')"
  shows "art_inv cfg dir s'"
proof -
  have st: "ac_storage cfg = Some dir" using cfg by (simp add: art_cfg_ok_def)
  show ?thesis
  proof (cases "ac_query cfg = None \<or> ac_builder cfg = None")
    case True
    then have "s' = snd (art_failBuild i (ArtMessage ''artifact build dependencies are not configured'') s)"
      using run by (auto simp: art_buildArtifact_def st split: option.splits)
    then show ?thesis using art_failBuild_inv [OF inv] by simp
  next
    case False
    then obtain q source where q: "ac_query cfg = Some q" "ac_builder cfg = Some source" by auto
    show ?thesis
    proof (cases "ar_byID (as_Repo s) i")
      case None
      then show ?thesis using run inv by (simp add: art_buildArtifact_def q st art_repo_Get_def)
    next
      case (Some a)
      let ?a = "a\<lparr>at_Status := art_StatusBuilding, at_ErrorMsg := []\<rparr>"
      let ?r = "as_Repo s"
      let ?s1 = "s\<lparr>as_Repo := ?r\<lparr>ar_byID := (ar_byID ?r)(i \<mapsto> ?a)\<rparr>\<rparr>"
      have up: "art_on_repo (art_repo_UpdateStatus i art_StatusBuilding []) s = (Inr ?a, ?s1)"
        by (simp add: art_on_repo_def art_repo_UpdateStatus_def art_on_stored_def Some)
      have inv1: "art_inv cfg dir ?s1"
        using art_status_inv [OF inv building, of i "[]"] unfolding up by simp
      have a1: "ar_byID (as_Repo ?s1) i = Some ?a" by simp
      have id: "at_ID a = i" using art_invD(1) [OF inv Some] .
      consider e where "art_failBuild i e ?s1 = (x, s')" | b where "art_buildAndStore cfg now source dir a b ?s1 = (x, s')"
        using run unfolding art_buildArtifact_def q st option.case prod.case art_repo_Get_def Some up sum.case
        by (auto split: sum.splits option.splits)
      then show ?thesis
      proof cases
        case (1 e)
        then show ?thesis using art_failBuild_inv [OF inv1] by (metis snd_conv)
      next
        case (2 b)
        have "art_inv cfg dir (snd (art_buildAndStore cfg now source dir a b ?s1))"
          by (rule art_buildAndStore_inv [OF cfg inv1 a1 id]) simp_all
        then show ?thesis using 2 by (metis snd_conv)
      qed
    qed
  qed
qed

lemma art_stale_inv:
  "art_inv cfg dir s \<Longrightarrow> art_inv cfg dir (s\<lparr>as_Repo := snd (art_repo_MarkStaleBuildsFailed ks reason n (as_Repo s))\<rparr>)"
proof (induction ks arbitrary: s n)
  case (Cons k ks)
  let ?f = "\<lambda>a. a\<lparr>at_Status := art_StatusFailed, at_ErrorMsg := reason\<rparr>"
  have one: "art_inv cfg dir (snd (art_on_repo (art_on_stored k ?f) s))"
    by (rule art_update_inv [OF Cons.prems])
      (use art_invD(4) [OF Cons.prems] in \<open>auto simp: art_typed_def art_stored_def art_statuses_def art_status_defs\<close>)
  show ?case
  proof (cases "ar_byID (as_Repo s) k")
    case None
    then show ?thesis using Cons.IH [OF Cons.prems, of n] by simp
  next
    case (Some a)
    have st: "snd (art_on_repo (art_on_stored k ?f) s) = s\<lparr>as_Repo := (as_Repo s)\<lparr>ar_byID := (ar_byID (as_Repo s))(k \<mapsto> ?f a)\<rparr>\<rparr>"
      by (simp add: art_on_repo_def art_on_stored_def Some)
    show ?thesis using Cons.IH [OF Cons.prems, of n] Cons.IH [OF one, of "n + 1"] unfolding st by (simp add: Some)
  qed
qed simp

end
