(* ===== verification/Artifact_Success.thy ===== *)
theory Artifact_Success
  imports Artifact_Service_Facts
begin

section \<open>Artifacts: when a build succeeds\<close>

text \<open>
  The total half of the correctness of a build: with readable objects, names that are single path elements and a free
  version, no step of the builder and the storage fails.
\<close>

definition fs_dirs :: "'c fs \<Rightarrow> string list set" where
  "fs_dirs s = {q. s q = Some Dir}"

subsection \<open>Writing the package\<close>

lemma art_write_succeeds:
  assumes "p \<noteq> []" "p \<notin> fs_dirs (pk_Files k)" "butlast p \<in> fs_dirs (pk_Files k)"
  obtains k' where "art_write p c k = (Inr (), k')" "fs_dirs (pk_Files k') = fs_dirs (pk_Files k)" "pk_Dirs k' = pk_Dirs k"
proof -
  have w: "fs_WriteFile p c (pk_Files k) = Some ((pk_Files k)(p \<mapsto> File c))" using assms by (simp add: fs_WriteFile_def fs_dirs_def)
  show thesis
    by (rule that [of "k\<lparr>pk_Files := (pk_Files k)(p \<mapsto> File c), pk_Written := (if p \<in> set (pk_Written k) then pk_Written k else pk_Written k @ [p])\<rparr>"])
      (use assms(2) in \<open>auto simp: art_write_def w fs_dirs_def\<close>)
qed

lemma art_writeObjectFile_succeeds:
  assumes "source key = Inr body" "p \<noteq> []" "p \<notin> fs_dirs (pk_Files k)" "butlast p \<in> fs_dirs (pk_Files k)"
  obtains c k' where "art_writeObjectFile source key p k = (Inr c, k')" "fs_dirs (pk_Files k') = fs_dirs (pk_Files k)" "pk_Dirs k' = pk_Dirs k"
proof -
  obtain k' where k': "art_write p (Raw body) k = (Inr (), k')" "fs_dirs (pk_Files k') = fs_dirs (pk_Files k)" "pk_Dirs k' = pk_Dirs k"
    by (rule art_write_succeeds [OF assms(2-4)])
  show thesis by (rule that [of "Raw body" k']) (simp_all add: art_writeObjectFile_def assms(1) k')
qed

definition yolo_dirs :: "string list set" where
  "yolo_dirs = {[], [''train''], [''train'', ''images''], [''train'', ''labels'']}"

definition coco_dirs :: "string list set" where
  "coco_dirs = {[], [''images'']}"

lemma art_yoloItems_succeeds:
  assumes "fs_dirs (pk_Files k) = yolo_dirs"
    and "\<And>x. x \<in> set items \<Longrightarrow> plain (xi_OutputName x) \<and> plain (xi_LabelFileName x) \<and> (\<exists>body. source (xi_ObjectKey x) = Inr body)"
  shows "\<exists>r k'. art_yoloItems enc sha source items entries n k = (Inr r, k') \<and> fs_dirs (pk_Files k') = yolo_dirs \<and> pk_Dirs k' = pk_Dirs k"
  using assms
proof (induction items arbitrary: entries n k)
  case (Cons x xs)
  obtain body where body: "source (xi_ObjectKey x) = Inr body" and px: "plain (xi_OutputName x)" "plain (xi_LabelFileName x)"
    using Cons.prems(2) [of x] by auto
  note pi = image_path(1) [OF px(1)] and pl = image_path(2) [OF px(2)]
  let ?ip = "[''train'', ''images'', xi_OutputName x]" and ?lp = "[''train'', ''labels'', xi_LabelFileName x]"
  have d: "?ip \<notin> yolo_dirs" "butlast ?ip \<in> yolo_dirs" "?lp \<notin> yolo_dirs" "butlast ?lp \<in> yolo_dirs" by (auto simp: yolo_dirs_def)
  obtain c k1 where k1: "art_writeObjectFile source (xi_ObjectKey x) ?ip k = (Inr c, k1)" "fs_dirs (pk_Files k1) = fs_dirs (pk_Files k)" "pk_Dirs k1 = pk_Dirs k"
    by (rule art_writeObjectFile_succeeds [of source "xi_ObjectKey x" body ?ip k, OF body]) (use d Cons.prems(1) in auto)
  obtain k2 where k2: "art_write ?lp (Raw (art_renderYOLOLabelFile (xi_Boxes x))) k1 = (Inr (), k2)" "fs_dirs (pk_Files k2) = fs_dirs (pk_Files k1)" "pk_Dirs k2 = pk_Dirs k1"
    by (rule art_write_succeeds [of ?lp k1]) (use d Cons.prems(1) k1(2) in auto)
  have d2: "fs_dirs (pk_Files k2) = yolo_dirs" using Cons.prems(1) k1(2) k2(2) by simp
  show ?case using Cons.IH [OF d2] Cons.prems(2) by (simp add: pi k1 pl k2 Let_def)
qed simp

lemma art_cocoItems_succeeds:
  assumes "fs_dirs (pk_Files k) = coco_dirs"
    and "\<And>x. x \<in> set items \<Longrightarrow> plain (xi_OutputName x) \<and> (\<exists>body. source (xi_ObjectKey x) = Inr body)"
  shows "\<exists>r k'. art_cocoItems enc sha source b items entries doc n k = (Inr r, k') \<and> fs_dirs (pk_Files k') = coco_dirs \<and> pk_Dirs k' = pk_Dirs k"
  using assms
proof (induction items arbitrary: entries doc n k)
  case (Cons x xs)
  obtain body where body: "source (xi_ObjectKey x) = Inr body" and px: "plain (xi_OutputName x)"
    using Cons.prems(2) [of x] by auto
  note pi = image_path(3) [OF px]
  let ?ip = "[''images'', xi_OutputName x]"
  have d: "?ip \<notin> coco_dirs" "butlast ?ip \<in> coco_dirs" by (auto simp: coco_dirs_def)
  obtain c k1 where k1: "art_writeObjectFile source (xi_ObjectKey x) ?ip k = (Inr c, k1)" "fs_dirs (pk_Files k1) = fs_dirs (pk_Files k)" "pk_Dirs k1 = pk_Dirs k"
    by (rule art_writeObjectFile_succeeds [of source "xi_ObjectKey x" body ?ip k, OF body]) (use d Cons.prems(1) in auto)
  have d1: "fs_dirs (pk_Files k1) = coco_dirs" using Cons.prems(1) k1(2) by simp
  show ?case using Cons.IH [OF d1] Cons.prems(2) by (simp add: pi k1)
qed simp

text \<open>A directory is made in a package without a file in the way.\<close>

lemma art_mkdir_succeeds:
  assumes "\<And>q x. prefix q p \<Longrightarrow> pk_Files k q \<noteq> Some (File x)" "[] \<in> fs_dirs (pk_Files k)"
  obtains k' where "art_mkdir p k = (Inr (), k')" "fs_dirs (pk_Files k') = fs_dirs (pk_Files k) \<union> {q. prefix q p}" "pk_Dirs k' = pk_Dirs k @ [p]"
    "pk_Written k' = pk_Written k" "\<And>q x. (pk_Files k' q = Some (File x)) = (pk_Files k q = Some (File x))"
proof -
  obtain s where s: "fs_MkdirAll p (pk_Files k) = Some s" using fs_MkdirAll_success [of p "pk_Files k"] assms(1) by blast
  note spec = fs_MkdirAll_spec [OF s]
  have d: "q \<in> fs_dirs s \<longleftrightarrow> q \<in> fs_dirs (pk_Files k) \<or> prefix q p" for q
  proof (cases "pk_Files k q")
    case None
    then show ?thesis using assms(2) by (auto simp: fs_dirs_def spec)
  next
    case (Some nd)
    then show ?thesis using assms(1) [of q] by (cases nd) (auto simp: fs_dirs_def spec)
  qed
  show thesis
    by (rule that [of "k\<lparr>pk_Files := s, pk_Dirs := pk_Dirs k @ [p]\<rparr>"]) (use d in \<open>auto simp: art_mkdir_def s spec\<close>)
qed

lemma fs_empty_dirs: "fs_dirs (pk_Files art_NewPackage) = {[]}" "pk_Files art_NewPackage q \<noteq> Some (File x)" "pk_Dirs art_NewPackage = []"
  by (auto simp: art_NewPackage_def fs_empty_def fs_dirs_def)

lemma art_writeYOLO_succeeds:
  assumes "\<And>x. x \<in> set (xb_Items b) \<Longrightarrow> plain (xi_OutputName x) \<and> plain (xi_LabelFileName x) \<and> (\<exists>body. source (xi_ObjectKey x) = Inr body)"
  shows "\<exists>r k. art_writeYOLOPackage enc sha source b art_NewPackage = (Inr r, k) \<and> fs_dirs (pk_Files k) = yolo_dirs \<and>
    set (pk_Dirs k) \<subseteq> yolo_dirs"
proof -
  obtain k1 where k1: "art_mkdir [''train'', ''images''] art_NewPackage = (Inr (), k1)"
    "fs_dirs (pk_Files k1) = fs_dirs (pk_Files art_NewPackage) \<union> {q. prefix q [''train'', ''images'']}" "pk_Dirs k1 = [[''train'', ''images'']]"
    "\<And>q x. (pk_Files k1 q = Some (File x)) = (pk_Files art_NewPackage q = Some (File x))"
    by (rule art_mkdir_succeeds [of "[''train'', ''images'']" art_NewPackage]) (auto simp: fs_empty_dirs)
  obtain k2 where k2: "art_mkdir [''train'', ''labels''] k1 = (Inr (), k2)"
    "fs_dirs (pk_Files k2) = fs_dirs (pk_Files k1) \<union> {q. prefix q [''train'', ''labels'']}" "pk_Dirs k2 = pk_Dirs k1 @ [[''train'', ''labels'']]"
    by (rule art_mkdir_succeeds [of "[''train'', ''labels'']" k1]) (auto simp: fs_empty_dirs k1(2,4))
  have d2: "fs_dirs (pk_Files k2) = yolo_dirs" by (auto simp: k2(2) k1(2) fs_empty_dirs yolo_dirs_def prefix_Cons)
  obtain es n k3 where k3: "art_yoloItems enc sha source (xb_Items b) [] 0 k2 = (Inr (es, n), k3)" "fs_dirs (pk_Files k3) = yolo_dirs" "pk_Dirs k3 = pk_Dirs k2"
    using art_yoloItems_succeeds [OF d2, of "xb_Items b" source enc sha "[]" 0] assms by auto
  obtain k4 where k4: "art_write [''data.yaml''] (Raw (art_BuildDataYAML ''./train/images'' ''./train/images'' (xb_Categories b))) k3 = (Inr (), k4)"
    "fs_dirs (pk_Files k4) = fs_dirs (pk_Files k3)" "pk_Dirs k4 = pk_Dirs k3"
    by (rule art_write_succeeds [of "[''data.yaml'']" k3]) (auto simp: k3(2) yolo_dirs_def)
  have "set (pk_Dirs k4) \<subseteq> yolo_dirs" by (simp add: k4(3) k3(3) k2(3) k1(3) yolo_dirs_def)
  then show ?thesis
    unfolding art_writeYOLOPackage_def k1(1) and_then_simps k2(1) k3(1) prod.case Let_def k4(1) using k4(2) k3(2) by simp
qed

lemma art_writeCOCO_succeeds:
  assumes "\<And>x. x \<in> set (xb_Items b) \<Longrightarrow> plain (xi_OutputName x) \<and> (\<exists>body. source (xi_ObjectKey x) = Inr body)"
  shows "\<exists>r k. art_writeCOCOPackage enc sha source b art_NewPackage = (Inr r, k) \<and> fs_dirs (pk_Files k) = coco_dirs \<and>
    set (pk_Dirs k) \<subseteq> coco_dirs"
proof -
  obtain k1 where k1: "art_mkdir [''images''] art_NewPackage = (Inr (), k1)"
    "fs_dirs (pk_Files k1) = fs_dirs (pk_Files art_NewPackage) \<union> {q. prefix q [''images'']}" "pk_Dirs k1 = [[''images'']]"
    by (rule art_mkdir_succeeds [of "[''images'']" art_NewPackage]) (auto simp: fs_empty_dirs)
  have d1: "fs_dirs (pk_Files k1) = coco_dirs" by (auto simp: k1(2) fs_empty_dirs coco_dirs_def prefix_Cons)
  have items: "\<exists>es doc' n k2. art_cocoItems enc sha source b (xb_Items b) [] doc 0 k1 = (Inr (es, doc', n), k2) \<and>
      fs_dirs (pk_Files k2) = coco_dirs \<and> pk_Dirs k2 = pk_Dirs k1" for doc
    using art_cocoItems_succeeds [OF d1, of "xb_Items b" source enc sha b "[]" doc 0] assms by (metis prod_cases3)
  let ?doc = "\<lparr>co_Images = [], co_Annotations = [],
                  co_Categories = map (\<lambda>i. \<lparr>cc_ID = art_categoryIDAt b (int i), cc_Name = xb_Categories b ! i\<rparr>) [0..<length (xb_Categories b)]\<rparr>"
  obtain es doc' n k2 where k2: "art_cocoItems enc sha source b (xb_Items b) [] ?doc 0 k1 = (Inr (es, doc', n), k2)"
    "fs_dirs (pk_Files k2) = coco_dirs" "pk_Dirs k2 = pk_Dirs k1" using items by blast
  obtain k3 where k3: "art_write [''annotations.json''] (CocoFile doc') k2 = (Inr (), k3)" "fs_dirs (pk_Files k3) = fs_dirs (pk_Files k2)" "pk_Dirs k3 = pk_Dirs k2"
    by (rule art_write_succeeds [of "[''annotations.json'']" k2]) (auto simp: k2(2) coco_dirs_def)
  have "set (pk_Dirs k3) \<subseteq> coco_dirs" by (simp add: k3(3) k2(3) k1(3) coco_dirs_def)
  then show ?thesis
    unfolding art_writeCOCOPackage_def k1(1) and_then_simps Let_def k2(1) prod.case k3(1) using k3(2) k2(2) by simp
qed

definition art_readable :: "art_source \<Rightarrow> art_ExportBundle \<Rightarrow> bool" where
  "art_readable source b \<longleftrightarrow> (\<forall>x \<in> set (xb_Items b). \<exists>body. source (xi_ObjectKey x) = Inr body)"

definition art_package_dirs :: "string list set" where
  "art_package_dirs = yolo_dirs \<union> coco_dirs"

lemma art_package_dirs_free: "[''manifest.json''] \<notin> art_package_dirs" "[art_archiveName ''yolo''] \<notin> art_package_dirs" "[art_archiveName ''coco''] \<notin> art_package_dirs"
  by (simp_all add: art_package_dirs_def yolo_dirs_def coco_dirs_def art_archiveName_def)

lemma art_Build_succeeds:
  assumes "xb_Format b \<in> {''yolo'', ''coco''}" "art_plain_names b" "art_readable source b"
  shows "\<exists>out. art_Build enc sha (Some source) now b = Inr out \<and> fs_dirs (pk_Files (bo_Package out)) \<subseteq> art_package_dirs \<and>
    set (pk_Dirs (bo_Package out)) \<subseteq> fs_dirs (pk_Files (bo_Package out))"
proof -
  have items: "\<And>x. x \<in> set (xb_Items b) \<Longrightarrow> plain (xi_OutputName x) \<and> plain (xi_LabelFileName x) \<and> (\<exists>body. source (xi_ObjectKey x) = Inr body)"
    using assms(2,3) by (auto simp: art_plain_names_def art_readable_def list_all_iff)
  have "\<exists>es n k D. art_writePackageContents enc sha source b (xb_Format b) art_NewPackage = (Inr (es, n), k) \<and>
      fs_dirs (pk_Files k) = D \<and> set (pk_Dirs k) \<subseteq> D \<and> (D = yolo_dirs \<or> D = coco_dirs)"
  proof (cases "xb_Format b = ''coco''")
    case True
    then show ?thesis using art_writeCOCO_succeeds [of b source enc sha] items by (auto simp: art_writePackageContents_def)
  next
    case False
    then show ?thesis using art_writeYOLO_succeeds [of b source enc sha] items assms(1) by (auto simp: art_writePackageContents_def)
  qed
  then obtain es n k D where k: "art_writePackageContents enc sha source b (xb_Format b) art_NewPackage = (Inr (es, n), k)"
    "fs_dirs (pk_Files k) = D" "set (pk_Dirs k) \<subseteq> D" "D = yolo_dirs \<or> D = coco_dirs" by blast
  have D: "[''manifest.json''] \<notin> D" "butlast [''manifest.json''] \<in> D" "D \<subseteq> art_package_dirs"
    using k(4) art_package_dirs_free(1) by (auto simp: art_package_dirs_def yolo_dirs_def coco_dirs_def)
  have ne: "xb_Format b \<noteq> []" using assms(1) by auto
  let ?m = "art_BuildManifestWithMetadata now (xb_Version b) (art_buildManifestCategoryMap (xb_Categories b))
      \<lparr>ms_TotalImages = int (length (xb_Items b)), ms_TotalAnnotations = n, ms_TotalClasses = int (length (xb_Categories b))\<rparr> (sort_key me_Path es)"
  obtain k' where k': "art_write [''manifest.json''] (ManifestFile ?m) k = (Inr (), k')" "fs_dirs (pk_Files k') = fs_dirs (pk_Files k)" "pk_Dirs k' = pk_Dirs k"
    by (rule art_write_succeeds [of "[''manifest.json'']" k]) (use D k(2) in auto)
  have "\<exists>out. art_Build enc sha (Some source) now b = Inr out \<and> bo_Package out = k'"
    by (simp add: art_Build_def Let_def ne k(1) k'(1))
  then show ?thesis using k(2,3) k'(2,3) D(3) by auto
qed

subsection \<open>Copying it to the storage\<close>

text \<open>Below \<open>d\<close> there is nothing that the source has not, and of the same kind.\<close>

definition fs_part :: "'c fs \<Rightarrow> string list \<Rightarrow> 'c fs \<Rightarrow> bool" where
  "fs_part src d s \<longleftrightarrow> fs_ok s \<and> s d = Some Dir \<and>
     (\<forall>q. (s (d @ q) = Some Dir \<longrightarrow> src q = Some Dir) \<and> (\<forall>x. s (d @ q) = Some (File x) \<longrightarrow> (\<exists>y. src q = Some (File y))))"

lemma fs_part_above:
  assumes "fs_part src d s" "fs_ok src" "src p \<noteq> None" "strict_prefix q (d @ p)"
  shows "s q \<noteq> Some (File x)"
proof
  assume f: "s q = Some (File x)"
  have sd: "fs_ok s" "s d = Some Dir" using assms(1) by (simp_all add: fs_part_def)
  have "\<not> strict_prefix q d" using fs_ok_strict [OF sd(1), of d q] sd(2) f by auto
  then have "prefix d q" using assms(4) sd(2) f by (metis prefixI prefix_same_cases strict_prefix_def option.inject fs_node.distinct(1))
  then obtain r where r: "q = d @ r" by (auto elim: prefixE)
  then have "strict_prefix r p" using assms(4) by (simp add: strict_prefix_def)
  then have "src r = Some Dir" by (rule fs_ok_strict [OF assms(2,3)])
  moreover obtain y where "src r = Some (File y)" using assms(1) f unfolding fs_part_def r by blast
  ultimately show False by simp
qed

lemma fs_part_mkdir:
  assumes "fs_part src d s" "fs_ok src" "src p = Some Dir"
  shows "\<exists>s'. fs_MkdirAll (d @ p) s = Some s' \<and> fs_part src d s'"
proof -
  have free: "s q \<noteq> Some (File x)" if "prefix q (d @ p)" for q x
  proof (cases "q = d @ p")
    case True
    then show ?thesis using assms(1,3) unfolding fs_part_def by force
  next
    case False
    then show ?thesis using fs_part_above [OF assms(1,2), of p q x] assms(3) that by (simp add: strict_prefix_def)
  qed
  then obtain s' where s': "fs_MkdirAll (d @ p) s = Some s'" using fs_MkdirAll_success [of "d @ p" s] by blast
  note spec = fs_MkdirAll_spec [OF s']
  have up: "src r = Some Dir" if "prefix r p" for r
    using fs_ok_strict [OF assms(2), of p r] assms(3) that by (cases "r = p") (auto simp: strict_prefix_def)
  have "fs_part src d s'" unfolding fs_part_def
  proof (intro conjI allI impI)
    show "fs_ok s'" using fs_MkdirAll_ok [OF s'] assms(1) by (simp add: fs_part_def)
    show "s' d = Some Dir" using assms(1) by (simp add: spec fs_part_def)
    show "src q = Some Dir" if h: "s' (d @ q) = Some Dir" for q
      using h up [of q] assms(1) by (auto simp: spec fs_part_def split: if_splits)
    show "\<exists>y. src q = Some (File y)" if h: "s' (d @ q) = Some (File x)" for q x
      using h assms(1) by (auto simp: spec fs_part_def split: if_splits)
  qed
  with s' show ?thesis by blast
qed

lemma fs_part_put:
  assumes "fs_part src d s" "fs_ok src" "src p = Some (File y)"
  shows "\<exists>s'. fs_put (d @ p) x s = Some s' \<and> fs_part src d s'"
proof -
  have ok: "fs_ok s" using assms(1) by (simp add: fs_part_def)
  have pne: "p \<noteq> []" using fs_okD(1) [OF assms(2)] assms(3) by auto
  have nd: "s (d @ p) \<noteq> Some Dir" using assms(1,3) unfolding fs_part_def by force
  have up: "\<And>q z. strict_prefix q (d @ p) \<Longrightarrow> s q \<noteq> Some (File z)" using fs_part_above [OF assms(1,2), of p] assms(3) by simp
  obtain s' where s': "fs_put (d @ p) x s = Some s'" using fs_put_success [OF ok _ nd up] pne by blast
  note put = fs_put_spec [OF s' ok]
  have "fs_part src d s'" unfolding fs_part_def
  proof (intro conjI allI impI)
    show "fs_ok s'" by (rule put(2))
    show "s' d = Some Dir" using put(5) assms(1) by (simp add: fs_part_def)
    show "src q = Some Dir" if h: "s' (d @ q) = Some Dir" for q
    proof (cases "s (d @ q) = Some Dir")
      case True
      then show ?thesis using assms(1) by (simp add: fs_part_def)
    next
      case False
      then have "prefix (d @ q) (d @ p)" using put(4) h by metis
      moreover have "q \<noteq> p" using h put(1) by auto
      ultimately have "strict_prefix q p" by (simp add: strict_prefix_def)
      then show ?thesis using fs_ok_strict [OF assms(2), of p q] assms(3) by simp
    qed
    show "\<exists>y. src q = Some (File y)" if h: "s' (d @ q) = Some (File z)" for q z
    proof (cases "q = p")
      case True
      then show ?thesis using assms(3) by blast
    next
      case False
      then have "s (d @ q) = Some (File z)" using put(3) [of "d @ q" z] h by simp
      then show ?thesis using assms(1) unfolding fs_part_def by blast
    qed
  qed
  with s' show ?thesis by blast
qed

lemma art_copyEntries_succeeds:
  assumes "fs_part src d s" "fs_ok src" "\<And>p. p \<in> set ps \<Longrightarrow> src p \<noteq> None"
  shows "\<exists>s'. art_copyEntries src ps d s = Some s' \<and> fs_part src d s'"
  using assms(1,3)
proof (induction ps arbitrary: s)
  case (Cons p ps)
  obtain nd where nd: "src p = Some nd" using Cons.prems(2) [of p] by auto
  have "\<exists>s1. (if src p = Some Dir then fs_MkdirAll (d @ p) s else art_copyFile (fs_ReadFile p src) (d @ p) s) = Some s1 \<and> fs_part src d s1"
  proof (cases nd)
    case Dir
    then show ?thesis using fs_part_mkdir [OF Cons.prems(1) assms(2)] nd by simp
  next
    case (File y)
    then show ?thesis using fs_part_put [OF Cons.prems(1) assms(2), of p y y] nd by (simp add: art_copyFile_def fs_ReadFile_def)
  qed
  then obtain s1 where s1: "(if src p = Some Dir then fs_MkdirAll (d @ p) s else art_copyFile (fs_ReadFile p src) (d @ p) s) = Some s1" "fs_part src d s1" by blast
  from Cons.IH [OF s1(2)] Cons.prems(2) show ?case by (simp add: s1(1))
qed simp

lemma art_fillTemp_succeeds:
  assumes pkg: "fs_part (pk_Files (sq_Package req)) tmp s" "fs_ok (pk_Files (sq_Package req))"
    and walk: "\<And>p. p \<in> set (art_walk (sq_Package req)) \<Longrightarrow> pk_Files (sq_Package req) p \<noteq> None"
    and man: "pk_Files (sq_Package req) [''manifest.json''] = Some (File m)"
    and arch: "pk_Files (sq_Package req) [sq_ArchiveName req] \<noteq> Some Dir" "sq_ArchiveName req \<noteq> ''manifest.json''"
    and final: "s final = None" "final \<noteq> []" "s (butlast final) = Some Dir" "\<not> prefix tmp final" "\<not> prefix tmp (butlast final)"
  shows "\<exists>s'. art_fillTemp req tmp final s = Some s'"
proof -
  let ?src = "pk_Files (sq_Package req)"
  obtain s1 where s1: "art_copyEntries ?src (art_walk (sq_Package req)) tmp s = Some s1" "fs_part ?src tmp s1"
    using art_copyEntries_succeeds [OF pkg walk] by blast
  have ok1: "fs_ok s1" "s1 tmp = Some Dir" using s1(2) by (simp_all add: fs_part_def)
  have above: "s' q \<noteq> Some (File z)" if s': "s' tmp = Some Dir" "fs_ok s'" and q: "strict_prefix q (tmp @ [c])" for s' :: "art_content fs" and q c z
  proof -
    have "q = tmp \<or> strict_prefix q tmp" using q by (auto simp: strict_prefix_def)
    then show "s' q \<noteq> Some (File z)" using fs_ok_strict [OF s'(2), of tmp q] s'(1) by auto
  qed
  have "s1 (tmp @ [sq_ArchiveName req]) \<noteq> Some Dir" using s1(2) arch(1) unfolding fs_part_def by blast
  then obtain s2 where s2: "fs_put (tmp @ [sq_ArchiveName req]) (sq_Archive req) s1 = Some s2"
    using fs_put_success [OF ok1(1), of "tmp @ [sq_ArchiveName req]"] above [of s1] ok1 by blast
  note p2 = fs_put_spec [OF s2 ok1(1)]
  have tmp2: "s2 tmp = Some Dir" using p2(5) ok1(2) by simp
  have "s2 (tmp @ [''manifest.json'']) \<noteq> Some Dir"
  proof
    assume d: "s2 (tmp @ [''manifest.json'']) = Some Dir"
    have "s1 (tmp @ [''manifest.json'']) = Some Dir"
    proof (rule ccontr)
      assume "s1 (tmp @ [''manifest.json'']) \<noteq> Some Dir"
      then have "prefix (tmp @ [''manifest.json'']) (tmp @ [sq_ArchiveName req])" using p2(4) [of "tmp @ [''manifest.json'']"] d by simp
      then show False using arch(2) by simp
    qed
    then show False using s1(2) man unfolding fs_part_def by force
  qed
  then obtain s3 where s3: "fs_put (tmp @ [''manifest.json'']) m s2 = Some s3"
    using fs_put_success [OF p2(2), of "tmp @ [''manifest.json'']"] above [of s2] tmp2 p2(2) by blast
  have within: "fs_within tmp s s3"
    using fs_within_trans [OF fs_within_trans [OF art_copyEntries_within [OF s1(1)] fs_put_within [OF s2 ok1]] fs_put_within [OF s3 p2(2) tmp2]] pkg(1)
    by (simp add: fs_part_def)
  have f3: "s3 final = None" "s3 (butlast final) = Some Dir" "s3 tmp = Some Dir"
    using within final unfolding fs_within_def by metis+
  have "\<exists>s'. fs_Rename tmp final s3 = Some s'" using f3 final(2,4) by (simp add: fs_Rename_def)
  then show ?thesis using s1(1) s2 s3 man
    by (simp add: art_fillTemp_def art_copyDirContents_def art_copyFile_def fs_ReadFile_def)
qed

lemma art_StoreBuild_succeeds:
  assumes dir: "dir \<noteq> []" and v: "plain (sq_Version req)" and n: "plain (sq_ArchiveName req)" "sq_ArchiveName req \<noteq> ''manifest.json''"
    and ok: "fs_ok s" and above: "\<And>q x. prefix q (path_elements dir) \<Longrightarrow> s q \<noteq> Some (File x)" and free: "s (path_elements dir @ [sq_Version req]) = None"
    and pkg: "art_pkg_ok (sq_Package req)" "set (pk_Dirs (sq_Package req)) \<subseteq> fs_dirs (pk_Files (sq_Package req))"
    and man: "pk_Files (sq_Package req) [''manifest.json''] = Some (File m)" and arch: "[sq_ArchiveName req] \<notin> fs_dirs (pk_Files (sq_Package req))"
  shows "\<exists>st s'. art_StoreBuild enc dir req s = (Inr st, s')"
proof -
  let ?d = "path_elements dir" and ?v = "sq_Version req" and ?n = "sq_ArchiveName req"
  let ?final = "?d @ [?v]" and ?tmp = "?d @ [?v @ ''.tmp'']"
  have vn: "?v \<noteq> []" "?n \<noteq> []" using v n by (simp_all add: plain_def)
  note dirs = art_dirs [OF dir v]
  have apart: "\<not> prefix ?final ?tmp" "\<not> prefix ?tmp ?final" "\<not> prefix ?tmp ?d" by simp_all
  obtain s1 where s1: "fs_MkdirAll ?d s = Some s1" using fs_MkdirAll_success [of ?d s] above by blast
  note ok1 = fs_MkdirAll_ok [OF s1 ok] and d1 = fs_MkdirAll_dir [OF s1 ok]
  have free1: "s1 ?final = None" using free by (simp add: fs_MkdirAll_spec [OF s1])
  have okr: "fs_ok (fs_RemoveAll ?tmp s1)" using fs_RemoveAll_ok [OF ok1] by simp
  have "fs_RemoveAll ?tmp s1 q \<noteq> Some (File x)" if q: "prefix q ?tmp" for q x
  proof (cases "q = ?tmp")
    case True
    then show ?thesis by (simp add: fs_RemoveAll_def)
  next
    case False
    then have "q = ?d \<or> strict_prefix q ?d" using q by (auto simp: strict_prefix_def)
    then have "s1 q = Some Dir" using fs_ok_strict [OF ok1, of ?d q] d1 by auto
    then show ?thesis by (simp add: fs_RemoveAll_def)
  qed
  then obtain s2 where s2: "fs_MkdirAll ?tmp (fs_RemoveAll ?tmp s1) = Some s2" using fs_MkdirAll_success [of ?tmp] by blast
  note spec2 = fs_MkdirAll_spec [OF s2]
  note ok2 = fs_MkdirAll_ok [OF s2 okr] and tmp2 = fs_MkdirAll_dir [OF s2 okr]
  have gone: "s2 (?tmp @ q) = (if q = [] then Some Dir else None)" for q by (simp add: spec2 fs_RemoveAll_def)
  have src: "fs_ok (pk_Files (sq_Package req))" using pkg(1) by (simp add: art_pkg_ok_def)
  have part: "fs_part (pk_Files (sq_Package req)) ?tmp s2"
    using ok2 tmp2 gone fs_okD(1) [OF src] by (auto simp: fs_part_def split: if_splits)
  have walk: "pk_Files (sq_Package req) p \<noteq> None" if "p \<in> set (art_walk (sq_Package req))" for p
    using that pkg by (auto simp: art_walk_def fs_dirs_def art_pkg_ok_def pk_file_def dom_def fs_ReadFile_Some)
  have final2: "s2 ?final = None" "s2 (butlast ?final) = Some Dir"
    using free1 d1 apart by (auto simp: spec2 fs_RemoveAll_def)
  have narch: "pk_Files (sq_Package req) [?n] \<noteq> Some Dir" using arch by (simp add: fs_dirs_def)
  obtain s3 where s3: "art_fillTemp req ?tmp ?final s2 = Some s3"
    using art_fillTemp_succeeds [OF part src walk man narch n(2) final2(1) _ final2(2)] apart by auto
  have "s3 (?d @ [?v, ?n]) = Some (File (sq_Archive req))"
    using art_fillTemp_spec(3) [OF s3 ok2 tmp2 n(2) final2(1) _ apart(1,2)] by simp
  then have "fs_ReadFile (?d @ [?v, ?n]) s3 = Some (sq_Archive req)" by (simp add: fs_ReadFile_Some)
  then show ?thesis using dir vn free1 s2 s3 by (simp add: art_StoreBuild_def Let_def dirs s1)
qed

subsection \<open>The whole build\<close>

text \<open>
  The runner's build of an artifact, whatever its status was: with objects that can be read, plain names, label files of
  different names and a free version, it ends without an error, the artifact is ready and its download is the archive built.
\<close>

lemma art_build_total:
  assumes cfg: "art_cfg_ok cfg dir" "ac_query cfg = Some q" "ac_builder cfg = Some (Some source)"
    and inv: "art_inv cfg dir s" and a: "ar_byID (as_Repo s) i = Some a"
    and rows: "q (at_DatasetID a) (at_SnapshotID a) = Inr rows"
      "art_LoadSnapshotBundle rows (at_DatasetID a) (at_SnapshotID a) (at_Version a) = Some (Inr b)"
    and names: "art_plain_names b" "art_labels_distinct (art_bundleFor a b)" "art_readable source b"
    and free: "as_Files s (path_elements dir @ [at_Version a]) = None"
      "\<And>p x. prefix p (path_elements dir) \<Longrightarrow> as_Files s p \<noteq> Some (File x)"
  shows "\<exists>s' a' out. art_buildArtifact cfg now i s = Some (Inr (), s') \<and>
    art_Build (ac_enc cfg) (ac_sha cfg) (Some source) now (art_bundleFor a b) = Inr out \<and>
    ar_byID (as_Repo s') i = Some a' \<and> at_Status a' = art_StatusReady \<and> at_Checksum a' = art_checksum (ac_enc cfg) (ac_sha cfg) (bo_Archive out) \<and>
    art_OpenArtifactArchive cfg i s' = Inr (bo_Archive out, at_Size a', a')"
proof -
  note d = art_invD [OF inv a]
  have st: "ac_storage cfg = Some dir" "dir \<noteq> []" using cfg(1) by (simp_all add: art_cfg_ok_def)
  have ty: "at_Format a \<in> {''yolo'', ''coco''}" "plain (at_Version a)" using d(4) by (simp_all add: art_typed_def version_ok_def)
  let ?b = "art_bundleFor a b"
  have bf: "xb_Format ?b = at_Format a" "art_plain_names ?b" "art_readable source ?b"
    using names by (simp_all add: art_bundleFor_def art_plain_names_def art_readable_def)
  obtain out where out: "art_Build (ac_enc cfg) (ac_sha cfg) (Some source) now ?b = Inr out"
    "fs_dirs (pk_Files (bo_Package out)) \<subseteq> art_package_dirs" "set (pk_Dirs (bo_Package out)) \<subseteq> fs_dirs (pk_Files (bo_Package out))"
    using art_Build_succeeds [of ?b source "ac_enc cfg" "ac_sha cfg" now] bf ty(1) by auto
  note built = art_Build_ok [OF out(1) bf(2) names(2)]
  have nm: "bo_ArchiveName out = art_archiveName (at_Format a)" using art_Build_fields [OF out(1)] ty(1) by (auto simp: bf(1))
  let ?a = "a\<lparr>at_Status := art_StatusBuilding, at_ErrorMsg := []\<rparr>"
  let ?s1 = "s\<lparr>as_Repo := (as_Repo s)\<lparr>ar_byID := (ar_byID (as_Repo s))(i \<mapsto> ?a)\<rparr>\<rparr>"
  have up: "art_on_repo (art_repo_UpdateStatus i art_StatusBuilding []) s = (Inr ?a, ?s1)"
    by (simp add: art_on_repo_def art_repo_UpdateStatus_def art_on_stored_def a)
  let ?req = "\<lparr>sq_Version = at_Version a, sq_ArchiveName = bo_ArchiveName out, sq_Archive = bo_Archive out, sq_Package = bo_Package out\<rparr>"
  have man: "pk_Files (bo_Package out) [''manifest.json''] = Some (File (ManifestFile (bo_Manifest out)))"
    using built(2) by (simp add: pk_file_def fs_ReadFile_Some)
  have arch: "[art_archiveName (at_Format a)] \<notin> fs_dirs (pk_Files (bo_Package out))" using out(2) ty(1) art_package_dirs_free by auto
  have "\<exists>x f. art_StoreBuild (ac_enc cfg) dir ?req (as_Files s) = (Inr x, f)"
    by (rule art_StoreBuild_succeeds [OF st(2), where m = "ManifestFile (bo_Manifest out)"])
      (use ty art_archiveName_plain [OF ty(1)] art_inv_base(1) [OF inv] free built(1) out(3) man arch nm in simp_all)
  then obtain x f where store: "art_StoreBuild (ac_enc cfg) dir ?req (as_Files s) = (Inr x, f)" by blast
  have nl: "plain (sq_ArchiveName ?req)" "sq_ArchiveName ?req \<noteq> ''manifest.json''" using art_archiveName_plain [OF ty(1)] nm by simp_all
  have spec: "art_OpenArchive dir (st_ArchiveURI x) f = Inr (bo_Archive out) \<and> st_ArchiveSize x = art_size (ac_enc cfg) (bo_Archive out)"
    using art_store_open [OF store st(2) _ nl art_inv_base(1) [OF inv]] ty(2) by simp
  let ?a2 = "?a\<lparr>at_Status := art_StatusReady, at_URI := st_ArchiveURI x, at_ManifestURI := st_ManifestURI x,
       at_Checksum := bo_ArchiveSHA256 out, at_Size := st_ArchiveSize x, at_ErrorMsg := []\<rparr>"
  let ?s2 = "art_outcome art_StatusReady (s\<lparr>as_Repo := (as_Repo s)\<lparr>ar_byID := (ar_byID (as_Repo s))(i \<mapsto> ?a2)\<rparr>, as_Files := f\<rparr>)"
  have store1: "art_store cfg dir ?req ?s1 = (Inr x, ?s1\<lparr>as_Files := f\<rparr>)" using store by (simp add: art_store_def)
  have upd: "art_on_repo (art_repo_UpdateBuildResult i
                   \<lparr>br_Status = art_StatusReady, br_URI = st_ArchiveURI x, br_ManifestURI = st_ManifestURI x,
                    br_Checksum = bo_ArchiveSHA256 out, br_Size = st_ArchiveSize x, br_ErrorMsg = []\<rparr>) (?s1\<lparr>as_Files := f\<rparr>) =
      (Inr ?a2, s\<lparr>as_Repo := (as_Repo s)\<lparr>ar_byID := (ar_byID (as_Repo s))(i \<mapsto> ?a2)\<rparr>, as_Files := f\<rparr>)"
    by (simp add: art_on_repo_def art_repo_UpdateBuildResult_def art_on_stored_def)
  have run: "art_buildArtifact cfg now i s = Some (Inr (), ?s2)"
    unfolding art_buildArtifact_def cfg(2,3) st(1) option.case prod.case art_repo_Get_def a up sum.case rows
      art_buildAndStore_def out(1) d(1) store1 upd and_then_simps ..
  have "art_OpenArtifactArchive cfg i ?s2 = Inr (bo_Archive out, at_Size ?a2, ?a2)"
    using spec by (simp add: art_OpenArtifactArchive_def art_GetArtifact_def art_repo_Get_def art_outcome_def st(1))
  moreover have "at_Checksum ?a2 = art_checksum (ac_enc cfg) (ac_sha cfg) (bo_Archive out)" using built(5) by simp
  moreover have "ar_byID (as_Repo ?s2) i = Some ?a2" by (simp add: art_outcome_def)
  moreover have "at_Status ?a2 = art_StatusReady" by simp
  ultimately show ?thesis using run out(1) by blast
qed

lemma art_build_ends: "art_buildArtifact cfg now i s \<noteq> None"
proof -
  have never: "art_LoadSnapshotBundle r d n v = None \<longleftrightarrow> False" for r d n v using art_load_ends by blast
  show ?thesis unfolding art_buildArtifact_def by (auto simp: never split: option.splits sum.splits prod.splits)
qed

end
