(* ===== verification/Artifact_Handler.thy ===== *)
theory Artifact_Handler
  imports Artifact_Service Audit_Log Http Job_Service
begin

section \<open>Artifacts: the handlers\<close>

text \<open>
  \<open>internal/artifacts/handler.go\<close>. The audit logger and the job creator are arguments with their own states and may be
  absent. A request is the authenticated context, the raw path parameter, the query parameters or what decoding the
  body gave, and the trace identifiers. \<open>http.ServeContent\<close> answers the archive it is given.
\<close>

datatype art_failure =
    ArtFailed art_error
  | ArtForbidden int
  | ArtJobs jobs_error
  | ArtAudit string

type_synonym art_fail = "art_failure http_error"
type_synonym 'j art_jobCreator = "jobs_CreateJobInput \<Rightarrow> 'j \<Rightarrow> (jobs_error, jobs_Job, 'j) outcome"

record ('l, 'j) art_Handler =
  ah_svc :: art_Service
  ah_audit :: "'l option"
  ah_jobs :: "'j option"

subsection \<open>Error answers\<close>

definition art_writeArtifactError :: "art_error \<Rightarrow> (art_fail, 'a) reply" where
  "art_writeArtifactError e =
     ReplyError
       (if art_error_is e ArtErrNotFound then StatusNotFound
        else if art_error_is e ArtErrConflict then StatusConflict
        else if art_error_is e ArtErrNotReady then StatusConflict
        else StatusBadRequest) (HttpService (ArtFailed e))"

definition art_writeArtifactProjectResolutionError :: "art_error \<Rightarrow> (art_fail, 'a) reply" where
  "art_writeArtifactProjectResolutionError e =
     ReplyError (if art_error_is e ArtErrNotFound then StatusNotFound else StatusBadRequest) (HttpService (ArtFailed e))"

definition art_requireProject :: "auth_context \<Rightarrow> int \<Rightarrow> bool" where
  "art_requireProject ctx projectID = (auth_RequireProjectAccess ctx projectID = Inr ())"

subsection \<open>Requesting a package\<close>

definition art_recordPackageRequestAudit ::
  "'l audit_logger \<Rightarrow> art_Artifact \<Rightarrow> jobs_Job option \<Rightarrow> ('l, 'j) art_Handler \<Rightarrow> string option \<times> ('l, 'j) art_Handler" where
  "art_recordPackageRequestAudit lg a job h =
     (let (e, l) = audit_recordAudit lg
            \<lparr>ev_Actor = [], ev_Action = ''artifact.package.request'', ev_ResourceType = ''artifact'', ev_ResourceID = show_int (at_ID a),
             ev_Detail = Some ([(''project_id'', GInt64 (at_ProjectID a)), (''dataset_id'', GInt64 (at_DatasetID a)),
               (''snapshot_id'', GInt64 (at_SnapshotID a)), (''format'', GStr (at_Format a)), (''version'', GStr (at_Version a)),
               (''status'', GStr (at_Status a))] @
               (case job of None \<Rightarrow> [] | Some j \<Rightarrow> [(''job_id'', GInt64 (job_ID j)), (''job_status'', GStr (job_Status j))]))\<rparr> (ah_audit h)
      in (e, h\<lparr>ah_audit := l\<rparr>))"

definition art_packagePayload :: "art_Artifact \<Rightarrow> string \<Rightarrow> obj" where
  "art_packagePayload a traceID =
     [(''artifact_id'', GInt64 (at_ID a)), (''dataset_id'', GInt64 (at_DatasetID a)), (''snapshot_id'', GInt64 (at_SnapshotID a)),
      (''format'', GStr (at_Format a)), (''version'', GStr (at_Version a)),
      (''label_map_json'', GObj (map (map_prod id GStr) (at_LabelMapJSON a))),
      (''names'', GStrs (art_bundleNames (at_LabelMapJSON a)))] @
     (if traceID = [] then [] else [(''trace_id'', GStr traceID)])"

definition art_queuePackageJob ::
  "'j art_jobCreator \<Rightarrow> art_Config \<Rightarrow> time \<Rightarrow> art_PackageRequest \<Rightarrow> string \<Rightarrow> 'j \<Rightarrow> ('l, 'j) art_Handler \<Rightarrow>
     (art_failure, art_Artifact \<times> jobs_Job, ('l, 'j) art_Handler) outcome" where
  "art_queuePackageJob create cfg now inp traceID j h =
     (case art_CreateArtifact cfg now inp art_StatusQueued (ah_svc h) of
        (Inl e, s) \<Rightarrow> (Inl (ArtFailed e), h\<lparr>ah_svc := s\<rparr>)
      | (Inr a, s) \<Rightarrow>
          (case create
             \<lparr>cj_ProjectID = at_ProjectID a, cj_DatasetID = at_DatasetID a, cj_SnapshotID = at_SnapshotID a,
              cj_JobType = ''artifact-package'', cj_RequiredResourceType = ''cpu'', cj_RequiredCapabilities = [],
              cj_IdempotencyKey = ''artifact-package-'' @ show_int (at_ID a),
              cj_Payload = Some (art_packagePayload a traceID)\<rparr> j of
             (Inl e, j') \<Rightarrow> (Inl (ArtJobs e), h\<lparr>ah_svc := s, ah_jobs := Some j'\<rparr>)
           | (Inr job, j') \<Rightarrow>
               (case art_LinkArtifactJob (at_ID a) (job_ID job) s of
                  (Inl e, s') \<Rightarrow> (Inl (ArtFailed e), h\<lparr>ah_svc := s', ah_jobs := Some j'\<rparr>)
                | (Inr a', s') \<Rightarrow> (Inr (a', job), h\<lparr>ah_svc := s', ah_jobs := Some j'\<rparr>))))"

record art_packageAnswer =
  pa_JobID :: int
  pa_ArtifactID :: int
  pa_Status :: string

text \<open>What \<open>CreatePackage\<close> and \<open>ExportSnapshot\<close> do with a decoded request.\<close>

definition art_requestPackage ::
  "'l audit_logger \<Rightarrow> 'j art_jobCreator \<Rightarrow> art_Config \<Rightarrow> time \<Rightarrow> auth_context \<Rightarrow> obs_Trace \<Rightarrow> art_PackageRequest \<Rightarrow>
     ('l, 'j) art_Handler \<Rightarrow> (art_fail, art_packageAnswer) reply \<times> ('l, 'j) art_Handler" where
  "art_requestPackage lg create cfg now ctx tr inp h =
     (case art_resolveProjectID cfg (pr_DatasetID inp) (pr_SnapshotID inp) (pr_ProjectID inp) of
        Inl e \<Rightarrow> (art_writeArtifactProjectResolutionError e, h)
      | Inr projectID \<Rightarrow>
          if \<not> art_requireProject ctx projectID then (ReplyError StatusForbidden (HttpService (ArtForbidden projectID)), h)
          else
            let inp' = inp\<lparr>pr_ProjectID := projectID\<rparr> in
            (case ah_jobs h of
               Some j \<Rightarrow>
                 (case art_queuePackageJob create cfg now inp' (obs_TraceIDFromRequest tr) j h of
                    (Inl e, h') \<Rightarrow> (ReplyError StatusBadRequest (HttpService e), h')
                  | (Inr (a, job), h') \<Rightarrow>
                      (case art_recordPackageRequestAudit lg a (Some job) h' of
                         (Some e, h2) \<Rightarrow> (ReplyError StatusInternalServerError (HttpService (ArtAudit e)), h2)
                       | (None, h2) \<Rightarrow>
                           (Reply StatusAccepted \<lparr>pa_JobID = job_ID job, pa_ArtifactID = at_ID a, pa_Status = job_Status job\<rparr>, h2)))
             | None \<Rightarrow>
                 (case art_CreatePackageJob cfg now inp' (ah_svc h) of
                    (Inl e, s) \<Rightarrow> (ReplyError StatusBadRequest (HttpService (ArtFailed e)), h\<lparr>ah_svc := s\<rparr>)
                  | (Inr a, s) \<Rightarrow>
                      (case art_recordPackageRequestAudit lg a None (h\<lparr>ah_svc := s\<rparr>) of
                         (Some e, h2) \<Rightarrow> (ReplyError StatusInternalServerError (HttpService (ArtAudit e)), h2)
                       | (None, h2) \<Rightarrow>
                           (Reply StatusAccepted \<lparr>pa_JobID = at_ID a, pa_ArtifactID = at_ID a, pa_Status = at_Status a\<rparr>, h2)))))"

definition art_HandleCreatePackage ::
  "'l audit_logger \<Rightarrow> 'j art_jobCreator \<Rightarrow> art_Config \<Rightarrow> time \<Rightarrow> auth_context \<Rightarrow> obs_Trace \<Rightarrow> art_PackageRequest http_body \<Rightarrow>
     ('l, 'j) art_Handler \<Rightarrow> (art_fail, art_packageAnswer) reply \<times> ('l, 'j) art_Handler" where
  "art_HandleCreatePackage lg create cfg now ctx tr body h =
     (case decode_body body of
        Inl e \<Rightarrow> (ReplyError StatusBadRequest e, h)
      | Inr inp \<Rightarrow> art_requestPackage lg create cfg now ctx tr inp h)"

definition art_HandleExportSnapshot ::
  "'l audit_logger \<Rightarrow> 'j art_jobCreator \<Rightarrow> art_Config \<Rightarrow> time \<Rightarrow> auth_context \<Rightarrow> obs_Trace \<Rightarrow> string \<Rightarrow> art_PackageRequest http_body \<Rightarrow>
     ('l, 'j) art_Handler \<Rightarrow> (art_fail, art_packageAnswer) reply \<times> ('l, 'j) art_Handler" where
  "art_HandleExportSnapshot lg create cfg now ctx tr rawID body h =
     (case path_int64 rawID of
        Inl e \<Rightarrow> (ReplyError StatusBadRequest e, h)
      | Inr snapshotID \<Rightarrow>
          (case decode_body body of
             Inl e \<Rightarrow> (ReplyError StatusBadRequest e, h)
           | Inr inp \<Rightarrow> art_requestPackage lg create cfg now ctx tr (inp\<lparr>pr_SnapshotID := snapshotID\<rparr>) h))"

subsection \<open>Reading\<close>

definition art_HandleGetArtifact ::
  "art_Config \<Rightarrow> auth_context \<Rightarrow> string \<Rightarrow> ('l, 'j) art_Handler \<Rightarrow> (art_fail, art_Artifact) reply" where
  "art_HandleGetArtifact cfg ctx rawID h =
     (case path_int64 rawID of
        Inl e \<Rightarrow> ReplyError StatusBadRequest e
      | Inr i \<Rightarrow>
          (case art_GetArtifact i (as_Repo (ah_svc h)) of
             Inl e \<Rightarrow> art_writeArtifactError e
           | Inr a \<Rightarrow>
               if \<not> art_requireProject ctx (at_ProjectID a) then art_writeArtifactError (ArtNotFound i)
               else Reply StatusOK
                 (if at_Status a = art_StatusPending \<or> at_Status a = art_StatusQueued
                  then a\<lparr>at_Entries := art_BuildBundleEntries (ac_sha cfg) a\<rparr> else a)))"

definition art_HandlePresignArtifact ::
  "art_Config \<Rightarrow> auth_context \<Rightarrow> string \<Rightarrow> int http_body \<Rightarrow> ('l, 'j) art_Handler \<Rightarrow> (art_fail, string) reply" where
  "art_HandlePresignArtifact cfg ctx rawID body h =
     (case path_int64 rawID of
        Inl e \<Rightarrow> ReplyError StatusBadRequest e
      | Inr i \<Rightarrow>
          (case decode_body body of
             Inl e \<Rightarrow> ReplyError StatusBadRequest e
           | Inr ttl \<Rightarrow>
               (case art_GetArtifact i (as_Repo (ah_svc h)) of
                  Inl e \<Rightarrow> art_writeArtifactError e
                | Inr a \<Rightarrow>
                    if \<not> art_requireProject ctx (at_ProjectID a)
                    then ReplyError StatusForbidden (HttpService (ArtForbidden (at_ProjectID a)))
                    else
                      (case art_PresignArtifact cfg i ttl (as_Repo (ah_svc h)) of
                         Inl e \<Rightarrow> art_writeArtifactError e
                       | Inr u \<Rightarrow> Reply StatusOK u))))"

definition art_HandleResolveArtifact ::
  "int list \<Rightarrow> auth_context \<Rightarrow> string \<Rightarrow> string \<Rightarrow> string \<Rightarrow> ('l, 'j) art_Handler \<Rightarrow> (art_fail, art_Artifact \<times> string) reply" where
  "art_HandleResolveArtifact ks ctx dataset format version h =
     (if format = [] \<or> version = [] then ReplyError StatusBadRequest (HttpMessage ''format and version are required'')
      else
        case art_ResolveArtifact ks dataset format version (as_Repo (ah_svc h)) of
          Inl e \<Rightarrow> ReplyError StatusNotFound (HttpService (ArtFailed e))
        | Inr a \<Rightarrow>
            if \<not> art_requireProject ctx (at_ProjectID a)
            then ReplyError StatusNotFound (HttpService (ArtFailed (ArtUnresolved dataset format version)))
            else Reply StatusOK (a, ''/v1/artifacts/'' @ show_int (at_ID a) @ ''/download''))"

record art_download =
  dl_Disposition :: string
  dl_Name :: string
  dl_Content :: art_content

definition art_HandleDownloadArtifact ::
  "art_Config \<Rightarrow> auth_context \<Rightarrow> string \<Rightarrow> ('l, 'j) art_Handler \<Rightarrow> (art_fail, art_download) reply" where
  "art_HandleDownloadArtifact cfg ctx rawID h =
     (case path_int64 rawID of
        Inl e \<Rightarrow> ReplyError StatusBadRequest e
      | Inr i \<Rightarrow>
          (case art_GetArtifact i (as_Repo (ah_svc h)) of
             Inl e \<Rightarrow> art_writeArtifactError e
           | Inr a0 \<Rightarrow>
               if \<not> art_requireProject ctx (at_ProjectID a0) then art_writeArtifactError (ArtNotFound i)
               else
                 (case art_OpenArtifactArchive cfg i (ah_svc h) of
                    Inl e \<Rightarrow> art_writeArtifactError e
                  | Inr (c, n, a) \<Rightarrow>
                      let name = ''package.'' @ at_Format a @ ''.tar.gz'' in
                      Reply StatusOK \<lparr>dl_Disposition = ''attachment; filename='' @ [CHR 0x22] @ name @ [CHR 0x22],
                        dl_Name = name, dl_Content = c\<rparr>)))"

subsection \<open>Completion\<close>

definition art_HandleCompleteArtifact ::
  "art_Config \<Rightarrow> time \<Rightarrow> string \<Rightarrow> art_BundleEntry list http_body \<Rightarrow> ('l, 'j) art_Handler \<Rightarrow>
     (art_fail, art_Artifact) reply \<times> ('l, 'j) art_Handler" where
  "art_HandleCompleteArtifact cfg now rawID body h =
     (case path_int64 rawID of
        Inl e \<Rightarrow> (ReplyError StatusBadRequest e, h)
      | Inr i \<Rightarrow>
          (case decode_body body of
             Inl e \<Rightarrow> (ReplyError StatusBadRequest e, h)
           | Inr entries \<Rightarrow>
               (case art_CompleteArtifact cfg now i entries (ah_svc h) of
                  (Inl e, s) \<Rightarrow> (art_writeArtifactError e, h\<lparr>ah_svc := s\<rparr>)
                | (Inr a, s) \<Rightarrow> (Reply StatusOK a, h\<lparr>ah_svc := s\<rparr>))))"

end
