(* ===== verification/Artifact_Records.thy ===== *)
theory Artifact_Records
  imports Artifact_Service_Facts
begin

section \<open>Artifacts: the records, for any configuration and any request\<close>

text \<open>
  What the repository of artifacts keeps whatever is configured (storage, object store or neither, any uploader, builder and
  query) and whatever versions are asked for: every record is in range, and the request it came from is never changed. The
  files play no part here; where they do is \<open>Artifact_Service_Facts\<close>.
\<close>

definition art_record_ok :: "art_Artifact \<Rightarrow> bool" where
  "art_record_ok a \<longleftrightarrow> at_Status a \<in> set art_statuses \<and> at_Format a \<in> {''yolo'', ''coco''} \<and> at_Version a \<noteq> [] \<and>
     0 < at_ProjectID a \<and> 0 < at_DatasetID a \<and> 0 < at_SnapshotID a \<and> 0 \<le> at_Size a \<and>
     (at_Status a = art_StatusReady \<longrightarrow> has_prefix (at_Checksum a) ''sha256:'' \<and> at_ErrorMsg a = [])"

text \<open>Two records of the same request.\<close>

definition art_same_request :: "art_Artifact \<Rightarrow> art_Artifact \<Rightarrow> bool" where
  "art_same_request a b \<longleftrightarrow> at_ID b = at_ID a \<and> at_ProjectID b = at_ProjectID a \<and> at_DatasetID b = at_DatasetID a \<and>
     at_SnapshotID b = at_SnapshotID a \<and> at_ArtifactType b = at_ArtifactType a \<and> at_Format b = at_Format a \<and>
     at_Version b = at_Version a \<and> at_LabelMapJSON b = at_LabelMapJSON a \<and> at_CreatedAt b = at_CreatedAt a"

definition art_rows :: "art_Repo \<Rightarrow> bool" where
  "art_rows r \<longleftrightarrow> (\<forall>i a. ar_byID r i = Some a \<longrightarrow> at_ID a = i \<and> i < ar_nextID r \<and> art_record_ok a)"

definition art_kept :: "art_Repo \<Rightarrow> art_Repo \<Rightarrow> bool" where
  "art_kept r r' \<longleftrightarrow> (\<forall>i a. ar_byID r i = Some a \<longrightarrow> (\<exists>b. ar_byID r' i = Some b \<and> art_same_request a b))"

definition art_steps :: "art_Service \<Rightarrow> art_Service \<Rightarrow> bool" where
  "art_steps s s' \<longleftrightarrow> (art_rows (as_Repo s) \<longrightarrow> art_rows (as_Repo s') \<and> art_kept (as_Repo s) (as_Repo s'))"

lemma art_kept_refl [simp]: "art_kept r r"
  by (simp add: art_kept_def art_same_request_def)

lemma art_same_request_trans: "art_same_request a b \<Longrightarrow> art_same_request b c \<Longrightarrow> art_same_request a c"
  by (simp add: art_same_request_def)

lemma art_kept_trans: "art_kept r s \<Longrightarrow> art_kept s t \<Longrightarrow> art_kept r t"
  unfolding art_kept_def using art_same_request_trans by blast

lemma art_steps_same: "as_Repo s' = as_Repo s \<Longrightarrow> art_steps s s'"
  by (simp add: art_steps_def)

lemma art_steps_trans: "art_steps s t \<Longrightarrow> art_steps t u \<Longrightarrow> art_steps s u"
  unfolding art_steps_def using art_kept_trans by blast

lemma art_steps_then:
  assumes "art_steps s (snd m)" "\<And>x t. m = (Inr x, t) \<Longrightarrow> art_steps t (snd (f x t))"
  shows "art_steps s (snd (and_then m f))"
proof (cases m)
  case (Pair x t)
  then show ?thesis using assms art_steps_trans by (cases x) (fastforce simp: and_then_def)+
qed

lemma art_steps_update:
  assumes "\<And>a. art_record_ok a \<Longrightarrow> art_record_ok (f a)" "\<And>a. art_same_request a (f a)"
  shows "art_steps s (snd (art_on_repo (art_on_stored i f) s))"
proof (cases "ar_byID (as_Repo s) i")
  case None
  then show ?thesis by (intro art_steps_same) (simp add: art_on_repo_def art_on_stored_def)
next
  case (Some a)
  let ?r = "as_Repo s"
  have st: "as_Repo (snd (art_on_repo (art_on_stored i f) s)) = ?r\<lparr>ar_byID := (ar_byID ?r)(i \<mapsto> f a)\<rparr>"
    by (simp add: art_on_repo_def art_on_stored_def Some)
  have id: "at_ID (f a) = at_ID a" using assms(2) [of a] by (simp add: art_same_request_def)
  show ?thesis unfolding art_steps_def st
  proof (intro impI conjI)
    assume rows: "art_rows ?r"
    have "at_ID b = k \<and> k < ar_nextID ?r \<and> art_record_ok b" if "((ar_byID ?r)(i \<mapsto> f a)) k = Some b" for k b
    proof (cases "k = i")
      case True
      then show ?thesis using that rows Some assms(1) id unfolding art_rows_def by auto
    next
      case False
      then show ?thesis using that rows unfolding art_rows_def by simp
    qed
    then show "art_rows (?r\<lparr>ar_byID := (ar_byID ?r)(i \<mapsto> f a)\<rparr>)" by (simp add: art_rows_def)
    show "art_kept ?r (?r\<lparr>ar_byID := (ar_byID ?r)(i \<mapsto> f a)\<rparr>)"
      using assms(2) Some by (simp add: art_kept_def art_same_request_def)
  qed
qed

lemma art_link_steps: "art_steps s (snd (art_LinkArtifactJob i j s))"
proof -
  have "art_steps s (snd (art_on_repo (art_repo_LinkJob i j) s))"
    unfolding art_repo_LinkJob_def by (rule art_steps_update) (simp_all add: art_record_ok_def art_same_request_def)
  then show ?thesis by (auto simp: art_LinkArtifactJob_def intro: art_steps_same)
qed

lemma art_result_steps:
  assumes "br_Status r \<in> set art_statuses" "0 \<le> br_Size r"
    and "br_Status r = art_StatusReady \<Longrightarrow> has_prefix (br_Checksum r) ''sha256:'' \<and> br_ErrorMsg r = []"
  shows "art_steps s (snd (art_on_repo (art_repo_UpdateBuildResult i r) s))"
  unfolding art_repo_UpdateBuildResult_def
  by (rule art_steps_update) (use assms in \<open>simp_all add: art_record_ok_def art_same_request_def\<close>)

lemma art_building_steps: "art_steps s (snd (art_on_repo (art_repo_UpdateStatus i art_StatusBuilding []) s))"
  unfolding art_repo_UpdateStatus_def
  by (rule art_steps_update) (simp_all add: art_record_ok_def art_same_request_def art_statuses_def art_status_defs)

lemma art_failBuild_steps: "art_steps s (snd (art_failBuild i e s))"
  unfolding art_failBuild_def
  by (rule art_steps_then, rule art_result_steps) (simp_all add: art_steps_same art_statuses_def art_status_defs art_outcome_def)

lemma art_ready_steps: "art_steps s (snd (art_MarkArtifactReady i uri muri checksum sz s))"
  unfolding art_MarkArtifactReady_def
  by (simp add: art_steps_same) (auto intro!: art_result_steps art_normalized simp: art_statuses_def)

lemma art_finish_steps: "art_steps s (snd (art_finishCompletion i uri muri checksum sz s))"
  unfolding art_finishCompletion_def
  by (rule art_steps_then [OF art_ready_steps]) (simp add: art_steps_same art_outcome_def)

lemma art_store_steps: "art_steps s (snd (art_store cfg dir req s))"
  by (rule art_steps_same) (simp add: art_store_def split: prod.splits)

lemma art_put_steps: "art_steps s (snd (art_put_object up uri body s))"
  by (rule art_steps_same) (simp add: art_put_object_def split: sum.splits)

lemma art_complete_steps: "art_steps s (snd (art_CompleteArtifact cfg now i es s))"
proof -
  have storage: "art_steps s (snd (art_completeArtifactToStorage cfg now dir a es s))" for dir a
  proof (cases "art_materializeCompletedArtifact now (at_Format a) (at_Version a) es")
    case (Inr req)
    then show ?thesis
      by (simp add: art_completeArtifactToStorage_def) (rule art_steps_then [OF art_store_steps art_finish_steps])
  qed (simp add: art_completeArtifactToStorage_def art_steps_same)
  have objects: "art_steps s (snd (art_completeArtifactToObjects cfg now up a es s))" for up a
    unfolding art_completeArtifactToObjects_def Let_def case_prod_beta
    by (intro art_steps_then art_put_steps art_finish_steps)
  show ?thesis
    by (auto simp: art_CompleteArtifact_def storage objects art_steps_same split: sum.split option.split)
qed

lemma art_create_steps:
  assumes "st \<in> {art_StatusPending, art_StatusQueued}"
  shows "art_steps s (snd (art_CreateArtifact cfg now p st s))"
proof (cases "pr_DatasetID p \<le> 0 \<or> pr_SnapshotID p \<le> 0 \<or> pr_Format p = [] \<or> pr_Format p \<noteq> ''yolo'' \<and> pr_Format p \<noteq> ''coco''")
  case True
  then show ?thesis by (intro art_steps_same) (auto simp: art_CreateArtifact_def)
next
  case False
  let ?r = "as_Repo s"
  obtain a where a: "snd (art_CreateArtifact cfg now p st s) = s\<lparr>as_Repo := ?r\<lparr>ar_nextID := ar_nextID ?r + 1, ar_byID := (ar_byID ?r)(ar_nextID ?r \<mapsto> a)\<rparr>\<rparr>"
    "at_ID a = ar_nextID ?r" "at_ProjectID a = (if pr_ProjectID p \<le> 0 then 1 else pr_ProjectID p)" "at_DatasetID a = pr_DatasetID p"
    "at_SnapshotID a = pr_SnapshotID p" "at_Format a = pr_Format p"
    "at_Version a = (if pr_Version p = [] then ''v'' @ show_int (pr_SnapshotID p) else pr_Version p)" "at_Size a = 0" "at_Status a = st"
    using art_create_result [OF False, of st cfg now s] assms by (auto simp: art_status_defs)
  have good: "art_record_ok a"
    using False assms unfolding art_record_ok_def a(3-9) by (auto simp: art_statuses_def art_status_defs)
  show ?thesis unfolding art_steps_def a(1)
  proof (intro impI conjI)
    assume rows: "art_rows ?r"
    have "at_ID b = k \<and> k < ar_nextID ?r + 1 \<and> art_record_ok b" if "((ar_byID ?r)(ar_nextID ?r \<mapsto> a)) k = Some b" for k b
    proof (cases "k = ar_nextID ?r")
      case True
      then show ?thesis using that good a(2) by simp
    next
      case False
      then have "ar_byID ?r k = Some b" using that by simp
      then show ?thesis using rows unfolding art_rows_def by fastforce
    qed
    then show "art_rows (as_Repo (s\<lparr>as_Repo := ?r\<lparr>ar_nextID := ar_nextID ?r + 1, ar_byID := (ar_byID ?r)(ar_nextID ?r \<mapsto> a)\<rparr>\<rparr>))"
      by (simp add: art_rows_def)
    have "ar_byID ?r (ar_nextID ?r) = None" using rows unfolding art_rows_def by (metis less_irrefl not_None_eq)
    then show "art_kept ?r (as_Repo (s\<lparr>as_Repo := ?r\<lparr>ar_nextID := ar_nextID ?r + 1, ar_byID := (ar_byID ?r)(ar_nextID ?r \<mapsto> a)\<rparr>\<rparr>))"
      by (auto simp: art_kept_def art_same_request_def)
  qed
qed

lemma art_package_steps: "art_steps s (snd (art_CreatePackageJob cfg now p s))"
  unfolding art_CreatePackageJob_def
  by (rule art_steps_then [OF art_create_steps]) (simp_all add: art_steps_same)

lemma art_stale_steps: "art_steps s (s\<lparr>as_Repo := snd (art_repo_MarkStaleBuildsFailed ks reason n (as_Repo s))\<rparr>)"
proof (induction ks arbitrary: s n)
  case (Cons k ks)
  let ?f = "\<lambda>a. a\<lparr>at_Status := art_StatusFailed, at_ErrorMsg := reason\<rparr>"
  show ?case
  proof (cases "ar_byID (as_Repo s) k")
    case None
    then show ?thesis using Cons.IH [of s n] by simp
  next
    case (Some a)
    have one: "art_steps s (snd (art_on_repo (art_on_stored k ?f) s))"
      by (rule art_steps_update) (simp_all add: art_record_ok_def art_same_request_def art_statuses_def art_status_defs)
    have st: "snd (art_on_repo (art_on_stored k ?f) s) = s\<lparr>as_Repo := (as_Repo s)\<lparr>ar_byID := (ar_byID (as_Repo s))(k \<mapsto> ?f a)\<rparr>\<rparr>"
      by (simp add: art_on_repo_def art_on_stored_def Some)
    show ?thesis
      using Cons.IH [of s n] art_steps_trans [OF one Cons.IH [of _ "n + 1"]] unfolding st by (simp add: Some)
  qed
qed (simp add: art_steps_same)

lemma art_StoreBuild_size: "art_StoreBuild enc dir req f = (Inr r, f') \<Longrightarrow> 0 \<le> st_ArchiveSize r"
  by (auto simp: art_StoreBuild_def Let_def split: if_splits option.splits)

lemma art_buildAndStore_steps:
  assumes sha: "sha_hex (ac_sha cfg)" and fmt: "at_Format a \<noteq> []"
  shows "art_steps s (snd (art_buildAndStore cfg now source dir a b s))"
proof (cases "art_Build (ac_enc cfg) (ac_sha cfg) source now (art_bundleFor a b)")
  case (Inl e)
  then show ?thesis by (simp add: art_buildAndStore_def art_failBuild_steps)
next
  case (Inr out)
  have "xb_Format (art_bundleFor a b) \<noteq> []" using fmt by (simp add: art_bundleFor_def)
  then have sum: "has_prefix (bo_ArchiveSHA256 out) ''sha256:''"
    using art_Build_fields [OF Inr] sha art_normalized by (simp add: art_checksum_def sha_hex_def)
  let ?req = "\<lparr>sq_Version = at_Version a, sq_ArchiveName = bo_ArchiveName out, sq_Archive = bo_Archive out, sq_Package = bo_Package out\<rparr>"
  obtain x s1 where st: "art_store cfg dir ?req s = (x, s1)" by (cases "art_store cfg dir ?req s")
  have one: "art_steps s s1" using art_store_steps [of s cfg dir ?req] by (simp add: st)
  show ?thesis
  proof (cases x)
    case (Inl e)
    then show ?thesis using art_steps_trans [OF one art_failBuild_steps] by (simp add: art_buildAndStore_def Inr st)
  next
    case x: (Inr r)
    have "0 \<le> st_ArchiveSize r" using st x art_StoreBuild_size by (fastforce simp: art_store_def split: prod.splits)
    then have "art_steps s1 (snd (art_on_repo (art_repo_UpdateBuildResult (at_ID a)
        \<lparr>br_Status = art_StatusReady, br_URI = st_ArchiveURI r, br_ManifestURI = st_ManifestURI r,
         br_Checksum = bo_ArchiveSHA256 out, br_Size = st_ArchiveSize r, br_ErrorMsg = []\<rparr>) s1))"
      using sum by (intro art_result_steps) (simp_all add: art_statuses_def)
    from art_steps_trans [OF one this] show ?thesis
      unfolding art_buildAndStore_def Inr st x sum.case prod.case
      by (rule art_steps_then) (simp add: art_steps_same art_outcome_def)
  qed
qed

lemma art_build_steps:
  assumes sha: "sha_hex (ac_sha cfg)" and rows: "art_rows (as_Repo s)" and run: "art_buildArtifact cfg now i s = Some (x, s')"
  shows "art_steps s s'"
proof (cases "ac_query cfg = None \<or> ac_builder cfg = None \<or> ac_storage cfg = None \<or> ar_byID (as_Repo s) i = None")
  case True
  then have "(x, s') = (Inl (ArtMissing i), s) \<or>
      (x, s') = art_failBuild i (ArtMessage ''artifact build dependencies are not configured'') s"
    using run by (auto simp: art_buildArtifact_def art_repo_Get_def split: option.splits)
  then show ?thesis using art_failBuild_steps art_steps_same by (metis snd_conv)
next
  case False
  then obtain q source dir a where q: "ac_query cfg = Some q" "ac_builder cfg = Some source" "ac_storage cfg = Some dir"
    and a: "ar_byID (as_Repo s) i = Some a" by auto
  have "art_record_ok a" using rows a unfolding art_rows_def by blast
  then have fmt: "at_Format a \<noteq> []" by (auto simp: art_record_ok_def)
  define s1 where "s1 = snd (art_on_repo (art_repo_UpdateStatus i art_StatusBuilding []) s)"
  have up: "art_on_repo (art_repo_UpdateStatus i art_StatusBuilding []) s =
      (Inr (a\<lparr>at_Status := art_StatusBuilding, at_ErrorMsg := []\<rparr>), s1)"
    by (simp add: s1_def art_on_repo_def art_repo_UpdateStatus_def art_on_stored_def a)
  have one: "art_steps s s1" unfolding s1_def by (rule art_building_steps)
  consider e where "art_failBuild i e s1 = (x, s')" | b where "art_buildAndStore cfg now source dir a b s1 = (x, s')"
    using run unfolding art_buildArtifact_def q option.case prod.case art_repo_Get_def a up sum.case
    by (auto split: sum.splits option.splits)
  then have "art_steps s1 s'"
  proof cases
    case (1 e)
    then show ?thesis using art_failBuild_steps [of s1 i e] by (metis snd_conv)
  next
    case (2 b)
    then show ?thesis using art_buildAndStore_steps [OF sha fmt, of s1 now source dir b] by (metis snd_conv)
  qed
  with one show ?thesis by (rule art_steps_trans)
qed

lemma art_turn_steps:
  assumes "sha_hex (ac_sha cfg)" "art_runner_step cfg now s = Some s'"
  shows "art_steps s s'"
proof (cases "as_Queue s")
  case Nil
  then show ?thesis using assms(2) by (simp add: art_runner_step_def art_steps_same)
next
  case (Cons i rest)
  then obtain x where run: "art_buildArtifact cfg now i (s\<lparr>as_Queue := rest\<rparr>) = Some (x, s')"
    using assms(2) by (auto simp: art_runner_step_def)
  show ?thesis
  proof (cases "art_rows (as_Repo s)")
    case True
    then show ?thesis using art_build_steps [OF assms(1) _ run] by (simp add: art_steps_def)
  qed (simp add: art_steps_def)
qed

end
