(* ===== verification/Artifact_Claims.thy ===== *)
theory Artifact_Claims
  imports Artifact_Success Artifact_Handler Artifact_Records
begin

section \<open>Artifacts: the properties of the service\<close>

subsection \<open>Histories\<close>

text \<open>
  What the service can be asked, in any order: packages for its own runner or for a queued job, links, completions,
  turns of the runner, and the cleanup after a restart. A build that would not end leaves the state.
\<close>

datatype art_op =
    ArtPackage time art_PackageRequest
  | ArtQueue time art_PackageRequest
  | ArtLink int int
  | ArtComplete time int "art_BundleEntry list"
  | ArtTurn time
  | ArtStale "int list" string

fun art_serve :: "art_Config \<Rightarrow> art_Service \<Rightarrow> art_op \<Rightarrow> art_Service" where
  "art_serve cfg s (ArtPackage now p) = snd (art_CreatePackageJob cfg now p s)"
| "art_serve cfg s (ArtQueue now p) = snd (art_CreateArtifact cfg now p art_StatusQueued s)"
| "art_serve cfg s (ArtLink i j) = snd (art_LinkArtifactJob i j s)"
| "art_serve cfg s (ArtComplete now i es) = snd (art_CompleteArtifact cfg now i es s)"
| "art_serve cfg s (ArtTurn now) = (case art_runner_step cfg now s of None \<Rightarrow> s | Some s' \<Rightarrow> s')"
| "art_serve cfg s (ArtStale ks reason) = snd (art_MarkStaleBuildsFailed ks reason s)"

definition art_op_ok :: "art_op \<Rightarrow> bool" where
  "art_op_ok p = (case p of ArtPackage now r \<Rightarrow> art_request_ok r | ArtQueue now r \<Rightarrow> art_request_ok r | _ \<Rightarrow> True)"

definition art_start :: "art_Service \<Rightarrow> bool" where
  "art_start s \<longleftrightarrow> as_Repo s = art_NewInMemoryRepository \<and> as_Files s = fs_empty"

lemma art_queue_inv [simp]: "art_inv cfg dir (s\<lparr>as_Queue := q\<rparr>) = art_inv cfg dir s"
  by (simp add: art_inv_def)

lemma art_serve_inv:
  assumes "art_cfg_ok cfg dir" "art_inv cfg dir s" "art_op_ok p"
  shows "art_inv cfg dir (art_serve cfg s p)"
proof (cases p)
  case (ArtPackage now r)
  have "art_inv cfg dir (snd (art_CreateArtifact cfg now r art_StatusPending s))"
    using art_create_inv [OF assms(2)] assms(3) ArtPackage by (simp add: art_op_ok_def)
  then have "art_inv cfg dir (snd (art_CreatePackageJob cfg now r s))"
    unfolding art_CreatePackageJob_def by (rule art_then_inv) simp
  then show ?thesis by (simp add: ArtPackage)
next
  case (ArtTurn now)
  show ?thesis
  proof (cases "as_Queue s")
    case Nil
    then show ?thesis using assms(2) by (simp add: ArtTurn art_runner_step_def)
  next
    case (Cons i rest)
    show ?thesis
    proof (cases "art_buildArtifact cfg now i (s\<lparr>as_Queue := rest\<rparr>)")
      case None
      then show ?thesis using assms(2) by (simp add: ArtTurn art_runner_step_def Cons)
    next
      case (Some xs)
      then have "art_inv cfg dir (snd xs)"
        using art_build_inv [OF assms(1), of "s\<lparr>as_Queue := rest\<rparr>" now i "fst xs" "snd xs"] assms(2) by simp
      then show ?thesis by (simp add: ArtTurn art_runner_step_def Cons Some)
    qed
  qed
next
  case (ArtStale ks reason)
  then show ?thesis using art_stale_inv [OF assms(2), of ks reason 0]
    by (simp add: art_MarkStaleBuildsFailed_def split: prod.splits) (metis snd_conv)
qed (use assms art_create_inv art_link_inv art_complete_inv in \<open>auto simp: art_op_ok_def\<close>)

definition art_serve_ok :: "art_Config \<Rightarrow> string \<Rightarrow> art_Service \<Rightarrow> art_op \<Rightarrow> art_Service" where
  "art_serve_ok cfg dir s p = (if art_cfg_ok cfg dir \<and> art_op_ok p then art_serve cfg s p else s)"

interpretation art_machine: invariant_machine art_start "art_serve_ok cfg dir" "art_inv cfg dir" for cfg dir
proof unfold_locales
  show "art_start s \<Longrightarrow> art_inv cfg dir s" for s
    by (simp add: art_start_def art_inv_def art_NewInMemoryRepository_def fs_empty_ok)
  show "art_inv cfg dir s \<Longrightarrow> art_inv cfg dir (art_serve_ok cfg dir s p)" for s p
    by (simp add: art_serve_ok_def art_serve_inv)
qed

lemma art_run_inv:
  assumes "art_cfg_ok cfg dir" "art_start s" "list_all art_op_ok ps"
  shows "art_inv cfg dir (foldl (art_serve cfg) s ps)"
proof -
  have "foldl (art_serve cfg) t ps = foldl (art_serve_ok cfg dir) t ps" for t
    using assms(3) by (induction ps arbitrary: t) (simp_all add: art_serve_ok_def assms(1))
  then show ?thesis using art_machine.run_inv [OF assms(2)] by simp
qed

lemma art_serve_steps:
  assumes "sha_hex (ac_sha cfg)"
  shows "art_steps s (art_serve cfg s p)"
  by (cases p) (auto simp: art_package_steps art_create_steps art_link_steps art_complete_steps art_steps_same
      art_MarkStaleBuildsFailed_def case_prod_beta art_stale_steps split: option.split intro: art_turn_steps [OF assms])

lemma art_serve_all_steps: "sha_hex (ac_sha cfg) \<Longrightarrow> art_steps s (foldl (art_serve cfg) s ps)"
proof (induction ps arbitrary: s)
  case (Cons p ps)
  have "art_steps s (foldl (art_serve cfg) (art_serve cfg s p) ps)"
    by (rule art_steps_trans [OF art_serve_steps [OF Cons.prems] Cons.IH [OF Cons.prems]])
  then show ?case by simp
qed (simp add: art_steps_same)

text \<open>
  C13. Whatever is configured and whatever is asked of the service, in any order and with any version names: every artifact
  it holds is stored under its identifier with one of the five statuses, the format yolo or coco, positive project, data set
  and snapshot numbers and a size that is not negative, and a ready one carries a SHA-256 checksum and no error message;
  and it is never lost, nor does its project, data set, snapshot, type, format, version, label map or creation time change.
  The one condition is that SHA-256 sums are not empty texts.
\<close>

theorem art_records_typed:
  assumes "sha_hex (ac_sha cfg)" "as_Repo s = art_NewInMemoryRepository"
    and "ar_byID (as_Repo (foldl (art_serve cfg) s ps)) i = Some a"
  shows "art_record_ok a \<and> at_ID a = i \<and>
    (\<exists>b. ar_byID (as_Repo (foldl (art_serve cfg) s (ps @ qs))) i = Some b \<and> art_same_request a b)"
proof -
  let ?s = "foldl (art_serve cfg) s ps"
  have "art_rows (as_Repo s)" by (simp add: assms(2) art_rows_def art_NewInMemoryRepository_def)
  then have rows: "art_rows (as_Repo ?s)" using art_serve_all_steps [OF assms(1), of s ps] by (simp add: art_steps_def)
  then have "art_kept (as_Repo ?s) (as_Repo (foldl (art_serve cfg) s (ps @ qs)))"
    using art_serve_all_steps [OF assms(1), of ?s qs] by (simp add: art_steps_def)
  then show ?thesis using rows assms(3) unfolding art_rows_def art_kept_def by blast
qed

text \<open>
  C12. With a storage directory, and as long as every version asked for names one directory and does not end in ``.tmp''
  (or is left out): after any history of requests, builds, completions and failures a ready artifact can be downloaded, and
  its archive has the recorded size. The condition on versions is needed: they are joined to the storage root unchecked,
  and storing a version v removes v.tmp.
\<close>

theorem art_ready_downloadable:
  assumes "art_cfg_ok cfg dir" "art_start s" "list_all art_op_ok ps" "s' = foldl (art_serve cfg) s ps"
    and "ar_byID (as_Repo s') i = Some a" "at_Status a = art_StatusReady"
  shows "\<exists>c. art_OpenArtifactArchive cfg i s' = Inr (c, at_Size a, a)"
proof -
  have inv: "art_inv cfg dir s'" using art_run_inv [OF assms(1-3)] assms(4) by simp
  note d = art_invD [OF inv assms(5)]
  have ty: "plain (at_Version a)" "at_Format a \<in> {''yolo'', ''coco''}" using d(4) by (simp_all add: art_typed_def version_ok_def)
  obtain c where c: "at_URI a = art_archiveURI (at_Version a) (art_archiveName (at_Format a))"
    "as_Files s' (path_elements dir @ [at_Version a, art_archiveName (at_Format a)]) = Some (File c)" "at_Size a = art_size (ac_enc cfg) c"
    using d(5) assms(6) unfolding art_stored_def by blast
  have cfg: "ac_storage cfg = Some dir" "dir \<noteq> []" using assms(1) by (simp_all add: art_cfg_ok_def)
  have "art_OpenArchive dir (at_URI a) (as_Files s') = Inr c"
    unfolding c(1) art_OpenArchive_uri [OF cfg(2) ty(1) art_archiveName_plain(1) [OF ty(2)]] by (simp add: fs_ReadFile_def c(2))
  then have "art_OpenArtifactArchive cfg i s' = Inr (c, at_Size a, a)"
    by (simp add: art_OpenArtifactArchive_def art_GetArtifact_def art_repo_Get_def assms(5,6) cfg(1) c(3))
  then show ?thesis by blast
qed

subsection \<open>Completion is idempotent\<close>

definition art_digest :: "art_Config \<Rightarrow> art_Artifact \<Rightarrow> art_BundleEntry list \<Rightarrow> string" where
  "art_digest cfg a es = fst (art_buildArtifactCompletionPackage cfg (at_ID a) (at_Version a) es)"

lemma art_finish_result:
  assumes "art_finishCompletion i uri muri cs sz s = (Inr b, s')"
  shows "\<exists>a. ar_byID (as_Repo s) i = Some a \<and> ar_byID (as_Repo s') i = Some b \<and> at_Status b = art_StatusReady \<and>
    at_Checksum b = art_NormalizeSHA256Checksum cs \<and> at_ID b = at_ID a \<and> at_Version b = at_Version a"
proof (cases "ar_byID (as_Repo s) i")
  case None
  then show ?thesis using assms
    by (auto simp: art_finishCompletion_def art_MarkArtifactReady_def art_on_repo_def art_repo_UpdateBuildResult_def art_on_stored_def
        split: if_splits)
next
  case (Some a)
  then show ?thesis using assms
    by (auto simp: art_finishCompletion_def art_MarkArtifactReady_def art_on_repo_def art_repo_UpdateBuildResult_def art_on_stored_def
        art_GetArtifact_def art_repo_Get_def art_outcome_def split: if_splits)
qed

lemma art_put_object_repo: "art_put_object up uri body s = (Inr n, s') \<Longrightarrow> as_Repo s' = as_Repo s"
  by (auto simp: art_put_object_def split: sum.splits)

lemma art_store_repo: "art_store cfg dir req s = (x, s') \<Longrightarrow> as_Repo s' = as_Repo s"
  by (auto simp: art_store_def split: prod.splits)

lemma art_complete_result:
  assumes done_: "art_CompleteArtifact cfg now i es s = (Inr b, s')"
    and hex: "sha_hex (ac_sha cfg)" and ids: "\<And>k a. ar_byID (as_Repo s) k = Some a \<Longrightarrow> at_ID a = k"
  shows "ar_byID (as_Repo s') i = Some b \<and> at_ID b = i \<and> at_Status b = art_StatusReady \<and> es \<noteq> [] \<and>
    art_NormalizeSHA256Checksum (at_Checksum b) = art_digest cfg b es"
proof -
  obtain a where a: "ar_byID (as_Repo s) i = Some a"
    using done_ by (cases "ar_byID (as_Repo s) i") (auto simp: art_CompleteArtifact_def art_GetArtifact_def art_repo_Get_def)
  have get: "art_GetArtifact i (as_Repo s) = Inr a" by (simp add: art_GetArtifact_def art_repo_Get_def a)
  have id: "at_ID a = i" by (rule ids [OF a])
  have sum: "art_NormalizeSHA256Checksum (art_digest cfg x es) = art_digest cfg x es" for x
    by (simp add: art_digest_def art_buildArtifactCompletionPackage_def Let_def)
  show ?thesis
  proof (cases "at_Status a = art_StatusReady")
    case True
    then have "b = a" "s' = s" "es \<noteq> []" "art_NormalizeSHA256Checksum (at_Checksum a) = art_digest cfg a es"
      using done_ get by (auto simp: art_CompleteArtifact_def art_digest_def split: if_splits)
    then show ?thesis using a id True by simp
  next
    case False
    have es: "es \<noteq> []" using done_ get False by (auto simp: art_CompleteArtifact_def split: if_splits)
    have "\<exists>uri muri sz t. as_Repo t = as_Repo s \<and> art_finishCompletion i uri muri (art_digest cfg a es) sz t = (Inr b, s')"
    proof (cases "ac_storage cfg")
      case (Some dir)
      then have "art_completeArtifactToStorage cfg now dir a es s = (Inr b, s')"
        using done_ get False es by (auto simp: art_CompleteArtifact_def split: if_splits)
      then obtain req st t where "art_store cfg dir req s = (Inr st, t)"
        "art_finishCompletion i (st_ArchiveURI st) (st_ManifestURI st) (art_digest cfg a es) (st_ArchiveSize st) t = (Inr b, s')"
        by (auto simp: art_completeArtifactToStorage_def art_digest_def id and_then_Inr_conv Let_def split: sum.splits)
      then show ?thesis using art_store_repo by blast
    next
      case None
      then obtain up where "art_completeArtifactToObjects cfg now up a es s = (Inr b, s')"
        using done_ get False es by (auto simp: art_CompleteArtifact_def split: if_splits option.splits)
      then obtain n t m t' uri' body' where "art_put_object up (at_URI a) body' s = (Inr n, t)" "art_put_object up (at_ManifestURI a) uri' t = (Inr m, t')"
        "art_finishCompletion i (at_URI a) (at_ManifestURI a) (art_digest cfg a es) n t' = (Inr b, s')"
        by (auto simp: art_completeArtifactToObjects_def art_digest_def id and_then_Inr_conv Let_def split: prod.splits)
      then show ?thesis using art_put_object_repo by metis
    qed
    then obtain uri muri sz t where t: "as_Repo t = as_Repo s" "art_finishCompletion i uri muri (art_digest cfg a es) sz t = (Inr b, s')" by blast
    from art_finish_result [OF t(2)] a t(1) have b: "ar_byID (as_Repo s') i = Some b" "at_Status b = art_StatusReady"
      "at_Checksum b = art_digest cfg a es" "at_ID b = i" "at_Version b = at_Version a" by (auto simp: id sum)
    moreover have "art_digest cfg b es = art_digest cfg a es" by (simp add: art_digest_def b(4,5) id)
    ultimately show ?thesis using es sum by simp
  qed
qed

text \<open>
  A completion can be repeated and cannot be replaced: once an artifact was completed with some files, completing it
  again answers the same artifact and changes nothing if the files have the same digest, and is refused as a conflict,
  also without any change, if they have another; this holds for both kinds of storage.
\<close>

theorem art_complete_replay:
  assumes "art_CompleteArtifact cfg now i es s = (Inr b, s')" "sha_hex (ac_sha cfg)"
    and "\<And>k a. ar_byID (as_Repo s) k = Some a \<Longrightarrow> at_ID a = k" "es' \<noteq> []"
  shows "art_CompleteArtifact cfg now' i es' s' = (if art_digest cfg b es' = art_digest cfg b es then Inr b else Inl (ArtConflict i), s')"
proof -
  note r = art_complete_result [OF assms(1-3)]
  show ?thesis using r assms(4)
    by (auto simp: art_CompleteArtifact_def art_GetArtifact_def art_repo_Get_def art_digest_def)
qed

subsection \<open>One build per version\<close>

lemma art_failBuild_result:
  "ar_byID (as_Repo s) i = Some a \<Longrightarrow> art_failBuild i e s = (x, s') \<Longrightarrow>
     (\<exists>e. x = Inl e) \<and> (\<exists>b. ar_byID (as_Repo s') i = Some b \<and> at_Status b = art_StatusFailed)"
  by (auto simp: art_failBuild_def art_on_repo_def art_repo_UpdateBuildResult_def art_on_stored_def art_outcome_def)

lemma art_store_taken:
  assumes "dir \<noteq> []" "plain (sq_Version req)" "sq_ArchiveName req \<noteq> []" "as_Files s (path_elements dir @ [sq_Version req]) \<noteq> None"
  shows "\<exists>e s'. art_store cfg dir req s = (Inl e, s') \<and> as_Repo s' = as_Repo s"
proof -
  have v: "sq_Version req \<noteq> []" using assms(2) by (simp add: plain_def)
  show ?thesis
  proof (cases "fs_MkdirAll (path_elements dir) (as_Files s)")
    case None
    then show ?thesis using assms(1,3) v by (simp add: art_store_def art_StoreBuild_def Let_def)
  next
    case (Some s1)
    have "s1 (path_elements dir @ [sq_Version req]) \<noteq> None" using assms(4) by (simp add: fs_MkdirAll_spec [OF Some])
    then show ?thesis using assms(1,3) v art_dirs(1) [OF assms(1,2)]
      by (auto simp: art_store_def art_StoreBuild_def Let_def Some)
  qed
qed

lemma art_buildAndStore_taken:
  assumes "dir \<noteq> []" "plain (at_Version a)" "as_Files s (path_elements dir @ [at_Version a]) \<noteq> None" "ar_byID (as_Repo s) (at_ID a) = Some b"
    and "art_buildAndStore cfg now source dir a bundle s = (x, s')" "at_Format a \<noteq> []"
  shows "(\<exists>e. x = Inl e) \<and> (\<exists>b. ar_byID (as_Repo s') (at_ID a) = Some b \<and> at_Status b = art_StatusFailed)"
proof (cases "art_Build (ac_enc cfg) (ac_sha cfg) source now (art_bundleFor a bundle)")
  case (Inl e)
  then show ?thesis using assms(5) art_failBuild_result [OF assms(4)] by (simp add: art_buildAndStore_def)
next
  case (Inr out)
  let ?req = "\<lparr>sq_Version = at_Version a, sq_ArchiveName = bo_ArchiveName out, sq_Archive = bo_Archive out, sq_Package = bo_Package out\<rparr>"
  have "bo_ArchiveName out \<noteq> []" using art_Build_fields [OF Inr] assms(6) by (simp add: art_bundleFor_def art_archiveName_def)
  then obtain e t where t: "art_store cfg dir ?req s = (Inl e, t)" "as_Repo t = as_Repo s"
    using art_store_taken [OF assms(1), of ?req s cfg] assms(2,3) by auto
  have "ar_byID (as_Repo t) (at_ID a) = Some b" using assms(4) t(2) by simp
  moreover have "art_failBuild (at_ID a) e t = (x, s')" using assms(5) by (simp add: art_buildAndStore_def Inr t(1))
  ultimately show ?thesis by (rule art_failBuild_result)
qed

text \<open>
  The storage holds one build per version, whatever its dataset, snapshot and format: in any history, building an
  artifact whose version a ready artifact already has (the yolo and the coco export of one snapshot without an explicit
  version, or the same artifact once more) ends with an error and leaves the artifact failed.
\<close>

theorem art_one_build_per_version:
  assumes "art_cfg_ok cfg dir" "art_start s0" "list_all art_op_ok ps" "s = foldl (art_serve cfg) s0 ps"
    and "ar_byID (as_Repo s) j = Some b" "at_Status b = art_StatusReady"
    and "ar_byID (as_Repo s) i = Some a" "at_Version a = at_Version b" "art_buildArtifact cfg now i s = Some (x, s')"
  shows "(\<exists>e. x = Inl e) \<and> (\<exists>a'. ar_byID (as_Repo s') i = Some a' \<and> at_Status a' = art_StatusFailed)"
proof -
  have inv: "art_inv cfg dir s" using art_run_inv [OF assms(1-3)] assms(4) by simp
  note da = art_invD [OF inv assms(7)] and db = art_invD [OF inv assms(5)]
  have cfg: "ac_storage cfg = Some dir" "dir \<noteq> []" using assms(1) by (simp_all add: art_cfg_ok_def)
  have ty: "plain (at_Version a)" "at_Format a \<noteq> []" using da(4) by (auto simp: art_typed_def version_ok_def)
  have "as_Files s (path_elements dir @ [at_Version b, art_archiveName (at_Format b)]) \<noteq> None"
    using db(5) assms(6) unfolding art_stored_def by auto
  then have taken: "as_Files s (path_elements dir @ [at_Version a]) \<noteq> None"
    using fs_ok_prefix [OF art_inv_base(1) [OF inv], of _ "path_elements dir @ [at_Version b]"] assms(8) by simp
  show ?thesis
  proof (cases "ac_query cfg = None \<or> ac_builder cfg = None")
    case True
    then have "art_failBuild i (ArtMessage ''artifact build dependencies are not configured'') s = (x, s')"
      using assms(9) by (auto simp: art_buildArtifact_def split: option.splits)
    then show ?thesis by (rule art_failBuild_result [OF assms(7)])
  next
    case False
    then obtain q source where q: "ac_query cfg = Some q" "ac_builder cfg = Some source" by auto
    let ?a = "a\<lparr>at_Status := art_StatusBuilding, at_ErrorMsg := []\<rparr>"
    let ?s1 = "s\<lparr>as_Repo := (as_Repo s)\<lparr>ar_byID := (ar_byID (as_Repo s))(i \<mapsto> ?a)\<rparr>\<rparr>"
    have up: "art_on_repo (art_repo_UpdateStatus i art_StatusBuilding []) s = (Inr ?a, ?s1)"
      by (simp add: art_on_repo_def art_repo_UpdateStatus_def art_on_stored_def assms(7))
    have a1: "ar_byID (as_Repo ?s1) i = Some ?a" by simp
    consider e where "art_failBuild i e ?s1 = (x, s')" | bu where "art_buildAndStore cfg now source dir a bu ?s1 = (x, s')"
      using assms(9) unfolding art_buildArtifact_def q cfg(1) option.case prod.case art_repo_Get_def assms(7) up sum.case
      by (auto split: sum.splits option.splits)
    then show ?thesis
    proof cases
      case (1 e)
      then show ?thesis by (rule art_failBuild_result [OF a1])
    next
      case (2 bu)
      show ?thesis using art_buildAndStore_taken [OF cfg(2) ty(1) _ _ 2 ty(2)] taken a1 da(1) by simp
    qed
  qed
qed

subsection \<open>Isolation\<close>

lemma art_error_no_reply [simp]: "art_writeArtifactError e \<noteq> Reply st x" "Reply st x \<noteq> art_writeArtifactError e"
  by (simp_all add: art_writeArtifactError_def)

lemma art_get_reply:
  assumes "art_HandleGetArtifact cfg ctx raw h = Reply st a"
  shows "art_requireProject ctx (at_ProjectID a)"
proof -
  obtain i where i: "(path_int64 raw :: art_fail + int) = Inr i"
    using assms by (cases "path_int64 raw :: art_fail + int") (simp_all add: art_HandleGetArtifact_def)
  obtain b where b: "ar_byID (as_Repo (ah_svc h)) i = Some b"
    using assms by (cases "ar_byID (as_Repo (ah_svc h)) i") (simp_all add: art_HandleGetArtifact_def i art_GetArtifact_def art_repo_Get_def)
  have "(if \<not> art_requireProject ctx (at_ProjectID b) then art_writeArtifactError (ArtNotFound i)
      else Reply StatusOK (if at_Status b = art_StatusPending \<or> at_Status b = art_StatusQueued
        then b\<lparr>at_Entries := art_BuildBundleEntries (ac_sha cfg) b\<rparr> else b)) = Reply st a"
    using assms by (simp add: art_HandleGetArtifact_def i art_GetArtifact_def art_repo_Get_def b)
  then show ?thesis by (simp split: if_splits) auto
qed

lemma art_resolve_reply:
  assumes "art_HandleResolveArtifact ks ctx dataset format version h = Reply st (a, url)"
  shows "art_requireProject ctx (at_ProjectID a)"
proof (cases "art_ResolveArtifact ks dataset format version (as_Repo (ah_svc h))")
  case (Inl e)
  then show ?thesis using assms by (simp add: art_HandleResolveArtifact_def split: if_splits)
next
  case (Inr b)
  then show ?thesis using assms by (simp add: art_HandleResolveArtifact_def split: if_splits)
qed

lemma art_denied:
  assumes "(path_int64 raw :: art_fail + int) = Inr i" "ar_byID (as_Repo (ah_svc h)) i = None \<or>
      (\<exists>a. ar_byID (as_Repo (ah_svc h)) i = Some a \<and> \<not> art_requireProject ctx (at_ProjectID a))"
  shows "art_HandleGetArtifact cfg ctx raw h = art_writeArtifactError (ArtNotFound i)"
    "art_HandleDownloadArtifact cfg ctx raw h = art_writeArtifactError (ArtNotFound i)"
  using assms by (auto simp: art_HandleGetArtifact_def art_HandleDownloadArtifact_def art_GetArtifact_def art_repo_Get_def)

text \<open>
  Artifacts are only shown to callers of their project: an artifact that the lookup by identifier or the resolution
  by format and version answers with belongs to a project the caller may use, and a caller without access gets from the
  two handlers that show an artifact and its archive the very answer that an unknown identifier gets.
\<close>

theorem art_reads_isolated:
  "(art_HandleGetArtifact cfg ctx raw h = Reply st a \<longrightarrow> art_requireProject ctx (at_ProjectID a)) \<and>
   (art_HandleResolveArtifact ks ctx dataset format version h = Reply st (a, url) \<longrightarrow> art_requireProject ctx (at_ProjectID a)) \<and>
   ((path_int64 raw :: art_fail + int) = Inr i \<and>
      (ar_byID (as_Repo (ah_svc h)) i = None \<or> (\<exists>b. ar_byID (as_Repo (ah_svc h)) i = Some b \<and> \<not> art_requireProject ctx (at_ProjectID b))) \<longrightarrow>
      art_HandleGetArtifact cfg ctx raw h = art_writeArtifactError (ArtNotFound i) \<and>
      art_HandleDownloadArtifact cfg ctx raw h = art_writeArtifactError (ArtNotFound i))"
  by (intro conjI impI; (elim conjE)?; (rule art_get_reply art_resolve_reply art_denied; assumption))

subsection \<open>A refused job\<close>

text \<open>
  A package request whose job cannot be created is answered with 400, yet its artifact stays: queued, without a job,
  under a new identifier, and nothing of the request will ever finish it.
\<close>

theorem art_refused_job_orphans:
  assumes "art_resolveProjectID cfg (pr_DatasetID p) (pr_SnapshotID p) (pr_ProjectID p) = Inr pid" "art_requireProject ctx pid"
    and "0 < pr_DatasetID p" "0 < pr_SnapshotID p" "pr_Format p = ''yolo'' \<or> pr_Format p = ''coco''"
    and "ah_jobs h = Some j" "\<And>inp. \<exists>j'. create inp j = (Inl e, j')"
  shows "\<exists>h' a. art_HandleCreatePackage lg create cfg now ctx tr (Body p) h = (ReplyError StatusBadRequest (HttpService (ArtJobs e)), h') \<and>
    ar_byID (as_Repo (ah_svc h')) (ar_nextID (as_Repo (ah_svc h))) = Some a \<and> at_Status a = art_StatusQueued \<and> at_CreatedByJobID a = None"
proof -
  let ?p = "p\<lparr>pr_ProjectID := pid\<rparr>" and ?s = "ah_svc h"
  have valid: "\<not> (pr_DatasetID ?p \<le> 0 \<or> pr_SnapshotID ?p \<le> 0 \<or> pr_Format ?p = [] \<or> pr_Format ?p \<noteq> ''yolo'' \<and> pr_Format ?p \<noteq> ''coco'')"
    using assms(3-5) by auto
  have queued: "art_StatusQueued \<noteq> []" by (simp add: art_status_defs)
  obtain a where a: "art_CreateArtifact cfg now ?p art_StatusQueued ?s =
      (Inr a, ?s\<lparr>as_Repo := (as_Repo ?s)\<lparr>ar_nextID := ar_nextID (as_Repo ?s) + 1, ar_byID := (ar_byID (as_Repo ?s))(ar_nextID (as_Repo ?s) \<mapsto> a)\<rparr>\<rparr>)"
    "at_Status a = art_StatusQueued" "at_CreatedByJobID a = None"
    using art_create_result [OF valid queued, of cfg now ?s] by blast
  let ?inp = "\<lparr>cj_ProjectID = at_ProjectID a, cj_DatasetID = at_DatasetID a, cj_SnapshotID = at_SnapshotID a,
              cj_JobType = ''artifact-package'', cj_RequiredResourceType = ''cpu'', cj_RequiredCapabilities = [],
              cj_IdempotencyKey = ''artifact-package-'' @ show_int (at_ID a),
              cj_Payload = Some (art_packagePayload a (obs_TraceIDFromRequest tr))\<rparr>"
  obtain j' where j': "create ?inp j = (Inl e, j')" using assms(7) by blast
  have "art_queuePackageJob create cfg now ?p (obs_TraceIDFromRequest tr) j h =
      (Inl (ArtJobs e), h\<lparr>ah_svc := ?s\<lparr>as_Repo := (as_Repo ?s)\<lparr>ar_nextID := ar_nextID (as_Repo ?s) + 1,
         ar_byID := (ar_byID (as_Repo ?s))(ar_nextID (as_Repo ?s) \<mapsto> a)\<rparr>\<rparr>, ah_jobs := Some j'\<rparr>)"
    unfolding art_queuePackageJob_def a(1) prod.case sum.case j' ..
  then show ?thesis using a(2,3) by (simp add: art_HandleCreatePackage_def decode_body_def art_requestPackage_def assms(1,2,6) Let_def)
qed

subsection \<open>From a request to a verified pull\<close>

text \<open>
  C11. From the database to the client's disk. Provided the objects of a snapshot can be read, its image names are single
  path elements, the label files of its images have different names (else \<open>art_label_files_collide\<close>), the version is new
  to the storage, which holds no plain file on the way to its root, and the client uses the same encodings and an output
  directory it can write to: the build of the artifact succeeds and leaves it ready, its download is an archive of the
  recorded size, and a client that is given this archive unpacks it and finds every file of its manifest with the right
  size and checksum.
\<close>

theorem art_build_to_pull:
  assumes "art_cfg_ok cfg dir" "ac_query cfg = Some q" "ac_builder cfg = Some (Some source)" "art_inv cfg dir s"
    and "ar_byID (as_Repo s) i = Some a" "q (at_DatasetID a) (at_SnapshotID a) = Inr rows"
    and "art_LoadSnapshotBundle rows (at_DatasetID a) (at_SnapshotID a) (at_Version a) = Some (Inr b)"
    and "art_plain_names b" "art_labels_distinct (art_bundleFor a b)" "art_readable source b"
    and "as_Files s (path_elements dir @ [at_Version a]) = None" "\<And>p x. prefix p (path_elements dir) \<Longrightarrow> as_Files s p \<noteq> Some (File x)"
    and "ce_enc env = ac_enc cfg" "ce_sha env = ac_sha cfg" "cli_ready env finished src clientDir opts ra disk"
  shows "\<exists>s' a' c. art_buildArtifact cfg now i s = Some (Inr (), s') \<and> ar_byID (as_Repo s') i = Some a' \<and> at_Status a' = art_StatusReady \<and>
    art_OpenArtifactArchive cfg i s' = Inr (c, at_Size a', a') \<and>
    (cs_download src ra = Inr c \<longrightarrow> (\<exists>report disk'. cli_Pull env finished (Some src) clientDir opts disk = (Inr report, disk') \<and>
       rp_FailedFiles report = 0 \<and> rp_VerifiedFiles report = rp_TotalFiles report \<and>
       rp_TotalFiles report = int (length (art_package_paths (at_Format a) b))))"
proof -
  obtain s' a' out where r: "art_buildArtifact cfg now i s = Some (Inr (), s')"
    "art_Build (ac_enc cfg) (ac_sha cfg) (Some source) now (art_bundleFor a b) = Inr out"
    "ar_byID (as_Repo s') i = Some a'" "at_Status a' = art_StatusReady" "art_OpenArtifactArchive cfg i s' = Inr (bo_Archive out, at_Size a', a')"
    using art_build_total [OF assms(1-12), of now] by blast
  have names: "art_plain_names (art_bundleFor a b)" using assms(8) by (simp add: art_bundleFor_def art_plain_names_def)
  note build = r(2) [folded assms(13,14)]
  have n: "length (mf_Entries (bo_Manifest out)) = length (art_package_paths (at_Format a) b)"
    using art_Build_ok(7) [OF build names assms(9)] by (simp add: art_bundleFor_def art_package_paths_def)
  show ?thesis using r(1,3-5) cli_pull_built [OF build names assms(9,15)] n by metis
qed

subsection \<open>Builds end\<close>

text \<open>
  C34. A build ends, for any rows of the database: the search for a free file name, which has no bound in the code, always
  finds one, and the images of a loaded snapshot have pairwise different file names, one for every item.
\<close>

theorem art_build_terminates:
  "art_buildArtifact cfg now i s \<noteq> None \<and>
   (\<forall>b. art_LoadSnapshotBundle rows d n v = Some (Inr b) \<longrightarrow>
      distinct (map xi_OutputName (xb_Items b)) \<and> length (xb_Items b) = length (sr_Items rows))"
  using art_build_ends art_load_ends by blast

subsection \<open>Label files\<close>

text \<open>
  The label files of a YOLO package are not kept apart: two images whose names differ in the extension only get the
  same label file, the second image overwrites the labels of the first, and the manifest still lists the size of
  the lost file, so that the package contradicts its own manifest.
\<close>

theorem art_label_files_collide:
  assumes "art_Build enc sha (Some source) now b = Inr out" "xb_Format b = ''yolo''" "xb_Items b = [x, y]"
    and "plain (xi_OutputName x)" "plain (xi_OutputName y)" "plain (xi_LabelFileName x)" "xi_LabelFileName y = xi_LabelFileName x"
    and "length (art_renderYOLOLabelFile (xi_Boxes x)) \<noteq> length (art_renderYOLOLabelFile (xi_Boxes y))"
  shows "\<exists>e \<in> set (mf_Entries (bo_Manifest out)). \<exists>c. pk_file (bo_Package out) (path_elements (me_Path e)) = Some c \<and> me_Size e \<noteq> art_size enc c"
proof -
  note px = image_path [OF assms(4)] and py = image_path [OF assms(5)] and pl = image_path [OF assms(6)]
  let ?lx = "Raw (art_renderYOLOLabelFile (xi_Boxes x))" and ?ly = "Raw (art_renderYOLOLabelFile (xi_Boxes y))"
  let ?ix = "[''train'', ''images'', xi_OutputName x]" and ?iy = "[''train'', ''images'', xi_OutputName y]"
  let ?l = "[''train'', ''labels'', xi_LabelFileName x]"
  have lists: "list_all plain ?ix" "list_all plain ?iy" "list_all plain ?l" "list_all plain [''data.yaml'']" "list_all plain [''manifest.json'']"
    using assms(4-6) plain_dirs by simp_all
  obtain es n k where w: "art_writeYOLOPackage enc sha source b art_NewPackage = (Inr (es, n), k)"
    using assms(1,2) by (auto simp: art_Build_def Let_def and_then_def art_writePackageContents_def split: prod.splits sum.splits)
  obtain k1 k2 k3 es0 where m: "art_mkdir [''train'', ''images''] art_NewPackage = (Inr (), k1)" "art_mkdir [''train'', ''labels''] k1 = (Inr (), k2)"
    and it: "art_yoloItems enc sha source [x, y] [] 0 k2 = (Inr (es0, n), k3)" "set es0 \<subseteq> set es"
    and y: "art_write [''data.yaml''] (Raw (art_BuildDataYAML ''./train/images'' ''./train/images'' (xb_Categories b))) k3 = (Inr (), k)"
    using w by (auto simp: art_writeYOLOPackage_def and_then_Inr_conv assms(3) Let_def)
  note ok2 = art_mkdir_ok(1) [OF m(2) art_mkdir_ok(1) [OF m(1) art_pkg_ok_new(1)]]
  obtain cx ka kb cy kc where st: "art_writeObjectFile source (xi_ObjectKey x) ?ix k2 = (Inr cx, ka)" "art_write ?l ?lx ka = (Inr (), kb)"
    "art_writeObjectFile source (xi_ObjectKey y) ?iy kb = (Inr cy, kc)" "art_write ?l ?ly kc = (Inr (), k3)"
    and es0: "art_entry enc sha (join_with [slash] ?l) ?lx \<in> set es0"
    using it(1) by (auto simp: and_then_Inr_conv px(1) py(1) pl(2,5) assms(7) Let_def)
  have es: "art_entry enc sha (join_with [slash] ?l) ?lx \<in> set es" using es0 it(2) by blast
  note oa = art_writeObjectFile_ok(1) [OF st(1) ok2 lists(1)]
  note ob = art_write_ok(1) [OF st(2) oa lists(3)]
  note oc = art_writeObjectFile_ok(1) [OF st(3) ob lists(2)]
  note o3 = art_write_ok [OF st(4) oc lists(3)]
  note ok = art_write_ok [OF y o3(1) lists(4)]
  have label: "pk_file k ?l = Some ?ly" by (simp add: ok(2) o3(2))
  obtain mf k' where fin: "art_write [''manifest.json''] (ManifestFile mf) k = (Inr (), k')" "bo_Package out = k'" "bo_Manifest out = mf"
    "mf_Entries mf = map (\<lambda>e. e\<lparr>me_Checksum := art_NormalizeSHA256Checksum (me_Checksum e)\<rparr>) (sort_key me_Path es)"
    using assms(1,2) w by (auto simp: art_Build_def Let_def and_then_Inr_conv art_writePackageContents_def art_BuildManifestWithMetadata_def and_then_def
      split: prod.splits sum.splits)
  let ?e = "(art_entry enc sha (join_with [slash] ?l) ?lx)\<lparr>me_Checksum := art_NormalizeSHA256Checksum (me_Checksum (art_entry enc sha (join_with [slash] ?l) ?lx))\<rparr>"
  have "?e \<in> set (mf_Entries (bo_Manifest out))" using es by (simp add: fin del: join_with.simps)
  moreover have "path_elements (me_Path ?e) = ?l" using path_clean_relative(2) [OF lists(3)] by (simp add: art_entry_def)
  moreover have "pk_file (bo_Package out) ?l = Some ?ly" using art_write_ok(2) [OF fin(1) ok(1) lists(5)] label by (simp add: fin(2))
  moreover have "me_Size ?e \<noteq> art_size enc ?ly" using assms(8) by (simp add: art_entry_def art_size_def art_bytes_def)
  ultimately show ?thesis by metis
qed

end
