(* ===== verification/Artifact_Demo.thy ===== *)
theory Artifact_Demo
  imports Artifact_Claims
begin

section \<open>Artifacts: a running example\<close>

text \<open>
  A service over a storage under \<open>/data\<close> with one dataset of two images, and a client that pulls into \<open>/w\<close>. The
  properties are applied to it, and two of them are about it: what happens when two images differ in their extension
  only.
\<close>

definition ex_enc :: art_encoder where
  "ex_enc c = (case c of Raw s \<Rightarrow> s | CocoFile d \<Rightarrow> ''coco'' | ManifestFile m \<Rightarrow> ''manifest'' | TarGz xs \<Rightarrow> ''archive'')"

definition ex_sha :: "string \<Rightarrow> string" where
  "ex_sha s = ''ab''"

definition ex_source :: art_source where
  "ex_source key = Inr (''bytes of '' @ key)"

definition ex_rows :: art_SnapshotRows where
  "ex_rows = \<lparr>sr_Metadata = Some (1, ''v1''), sr_Categories = [(1, ''cat'')],
     sr_Items = [(10, ''in/a.jpg'', Some 4, Some 3), (11, ''b.jpg'', None, None)], sr_Annotations = []\<rparr>"

definition ex_cfg :: art_Config where
  "ex_cfg = \<lparr>ac_enc = ex_enc, ac_sha = ex_sha, ac_completion = (\<lambda>i v es. ''package''), ac_query = Some (\<lambda>d n. Inr ex_rows),
     ac_builder = Some (Some ex_source), ac_storage = Some ''/data'', ac_runner = True, ac_bucket = ''artifacts'', ac_upload = None,
     ac_presign = None, ac_scope = None\<rparr>"

definition ex_request :: "string \<Rightarrow> art_PackageRequest" where
  "ex_request format = \<lparr>pr_ProjectID = 1, pr_DatasetID = 1, pr_SnapshotID = 7, pr_Format = format, pr_Version = [], pr_LabelMapJSON = []\<rparr>"

definition ex_start :: art_Service where
  "ex_start = \<lparr>as_Repo = art_NewInMemoryRepository, as_Files = fs_empty, as_Queue = [], as_Uploads = [], as_Metrics = None\<rparr>"

definition ex_ops :: "art_op list" where
  "ex_ops = [ArtPackage 5 (ex_request ''yolo''), ArtTurn 6]"

lemma ex_sha_hex: "sha_hex ex_sha"
  by (simp add: sha_hex_def ex_sha_def)

lemma ex_facts: "art_cfg_ok ex_cfg ''/data''" "art_start ex_start" "list_all art_op_ok ex_ops"
  by (simp_all add: art_cfg_ok_def ex_cfg_def ex_sha_hex art_start_def ex_start_def art_op_ok_def ex_ops_def ex_request_def art_request_ok_def)

subsection \<open>The first build\<close>

definition ex_s1 :: art_Service where
  "ex_s1 = art_serve ex_cfg ex_start (ArtPackage 5 (ex_request ''yolo''))"

definition ex_s1' :: art_Service where
  "ex_s1' = ex_s1\<lparr>as_Queue := []\<rparr>"

definition ex_a :: art_Artifact where
  "ex_a = the (ar_byID (as_Repo ex_s1) 1)"

definition ex_b :: art_ExportBundle where
  "ex_b = projr (the (art_LoadSnapshotBundle ex_rows 1 7 ''v7''))"

lemma ex_s1_facts:
  "ar_byID (as_Repo ex_s1) 1 = Some ex_a" "as_Queue ex_s1 = [1]" "as_Files ex_s1 = fs_empty"
  "at_DatasetID ex_a = 1" "at_SnapshotID ex_a = 7" "at_Version ex_a = ''v7''" "at_Format ex_a = ''yolo''" "at_ProjectID ex_a = 1"
proof -
  have "ar_byID (as_Repo ex_s1) 1 \<noteq> None \<and> as_Queue ex_s1 = [1] \<and> at_DatasetID ex_a = 1 \<and> at_SnapshotID ex_a = 7 \<and>
    at_Version ex_a = ''v7'' \<and> at_Format ex_a = ''yolo'' \<and> at_ProjectID ex_a = 1" by code_simp
  then show "ar_byID (as_Repo ex_s1) 1 = Some ex_a" "as_Queue ex_s1 = [1]" "at_DatasetID ex_a = 1" "at_SnapshotID ex_a = 7"
    "at_Version ex_a = ''v7''" "at_Format ex_a = ''yolo''" "at_ProjectID ex_a = 1" by (auto simp: ex_a_def)
  show "as_Files ex_s1 = fs_empty"
    by (simp add: ex_s1_def ex_start_def art_CreatePackageJob_def art_CreateArtifact_def ex_request_def ex_cfg_def Let_def art_repo_Create_def)
qed

lemma ex_b_facts: "art_LoadSnapshotBundle ex_rows 1 7 ''v7'' = Some (Inr ex_b)" "art_plain_names ex_b" "distinct (map xi_LabelFileName (xb_Items ex_b))"
  "length (art_package_paths ''yolo'' ex_b) = 5"
proof -
  have "(case art_LoadSnapshotBundle ex_rows 1 7 ''v7'' of Some (Inr x) \<Rightarrow> True | _ \<Rightarrow> False) \<and> art_plain_names ex_b \<and>
    distinct (map xi_LabelFileName (xb_Items ex_b)) \<and> length (art_package_paths ''yolo'' ex_b) = 5" by code_simp
  then show "art_LoadSnapshotBundle ex_rows 1 7 ''v7'' = Some (Inr ex_b)" "art_plain_names ex_b" "distinct (map xi_LabelFileName (xb_Items ex_b))"
    "length (art_package_paths ''yolo'' ex_b) = 5" by (auto simp: ex_b_def split: option.splits sum.splits)
qed

lemma ex_hyps:
  "ac_query ex_cfg = Some (\<lambda>d n. Inr ex_rows)" "ac_builder ex_cfg = Some (Some ex_source)" "art_inv ex_cfg ''/data'' ex_s1'"
  "ar_byID (as_Repo ex_s1') 1 = Some ex_a" "art_LoadSnapshotBundle ex_rows (at_DatasetID ex_a) (at_SnapshotID ex_a) (at_Version ex_a) = Some (Inr ex_b)"
  "art_labels_distinct (art_bundleFor ex_a ex_b)" "art_readable ex_source ex_b"
  "as_Files ex_s1' (path_elements ''/data'' @ [at_Version ex_a]) = None" "as_Files ex_s1' p \<noteq> Some (File x)"
proof -
  show "art_inv ex_cfg ''/data'' ex_s1'"
    using art_run_inv [OF ex_facts(1,2), of "[ArtPackage 5 (ex_request ''yolo'')]"]
    by (simp add: ex_s1'_def ex_s1_def art_op_ok_def art_request_ok_def ex_request_def)
  show "art_labels_distinct (art_bundleFor ex_a ex_b)" using ex_b_facts(3) by (simp add: art_labels_distinct_def art_bundleFor_def)
qed (simp_all add: ex_cfg_def ex_s1'_def ex_s1_facts ex_b_facts(1) art_readable_def ex_source_def fs_empty_def)

definition ex_s2 :: art_Service where
  "ex_s2 = foldl (art_serve ex_cfg) ex_start ex_ops"

text \<open>After the turn of the runner the artifact is ready.\<close>

lemma ex_built:
  obtains a where "art_buildArtifact ex_cfg 6 1 ex_s1' = Some (Inr (), ex_s2)" "ar_byID (as_Repo ex_s2) 1 = Some a" "at_Status a = art_StatusReady"
proof -
  obtain s' a' where r: "art_buildArtifact ex_cfg 6 1 ex_s1' = Some (Inr (), s')" "ar_byID (as_Repo s') 1 = Some a'" "at_Status a' = art_StatusReady"
    using art_build_total [OF ex_facts(1) ex_hyps(1-4) refl ex_hyps(5) ex_b_facts(2) ex_hyps(6-9), of 6] by blast
  have "ex_s2 = s'"
    using r(1) by (simp add: ex_s2_def ex_ops_def ex_s1_def [symmetric] art_runner_step_def ex_s1_facts(2) ex_s1'_def del: art_serve.simps(1))
  with r that show thesis by simp
qed

subsection \<open>Applications\<close>

theorem art_records_typed_witness:
  "art_record_ok (the (ar_byID (as_Repo (foldl (art_serve ex_cfg) ex_start ex_ops)) 1))"
proof -
  obtain a where a: "ar_byID (as_Repo (foldl (art_serve ex_cfg) ex_start ex_ops)) 1 = Some a" using ex_built unfolding ex_s2_def by metis
  have "as_Repo ex_start = art_NewInMemoryRepository" "sha_hex (ac_sha ex_cfg)"
    using ex_facts by (simp_all add: art_start_def art_cfg_ok_def)
  from art_records_typed [OF this(2,1) a] a show ?thesis by simp
qed

theorem art_ready_downloadable_witness:
  "\<exists>c a. art_OpenArtifactArchive ex_cfg 1 (foldl (art_serve ex_cfg) ex_start ex_ops) = Inr (c, at_Size a, a)"
proof -
  obtain a where a: "ar_byID (as_Repo ex_s2) 1 = Some a" "at_Status a = art_StatusReady" using ex_built by metis
  from art_ready_downloadable [OF ex_facts ex_s2_def a] show ?thesis unfolding ex_s2_def by blast
qed

theorem art_one_build_per_version_witness:
  "\<exists>e s' a. art_buildArtifact ex_cfg 7 1 ex_s2 = Some (Inl e, s') \<and> ar_byID (as_Repo s') 1 = Some a \<and> at_Status a = art_StatusFailed"
proof -
  obtain a where a: "ar_byID (as_Repo ex_s2) 1 = Some a" "at_Status a = art_StatusReady" using ex_built by metis
  obtain x s' where b: "art_buildArtifact ex_cfg 7 1 ex_s2 = Some (x, s')" using art_build_ends [of ex_cfg 7 1 ex_s2] by auto
  from art_one_build_per_version [OF ex_facts ex_s2_def a a(1) refl b] b show ?thesis by blast
qed

theorem art_build_terminates_witness:
  "distinct (map xi_OutputName (xb_Items ex_b)) \<and> length (xb_Items ex_b) = 2"
  using art_build_terminates [of ex_cfg 6 1 ex_s1' ex_rows 1 7 "''v7''"] ex_b_facts(1) by (simp add: ex_rows_def)

definition ex_visitor :: auth_context where
  "ex_visitor = Some \<lparr>id_Actor = ''eve'', id_ProjectIDs = [9]\<rparr>"

definition ex_handler :: "(unit, unit) art_Handler" where
  "ex_handler = \<lparr>ah_svc = ex_s1, ah_audit = None, ah_jobs = None\<rparr>"

theorem art_reads_isolated_witness:
  "art_HandleGetArtifact ex_cfg ex_visitor ''1'' ex_handler = art_writeArtifactError (ArtNotFound 1) \<and>
   art_HandleDownloadArtifact ex_cfg ex_visitor ''1'' ex_handler = art_writeArtifactError (ArtNotFound 1)"
proof -
  have p: "(path_int64 ''1'' :: art_fail + int) = Inr 1" by code_simp
  have "\<not> art_requireProject ex_visitor (at_ProjectID ex_a)"
    by (simp add: ex_s1_facts art_requireProject_def ex_visitor_def auth_RequireProjectAccess_def auth_AllowsProject_def)
  then show ?thesis using art_reads_isolated [of ex_cfg ex_visitor "''1''" ex_handler _ _ _ _ _ _ _ 1] p ex_s1_facts(1)
    by (simp add: ex_handler_def)
qed

theorem art_refused_job_orphans_witness:
  "\<exists>h' a. art_HandleCreatePackage (\<lambda>ev l. (None, l)) (\<lambda>inp j. (Inl WorkerIDMissing, j)) ex_cfg 5 None
      \<lparr>tr_Context = [], tr_RequestId = [], tr_CorrelationId = []\<rparr> (Body (ex_request ''yolo'')) (ex_handler\<lparr>ah_jobs := Some ()\<rparr>) =
      (ReplyError StatusBadRequest (HttpService (ArtJobs WorkerIDMissing)), h') \<and>
    ar_byID (as_Repo (ah_svc h')) 2 = Some a \<and> at_Status a = art_StatusQueued \<and> at_CreatedByJobID a = None"
proof -
  have n: "ar_nextID (as_Repo (ah_svc (ex_handler\<lparr>ah_jobs := Some ()\<rparr>))) = 2" by code_simp
  show ?thesis
    by (rule art_refused_job_orphans [where j = "()" and pid = 1 and p = "ex_request ''yolo''" and h = "ex_handler\<lparr>ah_jobs := Some ()\<rparr>", unfolded n])
      (simp_all add: art_resolveProjectID_def ex_cfg_def ex_request_def art_requireProject_def auth_RequireProjectAccess_def)
qed

subsection \<open>Completion into an object store\<close>

definition ex_objects :: art_Config where
  "ex_objects = ex_cfg\<lparr>ac_storage := None, ac_upload := Some (\<lambda>uri body. Inr 3)\<rparr>"

definition ex_entries :: "art_BundleEntry list" where
  "ex_entries = [\<lparr>be_Path = ''data.yaml'', be_Body = ''names: []'', be_Checksum = ''sha256:ab''\<rparr>]"

theorem art_complete_replay_witness:
  "\<exists>b s'. art_CompleteArtifact ex_objects 8 1 ex_entries ex_s1 = (Inr b, s') \<and>
     art_CompleteArtifact ex_objects 9 1 ex_entries s' = (Inr b, s')"
proof -
  have "\<not> isl (fst (art_CompleteArtifact ex_objects 8 1 ex_entries ex_s1))" by code_simp
  then obtain b s' where b: "art_CompleteArtifact ex_objects 8 1 ex_entries ex_s1 = (Inr b, s')"
    by (cases "art_CompleteArtifact ex_objects 8 1 ex_entries ex_s1"; cases "fst (art_CompleteArtifact ex_objects 8 1 ex_entries ex_s1)") auto
  have hex: "sha_hex (ac_sha ex_objects)" by (simp add: ex_objects_def ex_cfg_def ex_sha_hex)
  have ids: "\<And>k a. ar_byID (as_Repo ex_s1) k = Some a \<Longrightarrow> at_ID a = k" using art_invD(1) [OF ex_hyps(3)] by (simp add: ex_s1'_def)
  have ne: "ex_entries \<noteq> []" by (simp add: ex_entries_def)
  from art_complete_replay [OF b hex ids ne, of 9] b show ?thesis by simp
qed

subsection \<open>The client\<close>

definition ex_env :: cli_Env where
  "ex_env = \<lparr>ce_enc = ex_enc, ce_sha = ex_sha, ce_untar = (\<lambda>c. Inl ''not an archive''), ce_parse = (\<lambda>c. Inl ''not a manifest''),
     ce_report = (\<lambda>r. ''report''), ce_cpus = 2, ce_wd = ''/w''\<rparr>"

definition ex_disk :: "art_content fs" where
  "ex_disk = [[] \<mapsto> Dir, [''w''] \<mapsto> Dir, [''w'', ''pulled-v7''] \<mapsto> Dir]"

definition ex_opts :: cli_PullOptions where
  "ex_opts = \<lparr>po_Dataset = [], po_Format = ''yolo'', po_Version = ''v7'', po_AllowPartial = False, po_OutputDir = ''/w'',
     po_ResolveTimeout = 0, po_PollInterval = 0, po_VerifyWorkers = 0\<rparr>"

definition ex_resolved :: cli_ResolvedArtifact where
  "ex_resolved = \<lparr>ra_ArtifactID = 1, ra_Version = ''v7'', ra_DownloadURL = ''/v1/artifacts/1/download''\<rparr>"

definition ex_src :: "art_content \<Rightarrow> cli_Source" where
  "ex_src c = \<lparr>cs_resolve = (\<lambda>k. Inr ex_resolved), cs_took = (\<lambda>k. 0), cs_download = (\<lambda>ra. Inr c)\<rparr>"

lemma ex_resolve: "cli_resolveLoop (cs_resolve (ex_src c)) (cs_took (ex_src c)) ex_opts 0 0 = Inr ex_resolved"
  by (subst cli_resolveLoop.simps) (simp add: ex_src_def ex_resolved_def)

lemma ex_disk_ok: "fs_ok ex_disk"
proof -
  have "ex_disk p = Some Dir" if h: "ex_disk (p @ [c]) \<noteq> None" for p c
  proof -
    have "p @ [c] = [''w''] \<or> p @ [c] = [''w'', ''pulled-v7'']" using h by (auto simp: ex_disk_def split: if_splits)
    then have "p = [] \<or> p = [''w'']" by auto
    then show ?thesis by (auto simp: ex_disk_def)
  qed
  then show ?thesis by (simp add: fs_ok_def) (simp add: ex_disk_def)
qed

lemma ex_out: "cli_outDir ex_env [] ex_opts = ''/w''" "path_elements ''/w'' = [''w'']"
  by (simp add: cli_outDir_def ex_opts_def) code_simp

lemma ex_ready: "cli_ready ex_env (\<lambda>n. [0..<n]) (ex_src c) [] ex_opts ex_resolved ex_disk"
  unfolding cli_ready_def ex_resolve ex_out Let_def
  by (simp add: ex_sha_hex ex_disk_ok) (auto simp: ex_env_def ex_sha_hex ex_opts_def ex_resolved_def ex_disk_def)

definition ex_archive :: art_content where
  "ex_archive = (case art_OpenArtifactArchive ex_cfg 1 ex_s2 of Inl e \<Rightarrow> Raw [] | Inr (c, n, a) \<Rightarrow> c)"

theorem art_build_to_pull_witness:
  "\<exists>report disk'. cli_Pull ex_env (\<lambda>n. [0..<n]) (Some (ex_src ex_archive)) [] ex_opts ex_disk = (Inr report, disk') \<and>
     rp_FailedFiles report = 0 \<and> rp_VerifiedFiles report = 5"
proof -
  have env: "ce_enc ex_env = ac_enc ex_cfg" "ce_sha ex_env = ac_sha ex_cfg" by (simp_all add: ex_env_def ex_cfg_def)
  obtain s' a' c where r: "art_buildArtifact ex_cfg 6 1 ex_s1' = Some (Inr (), s')" "art_OpenArtifactArchive ex_cfg 1 s' = Inr (c, at_Size a', a')"
    "cs_download (ex_src ex_archive) ex_resolved = Inr c \<longrightarrow> (\<exists>report disk'. cli_Pull ex_env (\<lambda>n. [0..<n]) (Some (ex_src ex_archive)) [] ex_opts ex_disk = (Inr report, disk') \<and>
       rp_FailedFiles report = 0 \<and> rp_VerifiedFiles report = rp_TotalFiles report \<and>
       rp_TotalFiles report = int (length (art_package_paths (at_Format ex_a) ex_b)))"
    using art_build_to_pull [OF ex_facts(1) ex_hyps(1-4) refl ex_hyps(5) ex_b_facts(2) ex_hyps(6-9) env ex_ready, of 6 ex_archive] by blast
  have "s' = ex_s2" using r(1) ex_built by fastforce
  then have "ex_archive = c" using r(2) by (simp add: ex_archive_def)
  then have "cs_download (ex_src ex_archive) ex_resolved = Inr c" by (simp add: ex_src_def)
  with r(3) show ?thesis using ex_b_facts(4) by (auto simp: ex_s1_facts)
qed

text \<open>A download that is no archive leaves the previous pull removed, and nothing else.\<close>

theorem cli_pull_confined_witness:
  "\<exists>x s'. cli_Pull ex_env (\<lambda>n. [0..<n]) (Some (ex_src (Raw ''x''))) [] ex_opts ex_disk = (x, s') \<and>
     s' [''w'', ''pulled-v7''] \<noteq> ex_disk [''w'', ''pulled-v7''] \<and>
     prefix (path_elements (cli_outDir ex_env [] ex_opts)) [''w'', ''pulled-v7'']"
proof -
  let ?tmp = "[''w'', ''pull-v7.tar.gz.part'']" and ?dir = "[''w'', ''pulled-v7'']"
  define s1 where "s1 = ex_disk(?tmp \<mapsto> File (Raw ''x''))"
  define s2 where "s2 = fs_RemoveAll ?dir s1"
  have paths: "path_elements (path_join [''/w'', ''pull-v7.tar.gz.part'']) = ?tmp" "path_elements (path_join [''/w'', ''pulled-v7'']) = ?dir" by code_simp+
  have written: "fs_WriteFile ?tmp (Raw ''x'') ex_disk = Some s1" by (simp add: s1_def fs_WriteFile_def ex_disk_def)
  have "fs_ReadFile ?tmp s2 = Some (Raw ''x'')" by (simp add: s2_def s1_def fs_ReadFile_def fs_RemoveAll_def)
  then have refused: "cli_extractTarGz (ce_untar ex_env) ?tmp d s2 = (Inl ''not an archive'', s2)" for d
    by (simp add: cli_extractTarGz_def cli_tarEntries_def ex_env_def)
  have v: "ra_Version ex_resolved = ''v7''" by (simp add: ex_resolved_def)
  have names: "''pull-'' @ ''v7'' @ ''.tar.gz.part'' = ''pull-v7.tar.gz.part''" "''pulled-'' @ ''v7'' = ''pulled-v7''" by simp_all
  have unpack: "cli_unpackAndVerify ex_env (\<lambda>n. [0..<n]) ex_opts ''/w'' ex_resolved ?tmp s1 = (Inl (CliMessage ''not an archive''), s2)"
    unfolding cli_unpackAndVerify_def Let_def v names paths s2_def [symmetric] refused by simp
  have opts: "po_Format ex_opts \<noteq> []" "po_Version ex_opts \<noteq> []" "\<not> po_ResolveTimeout ex_opts < 0" "\<not> po_PollInterval ex_opts < 0" "\<not> po_VerifyWorkers ex_opts < 0"
    by (simp_all add: ex_opts_def)
  have down: "cs_download (ex_src (Raw ''x'')) ex_resolved = Inr (Raw ''x'')" by (simp add: ex_src_def)
  have p: "cli_Pull ex_env (\<lambda>n. [0..<n]) (Some (ex_src (Raw ''x''))) [] ex_opts ex_disk = (Inl (CliMessage ''not an archive''), fs_Remove ?tmp s2)"
    unfolding cli_Pull_def Let_def ex_out ex_resolve v names paths down written unpack option.case sum.case prod.case using opts by simp
  have changed: "fs_Remove ?tmp s2 ?dir \<noteq> ex_disk ?dir"
    by (simp add: fs_Remove_def s2_def s1_def fs_RemoveAll_def ex_disk_def)
  have "slash \<notin> set (ra_Version ra)" if "Some (ex_src (Raw ''x'')) = Some src" "cli_resolveLoop (cs_resolve src) (cs_took src) ex_opts 0 0 = Inr ra" for src ra
    using that ex_resolve [of "Raw ''x''"] by (auto simp: ex_resolved_def)
  from cli_pull_confined [OF ex_disk_ok _ this p changed] p changed show ?thesis by (auto simp: ex_out)
qed

subsection \<open>Two images of the same stem\<close>

definition ex_item :: "int \<Rightarrow> string \<Rightarrow> art_YOLOBox list \<Rightarrow> art_ExportItem" where
  "ex_item i name boxes = \<lparr>xi_ItemID = i, xi_ObjectKey = name, xi_OutputName = name, xi_LabelFileName = art_buildLabelFileName name,
     xi_Width = 4, xi_Height = 3, xi_Boxes = boxes\<rparr>"

definition ex_box :: art_YOLOBox where
  "ex_box = \<lparr>yb_CategoryID = 1, yb_BBoxX = 0, yb_BBoxY = 0, yb_BBoxW = 1, yb_BBoxH = 1, yb_ClassIndex = 0, yb_XCenter = 1 / 2,
     yb_YCenter = 1 / 2, yb_Width = 1, yb_Height = 1\<rparr>"

definition ex_twins :: art_ExportBundle where
  "ex_twins = \<lparr>xb_ProjectID = 1, xb_DatasetID = 1, xb_SnapshotID = 7, xb_Format = ''yolo'', xb_Version = ''v7'', xb_Categories = [''cat''],
     xb_CategoryIDs = [1], xb_CategoryMap = [1 \<mapsto> 0], xb_Items = [ex_item 10 ''a.jpg'' [ex_box], ex_item 11 ''a.png'' []], xb_TotalBoxes = 1\<rparr>"

theorem art_label_files_collide_witness:
  "\<exists>out. art_Build ex_enc ex_sha (Some ex_source) 6 ex_twins = Inr out \<and>
     (\<exists>e \<in> set (mf_Entries (bo_Manifest out)). \<exists>c. pk_file (bo_Package out) (path_elements (me_Path e)) = Some c \<and> me_Size e \<noteq> art_size ex_enc c)"
proof -
  have names: "art_buildLabelFileName ''a.jpg'' = ''a.txt''" "art_buildLabelFileName ''a.png'' = ''a.txt''"
    "plain ''a.jpg''" "plain ''a.png''" "plain ''a.txt''" by code_simp+
  have "art_plain_names ex_twins" using names by (simp add: art_plain_names_def ex_twins_def ex_item_def)
  moreover have "art_readable ex_source ex_twins" by (simp add: art_readable_def ex_source_def)
  moreover have "xb_Format ex_twins \<in> {''yolo'', ''coco''}" by (simp add: ex_twins_def)
  ultimately obtain out where out: "art_Build ex_enc ex_sha (Some ex_source) 6 ex_twins = Inr out"
    using art_Build_succeeds [of ex_twins ex_source ex_enc ex_sha 6] by blast
  have differ: "length (art_renderYOLOLabelFile [ex_box]) \<noteq> length (art_renderYOLOLabelFile [])"
    by (simp add: art_renderYOLOLabelFile_def art_boxLine_def nl_def)
  have "xb_Format ex_twins = ''yolo''" "xb_Items ex_twins = [ex_item 10 ''a.jpg'' [ex_box], ex_item 11 ''a.png'' []]" by (simp_all add: ex_twins_def)
  from art_label_files_collide [OF out this] names differ out show ?thesis by (simp add: ex_item_def)
qed

end
