(* ===== verification/Go_Print.thy ===== *)
theory Go_Print
  imports Go_Text Json_Clone "HOL-Library.List_Lexorder" "HOL-Library.Char_ord"
begin

section \<open>Printing values and counting characters\<close>

text \<open>
  \<open>fmt.Sprint\<close> of a decoded JSON value and \<open>utf8.RuneCountInString\<close>, which the validation of requests uses. The
  shortest decimal form of a \<open>float64\<close> and the layout of a time are the argument \<open>other\<close>.
\<close>

fun go_sprint :: "(gval \<Rightarrow> string) \<Rightarrow> gval \<Rightarrow> string" where
  "go_sprint other GNil = ''<nil>''"
| "go_sprint other (GBool b) = (if b then ''true'' else ''false'')"
| "go_sprint other (GInt i) = show_int i"
| "go_sprint other (GInt64 i) = show_int i"
| "go_sprint other (GFloat x) = other (GFloat x)"
| "go_sprint other (GNumber s) = s"
| "go_sprint other (GStr s) = s"
| "go_sprint other (GTime t) = other (GTime t)"
| "go_sprint other (GStrs ss) = ''['' @ join_with '' '' ss @ '']''"
| "go_sprint other (GInts is) = ''['' @ join_with '' '' (map show_int is) @ '']''"
| "go_sprint other (GArr vs) = ''['' @ join_with '' '' (map (go_sprint other) vs) @ '']''"
| "go_sprint other (GObj kvs) =
     ''map['' @ join_with '' '' (map (\<lambda>(k, s). k @ '':'' @ s) (sort_key fst (map (\<lambda>(k, v). (k, go_sprint other v)) kvs))) @ '']''"

text \<open>
  The bytes that the first rune of a text takes. A byte that does not begin a valid encoding is a rune of its own; the
  second byte of some encodings has a smaller range, which excludes surrogates and overlong forms.
\<close>

definition byte_at :: "string \<Rightarrow> nat \<Rightarrow> nat" where
  "byte_at s i = (if i < length s then of_char (s ! i) else 0)"

definition continuation :: "nat \<Rightarrow> bool" where
  "continuation b \<longleftrightarrow> 128 \<le> b \<and> b \<le> 191"

definition rune_width :: "string \<Rightarrow> nat" where
  "rune_width s =
     (let b = byte_at s 0;
          n = (if 194 \<le> b \<and> b \<le> 223 then 2 else if 224 \<le> b \<and> b \<le> 239 then 3 else if 240 \<le> b \<and> b \<le> 244 then 4 else 1);
          low = (if b = 224 then 160 else if b = 240 then 144 else 128);
          high = (if b = 237 then 159 else if b = 244 then 143 else 191)
      in if n = 1 \<or> length s < n then 1
         else if byte_at s 1 < low \<or> high < byte_at s 1 then 1
         else if n = 2 then 2
         else if \<not> continuation (byte_at s 2) then 1
         else if n = 3 then 3
         else if \<not> continuation (byte_at s 3) then 1
         else 4)"

lemma rune_width_pos: "0 < rune_width s"
  by (simp add: rune_width_def Let_def)

function rune_count :: "string \<Rightarrow> nat" where
  "rune_count s = (if s = [] then 0 else Suc (rune_count (drop (rune_width s) s)))"
  by pat_completeness auto
termination
  by (relation "measure length") (use rune_width_pos in auto)

declare rune_count.simps [simp del]

lemma rune_count_le: "rune_count s \<le> length s"
proof (induction s rule: rune_count.induct)
  case (1 s)
  show ?case
  proof (cases "s = []")
    case False
    then have "rune_count (drop (rune_width s) s) \<le> length s - rune_width s" using 1 by simp
    moreover have "0 < length s" "0 < rune_width s" using False rune_width_pos by simp_all
    ultimately have "Suc (rune_count (drop (rune_width s) s)) \<le> length s" by linarith
    then show ?thesis using False by (subst rune_count.simps) simp
  qed (simp add: rune_count.simps)
qed

lemma rune_count_ascii: "list_all (\<lambda>c. of_char c < (128 :: nat)) s \<Longrightarrow> rune_count s = length s"
proof (induction s)
  case (Cons c s)
  have "rune_width (c # s) = 1" using Cons.prems by (simp add: rune_width_def byte_at_def)
  then show ?case using Cons by (subst rune_count.simps) simp
qed (simp add: rune_count.simps)

end
