(* ===== verification/Job_Handler.thy ===== *)
theory Job_Handler
  imports Job_Service Audit_Log Http Go_Print
begin

section \<open>Jobs: the handlers\<close>

text \<open>
  \<open>internal/jobs/handler.go\<close>: the three endpoints that create jobs, the two that read them, the registry of workers and
  the callbacks of the workers. \<open>other\<close> prints floats and times (see \<open>Go_Print\<close>), \<open>parse_float\<close> is
  \<open>json.Number.Float64\<close>, which the standard decoder never needs. \<open>writeError\<close> shows the text of an error only, so
  the not-found errors of the handlers and of the service are one value.
\<close>

datatype jobs_failure = JobsFailed jobs_error | JobsForbidden int | JobsPromptTooLong | JobsAudit string

type_synonym jobs_fail = "jobs_failure http_error"

record ('d, 'v, 'l) jobs_Handler =
  jh_svc :: "('d, 'v) jobs_Service"
  jh_audit :: "'l option"

definition jobs_zeroShotPromptMaxChars :: nat where "jobs_zeroShotPromptMaxChars = 4096"

record jobs_zeroShotItem =
  zi_ItemID :: int
  zi_ObjectKey :: string

record jobs_zeroShotRequest =
  zr_ProjectID :: int
  zr_DatasetID :: int
  zr_SnapshotID :: int
  zr_Prompt :: string
  zr_Items :: "jobs_zeroShotItem list"
  zr_Provider :: obj
  zr_IdempotencyKey :: string
  zr_RequiredResourceType :: string
  zr_RequiredCapabilities :: "string list"

record jobs_videoExtractRequest =
  vx_ProjectID :: int
  vx_DatasetID :: int
  vx_FPS :: int
  vx_DurationMS :: int
  vx_SourceObjectKey :: string
  vx_FramePrefix :: string
  vx_Provider :: obj
  vx_IdempotencyKey :: string
  vx_RequiredResourceType :: string
  vx_RequiredCapabilities :: "string list"

record jobs_cleaningRequest =
  cr_ProjectID :: int
  cr_DatasetID :: int
  cr_SnapshotID :: int
  cr_Rules :: "obj option"
  cr_IdempotencyKey :: string
  cr_RequiredResourceType :: string
  cr_RequiredCapabilities :: "string list"

record jobs_workerHeartbeatRequest =
  hb_WorkerID :: string
  hb_LeaseSeconds :: int

record jobs_workerProgressRequest =
  pg_WorkerID :: string
  pg_TotalItems :: int
  pg_SucceededItems :: int
  pg_FailedItems :: int

record jobs_workerEventRequest =
  we_ItemID :: "int option"
  we_EventLevel :: string
  we_EventType :: string
  we_Message :: string
  we_Detail :: "obj option"

record jobs_workerTerminalRequest =
  wt_WorkerID :: string
  wt_Status :: string
  wt_TotalItems :: int
  wt_SucceededItems :: int
  wt_FailedItems :: int
  wt_ResultRef :: obj

subsection \<open>Validation of a request\<close>

definition jobs_requireIdempotencyKey :: "string \<Rightarrow> jobs_fail + unit" where
  "jobs_requireIdempotencyKey k = (if k = [] then Inl (HttpMessage ''idempotency_key is required'') else Inr ())"

text \<open>The loop over the arguments of a command; \<open>out\<close> are those already taken.\<close>

fun jobs_normalizeArgvLoop :: "(gval \<Rightarrow> string) \<Rightarrow> gval list \<Rightarrow> string list \<Rightarrow> jobs_fail + string list" where
  "jobs_normalizeArgvLoop other [] out = Inr out"
| "jobs_normalizeArgvLoop other (v # vs) out =
     (let t = trim_space (go_sprint other v) in
      if t = [] then Inl (HttpMessage ''provider.argv entries must be non-empty strings'')
      else jobs_normalizeArgvLoop other vs (out @ [t]))"

definition jobs_normalizeProviderArgv :: "(gval \<Rightarrow> string) \<Rightarrow> gval \<Rightarrow> jobs_fail + string list" where
  "jobs_normalizeProviderArgv other raw =
     (let none = Inl (HttpMessage ''provider.argv must contain at least one command argument'') in
      case raw of
        GStrs argv \<Rightarrow> if argv = [] then none else Inr argv
      | GArr argv \<Rightarrow> if argv = [] then none else jobs_normalizeArgvLoop other argv []
      | _ \<Rightarrow> Inl (HttpMessage ''provider.argv must be an array of command arguments''))"

definition jobs_normalizeProviderTimeout :: "(string \<Rightarrow> real option) \<Rightarrow> gval \<Rightarrow> jobs_fail + real option" where
  "jobs_normalizeProviderTimeout parse_float raw =
     (let bad = Inl (HttpMessage ''provider.timeout_seconds must be a positive number'');
          checked = (\<lambda>t. if t \<le> 0 then bad else Inr (Some t))
      in case raw of
           GNil \<Rightarrow> Inr None
         | GFloat x \<Rightarrow> checked x
         | GInt i \<Rightarrow> checked (float64_of_int i)
         | GInt64 i \<Rightarrow> checked (float64_of_int i)
         | GNumber s \<Rightarrow> (case parse_float s of None \<Rightarrow> bad | Some t \<Rightarrow> checked t)
         | _ \<Rightarrow> bad)"

definition jobs_normalizeProvider :: "(gval \<Rightarrow> string) \<Rightarrow> (string \<Rightarrow> real option) \<Rightarrow> obj \<Rightarrow> jobs_fail + obj option" where
  "jobs_normalizeProvider other parse_float raw =
     (if raw = [] then Inr None
      else
        let typ = norm_token (go_sprint other (obj_get raw ''type'')) in
        if typ = [] then Inl (HttpMessage ''provider.type is required'')
        else if typ = ''builtin'' then
          (let name = trim_space (go_sprint other (obj_get raw ''name'')) in
           if name = [] then Inl (HttpMessage ''provider.name is required'')
           else Inr (Some [(''type'', GStr ''builtin''), (''name'', GStr name)]))
        else if typ \<noteq> ''command'' then Inl (HttpMessage (''unsupported provider.type '' @ typ))
        else
          (case jobs_normalizeProviderArgv other (obj_get raw ''argv'') of
             Inl e \<Rightarrow> Inl e
           | Inr argv \<Rightarrow>
               let provider = [(''type'', GStr ''command''), (''argv'', GStrs argv)] in
               (case jobs_normalizeProviderTimeout parse_float (obj_get raw ''timeout_seconds'') of
                  Inl e \<Rightarrow> Inl e
                | Inr None \<Rightarrow> Inr (Some provider)
                | Inr (Some t) \<Rightarrow> Inr (Some (obj_set ''timeout_seconds'' (GFloat t) provider)))))"

definition jobs_providerType :: "(gval \<Rightarrow> string) \<Rightarrow> obj option \<Rightarrow> string" where
  "jobs_providerType other provider =
     (case provider of
        None \<Rightarrow> []
      | Some p \<Rightarrow> if p = [] then [] else norm_token (go_sprint other (obj_get p ''type'')))"

fun jobs_normalizeZeroShotItems :: "jobs_zeroShotItem list \<Rightarrow> obj list \<Rightarrow> jobs_fail + obj list" where
  "jobs_normalizeZeroShotItems [] items = Inr items"
| "jobs_normalizeZeroShotItems (it # raw) items =
     (if zi_ItemID it \<le> 0 then Inl (HttpMessage ''items.item_id must be > 0'')
      else if trim_space (zi_ObjectKey it) = [] then Inl (HttpMessage ''items.object_key is required'')
      else jobs_normalizeZeroShotItems raw
             (items @ [[(''item_id'', GInt64 (zi_ItemID it)), (''object_key'', GStr (trim_space (zi_ObjectKey it)))]]))"

definition jobs_requireProject :: "auth_context \<Rightarrow> int \<Rightarrow> jobs_fail + unit" where
  "jobs_requireProject ctx p =
     (case auth_RequireProjectAccess ctx p of Inl (AuthForbidden q) \<Rightarrow> Inl (HttpService (JobsForbidden q)) | Inr _ \<Rightarrow> Inr ())"

text \<open>A payload field that is set under a condition.\<close>

definition jobs_field :: "bool \<Rightarrow> string \<Rightarrow> gval \<Rightarrow> obj" where
  "jobs_field cond k v = (if cond then [(k, v)] else [])"

definition jobs_providerField :: "obj option \<Rightarrow> obj" where
  "jobs_providerField provider = (case provider of None \<Rightarrow> [] | Some p \<Rightarrow> [(''provider'', GObj p)])"

text \<open>
  What a valid request asks for: the job input, and the detail of its audit event; or a status and an error. The checks are
  in the order of the handlers.
\<close>

type_synonym jobs_accepted = "(int \<times> jobs_fail) + jobs_CreateJobInput \<times> obj"

definition jobs_refuse :: "int \<Rightarrow> jobs_fail + 'a \<Rightarrow> ('a \<Rightarrow> (int \<times> jobs_fail) + 'b) \<Rightarrow> (int \<times> jobs_fail) + 'b" where
  "jobs_refuse st x f = (case x of Inl e \<Rightarrow> Inl (st, e) | Inr a \<Rightarrow> f a)"

definition jobs_acceptZeroShot ::
  "(gval \<Rightarrow> string) \<Rightarrow> (string \<Rightarrow> real option) \<Rightarrow> auth_context \<Rightarrow> string \<Rightarrow> jobs_zeroShotRequest \<Rightarrow> jobs_accepted" where
  "jobs_acceptZeroShot other parse_float ctx traceID inp =
     jobs_refuse StatusBadRequest (jobs_requireIdempotencyKey (zr_IdempotencyKey inp)) (\<lambda>_.
     jobs_refuse StatusBadRequest (jobs_normalizeProvider other parse_float (zr_Provider inp)) (\<lambda>provider.
     jobs_refuse StatusBadRequest (jobs_normalizeZeroShotItems (zr_Items inp) []) (\<lambda>items.
       if jobs_providerType other provider = ''builtin'' \<and> items = []
       then Inl (StatusBadRequest, HttpMessage ''items are required for builtin zero-shot providers'')
       else
     jobs_refuse StatusForbidden (jobs_requireProject ctx (zr_ProjectID inp)) (\<lambda>_.
       if jobs_zeroShotPromptMaxChars < rune_count (zr_Prompt inp)
       then Inl (StatusUnprocessableEntity, HttpService JobsPromptTooLong)
       else Inr
         (\<lparr>cj_ProjectID = zr_ProjectID inp, cj_DatasetID = zr_DatasetID inp, cj_SnapshotID = zr_SnapshotID inp,
           cj_JobType = ''zero-shot'', cj_RequiredResourceType = zr_RequiredResourceType inp,
           cj_RequiredCapabilities = zr_RequiredCapabilities inp, cj_IdempotencyKey = zr_IdempotencyKey inp,
           cj_Payload = Some
             ([(''dataset_id'', GInt64 (zr_DatasetID inp)), (''snapshot_id'', GInt64 (zr_SnapshotID inp)), (''prompt'', GStr (zr_Prompt inp))] @
              jobs_field (traceID \<noteq> []) ''trace_id'' (GStr traceID) @
              jobs_field (items \<noteq> []) ''items'' (GArr (map GObj items)) @ jobs_providerField provider)\<rparr>,
          [(''project_id'', GInt64 (zr_ProjectID inp)), (''dataset_id'', GInt64 (zr_DatasetID inp)),
           (''snapshot_id'', GInt64 (zr_SnapshotID inp))])))))"

definition jobs_acceptVideoExtract ::
  "(gval \<Rightarrow> string) \<Rightarrow> (string \<Rightarrow> real option) \<Rightarrow> auth_context \<Rightarrow> string \<Rightarrow> jobs_videoExtractRequest \<Rightarrow> jobs_accepted" where
  "jobs_acceptVideoExtract other parse_float ctx traceID inp =
     jobs_refuse StatusBadRequest (jobs_requireIdempotencyKey (vx_IdempotencyKey inp)) (\<lambda>_.
     jobs_refuse StatusBadRequest (jobs_normalizeProvider other parse_float (vx_Provider inp)) (\<lambda>provider.
       let source = trim_space (vx_SourceObjectKey inp); framePrefix = trim_space (vx_FramePrefix inp) in
       if jobs_providerType other provider = ''builtin'' \<and> source = []
       then Inl (StatusBadRequest, HttpMessage ''source_object_key is required for builtin video providers'')
       else if jobs_providerType other provider = ''builtin'' \<and> vx_DurationMS inp \<le> 0
       then Inl (StatusBadRequest, HttpMessage ''duration_ms must be > 0 for builtin video providers'')
       else
     jobs_refuse StatusForbidden (jobs_requireProject ctx (vx_ProjectID inp)) (\<lambda>_. Inr
         (\<lparr>cj_ProjectID = vx_ProjectID inp, cj_DatasetID = vx_DatasetID inp, cj_SnapshotID = 0,
           cj_JobType = ''video-extract'', cj_RequiredResourceType = vx_RequiredResourceType inp,
           cj_RequiredCapabilities = vx_RequiredCapabilities inp, cj_IdempotencyKey = vx_IdempotencyKey inp,
           cj_Payload = Some
             ([(''dataset_id'', GInt64 (vx_DatasetID inp)), (''fps'', GInt (vx_FPS inp))] @
              jobs_field (traceID \<noteq> []) ''trace_id'' (GStr traceID) @
              jobs_field (0 < vx_DurationMS inp) ''duration_ms'' (GInt (vx_DurationMS inp)) @
              jobs_field (source \<noteq> []) ''source_object_key'' (GStr source) @
              jobs_field (framePrefix \<noteq> []) ''frame_prefix'' (GStr framePrefix) @ jobs_providerField provider)\<rparr>,
          [(''project_id'', GInt64 (vx_ProjectID inp)), (''dataset_id'', GInt64 (vx_DatasetID inp)),
           (''source_object_key'', GStr source)]))))"

definition jobs_acceptCleaning :: "auth_context \<Rightarrow> string \<Rightarrow> jobs_cleaningRequest \<Rightarrow> jobs_accepted" where
  "jobs_acceptCleaning ctx traceID inp =
     jobs_refuse StatusBadRequest (jobs_requireIdempotencyKey (cr_IdempotencyKey inp)) (\<lambda>_.
     jobs_refuse StatusForbidden (jobs_requireProject ctx (cr_ProjectID inp)) (\<lambda>_. Inr
         (\<lparr>cj_ProjectID = cr_ProjectID inp, cj_DatasetID = cr_DatasetID inp, cj_SnapshotID = cr_SnapshotID inp,
           cj_JobType = ''cleaning'', cj_RequiredResourceType = cr_RequiredResourceType inp,
           cj_RequiredCapabilities = cr_RequiredCapabilities inp, cj_IdempotencyKey = cr_IdempotencyKey inp,
           cj_Payload = Some
             ([(''dataset_id'', GInt64 (cr_DatasetID inp)), (''snapshot_id'', GInt64 (cr_SnapshotID inp)),
               (''rules'', (case cr_Rules inp of None \<Rightarrow> GNil | Some m \<Rightarrow> GObj m))] @
              jobs_field (traceID \<noteq> []) ''trace_id'' (GStr traceID))\<rparr>,
          [(''project_id'', GInt64 (cr_ProjectID inp)), (''dataset_id'', GInt64 (cr_DatasetID inp)),
           (''snapshot_id'', GInt64 (cr_SnapshotID inp))])))"

subsection \<open>Creating jobs\<close>

definition jobs_recordAudit ::
  "'l audit_logger \<Rightarrow> audit_Event \<Rightarrow> ('d, 'v, 'l) jobs_Handler \<Rightarrow> string option \<times> ('d, 'v, 'l) jobs_Handler" where
  "jobs_recordAudit lg ev h = (let (e, a) = audit_recordAudit lg ev (jh_audit h) in (e, h\<lparr>jh_audit := a\<rparr>))"

text \<open>The end of the three creating handlers: create, record, answer with the number and the status.\<close>

definition jobs_submit ::
  "'l audit_logger \<Rightarrow> 'd jobs_publish \<Rightarrow> clock \<Rightarrow> string \<Rightarrow> jobs_accepted \<Rightarrow> ('d, 'v, 'l) jobs_Handler \<Rightarrow>
     (jobs_fail, int \<times> string) reply \<times> ('d, 'v, 'l) jobs_Handler" where
  "jobs_submit lg pub clk action accepted h =
     (case accepted of
        Inl (st, e) \<Rightarrow> (ReplyError st e, h)
      | Inr (inp, detail) \<Rightarrow>
          (case jobs_CreateJob pub clk inp (jh_svc h) of
             (Inl e, s) \<Rightarrow> (ReplyError StatusBadRequest (HttpService (JobsFailed e)), h\<lparr>jh_svc := s\<rparr>)
           | (Inr job, s) \<Rightarrow>
               (case jobs_recordAudit lg
                       \<lparr>ev_Actor = [], ev_Action = action, ev_ResourceType = ''job'', ev_ResourceID = show_int (job_ID job),
                        ev_Detail = Some detail\<rparr> (h\<lparr>jh_svc := s\<rparr>) of
                  (Some e, h') \<Rightarrow> (ReplyError StatusInternalServerError (HttpService (JobsAudit e)), h')
                | (None, h') \<Rightarrow> (Reply StatusOK (job_ID job, job_Status job), h'))))"

definition jobs_decoded :: "'a http_body \<Rightarrow> ('a \<Rightarrow> jobs_accepted) \<Rightarrow> jobs_accepted" where
  "jobs_decoded body f = jobs_refuse StatusBadRequest (decode_body body) f"

definition jobs_HandleCreateZeroShot ::
  "(gval \<Rightarrow> string) \<Rightarrow> (string \<Rightarrow> real option) \<Rightarrow> 'l audit_logger \<Rightarrow> 'd jobs_publish \<Rightarrow> clock \<Rightarrow> auth_context \<Rightarrow> obs_Trace \<Rightarrow>
     jobs_zeroShotRequest http_body \<Rightarrow> ('d, 'v, 'l) jobs_Handler \<Rightarrow> (jobs_fail, int \<times> string) reply \<times> ('d, 'v, 'l) jobs_Handler" where
  "jobs_HandleCreateZeroShot other parse_float lg pub clk ctx tr body h =
     jobs_submit lg pub clk ''job.create.zero-shot''
       (jobs_decoded body (jobs_acceptZeroShot other parse_float ctx (obs_TraceIDFromRequest tr))) h"

definition jobs_HandleCreateVideoExtract ::
  "(gval \<Rightarrow> string) \<Rightarrow> (string \<Rightarrow> real option) \<Rightarrow> 'l audit_logger \<Rightarrow> 'd jobs_publish \<Rightarrow> clock \<Rightarrow> auth_context \<Rightarrow> obs_Trace \<Rightarrow>
     jobs_videoExtractRequest http_body \<Rightarrow> ('d, 'v, 'l) jobs_Handler \<Rightarrow> (jobs_fail, int \<times> string) reply \<times> ('d, 'v, 'l) jobs_Handler" where
  "jobs_HandleCreateVideoExtract other parse_float lg pub clk ctx tr body h =
     jobs_submit lg pub clk ''job.create.video-extract''
       (jobs_decoded body (jobs_acceptVideoExtract other parse_float ctx (obs_TraceIDFromRequest tr))) h"

definition jobs_HandleCreateCleaning ::
  "'l audit_logger \<Rightarrow> 'd jobs_publish \<Rightarrow> clock \<Rightarrow> auth_context \<Rightarrow> obs_Trace \<Rightarrow> jobs_cleaningRequest http_body \<Rightarrow>
     ('d, 'v, 'l) jobs_Handler \<Rightarrow> (jobs_fail, int \<times> string) reply \<times> ('d, 'v, 'l) jobs_Handler" where
  "jobs_HandleCreateCleaning lg pub clk ctx tr body h =
     jobs_submit lg pub clk ''job.create.cleaning'' (jobs_decoded body (jobs_acceptCleaning ctx (obs_TraceIDFromRequest tr))) h"

subsection \<open>Reading\<close>

text \<open>The job as \<open>GetJob\<close> encodes it.\<close>

definition jobs_optTime :: "time option \<Rightarrow> gval" where
  "jobs_optTime t = (case t of None \<Rightarrow> GNil | Some t \<Rightarrow> GTime t)"

definition jobs_jobResponse :: "jobs_Job \<Rightarrow> obj" where
  "jobs_jobResponse job =
     [(''id'', GInt64 (job_ID job)), (''project_id'', GInt64 (job_ProjectID job)), (''dataset_id'', GInt64 (job_DatasetID job)),
      (''snapshot_id'', GInt64 (job_SnapshotID job)), (''job_type'', GStr (job_JobType job)), (''status'', GStr (job_Status job)),
      (''payload'', (case job_Payload job of None \<Rightarrow> GNil | Some p \<Rightarrow> GObj p)),
      (''resource_lane'', GStr (jobs_laneFor (job_RequiredResourceType job))),
      (''required_resource_type'', GStr (job_RequiredResourceType job)),
      (''required_capabilities'', GStrs (job_RequiredCapabilities job)),
      (''idempotency_key'', GStr (job_IdempotencyKey job)), (''worker_id'', GStr (job_WorkerID job)),
      (''lease_until'', jobs_optTime (job_LeaseUntil job)), (''retry_count'', GInt (job_RetryCount job)),
      (''error_code'', GStr (job_ErrorCode job)), (''error_msg'', GStr (job_ErrorMsg job)),
      (''result_type'', GStr (job_ResultType job)), (''result_count'', GInt (job_ResultCount job)),
      (''result_ref'', GObj (job_ResultRef job)), (''total_items'', GInt (job_TotalItems job)),
      (''succeeded_items'', GInt (job_SucceededItems job)), (''failed_items'', GInt (job_FailedItems job))]"

text \<open>A caller outside the project of the job gets the answer of an unknown job.\<close>

definition jobs_readJob ::
  "auth_context \<Rightarrow> string \<Rightarrow> (int \<Rightarrow> jobs_Job \<Rightarrow> ('d, 'v) jobs_Service \<Rightarrow> 'a) \<Rightarrow> ('d, 'v, 'l) jobs_Handler \<Rightarrow>
     (jobs_fail, 'a) reply \<times> ('d, 'v, 'l) jobs_Handler" where
  "jobs_readJob ctx rawID f h =
     (case path_int64 rawID of
        Inl e \<Rightarrow> (ReplyError StatusBadRequest e, h)
      | Inr jid \<Rightarrow>
          (case jobs_GetJob jid (jh_svc h) of
             (None, s) \<Rightarrow> (ReplyError StatusNotFound (HttpService (JobsFailed (JobNotFound jid))), h\<lparr>jh_svc := s\<rparr>)
           | (Some job, s) \<Rightarrow>
               (case jobs_requireProject ctx (job_ProjectID job) of
                  Inl _ \<Rightarrow> (ReplyError StatusNotFound (HttpService (JobsFailed (JobNotFound jid))), h\<lparr>jh_svc := s\<rparr>)
                | Inr _ \<Rightarrow> (Reply StatusOK (f jid job s), h\<lparr>jh_svc := s\<rparr>))))"

definition jobs_HandleGetJob ::
  "auth_context \<Rightarrow> string \<Rightarrow> ('d, 'v, 'l) jobs_Handler \<Rightarrow> (jobs_fail, obj) reply \<times> ('d, 'v, 'l) jobs_Handler" where
  "jobs_HandleGetJob ctx rawID h = jobs_readJob ctx rawID (\<lambda>jid job s. jobs_jobResponse job) h"

definition jobs_HandleListEvents ::
  "auth_context \<Rightarrow> string \<Rightarrow> ('d, 'v, 'l) jobs_Handler \<Rightarrow> (jobs_fail, jobs_Event list) reply \<times> ('d, 'v, 'l) jobs_Handler" where
  "jobs_HandleListEvents ctx rawID h = jobs_readJob ctx rawID (\<lambda>jid job s. jobs_ListEvents jid (svc_repo s)) h"

subsection \<open>Workers\<close>

definition jobs_HandleRegisterWorker ::
  "clock \<Rightarrow> jobs_RegisterWorkerInput http_body \<Rightarrow> ('d, 'v, 'l) jobs_Handler \<Rightarrow> (jobs_fail, jobs_Worker) reply \<times> ('d, 'v, 'l) jobs_Handler" where
  "jobs_HandleRegisterWorker clk body h =
     (case decode_body body of
        Inl e \<Rightarrow> (ReplyError StatusBadRequest e, h)
      | Inr inp \<Rightarrow>
          (case jobs_RegisterWorker clk inp (jh_svc h) of
             (Inl e, s) \<Rightarrow> (ReplyError StatusBadRequest (HttpService (JobsFailed e)), h\<lparr>jh_svc := s\<rparr>)
           | (Inr w, s) \<Rightarrow> (Reply StatusOK w, h\<lparr>jh_svc := s\<rparr>)))"

text \<open>The list in memory cannot fail; \<open>ks\<close> is the order in which the map of workers is visited.\<close>

definition jobs_HandleListWorkers :: "string list \<Rightarrow> ('d, 'v, 'l) jobs_Handler \<Rightarrow> (jobs_fail, jobs_Worker list) reply" where
  "jobs_HandleListWorkers ks h = Reply StatusOK (jobs_ListWorkers ks (svc_repo (jh_svc h)))"

definition jobs_callbackStatus :: "jobs_error \<Rightarrow> int" where
  "jobs_callbackStatus e =
     (if jobs_error_kind e = Some ErrNotFound then StatusNotFound
      else if jobs_error_kind e = Some ErrConflict then StatusConflict
      else if jobs_error_kind e = Some ErrValidation then StatusUnprocessableEntity
      else StatusBadRequest)"

definition jobs_writeCallbackError :: "jobs_error \<Rightarrow> (jobs_fail, 'a) reply" where
  "jobs_writeCallbackError e = ReplyError (jobs_callbackStatus e) (HttpService (JobsFailed e))"

text \<open>\<open>writeJobStatus\<close> reads the job again after the callback.\<close>

record jobs_jobStatus =
  js_JobID :: int
  js_Status :: string
  js_WorkerID :: string
  js_TotalItems :: int
  js_SucceededItems :: int
  js_FailedItems :: int

definition jobs_writeJobStatus ::
  "int \<Rightarrow> ('d, 'v, 'l) jobs_Handler \<Rightarrow> (jobs_fail, jobs_jobStatus) reply \<times> ('d, 'v, 'l) jobs_Handler" where
  "jobs_writeJobStatus jid h =
     (case jobs_GetJob jid (jh_svc h) of
        (None, s) \<Rightarrow> (ReplyError StatusNotFound (HttpService (JobsFailed (JobNotFound jid))), h\<lparr>jh_svc := s\<rparr>)
      | (Some job, s) \<Rightarrow>
          (Reply StatusOK
             \<lparr>js_JobID = job_ID job, js_Status = job_Status job, js_WorkerID = job_WorkerID job, js_TotalItems = job_TotalItems job,
              js_SucceededItems = job_SucceededItems job, js_FailedItems = job_FailedItems job\<rparr>, h\<lparr>jh_svc := s\<rparr>))"

text \<open>The shape of the callbacks: the path, the body, the operation, then its error or \<open>answer\<close>.\<close>

definition jobs_callback ::
  "string \<Rightarrow> 'i http_body \<Rightarrow> (int \<Rightarrow> 'i \<Rightarrow> ('d, 'v) jobs_Service \<Rightarrow> (jobs_error, unit, ('d, 'v) jobs_Service) outcome) \<Rightarrow>
     (int \<Rightarrow> ('d, 'v, 'l) jobs_Handler \<Rightarrow> (jobs_fail, 'a) reply \<times> ('d, 'v, 'l) jobs_Handler) \<Rightarrow> ('d, 'v, 'l) jobs_Handler \<Rightarrow>
     (jobs_fail, 'a) reply \<times> ('d, 'v, 'l) jobs_Handler" where
  "jobs_callback rawID body op answer h =
     (case path_int64 rawID of
        Inl e \<Rightarrow> (ReplyError StatusBadRequest e, h)
      | Inr jid \<Rightarrow>
          (case decode_body body of
             Inl e \<Rightarrow> (ReplyError StatusBadRequest e, h)
           | Inr inp \<Rightarrow>
               (case op jid inp (jh_svc h) of
                  (Inl e, s) \<Rightarrow> (jobs_writeCallbackError e, h\<lparr>jh_svc := s\<rparr>)
                | (Inr _, s) \<Rightarrow> answer jid (h\<lparr>jh_svc := s\<rparr>))))"

definition jobs_HandleReportHeartbeat ::
  "clock \<Rightarrow> string \<Rightarrow> jobs_workerHeartbeatRequest http_body \<Rightarrow> ('d, 'v, 'l) jobs_Handler \<Rightarrow>
     (jobs_fail, jobs_jobStatus) reply \<times> ('d, 'v, 'l) jobs_Handler" where
  "jobs_HandleReportHeartbeat clk rawID body h =
     jobs_callback rawID body (\<lambda>jid inp. jobs_ReportHeartbeat clk jid (hb_WorkerID inp) (hb_LeaseSeconds inp)) jobs_writeJobStatus h"

definition jobs_HandleReportProgress ::
  "clock \<Rightarrow> string \<Rightarrow> jobs_workerProgressRequest http_body \<Rightarrow> ('d, 'v, 'l) jobs_Handler \<Rightarrow>
     (jobs_fail, jobs_jobStatus) reply \<times> ('d, 'v, 'l) jobs_Handler" where
  "jobs_HandleReportProgress clk rawID body h =
     jobs_callback rawID body
       (\<lambda>jid inp. jobs_ReportProgress clk jid (pg_WorkerID inp) (pg_TotalItems inp) (pg_SucceededItems inp) (pg_FailedItems inp))
       jobs_writeJobStatus h"

definition jobs_HandleReportItemError ::
  "'v jobs_persist \<Rightarrow> jobs_decode \<Rightarrow> clock \<Rightarrow> string \<Rightarrow> jobs_workerEventRequest http_body \<Rightarrow> ('d, 'v, 'l) jobs_Handler \<Rightarrow>
     (jobs_fail, int) reply \<times> ('d, 'v, 'l) jobs_Handler" where
  "jobs_HandleReportItemError persist decode clk rawID body h =
     jobs_callback rawID body
       (\<lambda>jid inp.
          let typ = (if we_EventType inp = [] then ''item_failed'' else we_EventType inp);
              level = (if we_EventLevel inp \<noteq> [] then we_EventLevel inp else if typ = ''item_failed'' then ''error'' else ''warn'')
          in jobs_ReportEvent persist decode clk jid (we_ItemID inp) level typ (we_Message inp) (we_Detail inp))
       (\<lambda>jid h'. (Reply StatusOK jid, h')) h"

definition jobs_HandleReportTerminal ::
  "clock \<Rightarrow> string \<Rightarrow> jobs_workerTerminalRequest http_body \<Rightarrow> ('d, 'v, 'l) jobs_Handler \<Rightarrow>
     (jobs_fail, jobs_jobStatus) reply \<times> ('d, 'v, 'l) jobs_Handler" where
  "jobs_HandleReportTerminal clk rawID body h =
     jobs_callback rawID body
       (\<lambda>jid inp. jobs_ReportTerminal clk jid (wt_WorkerID inp) (wt_Status inp) (wt_TotalItems inp) (wt_SucceededItems inp)
          (wt_FailedItems inp) (wt_ResultRef inp))
       jobs_writeJobStatus h"

end
