(* ===== verification/Job_Handler_Claims.thy ===== *)
theory Job_Handler_Claims
  imports Job_Handler Job_Results
begin

section \<open>Jobs: the properties of the handlers\<close>

subsection \<open>Reading jobs\<close>

lemma jobs_GetJob_result:
  assumes "jobs_GetJob jid s = (res, s')"
  shows "jr_byID (svc_repo s) jid = None \<Longrightarrow> res = None"
    and "jr_byID (svc_repo s) jid = Some a \<Longrightarrow> \<exists>b. res = Some b \<and> job_ProjectID b = job_ProjectID a \<and> job_ID b = job_ID a \<and> job_Status b = job_Status a"
proof -
  show "res = None" if "jr_byID (svc_repo s) jid = None"
    using assms that by (simp add: jobs_GetJob_def jobs_with_def jobs_on_repo_def)
  show "\<exists>b. res = Some b \<and> job_ProjectID b = job_ProjectID a \<and> job_ID b = job_ID a \<and> job_Status b = job_Status a"
    if a: "jr_byID (svc_repo s) jid = Some a"
  proof -
    have "case jobs_get_body (jobs_ListEvents jid (svc_repo s)) a of Inl e \<Rightarrow> False
        | Inr b \<Rightarrow> job_ProjectID b = job_ProjectID a \<and> job_ID b = job_ID a \<and> job_Status b = job_Status a"
      by (simp add: jobs_get_body_def jobs_with_result_def Let_def)
    then obtain b where b: "jobs_get_body (jobs_ListEvents jid (svc_repo s)) a = Inr b" "job_ProjectID b = job_ProjectID a"
      "job_ID b = job_ID a" "job_Status b = job_Status a" by (auto split: sum.splits)
    have "res = Some b" using assms
      by (simp add: jobs_GetJob_def jobs_on_repo_def jobs_with_put [OF a, of "jobs_get_body (jobs_ListEvents jid (svc_repo s))" b, OF b(1)])
    then show ?thesis using b(2-4) by blast
  qed
qed

lemma jobs_readJob_reply:
  assumes "jobs_readJob ctx rawID f h = (Reply st x, h')"
  shows "\<exists>jid a. path_int64 rawID = (Inr jid :: jobs_fail + int) \<and> jr_byID (svc_repo (jh_svc h)) jid = Some a \<and>
           jobs_requireProject ctx (job_ProjectID a) = Inr ()"
proof -
  obtain jid where jid: "path_int64 rawID = (Inr jid :: jobs_fail + int)"
    using assms by (cases "path_int64 rawID :: jobs_fail + int") (simp_all add: jobs_readJob_def)
  obtain res s where g: "jobs_GetJob jid (jh_svc h) = (res, s)" by fastforce
  show ?thesis
  proof (cases "jr_byID (svc_repo (jh_svc h)) jid")
    case None
    then show ?thesis using assms jobs_GetJob_result(1) [OF g] by (simp add: jobs_readJob_def jid g)
  next
    case (Some a)
    then obtain b where b: "res = Some b" "job_ProjectID b = job_ProjectID a" using jobs_GetJob_result(2) [OF g] by blast
    have "jobs_requireProject ctx (job_ProjectID a) = Inr ()"
      using assms by (cases "jobs_requireProject ctx (job_ProjectID a)") (simp_all add: jobs_readJob_def jid g b)
    then show ?thesis using jid Some by blast
  qed
qed

definition jobs_hidden :: "auth_context \<Rightarrow> int \<Rightarrow> jobs_Repo \<Rightarrow> bool" where
  "jobs_hidden ctx jid r = (case jr_byID r jid of None \<Rightarrow> True | Some a \<Rightarrow> jobs_requireProject ctx (job_ProjectID a) \<noteq> Inr ())"

lemma jobs_readJob_hidden:
  assumes "path_int64 rawID = (Inr jid :: jobs_fail + int)" "jobs_hidden ctx jid (svc_repo (jh_svc h))"
  shows "fst (jobs_readJob ctx rawID f h) = ReplyError StatusNotFound (HttpService (JobsFailed (JobNotFound jid)))"
proof -
  obtain res s where g: "jobs_GetJob jid (jh_svc h) = (res, s)" by fastforce
  show ?thesis
  proof (cases "jr_byID (svc_repo (jh_svc h)) jid")
    case None
    then show ?thesis using jobs_GetJob_result(1) [OF g] by (simp add: jobs_readJob_def assms(1) g)
  next
    case (Some a)
    then obtain b where b: "res = Some b" "job_ProjectID b = job_ProjectID a" using jobs_GetJob_result(2) [OF g] by blast
    have "jobs_requireProject ctx (job_ProjectID a) \<noteq> Inr ()" using assms(2) by (simp add: jobs_hidden_def Some)
    then show ?thesis by (cases "jobs_requireProject ctx (job_ProjectID a)") (simp_all add: jobs_readJob_def assms(1) g b)
  qed
qed

text \<open>
  Jobs are only shown to callers of their project: a job or its events are answered only to a caller that may use
  the project of that job, and every other caller gets, from both endpoints, the very answer an unknown number gets.
\<close>

theorem jobs_reads_isolated:
  "(\<forall>st x h'. jobs_HandleGetJob ctx rawID h = (Reply st x, h') \<longrightarrow>
      (\<exists>jid a. path_int64 rawID = (Inr jid :: jobs_fail + int) \<and> jr_byID (svc_repo (jh_svc h)) jid = Some a \<and>
         jobs_requireProject ctx (job_ProjectID a) = Inr ())) \<and>
   (\<forall>st x h'. jobs_HandleListEvents ctx rawID h = (Reply st x, h') \<longrightarrow>
      (\<exists>jid a. path_int64 rawID = (Inr jid :: jobs_fail + int) \<and> jr_byID (svc_repo (jh_svc h)) jid = Some a \<and>
         jobs_requireProject ctx (job_ProjectID a) = Inr ())) \<and>
   (\<forall>jid. path_int64 rawID = (Inr jid :: jobs_fail + int) \<and> jobs_hidden ctx jid (svc_repo (jh_svc h)) \<longrightarrow>
      fst (jobs_HandleGetJob ctx rawID h) = ReplyError StatusNotFound (HttpService (JobsFailed (JobNotFound jid))) \<and>
      fst (jobs_HandleListEvents ctx rawID h) = ReplyError StatusNotFound (HttpService (JobsFailed (JobNotFound jid))))"
  unfolding jobs_HandleGetJob_def jobs_HandleListEvents_def
  by (intro conjI allI impI; (elim conjE)?; (rule jobs_readJob_reply jobs_readJob_hidden; assumption))

subsection \<open>Creating jobs\<close>

lemma jobs_key_project:
  assumes "jobs_key a = jobs_idempotencyKey inp"
  shows "job_ProjectID a = cj_ProjectID inp"
proof -
  have "show_int (job_ProjectID a) @ CHR '':'' # (job_JobType a @ '':'' @ job_IdempotencyKey a) =
      show_int (cj_ProjectID inp) @ CHR '':'' # (cj_JobType inp @ '':'' @ cj_IdempotencyKey inp)"
    using assms by (simp add: jobs_key_def jobs_idempotencyKey_def)
  then have "show_int (job_ProjectID a) = show_int (cj_ProjectID inp)"
    by (rule conjunct1 [OF split_at_separator [OF _ colon_notin_show_int colon_notin_show_int]])
  then show ?thesis by (simp add: show_int_inject)
qed

lemma jobs_CreateJob_result:
  assumes "jobs_CreateJob pub clk inp s = (Inr job, s')" "jobs_inv (svc_repo s)"
  shows "jr_byID (svc_repo s') (job_ID job) = Some job \<and> job_ProjectID job = (if cj_ProjectID inp \<le> 0 then 1 else cj_ProjectID inp)"
proof -
  obtain inp' where n: "jobs_normalizeInput inp = Inr inp'"
    using assms(1) by (cases "jobs_normalizeInput inp") (simp_all add: jobs_CreateJob_def)
  obtain j created r where c: "jobs_CreateOrGet (clk 0) inp' (svc_repo s) = (Inr (j, created), r)"
    using jobs_CreateOrGet_total by blast
  note st = jobs_CreateOrGet_stores [OF assms(2) c]
  have j: "job = j \<and> jr_byID (svc_repo s') = jr_byID r"
  proof (cases created)
    case True
    then have new: "jobs_CreateOrGet (clk 0) inp' (svc_repo s) = (Inr (j, True), r)" using c by simp
    obtain x t where d: "jobs_dispatch pub j (jobs_created clk j r s) = (x, t)" by fastforce
    have t: "svc_repo t = svc_repo (jobs_created clk j r s)" using jobs_dispatch_repo [of pub j "jobs_created clk j r s"] d by simp
    show ?thesis using assms(1) t unfolding jobs_CreateJob_created [where clk = clk, OF n new st(1)] d by (cases x) (simp_all add: and_then_def)
  next
    case False
    then have old: "jobs_CreateOrGet (clk 0) inp' (svc_repo s) = (Inr (j, False), svc_repo s)" using c st(5) by simp
    show ?thesis using assms(1) jobs_CreateJob_existing [where clk = clk, OF n old] False st(5) by simp
  qed
  have "jobs_inv r" using jobs_CreateOrGet_inv [OF assms(2), of "clk 0" inp'] c by simp
  then have tab: "jobs_table_ok r" by (simp add: jobs_inv_def)
  have "jobs_key j = jobs_idempotencyKey inp'"
  proof -
    obtain b where "jr_byID r (job_ID j) = Some b" "jobs_key b = jobs_idempotencyKey inp'"
      using tab st(2) unfolding jobs_table_ok_def by blast
    then show ?thesis using st(1) by simp
  qed
  then have "job_ProjectID j = cj_ProjectID inp'" by (rule jobs_key_project)
  then show ?thesis using j st(1) jobs_normalizeInput_Inr(5) [OF n] by simp
qed

definition jobs_granted :: "auth_context \<Rightarrow> int \<Rightarrow> (jobs_fail, int \<times> string) reply \<times> ('d, 'v, 'l) jobs_Handler \<Rightarrow> bool" where
  "jobs_granted ctx p out =
     (case out of
        (Reply st (jid, status), h) \<Rightarrow>
          \<exists>job. jr_byID (svc_repo (jh_svc h)) jid = Some job \<and> job_Status job = status \<and>
            (if 0 < p then jobs_requireProject ctx p = Inr () \<and> job_ProjectID job = p else job_ProjectID job = 1)
      | (ReplyError st e, h) \<Rightarrow> True)"

lemma jobs_submit_granted:
  assumes "jobs_inv (svc_repo (jh_svc h))"
    and "\<And>inp detail. accepted = Inr (inp, detail) \<Longrightarrow> cj_ProjectID inp = p \<and> jobs_requireProject ctx p = Inr ()"
  shows "jobs_granted ctx p (jobs_submit lg pub clk action accepted h)"
proof (cases accepted)
  case (Inl e)
  then show ?thesis by (cases e) (simp add: jobs_submit_def jobs_granted_def)
next
  case (Inr a)
  obtain inp detail where a: "a = (inp, detail)" by fastforce
  obtain x s where c: "jobs_CreateJob pub clk inp (jh_svc h) = (x, s)" by fastforce
  show ?thesis
  proof (cases x)
    case (Inl e)
    then show ?thesis by (simp add: jobs_submit_def jobs_granted_def Inr a c)
  next
    case job: (Inr job)
    let ?ev = "\<lparr>ev_Actor = [], ev_Action = action, ev_ResourceType = ''job'', ev_ResourceID = show_int (job_ID job), ev_Detail = Some detail\<rparr>"
    obtain e h' where r: "jobs_recordAudit lg ?ev (h\<lparr>jh_svc := s\<rparr>) = (e, h')" by fastforce
    have s: "jh_svc h' = s" using r by (auto simp: jobs_recordAudit_def split: prod.splits)
    note res = jobs_CreateJob_result [OF c [unfolded job] assms(1)]
    show ?thesis using res assms(2) [of inp detail]
      by (cases e) (simp_all add: jobs_submit_def jobs_granted_def Inr a c job r s)
  qed
qed

lemma jobs_refuse_Inr [simp]: "jobs_refuse st x f = Inr y \<longleftrightarrow> (\<exists>a. x = Inr a \<and> f a = Inr y)"
  by (simp add: jobs_refuse_def split: sum.splits)

text \<open>
  Creating a job of any of the three kinds is answered with success only if the job is in the store with the status
  answered, and either the request names a project and the caller may use that project and it is the project of the
  job; or the request names none, and the job is one of project 1, whatever the projects of the caller.
\<close>

theorem jobs_create_scoped:
  assumes "jobs_inv (svc_repo (jh_svc h))"
  shows "jobs_granted ctx (zr_ProjectID z) (jobs_HandleCreateZeroShot other parse_float lg pub clk ctx tr (Body z) h) \<and>
    jobs_granted ctx (vx_ProjectID v) (jobs_HandleCreateVideoExtract other parse_float lg pub clk ctx tr (Body v) h) \<and>
    jobs_granted ctx (cr_ProjectID c) (jobs_HandleCreateCleaning lg pub clk ctx tr (Body c) h)"
  unfolding jobs_HandleCreateZeroShot_def jobs_HandleCreateVideoExtract_def jobs_HandleCreateCleaning_def
  by (intro conjI; rule jobs_submit_granted [OF assms])
    (auto simp: jobs_decoded_def decode_body_def jobs_acceptZeroShot_def jobs_acceptVideoExtract_def jobs_acceptCleaning_def Let_def split: if_splits)

subsection \<open>The answer to a terminal report\<close>

text \<open>
  C10. The status of the answer to a worker's terminal report: 422 if the worker is not named, the status is none of the
  four final ones or a counter is negative, else 404 for an unknown job, else 409 if the job is finished with another
  status, and otherwise 200 with the reported status and counters.
\<close>

theorem jobs_terminal_answer:
  assumes "jobs_inv (svc_repo (jh_svc h))" "path_int64 rawID = (Inr jid :: jobs_fail + int)"
    and "jobs_HandleReportTerminal clk rawID (Body w) h = (answer, h')"
  shows "if wt_WorkerID w = [] \<or> \<not> jobs_terminal (wt_Status w) \<or> wt_TotalItems w < 0 \<or> wt_SucceededItems w < 0 \<or> wt_FailedItems w < 0
         then reply_status answer = StatusUnprocessableEntity \<and> h' = h
         else case jr_byID (svc_repo (jh_svc h)) jid of
           None \<Rightarrow> reply_status answer = StatusNotFound \<and> h' = h
         | Some a \<Rightarrow>
             if jobs_terminal (job_Status a) \<and> job_Status a \<noteq> wt_Status w then reply_status answer = StatusConflict \<and> h' = h
             else \<exists>js. answer = Reply StatusOK js \<and> js_JobID js = jid \<and> js_Status js = wt_Status w"
proof -
  let ?s = "jh_svc h"
  have ans: "(case jobs_ReportTerminal clk jid (wt_WorkerID w) (wt_Status w) (wt_TotalItems w) (wt_SucceededItems w) (wt_FailedItems w)
        (wt_ResultRef w) ?s of
      (Inl e, s) \<Rightarrow> (jobs_writeCallbackError e, h\<lparr>jh_svc := s\<rparr>)
    | (Inr _, s) \<Rightarrow> jobs_writeJobStatus jid (h\<lparr>jh_svc := s\<rparr>)) = (answer, h')"
    using assms(3) by (simp add: jobs_HandleReportTerminal_def jobs_callback_def assms(2) decode_body_def)
  show ?thesis
  proof (cases "wt_WorkerID w = [] \<or> \<not> jobs_terminal (wt_Status w) \<or> wt_TotalItems w < 0 \<or> wt_SucceededItems w < 0 \<or> wt_FailedItems w < 0")
    case True
    let ?e = "if wt_WorkerID w = [] then WorkerIDMissing
      else if \<not> jobs_terminal (wt_Status w) then UnsupportedTerminalStatus (wt_Status w) else TerminalCountersNegative"
    have "jobs_ReportTerminal clk jid (wt_WorkerID w) (wt_Status w) (wt_TotalItems w) (wt_SucceededItems w) (wt_FailedItems w)
        (wt_ResultRef w) ?s = (Inl ?e, ?s)"
      using True by (auto simp: jobs_ReportTerminal_def)
    moreover have "jobs_error_kind ?e = Some ErrValidation" by simp
    ultimately have "answer = ReplyError StatusUnprocessableEntity (HttpService (JobsFailed ?e)) \<and> h' = h"
      using ans by (simp add: jobs_writeCallbackError_def jobs_callbackStatus_def split del: if_split)
    then show ?thesis using True by simp
  next
    case ok: False
    then have "wt_WorkerID w \<noteq> []" "jobs_terminal (wt_Status w)" "0 \<le> wt_TotalItems w" "0 \<le> wt_SucceededItems w" "0 \<le> wt_FailedItems w"
      by auto
    note spec = jobs_terminal_report [where clk = clk and ref = "wt_ResultRef w", OF this assms(1)]
    show ?thesis
    proof (cases "jr_byID (svc_repo ?s) jid")
      case None
      then have "jobs_ReportTerminal clk jid (wt_WorkerID w) (wt_Status w) (wt_TotalItems w) (wt_SucceededItems w) (wt_FailedItems w)
          (wt_ResultRef w) ?s = (Inl (JobNotFound jid), ?s)"
        using ok by (simp add: jobs_ReportTerminal_def jobs_Get_def)
      then show ?thesis using ok ans None by (auto simp: jobs_writeCallbackError_def jobs_callbackStatus_def)
    next
      case (Some a)
      show ?thesis
      proof (cases "jobs_terminal (job_Status a) \<and> job_Status a \<noteq> wt_Status w")
        case True
        then have "jobs_ReportTerminal clk jid (wt_WorkerID w) (wt_Status w) (wt_TotalItems w) (wt_SucceededItems w) (wt_FailedItems w)
            (wt_ResultRef w) ?s = (Inl (InvalidTransition (job_Status a) (wt_Status w)), ?s)" using spec [OF Some] by simp
        then have "answer = ReplyError StatusConflict (HttpService (JobsFailed (InvalidTransition (job_Status a) (wt_Status w)))) \<and> h' = h"
          using ans by (simp add: jobs_writeCallbackError_def jobs_callbackStatus_def)
        with True ok show ?thesis by (simp add: Some)
      next
        case False
        let ?b = "jobs_stored_result (jobs_normalizeResultRef (wt_ResultRef w))
            (jobs_completed (clk 0) (wt_WorkerID w) (wt_Status w) (wt_TotalItems w) (wt_SucceededItems w) (wt_FailedItems w) a)"
        obtain s' where s': "jobs_ReportTerminal clk jid (wt_WorkerID w) (wt_Status w) (wt_TotalItems w) (wt_SucceededItems w) (wt_FailedItems w)
            (wt_ResultRef w) ?s = (Inr (), s')" "jr_byID (svc_repo s') jid = Some ?b"
          using spec [OF Some] False by auto
        obtain res s'' where g: "jobs_GetJob jid s' = (res, s'')" by fastforce
        obtain b where b: "res = Some b" "job_ID b = job_ID ?b" "job_Status b = job_Status ?b"
          using jobs_GetJob_result(2) [OF g s'(2)] by blast
        have "job_ID ?b = jid" "job_Status ?b = wt_Status w"
          using jobs_inv_job [OF assms(1) Some] by (simp_all add: jobs_completed_def jobs_stored_result_def jobs_result_body_def Let_def)
        then show ?thesis using ok ans s'(1) False by (auto simp: Some jobs_writeJobStatus_def g b)
      qed
    qed
  qed
qed

subsection \<open>A running example\<close>

text \<open>A server with one queued job of project 1, and a caller who may use project 2 only.\<close>

definition jobs_demo_repo :: jobs_Repo where
  "jobs_demo_repo = jobs_after [OpCreateOrGet 1 (jobs_req ''export'' ''k'')]"

definition jobs_demo_handler :: "(jobs_MemPublisher, unit, audit_Event list) jobs_Handler" where
  "jobs_demo_handler =
     \<lparr>jh_svc = \<lparr>svc_repo = jobs_demo_repo, svc_dispatcher = Some jobs_NewInMemoryPublisher, svc_reviewSink = None, svc_metrics = None\<rparr>,
      jh_audit = Some []\<rparr>"

definition jobs_demo_stranger :: auth_context where
  "jobs_demo_stranger = Some \<lparr>id_Actor = ''eve'', id_ProjectIDs = [2]\<rparr>"

definition jobs_demo_report :: jobs_workerTerminalRequest where
  "jobs_demo_report = \<lparr>wt_WorkerID = ''w'', wt_Status = ''succeeded'', wt_TotalItems = 3, wt_SucceededItems = 3, wt_FailedItems = 0, wt_ResultRef = []\<rparr>"

lemma jobs_demo_facts:
  "jobs_inv (svc_repo (jh_svc jobs_demo_handler))"
  "jr_byID (svc_repo (jh_svc jobs_demo_handler)) 1 = Some (jobs_newJob 1 1 (jobs_req ''export'' ''k''))"
proof -
  show "jobs_inv (svc_repo (jh_svc jobs_demo_handler))"
    unfolding jobs_demo_handler_def jobs_demo_repo_def jobs_Handler.select_convs jobs_Service.select_convs by (rule jobs_after_inv)
  show "jr_byID (svc_repo (jh_svc jobs_demo_handler)) 1 = Some (jobs_newJob 1 1 (jobs_req ''export'' ''k''))"
    by (simp add: jobs_demo_handler_def jobs_demo_repo_def jobs_after_def jobs_CreateOrGet_def jobs_NewInMemoryRepository_def Let_def)
qed

lemma jobs_demo_path: "path_int64 ''1'' = (Inr 1 :: jobs_fail + int)"
  by code_simp

theorem jobs_reads_isolated_witness:
  "fst (jobs_HandleGetJob jobs_demo_stranger ''1'' jobs_demo_handler) = ReplyError StatusNotFound (HttpService (JobsFailed (JobNotFound 1)))"
proof -
  have "jobs_hidden jobs_demo_stranger 1 (svc_repo (jh_svc jobs_demo_handler))"
    by (simp add: jobs_hidden_def jobs_demo_facts jobs_demo_stranger_def jobs_requireProject_def auth_RequireProjectAccess_def
        auth_AllowsProject_def jobs_newJob_def jobs_req_def)
  then show ?thesis using jobs_reads_isolated [of jobs_demo_stranger "''1''" jobs_demo_handler] jobs_demo_path by blast
qed

definition jobs_demo_trace :: obs_Trace where
  "jobs_demo_trace = \<lparr>tr_Context = [], tr_RequestId = [], tr_CorrelationId = []\<rparr>"

definition jobs_demo_cleaning :: jobs_cleaningRequest where
  "jobs_demo_cleaning = \<lparr>cr_ProjectID = 0, cr_DatasetID = 1, cr_SnapshotID = 1, cr_Rules = None, cr_IdempotencyKey = ''c'',
     cr_RequiredResourceType = [], cr_RequiredCapabilities = []\<rparr>"

lemma jobs_demo_create:
  "fst (jobs_HandleCreateCleaning audit_Record jobs_MemPublish (\<lambda>i. 9) jobs_demo_stranger jobs_demo_trace (Body jobs_demo_cleaning)
     jobs_demo_handler) = Reply StatusOK (2, ''queued'')"
  by code_simp

theorem jobs_create_scoped_witness:
  "\<exists>h' job. jobs_HandleCreateCleaning audit_Record jobs_MemPublish (\<lambda>i. 9) jobs_demo_stranger jobs_demo_trace (Body jobs_demo_cleaning)
     jobs_demo_handler = (Reply StatusOK (2, ''queued''), h') \<and> jr_byID (svc_repo (jh_svc h')) 2 = Some job \<and> job_ProjectID job = 1"
proof -
  obtain h' where h: "jobs_HandleCreateCleaning audit_Record jobs_MemPublish (\<lambda>i. 9) jobs_demo_stranger jobs_demo_trace (Body jobs_demo_cleaning)
      jobs_demo_handler = (Reply StatusOK (2, ''queued''), h')" using jobs_demo_create by (metis prod.collapse)
  have "jobs_granted jobs_demo_stranger (cr_ProjectID jobs_demo_cleaning) (Reply StatusOK (2, ''queued''), h')"
    using jobs_create_scoped [OF jobs_demo_facts(1)] unfolding h [symmetric] by blast
  then show ?thesis using h by (auto simp: jobs_granted_def jobs_demo_cleaning_def)
qed

theorem jobs_terminal_answer_witness:
  "\<exists>js h'. jobs_HandleReportTerminal (\<lambda>i. 9) ''1'' (Body jobs_demo_report) jobs_demo_handler = (Reply StatusOK js, h') \<and>
     js_JobID js = 1 \<and> js_Status js = ''succeeded''"
proof -
  obtain answer h' where a: "jobs_HandleReportTerminal (\<lambda>i. 9) ''1'' (Body jobs_demo_report) jobs_demo_handler = (answer, h')" by fastforce
  have st: "jobs_terminal ''succeeded''" "\<not> jobs_terminal ''queued''" by (simp_all add: jobs_terminal_def jobs_status_defs)
  show ?thesis using jobs_terminal_answer [OF jobs_demo_facts(1) jobs_demo_path a] a st
    by (simp add: jobs_demo_facts jobs_demo_report_def jobs_newJob_def jobs_status_defs)
qed

end
