(* ===== verification/Publish_Handler.thy ===== *)
theory Publish_Handler
  imports Publish_Props Audit_Log Http
begin

section \<open>Publishing: the handlers\<close>

text \<open>
  \<open>internal/publish/handler.go\<close> over the service. The handlers take the caller's word for the acting person and look at
  no project. An audit event is recorded after every change; \<open>recordAudit\<close> normalises a name that is given.
\<close>

datatype pub_failure = PubFailed pub_error | PubAudit string

type_synonym pub_fail = "pub_failure http_error"

record ('t, 'l) pub_Handler =
  ph_svc :: "'t pub_Service"
  ph_audit :: "'l option"

record pub_feedbackRequest =
  fr_Stage :: string
  fr_Action :: string
  fr_ReasonCode :: string
  fr_Severity :: string
  fr_InfluenceWeight :: real
  fr_Comment :: string
  fr_Actor :: string

record pub_ApprovalInput =
  ai_Actor :: string
  ai_Feedback :: "pub_CreateFeedbackInput list"

record pub_ReplaceBatchItemsInput =
  ri_Actor :: string
  ri_Items :: "pub_CreateBatchItemInput list"

definition pub_recordAudit :: "'l audit_logger \<Rightarrow> audit_Event \<Rightarrow> ('t, 'l) pub_Handler \<Rightarrow> string option \<times> ('t, 'l) pub_Handler" where
  "pub_recordAudit lg ev h =
     (let ev' = (if ev_Actor ev \<noteq> [] then ev\<lparr>ev_Actor := audit_NormalizeActor (ev_Actor ev)\<rparr> else ev);
          (e, a) = audit_recordAudit lg ev' (ph_audit h)
      in (e, h\<lparr>ph_audit := a\<rparr>))"

text \<open>
  The end of a changing handler: the outcome of the operation on the new handler state, then the event and the answer. A
  failing log answers 500, and the change stays.
\<close>

definition pub_finish ::
  "'l audit_logger \<Rightarrow> int \<Rightarrow> ('a \<Rightarrow> audit_Event) \<Rightarrow> (pub_error, 'a, 't pub_Service) outcome \<Rightarrow> ('t, 'l) pub_Handler \<Rightarrow>
     (pub_fail, 'a) reply \<times> ('t, 'l) pub_Handler" where
  "pub_finish lg status event out h =
     (case out of
        (Inl e, s) \<Rightarrow> (ReplyError StatusBadRequest (HttpService (PubFailed e)), h\<lparr>ph_svc := s\<rparr>)
      | (Inr x, s) \<Rightarrow>
          (case pub_recordAudit lg (event x) (h\<lparr>ph_svc := s\<rparr>) of
             (Some e, h') \<Rightarrow> (ReplyError StatusInternalServerError (HttpService (PubAudit e)), h')
           | (None, h') \<Rightarrow> (Reply status x, h')))"

definition pub_event :: "string \<Rightarrow> string \<Rightarrow> string \<Rightarrow> int \<Rightarrow> obj \<Rightarrow> audit_Event" where
  "pub_event actor action resource i detail =
     \<lparr>ev_Actor = actor, ev_Action = action, ev_ResourceType = resource, ev_ResourceID = show_int i, ev_Detail = Some detail\<rparr>"

text \<open>The path, then the body, then the rest.\<close>

definition pub_withPath ::
  "string \<Rightarrow> (int \<Rightarrow> 'h \<Rightarrow> (pub_fail, 'a) reply \<times> 'h) \<Rightarrow> 'h \<Rightarrow> (pub_fail, 'a) reply \<times> 'h" where
  "pub_withPath rawID f h = (case path_int64 rawID of Inl e \<Rightarrow> (ReplyError StatusBadRequest e, h) | Inr i \<Rightarrow> f i h)"

definition pub_withBody ::
  "'i http_body \<Rightarrow> ('i \<Rightarrow> 'h \<Rightarrow> (pub_fail, 'a) reply \<times> 'h) \<Rightarrow> 'h \<Rightarrow> (pub_fail, 'a) reply \<times> 'h" where
  "pub_withBody body f h = (case decode_body body of Inl e \<Rightarrow> (ReplyError StatusBadRequest e, h) | Inr i \<Rightarrow> f i h)"

subsection \<open>Reading\<close>

definition pub_HandleListSuggestedCandidates ::
  "string \<Rightarrow> ('t, 'l) pub_Handler \<Rightarrow> (pub_fail, pub_SuggestedCandidate list) reply" where
  "pub_HandleListSuggestedCandidates rawProject h =
     (case path_int64 rawProject of
        Inl e \<Rightarrow> ReplyError StatusBadRequest e
      | Inr projectID \<Rightarrow>
          (case pub_ListSuggestedCandidates projectID (ph_svc h) of
             Inl e \<Rightarrow> ReplyError StatusBadRequest (HttpService (PubFailed e))
           | Inr items \<Rightarrow> Reply StatusOK items))"

definition pub_read :: "string \<Rightarrow> (int \<Rightarrow> 't pub_Service \<Rightarrow> pub_error + 'a) \<Rightarrow> ('t, 'l) pub_Handler \<Rightarrow> (pub_fail, 'a) reply" where
  "pub_read rawID f h =
     (case path_int64 rawID of
        Inl e \<Rightarrow> ReplyError StatusBadRequest e
      | Inr i \<Rightarrow> (case f i (ph_svc h) of Inl e \<Rightarrow> ReplyError StatusNotFound (HttpService (PubFailed e)) | Inr x \<Rightarrow> Reply StatusOK x))"

definition pub_HandleGetBatch :: "string \<Rightarrow> ('t, 'l) pub_Handler \<Rightarrow> (pub_fail, pub_Batch) reply" where
  "pub_HandleGetBatch rawID h = pub_read rawID pub_GetBatch h"

definition pub_HandleGetWorkspace :: "string \<Rightarrow> ('t, 'l) pub_Handler \<Rightarrow> (pub_fail, pub_Workspace) reply" where
  "pub_HandleGetWorkspace rawID h = pub_read rawID pub_GetWorkspace h"

definition pub_HandleGetRecord :: "string \<Rightarrow> ('t, 'l) pub_Handler \<Rightarrow> (pub_fail, pub_Record) reply" where
  "pub_HandleGetRecord rawID h = pub_read rawID pub_GetRecord h"

subsection \<open>Batches\<close>

definition pub_HandleCreateBatch ::
  "'l audit_logger \<Rightarrow> clock \<Rightarrow> pub_CreateBatchInput http_body \<Rightarrow> ('t, 'l) pub_Handler \<Rightarrow> (pub_fail, pub_Batch) reply \<times> ('t, 'l) pub_Handler" where
  "pub_HandleCreateBatch lg clk body =
     pub_withBody body (\<lambda>inp h. pub_finish lg StatusCreated
       (\<lambda>b. pub_event [] ''publish.batch.create'' ''publish_batch'' (bt_ID b)
          [(''project_id'', GInt64 (bt_ProjectID b)), (''snapshot_id'', GInt64 (bt_SnapshotID b)), (''source'', GStr (bt_Source b)),
           (''items_count'', GInt (int (length (bt_Items b))))])
       (pub_CreateBatch clk inp (ph_svc h)) h)"

definition pub_HandleReplaceBatchItems ::
  "'l audit_logger \<Rightarrow> clock \<Rightarrow> string \<Rightarrow> pub_ReplaceBatchItemsInput http_body \<Rightarrow> ('t, 'l) pub_Handler \<Rightarrow>
     (pub_fail, pub_Batch) reply \<times> ('t, 'l) pub_Handler" where
  "pub_HandleReplaceBatchItems lg clk rawID body =
     pub_withPath rawID (\<lambda>bid. pub_withBody body (\<lambda>inp h. pub_finish lg StatusOK
       (\<lambda>b. pub_event (ri_Actor inp) ''publish.batch.replace-items'' ''publish_batch'' (bt_ID b)
          [(''snapshot_id'', GInt64 (bt_SnapshotID b)), (''owner_edit_version'', GInt (bt_OwnerEditVersion b)),
           (''items_count'', GInt (int (length (bt_Items b))))])
       (pub_ReplaceBatchItems clk bid (ri_Items inp) (ph_svc h)) h))"

subsection \<open>Decisions\<close>

text \<open>\<open>handleReviewDecision\<close> and \<open>handleOwnerDecision\<close> are the same text.\<close>

definition pub_handleDecision ::
  "'l audit_logger \<Rightarrow> string \<Rightarrow> (int \<Rightarrow> string \<Rightarrow> pub_CreateFeedbackInput list \<Rightarrow> 't pub_Service \<Rightarrow> (pub_error, unit, 't pub_Service) outcome) \<Rightarrow>
     string \<Rightarrow> pub_ApprovalInput http_body \<Rightarrow> ('t, 'l) pub_Handler \<Rightarrow> (pub_fail, unit) reply \<times> ('t, 'l) pub_Handler" where
  "pub_handleDecision lg action fn rawID body =
     pub_withPath rawID (\<lambda>bid. pub_withBody body (\<lambda>inp h. pub_finish lg StatusOK
       (\<lambda>_. pub_event (ai_Actor inp) action ''publish_batch'' bid [(''feedback_count'', GInt (int (length (ai_Feedback inp))))])
       (fn bid (ai_Actor inp) (ai_Feedback inp) (ph_svc h)) h))"

definition pub_HandleReviewApprove ::
  "'l audit_logger \<Rightarrow> clock \<Rightarrow> string \<Rightarrow> pub_ApprovalInput http_body \<Rightarrow> ('t, 'l) pub_Handler \<Rightarrow> (pub_fail, unit) reply \<times> ('t, 'l) pub_Handler" where
  "pub_HandleReviewApprove lg clk = pub_handleDecision lg ''publish.batch.review-approve'' (pub_ReviewApprove clk)"

definition pub_HandleReviewReject ::
  "'l audit_logger \<Rightarrow> clock \<Rightarrow> string \<Rightarrow> pub_ApprovalInput http_body \<Rightarrow> ('t, 'l) pub_Handler \<Rightarrow> (pub_fail, unit) reply \<times> ('t, 'l) pub_Handler" where
  "pub_HandleReviewReject lg clk = pub_handleDecision lg ''publish.batch.review-reject'' (pub_ReviewReject clk)"

definition pub_HandleReviewRework ::
  "'l audit_logger \<Rightarrow> clock \<Rightarrow> string \<Rightarrow> pub_ApprovalInput http_body \<Rightarrow> ('t, 'l) pub_Handler \<Rightarrow> (pub_fail, unit) reply \<times> ('t, 'l) pub_Handler" where
  "pub_HandleReviewRework lg clk = pub_handleDecision lg ''publish.batch.review-rework'' (pub_ReviewRework clk)"

definition pub_HandleOwnerReject ::
  "'l audit_logger \<Rightarrow> clock \<Rightarrow> string \<Rightarrow> pub_ApprovalInput http_body \<Rightarrow> ('t, 'l) pub_Handler \<Rightarrow> (pub_fail, unit) reply \<times> ('t, 'l) pub_Handler" where
  "pub_HandleOwnerReject lg clk = pub_handleDecision lg ''publish.batch.owner-reject'' (pub_OwnerReject clk)"

definition pub_HandleOwnerRework ::
  "'l audit_logger \<Rightarrow> clock \<Rightarrow> string \<Rightarrow> pub_ApprovalInput http_body \<Rightarrow> ('t, 'l) pub_Handler \<Rightarrow> (pub_fail, unit) reply \<times> ('t, 'l) pub_Handler" where
  "pub_HandleOwnerRework lg clk = pub_handleDecision lg ''publish.batch.owner-rework'' (pub_OwnerRework clk)"

text \<open>The service answers a \<open>Record\<close>, the empty one where the repository made none.\<close>

definition pub_recordID :: "(pub_Record \<Rightarrow> int) \<Rightarrow> pub_Record option \<Rightarrow> int" where
  "pub_recordID f x = (case x of None \<Rightarrow> 0 | Some rc \<Rightarrow> f rc)"

definition pub_HandleOwnerApprove ::
  "'t pub_create \<Rightarrow> 'l audit_logger \<Rightarrow> clock \<Rightarrow> string \<Rightarrow> pub_ApprovalInput http_body \<Rightarrow> ('t, 'l) pub_Handler \<Rightarrow>
     (pub_fail, pub_Record option) reply \<times> ('t, 'l) pub_Handler" where
  "pub_HandleOwnerApprove create lg clk rawID body =
     pub_withPath rawID (\<lambda>bid. pub_withBody body (\<lambda>inp h. pub_finish lg StatusOK
       (\<lambda>x. pub_event (ai_Actor inp) ''publish.batch.owner-approve'' ''publish_batch'' bid
          [(''publish_record_id'', GInt64 (pub_recordID rec_ID x)), (''snapshot_id'', GInt64 (pub_recordID rec_SnapshotID x)),
           (''project_id'', GInt64 (pub_recordID rec_ProjectID x)), (''feedback_count'', GInt (int (length (ai_Feedback inp))))])
       (pub_OwnerApprove create clk bid (ai_Actor inp) (ai_Feedback inp) (ph_svc h)) h))"

subsection \<open>Feedback\<close>

text \<open>\<open>%q\<close> of the two scopes the handlers set, which need no escape.\<close>

definition pub_quoted :: "string \<Rightarrow> string" where
  "pub_quoted s = CHR 0x22 # s @ [CHR 0x22]"

definition pub_validateFeedbackInput :: "pub_CreateFeedbackInput \<Rightarrow> string \<Rightarrow> pub_fail + unit" where
  "pub_validateFeedbackInput inp expected =
     (if cf_Scope inp \<noteq> expected then Inl (HttpMessage (''expected scope '' @ pub_quoted expected @ '', got '' @ pub_quoted (cf_Scope inp)))
      else if trim_space (cf_Stage inp) = [] then Inl (HttpMessage ''stage is required'')
      else if trim_space (cf_Action inp) = [] then Inl (HttpMessage ''action is required'')
      else if (cf_Action inp = pub_FeedbackActionReject \<or> cf_Action inp = pub_FeedbackActionRework) \<and> trim_space (cf_ReasonCode inp) = []
      then Inl (HttpMessage (''reason_code is required for '' @ cf_Action inp))
      else if trim_space (cf_Severity inp) = [] then Inl (HttpMessage ''severity is required'')
      else if cf_InfluenceWeight inp \<le> 0 then Inl (HttpMessage ''influence_weight must be > 0'')
      else Inr ())"

definition pub_feedbackInput :: "string \<Rightarrow> pub_feedbackRequest \<Rightarrow> pub_CreateFeedbackInput" where
  "pub_feedbackInput scope req =
     \<lparr>cf_Scope = scope, cf_Stage = fr_Stage req, cf_Action = fr_Action req, cf_ReasonCode = fr_ReasonCode req,
      cf_Severity = fr_Severity req, cf_InfluenceWeight = fr_InfluenceWeight req, cf_Comment = fr_Comment req, cf_Actor = fr_Actor req\<rparr>"

definition pub_HandleAddBatchFeedback ::
  "'l audit_logger \<Rightarrow> clock \<Rightarrow> string \<Rightarrow> pub_feedbackRequest http_body \<Rightarrow> ('t, 'l) pub_Handler \<Rightarrow>
     (pub_fail, pub_Feedback) reply \<times> ('t, 'l) pub_Handler" where
  "pub_HandleAddBatchFeedback lg clk rawID body =
     pub_withPath rawID (\<lambda>bid. pub_withBody body (\<lambda>req h.
       let inp = pub_feedbackInput pub_FeedbackScopeBatch req in
       case pub_validateFeedbackInput inp pub_FeedbackScopeBatch of
         Inl e \<Rightarrow> (ReplyError StatusBadRequest e, h)
       | Inr _ \<Rightarrow> pub_finish lg StatusCreated
           (\<lambda>f. pub_event (fr_Actor req) ''publish.batch.add-feedback'' ''publish_batch'' bid
              [(''feedback_id'', GInt64 (fb_ID f)), (''scope'', GStr (fb_Scope f)), (''stage'', GStr (fb_Stage f)),
               (''feedback_action'', GStr (fb_Action f)), (''reason_code'', GStr (fb_ReasonCode f)),
               (''influence_weight'', GFloat (fb_InfluenceWeight f)), (''publish_batch_id'', GInt64 (fb_PublishBatchID f)),
               (''publish_batch_item_id'', GInt64 (fb_PublishBatchItemID f))])
           (pub_AddBatchFeedback clk bid inp (ph_svc h)) h))"

definition pub_HandleAddItemFeedback ::
  "'l audit_logger \<Rightarrow> clock \<Rightarrow> string \<Rightarrow> string \<Rightarrow> pub_feedbackRequest http_body \<Rightarrow> ('t, 'l) pub_Handler \<Rightarrow>
     (pub_fail, pub_Feedback) reply \<times> ('t, 'l) pub_Handler" where
  "pub_HandleAddItemFeedback lg clk rawID rawItem body =
     pub_withPath rawID (\<lambda>bid. pub_withPath rawItem (\<lambda>iid. pub_withBody body (\<lambda>req h.
       let inp = pub_feedbackInput pub_FeedbackScopeItem req in
       case pub_validateFeedbackInput inp pub_FeedbackScopeItem of
         Inl e \<Rightarrow> (ReplyError StatusBadRequest e, h)
       | Inr _ \<Rightarrow> pub_finish lg StatusCreated
           (\<lambda>f. pub_event (fr_Actor req) ''publish.batch.add-item-feedback'' ''publish_batch_item'' iid
              [(''feedback_id'', GInt64 (fb_ID f)), (''publish_batch_id'', GInt64 bid),
               (''publish_batch_item_id'', GInt64 (fb_PublishBatchItemID f)), (''scope'', GStr (fb_Scope f)),
               (''stage'', GStr (fb_Stage f)), (''feedback_action'', GStr (fb_Action f)), (''reason_code'', GStr (fb_ReasonCode f)),
               (''influence_weight'', GFloat (fb_InfluenceWeight f))])
           (pub_AddItemFeedback clk bid iid inp (ph_svc h)) h)))"

end
