(* ===== verification/Publish_Handler_Claims.thy ===== *)
theory Publish_Handler_Claims
  imports Publish_Handler
begin

section \<open>Publishing: what the trail of the handlers shows\<close>

text \<open>
  The requests that change a batch as one type, a server that answers them one after the other on the in-memory log, and
  the exact trail: one event for each request answered with success, in their order, under the name the caller gave.
\<close>

datatype pub_request =
    RqCreate "pub_CreateBatchInput http_body"
  | RqReplace string "pub_ReplaceBatchItemsInput http_body"
  | RqReviewApprove string "pub_ApprovalInput http_body"
  | RqReviewReject string "pub_ApprovalInput http_body"
  | RqReviewRework string "pub_ApprovalInput http_body"
  | RqOwnerApprove string "pub_ApprovalInput http_body"
  | RqOwnerReject string "pub_ApprovalInput http_body"
  | RqOwnerRework string "pub_ApprovalInput http_body"
  | RqBatchFeedback string "pub_feedbackRequest http_body"
  | RqItemFeedback string string "pub_feedbackRequest http_body"

text \<open>A reply and the state as a status and the state.\<close>

definition pub_status :: "('e, 'a) reply \<times> 'h \<Rightarrow> int \<times> 'h" where
  "pub_status r = (reply_status (fst r), snd r)"

fun pub_answer ::
  "'t pub_create \<Rightarrow> clock \<Rightarrow> pub_request \<Rightarrow> ('t, audit_Event list) pub_Handler \<Rightarrow> int \<times> ('t, audit_Event list) pub_Handler" where
  "pub_answer create clk (RqCreate b) h = pub_status (pub_HandleCreateBatch audit_Record clk b h)"
| "pub_answer create clk (RqReplace i b) h = pub_status (pub_HandleReplaceBatchItems audit_Record clk i b h)"
| "pub_answer create clk (RqReviewApprove i b) h = pub_status (pub_HandleReviewApprove audit_Record clk i b h)"
| "pub_answer create clk (RqReviewReject i b) h = pub_status (pub_HandleReviewReject audit_Record clk i b h)"
| "pub_answer create clk (RqReviewRework i b) h = pub_status (pub_HandleReviewRework audit_Record clk i b h)"
| "pub_answer create clk (RqOwnerApprove i b) h = pub_status (pub_HandleOwnerApprove create audit_Record clk i b h)"
| "pub_answer create clk (RqOwnerReject i b) h = pub_status (pub_HandleOwnerReject audit_Record clk i b h)"
| "pub_answer create clk (RqOwnerRework i b) h = pub_status (pub_HandleOwnerRework audit_Record clk i b h)"
| "pub_answer create clk (RqBatchFeedback i b) h = pub_status (pub_HandleAddBatchFeedback audit_Record clk i b h)"
| "pub_answer create clk (RqItemFeedback i j b) h = pub_status (pub_HandleAddItemFeedback audit_Record clk i j b h)"

text \<open>Each request has a clock of its own.\<close>

fun pub_answer_all ::
  "'t pub_create \<Rightarrow> (clock \<times> pub_request) list \<Rightarrow> ('t, audit_Event list) pub_Handler \<Rightarrow> int list \<times> ('t, audit_Event list) pub_Handler" where
  "pub_answer_all create [] h = ([], h)"
| "pub_answer_all create ((clk, rq) # rqs) h =
     (let (st, h1) = pub_answer create clk rq h; (sts, h2) = pub_answer_all create rqs h1 in (st # sts, h2))"

text \<open>Who the request says is acting, and what it does.\<close>

definition body_actor :: "('i \<Rightarrow> string) \<Rightarrow> 'i http_body \<Rightarrow> string" where
  "body_actor f body = (case body of Body i \<Rightarrow> f i | _ \<Rightarrow> [])"

fun pub_signed :: "pub_request \<Rightarrow> string \<times> string" where
  "pub_signed (RqCreate b) = ([], ''publish.batch.create'')"
| "pub_signed (RqReplace i b) = (body_actor ri_Actor b, ''publish.batch.replace-items'')"
| "pub_signed (RqReviewApprove i b) = (body_actor ai_Actor b, ''publish.batch.review-approve'')"
| "pub_signed (RqReviewReject i b) = (body_actor ai_Actor b, ''publish.batch.review-reject'')"
| "pub_signed (RqReviewRework i b) = (body_actor ai_Actor b, ''publish.batch.review-rework'')"
| "pub_signed (RqOwnerApprove i b) = (body_actor ai_Actor b, ''publish.batch.owner-approve'')"
| "pub_signed (RqOwnerReject i b) = (body_actor ai_Actor b, ''publish.batch.owner-reject'')"
| "pub_signed (RqOwnerRework i b) = (body_actor ai_Actor b, ''publish.batch.owner-rework'')"
| "pub_signed (RqBatchFeedback i b) = (body_actor fr_Actor b, ''publish.batch.add-feedback'')"
| "pub_signed (RqItemFeedback i j b) = (body_actor fr_Actor b, ''publish.batch.add-item-feedback'')"

definition pub_entry :: "pub_request \<Rightarrow> string \<times> string" where
  "pub_entry rq = (audit_NormalizeActor (fst (pub_signed rq)), snd (pub_signed rq))"

definition pub_trail :: "audit_Event list \<Rightarrow> (string \<times> string) list" where
  "pub_trail l = [(ev_Actor e, ev_Action e). e \<leftarrow> l]"

text \<open>The entries the answers call for.\<close>

fun pub_owed :: "(clock \<times> pub_request) list \<Rightarrow> int list \<Rightarrow> (string \<times> string) list" where
  "pub_owed ((clk, rq) # rqs) (st # sts) = (if st < 300 then [pub_entry rq] else []) @ pub_owed rqs sts"
| "pub_owed _ _ = []"


subsection \<open>One request\<close>

definition pub_logged :: "(string \<times> string) \<Rightarrow> audit_Event list \<Rightarrow> (pub_fail, 'a) reply \<times> ('t, audit_Event list) pub_Handler \<Rightarrow> bool" where
  "pub_logged en l r \<longleftrightarrow>
     (\<exists>l'. ph_audit (snd r) = Some l' \<and> pub_trail l' = pub_trail l @ (if reply_status (fst r) < 300 then [en] else []))"

lemma pub_logged_kept: "ph_audit h = Some l \<Longrightarrow> 300 \<le> st \<Longrightarrow> pub_logged en l (ReplyError st e, h)"
  by (simp add: pub_logged_def)

lemma audit_actor_idem: "audit_NormalizeActor (audit_NormalizeActor a) = audit_NormalizeActor a"
proof -
  let ?ev = "\<lparr>ev_Actor = a, ev_Action = [], ev_ResourceType = [], ev_ResourceID = [], ev_Detail = None\<rparr>"
  have "ev_Actor (audit_normalizeEvent (audit_normalizeEvent ?ev)) = ev_Actor (audit_normalizeEvent ?ev)"
    by (simp only: audit_normalize_idem)
  then show ?thesis by (simp add: audit_normalizeEvent_def)
qed

lemma pub_finish_logged:
  assumes l: "ph_audit h = Some l" and st: "status < 300"
    and en: "\<And>x. (audit_NormalizeActor (ev_Actor (event x)), trim_space (ev_Action (event x))) = en"
  shows "pub_logged en l (pub_finish audit_Record status event out h)"
proof -
  obtain res s where out: "out = (res, s)" by (cases out)
  show ?thesis
  proof (cases res)
    case (Inl e)
    then have "pub_finish audit_Record status event out h
      = (ReplyError StatusBadRequest (HttpService (PubFailed e)), h\<lparr>ph_svc := s\<rparr>)" by (simp add: pub_finish_def out)
    then show ?thesis using l by (simp add: pub_logged_def status_defs)
  next
    case (Inr x)
    let ?ev = "event x"
    let ?ev' = "if ev_Actor ?ev \<noteq> [] then ?ev\<lparr>ev_Actor := audit_NormalizeActor (ev_Actor ?ev)\<rparr> else ?ev"
    have "pub_recordAudit audit_Record ?ev (h\<lparr>ph_svc := s\<rparr>)
      = (None, h\<lparr>ph_svc := s, ph_audit := Some (l @ [audit_normalizeEvent ?ev'])\<rparr>)"
      using l by (simp add: pub_recordAudit_def audit_recordAudit_def audit_Record_def Let_def)
    then have r: "pub_finish audit_Record status event out h
      = (Reply status x, h\<lparr>ph_svc := s, ph_audit := Some (l @ [audit_normalizeEvent ?ev'])\<rparr>)"
      using Inr by (simp add: pub_finish_def out)
    have "(ev_Actor (audit_normalizeEvent ?ev'), ev_Action (audit_normalizeEvent ?ev')) = en"
      using en [of x] by (auto simp: audit_normalizeEvent_def audit_actor_idem)
    then show ?thesis using st by (simp add: pub_logged_def r pub_trail_def)
  qed
qed

lemma pub_withPath_logged:
  assumes "ph_audit h = Some l" "\<And>i. pub_logged en l (f i h)"
  shows "pub_logged en l (pub_withPath raw f h)"
  using assms by (cases "path_int64 raw :: pub_fail + int") (simp_all add: pub_withPath_def pub_logged_kept status_defs)

lemma pub_withBody_logged:
  assumes "ph_audit h = Some l" "\<And>i. body = Body i \<Longrightarrow> pub_logged en l (f i h)"
  shows "pub_logged en l (pub_withBody body f h)"
  using assms by (cases body) (simp_all add: pub_withBody_def decode_body_def pub_logged_kept status_defs)

text \<open>The names of the actions are trimmed already.\<close>

lemma pub_action_trim:
  "trim_space ''publish.batch.create'' = ''publish.batch.create''"
  "trim_space ''publish.batch.replace-items'' = ''publish.batch.replace-items''"
  "trim_space ''publish.batch.review-approve'' = ''publish.batch.review-approve''"
  "trim_space ''publish.batch.review-reject'' = ''publish.batch.review-reject''"
  "trim_space ''publish.batch.review-rework'' = ''publish.batch.review-rework''"
  "trim_space ''publish.batch.owner-approve'' = ''publish.batch.owner-approve''"
  "trim_space ''publish.batch.owner-reject'' = ''publish.batch.owner-reject''"
  "trim_space ''publish.batch.owner-rework'' = ''publish.batch.owner-rework''"
  "trim_space ''publish.batch.add-feedback'' = ''publish.batch.add-feedback''"
  "trim_space ''publish.batch.add-item-feedback'' = ''publish.batch.add-item-feedback''"
  by code_simp+

lemmas pub_route_defs = pub_HandleCreateBatch_def pub_HandleReplaceBatchItems_def pub_handleDecision_def
  pub_HandleReviewApprove_def pub_HandleReviewReject_def pub_HandleReviewRework_def pub_HandleOwnerApprove_def
  pub_HandleOwnerReject_def pub_HandleOwnerRework_def pub_HandleAddBatchFeedback_def pub_HandleAddItemFeedback_def

lemma pub_validated_logged:
  assumes "ph_audit h = Some l" "pub_logged en l r"
  shows "pub_logged en l (case v of Inl e \<Rightarrow> (ReplyError StatusBadRequest e, h) | Inr _ \<Rightarrow> r)"
  using assms by (cases v) (simp_all add: pub_logged_kept status_defs)

definition pub_answered :: "(string \<times> string) \<Rightarrow> audit_Event list \<Rightarrow> int \<times> ('t, audit_Event list) pub_Handler \<Rightarrow> bool" where
  "pub_answered en l p \<longleftrightarrow>
     (\<exists>l'. ph_audit (snd p) = Some l' \<and> pub_trail l' = pub_trail l @ (if fst p < 300 then [en] else []))"

lemma pub_status_answered: "pub_logged en l r \<Longrightarrow> pub_answered en l (pub_status r)"
  by (simp add: pub_logged_def pub_status_def pub_answered_def)

lemmas pub_logged_rules = pub_withPath_logged pub_withBody_logged pub_validated_logged pub_finish_logged

lemma pub_answer_answered:
  assumes l: "ph_audit h = Some l"
  shows "pub_answered (pub_entry rq) l (pub_answer create clk rq h)"
  by (cases rq; simp only: pub_answer.simps pub_route_defs Let_def; intro pub_status_answered pub_logged_rules l;
      simp add: status_defs pub_event_def pub_entry_def pub_action_trim body_actor_def)

lemma pub_answer_all_logged:
  assumes "ph_audit h = Some l" "pub_answer_all create rqs h = (sts, h')"
  shows "\<exists>l'. ph_audit h' = Some l' \<and> pub_trail l' = pub_trail l @ pub_owed rqs sts"
  using assms
proof (induction rqs arbitrary: h l sts h')
  case Nil
  then show ?case by simp
next
  case (Cons q rqs)
  obtain clk rq where q: "q = (clk, rq)" by (cases q)
  obtain st h1 where one: "pub_answer create clk rq h = (st, h1)" by (cases "pub_answer create clk rq h")
  obtain ss h2 where rest: "pub_answer_all create rqs h1 = (ss, h2)" by (cases "pub_answer_all create rqs h1")
  obtain l1 where "ph_audit h1 = Some l1" "pub_trail l1 = pub_trail l @ (if st < 300 then [pub_entry rq] else [])"
    using pub_answer_answered [OF Cons.prems(1), of rq create clk] by (auto simp: one pub_answered_def)
  moreover from this obtain l2 where "ph_audit h2 = Some l2" "pub_trail l2 = pub_trail l1 @ pub_owed rqs ss"
    using Cons.IH [OF _ rest, where l = l1] by auto
  ultimately show ?case using Cons.prems(2) by (auto simp: q one rest)
qed

subsection \<open>The exact trail\<close>

text \<open>
  C20. Along every history of requests that change a batch (creation, replacement of items, the six decisions, both kinds of
  feedback), answered one after the other by the handlers over the service and the in-memory log, the log grows by
  exactly one event for every request answered with success, in the order of the requests, under the action of its route
  and the normalised name the caller gave; a request answered with an error, malformed ones included, leaves no event.
\<close>

theorem pub_trail_exact:
  assumes "ph_audit h = Some l" "pub_answer_all create rqs h = (sts, h')"
  shows "\<exists>l'. ph_audit h' = Some l' \<and> pub_trail l' = pub_trail l @ pub_owed rqs sts"
  using pub_answer_all_logged [OF assms] .


text \<open>A history on an empty repository: a batch, a malformed path, a decision and one for a batch that does not exist.\<close>

definition pub_trailStart :: "(tasks_Repo, audit_Event list) pub_Handler" where
  "pub_trailStart = \<lparr>ph_svc = \<lparr>psv_repo = pub_NewInMemoryRepository, psv_tasks = None\<rparr>, ph_audit = Some []\<rparr>"


definition pub_trailReqs :: "(clock \<times> pub_request) list" where
  "pub_trailReqs =
     [(\<lambda>_. 5, RqCreate (Body \<lparr>cb_ProjectID = 1, cb_SnapshotID = 3, cb_Source = [], cb_RuleSummary = [],
         cb_Items = [\<lparr>ci_CandidateID = 1, ci_TaskID = 2, ci_DatasetID = 3, ci_SnapshotID = 3, ci_ItemPayload = []\<rparr>]\<rparr>)),
      (\<lambda>_. 6, RqReviewApprove ''x'' (Body \<lparr>ai_Actor = ''ann'', ai_Feedback = []\<rparr>)),
      (\<lambda>_. 7, RqReviewApprove ''1'' (Body \<lparr>ai_Actor = '' bob '', ai_Feedback = []\<rparr>)),
      (\<lambda>_. 8, RqOwnerReject ''2'' (Body \<lparr>ai_Actor = ''eve'', ai_Feedback = []\<rparr>))]"

lemma pub_trail_statuses: "fst (pub_answer_all tasks_CreateTask pub_trailReqs pub_trailStart) = [201, 400, 200, 400]"
  by code_simp


lemma pub_trail_owed:
  "pub_owed pub_trailReqs [201, 400, 200, 400] = [(''system'', ''publish.batch.create''), (''bob'', ''publish.batch.review-approve'')]"
  by code_simp

theorem pub_trail_exact_witness:
  "\<exists>l'. ph_audit (snd (pub_answer_all tasks_CreateTask pub_trailReqs pub_trailStart)) = Some l'
     \<and> pub_trail l' = [(''system'', ''publish.batch.create''), (''bob'', ''publish.batch.review-approve'')]"
proof -
  have "ph_audit pub_trailStart = Some []" by (simp add: pub_trailStart_def)
  moreover have "pub_answer_all tasks_CreateTask pub_trailReqs pub_trailStart
      = ([201, 400, 200, 400], snd (pub_answer_all tasks_CreateTask pub_trailReqs pub_trailStart))"
    using pub_trail_statuses by (metis prod.collapse)
  ultimately show ?thesis
    using pub_trail_exact [of pub_trailStart "[]" tasks_CreateTask pub_trailReqs "[201, 400, 200, 400]"
        "snd (pub_answer_all tasks_CreateTask pub_trailReqs pub_trailStart)"]
    by (simp add: pub_trail_owed pub_trail_def)
qed

end
