(* ===== verification/Job_Postgres.thy ===== *)
theory Job_Postgres
  imports Job_Repo Json_Clone
begin

section \<open>Jobs: the Postgres repository\<close>

text \<open>
  \<open>internal/jobs/postgres_repository.go\<close> over the tables \<open>jobs\<close>, \<open>job_events\<close> and \<open>worker_instances\<close> of
  \<open>migrations/\<close>. A table is the list of its rows in insertion order; a nullable column is an option. Each SQL text is one
  definition \<open>pg_stmt_...\<close>, which takes the database to the database: an operation reads, decides in Go, and then
  runs a statement, with no transaction around the two. So an operation is the composition of its
  parts for one caller, and the parts are there to be interleaved for several.

  The database is reachable and texts are valid UTF-8 without a NUL. A \<open>timestamptz\<close> holds whole microseconds.
  Violated constraints are errors of the statement; the number a sequence gave to a failed insert is lost.
  A \<open>jsonb\<close> column keeps the value that was marshalled; reading it gives the value JSON decodes to.
\<close>

record pg_jobRow =
  jc_id :: int
  jc_project_id :: int
  jc_dataset_id :: "int option"
  jc_snapshot_id :: "int option"
  jc_job_type :: string
  jc_status :: string
  jc_required_resource_type :: string
  jc_required_capabilities :: "string list"
  jc_idempotency_key :: string
  jc_worker_id :: "string option"
  jc_payload :: "obj option"
  jc_result_artifact_ids :: "int list"
  jc_result_ref :: obj
  jc_total_items :: int
  jc_succeeded_items :: int
  jc_failed_items :: int
  jc_created_at :: time
  jc_started_at :: "time option"
  jc_finished_at :: "time option"
  jc_lease_until :: "time option"
  jc_retry_count :: int
  jc_error_code :: "string option"
  jc_error_msg :: "string option"

record pg_Jobs =
  pg_projects :: "int list"
  pg_datasets :: "int list"
  pg_snapshots :: "int list"
  pg_items :: "int list"
  pg_jobs :: "pg_jobRow list"
  pg_nextJob :: int
  pg_events :: "jobs_Event list"
  pg_nextEvent :: int
  pg_workers :: "jobs_Worker list"

type_synonym 'a pg_result = "(jobs_error, 'a, pg_Jobs) outcome"

definition pg_timestamptz :: "time \<Rightarrow> time" where
  "pg_timestamptz t = t div 1000 * 1000"

definition pg_int4 :: "int \<Rightarrow> bool" where
  "pg_int4 i \<longleftrightarrow> - (2 ^ 31) \<le> i \<and> i < 2 ^ 31"

definition pg_coalesce :: "'a option \<Rightarrow> 'a option \<Rightarrow> 'a option" where
  "pg_coalesce a b = (if a = None then b else a)"

definition pg_nullif0 :: "int \<Rightarrow> int option" where
  "pg_nullif0 i = (if i = 0 then None else Some i)"

definition pg_uniqueViolation :: jobs_error where
  "pg_uniqueViolation = ExternalError ''duplicate key value violates unique constraint''"

definition pg_foreignKeyViolation :: jobs_error where
  "pg_foreignKeyViolation = ExternalError ''insert violates foreign key constraint''"

definition pg_checkViolation :: jobs_error where
  "pg_checkViolation = ExternalError ''new row violates check constraint''"

definition pg_outOfRange :: jobs_error where
  "pg_outOfRange = ExternalError ''integer out of range''"

subsection \<open>Rows\<close>

definition pg_text :: "string option \<Rightarrow> string" where
  "pg_text t = (case t of None \<Rightarrow> [] | Some s \<Rightarrow> s)"

definition pg_number :: "int option \<Rightarrow> int" where
  "pg_number i = (case i of None \<Rightarrow> 0 | Some i \<Rightarrow> i)"

definition pg_scanJob :: "pg_jobRow \<Rightarrow> jobs_Job" where
  "pg_scanJob r =
     (let ref = json_clone (jc_result_ref r) in
      \<lparr>job_ID = jc_id r, job_ProjectID = jc_project_id r, job_DatasetID = pg_number (jc_dataset_id r),
       job_SnapshotID = pg_number (jc_snapshot_id r), job_JobType = jc_job_type r, job_Status = jc_status r,
       job_RequiredResourceType = jc_required_resource_type r, job_RequiredCapabilities = jc_required_capabilities r,
       job_IdempotencyKey = jc_idempotency_key r, job_WorkerID = pg_text (jc_worker_id r),
       job_Payload = Some (case jc_payload r of None \<Rightarrow> [] | Some p \<Rightarrow> json_clone p),
       job_TotalItems = jc_total_items r, job_SucceededItems = jc_succeeded_items r, job_FailedItems = jc_failed_items r,
       job_CreatedAt = jc_created_at r, job_StartedAt = jc_started_at r, job_FinishedAt = jc_finished_at r,
       job_LeaseUntil = jc_lease_until r, job_RetryCount = jc_retry_count r, job_ErrorCode = pg_text (jc_error_code r),
       job_ErrorMsg = pg_text (jc_error_msg r), job_ResultType = jobs_stringValue (obj_get ref ''result_type''),
       job_ResultCount = jobs_int64Value (obj_get ref ''result_count''), job_ResultArtifactIDs = jc_result_artifact_ids r,
       job_ResultRef = ref\<rparr>)"

definition pg_scanEvent :: "jobs_Event \<Rightarrow> jobs_Event" where
  "pg_scanEvent e = e\<lparr>ev_Detail := json_clone (ev_Detail e)\<rparr>"

definition pg_row :: "int \<Rightarrow> pg_Jobs \<Rightarrow> pg_jobRow option" where
  "pg_row jid db = find (\<lambda>r. jc_id r = jid) (pg_jobs db)"

text \<open>An \<open>update jobs set ... where id = $1\<close> and the number of rows it affects.\<close>

definition pg_update :: "int \<Rightarrow> (pg_jobRow \<Rightarrow> pg_jobRow) \<Rightarrow> pg_Jobs \<Rightarrow> nat \<times> pg_Jobs" where
  "pg_update jid f db =
     (length (filter (\<lambda>r. jc_id r = jid) (pg_jobs db)),
      db\<lparr>pg_jobs := map (\<lambda>r. if jc_id r = jid then f r else r) (pg_jobs db)\<rparr>)"

definition pg_exec :: "nat \<times> pg_Jobs \<Rightarrow> unit pg_result" where
  "pg_exec x = (Inr (), snd x)"

definition pg_execAffected :: "int \<Rightarrow> nat \<times> pg_Jobs \<Rightarrow> unit pg_result" where
  "pg_execAffected jid x = (if fst x = 0 then (Inl (JobNotFound jid), snd x) else (Inr (), snd x))"

subsection \<open>Creation and lookup\<close>

definition pg_Get :: "int \<Rightarrow> pg_Jobs \<Rightarrow> jobs_Job option" where
  "pg_Get jid db = map_option pg_scanJob (pg_row jid db)"

definition pg_sameKey :: "int \<Rightarrow> string \<Rightarrow> string \<Rightarrow> pg_jobRow \<Rightarrow> bool" where
  "pg_sameKey p typ key r \<longleftrightarrow> jc_project_id r = p \<and> jc_job_type r = typ \<and> jc_idempotency_key r = key"

definition pg_findByKey :: "int \<Rightarrow> string \<Rightarrow> string \<Rightarrow> pg_Jobs \<Rightarrow> jobs_Job option" where
  "pg_findByKey p typ key db = map_option pg_scanJob (find (pg_sameKey p typ key) (pg_jobs db))"

definition pg_newRow :: "time \<Rightarrow> int \<Rightarrow> jobs_CreateJobInput \<Rightarrow> pg_jobRow" where
  "pg_newRow now jid inp =
     \<lparr>jc_id = jid, jc_project_id = cj_ProjectID inp, jc_dataset_id = pg_nullif0 (cj_DatasetID inp),
      jc_snapshot_id = pg_nullif0 (cj_SnapshotID inp), jc_job_type = cj_JobType inp, jc_status = jobs_StatusQueued,
      jc_required_resource_type = cj_RequiredResourceType inp, jc_required_capabilities = cj_RequiredCapabilities inp,
      jc_idempotency_key = cj_IdempotencyKey inp, jc_worker_id = None, jc_payload = cj_Payload inp,
      jc_result_artifact_ids = [], jc_result_ref = [], jc_total_items = 0, jc_succeeded_items = 0, jc_failed_items = 0,
      jc_created_at = pg_timestamptz now, jc_started_at = None, jc_finished_at = None, jc_lease_until = None,
      jc_retry_count = 0, jc_error_code = None, jc_error_msg = None\<rparr>"

definition pg_references :: "int option \<Rightarrow> int list \<Rightarrow> bool" where
  "pg_references i keys \<longleftrightarrow> (case i of None \<Rightarrow> True | Some i \<Rightarrow> i \<in> set keys)"

text \<open>The constraints of a row of \<open>jobs\<close>, beside the unique key.\<close>

definition pg_resources :: "string list" where
  "pg_resources = [''cpu'', ''gpu'', ''mixed'']"

definition pg_linked :: "pg_Jobs \<Rightarrow> pg_jobRow \<Rightarrow> bool" where
  "pg_linked db r \<longleftrightarrow> jc_project_id r \<in> set (pg_projects db) \<and> pg_references (jc_dataset_id r) (pg_datasets db) \<and>
     pg_references (jc_snapshot_id r) (pg_snapshots db)"

definition pg_stmt_insertJob :: "time \<Rightarrow> jobs_CreateJobInput \<Rightarrow> pg_Jobs \<Rightarrow> jobs_Job pg_result" where
  "pg_stmt_insertJob now inp db =
     (let row = pg_newRow now (pg_nextJob db) inp; db' = db\<lparr>pg_nextJob := pg_nextJob db + 1\<rparr> in
      if jc_required_resource_type row \<notin> set pg_resources then (Inl pg_checkViolation, db')
      else if find (pg_sameKey (jc_project_id row) (jc_job_type row) (jc_idempotency_key row)) (pg_jobs db) \<noteq> None
      then (Inl pg_uniqueViolation, db')
      else if \<not> pg_linked db row then (Inl pg_foreignKeyViolation, db')
      else (Inr (pg_scanJob row), db'\<lparr>pg_jobs := pg_jobs db @ [row]\<rparr>))"

definition pg_CreateOrGet :: "time \<Rightarrow> jobs_CreateJobInput \<Rightarrow> pg_Jobs \<Rightarrow> (jobs_Job \<times> bool) pg_result" where
  "pg_CreateOrGet now inp db =
     (case pg_findByKey (cj_ProjectID inp) (cj_JobType inp) (cj_IdempotencyKey inp) db of
        Some existing \<Rightarrow> (Inr (existing, False), db)
      | None \<Rightarrow> and_then (pg_stmt_insertJob now inp db) (\<lambda>job db'. (Inr (job, True), db')))"

subsection \<open>Changing a job\<close>

text \<open>The part of an operation that reads and decides: the job, or the error the caller gets.\<close>

definition pg_checked :: "int \<Rightarrow> (jobs_Job \<Rightarrow> jobs_error + unit) \<Rightarrow> pg_Jobs \<Rightarrow> jobs_error + jobs_Job" where
  "pg_checked jid check db =
     (case pg_Get jid db of
        None \<Rightarrow> Inl (JobNotFound jid)
      | Some job \<Rightarrow> (case check job of Inl e \<Rightarrow> Inl e | Inr _ \<Rightarrow> Inr job))"

text \<open>The check constraint on the status, which an update that meets no row does not violate.\<close>

definition pg_badStatus :: "int \<Rightarrow> string \<Rightarrow> pg_Jobs \<Rightarrow> bool" where
  "pg_badStatus jid st db \<longleftrightarrow> pg_row jid db \<noteq> None \<and> st \<notin> set jobs_statuses"

definition pg_stmt_status :: "int \<Rightarrow> string \<Rightarrow> time option \<Rightarrow> time option \<Rightarrow> pg_Jobs \<Rightarrow> unit pg_result" where
  "pg_stmt_status jid st startedAt finishedAt db =
     (if pg_badStatus jid st db then (Inl pg_checkViolation, db)
      else pg_exec (pg_update jid (\<lambda>r. r\<lparr>jc_status := st,
             jc_started_at := pg_coalesce (map_option pg_timestamptz startedAt) (jc_started_at r),
             jc_finished_at := pg_coalesce (map_option pg_timestamptz finishedAt) (jc_finished_at r),
             jc_lease_until := (if st = jobs_StatusQueued then None else jc_lease_until r)\<rparr>) db))"

definition pg_UpdateStatus :: "time \<Rightarrow> int \<Rightarrow> string \<Rightarrow> pg_Jobs \<Rightarrow> unit pg_result" where
  "pg_UpdateStatus now jid st db =
     (case pg_checked jid (\<lambda>job. jobs_CanTransition (job_Status job) st) db of
        Inl e \<Rightarrow> (Inl e, db)
      | Inr job \<Rightarrow> pg_stmt_status jid st (if st = jobs_StatusRunning then Some now else None)
                     (if jobs_terminal st then Some now else None) db)"

definition pg_stmt_lease :: "int \<Rightarrow> string \<Rightarrow> time \<Rightarrow> pg_Jobs \<Rightarrow> nat \<times> pg_Jobs" where
  "pg_stmt_lease jid workerID leaseUntil =
     pg_update jid (\<lambda>r. r\<lparr>jc_worker_id := Some workerID, jc_lease_until := Some (pg_timestamptz leaseUntil)\<rparr>)"

definition pg_TouchLease :: "int \<Rightarrow> string \<Rightarrow> time \<Rightarrow> pg_Jobs \<Rightarrow> unit pg_result" where
  "pg_TouchLease jid workerID leaseUntil db = pg_execAffected jid (pg_stmt_lease jid workerID leaseUntil db)"

definition pg_Claim :: "time \<Rightarrow> int \<Rightarrow> string \<Rightarrow> time \<Rightarrow> pg_Jobs \<Rightarrow> jobs_Job pg_result" where
  "pg_Claim now jid workerID leaseUntil db =
     (case pg_Get jid db of
        None \<Rightarrow> (Inl (JobNotFound jid), db)
      | Some job \<Rightarrow>
          and_then (if job_Status job \<noteq> jobs_StatusRunning then pg_UpdateStatus now jid jobs_StatusRunning db else (Inr (), db))
            (\<lambda>_ db1. and_then (pg_TouchLease jid workerID leaseUntil db1)
              (\<lambda>_ db2. case pg_Get jid db2 of None \<Rightarrow> (Inl (JobNotFound jid), db2) | Some job \<Rightarrow> (Inr job, db2))))"

definition pg_counters :: "int \<Rightarrow> int \<Rightarrow> int \<Rightarrow> bool" where
  "pg_counters tot succeeded failed \<longleftrightarrow> pg_int4 tot \<and> pg_int4 succeeded \<and> pg_int4 failed"

definition pg_stmt_progress :: "int \<Rightarrow> string \<Rightarrow> int \<Rightarrow> int \<Rightarrow> int \<Rightarrow> time option \<Rightarrow> pg_Jobs \<Rightarrow> unit pg_result" where
  "pg_stmt_progress jid workerID tot succeeded failed startedAt db =
     (if \<not> pg_counters tot succeeded failed then (Inl pg_outOfRange, db)
      else pg_exec (pg_update jid (\<lambda>r. r\<lparr>jc_status := jobs_StatusRunning, jc_worker_id := Some workerID, jc_total_items := tot,
             jc_succeeded_items := succeeded, jc_failed_items := failed,
             jc_started_at := pg_coalesce (jc_started_at r) (map_option pg_timestamptz startedAt)\<rparr>) db))"

definition pg_UpdateProgress :: "time \<Rightarrow> int \<Rightarrow> string \<Rightarrow> int \<Rightarrow> int \<Rightarrow> int \<Rightarrow> pg_Jobs \<Rightarrow> unit pg_result" where
  "pg_UpdateProgress now jid workerID tot succeeded failed db =
     (case pg_checked jid (\<lambda>job. if job_Status job \<noteq> jobs_StatusRunning
                                  then jobs_CanTransition (job_Status job) jobs_StatusRunning else Inr ()) db of
        Inl e \<Rightarrow> (Inl e, db)
      | Inr job \<Rightarrow> pg_stmt_progress jid workerID tot succeeded failed
                     (if job_Status job \<noteq> jobs_StatusRunning then Some now else None) db)"

definition pg_stmt_complete ::
  "int \<Rightarrow> string \<Rightarrow> string \<Rightarrow> int \<Rightarrow> int \<Rightarrow> int \<Rightarrow> time option \<Rightarrow> time \<Rightarrow> pg_Jobs \<Rightarrow> unit pg_result" where
  "pg_stmt_complete jid workerID st tot succeeded failed startedAt now db =
     (if \<not> pg_counters tot succeeded failed then (Inl pg_outOfRange, db)
      else if pg_badStatus jid st db then (Inl pg_checkViolation, db)
      else pg_exec (pg_update jid (\<lambda>r. r\<lparr>jc_status := st, jc_worker_id := Some workerID, jc_total_items := tot,
             jc_succeeded_items := succeeded, jc_failed_items := failed,
             jc_started_at := pg_coalesce (jc_started_at r) (map_option pg_timestamptz startedAt),
             jc_finished_at := Some (pg_timestamptz now)\<rparr>) db))"

definition pg_completable :: "string \<Rightarrow> jobs_Job \<Rightarrow> jobs_error + unit" where
  "pg_completable st job =
     (let fromStatus = (if job_Status job = jobs_StatusQueued \<or> job_Status job = jobs_StatusRetryWaiting
                        then jobs_StatusRunning else job_Status job)
      in jobs_CanTransition fromStatus st)"

definition pg_Complete :: "time \<Rightarrow> int \<Rightarrow> string \<Rightarrow> string \<Rightarrow> int \<Rightarrow> int \<Rightarrow> int \<Rightarrow> pg_Jobs \<Rightarrow> unit pg_result" where
  "pg_Complete now jid workerID st tot succeeded failed db =
     (case pg_checked jid (pg_completable st) db of
        Inl e \<Rightarrow> (Inl e, db)
      | Inr job \<Rightarrow> pg_stmt_complete jid workerID st tot succeeded failed
                     (if job_StartedAt job = None then Some now else None) now db)"

definition pg_stmt_retryCount :: "int \<Rightarrow> pg_Jobs \<Rightarrow> (jobs_error + nat) \<times> pg_Jobs" where
  "pg_stmt_retryCount jid db =
     (if \<exists>r \<in> set (pg_jobs db). jc_id r = jid \<and> \<not> pg_int4 (jc_retry_count r + 1) then (Inl pg_outOfRange, db)
      else (let (n, db') = pg_update jid (\<lambda>r. r\<lparr>jc_retry_count := jc_retry_count r + 1\<rparr>) db in (Inr n, db')))"

definition pg_IncrementRetryCount :: "int \<Rightarrow> pg_Jobs \<Rightarrow> unit pg_result" where
  "pg_IncrementRetryCount jid db = and_then (pg_stmt_retryCount jid db) (\<lambda>n db'. pg_execAffected jid (n, db'))"

definition pg_stmt_retryWaiting :: "int \<Rightarrow> time \<Rightarrow> pg_Jobs \<Rightarrow> nat \<times> pg_Jobs" where
  "pg_stmt_retryWaiting jid retryAt =
     pg_update jid (\<lambda>r. r\<lparr>jc_status := jobs_StatusRetryWaiting, jc_lease_until := Some (pg_timestamptz retryAt)\<rparr>)"

definition pg_MarkRetryWaiting :: "int \<Rightarrow> time \<Rightarrow> pg_Jobs \<Rightarrow> unit pg_result" where
  "pg_MarkRetryWaiting jid retryAt db =
     (case pg_checked jid (\<lambda>job. jobs_CanTransition (job_Status job) jobs_StatusRetryWaiting) db of
        Inl e \<Rightarrow> (Inl e, db)
      | Inr job \<Rightarrow> pg_execAffected jid (pg_stmt_retryWaiting jid retryAt db))"

definition pg_stmt_failed :: "int \<Rightarrow> string \<Rightarrow> string \<Rightarrow> time \<Rightarrow> pg_Jobs \<Rightarrow> nat \<times> pg_Jobs" where
  "pg_stmt_failed jid code msg now =
     pg_update jid (\<lambda>r. r\<lparr>jc_status := jobs_StatusFailed, jc_error_code := Some code, jc_error_msg := Some msg,
       jc_finished_at := Some (pg_timestamptz now)\<rparr>)"

definition pg_MarkFailed :: "time \<Rightarrow> int \<Rightarrow> string \<Rightarrow> string \<Rightarrow> pg_Jobs \<Rightarrow> unit pg_result" where
  "pg_MarkFailed now jid code msg db = pg_execAffected jid (pg_stmt_failed jid code msg now db)"

definition pg_stmt_resultRef :: "int \<Rightarrow> obj \<Rightarrow> int list \<Rightarrow> pg_Jobs \<Rightarrow> nat \<times> pg_Jobs" where
  "pg_stmt_resultRef jid ref artifactIDs =
     pg_update jid (\<lambda>r. r\<lparr>jc_result_ref := ref, jc_result_artifact_ids := artifactIDs\<rparr>)"

definition pg_StoreResultRef :: "int \<Rightarrow> obj \<Rightarrow> pg_Jobs \<Rightarrow> unit pg_result" where
  "pg_StoreResultRef jid resultRef db =
     (if resultRef = [] then (Inr (), db)
      else case pg_Get jid db of
        None \<Rightarrow> (Inl (JobNotFound jid), db)
      | Some job \<Rightarrow>
          let merged = jobs_mergeResultRefs (job_ResultRef job) resultRef in
          pg_execAffected jid (pg_stmt_resultRef jid merged (jobs_extractInt64Slice (obj_get merged ''artifact_ids'')) db))"

subsection \<open>Events and workers\<close>

definition pg_stmt_insertEvent ::
  "time \<Rightarrow> int \<Rightarrow> int option \<Rightarrow> string \<Rightarrow> string \<Rightarrow> string \<Rightarrow> obj \<Rightarrow> pg_Jobs \<Rightarrow> jobs_Event pg_result" where
  "pg_stmt_insertEvent now jid itemID level typ msg detail db =
     (let ev = \<lparr>ev_ID = pg_nextEvent db, ev_JobID = jid, ev_ItemID = itemID, ev_EventLevel = level, ev_EventType = typ,
                ev_Message = msg, ev_Detail = detail, ev_TS = pg_timestamptz now\<rparr>;
          db' = db\<lparr>pg_nextEvent := pg_nextEvent db + 1\<rparr>
      in if pg_row jid db = None \<or> \<not> pg_references itemID (pg_items db) then (Inl pg_foreignKeyViolation, db')
         else (Inr (pg_scanEvent ev), db'\<lparr>pg_events := pg_events db @ [ev]\<rparr>))"

definition pg_AppendEvent ::
  "time \<Rightarrow> int \<Rightarrow> int option \<Rightarrow> string \<Rightarrow> string \<Rightarrow> string \<Rightarrow> obj \<Rightarrow> pg_Jobs \<Rightarrow> jobs_Event pg_result" where
  "pg_AppendEvent now jid itemID level typ msg detail db =
     (case pg_Get jid db of
        None \<Rightarrow> (Inl (JobNotFound jid), db)
      | Some _ \<Rightarrow> pg_stmt_insertEvent now jid itemID level typ msg detail db)"

definition pg_ListEvents :: "int \<Rightarrow> pg_Jobs \<Rightarrow> jobs_Event list" where
  "pg_ListEvents jid db = map pg_scanEvent (sort_key ev_ID (filter (\<lambda>e. ev_JobID e = jid) (pg_events db)))"

definition pg_lanes :: "string list" where
  "pg_lanes = [''jobs:cpu'', ''jobs:gpu'', ''jobs:mixed'']"

definition pg_UpsertWorker :: "time \<Rightarrow> jobs_RegisterWorkerInput \<Rightarrow> pg_Jobs \<Rightarrow> jobs_Worker pg_result" where
  "pg_UpsertWorker now inp db =
     (if rw_ResourceLane inp \<notin> set pg_lanes then (Inl pg_checkViolation, db)
      else
        let t = pg_timestamptz now;
            fresh = \<lparr>worker_WorkerID = rw_WorkerID inp, worker_ResourceLane = rw_ResourceLane inp,
                     worker_Capabilities = rw_Capabilities inp, worker_JobTypes = rw_JobTypes inp,
                     worker_RegisteredAt = t, worker_LastSeenAt = t\<rparr>
        in case find (\<lambda>w. worker_WorkerID w = rw_WorkerID inp) (pg_workers db) of
             None \<Rightarrow> (Inr fresh, db\<lparr>pg_workers := pg_workers db @ [fresh]\<rparr>)
           | Some old \<Rightarrow>
               let w = fresh\<lparr>worker_RegisteredAt := worker_RegisteredAt old\<rparr> in
               (Inr w, db\<lparr>pg_workers := map (\<lambda>v. if worker_WorkerID v = rw_WorkerID inp then w else v) (pg_workers db)\<rparr>))"

definition pg_ListWorkers :: "pg_Jobs \<Rightarrow> jobs_Worker list" where
  "pg_ListWorkers db = sort_key worker_WorkerID (pg_workers db)"

subsection \<open>Queries\<close>

text \<open>The order of the rows of a query without \<open>order by\<close>, and of equal ones, is that of the table here; nothing rests on it.\<close>

definition pg_ListExpiredRunning :: "time \<Rightarrow> pg_Jobs \<Rightarrow> jobs_Job list" where
  "pg_ListExpiredRunning now db =
     map pg_scanJob (filter (\<lambda>r. jc_status r = jobs_StatusRunning \<and>
       (case jc_lease_until r of None \<Rightarrow> False | Some l \<Rightarrow> l < pg_timestamptz now)) (pg_jobs db))"

definition pg_ListRetryReady :: "time \<Rightarrow> pg_Jobs \<Rightarrow> jobs_Job list" where
  "pg_ListRetryReady now db =
     map pg_scanJob (filter (\<lambda>r. jc_status r = jobs_StatusRetryWaiting \<and>
       (case jc_lease_until r of None \<Rightarrow> False | Some l \<Rightarrow> l \<le> pg_timestamptz now)) (pg_jobs db))"

definition pg_endedAt :: "pg_jobRow \<Rightarrow> time" where
  "pg_endedAt r = (case jc_finished_at r of None \<Rightarrow> jc_created_at r | Some t \<Rightarrow> t)"

definition pg_ListRecentFailedJobs :: "int \<Rightarrow> int \<Rightarrow> pg_Jobs \<Rightarrow> jobs_Job list" where
  "pg_ListRecentFailedJobs p limit db =
     (let n = (if limit \<le> 0 then 5 else limit) in
      map pg_scanJob (take (nat n) (sort_key (\<lambda>r. - pg_endedAt r)
        (filter (\<lambda>r. jc_project_id r = p \<and> jc_status r \<in> {jobs_StatusFailed, jobs_StatusRetryWaiting}) (pg_jobs db)))))"

definition pg_FailedRecentJobCount :: "time \<Rightarrow> int \<Rightarrow> pg_Jobs \<Rightarrow> nat" where
  "pg_FailedRecentJobCount now p db =
     length (filter (\<lambda>r. jc_project_id r = p \<and> jc_status r = jobs_StatusFailed \<and>
       pg_timestamptz now - 86400 * second \<le> pg_endedAt r) (pg_jobs db))"

end
