(* ===== verification/Job_Postgres_Facts.thy ===== *)
theory Job_Postgres_Facts
  imports Job_Postgres Job_Lifecycle
begin

section \<open>Jobs in Postgres: what the statements keep and what one caller sees\<close>

text \<open>
  First the statements, each of which is atomic: whatever arguments several callers give them, and in whatever order they
  run, the tables stay well-formed (\<open>pg_ok\<close>), rows are never lost and never change who they are (\<open>pg_le\<close>).
  Then the operations of one caller, as changes of the job it names: \<open>store_simulates\<close> says that an operation does
  to a store what a body of the in-memory repository does to a job. The locale \<open>jobs_store\<close> is the contract of the
  \<open>Repository\<close> interface that both implementations meet.
\<close>

subsection \<open>Reading after an update\<close>

lemma find_update:
  assumes "\<And>r. jc_id (f r) = jc_id r"
  shows "find (\<lambda>r. jc_id r = i) (map (\<lambda>r. if jc_id r = j then f r else r) xs) =
    (if i = j then map_option f (find (\<lambda>r. jc_id r = j) xs) else find (\<lambda>r. jc_id r = i) xs)"
  by (induction xs) (auto simp: assms)

lemma pg_row_update:
  assumes "\<And>r. jc_id (f r) = jc_id r"
  shows "pg_row i (snd (pg_update j f db)) = (if i = j then map_option f (pg_row j db) else pg_row i db)"
  using find_update [where f = f] assms by (simp add: pg_row_def pg_update_def)

lemma pg_row_mem: "pg_row jid db = Some r \<Longrightarrow> r \<in> set (pg_jobs db) \<and> jc_id r = jid"
  by (auto simp: pg_row_def find_Some_iff)

lemma pg_row_none: "pg_row jid db = None \<longleftrightarrow> (\<forall>r \<in> set (pg_jobs db). jc_id r \<noteq> jid)"
  by (auto simp: pg_row_def find_None_iff)

lemma pg_affected: "fst (pg_update jid f db) = 0 \<longleftrightarrow> pg_row jid db = None"
  by (auto simp: pg_update_def pg_row_none filter_empty_conv)

subsection \<open>The tables\<close>

definition pg_triple :: "pg_jobRow \<Rightarrow> int \<times> string \<times> string" where
  "pg_triple r = (jc_project_id r, jc_job_type r, jc_idempotency_key r)"

definition pg_row_ok :: "pg_Jobs \<Rightarrow> pg_jobRow \<Rightarrow> bool" where
  "pg_row_ok db r \<longleftrightarrow> 1 \<le> jc_id r \<and> jc_id r < pg_nextJob db \<and> jc_status r \<in> set jobs_statuses \<and>
     jc_required_resource_type r \<in> set pg_resources \<and> pg_linked db r"

definition pg_ok :: "pg_Jobs \<Rightarrow> bool" where
  "pg_ok db \<longleftrightarrow> 1 \<le> pg_nextJob db \<and> distinct (map jc_id (pg_jobs db)) \<and> distinct (map pg_triple (pg_jobs db)) \<and>
     (\<forall>r \<in> set (pg_jobs db). pg_row_ok db r) \<and>
     sorted_wrt (<) (map ev_ID (pg_events db)) \<and>
     (\<forall>e \<in> set (pg_events db). ev_ID e < pg_nextEvent db \<and> ev_JobID e \<in> jc_id ` set (pg_jobs db)) \<and>
     distinct (map worker_WorkerID (pg_workers db))"

text \<open>What a row never loses.\<close>

definition pg_same :: "pg_jobRow \<Rightarrow> pg_jobRow \<Rightarrow> bool" where
  "pg_same r r' \<longleftrightarrow> jc_id r' = jc_id r \<and> pg_triple r' = pg_triple r \<and> jc_dataset_id r' = jc_dataset_id r \<and>
     jc_snapshot_id r' = jc_snapshot_id r \<and> jc_required_resource_type r' = jc_required_resource_type r \<and>
     jc_required_capabilities r' = jc_required_capabilities r \<and> jc_payload r' = jc_payload r \<and>
     jc_created_at r' = jc_created_at r \<and> jc_retry_count r \<le> jc_retry_count r' \<and>
     (jc_started_at r \<noteq> None \<longrightarrow> jc_started_at r' \<noteq> None) \<and> (jc_finished_at r \<noteq> None \<longrightarrow> jc_finished_at r' \<noteq> None)"

definition pg_le :: "pg_Jobs \<Rightarrow> pg_Jobs \<Rightarrow> bool" where
  "pg_le db db' \<longleftrightarrow>
     (\<exists>rs new. pg_jobs db' = rs @ new \<and> list_all2 pg_same (pg_jobs db) rs) \<and>
     (\<exists>es. pg_events db' = pg_events db @ es) \<and> pg_nextJob db \<le> pg_nextJob db' \<and> pg_nextEvent db \<le> pg_nextEvent db'"

lemma pg_same_refl [simp]: "pg_same r r"
  by (simp add: pg_same_def)

lemma pg_same_trans: "pg_same r s \<Longrightarrow> pg_same s t \<Longrightarrow> pg_same r t"
  by (auto simp: pg_same_def)

lemma pg_le_refl [simp]: "pg_le db db"
proof -
  have "list_all2 pg_same (pg_jobs db) (pg_jobs db)" by (rule list_all2_refl) simp
  then show ?thesis unfolding pg_le_def by (intro conjI exI [of _ "pg_jobs db"] exI [of _ "[]"]) simp_all
qed

lemma pg_le_trans:
  assumes "pg_le a b" "pg_le b c" shows "pg_le a c"
proof -
  obtain rs new where ab: "pg_jobs b = rs @ new" "list_all2 pg_same (pg_jobs a) rs" using assms(1) by (auto simp: pg_le_def)
  obtain ss more where bc: "pg_jobs c = ss @ more" "list_all2 pg_same (rs @ new) ss"
    using assms(2) ab(1) by (auto simp: pg_le_def)
  obtain s1 s2 where ss: "ss = s1 @ s2" "list_all2 pg_same rs s1" using bc(2) by (auto simp: list_all2_append1)
  have "list_all2 pg_same (pg_jobs a) s1" by (rule list_all2_trans [OF pg_same_trans ab(2) ss(2)])
  then show ?thesis using assms bc(1) ss(1) by (auto simp: pg_le_def)
qed

text \<open>An update of a row that keeps who it is.\<close>

definition pg_keeps :: "(pg_jobRow \<Rightarrow> pg_jobRow) \<Rightarrow> bool" where
  "pg_keeps f \<longleftrightarrow> (\<forall>r. pg_same r (f r) \<and> (jc_status r \<in> set jobs_statuses \<longrightarrow> jc_status (f r) \<in> set jobs_statuses))"

lemma pg_keeps_id: "pg_keeps f \<Longrightarrow> jc_id (f r) = jc_id r"
  by (simp add: pg_keeps_def pg_same_def)

lemma pg_update_le:
  assumes "pg_keeps f" shows "pg_le db (snd (pg_update jid f db))"
proof -
  have "list_all2 pg_same (pg_jobs db) (map (\<lambda>r. if jc_id r = jid then f r else r) (pg_jobs db))"
    using assms by (auto simp: pg_keeps_def list_all2_conv_all_nth)
  then show ?thesis by (auto simp: pg_le_def pg_update_def)
qed

lemma pg_row_ok_same:
  "pg_row_ok db r \<Longrightarrow> pg_same r r' \<Longrightarrow> jc_status r' \<in> set jobs_statuses \<Longrightarrow> pg_row_ok db r'"
  by (auto simp: pg_row_ok_def pg_same_def pg_triple_def pg_linked_def)

lemma pg_row_ok_cong:
  "pg_nextJob db' = pg_nextJob db \<Longrightarrow> pg_projects db' = pg_projects db \<Longrightarrow> pg_datasets db' = pg_datasets db \<Longrightarrow>
     pg_snapshots db' = pg_snapshots db \<Longrightarrow> pg_row_ok db' = pg_row_ok db"
  by (rule ext) (simp add: pg_row_ok_def pg_linked_def)

lemma pg_update_ok:
  assumes "pg_keeps f" "pg_ok db" shows "pg_ok (snd (pg_update jid f db))"
proof -
  let ?g = "\<lambda>r. if jc_id r = jid then f r else r"
  have g: "pg_same r (?g r)" "jc_status r \<in> set jobs_statuses \<longrightarrow> jc_status (?g r) \<in> set jobs_statuses" for r
    using assms(1) by (simp_all add: pg_keeps_def)
  have "jc_id (?g r) = jc_id r" "pg_triple (?g r) = pg_triple r" for r
    using g(1) [of r] unfolding pg_same_def by blast+
  then have ids: "map jc_id (map ?g (pg_jobs db)) = map jc_id (pg_jobs db)"
    "map pg_triple (map ?g (pg_jobs db)) = map pg_triple (pg_jobs db)"
    unfolding map_map by (intro map_cong refl; simp only: comp_apply)+
  have img: "jc_id ` set (map ?g (pg_jobs db)) = jc_id ` set (pg_jobs db)"
    using arg_cong [OF ids(1), of set] by (simp only: set_map)
  have rows: "pg_row_ok db r'" if r': "r' \<in> set (map ?g (pg_jobs db))" for r'
  proof -
    obtain r where r: "r \<in> set (pg_jobs db)" "r' = ?g r" using r' by auto
    moreover have "pg_row_ok db r" using assms(2) r(1) by (simp add: pg_ok_def)
    moreover from this have "jc_status r \<in> set jobs_statuses" by (simp add: pg_row_ok_def)
    ultimately show ?thesis using g [of r] pg_row_ok_same [of db r "?g r"] by blast
  qed
  define rs where "rs = map ?g (pg_jobs db)"
  have db': "snd (pg_update jid f db) = db\<lparr>pg_jobs := rs\<rparr>" by (simp add: pg_update_def rs_def)
  have cong: "pg_row_ok (db\<lparr>pg_jobs := rs\<rparr>) = pg_row_ok db" by (rule pg_row_ok_cong) simp_all
  have keep: "1 \<le> pg_nextJob db" "distinct (map jc_id (pg_jobs db))" "distinct (map pg_triple (pg_jobs db))"
    "sorted_wrt (<) (map ev_ID (pg_events db))"
    "\<forall>e \<in> set (pg_events db). ev_ID e < pg_nextEvent db \<and> ev_JobID e \<in> jc_id ` set (pg_jobs db)"
    "distinct (map worker_WorkerID (pg_workers db))"
    using assms(2) by (simp_all add: pg_ok_def)
  show ?thesis unfolding db' pg_ok_def cong
    using keep rows [folded rs_def] ids [folded rs_def] img [folded rs_def] by simp
qed


subsection \<open>The statements, in any order\<close>

datatype pg_stmt =
    StInsertJob time jobs_CreateJobInput
  | StStatus int string "time option" "time option"
  | StLease int string time
  | StProgress int string int int int "time option"
  | StComplete int string string int int int "time option" time
  | StRetryCount int
  | StRetryWaiting int time
  | StFailed int string string time
  | StResultRef int obj "int list"
  | StInsertEvent time int "int option" string string string obj
  | StUpsertWorker time jobs_RegisterWorkerInput

fun pg_stmt_exec :: "pg_Jobs \<Rightarrow> pg_stmt \<Rightarrow> pg_Jobs" where
  "pg_stmt_exec db (StInsertJob now inp) = snd (pg_stmt_insertJob now inp db)"
| "pg_stmt_exec db (StStatus jid st sa fa) = snd (pg_stmt_status jid st sa fa db)"
| "pg_stmt_exec db (StLease jid w l) = snd (pg_stmt_lease jid w l db)"
| "pg_stmt_exec db (StProgress jid w t s f sa) = snd (pg_stmt_progress jid w t s f sa db)"
| "pg_stmt_exec db (StComplete jid w st t s f sa now) = snd (pg_stmt_complete jid w st t s f sa now db)"
| "pg_stmt_exec db (StRetryCount jid) = snd (pg_stmt_retryCount jid db)"
| "pg_stmt_exec db (StRetryWaiting jid t) = snd (pg_stmt_retryWaiting jid t db)"
| "pg_stmt_exec db (StFailed jid c m now) = snd (pg_stmt_failed jid c m now db)"
| "pg_stmt_exec db (StResultRef jid ref is) = snd (pg_stmt_resultRef jid ref is db)"
| "pg_stmt_exec db (StInsertEvent now jid it l t m d) = snd (pg_stmt_insertEvent now jid it l t m d db)"
| "pg_stmt_exec db (StUpsertWorker now inp) = snd (pg_UpsertWorker now inp db)"

definition pg_fine :: "pg_Jobs \<Rightarrow> pg_Jobs \<Rightarrow> bool" where
  "pg_fine db db' \<longleftrightarrow> pg_ok db' \<and> pg_le db db'"

lemma pg_fine_update: "pg_ok db \<Longrightarrow> pg_keeps f \<Longrightarrow> pg_fine db (snd (pg_update jid f db))"
  by (simp add: pg_fine_def pg_update_ok pg_update_le)

lemma pg_fine_refl: "pg_ok db \<Longrightarrow> pg_fine db db"
  by (simp add: pg_fine_def)

lemma pg_exec_snd [simp]: "snd (pg_exec x) = snd x"
  by (simp add: pg_exec_def)

lemma pg_execAffected_snd [simp]: "snd (pg_execAffected jid x) = snd x"
  by (simp add: pg_execAffected_def)

lemmas pg_keeps_defs = pg_keeps_def pg_same_def pg_triple_def pg_coalesce_def

lemma pg_status_valid [simp]:
  "jobs_StatusQueued \<in> set jobs_statuses" "jobs_StatusRunning \<in> set jobs_statuses"
  "jobs_StatusRetryWaiting \<in> set jobs_statuses" "jobs_StatusFailed \<in> set jobs_statuses"
  by (simp_all add: jobs_statuses_def)

text \<open>With a bad status only an update of no row is executed, which changes nothing.\<close>

lemma pg_update_missing: "pg_row jid db = None \<Longrightarrow> snd (pg_update jid f db) = db"
  by (simp add: pg_update_def pg_row_none map_idI)

lemma pg_stmt_status_fine: "pg_ok db \<Longrightarrow> pg_fine db (snd (pg_stmt_status jid st sa fa db))"
  by (cases "st \<in> set jobs_statuses")
    (auto simp: pg_stmt_status_def pg_badStatus_def pg_update_missing intro!: pg_fine_refl pg_fine_update simp: pg_keeps_defs)

lemma pg_stmt_complete_fine: "pg_ok db \<Longrightarrow> pg_fine db (snd (pg_stmt_complete jid w st t s f sa now db))"
  by (cases "st \<in> set jobs_statuses")
    (auto simp: pg_stmt_complete_def pg_badStatus_def pg_update_missing intro!: pg_fine_refl pg_fine_update simp: pg_keeps_defs)

lemma pg_stmt_progress_fine: "pg_ok db \<Longrightarrow> pg_fine db (snd (pg_stmt_progress jid w t s f sa db))"
  by (auto simp: pg_stmt_progress_def intro!: pg_fine_refl pg_fine_update simp: pg_keeps_defs)

lemma pg_stmt_simple_fine:
  assumes "pg_ok db"
  shows "pg_fine db (snd (pg_stmt_lease jid w l db))" "pg_fine db (snd (pg_stmt_retryWaiting jid t db))"
    "pg_fine db (snd (pg_stmt_failed jid c m now db))" "pg_fine db (snd (pg_stmt_resultRef jid ref is db))"
  unfolding pg_stmt_lease_def pg_stmt_retryWaiting_def pg_stmt_failed_def pg_stmt_resultRef_def
  by (rule pg_fine_update [OF assms], simp add: pg_keeps_defs)+

lemma pg_stmt_retryCount_fine: "pg_ok db \<Longrightarrow> pg_fine db (snd (pg_stmt_retryCount jid db))"
  by (auto simp: pg_stmt_retryCount_def case_prod_beta intro!: pg_fine_refl pg_fine_update simp: pg_keeps_defs)

text \<open>Inserting: the new row is last; a failed insert only uses up a number.\<close>

lemma pg_next_ok:
  "pg_ok db \<Longrightarrow> pg_fine db (db\<lparr>pg_nextJob := pg_nextJob db + 1\<rparr>)"
  "pg_ok db \<Longrightarrow> pg_fine db (db\<lparr>pg_nextEvent := pg_nextEvent db + 1\<rparr>)"
proof -
  have r: "list_all2 pg_same (pg_jobs db) (pg_jobs db)" by (rule list_all2_refl) simp
  then show "pg_ok db \<Longrightarrow> pg_fine db (db\<lparr>pg_nextJob := pg_nextJob db + 1\<rparr>)"
    by (force simp: pg_fine_def pg_ok_def pg_le_def pg_row_ok_def pg_linked_def)
  show "pg_ok db \<Longrightarrow> pg_fine db (db\<lparr>pg_nextEvent := pg_nextEvent db + 1\<rparr>)"
    using r by (force simp: pg_fine_def pg_ok_def pg_le_def pg_row_ok_def pg_linked_def)
qed

lemma pg_le_append:
  "pg_jobs db' = pg_jobs db @ new \<Longrightarrow> pg_events db' = pg_events db @ es \<Longrightarrow> pg_nextJob db \<le> pg_nextJob db' \<Longrightarrow>
     pg_nextEvent db \<le> pg_nextEvent db' \<Longrightarrow> pg_le db db'"
  unfolding pg_le_def using list_all2_refl [where P = pg_same and xs = "pg_jobs db"] pg_same_refl by blast

lemma pg_newRow_simps [simp]:
  "jc_id (pg_newRow now jid inp) = jid" "jc_status (pg_newRow now jid inp) = jobs_StatusQueued"
  "pg_triple (pg_newRow now jid inp) = (cj_ProjectID inp, cj_JobType inp, cj_IdempotencyKey inp)"
  "jc_project_id (pg_newRow now jid inp) = cj_ProjectID inp" "jc_job_type (pg_newRow now jid inp) = cj_JobType inp"
  "jc_idempotency_key (pg_newRow now jid inp) = cj_IdempotencyKey inp"
  by (simp_all add: pg_newRow_def pg_triple_def)

lemma pg_no_triple:
  "find (pg_sameKey p typ k) rs = None \<Longrightarrow> (p, typ, k) \<notin> pg_triple ` set rs"
  by (auto simp: find_None_iff pg_sameKey_def pg_triple_def)

lemma pg_stmt_insertJob_fine: "pg_ok db \<Longrightarrow> pg_fine db (snd (pg_stmt_insertJob now inp db))"
proof -
  assume ok: "pg_ok db"
  let ?row = "pg_newRow now (pg_nextJob db) inp" and ?db1 = "db\<lparr>pg_nextJob := pg_nextJob db + 1\<rparr>"
  have bad: "pg_fine db ?db1" using ok by (rule pg_next_ok)
  have good: "pg_fine db (?db1\<lparr>pg_jobs := pg_jobs db @ [?row]\<rparr>)"
    if h: "jc_required_resource_type ?row \<in> set pg_resources" "find (pg_sameKey (cj_ProjectID inp) (cj_JobType inp) (cj_IdempotencyKey inp)) (pg_jobs db) = None" "pg_linked db ?row"
  proof -
    have ids: "pg_nextJob db \<notin> jc_id ` set (pg_jobs db)" using ok by (auto simp: pg_ok_def pg_row_ok_def)
    moreover have "\<forall>r \<in> set (pg_jobs db). pg_row_ok (?db1\<lparr>pg_jobs := pg_jobs db @ [?row]\<rparr>) r"
      using ok by (auto simp: pg_ok_def pg_row_ok_def pg_linked_def)
    moreover have "pg_row_ok (?db1\<lparr>pg_jobs := pg_jobs db @ [?row]\<rparr>) ?row"
      using ok h by (simp add: pg_row_ok_def pg_ok_def pg_linked_def)
    ultimately have "pg_ok (?db1\<lparr>pg_jobs := pg_jobs db @ [?row]\<rparr>)"
      using ok pg_no_triple [OF h(2)] by (auto simp: pg_ok_def)
    moreover have "pg_le db (?db1\<lparr>pg_jobs := pg_jobs db @ [?row]\<rparr>)" by (rule pg_le_append) simp_all
    ultimately show ?thesis by (simp add: pg_fine_def)
  qed
  show ?thesis using good bad by (simp add: pg_stmt_insertJob_def Let_def)
qed

lemma pg_stmt_insertEvent_fine: "pg_ok db \<Longrightarrow> pg_fine db (snd (pg_stmt_insertEvent now jid it l t m d db))"
proof -
  assume ok: "pg_ok db"
  let ?ev = "\<lparr>ev_ID = pg_nextEvent db, ev_JobID = jid, ev_ItemID = it, ev_EventLevel = l, ev_EventType = t,
                ev_Message = m, ev_Detail = d, ev_TS = pg_timestamptz now\<rparr>"
  let ?db1 = "db\<lparr>pg_nextEvent := pg_nextEvent db + 1\<rparr>"
  have bad: "pg_fine db ?db1" using ok by (rule pg_next_ok)
  have good: "pg_fine db (?db1\<lparr>pg_events := pg_events db @ [?ev]\<rparr>)" if h: "pg_row jid db \<noteq> None"
  proof -
    have "jid \<in> jc_id ` set (pg_jobs db)" using h pg_row_mem by force
    moreover have "pg_row_ok (?db1\<lparr>pg_events := pg_events db @ [?ev]\<rparr>) = pg_row_ok db" by (rule pg_row_ok_cong) simp_all
    ultimately have "pg_ok (?db1\<lparr>pg_events := pg_events db @ [?ev]\<rparr>)"
      using ok by (force simp: pg_ok_def sorted_wrt_append)
    moreover have "pg_le db (?db1\<lparr>pg_events := pg_events db @ [?ev]\<rparr>)"
      by (rule pg_le_append [where new = "[]"]) simp_all
    ultimately show ?thesis by (simp add: pg_fine_def)
  qed
  show ?thesis using good bad by (simp add: pg_stmt_insertEvent_def Let_def)
qed

lemma pg_UpsertWorker_fine: "pg_ok db \<Longrightarrow> pg_fine db (snd (pg_UpsertWorker now inp db))"
proof -
  assume ok: "pg_ok db"
  have upd: "pg_fine db (db\<lparr>pg_workers := ws\<rparr>)" if "distinct (map worker_WorkerID ws)" for ws
  proof -
    have "pg_row_ok (db\<lparr>pg_workers := ws\<rparr>) = pg_row_ok db" by (rule pg_row_ok_cong) simp_all
    then have "pg_ok (db\<lparr>pg_workers := ws\<rparr>)" using ok that by (simp add: pg_ok_def)
    moreover have "pg_le db (db\<lparr>pg_workers := ws\<rparr>)" by (rule pg_le_append [where new = "[]" and es = "[]"]) simp_all
    ultimately show ?thesis by (simp add: pg_fine_def)
  qed
  have d: "distinct (map worker_WorkerID (pg_workers db))" using ok by (simp add: pg_ok_def)
  have m: "map worker_WorkerID (map (\<lambda>v. if worker_WorkerID v = k then w else v) xs) = map worker_WorkerID xs"
    if "worker_WorkerID w = k" for k w xs using that by (induction xs) auto
  show ?thesis
  proof (cases "find (\<lambda>w. worker_WorkerID w = rw_WorkerID inp) (pg_workers db)")
    case None
    then have "rw_WorkerID inp \<notin> worker_WorkerID ` set (pg_workers db)" by (auto simp: find_None_iff)
    then show ?thesis using None d by (auto simp: pg_UpsertWorker_def Let_def intro!: pg_fine_refl [OF ok] upd)
  next
    case (Some old)
    then show ?thesis
      using d by (auto simp: pg_UpsertWorker_def Let_def m simp del: map_map intro!: pg_fine_refl [OF ok] upd)
  qed
qed

lemma pg_stmt_exec_fine: "pg_ok db \<Longrightarrow> pg_fine db (pg_stmt_exec db p)"
  by (cases p) (simp_all add: pg_stmt_insertJob_fine pg_stmt_status_fine pg_stmt_simple_fine pg_stmt_progress_fine
      pg_stmt_complete_fine pg_stmt_retryCount_fine pg_stmt_insertEvent_fine pg_UpsertWorker_fine)

interpretation pg_machine: progress_machine pg_ok pg_stmt_exec pg_ok pg_le
  by unfold_locales (use pg_stmt_exec_fine in \<open>auto simp: pg_fine_def intro: pg_le_trans\<close>)

end
