(* ===== verification/Job_Postgres_Claims.thy ===== *)
theory Job_Postgres_Claims
  imports Job_Postgres_Facts
begin

section \<open>Jobs in Postgres: the contract of the repository, and where it ends\<close>

text \<open>
  For one caller the operations of the Postgres repository change a job as the bodies of the in-memory repository do, up to
  the precision of the stamps (\<open>jobs_store\<close>, interpreted on both); three operations differ, and two callers see what one does
  not, as no transaction holds an operation together.
\<close>

subsection \<open>The contract\<close>

definition store_simulates ::
  "(int \<Rightarrow> 's \<Rightarrow> jobs_Job option) \<Rightarrow> (jobs_Job \<Rightarrow> jobs_error + jobs_Job) \<Rightarrow> int \<Rightarrow>
     ('s \<Rightarrow> (jobs_error, 'a, 's) outcome) \<Rightarrow> 's \<Rightarrow> bool" where
  "store_simulates get body jid op s \<longleftrightarrow>
     (case get jid s of
        None \<Rightarrow> op s = (Inl (JobNotFound jid), s)
      | Some a \<Rightarrow>
          (case body a of
             Inl e \<Rightarrow> op s = (Inl e, s)
           | Inr b \<Rightarrow> \<exists>x s'. op s = (Inr x, s') \<and> get jid s' = Some b \<and> (\<forall>i. i \<noteq> jid \<longrightarrow> get i s' = get i s)))"

lemma store_simulates_missing: "store_simulates get body jid op s \<Longrightarrow> get jid s = None \<Longrightarrow> op s = (Inl (JobNotFound jid), s)"
  by (simp add: store_simulates_def)

lemma store_simulates_refused:
  "store_simulates get body jid op s \<Longrightarrow> get jid s = Some a \<Longrightarrow> body a = Inl e \<Longrightarrow> op s = (Inl e, s)"
  by (simp add: store_simulates_def)

lemma store_simulates_stored:
  assumes "store_simulates get body jid op s" "get jid s = Some a" "body a = Inr b"
  obtains x s' where "op s = (Inr x, s')" "get jid s' = Some b" "\<And>i. i \<noteq> jid \<Longrightarrow> get i s' = get i s"
  using assms by (auto simp: store_simulates_def)

locale jobs_store =
  fixes get :: "int \<Rightarrow> 's \<Rightarrow> jobs_Job option"
    and good :: "'s \<Rightarrow> bool"
    and stamp :: "time \<Rightarrow> time"
    and fits :: "int \<Rightarrow> bool"
    and update :: "time \<Rightarrow> int \<Rightarrow> string \<Rightarrow> 's \<Rightarrow> (jobs_error, 'a, 's) outcome"
    and lease :: "int \<Rightarrow> string \<Rightarrow> time \<Rightarrow> 's \<Rightarrow> (jobs_error, 'a, 's) outcome"
    and complete :: "time \<Rightarrow> int \<Rightarrow> string \<Rightarrow> string \<Rightarrow> int \<Rightarrow> int \<Rightarrow> int \<Rightarrow> 's \<Rightarrow> (jobs_error, 'a, 's) outcome"
    and retry :: "int \<Rightarrow> time \<Rightarrow> 's \<Rightarrow> (jobs_error, 'a, 's) outcome"
  assumes update_law: "good s \<Longrightarrow> store_simulates get (jobs_status_body (stamp now) st) jid (update now jid st) s"
    and lease_law: "good s \<Longrightarrow> store_simulates get
      (\<lambda>a. Inr (a\<lparr>job_WorkerID := w, job_LeaseUntil := Some (stamp l)\<rparr>)) jid (lease jid w l) s"
    and complete_law: "good s \<Longrightarrow> fits t \<Longrightarrow> fits c \<Longrightarrow> fits f \<Longrightarrow>
      store_simulates get (jobs_complete_body (stamp now) w st t c f) jid (complete now jid w st t c f) s"
    and retry_law: "good s \<Longrightarrow> store_simulates get (jobs_retry_body (stamp u)) jid (retry jid u) s"
begin

text \<open>A finished job can be finished once more with the same status only.\<close>

lemma finished_refuses:
  assumes "good s" "get jid s = Some a" "jobs_terminal (job_Status a)" "st \<noteq> job_Status a" "fits t" "fits c" "fits f"
  shows "complete now jid w st t c f s = (Inl (InvalidTransition (job_Status a) st), s)"
proof -
  have "jobs_complete_body (stamp now) w st t c f a = Inl (InvalidTransition (job_Status a) st)"
    using assms(3,4) by (auto simp: jobs_complete_body_def jobs_terminal_def jobs_CanTransition_def jobs_transitions_def Let_def status_defs)
  then show ?thesis using complete_law [OF assms(1,5,6,7)] assms(2) by (rule store_simulates_refused [rotated 2])
qed

lemma running_finishes:
  assumes "good s" "get jid s = Some a" "job_Status a = jobs_StatusRunning" "jobs_terminal st" "fits t" "fits c" "fits f"
  obtains x s' b where "complete now jid w st t c f s = (Inr x, s')" "get jid s' = Some b" "job_Status b = st"
proof -
  have "jobs_CanTransition jobs_StatusRunning st = Inr ()"
    using assms(4) by (auto simp: jobs_CanTransition_def jobs_transitions_def jobs_terminal_def status_defs)
  then obtain b where b: "jobs_complete_body (stamp now) w st t c f a = Inr b" "job_Status b = st"
    using assms(3) by (auto simp: jobs_complete_body_def Let_def status_defs)
  show ?thesis by (rule store_simulates_stored [OF complete_law [OF assms(1,5,6,7)] assms(2) b(1)]) (use b(2) that in blast)
qed

end

lemma jobs_with_simulates:
  "(\<And>a. body' a = body a) \<Longrightarrow> store_simulates (\<lambda>j r. jr_byID r j) body' jid (jobs_with jid body) s"
  by (auto simp: store_simulates_def jobs_with_def split: option.split sum.split)

interpretation mem_store: jobs_store "\<lambda>j r. jr_byID r j" jobs_inv "\<lambda>t. t" "\<lambda>_. True"
  jobs_UpdateStatus jobs_TouchLease jobs_Complete jobs_MarkRetryWaiting
  by unfold_locales (simp_all add: jobs_UpdateStatus_def jobs_TouchLease_def jobs_Complete_def jobs_MarkRetryWaiting_def
      jobs_with_simulates)

subsection \<open>One caller in Postgres\<close>

lemma pg_get_row: "pg_Get jid db = Some a \<longleftrightarrow> (\<exists>r. pg_row jid db = Some r \<and> a = pg_scanJob r)"
  by (auto simp: pg_Get_def)

lemma pg_get_update:
  assumes "\<And>r. jc_id (f r) = jc_id r"
  shows "pg_Get i (snd (pg_update j f db)) = (if i = j then map_option (\<lambda>r. pg_scanJob (f r)) (pg_row j db) else pg_Get i db)"
  using pg_row_update [where f = f, OF assms] by (simp add: pg_Get_def option.map_comp comp_def)

text \<open>An operation that, when the row is there, updates it by \<open>f\<close>.\<close>

lemma pg_simulatesI:
  assumes keep: "\<And>r. jc_id (f r) = jc_id r"
    and missing: "pg_row jid db = None \<Longrightarrow> op db = (Inl (JobNotFound jid), db)"
    and refused: "\<And>r e. pg_row jid db = Some r \<Longrightarrow> body (pg_scanJob r) = Inl e \<Longrightarrow> op db = (Inl e, db)"
    and stored: "\<And>r b. pg_row jid db = Some r \<Longrightarrow> body (pg_scanJob r) = Inr b \<Longrightarrow>
      b = pg_scanJob (f r) \<and> op db = (Inr x, snd (pg_update jid f db))"
  shows "store_simulates pg_Get body jid op db"
proof (cases "pg_row jid db")
  case None
  then show ?thesis using missing by (simp add: store_simulates_def pg_Get_def)
next
  case (Some r)
  then have get: "pg_Get jid db = Some (pg_scanJob r)" by (simp add: pg_Get_def)
  show ?thesis
  proof (cases "body (pg_scanJob r)")
    case (Inl e)
    then show ?thesis using refused [OF Some] by (simp add: store_simulates_def get)
  next
    case (Inr b)
    have "pg_Get jid (snd (pg_update jid f db)) = Some (pg_scanJob (f r))"
      "\<forall>i. i \<noteq> jid \<longrightarrow> pg_Get i (snd (pg_update jid f db)) = pg_Get i db"
      using pg_get_update [where f = f, OF keep] Some by simp_all
    then show ?thesis using stored [OF Some Inr] by (simp add: store_simulates_def get Inr)
  qed
qed

lemma pg_scan_status [simp]: "job_Status (pg_scanJob r) = jc_status r" "job_StartedAt (pg_scanJob r) = jc_started_at r"
  by (simp_all add: pg_scanJob_def Let_def)

lemma pg_row_status: "pg_ok db \<Longrightarrow> pg_row jid db = Some r \<Longrightarrow> jc_status r \<in> set jobs_statuses"
  using pg_row_mem by (fastforce simp: pg_ok_def pg_row_ok_def)

lemma pg_transition_valid:
  "st \<in> set jobs_statuses \<Longrightarrow> jobs_CanTransition st st' = Inr () \<Longrightarrow> st' \<in> set jobs_statuses"
  using jobs_CanTransition_path jobs_path_statuses by blast

lemma pg_UpdateStatus_simulates:
  assumes ok: "pg_ok db"
  shows "store_simulates pg_Get (jobs_status_body (pg_timestamptz now) st) jid (pg_UpdateStatus now jid st) db"
proof -
  let ?f = "\<lambda>r. r\<lparr>jc_status := st, jc_started_at := pg_coalesce (map_option pg_timestamptz (if st = jobs_StatusRunning then Some now else None)) (jc_started_at r),
     jc_finished_at := pg_coalesce (map_option pg_timestamptz (if jobs_terminal st then Some now else None)) (jc_finished_at r),
     jc_lease_until := (if st = jobs_StatusQueued then None else jc_lease_until r)\<rparr>"
  show ?thesis
  proof (rule pg_simulatesI [where f = ?f and x = "()"])
    fix r b assume r: "pg_row jid db = Some r" and b: "jobs_status_body (pg_timestamptz now) st (pg_scanJob r) = Inr b"
    then have ct: "jobs_CanTransition (jc_status r) st = Inr ()" by (auto simp: jobs_status_body_def split: sum.splits)
    have "st \<in> set jobs_statuses" using pg_transition_valid [OF pg_row_status [OF ok r] ct] .
    then have "pg_UpdateStatus now jid st db = (Inr (), snd (pg_update jid ?f db))"
      using r ct by (simp add: pg_UpdateStatus_def pg_checked_def pg_Get_def pg_stmt_status_def pg_badStatus_def pg_exec_def)
    moreover have "b = pg_scanJob (?f r)"
      using b ct by (auto simp: jobs_status_body_def pg_scanJob_def Let_def pg_coalesce_def)
    ultimately show "b = pg_scanJob (?f r) \<and> pg_UpdateStatus now jid st db = (Inr (), snd (pg_update jid ?f db))" by blast
  qed (auto simp: pg_UpdateStatus_def pg_checked_def pg_Get_def jobs_status_body_def Let_def split: sum.splits)
qed

lemma pg_TouchLease_simulates:
  "store_simulates pg_Get (\<lambda>a. Inr (a\<lparr>job_WorkerID := w, job_LeaseUntil := Some (pg_timestamptz l)\<rparr>)) jid (pg_TouchLease jid w l) db"
proof (rule pg_simulatesI [where f = "\<lambda>r. r\<lparr>jc_worker_id := Some w, jc_lease_until := Some (pg_timestamptz l)\<rparr>" and x = "()"])
qed (auto simp: pg_TouchLease_def pg_stmt_lease_def pg_execAffected_def pg_affected pg_update_missing pg_scanJob_def pg_text_def Let_def)

lemma pg_Complete_simulates:
  assumes ok: "pg_ok db" and c: "pg_counters t c f"
  shows "store_simulates pg_Get (jobs_complete_body (pg_timestamptz now) w st t c f) jid (pg_Complete now jid w st t c f) db"
proof -
  let ?sa = "\<lambda>r. if jc_started_at r = None then Some now else None"
  let ?f = "\<lambda>r. r\<lparr>jc_status := st, jc_worker_id := Some w, jc_total_items := t, jc_succeeded_items := c, jc_failed_items := f,
     jc_started_at := pg_coalesce (jc_started_at r) (map_option pg_timestamptz (?sa (the (pg_row jid db)))),
     jc_finished_at := Some (pg_timestamptz now)\<rparr>"
  show ?thesis
  proof (rule pg_simulatesI [where f = ?f and x = "()"])
    fix r b assume r: "pg_row jid db = Some r" and b: "jobs_complete_body (pg_timestamptz now) w st t c f (pg_scanJob r) = Inr b"
    then have ct: "pg_completable st (pg_scanJob r) = Inr ()"
      by (auto simp: jobs_complete_body_def pg_completable_def Let_def split: sum.splits)
    have "jobs_edge\<^sup>*\<^sup>* (jc_status r) st"
      using ct by (intro jobs_complete_path) (auto simp: pg_completable_def Let_def split: if_splits)
    then have "st \<in> set jobs_statuses" using jobs_path_statuses pg_row_status [OF ok r] by blast
    then have "pg_Complete now jid w st t c f db = (Inr (), snd (pg_update jid ?f db))"
      using r ct c by (simp add: pg_Complete_def pg_checked_def pg_Get_def pg_stmt_complete_def pg_badStatus_def pg_exec_def)
    moreover have "b = pg_scanJob (?f r)"
      using b ct r by (auto simp: jobs_complete_body_def pg_completable_def pg_scanJob_def Let_def pg_coalesce_def pg_text_def split: sum.splits)
    ultimately show "b = pg_scanJob (?f r) \<and> pg_Complete now jid w st t c f db = (Inr (), snd (pg_update jid ?f db))" by blast
  qed (auto simp: pg_Complete_def pg_checked_def pg_Get_def jobs_complete_body_def pg_completable_def Let_def split: sum.splits)
qed

lemma pg_MarkRetryWaiting_simulates:
  "store_simulates pg_Get (jobs_retry_body (pg_timestamptz u)) jid (pg_MarkRetryWaiting jid u) db"
proof (rule pg_simulatesI [where f = "\<lambda>r. r\<lparr>jc_status := jobs_StatusRetryWaiting, jc_lease_until := Some (pg_timestamptz u)\<rparr>" and x = "()"])
qed (auto simp: pg_MarkRetryWaiting_def pg_checked_def pg_Get_def pg_stmt_retryWaiting_def pg_execAffected_def pg_affected
    jobs_retry_body_def pg_scanJob_def Let_def split: sum.splits)

interpretation pg_store: jobs_store pg_Get pg_ok pg_timestamptz pg_int4 pg_UpdateStatus pg_TouchLease pg_Complete pg_MarkRetryWaiting
  by unfold_locales (simp_all add: pg_UpdateStatus_simulates pg_TouchLease_simulates pg_Complete_simulates
      pg_MarkRetryWaiting_simulates pg_counters_def)








subsection \<open>The two repositories agree\<close>






subsection \<open>Where they differ\<close>

text \<open>
  Where the Postgres repository differs from the in-memory one on an existing job: a claim of a job that waits for a retry or
  is finished is refused as a conflict and changes nothing, while in memory the claimant takes over its lease; and
  marking a job as failed is done in every status, while in memory the lifecycle forbids it unless the job runs or has
  failed already.
\<close>

theorem pg_differs_from_memory:
  assumes "pg_ok db" "pg_Get jid db = Some a" "job_Status a = jobs_StatusRetryWaiting \<or> jobs_terminal (job_Status a)"
  shows "pg_Claim now jid w l db = (Inl (InvalidTransition (job_Status a) jobs_StatusRunning), db) \<and>
    jobs_claim_body now w l a = Inr (a\<lparr>job_WorkerID := w, job_LeaseUntil := Some l\<rparr>) \<and>
    (\<exists>db' b. pg_MarkFailed now jid code msg db = (Inr (), db') \<and> pg_Get jid db' = Some b \<and> job_Status b = jobs_StatusFailed) \<and>
    (job_Status a = jobs_StatusFailed \<or>
      jobs_failed_body now code msg a = Inl (InvalidTransition (job_Status a) jobs_StatusFailed))"
proof (intro conjI)
  obtain r where r: "pg_row jid db = Some r" "a = pg_scanJob r" using assms(2) by (auto simp: pg_get_row)
  have no: "jobs_CanTransition (job_Status a) jobs_StatusRunning = Inl (InvalidTransition (job_Status a) jobs_StatusRunning)"
    "job_Status a \<noteq> jobs_StatusRunning" "job_Status a \<noteq> jobs_StatusQueued"
    using assms(3) by (auto simp: jobs_CanTransition_def jobs_transitions_def jobs_terminal_def status_defs)
  then show "pg_Claim now jid w l db = (Inl (InvalidTransition (job_Status a) jobs_StatusRunning), db)"
    by (simp add: pg_Claim_def assms(2) pg_UpdateStatus_def pg_checked_def)
  show "jobs_claim_body now w l a = Inr (a\<lparr>job_WorkerID := w, job_LeaseUntil := Some l\<rparr>)"
    using no by (simp add: jobs_claim_body_def)
  let ?f = "\<lambda>r. r\<lparr>jc_status := jobs_StatusFailed, jc_error_code := Some code, jc_error_msg := Some msg,
       jc_finished_at := Some (pg_timestamptz now)\<rparr>"
  have "pg_MarkFailed now jid code msg db = (Inr (), snd (pg_update jid ?f db))"
    using pg_affected [of jid ?f db] r by (simp add: pg_MarkFailed_def pg_stmt_failed_def pg_execAffected_def)
  moreover have "pg_Get jid (snd (pg_update jid ?f db)) = Some (pg_scanJob (?f r))"
    using pg_get_update [where f = ?f and i = jid and j = jid and db = db] r by simp
  ultimately show "\<exists>db' b. pg_MarkFailed now jid code msg db = (Inr (), db') \<and> pg_Get jid db' = Some b \<and> job_Status b = jobs_StatusFailed"
    by auto
  show "job_Status a = jobs_StatusFailed \<or> jobs_failed_body now code msg a = Inl (InvalidTransition (job_Status a) jobs_StatusFailed)"
    using assms(3) by (auto simp: jobs_failed_body_def jobs_CanTransition_def jobs_transitions_def jobs_terminal_def status_defs)
qed

subsection \<open>Two callers\<close>

text \<open>
  C9. Two final reports for a running job whose checks both ran before either write are both accepted, and the job ends with the
  status and the counters of the report written last, so the first outcome is lost; had the second check come after the
  first write, a different outcome would have been refused and the first kept.
\<close>

theorem pg_reports_race:
  assumes "pg_ok db" "pg_Get jid db = Some a" "job_Status a = jobs_StatusRunning" "jobs_terminal st1" "jobs_terminal st2" "st2 \<noteq> st1"
    and "pg_counters t1 c1 f1" "pg_counters t2 c2 f2"
  shows "\<exists>db1 db2 b. pg_checked jid (pg_completable st1) db = Inr a \<and> pg_checked jid (pg_completable st2) db = Inr a \<and>
     pg_stmt_complete jid w1 st1 t1 c1 f1 None now1 db = (Inr (), db1) \<and>
     pg_stmt_complete jid w2 st2 t2 c2 f2 None now2 db1 = (Inr (), db2) \<and>
     pg_Get jid db2 = Some b \<and> job_Status b = st2 \<and> job_WorkerID b = w2 \<and> job_TotalItems b = t2 \<and>
     pg_Complete now2 jid w2 st2 t2 c2 f2 db1 = (Inl (InvalidTransition st1 st2), db1)"
proof -
  obtain r where r: "pg_row jid db = Some r" "a = pg_scanJob r" using assms(2) by (auto simp: pg_get_row)
  let ?f = "\<lambda>w st t c f now r. r\<lparr>jc_status := st, jc_worker_id := Some w, jc_total_items := t, jc_succeeded_items := c,
     jc_failed_items := f, jc_started_at := pg_coalesce (jc_started_at r) None, jc_finished_at := Some (pg_timestamptz now)\<rparr>"
  let ?f1 = "?f w1 st1 t1 c1 f1 now1" and ?f2 = "?f w2 st2 t2 c2 f2 now2"
  let ?db1 = "snd (pg_update jid ?f1 db)"
  have checks: "pg_checked jid (pg_completable st1) db = Inr a" "pg_checked jid (pg_completable st2) db = Inr a"
    using assms(2-5) by (auto simp: pg_checked_def pg_completable_def jobs_CanTransition_def jobs_transitions_def jobs_terminal_def status_defs)
  have valid: "st1 \<in> set jobs_statuses" "st2 \<in> set jobs_statuses"
    using assms(4,5) by (auto simp: jobs_statuses_def jobs_terminal_def)
  have one: "pg_stmt_complete jid w1 st1 t1 c1 f1 None now1 db = (Inr (), ?db1)"
    using assms(7) valid by (simp add: pg_stmt_complete_def pg_badStatus_def pg_exec_def)
  have two: "pg_stmt_complete jid w2 st2 t2 c2 f2 None now2 ?db1 = (Inr (), snd (pg_update jid ?f2 ?db1))"
    using assms(8) valid by (simp add: pg_stmt_complete_def pg_badStatus_def pg_exec_def)
  have row1: "pg_row jid ?db1 = Some (?f1 r)"
    using pg_row_update [where f = ?f1 and i = jid and j = jid and db = db] r(1) by simp
  have get2: "pg_Get jid (snd (pg_update jid ?f2 ?db1)) = Some (pg_scanJob (?f2 (?f1 r)))"
    using pg_get_update [where f = ?f2 and i = jid and j = jid and db = ?db1] row1 by simp
  have ok1: "pg_ok ?db1"
    by (rule pg_update_ok [OF _ assms(1)]) (use valid in \<open>simp add: pg_keeps_defs\<close>)
  have "pg_Complete now2 jid w2 st2 t2 c2 f2 ?db1 = (Inl (InvalidTransition st1 st2), ?db1)"
    using pg_store.finished_refuses [OF ok1, where jid = jid and a = "pg_scanJob (?f1 r)" and st = st2] row1 assms(4,6,8)
    by (simp add: pg_Get_def pg_counters_def)
  then show ?thesis using checks one two get2
    by (intro exI [of _ ?db1] exI [of _ "snd (pg_update jid ?f2 ?db1)"] exI [of _ "pg_scanJob (?f2 (?f1 r))"])
      (simp add: pg_scanJob_def pg_text_def Let_def)
qed

text \<open>
  C7. Whatever statements several callers run in whatever order, with whatever they had read before, the tables stay
  well-formed: identifiers and the triples of project, type and idempotency key are unique, statuses and references
  valid, the events in the order of their numbers and of existing jobs; no row disappears or changes its identity, its
  routing or its payload, no retry count and no stamp goes back, and the log only grows.
\<close>

theorem pg_any_interleaving:
  assumes "pg_ok db"
  shows "pg_ok (foldl pg_stmt_exec db ps) \<and> pg_le db (foldl pg_stmt_exec db ps)"
  using pg_machine.run_inv_from [OF assms] pg_machine.run_le [OF assms] by blast


subsection \<open>Creation\<close>

definition pg_stored_job :: "time \<Rightarrow> int \<Rightarrow> jobs_CreateJobInput \<Rightarrow> jobs_Job" where
  "pg_stored_job now jid inp =
     (jobs_newJob (pg_timestamptz now) jid inp)\<lparr>job_Payload := Some (case cj_Payload inp of None \<Rightarrow> [] | Some p \<Rightarrow> json_clone p)\<rparr>"

lemma pg_scan_newRow: "pg_scanJob (pg_newRow now jid inp) = pg_stored_job now jid inp"
  by (simp add: pg_scanJob_def pg_newRow_def pg_stored_job_def jobs_newJob_def pg_text_def pg_number_def pg_nullif0_def
      obj_get_def Let_def)

definition pg_insertable :: "jobs_CreateJobInput \<Rightarrow> pg_Jobs \<Rightarrow> bool" where
  "pg_insertable inp db \<longleftrightarrow> cj_RequiredResourceType inp \<in> set pg_resources \<and> cj_ProjectID inp \<in> set (pg_projects db) \<and>
     pg_references (pg_nullif0 (cj_DatasetID inp)) (pg_datasets db) \<and> pg_references (pg_nullif0 (cj_SnapshotID inp)) (pg_snapshots db)"

lemma pg_insertJob_cases:
  assumes "pg_findByKey (cj_ProjectID inp) (cj_JobType inp) (cj_IdempotencyKey inp) db = None"
  shows "pg_stmt_insertJob now inp db =
    (if pg_insertable inp db
     then (Inr (pg_stored_job now (pg_nextJob db) inp),
           db\<lparr>pg_nextJob := pg_nextJob db + 1, pg_jobs := pg_jobs db @ [pg_newRow now (pg_nextJob db) inp]\<rparr>)
     else (Inl (if cj_RequiredResourceType inp \<notin> set pg_resources then pg_checkViolation else pg_foreignKeyViolation),
           db\<lparr>pg_nextJob := pg_nextJob db + 1\<rparr>))"
  using assms
  by (auto simp: pg_stmt_insertJob_def pg_findByKey_def pg_insertable_def pg_linked_def pg_scan_newRow Let_def)
    (auto simp: pg_newRow_def)

lemma pg_findByKey_append:
  "pg_findByKey p t k (db\<lparr>pg_nextJob := n, pg_jobs := pg_jobs db @ [pg_newRow now jid inp]\<rparr>) =
    (case pg_findByKey p t k db of
       Some job \<Rightarrow> Some job
     | None \<Rightarrow> if (p, t, k) = (cj_ProjectID inp, cj_JobType inp, cj_IdempotencyKey inp) then Some (pg_stored_job now jid inp) else None)"
  by (auto simp: pg_findByKey_def find_append pg_sameKey_def pg_scan_newRow split: option.split)

text \<open>
  C8. Creating a job in Postgres: if a job has the project, type and idempotency key of the request it is answered unchanged,
  whatever else the request says, and nothing is written; otherwise, if the project, data set and snapshot exist, a queued job
  under a fresh number with the fields of the request is stored and found under exactly this triple from then on, and no other
  triple finds another job than before; otherwise the request is refused and the table stays as it is.
\<close>

theorem pg_create_exact:
  assumes "pg_CreateOrGet now inp db = (res, db')"
  shows "case pg_findByKey (cj_ProjectID inp) (cj_JobType inp) (cj_IdempotencyKey inp) db of
      Some job \<Rightarrow> res = Inr (job, False) \<and> db' = db
    | None \<Rightarrow>
        if pg_insertable inp db then
          res = Inr (pg_stored_job now (pg_nextJob db) inp, True) \<and>
          (\<forall>p t k. pg_findByKey p t k db' =
             (if (p, t, k) = (cj_ProjectID inp, cj_JobType inp, cj_IdempotencyKey inp)
              then Some (pg_stored_job now (pg_nextJob db) inp) else pg_findByKey p t k db))
        else (\<exists>e. res = Inl e) \<and> pg_jobs db' = pg_jobs db"
proof (cases "pg_findByKey (cj_ProjectID inp) (cj_JobType inp) (cj_IdempotencyKey inp) db")
  case (Some job)
  then show ?thesis using assms by (simp add: pg_CreateOrGet_def)
next
  case None
  show ?thesis
  proof (cases "pg_insertable inp db")
    case True
    then have "res = Inr (pg_stored_job now (pg_nextJob db) inp, True)"
      "db' = db\<lparr>pg_nextJob := pg_nextJob db + 1, pg_jobs := pg_jobs db @ [pg_newRow now (pg_nextJob db) inp]\<rparr>"
      using assms None by (simp_all add: pg_CreateOrGet_def pg_insertJob_cases [OF None])
    then show ?thesis using None True by (auto simp: pg_findByKey_append split: option.split)
  next
    case False
    then show ?thesis using assms None by (auto simp: pg_CreateOrGet_def pg_insertJob_cases [OF None])
  qed
qed

text \<open>Two equal requests that both find nothing: the second one fails on the unique key instead of finding the first.\<close>

lemma pg_create_race:
  assumes "pg_findByKey (cj_ProjectID inp) (cj_JobType inp) (cj_IdempotencyKey inp) db = None" "pg_insertable inp db"
  shows "\<exists>job db1 db2. pg_stmt_insertJob now1 inp db = (Inr job, db1) \<and> pg_stmt_insertJob now2 inp db1 = (Inl pg_uniqueViolation, db2)"
proof -
  let ?db1 = "db\<lparr>pg_nextJob := pg_nextJob db + 1, pg_jobs := pg_jobs db @ [pg_newRow now1 (pg_nextJob db) inp]\<rparr>"
  have "pg_findByKey (cj_ProjectID inp) (cj_JobType inp) (cj_IdempotencyKey inp) ?db1 \<noteq> None"
    by (simp add: pg_findByKey_append split: option.split)
  then have "find (pg_sameKey (cj_ProjectID inp) (cj_JobType inp) (cj_IdempotencyKey inp)) (pg_jobs ?db1) \<noteq> None"
    by (auto simp: pg_findByKey_def)
  then have "\<exists>db2. pg_stmt_insertJob now2 inp ?db1 = (Inl pg_uniqueViolation, db2)"
    using assms(2) by (auto simp: pg_stmt_insertJob_def pg_insertable_def pg_newRow_def Let_def)
  then show ?thesis using pg_insertJob_cases [OF assms(1), of now1] assms(2) by auto
qed

subsection \<open>Concrete databases\<close>

definition pg_demoRequest :: jobs_CreateJobInput where
  "pg_demoRequest = \<lparr>cj_ProjectID = 1, cj_DatasetID = 2, cj_SnapshotID = 0, cj_JobType = ''cleaning'',
     cj_RequiredResourceType = ''cpu'', cj_RequiredCapabilities = [''rules_engine''], cj_IdempotencyKey = ''k'', cj_Payload = None\<rparr>"

definition pg_demo :: "string \<Rightarrow> pg_Jobs" where
  "pg_demo st = \<lparr>pg_projects = [1], pg_datasets = [2], pg_snapshots = [], pg_items = [],
     pg_jobs = [(pg_newRow 5000 1 pg_demoRequest)\<lparr>jc_status := st, jc_started_at := Some 6000\<rparr>], pg_nextJob = 2,
     pg_events = [], pg_nextEvent = 1, pg_workers = []\<rparr>"

lemma pg_demo_ok: "st \<in> set jobs_statuses \<Longrightarrow> pg_ok (pg_demo st)"
  by (simp add: pg_ok_def pg_demo_def pg_row_ok_def pg_linked_def pg_references_def pg_newRow_def pg_demoRequest_def pg_resources_def pg_nullif0_def)

lemma pg_demo_get: "\<exists>a. pg_Get 1 (pg_demo st) = Some a \<and> job_Status a = st"
  by (simp add: pg_Get_def pg_row_def pg_demo_def)


theorem pg_differs_from_memory_witness:
  "pg_Claim 9001 1 ''w'' 70007 (pg_demo jobs_StatusCanceled)
     = (Inl (InvalidTransition jobs_StatusCanceled jobs_StatusRunning), pg_demo jobs_StatusCanceled)"
proof -
  obtain a where "pg_Get 1 (pg_demo jobs_StatusCanceled) = Some a" "job_Status a = jobs_StatusCanceled"
    using pg_demo_get by blast
  moreover have "pg_ok (pg_demo jobs_StatusCanceled)" by (rule pg_demo_ok) (simp add: jobs_statuses_def)
  ultimately show ?thesis using pg_differs_from_memory [of "pg_demo jobs_StatusCanceled" 1 a 9001 "''w''" 70007] by simp
qed

theorem pg_reports_race_witness:
  "\<exists>db1 db2 b. pg_stmt_complete 1 ''w1'' jobs_StatusSucceeded 4 4 0 None 7000 (pg_demo jobs_StatusRunning) = (Inr (), db1) \<and>
     pg_stmt_complete 1 ''w2'' jobs_StatusFailed 4 0 4 None 8000 db1 = (Inr (), db2) \<and>
     pg_Get 1 db2 = Some b \<and> job_Status b = jobs_StatusFailed"
proof -
  obtain a where a: "pg_Get 1 (pg_demo jobs_StatusRunning) = Some a" "job_Status a = jobs_StatusRunning"
    using pg_demo_get by blast
  have "pg_counters 4 4 0" "pg_counters 4 0 4" "jobs_StatusFailed \<noteq> jobs_StatusSucceeded"
    by (simp_all add: pg_counters_def pg_int4_def status_defs)
  then show ?thesis
    using pg_reports_race [OF pg_demo_ok [OF pg_status_valid(2)] a, of jobs_StatusSucceeded jobs_StatusFailed 4 4 0 4 0 4 "''w1''" 7000 "''w2''" 8000]
    by simp blast
qed

theorem pg_any_interleaving_witness:
  "pg_ok (foldl pg_stmt_exec (pg_demo jobs_StatusRunning)
     [StComplete 1 ''w1'' jobs_StatusSucceeded 4 4 0 None 7000, StProgress 1 ''w2'' 4 1 0 None, StInsertJob 8000 pg_demoRequest])"
  using pg_any_interleaving [OF pg_demo_ok [OF pg_status_valid(2)]] by blast

theorem pg_create_exact_witness:
  "snd (pg_CreateOrGet 9000 pg_demoRequest (pg_demo jobs_StatusRunning)) = pg_demo jobs_StatusRunning"
proof -
  obtain res db' where r: "pg_CreateOrGet 9000 pg_demoRequest (pg_demo jobs_StatusRunning) = (res, db')"
    by (cases "pg_CreateOrGet 9000 pg_demoRequest (pg_demo jobs_StatusRunning)")
  obtain job where "pg_findByKey (cj_ProjectID pg_demoRequest) (cj_JobType pg_demoRequest) (cj_IdempotencyKey pg_demoRequest)
      (pg_demo jobs_StatusRunning) = Some job"
    by (simp add: pg_findByKey_def pg_demo_def pg_sameKey_def)
  then show ?thesis using pg_create_exact [OF r] r by simp
qed

end
