(* ===== verification/Overview.thy ===== *)
theory Overview
  imports Tasks Job_Postgres Http
begin

section \<open>The project overview\<close>

text \<open>
  \<open>internal/overview\<close>: the service asks three sources, each given to it as a function, and condenses their answers; the
  handler. In the server the sources are the task service, the review repository and the Postgres job repository.
\<close>

record ovw_SummaryCard =
  sc_ID :: string
  sc_Title :: string
  sc_Count :: int
  sc_Href :: string

record ovw_BlockerCard =
  bl_ID :: string
  bl_Title :: string
  bl_Reason :: string
  bl_Href :: string

record ovw_FailedJobItem =
  fj_ID :: int
  fj_JobType :: string
  fj_Status :: string
  fj_ErrorMsg :: string

record ovw_ProjectOverview =
  ov_SummaryCards :: "ovw_SummaryCard list"
  ov_Blockers :: "ovw_BlockerCard list"
  ov_LongestIdleTask :: "tasks_Task option"
  ov_RecentFailedJobs :: "ovw_FailedJobItem list"

datatype ovw_error = OvwTasks tasks_error | OvwReview string | OvwJobs string

record ovw_Service =
  ovs_tasks :: "int \<Rightarrow> tasks_ListTasksFilter \<Rightarrow> tasks_error + tasks_Task list"
  ovs_review :: "int \<Rightarrow> string + int"
  ovs_jobs :: "int \<Rightarrow> int \<Rightarrow> string + jobs_Job list"

definition ovw_noFilter :: tasks_ListTasksFilter where
  "ovw_noFilter = \<lparr>lt_Status = [], lt_Kind = [], lt_Assignee = [], lt_Priority = [], lt_SnapshotID = None\<rparr>"

definition ovw_taskBlocker :: "tasks_Task \<Rightarrow> ovw_BlockerCard" where
  "ovw_taskBlocker task =
     \<lparr>bl_ID = ''task-'' @ show_int (task_ID task), bl_Title = task_Title task, bl_Reason = task_BlockerReason task,
      bl_Href = ''/tasks/'' @ show_int (task_ID task)\<rparr>"

text \<open>The loop over the tasks: open and blocked ones counted, the blockers, the task that is idle the longest.\<close>

fun ovw_taskLoop ::
  "tasks_Task list \<Rightarrow> int \<Rightarrow> int \<Rightarrow> tasks_Task option \<Rightarrow> ovw_BlockerCard list \<Rightarrow> int \<times> int \<times> tasks_Task option \<times> ovw_BlockerCard list" where
  "ovw_taskLoop [] openCount blockedCount longestIdle blockers = (openCount, blockedCount, longestIdle, blockers)"
| "ovw_taskLoop (task # ts) openCount blockedCount longestIdle blockers =
     (let isOpen = task_Status task \<noteq> tasks_StatusClosed; blocked = task_Status task = tasks_StatusBlocked in
      ovw_taskLoop ts (if isOpen then openCount + 1 else openCount)
        (if blocked then blockedCount + 1 else blockedCount)
        (if isOpen \<and> (case longestIdle of None \<Rightarrow> True | Some t \<Rightarrow> task_LastActivityAt task < task_LastActivityAt t)
         then Some task else longestIdle)
        (if blocked then blockers @ [ovw_taskBlocker task] else blockers))"

definition ovw_backlogBlocker :: "int \<Rightarrow> ovw_BlockerCard list" where
  "ovw_backlogBlocker reviewBacklog =
     (if 0 < reviewBacklog then
        [\<lparr>bl_ID = ''review-backlog'', bl_Title = ''Review backlog requires action'',
          bl_Reason = show_int reviewBacklog @ '' pending candidates remain in review'',
          bl_Href = ''/tasks?kind=review&status=ready''\<rparr>]
      else [])"

definition ovw_jobBlocker :: "jobs_Job \<Rightarrow> ovw_BlockerCard" where
  "ovw_jobBlocker job =
     \<lparr>bl_ID = ''job-'' @ show_int (job_ID job), bl_Title = ''Failed job: '' @ job_JobType job, bl_Reason = job_ErrorMsg job,
      bl_Href = ''/tasks?status=blocked''\<rparr>"

definition ovw_jobItem :: "jobs_Job \<Rightarrow> ovw_FailedJobItem" where
  "ovw_jobItem job =
     \<lparr>fj_ID = job_ID job, fj_JobType = job_JobType job, fj_Status = job_Status job, fj_ErrorMsg = job_ErrorMsg job\<rparr>"

definition ovw_summaryCards :: "int \<Rightarrow> int \<Rightarrow> int \<Rightarrow> int \<Rightarrow> ovw_SummaryCard list" where
  "ovw_summaryCards openCount blockedCount reviewBacklog failed =
     [\<lparr>sc_ID = ''open-tasks'', sc_Title = ''Open Tasks'', sc_Count = openCount, sc_Href = ''/tasks''\<rparr>,
      \<lparr>sc_ID = ''blocked-tasks'', sc_Title = ''Blocked Tasks'', sc_Count = blockedCount, sc_Href = ''/tasks?status=blocked''\<rparr>,
      \<lparr>sc_ID = ''review-backlog'', sc_Title = ''Review Backlog'', sc_Count = reviewBacklog,
       sc_Href = ''/tasks?kind=review&status=ready''\<rparr>,
      \<lparr>sc_ID = ''failed-jobs'', sc_Title = ''Failed Jobs'', sc_Count = failed, sc_Href = ''/tasks?status=blocked''\<rparr>]"

definition ovw_BuildOverview :: "ovw_Service \<Rightarrow> int \<Rightarrow> ovw_error + ovw_ProjectOverview" where
  "ovw_BuildOverview s projectID =
     (case ovs_tasks s projectID ovw_noFilter of
        Inl e \<Rightarrow> Inl (OvwTasks e)
      | Inr taskItems \<Rightarrow>
          (case ovs_review s projectID of
             Inl e \<Rightarrow> Inl (OvwReview e)
           | Inr reviewBacklog \<Rightarrow>
               (case ovs_jobs s projectID 5 of
                  Inl e \<Rightarrow> Inl (OvwJobs e)
                | Inr failedJobs \<Rightarrow>
                    (let (openCount, blockedCount, longestIdle, blockers) = ovw_taskLoop taskItems 0 0 None [] in
                     Inr \<lparr>ov_SummaryCards = ovw_summaryCards openCount blockedCount reviewBacklog (int (length failedJobs)),
                          ov_Blockers = blockers @ ovw_backlogBlocker reviewBacklog @ map ovw_jobBlocker failedJobs,
                          ov_LongestIdleTask = longestIdle, ov_RecentFailedJobs = map ovw_jobItem failedJobs\<rparr>))))"

definition ovw_HandleGetProjectOverview :: "string \<Rightarrow> ovw_Service \<Rightarrow> (ovw_error http_error, ovw_ProjectOverview) reply" where
  "ovw_HandleGetProjectOverview rawID s =
     (case path_int64 rawID of
        Inl e \<Rightarrow> ReplyError StatusBadRequest e
      | Inr projectID \<Rightarrow>
          (case ovw_BuildOverview s projectID of
             Inl e \<Rightarrow> ReplyError StatusBadRequest (HttpService e)
           | Inr out \<Rightarrow> Reply StatusOK out))"

text \<open>
  The sources \<open>cmd/api-server\<close> gives it: the task service, with \<open>ks\<close> the order in which it visits its tasks; the count of
  the review repository; the Postgres job repository.
\<close>

definition ovw_server :: "int list \<Rightarrow> tasks_Repo \<Rightarrow> (int \<Rightarrow> string + int) \<Rightarrow> pg_Jobs \<Rightarrow> ovw_Service" where
  "ovw_server ks r pending db =
     \<lparr>ovs_tasks = (\<lambda>p flt. tasks_ListTasks ks p flt r), ovs_review = pending,
      ovs_jobs = (\<lambda>p lim. Inr (pg_ListRecentFailedJobs p lim db))\<rparr>"

subsection \<open>What the overview shows\<close>

definition ovw_open :: "tasks_Task \<Rightarrow> bool" where
  "ovw_open t \<longleftrightarrow> task_Status t \<noteq> tasks_StatusClosed"

definition ovw_idler :: "tasks_Task option \<Rightarrow> tasks_Task list \<Rightarrow> tasks_Task option \<Rightarrow> bool" where
  "ovw_idler start ts res \<longleftrightarrow>
     (case res of
        None \<Rightarrow> start = None \<and> (\<forall>t \<in> set ts. \<not> ovw_open t)
      | Some t \<Rightarrow> (start = Some t \<or> t \<in> set ts \<and> ovw_open t) \<and>
          (case start of None \<Rightarrow> True | Some u \<Rightarrow> task_LastActivityAt t \<le> task_LastActivityAt u) \<and>
          (\<forall>u \<in> set ts. ovw_open u \<longrightarrow> task_LastActivityAt t \<le> task_LastActivityAt u))"

definition ovw_blocked :: "tasks_Task \<Rightarrow> bool" where
  "ovw_blocked t \<longleftrightarrow> task_Status t = tasks_StatusBlocked"

lemma ovw_taskLoop_exact:
  "\<exists>idle. ovw_taskLoop ts n b start bs =
     (n + int (length (filter ovw_open ts)), b + int (length (filter ovw_blocked ts)), idle,
      bs @ map ovw_taskBlocker (filter ovw_blocked ts)) \<and> ovw_idler start ts idle"
proof (induction ts arbitrary: n b start bs)
  case Nil
  then show ?case by (auto simp: ovw_idler_def split: option.split)
next
  case (Cons t ts)
  let ?first = "ovw_open t \<and> (case start of None \<Rightarrow> True | Some u \<Rightarrow> task_LastActivityAt t < task_LastActivityAt u)"
  let ?start = "if ?first then Some t else start"
  let ?n = "if ovw_open t then n + 1 else n" and ?b = "if ovw_blocked t then b + 1 else b"
    and ?bs = "if ovw_blocked t then bs @ [ovw_taskBlocker t] else bs"
  obtain idle where "ovw_taskLoop ts ?n ?b ?start ?bs =
     (?n + int (length (filter ovw_open ts)), ?b + int (length (filter ovw_blocked ts)), idle,
      ?bs @ map ovw_taskBlocker (filter ovw_blocked ts))" and idle: "ovw_idler ?start ts idle"
    using Cons.IH [of ?n ?b ?start ?bs] by blast
  then have run: "ovw_taskLoop (t # ts) n b start bs =
     (n + int (length (filter ovw_open (t # ts))), b + int (length (filter ovw_blocked (t # ts))), idle,
      bs @ map ovw_taskBlocker (filter ovw_blocked (t # ts)))"
    by (simp add: ovw_open_def ovw_blocked_def Let_def)
  have "ovw_idler start (t # ts) idle"
  proof (cases ?first)
    case True
    then show ?thesis using idle by (fastforce simp: ovw_idler_def split: option.splits)
  next
    case False
    then have "ovw_idler start ts idle" using idle by (simp split: if_splits)
    then show ?thesis using False by (cases start; cases idle; cases "ovw_open t") (auto simp: ovw_idler_def)
  qed
  then show ?case using run by blast
qed

text \<open>
  C40. What an overview shows, whatever the sources answer: the number of tasks that are not closed and of blocked ones, the review
  backlog and the number of failed jobs in the list it fetched, which is asked for five; a blocker card for each blocked task in the order of the tasks, then one
  for a backlog that is not empty, then one for each failed job; and as the longest idle task one that is not
  closed and whose last activity no other open task precedes, or none if all tasks are closed.
\<close>

theorem ovw_overview_exact:
  assumes "ovs_tasks s p ovw_noFilter = Inr ts" "ovs_review s p = Inr backlog" "ovs_jobs s p 5 = Inr failed"
  shows "\<exists>out. ovw_BuildOverview s p = Inr out \<and>
     map sc_Count (ov_SummaryCards out) =
       [int (length (filter ovw_open ts)), int (length (filter ovw_blocked ts)), backlog, int (length failed)] \<and>
     ov_Blockers out = map ovw_taskBlocker (filter ovw_blocked ts) @ ovw_backlogBlocker backlog @ map ovw_jobBlocker failed \<and>
     ovw_idler None ts (ov_LongestIdleTask out) \<and> ov_RecentFailedJobs out = map ovw_jobItem failed"
proof -
  obtain idle where "ovw_taskLoop ts 0 0 None [] =
     (int (length (filter ovw_open ts)), int (length (filter ovw_blocked ts)), idle,
      map ovw_taskBlocker (filter ovw_blocked ts))" "ovw_idler None ts idle"
    using ovw_taskLoop_exact [of ts 0 0 None "[]"] by auto
  then show ?thesis using assms by (simp add: ovw_BuildOverview_def ovw_summaryCards_def)
qed

text \<open>
  The card that counts failed jobs never shows more than five, and counts jobs that wait for a retry.
\<close>

lemma ovw_failed_card_capped:
  assumes "ovw_BuildOverview (ovw_server ks r pending db) p = Inr out"
  shows "sc_Count (ov_SummaryCards out ! 3) \<le> 5"
proof -
  obtain ts backlog where src: "ovs_tasks (ovw_server ks r pending db) p ovw_noFilter = Inr ts"
    "ovs_review (ovw_server ks r pending db) p = Inr backlog"
    using assms by (auto simp: ovw_BuildOverview_def split: sum.splits)
  let ?failed = "pg_ListRecentFailedJobs p 5 db"
  have "ovs_jobs (ovw_server ks r pending db) p 5 = Inr ?failed" by (simp add: ovw_server_def)
  then have "ov_SummaryCards out = ovw_summaryCards (fst (ovw_taskLoop ts 0 0 None [])) (fst (snd (ovw_taskLoop ts 0 0 None []))) backlog (int (length ?failed))"
    using assms src by (auto simp: ovw_BuildOverview_def case_prod_beta)
  then show ?thesis by (simp add: ovw_summaryCards_def pg_ListRecentFailedJobs_def Let_def eval_nat_numeral)
qed

definition ovw_demoTask :: "int \<Rightarrow> string \<Rightarrow> time \<Rightarrow> tasks_Task" where
  "ovw_demoTask i st t = (tasks_newTask 5 i \<lparr>ct_ProjectID = 1, ct_SnapshotID = None, ct_Title = ''t'', ct_Kind = tasks_KindOps,
     ct_AssetObjectKey = [], ct_MediaKind = [], ct_FrameIndex = None, ct_OntologyVersion = [], ct_Status = st, ct_Priority = [],
     ct_Assignee = [], ct_DueAt = None, ct_BlockerReason = ''why'', ct_LastActivityAt = t\<rparr>)"

theorem ovw_overview_exact_witness:
  "\<exists>out. ovw_BuildOverview \<lparr>ovs_tasks = (\<lambda>_ _. Inr [ovw_demoTask 1 tasks_StatusClosed 3, ovw_demoTask 2 tasks_StatusBlocked 9, ovw_demoTask 3 tasks_StatusReady 7]),
       ovs_review = (\<lambda>_. Inr 0), ovs_jobs = (\<lambda>_ _. Inr [])\<rparr> 1 = Inr out \<and>
     map sc_Count (ov_SummaryCards out) = [2, 1, 0, 0]"
proof -
  let ?ts = "[ovw_demoTask 1 tasks_StatusClosed 3, ovw_demoTask 2 tasks_StatusBlocked 9, ovw_demoTask 3 tasks_StatusReady 7]"
  have "length (filter ovw_open ?ts) = 2" "length (filter ovw_blocked ?ts) = 1"
    by (simp_all add: ovw_open_def ovw_blocked_def ovw_demoTask_def tasks_newTask_def)
  then show ?thesis
    using ovw_overview_exact [of "\<lparr>ovs_tasks = (\<lambda>_ _. Inr ?ts), ovs_review = (\<lambda>_. Inr 0), ovs_jobs = (\<lambda>_ _. Inr [])\<rparr>" 1 ?ts 0 "[]"] by auto
qed

end
