(* ===== verification/Publish_Postgres.thy ===== *)
theory Publish_Postgres
  imports Publish Job_Postgres "HOL-Library.Product_Lexorder"
begin

section \<open>Publishing: the Postgres repository\<close>

text \<open>
  \<open>internal/publish/postgres_repository.go\<close> over the tables of \<open>migrations/000004\<close>. A row of \<open>publish_batches\<close> is a batch whose
  items and feedback are empty; these are rows of their own tables. An operation that changes more than one table is a
  transaction: on an error all is undone but the numbers its sequences gave. \<open>now()\<close> is the start of the transaction. Deleting an item
  deletes the feedback that refers to it (\<open>on delete cascade\<close>). An insert that fails has taken its number from the sequence. The weight of a feedback is a \<open>numeric(5,2)\<close>.
\<close>

record pub_Tables =
  pt_projects :: "int list"
  pt_snapshots :: "int list"
  pt_datasets :: "int list"
  pt_batches :: "pub_Batch list"
  pt_items :: "pub_BatchItem list"
  pt_feedback :: "pub_Feedback list"
  pt_records :: "pub_Record list"
  pt_nextBatch :: int
  pt_nextItem :: int
  pt_nextFeed :: int
  pt_nextRecord :: int

datatype pt_error =
    PtNoRows
  | PtForeignKey
  | PtOutOfRange
  | PtDomain pub_error

type_synonym 'a pt_result = "(pt_error, 'a, pub_Tables) outcome"

definition pt_rollback :: "pub_Tables \<Rightarrow> pub_Tables \<Rightarrow> pub_Tables" where
  "pt_rollback old new =
     old\<lparr>pt_nextBatch := pt_nextBatch new, pt_nextItem := pt_nextItem new, pt_nextFeed := pt_nextFeed new,
         pt_nextRecord := pt_nextRecord new\<rparr>"

definition pt_transaction :: "(pub_Tables \<Rightarrow> 'a pt_result) \<Rightarrow> pub_Tables \<Rightarrow> 'a pt_result" where
  "pt_transaction f t = (case f t of (Inl e, t') \<Rightarrow> (Inl e, pt_rollback t t') | (Inr x, t') \<Rightarrow> (Inr x, t'))"

text \<open>\<open>numeric(5,2)\<close>: two decimals, halves away from zero, three digits before the point.\<close>

definition pt_numeric52 :: "real \<Rightarrow> real option" where
  "pt_numeric52 x =
     (let r = sgn x * real_of_int \<lfloor>\<bar>x\<bar> * 100 + 1 / 2\<rfloor> / 100 in if 1000 \<le> \<bar>r\<bar> then None else Some r)"

subsection \<open>Reading\<close>

definition pt_batchRow :: "int \<Rightarrow> pub_Tables \<Rightarrow> pub_Batch option" where
  "pt_batchRow bid t = find (\<lambda>b. bt_ID b = bid) (pt_batches t)"

definition pt_listBatchItems :: "int \<Rightarrow> pub_Tables \<Rightarrow> pub_BatchItem list" where
  "pt_listBatchItems bid t =
     map pub_cloneItem (sort_key (\<lambda>i. (bi_Position i, bi_ID i)) (filter (\<lambda>i. bi_PublishBatchID i = bid) (pt_items t)))"

definition pt_listFeedback :: "int \<Rightarrow> pub_Tables \<Rightarrow> pub_Feedback list" where
  "pt_listFeedback bid t =
     sort_key (\<lambda>f. (fb_CreatedAt f, fb_ID f)) (filter (\<lambda>f. fb_PublishBatchID f = bid) (pt_feedback t))"

definition pt_GetBatch :: "int \<Rightarrow> pub_Tables \<Rightarrow> pt_error + pub_Batch" where
  "pt_GetBatch bid t =
     (case pt_batchRow bid t of
        None \<Rightarrow> Inl PtNoRows
      | Some b \<Rightarrow>
          Inr (b\<lparr>bt_RuleSummary := json_clone (bt_RuleSummary b), bt_Items := pt_listBatchItems bid t,
                 bt_Feedback := pt_listFeedback bid t\<rparr>))"

definition pt_GetRecord :: "int \<Rightarrow> pub_Tables \<Rightarrow> pt_error + pub_Record" where
  "pt_GetRecord rid t =
     (case find (\<lambda>x. rec_ID x = rid) (pt_records t) of None \<Rightarrow> Inl PtNoRows | Some x \<Rightarrow> Inr (pub_cloneRecord x))"

definition pt_BuildWorkspace :: "int \<Rightarrow> pub_Tables \<Rightarrow> pt_error + pub_Workspace" where
  "pt_BuildWorkspace bid t = (case pt_GetBatch bid t of Inl e \<Rightarrow> Inl e | Inr b \<Rightarrow> Inr (pub_buildWorkspace b))"

subsection \<open>Inserting rows\<close>

definition pt_stmt_insertItem :: "time \<Rightarrow> int \<Rightarrow> int \<Rightarrow> pub_CreateBatchItemInput \<Rightarrow> pub_Tables \<Rightarrow> unit pt_result" where
  "pt_stmt_insertItem now bid pos x t =
     (let item = \<lparr>bi_ID = pt_nextItem t, bi_PublishBatchID = bid, bi_CandidateID = ci_CandidateID x, bi_TaskID = ci_TaskID x,
            bi_DatasetID = ci_DatasetID x, bi_SnapshotID = ci_SnapshotID x, bi_ItemPayload = ci_ItemPayload x, bi_Position = pos,
            bi_CreatedAt = pg_timestamptz now, bi_UpdatedAt = pg_timestamptz now\<rparr>;
          t' = t\<lparr>pt_nextItem := pt_nextItem t + 1\<rparr>
      in if pt_batchRow bid t = None \<or> ci_SnapshotID x \<notin> set (pt_snapshots t) \<or> ci_DatasetID x \<notin> set (pt_datasets t)
         then (Inl PtForeignKey, t') else (Inr (), t'\<lparr>pt_items := pt_items t @ [item]\<rparr>))"

fun pt_insertBatchItems :: "time \<Rightarrow> int \<Rightarrow> int \<Rightarrow> int \<Rightarrow> pub_CreateBatchItemInput list \<Rightarrow> pub_Tables \<Rightarrow> unit pt_result" where
  "pt_insertBatchItems now bid snapshotID pos [] t = (Inr (), t)"
| "pt_insertBatchItems now bid snapshotID pos (x # xs) t =
     (if ci_SnapshotID x \<noteq> snapshotID then (Inl (PtDomain (PubItemSnapshotMismatch (ci_SnapshotID x) snapshotID)), t)
      else and_then (pt_stmt_insertItem now bid pos x t) (\<lambda>_ t'. pt_insertBatchItems now bid snapshotID (pos + 1) xs t'))"

definition pt_insertFeedback :: "time \<Rightarrow> int \<Rightarrow> int option \<Rightarrow> pub_CreateFeedbackInput \<Rightarrow> pub_Tables \<Rightarrow> pub_Feedback pt_result" where
  "pt_insertFeedback now bid itemID inp t =
     (let f = pub_newFeedback (pg_timestamptz now) (pt_nextFeed t) bid itemID inp; t' = t\<lparr>pt_nextFeed := pt_nextFeed t + 1\<rparr> in
      case pt_numeric52 (fb_InfluenceWeight f) of
        None \<Rightarrow> (Inl PtOutOfRange, t')
      | Some weight \<Rightarrow>
          if pt_batchRow bid t = None \<or> (case itemID of None \<Rightarrow> False | Some i \<Rightarrow> i \<notin> bi_ID ` set (pt_items t))
          then (Inl PtForeignKey, t')
          else (Inr (f\<lparr>fb_InfluenceWeight := weight\<rparr>),
                t'\<lparr>pt_feedback := pt_feedback t @ [f\<lparr>fb_InfluenceWeight := weight\<rparr>]\<rparr>))"

fun pt_insertFeedbacks :: "time \<Rightarrow> int \<Rightarrow> pub_CreateFeedbackInput list \<Rightarrow> pub_Tables \<Rightarrow> unit pt_result" where
  "pt_insertFeedbacks now bid [] t = (Inr (), t)"
| "pt_insertFeedbacks now bid (x # xs) t =
     and_then (pt_insertFeedback now bid None x t) (\<lambda>_ t'. pt_insertFeedbacks now bid xs t')"

definition pt_updateBatch :: "int \<Rightarrow> (pub_Batch \<Rightarrow> pub_Batch) \<Rightarrow> pub_Tables \<Rightarrow> pub_Tables" where
  "pt_updateBatch bid f t = t\<lparr>pt_batches := map (\<lambda>b. if bt_ID b = bid then f b else b) (pt_batches t)\<rparr>"

subsection \<open>Operations\<close>

definition pt_newBatchRow :: "time \<Rightarrow> int \<Rightarrow> pub_CreateBatchInput \<Rightarrow> pub_Batch" where
  "pt_newBatchRow now bid inp =
     \<lparr>bt_ID = bid, bt_ProjectID = cb_ProjectID inp, bt_SnapshotID = cb_SnapshotID inp, bt_Source = cb_Source inp,
      bt_Status = pub_StatusDraft, bt_RuleSummary = cb_RuleSummary inp, bt_OwnerEditVersion = 0, bt_ReviewApprovedAt = None,
      bt_ReviewApprovedBy = [], bt_OwnerDecidedAt = None, bt_OwnerDecidedBy = [], bt_Items = [], bt_Feedback = [],
      bt_CreatedAt = pg_timestamptz now, bt_UpdatedAt = pg_timestamptz now\<rparr>"

definition pt_createBody :: "time \<Rightarrow> pub_CreateBatchInput \<Rightarrow> pub_Tables \<Rightarrow> int pt_result" where
  "pt_createBody now inp t =
     (let bid = pt_nextBatch t; t1 = t\<lparr>pt_nextBatch := bid + 1\<rparr> in
      if cb_ProjectID inp \<notin> set (pt_projects t) \<or> cb_SnapshotID inp \<notin> set (pt_snapshots t) then (Inl PtForeignKey, t1)
      else and_then (pt_insertBatchItems now bid (cb_SnapshotID inp) 0 (cb_Items inp)
                       (t1\<lparr>pt_batches := pt_batches t @ [pt_newBatchRow now bid inp]\<rparr>))
             (\<lambda>_ t'. (Inr bid, t')))"

definition pt_CreateBatch :: "time \<Rightarrow> pub_CreateBatchInput \<Rightarrow> pub_Tables \<Rightarrow> pub_Batch pt_result" where
  "pt_CreateBatch now inp t = and_then (pt_transaction (pt_createBody now inp) t) (\<lambda>bid t'. (pt_GetBatch bid t', t'))"

definition pt_deleteItems :: "int \<Rightarrow> pub_Tables \<Rightarrow> pub_Tables" where
  "pt_deleteItems bid t =
     (let gone = bi_ID ` set (filter (\<lambda>i. bi_PublishBatchID i = bid) (pt_items t)) in
      t\<lparr>pt_items := filter (\<lambda>i. bi_PublishBatchID i \<noteq> bid) (pt_items t),
        pt_feedback := filter (\<lambda>f. fb_PublishBatchItemID f \<notin> gone) (pt_feedback t)\<rparr>)"

definition pt_replaceBody :: "time \<Rightarrow> int \<Rightarrow> pub_CreateBatchItemInput list \<Rightarrow> pub_Tables \<Rightarrow> unit pt_result" where
  "pt_replaceBody now bid items t =
     (let t1 = pt_deleteItems bid t in
      case pt_batchRow bid t1 of
        None \<Rightarrow> (Inl PtNoRows, t1)
      | Some b \<Rightarrow>
          and_then (pt_insertBatchItems now bid (bt_SnapshotID b) 0 items t1) (\<lambda>_ t2.
            if \<not> pg_int4 (bt_OwnerEditVersion b + 1) then (Inl PtOutOfRange, t2)
            else (Inr (), pt_updateBatch bid (\<lambda>b. b\<lparr>bt_Status := pub_StatusOwnerChangesRequested,
                   bt_OwnerEditVersion := bt_OwnerEditVersion b + 1, bt_ReviewApprovedAt := None, bt_ReviewApprovedBy := [],
                   bt_OwnerDecidedAt := None, bt_OwnerDecidedBy := [], bt_UpdatedAt := pg_timestamptz now\<rparr>) t2)))"

definition pt_ReplaceBatchItems :: "time \<Rightarrow> int \<Rightarrow> pub_CreateBatchItemInput list \<Rightarrow> pub_Tables \<Rightarrow> pub_Batch pt_result" where
  "pt_ReplaceBatchItems now bid items t =
     and_then (pt_transaction (pt_replaceBody now bid items) t) (\<lambda>_ t'. (pt_GetBatch bid t', t'))"

text \<open>The new status and stamps of a review decision, which the database gets as arguments.\<close>

definition pt_reviewOutcome :: "time \<Rightarrow> string \<Rightarrow> string \<Rightarrow> pub_error + string \<times> time option \<times> string" where
  "pt_reviewOutcome client decision actor =
     (if decision = pub_ReviewDecisionApprove then Inr (pub_StatusReviewApproved, Some (pg_timestamptz client), actor)
      else if decision = pub_ReviewDecisionReject then Inr (pub_StatusRejected, None, [])
      else if decision = pub_ReviewDecisionRework then Inr (pub_StatusOwnerChangesRequested, None, [])
      else Inl (PubUnsupportedReviewDecision decision))"

definition pt_reviewBody ::
  "time \<Rightarrow> time \<Rightarrow> int \<Rightarrow> string \<Rightarrow> string \<Rightarrow> pub_CreateFeedbackInput list \<Rightarrow> pub_Tables \<Rightarrow> unit pt_result" where
  "pt_reviewBody now client bid decision actor feedback t =
     and_then (pt_insertFeedbacks now bid feedback t) (\<lambda>_ t1.
       case pt_reviewOutcome client decision actor of
         Inl e \<Rightarrow> (Inl (PtDomain e), t1)
       | Inr (st, approvedAt, approvedBy) \<Rightarrow>
           if pt_batchRow bid t1 = None then (Inl PtNoRows, t1)
           else (Inr (), pt_updateBatch bid (\<lambda>b. b\<lparr>bt_Status := st, bt_ReviewApprovedAt := approvedAt,
                  bt_ReviewApprovedBy := approvedBy, bt_UpdatedAt := pg_timestamptz now\<rparr>) t1))"

definition pt_ApplyReviewDecision ::
  "time \<Rightarrow> time \<Rightarrow> int \<Rightarrow> string \<Rightarrow> string \<Rightarrow> pub_CreateFeedbackInput list \<Rightarrow> pub_Tables \<Rightarrow> unit pt_result" where
  "pt_ApplyReviewDecision now client bid decision actor feedback =
     pt_transaction (pt_reviewBody now client bid decision actor feedback)"

definition pt_decide :: "time \<Rightarrow> time \<Rightarrow> int \<Rightarrow> string \<Rightarrow> string \<Rightarrow> pub_Tables \<Rightarrow> pub_Tables" where
  "pt_decide now client bid st actor =
     pt_updateBatch bid (\<lambda>b. b\<lparr>bt_Status := st, bt_OwnerDecidedAt := Some (pg_timestamptz client), bt_OwnerDecidedBy := actor,
       bt_UpdatedAt := pg_timestamptz now\<rparr>)"

definition pt_newRecord :: "time \<Rightarrow> time \<Rightarrow> int \<Rightarrow> pub_Batch \<Rightarrow> string \<Rightarrow> pub_Record" where
  "pt_newRecord now client rid b actor =
     \<lparr>rec_ID = rid, rec_ProjectID = bt_ProjectID b, rec_SnapshotID = bt_SnapshotID b, rec_PublishBatchID = bt_ID b,
      rec_Status = pub_StatusPublished,
      rec_Summary = [(''decision'', GStr pub_OwnerDecisionApprove), (''batch_id'', GInt64 (bt_ID b)),
        (''snapshot_id'', GInt64 (bt_SnapshotID b))],
      rec_ApprovedByOwner = actor, rec_ApprovedAt = pg_timestamptz client, rec_CreatedAt = pg_timestamptz now\<rparr>"

definition pt_ownerBody ::
  "time \<Rightarrow> time \<Rightarrow> int \<Rightarrow> string \<Rightarrow> string \<Rightarrow> pub_CreateFeedbackInput list \<Rightarrow> pub_Tables \<Rightarrow> pub_Record option pt_result" where
  "pt_ownerBody now client bid decision actor feedback t =
     and_then (pt_insertFeedbacks now bid feedback t) (\<lambda>_ t1.
       case pt_batchRow bid t1 of
         None \<Rightarrow> (Inl PtNoRows, t1)
       | Some b \<Rightarrow>
           if decision = pub_OwnerDecisionApprove then
             let x = pt_newRecord now client (pt_nextRecord t1) b actor in
             (Inr (Some (pub_cloneRecord x)),
              pt_decide now client bid pub_StatusPublished actor
                (t1\<lparr>pt_nextRecord := pt_nextRecord t1 + 1, pt_records := pt_records t1 @ [x]\<rparr>))
           else if decision = pub_OwnerDecisionReject then (Inr None, pt_decide now client bid pub_StatusRejected actor t1)
           else if decision = pub_OwnerDecisionRework
           then (Inr None, pt_decide now client bid pub_StatusOwnerChangesRequested actor t1)
           else (Inl (PtDomain (PubUnsupportedOwnerDecision decision)), t1))"

definition pt_ApplyOwnerDecision ::
  "time \<Rightarrow> time \<Rightarrow> int \<Rightarrow> string \<Rightarrow> string \<Rightarrow> pub_CreateFeedbackInput list \<Rightarrow> pub_Tables \<Rightarrow> pub_Record option pt_result" where
  "pt_ApplyOwnerDecision now client bid decision actor feedback =
     pt_transaction (pt_ownerBody now client bid decision actor feedback)"

definition pt_AddBatchFeedback :: "time \<Rightarrow> int \<Rightarrow> pub_CreateFeedbackInput \<Rightarrow> pub_Tables \<Rightarrow> pub_Feedback pt_result" where
  "pt_AddBatchFeedback now bid inp = pt_insertFeedback now bid None inp"

definition pt_AddItemFeedback :: "time \<Rightarrow> int \<Rightarrow> int \<Rightarrow> pub_CreateFeedbackInput \<Rightarrow> pub_Tables \<Rightarrow> pub_Feedback pt_result" where
  "pt_AddItemFeedback now bid iid inp = pt_insertFeedback now bid (Some iid) inp"

subsection \<open>Suggestions\<close>

text \<open>
  The query over candidates, data sets, snapshots and tasks is an argument: its rows, in its order. The loop groups them; \<open>rfc3339\<close> is
  the text of an instant. A group is found by its key.
\<close>

record pt_candidateRow =
  cw_CandidateID :: int
  cw_TaskID :: int
  cw_DatasetID :: int
  cw_SnapshotID :: int
  cw_RiskLevel :: string
  cw_SourceModel :: string
  cw_AcceptedWindow :: time
  cw_ItemPayload :: obj

definition pt_suggestionKey :: "(time \<Rightarrow> string) \<Rightarrow> pt_candidateRow \<Rightarrow> string" where
  "pt_suggestionKey rfc3339 r =
     show_int (cw_SnapshotID r) @ '':'' @ cw_RiskLevel r @ '':'' @ cw_SourceModel r @ '':'' @ rfc3339 (cw_AcceptedWindow r)"

definition pt_suggestionItem :: "pt_candidateRow \<Rightarrow> pub_SuggestedCandidateItem" where
  "pt_suggestionItem r =
     \<lparr>si_CandidateID = cw_CandidateID r, si_TaskID = cw_TaskID r, si_DatasetID = cw_DatasetID r,
      si_ItemPayload = json_clone (cw_ItemPayload r)\<rparr>"

definition pt_newGroup :: "(time \<Rightarrow> string) \<Rightarrow> pt_candidateRow \<Rightarrow> pub_SuggestedCandidate" where
  "pt_newGroup rfc3339 r =
     \<lparr>sc_SnapshotID = cw_SnapshotID r, sc_SuggestionKey = pt_suggestionKey rfc3339 r,
      sc_Summary = [(''risk_level'', GStr (cw_RiskLevel r)), (''source_model'', GStr (cw_SourceModel r)),
        (''accepted_window'', GStr (rfc3339 (cw_AcceptedWindow r)))],
      sc_Items = []\<rparr>"

fun pt_groupLoop ::
  "(time \<Rightarrow> string) \<Rightarrow> pt_candidateRow list \<Rightarrow> (string \<rightharpoonup> pub_SuggestedCandidate) \<Rightarrow> string list \<Rightarrow>
     (string \<rightharpoonup> pub_SuggestedCandidate) \<times> string list" where
  "pt_groupLoop rfc3339 [] grouped order = (grouped, order)"
| "pt_groupLoop rfc3339 (r # rs) grouped order =
     (let k = pt_suggestionKey rfc3339 r;
          (g, order') = (case grouped k of None \<Rightarrow> (pt_newGroup rfc3339 r, order @ [k]) | Some g \<Rightarrow> (g, order))
      in pt_groupLoop rfc3339 rs (grouped(k \<mapsto> g\<lparr>sc_Items := sc_Items g @ [pt_suggestionItem r]\<rparr>)) order')"

definition pt_ListSuggestedCandidates :: "(time \<Rightarrow> string) \<Rightarrow> pt_candidateRow list \<Rightarrow> pub_SuggestedCandidate list" where
  "pt_ListSuggestedCandidates rfc3339 rows =
     (let (grouped, order) = pt_groupLoop rfc3339 rows Map.empty [] in map (\<lambda>k. the (grouped k)) order)"

end
