(* ===== verification/Publish_Postgres_Facts.thy ===== *)
theory Publish_Postgres_Facts
  imports Publish_Postgres
begin

section \<open>Publishing in Postgres: integrity of the tables\<close>

text \<open>
  The consistency of the tables (\<open>pt_ok\<close>: every reference finds its row, numbers are distinct and below their sequences), the
  order of growth (\<open>pt_le\<close>: no batch or record is lost or changes its identity), and that every operation keeps both, whether
  it succeeds or fails.
\<close>

definition pt_batch_ids :: "pub_Tables \<Rightarrow> int set" where "pt_batch_ids t = bt_ID ` set (pt_batches t)"

definition pt_item_ids :: "pub_Tables \<Rightarrow> int set" where "pt_item_ids t = bi_ID ` set (pt_items t)"

definition pt_item_ok :: "pub_Tables \<Rightarrow> pub_BatchItem \<Rightarrow> bool" where
  "pt_item_ok t i \<longleftrightarrow> 1 \<le> bi_ID i \<and> bi_ID i < pt_nextItem t \<and> bi_PublishBatchID i \<in> pt_batch_ids t"

definition pt_feedback_ok :: "pub_Tables \<Rightarrow> pub_Feedback \<Rightarrow> bool" where
  "pt_feedback_ok t f \<longleftrightarrow> fb_ID f < pt_nextFeed t \<and> fb_PublishBatchID f \<in> pt_batch_ids t \<and>
     (fb_PublishBatchItemID f = 0 \<or> fb_PublishBatchItemID f \<in> pt_item_ids t)"

definition pt_record_ok :: "pub_Tables \<Rightarrow> pub_Record \<Rightarrow> bool" where
  "pt_record_ok t x \<longleftrightarrow> rec_ID x < pt_nextRecord t \<and> rec_PublishBatchID x \<in> pt_batch_ids t"

definition pt_ok :: "pub_Tables \<Rightarrow> bool" where
  "pt_ok t \<longleftrightarrow> 1 \<le> pt_nextItem t \<and>
     distinct (map bt_ID (pt_batches t)) \<and> (\<forall>b \<in> set (pt_batches t). bt_ID b < pt_nextBatch t) \<and>
     distinct (map bi_ID (pt_items t)) \<and> (\<forall>i \<in> set (pt_items t). pt_item_ok t i) \<and>
     distinct (map fb_ID (pt_feedback t)) \<and> (\<forall>f \<in> set (pt_feedback t). pt_feedback_ok t f) \<and>
     distinct (map rec_ID (pt_records t)) \<and> (\<forall>x \<in> set (pt_records t). pt_record_ok t x)"

text \<open>Batches keep who they are and are never removed, records are never touched, numbers are never given again.\<close>

definition pt_identity :: "pub_Batch \<Rightarrow> int \<times> int \<times> int \<times> string" where
  "pt_identity b = (bt_ID b, bt_ProjectID b, bt_SnapshotID b, bt_Source b)"

definition pt_le :: "pub_Tables \<Rightarrow> pub_Tables \<Rightarrow> bool" where
  "pt_le t t' \<longleftrightarrow>
     (\<exists>bs. map pt_identity (pt_batches t') = map pt_identity (pt_batches t) @ bs) \<and>
     (\<exists>xs. pt_records t' = pt_records t @ xs) \<and>
     pt_nextBatch t \<le> pt_nextBatch t' \<and> pt_nextItem t \<le> pt_nextItem t' \<and> pt_nextFeed t \<le> pt_nextFeed t' \<and>
     pt_nextRecord t \<le> pt_nextRecord t'"

lemma pt_le_refl [simp]: "pt_le t t"
  by (simp add: pt_le_def)

lemma pt_le_trans: "pt_le a b \<Longrightarrow> pt_le b c \<Longrightarrow> pt_le a c"
  by (auto simp: pt_le_def)

definition pt_fine :: "pub_Tables \<Rightarrow> pub_Tables \<Rightarrow> bool" where
  "pt_fine t t' \<longleftrightarrow> pt_ok t' \<and> pt_le t t'"

lemma pt_fine_trans: "pt_fine a b \<Longrightarrow> pt_fine b c \<Longrightarrow> pt_fine a c"
  by (auto simp: pt_fine_def intro: pt_le_trans)

lemma pt_fine_refl: "pt_ok t \<Longrightarrow> pt_fine t t"
  by (simp add: pt_fine_def)

lemma pt_fine_ok: "pt_fine a b \<Longrightarrow> pt_ok b"
  by (simp add: pt_fine_def)

lemma and_then_fine:
  assumes "pt_fine t (snd m)" "\<And>x t1. m = (Inr x, t1) \<Longrightarrow> pt_fine t t1 \<Longrightarrow> pt_fine t (snd (f x t1))"
  shows "pt_fine t (snd (and_then m f))"
  using assms by (cases m; cases "fst m") (auto simp: and_then_def)

lemmas pt_ok_defs = pt_ok_def pt_item_ok_def pt_feedback_ok_def pt_record_ok_def pt_batch_ids_def pt_item_ids_def

subsection \<open>Rows\<close>

lemma pt_numbers_fine:
  assumes "pt_ok t" "pt_nextBatch t \<le> b" "pt_nextItem t \<le> i" "pt_nextFeed t \<le> f" "pt_nextRecord t \<le> r"
  shows "pt_fine t (t\<lparr>pt_nextBatch := b, pt_nextItem := i, pt_nextFeed := f, pt_nextRecord := r\<rparr>)"
  using assms by (fastforce simp: pt_fine_def pt_le_def pt_ok_defs)

lemma pt_rollback_fine: "pt_ok t \<Longrightarrow> pt_le t t' \<Longrightarrow> pt_fine t (pt_rollback t t')"
  unfolding pt_rollback_def by (rule pt_numbers_fine) (simp_all add: pt_le_def)

lemma pt_transaction_fine:
  assumes "pt_ok t" "pt_fine t (snd (f t))" shows "pt_fine t (snd (pt_transaction f t))"
  using assms pt_rollback_fine by (auto simp: pt_transaction_def pt_fine_def split: prod.split sum.split)

lemma pt_batchRow_ids: "pt_batchRow bid t = None \<longleftrightarrow> bid \<notin> pt_batch_ids t"
  by (auto simp: pt_batchRow_def find_None_iff pt_batch_ids_def)

lemma pt_batchRow_mem: "pt_batchRow bid t = Some b \<Longrightarrow> b \<in> set (pt_batches t) \<and> bt_ID b = bid"
  by (auto simp: pt_batchRow_def find_Some_iff)

lemma pt_next_fine:
  assumes "pt_ok t"
  shows "pt_fine t (t\<lparr>pt_nextBatch := pt_nextBatch t + 1\<rparr>)" "pt_fine t (t\<lparr>pt_nextItem := pt_nextItem t + 1\<rparr>)"
    "pt_fine t (t\<lparr>pt_nextFeed := pt_nextFeed t + 1\<rparr>)"
  using pt_numbers_fine [OF assms, of "pt_nextBatch t + 1" "pt_nextItem t" "pt_nextFeed t" "pt_nextRecord t"]
    pt_numbers_fine [OF assms, of "pt_nextBatch t" "pt_nextItem t + 1" "pt_nextFeed t" "pt_nextRecord t"]
    pt_numbers_fine [OF assms, of "pt_nextBatch t" "pt_nextItem t" "pt_nextFeed t + 1" "pt_nextRecord t"] by simp_all

lemma pt_add_item:
  assumes ok: "pt_ok t" and i: "bi_ID i = pt_nextItem t" "bi_PublishBatchID i \<in> pt_batch_ids t"
  shows "pt_fine t (t\<lparr>pt_nextItem := pt_nextItem t + 1, pt_items := pt_items t @ [i]\<rparr>)" (is "pt_fine t ?t'")
proof -
  have "pt_item_ok ?t' j" if "j \<in> set (pt_items ?t')" for j
    using that ok i by (auto simp: pt_ok_def pt_item_ok_def pt_batch_ids_def)
  moreover have "pt_feedback_ok ?t' f" if "f \<in> set (pt_feedback t)" for f
    using that ok by (auto simp: pt_ok_def pt_feedback_ok_def pt_batch_ids_def pt_item_ids_def)
  moreover have "pt_record_ok ?t' x" if "x \<in> set (pt_records t)" for x
    using that ok by (auto simp: pt_ok_def pt_record_ok_def pt_batch_ids_def)
  moreover have "pt_nextItem t \<notin> bi_ID ` set (pt_items t)" using ok by (auto simp: pt_ok_def pt_item_ok_def)
  ultimately have "pt_ok ?t'" using ok i by (simp add: pt_ok_def)
  then show ?thesis by (simp add: pt_fine_def pt_le_def)
qed

lemma pt_add_feedback:
  assumes ok: "pt_ok t" and f: "fb_ID f = pt_nextFeed t" "fb_PublishBatchID f \<in> pt_batch_ids t"
    "fb_PublishBatchItemID f = 0 \<or> fb_PublishBatchItemID f \<in> pt_item_ids t"
  shows "pt_fine t (t\<lparr>pt_nextFeed := pt_nextFeed t + 1, pt_feedback := pt_feedback t @ [f]\<rparr>)" (is "pt_fine t ?t'")
proof -
  have "pt_item_ok ?t' j" if "j \<in> set (pt_items t)" for j
    using that ok by (auto simp: pt_ok_def pt_item_ok_def pt_batch_ids_def)
  moreover have "pt_feedback_ok ?t' g" if "g \<in> set (pt_feedback ?t')" for g
    using that ok f by (auto simp: pt_ok_def pt_feedback_ok_def pt_batch_ids_def pt_item_ids_def)
  moreover have "pt_record_ok ?t' x" if "x \<in> set (pt_records t)" for x
    using that ok by (auto simp: pt_ok_def pt_record_ok_def pt_batch_ids_def)
  moreover have "pt_nextFeed t \<notin> fb_ID ` set (pt_feedback t)" using ok by (auto simp: pt_ok_def pt_feedback_ok_def)
  ultimately have "pt_ok ?t'" using ok f by (simp add: pt_ok_def)
  then show ?thesis by (simp add: pt_fine_def pt_le_def)
qed

lemma pt_stmt_insertItem_fine:
  assumes ok: "pt_ok t" shows "pt_fine t (snd (pt_stmt_insertItem now bid pos x t))"
proof (cases "pt_batchRow bid t = None \<or> ci_SnapshotID x \<notin> set (pt_snapshots t) \<or> ci_DatasetID x \<notin> set (pt_datasets t)")
  case True
  then show ?thesis using pt_next_fine(2) [OF ok] by (simp add: pt_stmt_insertItem_def Let_def)
next
  case False
  then show ?thesis using pt_batchRow_ids [of bid t]
    by (auto simp: pt_stmt_insertItem_def Let_def intro!: pt_add_item [OF ok])
qed

lemma pt_insertBatchItems_fine: "pt_ok t \<Longrightarrow> pt_fine t (snd (pt_insertBatchItems now bid sid pos xs t))"
proof (induction xs arbitrary: t pos)
  case Nil
  then show ?case by (simp add: pt_fine_refl)
next
  case (Cons x xs)
  have "pt_fine t (snd (and_then (pt_stmt_insertItem now bid pos x t)
      (\<lambda>_ t'. pt_insertBatchItems now bid sid (pos + 1) xs t')))"
    by (rule and_then_fine [OF pt_stmt_insertItem_fine [OF Cons.prems]])
      (rule pt_fine_trans, assumption, rule Cons.IH, erule pt_fine_ok)
  then show ?case using pt_fine_refl [OF Cons.prems] by simp
qed

lemma pt_insertFeedback_fine:
  assumes ok: "pt_ok t" shows "pt_fine t (snd (pt_insertFeedback now bid it inp t))"
proof -
  let ?f = "pub_newFeedback (pg_timestamptz now) (pt_nextFeed t) bid it inp"
  show ?thesis
  proof (cases "pt_numeric52 (fb_InfluenceWeight ?f) = None \<or> pt_batchRow bid t = None \<or> (case it of None \<Rightarrow> False | Some i \<Rightarrow> i \<notin> bi_ID ` set (pt_items t))")
    case True
    then have "snd (pt_insertFeedback now bid it inp t) = t\<lparr>pt_nextFeed := pt_nextFeed t + 1\<rparr>"
      by (auto simp: pt_insertFeedback_def Let_def split: option.split)
    then show ?thesis using pt_next_fine(3) [OF ok] by simp
  next
    case False
    then obtain w where w: "pt_numeric52 (fb_InfluenceWeight ?f) = Some w" by auto
    let ?f' = "?f\<lparr>fb_InfluenceWeight := w\<rparr>"
    have "snd (pt_insertFeedback now bid it inp t) = t\<lparr>pt_nextFeed := pt_nextFeed t + 1, pt_feedback := pt_feedback t @ [?f']\<rparr>"
      using False w by (auto simp: pt_insertFeedback_def Let_def)
    moreover have "pt_fine t (t\<lparr>pt_nextFeed := pt_nextFeed t + 1, pt_feedback := pt_feedback t @ [?f']\<rparr>)"
      by (rule pt_add_feedback [OF ok])
        (use False pt_batchRow_ids [of bid t] in \<open>auto simp: pub_newFeedback_def pt_item_ids_def split: option.splits\<close>)
    ultimately show ?thesis by simp
  qed
qed

lemma pt_insertFeedbacks_fine: "pt_ok t \<Longrightarrow> pt_fine t (snd (pt_insertFeedbacks now bid xs t))"
proof (induction xs arbitrary: t)
  case Nil
  then show ?case by (simp add: pt_fine_refl)
next
  case (Cons x xs)
  show ?case unfolding pt_insertFeedbacks.simps
    by (rule and_then_fine [OF pt_insertFeedback_fine [OF Cons.prems]])
      (rule pt_fine_trans, assumption, rule Cons.IH, erule pt_fine_ok)
qed

lemma pt_updateBatch_fine:
  assumes ok: "pt_ok t" and f: "\<And>b. pt_identity (f b) = pt_identity b"
  shows "pt_fine t (pt_updateBatch bid f t)"
proof -
  let ?g = "\<lambda>b. if bt_ID b = bid then f b else b"
  define bs where "bs = map ?g (pt_batches t)"
  have id: "bt_ID (?g b) = bt_ID b" for b using f [of b] by (simp add: pt_identity_def)
  have ids: "map bt_ID bs = map bt_ID (pt_batches t)" using id by (simp add: bs_def)
  have who: "map pt_identity bs = map pt_identity (pt_batches t)" using f by (simp add: bs_def)
  have img: "bt_ID ` set bs = bt_ID ` set (pt_batches t)" using arg_cong [OF ids, of set] by simp
  have below: "\<forall>b \<in> set bs. bt_ID b < pt_nextBatch t"
  proof
    fix b assume "b \<in> set bs"
    then have "bt_ID b \<in> bt_ID ` set (pt_batches t)" using img by blast
    then show "bt_ID b < pt_nextBatch t" using ok by (auto simp: pt_ok_def)
  qed
  have t': "pt_updateBatch bid f t = t\<lparr>pt_batches := bs\<rparr>" by (simp add: pt_updateBatch_def bs_def)
  have same: "pt_item_ok (t\<lparr>pt_batches := bs\<rparr>) = pt_item_ok t" "pt_feedback_ok (t\<lparr>pt_batches := bs\<rparr>) = pt_feedback_ok t"
    "pt_record_ok (t\<lparr>pt_batches := bs\<rparr>) = pt_record_ok t"
    by (auto simp: pt_item_ok_def pt_feedback_ok_def pt_record_ok_def pt_batch_ids_def pt_item_ids_def img)
  have "pt_ok (t\<lparr>pt_batches := bs\<rparr>)" using ok below unfolding pt_ok_def same by (simp add: ids)
  then show ?thesis unfolding t' by (simp add: pt_fine_def pt_le_def who)
qed

lemma pt_update_after:
  assumes "pt_fine t t1" "\<And>b. pt_identity (f b) = pt_identity b" shows "pt_fine t (pt_updateBatch bid f t1)"
  by (rule pt_fine_trans [OF assms(1)]) (rule pt_updateBatch_fine [OF pt_fine_ok [OF assms(1)] assms(2)])

lemma pt_deleteItems_fine:
  assumes ok: "pt_ok t" shows "pt_fine t (pt_deleteItems bid t)"
proof -
  let ?t' = "pt_deleteItems bid t"
  have "pt_item_ok ?t' j" if "j \<in> set (pt_items t)" for j
    using that ok by (auto simp: pt_ok_def pt_item_ok_def pt_batch_ids_def pt_deleteItems_def Let_def)
  moreover have "pt_feedback_ok ?t' f" if "f \<in> set (pt_feedback ?t')" for f
    using that ok by (fastforce simp: pt_ok_def pt_feedback_ok_def pt_batch_ids_def pt_item_ids_def pt_deleteItems_def Let_def)
  moreover have "pt_record_ok ?t' x" if "x \<in> set (pt_records t)" for x
    using that ok by (auto simp: pt_ok_def pt_record_ok_def pt_batch_ids_def pt_deleteItems_def Let_def)
  ultimately have "pt_ok ?t'" using ok by (auto simp: pt_ok_def distinct_map_filter) (auto simp: pt_deleteItems_def Let_def distinct_map_filter)
  then show ?thesis by (simp add: pt_fine_def pt_le_def pt_deleteItems_def Let_def)
qed


subsection \<open>Operations\<close>

lemma pt_add_batch:
  assumes ok: "pt_ok t" and b: "bt_ID b = pt_nextBatch t"
  shows "pt_fine t (t\<lparr>pt_nextBatch := pt_nextBatch t + 1, pt_batches := pt_batches t @ [b]\<rparr>)" (is "pt_fine t ?t'")
proof -
  have "pt_item_ok ?t' j" if "j \<in> set (pt_items t)" for j
    using that ok by (auto simp: pt_ok_def pt_item_ok_def pt_batch_ids_def)
  moreover have "pt_feedback_ok ?t' g" if "g \<in> set (pt_feedback t)" for g
    using that ok by (auto simp: pt_ok_def pt_feedback_ok_def pt_batch_ids_def pt_item_ids_def)
  moreover have "pt_record_ok ?t' x" if "x \<in> set (pt_records t)" for x
    using that ok by (auto simp: pt_ok_def pt_record_ok_def pt_batch_ids_def)
  moreover have "\<forall>c \<in> set (pt_batches ?t'). bt_ID c < pt_nextBatch ?t'"
    "distinct (map bt_ID (pt_batches ?t'))"
    using ok b by (auto simp: pt_ok_def)
  ultimately have "pt_ok ?t'" using ok by (simp add: pt_ok_def)
  then show ?thesis by (simp add: pt_fine_def pt_le_def)
qed

lemma pt_add_record:
  assumes ok: "pt_ok t" and x: "rec_ID x = pt_nextRecord t" "rec_PublishBatchID x \<in> pt_batch_ids t"
  shows "pt_fine t (t\<lparr>pt_nextRecord := pt_nextRecord t + 1, pt_records := pt_records t @ [x]\<rparr>)" (is "pt_fine t ?t'")
proof -
  have "pt_item_ok ?t' j" if "j \<in> set (pt_items t)" for j
    using that ok by (auto simp: pt_ok_def pt_item_ok_def pt_batch_ids_def)
  moreover have "pt_feedback_ok ?t' g" if "g \<in> set (pt_feedback t)" for g
    using that ok by (auto simp: pt_ok_def pt_feedback_ok_def pt_batch_ids_def pt_item_ids_def)
  moreover have "pt_record_ok ?t' y" if "y \<in> set (pt_records ?t')" for y
    using that ok x by (auto simp: pt_ok_def pt_record_ok_def pt_batch_ids_def)
  moreover have "pt_nextRecord t \<notin> rec_ID ` set (pt_records t)" using ok by (auto simp: pt_ok_def pt_record_ok_def)
  ultimately have "pt_ok ?t'" using ok x by (simp add: pt_ok_def)
  then show ?thesis by (simp add: pt_fine_def pt_le_def)
qed

lemma pt_createBody_fine:
  assumes ok: "pt_ok t" shows "pt_fine t (snd (pt_createBody now inp t))"
proof (cases "cb_ProjectID inp \<notin> set (pt_projects t) \<or> cb_SnapshotID inp \<notin> set (pt_snapshots t)")
  case True
  then show ?thesis using pt_next_fine(1) [OF ok] by (simp add: pt_createBody_def Let_def)
next
  case False
  define b where "b = pt_newBatchRow now (pt_nextBatch t) inp"
  define t1 where "t1 = t\<lparr>pt_nextBatch := pt_nextBatch t + 1, pt_batches := pt_batches t @ [b]\<rparr>"
  have t1: "pt_fine t t1" unfolding t1_def by (rule pt_add_batch [OF ok]) (simp add: b_def pt_newBatchRow_def)
  have "pt_fine t (snd (pt_insertBatchItems now (pt_nextBatch t) (cb_SnapshotID inp) 0 (cb_Items inp) t1))"
    by (rule pt_fine_trans [OF t1]) (rule pt_insertBatchItems_fine [OF pt_fine_ok [OF t1]])
  then have "pt_fine t (snd (and_then (pt_insertBatchItems now (pt_nextBatch t) (cb_SnapshotID inp) 0 (cb_Items inp) t1)
      (\<lambda>_ t'. (Inr (pt_nextBatch t), t'))))"
    by (rule and_then_fine) simp
  then show ?thesis using False unfolding pt_createBody_def Let_def b_def [symmetric] by (simp add: t1_def)
qed

lemma pt_CreateBatch_fine:
  assumes ok: "pt_ok t" shows "pt_fine t (snd (pt_CreateBatch now inp t))"
  unfolding pt_CreateBatch_def
  by (rule and_then_fine, rule pt_transaction_fine [OF ok], rule pt_createBody_fine [OF ok]) simp

lemma pt_replaceBody_fine:
  assumes ok: "pt_ok t" shows "pt_fine t (snd (pt_replaceBody now bid items t))"
proof -
  define t1 where "t1 = pt_deleteItems bid t"
  have t1: "pt_fine t t1" unfolding t1_def by (rule pt_deleteItems_fine [OF ok])
  show ?thesis
  proof (cases "pt_batchRow bid t1")
    case None
    then show ?thesis using t1 by (simp add: pt_replaceBody_def Let_def t1_def [symmetric])
  next
    case (Some b)
    have ins: "pt_fine t (snd (pt_insertBatchItems now bid (bt_SnapshotID b) 0 items t1))"
      by (rule pt_fine_trans [OF t1]) (rule pt_insertBatchItems_fine [OF pt_fine_ok [OF t1]])
    show ?thesis unfolding pt_replaceBody_def Let_def t1_def [symmetric] Some option.case
      by (rule and_then_fine [OF ins])
        (simp, auto intro!: pt_update_after simp: pt_identity_def)
  qed
qed

lemma pt_ReplaceBatchItems_fine:
  assumes ok: "pt_ok t" shows "pt_fine t (snd (pt_ReplaceBatchItems now bid items t))"
  unfolding pt_ReplaceBatchItems_def
  by (rule and_then_fine, rule pt_transaction_fine [OF ok], rule pt_replaceBody_fine [OF ok]) simp

lemma pt_reviewBody_fine:
  assumes ok: "pt_ok t" shows "pt_fine t (snd (pt_reviewBody now client bid d actor fs t))"
  unfolding pt_reviewBody_def
  by (rule and_then_fine [OF pt_insertFeedbacks_fine [OF ok]])
    (auto intro!: pt_update_after simp: pt_identity_def split: sum.split)

lemma pt_ApplyReviewDecision_fine:
  assumes ok: "pt_ok t" shows "pt_fine t (snd (pt_ApplyReviewDecision now client bid d actor fs t))"
  unfolding pt_ApplyReviewDecision_def by (rule pt_transaction_fine [OF ok], rule pt_reviewBody_fine [OF ok])

lemma pt_decide_fine: "pt_ok t \<Longrightarrow> pt_fine t (pt_decide now client bid st actor t)"
  unfolding pt_decide_def by (rule pt_updateBatch_fine) (simp_all add: pt_identity_def)

lemma pt_ownerBody_fine:
  assumes ok: "pt_ok t" shows "pt_fine t (snd (pt_ownerBody now client bid d actor fs t))"
  unfolding pt_ownerBody_def
proof (rule and_then_fine [OF pt_insertFeedbacks_fine [OF ok]])
  fix x t1 assume f: "pt_fine t t1"
  note ok1 = pt_fine_ok [OF f]
  show "pt_fine t (snd (case pt_batchRow bid t1 of None \<Rightarrow> (Inl PtNoRows, t1) | Some b \<Rightarrow>
      if d = pub_OwnerDecisionApprove then
        let x = pt_newRecord now client (pt_nextRecord t1) b actor in
        (Inr (Some (pub_cloneRecord x)), pt_decide now client bid pub_StatusPublished actor
           (t1\<lparr>pt_nextRecord := pt_nextRecord t1 + 1, pt_records := pt_records t1 @ [x]\<rparr>))
      else if d = pub_OwnerDecisionReject then (Inr None, pt_decide now client bid pub_StatusRejected actor t1)
      else if d = pub_OwnerDecisionRework then (Inr None, pt_decide now client bid pub_StatusOwnerChangesRequested actor t1)
      else (Inl (PtDomain (PubUnsupportedOwnerDecision d)), t1)))"
  proof (cases "pt_batchRow bid t1")
    case None then show ?thesis using f by simp
  next
    case (Some b)
    let ?x = "pt_newRecord now client (pt_nextRecord t1) b actor"
    have b: "bt_ID b = bid" "bid \<in> pt_batch_ids t1" using pt_batchRow_mem [OF Some] by (auto simp: pt_batch_ids_def)
    have r: "pt_fine t (t1\<lparr>pt_nextRecord := pt_nextRecord t1 + 1, pt_records := pt_records t1 @ [?x]\<rparr>)"
      by (rule pt_fine_trans [OF f]) (rule pt_add_record [OF ok1], simp_all add: pt_newRecord_def b)
    have dec: "pt_fine t (pt_decide now client bid st actor u)" if "pt_fine t u" for st u
      by (rule pt_fine_trans [OF that]) (rule pt_decide_fine [OF pt_fine_ok [OF that]])
    show ?thesis using Some dec [OF r] dec [OF f] f by (simp add: Let_def)
  qed
qed

lemma pt_ApplyOwnerDecision_fine:
  assumes ok: "pt_ok t" shows "pt_fine t (snd (pt_ApplyOwnerDecision now client bid d actor fs t))"
  unfolding pt_ApplyOwnerDecision_def by (rule pt_transaction_fine [OF ok], rule pt_ownerBody_fine [OF ok])

subsection \<open>References to other tables, and what an operation leaves alone\<close>

text \<open>The foreign keys to projects, snapshots and data sets.\<close>

definition pt_linked :: "pub_Tables \<Rightarrow> bool" where
  "pt_linked t \<longleftrightarrow>
     (\<forall>b \<in> set (pt_batches t). bt_ProjectID b \<in> set (pt_projects t) \<and> bt_SnapshotID b \<in> set (pt_snapshots t)) \<and>
     (\<forall>i \<in> set (pt_items t). bi_SnapshotID i \<in> set (pt_snapshots t) \<and> bi_DatasetID i \<in> set (pt_datasets t)) \<and>
     (\<forall>x \<in> set (pt_records t). rec_ProjectID x \<in> set (pt_projects t) \<and> rec_SnapshotID x \<in> set (pt_snapshots t))"

text \<open>An operation on one batch: the rows and items of all others are as before.\<close>

definition pt_others :: "int \<Rightarrow> pub_Tables \<Rightarrow> pub_Tables \<Rightarrow> bool" where
  "pt_others bid t t' \<longleftrightarrow>
     (\<forall>c. c \<noteq> bid \<longrightarrow> pt_batchRow c t' = pt_batchRow c t \<and> pt_listBatchItems c t' = pt_listBatchItems c t)"

definition pt_moves :: "int \<Rightarrow> pub_Tables \<Rightarrow> pub_Tables \<Rightarrow> bool" where
  "pt_moves bid t t' \<longleftrightarrow>
     pt_projects t' = pt_projects t \<and> pt_snapshots t' = pt_snapshots t \<and> pt_datasets t' = pt_datasets t \<and>
     (pt_linked t \<longrightarrow> pt_linked t') \<and> pt_others bid t t'"

lemma pt_moves_refl [simp]: "pt_moves bid t t"
  by (simp add: pt_moves_def pt_others_def)

lemma pt_moves_trans: "pt_moves bid a b \<Longrightarrow> pt_moves bid b c \<Longrightarrow> pt_moves bid a c"
  by (simp add: pt_moves_def pt_others_def)

lemma and_then_moves:
  assumes "pt_moves bid t (snd m)" "\<And>x t1. m = (Inr x, t1) \<Longrightarrow> pt_moves bid t1 (snd (f x t1))"
  shows "pt_moves bid t (snd (and_then m f))"
proof (cases m)
  case (Pair r t1)
  show ?thesis
  proof (cases r)
    case (Inl e)
    then show ?thesis using assms(1) Pair by simp
  next
    case (Inr x)
    then show ?thesis using pt_moves_trans [OF assms(1) [unfolded Pair snd_conv] assms(2)] Pair by simp
  qed
qed

lemma pt_rollback_moves: "pt_moves bid t (pt_rollback t t')"
  by (simp add: pt_moves_def pt_others_def pt_linked_def pt_rollback_def pt_batchRow_def pt_listBatchItems_def)

lemma pt_transaction_moves: "pt_moves bid t (snd (f t)) \<Longrightarrow> pt_moves bid t (snd (pt_transaction f t))"
  by (auto simp: pt_transaction_def pt_rollback_moves split: prod.split sum.split)

lemma pt_stmt_insertItem_moves: "pt_moves bid t (snd (pt_stmt_insertItem now bid pos x t))"
  by (auto simp: pt_stmt_insertItem_def Let_def pt_moves_def pt_others_def pt_linked_def pt_batchRow_def pt_listBatchItems_def)

lemma pt_insertBatchItems_moves: "pt_moves bid t (snd (pt_insertBatchItems now bid sid pos xs t))"
proof (induction xs arbitrary: t pos)
  case (Cons x xs)
  have "pt_moves bid t (snd (and_then (pt_stmt_insertItem now bid pos x t)
      (\<lambda>_ t'. pt_insertBatchItems now bid sid (pos + 1) xs t')))"
    by (rule and_then_moves [OF pt_stmt_insertItem_moves]) (rule Cons.IH)
  then show ?case by simp
qed simp

lemma pt_insertFeedback_moves: "pt_moves c t (snd (pt_insertFeedback now bid it inp t))"
  by (auto simp: pt_insertFeedback_def Let_def pt_moves_def pt_others_def pt_linked_def pt_batchRow_def pt_listBatchItems_def
      split: option.split)

lemma pt_insertFeedbacks_moves: "pt_moves c t (snd (pt_insertFeedbacks now bid xs t))"
proof (induction xs arbitrary: t)
  case (Cons x xs)
  show ?case unfolding pt_insertFeedbacks.simps by (rule and_then_moves [OF pt_insertFeedback_moves]) (rule Cons.IH)
qed simp

lemma pt_batchRow_update_other:
  assumes "c \<noteq> bid" "\<And>b. bt_ID (f b) = bt_ID b"
  shows "pt_batchRow c (pt_updateBatch bid f t) = pt_batchRow c t"
proof -
  have "find (\<lambda>b. bt_ID b = c) (map (\<lambda>b. if bt_ID b = bid then f b else b) bs) = find (\<lambda>b. bt_ID b = c) bs" for bs
    using assms by (induction bs) auto
  then show ?thesis by (simp add: pt_batchRow_def pt_updateBatch_def)
qed

lemma pt_updateBatch_moves:
  assumes "\<And>b. pt_identity (f b) = pt_identity b"
  shows "pt_moves bid t (pt_updateBatch bid f t)"
proof -
  have f: "bt_ID (f b) = bt_ID b" "bt_ProjectID (f b) = bt_ProjectID b" "bt_SnapshotID (f b) = bt_SnapshotID b" for b
    using assms [of b] by (simp_all add: pt_identity_def)
  have "pt_others bid t (pt_updateBatch bid f t)"
    using pt_batchRow_update_other [of _ bid f t] f(1) by (simp add: pt_others_def) (simp add: pt_listBatchItems_def pt_updateBatch_def)
  moreover have "pt_linked (pt_updateBatch bid f t)" if "pt_linked t"
    using that f(2,3) by (auto simp: pt_linked_def pt_updateBatch_def)
  ultimately show ?thesis by (simp add: pt_moves_def) (simp add: pt_updateBatch_def)
qed

lemma pt_deleteItems_moves: "pt_moves bid t (pt_deleteItems bid t)"
proof -
  have "filter (\<lambda>i. bi_PublishBatchID i \<noteq> bid \<and> bi_PublishBatchID i = c) (pt_items t) = filter (\<lambda>i. bi_PublishBatchID i = c) (pt_items t)"
    if "c \<noteq> bid" for c using that by (intro filter_cong) auto
  then show ?thesis
    by (simp add: pt_deleteItems_def Let_def pt_moves_def pt_others_def pt_linked_def pt_batchRow_def pt_listBatchItems_def)
qed

lemma pt_createBody_moves: "pt_moves (pt_nextBatch t) t (snd (pt_createBody now inp t))"
proof (cases "cb_ProjectID inp \<notin> set (pt_projects t) \<or> cb_SnapshotID inp \<notin> set (pt_snapshots t)")
  case True
  then show ?thesis by (simp add: pt_createBody_def Let_def pt_moves_def pt_others_def pt_linked_def pt_batchRow_def pt_listBatchItems_def)
next
  case False
  define t1 where "t1 = t\<lparr>pt_nextBatch := pt_nextBatch t + 1, pt_batches := pt_batches t @ [pt_newBatchRow now (pt_nextBatch t) inp]\<rparr>"
  have t1: "pt_moves (pt_nextBatch t) t t1"
    using False by (auto simp: t1_def pt_moves_def pt_others_def pt_linked_def pt_batchRow_def pt_listBatchItems_def pt_newBatchRow_def find_append
        split: option.split)
  have "pt_moves (pt_nextBatch t) t1 (snd (and_then (pt_insertBatchItems now (pt_nextBatch t) (cb_SnapshotID inp) 0 (cb_Items inp) t1)
      (\<lambda>_ t'. (Inr (pt_nextBatch t), t'))))"
    by (rule and_then_moves [OF pt_insertBatchItems_moves]) simp
  from pt_moves_trans [OF t1 this] show ?thesis using False by (simp add: pt_createBody_def Let_def t1_def)
qed

lemma pt_replaceBody_moves: "pt_moves bid t (snd (pt_replaceBody now bid items t))"
proof -
  define t1 where "t1 = pt_deleteItems bid t"
  have t1: "pt_moves bid t t1" unfolding t1_def by (rule pt_deleteItems_moves)
  show ?thesis
  proof (cases "pt_batchRow bid t1")
    case None
    then show ?thesis using t1 by (simp add: pt_replaceBody_def Let_def t1_def [symmetric])
  next
    case (Some b)
    show ?thesis unfolding pt_replaceBody_def Let_def t1_def [symmetric] Some option.case
      by (rule pt_moves_trans [OF t1 and_then_moves [OF pt_insertBatchItems_moves]])
        (simp, auto intro!: pt_updateBatch_moves simp: pt_identity_def)
  qed
qed

lemma pt_reviewBody_moves: "pt_moves bid t (snd (pt_reviewBody now client bid d actor fs t))"
  unfolding pt_reviewBody_def
  by (rule and_then_moves [OF pt_insertFeedbacks_moves])
    (auto intro!: pt_updateBatch_moves simp: pt_identity_def split: sum.split)

lemma pt_decide_moves: "pt_moves bid t (pt_decide now client bid st actor t)"
  unfolding pt_decide_def by (rule pt_updateBatch_moves) (simp add: pt_identity_def)

lemma pt_record_moves:
  assumes "pt_batchRow bid t = Some b"
  shows "pt_moves bid t (t\<lparr>pt_nextRecord := n, pt_records := pt_records t @ [pt_newRecord now client rid b actor]\<rparr>)"
proof -
  have "b \<in> set (pt_batches t)" using pt_batchRow_mem [OF assms] by blast
  then show ?thesis by (auto simp: pt_moves_def pt_others_def pt_linked_def pt_batchRow_def pt_listBatchItems_def pt_newRecord_def)
qed

lemma pt_ownerBody_moves: "pt_moves bid t (snd (pt_ownerBody now client bid d actor fs t))"
  unfolding pt_ownerBody_def
proof (rule and_then_moves [OF pt_insertFeedbacks_moves])
  fix x t1
  show "pt_moves bid t1 (snd (case pt_batchRow bid t1 of None \<Rightarrow> (Inl PtNoRows, t1) | Some b \<Rightarrow>
      if d = pub_OwnerDecisionApprove then
        let x = pt_newRecord now client (pt_nextRecord t1) b actor in
        (Inr (Some (pub_cloneRecord x)), pt_decide now client bid pub_StatusPublished actor
           (t1\<lparr>pt_nextRecord := pt_nextRecord t1 + 1, pt_records := pt_records t1 @ [x]\<rparr>))
      else if d = pub_OwnerDecisionReject then (Inr None, pt_decide now client bid pub_StatusRejected actor t1)
      else if d = pub_OwnerDecisionRework then (Inr None, pt_decide now client bid pub_StatusOwnerChangesRequested actor t1)
      else (Inl (PtDomain (PubUnsupportedOwnerDecision d)), t1)))"
  proof (cases "pt_batchRow bid t1")
    case (Some b)
    show ?thesis using Some pt_moves_trans [OF pt_record_moves [OF Some] pt_decide_moves] pt_decide_moves by (simp add: Let_def)
  qed simp
qed

end
