(* ===== verification/Publish_Postgres_Claims.thy ===== *)
theory Publish_Postgres_Claims
  imports Publish_Postgres_Facts
begin

section \<open>Publishing in Postgres: histories, edits, suggestions\<close>

text \<open>
  The operations as one machine: the tables stay consistent and only grow over any history, and an operation that fails leaves the
  rows as they were. What an edit does to a batch and its feedback, in closed form. The grouping of suggestions against its
  specification.
\<close>

subsection \<open>Histories\<close>

datatype pt_op =
    PtCreate time pub_CreateBatchInput
  | PtReplace time int "pub_CreateBatchItemInput list"
  | PtReview time time int string string "pub_CreateFeedbackInput list"
  | PtOwner time time int string string "pub_CreateFeedbackInput list"
  | PtBatchFeedback time int pub_CreateFeedbackInput
  | PtItemFeedback time int int pub_CreateFeedbackInput

definition pt_ended :: "'a pt_result \<Rightarrow> bool \<times> pub_Tables" where
  "pt_ended m = (succeeds m, snd m)"

fun pt_exec :: "pub_Tables \<Rightarrow> pt_op \<Rightarrow> bool \<times> pub_Tables" where
  "pt_exec t (PtCreate now inp) = pt_ended (pt_CreateBatch now inp t)"
| "pt_exec t (PtReplace now bid items) = pt_ended (pt_ReplaceBatchItems now bid items t)"
| "pt_exec t (PtReview now client bid d actor fs) = pt_ended (pt_ApplyReviewDecision now client bid d actor fs t)"
| "pt_exec t (PtOwner now client bid d actor fs) = pt_ended (pt_ApplyOwnerDecision now client bid d actor fs t)"
| "pt_exec t (PtBatchFeedback now bid inp) = pt_ended (pt_AddBatchFeedback now bid inp t)"
| "pt_exec t (PtItemFeedback now bid iid inp) = pt_ended (pt_AddItemFeedback now bid iid inp t)"

definition pt_step :: "pub_Tables \<Rightarrow> pt_op \<Rightarrow> pub_Tables" where
  "pt_step t p = snd (pt_exec t p)"

lemma pt_step_fine: "pt_ok t \<Longrightarrow> pt_fine t (pt_step t p)"
  by (cases p) (simp_all add: pt_step_def pt_ended_def pt_CreateBatch_fine pt_ReplaceBatchItems_fine
    pt_ApplyReviewDecision_fine pt_ApplyOwnerDecision_fine pt_AddBatchFeedback_def pt_AddItemFeedback_def pt_insertFeedback_fine)

interpretation pt_machine: progress_machine pt_ok pt_step pt_ok pt_le
  by unfold_locales (use pt_step_fine in \<open>auto simp: pt_fine_def intro: pt_le_trans\<close>)

text \<open>The rows of the tables.\<close>

definition pt_rows :: "pub_Tables \<Rightarrow> pub_Batch list \<times> pub_BatchItem list \<times> pub_Feedback list \<times> pub_Record list" where
  "pt_rows t = (pt_batches t, pt_items t, pt_feedback t, pt_records t)"

lemma pt_le_ids: "pt_le t t' \<Longrightarrow> pt_batch_ids t \<subseteq> pt_batch_ids t'"
proof -
  assume "pt_le t t'"
  then obtain bs where "map pt_identity (pt_batches t') = map pt_identity (pt_batches t) @ bs" by (auto simp: pt_le_def)
  then have "map fst (map pt_identity (pt_batches t')) = map fst (map pt_identity (pt_batches t)) @ map fst bs" by simp
  then have ids: "map bt_ID (pt_batches t') = map bt_ID (pt_batches t) @ map fst bs" by (simp add: pt_identity_def comp_def)
  have "bt_ID ` set (pt_batches t') = bt_ID ` set (pt_batches t) \<union> set (map fst bs)"
    using arg_cong [OF ids, of set] by simp
  then show ?thesis by (simp add: pt_batch_ids_def)
qed

lemma pt_GetBatch_found: "bid \<in> pt_batch_ids t \<Longrightarrow> \<exists>b. pt_GetBatch bid t = Inr b"
  using pt_batchRow_ids [of bid t] by (auto simp: pt_GetBatch_def)

lemma pt_transaction_fails: "fst (pt_transaction f t) = Inl e \<Longrightarrow> pt_rows (snd (pt_transaction f t)) = pt_rows t"
  by (auto simp: pt_transaction_def pt_rows_def pt_rollback_def split: prod.splits sum.splits)

lemma pt_transaction_Inr: "pt_transaction f t = (Inr x, t') \<longleftrightarrow> f t = (Inr x, t')"
  by (auto simp: pt_transaction_def split: prod.splits sum.splits)

text \<open>Reading the batch after the commit never fails.\<close>

lemma pt_createBody_found:
  assumes ok: "pt_ok t" and run: "pt_createBody now inp t = (Inr bid, t')" shows "bid \<in> pt_batch_ids t'"
proof -
  define t1 where "t1 = t\<lparr>pt_nextBatch := pt_nextBatch t + 1,
    pt_batches := pt_batches t @ [pt_newBatchRow now (pt_nextBatch t) inp]\<rparr>"
  have ins: "pt_insertBatchItems now (pt_nextBatch t) (cb_SnapshotID inp) 0 (cb_Items inp) t1 = (Inr (), t')"
    and bid: "bid = pt_nextBatch t"
    using run by (auto simp: pt_createBody_def Let_def and_then_Inr_conv t1_def split: if_splits)
  have f: "pt_fine t t1" unfolding t1_def by (rule pt_add_batch [OF ok]) (simp add: pt_newBatchRow_def)
  have "pt_le t1 t'"
    using pt_insertBatchItems_fine [OF pt_fine_ok [OF f], of now "pt_nextBatch t" "cb_SnapshotID inp" 0 "cb_Items inp"] ins
    by (simp add: pt_fine_def)
  moreover have "bid \<in> pt_batch_ids t1" using bid by (simp add: pt_batch_ids_def t1_def pt_newBatchRow_def)
  ultimately show ?thesis using pt_le_ids by blast
qed

lemma pt_replaceBody_found:
  assumes ok: "pt_ok t" and run: "pt_replaceBody now bid items t = (Inr (), t')" shows "bid \<in> pt_batch_ids t'"
proof -
  have "pt_le t t'" using pt_replaceBody_fine [OF ok, of now bid items] run by (simp add: pt_fine_def)
  moreover have "bid \<in> pt_batch_ids t"
    using run pt_batchRow_mem [of bid "pt_deleteItems bid t"]
    by (auto simp: pt_replaceBody_def Let_def pt_batch_ids_def pt_deleteItems_def split: option.splits)
  ultimately show ?thesis using pt_le_ids by blast
qed

lemma pt_commit_then_read:
  assumes found: "\<And>x t'. f t = (Inr x, t') \<Longrightarrow> bid x \<in> pt_batch_ids t'"
    and fails: "\<not> succeeds (and_then (pt_transaction f t) (\<lambda>x t'. (pt_GetBatch (bid x) t', t')))"
  shows "pt_rows (snd (and_then (pt_transaction f t) (\<lambda>x t'. (pt_GetBatch (bid x) t', t')))) = pt_rows t"
proof (cases "pt_transaction f t")
  case (Pair r t')
  show ?thesis
  proof (cases r)
    case (Inl e)
    then show ?thesis using pt_transaction_fails [of f t e] Pair by simp
  next
    case (Inr x)
    have "f t = (Inr x, t')" by (rule iffD1 [OF pt_transaction_Inr]) (simp only: Pair Inr)
    from pt_GetBatch_found [OF found [OF this]] obtain b where "pt_GetBatch (bid x) t' = Inr b" ..
    then have "succeeds (and_then (pt_transaction f t) (\<lambda>x t'. (pt_GetBatch (bid x) t', t')))"
      by (simp only: Pair Inr and_then_simps succeeds_simps)
    with fails have False by (rule notE)
    then show ?thesis ..
  qed
qed

lemma pt_insertFeedback_fails:
  "\<not> succeeds (pt_insertFeedback now bid it inp t) \<Longrightarrow> pt_rows (snd (pt_insertFeedback now bid it inp t)) = pt_rows t"
  by (auto simp: pt_insertFeedback_def Let_def pt_rows_def split: option.splits if_splits)

lemma pt_failed_step:
  assumes ok: "pt_ok t" and fails: "\<not> fst (pt_exec t p)" shows "pt_rows (pt_step t p) = pt_rows t"
proof (cases p)
  case (PtCreate now inp)
  then show ?thesis using fails pt_commit_then_read [of "pt_createBody now inp" t "\<lambda>x. x"] pt_createBody_found [OF ok]
    by (auto simp: pt_step_def pt_ended_def pt_CreateBatch_def)
next
  case (PtReplace now bid items)
  then show ?thesis using fails pt_commit_then_read [of "pt_replaceBody now bid items" t "\<lambda>_. bid"] pt_replaceBody_found [OF ok]
    by (auto simp: pt_step_def pt_ended_def pt_ReplaceBatchItems_def)
next
  case (PtReview now client bid d actor fs)
  then show ?thesis using fails pt_transaction_fails [of "pt_reviewBody now client bid d actor fs" t]
    by (auto simp: pt_step_def pt_ended_def pt_ApplyReviewDecision_def succeeds_def split: sum.splits)
next
  case (PtOwner now client bid d actor fs)
  then show ?thesis using fails pt_transaction_fails [of "pt_ownerBody now client bid d actor fs" t]
    by (auto simp: pt_step_def pt_ended_def pt_ApplyOwnerDecision_def succeeds_def split: sum.splits)
qed (use fails in \<open>simp_all add: pt_step_def pt_ended_def pt_AddBatchFeedback_def pt_AddItemFeedback_def pt_insertFeedback_fails\<close>)

text \<open>The batch an operation is about; creation makes a new one.\<close>

fun pt_subject :: "pub_Tables \<Rightarrow> pt_op \<Rightarrow> int" where
  "pt_subject t (PtCreate now inp) = pt_nextBatch t"
| "pt_subject t (PtReplace now bid items) = bid"
| "pt_subject t (PtReview now client bid d actor fs) = bid"
| "pt_subject t (PtOwner now client bid d actor fs) = bid"
| "pt_subject t (PtBatchFeedback now bid inp) = bid"
| "pt_subject t (PtItemFeedback now bid iid inp) = bid"

lemma pt_step_moves: "pt_moves (pt_subject t p) t (pt_step t p)"
proof (cases p)
  case (PtCreate now inp)
  have "pt_moves (pt_nextBatch t) t (snd (pt_CreateBatch now inp t))" unfolding pt_CreateBatch_def
    by (rule and_then_moves [OF pt_transaction_moves [OF pt_createBody_moves]]) simp
  then show ?thesis by (simp add: PtCreate pt_step_def pt_ended_def)
next
  case (PtReplace now bid items)
  have "pt_moves bid t (snd (pt_ReplaceBatchItems now bid items t))" unfolding pt_ReplaceBatchItems_def
    by (rule and_then_moves [OF pt_transaction_moves [OF pt_replaceBody_moves]]) simp
  then show ?thesis by (simp add: PtReplace pt_step_def pt_ended_def)
qed (simp_all add: pt_step_def pt_ended_def pt_ApplyReviewDecision_def pt_ApplyOwnerDecision_def pt_AddBatchFeedback_def
  pt_AddItemFeedback_def pt_insertFeedback_moves pt_transaction_moves pt_reviewBody_moves pt_ownerBody_moves)

lemma pt_run_linked: "pt_linked t \<Longrightarrow> pt_linked (foldl pt_step t ps)"
proof (induction ps arbitrary: t)
  case (Cons p ps)
  then show ?case using pt_step_moves [of t p] by (simp add: pt_moves_def)
qed simp

text \<open>
  C17. Over any history of operations on the publish tables every reference finds its row: items, feedback and records their
  batch, feedback its item, batches and records their project and snapshot, items their snapshot and data set. No batch or
  record is lost or changes its identity and no number is given twice. And at every point of a history, the next operation
  leaves the row and the items of every batch but its own as they are, and if it fails at any of its statements it leaves
  every row of every table as it was.
\<close>

theorem pt_histories:
  assumes "pt_ok t" "pt_linked t" and u: "u = foldl pt_step t ps"
  shows "pt_ok u \<and> pt_linked u \<and> pt_le t u \<and>
     (fst (pt_exec u p) \<or> pt_rows (pt_step u p) = pt_rows u) \<and>
     (c = pt_subject u p \<or> pt_batchRow c (pt_step u p) = pt_batchRow c u \<and> pt_listBatchItems c (pt_step u p) = pt_listBatchItems c u)"
  using pt_machine.run_inv_from [OF assms(1), of ps] pt_machine.run_le [OF assms(1), of ps] pt_failed_step
    pt_run_linked [OF assms(2), of ps] pt_step_moves [of u p]
  unfolding u pt_moves_def pt_others_def by blast

subsection \<open>Inserting the items of a batch\<close>

definition pt_itemOk :: "int \<Rightarrow> pub_Tables \<Rightarrow> pub_CreateBatchItemInput \<Rightarrow> bool" where
  "pt_itemOk sid t x \<longleftrightarrow>
     ci_SnapshotID x = sid \<and> sid \<in> set (pt_snapshots t) \<and> ci_DatasetID x \<in> set (pt_datasets t)"

fun pt_newItems :: "time \<Rightarrow> int \<Rightarrow> int \<Rightarrow> int \<Rightarrow> pub_CreateBatchItemInput list \<Rightarrow> pub_BatchItem list" where
  "pt_newItems now bid n pos [] = []"
| "pt_newItems now bid n pos (x # xs) =
     \<lparr>bi_ID = n, bi_PublishBatchID = bid, bi_CandidateID = ci_CandidateID x, bi_TaskID = ci_TaskID x, bi_DatasetID = ci_DatasetID x,
      bi_SnapshotID = ci_SnapshotID x, bi_ItemPayload = ci_ItemPayload x, bi_Position = pos, bi_CreatedAt = pg_timestamptz now,
      bi_UpdatedAt = pg_timestamptz now\<rparr> # pt_newItems now bid (n + 1) (pos + 1) xs"

lemma pt_insertBatchItems_eq:
  assumes "bid \<in> pt_batch_ids t" "\<forall>x \<in> set xs. pt_itemOk sid t x"
  shows "pt_insertBatchItems now bid sid pos xs t =
     (Inr (), t\<lparr>pt_nextItem := pt_nextItem t + int (length xs), pt_items := pt_items t @ pt_newItems now bid (pt_nextItem t) pos xs\<rparr>)"
  using assms
proof (induction xs arbitrary: t pos)
  case Nil
  then show ?case by simp
next
  case (Cons x xs)
  define t1 where "t1 = t\<lparr>pt_nextItem := pt_nextItem t + 1, pt_items := pt_items t @ pt_newItems now bid (pt_nextItem t) pos [x]\<rparr>"
  have t1: "bid \<in> pt_batch_ids t1" "\<forall>y \<in> set xs. pt_itemOk sid t1 y"
    using Cons.prems by (simp_all add: t1_def pt_batch_ids_def pt_itemOk_def)
  have "pt_batchRow bid t \<noteq> None" using Cons.prems(1) pt_batchRow_ids [of bid t] by blast
  then have "pt_stmt_insertItem now bid pos x t = (Inr (), t1)"
    using Cons.prems(2) by (simp add: pt_stmt_insertItem_def Let_def t1_def pt_itemOk_def)
  then have "pt_insertBatchItems now bid sid pos (x # xs) t = pt_insertBatchItems now bid sid (pos + 1) xs t1"
    using Cons.prems(2) by (simp add: pt_itemOk_def)
  also note Cons.IH [OF t1]
  finally show ?case by (simp add: t1_def add.assoc)
qed

lemma pt_newItems_ids: "i \<in> set (pt_newItems now bid n pos xs) \<Longrightarrow> bi_PublishBatchID i = bid \<and> n \<le> bi_ID i \<and> pos \<le> bi_Position i"
  by (induction xs arbitrary: n pos) force+

lemma pt_newItems_filter [simp]: "filter (\<lambda>i. bi_PublishBatchID i = bid) (pt_newItems now bid n pos xs) = pt_newItems now bid n pos xs"
  by (induction xs arbitrary: n pos) simp_all

lemma pt_newItems_sorted: "sorted (map (\<lambda>i. (bi_Position i, bi_ID i)) (pt_newItems now bid n pos xs))"
proof (induction xs arbitrary: n pos)
  case (Cons x xs)
  show ?case using Cons.IH [of "n + 1" "pos + 1"] pt_newItems_ids [of _ now bid "n + 1" "pos + 1" xs]
    by (fastforce simp: less_eq_prod_def)
qed simp

subsection \<open>An edit of the owner\<close>

definition pt_edited :: "time \<Rightarrow> pub_Batch \<Rightarrow> pub_Batch" where
  "pt_edited now b = b\<lparr>bt_Status := pub_StatusOwnerChangesRequested, bt_OwnerEditVersion := bt_OwnerEditVersion b + 1,
     bt_ReviewApprovedAt := None, bt_ReviewApprovedBy := [], bt_OwnerDecidedAt := None, bt_OwnerDecidedBy := [],
     bt_UpdatedAt := pg_timestamptz now\<rparr>"

text \<open>The tables after the edit: the batch's items and all feedback on them are gone, the new items are there.\<close>

definition pt_itemsOf :: "int \<Rightarrow> pub_Tables \<Rightarrow> int set" where
  "pt_itemsOf bid t = bi_ID ` {i \<in> set (pt_items t). bi_PublishBatchID i = bid}"

definition pt_editRows :: "time \<Rightarrow> int \<Rightarrow> pub_CreateBatchItemInput list \<Rightarrow> pub_Tables \<Rightarrow> pub_Tables" where
  "pt_editRows now bid items t =
     t\<lparr>pt_feedback := filter (\<lambda>f. fb_PublishBatchItemID f \<notin> pt_itemsOf bid t) (pt_feedback t),
       pt_nextItem := pt_nextItem t + int (length items),
       pt_items := filter (\<lambda>i. bi_PublishBatchID i \<noteq> bid) (pt_items t) @ pt_newItems now bid (pt_nextItem t) 0 items\<rparr>"

lemma pt_replaceBody_eq:
  assumes row: "pt_batchRow bid t = Some b"
    and items: "\<forall>x \<in> set items. pt_itemOk (bt_SnapshotID b) t x" and fits: "pg_int4 (bt_OwnerEditVersion b + 1)"
  shows "pt_replaceBody now bid items t = (Inr (), pt_updateBatch bid (pt_edited now) (pt_editRows now bid items t))"
proof -
  define t1 where "t1 = pt_deleteItems bid t"
  have same: "pt_batchRow bid t1 = Some b" "pt_nextItem t1 = pt_nextItem t"
    "pt_items t1 = filter (\<lambda>i. bi_PublishBatchID i \<noteq> bid) (pt_items t)"
    using row by (simp_all add: t1_def pt_deleteItems_def Let_def pt_batchRow_def)
  have mem: "bid \<in> pt_batch_ids t1" using same(1) pt_batchRow_ids [of bid t1] by simp
  have its: "\<forall>x \<in> set items. pt_itemOk (bt_SnapshotID b) t1 x"
    using items by (simp add: pt_itemOk_def t1_def pt_deleteItems_def Let_def)
  have "pt_replaceBody now bid items t = (Inr (), pt_updateBatch bid (pt_edited now)
     (t1\<lparr>pt_nextItem := pt_nextItem t1 + int (length items), pt_items := pt_items t1 @ pt_newItems now bid (pt_nextItem t1) 0 items\<rparr>))"
    unfolding pt_replaceBody_def Let_def t1_def [symmetric] same(1) option.case pt_insertBatchItems_eq [OF mem its]
    using fits by (simp add: pt_edited_def [abs_def])
  then show ?thesis unfolding same by (simp add: t1_def pt_deleteItems_def Let_def pt_editRows_def pt_itemsOf_def)
qed

lemma pt_batchRow_update:
  assumes "pt_batchRow bid t = Some b" "\<And>b. bt_ID (f b) = bt_ID b"
  shows "pt_batchRow bid (pt_updateBatch bid f t) = Some (f b)"
  using find_map_id [of bt_ID bid "pt_batches t" b f] assms by (simp add: pt_batchRow_def pt_updateBatch_def)

lemma pt_editRows_items:
  "pt_listBatchItems c (pt_editRows now bid items t) =
     (if c = bid then map pub_cloneItem (pt_newItems now bid (pt_nextItem t) 0 items) else pt_listBatchItems c t)"
proof (cases "c = bid")
  case True
  then show ?thesis
    by (simp add: pt_listBatchItems_def pt_editRows_def sort_key_id_if_sorted [OF pt_newItems_sorted])
next
  case False
  have "filter (\<lambda>i. bi_PublishBatchID i = c) (pt_newItems now bid (pt_nextItem t) 0 items) = []"
    using False pt_newItems_ids [of _ now bid "pt_nextItem t" 0 items] by (auto simp: filter_empty_conv)
  moreover have "filter (\<lambda>i. bi_PublishBatchID i \<noteq> bid \<and> bi_PublishBatchID i = c) (pt_items t) = filter (\<lambda>i. bi_PublishBatchID i = c) (pt_items t)"
    using False by (intro filter_cong) auto
  ultimately show ?thesis using False by (simp add: pt_listBatchItems_def pt_editRows_def)
qed

lemma pt_editRows_feedback:
  "pt_listFeedback c (pt_editRows now bid items t) = filter (\<lambda>f. fb_PublishBatchItemID f \<notin> pt_itemsOf bid t) (pt_listFeedback c t)"
  by (simp add: pt_listFeedback_def pt_editRows_def filter_sort conj_commute)

lemma pt_update_lists [simp]:
  "pt_listBatchItems c (pt_updateBatch bid f t) = pt_listBatchItems c t"
  "pt_listFeedback c (pt_updateBatch bid f t) = pt_listFeedback c t"
  "pt_records (pt_updateBatch bid f t) = pt_records t"
  by (simp_all add: pt_listBatchItems_def pt_listFeedback_def pt_updateBatch_def)

text \<open>
  C18. An edit whose items agree with the batch's snapshot and refer to stored rows succeeds: the batch is as before but for its status,
  version, approvals and stamp, and its items are the new ones, in order, under fresh numbers. With the old items all feedback on them
  is deleted, in whatever batch it was filed. Everything else stays: the rows of all other batches with their status, version and
  approvals, their items, all other feedback, and the records.
\<close>

theorem pt_edit_exact:
  assumes row: "pt_batchRow bid t = Some b"
    and items: "\<forall>x \<in> set items. pt_itemOk (bt_SnapshotID b) t x" and fits: "pg_int4 (bt_OwnerEditVersion b + 1)"
  shows "\<exists>t'. pt_ReplaceBatchItems now bid items t =
      (Inr ((pt_edited now b)\<lparr>bt_RuleSummary := json_clone (bt_RuleSummary b),
         bt_Items := map pub_cloneItem (pt_newItems now bid (pt_nextItem t) 0 items),
         bt_Feedback := filter (\<lambda>f. fb_PublishBatchItemID f \<notin> pt_itemsOf bid t) (pt_listFeedback bid t)\<rparr>), t') \<and>
     pt_records t' = pt_records t \<and> pt_batchRow bid t' = Some (pt_edited now b) \<and>
     (\<forall>c. pt_listFeedback c t' = filter (\<lambda>f. fb_PublishBatchItemID f \<notin> pt_itemsOf bid t) (pt_listFeedback c t) \<and>
       (c = bid \<or> pt_batchRow c t' = pt_batchRow c t \<and> pt_listBatchItems c t' = pt_listBatchItems c t))"
proof -
  define t' where "t' = pt_updateBatch bid (pt_edited now) (pt_editRows now bid items t)"
  have "pt_batchRow bid (pt_editRows now bid items t) = Some b" using row by (simp add: pt_batchRow_def pt_editRows_def)
  then have row': "pt_batchRow bid t' = Some (pt_edited now b)"
    unfolding t'_def by (rule pt_batchRow_update) (simp add: pt_edited_def)
  have tx: "pt_transaction (pt_replaceBody now bid items) t = (Inr (), t')"
    unfolding pt_transaction_Inr t'_def by (rule pt_replaceBody_eq [OF row items fits])
  have run: "pt_ReplaceBatchItems now bid items t = (pt_GetBatch bid t', t')"
    by (simp add: pt_ReplaceBatchItems_def tx)
  have lists: "pt_listBatchItems c t' = (if c = bid then map pub_cloneItem (pt_newItems now bid (pt_nextItem t) 0 items) else pt_listBatchItems c t)"
    "pt_listFeedback c t' = filter (\<lambda>f. fb_PublishBatchItemID f \<notin> pt_itemsOf bid t) (pt_listFeedback c t)" for c
    by (simp_all add: t'_def pt_editRows_items pt_editRows_feedback)
  have rec: "pt_records t' = pt_records t" by (simp add: t'_def pt_editRows_def)
  have other: "pt_batchRow c t' = pt_batchRow c t" if "c \<noteq> bid" for c
    using pt_batchRow_update_other [OF that, of "pt_edited now" "pt_editRows now bid items t"]
    by (simp add: t'_def pt_edited_def) (simp add: pt_batchRow_def pt_editRows_def)
  show ?thesis by (rule exI [of _ t']) (simp add: run pt_GetBatch_def row' lists rec other pt_edited_def)
qed

subsection \<open>Feedback\<close>

text \<open>Feedback on an item may be filed in any batch, and what is stored of a weight is two decimals.\<close>

lemma pt_foreign_item_feedback:
  assumes "pt_batchRow bid t = Some b" "iid \<in> pt_item_ids t" "pt_numeric52 (fb_InfluenceWeight (pub_newFeedback (pg_timestamptz now) (pt_nextFeed t) bid (Some iid) inp)) = Some w"
  shows "succeeds (pt_AddItemFeedback now bid iid inp t)"
  using assms by (simp add: pt_AddItemFeedback_def pt_insertFeedback_def Let_def pt_item_ids_def)

lemma pt_small_weight: "pt_numeric52 (4 / 1000) = Some 0" "pt_numeric52 1000 = None"
proof -
  have a: "\<lfloor>(4 / 1000 :: real) * 100 + 1 / 2\<rfloor> = 0" "\<lfloor>(1000 :: real) * 100 + 1 / 2\<rfloor> = 100000" by linarith+
  show "pt_numeric52 (4 / 1000) = Some 0" using a(1) by (simp add: pt_numeric52_def Let_def)
  show "pt_numeric52 1000 = None" using a(2) by (simp add: pt_numeric52_def Let_def)
qed

subsection \<open>Suggestions\<close>

text \<open>The keys in the order of their first row, each once; the specification puts the rows of a key together.\<close>

definition pt_keys :: "(time \<Rightarrow> string) \<Rightarrow> pt_candidateRow list \<Rightarrow> string list" where
  "pt_keys rfc3339 rows = rev (remdups (rev (map (pt_suggestionKey rfc3339) rows)))"

definition pt_group :: "(time \<Rightarrow> string) \<Rightarrow> pt_candidateRow list \<Rightarrow> string \<Rightarrow> pub_SuggestedCandidate" where
  "pt_group rfc3339 rows k =
     (let rs = filter (\<lambda>r. pt_suggestionKey rfc3339 r = k) rows in
      (pt_newGroup rfc3339 (hd rs))\<lparr>sc_Items := map pt_suggestionItem rs\<rparr>)"

lemma pt_keys_snoc:
  "pt_keys f (rows @ [r]) = (if pt_suggestionKey f r \<in> set (map (pt_suggestionKey f) rows) then pt_keys f rows else pt_keys f rows @ [pt_suggestionKey f r])"
  by (simp add: pt_keys_def)

lemma pt_keys_set: "set (pt_keys f rows) = pt_suggestionKey f ` set rows"
  by (simp add: pt_keys_def)

definition pt_groups :: "(time \<Rightarrow> string) \<Rightarrow> pt_candidateRow list \<Rightarrow> (string \<rightharpoonup> pub_SuggestedCandidate)" where
  "pt_groups f rows = (\<lambda>k. if k \<in> set (pt_keys f rows) then Some (pt_group f rows k) else None)"

lemma pt_groups_step:
  "(pt_groups f seen)(pt_suggestionKey f r \<mapsto> (case pt_groups f seen (pt_suggestionKey f r) of None \<Rightarrow> pt_newGroup f r | Some g \<Rightarrow> g)
      \<lparr>sc_Items := sc_Items (case pt_groups f seen (pt_suggestionKey f r) of None \<Rightarrow> pt_newGroup f r | Some g \<Rightarrow> g) @ [pt_suggestionItem r]\<rparr>)
   = pt_groups f (seen @ [r])" (is "?l = ?r")
proof
  fix k
  let ?k = "pt_suggestionKey f r"
  show "?l k = ?r k"
  proof (cases "k = ?k")
    case False
    then show ?thesis by (auto simp: pt_groups_def pt_keys_set pt_group_def)
  next
    case True
    show ?thesis
    proof (cases "?k \<in> pt_suggestionKey f ` set seen")
      case old: True
      then have ne: "filter (\<lambda>x. pt_suggestionKey f x = ?k) seen \<noteq> []" by (auto simp: filter_empty_conv)
      show ?thesis using True old ne by (simp add: pt_groups_def pt_keys_set pt_group_def Let_def hd_append)
    next
      case new: False
      then have e: "filter (\<lambda>x. pt_suggestionKey f x = ?k) seen = []" by (simp add: filter_empty_conv image_iff) metis
      show ?thesis using True new e by (simp add: pt_groups_def pt_keys_set pt_group_def Let_def pt_newGroup_def)
    qed
  qed
qed

lemma pt_groupLoop_eq:
  "pt_groupLoop f rows (pt_groups f seen) (pt_keys f seen) = (pt_groups f (seen @ rows), pt_keys f (seen @ rows))"
proof (induction rows arbitrary: seen)
  case Nil
  then show ?case by simp
next
  case (Cons r rows)
  let ?k = "pt_suggestionKey f r"
  let ?g = "case pt_groups f seen ?k of None \<Rightarrow> pt_newGroup f r | Some g \<Rightarrow> g"
  let ?o = "case pt_groups f seen ?k of None \<Rightarrow> pt_keys f seen @ [?k] | Some g \<Rightarrow> pt_keys f seen"
  have o: "?o = pt_keys f (seen @ [r])" by (auto simp: pt_groups_def pt_keys_set pt_keys_snoc)
  have "pt_groupLoop f (r # rows) (pt_groups f seen) (pt_keys f seen) =
      pt_groupLoop f rows ((pt_groups f seen)(?k \<mapsto> ?g\<lparr>sc_Items := sc_Items ?g @ [pt_suggestionItem r]\<rparr>)) ?o"
    by (simp add: Let_def split: option.split)
  also have "\<dots> = pt_groupLoop f rows (pt_groups f (seen @ [r])) (pt_keys f (seen @ [r]))"
    unfolding pt_groups_step o ..
  also note Cons.IH [of "seen @ [r]"]
  finally show ?case by simp
qed

text \<open>
  C19. The loop over the rows of the query groups them by key: one suggestion per key, in the order in which the keys first appear, with
  exactly the rows of that key as items in the order of the query.
\<close>

theorem pt_suggestions_exact:
  "pt_ListSuggestedCandidates rfc3339 rows = map (pt_group rfc3339 rows) (pt_keys rfc3339 rows)"
proof -
  have e: "pt_groups rfc3339 [] = Map.empty" "pt_keys rfc3339 [] = []" by (auto simp: pt_groups_def pt_keys_def)
  have "pt_groupLoop rfc3339 rows Map.empty [] = (pt_groups rfc3339 rows, pt_keys rfc3339 rows)"
    using pt_groupLoop_eq [of rfc3339 rows "[]"] by (simp only: e append_Nil)
  then show ?thesis by (simp add: pt_ListSuggestedCandidates_def pt_groups_def)
qed

subsection \<open>An example\<close>

definition pt_base :: pub_Tables where
  "pt_base = \<lparr>pt_projects = [1], pt_snapshots = [3], pt_datasets = [5], pt_batches = [], pt_items = [], pt_feedback = [],
     pt_records = [], pt_nextBatch = 1, pt_nextItem = 1, pt_nextFeed = 1, pt_nextRecord = 1\<rparr>"

definition pt_base_item :: pub_CreateBatchItemInput where
  "pt_base_item = \<lparr>ci_CandidateID = 11, ci_TaskID = 12, ci_DatasetID = 5, ci_SnapshotID = 3, ci_ItemPayload = []\<rparr>"

lemma pt_base_ok: "pt_ok pt_base" "pt_linked pt_base"
  by (simp_all add: pt_ok_def pt_linked_def pt_base_def)

theorem pt_histories_witness:
  "pt_rows (pt_step (pt_step pt_base (PtCreate 0 \<lparr>cb_ProjectID = 1, cb_SnapshotID = 3, cb_Source = [], cb_RuleSummary = [],
      cb_Items = [pt_base_item]\<rparr>)) (PtReplace 0 9 [])) =
   pt_rows (pt_step pt_base (PtCreate 0 \<lparr>cb_ProjectID = 1, cb_SnapshotID = 3, cb_Source = [], cb_RuleSummary = [],
      cb_Items = [pt_base_item]\<rparr>))" (is "pt_rows (pt_step (pt_step _ ?p) ?q) = _")
proof -
  let ?t = "pt_step pt_base ?p"
  have "\<not> fst (pt_exec ?t ?q)"
    by (simp add: pt_base_def pt_base_item_def pt_step_def pt_ended_def pt_CreateBatch_def pt_transaction_def pt_createBody_def
      pt_newBatchRow_def pt_stmt_insertItem_def pt_batchRow_def pt_ReplaceBatchItems_def pt_replaceBody_def pt_deleteItems_def
      Let_def)
  with pt_histories [OF pt_base_ok refl, of "[?p]", unfolded foldl.simps] show ?thesis by blast
qed

definition pt_base_batch :: pub_Batch where
  "pt_base_batch = pt_newBatchRow 0 1 \<lparr>cb_ProjectID = 1, cb_SnapshotID = 3, cb_Source = [], cb_RuleSummary = [], cb_Items = []\<rparr>"

definition pt_base_feedback :: "int \<Rightarrow> int option \<Rightarrow> pub_Feedback" where
  "pt_base_feedback n it = pub_newFeedback 0 n 1 it
     \<lparr>cf_Scope = [], cf_Stage = [], cf_Action = [], cf_ReasonCode = [], cf_Severity = [], cf_InfluenceWeight = 0, cf_Comment = [],
      cf_Actor = ''rev''\<rparr>"

definition pt_reviewed :: pub_Tables where
  "pt_reviewed = pt_base\<lparr>pt_batches := [pt_base_batch], pt_items := pt_newItems 0 1 1 0 [pt_base_item],
     pt_feedback := [pt_base_feedback 1 (Some 1), pt_base_feedback 2 None], pt_nextBatch := 2, pt_nextItem := 2, pt_nextFeed := 3\<rparr>"

theorem pt_edit_exact_witness:
  "pt_listFeedback 1 pt_reviewed = [pt_base_feedback 1 (Some 1), pt_base_feedback 2 None] \<and>
   (\<exists>b' t'. pt_ReplaceBatchItems 0 1 [pt_base_item] pt_reviewed = (Inr b', t') \<and> bt_OwnerEditVersion b' = 1 \<and>
      map bi_ID (bt_Items b') = [2] \<and> pt_listFeedback 1 t' = [pt_base_feedback 2 None])"
proof -
  have row: "pt_batchRow 1 pt_reviewed = Some pt_base_batch"
    by (simp add: pt_batchRow_def pt_reviewed_def pt_base_batch_def pt_newBatchRow_def)
  have items: "\<forall>x \<in> set [pt_base_item]. pt_itemOk (bt_SnapshotID pt_base_batch) pt_reviewed x"
    by (simp add: pt_itemOk_def pt_base_item_def pt_base_batch_def pt_newBatchRow_def pt_reviewed_def pt_base_def)
  have fits: "pg_int4 (bt_OwnerEditVersion pt_base_batch + 1)"
    by (simp add: pg_int4_def pt_base_batch_def pt_newBatchRow_def)
  have "pt_itemsOf 1 pt_reviewed = bi_ID ` set (filter (\<lambda>i. bi_PublishBatchID i = 1) (pt_items pt_reviewed))"
    by (simp add: pt_itemsOf_def)
  then have old: "pt_itemsOf 1 pt_reviewed = {1}" by (simp add: pt_reviewed_def)
  have fb: "pt_listFeedback 1 pt_reviewed = [pt_base_feedback 1 (Some 1), pt_base_feedback 2 None]"
    by (simp add: pt_listFeedback_def pt_reviewed_def pt_base_feedback_def pub_newFeedback_def)
  have kept: "filter (\<lambda>f. fb_PublishBatchItemID f \<notin> pt_itemsOf 1 pt_reviewed) (pt_listFeedback 1 pt_reviewed) = [pt_base_feedback 2 None]"
    unfolding fb old by (simp add: pt_base_feedback_def pub_newFeedback_def)
  have n: "pt_nextItem pt_reviewed = 2" by (simp add: pt_reviewed_def)
  have v: "bt_OwnerEditVersion pt_base_batch = 0" by (simp add: pt_base_batch_def pt_newBatchRow_def)
  from pt_edit_exact [OF row items fits, of 0] obtain t' where
    run: "pt_ReplaceBatchItems 0 1 [pt_base_item] pt_reviewed =
      (Inr ((pt_edited 0 pt_base_batch)\<lparr>bt_RuleSummary := json_clone (bt_RuleSummary pt_base_batch),
         bt_Items := map pub_cloneItem (pt_newItems 0 1 (pt_nextItem pt_reviewed) 0 [pt_base_item]),
         bt_Feedback := filter (\<lambda>f. fb_PublishBatchItemID f \<notin> pt_itemsOf 1 pt_reviewed) (pt_listFeedback 1 pt_reviewed)\<rparr>), t')"
    and rest: "\<forall>c. pt_listFeedback c t' = filter (\<lambda>f. fb_PublishBatchItemID f \<notin> pt_itemsOf 1 pt_reviewed) (pt_listFeedback c pt_reviewed) \<and>
       (c = 1 \<or> pt_batchRow c t' = pt_batchRow c pt_reviewed \<and> pt_listBatchItems c t' = pt_listBatchItems c pt_reviewed)"
    by (elim exE conjE)
  have after: "pt_listFeedback 1 t' = [pt_base_feedback 2 None]" using rest kept by simp
  show ?thesis
    by (intro conjI fb exI) (rule run, simp_all add: n v after pt_edited_def pub_cloneItem_def)
qed

end
