(* ===== verification/Workspace_Postgres.thy ===== *)
theory Workspace_Postgres
  imports Annotation_Facts Job_Postgres
begin

section \<open>Tasks and annotations: the Postgres repositories\<close>

text \<open>
  \<open>internal/tasks/postgres_repository.go\<close> and \<open>internal/annotations/postgres_repository.go\<close> over the tables of the migrations 3, 5
  and 6. A row of \<open>tasks\<close> is a task whose joined columns are empty. The checks of the tables and their two triggers are part of the
  statements. Saving and submitting are transactions that lock the row of the annotation, hence one step; an insert that
  fails or finds a conflict has taken its number. \<open>now\<close> is \<open>now()\<close> of the database, \<open>client\<close> the clock of the server.
\<close>

record tp_Dataset =
  ds_ID :: int
  ds_ProjectID :: int
  ds_Name :: string

record tp_Snapshot =
  sn_ID :: int
  sn_DatasetID :: int
  sn_Version :: string

record tp_Tables =
  tp_projects :: "int list"
  tp_datasets :: "tp_Dataset list"
  tp_snapshots :: "tp_Snapshot list"
  tp_tasks :: "tasks_Task list"
  tp_annotations :: "ann_Annotation list"
  tp_nextTask :: int
  tp_nextAnnotation :: int

datatype tp_error =
    TpNoRows
  | TpForeignKey
  | TpCheck
  | TpTrigger
  | TpOutOfRange
  | TpSnapshotNotFound int
  | TpSnapshotElsewhere int int int
  | TpNotFound int
  | TpSubmitted int
  | TpContextMismatch int
  | TpRevisionMismatch int

type_synonym 'a tp_result = "(tp_error, 'a, tp_Tables) outcome"

subsection \<open>Constraints\<close>

definition tp_frame :: "int option \<Rightarrow> bool" where
  "tp_frame f = (case f of None \<Rightarrow> True | Some n \<Rightarrow> pg_int4 n)"

definition tp_checks :: "tasks_Task \<Rightarrow> bool" where
  "tp_checks row \<longleftrightarrow>
     task_Status row \<in> set [''queued'', ''ready'', ''in_progress'', ''blocked'', ''submitted'', ''reviewing'', ''rework_required'',
       ''accepted'', ''published'', ''closed''] \<and>
     task_Kind row \<in> set [''annotation'', ''review'', ''qa'', ''ops'', ''training_candidate'', ''promotion_review''] \<and>
     task_Priority row \<in> set [''low'', ''normal'', ''high'', ''critical'']"

definition tp_dataset :: "int \<Rightarrow> tp_Tables \<Rightarrow> tp_Dataset option" where
  "tp_dataset n db = find (\<lambda>d. ds_ID d = n) (tp_datasets db)"

definition tp_snapshot :: "int \<Rightarrow> tp_Tables \<Rightarrow> tp_Snapshot option" where
  "tp_snapshot n db = find (\<lambda>s. sn_ID s = n) (tp_snapshots db)"

definition tp_snapshotProject :: "int \<Rightarrow> tp_Tables \<Rightarrow> int option" where
  "tp_snapshotProject n db =
     (case tp_snapshot n db of None \<Rightarrow> None | Some s \<Rightarrow> map_option ds_ProjectID (tp_dataset (sn_DatasetID s) db))"

definition tp_taskTrigger :: "tasks_Task \<Rightarrow> tp_Tables \<Rightarrow> bool" where
  "tp_taskTrigger row db =
     (case task_SnapshotID row of None \<Rightarrow> True | Some n \<Rightarrow> tp_snapshotProject n db = Some (task_ProjectID row))"

definition tp_task :: "int \<Rightarrow> tp_Tables \<Rightarrow> tasks_Task option" where
  "tp_task tid db = find (\<lambda>t. task_ID t = tid) (tp_tasks db)"

definition tp_annotationTrigger :: "ann_Annotation \<Rightarrow> tp_Tables \<Rightarrow> bool" where
  "tp_annotationTrigger row db =
     (case tp_task (an_TaskID row) db of
        None \<Rightarrow> False
      | Some t \<Rightarrow> task_SnapshotID t = Some (an_SnapshotID row) \<and> task_AssetObjectKey t = an_AssetObjectKey row \<and>
          task_FrameIndex t = an_FrameIndex row \<and> task_OntologyVersion t = an_OntologyVersion row)"

subsection \<open>Tasks\<close>

text \<open>The select with its two left joins, and what \<open>scanTask\<close> makes of a row.\<close>

definition tp_scanTask :: "tp_Tables \<Rightarrow> tasks_Task \<Rightarrow> tasks_Task" where
  "tp_scanTask db row =
     (case (case task_SnapshotID row of None \<Rightarrow> None | Some n \<Rightarrow> tp_snapshot n db) of
        None \<Rightarrow> row
      | Some s \<Rightarrow>
          (case tp_dataset (sn_DatasetID s) db of
             None \<Rightarrow> row\<lparr>task_SnapshotVersion := sn_Version s\<rparr>
           | Some d \<Rightarrow> row\<lparr>task_SnapshotVersion := sn_Version s, task_DatasetID := ds_ID d, task_DatasetName := ds_Name d\<rparr>))"

definition tp_stmt_insertTask :: "time \<Rightarrow> time \<Rightarrow> tasks_CreateTaskInput \<Rightarrow> tp_Tables \<Rightarrow> tasks_Task tp_result" where
  "tp_stmt_insertTask now activity inp db =
     (let row = (tasks_newTask (pg_timestamptz now) (tp_nextTask db) inp)
            \<lparr>task_DueAt := map_option pg_timestamptz (ct_DueAt inp), task_LastActivityAt := pg_timestamptz activity\<rparr>;
          db' = db\<lparr>tp_nextTask := tp_nextTask db + 1\<rparr>
      in if \<not> tp_frame (ct_FrameIndex inp) then (Inl TpOutOfRange, db)
         else if \<not> tp_taskTrigger row db then (Inl TpTrigger, db')
         else if \<not> tp_checks row then (Inl TpCheck, db')
         else if task_ProjectID row \<notin> set (tp_projects db) then (Inl TpForeignKey, db')
         else (Inr (tp_scanTask db row), db'\<lparr>tp_tasks := tp_tasks db @ [row]\<rparr>))"

definition tp_CreateTask :: "time \<Rightarrow> time \<Rightarrow> tasks_CreateTaskInput \<Rightarrow> tp_Tables \<Rightarrow> tasks_Task tp_result" where
  "tp_CreateTask now client inp db =
     (let activity = (if ct_LastActivityAt inp = zero_time then client else ct_LastActivityAt inp) in
      case ct_SnapshotID inp of
        None \<Rightarrow> tp_stmt_insertTask now activity inp db
      | Some n \<Rightarrow>
          (case tp_snapshotProject n db of
             None \<Rightarrow> (Inl (TpSnapshotNotFound n), db)
           | Some p \<Rightarrow>
               if p \<noteq> ct_ProjectID inp then (Inl (TpSnapshotElsewhere n p (ct_ProjectID inp)), db)
               else tp_stmt_insertTask now activity inp db))"

definition tp_ListTasks :: "int \<Rightarrow> tasks_ListTasksFilter \<Rightarrow> tp_Tables \<Rightarrow> tasks_Task list" where
  "tp_ListTasks projectID flt db =
     map (tp_scanTask db) (sort_key task_ID (filter (tasks_matches projectID flt) (tp_tasks db)))"

definition tp_GetTask :: "int \<Rightarrow> tp_Tables \<Rightarrow> tp_error + tasks_Task" where
  "tp_GetTask tid db = (case tp_task tid db of None \<Rightarrow> Inl TpNoRows | Some row \<Rightarrow> Inr (tp_scanTask db row))"

definition tp_TransitionTask :: "time \<Rightarrow> int \<Rightarrow> tasks_TransitionTaskInput \<Rightarrow> tp_Tables \<Rightarrow> tasks_Task tp_result" where
  "tp_TransitionTask now tid inp db =
     (case tp_task tid db of
        None \<Rightarrow> (Inl TpNoRows, db)
      | Some row \<Rightarrow>
          let row' = row\<lparr>task_Status := tt_Status inp, task_BlockerReason := tt_BlockerReason inp,
                task_LastActivityAt := pg_timestamptz (tt_LastActivityAt inp), task_UpdatedAt := pg_timestamptz now\<rparr>
          in if \<not> tp_checks row' then (Inl TpCheck, db)
             else (Inr (tp_scanTask db row'), db\<lparr>tp_tasks := map (\<lambda>t. if task_ID t = tid then row' else t) (tp_tasks db)\<rparr>))"

subsection \<open>Annotations\<close>

definition tp_scanAnnotation :: "ann_Annotation \<Rightarrow> ann_Annotation" where
  "tp_scanAnnotation row = row\<lparr>an_Body := json_clone (an_Body row)\<rparr>"

definition tp_annotation :: "int \<Rightarrow> tp_Tables \<Rightarrow> ann_Annotation option" where
  "tp_annotation tid db = find (\<lambda>a. an_TaskID a = tid) (tp_annotations db)"

definition tp_putAnnotation :: "ann_Annotation \<Rightarrow> tp_Tables \<Rightarrow> tp_Tables" where
  "tp_putAnnotation row db =
     db\<lparr>tp_annotations := map (\<lambda>a. if an_TaskID a = an_TaskID row then row else a) (tp_annotations db)\<rparr>"

definition tp_stmt_update :: "ann_Annotation \<Rightarrow> tp_Tables \<Rightarrow> ann_Annotation tp_result" where
  "tp_stmt_update row db =
     (if \<not> tp_annotationTrigger row db then (Inl TpTrigger, db) else (Inr (tp_scanAnnotation row), tp_putAnnotation row db))"

definition tp_newDraft :: "time \<Rightarrow> int \<Rightarrow> ann_SaveDraftInput \<Rightarrow> ann_Annotation" where
  "tp_newDraft now n inp =
     \<lparr>an_ID = n, an_TaskID = sd_TaskID inp, an_SnapshotID = sd_SnapshotID inp, an_AssetObjectKey = sd_AssetObjectKey inp,
      an_FrameIndex = sd_FrameIndex inp, an_OntologyVersion = sd_OntologyVersion inp, an_State = ann_StateDraft, an_Revision = 1,
      an_Body = sd_Body inp, an_SubmittedBy = [], an_SubmittedAt = None, an_CreatedAt = pg_timestamptz now,
      an_UpdatedAt = pg_timestamptz now\<rparr>"

definition tp_sameContext :: "ann_Annotation \<Rightarrow> ann_SaveDraftInput \<Rightarrow> bool" where
  "tp_sameContext a inp =
     (if an_SnapshotID a \<noteq> sd_SnapshotID inp then False
      else if an_AssetObjectKey a \<noteq> sd_AssetObjectKey inp then False
      else if an_OntologyVersion a \<noteq> sd_OntologyVersion inp then False
      else case (an_FrameIndex a, sd_FrameIndex inp) of
             (None, None) \<Rightarrow> True | (Some i, Some j) \<Rightarrow> i = j | _ \<Rightarrow> False)"

definition tp_SaveDraft :: "time \<Rightarrow> ann_SaveDraftInput \<Rightarrow> tp_Tables \<Rightarrow> ann_Annotation tp_result" where
  "tp_SaveDraft now inp db =
     (let tid = sd_TaskID inp; row = tp_newDraft now (tp_nextAnnotation db) inp;
          db' = db\<lparr>tp_nextAnnotation := tp_nextAnnotation db + 1\<rparr>
      in if \<not> tp_frame (sd_FrameIndex inp) then (Inl TpOutOfRange, db)
         else if \<not> tp_annotationTrigger row db then (Inl TpTrigger, db')
         else case tp_annotation tid db of
                None \<Rightarrow>
                  if tp_snapshot (sd_SnapshotID inp) db = None then (Inl TpForeignKey, db')
                  else (Inr (tp_scanAnnotation row), db'\<lparr>tp_annotations := tp_annotations db @ [row]\<rparr>)
              | Some current \<Rightarrow>
                  if an_State current = ann_StateSubmitted then (Inl (TpSubmitted tid), db')
                  else if \<not> tp_sameContext current inp then (Inl (TpContextMismatch tid), db')
                  else if 0 < sd_BaseRevision inp \<and> an_Revision current \<noteq> sd_BaseRevision inp
                  then (Inl (TpRevisionMismatch tid), db')
                  else tp_stmt_update (current\<lparr>an_State := ann_StateDraft, an_Revision := an_Revision current + 1,
                         an_Body := sd_Body inp, an_SubmittedBy := [], an_SubmittedAt := None,
                         an_UpdatedAt := pg_timestamptz now\<rparr>) db')"

definition tp_Submit :: "time \<Rightarrow> int \<Rightarrow> string \<Rightarrow> tp_Tables \<Rightarrow> ann_Annotation tp_result" where
  "tp_Submit now tid actor db =
     (case tp_annotation tid db of
        None \<Rightarrow> (Inl (TpNotFound tid), db)
      | Some current \<Rightarrow>
          if an_State current = ann_StateSubmitted then (Inr (tp_scanAnnotation current), db)
          else tp_stmt_update (current\<lparr>an_State := ann_StateSubmitted, an_Revision := an_Revision current + 1,
                 an_SubmittedBy := actor, an_SubmittedAt := Some (pg_timestamptz now),
                 an_UpdatedAt := pg_timestamptz now\<rparr>) db)"

definition tp_GetByTaskID :: "int \<Rightarrow> tp_Tables \<Rightarrow> tp_error + ann_Annotation" where
  "tp_GetByTaskID tid db =
     (case tp_annotation tid db of None \<Rightarrow> Inl (TpNotFound tid) | Some row \<Rightarrow> Inr (tp_scanAnnotation row))"

fun tp_error_kind :: "tp_error \<Rightarrow> ann_kind option" where
  "tp_error_kind (TpNotFound _) = Some AnnErrNotFound"
| "tp_error_kind (TpSubmitted _) = Some AnnErrConflict"
| "tp_error_kind (TpRevisionMismatch _) = Some AnnErrConflict"
| "tp_error_kind (TpContextMismatch _) = Some AnnErrValidation"
| "tp_error_kind _ = None"

end
