(* ===== verification/Workspace_Postgres_Claims.thy ===== *)
theory Workspace_Postgres_Claims
  imports Workspace_Postgres
begin

section \<open>Tasks and annotations in Postgres: integrity and refinement\<close>

text \<open>
  The tables keep every task in the project of its snapshot, every annotation in the context of its task, one annotation per task, and
  submitted work as it is. To the calls of the annotation service the repository answers what the in-memory one does.
\<close>

subsection \<open>Invariant and evolution\<close>

definition tp_taskOk :: "tp_Tables \<Rightarrow> tasks_Task \<Rightarrow> bool" where
  "tp_taskOk db t \<longleftrightarrow> task_ID t < tp_nextTask db \<and> tp_taskTrigger t db \<and> tp_checks t \<and> task_ProjectID t \<in> set (tp_projects db) \<and>
     tp_frame (task_FrameIndex t)"

definition tp_annOk :: "tp_Tables \<Rightarrow> ann_Annotation \<Rightarrow> bool" where
  "tp_annOk db a \<longleftrightarrow> an_ID a < tp_nextAnnotation db \<and> tp_annotationTrigger a db \<and>
     an_State a \<in> {ann_StateDraft, ann_StateSubmitted} \<and> 1 \<le> an_Revision a"

definition tp_ok :: "tp_Tables \<Rightarrow> bool" where
  "tp_ok db \<longleftrightarrow>
     distinct (map task_ID (tp_tasks db)) \<and> (\<forall>t \<in> set (tp_tasks db). tp_taskOk db t) \<and>
     distinct (map an_TaskID (tp_annotations db)) \<and> distinct (map an_ID (tp_annotations db)) \<and>
     (\<forall>a \<in> set (tp_annotations db). tp_annOk db a)"

text \<open>What an update of a task leaves alone.\<close>

definition tp_fixed :: "tasks_Task \<Rightarrow> tasks_Task" where
  "tp_fixed t = t\<lparr>task_Status := [], task_BlockerReason := [], task_LastActivityAt := 0, task_UpdatedAt := 0\<rparr>"

definition tp_world :: "tp_Tables \<Rightarrow> int list \<times> tp_Dataset list \<times> tp_Snapshot list" where
  "tp_world db = (tp_projects db, tp_datasets db, tp_snapshots db)"

definition tp_le :: "tp_Tables \<Rightarrow> tp_Tables \<Rightarrow> bool" where
  "tp_le db db' \<longleftrightarrow> tp_world db' = tp_world db \<and>
     (\<forall>tid t. tp_task tid db = Some t \<longrightarrow> (\<exists>t'. tp_task tid db' = Some t' \<and> tp_fixed t' = tp_fixed t)) \<and>
     (\<forall>tid a. tp_annotation tid db = Some a \<longrightarrow> (\<exists>b. tp_annotation tid db' = Some b \<and> ann_evolves a b)) \<and>
     tp_nextTask db \<le> tp_nextTask db' \<and> tp_nextAnnotation db \<le> tp_nextAnnotation db'"

lemma tp_le_refl [simp]: "tp_le db db"
  by (simp add: tp_le_def)

lemma tp_le_trans: "tp_le a b \<Longrightarrow> tp_le b c \<Longrightarrow> tp_le a c"
  unfolding tp_le_def
  apply (elim conjE)
  apply (intro conjI)
  subgoal by simp
  subgoal by (metis (no_types, lifting))
  subgoal by (meson ann_evolves_trans)
  subgoal by simp
  subgoal by simp
  done

lemma tp_snapshotProject_world: "tp_world db' = tp_world db \<Longrightarrow> tp_snapshotProject n db' = tp_snapshotProject n db"
  by (simp add: tp_world_def tp_snapshotProject_def tp_snapshot_def tp_dataset_def split: option.split)

lemma tp_taskTrigger_world: "tp_world db' = tp_world db \<Longrightarrow> tp_taskTrigger t db' = tp_taskTrigger t db"
  using tp_snapshotProject_world [of db' db] by (simp add: tp_taskTrigger_def split: option.split)

lemma tp_fixed_context:
  assumes "tp_fixed t' = tp_fixed t"
  shows "task_ID t' = task_ID t" "task_ProjectID t' = task_ProjectID t" "task_SnapshotID t' = task_SnapshotID t"
    "task_AssetObjectKey t' = task_AssetObjectKey t" "task_FrameIndex t' = task_FrameIndex t"
    "task_OntologyVersion t' = task_OntologyVersion t"
  using arg_cong [OF assms, of task_ID] arg_cong [OF assms, of task_ProjectID] arg_cong [OF assms, of task_SnapshotID]
    arg_cong [OF assms, of task_AssetObjectKey] arg_cong [OF assms, of task_FrameIndex] arg_cong [OF assms, of task_OntologyVersion]
  by (simp_all add: tp_fixed_def)

lemma tp_annotationTrigger_le: "tp_le db db' \<Longrightarrow> tp_annotationTrigger a db \<Longrightarrow> tp_annotationTrigger a db'"
proof -
  assume le: "tp_le db db'" and t: "tp_annotationTrigger a db"
  then obtain x where x: "tp_task (an_TaskID a) db = Some x" by (auto simp: tp_annotationTrigger_def split: option.splits)
  obtain x' where x': "tp_task (an_TaskID a) db' = Some x'" "tp_fixed x' = tp_fixed x" using le x unfolding tp_le_def by blast
  show ?thesis using t by (simp add: tp_annotationTrigger_def x x'(1) tp_fixed_context [OF x'(2)])
qed

definition tp_fine :: "tp_Tables \<Rightarrow> tp_Tables \<Rightarrow> bool" where
  "tp_fine db db' \<longleftrightarrow> tp_ok db' \<and> tp_le db db'"

lemma tp_fine_refl: "tp_ok db \<Longrightarrow> tp_fine db db"
  by (simp add: tp_fine_def)

lemma tp_fine_next:
  assumes "tp_ok db" "tp_nextTask db \<le> n" "tp_nextAnnotation db \<le> m"
  shows "tp_fine db (db\<lparr>tp_nextTask := n, tp_nextAnnotation := m\<rparr>)" (is "tp_fine db ?db'")
proof -
  have le: "tp_le db ?db'" using assms by (simp add: tp_le_def tp_world_def tp_task_def tp_annotation_def)
  have "tp_taskOk ?db' t" if "t \<in> set (tp_tasks db)" for t
    using that assms tp_taskTrigger_world [of ?db' db t] by (fastforce simp: tp_ok_def tp_taskOk_def tp_world_def)
  moreover have "tp_annOk ?db' a" if "a \<in> set (tp_annotations db)" for a
    using that assms tp_annotationTrigger_le [OF le, of a] by (fastforce simp: tp_ok_def tp_annOk_def)
  ultimately show ?thesis using assms le by (simp add: tp_fine_def tp_ok_def)
qed

lemma tp_fine_next1:
  assumes "tp_ok db"
  shows "tp_fine db (db\<lparr>tp_nextTask := tp_nextTask db + 1\<rparr>)" "tp_fine db (db\<lparr>tp_nextAnnotation := tp_nextAnnotation db + 1\<rparr>)"
  using tp_fine_next [OF assms, of "tp_nextTask db + 1" "tp_nextAnnotation db"]
    tp_fine_next [OF assms, of "tp_nextTask db" "tp_nextAnnotation db + 1"] by simp_all

lemma tp_fine_trans: "tp_fine a b \<Longrightarrow> tp_fine b c \<Longrightarrow> tp_fine a c"
  by (auto simp: tp_fine_def intro: tp_le_trans)

subsection \<open>Rows\<close>

lemma tp_add_task:
  assumes ok: "tp_ok db" and id: "task_ID row = tp_nextTask db" and row: "tp_taskTrigger row db" "tp_checks row" "task_ProjectID row \<in> set (tp_projects db)"
    "tp_frame (task_FrameIndex row)"
  shows "tp_fine db (db\<lparr>tp_nextTask := tp_nextTask db + 1, tp_tasks := tp_tasks db @ [row]\<rparr>)" (is "tp_fine db ?db'")
proof -
  have w: "tp_world ?db' = tp_world db" by (simp add: tp_world_def)
  have le: "tp_le db ?db'" using w by (simp add: tp_le_def tp_task_def find_append tp_annotation_def)
  have fresh: "tp_nextTask db \<notin> task_ID ` set (tp_tasks db)" using ok by (force simp: tp_ok_def tp_taskOk_def)
  have "tp_taskOk ?db' t" if "t \<in> set (tp_tasks ?db')" for t
    using that ok id row tp_taskTrigger_world [OF w, of t] by (fastforce simp: tp_ok_def tp_taskOk_def)
  moreover have "tp_annOk ?db' a" if "a \<in> set (tp_annotations db)" for a
    using that ok tp_annotationTrigger_le [OF le, of a] by (fastforce simp: tp_ok_def tp_annOk_def)
  ultimately have "tp_ok ?db'" using ok id fresh by (simp add: tp_ok_def)
  then show ?thesis using le by (simp add: tp_fine_def)
qed

lemma tp_replace_task:
  assumes ok: "tp_ok db" and old: "tp_task tid db = Some t" and row: "tp_fixed row = tp_fixed t" "tp_checks row"
  shows "tp_fine db (db\<lparr>tp_tasks := map (\<lambda>x. if task_ID x = tid then row else x) (tp_tasks db)\<rparr>)" (is "tp_fine db ?db'")
proof -
  have t: "t \<in> set (tp_tasks db)" "task_ID t = tid" using find_key_mem [OF old [unfolded tp_task_def]] by simp_all
  note same = tp_fixed_context [OF row(1)]
  have id: "task_ID row = tid" using same(1) t(2) by simp
  have w: "tp_world ?db' = tp_world db" by (simp add: tp_world_def)
  have look: "tp_task j ?db' = (if j = tid then Some row else tp_task j db)" for j
    using find_replace [of task_ID, OF id, of j "tp_tasks db"] old by (auto simp: tp_task_def)
  have le: "tp_le db ?db'" using w row(1) old by (auto simp: tp_le_def look tp_annotation_def)
  have "tp_taskOk ?db' x" if x: "x \<in> set (tp_tasks ?db')" for x
  proof -
    have "x = row \<or> x \<in> set (tp_tasks db)" using x by (auto split: if_splits)
    moreover have "tp_taskTrigger t db" using ok t(1) by (simp add: tp_ok_def tp_taskOk_def)
    then have "tp_taskTrigger row db" by (simp add: tp_taskTrigger_def same split: option.splits)
    ultimately show ?thesis using ok t(1) same row(2) tp_taskTrigger_world [OF w, of x] by (auto simp: tp_ok_def tp_taskOk_def)
  qed
  moreover have "tp_annOk ?db' a" if "a \<in> set (tp_annotations db)" for a
    using that ok tp_annotationTrigger_le [OF le, of a] by (fastforce simp: tp_ok_def tp_annOk_def)
  moreover have ids: "map task_ID (tp_tasks ?db') = map task_ID (tp_tasks db)"
    using map_replace [of task_ID, OF id, of "tp_tasks db"] by simp
  ultimately have "tp_ok ?db'" using ok unfolding tp_ok_def ids by simp
  then show ?thesis using le by (simp add: tp_fine_def)
qed

lemma tp_add_annotation:
  assumes ok: "tp_ok db" and id: "an_ID row = tp_nextAnnotation db" and new: "tp_annotation (an_TaskID row) db = None"
    and row: "tp_annotationTrigger row db" "an_State row \<in> {ann_StateDraft, ann_StateSubmitted}" "1 \<le> an_Revision row"
  shows "tp_fine db (db\<lparr>tp_nextAnnotation := tp_nextAnnotation db + 1, tp_annotations := tp_annotations db @ [row]\<rparr>)" (is "tp_fine db ?db'")
proof -
  have w: "tp_world ?db' = tp_world db" by (simp add: tp_world_def)
  have le: "tp_le db ?db'" using w by (simp add: tp_le_def tp_task_def find_append tp_annotation_def)
  have fresh: "tp_nextAnnotation db \<notin> an_ID ` set (tp_annotations db)" using ok by (force simp: tp_ok_def tp_annOk_def)
  have fresh': "an_TaskID row \<notin> an_TaskID ` set (tp_annotations db)" using new by (simp add: tp_annotation_def find_key_none)
  have "tp_taskOk ?db' t" if "t \<in> set (tp_tasks db)" for t
    using that ok tp_taskTrigger_world [OF w, of t] by (fastforce simp: tp_ok_def tp_taskOk_def)
  moreover have "tp_annOk ?db' a" if "a \<in> set (tp_annotations ?db')" for a
    using that ok id row tp_annotationTrigger_le [OF le, of a] by (fastforce simp: tp_ok_def tp_annOk_def)
  ultimately have "tp_ok ?db'" using ok id fresh fresh' by (simp add: tp_ok_def)
  then show ?thesis using le by (simp add: tp_fine_def)
qed

lemma tp_put_annotation:
  assumes ok: "tp_ok db" and old: "tp_annotation (an_TaskID row) db = Some a" and row: "ann_evolves a row"
    "tp_annotationTrigger row db" "an_State row \<in> {ann_StateDraft, ann_StateSubmitted}"
  shows "tp_fine db (tp_putAnnotation row db)" (is "tp_fine db ?db'")
proof -
  let ?k = "an_TaskID row"
  have a: "a \<in> set (tp_annotations db)" "an_TaskID a = ?k" using find_key_mem [OF old [unfolded tp_annotation_def]] by simp_all
  have ids: "an_ID row = an_ID a" "an_Revision a \<le> an_Revision row" using row(1) by (simp_all add: ann_evolves_def)
  have w: "tp_world ?db' = tp_world db" by (simp add: tp_world_def tp_putAnnotation_def)
  have look: "tp_annotation j ?db' = (if j = ?k then Some row else tp_annotation j db)" for j
    using find_replace [of an_TaskID row ?k j "tp_annotations db"] old by (auto simp: tp_annotation_def tp_putAnnotation_def)
  have rest: "tp_task j ?db' = tp_task j db" "tp_nextTask ?db' = tp_nextTask db" "tp_nextAnnotation ?db' = tp_nextAnnotation db" for j
    by (simp_all add: tp_task_def tp_putAnnotation_def)
  have "\<exists>b. tp_annotation tid ?db' = Some b \<and> ann_evolves c b" if "tp_annotation tid db = Some c" for tid c
    using that old row(1) by (cases "tid = ?k") (simp_all add: look)
  then have le: "tp_le db ?db'" by (simp add: tp_le_def w rest)
  have uniq: "x = a" if "x \<in> set (tp_annotations db)" "an_TaskID x = ?k" for x
    using ok that a unfolding tp_ok_def distinct_map inj_on_def by metis
  have one: "map an_TaskID (tp_annotations ?db') = map an_TaskID (tp_annotations db)"
    using map_replace [of an_TaskID row ?k "tp_annotations db"] by (simp add: tp_putAnnotation_def)
  have two: "map an_ID (tp_annotations ?db') = map an_ID (tp_annotations db)"
    using map_replace_other [of "tp_annotations db" an_TaskID ?k an_ID row] uniq ids(1) by (simp add: tp_putAnnotation_def)
  have "tp_taskOk ?db' t" if "t \<in> set (tp_tasks db)" for t
    using that ok tp_taskTrigger_world [OF w, of t] by (fastforce simp: tp_ok_def tp_taskOk_def tp_putAnnotation_def)
  moreover have "tp_annOk ?db' x" if x: "x \<in> set (tp_annotations ?db')" for x
  proof -
    have "x = row \<or> x \<in> set (tp_annotations db)" using x by (auto simp: tp_putAnnotation_def split: if_splits)
    moreover have "tp_annOk db row" using ok a(1) ids row by (fastforce simp: tp_ok_def tp_annOk_def)
    ultimately have "tp_annOk db x" using ok by (auto simp: tp_ok_def)
    then show ?thesis using tp_annotationTrigger_le [OF le, of x] by (simp add: tp_annOk_def tp_putAnnotation_def)
  qed
  moreover have "tp_tasks ?db' = tp_tasks db" by (simp add: tp_putAnnotation_def)
  ultimately have "tp_ok ?db'" using ok by (simp add: tp_ok_def one two)
  then show ?thesis using le by (simp add: tp_fine_def)
qed

subsection \<open>Operations and histories\<close>

lemma tp_stmt_insertTask_fine:
  assumes ok: "tp_ok db" shows "tp_fine db (snd (tp_stmt_insertTask now act inp db))"
proof -
  define row where "row = (tasks_newTask (pg_timestamptz now) (tp_nextTask db) inp)
    \<lparr>task_DueAt := map_option pg_timestamptz (ct_DueAt inp), task_LastActivityAt := pg_timestamptz act\<rparr>"
  have id: "task_ID row = tp_nextTask db" "task_FrameIndex row = ct_FrameIndex inp" by (simp_all add: row_def tasks_newTask_def)
  show ?thesis
  proof (cases "tp_frame (ct_FrameIndex inp) \<and> tp_taskTrigger row db \<and> tp_checks row \<and> task_ProjectID row \<in> set (tp_projects db)")
    case True
    then have "snd (tp_stmt_insertTask now act inp db) = db\<lparr>tp_nextTask := tp_nextTask db + 1, tp_tasks := tp_tasks db @ [row]\<rparr>"
      unfolding tp_stmt_insertTask_def Let_def row_def [symmetric] by simp
    then show ?thesis using True id(2) tp_add_task [OF ok id(1)] by simp
  next
    case False
    then have "snd (tp_stmt_insertTask now act inp db) \<in> {db, db\<lparr>tp_nextTask := tp_nextTask db + 1\<rparr>}"
      unfolding tp_stmt_insertTask_def Let_def row_def [symmetric] by auto
    then show ?thesis using tp_fine_refl [OF ok] tp_fine_next1(1) [OF ok] by auto
  qed
qed

lemma tp_CreateTask_fine: "tp_ok db \<Longrightarrow> tp_fine db (snd (tp_CreateTask now client inp db))"
  by (simp add: tp_CreateTask_def Let_def tp_stmt_insertTask_fine tp_fine_refl split: option.split)

lemma tp_TransitionTask_fine:
  assumes ok: "tp_ok db" shows "tp_fine db (snd (tp_TransitionTask now tid inp db))"
proof (cases "tp_task tid db")
  case None
  then show ?thesis by (simp add: tp_TransitionTask_def tp_fine_refl [OF ok])
next
  case (Some t)
  let ?row = "t\<lparr>task_Status := tt_Status inp, task_BlockerReason := tt_BlockerReason inp,
    task_LastActivityAt := pg_timestamptz (tt_LastActivityAt inp), task_UpdatedAt := pg_timestamptz now\<rparr>"
  have "tp_fixed ?row = tp_fixed t" by (simp add: tp_fixed_def)
  from tp_replace_task [OF ok Some this] show ?thesis
    by (simp add: tp_TransitionTask_def Some Let_def tp_fine_refl [OF ok])
qed

lemma tp_stmt_update_fine:
  assumes ok: "tp_ok db" and old: "tp_annotation (an_TaskID row) db = Some a" and row: "ann_evolves a row"
    "an_State row \<in> {ann_StateDraft, ann_StateSubmitted}"
  shows "tp_fine db (snd (tp_stmt_update row db))"
  using tp_put_annotation [OF ok old row(1) _ row(2)] tp_fine_refl [OF ok] by (simp add: tp_stmt_update_def)

lemma tp_annotation_task: "tp_annotation tid db = Some a \<Longrightarrow> an_TaskID a = tid"
  using find_key_mem [of an_TaskID tid "tp_annotations db" a] by (simp add: tp_annotation_def)

lemma tp_SaveDraft_fine:
  assumes ok: "tp_ok db" shows "tp_fine db (snd (tp_SaveDraft now inp db))"
proof -
  define row where "row = tp_newDraft now (tp_nextAnnotation db) inp"
  define db' where "db' = db\<lparr>tp_nextAnnotation := tp_nextAnnotation db + 1\<rparr>"
  have f: "tp_fine db db'" unfolding db'_def by (rule tp_fine_next1(2) [OF ok])
  have r: "an_TaskID row = sd_TaskID inp" "an_ID row = tp_nextAnnotation db" "an_State row = ann_StateDraft" "an_Revision row = 1"
    by (simp_all add: row_def tp_newDraft_def)
  show ?thesis
  proof (cases "tp_annotation (sd_TaskID inp) db")
    case None
    have "tp_fine db (db'\<lparr>tp_annotations := tp_annotations db @ [row]\<rparr>)" if "tp_annotationTrigger row db"
      unfolding db'_def using tp_add_annotation [OF ok r(2) _ that] None r by simp
    then show ?thesis unfolding tp_SaveDraft_def Let_def row_def [symmetric] db'_def [symmetric] None
      using f tp_fine_refl [OF ok] by simp
  next
    case (Some a)
    define next_row where "next_row = a\<lparr>an_State := ann_StateDraft, an_Revision := an_Revision a + 1,
      an_Body := sd_Body inp, an_SubmittedBy := [], an_SubmittedAt := None, an_UpdatedAt := pg_timestamptz now\<rparr>"
    have "tp_fine db (snd (tp_stmt_update next_row db'))" if "an_State a \<noteq> ann_StateSubmitted"
    proof (rule tp_fine_trans [OF f], rule tp_stmt_update_fine)
      show "tp_ok db'" using f by (simp add: tp_fine_def)
      show "tp_annotation (an_TaskID next_row) db' = Some a"
        using Some tp_annotation_task [OF Some] by (simp add: next_row_def db'_def tp_annotation_def)
      show "ann_evolves a next_row" using that by (simp add: ann_evolves_def ann_context_of_def next_row_def)
      show "an_State next_row \<in> {ann_StateDraft, ann_StateSubmitted}" by (simp add: next_row_def)
    qed
    then show ?thesis
      unfolding tp_SaveDraft_def Let_def row_def [symmetric] db'_def [symmetric] Some option.case next_row_def [symmetric]
      using f tp_fine_refl [OF ok] by simp
  qed
qed

lemma tp_Submit_fine:
  assumes ok: "tp_ok db" shows "tp_fine db (snd (tp_Submit now tid actor db))"
proof (cases "tp_annotation tid db")
  case None
  then show ?thesis by (simp add: tp_Submit_def tp_fine_refl [OF ok])
next
  case (Some a)
  define next_row where "next_row = a\<lparr>an_State := ann_StateSubmitted, an_Revision := an_Revision a + 1,
    an_SubmittedBy := actor, an_SubmittedAt := Some (pg_timestamptz now), an_UpdatedAt := pg_timestamptz now\<rparr>"
  have "tp_fine db (snd (tp_stmt_update next_row db))" if "an_State a \<noteq> ann_StateSubmitted"
    by (rule tp_stmt_update_fine [OF ok, of _ a])
      (use that Some tp_annotation_task [OF Some] in \<open>simp_all add: next_row_def ann_evolves_def ann_context_of_def\<close>)
  then show ?thesis unfolding tp_Submit_def Some option.case next_row_def [symmetric] using tp_fine_refl [OF ok] by simp
qed

datatype tp_op =
    TpCreate time time tasks_CreateTaskInput
  | TpTransition time int tasks_TransitionTaskInput
  | TpSave time ann_SaveDraftInput
  | TpSubmit time int string

definition tp_ended :: "'a tp_result \<Rightarrow> bool \<times> tp_Tables" where
  "tp_ended m = (succeeds m, snd m)"

fun tp_exec :: "tp_Tables \<Rightarrow> tp_op \<Rightarrow> bool \<times> tp_Tables" where
  "tp_exec db (TpCreate now client inp) = tp_ended (tp_CreateTask now client inp db)"
| "tp_exec db (TpTransition now tid inp) = tp_ended (tp_TransitionTask now tid inp db)"
| "tp_exec db (TpSave now inp) = tp_ended (tp_SaveDraft now inp db)"
| "tp_exec db (TpSubmit now tid actor) = tp_ended (tp_Submit now tid actor db)"

definition tp_step :: "tp_Tables \<Rightarrow> tp_op \<Rightarrow> tp_Tables" where
  "tp_step db p = snd (tp_exec db p)"

lemma tp_step_fine: "tp_ok db \<Longrightarrow> tp_fine db (tp_step db p)"
  by (cases p) (simp_all add: tp_step_def tp_ended_def tp_CreateTask_fine tp_TransitionTask_fine tp_SaveDraft_fine tp_Submit_fine)

interpretation tp_machine: progress_machine tp_ok tp_step tp_ok tp_le
  by unfold_locales (use tp_step_fine in \<open>auto simp: tp_fine_def intro: tp_le_trans\<close>)

text \<open>
  C24. Over any history of the two repositories every task stays in the project of its snapshot and keeps its kind, context and
  creation, every annotation stays in the context of its task, there is one annotation per task, its revision only
  grows, and once submitted it never changes.
\<close>

theorem tp_histories:
  assumes "tp_ok db"
  shows "tp_ok (foldl tp_step db ps) \<and> tp_le db (foldl tp_step db ps)"
  using tp_machine.run_inv_from [OF assms, of ps] tp_machine.run_le [OF assms, of ps] by blast

subsection \<open>The checks of the table are those of the service\<close>

lemma tp_checks_valid:
  "tp_checks row \<longleftrightarrow> tasks_isValidStatus (task_Status row) \<and> tasks_isValidKind (task_Kind row) \<and> tasks_isValidPriority (task_Priority row)"
  unfolding tp_checks_def tasks_isValidStatus_def tasks_isValidKind_def tasks_isValidPriority_def
    tasks_status_defs tasks_kind_defs tasks_priority_defs list.set ..

subsection \<open>Refinement of the in-memory annotations\<close>

text \<open>
  What the annotation service asks of its repository: it saves with the context of the task, which the in-memory repository is told
  before, submits and reads. The stamps in memory are taken to be those of the database. Numbers of annotations are left
  out of the comparison: a conflict takes one from the sequence.
\<close>

datatype tp_annOp =
    AnnSave time ann_SaveDraftInput
  | AnnSubmit time int string
  | AnnGet int

fun tp_call :: "tp_annOp \<Rightarrow> tp_Tables \<Rightarrow> ann_Annotation tp_result" where
  "tp_call (AnnSave now inp) db = tp_SaveDraft now inp db"
| "tp_call (AnnSubmit now tid actor) db = tp_Submit now tid actor db"
| "tp_call (AnnGet tid) db = (tp_GetByTaskID tid db, db)"

fun tp_memoryCall :: "tp_annOp \<Rightarrow> ann_Repo \<Rightarrow> (ann_error, ann_Annotation, ann_Repo) outcome" where
  "tp_memoryCall (AnnSave now inp) r =
     ann_repo_SaveDraft (pg_timestamptz now) inp
       (ann_SeedTaskContext (sd_TaskID inp) (sd_SnapshotID inp) (sd_AssetObjectKey inp) (sd_FrameIndex inp) (sd_OntologyVersion inp) r)"
| "tp_memoryCall (AnnSubmit now tid actor) r = ann_repo_Submit (pg_timestamptz now) tid actor r"
| "tp_memoryCall (AnnGet tid) r = (ann_repo_GetByTaskID tid r, r)"

definition tp_context :: "int \<Rightarrow> tp_Tables \<Rightarrow> ann_TaskContext option" where
  "tp_context tid db =
     (case tp_task tid db of
        None \<Rightarrow> None
      | Some t \<Rightarrow> map_option (\<lambda>n. \<lparr>tc_SnapshotID = n, tc_AssetObjectKey = task_AssetObjectKey t,
          tc_FrameIndex = task_FrameIndex t, tc_OntologyVersion = task_OntologyVersion t\<rparr>) (task_SnapshotID t))"

definition tp_inputContext :: "ann_SaveDraftInput \<Rightarrow> ann_TaskContext" where
  "tp_inputContext inp = \<lparr>tc_SnapshotID = sd_SnapshotID inp, tc_AssetObjectKey = sd_AssetObjectKey inp,
     tc_FrameIndex = sd_FrameIndex inp, tc_OntologyVersion = sd_OntologyVersion inp\<rparr>"

fun tp_legit :: "tp_Tables \<Rightarrow> tp_annOp \<Rightarrow> bool" where
  "tp_legit db (AnnSave now inp) \<longleftrightarrow> tp_context (sd_TaskID inp) db = Some (tp_inputContext inp)"
| "tp_legit db _ \<longleftrightarrow> True"

definition tp_same :: "ann_Annotation \<Rightarrow> ann_Annotation \<Rightarrow> bool" where
  "tp_same a b \<longleftrightarrow> a\<lparr>an_ID := 0\<rparr> = b\<lparr>an_ID := 0\<rparr>"

definition tp_sim :: "tp_Tables \<Rightarrow> ann_Repo \<Rightarrow> bool" where
  "tp_sim db r \<longleftrightarrow> (\<forall>tid. rel_option (\<lambda>row. tp_same (tp_scanAnnotation row)) (tp_annotation tid db) (ar_byTaskID r tid))"

definition tp_agree :: "tp_error + ann_Annotation \<Rightarrow> ann_error + ann_Annotation \<Rightarrow> bool" where
  "tp_agree x y =
     (case (x, y) of
        (Inr a, Inr b) \<Rightarrow> tp_same a b
      | (Inl e, Inl f) \<Rightarrow> tp_error_kind e = ann_error_kind f
      | _ \<Rightarrow> False)"

fun tp_answers :: "tp_annOp list \<Rightarrow> tp_Tables \<Rightarrow> (tp_error + ann_Annotation) list" where
  "tp_answers [] db = []"
| "tp_answers (p # ps) db = fst (tp_call p db) # tp_answers ps (snd (tp_call p db))"

fun tp_memoryAnswers :: "tp_annOp list \<Rightarrow> ann_Repo \<Rightarrow> (ann_error + ann_Annotation) list" where
  "tp_memoryAnswers [] r = []"
| "tp_memoryAnswers (p # ps) r = fst (tp_memoryCall p r) # tp_memoryAnswers ps (snd (tp_memoryCall p r))"

lemma tp_trigger_context: "tp_annotationTrigger row db \<longleftrightarrow> tp_context (an_TaskID row) db = Some (ann_context_of row)"
  by (auto simp: tp_annotationTrigger_def tp_context_def ann_context_of_def split: option.splits)

lemma tp_context_le: "tp_le db db' \<Longrightarrow> tp_context tid db = Some c \<Longrightarrow> tp_context tid db' = Some c"
proof -
  assume le: "tp_le db db'" and c: "tp_context tid db = Some c"
  then obtain t where t: "tp_task tid db = Some t" by (auto simp: tp_context_def split: option.splits)
  obtain t' where t': "tp_task tid db' = Some t'" "tp_fixed t' = tp_fixed t" using le t unfolding tp_le_def by blast
  show ?thesis using c by (simp add: tp_context_def t t'(1) tp_fixed_context [OF t'(2)])
qed

lemma tp_legit_le: "tp_le db db' \<Longrightarrow> tp_legit db p \<Longrightarrow> tp_legit db' p"
  by (cases p) (auto intro: tp_context_le)

lemma tp_same_iff:
  "tp_same a b \<longleftrightarrow> an_TaskID a = an_TaskID b \<and> an_SnapshotID a = an_SnapshotID b \<and> an_AssetObjectKey a = an_AssetObjectKey b \<and>
     an_FrameIndex a = an_FrameIndex b \<and> an_OntologyVersion a = an_OntologyVersion b \<and> an_State a = an_State b \<and>
     an_Revision a = an_Revision b \<and> an_Body a = an_Body b \<and> an_SubmittedBy a = an_SubmittedBy b \<and>
     an_SubmittedAt a = an_SubmittedAt b \<and> an_CreatedAt a = an_CreatedAt b \<and> an_UpdatedAt a = an_UpdatedAt b"
  by (cases a; cases b) (simp add: tp_same_def)

lemma tp_sameD:
  assumes "tp_same a b"
  shows "an_State a = an_State b" "an_Revision a = an_Revision b" "an_Body a = an_Body b" "an_TaskID a = an_TaskID b"
    "ann_context_of a = ann_context_of b"
  using arg_cong [OF assms [unfolded tp_same_def], of an_State] arg_cong [OF assms [unfolded tp_same_def], of an_Revision]
    arg_cong [OF assms [unfolded tp_same_def], of an_Body] arg_cong [OF assms [unfolded tp_same_def], of an_TaskID]
    arg_cong [OF assms [unfolded tp_same_def], of ann_context_of]
  by (simp_all add: ann_context_of_def)

lemma tp_same_clone: "tp_same (tp_scanAnnotation row) b \<Longrightarrow> ann_cloneAnnotation b = b"
proof (rule ann_clone_ok)
  assume "tp_same (tp_scanAnnotation row) b"
  from tp_sameD(3) [OF this] have "an_Body b = json_clone (an_Body row)" by (simp add: tp_scanAnnotation_def)
  then show "json_clone (an_Body b) = an_Body b" by simp
qed

lemma tp_sim_cases [consumes 1, case_names none both]:
  assumes "tp_sim db r"
  obtains (none) "tp_annotation tid db = None" "ar_byTaskID r tid = None"
  | (both) a b where "tp_annotation tid db = Some a" "ar_byTaskID r tid = Some b" "tp_same (tp_scanAnnotation a) b"
  using assms unfolding tp_sim_def by (metis option.rel_cases)

lemma tp_sim_other:
  assumes "tp_sim db r" "tp_annotations db' = tp_annotations db" "ar_byTaskID r' = ar_byTaskID r"
  shows "tp_sim db' r'"
  using assms by (simp add: tp_sim_def tp_annotation_def)

lemma tp_sim_put:
  assumes "tp_sim db r" "tp_annotation (an_TaskID row) db = Some a" "tp_same (tp_scanAnnotation row) b"
  shows "tp_sim (tp_putAnnotation row db) (ann_put (an_TaskID row) b r)"
proof -
  have "tp_annotation j (tp_putAnnotation row db) = (if j = an_TaskID row then Some row else tp_annotation j db)" for j
    using find_replace [of an_TaskID row "an_TaskID row" j "tp_annotations db"] assms(2)
    by (auto simp: tp_annotation_def tp_putAnnotation_def)
  then show ?thesis using assms by (simp add: tp_sim_def)
qed

lemma tp_sim_add:
  assumes "tp_sim db r" "tp_annotation (an_TaskID row) db = None" "tp_same (tp_scanAnnotation row) b"
    "tp_annotations db' = tp_annotations db @ [row]" "ar_byTaskID r' = (ar_byTaskID r)(an_TaskID row \<mapsto> b)"
  shows "tp_sim db' r'"
proof -
  have "tp_annotation j db' = (if j = an_TaskID row then Some row else tp_annotation j db)" for j
    using assms(2,4) by (auto simp: tp_annotation_def find_append split: option.split)
  then show ?thesis using assms by (simp add: tp_sim_def)
qed

lemma tp_legit_stored:
  assumes ok: "tp_ok db" and c: "tp_context tid db = Some c"
  shows "tp_frame (tc_FrameIndex c)" "tp_snapshot (tc_SnapshotID c) db \<noteq> None"
proof -
  obtain t where t: "tp_task tid db = Some t" using c by (auto simp: tp_context_def split: option.splits)
  have "tp_taskOk db t" using ok find_key_mem [OF t [unfolded tp_task_def]] by (simp add: tp_ok_def)
  then show "tp_frame (tc_FrameIndex c)" "tp_snapshot (tc_SnapshotID c) db \<noteq> None"
    using c t by (auto simp: tp_context_def tp_taskOk_def tp_taskTrigger_def tp_snapshotProject_def split: option.splits)
qed

lemma tp_save_step:
  assumes ok: "tp_ok db" and sim: "tp_sim db r" and legit: "tp_context (sd_TaskID inp) db = Some (tp_inputContext inp)"
  shows "tp_agree (fst (tp_SaveDraft now inp db)) (fst (tp_memoryCall (AnnSave now inp) r)) \<and>
     tp_sim (snd (tp_SaveDraft now inp db)) (snd (tp_memoryCall (AnnSave now inp) r))"
proof -
  let ?t = "sd_TaskID inp"
  define s where "s = ann_SeedTaskContext ?t (sd_SnapshotID inp) (sd_AssetObjectKey inp) (sd_FrameIndex inp) (sd_OntologyVersion inp) r"
  define row where "row = tp_newDraft now (tp_nextAnnotation db) inp"
  define db' where "db' = db\<lparr>tp_nextAnnotation := tp_nextAnnotation db + 1\<rparr>"
  have s: "ar_taskContext s ?t = Some (tp_inputContext inp)" "ar_byTaskID s = ar_byTaskID r"
    by (simp_all add: s_def ann_SeedTaskContext_def tp_inputContext_def)
  have ctx: "ann_sameContextFromTaskContext (tp_inputContext inp) inp"
    by (simp add: ann_sameContextFromTaskContext_def tp_inputContext_def)
  have trig: "tp_annotationTrigger row db" using legit by (simp add: tp_trigger_context row_def tp_newDraft_def ann_context_of_def tp_inputContext_def)
  have stored: "tp_frame (sd_FrameIndex inp)" "tp_snapshot (sd_SnapshotID inp) db \<noteq> None"
    using tp_legit_stored [OF ok legit] by (simp_all add: tp_inputContext_def)
  have mem: "tp_memoryCall (AnnSave now inp) r = ann_repo_SaveDraft (pg_timestamptz now) inp s" by (simp add: s_def)
  have new: "an_TaskID row = ?t" by (simp add: row_def tp_newDraft_def)
  have sim': "tp_sim db' s" by (rule tp_sim_other [OF sim]) (simp_all add: db'_def s(2))
  show ?thesis
    using sim
  proof (cases rule: tp_sim_cases [where tid = ?t])
    case none
    let ?b = "ann_first_draft (pg_timestamptz now) inp (ar_nextID s)"
    have same: "tp_same (tp_scanAnnotation row) ?b"
      by (simp add: tp_same_def tp_scanAnnotation_def row_def tp_newDraft_def ann_first_draft_def)
    have pg: "tp_SaveDraft now inp db = (Inr (tp_scanAnnotation row), db'\<lparr>tp_annotations := tp_annotations db @ [row]\<rparr>)"
      unfolding tp_SaveDraft_def Let_def row_def [symmetric] db'_def [symmetric] using stored trig none(1) by auto
    have m: "ann_repo_SaveDraft (pg_timestamptz now) inp s = (Inr ?b, ann_put ?t ?b (s\<lparr>ar_nextID := ar_nextID s + 1\<rparr>))"
      using none(2) ctx by (simp add: ann_repo_SaveDraft_eq s)
    have "tp_sim (db'\<lparr>tp_annotations := tp_annotations db @ [row]\<rparr>) (ann_put ?t ?b (s\<lparr>ar_nextID := ar_nextID s + 1\<rparr>))"
      by (rule tp_sim_add [OF sim _ same]) (simp_all add: new none(1) s(2))
    then show ?thesis unfolding mem pg m using same by (simp add: tp_agree_def)
  next
    case (both a b)
    note same = tp_sameD [OF both(3)]
    have st: "an_State b = an_State a" "an_Revision b = an_Revision a" using same by (simp_all add: tp_scanAnnotation_def)
    have a: "a \<in> set (tp_annotations db)" "an_TaskID a = ?t" using find_key_mem [OF both(1) [unfolded tp_annotation_def]] by simp_all
    then have ctxa: "tp_context ?t db = Some (ann_context_of a)" using ok by (auto simp: tp_ok_def tp_annOk_def tp_trigger_context)
    then have eq: "ann_context_of a = tp_inputContext inp" using legit by simp
    then have sca: "tp_sameContext a inp"
      by (auto simp: tp_sameContext_def ann_context_of_def tp_inputContext_def split: option.split)
    have "ann_context_of b = tp_inputContext inp" using same(5) eq by (simp add: ann_context_of_def tp_scanAnnotation_def)
    then have scb: "ann_sameContextInMemory b inp" by (simp add: ann_sameContextInMemory_def ann_context_of_def tp_inputContext_def)
    define nx where "nx = a\<lparr>an_State := ann_StateDraft, an_Revision := an_Revision a + 1,
      an_Body := sd_Body inp, an_SubmittedBy := [], an_SubmittedAt := None, an_UpdatedAt := pg_timestamptz now\<rparr>"
    let ?b = "ann_next_draft (pg_timestamptz now) inp b"
    have nx: "an_TaskID nx = ?t" "ann_context_of nx = ann_context_of a" using a(2) by (simp_all add: nx_def ann_context_of_def)
    have "tp_context ?t db' = tp_context ?t db" by (simp add: db'_def tp_context_def tp_task_def)
    then have trigx: "tp_annotationTrigger nx db'" using ctxa nx by (simp add: tp_trigger_context)
    have samex: "tp_same (tp_scanAnnotation nx) ?b"
      using both(3) by (simp add: tp_same_iff tp_scanAnnotation_def nx_def ann_next_draft_def)
    have put: "tp_sim (tp_putAnnotation nx db') (ann_put ?t ?b s)"
      using tp_sim_put [OF sim' _ samex] both(1) nx(1) by (simp add: db'_def tp_annotation_def)
    have pg: "tp_SaveDraft now inp db =
        (if an_State a = ann_StateSubmitted then (Inl (TpSubmitted ?t), db')
         else if 0 < sd_BaseRevision inp \<and> an_Revision a \<noteq> sd_BaseRevision inp then (Inl (TpRevisionMismatch ?t), db')
         else (Inr (tp_scanAnnotation nx), tp_putAnnotation nx db'))"
      unfolding tp_SaveDraft_def Let_def row_def [symmetric] db'_def [symmetric] both(1) option.case nx_def [symmetric]
      using stored trig sca trigx by (simp add: tp_stmt_update_def)
    have m: "ann_repo_SaveDraft (pg_timestamptz now) inp s =
        (if 0 < sd_BaseRevision inp \<and> an_Revision a \<noteq> sd_BaseRevision inp
         then (Inl (AnnRevisionMismatch ?t (sd_BaseRevision inp) (an_Revision b)), s)
         else if an_State a = ann_StateSubmitted then (Inl (AnnAlreadySubmitted ?t), s)
         else (Inr ?b, ann_put ?t ?b s))"
      using both(2) scb ctx by (simp add: ann_repo_SaveDraft_eq s st)
    show ?thesis unfolding mem pg m using sim' put samex by (simp add: tp_agree_def)
  qed
qed

lemma tp_submit_step:
  assumes ok: "tp_ok db" and sim: "tp_sim db r"
  shows "tp_agree (fst (tp_Submit now tid actor db)) (fst (ann_repo_Submit (pg_timestamptz now) tid actor r)) \<and>
     tp_sim (snd (tp_Submit now tid actor db)) (snd (ann_repo_Submit (pg_timestamptz now) tid actor r))"
  using sim
proof (cases rule: tp_sim_cases [where tid = tid])
  case none
  then show ?thesis using sim by (simp add: tp_Submit_def ann_repo_Submit_def tp_agree_def)
next
  case (both a b)
  have st: "an_State b = an_State a" "an_Revision b = an_Revision a" "ann_cloneAnnotation b = b"
    using tp_sameD [OF both(3)] tp_same_clone [OF both(3)] by (simp_all add: tp_scanAnnotation_def)
  have a: "a \<in> set (tp_annotations db)" "an_TaskID a = tid" using find_key_mem [OF both(1) [unfolded tp_annotation_def]] by simp_all
  define nx where "nx = a\<lparr>an_State := ann_StateSubmitted, an_Revision := an_Revision a + 1, an_SubmittedBy := actor,
    an_SubmittedAt := Some (pg_timestamptz now), an_UpdatedAt := pg_timestamptz now\<rparr>"
  let ?b = "ann_submitted (pg_timestamptz now) actor b"
  have nx: "an_TaskID nx = tid" "ann_context_of nx = ann_context_of a" using a(2) by (simp_all add: nx_def ann_context_of_def)
  have trigx: "tp_annotationTrigger nx db" using ok a nx by (auto simp: tp_ok_def tp_annOk_def tp_trigger_context)
  have samex: "tp_same (tp_scanAnnotation nx) ?b"
    using both(3) by (simp add: tp_same_iff tp_scanAnnotation_def nx_def ann_submitted_def)
  have put: "tp_sim (tp_putAnnotation nx db) (ann_put tid ?b r)"
    using tp_sim_put [OF sim _ samex] both(1) nx(1) by simp
  have pg: "tp_Submit now tid actor db =
      (if an_State a = ann_StateSubmitted then (Inr (tp_scanAnnotation a), db) else (Inr (tp_scanAnnotation nx), tp_putAnnotation nx db))"
    unfolding tp_Submit_def both(1) option.case nx_def [symmetric] using trigx by (simp add: tp_stmt_update_def)
  have cl: "ann_cloneAnnotation ?b = ?b" using tp_same_clone [OF samex] .
  have m: "ann_repo_Submit (pg_timestamptz now) tid actor r =
      (if an_State a = ann_StateSubmitted then (Inr b, r) else (Inr ?b, ann_put tid ?b r))"
    using st(3) cl by (simp add: ann_repo_Submit_def both(2) st(1) Let_def ann_put_def ann_submitted_def [symmetric])
  show ?thesis unfolding pg m using sim put samex both(3) by (simp add: tp_agree_def)
qed

lemma tp_call_step:
  assumes ok: "tp_ok db" and sim: "tp_sim db r" and legit: "tp_legit db p"
  shows "tp_agree (fst (tp_call p db)) (fst (tp_memoryCall p r)) \<and> tp_sim (snd (tp_call p db)) (snd (tp_memoryCall p r)) \<and>
     tp_fine db (snd (tp_call p db))"
proof (cases p)
  case (AnnSave now inp)
  then show ?thesis using tp_save_step [OF ok sim, of inp now] legit tp_SaveDraft_fine [OF ok, of now inp] by simp
next
  case (AnnSubmit now tid actor)
  then show ?thesis using tp_submit_step [OF ok sim, of now tid actor] tp_Submit_fine [OF ok, of now tid actor] by simp
next
  case (AnnGet tid)
  show ?thesis
    using sim
  proof (cases rule: tp_sim_cases [where tid = tid])
    case none
    then show ?thesis using AnnGet sim tp_fine_refl [OF ok] by (simp add: tp_GetByTaskID_def ann_repo_GetByTaskID_def tp_agree_def)
  next
    case (both a b)
    then show ?thesis using AnnGet sim tp_fine_refl [OF ok] tp_same_clone [OF both(3)]
      by (simp add: tp_GetByTaskID_def ann_repo_GetByTaskID_def tp_agree_def)
  qed
qed

text \<open>
  C23. Over any sequence of calls whose saves carry the context of the stored task they name, as the annotation service
  takes it from the task, the Postgres repository answers what the in-memory repository
  answers: the same annotation up to its number, or an error of the same kind.
\<close>

theorem tp_annotations_refine_memory:
  assumes "tp_ok db" "tp_sim db r" "\<forall>p \<in> set ps. tp_legit db p"
  shows "list_all2 tp_agree (tp_answers ps db) (tp_memoryAnswers ps r)"
  using assms
proof (induction ps arbitrary: db r)
  case Nil
  then show ?case by simp
next
  case (Cons p ps)
  have legit: "tp_legit db p" using Cons.prems(3) by simp
  note h = tp_call_step [OF Cons.prems(1,2) legit]
  have fine: "tp_ok (snd (tp_call p db))" "tp_le db (snd (tp_call p db))" using h by (simp_all add: tp_fine_def)
  have "\<forall>q \<in> set ps. tp_legit (snd (tp_call p db)) q" using Cons.prems(3) tp_legit_le [OF fine(2)] by simp
  with Cons.IH [OF fine(1)] h show ?case by simp
qed

text \<open>
  A save in another context than the task's is stopped by the trigger, which fires before the conflict is seen: the caller gets an error of
  no kind, and the repository's own check of the context never fails.
\<close>

lemma tp_save_mismatch:
  assumes "tp_context (sd_TaskID inp) db \<noteq> Some (tp_inputContext inp)"
  shows "fst (tp_SaveDraft now inp db) \<in> {Inl TpOutOfRange, Inl TpTrigger}"
proof -
  have "\<not> tp_annotationTrigger (tp_newDraft now (tp_nextAnnotation db) inp) db"
    using assms by (simp add: tp_trigger_context tp_newDraft_def ann_context_of_def tp_inputContext_def)
  then show ?thesis by (simp add: tp_SaveDraft_def Let_def)
qed

lemma tp_context_check_dead:
  assumes ok: "tp_ok db" shows "fst (tp_SaveDraft now inp db) \<noteq> Inl (TpContextMismatch tid)"
proof (cases "tp_context (sd_TaskID inp) db = Some (tp_inputContext inp)")
  case False
  then show ?thesis using tp_save_mismatch [OF False, of now] by auto
next
  case True
  have "tp_sameContext a inp" if "tp_annotation (sd_TaskID inp) db = Some a" for a
  proof -
    have "a \<in> set (tp_annotations db)" "an_TaskID a = sd_TaskID inp" using find_key_mem [OF that [unfolded tp_annotation_def]] by simp_all
    then have "ann_context_of a = tp_inputContext inp" using ok True by (auto simp: tp_ok_def tp_annOk_def tp_trigger_context)
    then show ?thesis by (auto simp: tp_sameContext_def ann_context_of_def tp_inputContext_def split: option.split)
  qed
  then show ?thesis by (auto simp: tp_SaveDraft_def tp_stmt_update_def Let_def split: option.split)
qed

subsection \<open>An example\<close>

definition tp_demo_task :: tasks_Task where
  "tp_demo_task =
     \<lparr>task_ID = 1, task_ProjectID = 1, task_SnapshotID = Some 3, task_Title = ''label'', task_Kind = tasks_KindAnnotation,
      task_AssetObjectKey = ''a.jpg'', task_MediaKind = tasks_MediaKindImage, task_FrameIndex = None, task_OntologyVersion = ''v1'',
      task_Status = tasks_StatusInProgress, task_Priority = tasks_PriorityNormal, task_Assignee = [], task_DueAt = None,
      task_BlockerReason = [], task_LastActivityAt = 0, task_CreatedAt = 0, task_UpdatedAt = 0, task_SnapshotVersion = [],
      task_DatasetID = 0, task_DatasetName = []\<rparr>"

definition tp_demo :: tp_Tables where
  "tp_demo =
     \<lparr>tp_projects = [1], tp_datasets = [\<lparr>ds_ID = 5, ds_ProjectID = 1, ds_Name = ''cars''\<rparr>],
      tp_snapshots = [\<lparr>sn_ID = 3, sn_DatasetID = 5, sn_Version = ''v1''\<rparr>], tp_tasks = [tp_demo_task], tp_annotations = [],
      tp_nextTask = 2, tp_nextAnnotation = 1\<rparr>"

definition tp_demo_draft :: "int \<Rightarrow> ann_SaveDraftInput" where
  "tp_demo_draft base =
     \<lparr>sd_TaskID = 1, sd_Actor = ''ann'', sd_SnapshotID = 3, sd_AssetObjectKey = ''a.jpg'', sd_FrameIndex = None,
      sd_OntologyVersion = ''v1'', sd_BaseRevision = base, sd_Body = []\<rparr>"

lemma tp_demo_ok: "tp_ok tp_demo"
  by (simp add: tp_ok_def tp_taskOk_def tp_demo_def tp_demo_task_def tp_checks_valid tasks_isValidStatus_def tasks_isValidKind_def
    tasks_isValidPriority_def tp_taskTrigger_def tp_snapshotProject_def tp_snapshot_def tp_dataset_def tp_frame_def)

theorem tp_histories_witness:
  "tp_ok (foldl tp_step tp_demo [TpSave 1 (tp_demo_draft 0), TpSubmit 2 1 ''ann'', TpSave 3 (tp_demo_draft 0)])"
  using tp_histories [OF tp_demo_ok] by blast

lemma tp_demo_run:
  "map isl (tp_answers [AnnSave 1 (tp_demo_draft 0), AnnSubmit 2 1 ''ann'', AnnSave 3 (tp_demo_draft 0), AnnGet 1] tp_demo) =
     [False, False, True, False]"
  by code_simp

theorem tp_annotations_refine_memory_witness:
  "list_all2 tp_agree (tp_answers [AnnSave 1 (tp_demo_draft 0), AnnSubmit 2 1 ''ann'', AnnSave 3 (tp_demo_draft 0), AnnGet 1] tp_demo)
     (tp_memoryAnswers [AnnSave 1 (tp_demo_draft 0), AnnSubmit 2 1 ''ann'', AnnSave 3 (tp_demo_draft 0), AnnGet 1]
        ann_NewInMemoryRepository)"
proof (rule tp_annotations_refine_memory [OF tp_demo_ok])
  show "tp_sim tp_demo ann_NewInMemoryRepository"
    by (simp add: tp_sim_def tp_annotation_def tp_demo_def ann_NewInMemoryRepository_def)
  show "\<forall>p \<in> set [AnnSave 1 (tp_demo_draft 0), AnnSubmit 2 1 ''ann'', AnnSave 3 (tp_demo_draft 0), AnnGet 1]. tp_legit tp_demo p"
    by (simp add: tp_context_def tp_task_def tp_demo_def tp_demo_task_def tp_demo_draft_def tp_inputContext_def)
qed

end
