(* ===== verification/Review_Postgres.thy ===== *)
theory Review_Postgres
  imports Review Workspace_Postgres "HOL-Library.Product_Lexorder"
begin

section \<open>Review: the Postgres repository\<close>

text \<open>
  \<open>internal/review/postgres_repository.go\<close> over the tables of \<open>migrations/000001\<close>, and the service and the handlers over it.
  A column that can be null is an option; a null that is scanned into a Go \<open>string\<close> is an error of the scan. \<open>lower\<close> is the
  function of the database. Persisting is a transaction, and so is a decision, which locks the row of the candidate: each is one step.
  The annotation of an accepted candidate refers to the rows the candidate refers to, so its references hold.
\<close>

record rv_Item =
  it_ID :: int
  it_ObjectKey :: string

record rv_Category =
  cg_ID :: int
  cg_ProjectID :: int
  cg_Name :: string

record rv_Row =
  rw_id :: int
  rw_job_id :: "int option"
  rw_dataset_id :: int
  rw_snapshot_id :: int
  rw_item_id :: int
  rw_category_id :: int
  rw_bbox :: rev_CandidateBBox
  rw_polygon_json :: "string option"
  rw_confidence :: "real option"
  rw_model_name :: "string option"
  rw_is_pseudo :: bool
  rw_review_status :: string
  rw_reviewer_id :: "string option"
  rw_reviewed_at :: "time option"
  rw_created_at :: time

record rv_AnnotationRow =
  va_dataset_id :: int
  va_item_id :: int
  va_category_id :: int
  va_bbox :: rev_CandidateBBox
  va_polygon_json :: "string option"
  va_source :: string
  va_model_name :: "string option"
  va_snapshot_id :: int
  va_review_status :: string
  va_is_pseudo :: bool

record rv_Tables =
  rv_datasets :: "tp_Dataset list"
  rv_snapshots :: "tp_Snapshot list"
  rv_items :: "rv_Item list"
  rv_categories :: "rv_Category list"
  rv_tasks :: "tasks_Task list"
  rv_candidates :: "rv_Row list"
  rv_annotations :: "rv_AnnotationRow list"
  rv_audits :: "rev_AuditEvent list"
  rv_nextCandidate :: int

datatype rv_error =
    RvNoRows
  | RvForeignKey
  | RvScanNull
  | RvDomain rev_error

type_synonym 'a rv_result = "(rv_error, 'a, rv_Tables) outcome"

subsection \<open>Reading\<close>

definition rv_item :: "int \<Rightarrow> rv_Tables \<Rightarrow> rv_Item option" where
  "rv_item n db = find (\<lambda>i. it_ID i = n) (rv_items db)"

definition rv_dataset :: "int \<Rightarrow> rv_Tables \<Rightarrow> tp_Dataset option" where
  "rv_dataset n db = find (\<lambda>d. ds_ID d = n) (rv_datasets db)"

definition rv_snapshot :: "int \<Rightarrow> rv_Tables \<Rightarrow> tp_Snapshot option" where
  "rv_snapshot n db = find (\<lambda>s. sn_ID s = n) (rv_snapshots db)"

definition rv_row :: "int \<Rightarrow> rv_Tables \<Rightarrow> rv_Row option" where
  "rv_row cid db = find (\<lambda>r. rw_id r = cid) (rv_candidates db)"

text \<open>The inner joins with the item and the data set; a row without them is not in the result.\<close>

definition rv_joined :: "rv_Tables \<Rightarrow> rv_Row \<Rightarrow> (rv_Row \<times> rv_Item \<times> tp_Dataset) option" where
  "rv_joined db row =
     (case (rv_item (rw_item_id row) db, rv_dataset (rw_dataset_id row) db) of
        (Some i, Some d) \<Rightarrow> Some (row, i, d)
      | _ \<Rightarrow> None)"

fun rv_scan :: "rv_Row \<times> rv_Item \<times> tp_Dataset \<Rightarrow> rv_error + rev_Candidate" where
  "rv_scan (row, i, d) =
     (case rw_model_name row of
        None \<Rightarrow> Inl RvScanNull
      | Some model \<Rightarrow>
          Inr (rev_normalizeCandidate
            \<lparr>cd_ID = rw_id row, cd_ProjectID = ds_ProjectID d, cd_DatasetID = rw_dataset_id row, cd_SnapshotID = rw_snapshot_id row,
             cd_ItemID = rw_item_id row, cd_ObjectKey = it_ObjectKey i, cd_CategoryID = rw_category_id row, cd_BBox = rw_bbox row,
             cd_Status = [], cd_ReviewStatus = rw_review_status row,
             cd_ReviewerID = (case rw_reviewer_id row of None \<Rightarrow> [] | Some x \<Rightarrow> x),
             cd_ReviewedAt = (case rw_reviewed_at row of None \<Rightarrow> zero_time | Some t \<Rightarrow> t),
             cd_Source = \<lparr>cs_JobID = rw_job_id row, cs_Confidence = rw_confidence row, cs_ModelName = model,
               cs_IsPseudo = rw_is_pseudo row, cs_CreatedAt = Some (rw_created_at row)\<rparr>\<rparr>))"

fun rv_scanAll :: "(rv_Row \<times> rv_Item \<times> tp_Dataset) list \<Rightarrow> rv_error + rev_Candidate list" where
  "rv_scanAll [] = Inr []"
| "rv_scanAll (x # xs) =
     (case rv_scan x of
        Inl e \<Rightarrow> Inl e
      | Inr c \<Rightarrow> (case rv_scanAll xs of Inl e \<Rightarrow> Inl e | Inr cs \<Rightarrow> Inr (c # cs)))"

definition rv_pending :: "rv_Row \<Rightarrow> bool" where
  "rv_pending row \<longleftrightarrow> rw_review_status row = rev_legacyStatusPending \<or> rw_review_status row = rev_StatusQueuedForReview"

definition rv_ListPending :: "rv_Tables \<Rightarrow> rv_error + rev_Candidate list" where
  "rv_ListPending db =
     rv_scanAll (List.map_filter (rv_joined db) (sort_key rw_id (filter rv_pending (rv_candidates db))))"

definition rv_GetCandidate :: "int \<Rightarrow> rv_Tables \<Rightarrow> rev_Candidate option" where
  "rv_GetCandidate cid db =
     (case rv_row cid db of
        None \<Rightarrow> None
      | Some row \<Rightarrow>
          (case rv_joined db row of
             None \<Rightarrow> None
           | Some x \<Rightarrow> (case rv_scan x of Inl _ \<Rightarrow> None | Inr c \<Rightarrow> Some c)))"

definition rv_PendingCandidateCount :: "int \<Rightarrow> rv_Tables \<Rightarrow> int" where
  "rv_PendingCandidateCount projectID db =
     int (length (filter (\<lambda>row. rv_pending row \<and>
       (case rv_dataset (rw_dataset_id row) db of None \<Rightarrow> False | Some d \<Rightarrow> ds_ProjectID d = projectID)) (rv_candidates db)))"

text \<open>The accepted candidates of a project, one row per review task of the snapshot, or one without a task.\<close>

definition rv_publishable :: "rv_Tables \<Rightarrow> rv_Row \<Rightarrow> tp_Dataset \<Rightarrow> tp_Snapshot \<Rightarrow> tasks_Task option \<Rightarrow> rev_PublishableCandidate" where
  "rv_publishable db row d s t =
     \<lparr>pu_ID = rw_id row, pu_ProjectID = ds_ProjectID d, pu_DatasetID = rw_dataset_id row, pu_SnapshotID = rw_snapshot_id row,
      pu_ItemID = rw_item_id row, pu_TaskID = (case t of None \<Rightarrow> 0 | Some t \<Rightarrow> task_ID t), pu_ReviewStatus = rw_review_status row,
      pu_RiskLevel = (case t of None \<Rightarrow> ''normal'' | Some t \<Rightarrow> task_Priority t),
      pu_SourceModel = (case rw_model_name row of None \<Rightarrow> [] | Some m \<Rightarrow> m),
      pu_AcceptedAt = (case rw_reviewed_at row of None \<Rightarrow> rw_created_at row | Some t \<Rightarrow> t),
      pu_Summary = [(''dataset_name'', GStr (ds_Name d)), (''snapshot_version'', GStr (sn_Version s)),
        (''task_title'', GStr (case t of None \<Rightarrow> [] | Some t \<Rightarrow> task_Title t)),
        (''reviewer_id'', GStr (case rw_reviewer_id row of None \<Rightarrow> [] | Some x \<Rightarrow> x))]\<rparr>"

definition rv_reviewTasks :: "int \<Rightarrow> rv_Tables \<Rightarrow> tasks_Task option list" where
  "rv_reviewTasks n db =
     (let ts = filter (\<lambda>t. task_SnapshotID t = Some n \<and> task_Kind t = tasks_KindReview) (rv_tasks db) in
      if ts = [] then [None] else map Some ts)"

definition rv_ListPublishableCandidates :: "int \<Rightarrow> rv_Tables \<Rightarrow> rev_PublishableCandidate list" where
  "rv_ListPublishableCandidates projectID db =
     sort_key (\<lambda>p. (pu_SnapshotID p, pu_AcceptedAt p, pu_ID p))
       (concat (map (\<lambda>row.
          (case (rv_dataset (rw_dataset_id row) db, rv_snapshot (rw_snapshot_id row) db) of
             (Some d, Some s) \<Rightarrow>
               if ds_ProjectID d = projectID \<and> rw_review_status row = rev_accepted
               then map (rv_publishable db row d s) (rv_reviewTasks (rw_snapshot_id row) db) else []
           | _ \<Rightarrow> [])) (rv_candidates db)))"

subsection \<open>Persisting candidates\<close>

definition rv_nullif_empty :: "string \<Rightarrow> string option" where
  "rv_nullif_empty x = (if x = [] then None else Some x)"

definition rv_category :: "(string \<Rightarrow> string) \<Rightarrow> rev_PersistCandidateInput \<Rightarrow> rv_Tables \<Rightarrow> rv_error + int" where
  "rv_category lower x db =
     (if 0 < pc_CategoryID x then Inr (pc_CategoryID x)
      else case rv_dataset (pc_DatasetID x) db of
             None \<Rightarrow> Inl RvNoRows
           | Some d \<Rightarrow>
               (case find (\<lambda>c. cg_ProjectID c = ds_ProjectID d \<and> lower (cg_Name c) = lower (trim_space (pc_CategoryName x)))
                       (rv_categories db) of
                  None \<Rightarrow> Inl RvNoRows
                | Some c \<Rightarrow> Inr (cg_ID c)))"

definition rv_newRow :: "time \<Rightarrow> int \<Rightarrow> int \<Rightarrow> int \<Rightarrow> rev_PersistCandidateInput \<Rightarrow> rv_Row" where
  "rv_newRow client jobID cid category x =
     \<lparr>rw_id = cid, rw_job_id = Some jobID, rw_dataset_id = pc_DatasetID x, rw_snapshot_id = pc_SnapshotID x,
      rw_item_id = pc_ItemID x, rw_category_id = category, rw_bbox = pc_BBox x, rw_polygon_json = None,
      rw_confidence = pc_Confidence x, rw_model_name = rv_nullif_empty (pc_ModelName x), rw_is_pseudo = True,
      rw_review_status = rev_legacyStatusPending, rw_reviewer_id = None, rw_reviewed_at = None,
      rw_created_at = pg_timestamptz client\<rparr>"

definition rv_references :: "rv_Row \<Rightarrow> rv_Tables \<Rightarrow> bool" where
  "rv_references row db \<longleftrightarrow>
     rv_dataset (rw_dataset_id row) db \<noteq> None \<and> rv_snapshot (rw_snapshot_id row) db \<noteq> None \<and>
     rv_item (rw_item_id row) db \<noteq> None \<and> rw_category_id row \<in> cg_ID ` set (rv_categories db)"

definition rv_stmt_insert :: "rv_Row \<Rightarrow> rv_Tables \<Rightarrow> unit rv_result" where
  "rv_stmt_insert row db =
     (let db' = db\<lparr>rv_nextCandidate := rv_nextCandidate db + 1\<rparr> in
      if \<not> rv_references row db then (Inl RvForeignKey, db') else (Inr (), db'\<lparr>rv_candidates := rv_candidates db @ [row]\<rparr>))"

fun rv_persistLoop ::
  "(string \<Rightarrow> string) \<Rightarrow> time \<Rightarrow> int \<Rightarrow> rev_PersistCandidateInput list \<Rightarrow> rv_Tables \<Rightarrow> rev_Candidate list rv_result" where
  "rv_persistLoop lower client jobID [] db = (Inr [], db)"
| "rv_persistLoop lower client jobID (x # xs) db =
     (case rv_category lower x db of
        Inl e \<Rightarrow> (Inl e, db)
      | Inr category \<Rightarrow>
          and_then (rv_stmt_insert (rv_newRow client jobID (rv_nextCandidate db) category x) db) (\<lambda>_ db1.
            and_then (rv_persistLoop lower client jobID xs db1) (\<lambda>cs db2.
              (Inr (rev_newCandidate client jobID (rv_nextCandidate db) (x\<lparr>pc_CategoryID := category\<rparr>) # cs), db2))))"

definition rv_rollback :: "rv_Tables \<Rightarrow> rv_Tables \<Rightarrow> rv_Tables" where
  "rv_rollback old new = old\<lparr>rv_nextCandidate := rv_nextCandidate new\<rparr>"

definition rv_PersistCandidates ::
  "(string \<Rightarrow> string) \<Rightarrow> time \<Rightarrow> int \<Rightarrow> rev_PersistCandidateInput list \<Rightarrow> rv_Tables \<Rightarrow> rev_Candidate list rv_result" where
  "rv_PersistCandidates lower client jobID items db =
     (case rv_persistLoop lower client jobID items db of
        (Inl e, db') \<Rightarrow> (Inl e, rv_rollback db db')
      | (Inr cs, db') \<Rightarrow> (Inr cs, db'))"

subsection \<open>Decisions\<close>

definition rv_promoted :: "rv_Row \<Rightarrow> rv_AnnotationRow" where
  "rv_promoted row =
     (let source = ''pseudo''; modelName = (case rw_model_name row of None \<Rightarrow> [] | Some m \<Rightarrow> m) in
      \<lparr>va_dataset_id = rw_dataset_id row, va_item_id = rw_item_id row, va_category_id = rw_category_id row, va_bbox = rw_bbox row,
       va_polygon_json = rw_polygon_json row, va_source = source, va_model_name = rv_nullif_empty modelName,
       va_snapshot_id = rw_snapshot_id row, va_review_status = ''verified'', va_is_pseudo = rw_is_pseudo row\<rparr>)"

definition rv_decided :: "time \<Rightarrow> string \<Rightarrow> string \<Rightarrow> rv_Row \<Rightarrow> rv_Row" where
  "rv_decided client reviewer st row =
     row\<lparr>rw_review_status := st, rw_reviewer_id := Some reviewer, rw_reviewed_at := Some (pg_timestamptz client)\<rparr>"

definition rv_transitionCandidate ::
  "time \<Rightarrow> time \<Rightarrow> int \<Rightarrow> string \<Rightarrow> string \<Rightarrow> string \<Rightarrow> bool \<Rightarrow> obj \<Rightarrow> rv_Tables \<Rightarrow> unit rv_result" where
  "rv_transitionCandidate now client cid reviewer st action promote detail db =
     (case rv_row cid db of
        None \<Rightarrow> (Inl (RvDomain (RevCandidateNotFound cid)), db)
      | Some row \<Rightarrow>
          if \<not> rev_isQueued (rw_review_status row)
          then (Inl (RvDomain (RevCandidateIs (rev_normalizeCandidateStatus (rw_review_status row)))), db)
          else
            let db1 = db\<lparr>rv_candidates := map (\<lambda>r. if rw_id r = cid then rv_decided client reviewer st row else r) (rv_candidates db)\<rparr>;
                db2 = (if promote then db1\<lparr>rv_annotations := rv_annotations db1 @ [rv_promoted row]\<rparr> else db1)
            in (Inr (), db2\<lparr>rv_audits := rv_audits db2 @ [\<lparr>ae_Actor = reviewer, ae_Action = action,
                  ae_ResourceType = ''annotation_candidate'', ae_ResourceID = show_int cid, ae_Detail = detail,
                  ae_TS = pg_timestamptz now\<rparr>]\<rparr>))"

definition rv_Accept :: "time \<Rightarrow> time \<Rightarrow> int \<Rightarrow> string \<Rightarrow> rv_Tables \<Rightarrow> unit rv_result" where
  "rv_Accept now client cid reviewer =
     rv_transitionCandidate now client cid reviewer ''accepted'' ''review.accept'' True []"

definition rv_Reject :: "time \<Rightarrow> time \<Rightarrow> int \<Rightarrow> string \<Rightarrow> string \<Rightarrow> rv_Tables \<Rightarrow> unit rv_result" where
  "rv_Reject now client cid reviewer reason =
     rv_transitionCandidate now client cid reviewer ''rejected'' ''review.reject'' False [(''reason_code'', GStr reason)]"

subsection \<open>The service and the handlers over this repository\<close>

definition rv_ListCandidates :: "rv_Tables \<Rightarrow> rev_Candidate list" where
  "rv_ListCandidates db = (case rv_ListPending db of Inl _ \<Rightarrow> [] | Inr items \<Rightarrow> map rev_normalizeCandidate items)"

definition rv_svc_GetCandidate :: "int \<Rightarrow> rv_Tables \<Rightarrow> rev_Candidate option" where
  "rv_svc_GetCandidate cid db = map_option rev_normalizeCandidate (rv_GetCandidate cid db)"

definition rv_svc_PersistCandidates ::
  "(string \<Rightarrow> string) \<Rightarrow> time \<Rightarrow> int \<Rightarrow> rev_PersistCandidateInput list \<Rightarrow> rv_Tables \<Rightarrow> rev_Candidate list rv_result" where
  "rv_svc_PersistCandidates lower client jobID items db =
     (if jobID \<le> 0 then (Inl (RvDomain RevJobIDRequired), db)
      else if items = [] then (Inl (RvDomain RevCandidatesRequired), db)
      else case rev_checkItems items of
             Inl e \<Rightarrow> (Inl (RvDomain e), db)
           | Inr xs \<Rightarrow> rv_PersistCandidates lower client jobID xs db)"

definition rv_RejectCandidate :: "time \<Rightarrow> time \<Rightarrow> int \<Rightarrow> string \<Rightarrow> string \<Rightarrow> rv_Tables \<Rightarrow> unit rv_result" where
  "rv_RejectCandidate now client cid reviewer reason db =
     (let reason' = trim_space reason in
      if reason' = [] then (Inl (RvDomain RevReasonRequired), db) else rv_Reject now client cid reviewer reason' db)"

definition rv_HandleListCandidates :: "auth_context \<Rightarrow> rv_Tables \<Rightarrow> (rv_error http_error, rev_Candidate list) reply" where
  "rv_HandleListCandidates ctx db =
     (let items = rv_ListCandidates db in
      Reply StatusOK
        (case ctx of
           None \<Rightarrow> items
         | Some i \<Rightarrow> if id_ProjectIDs i \<noteq> [] then filter (\<lambda>c. auth_AllowsProject i (cd_ProjectID c)) items else items))"

definition rv_handle_action ::
  "auth_context \<Rightarrow> string \<Rightarrow> string + rev_ActionRequest \<Rightarrow> rv_Tables \<Rightarrow> (int \<Rightarrow> rev_ActionRequest \<Rightarrow> unit rv_result) \<Rightarrow>
     (rv_error http_error, unit) reply \<times> rv_Tables" where
  "rv_handle_action ctx rawID body db act =
     (case path_int64 rawID of
        Inl e \<Rightarrow> (ReplyError StatusBadRequest e, db)
      | Inr cid \<Rightarrow>
          (case body of
             Inl e \<Rightarrow> (ReplyError StatusBadRequest (HttpDecode e), db)
           | Inr inp0 \<Rightarrow>
               let inp = (if ar_ReviewerID inp0 = [] then inp0\<lparr>ar_ReviewerID := ''system''\<rparr> else inp0);
                   go = (case act cid inp of
                           (Inl e, db') \<Rightarrow> (ReplyError StatusBadRequest (HttpService e), db')
                         | (Inr _, db') \<Rightarrow> (Reply StatusOK (), db'))
               in (case rv_svc_GetCandidate cid db of
                     None \<Rightarrow> go
                   | Some c \<Rightarrow>
                       if auth_RequireProjectAccess ctx (cd_ProjectID c) \<noteq> Inr ()
                       then (ReplyError StatusForbidden (HttpForbidden (cd_ProjectID c)), db) else go)))"

definition rv_HandleAccept ::
  "time \<Rightarrow> time \<Rightarrow> auth_context \<Rightarrow> string \<Rightarrow> string + rev_ActionRequest \<Rightarrow> rv_Tables \<Rightarrow>
     (rv_error http_error, unit) reply \<times> rv_Tables" where
  "rv_HandleAccept now client ctx rawID body db =
     rv_handle_action ctx rawID body db (\<lambda>cid inp. rv_Accept now client cid (ar_ReviewerID inp) db)"

definition rv_HandleReject ::
  "time \<Rightarrow> time \<Rightarrow> auth_context \<Rightarrow> string \<Rightarrow> string + rev_ActionRequest \<Rightarrow> rv_Tables \<Rightarrow>
     (rv_error http_error, unit) reply \<times> rv_Tables" where
  "rv_HandleReject now client ctx rawID body db =
     rv_handle_action ctx rawID body db
       (\<lambda>cid inp. rv_RejectCandidate now client cid (ar_ReviewerID inp) (ar_ReasonCode inp) db)"

end
