(* ===== verification/Review_Postgres_Claims.thy ===== *)
theory Review_Postgres_Claims
  imports Review_Postgres
begin

section \<open>Review in Postgres: decisions, books, and what a missing model name does\<close>

text \<open>
  A decision is final, every acceptance adds one annotation and every decision one audit entry, and nothing else does
  (\<open>rv_le\<close>). The exact list of pending candidates and the exact guard of the handlers: both break when a candidate has no model name.
\<close>

subsection \<open>Invariant and evolution\<close>

definition rv_ok :: "rv_Tables \<Rightarrow> bool" where
  "rv_ok db \<longleftrightarrow> distinct (map rw_id (rv_candidates db)) \<and>
     (\<forall>row \<in> set (rv_candidates db). rw_id row < rv_nextCandidate db \<and> rv_references row db)"

definition rv_evolves :: "rv_Row \<Rightarrow> rv_Row \<Rightarrow> bool" where
  "rv_evolves row row' \<longleftrightarrow> row' = row \<or>
     rev_isQueued (rw_review_status row) \<and>
     (\<exists>t who. row' = rv_decided t who rev_accepted row \<or> row' = rv_decided t who rev_rejected row)"

definition rv_world :: "rv_Tables \<Rightarrow> tp_Dataset list \<times> tp_Snapshot list \<times> rv_Item list \<times> rv_Category list" where
  "rv_world db = (rv_datasets db, rv_snapshots db, rv_items db, rv_categories db)"

text \<open>The annotations beyond one per accepted candidate, and the audit entries beyond one per decided candidate.\<close>

definition rv_is_decided :: "rv_Row \<Rightarrow> bool" where
  "rv_is_decided row \<longleftrightarrow> rw_review_status row = rev_accepted \<or> rw_review_status row = rev_rejected"

definition rv_books :: "rv_Tables \<Rightarrow> int \<times> int" where
  "rv_books db =
     (int (length (rv_annotations db)) - int (length (filter (\<lambda>r. rw_review_status r = rev_accepted) (rv_candidates db))),
      int (length (rv_audits db)) - int (length (filter rv_is_decided (rv_candidates db))))"

definition rv_le :: "rv_Tables \<Rightarrow> rv_Tables \<Rightarrow> bool" where
  "rv_le db db' \<longleftrightarrow> rv_world db' = rv_world db \<and> rv_books db' = rv_books db \<and>
     (\<forall>cid row. rv_row cid db = Some row \<longrightarrow> (\<exists>row'. rv_row cid db' = Some row' \<and> rv_evolves row row')) \<and>
     (\<exists>xs. rv_annotations db' = rv_annotations db @ xs) \<and> (\<exists>ys. rv_audits db' = rv_audits db @ ys)"

lemma rv_decided_status [simp]: "rw_review_status (rv_decided t who st row) = st"
  by (simp add: rv_decided_def)

lemma rv_final [simp]: "\<not> rev_isQueued rev_accepted" "\<not> rev_isQueued rev_rejected"
  by (simp_all add: rev_isQueued_def rev_normalizeCandidateStatus_def)

lemma rv_queued_open: "rev_isQueued st \<Longrightarrow> st \<noteq> rev_accepted \<and> st \<noteq> rev_rejected"
  using rv_final by metis

lemma rv_evolves_refl [simp]: "rv_evolves row row"
  by (simp add: rv_evolves_def)

lemma rv_evolves_trans: "rv_evolves a b \<Longrightarrow> rv_evolves b c \<Longrightarrow> rv_evolves a c"
  by (auto simp: rv_evolves_def)

lemma rv_le_refl [simp]: "rv_le db db"
  by (simp add: rv_le_def)

lemma rv_le_trans:
  assumes "rv_le a b" "rv_le b c" shows "rv_le a c"
proof -
  have "\<exists>row'. rv_row cid c = Some row' \<and> rv_evolves row row'" if "rv_row cid a = Some row" for cid row
    using assms that unfolding rv_le_def by (meson rv_evolves_trans)
  moreover have "\<exists>xs. rv_annotations c = rv_annotations a @ xs" "\<exists>ys. rv_audits c = rv_audits a @ ys"
    using assms by (auto simp: rv_le_def)
  ultimately show ?thesis using assms by (simp add: rv_le_def)
qed

definition rv_fine :: "rv_Tables \<Rightarrow> rv_Tables \<Rightarrow> bool" where
  "rv_fine db db' \<longleftrightarrow> rv_ok db' \<and> rv_le db db' \<and> rv_nextCandidate db \<le> rv_nextCandidate db'"

lemma rv_fine_refl: "rv_ok db \<Longrightarrow> rv_fine db db"
  by (simp add: rv_fine_def)

lemma rv_fine_trans: "rv_fine a b \<Longrightarrow> rv_fine b c \<Longrightarrow> rv_fine a c"
  by (auto simp: rv_fine_def intro: rv_le_trans)

lemma rv_references_world: "rv_world db' = rv_world db \<Longrightarrow> rv_references row db' = rv_references row db"
  by (simp add: rv_references_def rv_world_def rv_dataset_def rv_snapshot_def rv_item_def)

lemma rv_fine_next:
  assumes "rv_ok db" "rv_nextCandidate db \<le> n" shows "rv_fine db (db\<lparr>rv_nextCandidate := n\<rparr>)" (is "rv_fine db ?db'")
proof -
  have w: "rv_world ?db' = rv_world db" by (simp add: rv_world_def)
  have "rw_id row < n \<and> rv_references row ?db'" if "row \<in> set (rv_candidates db)" for row
    using that assms rv_references_world [OF w, of row] by (fastforce simp: rv_ok_def)
  then show ?thesis using assms w by (simp add: rv_fine_def rv_ok_def rv_le_def rv_books_def rv_row_def)
qed

lemma rv_add_row:
  assumes ok: "rv_ok db" and row: "rw_id row = rv_nextCandidate db" "rv_references row db" "rw_review_status row = rev_legacyStatusPending"
  shows "rv_fine db (db\<lparr>rv_nextCandidate := rv_nextCandidate db + 1, rv_candidates := rv_candidates db @ [row]\<rparr>)" (is "rv_fine db ?db'")
proof -
  have w: "rv_world ?db' = rv_world db" by (simp add: rv_world_def)
  have fresh: "rv_nextCandidate db \<notin> rw_id ` set (rv_candidates db)" using ok by (force simp: rv_ok_def)
  have "rw_id r < rv_nextCandidate ?db' \<and> rv_references r ?db'" if "r \<in> set (rv_candidates ?db')" for r
    using that ok row rv_references_world [OF w, of r] by (fastforce simp: rv_ok_def)
  then have "rv_ok ?db'" using ok row(1) fresh by (simp add: rv_ok_def)
  moreover have "rv_books ?db' = rv_books db" using row(3) by (simp add: rv_books_def rv_is_decided_def rev_status_defs)
  ultimately show ?thesis using w by (simp add: rv_fine_def rv_le_def rv_row_def find_append)
qed

lemma length_filter_replace:
  assumes "distinct (map key xs)" "find (\<lambda>x. key x = k) xs = Some old" "key new = k" "\<not> P old"
  shows "length (filter P (map (\<lambda>x. if key x = k then new else x) xs)) = (if P new then 1 else 0) + length (filter P xs)"
  using assms
proof (induction xs)
  case (Cons x xs)
  show ?case
  proof (cases "key x = k")
    case True
    have "k \<notin> key ` set xs" using Cons.prems(1) True by auto
    then have "key y \<noteq> k" if "y \<in> set xs" for y using that by blast
    then have "map (\<lambda>x. if key x = k then new else x) xs = xs" by (intro map_idI) simp
    then show ?thesis using True Cons.prems by simp
  next
    case False
    then show ?thesis using Cons by simp
  qed
qed simp

lemma rv_replace_row:
  assumes ok: "rv_ok db" and old: "rv_row cid db = Some row" and queued: "rev_isQueued (rw_review_status row)"
    and st: "st = rev_accepted \<and> anns = [rv_promoted row] \<or> st = rev_rejected \<and> anns = []"
  shows "rv_fine db (db\<lparr>rv_candidates := map (\<lambda>r. if rw_id r = cid then rv_decided t who st row else r) (rv_candidates db),
     rv_annotations := rv_annotations db @ anns, rv_audits := rv_audits db @ [ev]\<rparr>)" (is "rv_fine db ?db'")
proof -
  let ?new = "rv_decided t who st row"
  have r: "row \<in> set (rv_candidates db)" "rw_id row = cid" using find_key_mem [OF old [unfolded rv_row_def]] by simp_all
  have id: "rw_id ?new = cid" using r(2) by (simp add: rv_decided_def)
  have w: "rv_world ?db' = rv_world db" by (simp add: rv_world_def)
  have look: "rv_row j ?db' = (if j = cid then Some ?new else rv_row j db)" for j
    using find_replace [of rw_id, OF id, of j "rv_candidates db"] old by (auto simp: rv_row_def)
  have "rv_references ?new db" using ok r(1) by (auto simp: rv_ok_def rv_references_def rv_decided_def)
  then have refs: "rw_id x < rv_nextCandidate db \<and> rv_references x ?db'" if "x \<in> set (rv_candidates ?db')" for x
    using that ok r id rv_references_world [OF w, of x] by (auto simp: rv_ok_def split: if_splits)
  have ids: "map rw_id (rv_candidates ?db') = map rw_id (rv_candidates db)" using map_replace [of rw_id, OF id, of "rv_candidates db"] by simp
  have ok': "rv_ok ?db'" using ok refs unfolding rv_ok_def ids by simp
  have dist: "distinct (map rw_id (rv_candidates db))" using ok by (simp add: rv_ok_def)
  note open' = rv_queued_open [OF queued]
  have books: "rv_books ?db' = rv_books db"
    using length_filter_replace [OF dist old [unfolded rv_row_def] id, of "\<lambda>r. rw_review_status r = rev_accepted"]
      length_filter_replace [OF dist old [unfolded rv_row_def] id, of rv_is_decided] open' st
    by (auto simp: rv_books_def rv_is_decided_def)
  have "\<exists>row'. rv_row j ?db' = Some row' \<and> rv_evolves x row'" if "rv_row j db = Some x" for j x
    using that old queued st by (cases "j = cid") (auto simp: look rv_evolves_def)
  then have "rv_le db ?db'" using w books by (simp add: rv_le_def)
  then show ?thesis using ok' by (simp add: rv_fine_def)
qed

subsection \<open>Operations\<close>

lemma rv_stmt_insert_fine:
  assumes "rv_ok db" shows "rv_fine db (snd (rv_stmt_insert (rv_newRow client jobID (rv_nextCandidate db) category x) db))"
  using rv_add_row [OF assms, of "rv_newRow client jobID (rv_nextCandidate db) category x"] rv_fine_next [OF assms, of "rv_nextCandidate db + 1"]
  by (simp add: rv_stmt_insert_def Let_def rv_newRow_def)

lemma rv_persistLoop_fine: "rv_ok db \<Longrightarrow> rv_fine db (snd (rv_persistLoop lower client jobID xs db))"
proof (induction xs arbitrary: db)
  case Nil
  then show ?case by (simp add: rv_fine_refl)
next
  case (Cons x xs)
  show ?case
  proof (cases "rv_category lower x db")
    case (Inl e)
    then show ?thesis using Cons.prems by (simp add: rv_fine_refl)
  next
    case (Inr category)
    let ?m = "rv_stmt_insert (rv_newRow client jobID (rv_nextCandidate db) category x) db"
    have ins: "rv_fine db (snd ?m)" by (rule rv_stmt_insert_fine [OF Cons.prems])
    have loop: "rv_fine db (snd (rv_persistLoop lower client jobID xs (snd ?m)))"
      by (rule rv_fine_trans [OF ins Cons.IH]) (use ins in \<open>simp add: rv_fine_def\<close>)
    show ?thesis unfolding rv_persistLoop.simps Inr sum.case
    proof (rule and_then_snd [of "rv_fine db", OF ins])
      fix u db1 assume m: "?m = (Inr u, db1)"
      have db1: "snd ?m = db1" by (simp add: m)
      show "rv_fine db (snd (and_then (rv_persistLoop lower client jobID xs db1) (\<lambda>cs db2.
          (Inr (rev_newCandidate client jobID (rv_nextCandidate db) (x\<lparr>pc_CategoryID := category\<rparr>) # cs), db2))))"
      proof (rule and_then_snd [of "rv_fine db", OF loop [unfolded db1]])
        fix cs db2 assume "rv_persistLoop lower client jobID xs db1 = (Inr cs, db2)"
        then show "rv_fine db (snd (Inr (rev_newCandidate client jobID (rv_nextCandidate db) (x\<lparr>pc_CategoryID := category\<rparr>) # cs), db2))"
          using loop [unfolded db1] by simp
      qed
    qed
  qed
qed

lemma rv_svc_PersistCandidates_fine:
  assumes ok: "rv_ok db" shows "rv_fine db (snd (rv_svc_PersistCandidates lower client jobID items db))"
proof -
  have "rv_fine db (snd (rv_PersistCandidates lower client jobID xs db))" for xs
    using rv_persistLoop_fine [OF ok, of lower client jobID xs] rv_fine_next [OF ok, of "rv_nextCandidate (snd (rv_persistLoop lower client jobID xs db))"]
    by (auto simp: rv_PersistCandidates_def rv_rollback_def rv_fine_def split: prod.split sum.split)
  then show ?thesis using rv_fine_refl [OF ok] by (simp add: rv_svc_PersistCandidates_def split: sum.split)
qed

lemma rv_transition_eq:
  "rv_row cid db = Some row \<Longrightarrow> rev_isQueued (rw_review_status row) \<Longrightarrow>
   rv_transitionCandidate now client cid who st action promote detail db =
     (Inr (), db\<lparr>rv_candidates := map (\<lambda>r. if rw_id r = cid then rv_decided client who st row else r) (rv_candidates db),
        rv_annotations := rv_annotations db @ (if promote then [rv_promoted row] else []),
        rv_audits := rv_audits db @ [\<lparr>ae_Actor = who, ae_Action = action, ae_ResourceType = ''annotation_candidate'',
          ae_ResourceID = show_int cid, ae_Detail = detail, ae_TS = pg_timestamptz now\<rparr>]\<rparr>)"
  by (simp add: rv_transitionCandidate_def Let_def)

lemma rv_transition_refused:
  "\<not> (\<exists>row. rv_row cid db = Some row \<and> rev_isQueued (rw_review_status row)) \<Longrightarrow>
   \<exists>e. rv_transitionCandidate now client cid who st action promote detail db = (Inl e, db)"
  by (auto simp: rv_transitionCandidate_def split: option.split)

lemma rv_transition_fine:
  assumes ok: "rv_ok db" and st: "st = rev_accepted \<and> promote \<or> st = rev_rejected \<and> \<not> promote"
  shows "rv_fine db (snd (rv_transitionCandidate now client cid who st action promote detail db))"
proof (cases "\<exists>row. rv_row cid db = Some row \<and> rev_isQueued (rw_review_status row)")
  case False
  from rv_transition_refused [OF this, of now client who st action promote detail] show ?thesis using rv_fine_refl [OF ok] by auto
next
  case True
  then obtain row where row: "rv_row cid db = Some row" "rev_isQueued (rw_review_status row)" by blast
  show ?thesis unfolding rv_transition_eq [OF row] snd_conv
    by (rule rv_replace_row [OF ok row]) (use st in auto)
qed

datatype rv_op =
    RvPersist time int "rev_PersistCandidateInput list"
  | RvAccept time time int string
  | RvReject time time int string string

fun rv_step :: "(string \<Rightarrow> string) \<Rightarrow> rv_Tables \<Rightarrow> rv_op \<Rightarrow> rv_Tables" where
  "rv_step lower db (RvPersist client jobID items) = snd (rv_svc_PersistCandidates lower client jobID items db)"
| "rv_step lower db (RvAccept now client cid who) = snd (rv_Accept now client cid who db)"
| "rv_step lower db (RvReject now client cid who reason) = snd (rv_RejectCandidate now client cid who reason db)"

lemma rv_step_fine: "rv_ok db \<Longrightarrow> rv_fine db (rv_step lower db p)"
proof (cases p)
  case (RvPersist client jobID items)
  assume "rv_ok db"
  then show ?thesis using RvPersist by (simp add: rv_svc_PersistCandidates_fine)
next
  case (RvAccept now client cid who)
  assume "rv_ok db"
  from rv_transition_fine [OF this, of rev_accepted True] show ?thesis using RvAccept by (simp add: rv_Accept_def rev_accepted_def)
next
  case (RvReject now client cid who reason)
  assume ok: "rv_ok db"
  from rv_transition_fine [OF ok, of rev_rejected False] show ?thesis
    using RvReject rv_fine_refl [OF ok] by (simp add: rv_RejectCandidate_def rv_Reject_def Let_def rev_rejected_def)
qed

interpretation rv_machine: progress_machine rv_ok "rv_step lower" rv_ok rv_le for lower
  by unfold_locales (use rv_step_fine in \<open>auto simp: rv_fine_def intro: rv_le_trans\<close>)

text \<open>
  C31. Over any history of persisting, accepting and rejecting, a decision is final, a candidate is never lost and its references hold;
  the annotations grow by exactly one per accepted candidate, and the audit log by exactly one entry per decided candidate.
\<close>

theorem rv_histories:
  assumes "rv_ok db"
  shows "rv_ok (foldl (rv_step lower) db ps) \<and> rv_le db (foldl (rv_step lower) db ps)"
  using rv_machine.run_inv_from [OF assms, of lower ps] rv_machine.run_le [OF assms, of lower ps] by blast

subsection \<open>The list and the guard\<close>

lemma rv_joined_stored:
  assumes "rv_ok db" "row \<in> set (rv_candidates db)"
  shows "\<exists>i d. rv_joined db row = Some (row, i, d) \<and> rv_dataset (rw_dataset_id row) db = Some d"
  using assms by (auto simp: rv_ok_def rv_references_def rv_joined_def)

lemma rv_scanAll_named:
  assumes "rv_ok db" "set rows \<subseteq> set (rv_candidates db)" "\<forall>row \<in> set rows. rw_model_name row \<noteq> None"
  shows "\<exists>cs. rv_scanAll (List.map_filter (rv_joined db) rows) = Inr cs \<and> map cd_ID cs = map rw_id rows"
  using assms
proof (induction rows)
  case Nil
  then show ?case by (simp add: List.map_filter_simps)
next
  case (Cons row rows)
  have mem: "row \<in> set (rv_candidates db)" using Cons.prems(2) by simp
  obtain i d where j: "rv_joined db row = Some (row, i, d)" using rv_joined_stored [OF Cons.prems(1) mem] by blast
  obtain m where m: "rw_model_name row = Some m" using Cons.prems(3) by auto
  obtain cs where "rv_scanAll (List.map_filter (rv_joined db) rows) = Inr cs" "map cd_ID cs = map rw_id rows"
    using Cons.IH Cons.prems by auto
  then show ?case by (simp add: List.map_filter_simps j m rev_normalizeCandidate_def Let_def)
qed

lemma rv_scanAll_unnamed:
  assumes "rv_ok db" "set rows \<subseteq> set (rv_candidates db)" "\<exists>row \<in> set rows. rw_model_name row = None"
  shows "\<exists>e. rv_scanAll (List.map_filter (rv_joined db) rows) = Inl e"
  using assms
proof (induction rows)
  case Nil
  then show ?case by simp
next
  case (Cons row rows)
  have mem: "row \<in> set (rv_candidates db)" using Cons.prems(2) by simp
  obtain i d where j: "rv_joined db row = Some (row, i, d)" using rv_joined_stored [OF Cons.prems(1) mem] by blast
  show ?case
  proof (cases "rw_model_name row")
    case None
    then show ?thesis by (simp add: List.map_filter_simps j)
  next
    case (Some m)
    then obtain e where "rv_scanAll (List.map_filter (rv_joined db) rows) = Inl e" using Cons by auto
    then show ?thesis by (simp add: List.map_filter_simps j Some)
  qed
qed

text \<open>
  C30. The queue of the reviewers shows every pending candidate once, in the order of the numbers, as long as every pending candidate has a
  model name; one pending candidate without a model name, which the service accepts, empties the list for everybody.
\<close>

theorem rv_list_exact:
  assumes "rv_ok db"
  shows "map cd_ID (rv_ListCandidates db) =
     (if list_all (\<lambda>row. rw_model_name row \<noteq> None) (filter rv_pending (rv_candidates db))
      then map rw_id (sort_key rw_id (filter rv_pending (rv_candidates db))) else [])"
proof -
  define rows where "rows = sort_key rw_id (filter rv_pending (rv_candidates db))"
  have sub: "set rows \<subseteq> set (rv_candidates db)" by (auto simp: rows_def)
  have all: "list_all (\<lambda>row. rw_model_name row \<noteq> None) (filter rv_pending (rv_candidates db)) \<longleftrightarrow> (\<forall>row \<in> set rows. rw_model_name row \<noteq> None)"
    by (simp add: rows_def list_all_iff)
  have list: "rv_ListPending db = rv_scanAll (List.map_filter (rv_joined db) rows)" by (simp add: rv_ListPending_def rows_def)
  have ids: "map (cd_ID \<circ> rev_normalizeCandidate) cs = map cd_ID cs" for cs
    by (simp add: rev_normalizeCandidate_def Let_def)
  show ?thesis
  proof (cases "\<forall>row \<in> set rows. rw_model_name row \<noteq> None")
    case True
    from rv_scanAll_named [OF assms sub True] obtain cs where "rv_ListPending db = Inr cs" "map cd_ID cs = map rw_id rows"
      unfolding list by blast
    then have "map cd_ID (rv_ListCandidates db) = map rw_id rows" by (simp add: rv_ListCandidates_def ids)
    moreover have "list_all (\<lambda>row. rw_model_name row \<noteq> None) (filter rv_pending (rv_candidates db))" using True unfolding all .
    ultimately show ?thesis by (simp only: rows_def if_True)
  next
    case False
    then have "\<exists>row \<in> set rows. rw_model_name row = None" by simp
    from rv_scanAll_unnamed [OF assms sub this] obtain e where "rv_ListPending db = Inl e" unfolding list by blast
    then have "rv_ListCandidates db = []" by (simp add: rv_ListCandidates_def)
    moreover have "\<not> list_all (\<lambda>row. rw_model_name row \<noteq> None) (filter rv_pending (rv_candidates db))" using False unfolding all .
    ultimately show ?thesis by (simp only: if_False list.map)
  qed
qed

lemma rv_unnamed_persisted:
  "rw_model_name (rv_newRow client jobID cid category x) = None \<longleftrightarrow> pc_ModelName x = []"
  by (simp add: rv_newRow_def rv_nullif_empty_def)

text \<open>
  C29. Accepting a queued candidate is refused to a caller without access to its project if the candidate has a model name; if it has none,
  the handler does not find it, skips the check, and the candidate is accepted for any caller.
\<close>

theorem rv_accept_guard_exact:
  assumes ok: "rv_ok db" and row: "rv_row cid db = Some row" "rev_isQueued (rw_review_status row)" and raw: "path_int64 rawID = (Inr cid :: rv_error http_error + int)"
  shows "\<exists>d. rv_dataset (rw_dataset_id row) db = Some d \<and>
     fst (rv_HandleAccept now client ctx rawID (Inr inp) db) =
       (if rw_model_name row \<noteq> None \<and> auth_RequireProjectAccess ctx (ds_ProjectID d) \<noteq> Inr ()
        then ReplyError StatusForbidden (HttpForbidden (ds_ProjectID d)) else Reply StatusOK ())"
proof -
  have mem: "row \<in> set (rv_candidates db)" using find_key_mem [OF row(1) [unfolded rv_row_def]] by simp
  obtain i d where j: "rv_joined db row = Some (row, i, d)" and d: "rv_dataset (rw_dataset_id row) db = Some d"
    using rv_joined_stored [OF ok mem] by blast
  have go: "\<exists>db'. rv_Accept now client cid who db = (Inr (), db')" for who
    using rv_transition_eq [OF row] by (simp add: rv_Accept_def)
  define inp' where "inp' = (if ar_ReviewerID inp = [] then inp\<lparr>ar_ReviewerID := ''system''\<rparr> else inp)"
  obtain db' where acc: "rv_Accept now client cid (ar_ReviewerID inp') db = (Inr (), db')" using go by blast
  have h: "fst (rv_HandleAccept now client ctx rawID (Inr inp) db) =
      (case rv_svc_GetCandidate cid db of
         None \<Rightarrow> Reply StatusOK ()
       | Some c \<Rightarrow> if auth_RequireProjectAccess ctx (cd_ProjectID c) \<noteq> Inr ()
           then ReplyError StatusForbidden (HttpForbidden (cd_ProjectID c)) else Reply StatusOK ())"
    unfolding rv_HandleAccept_def rv_handle_action_def raw sum.case Let_def inp'_def [symmetric] acc
    by (simp split: option.split)
  show ?thesis
  proof (cases "rw_model_name row")
    case None
    then have get: "rv_svc_GetCandidate cid db = None" by (simp add: rv_svc_GetCandidate_def rv_GetCandidate_def row j)
    show ?thesis unfolding h get using d None by simp
  next
    case (Some m)
    then obtain c where get: "rv_svc_GetCandidate cid db = Some c" "cd_ProjectID c = ds_ProjectID d"
      by (simp add: rv_svc_GetCandidate_def rv_GetCandidate_def row j rev_normalizeCandidate_def Let_def)
    show ?thesis unfolding h get(1) using d Some get(2) by simp
  qed
qed

subsection \<open>An example\<close>

text \<open>A candidate without a model name in project 2, next to one with a name in project 1.\<close>

definition rv_demo_row :: "int \<Rightarrow> int \<Rightarrow> string option \<Rightarrow> rv_Row" where
  "rv_demo_row cid dataset model =
     \<lparr>rw_id = cid, rw_job_id = Some 1, rw_dataset_id = dataset, rw_snapshot_id = 3, rw_item_id = 4, rw_category_id = 6,
      rw_bbox = \<lparr>bb_X = 0, bb_Y = 0, bb_W = 1, bb_H = 1\<rparr>, rw_polygon_json = None, rw_confidence = None, rw_model_name = model,
      rw_is_pseudo = True, rw_review_status = rev_legacyStatusPending, rw_reviewer_id = None, rw_reviewed_at = None, rw_created_at = 0\<rparr>"

definition rv_demo :: "rv_Row list \<Rightarrow> rv_Tables" where
  "rv_demo rows =
     \<lparr>rv_datasets = [\<lparr>ds_ID = 5, ds_ProjectID = 1, ds_Name = ''cars''\<rparr>, \<lparr>ds_ID = 7, ds_ProjectID = 2, ds_Name = ''trees''\<rparr>],
      rv_snapshots = [\<lparr>sn_ID = 3, sn_DatasetID = 5, sn_Version = ''v1''\<rparr>], rv_items = [\<lparr>it_ID = 4, it_ObjectKey = ''a.jpg''\<rparr>],
      rv_categories = [\<lparr>cg_ID = 6, cg_ProjectID = 1, cg_Name = ''car''\<rparr>], rv_tasks = [], rv_candidates = rows,
      rv_annotations = [], rv_audits = [], rv_nextCandidate = 3\<rparr>"

lemmas rv_demo_defs = rv_demo_def rv_demo_row_def rv_ok_def rv_references_def rv_dataset_def rv_snapshot_def rv_item_def

lemma rv_demo_ok: "rv_ok (rv_demo [rv_demo_row 1 5 (Some ''m''), rv_demo_row 2 7 None])" "rv_ok (rv_demo [rv_demo_row 1 5 (Some ''m'')])"
  by (simp_all add: rv_demo_defs)

theorem rv_histories_witness:
  "rv_ok (foldl (rv_step to_lower) (rv_demo [rv_demo_row 1 5 (Some ''m''), rv_demo_row 2 7 None])
     [RvAccept 1 1 1 ''ann'', RvReject 2 2 2 ''bob'' ''blurred'', RvAccept 3 3 2 ''ann''])"
  using rv_histories [OF rv_demo_ok(1)] by blast

theorem rv_list_exact_witness:
  "map cd_ID (rv_ListCandidates (rv_demo [rv_demo_row 1 5 (Some ''m'')])) = [1] \<and>
   map cd_ID (rv_ListCandidates (rv_demo [rv_demo_row 1 5 (Some ''m''), rv_demo_row 2 7 None])) = []"
  unfolding rv_list_exact [OF rv_demo_ok(1)] rv_list_exact [OF rv_demo_ok(2)]
  by (simp add: rv_demo_def rv_demo_row_def rv_pending_def)

theorem rv_accept_guard_exact_witness:
  "fst (rv_HandleAccept 1 1 (Some \<lparr>id_Actor = ''eve'', id_ProjectIDs = [1]\<rparr>) ''2'' (Inr \<lparr>ar_ReviewerID = [], ar_ReasonCode = []\<rparr>)
     (rv_demo [rv_demo_row 1 5 (Some ''m''), rv_demo_row 2 7 None])) = Reply StatusOK ()"
proof -
  let ?db = "rv_demo [rv_demo_row 1 5 (Some ''m''), rv_demo_row 2 7 None]"
  have row: "rv_row 2 ?db = Some (rv_demo_row 2 7 None)" by (simp add: rv_row_def rv_demo_def rv_demo_row_def)
  have q: "rev_isQueued (rw_review_status (rv_demo_row 2 7 None))" by (simp add: rev_isQueued_def rev_normalizeCandidateStatus_def rv_demo_row_def)
  have raw: "path_int64 ''2'' = (Inr 2 :: rv_error http_error + int)" by code_simp
  have m: "rw_model_name (rv_demo_row 2 7 None) = None" by (simp add: rv_demo_row_def)
  from rv_accept_guard_exact [OF rv_demo_ok(1) row q raw, of 1 1 "Some \<lparr>id_Actor = ''eve'', id_ProjectIDs = [1]\<rparr>" "\<lparr>ar_ReviewerID = [], ar_ReasonCode = []\<rparr>"]
  show ?thesis by (auto simp: m)
qed

end
