(* ===== verification/Spec2Isabelle.thy ===== *)
theory Spec2Isabelle
  imports Job_Sweeper_Facts Workspace_Handlers Publish_Claims Auth_Facts Review_Claims Versioning_Claims
    Datahub_Handler_Claims Server_Claims Artifact_Demo Job_Handler_Claims Publish_Handler_Claims
    Job_Postgres_Claims Overview Publish_Postgres_Claims
    Workspace_Postgres_Claims Review_Postgres_Claims
begin

text \<open>
  Verification of the control plane of YOLO-Ave-Mujica, the Go server under \<open>cmd/\<close> and \<open>internal/\<close> that manages data sets,
  annotation tasks, review, publishing, jobs for the Python workers and packaged artifacts, and of the client that pulls them.

  \<^bold>\<open>The program.\<close> The server keeps jobs, tasks, annotations, candidates under review, publish batches, data sets with
  snapshots, and artifacts. A handler decodes a request, checks the project of the caller where it does, calls its
  service, records an audit event and encodes the answer. A service validates, calls its repository and, for some calls, another
  service: the submission of an annotation moves its task; the approval of a batch by the owner creates an evaluation
  task; a packaging request creates a job; a worker's event hands candidates to the review service. Jobs go through a
  queue of Redis lists to the workers, which report back on internal routes; a sweeper recovers jobs whose lease ran out.

  \<^bold>\<open>From source to theory.\<close>
  \<^item> Go itself: \<open>Go_Prelude\<close> (64-bit integers, instants, byte strings, dynamic JSON values, outcomes, the contracts of
    machines), \<open>Go_Text\<close> (strings, floats in text), \<open>Go_Print\<close> (\<open>fmt.Sprint\<close>, runes), \<open>Json_Clone\<close> (JSON round trip with float64
    rounding), \<open>Go_Path\<close>, \<open>Go_Fs\<close> (paths and files), \<open>Http\<close> (statuses, replies, decoded bodies, the trace of a request).
  \<^item> \<open>internal/jobs\<close>: \<open>Job_Model\<close> (model.go, errors.go, state_machine.go), \<open>Job_Repo\<close> (repository.go), \<open>Job_Service\<close> (service.go,
    dispatcher.go), \<open>Job_Sweeper\<close> (sweeper.go), \<open>Job_Handler\<close> (handler.go), \<open>Job_Postgres\<close> (postgres_repository.go). Facts:
    \<open>Job_Lifecycle\<close>, \<open>Job_Service_Facts\<close>, \<open>Job_Service_Props\<close>, \<open>Job_Results\<close>, \<open>Job_Sweeper_Facts\<close>, \<open>Job_Handler_Claims\<close>,
    \<open>Job_Postgres_Facts\<close>, \<open>Job_Postgres_Claims\<close>; concrete runs in \<open>Job_Witnesses\<close>. \<open>Metrics\<close> holds the counters of
    \<open>internal/observability/metrics.go\<close> that the service and the sweeper drive.
  \<^item> \<open>internal/tasks\<close>: \<open>Tasks\<close>, \<open>Task_Facts\<close>. \<open>internal/annotations\<close>: \<open>Annotations\<close>, \<open>Annotation_Facts\<close>. Both together, as the
    workspace: \<open>Workspace_Props\<close>; their handlers: \<open>Workspace_Handlers\<close>; their Postgres repositories, one database: \<open>Workspace_Postgres\<close>, \<open>Workspace_Postgres_Claims\<close>. \<open>internal/overview\<close>: \<open>Overview\<close>.
  \<^item> \<open>internal/publish\<close>: \<open>Publish\<close> (model, in-memory repository, service, workspace), \<open>Publish_Handler\<close>, \<open>Publish_Postgres\<close> (postgres_repository.go); facts in
    \<open>Publish_Facts\<close>, \<open>Publish_Props\<close>, \<open>Publish_Claims\<close>, \<open>Publish_Handler_Claims\<close>, \<open>Publish_Postgres_Facts\<close>, \<open>Publish_Postgres_Claims\<close>.
  \<^item> \<open>internal/review\<close>: \<open>Review\<close>, \<open>Review_Facts\<close>, \<open>Review_Props\<close>, \<open>Review_Claims\<close>; \<open>Review_Postgres\<close> (postgres_repository.go, with the service and handlers over it), \<open>Review_Postgres_Claims\<close>; \<open>Review_Sink\<close> is the adapter of
    \<open>cmd/api-server\<close> between the job service and the review service.
  \<^item> \<open>internal/auth\<close>: \<open>Auth\<close>, \<open>Auth_Facts\<close>. \<open>internal/audit\<close>: \<open>Audit_Log\<close>. \<open>internal/server\<close>: \<open>Server\<close>, \<open>Server_Claims\<close> (the route table
    and its guards). \<open>internal/versioning\<close>: \<open>Versioning\<close>, \<open>Versioning_Facts\<close>, \<open>Versioning_Claims\<close>.
  \<^item> \<open>internal/datahub\<close>: \<open>Datahub\<close>, \<open>Datahub_Service\<close>, \<open>Datahub_Handler\<close>; \<open>Datahub_Facts\<close>, \<open>Datahub_Claims\<close>, \<open>Datahub_Handler_Claims\<close>.
  \<^item> \<open>internal/artifacts\<close>: \<open>Artifacts\<close> (model, packager, repository), \<open>Artifact_Export\<close> (export_query.go, builder.go), \<open>Artifact_Storage\<close>
    (filesystem_storage.go), \<open>Artifact_Service\<close> (service.go, build_runner.go), \<open>Artifact_Handler\<close>; facts in the other \<open>Artifact_\<close>
    theories (\<open>Artifact_Records\<close>: the records for any configuration; \<open>Artifact_Service_Facts\<close>: records and files under the conditions on versions), with \<open>Artifact_Demo\<close> as the concrete run. \<open>internal/cli\<close>: \<open>Cli_Pull\<close> (archive.go, verify.go, pull.go), \<open>Cli_Facts\<close>.

  \<^bold>\<open>How state and operations correspond.\<close> A Go struct is a record with the same fields, under a prefix of its package; a pointer or nullable
  field is an option; a map is a partial function, or an association list where it is a JSON object. A method that changes
  its receiver takes the state last and gives an \<open>outcome\<close>: an error or a result, and the new state, on error paths too. Every error text
  of a package is a constructor of its error type, and the function \<open>..._error_kind\<close> gives the sentinel it wraps. A mutex held over a method makes the method one
  step; where a service calls two such methods, or a repository several SQL statements, the parts are definitions of their own
  and the properties about races interleave them. The order in which Go visits a map is an argument (\<open>ks\<close>). \<open>time.Now\<close> reads an
  argument: one instant, or a \<open>clock\<close> that gives the reading of each call in turn. A dependency given to a constructor (publisher, audit
  logger, object store, job creator, scanner, presigner, hash, encoder) is an argument, a function over a state of its own that may fail.

  \<^bold>\<open>What the lemmas show.\<close> Each component has an invariant of its state and an order of evolution that every operation keeps
  (\<open>jobs_inv\<close>/\<open>jobs_le\<close>, \<open>tasks_inv\<close>/\<open>tasks_le\<close>, \<open>ann_inv\<close>/\<open>ann_le\<close>, \<open>pub_inv\<close>/\<open>pub_le\<close>, \<open>rev_inv\<close>/\<open>rev_le\<close>, \<open>dh_inv\<close>/\<open>dh_le\<close>, \<open>art_inv\<close>,
  \<open>pg_ok\<close>/\<open>pg_le\<close>, \<open>pt_ok\<close>/\<open>pt_le\<close>, \<open>tp_ok\<close>/\<open>tp_le\<close>, \<open>rv_ok\<close>/\<open>rv_le\<close>); \<open>progress_machine\<close> carries them to histories of any length. The locales state what one part relies on in another: \<open>invariant_machine\<close> and
  \<open>progress_machine\<close> of the prelude, \<open>task_provider\<close> and \<open>task_creator\<close> for the task service as annotations and publishing see it, \<open>jobs_publisher\<close> and \<open>review_sink\<close> for
  what the job service calls, \<open>claim_pool\<close> for the matching of versions, and \<open>jobs_store\<close>, the contract of the job repositories, interpreted on the in-memory one and on the Postgres one.
  On top of these the properties give the exact effect of the important operations on every branch; idempotence of job creation, imports and
  completions; that a job, a task, an annotation or a batch moves only along its lifecycle; that a pull recovers and
  verifies what a build packed (distinct label files, readable objects) and writes only below its output directory (a version without a slash); that versions are compared without losing or
  inventing an annotation; isolation of projects in every data hub handler that looks at the caller; the bound of the rate limiter, which grows with the time
  a call may wait between its reading of the clock and the mutex; and
  the exact audit trail of publishing. The statements that describe a defect of the code are theorems too.

  \<^bold>\<open>Bounds and fuel.\<close> Integers are unbounded except where the code can leave the range: durations of leases and backoffs wrap at 64 bits, a
  float converted to an integer saturates as on amd64, counters of Postgres columns are checked at 32 bits. No definition takes fuel. The search for a free
  file name has no bound in the code: it is a \<open>partial_function\<close>, and that it ends is proved from the finiteness of the used names. The polling of the client ends
  at its deadline: a \<open>function\<close> whose measure is the time left. All other loops are recursions over their data.

  \<^bold>\<open>Conventions and limits.\<close> Floating-point numbers are reals, except where JSON rounds integers; texts are byte strings.
  Contexts are never cancelled, memory does not run out, and permissions or a full disk do not occur in the file system model. Stamps in
  Postgres are cut to microseconds; a statement is atomic; the database can be reached. The completed import of a snapshot, which takes the lock
  of the in-memory repository once per entry, is one step, so that two concurrent imports are not interleaved. The gzip and tar form of an
  archive the builder made is modelled by its list of files: that unpacking gives back what was packed is built in, not proved. The query for suggested candidates is an argument: its rows, in its order.

  \<^bold>\<open>Not modelled.\<close> The Postgres repositories of the data hub, versioning and artifacts, which are SQL
  over several joined tables; the in-memory repositories, which the services and handlers run on in tests and in memory mode, stand for them. Also
  pure input and output: configuration from the environment, the S3 client, migrations, the Redis client, the logging middleware and the text
  format of the metrics, the flags and the HTTP client of the command line, the resumable download, the seeding commands and \<open>main\<close>. The Python workers, the web
  application and the scripts are other programs. JSON, gzip and tar encodings and SHA-256 are arguments with the laws their proofs name.
\<close>

end
